(* ===== verification/Go_Prelude.thy ===== *)
theory Go_Prelude
  imports Main "HOL-Library.Sublist"
begin

text \<open>
  Shared ground of the development: the collections of lemmas the component theories
  declare into, the Go standard-library string functions the gateway calls, and generic
  facts on lists and association lists.

  A Go string is a sequence of bytes, modelled as \<^typ>\<open>string\<close> (a list of 8-bit
  characters). White space and letter case follow Go on ASCII; bytes from 128 on are left
  as they are, so a statement that mentions \<open>TrimSpace\<close>, \<open>ToLower\<close> or
  \<open>ToUpper\<close> describes the code on strings whose non-ASCII characters have no case and
  are no white space. A point in time is an \<^typ>\<open>int\<close>, the nanoseconds since the Unix
  epoch in UTC.
\<close>

named_theorems gostr \<open>unfolding rules of the Go string functions\<close>
named_theorems frame \<open>what an operation leaves unchanged\<close>
named_theorems inv_keep \<open>preservation of component invariants\<close>

type_synonym time = int

subsection \<open>Characters\<close>

definition is_space :: "char \<Rightarrow> bool" where
  "is_space c = (c \<in> {CHR '' '', CHR 0x09, CHR 0x0A, CHR 0x0B, CHR 0x0C, CHR 0x0D})"

definition lower_char :: "char \<Rightarrow> char" where
  "lower_char c = (let n = (of_char c :: nat) in if 65 \<le> n \<and> n \<le> 90 then char_of (n + 32) else c)"

definition upper_char :: "char \<Rightarrow> char" where
  "upper_char c = (let n = (of_char c :: nat) in if 97 \<le> n \<and> n \<le> 122 then char_of (n - 32) else c)"

subsection \<open>Package strings\<close>

definition trim_left :: "(char \<Rightarrow> bool) \<Rightarrow> string \<Rightarrow> string" where
  "trim_left p s = dropWhile p s"

definition trim_right :: "(char \<Rightarrow> bool) \<Rightarrow> string \<Rightarrow> string" where
  "trim_right p s = rev (dropWhile p (rev s))"

definition TrimSpace :: "string \<Rightarrow> string" where
  "TrimSpace s = trim_right is_space (trim_left is_space s)"

definition Trim :: "string \<Rightarrow> char \<Rightarrow> string" where
  "Trim s c = trim_right (\<lambda>x. x = c) (trim_left (\<lambda>x. x = c) s)"

definition TrimRight :: "string \<Rightarrow> char \<Rightarrow> string" where
  "TrimRight s c = trim_right (\<lambda>x. x = c) s"

definition ToLower :: "string \<Rightarrow> string" where
  "ToLower s = map lower_char s"

definition ToUpper :: "string \<Rightarrow> string" where
  "ToUpper s = map upper_char s"

definition HasPrefix :: "string \<Rightarrow> string \<Rightarrow> bool" where
  "HasPrefix s p = (take (length p) s = p)"

definition HasSuffix :: "string \<Rightarrow> string \<Rightarrow> bool" where
  "HasSuffix s p = (length p \<le> length s \<and> drop (length s - length p) s = p)"

definition TrimPrefix :: "string \<Rightarrow> string \<Rightarrow> string" where
  "TrimPrefix s p = (if HasPrefix s p then drop (length p) s else s)"

definition TrimSuffix :: "string \<Rightarrow> string \<Rightarrow> string" where
  "TrimSuffix s p = (if HasSuffix s p then take (length s - length p) s else s)"

fun Contains :: "string \<Rightarrow> string \<Rightarrow> bool" where
  "Contains [] p = (p = [])"
| "Contains (c # s) p = (HasPrefix (c # s) p \<or> Contains s p)"

definition EqualFold :: "string \<Rightarrow> string \<Rightarrow> bool" where
  "EqualFold a b = (ToLower a = ToLower b)"

text \<open>\<open>strings.Split\<close> with a one-character separator: never empty.\<close>

fun Split :: "char \<Rightarrow> string \<Rightarrow> string list" where
  "Split c [] = [[]]"
| "Split c (x # s) = (if x = c then [] # Split c s
     else (case Split c s of [] \<Rightarrow> [[x]] | p # ps \<Rightarrow> (x # p) # ps))"

fun Join :: "string \<Rightarrow> string list \<Rightarrow> string" where
  "Join sep [] = []"
| "Join sep [x] = x"
| "Join sep (x # y # xs) = x @ sep @ Join sep (y # xs)"

text \<open>\<open>strings.Cut\<close> and \<open>strings.SplitN(s, c, 2)\<close> on a one-character separator.\<close>

fun Cut :: "string \<Rightarrow> char \<Rightarrow> (string \<times> string) option" where
  "Cut [] c = None"
| "Cut (x # s) c = (if x = c then Some ([], s)
     else (case Cut s c of None \<Rightarrow> None | Some (a, b) \<Rightarrow> Some (x # a, b)))"

definition ReplaceChar :: "char \<Rightarrow> char \<Rightarrow> string \<Rightarrow> string" where
  "ReplaceChar a b s = map (\<lambda>c. if c = a then b else c) s"

text \<open>\<open>strings.ReplaceAll\<close> with a two-character pattern.\<close>

fun ReplaceAll2 :: "char \<Rightarrow> char \<Rightarrow> string \<Rightarrow> string \<Rightarrow> string" where
  "ReplaceAll2 a b r (x # y # s) =
     (if x = a \<and> y = b then r @ ReplaceAll2 a b r s else x # ReplaceAll2 a b r (y # s))"
| "ReplaceAll2 a b r s = s"

text \<open>\<open>strings.Fields\<close>: the maximal runs of non-space characters.\<close>

fun Fields_from :: "string \<Rightarrow> string \<Rightarrow> string list" where
  "Fields_from acc [] = (if acc = [] then [] else [rev acc])"
| "Fields_from acc (c # s) =
     (if is_space c then (if acc = [] then Fields_from [] s else rev acc # Fields_from [] s)
      else Fields_from (c # acc) s)"

definition Fields :: "string \<Rightarrow> string list" where
  "Fields s = Fields_from [] s"

text \<open>Byte-wise order of Go strings, and \<open>sort.Strings\<close>.\<close>

fun str_less :: "string \<Rightarrow> string \<Rightarrow> bool" where
  "str_less [] [] = False"
| "str_less [] (y # ys) = True"
| "str_less (x # xs) [] = False"
| "str_less (x # xs) (y # ys) =
     ((of_char x :: nat) < of_char y \<or> (x = y \<and> str_less xs ys))"

text \<open>\<open>sort.SliceStable\<close> as insertion sort from the right: an element is placed before
  the first element that is not strictly less than it, so equal elements keep their order.\<close>

fun stable_insert :: "('a \<Rightarrow> 'a \<Rightarrow> bool) \<Rightarrow> 'a \<Rightarrow> 'a list \<Rightarrow> 'a list" where
  "stable_insert lt x [] = [x]"
| "stable_insert lt x (y # ys) = (if lt y x then y # stable_insert lt x ys else x # y # ys)"

fun SliceStable :: "('a \<Rightarrow> 'a \<Rightarrow> bool) \<Rightarrow> 'a list \<Rightarrow> 'a list" where
  "SliceStable lt [] = []"
| "SliceStable lt (x # xs) = stable_insert lt x (SliceStable lt xs)"

definition sort_Strings :: "string list \<Rightarrow> string list" where
  "sort_Strings xs = SliceStable str_less xs"

subsection \<open>Errors as values\<close>

text \<open>\<open>if err != nil { return err }\<close>.\<close>

definition bind_r :: "'e + 'a \<Rightarrow> ('a \<Rightarrow> 'e + 'b) \<Rightarrow> 'e + 'b" where
  "bind_r x f = (case x of Inl e \<Rightarrow> Inl e | Inr y \<Rightarrow> f y)"

lemma bind_r_simps [simp]: "bind_r (Inl e) f = Inl e" "bind_r (Inr y) f = f y"
  by (simp_all add: bind_r_def)

lemma bind_r_Inr [simp]: "bind_r x f = Inr z \<longleftrightarrow> (\<exists>y. x = Inr y \<and> f y = Inr z)"
  by (cases x) auto

lemma bind_r_Inl: "bind_r x f = Inl e \<longleftrightarrow> x = Inl e \<or> (\<exists>y. x = Inr y \<and> f y = Inl e)"
  by (cases x) auto

subsection \<open>Stable sorting by a strict weak order\<close>

lemma set_stable_insert [simp]: "set (stable_insert lt x xs) = insert x (set xs)"
  by (induction xs) auto

lemma set_SliceStable [simp]: "set (SliceStable lt xs) = set xs"
  by (induction xs) auto

lemma length_stable_insert [simp]: "length (stable_insert lt x xs) = Suc (length xs)"
  by (induction xs) auto

lemma length_SliceStable [simp]: "length (SliceStable lt xs) = length xs"
  by (induction xs) auto

lemma SliceStable_Nil [simp]: "SliceStable lt xs = [] \<longleftrightarrow> xs = []"
  by (metis length_0_conv length_SliceStable)

text \<open>The contract of a comparison function handed to \<open>sort.SliceStable\<close>.\<close>

locale strict_weak =
  fixes lt :: "'a \<Rightarrow> 'a \<Rightarrow> bool"
  assumes asym: "lt x y \<Longrightarrow> \<not> lt y x"
    and neg_trans: "\<not> lt x y \<Longrightarrow> \<not> lt y z \<Longrightarrow> \<not> lt x z"
begin

lemma insert_sorted:
  "sorted_wrt (\<lambda>a b. \<not> lt b a) xs \<Longrightarrow> sorted_wrt (\<lambda>a b. \<not> lt b a) (stable_insert lt x xs)"
  by (induction xs) (auto dest: asym, metis neg_trans)

lemma sort_sorted: "sorted_wrt (\<lambda>a b. \<not> lt b a) (SliceStable lt xs)"
  by (induction xs) (auto simp: insert_sorted)

lemma sort_head_least: "SliceStable lt xs = h # ys \<Longrightarrow> x \<in> set xs \<Longrightarrow> \<not> lt x h"
  using sort_sorted [of xs] asym [of x] set_SliceStable [of lt xs] by (metis set_ConsD sorted_wrt.simps(2))

lemma find_insert:
  "sorted_wrt (\<lambda>a b. \<not> lt b a) ys \<Longrightarrow>
   find P (stable_insert lt x ys) =
     (if P x then (case find P ys of None \<Rightarrow> Some x | Some y \<Rightarrow> if lt y x then Some y else Some x) else find P ys)"
proof (induction ys)
  case (Cons y ys)
  show ?case
  proof (cases "P y \<or> lt y x")
    case False
    then have "\<not> lt z x" if "find P ys = Some z" for z
      using that Cons.prems neg_trans by (metis find_Some_iff nth_mem sorted_wrt.simps(2))
    with False show ?thesis by (auto split: option.splits)
  qed (use Cons in auto)
qed simp

lemma sort_heads_equal:
  "set xs = set ys \<Longrightarrow> SliceStable lt xs = h # t \<Longrightarrow> SliceStable lt ys = h' # t' \<Longrightarrow> \<not> lt h h' \<and> \<not> lt h' h"
  by (metis list.set_intros(1) set_SliceStable sort_head_least)

end

lemma str_less_irrefl [simp]: "\<not> str_less s s"
  by (induction s) auto

lemma str_less_asym: "str_less s t \<Longrightarrow> \<not> str_less t s"
  by (induction s t rule: str_less.induct) auto

lemma str_less_neg_trans: "\<not> str_less s t \<Longrightarrow> \<not> str_less t u \<Longrightarrow> \<not> str_less s u"
proof (induction s t arbitrary: u rule: str_less.induct)
  case (4 x xs y ys)
  then show ?case by (cases u) (auto dest: less_trans)
next
  case (2 y ys)
  then show ?case by simp
next
  case (3 x xs)
  then show ?case by (cases u) auto
qed (use str_less.elims in auto)

lemma str_less_total: "\<not> str_less s t \<Longrightarrow> \<not> str_less t s \<Longrightarrow> s = t"
proof (induction s t rule: str_less.induct)
  case (4 x xs y ys)
  then have "(of_char x :: nat) = of_char y" by auto
  then have "x = y" by simp
  with 4 show ?case by auto
qed auto

interpretation str_order: strict_weak str_less
  by unfold_locales (fact str_less_asym, fact str_less_neg_trans)

lemma find_append: "find p (xs @ ys) = (case find p xs of None \<Rightarrow> find p ys | Some x \<Rightarrow> Some x)"
  by (induction xs) auto

end
