(* ===== verification/Go_Value.thy ===== *)
theory Go_Value
  imports Complex_Main Go_Prelude
begin

text \<open>
  Go's \<open>any\<close> as the gateway meets it: decoded JSON bodies (\<open>encoding/json\<close> decodes
  numbers to \<open>float64\<close>), OPA results (numbers are \<open>json.Number\<close> literals) and the
  values the gateway itself puts into a \<open>map[string]any\<close>. A \<open>float64\<close> is its exact
  rational value. A map is an association list; its order stands for one of Go's iteration
  orders, and \<open>wf_any\<close> says that keys are distinct at every level.
\<close>

datatype any =
    Nil_v
  | Bool_v bool
  | Float_v rat
  | Int_v int
  | Number_v string
  | Str_v string
  | List_v "any list"
  | Map_v "(string \<times> any) list"

type_synonym gomap = "(string \<times> any) list"

subsection \<open>Type assertions and map access\<close>

fun as_string :: "any \<Rightarrow> string option" where
  "as_string (Str_v s) = Some s"
| "as_string _ = None"

fun as_map :: "any \<Rightarrow> gomap option" where
  "as_map (Map_v m) = Some m"
| "as_map _ = None"

fun as_list :: "any \<Rightarrow> any list option" where
  "as_list (List_v xs) = Some xs"
| "as_list _ = None"

text \<open>Reading a missing key of a Go map gives the zero value, \<open>nil\<close> for \<open>any\<close>.\<close>

definition index_map :: "gomap \<Rightarrow> string \<Rightarrow> any" where
  "index_map m k = (case map_of m k of None \<Rightarrow> Nil_v | Some v \<Rightarrow> v)"

definition set_key :: "string \<Rightarrow> 'v \<Rightarrow> (string \<times> 'v) list \<Rightarrow> (string \<times> 'v) list" where
  "set_key k v m = (k, v) # filter (\<lambda>(k', _). k' \<noteq> k) m"

lemma map_of_filter_neq: "k' \<noteq> k \<Longrightarrow> map_of (filter (\<lambda>(x, _). x \<noteq> k) m) k' = map_of m k'"
  by (induction m) auto

lemma map_of_set_key [simp]: "map_of (set_key k v m) = (map_of m)(k \<mapsto> v)"
  by (rule ext) (simp add: set_key_def map_of_filter_neq)

lemma index_map_set_key [simp]:
  "index_map (set_key k v m) k' = (if k' = k then v else index_map m k')"
  by (simp add: index_map_def)

lemma distinct_filter_keys: "distinct (map fst m) \<Longrightarrow> distinct (map fst (filter P m))"
  by (induction m) (auto simp: image_iff)

lemma distinct_set_key [simp]: "distinct (map fst m) \<Longrightarrow> distinct (map fst (set_key k v m))"
  by (auto simp: set_key_def distinct_filter_keys)

subsection \<open>Well-formed values and \<open>reflect.DeepEqual\<close>\<close>

fun wf_any :: "any \<Rightarrow> bool" where
  "wf_any (List_v xs) = list_all wf_any xs"
| "wf_any (Map_v m) = (distinct (map fst m) \<and> list_all wf_any (map snd m))"
| "wf_any _ = True"

text \<open>Two maps are deeply equal when they have the same number of keys and every key of
  the first leads to deeply equal values in both.\<close>

function deep_equal :: "any \<Rightarrow> any \<Rightarrow> bool" where
  "deep_equal Nil_v b = (b = Nil_v)"
| "deep_equal (Bool_v x) b = (b = Bool_v x)"
| "deep_equal (Float_v x) b = (b = Float_v x)"
| "deep_equal (Int_v x) b = (b = Int_v x)"
| "deep_equal (Number_v x) b = (b = Number_v x)"
| "deep_equal (Str_v x) b = (b = Str_v x)"
| "deep_equal (List_v xs) b =
     (case b of List_v ys \<Rightarrow> list_all2 deep_equal xs ys | _ \<Rightarrow> False)"
| "deep_equal (Map_v m) b =
     (case b of Map_v n \<Rightarrow> length m = length n \<and>
        list_all (\<lambda>(k, v). case map_of n k of None \<Rightarrow> False | Some w \<Rightarrow> deep_equal v w) m
      | _ \<Rightarrow> False)"
  by pat_completeness auto

lemma size_in_list: "x \<in> set xs \<Longrightarrow> size x < Suc (size_list size xs)"
  by (induction xs) auto

lemma size_in_map: "(k, v) \<in> set m \<Longrightarrow> size v < Suc (size_list (size_prod (\<lambda>_. 0) size) m)"
  by (induction m) auto

termination deep_equal
proof (relation "measure (\<lambda>(a, _). size a)", goal_cases)
  case (2 xs b ys z za)
  then show ?case by (auto dest: size_in_list)
next
  case (3 m b n z x y w)
  then show ?case
    by (auto dest!: size_in_map)
qed simp

lemma list_all2_refl_on: "(\<And>x. x \<in> set xs \<Longrightarrow> R x x) \<Longrightarrow> list_all2 R xs xs"
  by (induction xs) auto

lemma wf_any_list: "wf_any (List_v xs) \<Longrightarrow> x \<in> set xs \<Longrightarrow> wf_any x"
  by (auto simp: list_all_iff)

lemma wf_any_map: "wf_any (Map_v m) \<Longrightarrow> (k, v) \<in> set m \<Longrightarrow> wf_any v \<and> map_of m k = Some v"
  by (force simp: list_all_iff)

lemma deep_equal_refl [simp]: "wf_any a \<Longrightarrow> deep_equal a a"
proof (induction a)
  case (List_v xs)
  then show ?case by (auto intro!: list_all2_refl_on simp: list_all_iff)
next
  case (Map_v m)
  have "case map_of m k of None \<Rightarrow> False | Some w \<Rightarrow> deep_equal v w" if "(k, v) \<in> set m" for k v
    using wf_any_map [OF Map_v.prems that] Map_v.IH that by (auto simp: snds.simps)
  then show ?case by (auto simp: list_all_iff)
qed auto

end
