(* ===== verification/Models.thy ===== *)
theory Models
  imports Go_Value
begin

text \<open>
  The records of \<open>src/internal/models/models.go\<close> the components share: decision
  reasons and rules, the action decision record (ADR), the approval request, tools and the
  tenant's configuration. A nullable column or pointer field is an option; the empty string
  is Go's zero value. The TEXT column \<open>status\<close> of \<open>approval_requests\<close> is the
  datatype of the literals the store writes into it.
\<close>

record decision_rule =
  dr_ID :: string
  dr_Priority :: int

record decision_reason =
  rs_Code :: string
  rs_Message :: string

record matched_rule =
  mr_RuleID :: string
  mr_Priority :: int
  mr_Effect :: string
  mr_Reasons :: "decision_reason list"
  mr_ConstraintsSummary :: gomap

datatype approval_status =
  PENDING | APPROVED | DENIED | REVOKED | EXECUTING | EXECUTED | FAILED | EXPIRED

fun status_text :: "approval_status \<Rightarrow> string" where
  "status_text PENDING = ''PENDING''" | "status_text APPROVED = ''APPROVED''" | "status_text DENIED = ''DENIED''"
| "status_text REVOKED = ''REVOKED''" | "status_text EXECUTING = ''EXECUTING''" | "status_text EXECUTED = ''EXECUTED''"
| "status_text FAILED = ''FAILED''" | "status_text EXPIRED = ''EXPIRED''"

record approval_request =
  ap_ApprovalRequestID :: string
  ap_TenantID :: string
  ap_AgentID :: string
  ap_ToolID :: string
  ap_ActionType :: string
  ap_RequestHash :: string
  ap_RequestContext :: gomap
  ap_Status :: approval_status
  ap_ApprovalTokenHash :: string
  ap_ExpiresAt :: time
  ap_CreatedAt :: time
  ap_PolicyVersion :: string
  ap_DecidedAt :: "time option"
  ap_DecidedBy :: string
  ap_DecisionComment :: string
  ap_ExecutingAt :: "time option"
  ap_ExecutionID :: string
  ap_ExecutedAt :: "time option"
  ap_ExecutedRequestID :: string
  ap_ExecutedDecisionID :: string
  ap_FailedAt :: "time option"
  ap_LastErrorCode :: string
  ap_RequestDecisionID :: string
  ap_ActionSummary :: string
  ap_Risk :: string
  ap_RuleID :: string
  ap_Reasons :: "decision_reason list"

record action_decision_record =
  adr_DecisionID :: string
  adr_RequestID :: string
  adr_TenantID :: string
  adr_AgentID :: string
  adr_ToolID :: string
  adr_ActionType :: string
  adr_ActionRisk :: string
  adr_ActionSummary :: string
  adr_Decision :: string
  adr_DecisionVersion :: string
  adr_DecisionRisk :: string
  adr_RuleID :: string
  adr_RulePriority :: int
  adr_Reasons :: "decision_reason list"
  adr_Constraints :: gomap
  adr_Tags :: "string list"
  adr_PolicyVersion :: string
  adr_Reason :: string
  adr_RequestHash :: string
  adr_ResponseHash :: string
  adr_ApprovalRequestID :: string
  adr_SourceDecisionID :: string
  adr_CreatedAt :: time

record rate_limit_config =
  rl_PerMinute :: int
  rl_PerDay :: int
  rl_Scope :: string

text \<open>The store's error values (\<open>store.go\<close>): the sentinels the handlers test
  for, a driver error that is a context deadline, and every other driver error.\<close>

datatype store_error =
  ErrNotFound | ErrBootstrapComplete | ErrAdminWriteLocked | ErrInvalidState | ErrDuplicate | ErrTimeout | ErrDB

end
