(* ===== verification/Go_Number.thy ===== *)
theory Go_Number
  imports Go_Value
begin

text \<open>
  The number conversions of the Go standard library the gateway uses on policy output and
  request bodies: \<open>strconv.ParseInt(s, 10, 64)\<close>, \<open>strconv.ParseFloat(s, 64)\<close> on
  JSON number literals, and the conversion \<open>int(f)\<close> of a \<open>float64\<close>. A finite
  \<open>float64\<close> is its exact rational value; \<open>round64\<close> rounds to the nearest one, ties
  to even. Go leaves \<open>int(f)\<close> open for values outside of 64 bits; the model gives the
  value of the amd64 instruction.
\<close>

subsection \<open>Digits\<close>

definition is_digit :: "char \<Rightarrow> bool" where
  "is_digit c = (48 \<le> (of_char c :: nat) \<and> (of_char c :: nat) \<le> 57)"

definition digits_value :: "string \<Rightarrow> int" where
  "digits_value s = foldl (\<lambda>acc c. 10 * acc + (of_char c - 48)) 0 s"

definition all_digits :: "string \<Rightarrow> bool" where
  "all_digits s = (s \<noteq> [] \<and> list_all is_digit s)"

subsection \<open>Integers\<close>

definition min_int64 :: int where "min_int64 = - (2 ^ 63)"
definition max_int64 :: int where "max_int64 = 2 ^ 63 - 1"

definition in_int64 :: "int \<Rightarrow> bool" where
  "in_int64 i = (min_int64 \<le> i \<and> i \<le> max_int64)"

text \<open>Go's 64-bit integers wrap around.\<close>

definition wrap64 :: "int \<Rightarrow> int" where
  "wrap64 i = (i - min_int64) mod 2 ^ 64 + min_int64"

lemma wrap64_id [simp]: "in_int64 i \<Longrightarrow> wrap64 i = i"
  by (simp add: wrap64_def in_int64_def min_int64_def max_int64_def)

lemma wrap64_range: "in_int64 (wrap64 i)"
  using pos_mod_sign [of "2 ^ 64" "i - min_int64"] pos_mod_bound [of "2 ^ 64" "i - min_int64"]
  by (simp add: wrap64_def in_int64_def min_int64_def max_int64_def)

definition ParseInt :: "string \<Rightarrow> int option" where
  "ParseInt s =
     (let (neg, ds) = (case s of c # r \<Rightarrow> if c = CHR ''-'' then (True, r)
                                   else if c = CHR ''+'' then (False, r) else (False, s)
                       | [] \<Rightarrow> (False, s));
          n = digits_value ds; i = (if neg then - n else n)
      in if all_digits ds \<and> in_int64 i then Some i else None)"

lemma ParseInt_range: "ParseInt s = Some i \<Longrightarrow> in_int64 i"
  by (auto simp: ParseInt_def Let_def split: prod.splits if_splits)

subsection \<open>Floating point\<close>

definition round_half_even :: "rat \<Rightarrow> int" where
  "round_half_even r =
     (let f = \<lfloor>r\<rfloor>; d = r - of_int f
      in if d < 1 / 2 then f else if d > 1 / 2 then f + 1 else if even f then f else f + 1)"

function bit_length :: "int \<Rightarrow> int" where
  "bit_length n = (if n \<le> 0 then 0 else 1 + bit_length (n div 2))"
  by auto
termination by (relation "measure nat") auto

declare bit_length.simps [simp del]

definition floor_log2 :: "rat \<Rightarrow> int" where
  "floor_log2 r =
     (let (n, d) = quotient_of r; k = bit_length n - bit_length d
      in if r \<ge> (if 0 \<le> k then 2 ^ nat k else 1 / 2 ^ nat (- k)) then k else k - 1)"

definition scale2 :: "rat \<Rightarrow> int \<Rightarrow> rat" where
  "scale2 r k = (if 0 \<le> k then r * 2 ^ nat k else r / 2 ^ nat (- k))"

definition round64 :: "rat \<Rightarrow> rat option" where
  "round64 r =
     (if r = 0 then Some 0
      else let a = \<bar>r\<bar>; q = max (floor_log2 a - 52) (- 1074);
               v = scale2 (of_int (round_half_even (scale2 a (- q)))) q
           in if v \<ge> 2 ^ 1024 then None else Some (if r < 0 then - v else v))"

definition decimal_value :: "bool \<Rightarrow> string \<Rightarrow> string \<Rightarrow> int \<Rightarrow> rat" where
  "decimal_value neg whole decimals e =
     (let m = of_int (digits_value (whole @ decimals)); k = e - int (length decimals);
          v = (if 0 \<le> k then m * 10 ^ nat k else m / 10 ^ nat (- k))
      in if neg then - v else v)"

definition parse_exponent :: "string \<Rightarrow> int option" where
  "parse_exponent s =
     (let (neg, ds) = (case s of c # r \<Rightarrow> if c = CHR ''-'' then (True, r)
                                   else if c = CHR ''+'' then (False, r) else (False, s)
                       | [] \<Rightarrow> (False, s))
      in if all_digits ds then Some (if neg then - digits_value ds else digits_value ds) else None)"

definition ParseFloat :: "string \<Rightarrow> rat option" where
  "ParseFloat s =
     (let (neg, u) = (case s of c # r \<Rightarrow> if c = CHR ''-'' then (True, r)
                                   else if c = CHR ''+'' then (False, r) else (False, s)
                       | [] \<Rightarrow> (False, s));
          (mant, e) = (case Cut (map lower_char u) (CHR ''e'') of
                         None \<Rightarrow> (u, Some 0) | Some (a, b) \<Rightarrow> (a, parse_exponent b));
          (whole, decimals) = (case Cut mant (CHR ''.'') of None \<Rightarrow> (mant, []) | Some (a, b) \<Rightarrow> (a, b))
      in case e of None \<Rightarrow> None
         | Some k \<Rightarrow> if all_digits (whole @ decimals) then round64 (decimal_value neg whole decimals k) else None)"

definition truncate_rat :: "rat \<Rightarrow> int" where
  "truncate_rat r = (if r < 0 then \<lceil>r\<rceil> else \<lfloor>r\<rfloor>)"

definition float_to_int :: "rat \<Rightarrow> int" where
  "float_to_int r = (let i = truncate_rat r in if in_int64 i then i else min_int64)"

lemma float_to_int_range: "in_int64 (float_to_int r)"
  by (simp add: float_to_int_def Let_def in_int64_def min_int64_def max_int64_def)

end
