(* ===== verification/Metering.thy ===== *)
theory Metering
  imports Main
begin

text \<open>
  The contract of a counter that meters requests: what the rate limiter and the monthly usage
  meter have in common. A step may be permitted; a permitted step of the metered kind raises
  the level by one and never above the limit, every other step leaves the level or raises it.
\<close>

fun permits :: "('op \<Rightarrow> 'db \<Rightarrow> bool \<times> 'db) \<Rightarrow> ('op \<Rightarrow> bool) \<Rightarrow> 'op list \<Rightarrow> 'db \<Rightarrow> nat" where
  "permits step concerns [] db = 0"
| "permits step concerns (x # xs) db =
     (case step x db of (ok, db') \<Rightarrow> (if ok \<and> concerns x then 1 else 0) + permits step concerns xs db')"

locale metered =
  fixes step :: "'op \<Rightarrow> 'db \<Rightarrow> bool \<times> 'db"
    and level :: "'db \<Rightarrow> int"
    and concerns :: "'op \<Rightarrow> bool"
    and limit :: int
  assumes permitted: "step x db = (True, db') \<Longrightarrow> concerns x \<Longrightarrow> level db' = level db + 1 \<and> level db' \<le> limit"
    and keeps: "step x db = (ok, db') \<Longrightarrow> level db \<le> level db'"
begin

lemma permits_bounded: "int (permits step concerns xs db) \<le> max 0 (limit - level db)"
proof (induction xs arbitrary: db)
  case (Cons x xs)
  obtain ok db' where s: "step x db = (ok, db')" by fastforce
  show ?case
  proof (cases "ok \<and> concerns x")
    case True
    then show ?thesis using permitted [of x db db'] s Cons [of db'] by auto
  next
    case False
    then show ?thesis using keeps [OF s] s Cons [of db'] by auto
  qed
qed simp

lemma none_over_limit: "limit \<le> level db \<Longrightarrow> permits step concerns xs db = 0"
  using permits_bounded [of xs db] by auto

end

end
