(* ===== verification/Rate_Limit.thy ===== *)
theory Rate_Limit
  imports Models Go_Number Metering
begin

text \<open>
  \<open>src/internal/api/public/rate_limit.go\<close> with the store operations it rests on
  (\<open>store.go\<close>: the effective configuration and the counters). The upsert of
  \<open>IncrementRateLimitCounter\<close> is one atomic step on a table keyed by scope key, window and
  bucket; the model has the columns the statement names. Metrics are left out.
\<close>

subsection \<open>Stored configuration\<close>

definition isRateLimitScope :: "string \<Rightarrow> bool" where
  "isRateLimitScope scope = (TrimSpace scope \<in> {''tenant'', ''tenant_agent'', ''tenant_tool'', ''tenant_agent_tool''})"

definition parseOptionalPositiveInt64 :: "string option \<Rightarrow> int option" where
  "parseOptionalPositiveInt64 v =
     (case v of None \<Rightarrow> None
      | Some s \<Rightarrow> (let trimmed = TrimSpace s in
          if trimmed = [] then None
          else case ParseInt trimmed of None \<Rightarrow> None | Some i \<Rightarrow> if i \<le> 0 then None else Some i))"

definition parseOptionalScope :: "string option \<Rightarrow> string option" where
  "parseOptionalScope v =
     (case v of None \<Rightarrow> None
      | Some s \<Rightarrow> (let scope = TrimSpace s in if isRateLimitScope scope then Some scope else None))"

definition opt_or :: "'a option \<Rightarrow> 'a \<Rightarrow> 'a" where
  "opt_or x d = (case x of None \<Rightarrow> d | Some y \<Rightarrow> y)"

text \<open>System settings are a table from key to text; a tenant's configuration columns are
  nullable. No row at all means the tenant does not exist or is deleted.\<close>

type_synonym settings = "string \<rightharpoonup> string"

record tenant_rate_row =
  tr_PerMinute :: "int option"
  tr_PerDay :: "int option"
  tr_Scope :: "string option"

definition GetDefaultRateLimitConfig :: "settings \<Rightarrow> rate_limit_config" where
  "GetDefaultRateLimitConfig st =
     \<lparr>rl_PerMinute = opt_or (parseOptionalPositiveInt64 (st ''default_rate_limit_per_minute'')) 60,
      rl_PerDay = opt_or (parseOptionalPositiveInt64 (st ''default_rate_limit_per_day'')) 10000,
      rl_Scope = opt_or (parseOptionalScope (st ''default_rate_limit_scope'')) ''tenant_agent_tool''\<rparr>"

definition positive_column :: "int option \<Rightarrow> int \<Rightarrow> int" where
  "positive_column c d = (case c of Some i \<Rightarrow> if i > 0 then i else d | None \<Rightarrow> d)"

definition GetEffectiveRateLimitConfig :: "tenant_rate_row option \<Rightarrow> settings \<Rightarrow> store_error + rate_limit_config" where
  "GetEffectiveRateLimitConfig row st =
     (case row of None \<Rightarrow> Inl ErrNotFound
      | Some r \<Rightarrow>
          (let system = GetDefaultRateLimitConfig st
           in Inr \<lparr>rl_PerMinute = positive_column (tr_PerMinute r) (rl_PerMinute system),
                   rl_PerDay = positive_column (tr_PerDay r) (rl_PerDay system),
                   rl_Scope = opt_or (parseOptionalScope (tr_Scope r)) (rl_Scope system)\<rparr>))"

subsection \<open>Counters\<close>

record rate_key =
  rk_tenantID :: string
  rk_agentID :: string
  rk_toolID :: string
  rk_actionType :: string

type_synonym counters = "rate_key \<times> string \<times> time \<rightharpoonup> int"

definition IncrementRateLimitCounter ::
  "rate_key \<Rightarrow> string \<Rightarrow> time \<Rightarrow> int \<Rightarrow> counters \<Rightarrow> (bool \<times> int) \<times> counters" where
  "IncrementRateLimitCounter key window bucketStart limit db =
     (if limit \<le> 0 then ((True, 0), db)
      else case db (key, window, bucketStart) of
             None \<Rightarrow> ((True, 1), db((key, window, bucketStart) \<mapsto> 1))
           | Some c \<Rightarrow> if c < limit then ((True, c + 1), db((key, window, bucketStart) \<mapsto> c + 1))
                       else ((False, 0), db))"

subsection \<open>Policy overrides and scope\<close>

record rate_override =
  ro_PerMinute :: "int option"
  ro_PerDay :: "int option"
  ro_Scope :: "string option"

fun parseNonNegativeInt :: "any \<Rightarrow> int option" where
  "parseNonNegativeInt (Int_v i) = (if i < 0 then None else Some i)"
| "parseNonNegativeInt (Float_v f) = (if f < 0 then None else Some (float_to_int f))"
| "parseNonNegativeInt (Number_v n) = (case ParseInt n of None \<Rightarrow> None | Some i \<Rightarrow> if i < 0 then None else Some i)"
| "parseNonNegativeInt _ = None"

definition normalizeRateLimitScope :: "any \<Rightarrow> string option" where
  "normalizeRateLimitScope v =
     (case as_string v of None \<Rightarrow> None
      | Some s \<Rightarrow> (let trimmed = TrimSpace s in
          if trimmed \<in> {''tenant'', ''tenant_agent'', ''tenant_tool'', ''tenant_agent_tool''} then Some trimmed else None))"

definition parsePolicyRateLimitOverride :: "gomap \<Rightarrow> rate_override" where
  "parsePolicyRateLimitOverride constraints =
     (let none = \<lparr>ro_PerMinute = None, ro_PerDay = None, ro_Scope = None\<rparr> in
      case map_of constraints ''rate_limit'' of None \<Rightarrow> none
      | Some raw \<Rightarrow> (case as_map raw of None \<Rightarrow> none
         | Some m \<Rightarrow> \<lparr>ro_PerMinute = parseNonNegativeInt (index_map m ''per_minute''),
                      ro_PerDay = parseNonNegativeInt (index_map m ''per_day''),
                      ro_Scope = normalizeRateLimitScope (index_map m ''scope'')\<rparr>))"

definition applyPolicyRateLimitOverrides :: "rate_limit_config \<Rightarrow> rate_override \<Rightarrow> rate_limit_config" where
  "applyPolicyRateLimitOverrides cfg o' =
     \<lparr>rl_PerMinute = opt_or (ro_PerMinute o') (rl_PerMinute cfg),
      rl_PerDay = opt_or (ro_PerDay o') (rl_PerDay cfg), rl_Scope = opt_or (ro_Scope o') (rl_Scope cfg)\<rparr>"

definition applyRateLimitScope :: "string \<Rightarrow> rate_key \<Rightarrow> rate_key" where
  "applyRateLimitScope scope key =
     (if scope = ''tenant'' then key\<lparr>rk_agentID := [], rk_toolID := [], rk_actionType := []\<rparr>
      else if scope = ''tenant_agent'' then key\<lparr>rk_toolID := [], rk_actionType := []\<rparr>
      else if scope = ''tenant_tool'' then key\<lparr>rk_agentID := [], rk_actionType := []\<rparr>
      else key\<lparr>rk_actionType := []\<rparr>)"

subsection \<open>Buckets\<close>

definition ns_second :: int where "ns_second = 1000000000"

definition minuteBucketStart :: "time \<Rightarrow> time" where
  "minuteBucketStart now = now - now mod (60 * ns_second)"

definition dayBucketStart :: "time \<Rightarrow> time" where
  "dayBucketStart now = now - now mod (86400 * ns_second)"

definition ceil_seconds :: "int \<Rightarrow> int" where
  "ceil_seconds d = (d + ns_second - 1) div ns_second"

definition secondsUntilNextMinute :: "time \<Rightarrow> int" where
  "secondsUntilNextMinute now = ceil_seconds (minuteBucketStart now + 60 * ns_second - now)"

definition secondsUntilNextDay :: "time \<Rightarrow> int" where
  "secondsUntilNextDay now = ceil_seconds (dayBucketStart now + 86400 * ns_second - now)"

subsection \<open>Enforcement\<close>

record rate_violation =
  rv_Window :: string
  rv_Limit :: int
  rv_Remaining :: int
  rv_RetryAfterSeconds :: int
  rv_Scope :: string

text \<open>One window: the outer sum is a driver error of the counter upsert.\<close>

definition check_window ::
  "(string \<Rightarrow> store_error option) \<Rightarrow> rate_key \<Rightarrow> string \<Rightarrow> int \<Rightarrow> time \<Rightarrow> time \<Rightarrow> counters
   \<Rightarrow> (store_error + bool) \<times> counters" where
  "check_window fault key window limit bucket now db =
     (if limit \<le> 0 then (Inr True, db)
      else case fault window of Some e \<Rightarrow> (Inl e, db)
      | None \<Rightarrow> (case IncrementRateLimitCounter key window bucket limit db of
                   ((allowed, _), db') \<Rightarrow> (Inr allowed, db')))"

definition effective_limits :: "(store_error + rate_limit_config) \<Rightarrow> gomap \<Rightarrow> store_error + rate_limit_config" where
  "effective_limits stored constraints =
     (let apply = (\<lambda>cfg. Inr (applyPolicyRateLimitOverrides cfg (parsePolicyRateLimitOverride constraints))) in
      case stored of
        Inr cfg \<Rightarrow> apply cfg
      | Inl ErrNotFound \<Rightarrow> apply \<lparr>rl_PerMinute = 60, rl_PerDay = 10000, rl_Scope = ''tenant_agent_tool''\<rparr>
      | Inl e \<Rightarrow> Inl e)"

definition enforceRateLimit ::
  "bool \<Rightarrow> (store_error + rate_limit_config) \<Rightarrow> (string \<Rightarrow> store_error option) \<Rightarrow> rate_key \<Rightarrow> gomap \<Rightarrow> time
   \<Rightarrow> counters \<Rightarrow> (store_error + rate_violation option) \<times> counters" where
  "enforceRateLimit enabled stored fault request constraints now db =
     (if \<not> enabled then (Inr None, db)
      else case effective_limits stored constraints of
        Inl e \<Rightarrow> (Inl e, db)
      | Inr cfg \<Rightarrow>
          (let key = applyRateLimitScope (rl_Scope cfg) request in
           case check_window fault key ''minute'' (rl_PerMinute cfg) (minuteBucketStart now) now db of
             (Inl e, db1) \<Rightarrow> (Inl e, db1)
           | (Inr False, db1) \<Rightarrow>
               (Inr (Some \<lparr>rv_Window = ''minute'', rv_Limit = rl_PerMinute cfg, rv_Remaining = 0,
                     rv_RetryAfterSeconds = secondsUntilNextMinute now, rv_Scope = rl_Scope cfg\<rparr>), db1)
           | (Inr True, db1) \<Rightarrow>
               (case check_window fault key ''day'' (rl_PerDay cfg) (dayBucketStart now) now db1 of
                  (Inl e, db2) \<Rightarrow> (Inl e, db2)
                | (Inr False, db2) \<Rightarrow>
                    (Inr (Some \<lparr>rv_Window = ''day'', rv_Limit = rl_PerDay cfg, rv_Remaining = 0,
                          rv_RetryAfterSeconds = secondsUntilNextDay now, rv_Scope = rl_Scope cfg\<rparr>), db2)
                | (Inr True, db2) \<Rightarrow> (Inr None, db2))))"

definition withRateLimitConstraint :: "gomap \<Rightarrow> rate_violation option \<Rightarrow> gomap" where
  "withRateLimitConstraint constraints violation =
     (case violation of None \<Rightarrow> constraints
      | Some v \<Rightarrow> set_key ''rate_limit_enforced''
          (Map_v [(''window'', Str_v (rv_Window v)), (''limit'', Int_v (rv_Limit v)),
                  (''retry_after_seconds'', Int_v (rv_RetryAfterSeconds v)), (''scope'', Str_v (rv_Scope v))]) constraints)"

subsection \<open>The bound\<close>

definition count_of :: "rate_key \<times> string \<times> time \<Rightarrow> counters \<Rightarrow> int" where
  "count_of k db = (case db k of None \<Rightarrow> 0 | Some c \<Rightarrow> c)"

lemma check_window_other:
  "check_window fault key w l b now db = (r, db') \<Longrightarrow> k \<noteq> (key, w, b) \<Longrightarrow> count_of k db' = count_of k db"
  by (auto simp: check_window_def IncrementRateLimitCounter_def count_of_def split: if_splits option.splits prod.splits)

lemma check_window_keeps: "check_window fault key w l b now db = (r, db') \<Longrightarrow> count_of k db \<le> count_of k db'"
  by (cases "k = (key, w, b)")
    (auto simp: check_window_def IncrementRateLimitCounter_def count_of_def split: if_splits option.splits prod.splits)

lemma check_window_permits:
  "check_window fault key w l b now db = (Inr True, db') \<Longrightarrow> 0 < l \<Longrightarrow>
   count_of (key, w, b) db' = count_of (key, w, b) db + 1 \<and> count_of (key, w, b) db' \<le> l"
  by (auto simp: check_window_def IncrementRateLimitCounter_def count_of_def split: if_splits option.splits prod.splits)

text \<open>A request with everything the check reads, and the check as a step.\<close>

record rate_request =
  rq_enabled :: bool
  rq_stored :: "store_error + rate_limit_config"
  rq_fault :: "string \<Rightarrow> store_error option"
  rq_request :: rate_key
  rq_constraints :: gomap
  rq_now :: time

definition rate_step :: "rate_request \<Rightarrow> counters \<Rightarrow> bool \<times> counters" where
  "rate_step q db =
     (case enforceRateLimit (rq_enabled q) (rq_stored q) (rq_fault q) (rq_request q) (rq_constraints q) (rq_now q) db of
        (r, db') \<Rightarrow> (r = Inr None, db'))"

definition window_limit :: "string \<Rightarrow> rate_limit_config \<Rightarrow> int" where
  "window_limit w cfg = (if w = ''minute'' then rl_PerMinute cfg else rl_PerDay cfg)"

definition window_bucket :: "string \<Rightarrow> time \<Rightarrow> time" where
  "window_bucket w now = (if w = ''minute'' then minuteBucketStart now else dayBucketStart now)"

text \<open>A request counts against scope key \<open>key\<close> in window \<open>w\<close> and bucket \<open>b\<close>, with a
  limit of at most \<open>L\<close>.\<close>

definition counts_against :: "rate_key \<Rightarrow> string \<Rightarrow> time \<Rightarrow> int \<Rightarrow> rate_request \<Rightarrow> bool" where
  "counts_against key w b L q =
     (rq_enabled q \<and> w \<in> {''minute'', ''day''} \<and>
      (case effective_limits (rq_stored q) (rq_constraints q) of Inl _ \<Rightarrow> False
       | Inr cfg \<Rightarrow> applyRateLimitScope (rl_Scope cfg) (rq_request q) = key \<and> window_bucket w (rq_now q) = b \<and>
           0 < window_limit w cfg \<and> window_limit w cfg \<le> L))"

lemma enforce_keeps:
  assumes "enforceRateLimit e st f rq c now db = (r, db')"
  shows "count_of k db \<le> count_of k db'"
proof (cases "effective_limits st c")
  case (Inr cfg)
  let ?key = "applyRateLimitScope (rl_Scope cfg) rq"
  obtain r1 db1 where m: "check_window f ?key ''minute'' (rl_PerMinute cfg) (minuteBucketStart now) now db = (r1, db1)" by fastforce
  obtain r2 db2 where d: "check_window f ?key ''day'' (rl_PerDay cfg) (dayBucketStart now) now db1 = (r2, db2)" by fastforce
  have "db' = db \<or> db' = db1 \<or> db' = db2"
    using assms Inr m d by (auto simp: enforceRateLimit_def Let_def split: if_splits sum.splits bool.splits)
  then show ?thesis using check_window_keeps [OF m, of k] check_window_keeps [OF d, of k] by auto
qed (use assms in \<open>auto simp: enforceRateLimit_def split: if_splits\<close>)

lemma enforce_permits:
  assumes "enforceRateLimit True st f rq c now db = (Inr None, db')" and "effective_limits st c = Inr cfg"
    and "w \<in> {''minute'', ''day''}" and "0 < window_limit w cfg"
  shows "count_of (applyRateLimitScope (rl_Scope cfg) rq, w, window_bucket w now) db' =
      count_of (applyRateLimitScope (rl_Scope cfg) rq, w, window_bucket w now) db + 1 \<and>
    count_of (applyRateLimitScope (rl_Scope cfg) rq, w, window_bucket w now) db' \<le> window_limit w cfg"
proof -
  let ?key = "applyRateLimitScope (rl_Scope cfg) rq"
  obtain r1 db1 where m: "check_window f ?key ''minute'' (rl_PerMinute cfg) (minuteBucketStart now) now db = (r1, db1)" by fastforce
  have r1: "r1 = Inr True"
    using assms(1,2) m by (cases r1) (auto simp: enforceRateLimit_def Let_def split: bool.splits)
  obtain r2 db2 where d: "check_window f ?key ''day'' (rl_PerDay cfg) (dayBucketStart now) now db1 = (r2, db2)" by fastforce
  have r2: "r2 = Inr True" "db' = db2"
    using assms(1,2) m r1 d by (cases r2; auto simp: enforceRateLimit_def Let_def split: bool.splits)+
  from assms(3) consider "w = ''minute''" | "w = ''day''" by blast
  then show ?thesis
  proof cases
    case 1
    then show ?thesis
      using check_window_permits [OF m [unfolded r1]] check_window_other [OF d] r2 assms(4)
      by (simp add: window_limit_def window_bucket_def)
  next
    case 2
    then show ?thesis
      using check_window_permits [OF d [unfolded r2(1)]] check_window_other [OF m] r2 assms(4)
      by (simp add: window_limit_def window_bucket_def)
  qed
qed

interpretation rate: metered rate_step "count_of (key, w, b)" "counts_against key w b L" L for key w b L
proof
  fix q db db' ok
  show "count_of (key, w, b) db' = count_of (key, w, b) db + 1 \<and> count_of (key, w, b) db' \<le> L"
    if "rate_step q db = (True, db')" "counts_against key w b L q"
    using that enforce_permits [of "rq_stored q" "rq_fault q" "rq_request q" "rq_constraints q" "rq_now q" db db']
    by (fastforce simp: rate_step_def counts_against_def split: prod.splits sum.splits)
  show "count_of (key, w, b) db \<le> count_of (key, w, b) db'" if "rate_step q db = (ok, db')"
    using that enforce_keeps [of "rq_enabled q" "rq_stored q" "rq_fault q" "rq_request q" "rq_constraints q" "rq_now q" db]
    by (auto simp: rate_step_def split: prod.splits)
qed

text \<open>C5: the rate limit holds under any traffic: in every sequence of checks, of any tenants and
  scopes and with any driver failures, the number of requests let through that count against
  one scope key in one minute or day bucket, with a limit of at most \<open>L\<close>, is at most \<open>L\<close>
  less what the bucket had already counted.\<close>

theorem rate_limit_bounds_requests:
  "int (permits rate_step (counts_against key window bucket L) requests db) \<le>
     max 0 (L - count_of (key, window, bucket) db)"
  by (rule rate.permits_bounded)

subsection \<open>Retry hints\<close>

lemma ceil_seconds_bounds:
  assumes "0 < d"
  shows "1 \<le> ceil_seconds d" "d \<le> ceil_seconds d * ns_second" "d \<le> n * ns_second \<Longrightarrow> ceil_seconds d \<le> n"
  using assms unfolding ceil_seconds_def ns_second_def by linarith+

lemma bucket_start_mod:
  assumes "0 < (m :: int)" and "0 < d" and "now - now mod m + m - now \<le> d"
  shows "(now + d) - (now + d) mod m \<noteq> now - now mod m"
proof -
  have a: "now + d = (now - now mod m) + ((now mod m) + d)" by simp
  have "m \<le> now mod m + d" using assms(3) by simp
  moreover have "(now + d) mod m < m" using assms(1) by simp
  ultimately show ?thesis by simp
qed

text \<open>The retry hint is honest: a refused request is told to wait at least one second and at
  most the length of its window (60 seconds or 86400), and after waiting that long the
  request falls into another bucket of that window.\<close>

theorem retry_after_reaches_next_bucket:
  assumes "enforceRateLimit enabled stored fault request constraints now db = (Inr (Some v), db')"
  shows "1 \<le> rv_RetryAfterSeconds v \<and>
    rv_RetryAfterSeconds v \<le> (if rv_Window v = ''minute'' then 60 else 86400) \<and>
    window_bucket (rv_Window v) (now + rv_RetryAfterSeconds v * ns_second) \<noteq> window_bucket (rv_Window v) now"
proof -
  have v: "(rv_Window v = ''minute'' \<and> rv_RetryAfterSeconds v = secondsUntilNextMinute now) \<or>
    (rv_Window v = ''day'' \<and> rv_RetryAfterSeconds v = secondsUntilNextDay now)"
    using assms by (auto simp: enforceRateLimit_def Let_def split: if_splits sum.splits prod.splits bool.splits)
  have wait: "1 \<le> ceil_seconds (now - now mod m + m - now) \<and> ceil_seconds (now - now mod m + m - now) \<le> n \<and>
    (now + ceil_seconds (now - now mod m + m - now) * ns_second) -
      (now + ceil_seconds (now - now mod m + m - now) * ns_second) mod m \<noteq> now - now mod m"
    if m: "m = n * ns_second" "0 < n" for m n
  proof -
    let ?d = "now - now mod m + m - now"
    have pos: "0 < m" using m by (simp add: ns_second_def)
    have d: "0 < ?d" "?d \<le> n * ns_second" using pos m by (simp_all add: pos_mod_sign)
    have "0 < ceil_seconds ?d * ns_second" using ceil_seconds_bounds(1) [OF d(1)] by (simp add: ns_second_def)
    then show ?thesis
      using ceil_seconds_bounds(1,2) [OF d(1)] ceil_seconds_bounds(3) [OF d(1), of n] d bucket_start_mod [OF pos, of "ceil_seconds ?d * ns_second" now] by auto
  qed
  from v show ?thesis
    using wait [of "60 * ns_second" 60] wait [of "86400 * ns_second" 86400]
    by (auto simp: secondsUntilNextMinute_def secondsUntilNextDay_def minuteBucketStart_def dayBucketStart_def window_bucket_def)
qed

subsection \<open>Configuration\<close>

text \<open>The effective configuration is always usable: whatever text the settings table and
  whatever numbers and scope the tenant's row hold, the limits are positive, the scope is one
  of the four, a positive tenant limit is the one used, and a missing tenant is reported.\<close>

theorem effective_config_usable:
  "case GetEffectiveRateLimitConfig row st of
     Inl e \<Rightarrow> e = ErrNotFound \<and> row = None
   | Inr cfg \<Rightarrow> 0 < rl_PerMinute cfg \<and> 0 < rl_PerDay cfg \<and> isRateLimitScope (rl_Scope cfg) \<and>
       (\<exists>r. row = Some r \<and>
         (case tr_PerMinute r of Some i \<Rightarrow> if 0 < i then rl_PerMinute cfg = i else True | None \<Rightarrow> True) \<and>
         (case tr_PerDay r of Some i \<Rightarrow> if 0 < i then rl_PerDay cfg = i else True | None \<Rightarrow> True))"
proof -
  have p: "0 < opt_or (parseOptionalPositiveInt64 x) d" if "0 < d" for x d
    using that by (auto simp: opt_or_def parseOptionalPositiveInt64_def Let_def split: option.splits if_splits)
  have sc: "isRateLimitScope (opt_or (parseOptionalScope x) d)" if "isRateLimitScope d" for x d
    using that by (auto simp: opt_or_def parseOptionalScope_def Let_def split: option.splits if_splits)
  have default: "isRateLimitScope ''tenant_agent_tool''" by code_simp
  have "0 < positive_column c d" if "0 < d" for c d
    using that by (auto simp: positive_column_def split: option.splits)
  then show ?thesis
    using p sc default
    by (auto simp: GetEffectiveRateLimitConfig_def GetDefaultRateLimitConfig_def Let_def positive_column_def
        split: option.splits)
qed

subsection \<open>Concrete requests\<close>

definition sample_request :: rate_request where
  "sample_request = \<lparr>rq_enabled = True, rq_stored = Inr \<lparr>rl_PerMinute = 2, rl_PerDay = 5, rl_Scope = ''tenant''\<rparr>,
     rq_fault = (\<lambda>_. None), rq_request = \<lparr>rk_tenantID = ''t1'', rk_agentID = ''a'', rk_toolID = ''jira'', rk_actionType = ''x''\<rparr>,
     rq_constraints = [], rq_now = 90 * ns_second\<rparr>"

definition sample_full :: counters where
  "sample_full = [(\<lparr>rk_tenantID = ''t1'', rk_agentID = [], rk_toolID = [], rk_actionType = []\<rparr>, ''minute'', 60 * ns_second) \<mapsto> 2]"

theorem retry_after_reaches_next_bucket_witness:
  "\<exists>v db'. enforceRateLimit True (rq_stored sample_request) (\<lambda>_. None) (rq_request sample_request) [] (90 * ns_second) sample_full
      = (Inr (Some v), db') \<and> rv_RetryAfterSeconds v = 30 \<and>
    window_bucket (rv_Window v) (90 * ns_second + rv_RetryAfterSeconds v * ns_second) \<noteq> window_bucket (rv_Window v) (90 * ns_second)"
proof -
  let ?r = "enforceRateLimit True (rq_stored sample_request) (\<lambda>_. None) (rq_request sample_request) [] (90 * ns_second) sample_full"
  have "map_sum id (map_option rv_RetryAfterSeconds) (fst ?r) = Inr (Some 30)" by code_simp
  then obtain v db' where "?r = (Inr (Some v), db')" "rv_RetryAfterSeconds v = 30"
    by (cases "fst ?r"; cases ?r) auto
  with retry_after_reaches_next_bucket [OF this(1)] show ?thesis by blast
qed

end
