(* ===== verification/Request_Canon.thy ===== *)
theory Request_Canon
  imports Models
begin

text \<open>
  \<open>src/internal/utils/request.go\<close>: which client headers are kept, and the canonical
  text whose SHA-256 digest binds an approval to one request. The digest function is a
  parameter; \<open>canonical_text_inj\<close> shows that the text itself determines the request
  when no field holds a line break, so that only a digest collision could confuse two
  requests.
\<close>

type_synonym headers = "(string \<times> string) list"

definition nl :: char where "nl = CHR 0x0A"
definition colon :: char where "colon = CHR '':''"

subsection \<open>Headers\<close>

definition allowedHeaders :: "string list" where
  "allowedHeaders = [''content-type'', ''accept'', ''user-agent'', ''x-request-id'']"

fun FilterHeaders_from :: "headers \<Rightarrow> headers \<Rightarrow> headers" where
  "FilterHeaders_from filtered [] = filtered"
| "FilterHeaders_from filtered ((key, val) # hs) =
     (let lower = ToLower key in
      FilterHeaders_from (if lower \<in> set allowedHeaders then set_key lower val filtered
                          else filtered) hs)"

definition FilterHeaders :: "headers \<Rightarrow> headers" where
  "FilterHeaders headers = FilterHeaders_from [] headers"

lemma FilterHeaders_from_keys:
  "fst ` set filtered \<subseteq> set allowedHeaders \<Longrightarrow>
   fst ` set (FilterHeaders_from filtered hs) \<subseteq> set allowedHeaders"
proof (induction filtered hs rule: FilterHeaders_from.induct)
  case (2 filtered key val hs)
  let ?f = "if ToLower key \<in> set allowedHeaders then set_key (ToLower key) val filtered
            else filtered"
  have "fst ` set ?f \<subseteq> set allowedHeaders" using 2(2) by (auto simp: set_key_def)
  then show ?case using 2(1) [OF refl] by (simp add: Let_def)
qed simp

lemma FilterHeaders_from_distinct:
  "distinct (map fst filtered) \<Longrightarrow> distinct (map fst (FilterHeaders_from filtered hs))"
proof (induction filtered hs rule: FilterHeaders_from.induct)
  case (2 filtered key val hs)
  let ?f = "if ToLower key \<in> set allowedHeaders then set_key (ToLower key) val filtered
            else filtered"
  have "distinct (map fst ?f)" using 2(2) by simp
  then show ?case using 2(1) [OF refl] by (simp add: Let_def)
qed simp

lemma FilterHeaders_keys: "fst ` set (FilterHeaders hs) \<subseteq> set allowedHeaders"
  by (simp add: FilterHeaders_def FilterHeaders_from_keys)

lemma FilterHeaders_distinct: "distinct (map fst (FilterHeaders hs))"
  by (simp add: FilterHeaders_def FilterHeaders_from_distinct)

subsection \<open>The canonical request\<close>

record canonical_request =
  cr_TenantID :: string
  cr_AgentID :: string
  cr_ToolID :: string
  cr_Method :: string
  cr_Path :: string
  cr_Query :: string
  cr_Headers :: headers
  cr_BodyHash :: string
  cr_IdempotencyKey :: string

definition HashBody :: "(string \<Rightarrow> string) \<Rightarrow> string \<Rightarrow> string" where
  "HashBody sha256hex body = ''sha256:'' @ sha256hex body"

text \<open>The header lines: the keys in the order of \<open>sort.Strings\<close>, each with the value
  the map holds for it.\<close>

definition header_value :: "headers \<Rightarrow> string \<Rightarrow> string" where
  "header_value hs key = (case map_of hs key of None \<Rightarrow> [] | Some v \<Rightarrow> v)"

definition header_lines :: "headers \<Rightarrow> string" where
  "header_lines hs =
     concat (map (\<lambda>key. key @ [colon] @ header_value hs key @ [nl]) (sort_Strings (map fst hs)))"

definition canonical_text :: "canonical_request \<Rightarrow> string" where
  "canonical_text req =
     cr_TenantID req @ [nl] @ cr_AgentID req @ [nl] @ cr_ToolID req @ [nl] @
     ToUpper (cr_Method req) @ [nl] @ cr_Path req @ [nl] @ cr_Query req @ [nl] @
     cr_IdempotencyKey req @ [nl] @ cr_BodyHash req @ [nl] @ header_lines (cr_Headers req)"

definition HashCanonical :: "(string \<Rightarrow> string) \<Rightarrow> canonical_request \<Rightarrow> string" where
  "HashCanonical sha256hex req = ''sha256:'' @ sha256hex (canonical_text req)"

subsection \<open>The text determines the request\<close>

definition line_free :: "string \<Rightarrow> bool" where
  "line_free s = (nl \<notin> set s)"

definition canonical_ok :: "canonical_request \<Rightarrow> bool" where
  "canonical_ok req =
     (line_free (cr_TenantID req) \<and> line_free (cr_AgentID req) \<and> line_free (cr_ToolID req) \<and>
      line_free (ToUpper (cr_Method req)) \<and> line_free (cr_Path req) \<and> line_free (cr_Query req) \<and>
      line_free (cr_IdempotencyKey req) \<and> line_free (cr_BodyHash req) \<and>
      distinct (map fst (cr_Headers req)) \<and>
      (\<forall>(k, v) \<in> set (cr_Headers req). colon \<notin> set k \<and> line_free k \<and> line_free v))"

lemma until_sep_inj:
  assumes "xs @ c # rest = ys @ c # rest'" and "c \<notin> set xs" and "c \<notin> set ys"
  shows "xs = ys \<and> rest = rest'"
  using assms
proof (induction xs arbitrary: ys)
  case Nil
  then show ?case by (cases ys) auto
next
  case (Cons x xs)
  then show ?case by (cases ys) auto
qed

lemma line_inj:
  "xs @ nl # rest = ys @ nl # rest' \<Longrightarrow> line_free xs \<Longrightarrow> line_free ys \<Longrightarrow> xs = ys \<and> rest = rest'"
  unfolding line_free_def by (rule until_sep_inj)

lemma header_line_inj:
  assumes "k @ colon # v @ nl # rest = k' @ colon # v' @ nl # rest'"
    and "colon \<notin> set k" "colon \<notin> set k'" "line_free v" "line_free v'"
  shows "k = k' \<and> v = v' \<and> rest = rest'"
  using until_sep_inj [OF assms(1-3)] line_inj [of v rest v' rest'] assms(4,5) by auto

lemma header_block_inj:
  assumes "concat (map (\<lambda>k. k @ colon # f k @ [nl]) ks) = concat (map (\<lambda>k. k @ colon # g k @ [nl]) ks')"
    and "\<forall>k \<in> set ks. colon \<notin> set k \<and> line_free (f k)"
    and "\<forall>k \<in> set ks'. colon \<notin> set k \<and> line_free (g k)"
  shows "ks = ks' \<and> (\<forall>k \<in> set ks. f k = g k)"
  using assms
proof (induction ks arbitrary: ks')
  case Nil
  then show ?case by (cases ks') auto
next
  case (Cons k ks)
  then obtain k' ks'' where ks': "ks' = k' # ks''" by (cases ks') auto
  with Cons.prems have "k = k' \<and> f k = g k' \<and>
    concat (map (\<lambda>k. k @ colon # f k @ [nl]) ks) = concat (map (\<lambda>k. k @ colon # g k @ [nl]) ks'')"
    by (intro header_line_inj) auto
  with Cons ks' show ?case by auto
qed

lemma header_value_in: "(k, v) \<in> set hs \<Longrightarrow> distinct (map fst hs) \<Longrightarrow> header_value hs k = v"
  by (simp add: header_value_def)

lemma header_value_ok:
  assumes "\<forall>(k, v) \<in> set hs. colon \<notin> set k \<and> line_free k \<and> line_free v"
    and "distinct (map fst hs)" and "k \<in> fst ` set hs"
  shows "colon \<notin> set k \<and> line_free (header_value hs k)"
proof -
  from assms(3) obtain v where "(k, v) \<in> set hs" by auto
  with assms(1,2) show ?thesis by (auto simp: header_value_in)
qed

lemma map_of_header_value:
  "map_of hs k = (if k \<in> fst ` set hs then Some (header_value hs k) else None)"
  by (auto simp: header_value_def image_iff map_of_eq_None_iff split: option.splits)

lemma header_lines_inj:
  assumes "header_lines hs = header_lines hs'"
    and "\<forall>(k, v) \<in> set hs. colon \<notin> set k \<and> line_free k \<and> line_free v" "distinct (map fst hs)"
    and "\<forall>(k, v) \<in> set hs'. colon \<notin> set k \<and> line_free k \<and> line_free v" "distinct (map fst hs')"
  shows "map_of hs = map_of hs'"
proof -
  let ?ks = "sort_Strings (map fst hs)" and ?ks' = "sort_Strings (map fst hs')"
  have "?ks = ?ks' \<and> (\<forall>k \<in> set ?ks. header_value hs k = header_value hs' k)"
  proof (rule header_block_inj)
    show "concat (map (\<lambda>k. k @ colon # header_value hs k @ [nl]) ?ks) =
      concat (map (\<lambda>k. k @ colon # header_value hs' k @ [nl]) ?ks')"
      using assms(1) by (simp add: header_lines_def)
  qed (use header_value_ok [OF assms(2,3)] header_value_ok [OF assms(4,5)]
       in \<open>auto simp: sort_Strings_def\<close>)
  moreover from this have "fst ` set hs = fst ` set hs'"
    by (metis list.set_map set_SliceStable sort_Strings_def)
  ultimately show ?thesis
    by (intro ext) (auto simp: map_of_header_value sort_Strings_def)
qed

lemma lines_block_inj:
  assumes "concat (map (\<lambda>l. l @ [nl]) ls) @ rest = concat (map (\<lambda>l. l @ [nl]) ls') @ rest'"
    and "length ls = length ls'" and "list_all line_free ls" and "list_all line_free ls'"
  shows "ls = ls' \<and> rest = rest'"
  using assms(2,1,3,4)
proof (induction ls ls' rule: list_induct2)
  case (Cons l ls l' ls')
  then have "l = l' \<and> concat (map (\<lambda>l. l @ [nl]) ls) @ rest = concat (map (\<lambda>l. l @ [nl]) ls') @ rest'"
    by (intro line_inj) auto
  with Cons show ?case by auto
qed simp

definition canonical_fields :: "canonical_request \<Rightarrow> string list" where
  "canonical_fields r = [cr_TenantID r, cr_AgentID r, cr_ToolID r, ToUpper (cr_Method r), cr_Path r,
     cr_Query r, cr_IdempotencyKey r, cr_BodyHash r]"

lemma canonical_text_fields:
  "canonical_text r = concat (map (\<lambda>l. l @ [nl]) (canonical_fields r)) @ header_lines (cr_Headers r)"
  by (simp add: canonical_text_def canonical_fields_def)

lemma canonical_ok_fields: "canonical_ok r \<Longrightarrow> list_all line_free (canonical_fields r)"
  by (simp add: canonical_ok_def canonical_fields_def)

text \<open>C13: two requests none of whose fields holds a line break, and none of whose header names holds a
  colon, have the same canonical text only if they agree on tenant, agent, tool, method up to case, path,
  query, idempotency key, body digest and every header. The code neither checks nor escapes line breaks in
  path, query or idempotency key; what happens then is \<open>line_break_collides\<close>.\<close>

theorem canonical_text_inj:
  assumes "canonical_ok r" and "canonical_ok r'" and "canonical_text r = canonical_text r'"
  shows "cr_TenantID r = cr_TenantID r' \<and> cr_AgentID r = cr_AgentID r' \<and>
    cr_ToolID r = cr_ToolID r' \<and> ToUpper (cr_Method r) = ToUpper (cr_Method r') \<and>
    cr_Path r = cr_Path r' \<and> cr_Query r = cr_Query r' \<and>
    cr_IdempotencyKey r = cr_IdempotencyKey r' \<and> cr_BodyHash r = cr_BodyHash r' \<and>
    map_of (cr_Headers r) = map_of (cr_Headers r')"
proof -
  have "canonical_fields r = canonical_fields r' \<and> header_lines (cr_Headers r) = header_lines (cr_Headers r')"
    using assms(3) canonical_ok_fields [OF assms(1)] canonical_ok_fields [OF assms(2)]
    by (intro lines_block_inj) (simp_all add: canonical_text_fields canonical_fields_def)
  moreover from this have "map_of (cr_Headers r) = map_of (cr_Headers r')"
    using assms(1,2) by (intro header_lines_inj) (auto simp: canonical_ok_def)
  ultimately show ?thesis by (simp add: canonical_fields_def)
qed

text \<open>With line breaks a part of the path can be shifted into the query: an approval for one of these two
  requests fits the other.\<close>

lemma line_break_collides:
  "canonical_text (r\<lparr>cr_Path := ''/a'' @ nl # ''b'', cr_Query := ''c''\<rparr>) = canonical_text (r\<lparr>cr_Path := ''/a'', cr_Query := ''b'' @ nl # ''c''\<rparr>)"
  by (simp add: canonical_text_def)

theorem canonical_text_inj_witness:
  "(let mk = (\<lambda>m hs. \<lparr>cr_TenantID = ''t1'', cr_AgentID = ''a'', cr_ToolID = ''jira'', cr_Method = m,
        cr_Path = ''/rest'', cr_Query = [], cr_Headers = hs, cr_BodyHash = ''sha256:00'',
        cr_IdempotencyKey = []\<rparr>);
        r = mk ''post'' [(''accept'', ''x''), (''user-agent'', ''y'')];
        r' = mk ''POST'' [(''user-agent'', ''y''), (''accept'', ''x'')]
    in canonical_ok r \<and> canonical_ok r' \<and> canonical_text r = canonical_text r' \<and>
       map_of (cr_Headers r) = map_of (cr_Headers r'))"
proof -
  define mk where "mk = (\<lambda>m hs. \<lparr>cr_TenantID = ''t1'', cr_AgentID = ''a'', cr_ToolID = ''jira'', cr_Method = m,
        cr_Path = ''/rest'', cr_Query = [], cr_Headers = hs, cr_BodyHash = ''sha256:00'',
        cr_IdempotencyKey = []\<rparr>)"
  let ?r = "mk ''post'' [(''accept'', ''x''), (''user-agent'', ''y'')]"
  let ?r' = "mk ''POST'' [(''user-agent'', ''y''), (''accept'', ''x'')]"
  have ok: "canonical_ok ?r" "canonical_ok ?r'" and eq: "canonical_text ?r = canonical_text ?r'"
    unfolding mk_def by code_simp+
  from canonical_text_inj [OF ok eq] ok eq show ?thesis by (simp add: mk_def Let_def)
qed

end
