(* ===== verification/Ttl_Cache.thy ===== *)
theory Ttl_Cache
  imports Go_Prelude
begin

text \<open>
  \<open>src/internal/cache/cache.go\<close>: the in-memory map with a time to live that the
  session manager and the gateway's tool and risk-override lookups share. The clock is an
  argument of every operation that reads it. The locale \<open>ttl_map\<close> is the contract the
  clients rely on; the interpretation \<open>tc\<close> discharges it for the code's operations.
\<close>

record 'v entry =
  en_Value :: 'v
  en_ExpiresAt :: time

record 'v ttl_cache =
  tc_entries :: "string \<rightharpoonup> 'v entry"
  tc_ttl :: int
  tc_hits :: nat
  tc_misses :: nat

definition New :: "int \<Rightarrow> 'v ttl_cache" where
  "New ttl = \<lparr>tc_entries = Map.empty, tc_ttl = ttl, tc_hits = 0, tc_misses = 0\<rparr>"

definition Get :: "string \<Rightarrow> time \<Rightarrow> 'v ttl_cache \<Rightarrow> 'v option \<times> 'v ttl_cache" where
  "Get key now c =
     (case tc_entries c key of
        None \<Rightarrow> (None, c\<lparr>tc_misses := Suc (tc_misses c)\<rparr>)
      | Some entry \<Rightarrow>
          if now > en_ExpiresAt entry then (None, c\<lparr>tc_misses := Suc (tc_misses c)\<rparr>)
          else (Some (en_Value entry), c\<lparr>tc_hits := Suc (tc_hits c)\<rparr>))"

definition Put :: "string \<Rightarrow> 'v \<Rightarrow> time \<Rightarrow> 'v ttl_cache \<Rightarrow> 'v ttl_cache" where
  "Put key val now c =
     c\<lparr>tc_entries := (tc_entries c)(key \<mapsto> \<lparr>en_Value = val, en_ExpiresAt = now + tc_ttl c\<rparr>)\<rparr>"

definition Invalidate :: "string \<Rightarrow> 'v ttl_cache \<Rightarrow> 'v ttl_cache" where
  "Invalidate key c = c\<lparr>tc_entries := (tc_entries c)(key := None)\<rparr>"

definition InvalidatePrefix :: "string \<Rightarrow> 'v ttl_cache \<Rightarrow> 'v ttl_cache" where
  "InvalidatePrefix p c =
     c\<lparr>tc_entries := (\<lambda>key. if HasPrefix key p then None else tc_entries c key)\<rparr>"

definition Stats :: "'v ttl_cache \<Rightarrow> nat \<times> nat" where
  "Stats c = (tc_hits c, tc_misses c)"

definition peek :: "'v ttl_cache \<Rightarrow> string \<Rightarrow> time \<Rightarrow> 'v option" where
  "peek c key now = fst (Get key now c)"

subsection \<open>The contract\<close>

locale ttl_map =
  fixes look :: "'c \<Rightarrow> string \<Rightarrow> time \<Rightarrow> 'v option"
    and touch :: "string \<Rightarrow> time \<Rightarrow> 'c \<Rightarrow> 'c"
    and put :: "string \<Rightarrow> 'v \<Rightarrow> time \<Rightarrow> 'c \<Rightarrow> 'c"
    and kill :: "string \<Rightarrow> 'c \<Rightarrow> 'c"
    and kill_prefix :: "string \<Rightarrow> 'c \<Rightarrow> 'c"
    and ttl :: "'c \<Rightarrow> int"
  assumes look_put: "look (put k v t c) k' now =
      (if k' = k then (if now > t + ttl c then None else Some v) else look c k' now)"
    and look_kill: "look (kill k c) k' now = (if k' = k then None else look c k' now)"
    and look_kill_prefix: "look (kill_prefix p c) k' now =
      (if HasPrefix k' p then None else look c k' now)"
    and look_touch: "look (touch k t c) k' now = look c k' now"
    and look_mono: "now \<le> now' \<Longrightarrow> look c k now' = Some v \<Longrightarrow> look c k now = Some v"
begin

text \<open>An entry that was removed and not stored again is never found, whatever other keys
  are stored in between.\<close>

lemma killed_stays_out:
  "\<forall>(k', v, t) \<in> set puts. k' \<noteq> k \<Longrightarrow>
   look (fold (\<lambda>(k', v, t) c. put k' v t c) puts (kill k c)) k now = None"
proof (induction puts rule: rev_induct)
  case (snoc x xs)
  obtain k' v t where x: "x = (k', v, t)" by (cases x)
  with snoc show ?case by (auto simp: look_put)
qed (simp add: look_kill)

lemma untouched_by_prefix: "\<not> HasPrefix k p \<Longrightarrow> look (kill_prefix p c) k now = look c k now"
  by (simp add: look_kill_prefix)

lemma put_fresh: "now \<le> t + ttl c \<Longrightarrow> look (put k v t c) k now = Some v"
  by (simp add: look_put)

lemma put_stale: "t + ttl c < now \<Longrightarrow> look (put k v t c) k now = None"
  by (simp add: look_put)

end

lemma peek_simps:
  "peek c key now = (case tc_entries c key of None \<Rightarrow> None
     | Some e \<Rightarrow> if now > en_ExpiresAt e then None else Some (en_Value e))"
  by (simp add: peek_def Get_def split: option.splits)

lemma tc_entries_Get [simp]: "tc_entries (snd (Get key now c)) = tc_entries c"
  by (simp add: Get_def split: option.splits)

lemma tc_ttl_Get [simp]: "tc_ttl (snd (Get key now c)) = tc_ttl c"
  by (simp add: Get_def split: option.splits)

interpretation tc: ttl_map peek "\<lambda>k t c. snd (Get k t c)" Put Invalidate InvalidatePrefix tc_ttl
  by unfold_locales
    (auto simp: peek_simps Put_def Invalidate_def InvalidatePrefix_def split: option.splits if_splits)

text \<open>Each \<open>Get\<close> counts exactly once, as a hit exactly when it returns a value.\<close>

lemma Get_counts:
  "Stats (snd (Get key now c)) =
     (if fst (Get key now c) = None then (tc_hits c, Suc (tc_misses c)) else (Suc (tc_hits c), tc_misses c))"
  by (simp add: Get_def Stats_def split: option.splits)

end
