(* ===== verification/Go_Text.thy ===== *)
theory Go_Text
  imports Go_Number
begin

text \<open>
  Decimal text of integers, as \<open>strconv.FormatInt\<close> and the \<open>d\<close> verb of \<open>fmt\<close> print
  it, and that \<open>strconv.ParseInt\<close> reads it back.
\<close>

function nat_text :: "nat \<Rightarrow> string" where
  "nat_text n = (if n < 10 then [char_of (48 + n)] else nat_text (n div 10) @ [char_of (48 + n mod 10)])"
  by pat_completeness auto
termination by (relation "measure id") auto

declare nat_text.simps [simp del]

definition int_text :: "int \<Rightarrow> string" where
  "int_text i = (if i < 0 then ''-'' @ nat_text (nat (- i)) else nat_text (nat i))"

subsection \<open>Reading the text back\<close>

lemma char_of_digit: "n < 10 \<Longrightarrow> (of_char (char_of (48 + n) :: char) :: nat) = 48 + n"
  by (simp add: of_char_of)

fun text_nat :: "string \<Rightarrow> nat" where
  "text_nat s = foldl (\<lambda>acc c. 10 * acc + (of_char c - 48)) 0 s"

lemma text_nat_nat_text: "text_nat (nat_text n) = n"
proof (induction n rule: nat_text.induct)
  case (1 n)
  show ?case
  proof (cases "n < 10")
    case True
    then show ?thesis by (simp add: nat_text.simps [of n] char_of_digit)
  next
    case False
    have "n mod 10 < 10" by simp
    then show ?thesis
      using 1 [OF False] False by (simp add: nat_text.simps [of n] char_of_digit)
  qed
qed

lemma nat_text_digits: "c \<in> set (nat_text n) \<Longrightarrow> 48 \<le> (of_char c :: nat) \<and> (of_char c :: nat) < 58"
proof (induction n rule: nat_text.induct)
  case (1 n)
  have "n mod 10 < 10" by simp
  with 1 show ?case
    by (subst (asm) (2) nat_text.simps) (auto simp: char_of_digit split: if_splits)
qed

lemma nat_text_inj: "nat_text m = nat_text n \<Longrightarrow> m = n"
  by (metis text_nat_nat_text)

lemma int_text_inj: "int_text i = int_text j \<Longrightarrow> i = j"
proof -
  have "hd (nat_text n) \<noteq> CHR ''-''" for n
    using nat_text_digits [of "hd (nat_text n)" n] by (cases "nat_text n") (auto simp: nat_text.simps [of n])
  then have neg: "nat_text m \<noteq> CHR ''-'' # s" for m s by (metis list.sel(1))
  assume "int_text i = int_text j"
  then show "i = j"
    using neg neg [symmetric] by (auto simp: int_text_def split: if_splits dest!: nat_text_inj)
qed

lemma nat_text_ne [simp]: "nat_text n \<noteq> []"
  by (subst nat_text.simps) simp

lemma foldl_digits:
  "foldl (\<lambda>acc c. 10 * acc + (of_char c - 48)) (int k) s = int (foldl (\<lambda>acc c. 10 * acc + (of_char c - 48)) k s)"
  if "list_all (\<lambda>c. 48 \<le> (of_char c :: nat)) s"
  using that
proof (induction s arbitrary: k)
  case (Cons c s)
  have "of_char c - 48 = int (of_char c - 48)" using Cons.prems by (simp add: of_nat_diff of_nat_of_char)
  then have "10 * int k + (of_char c - 48) = int (10 * k + (of_char c - 48))" by simp
  then show ?case using Cons.IH [of "10 * k + (of_char c - 48)"] Cons.prems by simp
qed simp

lemma digits_value_nat_text: "digits_value (nat_text n) = int n"
proof -
  have "list_all (\<lambda>c. 48 \<le> (of_char c :: nat)) (nat_text n)" using nat_text_digits by (auto simp: list_all_iff)
  from foldl_digits [OF this, of 0] show ?thesis
    using text_nat_nat_text [of n] by (simp add: digits_value_def)
qed

lemma all_digits_nat_text: "all_digits (nat_text n)"
  using nat_text_digits by (fastforce simp: all_digits_def list_all_iff is_digit_def)

lemma nat_text_hd: "nat_text n = c # s \<Longrightarrow> c \<noteq> CHR ''-'' \<and> c \<noteq> CHR ''+''"
  using nat_text_digits [of c n] by auto

lemma ParseInt_int_text [simp]:
  assumes "in_int64 i"
  shows "ParseInt (int_text i) = Some i"
proof (cases "i < 0")
  case True
  then show ?thesis
    using assms by (simp add: ParseInt_def int_text_def digits_value_nat_text all_digits_nat_text)
next
  case False
  obtain c s where c: "nat_text (nat i) = c # s" by (cases "nat_text (nat i)") auto
  have "digits_value (c # s) = i" "all_digits (c # s)"
    using digits_value_nat_text [of "nat i"] all_digits_nat_text [of "nat i"] c False by simp_all
  then show ?thesis using nat_text_hd [OF c] False c assms by (simp add: ParseInt_def int_text_def)
qed

end
