(* ===== verification/Tool_Exec.thy ===== *)
theory Tool_Exec
  imports Request_Canon Ttl_Cache Go_Text
begin

text \<open>
  Forwarding a call to the upstream tool (\<open>executeToolCall\<close>, \<open>getToolCached\<close>,
  \<open>tenantCacheVersion\<close>, \<open>applyToolAuth\<close>, \<open>resolveAndApplyAuth\<close> of
  \<open>src/internal/api/public/handlers.go\<close>). The connector and the credential resolver are
  parameters: the first is any function from an outbound request to a response or an error,
  the second any function from a tool to a header or an error.
\<close>

subsection \<open>Types\<close>

record tool =
  tl_ToolID :: string
  tl_TenantID :: string
  tl_BaseURL :: string
  tl_AuthType :: string
  tl_AuthValue :: string
  tl_Transport :: string
  tl_MCPUpstreamURL :: string
  tl_Description :: string
  tl_InputSchemaJSON :: string
  tl_ArchivedAt :: "time option"
  tl_Source :: string
  tl_OpenAPISpecURL :: string
  tl_OpenAPIOperationID :: string
  tl_CredentialConfig :: string

record tool_call_request =
  tq_HTTPMethod :: string
  tq_Path :: string
  tq_Query :: string
  tq_Headers :: headers
  tq_Body :: string

record connector_request =
  cq_Method :: string
  cq_URL :: string
  cq_Headers :: headers
  cq_Body :: string

record connector_response =
  cs_Status :: int
  cs_Headers :: headers
  cs_Body :: string
  cs_BodyHash :: string

datatype upstream_error = Upstream_timeout | Upstream_other

datatype exec_error =
    Exec_tool_not_found
  | Exec_connector_missing
  | Exec_store store_error
  | Exec_auth upstream_error
  | Exec_upstream upstream_error

record credential =
  cd_HeaderName :: string
  cd_HeaderValue :: string

type_synonym connector = "connector_request \<Rightarrow> upstream_error + connector_response"
type_synonym resolver = "tool \<Rightarrow> upstream_error + credential"

subsection \<open>Tool lookup through the cache\<close>

text \<open>\<open>tenantCacheVersion\<close>: the version of the tenant's configuration, at least 1.\<close>

definition tenantCacheVersion :: "(store_error + int) \<Rightarrow> int" where
  "tenantCacheVersion config_version =
     (case config_version of Inl _ \<Rightarrow> 1 | Inr v \<Rightarrow> if v < 1 then 1 else v)"

text \<open>The key of the tool and risk-override caches.\<close>

definition cache_key :: "string \<Rightarrow> int \<Rightarrow> string \<Rightarrow> string" where
  "cache_key tenantID version item = tenantID @ '':v'' @ int_text version @ '':'' @ item"

definition getToolCached ::
  "string \<Rightarrow> string \<Rightarrow> (store_error + int) \<Rightarrow> (store_error + tool) \<Rightarrow> time \<Rightarrow> tool ttl_cache option
   \<Rightarrow> (store_error + tool) \<times> tool ttl_cache option" where
  "getToolCached tenantID toolID config_version store_tool now cache =
     (case cache of
        None \<Rightarrow> (store_tool, None)
      | Some c \<Rightarrow>
          let key = cache_key tenantID (tenantCacheVersion config_version) toolID in
          (case Get key now c of
             (Some t, c') \<Rightarrow> (Inr t, Some c')
           | (None, c') \<Rightarrow>
               (case store_tool of
                  Inl e \<Rightarrow> (Inl e, Some c')
                | Inr t \<Rightarrow> (Inr t, Some (Put key t now c')))))"

definition getRiskOverrideCached ::
  "string \<Rightarrow> string \<Rightarrow> (store_error + int) \<Rightarrow> (store_error + string) \<Rightarrow> time \<Rightarrow> string ttl_cache option
   \<Rightarrow> (store_error + string) \<times> string ttl_cache option" where
  "getRiskOverrideCached tenantID actionType config_version store_risk now cache =
     (case cache of
        None \<Rightarrow> (store_risk, None)
      | Some c \<Rightarrow>
          let key = cache_key tenantID (tenantCacheVersion config_version) actionType in
          (case Get key now c of
             (Some r, c') \<Rightarrow> (Inr r, Some c')
           | (None, c') \<Rightarrow>
               (case store_risk of
                  Inl e \<Rightarrow> (Inl e, Some c')
                | Inr r \<Rightarrow> (Inr r, Some (Put key r now c')))))"

subsection \<open>Upstream authentication\<close>

definition applyToolAuth :: "headers \<Rightarrow> tool \<Rightarrow> headers" where
  "applyToolAuth hs t =
     (let hs1 = (if tl_AuthType t = ''bearer'' \<and> tl_AuthValue t \<noteq> []
                 then set_key ''Authorization'' (''Bearer '' @ tl_AuthValue t) hs else hs)
      in if tl_AuthType t = ''api_key'' \<and> tl_AuthValue t \<noteq> []
         then set_key ''X-Api-Key'' (tl_AuthValue t) hs1 else hs1)"

definition resolveAndApplyAuth :: "resolver option \<Rightarrow> headers \<Rightarrow> tool \<Rightarrow> upstream_error + headers" where
  "resolveAndApplyAuth res hs t =
     (case res of
        None \<Rightarrow> Inr (applyToolAuth hs t)
      | Some resolve \<Rightarrow>
          if tl_CredentialConfig t = [] then Inr (applyToolAuth hs t)
          else (case resolve t of
                  Inl e \<Rightarrow> Inl e
                | Inr cred \<Rightarrow> Inr (if cd_HeaderName cred \<noteq> []
                    then set_key (cd_HeaderName cred) (cd_HeaderValue cred) hs else hs)))"

subsection \<open>The outbound request\<close>

definition upstream_url :: "string \<Rightarrow> string \<Rightarrow> string \<Rightarrow> string" where
  "upstream_url baseURL path query =
     (let url = TrimRight baseURL CHR ''/'' @ path in
      if query \<noteq> [] then (if HasPrefix query ''?'' then url @ query else url @ ''?'' @ query)
      else url)"

definition executeToolCall ::
  "(store_error + tool) \<Rightarrow> connector option \<Rightarrow> resolver option \<Rightarrow> tool_call_request \<Rightarrow> string \<Rightarrow> headers
   \<Rightarrow> (exec_error + connector_response) \<times> connector_request list" where
  "executeToolCall lookup conn res payload bodyBytes filteredHeaders =
     (case lookup of
        Inl ErrNotFound \<Rightarrow> (Inl Exec_tool_not_found, [])
      | Inl e \<Rightarrow> (Inl (Exec_store e), [])
      | Inr t \<Rightarrow>
          (case conn of
             None \<Rightarrow> (Inl Exec_connector_missing, [])
           | Some execute \<Rightarrow>
               (case resolveAndApplyAuth res filteredHeaders t of
                  Inl e \<Rightarrow> (Inl (Exec_auth e), [])
                | Inr forwardHeaders \<Rightarrow>
                    let req = \<lparr>cq_Method = tq_HTTPMethod payload,
                               cq_URL = upstream_url (tl_BaseURL t) (tq_Path payload) (tq_Query payload),
                               cq_Headers = forwardHeaders, cq_Body = bodyBytes\<rparr>
                    in (case execute req of
                          Inl e \<Rightarrow> (Inl (Exec_upstream e), [req])
                        | Inr resp \<Rightarrow> (Inr resp, [req])))))"

definition isUpstreamTimeoutError :: "exec_error \<Rightarrow> bool" where
  "isUpstreamTimeoutError e =
     (e \<in> {Exec_upstream Upstream_timeout, Exec_auth Upstream_timeout, Exec_store ErrTimeout})"

subsection \<open>Where the request goes\<close>

text \<open>The authority of an absolute URL: what stands between \<open>//\<close> and the next
  \<open>/\<close>, \<open>?\<close> or \<open>#\<close>; the host is what follows its last \<open>@\<close>.\<close>

fun after_slashes :: "string \<Rightarrow> string" where
  "after_slashes (a # b # s) = (if a = CHR ''/'' \<and> b = CHR ''/'' then s else after_slashes (b # s))"
| "after_slashes s = []"

definition authority_end :: "char \<Rightarrow> bool" where
  "authority_end c = (c \<in> {CHR ''/'', CHR ''?'', CHR ''#''})"

definition url_authority :: "string \<Rightarrow> string" where
  "url_authority url = takeWhile (\<lambda>c. \<not> authority_end c) (after_slashes url)"

definition url_host :: "string \<Rightarrow> string" where
  "url_host url = rev (takeWhile (\<lambda>c. c \<noteq> CHR ''@'') (rev (url_authority url)))"


lemma after_slashes_scheme:
  "CHR ''/'' \<notin> set s \<Longrightarrow> after_slashes (s @ CHR ''/'' # CHR ''/'' # rest) = rest"
proof (induction s)
  case (Cons c s)
  then show ?case by (cases s) auto
qed simp

lemma after_slashes_absolute:
  assumes "CHR ''/'' \<notin> set scheme"
  shows "after_slashes (scheme @ ''://'' @ rest) = rest"
  using after_slashes_scheme [of "scheme @ '':''" rest] assms by simp

definition authority_text :: "string \<Rightarrow> bool" where
  "authority_text a = (a \<noteq> [] \<and> list_all (\<lambda>c. \<not> authority_end c) a)"

definition path_text :: "string \<Rightarrow> bool" where
  "path_text s = (s = [] \<or> authority_end (hd s))"

lemma takeWhile_authority:
  assumes "authority_text a" and "path_text rest"
  shows "takeWhile (\<lambda>c. \<not> authority_end c) (a @ rest) = a"
proof -
  have "takeWhile (\<lambda>c. \<not> authority_end c) (a @ rest) = a @ takeWhile (\<lambda>c. \<not> authority_end c) rest"
    using assms(1) by (auto simp: authority_text_def list_all_iff takeWhile_append2)
  also have "takeWhile (\<lambda>c. \<not> authority_end c) rest = []"
    using assms(2) by (cases rest) (auto simp: path_text_def)
  finally show ?thesis by simp
qed

lemma TrimRight_authority:
  assumes "authority_text a"
  shows "TrimRight (pre @ a @ tail) CHR ''/'' = pre @ a @ TrimRight tail CHR ''/''"
proof -
  obtain b x where a: "a = b @ [x]" using assms by (metis authority_text_def rev_exhaust)
  have "x \<noteq> CHR ''/''" using assms by (auto simp: a authority_text_def authority_end_def)
  then have "dropWhile (\<lambda>c. c = CHR ''/'') (rev tail @ x # rev b @ rev pre) =
     dropWhile (\<lambda>c. c = CHR ''/'') (rev tail) @ x # rev b @ rev pre"
    by (induction tail rule: rev_induct) auto
  then show ?thesis by (simp add: TrimRight_def trim_right_def a)
qed

lemma trim_right_prefix: "\<exists>r. s = trim_right p s @ r"
proof
  have "rev s = takeWhile p (rev s) @ dropWhile p (rev s)" by simp
  then show "s = trim_right p s @ rev (takeWhile p (rev s))"
    unfolding trim_right_def by (metis rev_append rev_rev_ident)
qed

lemma path_text_TrimRight:
  assumes "path_text tail"
  shows "path_text (TrimRight tail CHR ''/'' @ CHR ''/'' # p)"
proof (cases "TrimRight tail CHR ''/''")
  case Nil
  then show ?thesis by (simp add: path_text_def authority_end_def)
next
  case (Cons c cs)
  obtain r where "tail = TrimRight tail CHR ''/'' @ r"
    using trim_right_prefix unfolding TrimRight_def by blast
  then have "tail = (c # cs) @ r" by (simp only: Cons)
  with assms Cons show ?thesis by (simp add: path_text_def)
qed

lemma upstream_url_split:
  "\<exists>rest. upstream_url baseURL path query = TrimRight baseURL CHR ''/'' @ path @ rest"
  by (auto simp: upstream_url_def Let_def)

text \<open>When the tool's base URL is absolute and the requested path starts with a slash,
  the outbound request goes to the authority (host and port) of the base URL, whatever the
  path, the query and the slashes at the end of the base URL.\<close>

theorem upstream_url_keeps_authority:
  assumes "CHR ''/'' \<notin> set scheme" and "authority_text a" and "path_text tail"
    and "HasPrefix path ''/''"
  shows "url_authority (upstream_url (scheme @ ''://'' @ a @ tail) path query) = a"
proof -
  obtain p where path: "path = CHR ''/'' # p"
    using assms(4) by (cases path) (auto simp: HasPrefix_def)
  obtain rest where "upstream_url (scheme @ ''://'' @ a @ tail) path query =
      scheme @ ''://'' @ a @ TrimRight tail CHR ''/'' @ path @ rest"
    using upstream_url_split [of "(scheme @ ''://'') @ a @ tail" path query]
      TrimRight_authority [OF assms(2), of "scheme @ ''://''" tail] by auto
  moreover have "path_text (TrimRight tail CHR ''/'' @ path @ rest)"
    using path_text_TrimRight [OF assms(3), of "p @ rest"] path by simp
  ultimately show ?thesis
    using takeWhile_authority [OF assms(2)] by (simp add: url_authority_def after_slashes_absolute [OF assms(1), simplified])
qed

theorem upstream_url_keeps_authority_witness:
  "url_authority (upstream_url (''https'' @ ''://'' @ ''api.example.com:8443'' @ ''/v1/'') ''/users'' ''q=1'') =
     ''api.example.com:8443''"
  by (rule upstream_url_keeps_authority)
    (simp_all add: authority_text_def authority_end_def path_text_def HasPrefix_def)

text \<open>The handler accepts a path that does not start with a slash, and such a path
  rewrites the destination: with a path of the form \<open>@host/...\<close> the whole base authority
  becomes user information and the request, which carries the tool's credentials, goes to the
  host the client named.\<close>

theorem upstream_url_host_escape:
  assumes "CHR ''/'' \<notin> set scheme" and "authority_text a"
    and "authority_text h" and "CHR ''@'' \<notin> set h"
  shows "url_host (upstream_url (scheme @ ''://'' @ a) (''@'' @ h @ ''/'' @ rest) []) = h"
proof -
  have "authority_text (a @ ''@'' @ h)"
    using assms(2,3) by (simp add: authority_text_def authority_end_def)
  then have "url_authority (scheme @ ''://'' @ (a @ ''@'' @ h) @ CHR ''/'' # rest) = a @ ''@'' @ h"
    by (subst url_authority_def, subst after_slashes_absolute [OF assms(1)])
      (rule takeWhile_authority, simp_all add: path_text_def authority_end_def)
  moreover have "TrimRight (scheme @ ''://'' @ a) CHR ''/'' = scheme @ ''://'' @ a"
    using TrimRight_authority [OF assms(2), of "scheme @ ''://''" "[]"]
    by (simp add: TrimRight_def trim_right_def)
  ultimately have "url_authority (upstream_url (scheme @ ''://'' @ a) (''@'' @ h @ ''/'' @ rest) []) = a @ ''@'' @ h"
    by (simp add: upstream_url_def)
  moreover have "takeWhile (\<lambda>c. c \<noteq> CHR ''@'') (rev h @ CHR ''@'' # rev a) = rev h"
    using assms(4) by (subst takeWhile_append2) auto
  ultimately show ?thesis by (simp add: url_host_def)
qed

theorem upstream_url_host_escape_witness:
  "url_host (upstream_url (''http'' @ ''://'' @ ''billing.internal:8090'') (''@'' @ ''evil.test'' @ ''/'' @ ''x'') []) = ''evil.test''"
  by (rule upstream_url_host_escape) (simp_all add: authority_text_def authority_end_def)

subsection \<open>What is forwarded\<close>

lemma keys_set_key: "fst ` set (set_key k v m) \<subseteq> insert k (fst ` set m)"
  by (auto simp: set_key_def)

lemma applyToolAuth_keys:
  "fst ` set (applyToolAuth hs t) \<subseteq> {''Authorization'', ''X-Api-Key''} \<union> fst ` set hs"
  unfolding applyToolAuth_def Let_def
  using keys_set_key [of "''Authorization''" _ hs] keys_set_key [of "''X-Api-Key''"]
  by (auto simp: set_key_def)

text \<open>The header a credential resolver may set for a tool.\<close>

definition resolver_header :: "resolver option \<Rightarrow> tool \<Rightarrow> string set" where
  "resolver_header res t =
     (case res of None \<Rightarrow> {} | Some f \<Rightarrow> (case f t of Inl _ \<Rightarrow> {} | Inr c \<Rightarrow> {cd_HeaderName c}))"

lemma resolveAndApplyAuth_keys:
  assumes "resolveAndApplyAuth res hs t = Inr hs'"
  shows "fst ` set hs' \<subseteq> fst ` set hs \<union> {''Authorization'', ''X-Api-Key''} \<union> resolver_header res t"
proof (cases "hs' = applyToolAuth hs t")
  case True
  then show ?thesis using applyToolAuth_keys [of hs t] by blast
next
  case False
  with assms obtain f c where "res = Some f" "f t = Inr c"
    "hs' = (if cd_HeaderName c \<noteq> [] then set_key (cd_HeaderName c) (cd_HeaderValue c) hs else hs)"
    by (auto simp: resolveAndApplyAuth_def split: option.splits sum.splits if_splits)
  then show ?thesis
    using keys_set_key [of "cd_HeaderName c" "cd_HeaderValue c" hs] by (auto simp: resolver_header_def)
qed

lemma executeToolCall_sent:
  assumes "executeToolCall lookup conn res payload body hs = (r, sent)" and "req \<in> set sent"
  obtains t hs' where "lookup = Inr t" "resolveAndApplyAuth res hs t = Inr hs'"
    "sent = [req]" "req = \<lparr>cq_Method = tq_HTTPMethod payload,
       cq_URL = upstream_url (tl_BaseURL t) (tq_Path payload) (tq_Query payload),
       cq_Headers = hs', cq_Body = body\<rparr>"
  using assms
  by (auto simp: executeToolCall_def Let_def split: sum.splits option.splits store_error.splits)

text \<open>Whatever headers the client puts into its call, the headers sent upstream are
  among the four allowed ones, the gateway's own \<open>Authorization\<close> and \<open>X-Api-Key\<close>
  and the header of a resolved credential; a client credential header never passes
  through, and at most one request leaves the gateway.\<close>

theorem executeToolCall_forwards:
  assumes "executeToolCall lookup conn res payload body (FilterHeaders client) = (r, sent)"
    and "req \<in> set sent"
  shows "sent = [req] \<and> cq_Body req = body \<and> cq_Method req = tq_HTTPMethod payload \<and>
    (\<exists>t. lookup = Inr t \<and> cq_URL req = upstream_url (tl_BaseURL t) (tq_Path payload) (tq_Query payload) \<and>
      fst ` set (cq_Headers req) \<subseteq>
        set allowedHeaders \<union> {''Authorization'', ''X-Api-Key''} \<union> resolver_header res t)"
proof -
  from assms obtain t hs' where t: "lookup = Inr t" "resolveAndApplyAuth res (FilterHeaders client) t = Inr hs'"
    "sent = [req]" "req = \<lparr>cq_Method = tq_HTTPMethod payload,
       cq_URL = upstream_url (tl_BaseURL t) (tq_Path payload) (tq_Query payload),
       cq_Headers = hs', cq_Body = body\<rparr>"
    by (rule executeToolCall_sent)
  have "fst ` set hs' \<subseteq> set allowedHeaders \<union> {''Authorization'', ''X-Api-Key''} \<union> resolver_header res t"
    using resolveAndApplyAuth_keys [OF t(2)] FilterHeaders_keys [of client] by blast
  with t show ?thesis by simp
qed

definition sample_tool :: tool where
  "sample_tool = \<lparr>tl_ToolID = ''jira'', tl_TenantID = ''t1'', tl_BaseURL = ''http://j'', tl_AuthType = ''bearer'',
     tl_AuthValue = ''s'', tl_Transport = [], tl_MCPUpstreamURL = [], tl_Description = [],
     tl_InputSchemaJSON = [], tl_ArchivedAt = None, tl_Source = ''admin'', tl_OpenAPISpecURL = [],
     tl_OpenAPIOperationID = [], tl_CredentialConfig = []\<rparr>"

definition sample_call :: tool_call_request where
  "sample_call = \<lparr>tq_HTTPMethod = ''GET'', tq_Path = ''/x'', tq_Query = [],
     tq_Headers = [(''Cookie'', ''c'')], tq_Body = []\<rparr>"

theorem executeToolCall_forwards_witness:
  "\<exists>req. executeToolCall (Inr sample_tool) (Some (\<lambda>_. Inl Upstream_other)) None sample_call []
      (FilterHeaders (tq_Headers sample_call)) = (Inl (Exec_upstream Upstream_other), [req]) \<and>
    cq_URL req = ''http://j/x'' \<and> cq_Headers req = [(''Authorization'', ''Bearer s'')] \<and>
    fst ` set (cq_Headers req) \<subseteq>
        set allowedHeaders \<union> {''Authorization'', ''X-Api-Key''} \<union> resolver_header None sample_tool"
proof -
  define req where "req = \<lparr>cq_Method = ''GET'', cq_URL = ''http://j/x'',
    cq_Headers = [(''Authorization'', ''Bearer s'')], cq_Body = []\<rparr>"
  have ev: "executeToolCall (Inr sample_tool) (Some (\<lambda>_. Inl Upstream_other)) None sample_call []
      (FilterHeaders (tq_Headers sample_call)) = (Inl (Exec_upstream Upstream_other), [req])"
    unfolding req_def by code_simp
  show ?thesis
    using executeToolCall_forwards [OF ev, of req] ev by (intro exI [of _ req]) (simp add: req_def)
qed

subsection \<open>The tool cache keeps tenants apart\<close>

lemma nat_text_neq: "c \<in> set (nat_text n) \<Longrightarrow> c \<noteq> colon \<and> c \<noteq> CHR ''-''"
  using nat_text_digits [of c n] by (auto simp: colon_def)

lemma int_text_colon: "colon \<notin> set (int_text i)"
  using nat_text_neq by (auto simp: int_text_def colon_def)

lemma cache_key_inj:
  assumes "cache_key t v k = cache_key t' v' k'" and "colon \<notin> set t" "colon \<notin> set t'"
  shows "t = t' \<and> v = v' \<and> k = k'"
proof -
  have "t @ colon # CHR ''v'' # int_text v @ colon # k = t' @ colon # CHR ''v'' # int_text v' @ colon # k'"
    using assms(1) by (simp add: cache_key_def colon_def)
  from until_sep_inj [OF this assms(2,3)]
  have "t = t'" and "int_text v @ colon # k = int_text v' @ colon # k'" by auto
  with until_sep_inj [OF this(2) int_text_colon int_text_colon] show ?thesis
    using int_text_inj by blast
qed

definition tool_cache_ok :: "tool ttl_cache \<Rightarrow> bool" where
  "tool_cache_ok c = (\<forall>k e. tc_entries c k = Some e \<longrightarrow>
     colon \<notin> set (tl_TenantID (en_Value e)) \<and>
     (\<exists>v. k = cache_key (tl_TenantID (en_Value e)) v (tl_ToolID (en_Value e))))"

lemma tool_cache_ok_Get: "tool_cache_ok c \<Longrightarrow> tool_cache_ok (snd (Get k now c))"
  by (simp add: tool_cache_ok_def)

lemma tool_cache_ok_Put:
  "tool_cache_ok c \<Longrightarrow> colon \<notin> set (tl_TenantID t) \<Longrightarrow>
   tool_cache_ok (Put (cache_key (tl_TenantID t) v (tl_ToolID t)) t now c)"
  by (auto simp: tool_cache_ok_def Put_def)

text \<open>The tool cache, shared by all tenants, never serves a tool to another tenant or
  under another tool id: with tenant ids free of colons, a lookup through the cache returns
  only a tool of the asking tenant with the asked id, and keeps the cache in that state.\<close>

theorem getToolCached_tenant:
  assumes "getToolCached tenantID toolID version store_tool now cache = (r, cache')"
    and "\<forall>c. cache = Some c \<longrightarrow> tool_cache_ok c" and "colon \<notin> set tenantID"
    and "\<forall>t. store_tool = Inr t \<longrightarrow> tl_TenantID t = tenantID \<and> tl_ToolID t = toolID"
  shows "(\<forall>t. r = Inr t \<longrightarrow> tl_TenantID t = tenantID \<and> tl_ToolID t = toolID) \<and>
    (\<forall>c. cache' = Some c \<longrightarrow> tool_cache_ok c)"
proof (cases cache)
  case None
  with assms show ?thesis by (simp add: getToolCached_def)
next
  case (Some c)
  let ?key = "cache_key tenantID (tenantCacheVersion version) toolID"
  obtain found c' where g: "Get ?key now c = (found, c')" by fastforce
  have ok: "tool_cache_ok c" "tool_cache_ok c'"
    using assms(2) Some tool_cache_ok_Get [of c ?key now] g by auto
  show ?thesis
  proof (cases found)
    case (Some t)
    then obtain e where e: "tc_entries c ?key = Some e" "t = en_Value e"
      using g by (auto simp: Get_def split: option.splits if_splits)
    then obtain v where "?key = cache_key (tl_TenantID t) v (tl_ToolID t)" "colon \<notin> set (tl_TenantID t)"
      using ok(1) by (auto simp: tool_cache_ok_def)
    with cache_key_inj assms(3) have "tl_TenantID t = tenantID \<and> tl_ToolID t = toolID" by blast
    then show ?thesis using assms(1) \<open>cache = Some c\<close> g Some ok(2)
      by (auto simp: getToolCached_def Let_def)
  next
    case None
    with assms g ok \<open>cache = Some c\<close> show ?thesis
      using tool_cache_ok_Put [OF ok(2)] by (auto simp: getToolCached_def Let_def split: sum.splits)
  qed
qed

theorem getToolCached_tenant_witness:
  "fst (getToolCached ''t1'' ''jira'' (Inr 3) (Inr sample_tool) 0 (Some (New 60))) = Inr sample_tool \<and>
     tl_TenantID sample_tool = ''t1'' \<and> tl_ToolID sample_tool = ''jira''"
proof -
  obtain r c where e: "getToolCached ''t1'' ''jira'' (Inr 3) (Inr sample_tool) 0 (Some (New 60)) = (r, c)"
    by fastforce
  have r: "r = Inr sample_tool"
    using e by (simp add: getToolCached_def Get_def New_def Let_def)
  have "\<forall>u. r = Inr u \<longrightarrow> tl_TenantID u = ''t1'' \<and> tl_ToolID u = ''jira''"
    using getToolCached_tenant [OF e] by (auto simp: tool_cache_ok_def New_def colon_def sample_tool_def)
  with e r show ?thesis by simp
qed

end
