(* ===== verification/Opa_Result.thy ===== *)
theory Opa_Result
  imports Models Go_Number "HOL-Library.Multiset"
begin

text \<open>
  \<open>src/internal/opa/engine.go\<close>: how the gateway reads the value a policy returns. The
  Rego evaluator itself is a library; its result set is \<open>None\<close> when empty and otherwise
  the first expression's value. The theorems say that only complete, well-typed output is
  accepted and that conflict resolution among matched rules depends on the set of rules
  alone, not on the order the evaluator lists them in.
\<close>

subsection \<open>Results and errors\<close>

record opa_result =
  or_Version :: string
  or_Decision :: string
  or_Risk :: string
  or_Rule :: decision_rule
  or_Reasons :: "decision_reason list"
  or_Constraints :: gomap
  or_Tags :: "string list"
  or_MatchedRules :: "matched_rule list"

datatype opa_error = PolicyOutputError string | Rego_error

definition isDecisionAllowed :: "string \<Rightarrow> bool" where
  "isDecisionAllowed d = (d \<in> {''ALLOW'', ''DENY'', ''REQUIRE_APPROVAL''})"

definition isRiskAllowed :: "string \<Rightarrow> bool" where
  "isRiskAllowed r = (r \<in> {''LOW'', ''MEDIUM'', ''HIGH'', ''CRITICAL''})"

subsection \<open>Parsing\<close>

fun parsePriority :: "any \<Rightarrow> int option" where
  "parsePriority (Float_v f) = Some (float_to_int f)"
| "parsePriority (Number_v s) =
     (case ParseInt s of Some i \<Rightarrow> Some i | None \<Rightarrow> map_option float_to_int (ParseFloat s))"
| "parsePriority (Int_v i) = Some i"
| "parsePriority _ = None"

text \<open>A string field that must be present and not empty.\<close>

definition required_string :: "any \<Rightarrow> string option" where
  "required_string v = (case as_string v of None \<Rightarrow> None | Some s \<Rightarrow> if s = [] then None else Some s)"

definition parse_reason :: "any \<Rightarrow> decision_reason option" where
  "parse_reason item =
     (case as_map item of None \<Rightarrow> None
      | Some m \<Rightarrow> (case required_string (index_map m ''code'') of None \<Rightarrow> None
         | Some code \<Rightarrow> (case required_string (index_map m ''message'') of None \<Rightarrow> None
            | Some message \<Rightarrow> Some \<lparr>rs_Code = code, rs_Message = message\<rparr>)))"

fun parse_all :: "('a \<Rightarrow> 'b option) \<Rightarrow> 'a list \<Rightarrow> 'b list option" where
  "parse_all f [] = Some []"
| "parse_all f (x # xs) =
     (case f x of None \<Rightarrow> None
      | Some y \<Rightarrow> (case parse_all f xs of None \<Rightarrow> None | Some ys \<Rightarrow> Some (y # ys)))"

definition parseReasons :: "any \<Rightarrow> bool \<Rightarrow> decision_reason list option" where
  "parseReasons v required =
     (if v = Nil_v then (if required then None else Some [])
      else case as_list v of None \<Rightarrow> None
           | Some items \<Rightarrow> if required \<and> items = [] then None else parse_all parse_reason items)"

definition parseMatchedRuleEffect :: "gomap \<Rightarrow> string option" where
  "parseMatchedRuleEffect rule =
     (case as_string (index_map rule ''effect'') of
        Some e \<Rightarrow> if isDecisionAllowed e then Some e
          else (case as_string (index_map rule ''decision'') of
                  Some d \<Rightarrow> if isDecisionAllowed d then Some d else None | None \<Rightarrow> None)
      | None \<Rightarrow> (case as_string (index_map rule ''decision'') of
                  Some d \<Rightarrow> if isDecisionAllowed d then Some d else None | None \<Rightarrow> None))"

definition parse_matched_rule :: "any \<Rightarrow> matched_rule option" where
  "parse_matched_rule item =
     (case as_map item of None \<Rightarrow> None
      | Some m \<Rightarrow>
        (case required_string (index_map m ''rule_id'') of None \<Rightarrow> None
         | Some ruleID \<Rightarrow>
           (case parsePriority (index_map m ''priority'') of None \<Rightarrow> None
            | Some priority \<Rightarrow>
              (case parseMatchedRuleEffect m of None \<Rightarrow> None
               | Some effect \<Rightarrow>
                 (case parseReasons (index_map m ''reasons'') False of None \<Rightarrow> None
                  | Some reasons \<Rightarrow>
                    (case (case map_of m ''constraints_summary'' of None \<Rightarrow> Some []
                           | Some raw \<Rightarrow> as_map raw) of None \<Rightarrow> None
                     | Some summary \<Rightarrow>
                         Some \<lparr>mr_RuleID = ruleID, mr_Priority = priority, mr_Effect = effect,
                               mr_Reasons = reasons, mr_ConstraintsSummary = summary\<rparr>))))))"

definition decisionRank :: "string \<Rightarrow> int" where
  "decisionRank d = (if d = ''DENY'' then 3 else if d = ''REQUIRE_APPROVAL'' then 2
     else if d = ''ALLOW'' then 1 else 0)"

definition matchedRuleLess :: "matched_rule \<Rightarrow> matched_rule \<Rightarrow> bool" where
  "matchedRuleLess left right =
     (if mr_Priority left \<noteq> mr_Priority right then mr_Priority left > mr_Priority right
      else if decisionRank (mr_Effect left) \<noteq> decisionRank (mr_Effect right)
      then decisionRank (mr_Effect left) > decisionRank (mr_Effect right)
      else if mr_RuleID left \<noteq> mr_RuleID right then str_less (mr_RuleID left) (mr_RuleID right)
      else False)"

definition parseMatchedRules :: "any \<Rightarrow> matched_rule list option" where
  "parseMatchedRules v =
     (if v = Nil_v then Some []
      else case as_list v of None \<Rightarrow> None
           | Some items \<Rightarrow> map_option (SliceStable matchedRuleLess) (parse_all parse_matched_rule items))"

definition resolveDecision :: "string \<Rightarrow> decision_rule \<Rightarrow> decision_reason list \<Rightarrow> matched_rule list
    \<Rightarrow> string \<times> decision_rule \<times> decision_reason list" where
  "resolveDecision decision rule reasons matchedRules =
     (case matchedRules of [] \<Rightarrow> (decision, rule, reasons)
      | winner # _ \<Rightarrow>
          (mr_Effect winner, \<lparr>dr_ID = mr_RuleID winner, dr_Priority = mr_Priority winner\<rparr>,
           if mr_Reasons winner \<noteq> [] then mr_Reasons winner else reasons))"

definition string_tags :: "any \<Rightarrow> string list" where
  "string_tags v = (case as_list v of None \<Rightarrow> [] | Some xs \<Rightarrow> List.map_filter as_string xs)"

definition need :: "string \<Rightarrow> 'a option \<Rightarrow> opa_error + 'a" where
  "need reason x = (case x of None \<Rightarrow> Inl (PolicyOutputError reason) | Some y \<Rightarrow> Inr y)"

definition check_r :: "string \<Rightarrow> bool \<Rightarrow> opa_error + unit" where
  "check_r reason ok = (if ok then Inr () else Inl (PolicyOutputError reason))"

text \<open>\<open>parseResult\<close> in two steps, in the order of its checks: the fields of the policy's
  own decision, then the matched rules and the resolution.\<close>

definition parse_fields :: "gomap \<Rightarrow> opa_error + opa_result" where
  "parse_fields value =
     bind_r (need ''missing_required_field'' (required_string (index_map value ''version''))) (\<lambda>version.
     bind_r (need ''missing_required_field'' (required_string (index_map value ''decision''))) (\<lambda>decision.
     bind_r (check_r ''bad_enum'' (isDecisionAllowed decision)) (\<lambda>_.
     bind_r (need ''missing_required_field'' (required_string (index_map value ''risk''))) (\<lambda>risk.
     bind_r (check_r ''bad_enum'' (isRiskAllowed risk)) (\<lambda>_.
     bind_r (need ''schema_violation'' (as_map (index_map value ''rule''))) (\<lambda>ruleValue.
     bind_r (need ''missing_required_field'' (required_string (index_map ruleValue ''id''))) (\<lambda>ruleID.
     bind_r (need ''schema_violation'' (parsePriority (index_map ruleValue ''priority''))) (\<lambda>rulePriority.
     bind_r (need ''missing_required_field'' (parseReasons (index_map value ''reasons'') True)) (\<lambda>reasons.
     bind_r (need ''schema_violation'' (as_map (index_map value ''constraints''))) (\<lambda>constraints.
       Inr \<lparr>or_Version = version, or_Decision = decision, or_Risk = risk,
            or_Rule = \<lparr>dr_ID = ruleID, dr_Priority = rulePriority\<rparr>, or_Reasons = reasons,
            or_Constraints = constraints, or_Tags = string_tags (index_map value ''tags''),
            or_MatchedRules = []\<rparr>))))))))))"

definition with_rules :: "opa_result \<Rightarrow> matched_rule list \<Rightarrow> opa_result" where
  "with_rules r matchedRules =
     (let resolved = resolveDecision (or_Decision r) (or_Rule r) (or_Reasons r) matchedRules
      in r\<lparr>or_Decision := fst resolved, or_Rule := fst (snd resolved),
           or_Reasons := snd (snd resolved), or_MatchedRules := matchedRules\<rparr>)"

definition parseResult :: "any option \<Rightarrow> opa_error + opa_result" where
  "parseResult resultSet =
     bind_r (need ''opa_result_empty'' resultSet) (\<lambda>v.
     bind_r (need ''decode_error'' (as_map v)) (\<lambda>value.
     bind_r (parse_fields value) (\<lambda>r.
     bind_r (need ''schema_violation'' (parseMatchedRules (index_map value ''matched_rules''))) (\<lambda>matchedRules.
     Inr (with_rules r matchedRules)))))"

subsection \<open>What is accepted\<close>

lemma need_Inr [simp]: "need e x = Inr y \<longleftrightarrow> x = Some y"
  by (simp add: need_def split: option.splits)

lemma check_r_Inr [simp]: "check_r e b = Inr u \<longleftrightarrow> b"
  by (simp add: check_r_def)

lemma required_string_ne: "required_string v = Some s \<Longrightarrow> s \<noteq> []"
  by (auto simp: required_string_def split: option.splits if_splits)

lemma parse_all_set: "parse_all f xs = Some ys \<Longrightarrow> y \<in> set ys \<Longrightarrow> \<exists>x\<in>set xs. f x = Some y"
  by (induction xs arbitrary: ys) (auto split: option.splits)

lemma parse_all_Nil: "parse_all f xs = Some [] \<longleftrightarrow> xs = []"
  by (cases xs) (auto split: option.splits)

lemma parse_all_map: "parse_all f xs = (if list_ex (\<lambda>x. f x = None) xs then None else Some (map (the \<circ> f) xs))"
  by (induction xs) (auto split: option.splits)

definition reason_ok :: "decision_reason \<Rightarrow> bool" where
  "reason_ok r = (rs_Code r \<noteq> [] \<and> rs_Message r \<noteq> [])"

lemma parse_reason_ok: "parse_reason v = Some r \<Longrightarrow> reason_ok r"
  by (auto simp: parse_reason_def reason_ok_def dest: required_string_ne split: option.splits)

lemma parseReasons_ok:
  assumes "parseReasons v required = Some rs"
  shows "list_all reason_ok rs \<and> (required \<longrightarrow> rs \<noteq> [])"
proof (cases "v = Nil_v")
  case False
  with assms obtain xs where "parse_all parse_reason xs = Some rs" "required \<longrightarrow> xs \<noteq> []"
    by (auto simp: parseReasons_def split: if_splits option.splits)
  then show ?thesis by (auto simp: list_all_iff parse_all_Nil dest: parse_all_set intro: parse_reason_ok)
qed (use assms in \<open>auto simp: parseReasons_def split: if_splits\<close>)

lemma parseMatchedRuleEffect_ok: "parseMatchedRuleEffect m = Some e \<Longrightarrow> isDecisionAllowed e"
  by (auto simp: parseMatchedRuleEffect_def split: option.splits if_splits)

definition rule_ok :: "matched_rule \<Rightarrow> bool" where
  "rule_ok m = (mr_RuleID m \<noteq> [] \<and> isDecisionAllowed (mr_Effect m) \<and> list_all reason_ok (mr_Reasons m))"

lemma parse_matched_rule_ok: "parse_matched_rule v = Some m \<Longrightarrow> rule_ok m"
  by (auto simp: parse_matched_rule_def rule_ok_def dest: required_string_ne parseMatchedRuleEffect_ok parseReasons_ok
      split: option.splits)

lemma parseMatchedRules_ok:
  assumes "parseMatchedRules v = Some ms" and "m \<in> set ms"
  shows "rule_ok m"
  using assms
  by (auto simp: parseMatchedRules_def dest!: parse_all_set dest: parse_matched_rule_ok
      split: if_splits option.splits)

definition fields_ok :: "opa_result \<Rightarrow> bool" where
  "fields_ok r = (or_Version r \<noteq> [] \<and> isDecisionAllowed (or_Decision r) \<and> isRiskAllowed (or_Risk r) \<and>
     dr_ID (or_Rule r) \<noteq> [] \<and> or_Reasons r \<noteq> [] \<and> list_all reason_ok (or_Reasons r))"

lemma parse_fields_ok: "parse_fields m = Inr r \<Longrightarrow> fields_ok r"
  by (auto simp: parse_fields_def fields_ok_def dest: required_string_ne dest!: parseReasons_ok)

lemma parseResult_Inr:
  assumes "parseResult rs = Inr r"
  obtains vm r0 ms where "rs = Some (Map_v vm)" "parse_fields vm = Inr r0"
    "parseMatchedRules (index_map vm ''matched_rules'') = Some ms" "r = with_rules r0 ms"
proof -
  have map: "as_map v = Some m \<Longrightarrow> v = Map_v m" for v m by (cases v) auto
  show thesis using assms by (auto simp: parseResult_def dest!: map intro: that)
qed

lemma with_rules_MatchedRules [simp]: "or_MatchedRules (with_rules r ms) = ms"
  by (simp add: with_rules_def Let_def)

lemma with_rules_ok: "fields_ok r \<Longrightarrow> list_all rule_ok ms \<Longrightarrow> fields_ok (with_rules r ms)"
  by (cases ms) (auto simp: with_rules_def resolveDecision_def fields_ok_def rule_ok_def)

lemma parseResult_ok:
  assumes "parseResult resultSet = Inr r"
  shows "fields_ok r \<and> list_all rule_ok (or_MatchedRules r)"
  using assms
proof (rule parseResult_Inr)
  fix vm r0 ms
  assume f: "parse_fields vm = Inr r0" and ms: "parseMatchedRules (index_map vm ''matched_rules'') = Some ms"
    and r: "r = with_rules r0 ms"
  have "list_all rule_ok ms" using parseMatchedRules_ok [OF ms] by (simp add: list_all_iff)
  with with_rules_ok [OF parse_fields_ok [OF f] this] r show ?thesis by simp
qed

text \<open>Only complete policy output is accepted: whatever value the policy returns, a
  parsed result has a version, one of the three decisions, one of the four risk levels, a
  rule id, and at least one reason, each with a code and a message.\<close>

theorem parseResult_complete:
  assumes "parseResult resultSet = Inr r"
  shows "or_Version r \<noteq> [] \<and> isDecisionAllowed (or_Decision r) \<and> isRiskAllowed (or_Risk r) \<and>
    dr_ID (or_Rule r) \<noteq> [] \<and> or_Reasons r \<noteq> [] \<and> list_all reason_ok (or_Reasons r) \<and>
    list_all rule_ok (or_MatchedRules r)"
  using parseResult_ok [OF assms] by (simp add: fields_ok_def)

subsection \<open>Conflict resolution\<close>

interpretation rule_order: strict_weak matchedRuleLess
proof
  show "\<not> matchedRuleLess y x" if "matchedRuleLess x y" for x y
    using that by (auto simp: matchedRuleLess_def dest: str_less_asym split: if_splits)
  show "\<not> matchedRuleLess x z" if "\<not> matchedRuleLess x y" "\<not> matchedRuleLess y z" for x y z
    using that by (auto simp: matchedRuleLess_def dest: str_less_neg_trans str_less_total split: if_splits)
qed

lemma decisionRank_inj:
  "isDecisionAllowed d \<Longrightarrow> isDecisionAllowed e \<Longrightarrow> decisionRank d = decisionRank e \<Longrightarrow> d = e"
  by (auto simp: isDecisionAllowed_def decisionRank_def)

lemma not_beaten:
  "\<not> matchedRuleLess m w \<Longrightarrow> mr_Priority m < mr_Priority w \<or>
     (mr_Priority m = mr_Priority w \<and> decisionRank (mr_Effect m) \<le> decisionRank (mr_Effect w))"
  by (auto simp: matchedRuleLess_def split: if_splits)

lemma tied_rules:
  assumes "\<not> matchedRuleLess a b" "\<not> matchedRuleLess b a" "rule_ok a" "rule_ok b"
  shows "mr_Effect a = mr_Effect b \<and> mr_RuleID a = mr_RuleID b \<and> mr_Priority a = mr_Priority b"
proof -
  have pr: "mr_Priority a = mr_Priority b"
    using assms(1,2) by (auto simp: matchedRuleLess_def split: if_splits)
  have rank: "decisionRank (mr_Effect a) = decisionRank (mr_Effect b)"
    using assms(1,2) pr by (auto simp: matchedRuleLess_def split: if_splits)
  have "mr_RuleID a = mr_RuleID b"
    using assms(1,2) pr rank str_less_total [of "mr_RuleID a" "mr_RuleID b"]
    by (simp add: matchedRuleLess_def split: if_splits)
  with pr decisionRank_inj [OF _ _ rank] assms(3,4) show ?thesis by (simp add: rule_ok_def)
qed

text \<open>C6: the matched rules decide by priority, and among rules of the highest priority the
  strictest effect wins (DENY over REQUIRE\_APPROVAL over ALLOW): no matched rule beats the one
  that gives the decision and the reported rule.\<close>

theorem strictest_top_rule_wins:
  assumes "parseResult resultSet = Inr r" and "or_MatchedRules r \<noteq> []"
  shows "(\<exists>m\<in>set (or_MatchedRules r). mr_Effect m = or_Decision r \<and> mr_RuleID m = dr_ID (or_Rule r) \<and>
      mr_Priority m = dr_Priority (or_Rule r)) \<and>
    (\<forall>m\<in>set (or_MatchedRules r). mr_Priority m < dr_Priority (or_Rule r) \<or>
      (mr_Priority m = dr_Priority (or_Rule r) \<and> decisionRank (mr_Effect m) \<le> decisionRank (or_Decision r)))"
proof -
  from assms(1) obtain r0 vm ms where
    ms: "parseMatchedRules (index_map vm ''matched_rules'') = Some ms" and r: "r = with_rules r0 ms"
    by (rule parseResult_Inr) blast
  obtain xs where xs: "SliceStable matchedRuleLess xs = ms"
    using ms assms(2) r by (auto simp: parseMatchedRules_def split: if_splits option.splits)
  obtain w ws where w: "ms = w # ws" using assms(2) r by (cases ms) auto
  have nb: "\<not> matchedRuleLess m w" if "m \<in> set ms" for m
    using rule_order.sort_head_least [of xs w ws m] set_SliceStable [of matchedRuleLess xs] xs w that by auto
  have eq: "or_Decision r = mr_Effect w" "dr_ID (or_Rule r) = mr_RuleID w" "dr_Priority (or_Rule r) = mr_Priority w"
    using r w by (simp_all add: with_rules_def resolveDecision_def)
  show ?thesis
  proof (intro conjI ballI)
    show "\<exists>m\<in>set (or_MatchedRules r). mr_Effect m = or_Decision r \<and> mr_RuleID m = dr_ID (or_Rule r) \<and>
      mr_Priority m = dr_Priority (or_Rule r)"
      using eq r w by auto
    show "mr_Priority m < dr_Priority (or_Rule r) \<or>
      (mr_Priority m = dr_Priority (or_Rule r) \<and> decisionRank (mr_Effect m) \<le> decisionRank (or_Decision r))"
      if "m \<in> set (or_MatchedRules r)" for m
      using not_beaten [OF nb] that r eq by simp
  qed
qed

lemma parse_all_order:
  assumes "set xs = set ys"
  shows "(parse_all f xs = None \<longleftrightarrow> parse_all f ys = None) \<and>
    (parse_all f xs = Some a \<longrightarrow> parse_all f ys = Some b \<longrightarrow> set a = set b)"
  using assms by (auto simp: parse_all_map list_ex_iff split: if_splits)

lemma parseMatchedRules_order:
  assumes "set xs = set ys"
  shows "(parseMatchedRules (List_v xs) = None \<longleftrightarrow> parseMatchedRules (List_v ys) = None) \<and>
    (parseMatchedRules (List_v xs) = Some a \<longrightarrow> parseMatchedRules (List_v ys) = Some b \<longrightarrow>
       fst (resolveDecision d r rs a) = fst (resolveDecision d r rs b) \<and>
       fst (snd (resolveDecision d r rs a)) = fst (snd (resolveDecision d r rs b)))"
proof (cases "parse_all parse_matched_rule xs")
  case None
  with parse_all_order [OF assms] show ?thesis by (auto simp: parseMatchedRules_def)
next
  case (Some us)
  with parse_all_order [OF assms, of parse_matched_rule] obtain vs where
    vs: "parse_all parse_matched_rule ys = Some vs" and set: "set us = set vs" by fastforce
  have ok: "rule_ok m" if "m \<in> set us" for m using parse_all_set [OF Some that] parse_matched_rule_ok by blast
  show ?thesis
  proof (cases us)
    case Nil
    with Some vs set show ?thesis by (simp add: parseMatchedRules_def)
  next
    case (Cons u us')
    obtain h t where h: "SliceStable matchedRuleLess us = h # t"
      using Cons SliceStable_Nil [of matchedRuleLess us] by (cases "SliceStable matchedRuleLess us") (simp_all del: SliceStable.simps)
    obtain h' t' where h': "SliceStable matchedRuleLess vs = h' # t'"
      using Cons set SliceStable_Nil [of matchedRuleLess vs] by (cases "SliceStable matchedRuleLess vs") (auto simp del: SliceStable.simps)
    have "h \<in> set us" "h' \<in> set us"
      using h h' set set_SliceStable by (metis list.set_intros(1))+
    then have "mr_Effect h = mr_Effect h' \<and> mr_RuleID h = mr_RuleID h' \<and> mr_Priority h = mr_Priority h'"
      using rule_order.sort_heads_equal [OF set h h'] ok by (intro tied_rules) auto
    then show ?thesis using Some vs h h' by (auto simp: parseMatchedRules_def resolveDecision_def)
  qed
qed

text \<open>The order in which the policy lists its matched rules does not matter: listing the
  same rules in another order, or one of them twice, gives the same error or the same
  decision attributed to the same rule.\<close>

theorem decision_ignores_rule_order:
  assumes "set xs = set ys"
  shows "case parseResult (Some (Map_v (set_key ''matched_rules'' (List_v xs) vm))) of
      Inl e \<Rightarrow> parseResult (Some (Map_v (set_key ''matched_rules'' (List_v ys) vm))) = Inl e
    | Inr r \<Rightarrow> (\<exists>r'. parseResult (Some (Map_v (set_key ''matched_rules'' (List_v ys) vm))) = Inr r' \<and>
        or_Decision r' = or_Decision r \<and> or_Rule r' = or_Rule r \<and> or_Risk r' = or_Risk r)"
proof -
  have f: "parse_fields (set_key ''matched_rules'' v vm) = parse_fields vm" for v
    by (simp add: parse_fields_def)
  show ?thesis
  proof (cases "parseMatchedRules (List_v xs)")
    case None
    then have "parseMatchedRules (List_v ys) = None" using parseMatchedRules_order [OF assms] by blast
    with None f show ?thesis
      by (cases "parse_fields vm") (simp_all add: parseResult_def need_def)
  next
    case (Some a)
    then obtain b where b: "parseMatchedRules (List_v ys) = Some b"
      using parseMatchedRules_order [OF assms] by fastforce
    then show ?thesis
      using Some f parseMatchedRules_order [OF assms, of a b]
      by (cases "parse_fields vm") (simp_all add: parseResult_def need_def with_rules_def Let_def)
  qed
qed

subsection \<open>Concrete outputs\<close>

definition sample_rule :: "string \<Rightarrow> string \<Rightarrow> string \<Rightarrow> any" where
  "sample_rule rid prio eff = Map_v [(''rule_id'', Str_v rid), (''priority'', Number_v prio), (''effect'', Str_v eff)]"

definition sample_output :: "any list \<Rightarrow> gomap" where
  "sample_output rules = [(''matched_rules'', List_v rules), (''version'', Str_v ''v1''), (''decision'', Str_v ''ALLOW''), (''risk'', Str_v ''LOW''),
     (''rule'', Map_v [(''id'', Str_v ''r0''), (''priority'', Number_v ''10'')]),
     (''reasons'', List_v [Map_v [(''code'', Str_v ''OK''), (''message'', Str_v ''fine'')]]),
     (''constraints'', Map_v [])]"

definition sample_rules :: "any list" where
  "sample_rules = [sample_rule ''a'' ''50'' ''ALLOW'', sample_rule ''b'' ''50'' ''DENY'', sample_rule ''c'' ''7'' ''ALLOW'']"

lemma sample_decides: "map_sum id or_Decision (parseResult (Some (Map_v (sample_output sample_rules)))) = Inr ''DENY''"
  by code_simp

lemma sample_nonempty: "map_sum id (\<lambda>r. or_MatchedRules r \<noteq> []) (parseResult (Some (Map_v (sample_output sample_rules)))) = Inr True"
  by code_simp

theorem parseResult_complete_witness:
  "\<exists>r. parseResult (Some (Map_v (sample_output sample_rules))) = Inr r \<and> isDecisionAllowed (or_Decision r) \<and> or_Reasons r \<noteq> []"
proof -
  obtain r where r: "parseResult (Some (Map_v (sample_output sample_rules))) = Inr r"
    using sample_decides by (cases "parseResult (Some (Map_v (sample_output sample_rules)))") auto
  from parseResult_complete [OF r] r show ?thesis by simp
qed

theorem strictest_top_rule_wins_witness:
  "\<exists>r. parseResult (Some (Map_v (sample_output sample_rules))) = Inr r \<and> or_Decision r = ''DENY'' \<and>
     (\<exists>m\<in>set (or_MatchedRules r). mr_Effect m = ''DENY'' \<and> mr_RuleID m = dr_ID (or_Rule r))"
proof -
  obtain r where r: "parseResult (Some (Map_v (sample_output sample_rules))) = Inr r"
    and d: "or_Decision r = ''DENY''" and n: "or_MatchedRules r \<noteq> []"
    using sample_decides sample_nonempty by (cases "parseResult (Some (Map_v (sample_output sample_rules)))") auto
  from strictest_top_rule_wins [OF r n] r d show ?thesis by auto
qed

theorem decision_ignores_rule_order_witness:
  "\<exists>r. parseResult (Some (Map_v (set_key ''matched_rules'' (List_v (rev sample_rules)) (sample_output [])))) = Inr r \<and>
     or_Decision r = ''DENY''"
proof -
  have "map_sum id or_Decision (parseResult (Some (Map_v (set_key ''matched_rules'' (List_v sample_rules) (sample_output [])))))
    = Inr ''DENY''" by code_simp
  then obtain r where "parseResult (Some (Map_v (set_key ''matched_rules'' (List_v sample_rules) (sample_output [])))) = Inr r"
    "or_Decision r = ''DENY''"
    by (cases "parseResult (Some (Map_v (set_key ''matched_rules'' (List_v sample_rules) (sample_output []))))") auto
  with decision_ignores_rule_order [of sample_rules "rev sample_rules" "sample_output []"] show ?thesis by auto
qed

end
