(* ===== verification/Policy_Eval.thy ===== *)
theory Policy_Eval
  imports Opa_Result
begin

text \<open>
  \<open>src/internal/policy/base_policy.go\<close> and \<open>evaluator.go\<close>: every request is judged
  by the system's base policy and by the tenant's policy, and the stricter of the two wins.
  The Rego engine is a library and a parameter (\<open>rego_engine\<close>): how it prepares a module
  and evaluates a prepared query. The base policy module is Rego text in the source;
  \<open>base_module_value\<close> is what its rules define, and \<open>rego_base_ok\<close> says that the
  engine evaluates that module by its rules.
\<close>

subsection \<open>The base policy module\<close>

definition critical_risk_actions :: "string list" where
  "critical_risk_actions = [''DATA.DELETE'', ''CRM.DELETE'', ''DATA.BULK_EXPORT'', ''DATA.EXPORT'',
     ''ACCESS.GRANT'', ''ACCESS.ROLE_CHANGE'']"

definition is_one_of :: "any \<Rightarrow> string list \<Rightarrow> bool" where
  "is_one_of v xs = (case v of Str_v s \<Rightarrow> s \<in> set xs | _ \<Rightarrow> False)"

definition base_require_approval :: "gomap \<Rightarrow> bool" where
  "base_require_approval input =
     (is_one_of (index_map input ''action_risk'') [''CRITICAL''] \<or>
      (is_one_of (index_map input ''action_type'') critical_risk_actions \<and>
       is_one_of (index_map input ''action_risk'') [''HIGH'', ''CRITICAL'']) \<or>
      is_one_of (index_map input ''action_type'') [''ACCESS.GRANT'', ''ACCESS.ROLE_CHANGE''])"

definition base_module_value :: "gomap \<Rightarrow> any option" where
  "base_module_value input =
     (if base_require_approval input
      then Some (Map_v [(''effect'', Str_v ''REQUIRE_APPROVAL''), (''rule_id'', Str_v ''base_require_approval''),
                        (''reason'', Str_v ''Base policy: action requires approval'')])
      else Some (Map_v [(''effect'', Str_v ''ALLOW''), (''rule_id'', Str_v ''base_allow''),
                        (''reason'', Str_v ''Base policy: no restriction'')]))"

subsection \<open>Engine and evaluator state\<close>

record 'q rego_engine =
  rg_PrepareBase :: "opa_error + 'q"
  rg_Prepare :: "string \<Rightarrow> opa_error + 'q"
  rg_Eval :: "'q \<Rightarrow> gomap \<Rightarrow> opa_error + any option"

record 'q cached_prepared =
  cp_prepared :: 'q
  cp_module :: string
  cp_expiresAt :: time

record 'q evaluator =
  el_base :: "'q option"
  el_cache :: "string \<rightharpoonup> 'q cached_prepared"
  el_ttl :: int

record base_policy_result =
  bp_Effect :: string
  bp_RuleID :: string
  bp_Reason :: string

record policy_result =
  pr_Version :: string
  pr_Decision :: string
  pr_Risk :: string
  pr_Rule :: decision_rule
  pr_Reasons :: "decision_reason list"
  pr_Constraints :: gomap
  pr_Tags :: "string list"
  pr_MatchedRules :: "matched_rule list"
  pr_PolicyVersion :: string

record policy =
  po_PolicyID :: string
  po_TenantID :: string
  po_RegoModule :: string
  po_PolicyVersion :: string
  po_UpdatedAt :: time

datatype policy_error =
    Policy_store store_error
  | InvalidPolicyOutput string string
  | Policy_engine

subsection \<open>Base policy\<close>

definition parseBasePolicyResult :: "any option \<Rightarrow> base_policy_result" where
  "parseBasePolicyResult resultSet =
     (case resultSet of
        None \<Rightarrow> \<lparr>bp_Effect = ''ALLOW'', bp_RuleID = ''base_allow'', bp_Reason = ''Base policy: no result''\<rparr>
      | Some v \<Rightarrow>
          (case as_map v of
             None \<Rightarrow> \<lparr>bp_Effect = ''ALLOW'', bp_RuleID = ''base_allow'', bp_Reason = ''Base policy: parse error''\<rparr>
           | Some value \<Rightarrow>
               (let str = (\<lambda>k. case as_string (index_map value k) of None \<Rightarrow> [] | Some s \<Rightarrow> s);
                    effect = (if str ''effect'' = [] then ''ALLOW'' else str ''effect'')
                in \<lparr>bp_Effect = (if isDecisionAllowed effect then effect else ''ALLOW''),
                    bp_RuleID = str ''rule_id'', bp_Reason = str ''reason''\<rparr>)))"

definition getBasePolicyPrepared :: "'q rego_engine \<Rightarrow> 'q evaluator \<Rightarrow> (opa_error + 'q) \<times> 'q evaluator" where
  "getBasePolicyPrepared rg ev =
     (case el_base ev of Some q \<Rightarrow> (Inr q, ev)
      | None \<Rightarrow> (case rg_PrepareBase rg of
                   Inl e \<Rightarrow> (Inl e, ev) | Inr q \<Rightarrow> (Inr q, ev\<lparr>el_base := Some q\<rparr>)))"

definition EvaluateBasePolicy ::
  "'q rego_engine \<Rightarrow> gomap \<Rightarrow> 'q evaluator \<Rightarrow> (opa_error + base_policy_result) \<times> 'q evaluator" where
  "EvaluateBasePolicy rg input ev =
     (case getBasePolicyPrepared rg ev of
        (Inl e, ev1) \<Rightarrow> (Inl e, ev1)
      | (Inr q, ev1) \<Rightarrow> (bind_r (rg_Eval rg q input) (\<lambda>rs. Inr (parseBasePolicyResult rs)), ev1))"

definition appendTag :: "string list \<Rightarrow> string \<Rightarrow> string list" where
  "appendTag tags tag = tags @ [tag]"

definition MergeBasePolicyDecision :: "base_policy_result \<Rightarrow> policy_result \<Rightarrow> policy_result" where
  "MergeBasePolicyDecision base tenant =
     (if bp_Effect base = ''DENY''
      then tenant\<lparr>pr_Decision := ''DENY'', pr_Tags := appendTag (pr_Tags tenant) ''base_policy:DENY''\<rparr>
      else if bp_Effect base = ''REQUIRE_APPROVAL''
      then tenant\<lparr>pr_Decision := (if pr_Decision tenant = ''ALLOW'' then ''REQUIRE_APPROVAL'' else pr_Decision tenant),
                  pr_Tags := appendTag (pr_Tags tenant) ''base_policy:REQUIRE_APPROVAL''\<rparr>
      else tenant\<lparr>pr_Tags := appendTag (pr_Tags tenant) ''base_policy:ALLOW''\<rparr>)"

subsection \<open>Tenant policy\<close>

definition wrapPolicyOutputError :: "opa_error \<Rightarrow> string \<Rightarrow> policy_error" where
  "wrapPolicyOutputError err policyVersion =
     (case err of PolicyOutputError reason \<Rightarrow> InvalidPolicyOutput reason policyVersion
      | Rego_error \<Rightarrow> Policy_engine)"

definition EvaluatePrepared :: "'q rego_engine \<Rightarrow> 'q \<Rightarrow> gomap \<Rightarrow> opa_error + opa_result" where
  "EvaluatePrepared rg prepared input = bind_r (rg_Eval rg prepared input) parseResult"

definition toDecisionReasons :: "decision_reason list \<Rightarrow> decision_reason list" where
  "toDecisionReasons reasons = map (\<lambda>r. \<lparr>rs_Code = rs_Code r, rs_Message = rs_Message r\<rparr>) reasons"

definition toDecisionMatchedRules :: "matched_rule list \<Rightarrow> matched_rule list" where
  "toDecisionMatchedRules rules =
     map (\<lambda>r. \<lparr>mr_RuleID = mr_RuleID r, mr_Priority = mr_Priority r, mr_Effect = mr_Effect r,
               mr_Reasons = toDecisionReasons (mr_Reasons r),
               mr_ConstraintsSummary = mr_ConstraintsSummary r\<rparr>) rules"

definition tenant_result :: "opa_result \<Rightarrow> string \<Rightarrow> policy_result" where
  "tenant_result result policyVersion =
     \<lparr>pr_Version = or_Version result, pr_Decision = or_Decision result, pr_Risk = or_Risk result,
      pr_Rule = or_Rule result, pr_Reasons = toDecisionReasons (or_Reasons result),
      pr_Constraints = or_Constraints result, pr_Tags = or_Tags result,
      pr_MatchedRules = toDecisionMatchedRules (or_MatchedRules result), pr_PolicyVersion = policyVersion\<rparr>"

definition wrapped_result :: "string \<Rightarrow> opa_error + opa_result \<Rightarrow> policy_error + policy_result" where
  "wrapped_result policyVersion r =
     (case r of Inl e \<Rightarrow> Inl (wrapPolicyOutputError e policyVersion)
      | Inr res \<Rightarrow> Inr (tenant_result res policyVersion))"

definition evaluateTenantPolicy ::
  "'q rego_engine \<Rightarrow> (store_error + policy) \<Rightarrow> string \<Rightarrow> gomap \<Rightarrow> time \<Rightarrow> 'q evaluator
   \<Rightarrow> (policy_error + policy_result) \<times> 'q evaluator" where
  "evaluateTenantPolicy rg getPolicy tenantID input now ev =
     (case getPolicy of
        Inl e \<Rightarrow> (Inl (Policy_store e), ev)
      | Inr policy \<Rightarrow>
          (let version = po_PolicyVersion policy;
               inputWithVersion = set_key ''policy_version'' (Str_v version) input;
               cacheKey = tenantID @ '':'' @ version;
               fresh = (\<lambda>_. case rg_Prepare rg (po_RegoModule policy) of
                   Inl e \<Rightarrow> (Inl Policy_engine, ev)
                 | Inr prepared \<Rightarrow>
                     (wrapped_result version (EvaluatePrepared rg prepared inputWithVersion),
                      ev\<lparr>el_cache := (el_cache ev)(cacheKey \<mapsto>
                        \<lparr>cp_prepared = prepared, cp_module = po_RegoModule policy,
                         cp_expiresAt = now + el_ttl ev\<rparr>)\<rparr>))
           in case el_cache ev cacheKey of
                None \<Rightarrow> fresh ()
              | Some cached \<Rightarrow>
                  if cp_module cached = po_RegoModule policy \<and> now < cp_expiresAt cached
                  then (wrapped_result version (EvaluatePrepared rg (cp_prepared cached) inputWithVersion), ev)
                  else fresh ()))"

subsection \<open>Evaluate\<close>

definition inputRisk :: "gomap \<Rightarrow> string" where
  "inputRisk input = (case as_string (index_map input ''action_risk'') of None \<Rightarrow> ''MEDIUM'' | Some r \<Rightarrow> r)"

definition base_deny_result :: "base_policy_result \<Rightarrow> gomap \<Rightarrow> policy_result" where
  "base_deny_result base input =
     \<lparr>pr_Version = ''base'', pr_Decision = ''DENY'', pr_Risk = inputRisk input,
      pr_Rule = \<lparr>dr_ID = bp_RuleID base, dr_Priority = 1000\<rparr>,
      pr_Reasons = [\<lparr>rs_Code = ''BASE_POLICY_DENY'', rs_Message = bp_Reason base\<rparr>],
      pr_Constraints = [], pr_Tags = [''base_policy:DENY''], pr_MatchedRules = [], pr_PolicyVersion = []\<rparr>"

definition Evaluate ::
  "'q rego_engine \<Rightarrow> (store_error + policy) \<Rightarrow> string \<Rightarrow> gomap \<Rightarrow> time \<Rightarrow> 'q evaluator
   \<Rightarrow> (policy_error + policy_result) \<times> 'q evaluator" where
  "Evaluate rg getPolicy tenantID input now ev =
     (let (br, ev1) = EvaluateBasePolicy rg input ev;
          base = (case br of Inr b \<Rightarrow> b
            | Inl _ \<Rightarrow> \<lparr>bp_Effect = ''ALLOW'', bp_RuleID = ''base_error'', bp_Reason = ''base policy eval error''\<rparr>)
      in if bp_Effect base = ''DENY'' then (Inr (base_deny_result base input), ev1)
         else case evaluateTenantPolicy rg getPolicy tenantID input now ev1 of
                (Inl e, ev2) \<Rightarrow> (Inl e, ev2)
              | (Inr tenant, ev2) \<Rightarrow> (Inr (MergeBasePolicyDecision base tenant), ev2))"

subsection \<open>Merging takes the stricter decision\<close>

text \<open>Merging never weakens a decision: the merged decision is the stricter one of the base
  policy's effect and the tenant's decision, and the tenant's risk, rule, reasons,
  constraints and matched rules are kept.\<close>

theorem merge_takes_stricter:
  assumes "isDecisionAllowed (bp_Effect base)" and "isDecisionAllowed (pr_Decision tenant)"
  shows "decisionRank (pr_Decision (MergeBasePolicyDecision base tenant)) =
      max (decisionRank (bp_Effect base)) (decisionRank (pr_Decision tenant)) \<and>
    isDecisionAllowed (pr_Decision (MergeBasePolicyDecision base tenant)) \<and>
    pr_Rule (MergeBasePolicyDecision base tenant) = pr_Rule tenant \<and>
    pr_Risk (MergeBasePolicyDecision base tenant) = pr_Risk tenant \<and>
    pr_Reasons (MergeBasePolicyDecision base tenant) = pr_Reasons tenant \<and>
    pr_Constraints (MergeBasePolicyDecision base tenant) = pr_Constraints tenant \<and>
    pr_MatchedRules (MergeBasePolicyDecision base tenant) = pr_MatchedRules tenant"
  using assms by (auto simp: MergeBasePolicyDecision_def isDecisionAllowed_def decisionRank_def)

subsection \<open>The caches do not change the answer\<close>

text \<open>Evaluation without any cache.\<close>

definition base_answer :: "'q rego_engine \<Rightarrow> gomap \<Rightarrow> base_policy_result" where
  "base_answer rg input =
     (case bind_r (rg_PrepareBase rg) (\<lambda>q. rg_Eval rg q input) of
        Inl _ \<Rightarrow> \<lparr>bp_Effect = ''ALLOW'', bp_RuleID = ''base_error'', bp_Reason = ''base policy eval error''\<rparr>
      | Inr rs \<Rightarrow> parseBasePolicyResult rs)"

definition tenant_answer :: "'q rego_engine \<Rightarrow> (store_error + policy) \<Rightarrow> gomap \<Rightarrow> policy_error + policy_result" where
  "tenant_answer rg getPolicy input =
     (case getPolicy of Inl e \<Rightarrow> Inl (Policy_store e)
      | Inr policy \<Rightarrow> (case rg_Prepare rg (po_RegoModule policy) of
          Inl _ \<Rightarrow> Inl Policy_engine
        | Inr q \<Rightarrow> wrapped_result (po_PolicyVersion policy)
            (EvaluatePrepared rg q (set_key ''policy_version'' (Str_v (po_PolicyVersion policy)) input))))"

definition evaluate_answer :: "'q rego_engine \<Rightarrow> (store_error + policy) \<Rightarrow> gomap \<Rightarrow> policy_error + policy_result" where
  "evaluate_answer rg getPolicy input =
     (let base = base_answer rg input
      in if bp_Effect base = ''DENY'' then Inr (base_deny_result base input)
         else bind_r (tenant_answer rg getPolicy input) (\<lambda>t. Inr (MergeBasePolicyDecision base t)))"

definition evaluator_ok :: "'q rego_engine \<Rightarrow> 'q evaluator \<Rightarrow> bool" where
  "evaluator_ok rg ev \<longleftrightarrow> (\<forall>q. el_base ev = Some q \<longrightarrow> rg_PrepareBase rg = Inr q) \<and>
     (\<forall>k c. el_cache ev k = Some c \<longrightarrow> rg_Prepare rg (cp_module c) = Inr (cp_prepared c))"

lemma EvaluateBasePolicy_answer:
  assumes "evaluator_ok rg ev"
  shows "(case fst (EvaluateBasePolicy rg input ev) of Inr b \<Rightarrow> b
      | Inl _ \<Rightarrow> \<lparr>bp_Effect = ''ALLOW'', bp_RuleID = ''base_error'', bp_Reason = ''base policy eval error''\<rparr>)
      = base_answer rg input"
    and "evaluator_ok rg (snd (EvaluateBasePolicy rg input ev))"
  using assms
  by (auto simp: EvaluateBasePolicy_def getBasePolicyPrepared_def base_answer_def evaluator_ok_def bind_r_def
      split: option.splits sum.splits)

lemma cached_prepared:
  "evaluator_ok rg ev \<Longrightarrow> el_cache ev k = Some c \<Longrightarrow> rg_Prepare rg (cp_module c) = Inr (cp_prepared c)"
  by (auto simp: evaluator_ok_def)

lemma evaluateTenantPolicy_answer:
  assumes "evaluator_ok rg ev"
  shows "fst (evaluateTenantPolicy rg gp t input now ev) = tenant_answer rg gp input"
    and "evaluator_ok rg (snd (evaluateTenantPolicy rg gp t input now ev))"
proof -
  show "fst (evaluateTenantPolicy rg gp t input now ev) = tenant_answer rg gp input"
    using cached_prepared [OF assms]
    by (auto simp: evaluateTenantPolicy_def tenant_answer_def Let_def dest!: cached_prepared [OF assms]
        split: option.splits sum.splits)
  show "evaluator_ok rg (snd (evaluateTenantPolicy rg gp t input now ev))"
    using assms
    by (auto simp: evaluateTenantPolicy_def evaluator_ok_def Let_def split: option.splits sum.splits)
qed

lemma evaluate_answer_eq:
  assumes "evaluator_ok rg ev"
  shows "fst (Evaluate rg getPolicy tenantID input now ev) = evaluate_answer rg getPolicy input \<and>
    evaluator_ok rg (snd (Evaluate rg getPolicy tenantID input now ev))"
proof -
  obtain br ev1 where b: "EvaluateBasePolicy rg input ev = (br, ev1)" by fastforce
  obtain tr ev2 where t: "evaluateTenantPolicy rg getPolicy tenantID input now ev1 = (tr, ev2)" by fastforce
  have ok1: "evaluator_ok rg ev1" using EvaluateBasePolicy_answer(2) [OF assms] b by (metis snd_conv)
  have tr: "tr = tenant_answer rg getPolicy input" "evaluator_ok rg ev2"
    using evaluateTenantPolicy_answer [OF ok1] t by (metis fst_conv snd_conv)+
  show ?thesis
    using EvaluateBasePolicy_answer(1) [OF assms, of input] b t tr ok1
    by (auto simp: Evaluate_def evaluate_answer_def Let_def bind_r_def split: sum.splits)
qed

text \<open>C14: the caches of prepared queries are transparent: from a consistent evaluator state,
  at any time and for any tenant, \<open>Evaluate\<close> answers as if every module were prepared
  afresh, and leaves a consistent state.\<close>

theorem evaluate_cache_transparent:
  assumes "evaluator_ok rg ev"
  shows "fst (Evaluate rg getPolicy tenantID input now ev) = evaluate_answer rg getPolicy input \<and>
    evaluator_ok rg (snd (Evaluate rg getPolicy tenantID input now ev))"
  using assms by (rule evaluate_answer_eq)

subsection \<open>The base policy cannot be overridden\<close>

definition rego_base_ok :: "'q rego_engine \<Rightarrow> bool" where
  "rego_base_ok rg \<longleftrightarrow> (\<exists>q. rg_PrepareBase rg = Inr q \<and> (\<forall>input. rg_Eval rg q input = Inr (base_module_value input)))"

lemma base_answer_effect:
  "rego_base_ok rg \<Longrightarrow> bp_Effect (base_answer rg input) =
     (if base_require_approval input then ''REQUIRE_APPROVAL'' else ''ALLOW'')"
  by (auto simp: rego_base_ok_def base_answer_def base_module_value_def parseBasePolicyResult_def index_map_def
      isDecisionAllowed_def)

lemma tenant_answer_allowed:
  assumes "tenant_answer rg gp input = Inr t"
  shows "isDecisionAllowed (pr_Decision t) \<and> isRiskAllowed (pr_Risk t) \<and> pr_Reasons t \<noteq> []"
proof -
  obtain r x v where "parseResult r = Inr x" and "t = tenant_result x v"
    using assms by (auto simp: tenant_answer_def wrapped_result_def EvaluatePrepared_def split: sum.splits)
  then show ?thesis using parseResult_ok [of r x] by (simp add: tenant_result_def toDecisionReasons_def fields_ok_def)
qed

lemma base_policy_holds:
  assumes "rego_base_ok rg" and "evaluator_ok rg ev"
    and "fst (Evaluate rg getPolicy tenantID input now ev) = Inr r"
  shows "isDecisionAllowed (pr_Decision r) \<and>
    (base_require_approval input \<longrightarrow> pr_Decision r \<noteq> ''ALLOW'')"
proof -
  have "evaluate_answer rg getPolicy input = Inr r"
    using evaluate_answer_eq [OF assms(2)] assms(3) by metis
  then obtain t where t: "tenant_answer rg getPolicy input = Inr t" "r = MergeBasePolicyDecision (base_answer rg input) t"
    using base_answer_effect [OF assms(1), of input] by (auto simp: evaluate_answer_def Let_def split: if_splits)
  with tenant_answer_allowed [OF t(1)] base_answer_effect [OF assms(1), of input] show ?thesis
    by (auto simp: MergeBasePolicyDecision_def isDecisionAllowed_def)
qed

text \<open>C4: no tenant policy can override the base policy: for an input of CRITICAL risk, a
  destructive or export action of HIGH risk, or any access mutation, an evaluation that
  succeeds answers REQUIRE\_APPROVAL or DENY; for every input a successful evaluation gives
  one of the three decisions.\<close>

theorem base_policy_not_overridden:
  assumes "rego_base_ok rg" and "evaluator_ok rg ev"
    and "fst (Evaluate rg getPolicy tenantID input now ev) = Inr r"
  shows "isDecisionAllowed (pr_Decision r) \<and>
    (base_require_approval input \<longrightarrow> pr_Decision r \<noteq> ''ALLOW'')"
  using assms by (rule base_policy_holds)

subsection \<open>A concrete engine\<close>

text \<open>An engine whose prepared queries are functions: the base module by its rules, and every
  tenant module a constant ALLOW.\<close>

definition sample_engine :: "(gomap \<Rightarrow> any option) rego_engine" where
  "sample_engine = \<lparr>rg_PrepareBase = Inr base_module_value,
     rg_Prepare = (\<lambda>m. Inr (\<lambda>_. Some (Map_v (sample_output [])))), rg_Eval = (\<lambda>q input. Inr (q input))\<rparr>"

definition sample_evaluator :: "(gomap \<Rightarrow> any option) evaluator" where
  "sample_evaluator = \<lparr>el_base = None, el_cache = Map.empty, el_ttl = 300\<rparr>"

definition sample_policy :: policy where
  "sample_policy = \<lparr>po_PolicyID = ''p'', po_TenantID = ''t1'', po_RegoModule = ''m'', po_PolicyVersion = ''v1'', po_UpdatedAt = 0\<rparr>"

definition critical_input :: gomap where
  "critical_input = [(''action_type'', Str_v ''DATA.DELETE''), (''action_risk'', Str_v ''CRITICAL'')]"

lemma sample_engine_ok: "rego_base_ok sample_engine" "evaluator_ok sample_engine sample_evaluator"
  by (simp_all add: rego_base_ok_def evaluator_ok_def sample_engine_def sample_evaluator_def)

lemma sample_evaluates:
  "map_sum id pr_Decision (fst (Evaluate sample_engine (Inr sample_policy) ''t1'' critical_input 0 sample_evaluator))
     = Inr ''REQUIRE_APPROVAL''"
  by code_simp

theorem merge_takes_stricter_witness:
  "decisionRank (pr_Decision (MergeBasePolicyDecision
     \<lparr>bp_Effect = ''REQUIRE_APPROVAL'', bp_RuleID = [], bp_Reason = []\<rparr>
     (base_deny_result \<lparr>bp_Effect = ''DENY'', bp_RuleID = [], bp_Reason = []\<rparr> []))) = 3"
proof -
  have "isDecisionAllowed ''REQUIRE_APPROVAL''" "isDecisionAllowed ''DENY''" by (simp_all add: isDecisionAllowed_def)
  then show ?thesis
    using merge_takes_stricter [of "\<lparr>bp_Effect = ''REQUIRE_APPROVAL'', bp_RuleID = [], bp_Reason = []\<rparr>"
      "base_deny_result \<lparr>bp_Effect = ''DENY'', bp_RuleID = [], bp_Reason = []\<rparr> []"]
    by (simp add: base_deny_result_def decisionRank_def)
qed

theorem evaluate_cache_transparent_witness:
  "fst (Evaluate sample_engine (Inr sample_policy) ''t1'' critical_input 0 sample_evaluator) =
     evaluate_answer sample_engine (Inr sample_policy) critical_input"
  using evaluate_cache_transparent [OF sample_engine_ok(2)] by blast

theorem base_policy_not_overridden_witness:
  "\<exists>r. fst (Evaluate sample_engine (Inr sample_policy) ''t1'' critical_input 0 sample_evaluator) = Inr r \<and>
     base_require_approval critical_input \<and> pr_Decision r \<noteq> ''ALLOW''"
proof -
  have c: "base_require_approval critical_input" by code_simp
  obtain r where "fst (Evaluate sample_engine (Inr sample_policy) ''t1'' critical_input 0 sample_evaluator) = Inr r"
    using sample_evaluates
    by (cases "fst (Evaluate sample_engine (Inr sample_policy) ''t1'' critical_input 0 sample_evaluator)") auto
  with base_policy_not_overridden [OF sample_engine_ok this] c show ?thesis by blast
qed

end
