(* ===== verification/Config_Store.thy ===== *)
theory Config_Store
  imports Rate_Limit Tool_Exec Policy_Eval
begin

text \<open>
  The configuration half of \<open>src/internal/store/store.go\<close>: system settings, the
  tenants' configuration row with its version counter, policy versions, tools and risk
  overrides, with one definition per operation. An operation is a sequence of SQL statements
  without a transaction; \<open>flt k\<close> is the driver error, if any, that its statement number
  \<open>k\<close> meets, and an operation that fails half-way keeps what its earlier statements
  wrote. The theorems show the admin write lock and the publication and rollback of policy
  versions; \<open>Cache_Coherence\<close> shows that the version counter keeps the gateway's caches
  coherent with the tables.
\<close>

subsection \<open>Tables\<close>

record tenant_config =
  tg_TenantID :: string
  tg_ActivePolicyVersion :: string
  tg_EnforcementMode :: string
  tg_MCPPassthroughUpstreamToolID :: string
  tg_Version :: int
  tg_TrialStartedAt :: "time option"
  tg_CreatedAt :: time
  tg_UpdatedAt :: time

record policy_version =
  pn_TenantID :: string
  pn_PolicyVersion :: string
  pn_RegoModule :: string
  pn_CreatedAt :: time
  pn_CreatedBy :: string
  pn_Notes :: string
  pn_StructuredJSON :: string
  pn_AuthoringMode :: string

record risk_override =
  ro_TenantID :: string
  ro_ActionType :: string
  ro_ActionRisk :: string
  ro_UpdatedAt :: time

record config_db =
  cb_settings :: settings
  cb_configs :: "tenant_config list"
  cb_policies :: "policy_version list"
  cb_tools :: "tool list"
  cb_risks :: "risk_override list"

text \<open>Primary keys: one configuration row per tenant, one policy per tenant and version, one
  tool per tenant and id, one override per tenant and action type.\<close>

definition config_of :: "config_db \<Rightarrow> string \<Rightarrow> tenant_config option" where
  "config_of db tenantID = find (\<lambda>c. tg_TenantID c = tenantID) (cb_configs db)"

definition policy_of :: "config_db \<Rightarrow> string \<Rightarrow> string \<Rightarrow> policy_version option" where
  "policy_of db tenantID version =
     find (\<lambda>p. pn_TenantID p = tenantID \<and> pn_PolicyVersion p = version) (cb_policies db)"

definition tool_of :: "config_db \<Rightarrow> string \<Rightarrow> string \<Rightarrow> tool option" where
  "tool_of db tenantID toolID = find (\<lambda>t. tl_TenantID t = tenantID \<and> tl_ToolID t = toolID) (cb_tools db)"

definition risk_of :: "config_db \<Rightarrow> string \<Rightarrow> string \<Rightarrow> risk_override option" where
  "risk_of db tenantID actionType =
     find (\<lambda>r. ro_TenantID r = tenantID \<and> ro_ActionType r = actionType) (cb_risks db)"

definition or_not_found :: "'a option \<Rightarrow> store_error + 'a" where
  "or_not_found x = (case x of None \<Rightarrow> Inl ErrNotFound | Some a \<Rightarrow> Inr a)"

subsection \<open>Statements\<close>

type_synonym 'a result = "(store_error + 'a) \<times> config_db"
type_synonym faults = "nat \<Rightarrow> store_error option"

definition stmt :: "faults \<Rightarrow> nat \<Rightarrow> (config_db \<Rightarrow> 'a result) \<Rightarrow> config_db \<Rightarrow> 'a result" where
  "stmt flt k s db = (case flt k of Some e \<Rightarrow> (Inl e, db) | None \<Rightarrow> s db)"

definition next_stmt :: "'a result \<Rightarrow> ('a \<Rightarrow> config_db \<Rightarrow> 'b result) \<Rightarrow> 'b result" where
  "next_stmt r f = (case r of (Inl e, db) \<Rightarrow> (Inl e, db) | (Inr a, db) \<Rightarrow> f a db)"

lemma next_stmt_simps [simp]:
  "next_stmt (Inl e, db) f = (Inl e, db)" "next_stmt (Inr a, db) f = f a db"
  by (simp_all add: next_stmt_def)

lemma stmt_ok [simp]: "flt k = None \<Longrightarrow> stmt flt k s db = s db"
  by (simp add: stmt_def)

text \<open>An UPDATE of the rows that match; \<open>ErrNotFound\<close> when the code looks at the number of
  affected rows and it is zero.\<close>

definition update_rows :: "('r \<Rightarrow> bool) \<Rightarrow> ('r \<Rightarrow> 'r) \<Rightarrow> 'r list \<Rightarrow> 'r list" where
  "update_rows p f rows = map (\<lambda>r. if p r then f r else r) rows"

definition affected :: "('r \<Rightarrow> bool) \<Rightarrow> 'r list \<Rightarrow> bool" where
  "affected p rows = (\<exists>r\<in>set rows. p r)"

lemma update_rows_id: "\<not> affected p rows \<Longrightarrow> update_rows p f rows = rows"
  by (auto simp: update_rows_def affected_def intro: map_idI)

lemma find_update_other:
  "(\<And>r. q r \<Longrightarrow> \<not> p r) \<Longrightarrow> (\<And>r. p r \<Longrightarrow> q (f r) = q r) \<Longrightarrow> find q (update_rows p f rows) = find q rows"
  by (induction rows) (auto simp: update_rows_def)

lemma find_update_same:
  "(\<And>r. p r \<Longrightarrow> p (f r)) \<Longrightarrow> find p (update_rows p f rows) = map_option f (find p rows)"
  by (induction rows) (auto simp: update_rows_def)

lemma find_filter_other: "(\<And>r. q r \<Longrightarrow> p r) \<Longrightarrow> find q (filter p rows) = find q rows"
  by (induction rows) auto

lemma affected_find: "affected p rows \<longleftrightarrow> find p rows \<noteq> None"
  by (induction rows) (auto simp: affected_def)

subsection \<open>System settings\<close>

definition put_setting :: "faults \<Rightarrow> nat \<Rightarrow> string \<Rightarrow> string \<Rightarrow> config_db \<Rightarrow> unit result" where
  "put_setting flt k key val db =
     stmt flt k (\<lambda>db. (Inr (), db\<lparr>cb_settings := (cb_settings db)(key \<mapsto> val)\<rparr>)) db"

definition bool_text :: "bool \<Rightarrow> string" where
  "bool_text b = (if b then ''true'' else ''false'')"

definition setSystemSettingBool :: "faults \<Rightarrow> string \<Rightarrow> bool \<Rightarrow> config_db \<Rightarrow> unit result" where
  "setSystemSettingBool flt key enabled db = put_setting flt 0 key (bool_text enabled) db"

definition getSystemSettingBool :: "faults \<Rightarrow> string \<Rightarrow> config_db \<Rightarrow> store_error + bool" where
  "getSystemSettingBool flt key db =
     (case flt 0 of Some e \<Rightarrow> Inl e
      | None \<Rightarrow> (case cb_settings db key of None \<Rightarrow> Inl ErrNotFound | Some v \<Rightarrow> Inr (v = ''true'')))"

text \<open>The two settings whose absence means false.\<close>

definition flag_or_false :: "faults \<Rightarrow> string \<Rightarrow> config_db \<Rightarrow> store_error + bool" where
  "flag_or_false flt key db =
     (case flt 0 of Some e \<Rightarrow> Inl e
      | None \<Rightarrow> Inr (cb_settings db key = Some ''true''))"

definition MarkBootstrapComplete :: "faults \<Rightarrow> config_db \<Rightarrow> unit result" where
  "MarkBootstrapComplete flt db = put_setting flt 0 ''bootstrap_complete'' ''true'' db"

definition GetBootstrapComplete :: "faults \<Rightarrow> config_db \<Rightarrow> store_error + bool" where
  "GetBootstrapComplete flt db = flag_or_false flt ''bootstrap_complete'' db"

definition SetAdminWriteLock :: "faults \<Rightarrow> bool \<Rightarrow> config_db \<Rightarrow> unit result" where
  "SetAdminWriteLock flt locked db = put_setting flt 0 ''admin_write_lock'' (bool_text locked) db"

definition GetAdminWriteLock :: "faults \<Rightarrow> config_db \<Rightarrow> store_error + bool" where
  "GetAdminWriteLock flt db = flag_or_false flt ''admin_write_lock'' db"

definition ensureAdminWritesAllowed :: "faults \<Rightarrow> config_db \<Rightarrow> unit result" where
  "ensureAdminWritesAllowed flt db =
     stmt flt 0 (\<lambda>db. if cb_settings db ''admin_write_lock'' = Some ''true''
                      then (Inl ErrAdminWriteLocked, db) else (Inr (), db)) db"

definition get_int_setting :: "faults \<Rightarrow> string \<Rightarrow> config_db \<Rightarrow> store_error + int" where
  "get_int_setting flt key db =
     (case flt 0 of Some e \<Rightarrow> Inl e
      | None \<Rightarrow> (case cb_settings db key of None \<Rightarrow> Inl ErrNotFound
          | Some v \<Rightarrow> (case ParseInt v of None \<Rightarrow> Inl ErrDB | Some i \<Rightarrow> Inr i)))"

definition SetDefaultApprovalTTLSeconds :: "faults \<Rightarrow> int \<Rightarrow> config_db \<Rightarrow> unit result" where
  "SetDefaultApprovalTTLSeconds flt seconds db =
     put_setting flt 0 ''default_approval_ttl_seconds'' (int_text seconds) db"

definition GetDefaultApprovalTTLSeconds :: "faults \<Rightarrow> config_db \<Rightarrow> store_error + int" where
  "GetDefaultApprovalTTLSeconds flt db = get_int_setting flt ''default_approval_ttl_seconds'' db"

definition SetAuditRetentionDays :: "faults \<Rightarrow> int \<Rightarrow> config_db \<Rightarrow> unit result" where
  "SetAuditRetentionDays flt days db = put_setting flt 0 ''audit_retention_days'' (int_text days) db"

definition GetAuditRetentionDays :: "faults \<Rightarrow> config_db \<Rightarrow> store_error + int" where
  "GetAuditRetentionDays flt db = get_int_setting flt ''audit_retention_days'' db"

definition SetSessionTokenTTLSeconds :: "faults \<Rightarrow> int \<Rightarrow> config_db \<Rightarrow> unit result" where
  "SetSessionTokenTTLSeconds flt seconds db =
     (if seconds \<le> 0 then (Inl ErrDB, db)
      else put_setting flt 0 ''session_token_ttl_seconds'' (int_text seconds) db)"

definition GetSessionTokenTTLSeconds :: "faults \<Rightarrow> config_db \<Rightarrow> store_error + int" where
  "GetSessionTokenTTLSeconds flt db = get_int_setting flt ''session_token_ttl_seconds'' db"

text \<open>The three rate limit settings are written in one transaction: all of them or none.\<close>

definition SetDefaultRateLimitConfig :: "faults \<Rightarrow> int \<Rightarrow> int \<Rightarrow> string \<Rightarrow> config_db \<Rightarrow> unit result" where
  "SetDefaultRateLimitConfig flt perMinute perDay scope db =
     (if perMinute \<le> 0 \<or> perDay \<le> 0 then (Inl ErrDB, db)
      else if \<not> isRateLimitScope (TrimSpace scope) then (Inl ErrDB, db)
      else case flt 0 of Some e \<Rightarrow> (Inl e, db)
      | None \<Rightarrow>
          (case next_stmt (put_setting flt 1 ''default_rate_limit_per_minute'' (int_text perMinute) db)
             (\<lambda>_ db. next_stmt (put_setting flt 2 ''default_rate_limit_per_day'' (int_text perDay) db)
             (\<lambda>_ db. next_stmt (put_setting flt 3 ''default_rate_limit_scope'' (TrimSpace scope) db)
             (\<lambda>_ db. stmt flt 4 (\<lambda>db. (Inr (), db)) db))) of
             (Inl e, _) \<Rightarrow> (Inl e, db)
           | (Inr _, db') \<Rightarrow> (Inr (), db')))"

subsection \<open>Tenant configuration\<close>

definition GetTenantConfig :: "faults \<Rightarrow> string \<Rightarrow> config_db \<Rightarrow> store_error + tenant_config" where
  "GetTenantConfig flt tenantID db =
     (case flt 0 of Some e \<Rightarrow> Inl e
      | None \<Rightarrow> (case config_of db tenantID of None \<Rightarrow> Inl ErrNotFound
          | Some c \<Rightarrow> Inr (if TrimSpace (tg_EnforcementMode c) = []
                          then c\<lparr>tg_EnforcementMode := ''enforce''\<rparr> else c)))"

definition set_configs :: "(tenant_config list \<Rightarrow> tenant_config list) \<Rightarrow> config_db \<Rightarrow> config_db" where
  "set_configs f db = db\<lparr>cb_configs := f (cb_configs db)\<rparr>"

definition bumpTenantConfigVersion :: "faults \<Rightarrow> nat \<Rightarrow> string \<Rightarrow> time \<Rightarrow> config_db \<Rightarrow> unit result" where
  "bumpTenantConfigVersion flt k tenantID now db =
     stmt flt k (\<lambda>db. (Inr (), set_configs (update_rows (\<lambda>c. tg_TenantID c = tenantID)
        (\<lambda>c. c\<lparr>tg_Version := tg_Version c + 1, tg_UpdatedAt := now\<rparr>)) db)) db"

text \<open>The table's CHECK constraint admits two enforcement modes.\<close>

definition SetTenantEnforcementMode :: "faults \<Rightarrow> time \<Rightarrow> string \<Rightarrow> string \<Rightarrow> config_db \<Rightarrow> unit result" where
  "SetTenantEnforcementMode flt now tenantID mode db =
     next_stmt (ensureAdminWritesAllowed flt db) (\<lambda>_ db. stmt flt 1 (\<lambda>db.
       if \<not> affected (\<lambda>c. tg_TenantID c = tenantID) (cb_configs db) then (Inl ErrNotFound, db)
       else if mode \<notin> {''enforce'', ''shadow''} then (Inl ErrDB, db)
       else (Inr (), set_configs (update_rows (\<lambda>c. tg_TenantID c = tenantID)
              (\<lambda>c. c\<lparr>tg_EnforcementMode := mode, tg_UpdatedAt := now\<rparr>)) db)) db)"

definition SetTenantMCPPassthroughUpstreamToolID ::
  "faults \<Rightarrow> time \<Rightarrow> string \<Rightarrow> string \<Rightarrow> config_db \<Rightarrow> unit result" where
  "SetTenantMCPPassthroughUpstreamToolID flt now tenantID toolID db =
     next_stmt (ensureAdminWritesAllowed flt db) (\<lambda>_ db. stmt flt 1 (\<lambda>db.
       if \<not> affected (\<lambda>c. tg_TenantID c = tenantID) (cb_configs db) then (Inl ErrNotFound, db)
       else (Inr (), set_configs (update_rows (\<lambda>c. tg_TenantID c = tenantID)
              (\<lambda>c. c\<lparr>tg_MCPPassthroughUpstreamToolID := toolID, tg_UpdatedAt := now\<rparr>)) db)) db)"

subsection \<open>Policy versions\<close>

definition GetPolicy :: "faults \<Rightarrow> string \<Rightarrow> config_db \<Rightarrow> store_error + policy" where
  "GetPolicy flt tenantID db =
     (case flt 0 of Some e \<Rightarrow> Inl e
      | None \<Rightarrow> (case config_of db tenantID of None \<Rightarrow> Inl ErrNotFound
          | Some c \<Rightarrow> (case policy_of db tenantID (tg_ActivePolicyVersion c) of None \<Rightarrow> Inl ErrNotFound
              | Some p \<Rightarrow> Inr \<lparr>po_PolicyID = pn_PolicyVersion p, po_TenantID = pn_TenantID p,
                             po_RegoModule = pn_RegoModule p, po_PolicyVersion = pn_PolicyVersion p,
                             po_UpdatedAt = pn_CreatedAt p\<rparr>)))"

definition GetPolicyVersion :: "faults \<Rightarrow> string \<Rightarrow> string \<Rightarrow> config_db \<Rightarrow> store_error + policy_version" where
  "GetPolicyVersion flt tenantID version db =
     (case flt 0 of Some e \<Rightarrow> Inl e
      | None \<Rightarrow> or_not_found (map_option (\<lambda>p. if pn_AuthoringMode p = [] then p\<lparr>pn_AuthoringMode := ''rego''\<rparr> else p)
                   (policy_of db tenantID version)))"

definition insert_policy_version :: "faults \<Rightarrow> policy_version \<Rightarrow> config_db \<Rightarrow> unit result" where
  "insert_policy_version flt row db =
     next_stmt (ensureAdminWritesAllowed flt db) (\<lambda>_ db. stmt flt 1 (\<lambda>db.
       if policy_of db (pn_TenantID row) (pn_PolicyVersion row) \<noteq> None then (Inl ErrDB, db)
       else (Inr (), db\<lparr>cb_policies := cb_policies db @ [row]\<rparr>)) db)"

definition CreatePolicyVersion ::
  "faults \<Rightarrow> time \<Rightarrow> string \<Rightarrow> string \<Rightarrow> string \<Rightarrow> string \<Rightarrow> string \<Rightarrow> config_db \<Rightarrow> unit result" where
  "CreatePolicyVersion flt now tenantID version regoModule createdBy notes db =
     insert_policy_version flt \<lparr>pn_TenantID = tenantID, pn_PolicyVersion = version,
       pn_RegoModule = regoModule, pn_CreatedAt = now, pn_CreatedBy = createdBy, pn_Notes = notes,
       pn_StructuredJSON = [], pn_AuthoringMode = ''rego''\<rparr> db"

definition CreatePolicyVersionStructured ::
  "faults \<Rightarrow> time \<Rightarrow> string \<Rightarrow> string \<Rightarrow> string \<Rightarrow> string \<Rightarrow> string \<Rightarrow> string \<Rightarrow> config_db \<Rightarrow> unit result" where
  "CreatePolicyVersionStructured flt now tenantID version regoModule structuredJSON createdBy notes db =
     insert_policy_version flt \<lparr>pn_TenantID = tenantID, pn_PolicyVersion = version,
       pn_RegoModule = regoModule, pn_CreatedAt = now, pn_CreatedBy = createdBy, pn_Notes = notes,
       pn_StructuredJSON = structuredJSON, pn_AuthoringMode = ''structured''\<rparr> db"

definition activate :: "string \<Rightarrow> string \<Rightarrow> time \<Rightarrow> config_db \<Rightarrow> config_db" where
  "activate tenantID version now db =
     (if affected (\<lambda>c. tg_TenantID c = tenantID) (cb_configs db)
      then set_configs (update_rows (\<lambda>c. tg_TenantID c = tenantID)
             (\<lambda>c. c\<lparr>tg_ActivePolicyVersion := version, tg_UpdatedAt := now, tg_Version := tg_Version c + 1\<rparr>)) db
      else set_configs (\<lambda>cs. cs @ [\<lparr>tg_TenantID = tenantID, tg_ActivePolicyVersion = version,
             tg_EnforcementMode = ''enforce'', tg_MCPPassthroughUpstreamToolID = [], tg_Version = 1,
             tg_TrialStartedAt = Some now, tg_CreatedAt = now, tg_UpdatedAt = now\<rparr>]) db)"

definition PublishPolicyVersion :: "faults \<Rightarrow> time \<Rightarrow> string \<Rightarrow> string \<Rightarrow> config_db \<Rightarrow> unit result" where
  "PublishPolicyVersion flt now tenantID version db =
     next_stmt (ensureAdminWritesAllowed flt db) (\<lambda>_ db.
     next_stmt (stmt flt 1 (\<lambda>db. (Inr (policy_of db tenantID version \<noteq> None), db)) db) (\<lambda>found db.
       if \<not> found then (Inl ErrNotFound, db)
       else stmt flt 2 (\<lambda>db. (Inr (), activate tenantID version now db)) db))"

text \<open>\<open>ORDER BY created_at DESC LIMIT 1\<close>: the first row with the greatest creation time.\<close>

fun newest :: "policy_version list \<Rightarrow> policy_version option" where
  "newest [] = None"
| "newest (p # ps) = (case newest ps of None \<Rightarrow> Some p
     | Some q \<Rightarrow> if pn_CreatedAt q > pn_CreatedAt p then Some q else Some p)"

definition RollbackPolicyVersion :: "faults \<Rightarrow> time \<Rightarrow> string \<Rightarrow> string \<Rightarrow> config_db \<Rightarrow> unit result" where
  "RollbackPolicyVersion flt now tenantID version db =
     next_stmt (ensureAdminWritesAllowed flt db) (\<lambda>_ db.
     if version \<noteq> [] then PublishPolicyVersion (\<lambda>k. flt (k + 1)) now tenantID version db
     else next_stmt (stmt flt 1 (\<lambda>db. (or_not_found (config_of db tenantID), db)) db) (\<lambda>c db.
          next_stmt (stmt flt 2 (\<lambda>db. (or_not_found (newest (filter (\<lambda>p. pn_TenantID p = tenantID \<and>
              pn_PolicyVersion p \<noteq> tg_ActivePolicyVersion c) (cb_policies db))), db)) db) (\<lambda>previous db.
          PublishPolicyVersion (\<lambda>k. flt (k + 3)) now tenantID (pn_PolicyVersion previous) db)))"

definition UpdatePolicy :: "faults \<Rightarrow> time \<Rightarrow> string \<Rightarrow> string \<Rightarrow> string \<Rightarrow> config_db \<Rightarrow> unit result" where
  "UpdatePolicy flt now tenantID regoModule version db =
     next_stmt (ensureAdminWritesAllowed flt db) (\<lambda>_ db.
     next_stmt (stmt flt 1 (\<lambda>db. (Inr (),
        if policy_of db tenantID version = None
        then db\<lparr>cb_policies := cb_policies db @ [\<lparr>pn_TenantID = tenantID, pn_PolicyVersion = version,
               pn_RegoModule = regoModule, pn_CreatedAt = now, pn_CreatedBy = [],
               pn_Notes = ''legacy admin policy update'', pn_StructuredJSON = [], pn_AuthoringMode = []\<rparr>]\<rparr>
        else db\<lparr>cb_policies := update_rows (\<lambda>p. pn_TenantID p = tenantID \<and> pn_PolicyVersion p = version)
               (\<lambda>p. p\<lparr>pn_RegoModule := regoModule\<rparr>) (cb_policies db)\<rparr>)) db)
     (\<lambda>_ db. PublishPolicyVersion (\<lambda>k. flt (k + 2)) now tenantID version db))"

subsection \<open>Risk overrides\<close>

definition GetRiskOverride :: "faults \<Rightarrow> string \<Rightarrow> string \<Rightarrow> config_db \<Rightarrow> store_error + string" where
  "GetRiskOverride flt tenantID actionType db =
     (case flt 0 of Some e \<Rightarrow> Inl e
      | None \<Rightarrow> or_not_found (map_option ro_ActionRisk (risk_of db tenantID actionType)))"

definition UpdateRiskOverride ::
  "faults \<Rightarrow> time \<Rightarrow> string \<Rightarrow> string \<Rightarrow> string \<Rightarrow> config_db \<Rightarrow> unit result" where
  "UpdateRiskOverride flt now tenantID actionType actionRisk db =
     next_stmt (ensureAdminWritesAllowed flt db) (\<lambda>_ db.
     next_stmt (stmt flt 1 (\<lambda>db. (Inr (),
        if risk_of db tenantID actionType = None
        then db\<lparr>cb_risks := cb_risks db @ [\<lparr>ro_TenantID = tenantID, ro_ActionType = actionType,
               ro_ActionRisk = actionRisk, ro_UpdatedAt = now\<rparr>]\<rparr>
        else db\<lparr>cb_risks := update_rows (\<lambda>r. ro_TenantID r = tenantID \<and> ro_ActionType r = actionType)
               (\<lambda>r. r\<lparr>ro_ActionRisk := actionRisk, ro_UpdatedAt := now\<rparr>) (cb_risks db)\<rparr>)) db)
     (\<lambda>_ db. bumpTenantConfigVersion flt 2 tenantID now db))"

definition DeleteRiskOverride :: "faults \<Rightarrow> time \<Rightarrow> string \<Rightarrow> string \<Rightarrow> config_db \<Rightarrow> unit result" where
  "DeleteRiskOverride flt now tenantID actionType db =
     next_stmt (ensureAdminWritesAllowed flt db) (\<lambda>_ db.
     next_stmt (stmt flt 1 (\<lambda>db. (Inr (), db\<lparr>cb_risks :=
        filter (\<lambda>r. \<not> (ro_TenantID r = tenantID \<and> ro_ActionType r = actionType)) (cb_risks db)\<rparr>)) db)
     (\<lambda>_ db. bumpTenantConfigVersion flt 2 tenantID now db))"

subsection \<open>Tools\<close>

abbreviation tool_row :: "string \<Rightarrow> string \<Rightarrow> tool \<Rightarrow> bool" where
  "tool_row tenantID toolID t \<equiv> tl_TenantID t = tenantID \<and> tl_ToolID t = toolID"

definition GetTool :: "faults \<Rightarrow> string \<Rightarrow> string \<Rightarrow> config_db \<Rightarrow> store_error + tool" where
  "GetTool flt tenantID toolID db =
     (case flt 0 of Some e \<Rightarrow> Inl e | None \<Rightarrow> or_not_found (tool_of db tenantID toolID))"

definition ListTools :: "faults \<Rightarrow> string \<Rightarrow> bool \<Rightarrow> bool \<Rightarrow> config_db \<Rightarrow> store_error + tool list" where
  "ListTools flt tenantID includeArchived excludeDevSeeds db =
     (case flt 0 of Some e \<Rightarrow> Inl e
      | None \<Rightarrow> Inr (SliceStable (\<lambda>a b. str_less (tl_ToolID a) (tl_ToolID b))
          (filter (\<lambda>t. tl_TenantID t = tenantID \<and> (includeArchived \<or> tl_ArchivedAt t = None) \<and>
                      (\<not> excludeDevSeeds \<or> tl_Source t \<noteq> ''dev_seed'')) (cb_tools db))))"

text \<open>The CHECK constraints of the table (\<open>migrations/00017\_mcp\_tool\_fields.sql\<close>).\<close>

definition tool_row_ok :: "tool \<Rightarrow> bool" where
  "tool_row_ok t = (tl_Transport t \<in> {''http_api'', ''mcp_streamable_http''} \<and>
     (tl_Transport t = ''mcp_streamable_http'' \<longrightarrow> tl_MCPUpstreamURL t \<noteq> []))"

definition InsertTool :: "faults \<Rightarrow> time \<Rightarrow> tool \<Rightarrow> config_db \<Rightarrow> unit result" where
  "InsertTool flt now tool db =
     next_stmt (ensureAdminWritesAllowed flt db) (\<lambda>_ db.
     next_stmt (stmt flt 1 (\<lambda>db.
        if \<not> tool_row_ok tool then (Inl ErrDB, db)
        else if tool_of db (tl_TenantID tool) (tl_ToolID tool) \<noteq> None then (Inl ErrDuplicate, db)
        else (Inr (), db\<lparr>cb_tools := cb_tools db @
               [tool\<lparr>tl_Source := (if tl_Source tool = [] then ''admin'' else tl_Source tool), tl_ArchivedAt := None\<rparr>]\<rparr>)) db)
     (\<lambda>_ db. bumpTenantConfigVersion flt 2 (tl_TenantID tool) now db))"

definition set_archived ::
  "(tool \<Rightarrow> bool) \<Rightarrow> time option \<Rightarrow> faults \<Rightarrow> time \<Rightarrow> string \<Rightarrow> string \<Rightarrow> config_db \<Rightarrow> unit result" where
  "set_archived guard val flt now tenantID toolID db =
     next_stmt (ensureAdminWritesAllowed flt db) (\<lambda>_ db.
     next_stmt (stmt flt 1 (\<lambda>db.
        if \<not> affected (\<lambda>t. tool_row tenantID toolID t \<and> guard t) (cb_tools db) then (Inl ErrNotFound, db)
        else (Inr (), db\<lparr>cb_tools := update_rows (\<lambda>t. tool_row tenantID toolID t \<and> guard t)
               (\<lambda>t. t\<lparr>tl_ArchivedAt := val\<rparr>) (cb_tools db)\<rparr>)) db)
     (\<lambda>_ db. bumpTenantConfigVersion flt 2 tenantID now db))"

definition ArchiveTool :: "faults \<Rightarrow> time \<Rightarrow> string \<Rightarrow> string \<Rightarrow> config_db \<Rightarrow> unit result" where
  "ArchiveTool flt now tenantID toolID db =
     set_archived (\<lambda>t. tl_ArchivedAt t = None) (Some now) flt now tenantID toolID db"

definition RestoreTool :: "faults \<Rightarrow> time \<Rightarrow> string \<Rightarrow> string \<Rightarrow> config_db \<Rightarrow> unit result" where
  "RestoreTool flt now tenantID toolID db =
     set_archived (\<lambda>t. tl_ArchivedAt t \<noteq> None) None flt now tenantID toolID db"

definition set_tool :: "(tool \<Rightarrow> tool) \<Rightarrow> faults \<Rightarrow> time \<Rightarrow> string \<Rightarrow> string \<Rightarrow> config_db \<Rightarrow> unit result" where
  "set_tool f flt now tenantID toolID db =
     next_stmt (ensureAdminWritesAllowed flt db) (\<lambda>_ db.
     next_stmt (stmt flt 1 (\<lambda>db. (Inr (), db\<lparr>cb_tools := update_rows (tool_row tenantID toolID) f (cb_tools db)\<rparr>)) db)
     (\<lambda>_ db. bumpTenantConfigVersion flt 2 tenantID now db))"

definition UpdateToolConfig ::
  "faults \<Rightarrow> time \<Rightarrow> string \<Rightarrow> string \<Rightarrow> string \<Rightarrow> string \<Rightarrow> string \<Rightarrow> string \<Rightarrow> config_db \<Rightarrow> unit result" where
  "UpdateToolConfig flt now tenantID toolID baseURL authType authValue credentialConfig db =
     set_tool (\<lambda>t. t\<lparr>tl_BaseURL := baseURL, tl_AuthType := authType, tl_AuthValue := authValue,
                    tl_CredentialConfig := credentialConfig\<rparr>) flt now tenantID toolID db"

definition UpdateToolMetadata ::
  "faults \<Rightarrow> time \<Rightarrow> string \<Rightarrow> string \<Rightarrow> string \<Rightarrow> string \<Rightarrow> string \<Rightarrow> config_db \<Rightarrow> unit result" where
  "UpdateToolMetadata flt now tenantID toolID description mcpUpstreamURL inputSchemaJSON db =
     set_tool (\<lambda>t. t\<lparr>tl_Description := description, tl_MCPUpstreamURL := mcpUpstreamURL,
                    tl_InputSchemaJSON := inputSchemaJSON\<rparr>) flt now tenantID toolID db"

subsection \<open>The operations of an administrator\<close>

datatype config_op =
    Op_SetEnforcement string string
  | Op_SetPassthrough string string
  | Op_CreatePolicy string string string string string
  | Op_CreateStructured string string string string string string
  | Op_Publish string string
  | Op_Rollback string string
  | Op_UpdatePolicy string string string
  | Op_UpdateRisk string string string
  | Op_DeleteRisk string string
  | Op_InsertTool tool
  | Op_Archive string string
  | Op_Restore string string
  | Op_UpdateTool string string string string string string
  | Op_UpdateMetadata string string string string string

fun config_exec :: "faults \<Rightarrow> time \<Rightarrow> config_op \<Rightarrow> config_db \<Rightarrow> unit result" where
  "config_exec flt now (Op_SetEnforcement t m) db = SetTenantEnforcementMode flt now t m db"
| "config_exec flt now (Op_SetPassthrough t i) db = SetTenantMCPPassthroughUpstreamToolID flt now t i db"
| "config_exec flt now (Op_CreatePolicy t v r b n) db = CreatePolicyVersion flt now t v r b n db"
| "config_exec flt now (Op_CreateStructured t v r j b n) db = CreatePolicyVersionStructured flt now t v r j b n db"
| "config_exec flt now (Op_Publish t v) db = PublishPolicyVersion flt now t v db"
| "config_exec flt now (Op_Rollback t v) db = RollbackPolicyVersion flt now t v db"
| "config_exec flt now (Op_UpdatePolicy t r v) db = UpdatePolicy flt now t r v db"
| "config_exec flt now (Op_UpdateRisk t a r) db = UpdateRiskOverride flt now t a r db"
| "config_exec flt now (Op_DeleteRisk t a) db = DeleteRiskOverride flt now t a db"
| "config_exec flt now (Op_InsertTool tool) db = InsertTool flt now tool db"
| "config_exec flt now (Op_Archive t i) db = ArchiveTool flt now t i db"
| "config_exec flt now (Op_Restore t i) db = RestoreTool flt now t i db"
| "config_exec flt now (Op_UpdateTool t i u a v c) db = UpdateToolConfig flt now t i u a v c db"
| "config_exec flt now (Op_UpdateMetadata t i d u j) db = UpdateToolMetadata flt now t i d u j db"

lemmas config_op_defs =
  SetTenantEnforcementMode_def SetTenantMCPPassthroughUpstreamToolID_def CreatePolicyVersion_def
  CreatePolicyVersionStructured_def insert_policy_version_def PublishPolicyVersion_def
  RollbackPolicyVersion_def UpdatePolicy_def UpdateRiskOverride_def DeleteRiskOverride_def
  InsertTool_def ArchiveTool_def RestoreTool_def set_archived_def UpdateToolConfig_def
  UpdateToolMetadata_def set_tool_def

subsection \<open>The write lock\<close>

definition write_locked :: "config_db \<Rightarrow> bool" where
  "write_locked db = (cb_settings db ''admin_write_lock'' = Some ''true'')"

lemma ensure_locked: "write_locked db \<Longrightarrow>
   ensureAdminWritesAllowed flt db = (Inl (case flt 0 of None \<Rightarrow> ErrAdminWriteLocked | Some e \<Rightarrow> e), db)"
  by (simp add: ensureAdminWritesAllowed_def stmt_def write_locked_def split: option.splits)

lemma ensure_unlocked: "\<not> write_locked db \<Longrightarrow> flt 0 = None \<Longrightarrow> ensureAdminWritesAllowed flt db = (Inr (), db)"
  by (simp add: ensureAdminWritesAllowed_def stmt_def write_locked_def)

lemma locked_op: "write_locked db \<Longrightarrow>
   config_exec flt now op db = (Inl (case flt 0 of None \<Rightarrow> ErrAdminWriteLocked | Some e \<Rightarrow> e), db)"
  by (cases op) (simp_all add: config_op_defs ensure_locked)

text \<open>A run of operations, each with its own driver errors and time.\<close>

fun config_run :: "(faults \<times> time \<times> config_op) list \<Rightarrow> config_db \<Rightarrow> (store_error + unit) list \<times> config_db" where
  "config_run [] db = ([], db)"
| "config_run ((flt, now, op) # ops) db =
     (let (r, db1) = config_exec flt now op db; (rs, db2) = config_run ops db1 in (r # rs, db2))"

lemma locked_run: "write_locked db \<Longrightarrow>
   snd (config_run ops db) = db \<and> (\<forall>r\<in>set (fst (config_run ops db)). \<exists>e. r = Inl e)"
  by (induction ops) (auto simp: locked_op split: prod.splits)

text \<open>C17: the write lock freezes the configuration: once an administrator has set it, no sequence
  of the guarded operations (tools, policies, risk overrides, enforcement mode), with whatever
  driver errors, changes any table, and each of them reports an error, the write-lock error
  when its lock query succeeds.\<close>

theorem write_lock_freezes:
  assumes "SetAdminWriteLock flt True db0 = (Inr (), db)"
  shows "snd (config_run ops db) = db \<and>
    (\<forall>r\<in>set (fst (config_run ops db)). \<exists>e. r = Inl e) \<and>
    (flt' 0 = None \<longrightarrow> config_exec flt' now op db = (Inl ErrAdminWriteLocked, db))"
proof -
  have l: "write_locked db" using assms
    by (auto simp: SetAdminWriteLock_def put_setting_def stmt_def bool_text_def write_locked_def split: option.splits)
  show ?thesis using locked_run [OF l] locked_op [OF l] by simp
qed

subsection \<open>Versions never go back\<close>

definition version_le :: "config_db \<Rightarrow> config_db \<Rightarrow> bool" where
  "version_le db db' = (\<forall>T. case config_of db T of
       None \<Rightarrow> (\<forall>c'. config_of db' T = Some c' \<longrightarrow> 1 \<le> tg_Version c')
     | Some c \<Rightarrow> (\<exists>c'. config_of db' T = Some c' \<and> tg_Version c \<le> tg_Version c'))"

lemma version_le_refl [simp]: "version_le db db" by (simp add: version_le_def split: option.splits)

lemma version_leD: "version_le db db' \<Longrightarrow> config_of db T = Some c \<Longrightarrow>
    \<exists>c'. config_of db' T = Some c' \<and> tg_Version c \<le> tg_Version c'"
  by (auto simp: version_le_def dest!: spec [of _ T])

lemma version_le_trans:
  assumes "version_le a b" and "version_le b c"
  shows "version_le a c"
  unfolding version_le_def
proof
  fix T
  from assms show "case config_of a T of None \<Rightarrow> \<forall>c'. config_of c T = Some c' \<longrightarrow> 1 \<le> tg_Version c'
     | Some x \<Rightarrow> \<exists>c'. config_of c T = Some c' \<and> tg_Version x \<le> tg_Version c'"
    unfolding version_le_def by (fastforce dest!: spec [of _ T] split: option.splits)
qed

lemma config_of_frame [simp]:
  "config_of (db\<lparr>cb_tools := x\<rparr>) = config_of db" "config_of (db\<lparr>cb_risks := y\<rparr>) = config_of db"
  "config_of (db\<lparr>cb_policies := z\<rparr>) = config_of db" "config_of (db\<lparr>cb_settings := w\<rparr>) = config_of db"
  by (simp_all add: config_of_def fun_eq_iff)

lemma version_le_frame [simp]:
  "version_le db (db\<lparr>cb_tools := x\<rparr>)" "version_le db (db\<lparr>cb_risks := y\<rparr>)"
  "version_le db (db\<lparr>cb_policies := z\<rparr>)" "version_le db (db\<lparr>cb_settings := w\<rparr>)"
  by (simp_all add: version_le_def split: option.splits)

lemma config_of_update:
  assumes "\<And>c. tg_TenantID c = T \<Longrightarrow> tg_TenantID (f c) = T"
  shows "config_of (set_configs (update_rows (\<lambda>c. tg_TenantID c = T) f) db) T' =
    (if T' = T then map_option f (config_of db T) else config_of db T')"
proof (cases "T' = T")
  case True
  then show ?thesis using assms by (simp add: config_of_def set_configs_def find_update_same)
next
  case False
  then show ?thesis using assms
    by (auto simp: config_of_def set_configs_def intro!: find_update_other)
qed

lemma version_le_update:
  assumes "\<And>c. tg_TenantID c = T \<Longrightarrow> tg_TenantID (f c) = T" and "\<And>c. tg_Version c \<le> tg_Version (f c)"
  shows "version_le db (set_configs (update_rows (\<lambda>c. tg_TenantID c = T) f) db)"
  using assms by (auto simp: version_le_def config_of_update split: option.splits)

lemma version_le_activate: "version_le db (activate T v now db)"
  unfolding activate_def by (auto intro!: version_le_update)
    (auto simp: version_le_def set_configs_def config_of_def find_append split: option.splits)

lemma version_le_bump: "version_le db (snd (bumpTenantConfigVersion flt k T now db))"
  by (auto simp: bumpTenantConfigVersion_def stmt_def split: option.splits intro!: version_le_update)

lemma snd_ensure [simp]: "snd (ensureAdminWritesAllowed flt db) = db"
  by (simp add: ensureAdminWritesAllowed_def stmt_def split: option.splits)

lemma version_le_next:
  "version_le db (snd r) \<Longrightarrow> (\<And>a db1. r = (Inr a, db1) \<Longrightarrow> version_le db1 (snd (f a db1))) \<Longrightarrow>
   version_le db (snd (next_stmt r f))"
  by (cases r; cases "fst r") (auto intro: version_le_trans)

lemma version_le_stmt: "version_le db (snd (s db)) \<Longrightarrow> version_le db (snd (stmt flt k s db))"
  by (simp add: stmt_def split: option.splits)

lemmas version_le_intros = version_le_next version_le_stmt version_le_bump version_le_activate

lemma version_le_Publish: "version_le db (snd (PublishPolicyVersion flt now T v db))"
  unfolding PublishPolicyVersion_def by (intro version_le_intros) (auto intro!: version_le_intros)

lemma config_exec_version: "version_le db (snd (config_exec flt now op db))"
proof (cases op)
  case (Op_Rollback T v)
  show ?thesis unfolding Op_Rollback config_exec.simps RollbackPolicyVersion_def
    by (auto intro!: version_le_intros version_le_Publish)
next
  case (Op_Publish T v)
  then show ?thesis by (simp add: version_le_Publish)
qed (auto simp: SetTenantEnforcementMode_def SetTenantMCPPassthroughUpstreamToolID_def CreatePolicyVersion_def
      CreatePolicyVersionStructured_def insert_policy_version_def UpdatePolicy_def UpdateRiskOverride_def
      DeleteRiskOverride_def InsertTool_def ArchiveTool_def RestoreTool_def set_archived_def UpdateToolConfig_def
      UpdateToolMetadata_def set_tool_def
    intro!: version_le_intros version_le_Publish version_le_update)

subsection \<open>Publishing and rolling back\<close>

definition no_faults :: faults where "no_faults k = None"

lemma no_faults_simp [simp]: "no_faults k = None" "(\<lambda>k. no_faults (k + n)) = no_faults"
  by (simp_all add: no_faults_def fun_eq_iff)

lemma config_of_tenant: "config_of db T = Some c \<Longrightarrow> tg_TenantID c = T"
  by (auto simp: config_of_def find_Some_iff)

lemma policy_of_activate [simp]: "policy_of (activate T v now db) = policy_of db"
  by (simp add: policy_of_def activate_def set_configs_def fun_eq_iff)

lemma config_of_activate: "\<exists>c. config_of (activate T v now db) T = Some c \<and> tg_ActivePolicyVersion c = v"
proof (cases "config_of db T")
  case None
  then have "\<not> affected (\<lambda>c. tg_TenantID c = T) (cb_configs db)"
    by (simp add: affected_find config_of_def)
  with None show ?thesis by (simp add: activate_def set_configs_def config_of_def find_append)
next
  case (Some c)
  then have "affected (\<lambda>c. tg_TenantID c = T) (cb_configs db)"
    by (simp add: affected_find config_of_def)
  with Some show ?thesis by (auto simp: activate_def config_of_update)
qed

lemma config_of_activate_other: "T' \<noteq> T \<Longrightarrow> config_of (activate T v now db) T' = config_of db T'"
proof (cases "affected (\<lambda>c. tg_TenantID c = T) (cb_configs db)")
  case False
  assume "T' \<noteq> T"
  with False show ?thesis
    by (auto simp: activate_def set_configs_def config_of_def find_append split: option.splits)
qed (simp add: activate_def config_of_update)

lemma Publish_Inr:
  "PublishPolicyVersion flt now T v db = (Inr (), db') \<longleftrightarrow>
     \<not> write_locked db \<and> flt 0 = None \<and> flt 1 = None \<and> flt 2 = None \<and> policy_of db T v \<noteq> None \<and>
     db' = activate T v now db"
proof (cases "write_locked db")
  case True
  then show ?thesis by (simp add: PublishPolicyVersion_def ensure_locked)
next
  case False
  then show ?thesis
    by (auto simp: PublishPolicyVersion_def ensureAdminWritesAllowed_def write_locked_def stmt_def split: option.splits)
qed

lemma GetPolicy_activate:
  assumes "policy_of db T v = Some p"
  shows "GetPolicy no_faults T (activate T v now db) =
    Inr \<lparr>po_PolicyID = v, po_TenantID = T, po_RegoModule = pn_RegoModule p, po_PolicyVersion = v,
         po_UpdatedAt = pn_CreatedAt p\<rparr>"
proof -
  obtain c where c: "config_of (activate T v now db) T = Some c" "tg_ActivePolicyVersion c = v"
    using config_of_activate by blast
  have "pn_TenantID p = T" "pn_PolicyVersion p = v" using assms by (auto simp: policy_of_def find_Some_iff)
  with c assms show ?thesis by (simp add: GetPolicy_def)
qed

text \<open>Publishing takes effect: a version that was created and then published is the policy the
  gateway evaluates next, with the text that was submitted, and the policies of the other
  tenants stay as they were.\<close>

theorem published_policy_is_used:
  assumes "CreatePolicyVersion flt now T v rego by_whom notes db0 = (Inr (), db1)"
    and "PublishPolicyVersion flt' now' T v db1 = (Inr (), db2)"
  shows "GetPolicy no_faults T db2 = Inr \<lparr>po_PolicyID = v, po_TenantID = T, po_RegoModule = rego,
      po_PolicyVersion = v, po_UpdatedAt = now\<rparr> \<and>
    (\<forall>T'. T' \<noteq> T \<longrightarrow> GetPolicy no_faults T' db2 = GetPolicy no_faults T' db0)"
proof -
  obtain row where row: "row = \<lparr>pn_TenantID = T, pn_PolicyVersion = v, pn_RegoModule = rego, pn_CreatedAt = now,
      pn_CreatedBy = by_whom, pn_Notes = notes, pn_StructuredJSON = [], pn_AuthoringMode = ''rego''\<rparr>" by simp
  have db1: "policy_of db0 T v = None" "db1 = db0\<lparr>cb_policies := cb_policies db0 @ [row]\<rparr>"
    using assms(1) by (auto simp: CreatePolicyVersion_def insert_policy_version_def ensureAdminWritesAllowed_def
        stmt_def row split: option.splits if_splits)
  then have p: "policy_of db1 T v = Some row" by (simp add: policy_of_def find_append row)
  have db2: "db2 = activate T v now' db1" using assms(2) by (simp add: Publish_Inr)
  have "GetPolicy no_faults T' db2 = GetPolicy no_faults T' db0" if "T' \<noteq> T" for T'
  proof -
    have "policy_of db1 T' v' = policy_of db0 T' v'" for v'
      using that by (auto simp: db1(2) policy_of_def find_append row split: option.splits)
    moreover have "config_of db1 = config_of db0" by (simp add: db1(2))
    ultimately show ?thesis using that
      by (auto simp: db2 GetPolicy_def config_of_activate_other split: option.splits)
  qed
  with GetPolicy_activate [OF p, of now'] show ?thesis by (simp add: db2 row)
qed

lemma newest_in: "newest ps = Some p \<Longrightarrow> p \<in> set ps \<and> (\<forall>q\<in>set ps. pn_CreatedAt q \<le> pn_CreatedAt p)"
proof (induction ps arbitrary: p)
  case (Cons a ps)
  then show ?case
  proof (cases "newest ps")
    case None
    then have "ps = []" by (cases ps) (auto split: option.splits if_splits)
    with Cons.prems None show ?thesis by simp
  next
    case (Some q)
    with Cons show ?thesis by (auto split: if_splits)
  qed
qed simp

lemma newest_None [simp]: "newest ps = None \<longleftrightarrow> ps = []"
  by (cases ps) (auto split: option.splits)

text \<open>A rollback without a version goes to the newest version that is not active, whether or
  not it was ever published: it succeeds exactly when there is another version, the policy
  used afterwards is one of the tenant's versions other than the active one, and it is the
  latest created of those, so a draft created after the active version is what gets
  activated.\<close>

theorem rollback_activates_newest_other:
  assumes "config_of db T = Some c" and "\<not> write_locked db"
    and "p \<in> set (cb_policies db)" and "pn_TenantID p = T" and "pn_PolicyVersion p \<noteq> tg_ActivePolicyVersion c"
  shows "\<exists>db' q. RollbackPolicyVersion no_faults now T [] db = (Inr (), db') \<and> q \<in> set (cb_policies db) \<and>
    pn_TenantID q = T \<and> pn_PolicyVersion q \<noteq> tg_ActivePolicyVersion c \<and> pn_CreatedAt p \<le> pn_CreatedAt q \<and>
    (\<exists>c'. config_of db' T = Some c' \<and> tg_ActivePolicyVersion c' = pn_PolicyVersion q)"
proof -
  let ?others = "filter (\<lambda>p. pn_TenantID p = T \<and> pn_PolicyVersion p \<noteq> tg_ActivePolicyVersion c) (cb_policies db)"
  have "p \<in> set ?others" using assms(3-5) by simp
  then have "newest ?others \<noteq> None" by (metis newest_None empty_iff list.set(1))
  then obtain q where q: "newest ?others = Some q" by blast
  from newest_in [OF q] \<open>p \<in> set ?others\<close> have
    qin: "q \<in> set (cb_policies db)" "pn_TenantID q = T" "pn_PolicyVersion q \<noteq> tg_ActivePolicyVersion c"
      "pn_CreatedAt p \<le> pn_CreatedAt q" by auto
  have "policy_of db T (pn_PolicyVersion q) \<noteq> None"
    using qin(1,2) by (auto simp: policy_of_def find_None_iff)
  then have pub: "PublishPolicyVersion (\<lambda>k. None) now T (pn_PolicyVersion q) db =
      (Inr (), activate T (pn_PolicyVersion q) now db)"
    using assms(2) by (simp add: Publish_Inr)
  have "RollbackPolicyVersion no_faults now T [] db = (Inr (), activate T (pn_PolicyVersion q) now db)"
    using assms(1,2) q pub by (simp add: RollbackPolicyVersion_def ensure_unlocked or_not_found_def)
  with qin config_of_activate [of T "pn_PolicyVersion q" now db] show ?thesis by blast
qed

subsection \<open>What each operation writes\<close>

text \<open>The tenant whose tools or overrides an operation writes.\<close>

fun written_tenant :: "config_op \<Rightarrow> string option" where
  "written_tenant (Op_UpdateRisk t a r) = Some t"
| "written_tenant (Op_DeleteRisk t a) = Some t"
| "written_tenant (Op_InsertTool tool) = Some (tl_TenantID tool)"
| "written_tenant (Op_Archive t i) = Some t"
| "written_tenant (Op_Restore t i) = Some t"
| "written_tenant (Op_UpdateTool t i u a v c) = Some t"
| "written_tenant (Op_UpdateMetadata t i d u j) = Some t"
| "written_tenant _ = None"

definition same_rows :: "config_db \<Rightarrow> config_db \<Rightarrow> bool" where
  "same_rows db db' = (cb_tools db' = cb_tools db \<and> cb_risks db' = cb_risks db)"

definition same_rows_but :: "string \<Rightarrow> config_db \<Rightarrow> config_db \<Rightarrow> bool" where
  "same_rows_but T db db' = (\<forall>T'. T' \<noteq> T \<longrightarrow> tool_of db' T' = tool_of db T' \<and> risk_of db' T' = risk_of db T')"

lemma same_rows_simps [simp]:
  "same_rows db db" "same_rows db (db\<lparr>cb_policies := z\<rparr>)" "same_rows db (set_configs f db)"
  "same_rows db (activate T v now db)"
  by (simp_all add: same_rows_def set_configs_def activate_def)

lemma same_rows_trans: "same_rows a b \<Longrightarrow> same_rows b c \<Longrightarrow> same_rows a c"
  by (simp add: same_rows_def)

lemma same_rows_next:
  "same_rows db (snd r) \<Longrightarrow> (\<And>a db1. r = (Inr a, db1) \<Longrightarrow> same_rows db1 (snd (f a db1))) \<Longrightarrow>
   same_rows db (snd (next_stmt r f))"
  by (cases r; cases "fst r") (auto intro: same_rows_trans)

lemma same_rows_stmt: "same_rows db (snd (s db)) \<Longrightarrow> same_rows db (snd (stmt flt k s db))"
  by (simp add: stmt_def split: option.splits)

lemmas same_rows_intros = same_rows_next same_rows_stmt

lemma same_rows_Publish: "same_rows db (snd (PublishPolicyVersion flt now T v db))"
  unfolding PublishPolicyVersion_def by (intro same_rows_intros) (auto intro!: same_rows_intros)

lemma config_exec_same_rows:
  assumes "written_tenant op = None"
  shows "same_rows db (snd (config_exec flt now op db))"
proof (cases op)
  case (Op_Rollback T v)
  show ?thesis unfolding Op_Rollback config_exec.simps RollbackPolicyVersion_def
    by (auto intro!: same_rows_intros same_rows_Publish)
next
  case (Op_Publish T v)
  then show ?thesis by (simp add: same_rows_Publish)
qed (use assms in \<open>auto simp: SetTenantEnforcementMode_def SetTenantMCPPassthroughUpstreamToolID_def
      CreatePolicyVersion_def CreatePolicyVersionStructured_def insert_policy_version_def UpdatePolicy_def
    intro!: same_rows_intros same_rows_Publish\<close>)

text \<open>A write to the tables followed by the step of the version counter.\<close>

definition write_then_bump :: "string \<Rightarrow> time \<Rightarrow> config_db \<Rightarrow> config_db \<Rightarrow> bool" where
  "write_then_bump T now db db' = (\<exists>w. cb_configs w = cb_configs db \<and> same_rows_but T db w \<and>
     db' = snd (bumpTenantConfigVersion no_faults 2 T now w))"

lemma write_then_bumpI:
  "cb_configs w = cb_configs db \<Longrightarrow> same_rows_but T db w \<Longrightarrow>
   (Inr (), db') = bumpTenantConfigVersion no_faults 2 T now w \<Longrightarrow> write_then_bump T now db db'"
  unfolding write_then_bump_def by (metis snd_conv)

lemma same_rows_but_tools:
  "(\<And>t. p t \<Longrightarrow> tl_TenantID t = T) \<Longrightarrow> (\<And>t. p t \<Longrightarrow> tl_TenantID (f t) = T) \<Longrightarrow>
   same_rows_but T db (db\<lparr>cb_tools := update_rows p f (cb_tools db)\<rparr>)"
  by (auto simp: same_rows_but_def tool_of_def risk_of_def fun_eq_iff intro!: find_update_other)

lemma same_rows_but_risks:
  "(\<And>r. p r \<Longrightarrow> ro_TenantID r = T) \<Longrightarrow> (\<And>r. p r \<Longrightarrow> ro_TenantID (f r) = T) \<Longrightarrow>
   same_rows_but T db (db\<lparr>cb_risks := update_rows p f (cb_risks db)\<rparr>)"
  by (auto simp: same_rows_but_def tool_of_def risk_of_def fun_eq_iff intro!: find_update_other)

lemma same_rows_but_new:
  "tl_TenantID t = T \<Longrightarrow> same_rows_but T db (db\<lparr>cb_tools := cb_tools db @ [t]\<rparr>)"
  "ro_TenantID r = T \<Longrightarrow> same_rows_but T db (db\<lparr>cb_risks := cb_risks db @ [r]\<rparr>)"
  "same_rows_but T db (db\<lparr>cb_risks := filter (\<lambda>r. ro_TenantID r = T \<longrightarrow> q r) (cb_risks db)\<rparr>)"
  by (auto simp: same_rows_but_def tool_of_def risk_of_def fun_eq_iff find_append
      intro!: find_filter_other split: option.splits)

lemma ensure_Inr: "ensureAdminWritesAllowed no_faults db = (Inr (), db) \<or>
    ensureAdminWritesAllowed no_faults db = (Inl ErrAdminWriteLocked, db)"
  by (simp add: ensureAdminWritesAllowed_def)

lemma config_exec_writes:
  assumes "config_exec no_faults now op db = (Inr (), db')" and "written_tenant op = Some T"
  shows "write_then_bump T now db db'"
  using assms ensure_Inr [of db]
  by (cases op)
    (auto simp: UpdateRiskOverride_def DeleteRiskOverride_def InsertTool_def ArchiveTool_def RestoreTool_def
      set_archived_def UpdateToolConfig_def UpdateToolMetadata_def set_tool_def
      intro!: write_then_bumpI [rotated 2, OF sym] same_rows_but_tools same_rows_but_risks same_rows_but_new
      split: if_splits)

subsection \<open>Archived tools\<close>

text \<open>Archiving a tool does not stop it: after a successful \<open>ArchiveTool\<close> the tool is no
  longer listed, but \<open>GetTool\<close>, which both gateways use to execute a call, still returns
  it with its address and credential.\<close>

theorem archived_tool_still_served:
  assumes "ArchiveTool no_faults now T i db = (Inr (), db')" and "tool_of db T i = Some t"
  shows "(\<exists>a. GetTool no_faults T i db' = Inr (t\<lparr>tl_ArchivedAt := Some a\<rparr>)) \<and>
    (\<forall>x ts. ListTools no_faults T False x db' = Inr ts \<longrightarrow> (\<forall>u\<in>set ts. tl_ToolID u \<noteq> i))"
proof -
  let ?p = "\<lambda>t. tool_row T i t \<and> tl_ArchivedAt t = None"
  have db': "cb_tools db' = update_rows ?p (\<lambda>t. t\<lparr>tl_ArchivedAt := Some now\<rparr>) (cb_tools db)"
    using assms(1) ensure_Inr [of db]
    by (auto simp: ArchiveTool_def set_archived_def bumpTenantConfigVersion_def set_configs_def split: if_splits)
  have upd: "find (tool_row T i) (update_rows ?p (\<lambda>t. t\<lparr>tl_ArchivedAt := Some now\<rparr>) rows) =
      map_option (\<lambda>t. if tl_ArchivedAt t = None then t\<lparr>tl_ArchivedAt := Some now\<rparr> else t) (find (tool_row T i) rows)" for rows
    by (induction rows) (auto simp: update_rows_def)
  have "\<exists>a. tool_of db' T i = Some (t\<lparr>tl_ArchivedAt := Some a\<rparr>)"
  proof (cases "tl_ArchivedAt t")
    case None
    then have "tool_of db' T i = Some (t\<lparr>tl_ArchivedAt := Some now\<rparr>)"
      using assms(2) upd [of "cb_tools db"] by (simp add: tool_of_def db')
    then show ?thesis by blast
  next
    case (Some a)
    then have "t\<lparr>tl_ArchivedAt := Some a\<rparr> = t" by simp
    moreover have "tool_of db' T i = Some t"
      using Some assms(2) upd [of "cb_tools db"] by (simp add: tool_of_def db')
    ultimately show ?thesis by metis
  qed
  then have "\<exists>a. GetTool no_faults T i db' = Inr (t\<lparr>tl_ArchivedAt := Some a\<rparr>)"
    by (auto simp: GetTool_def or_not_found_def)
  moreover have arch: "tl_ArchivedAt u \<noteq> None" if "u \<in> set (cb_tools db')" "tool_row T i u" for u
  proof -
    have "u \<in> (\<lambda>r. if ?p r then r\<lparr>tl_ArchivedAt := Some now\<rparr> else r) ` set (cb_tools db)"
      using that(1) unfolding db' update_rows_def set_map .
    then obtain r where u: "u = (if ?p r then r\<lparr>tl_ArchivedAt := Some now\<rparr> else r)" by (rule imageE)
    show ?thesis
    proof (cases "?p r")
      case True
      then have "u = r\<lparr>tl_ArchivedAt := Some now\<rparr>" using u by (simp only: if_True simp_thms)
      then show ?thesis by simp
    next
      case False
      then have "u = r" using u by (simp only: if_False)
      with False that(2) show ?thesis by simp
    qed
  qed
  have "tl_ToolID u \<noteq> i" if "ListTools no_faults T False x db' = Inr ts" and "u \<in> set ts" for x ts u
  proof -
    have "u \<in> set (cb_tools db')" "tl_TenantID u = T" "tl_ArchivedAt u = None"
      using that by (auto simp: ListTools_def)
    with arch show ?thesis by blast
  qed
  ultimately show ?thesis by blast
qed

subsection \<open>Witnesses\<close>

definition sample_config_db :: config_db where
  "sample_config_db = \<lparr>cb_settings = Map.empty,
     cb_configs = [\<lparr>tg_TenantID = ''t1'', tg_ActivePolicyVersion = ''v1'', tg_EnforcementMode = ''enforce'',
       tg_MCPPassthroughUpstreamToolID = [], tg_Version = 1, tg_TrialStartedAt = None, tg_CreatedAt = 0, tg_UpdatedAt = 0\<rparr>],
     cb_policies = [\<lparr>pn_TenantID = ''t1'', pn_PolicyVersion = ''v1'', pn_RegoModule = ''m1'', pn_CreatedAt = 1,
       pn_CreatedBy = [], pn_Notes = [], pn_StructuredJSON = [], pn_AuthoringMode = []\<rparr>],
     cb_tools = [sample_tool], cb_risks = []\<rparr>"

definition draft_row :: policy_version where
  "draft_row = \<lparr>pn_TenantID = ''t1'', pn_PolicyVersion = ''v2'', pn_RegoModule = ''m2'', pn_CreatedAt = 5,
     pn_CreatedBy = ''a'', pn_Notes = [], pn_StructuredJSON = [], pn_AuthoringMode = ''rego''\<rparr>"

definition draft_db :: config_db where
  "draft_db = sample_config_db\<lparr>cb_policies := cb_policies sample_config_db @ [draft_row]\<rparr>"

lemma sample_created: "CreatePolicyVersion no_faults 5 ''t1'' ''v2'' ''m2'' ''a'' [] sample_config_db = (Inr (), draft_db)"
  by (simp add: CreatePolicyVersion_def insert_policy_version_def ensureAdminWritesAllowed_def policy_of_def
      sample_config_db_def draft_db_def draft_row_def)

theorem write_lock_freezes_witness:
  "snd (config_run [(no_faults, 0, Op_Publish ''t1'' ''v1'')] (snd (SetAdminWriteLock no_faults True sample_config_db))) =
     snd (SetAdminWriteLock no_faults True sample_config_db)"
proof -
  have "SetAdminWriteLock no_faults True sample_config_db = (Inr (), snd (SetAdminWriteLock no_faults True sample_config_db))"
    by (simp add: SetAdminWriteLock_def put_setting_def)
  from write_lock_freezes [OF this] show ?thesis by blast
qed

theorem published_policy_is_used_witness:
  "GetPolicy no_faults ''t1'' (activate ''t1'' ''v2'' 6 draft_db) = Inr \<lparr>po_PolicyID = ''v2'', po_TenantID = ''t1'',
     po_RegoModule = ''m2'', po_PolicyVersion = ''v2'', po_UpdatedAt = 5\<rparr>"
proof -
  have "PublishPolicyVersion no_faults 6 ''t1'' ''v2'' draft_db = (Inr (), activate ''t1'' ''v2'' 6 draft_db)"
    by (simp add: Publish_Inr write_locked_def policy_of_def draft_db_def sample_config_db_def draft_row_def)
  from published_policy_is_used [OF sample_created this] show ?thesis by blast
qed

theorem rollback_activates_newest_other_witness:
  "\<exists>db' c'. RollbackPolicyVersion no_faults 7 ''t1'' [] draft_db = (Inr (), db') \<and>
     config_of db' ''t1'' = Some c' \<and> tg_ActivePolicyVersion c' = ''v2''"
proof -
  have "config_of draft_db ''t1'' = Some (hd (cb_configs draft_db))" "\<not> write_locked draft_db"
    "draft_row \<in> set (cb_policies draft_db)" "pn_TenantID draft_row = ''t1''"
    "pn_PolicyVersion draft_row \<noteq> tg_ActivePolicyVersion (hd (cb_configs draft_db))"
    by (simp_all add: draft_db_def sample_config_db_def config_of_def write_locked_def draft_row_def)
  from rollback_activates_newest_other [OF this, of 7] obtain db' q c' where
    r: "RollbackPolicyVersion no_faults 7 ''t1'' [] draft_db = (Inr (), db')" "q \<in> set (cb_policies draft_db)"
      "pn_CreatedAt draft_row \<le> pn_CreatedAt q" "config_of db' ''t1'' = Some c'"
      "tg_ActivePolicyVersion c' = pn_PolicyVersion q" by blast
  then have "q = draft_row" by (auto simp: draft_db_def sample_config_db_def draft_row_def)
  with r show ?thesis by (auto simp: draft_row_def)
qed

theorem archived_tool_still_served_witness:
  "\<exists>a. GetTool no_faults ''t1'' ''jira'' (snd (ArchiveTool no_faults 9 ''t1'' ''jira'' sample_config_db)) =
     Inr (sample_tool\<lparr>tl_ArchivedAt := Some a\<rparr>)"
proof -
  have "ArchiveTool no_faults 9 ''t1'' ''jira'' sample_config_db =
      (Inr (), snd (ArchiveTool no_faults 9 ''t1'' ''jira'' sample_config_db))"
    by (simp add: ArchiveTool_def set_archived_def ensureAdminWritesAllowed_def bumpTenantConfigVersion_def
        affected_def sample_config_db_def sample_tool_def)
  moreover have "tool_of sample_config_db ''t1'' ''jira'' = Some sample_tool"
    by (simp add: tool_of_def sample_config_db_def sample_tool_def)
  ultimately show ?thesis using archived_tool_still_served by blast
qed

end
