(* ===== verification/Cache_Coherence.thy ===== *)
theory Cache_Coherence
  imports Config_Store
begin

text \<open>
  The caches of \<open>getToolCached\<close> and \<open>getRiskOverrideCached\<close>
  (\<open>src/internal/api/public/handlers.go\<close>) against the tables they copy. A cached lookup reads
  the tenant's configuration version, then the row, then stores it under a key that contains the
  version; an update writes the row, then increases the version. Nothing makes the parts of one
  atomic with respect to the other. The step relation interleaves them freely, for any number of
  lookups and updates, of tenants with and without a configuration row; its invariant gives that a
  lookup for a tenant that has had its configuration row from the start, begun when no update of the
  tenant is half done, answers what the table holds. It is stated once over the row function
  \<open>row\<close> and used for tools and for risk overrides.
\<close>

subsection \<open>Interleaved lookups and updates\<close>

text \<open>A lookup in progress: tenant, item, the version it read, and the row once it was read.\<close>

record 'v cache_world =
  cw_db :: config_db
  cw_cache :: "'v ttl_cache"
  cw_lookups :: "(string \<times> string \<times> int \<times> 'v option) set"
  cw_pending :: "string list"

definition cache_version :: "config_db \<Rightarrow> string \<Rightarrow> int" where
  "cache_version db T = tenantCacheVersion (map_sum id tg_Version (GetTenantConfig no_faults T db))"

inductive cache_step ::
  "(config_db \<Rightarrow> string \<Rightarrow> string \<Rightarrow> 'v option) \<Rightarrow> 'v cache_world \<Rightarrow> 'v cache_world \<Rightarrow> bool"
  for row where
  Read_version: "colon \<notin> set T \<Longrightarrow>
    cache_step row w (w\<lparr>cw_cache := snd (Get (cache_key T (cache_version (cw_db w) T) i) now (cw_cache w)),
      cw_lookups := insert (T, i, cache_version (cw_db w) T, None) (cw_lookups w)\<rparr>)"
| Read_row: "(T, i, v, None) \<in> cw_lookups w \<Longrightarrow> row (cw_db w) T i = Some x \<Longrightarrow>
    cache_step row w (w\<lparr>cw_lookups := insert (T, i, v, Some x) (cw_lookups w)\<rparr>)"
| Store_row: "(T, i, v, Some x) \<in> cw_lookups w \<Longrightarrow>
    cache_step row w (w\<lparr>cw_cache := Put (cache_key T v i) x now (cw_cache w),
      cw_lookups := cw_lookups w - {(T, i, v, Some x)}\<rparr>)"
| Write_row: "config_of db' = config_of (cw_db w) \<Longrightarrow> (\<forall>T'. T' \<noteq> T \<longrightarrow> row db' T' = row (cw_db w) T') \<Longrightarrow>
    cache_step row w (w\<lparr>cw_db := db', cw_pending := T # cw_pending w\<rparr>)"
| Bump: "T \<in> set (cw_pending w) \<Longrightarrow>
    cache_step row w (w\<lparr>cw_db := snd (bumpTenantConfigVersion no_faults 2 T now (cw_db w)),
      cw_pending := remove1 T (cw_pending w)\<rparr>)"
| Other_write: "row db' = row (cw_db w) \<Longrightarrow> version_le (cw_db w) db' \<Longrightarrow>
    cache_step row w (w\<lparr>cw_db := db'\<rparr>)"

inductive_cases cache_stepE: "cache_step row w w'"

text \<open>For a tenant of the set \<open>S\<close>, those with a configuration row from the start, a version read by a
  lookup or kept in the cache is not ahead of the table, and while it is the current one and no update
  of the tenant is half done, the row is the table's.\<close>

definition current_or_old ::
  "(config_db \<Rightarrow> string \<Rightarrow> string \<Rightarrow> 'v option) \<Rightarrow> config_db \<Rightarrow> string list \<Rightarrow> string \<Rightarrow> string \<Rightarrow> int \<Rightarrow> 'v option \<Rightarrow> bool" where
  "current_or_old row db pending T i v x =
     (\<exists>c. config_of db T = Some c \<and> v \<le> max 1 (tg_Version c) \<and>
       (v = max 1 (tg_Version c) \<longrightarrow> T \<notin> set pending \<longrightarrow> (\<forall>y. x = Some y \<longrightarrow> row db T i = Some y)))"

definition coherent :: "string set \<Rightarrow> (config_db \<Rightarrow> string \<Rightarrow> string \<Rightarrow> 'v option) \<Rightarrow> 'v cache_world \<Rightarrow> bool" where
  "coherent S row w =
     ((\<forall>T i v x. (T, i, v, x) \<in> cw_lookups w \<longrightarrow>
         colon \<notin> set T \<and> (T \<in> S \<longrightarrow> current_or_old row (cw_db w) (cw_pending w) T i v x)) \<and>
      (\<forall>k e. tc_entries (cw_cache w) k = Some e \<longrightarrow>
         (\<exists>T i v. k = cache_key T v i \<and> colon \<notin> set T \<and>
            (T \<in> S \<longrightarrow> current_or_old row (cw_db w) (cw_pending w) T i v (Some (en_Value e))))))"

lemma cache_version_config:
  "config_of db T = Some c \<Longrightarrow> cache_version db T = max 1 (tg_Version c)"
  by (auto simp: cache_version_def GetTenantConfig_def tenantCacheVersion_def)

lemma coherent_mono:
  assumes "coherent S row w" and "cw_lookups w' = cw_lookups w" and "cw_cache w' = cw_cache w"
    and "\<And>T i v x. current_or_old row (cw_db w) (cw_pending w) T i v x \<Longrightarrow>
           current_or_old row (cw_db w') (cw_pending w') T i v x"
  shows "coherent S row w'"
  using assms(1,4) unfolding coherent_def assms(2,3) by meson

lemma current_or_old_write:
  assumes "current_or_old row db p T i v x" and "config_of db' = config_of db"
    and "\<forall>T'. T' \<noteq> U \<longrightarrow> row db' T' = row db T'"
  shows "current_or_old row db' (U # p) T i v x"
  using assms by (auto simp: current_or_old_def)

lemma current_or_old_other:
  assumes "current_or_old row db p T i v x" and "row db' = row db" and "version_le db db'"
  shows "current_or_old row db' p T i v x"
proof -
  obtain c where c: "config_of db T = Some c" "v \<le> max 1 (tg_Version c)"
    "v = max 1 (tg_Version c) \<Longrightarrow> T \<notin> set p \<Longrightarrow> \<forall>y. x = Some y \<longrightarrow> row db T i = Some y"
    using assms(1) by (auto simp: current_or_old_def)
  obtain c' where c': "config_of db' T = Some c'" "tg_Version c \<le> tg_Version c'"
    using version_leD [OF assms(3) c(1)] by blast
  with c assms(2) show ?thesis unfolding current_or_old_def
    by (intro exI [of _ c']) (auto simp: max_def split: if_splits)
qed

lemma config_of_bump:
  "config_of (snd (bumpTenantConfigVersion no_faults k U now db)) T =
     (if T = U then map_option (\<lambda>c. c\<lparr>tg_Version := tg_Version c + 1, tg_UpdatedAt := now\<rparr>) (config_of db T)
      else config_of db T)"
  by (simp add: bumpTenantConfigVersion_def config_of_update)

lemma current_or_old_bump:
  assumes "current_or_old row db p T i v x"
    and "\<And>db T' v' n. row (snd (bumpTenantConfigVersion no_faults n T' v' db)) = row db"
    and "\<forall>T c. config_of db T = Some c \<longrightarrow> 1 \<le> tg_Version c"
  shows "current_or_old row (snd (bumpTenantConfigVersion no_faults 2 U now db)) (remove1 U p) T i v x"
proof (cases "T = U")
  case True
  obtain c where c: "config_of db T = Some c" "v \<le> max 1 (tg_Version c)"
    using assms(1) by (auto simp: current_or_old_def)
  with assms(3) True show ?thesis by (fastforce simp: current_or_old_def config_of_bump)
next
  case False
  then have "T \<in> set (remove1 U p) \<longleftrightarrow> T \<in> set p" by simp
  with False assms(1,2) show ?thesis by (auto simp: current_or_old_def config_of_bump)
qed

subsection \<open>The invariant\<close>

text \<open>What the relation needs of the rows: the version counter is not part of them.\<close>

locale versioned_rows =
  fixes row :: "config_db \<Rightarrow> string \<Rightarrow> string \<Rightarrow> 'v option"
  assumes row_bump: "row (snd (bumpTenantConfigVersion no_faults n T t db)) = row db"
begin

definition world_ok :: "string set \<Rightarrow> 'v cache_world \<Rightarrow> bool" where
  "world_ok S w = (coherent S row w \<and> (\<forall>T c. config_of (cw_db w) T = Some c \<longrightarrow> 1 \<le> tg_Version c) \<and>
     (\<forall>T\<in>S. config_of (cw_db w) T \<noteq> None))"

lemma versions_kept:
  assumes "version_le db db'" and "\<forall>T c. config_of db T = Some c \<longrightarrow> 1 \<le> tg_Version c"
    and "config_of db' T = Some c"
  shows "1 \<le> tg_Version c"
  using assms by (fastforce simp: version_le_def dest!: spec [of _ T] split: option.splits)

lemma step_keeps:
  assumes "cache_step row w w'" and "world_ok S w"
  shows "world_ok S w'"
  using assms
proof (induction rule: cache_step.induct)
  case (Read_version T w i now)
  have "T \<in> S \<longrightarrow> current_or_old row (cw_db w) (cw_pending w) T i (cache_version (cw_db w) T) None"
    using Read_version(2) by (auto simp: world_ok_def current_or_old_def cache_version_config)
  with Read_version show ?case by (auto simp: world_ok_def coherent_def)
next
  case (Read_row T i v w x)
  then have "T \<in> S \<longrightarrow> current_or_old row (cw_db w) (cw_pending w) T i v None" "colon \<notin> set T"
    by (auto simp: world_ok_def coherent_def)
  with Read_row(2) have "T \<in> S \<longrightarrow> current_or_old row (cw_db w) (cw_pending w) T i v (Some x)" "colon \<notin> set T"
    by (auto simp: current_or_old_def)
  with Read_row show ?case by (auto simp: world_ok_def coherent_def)
next
  case (Store_row T i v x w now)
  then have "T \<in> S \<longrightarrow> current_or_old row (cw_db w) (cw_pending w) T i v (Some x)" "colon \<notin> set T"
    by (auto simp: world_ok_def coherent_def)
  then have "\<exists>T' i' v'. cache_key T v i = cache_key T' v' i' \<and> colon \<notin> set T' \<and>
      (T' \<in> S \<longrightarrow> current_or_old row (cw_db w) (cw_pending w) T' i' v' (Some x))" by blast
  with Store_row show ?case by (auto simp: world_ok_def coherent_def Put_def)
next
  case (Write_row db' w T)
  have "coherent S row w" using Write_row(3) by (simp add: world_ok_def)
  then have "coherent S row (w\<lparr>cw_db := db', cw_pending := T # cw_pending w\<rparr>)"
    by (rule coherent_mono) (simp_all add: current_or_old_write [OF _ Write_row(1,2)])
  with Write_row(3) show ?case by (simp add: world_ok_def Write_row(1))
next
  case (Bump T w now)
  let ?db = "snd (bumpTenantConfigVersion no_faults 2 T now (cw_db w))"
  have w: "coherent S row w" "\<forall>T c. config_of (cw_db w) T = Some c \<longrightarrow> 1 \<le> tg_Version c"
      "\<forall>T\<in>S. config_of (cw_db w) T \<noteq> None"
    using Bump(2) by (simp_all add: world_ok_def)
  from w(1) have "coherent S row (w\<lparr>cw_db := ?db, cw_pending := remove1 T (cw_pending w)\<rparr>)"
    by (rule coherent_mono) (simp_all add: current_or_old_bump [OF _ row_bump w(2)])
  moreover have "1 \<le> tg_Version c" if "config_of ?db T' = Some c" for T' c
    using versions_kept [OF version_le_bump w(2) that] .
  moreover have "\<forall>T'\<in>S. config_of ?db T' \<noteq> None" using w(3) by (simp add: config_of_bump)
  ultimately show ?case by (simp add: world_ok_def)
next
  case (Other_write db' w)
  have w: "coherent S row w" "\<forall>T\<in>S. config_of (cw_db w) T \<noteq> None" using Other_write(3) by (simp_all add: world_ok_def)
  from w(1) have "coherent S row (w\<lparr>cw_db := db'\<rparr>)"
    by (rule coherent_mono) (simp_all add: current_or_old_other [OF _ Other_write(1,2)])
  moreover have "\<forall>T\<in>S. config_of db' T \<noteq> None"
    using w(2) version_leD [OF Other_write(2)] by fastforce
  ultimately show ?case using Other_write(3) versions_kept [OF Other_write(2)] by (simp add: world_ok_def)
qed

lemma steps_keep: "(cache_step row)\<^sup>*\<^sup>* w w' \<Longrightarrow> world_ok S w \<Longrightarrow> world_ok S w'"
  by (induction rule: rtranclp_induct) (auto intro: step_keeps)

lemma hit_is_current:
  assumes "world_ok S w" and "T \<in> S" and "colon \<notin> set T" and "T \<notin> set (cw_pending w)"
    and "peek (cw_cache w) (cache_key T (cache_version (cw_db w) T) i) now = Some x"
  shows "row (cw_db w) T i = Some x"
proof -
  obtain e where e: "tc_entries (cw_cache w) (cache_key T (cache_version (cw_db w) T) i) = Some e" "x = en_Value e"
    using assms(5) by (auto simp: peek_simps split: option.splits if_splits)
  then obtain T' i' v where k: "cache_key T (cache_version (cw_db w) T) i = cache_key T' v i'" "colon \<notin> set T'"
    "T' \<in> S \<longrightarrow> current_or_old row (cw_db w) (cw_pending w) T' i' v (Some x)"
    using assms(1) unfolding world_ok_def coherent_def by blast
  then have "T' = T" "v = cache_version (cw_db w) T" "i' = i"
    using cache_key_inj [OF k(1) assms(3)] by auto
  with k(3) assms(2,4) show ?thesis by (auto simp: current_or_old_def cache_version_config)
qed

end

lemma row_bump_tool: "tool_of (snd (bumpTenantConfigVersion no_faults n T t db)) = tool_of db"
  by (simp add: bumpTenantConfigVersion_def set_configs_def tool_of_def fun_eq_iff)

definition risk_row :: "config_db \<Rightarrow> string \<Rightarrow> string \<Rightarrow> string option" where
  "risk_row db T a = map_option ro_ActionRisk (risk_of db T a)"

interpretation tool_rows: versioned_rows tool_of
  by unfold_locales (rule row_bump_tool)

interpretation risk_rows: versioned_rows risk_row
  by unfold_locales (simp add: bumpTenantConfigVersion_def set_configs_def risk_row_def risk_of_def fun_eq_iff)

subsection \<open>The code's operations are sequences of steps\<close>

lemma write_then_bump_steps:
  assumes "write_then_bump T now (cw_db w) db'" and "\<forall>w' T'. cb_configs w' = cb_configs (cw_db w) \<longrightarrow>
      same_rows_but T (cw_db w) w' \<longrightarrow> T' \<noteq> T \<longrightarrow> row w' T' = row (cw_db w) T'"
  shows "(cache_step row)\<^sup>*\<^sup>* w (w\<lparr>cw_db := db'\<rparr>)"
proof -
  obtain db1 where db1: "cb_configs db1 = cb_configs (cw_db w)" "same_rows_but T (cw_db w) db1"
    "db' = snd (bumpTenantConfigVersion no_faults 2 T now db1)"
    using assms(1) by (auto simp: write_then_bump_def)
  let ?w1 = "w\<lparr>cw_db := db1, cw_pending := T # cw_pending w\<rparr>"
  have "config_of db1 = config_of (cw_db w)" by (simp add: config_of_def db1(1) fun_eq_iff)
  then have "cache_step row w ?w1"
    using assms(2) db1(1,2) by (intro cache_step.Write_row) auto
  moreover have "cache_step row ?w1 (?w1\<lparr>cw_db := snd (bumpTenantConfigVersion no_faults 2 T now (cw_db ?w1)),
      cw_pending := remove1 T (cw_pending ?w1)\<rparr>)"
    by (intro cache_step.Bump) simp
  ultimately show ?thesis by (simp add: db1(3) converse_rtranclp_into_rtranclp)
qed

lemma config_op_steps:
  assumes "config_exec no_faults now op (cw_db w) = (Inr (), db')"
    and "\<And>a b. same_rows a b \<Longrightarrow> row b = row a"
    and "\<And>a b T T'. same_rows_but T a b \<Longrightarrow> T' \<noteq> T \<Longrightarrow> row b T' = row a T'"
  shows "(cache_step row)\<^sup>*\<^sup>* w (w\<lparr>cw_db := db'\<rparr>)"
proof (cases "written_tenant op")
  case None
  have "same_rows (cw_db w) db'" "version_le (cw_db w) db'"
    using config_exec_same_rows [OF None, of "cw_db w" no_faults now]
      config_exec_version [of "cw_db w" no_faults now op] assms(1) by simp_all
  then show ?thesis using assms(2) by (intro r_into_rtranclp cache_step.Other_write)
next
  case (Some T)
  from config_exec_writes [OF assms(1) this] show ?thesis
    by (rule write_then_bump_steps) (use assms(3) in blast)
qed


lemma risk_op_steps:
  "config_exec no_faults now op (cw_db w) = (Inr (), db') \<Longrightarrow> (cache_step risk_row)\<^sup>*\<^sup>* w (w\<lparr>cw_db := db'\<rparr>)"
  by (erule config_op_steps) (simp_all add: same_rows_def same_rows_but_def risk_row_def risk_of_def fun_eq_iff)


definition lookup_risk :: "config_db \<Rightarrow> string \<Rightarrow> string \<Rightarrow> time \<Rightarrow> string ttl_cache \<Rightarrow> (store_error + string) \<times> string ttl_cache option" where
  "lookup_risk db T a now cache = getRiskOverrideCached T a (map_sum id tg_Version (GetTenantConfig no_faults T db))
     (GetRiskOverride no_faults T a db) now (Some cache)"


lemma lookup_risk_eq:
  "fst (lookup_risk db T a now cache) =
     (case peek cache (cache_key T (cache_version db T) a) now of Some t \<Rightarrow> Inr t | None \<Rightarrow> GetRiskOverride no_faults T a db)"
  by (auto simp: lookup_risk_def getRiskOverrideCached_def cache_version_def peek_def Let_def split: prod.splits option.splits sum.splits)


subsection \<open>Coherence\<close>

definition fresh_world :: "'v cache_world \<Rightarrow> bool" where
  "fresh_world w = (tc_entries (cw_cache w) = Map.empty \<and> cw_lookups w = {} \<and>
     (\<forall>T c. config_of (cw_db w) T = Some c \<longrightarrow> 1 \<le> tg_Version c))"

lemma fresh_coherent:
  "fresh_world w \<Longrightarrow> tool_rows.world_ok {T. config_of (cw_db w) T \<noteq> None} w"
  "fresh_world u \<Longrightarrow> risk_rows.world_ok {T. config_of (cw_db u) T \<noteq> None} u"
  by (auto simp: fresh_world_def tool_rows.world_ok_def risk_rows.world_ok_def coherent_def)


lemma GetRiskOverride_row: "GetRiskOverride no_faults T a db = or_not_found (risk_row db T a)"
  by (simp add: GetRiskOverride_def risk_row_def)

lemma risk_cache_coherent:
  assumes "fresh_world w0" and "(cache_step risk_row)\<^sup>*\<^sup>* w0 w"
    and "colon \<notin> set T" and "config_of (cw_db w0) T \<noteq> None" and "T \<notin> set (cw_pending w)"
  shows "fst (lookup_risk (cw_db w) T a now (cw_cache w)) = GetRiskOverride no_faults T a (cw_db w)"
proof -
  have "risk_rows.world_ok {T. config_of (cw_db w0) T \<noteq> None} w"
    using risk_rows.steps_keep [OF assms(2)] fresh_coherent(2) [OF assms(1)] by blast
  from risk_rows.hit_is_current [OF this _ assms(3,5)] assms(4) show ?thesis
    by (auto simp: lookup_risk_eq GetRiskOverride_row or_not_found_def split: option.splits)
qed

subsection \<open>A tenant without a configuration row\<close>

lemma risk_of_UpdateRisk:
  assumes "UpdateRiskOverride no_faults now T a r db = (Inr (), db1)"
  shows "risk_row db1 T a = Some r \<and> config_of db1 T = map_option
     (\<lambda>c. c\<lparr>tg_Version := tg_Version c + 1, tg_UpdatedAt := now\<rparr>) (config_of db T)"
proof -
  let ?p = "\<lambda>r. ro_TenantID r = T \<and> ro_ActionType r = a"
  let ?f = "\<lambda>x. x\<lparr>ro_ActionRisk := r, ro_UpdatedAt := now\<rparr>"
  let ?w = "if risk_of db T a = None
      then db\<lparr>cb_risks := cb_risks db @ [\<lparr>ro_TenantID = T, ro_ActionType = a, ro_ActionRisk = r, ro_UpdatedAt = now\<rparr>]\<rparr>
      else db\<lparr>cb_risks := update_rows ?p ?f (cb_risks db)\<rparr>"
  have "risk_row ?w T a = Some r"
    using find_update_same [of ?p ?f "cb_risks db"] by (auto simp: risk_row_def risk_of_def find_append)
  moreover have "bumpTenantConfigVersion no_faults 2 T now ?w = (Inr (), db1)"
    using assms ensure_Inr [of db] by (auto simp: UpdateRiskOverride_def)
  ultimately have "db1 = snd (bumpTenantConfigVersion no_faults 2 T now ?w)" "risk_row ?w T a = Some r"
    "config_of ?w = config_of db" by auto
  then show ?thesis by (simp add: risk_rows.row_bump config_of_bump)
qed

text \<open>The coherence needs the configuration row: for a tenant that has none, a risk override
  that was read into the cache, then changed by the administrator, is still the one used after
  the first policy of the tenant is published, until its time to live is over.\<close>

theorem first_publish_keeps_stale_risk:
  assumes "config_of db T = None" and "GetRiskOverride no_faults T a db = Inr r"
    and "lookup_risk db T a t (New ttl) = (Inr r, Some cache)"
    and "UpdateRiskOverride no_faults t1 T a r2 db = (Inr (), db1)"
    and "PublishPolicyVersion no_faults t2 T v db1 = (Inr (), db2)" and "now \<le> t + ttl"
  shows "GetRiskOverride no_faults T a db2 = Inr r2 \<and> fst (lookup_risk db2 T a now cache) = Inr r"
proof -
  have v: "cache_version db T = 1"
    using assms(1) by (simp add: cache_version_def GetTenantConfig_def tenantCacheVersion_def)
  have c: "cache = Put (cache_key T 1 a) r t (snd (Get (cache_key T 1 a) t (New ttl)))"
    using assms(2,3) v
    by (simp add: lookup_risk_def getRiskOverrideCached_def cache_version_def Get_def New_def Let_def)
  have up: "risk_row db1 T a = Some r2" "config_of db1 T = None"
    using risk_of_UpdateRisk [OF assms(4)] assms(1) by simp_all
  have db2: "db2 = activate T v t2 db1" using assms(5) by (simp add: Publish_Inr)
  have "risk_row db2 = risk_row db1"
    by (simp add: db2 activate_def set_configs_def risk_row_def risk_of_def fun_eq_iff)
  moreover have "cache_version db2 T = 1"
  proof -
    have "\<not> affected (\<lambda>c. tg_TenantID c = T) (cb_configs db1)"
      using up(2) by (simp add: affected_find config_of_def)
    then have "config_of db2 T = Some \<lparr>tg_TenantID = T, tg_ActivePolicyVersion = v,
             tg_EnforcementMode = ''enforce'', tg_MCPPassthroughUpstreamToolID = [], tg_Version = 1,
             tg_TrialStartedAt = Some t2, tg_CreatedAt = t2, tg_UpdatedAt = t2\<rparr>"
      using up(2) by (simp add: db2 activate_def set_configs_def config_of_def find_append)
    then show ?thesis by (simp add: cache_version_config)
  qed
  moreover have "peek cache (cache_key T 1 a) now = Some r"
    using assms(6) unfolding c by (simp add: peek_simps Put_def New_def Get_def)
  ultimately show ?thesis using up(1)
    by (simp add: lookup_risk_eq GetRiskOverride_row or_not_found_def)
qed

subsection \<open>Witnesses\<close>






definition bare_db :: config_db where
  "bare_db = \<lparr>cb_settings = Map.empty, cb_configs = [], cb_policies = cb_policies sample_config_db, cb_tools = [],
     cb_risks = [\<lparr>ro_TenantID = ''t1'', ro_ActionType = ''CRM.READ'', ro_ActionRisk = ''LOW'', ro_UpdatedAt = 0\<rparr>]\<rparr>"

theorem first_publish_keeps_stale_risk_witness:
  "\<exists>db1 db2 cache. UpdateRiskOverride no_faults 2 ''t1'' ''CRM.READ'' ''CRITICAL'' bare_db = (Inr (), db1) \<and>
     PublishPolicyVersion no_faults 3 ''t1'' ''v1'' db1 = (Inr (), db2) \<and>
     fst (lookup_risk db2 ''t1'' ''CRM.READ'' 4 cache) = Inr ''LOW''"
proof -
  have a: "config_of bare_db ''t1'' = None" "GetRiskOverride no_faults ''t1'' ''CRM.READ'' bare_db = Inr ''LOW''"
    by (simp_all add: bare_db_def config_of_def GetRiskOverride_def risk_of_def or_not_found_def)
  obtain cache where l: "lookup_risk bare_db ''t1'' ''CRM.READ'' 1 (New 60) = (Inr ''LOW'', Some cache)"
    by (simp add: lookup_risk_def getRiskOverrideCached_def Get_def New_def GetRiskOverride_def risk_of_def
        or_not_found_def bare_db_def Let_def)
  obtain db1 where u: "UpdateRiskOverride no_faults 2 ''t1'' ''CRM.READ'' ''CRITICAL'' bare_db = (Inr (), db1)"
    "cb_policies db1 = cb_policies sample_config_db" "cb_settings db1 = Map.empty"
    by (simp add: UpdateRiskOverride_def ensureAdminWritesAllowed_def bumpTenantConfigVersion_def set_configs_def bare_db_def
        risk_of_def)
  have p: "PublishPolicyVersion no_faults 3 ''t1'' ''v1'' db1 = (Inr (), activate ''t1'' ''v1'' 3 db1)"
    by (simp add: Publish_Inr write_locked_def policy_of_def u(2,3) sample_config_db_def)
  from first_publish_keeps_stale_risk [OF a l u(1) p, of 4] u(1) p show ?thesis by auto
qed

end
