(* ===== verification/Go_Json.thy ===== *)
theory Go_Json
  imports Go_Text
begin

text \<open>
  The part of \<open>encoding/json\<close> the gateway uses: \<open>json.Marshal\<close> of dynamic values and
  the decoder with \<open>UseNumber\<close>. Map keys are written sorted; strings are escaped as Go
  does, with the characters that matter to HTML as numeric escapes. Bytes from 128 on are
  copied in both directions, which is what Go does with valid UTF-8 (the line separators
  U+2028 and U+2029 apart, which Go escapes). The text of a \<open>float64\<close> is the parameter
  \<open>fmt\<close>. The decoder's nesting limit of 10000 is left out; its recursion is bounded by
  the length of the text, which is always enough.
\<close>

subsection \<open>Strings\<close>

definition hex_digit :: "nat \<Rightarrow> char" where
  "hex_digit n = (if n < 10 then char_of (48 + n) else char_of (87 + n))"

definition hex_val :: "char \<Rightarrow> nat option" where
  "hex_val c = (let n = (of_char c :: nat)
     in if 48 \<le> n \<and> n \<le> 57 then Some (n - 48)
        else if 97 \<le> n \<and> n \<le> 102 then Some (n - 87)
        else if 65 \<le> n \<and> n \<le> 70 then Some (n - 55) else None)"

definition quote_mark :: char where "quote_mark = CHR 0x22"
definition backslash :: char where "backslash = CHR 0x5C"

definition esc_char :: "char \<Rightarrow> string" where
  "esc_char c =
     (let n = (of_char c :: nat)
      in if c = quote_mark \<or> c = backslash then [backslash, c]
         else if c = CHR 0x08 then [backslash, CHR ''b'']
         else if c = CHR 0x0C then [backslash, CHR ''f'']
         else if c = CHR 0x0A then [backslash, CHR ''n'']
         else if c = CHR 0x0D then [backslash, CHR ''r'']
         else if c = CHR 0x09 then [backslash, CHR ''t'']
         else if n < 32 \<or> c = CHR ''<'' \<or> c = CHR ''>'' \<or> c = CHR ''&''
         then [backslash, CHR ''u'', CHR ''0'', CHR ''0'', hex_digit (n div 16), hex_digit (n mod 16)]
         else [c])"

definition quote :: "string \<Rightarrow> string" where
  "quote s = quote_mark # concat (map esc_char s) @ [quote_mark]"

definition simple_escape :: "char \<Rightarrow> char option" where
  "simple_escape c =
     (if c = quote_mark \<or> c = backslash \<or> c = CHR ''/'' then Some c
      else if c = CHR ''b'' then Some (CHR 0x08)
      else if c = CHR ''f'' then Some (CHR 0x0C)
      else if c = CHR ''n'' then Some (CHR 0x0A)
      else if c = CHR ''r'' then Some (CHR 0x0D)
      else if c = CHR ''t'' then Some (CHR 0x09) else None)"

fun hex4 :: "string \<Rightarrow> (nat \<times> string) option" where
  "hex4 (a # b # c # d # s) =
     (case (hex_val a, hex_val b, hex_val c, hex_val d) of
        (Some w, Some x, Some y, Some z) \<Rightarrow> Some (((w * 16 + x) * 16 + y) * 16 + z, s)
      | _ \<Rightarrow> None)"
| "hex4 _ = None"

definition utf8_encode :: "nat \<Rightarrow> string" where
  "utf8_encode r =
     (if r < 0x80 then [char_of r]
      else if r < 0x800 then [char_of (0xC0 + r div 64), char_of (0x80 + r mod 64)]
      else if r < 0x10000
      then [char_of (0xE0 + r div 4096), char_of (0x80 + r div 64 mod 64), char_of (0x80 + r mod 64)]
      else [char_of (0xF0 + r div 262144), char_of (0x80 + r div 4096 mod 64),
            char_of (0x80 + r div 64 mod 64), char_of (0x80 + r mod 64)])"

text \<open>The second half of a surrogate pair, if one follows.\<close>

definition low_surrogate :: "string \<Rightarrow> (nat \<times> string) option" where
  "low_surrogate s =
     (case s of b # u # t \<Rightarrow>
        if b = backslash \<and> u = CHR ''u''
        then (case hex4 t of Some (r, t') \<Rightarrow> if 0xDC00 \<le> r \<and> r < 0xE000 then Some (r, t') else None | None \<Rightarrow> None)
        else None
      | _ \<Rightarrow> None)"

definition unicode_escape :: "string \<Rightarrow> (string \<times> string) option" where
  "unicode_escape t =
     (case hex4 t of
        None \<Rightarrow> None
      | Some (r, t') \<Rightarrow>
          if 0xD800 \<le> r \<and> r < 0xDC00
          then (case low_surrogate t' of
                  Some (r2, t2) \<Rightarrow> Some (utf8_encode (0x10000 + (r - 0xD800) * 1024 + (r2 - 0xDC00)), t2)
                | None \<Rightarrow> Some (utf8_encode 0xFFFD, t'))
          else if 0xDC00 \<le> r \<and> r < 0xE000 then Some (utf8_encode 0xFFFD, t')
          else Some (utf8_encode r, t'))"

lemma hex4_length: "hex4 s = Some (r, t) \<Longrightarrow> length t < length s"
  by (induction s rule: hex4.induct) (auto split: option.splits)

lemma unicode_escape_length: "unicode_escape s = Some (u, t) \<Longrightarrow> length t < length s"
proof -
  have low: "length t < length t'" if "low_surrogate t' = Some (r, t)" for t' r t
    using that by (auto simp: low_surrogate_def split: list.splits if_splits option.splits dest!: hex4_length)
  then show "unicode_escape s = Some (u, t) \<Longrightarrow> length t < length s"
    by (auto simp: unicode_escape_def split: option.splits if_splits dest!: hex4_length low)
qed

text \<open>The rest of a string literal after its opening quote.\<close>

function unquote :: "string \<Rightarrow> (string \<times> string) option" where
  "unquote [] = None"
| "unquote (c # s) =
     (if c = quote_mark then Some ([], s)
      else if (of_char c :: nat) < 32 then None
      else if c \<noteq> backslash
      then (case unquote s of None \<Rightarrow> None | Some (u, t) \<Rightarrow> Some (c # u, t))
      else (case s of
              [] \<Rightarrow> None
            | e # s' \<Rightarrow>
                if e = CHR ''u''
                then (case unicode_escape s' of
                        None \<Rightarrow> None
                      | Some (x, s2) \<Rightarrow> (case unquote s2 of None \<Rightarrow> None | Some (u, t) \<Rightarrow> Some (x @ u, t)))
                else (case simple_escape e of
                        None \<Rightarrow> None
                      | Some x \<Rightarrow> (case unquote s' of None \<Rightarrow> None | Some (u, t) \<Rightarrow> Some (x # u, t)))))"
  by pat_completeness auto
termination
  by (relation "measure length") (auto dest!: unicode_escape_length)

declare unquote.simps [simp del]

lemma hex_val_digit: "n < 16 \<Longrightarrow> hex_val (hex_digit n) = Some n"
  by (auto simp: hex_val_def hex_digit_def Let_def of_char_of)

lemma unquote_end [simp]: "unquote (quote_mark # s) = Some ([], s)"
  by (simp add: unquote.simps)

lemma quote_mark_escape: "simple_escape quote_mark = Some quote_mark" "simple_escape backslash = Some backslash"
  by (simp_all add: simple_escape_def)

lemma letter_escapes:
  "simple_escape CHR ''b'' = Some (CHR 0x08)" "simple_escape CHR ''f'' = Some (CHR 0x0C)"
  "simple_escape CHR ''n'' = Some (CHR 0x0A)" "simple_escape CHR ''r'' = Some (CHR 0x0D)"
  "simple_escape CHR ''t'' = Some (CHR 0x09)"
  by (simp_all add: simple_escape_def quote_mark_def backslash_def)

lemma special_chars:
  "CHR 0x08 \<noteq> quote_mark" "CHR 0x08 \<noteq> backslash" "CHR 0x09 \<noteq> quote_mark"
  "CHR 0x09 \<noteq> backslash" "CHR 0x0A \<noteq> quote_mark" "CHR 0x0A \<noteq> backslash"
  "CHR 0x0C \<noteq> quote_mark" "CHR 0x0C \<noteq> backslash" "CHR 0x0D \<noteq> quote_mark"
  "CHR 0x0D \<noteq> backslash"
  by (simp_all add: quote_mark_def backslash_def)

lemma unquote_backslash:
  "unquote (backslash # e # s) =
     (if e = CHR ''u''
      then (case unicode_escape s of
              None \<Rightarrow> None
            | Some (x, s2) \<Rightarrow> (case unquote s2 of None \<Rightarrow> None | Some (u, t) \<Rightarrow> Some (x @ u, t)))
      else (case simple_escape e of
              None \<Rightarrow> None
            | Some x \<Rightarrow> (case unquote s of None \<Rightarrow> None | Some (u, t) \<Rightarrow> Some (x # u, t))))"
  by (subst unquote.simps(2)) (simp add: quote_mark_def backslash_def)

lemma escape_letters [simp]:
  "quote_mark \<noteq> CHR ''u''" "backslash \<noteq> CHR ''u''" "quote_mark \<noteq> CHR ''{''" "quote_mark \<noteq> CHR ''[''"
  "quote_mark \<noteq> CHR ''}''"
  by (simp_all add: quote_mark_def backslash_def)

lemma unquote_esc:
  "unquote (esc_char c @ s) = (case unquote s of None \<Rightarrow> None | Some (u, t) \<Rightarrow> Some (c # u, t))"
proof -
  let ?n = "(of_char c :: nat)"
  consider "c = quote_mark \<or> c = backslash" | "c \<in> {CHR 0x08, CHR 0x09, CHR 0x0A, CHR 0x0C, CHR 0x0D}"
    | "c \<noteq> quote_mark" "c \<noteq> backslash" "c \<notin> {CHR 0x08, CHR 0x09, CHR 0x0A, CHR 0x0C, CHR 0x0D}" "?n < 32 \<or> c \<in> {CHR ''<'', CHR ''>'', CHR ''&''}"
    | "c \<noteq> quote_mark" "c \<noteq> backslash" "\<not> ?n < 32" "c \<notin> {CHR ''<'', CHR ''>'', CHR ''&''}"
    by blast
  then show ?thesis
  proof cases
    case 1
    then show ?thesis
      by (auto simp: esc_char_def unquote_backslash quote_mark_escape)
  next
    case 2
    then show ?thesis
      by (auto simp: esc_char_def Let_def unquote_backslash letter_escapes special_chars)
  next
    case 3
    have n: "?n < 64" using 3(4) by (elim disjE insertE) simp_all
    then have h: "?n div 16 < 16" "?n mod 16 < 16" by auto
    have hz: "hex_val CHR ''0'' = Some 0" by (simp add: hex_val_def)
    have e: "esc_char c = [backslash, CHR ''u'', CHR ''0'', CHR ''0'', hex_digit (?n div 16), hex_digit (?n mod 16)]"
      using 3 by (simp add: esc_char_def Let_def)
    have "unicode_escape (CHR ''0'' # CHR ''0'' # hex_digit (?n div 16) # hex_digit (?n mod 16) # s) = Some ([c], s)"
      using n by (simp add: unicode_escape_def hex_val_digit [OF h(1)] hex_val_digit [OF h(2)] hz utf8_encode_def)
    then show ?thesis
      unfolding e by (simp add: unquote_backslash split: option.splits)
  next
    case 4
    have "c \<notin> {CHR 0x08, CHR 0x09, CHR 0x0A, CHR 0x0C, CHR 0x0D}" using 4(3) by (intro notI, elim insertE emptyE) simp_all
    then have "esc_char c = [c]" using 4 by (simp add: esc_char_def Let_def)
    with 4 show ?thesis by (simp add: unquote.simps(2) [of c])
  qed
qed

lemma unquote_quote: "unquote (concat (map esc_char s) @ quote_mark # rest) = Some (s, rest)"
  by (induction s) (simp_all add: unquote_esc)

subsection \<open>Numbers\<close>

definition num_char :: "char \<Rightarrow> bool" where
  "num_char c = (is_digit c \<or> c \<in> {CHR ''-'', CHR ''+'', CHR ''.'', CHR ''e'', CHR ''E''})"

text \<open>The grammar of number literals: an optional minus, a whole number without leading
  zeros, optional decimals, an optional exponent.\<close>

definition valid_exponent :: "string \<Rightarrow> bool" where
  "valid_exponent s =
     (case s of [] \<Rightarrow> True
      | c # t \<Rightarrow> c \<in> {CHR ''e'', CHR ''E''} \<and>
          all_digits (case t of d # t' \<Rightarrow> if d = CHR ''+'' \<or> d = CHR ''-'' then t' else t | [] \<Rightarrow> t))"

definition valid_decimals :: "string \<Rightarrow> bool" where
  "valid_decimals s =
     (case s of [] \<Rightarrow> True
      | c # t \<Rightarrow> if c = CHR ''.'' then takeWhile is_digit t \<noteq> [] \<and> valid_exponent (dropWhile is_digit t)
                else valid_exponent s)"

definition valid_whole :: "string \<Rightarrow> bool" where
  "valid_whole s =
     (case s of [] \<Rightarrow> False
      | c # t \<Rightarrow> if c = CHR ''0'' then valid_decimals t
                else is_digit c \<and> valid_decimals (dropWhile is_digit t))"

definition is_number :: "string \<Rightarrow> bool" where
  "is_number s =
     (list_all num_char s \<and>
      valid_whole (case s of c # t \<Rightarrow> if c = CHR ''-'' then t else s | [] \<Rightarrow> s))"

text \<open>What may follow a value: nothing, or a character that cannot continue a number.\<close>

definition delim :: "string \<Rightarrow> bool" where
  "delim s = (s = [] \<or> \<not> num_char (hd s))"

lemma num_char_run:
  "is_number n \<Longrightarrow> delim r \<Longrightarrow> takeWhile num_char (n @ r) = n \<and> dropWhile num_char (n @ r) = r"
  by (cases r) (auto simp: is_number_def delim_def list_all_iff takeWhile_append2 dropWhile_append2)

lemma nat_text_0: "nat_text 0 = ''0''"
  by code_simp

lemma nat_text_zero: "nat_text n = CHR ''0'' # s \<Longrightarrow> s = []"
proof (induction n arbitrary: s rule: nat_text.induct)
  case (1 n)
  show ?case
  proof (cases "n < 10")
    case True
    then show ?thesis using 1(2) by (simp add: nat_text.simps [of n])
  next
    case False
    then obtain t where "nat_text (n div 10) = CHR ''0'' # t"
      using 1(2) by (cases "nat_text (n div 10)") (auto simp: nat_text.simps [of n])
    with 1(1) [OF False] have "nat_text (n div 10) = ''0''" by simp
    then have "n div 10 = 0" using nat_text_inj [of "n div 10" 0] nat_text_0 by metis
    with False show ?thesis by simp
  qed
qed

lemma is_number_int_text [simp]: "is_number (int_text i)"
proof -
  have d: "list_all is_digit (nat_text n)" for n
    using all_digits_nat_text by (simp add: all_digits_def)
  have nc: "list_all num_char (nat_text n)" for n
    using d [of n] by (auto simp: list_all_iff num_char_def)
  have w: "valid_whole (nat_text n)" for n
  proof (cases "nat_text n")
    case (Cons c s)
    have "\<forall>x\<in>set s. is_digit x" and c: "is_digit c" using d [of n] Cons by (auto simp: list_all_iff)
    then have dw: "dropWhile is_digit s = []" by (simp add: dropWhile_eq_Nil_conv)
    have z: "s = []" if "c = CHR ''0''" using nat_text_zero [of n s] Cons that by simp
    show ?thesis
    proof (cases "c = CHR ''0''")
      case True
      with z Cons show ?thesis by (simp add: valid_whole_def valid_decimals_def)
    next
      case False
      then show ?thesis unfolding Cons valid_whole_def by (simp add: dw c valid_decimals_def del: dropWhile_eq_Nil_conv)
    qed
  qed simp
  show ?thesis
  proof (cases "i < 0")
    case True
    then show ?thesis using nc w by (simp add: is_number_def int_text_def num_char_def)
  next
    case False
    obtain c s where c: "nat_text (nat i) = c # s" by (cases "nat_text (nat i)") auto
    then show ?thesis
      using False nc [of "nat i"] w [of "nat i"] nat_text_hd [OF c] by (simp add: is_number_def int_text_def)
  qed
qed

subsection \<open>Encoding\<close>

definition sort_keys :: "(string \<times> 'v) list \<Rightarrow> (string \<times> 'v) list" where
  "sort_keys m = SliceStable (\<lambda>a b. str_less (fst a) (fst b)) m"

definition json_member :: "string \<times> string \<Rightarrow> string" where
  "json_member kt = quote (fst kt) @ '':'' @ snd kt"

fun json_text :: "(rat \<Rightarrow> string) \<Rightarrow> any \<Rightarrow> string" where
  "json_text fmt Nil_v = ''null''"
| "json_text fmt (Bool_v b) = (if b then ''true'' else ''false'')"
| "json_text fmt (Float_v r) = fmt r"
| "json_text fmt (Int_v i) = int_text i"
| "json_text fmt (Number_v n) = (if n = [] then ''0'' else n)"
| "json_text fmt (Str_v s) = quote s"
| "json_text fmt (List_v xs) = ''['' @ Join '','' (map (json_text fmt) xs) @ '']''"
| "json_text fmt (Map_v m) =
     ''{'' @ Join '','' (map json_member (sort_keys (map (\<lambda>(k, v). (k, json_text fmt v)) m))) @ ''}''"

text \<open>A \<open>json.Number\<close> that is no number literal makes \<open>json.Marshal\<close> fail.\<close>

fun numbers_ok :: "any \<Rightarrow> bool" where
  "numbers_ok (Number_v n) = (n = [] \<or> is_number n)"
| "numbers_ok (List_v xs) = list_all numbers_ok xs"
| "numbers_ok (Map_v m) = list_all (\<lambda>(k, v). numbers_ok v) m"
| "numbers_ok _ = True"

definition Marshal :: "(rat \<Rightarrow> string) \<Rightarrow> any \<Rightarrow> string option" where
  "Marshal fmt v = (if numbers_ok v then Some (json_text fmt v) else None)"

text \<open>What is used of the formatting of floats: it gives a number literal.\<close>

definition float_format :: "(rat \<Rightarrow> string) \<Rightarrow> bool" where
  "float_format fmt = (\<forall>r. is_number (fmt r))"

lemma float_formatD: "float_format fmt \<Longrightarrow> is_number (fmt r)"
  by (simp add: float_format_def)

subsection \<open>Decoding\<close>

definition json_space :: "char \<Rightarrow> bool" where
  "json_space c = (c \<in> {CHR '' '', CHR 0x09, CHR 0x0A, CHR 0x0D})"

definition skip_ws :: "string \<Rightarrow> string" where "skip_ws s = dropWhile json_space s"

definition put_last :: "(string \<times> 'v) list \<Rightarrow> string \<times> 'v \<Rightarrow> (string \<times> 'v) list" where
  "put_last m kv = filter (\<lambda>(k', _). k' \<noteq> fst kv) m @ [kv]"

definition json_literal :: "string \<Rightarrow> (any \<times> string) option" where
  "json_literal s =
     (if HasPrefix s ''null'' then Some (Nil_v, drop 4 s)
      else if HasPrefix s ''true'' then Some (Bool_v True, drop 4 s)
      else if HasPrefix s ''false'' then Some (Bool_v False, drop 5 s)
      else let n = takeWhile num_char s
           in if is_number n then Some (Number_v n, dropWhile num_char s) else None)"

fun parse_value :: "nat \<Rightarrow> string \<Rightarrow> (any \<times> string) option"
and parse_elems :: "nat \<Rightarrow> string \<Rightarrow> (any list \<times> string) option"
and parse_members :: "nat \<Rightarrow> string \<Rightarrow> ((string \<times> any) list \<times> string) option" where
  "parse_value 0 s = None"
| "parse_value (Suc n) s =
     (case skip_ws s of
        [] \<Rightarrow> None
      | c # t \<Rightarrow>
          if c = CHR ''{''
          then (case skip_ws t of
                  [] \<Rightarrow> None
                | d # u \<Rightarrow> if d = CHR ''}'' then Some (Map_v [], u)
                    else (case parse_members n t of None \<Rightarrow> None
                          | Some (m, u) \<Rightarrow> Some (Map_v (foldl put_last [] m), u)))
          else if c = CHR ''[''
          then (case skip_ws t of
                  [] \<Rightarrow> None
                | d # u \<Rightarrow> if d = CHR '']'' then Some (List_v [], u)
                    else (case parse_elems n t of None \<Rightarrow> None | Some (vs, u) \<Rightarrow> Some (List_v vs, u)))
          else if c = quote_mark
          then (case unquote t of None \<Rightarrow> None | Some (x, u) \<Rightarrow> Some (Str_v x, u))
          else json_literal (c # t))"
| "parse_elems 0 s = None"
| "parse_elems (Suc n) s =
     (case parse_value n s of
        None \<Rightarrow> None
      | Some (v, t) \<Rightarrow>
          (case skip_ws t of
             [] \<Rightarrow> None
           | d # u \<Rightarrow> if d = CHR '']'' then Some ([v], u)
               else if d = CHR '',''
               then (case parse_elems n u of None \<Rightarrow> None | Some (vs, w) \<Rightarrow> Some (v # vs, w))
               else None))"
| "parse_members 0 s = None"
| "parse_members (Suc n) s =
     (case skip_ws s of
        [] \<Rightarrow> None
      | c # t \<Rightarrow>
          if c \<noteq> quote_mark then None
          else (case unquote t of
                  None \<Rightarrow> None
                | Some (k, u) \<Rightarrow>
                    (case skip_ws u of
                       [] \<Rightarrow> None
                     | d # u' \<Rightarrow>
                         if d \<noteq> CHR '':'' then None
                         else (case parse_value n u' of
                                 None \<Rightarrow> None
                               | Some (v, w) \<Rightarrow>
                                   (case skip_ws w of
                                      [] \<Rightarrow> None
                                    | e # w' \<Rightarrow>
                                        if e = CHR ''}'' then Some ([(k, v)], w')
                                        else if e = CHR '',''
                                        then (case parse_members n w' of None \<Rightarrow> None
                                              | Some (m, x) \<Rightarrow> Some ((k, v) # m, x))
                                        else None)))))"

definition Decode :: "string \<Rightarrow> (any \<times> string) option" where
  "Decode s = parse_value (length s) s"

definition Unmarshal :: "string \<Rightarrow> any option" where
  "Unmarshal s = (case Decode s of Some (v, t) \<Rightarrow> if skip_ws t = [] then Some v else None | None \<Rightarrow> None)"

subsection \<open>Round trip\<close>

text \<open>What decoding makes of an encoded value: numbers become literals, keys are sorted.\<close>

fun norm_json :: "(rat \<Rightarrow> string) \<Rightarrow> any \<Rightarrow> any" where
  "norm_json fmt (Float_v r) = Number_v (fmt r)"
| "norm_json fmt (Int_v i) = Number_v (int_text i)"
| "norm_json fmt (Number_v n) = Number_v (if n = [] then ''0'' else n)"
| "norm_json fmt (List_v xs) = List_v (map (norm_json fmt) xs)"
| "norm_json fmt (Map_v m) = Map_v (sort_keys (map (\<lambda>(k, v). (k, norm_json fmt v)) m))"
| "norm_json fmt v = v"

lemma set_sort_keys [simp]: "set (sort_keys m) = set m"
  by (simp add: sort_keys_def)

lemma sort_keys_Nil [simp]: "sort_keys m = [] \<longleftrightarrow> m = []"
  by (simp add: sort_keys_def)

lemma sort_keys_empty [simp]: "sort_keys [] = []"
  by (simp add: sort_keys_def)

lemma stable_insert_map:
  "stable_insert (\<lambda>a b. str_less (fst a) (fst b)) (k, f v) (map (\<lambda>(k, v). (k, f v)) m) =
   map (\<lambda>(k, v). (k, f v)) (stable_insert (\<lambda>a b. str_less (fst a) (fst b)) (k, v) m)"
  by (induction m) auto

lemma sort_keys_map: "sort_keys (map (\<lambda>(k, v). (k, f v)) m) = map (\<lambda>(k, v). (k, f v)) (sort_keys m)"
  unfolding sort_keys_def
proof (induction m)
  case (Cons a m)
  obtain k v where "a = (k, v)" by (cases a)
  with Cons show ?case using stable_insert_map [of k f v] by simp
qed simp

lemma distinct_stable_insert:
  "distinct (map fst (stable_insert lt x m)) \<longleftrightarrow> fst x \<notin> fst ` set m \<and> distinct (map fst m)"
  by (induction m) auto

lemma distinct_sort_keys [simp]: "distinct (map fst (sort_keys m)) \<longleftrightarrow> distinct (map fst m)"
  unfolding sort_keys_def by (induction m) (auto simp: distinct_stable_insert)

lemma foldl_put_last:
  "distinct (map fst (acc @ m)) \<Longrightarrow> foldl put_last acc m = acc @ m"
proof (induction m arbitrary: acc)
  case (Cons a m)
  have "filter (\<lambda>(k', _). k' \<noteq> fst a) acc = acc" using Cons.prems by (auto simp: filter_id_conv image_iff)
  then have "put_last acc a = acc @ [a]" by (simp add: put_last_def)
  then show ?case using Cons.IH [of "acc @ [a]"] Cons.prems by simp
qed simp

lemma skip_ws_mark [simp]:
  "skip_ws (CHR ''}'' # s) = CHR ''}'' # s" "skip_ws (CHR '']'' # s) = CHR '']'' # s"
  "skip_ws (CHR '','' # s) = CHR '','' # s" "skip_ws (CHR '':'' # s) = CHR '':'' # s"
  "skip_ws (quote_mark # s) = quote_mark # s" "skip_ws (CHR ''{'' # s) = CHR ''{'' # s"
  "skip_ws (CHR ''['' # s) = CHR ''['' # s" "skip_ws [] = []"
  by (simp_all add: skip_ws_def json_space_def quote_mark_def)

lemma delim_mark [simp]:
  "delim []" "delim (CHR ''}'' # s)" "delim (CHR '']'' # s)" "delim (CHR '','' # s)"
  by (simp_all add: delim_def num_char_def is_digit_def)

lemma zero_digit [simp]: "is_digit CHR ''0''"
  by (simp add: is_digit_def)

lemma number_start: "is_number n \<Longrightarrow> \<exists>c t. n = c # t \<and> (is_digit c \<or> c = CHR ''-'')"
  by (auto simp: is_number_def valid_whole_def split: list.splits if_splits)

lemma digit_not_mark:
  "is_digit c \<or> c = CHR ''-'' \<Longrightarrow> \<not> json_space c \<and> c \<notin> {CHR '']'', CHR ''}'', CHR ''['', CHR ''{'', quote_mark, CHR ''n'', CHR ''t'', CHR ''f''}"
  by (auto simp: is_digit_def json_space_def quote_mark_def)

definition value_start :: "string \<Rightarrow> bool" where
  "value_start s = (\<exists>c t. s = c # t \<and> \<not> json_space c \<and> c \<noteq> CHR '']'')"

lemma value_start_number: "is_number n \<Longrightarrow> value_start n"
  using number_start digit_not_mark unfolding value_start_def by (metis insertCI)

lemma value_start_text:
  assumes "float_format fmt" and "numbers_ok v"
  shows "value_start (json_text fmt v)"
  using assms(2)
proof (cases v)
  case (Float_v r)
  then show ?thesis using value_start_number [OF float_formatD [OF assms(1)]] by simp
next
  case (Int_v i)
  then show ?thesis using value_start_number [OF is_number_int_text] by simp
next
  case (Number_v n)
  then show ?thesis using assms(2) value_start_number [of n] by (auto simp: value_start_def json_space_def)
qed (auto simp: value_start_def json_space_def quote_def quote_mark_def)

lemma value_start_skip: "value_start s \<Longrightarrow> skip_ws (s @ t) = s @ t \<and> s \<noteq> []"
  by (auto simp: value_start_def skip_ws_def)

lemma parse_number:
  assumes "is_number n" and "delim r"
  shows "parse_value (Suc k) (n @ r) = Some (Number_v n, r)"
proof -
  obtain c t where n: "n = c # t" and c: "is_digit c \<or> c = CHR ''-''" using number_start [OF assms(1)] by blast
  note m = digit_not_mark [OF c]
  have "skip_ws (n @ r) = c # (t @ r)" using m n by (simp add: skip_ws_def)
  moreover have "json_literal (c # (t @ r)) = Some (Number_v n, r)"
    using num_char_run [OF assms] assms(1) m n by (auto simp: json_literal_def HasPrefix_def Let_def)
  ultimately show ?thesis using m by simp
qed

lemma parse_elems_join:
  assumes "\<And>x k r. x \<in> set xs \<Longrightarrow> length (f x) \<le> k \<Longrightarrow> delim r \<Longrightarrow> parse_value k (f x @ r) = Some (g x, r)"
    and "xs \<noteq> []" and "length (Join '','' (map f xs)) < k"
  shows "parse_elems k (Join '','' (map f xs) @ CHR '']'' # rest) = Some (map g xs, rest)"
  using assms
proof (induction xs arbitrary: k)
  case (Cons x xs)
  obtain n where k: "k = Suc n" using Cons.prems(3) by (cases k) auto
  show ?case
  proof (cases xs)
    case Nil
    then have "parse_value n (f x @ CHR '']'' # rest) = Some (g x, CHR '']'' # rest)"
      using Cons.prems k by simp
    with Nil k show ?thesis by simp
  next
    case (Cons y ys)
    let ?tail = "Join '','' (map f xs) @ CHR '']'' # rest"
    have l: "length (f x) \<le> n" "length (Join '','' (map f xs)) < n"
      using Cons.prems(3) k local.Cons by auto
    have "parse_value n (f x @ CHR '','' # ?tail) = Some (g x, CHR '','' # ?tail)"
      using Cons.prems(1) l(1) by simp
    moreover have "parse_elems n ?tail = Some (map g xs, rest)"
      using Cons.IH [OF _ _ l(2)] Cons.prems(1) local.Cons by simp
    ultimately show ?thesis using k local.Cons by simp
  qed
qed simp

lemma length_member: "length t < length (json_member (key, t))"
  by (simp add: json_member_def quote_def)

lemma parse_members_join:
  assumes "\<And>x k r. x \<in> set m \<Longrightarrow> length (f (snd x)) \<le> k \<Longrightarrow> delim r \<Longrightarrow> parse_value k (f (snd x) @ r) = Some (g (snd x), r)"
    and "m \<noteq> []" and "length (Join '','' (map json_member (map (\<lambda>(k, v). (k, f v)) m))) < k"
  shows "parse_members k (Join '','' (map json_member (map (\<lambda>(k, v). (k, f v)) m)) @ CHR ''}'' # rest) =
    Some (map (\<lambda>(k, v). (k, g v)) m, rest)"
  using assms
proof (induction m arbitrary: k)
  case (Cons x m)
  obtain key v where x: "x = (key, v)" by (cases x)
  obtain n where k: "k = Suc n" using Cons.prems(3) by (cases k) auto
  have uq: "unquote (concat (map esc_char key) @ quote_mark # r) = Some (key, r)" for r
    by (rule unquote_quote)
  have mem: "json_member (key, f v) = quote_mark # concat (map esc_char key) @ quote_mark # CHR '':'' # f v"
    by (simp add: json_member_def quote_def)
  show ?case
  proof (cases m)
    case Nil
    then have "parse_value n (f v @ CHR ''}'' # rest) = Some (g v, CHR ''}'' # rest)"
      using Cons.prems k x by (simp add: json_member_def quote_def)
    with Nil k x show ?thesis by (simp add: json_member_def quote_def uq)
  next
    case (Cons y ys)
    let ?tail = "Join '','' (map json_member (map (\<lambda>(k, v). (k, f v)) m)) @ CHR ''}'' # rest"
    have l: "length (f v) \<le> n" "length (Join '','' (map json_member (map (\<lambda>(k, v). (k, f v)) m))) < n"
      using Cons.prems(3) k local.Cons x length_member [of "f v" key] by auto
    have "parse_value n (f v @ CHR '','' # ?tail) = Some (g v, CHR '','' # ?tail)"
      using Cons.prems(1) [of x] l(1) x by simp
    moreover have "parse_members n ?tail = Some (map (\<lambda>(k, v). (k, g v)) m, rest)"
      using Cons.IH [OF _ _ l(2)] Cons.prems(1) local.Cons by simp
    ultimately show ?thesis using k local.Cons x by (simp add: mem uq)
  qed
qed simp

theorem parse_json_text:
  assumes "float_format fmt" and "wf_any v" and "numbers_ok v"
    and "length (json_text fmt v) \<le> k" and "delim rest"
  shows "parse_value k (json_text fmt v @ rest) = Some (norm_json fmt v, rest)"
  using assms(2-)
proof (induction v arbitrary: k rest)
  case Nil_v
  then show ?case by (cases k) (auto simp: skip_ws_def json_space_def quote_mark_def json_literal_def HasPrefix_def)
next
  case (Bool_v b)
  then show ?case
    by (cases k; cases b) (auto simp: skip_ws_def json_space_def quote_mark_def json_literal_def HasPrefix_def)
next
  case (Float_v r)
  then show ?case using parse_number [OF float_formatD [OF assms(1)]] number_start [OF float_formatD [OF assms(1), of r]] by (cases k) auto
next
  case (Int_v i)
  then show ?case using parse_number [OF is_number_int_text] number_start [OF is_number_int_text [of i]] by (cases k) auto
next
  case (Number_v n)
  define t where "t = (if n = [] then ''0'' else n)"
  have "is_number ''0''" by code_simp
  with Number_v have "is_number t" by (auto simp: t_def)
  then show ?case using parse_number [of t rest] number_start [of t] Number_v by (cases k) (auto simp flip: t_def)
next
  case (Str_v x)
  then show ?case by (cases k) (auto simp: quote_def unquote_quote)
next
  case (List_v xs)
  obtain n where k: "k = Suc n" using List_v.prems by (cases k) auto
  show ?case
  proof (cases xs)
    case Nil
    then show ?thesis using k by (simp add: quote_mark_def)
  next
    case (Cons y ys)
    have "value_start (json_text fmt y)" using List_v.prems Cons by (intro value_start_text assms) auto
    then obtain c t where c: "json_text fmt y = c # t" "\<not> json_space c" "c \<noteq> CHR '']''"
      by (auto simp: value_start_def)
    obtain u where u: "Join '','' (map (json_text fmt) xs) = c # u" using c(1) Cons by (cases ys) auto
    have "parse_elems n (Join '','' (map (json_text fmt) xs) @ CHR '']'' # rest) = Some (map (norm_json fmt) xs, rest)"
      using List_v.prems k Cons
      by (intro parse_elems_join List_v.IH) (auto simp: list_all_iff)
    then show ?thesis using c u k by (simp add: skip_ws_def json_space_def)
  qed
next
  case (Map_v m)
  obtain n where k: "k = Suc n" using Map_v.prems by (cases k) auto
  let ?s = "sort_keys m"
  have t: "json_text fmt (Map_v m) = ''{'' @ Join '','' (map json_member (map (\<lambda>(k, v). (k, json_text fmt v)) ?s)) @ ''}''"
    by (simp add: sort_keys_map)
  have d: "distinct (map fst (map (\<lambda>(k, v). (k, norm_json fmt v)) ?s))"
    using Map_v.prems by (simp add: case_prod_unfold comp_def)
  show ?case
  proof (cases ?s)
    case Nil
    then show ?thesis using k t by (simp add: quote_mark_def sort_keys_map)
  next
    case (Cons y ys)
    let ?j = "Join '','' (map json_member (map (\<lambda>(k, v). (k, json_text fmt v)) ?s))"
    obtain u where u: "?j = quote_mark # u"
      using Cons by (cases y; cases ys) (auto simp: json_member_def quote_def)
    have ih: "parse_value k' (json_text fmt (snd x) @ r) = Some (norm_json fmt (snd x), r)"
      if "x \<in> set ?s" "length (json_text fmt (snd x)) \<le> k'" "delim r" for x k' r
      using Map_v.IH [of x "snd x"] Map_v.prems(1,2) that by (auto simp: list_all_iff)
    have "length ?j < n" using Map_v.prems(3) k unfolding t by simp
    with ih Cons have "parse_members n (?j @ CHR ''}'' # rest) = Some (map (\<lambda>(k, v). (k, norm_json fmt v)) ?s, rest)"
      by (intro parse_members_join) auto
    moreover have "foldl put_last [] (map (\<lambda>(k, v). (k, norm_json fmt v)) ?s) = map (\<lambda>(k, v). (k, norm_json fmt v)) ?s"
      using foldl_put_last [of "[]"] d by (metis append_Nil)
    ultimately show ?thesis unfolding t k using u by (simp add: sort_keys_map)
  qed
qed

lemma Decode_Marshal:
  assumes "float_format fmt" and "wf_any v" and "Marshal fmt v = Some s"
  shows "Decode s = Some (norm_json fmt v, [])"
  using parse_json_text [OF assms(1,2), where rest = "[]" and k = "length s"] assms(3)
  by (auto simp: Decode_def Marshal_def split: if_splits)

lemma Unmarshal_Marshal:
  assumes "float_format fmt" and "wf_any v" and "Marshal fmt v = Some s"
  shows "Unmarshal s = Some (norm_json fmt v)"
  using Decode_Marshal [OF assms] by (simp add: Unmarshal_def)

text \<open>The normal form has no floats, only number literals and sorted maps, and encodes to the
  same text.\<close>

lemma stable_insert_sorted_head:
  "sorted_wrt (\<lambda>a b. \<not> str_less (fst b) (fst a)) (x # m) \<Longrightarrow>
   stable_insert (\<lambda>a b. str_less (fst a) (fst b)) x m = x # m"
  by (cases m) auto

lemma sort_keys_sorted: "sorted_wrt (\<lambda>a b. \<not> str_less (fst b) (fst a)) m \<Longrightarrow> sort_keys m = m"
  unfolding sort_keys_def
proof (induction m)
  case (Cons x m)
  then show ?case using stable_insert_sorted_head [of x m] by simp
qed simp

interpretation key_order: strict_weak "\<lambda>a b. str_less (fst a) (fst b)"
  by unfold_locales (auto dest: str_less_asym str_less_neg_trans)

lemma sort_keys_idem [simp]: "sort_keys (sort_keys m) = sort_keys m"
  using key_order.sort_sorted [of m] by (intro sort_keys_sorted) (simp add: sort_keys_def)

lemma number_ne: "is_number n \<Longrightarrow> n \<noteq> []"
  using number_start by fastforce

lemma json_text_norm:
  assumes "float_format fmt"
  shows "json_text fmt (norm_json fmt v) = json_text fmt v"
proof (induction v)
  case (Map_v m)
  have "sort_keys (map (\<lambda>(k, v). (k, json_text fmt v)) (sort_keys (map (\<lambda>(k, v). (k, norm_json fmt v)) m)))
      = map (\<lambda>(k, v). (k, json_text fmt v)) (map (\<lambda>(k, v). (k, norm_json fmt v)) (sort_keys m))"
    by (simp only: sort_keys_map sort_keys_idem)
  also have "\<dots> = map (\<lambda>(k, v). (k, json_text fmt v)) (sort_keys m)"
    using Map_v by (auto simp: snds.simps)
  also have "\<dots> = sort_keys (map (\<lambda>(k, v). (k, json_text fmt v)) m)" by (simp only: sort_keys_map)
  finally show ?case by simp
next
  case (List_v xs)
  then have "map (json_text fmt) (map (norm_json fmt) xs) = map (json_text fmt) xs" by simp
  then show ?case by (simp only: json_text.simps norm_json.simps)
qed (use number_ne [OF float_formatD [OF assms]] number_ne [OF is_number_int_text] in auto)

text \<open>Values with the same text have the same normal form.\<close>

lemma json_text_inj:
  assumes "float_format fmt" and "wf_any v" "wf_any w" "numbers_ok v" "numbers_ok w"
    and "json_text fmt v = json_text fmt w"
  shows "norm_json fmt v = norm_json fmt w"
  using Decode_Marshal [OF assms(1,2)] Decode_Marshal [OF assms(1,3)] assms(4-) by (simp add: Marshal_def)

subsection \<open>Structs\<close>

text \<open>A struct is written member by member in declaration order. It is read from the members
  of an object in the order of the text: a member goes to the field with exactly that name,
  else to one whose name differs in case only, else it is ignored; \<open>null\<close> leaves a field
  as it is, and a value of the wrong type is an error.\<close>

definition no_floats :: "rat \<Rightarrow> string" where "no_floats _ = ''0''"

definition struct_text :: "(string \<times> any) list \<Rightarrow> string" where
  "struct_text m = ''{'' @ Join '','' (map json_member (map (\<lambda>(k, v). (k, json_text no_floats v)) m)) @ ''}''"

definition decode_members :: "string \<Rightarrow> (string \<times> any) list option" where
  "decode_members s =
     (case skip_ws s of
        [] \<Rightarrow> None
      | c # t \<Rightarrow>
          if c = CHR ''{''
          then (case skip_ws t of
                  [] \<Rightarrow> None
                | d # u \<Rightarrow>
                    if d = CHR ''}'' then (if skip_ws u = [] then Some [] else None)
                    else (case parse_members (length s) t of
                            None \<Rightarrow> None
                          | Some (m, u) \<Rightarrow> if skip_ws u = [] then Some m else None))
          else if Unmarshal s = Some Nil_v then Some [] else None)"

type_synonym 'r field = "any \<Rightarrow> 'r \<Rightarrow> 'r option"

definition field_for :: "(string \<times> 'f) list \<Rightarrow> string \<Rightarrow> 'f option" where
  "field_for fields k =
     (case map_of fields k of
        Some f \<Rightarrow> Some f
      | None \<Rightarrow> (case filter (\<lambda>(n, _). EqualFold n k) fields of [] \<Rightarrow> None | (n, f) # _ \<Rightarrow> Some f))"

fun decode_struct :: "(string \<times> ('v \<Rightarrow> 'r \<Rightarrow> 'r option)) list \<Rightarrow> 'r \<Rightarrow> (string \<times> 'v) list \<Rightarrow> 'r option" where
  "decode_struct fields r [] = Some r"
| "decode_struct fields r ((k, v) # m) =
     (case field_for fields k of
        None \<Rightarrow> decode_struct fields r m
      | Some f \<Rightarrow> (case f v r of None \<Rightarrow> None | Some r' \<Rightarrow> decode_struct fields r' m))"

definition string_field :: "((string \<Rightarrow> string) \<Rightarrow> 'r \<Rightarrow> 'r) \<Rightarrow> 'r field" where
  "string_field upd v r = (case v of Str_v s \<Rightarrow> Some (upd (\<lambda>_. s) r) | Nil_v \<Rightarrow> Some r | _ \<Rightarrow> None)"

definition int_field :: "((int \<Rightarrow> int) \<Rightarrow> 'r \<Rightarrow> 'r) \<Rightarrow> 'r field" where
  "int_field upd v r =
     (case v of Number_v n \<Rightarrow> (case ParseInt n of Some i \<Rightarrow> Some (upd (\<lambda>_. i) r) | None \<Rightarrow> None)
      | Nil_v \<Rightarrow> Some r | _ \<Rightarrow> None)"

lemma float_format_no_floats [simp]: "float_format no_floats"
  unfolding float_format_def no_floats_def by (intro allI) code_simp

lemma decode_members_struct_text:
  assumes "list_all (\<lambda>(k, v). wf_any v \<and> numbers_ok v) m"
  shows "decode_members (struct_text m) = Some (map (\<lambda>(k, v). (k, norm_json no_floats v)) m)"
proof (cases m)
  case Nil
  then show ?thesis by (simp add: decode_members_def struct_text_def)
next
  case (Cons y ys)
  let ?j = "Join '','' (map json_member (map (\<lambda>(k, v). (k, json_text no_floats v)) m))"
  obtain u where u: "?j = quote_mark # u"
    using Cons by (cases y; cases ys) (auto simp: json_member_def quote_def)
  have st: "struct_text m = CHR ''{'' # quote_mark # u @ ''}''" using u by (simp add: struct_text_def)
  have "parse_members (length (struct_text m)) (?j @ CHR ''}'' # []) = Some (map (\<lambda>(k, v). (k, norm_json no_floats v)) m, [])"
    using assms Cons
    by (intro parse_members_join parse_json_text) (auto simp: struct_text_def list_all_iff)
  then show ?thesis unfolding u unfolding decode_members_def st by (simp del: parse_members.simps)
qed

subsection \<open>Decoding into an interface and into a map\<close>

text \<open>\<open>json.Unmarshal\<close> into \<open>any\<close>: numbers become \<open>float64\<close>, an error when one is
  out of range.\<close>

fun those_values :: "(any \<Rightarrow> any option) \<Rightarrow> any list \<Rightarrow> any list option" where
  "those_values f [] = Some []"
| "those_values f (v # vs) =
     (case (f v, those_values f vs) of (Some w, Some ws) \<Rightarrow> Some (w # ws) | _ \<Rightarrow> None)"

lemma those_values_cong [fundef_cong]:
  "xs = ys \<Longrightarrow> (\<And>x. x \<in> set ys \<Longrightarrow> f x = g x) \<Longrightarrow> those_values f xs = those_values g ys"
  by (induction xs arbitrary: ys) auto

function float_any :: "any \<Rightarrow> any option" where
  "float_any (Number_v n) = map_option Float_v (ParseFloat n)"
| "float_any (List_v xs) = map_option List_v (those_values float_any xs)"
| "float_any (Map_v m) = map_option (\<lambda>vs. Map_v (zip (map fst m) vs)) (those_values float_any (map snd m))"
| "float_any Nil_v = Some Nil_v"
| "float_any (Bool_v b) = Some (Bool_v b)"
| "float_any (Float_v r) = Some (Float_v r)"
| "float_any (Int_v i) = Some (Int_v i)"
| "float_any (Str_v s) = Some (Str_v s)"
  by pat_completeness auto
termination
proof (relation "measure size", goal_cases)
  case (2 xs z)
  then show ?case using size_in_list [of z xs] by simp
next
  case (3 m z)
  then obtain k where "(k, z) \<in> set m" by auto
  then show ?case using size_in_map [of k z m] by simp
qed simp

definition UnmarshalAny :: "string \<Rightarrow> any option" where
  "UnmarshalAny s = Option.bind (Unmarshal s) float_any"

text \<open>\<open>json.Decoder.Decode\<close> reads one value and leaves what follows.\<close>

definition first_members :: "string \<Rightarrow> (string \<times> any) list option" where
  "first_members s =
     (case skip_ws s of
        [] \<Rightarrow> None
      | c # t \<Rightarrow>
          if c = CHR ''{''
          then (case skip_ws t of
                  [] \<Rightarrow> None
                | d # u \<Rightarrow> if d = CHR ''}'' then Some [] else map_option fst (parse_members (length s) t))
          else (case Decode s of Some (Nil_v, _) \<Rightarrow> Some [] | _ \<Rightarrow> None))"

text \<open>A field of type \<open>map[string]string\<close>: entries are added to the map, \<open>null\<close> clears it.\<close>

fun string_entries :: "(string \<times> any) list \<Rightarrow> (string \<times> string) list \<Rightarrow> (string \<times> string) list option" where
  "string_entries [] m = Some m"
| "string_entries ((k, v) # kvs) m =
     (case v of Str_v s \<Rightarrow> string_entries kvs (set_key k s m)
      | Nil_v \<Rightarrow> string_entries kvs (set_key k [] m)
      | _ \<Rightarrow> None)"

definition string_map_field ::
  "(((string \<times> string) list \<Rightarrow> (string \<times> string) list) \<Rightarrow> 'r \<Rightarrow> 'r) \<Rightarrow> ('r \<Rightarrow> (string \<times> string) list) \<Rightarrow> 'r field" where
  "string_map_field upd get v r =
     (case v of Map_v m \<Rightarrow> map_option (\<lambda>m'. upd (\<lambda>_. m') r) (string_entries m (get r))
      | Nil_v \<Rightarrow> Some (upd (\<lambda>_. []) r)
      | _ \<Rightarrow> None)"

end
