(* ===== verification/Go_Time.thy ===== *)
theory Go_Time
  imports Go_Text
begin

text \<open>
  Calendar times of Go's \<open>time\<close> package, as the gateway prints them: \<open>Format\<close> with the
  layout \<open>time.RFC3339Nano\<close> of an instant in UTC. An instant is its number of nanoseconds
  since the Unix epoch. The calendar follows the package: cycles of 400, 100, 4 and 1 years
  counted from the year 1, then the months of the year. The text determines the instant.
\<close>

definition second_ns :: int where "second_ns = 1000000000"

text \<open>The days from the first of January of the year 1 to the epoch.\<close>

definition epoch_days :: int where "epoch_days = 719162"

definition is_leap :: "int \<Rightarrow> bool" where
  "is_leap y = (y mod 4 = 0 \<and> (y mod 100 \<noteq> 0 \<or> y mod 400 = 0))"

definition year_and_day :: "int \<Rightarrow> int \<times> int" where
  "year_and_day d0 =
     (let n400 = d0 div 146097; d1 = d0 - 146097 * n400;
          n100 = min 3 (d1 div 36524); d2 = d1 - 36524 * n100;
          n4 = d2 div 1461; d3 = d2 - 1461 * n4;
          n1 = min 3 (d3 div 365); d4 = d3 - 365 * n1
      in (400 * n400 + 100 * n100 + 4 * n4 + n1 + 1, d4))"

definition month_lengths :: "bool \<Rightarrow> int list" where
  "month_lengths leap = [31, if leap then 29 else 28, 31, 30, 31, 30, 31, 31, 30, 31, 30, 31]"

fun find_month :: "int list \<Rightarrow> int \<Rightarrow> int \<Rightarrow> int \<times> int" where
  "find_month [] m d = (m, d + 1)"
| "find_month (l # ls) m d = (if d < l then (m, d + 1) else find_month ls (m + 1) (d - l))"

definition civil :: "int \<Rightarrow> int \<times> int \<times> int" where
  "civil days =
     (let (y, yday) = year_and_day (days + epoch_days); (m, d) = find_month (month_lengths (is_leap y)) 1 yday
      in (y, m, d))"

text \<open>A number in decimal with a fixed number of digits. All fields are within their width
  except the year, which is printed in full when it has more than four digits.\<close>

fun digits :: "nat \<Rightarrow> int \<Rightarrow> string" where
  "digits 0 n = []"
| "digits (Suc w) n = digits w (n div 10) @ [char_of (48 + nat (n mod 10))]"

definition year_text :: "int \<Rightarrow> string" where
  "year_text y = (if 0 \<le> y \<and> y < 10000 then digits 4 y else int_text y)"

definition fraction :: "int \<Rightarrow> string" where
  "fraction ns = (if ns = 0 then [] else CHR ''.'' # trim_right (\<lambda>c. c = CHR ''0'') (digits 9 ns))"

definition FormatRFC3339Nano :: "time \<Rightarrow> string" where
  "FormatRFC3339Nano t =
     (let secs = t div second_ns; rest = secs mod 86400; (y, m, d) = civil (secs div 86400)
      in year_text y @ ''-'' @ digits 2 m @ ''-'' @ digits 2 d @ ''T'' @ digits 2 (rest div 3600) @ '':'' @
         digits 2 (rest div 60 mod 60) @ '':'' @ digits 2 (rest mod 60) @ fraction (t mod second_ns) @ ''Z'')"

text \<open>Some instants and their texts.\<close>

lemma FormatRFC3339Nano_samples:
  "FormatRFC3339Nano 0 = ''1970-01-01T00:00:00Z''"
  "FormatRFC3339Nano 951782399120000000 = ''2000-02-28T23:59:59.12Z''"
  "FormatRFC3339Nano 951782400000000001 = ''2000-02-29T00:00:00.000000001Z''"
  "FormatRFC3339Nano 4107542400000000000 = ''2100-03-01T00:00:00Z''"
  by code_simp+

subsection \<open>The text determines the instant\<close>

lemma digits_chars: "c \<in> set (digits w n) \<Longrightarrow> is_digit c"
proof (induction w arbitrary: n)
  case (Suc w)
  have "nat (n mod 10) < 10" by simp
  then have "is_digit (char_of (48 + nat (n mod 10)))" by (simp add: is_digit_def of_char_of)
  with Suc show ?case by auto
qed simp

lemma length_digits [simp]: "length (digits w n) = w"
  by (induction w arbitrary: n) auto

lemma digits_inj:
  assumes "digits w m = digits w n" "0 \<le> m" "0 \<le> n" "m < 10 ^ w" "n < 10 ^ w"
  shows "m = n"
  using assms
proof (induction w arbitrary: m n)
  case (Suc w)
  have "nat (m mod 10) < 10" "nat (n mod 10) < 10" by simp_all
  then have "nat (m mod 10) = nat (n mod 10)"
    using Suc.prems(1) char_of_digit [of "nat (m mod 10)"] char_of_digit [of "nat (n mod 10)"] by simp
  then have "m mod 10 = n mod 10" by simp
  moreover have "m div 10 = n div 10"
  proof (rule Suc.IH)
    show "digits w (m div 10) = digits w (n div 10)" using Suc.prems(1) by simp
    show "m div 10 < 10 ^ w" "n div 10 < 10 ^ w" using Suc.prems(4,5) by simp_all
  qed (use Suc.prems in simp_all)
  ultimately show ?case by presburger
qed simp

lemma digits_split:
  assumes "digits w m @ x = digits w n @ y" "0 \<le> m" "0 \<le> n" "m < 10 ^ w" "n < 10 ^ w"
  shows "m = n \<and> x = y"
  using assms digits_inj [of w m n] by simp

lemma year_and_day_days:
  assumes "year_and_day d = (y, yday)"
  shows "d = 365 * (y - 1) + (y - 1) div 4 - (y - 1) div 100 + (y - 1) div 400 + yday \<and> 0 \<le> yday \<and> yday < 366"
proof -
  define n400 where "n400 = d div 146097"
  define d1 where "d1 = d - 146097 * n400"
  define n100 where "n100 = min 3 (d1 div 36524)"
  define d2 where "d2 = d1 - 36524 * n100"
  define n4 where "n4 = d2 div 1461"
  define d3 where "d3 = d2 - 1461 * n4"
  define n1 where "n1 = min 3 (d3 div 365)"
  have d1: "0 \<le> d1" "d1 < 146097" unfolding d1_def n400_def by (simp_all add: minus_mult_div_eq_mod)
  then have n100: "0 \<le> n100" "n100 \<le> 3" "0 \<le> d2" "d2 < 36525" unfolding n100_def d2_def by (auto simp: min_def)
  then have n4: "0 \<le> n4" "n4 \<le> 24" "0 \<le> d3" "d3 < 1461" unfolding n4_def d3_def by (auto simp: minus_mult_div_eq_mod)
  then have n1: "0 \<le> n1" "n1 \<le> 3" "0 \<le> d3 - 365 * n1" "d3 - 365 * n1 < 366" unfolding n1_def by (auto simp: min_def)
  have y: "y - 1 = 400 * n400 + 100 * n100 + 4 * n4 + n1" "yday = d3 - 365 * n1"
    using assms unfolding year_and_day_def Let_def n400_def [symmetric] d1_def [symmetric] n100_def [symmetric]
      d2_def [symmetric] n4_def [symmetric] d3_def [symmetric] n1_def [symmetric] by auto
  have "(y - 1) div 4 = 100 * n400 + 25 * n100 + n4" "(y - 1) div 100 = 4 * n400 + n100" "(y - 1) div 400 = n400"
    unfolding y using n100 n4 n1 by auto
  then show ?thesis using y n1 unfolding d3_def d2_def d1_def by simp
qed

lemma find_month_days:
  "find_month ls m d = (m', x) \<Longrightarrow> 0 \<le> d \<Longrightarrow>
    d = sum_list (take (nat (m' - m)) ls) + x - 1 \<and> m \<le> m' \<and> m' \<le> m + int (length ls) \<and> 1 \<le> x"
proof (induction ls m d rule: find_month.induct)
  case (2 l ls m d)
  show ?case
  proof (cases "d < l")
    case False
    with 2 have "d - l = sum_list (take (nat (m' - (m + 1))) ls) + x - 1 \<and> m + 1 \<le> m' \<and> m' \<le> m + 1 + int (length ls) \<and> 1 \<le> x"
      by simp
    moreover from this have "nat (m' - m) = Suc (nat (m' - (m + 1)))" by arith
    ultimately show ?thesis by simp
  qed (use 2 in auto)
qed auto

lemma civil_inj:
  assumes "civil a = (y, m, x)" and "civil b = (y, m, x)"
  shows "a = b"
proof -
  obtain i where a: "year_and_day (a + epoch_days) = (y, i)" "find_month (month_lengths (is_leap y)) 1 i = (m, x)"
    using assms(1) by (auto simp: civil_def Let_def split: prod.splits)
  obtain j where b: "year_and_day (b + epoch_days) = (y, j)" "find_month (month_lengths (is_leap y)) 1 j = (m, x)"
    using assms(2) by (auto simp: civil_def Let_def split: prod.splits)
  have "i = j"
    using find_month_days [OF a(2)] find_month_days [OF b(2)] year_and_day_days [OF a(1)] year_and_day_days [OF b(1)]
    by simp
  with year_and_day_days [OF a(1)] year_and_day_days [OF b(1)] show ?thesis by simp
qed

text \<open>The instants whose year has four digits.\<close>

definition printable_time :: "time \<Rightarrow> bool" where
  "printable_time t = (0 \<le> t \<and> t < 253402300800 * second_ns)"

lemma find_month_day:
  "find_month ls m d = (m', x) \<Longrightarrow> d < sum_list ls + 31 \<Longrightarrow> \<forall>l\<in>set ls. l \<le> 31 \<Longrightarrow> x \<le> 31"
  by (induction ls m d rule: find_month.induct) (auto split: if_splits)

lemma div_range: "0 < n \<Longrightarrow> n * (z div n) \<le> z \<and> z < n * (z div n) + n" for z n :: int
  using mult_div_mod_eq [of n z] pos_mod_sign [of n z] pos_mod_bound [of n z] by linarith

lemma year_range:
  fixes z a b c i d :: int
  assumes "4 * a \<le> z" "z < 4 * a + 4" "100 * b \<le> z" "z < 100 * b + 100" "400 * c \<le> z" "z < 400 * c + 400"
    and "d = 365 * z + a - b + c + i" "719162 \<le> d" "d < 3652059" "0 \<le> i" "i < 366"
  shows "0 \<le> z" "z < 10000"
  using assms by linarith+

lemma clock_range:
  fixes r :: int
  assumes "0 \<le> r" "r < 86400"
  shows "0 \<le> r div 3600" "r div 3600 < 100" "0 \<le> r div 60 mod 60" "r div 60 mod 60 < 100" "0 \<le> r mod 60" "r mod 60 < 100"
proof -
  have "r div 60 mod 60 < 60" "r mod 60 < 60" by simp_all
  then show "r div 60 mod 60 < 100" "r mod 60 < 100" by linarith+
qed (use assms in auto)

lemma clock_inj:
  fixes r q :: int
  assumes "r div 3600 = q div 3600" "r div 60 mod 60 = q div 60 mod 60" "r mod 60 = q mod 60"
  shows "r = q"
proof -
  have h: "x div 60 = 60 * (x div 3600) + x div 60 mod 60" for x :: int
    using mult_div_mod_eq [of 60 "x div 60"] zdiv_zmult2_eq [of 60 x 60] by simp
  have "r div 60 = q div 60" using h [of r] h [of q] assms by simp
  then show ?thesis using assms(3) by (metis mult_div_mod_eq)
qed

lemma clock_text_inj:
  fixes r q :: int
  assumes "0 \<le> r" "r < 86400" "0 \<le> q" "q < 86400" and "digits 2 (r div 3600) = digits 2 (q div 3600)"
    "digits 2 (r div 60 mod 60) = digits 2 (q div 60 mod 60)" "digits 2 (r mod 60) = digits 2 (q mod 60)"
  shows "r = q"
proof -
  note R = clock_range [OF assms(1,2)] and Q = clock_range [OF assms(3,4)]
  have w: "10 ^ 2 = (100 :: int)" by simp
  show ?thesis
    by (rule clock_inj) (rule digits_inj [OF assms(5) R(1) Q(1), unfolded w, OF R(2) Q(2)]
        digits_inj [OF assms(6) R(3) Q(3), unfolded w, OF R(4) Q(4)] digits_inj [OF assms(7) R(5) Q(5), unfolded w, OF R(6) Q(6)])+
qed

lemma div_mod_inj: "a div n = b div n \<Longrightarrow> a mod n = b mod n \<Longrightarrow> a = (b :: int)"
  by (metis mult_div_mod_eq)

lemma civil_bounds:
  assumes "printable_time t" and "civil (t div second_ns div 86400) = (y, m, x)"
  shows "0 \<le> y" "y < 10000" "0 \<le> m" "m < 100" "0 \<le> x" "x < 100"
proof -
  let ?d = "t div second_ns div 86400 + epoch_days"
  have d: "719162 \<le> ?d" "?d < 3652059"
    using assms(1) by (auto simp: printable_time_def second_ns_def epoch_days_def)
  obtain i where i: "year_and_day ?d = (y, i)" "find_month (month_lengths (is_leap y)) 1 i = (m, x)"
    using assms(2) by (auto simp: civil_def Let_def split: prod.splits)
  note k = year_and_day_days [OF i(1)]
  let ?z = "y - 1"
  note q = div_range [of 4 ?z] div_range [of 100 ?z] div_range [of 400 ?z]
  have z: "0 \<le> ?z" "?z < 10000" 
    by (rule year_range [where a = "?z div 4" and b = "?z div 100" and c = "?z div 400" and i = i and d = ?d],
        use q k d in \<open>simp_all only: zero_less_numeral simp_thms\<close>)+
  moreover have "?z \<noteq> 9999" using k d by auto
  ultimately show "0 \<le> y" "y < 10000" by linarith+
  from find_month_days [OF i(2)] k show "0 \<le> m" "m < 100" "0 \<le> x" by (auto simp: month_lengths_def)
  have "i < 366" using k by blast
  then have "x \<le> 31" by (intro find_month_day [OF i(2)]) (auto simp: month_lengths_def)
  then show "x < 100" by simp
qed

lemma fraction_inj:
  assumes "fraction a @ ''Z'' = fraction b @ ''Z''" "0 \<le> a" "0 \<le> b" "a < 1000000000" "b < 1000000000"
  shows "a = b"
proof -
  let ?t = "trim_right (\<lambda>c. c = CHR ''0'')"
  have full: "?t s @ replicate (length s - length (?t s)) (CHR ''0'') = s" for s
  proof -
    let ?r = "takeWhile (\<lambda>c. c = CHR ''0'') (rev s)"
    have "rev (?r @ dropWhile (\<lambda>c. c = CHR ''0'') (rev s)) = s" by (simp only: takeWhile_dropWhile_id rev_rev_ident)
    then have s: "?t s @ rev ?r = s" by (simp only: trim_right_def rev_append)
    have "length s = length (?t s) + length ?r" by (subst s [symmetric]) (simp only: length_append length_rev)
    then have "length s - length (?t s) = length ?r" by (simp only: add_diff_cancel_left')
    moreover have "rev ?r = replicate (length ?r) (CHR ''0'')"
      by (rule replicate_eqI) (auto dest: set_takeWhileD)
    ultimately show ?thesis using s by (simp only:)
  qed
  show ?thesis
  proof (cases "a = 0 \<or> b = 0")
    case True
    with assms(1) show ?thesis by (auto simp: fraction_def split: if_splits)
  next
    case False
    with assms(1) have "?t (digits 9 a) = ?t (digits 9 b)" by (simp add: fraction_def)
    with full [of "digits 9 a"] full [of "digits 9 b"] have "digits 9 a = digits 9 b" by (metis length_digits)
    then show ?thesis by (rule digits_inj) (use assms in auto)
  qed
qed

lemma stamp_split:
  assumes "digits 4 y @ ''-'' @ digits 2 m @ ''-'' @ digits 2 x @ ''T'' @ digits 2 h @ '':'' @ digits 2 i @ '':'' @ digits 2 c @ f =
    digits 4 y' @ ''-'' @ digits 2 m' @ ''-'' @ digits 2 x' @ ''T'' @ digits 2 h' @ '':'' @ digits 2 i' @ '':'' @ digits 2 c' @ f'"
  shows "digits 4 y = digits 4 y'" "digits 2 m = digits 2 m'" "digits 2 x = digits 2 x'" "digits 2 h = digits 2 h'"
    "digits 2 i = digits 2 i'" "digits 2 c = digits 2 c'" "f = f'"
  using assms by simp_all

theorem FormatRFC3339Nano_inj:
  assumes "FormatRFC3339Nano s = FormatRFC3339Nano t" and "printable_time s" and "printable_time t"
  shows "s = t"
proof -
  obtain y m x where a: "civil (s div second_ns div 86400) = (y, m, x)" by (metis prod.exhaust)
  obtain y' m' x' where b: "civil (t div second_ns div 86400) = (y', m', x')" by (metis prod.exhaust)
  note A = civil_bounds [OF assms(2) a] and B = civil_bounds [OF assms(3) b]
  let ?r = "s div second_ns mod 86400" and ?q = "t div second_ns mod 86400"
  have "digits 4 y @ ''-'' @ digits 2 m @ ''-'' @ digits 2 x @ ''T'' @ digits 2 (?r div 3600) @ '':'' @
      digits 2 (?r div 60 mod 60) @ '':'' @ digits 2 (?r mod 60) @ fraction (s mod second_ns) @ ''Z'' =
    digits 4 y' @ ''-'' @ digits 2 m' @ ''-'' @ digits 2 x' @ ''T'' @ digits 2 (?q div 3600) @ '':'' @
      digits 2 (?q div 60 mod 60) @ '':'' @ digits 2 (?q mod 60) @ fraction (t mod second_ns) @ ''Z''"
    using assms(1) A(1,2) B(1,2) by (simp only: FormatRFC3339Nano_def Let_def a b year_text_def prod.case simp_thms if_True)
  note e = stamp_split [OF this]
  have "y = y'" "m = m'" "x = x'"
    using digits_inj [OF e(1)] digits_inj [OF e(2)] digits_inj [OF e(3)] A B by simp_all
  then have "s div second_ns div 86400 = t div second_ns div 86400" using civil_inj a b by blast
  moreover have "?r = ?q" by (rule clock_text_inj [OF _ _ _ _ e(4,5,6)]) simp_all
  ultimately have "s div second_ns = t div second_ns" by (rule div_mod_inj)
  moreover have "s mod second_ns = t mod second_ns" by (rule fraction_inj [OF e(7)]) (simp_all add: second_ns_def)
  ultimately show ?thesis by (rule div_mod_inj)
qed

end
