(* ===== verification/Audit_Canon.thy ===== *)
theory Audit_Canon
  imports Go_Json Go_Time Request_Canon
begin

text \<open>
  The canonical form that audit events are hashed over (\<open>src/internal/audit/canonical.go\<close>
  and \<open>hash.go\<close>) and the redaction of their payloads (\<open>redact.go\<close>). The canonical form
  of a decoded value is its JSON text with sorted keys, and determines the value; the text of a
  hash payload determines every field of the event it was built from.
\<close>

subsection \<open>Values a decoder with \<open>UseNumber\<close> delivers\<close>

fun decoded :: "any \<Rightarrow> bool" where
  "decoded (Float_v _) = False"
| "decoded (Int_v _) = False"
| "decoded (Number_v n) = is_number n"
| "decoded (List_v xs) = list_all decoded xs"
| "decoded (Map_v m) = (distinct (map fst m) \<and> list_all decoded (map snd m))"
| "decoded _ = True"

lemma put_last_entries:
  assumes "distinct (map fst acc)" and "\<forall>kv\<in>set acc. decoded (snd kv)" and "decoded (snd kv)"
  shows "distinct (map fst (put_last acc kv))" "\<forall>kv\<in>set (put_last acc kv). decoded (snd kv)"
proof -
  have "fst kv \<notin> fst ` {x \<in> set acc. fst x \<noteq> fst kv}" by auto
  then show "distinct (map fst (put_last acc kv))"
    using distinct_filter_keys [OF assms(1)] by (simp add: put_last_def case_prod_beta)
qed (use assms in \<open>auto simp: put_last_def\<close>)

lemma decoded_put_last:
  "distinct (map fst acc) \<Longrightarrow> \<forall>kv\<in>set acc. decoded (snd kv) \<Longrightarrow> list_all (\<lambda>kv. decoded (snd kv)) m \<Longrightarrow>
   decoded (Map_v (foldl put_last acc m))"
proof (induction m arbitrary: acc)
  case (Cons kv m)
  then show ?case using put_last_entries [of acc kv] by simp
qed (simp add: list_all_iff)

lemma decoded_literal: "json_literal s = Some (v, t) \<Longrightarrow> decoded v"
  by (auto simp: json_literal_def Let_def split: if_splits)

lemma parse_decoded:
  "parse_value n s = Some (v, t) \<Longrightarrow> decoded v"
  "parse_elems n s = Some (vs, t) \<Longrightarrow> list_all decoded vs"
  "parse_members n s = Some (m, t) \<Longrightarrow> list_all (\<lambda>kv. decoded (snd kv)) m"
proof (induction n s and n s and n s arbitrary: v t and vs t and m t
    rule: parse_value_parse_elems_parse_members.induct)
  case (2 n s)
  then show ?case
    by (auto split: list.splits if_splits option.splits prod.splits dest: decoded_literal
        intro!: decoded_put_last [of "[]"] simp del: decoded.simps(5)) (simp_all)
next
  case (4 n s)
  then show ?case by (fastforce split: list.splits if_splits option.splits prod.splits)
next
  case (6 n s)
  then show ?case by (fastforce split: list.splits if_splits option.splits prod.splits)
qed auto

lemma decoded_Decode: "Decode s = Some (v, t) \<Longrightarrow> decoded v"
  unfolding Decode_def by (rule parse_decoded(1))

lemma decoded_Unmarshal: "Unmarshal s = Some v \<Longrightarrow> decoded v"
  by (auto simp: Unmarshal_def split: option.splits if_splits dest: decoded_Decode)

lemma decoded_wf: "decoded v \<Longrightarrow> wf_any v \<and> numbers_ok v"
  by (induction v) (auto simp: list_all_iff snds.simps)

subsection \<open>Canonical JSON\<close>

text \<open>The values reach \<open>encodeCanonical\<close> from a decoder, so a raw byte slice is none of
  them.\<close>

fun encodeCanonical :: "any \<Rightarrow> string option" where
  "encodeCanonical Nil_v = Some ''null''"
| "encodeCanonical (Bool_v b) = Some (if b then ''true'' else ''false'')"
| "encodeCanonical (Number_v n) = Some n"
| "encodeCanonical (Str_v s) = Some (quote s)"
| "encodeCanonical (List_v xs) =
     map_option (\<lambda>ts. ''['' @ Join '','' ts @ '']'') (those (map encodeCanonical xs))"
| "encodeCanonical (Map_v m) =
     map_option (\<lambda>ts. ''{'' @ Join '','' ts @ ''}'')
       (those (map (\<lambda>(k, t). map_option (\<lambda>t. json_member (k, t)) t)
          (sort_keys (map (\<lambda>(k, v). (k, encodeCanonical v)) m))))"
| "encodeCanonical (Float_v _) = None"
| "encodeCanonical (Int_v _) = None"

definition CanonicalJSON :: "(rat \<Rightarrow> string) \<Rightarrow> any \<Rightarrow> string option" where
  "CanonicalJSON fmt v =
     (if v = Nil_v then Some []
      else case Marshal fmt v of
             None \<Rightarrow> None
           | Some data \<Rightarrow> (case Decode data of None \<Rightarrow> None | Some (w, _) \<Rightarrow> encodeCanonical w))"

lemma those_map_Some: "those (map (\<lambda>x. Some (f x)) xs) = Some (map f xs)"
  by (induction xs) auto

text \<open>On decoded values the canonical form is what \<open>json.Marshal\<close> writes.\<close>

lemma encodeCanonical_text: "decoded v \<Longrightarrow> encodeCanonical v = Some (json_text fmt v)"
proof (induction v)
  case (List_v xs)
  then have "map encodeCanonical xs = map (\<lambda>x. Some (json_text fmt x)) xs" by (auto simp: list_all_iff)
  then show ?case by (simp add: those_map_Some del: map_eq_conv)
next
  case (Map_v m)
  then have "map (\<lambda>(k, v). (k, encodeCanonical v)) m = map (\<lambda>(k, v). (k, Some (json_text fmt v))) m"
    by (auto simp: list_all_iff snds.simps)
  then have "sort_keys (map (\<lambda>(k, v). (k, encodeCanonical v)) m) =
      map (\<lambda>(k, v). (k, Some (json_text fmt v))) (sort_keys m)"
    by (simp only: sort_keys_map)
  moreover have "map (\<lambda>(k, t). map_option (\<lambda>t. json_member (k, t)) t) (map (\<lambda>(k, v). (k, Some (json_text fmt v))) (sort_keys m))
      = map (\<lambda>x. Some (json_member x)) (map (\<lambda>(k, v). (k, json_text fmt v)) (sort_keys m))"
    by auto
  ultimately show ?case by (simp only: encodeCanonical.simps those_map_Some json_text.simps sort_keys_map option.map)
qed (auto simp: number_ne)

lemma CanonicalJSON_text:
  assumes "float_format fmt" and "wf_any v" and "numbers_ok v" and "v \<noteq> Nil_v"
  shows "CanonicalJSON fmt v = Some (json_text fmt v)"
proof -
  have d: "Decode (json_text fmt v) = Some (norm_json fmt v, [])"
    using Decode_Marshal [OF assms(1,2)] assms(3) by (simp add: Marshal_def)
  from encodeCanonical_text [OF decoded_Decode [OF d], of fmt] d show ?thesis
    using assms(3,4) json_text_norm [OF assms(1)] by (simp add: CanonicalJSON_def Marshal_def)
qed

subsection \<open>Redaction\<close>

definition resourceAllowlist :: "(string \<times> string list) list" where
  "resourceAllowlist =
     [(''TENANT.CONFIG'', [''name'', ''key_hash'']),
      (''TOOL'', [''base_url'', ''auth_type'', ''auth_set'']),
      (''POLICY.VERSION'', [''policy_version'', ''created_by'', ''notes'', ''rego_sha256'']),
      (''POLICY.ACTIVE'', [''active_policy_version'']),
      (''RISK_OVERRIDE'', [''action_type'', ''action_risk'']),
      (''TENANT.NOTIFICATIONS'',
        [''slack_webhook_enabled'', ''slack_bot_enabled'', ''email_enabled'', ''email_provider'', ''email_from'',
         ''email_region'', ''email_domain'', ''email_default_mailing_list_id'', ''notify_approval_expiring'',
         ''notify_token_abuse'', ''notify_policy_invalid'']),
      (''MAILING_LIST'', [''name'', ''description'', ''member_count'']),
      (''SETTINGS'', [''value'']),
      (''APPROVAL.REQUEST'', [''status'', ''decided_at'', ''decided_by'', ''decision_comment''])]"

text \<open>A nil map is \<open>None\<close>.\<close>

definition RedactPayload :: "string \<Rightarrow> gomap option \<Rightarrow> gomap option" where
  "RedactPayload resourceType payload =
     (case payload of
        None \<Rightarrow> None
      | Some p \<Rightarrow>
          (case map_of resourceAllowlist (ToUpper resourceType) of
             None \<Rightarrow> Some []
           | Some allowlist \<Rightarrow> Some (filter (\<lambda>(k, _). k \<in> set allowlist) p)))"

subsection \<open>The hash payload\<close>

record admin_audit_event =
  ae_AuditEventID :: string
  ae_TenantID :: string
  ae_StreamID :: string
  ae_EventHash :: string
  ae_PrevHash :: string
  ae_ActorType :: string
  ae_ActorID :: string
  ae_ActorDisplay :: string
  ae_Action :: string
  ae_ResourceType :: string
  ae_ResourceID :: string
  ae_Before :: "string option"
  ae_After :: "string option"
  ae_RequestID :: string
  ae_IP :: string
  ae_UserAgent :: string
  ae_CreatedAt :: time

record hash_payload =
  hp_SchemaVersion :: string
  hp_StreamID :: string
  hp_AuditEventID :: string
  hp_CreatedAt :: string
  hp_ActorType :: string
  hp_ActorID :: string
  hp_Action :: string
  hp_ResourceType :: string
  hp_ResourceID :: string
  hp_RequestID :: string
  hp_Before :: "string option"
  hp_After :: "string option"

definition HashSchemaVersion :: string where "HashSchemaVersion = ''audit_v1''"

definition BuildHashPayload :: "admin_audit_event \<Rightarrow> string \<Rightarrow> hash_payload" where
  "BuildHashPayload event streamID =
     \<lparr>hp_SchemaVersion = HashSchemaVersion, hp_StreamID = streamID, hp_AuditEventID = ae_AuditEventID event,
      hp_CreatedAt = FormatRFC3339Nano (ae_CreatedAt event), hp_ActorType = ae_ActorType event,
      hp_ActorID = ae_ActorID event, hp_Action = ae_Action event, hp_ResourceType = ae_ResourceType event,
      hp_ResourceID = ae_ResourceID event, hp_RequestID = ae_RequestID event, hp_Before = ae_Before event,
      hp_After = ae_After event\<rparr>"

text \<open>A nil \<open>json.RawMessage\<close> is written as \<open>null\<close>, any other one as it stands, after a
  check that it is one JSON text. Decoding the written struct then reads its value.\<close>

definition raw_value :: "string option \<Rightarrow> any option" where
  "raw_value raw = (case raw of None \<Rightarrow> Some Nil_v | Some s \<Rightarrow> Unmarshal s)"

definition payload_members :: "hash_payload \<Rightarrow> any \<Rightarrow> any \<Rightarrow> gomap" where
  "payload_members p before after =
     [(''schema_version'', Str_v (hp_SchemaVersion p)), (''stream_id'', Str_v (hp_StreamID p)),
      (''audit_event_id'', Str_v (hp_AuditEventID p)), (''created_at'', Str_v (hp_CreatedAt p)),
      (''actor_type'', Str_v (hp_ActorType p)), (''actor_id'', Str_v (hp_ActorID p)),
      (''action'', Str_v (hp_Action p)), (''resource_type'', Str_v (hp_ResourceType p)),
      (''resource_id'', Str_v (hp_ResourceID p)), (''request_id'', Str_v (hp_RequestID p)),
      (''before_redacted'', before), (''after_redacted'', after)]"

definition payload_text :: "hash_payload \<Rightarrow> string option" where
  "payload_text p =
     Option.bind (raw_value (hp_Before p)) (\<lambda>before. Option.bind (raw_value (hp_After p)) (\<lambda>after.
       encodeCanonical (Map_v (payload_members p before after))))"

definition ComputeEventHash :: "(string \<Rightarrow> string) \<Rightarrow> string \<Rightarrow> hash_payload \<Rightarrow> string option" where
  "ComputeEventHash sha256hex prevHash p = map_option (\<lambda>canonical. sha256hex (prevHash @ canonical)) (payload_text p)"

lemma raw_value_decoded: "raw_value raw = Some v \<Longrightarrow> decoded v"
  by (auto simp: raw_value_def split: option.splits dest: decoded_Unmarshal)

lemma payload_decoded: "decoded before \<Longrightarrow> decoded after \<Longrightarrow> decoded (Map_v (payload_members p before after))"
  by (simp add: payload_members_def)

lemma payload_text_Some:
  assumes "payload_text p = Some t"
  obtains before after where "raw_value (hp_Before p) = Some before" "raw_value (hp_After p) = Some after"
    "decoded before" "decoded after" "t = json_text no_floats (Map_v (payload_members p before after))"
proof -
  from assms obtain before after where h: "raw_value (hp_Before p) = Some before" "raw_value (hp_After p) = Some after"
    "encodeCanonical (Map_v (payload_members p before after)) = Some t"
    by (auto simp: payload_text_def Option.bind_eq_Some_conv)
  from raw_value_decoded [OF h(1)] raw_value_decoded [OF h(2)] have d: "decoded before" "decoded after" .
  have "t = json_text no_floats (Map_v (payload_members p before after))"
    using encodeCanonical_text [OF payload_decoded [OF d], of p no_floats] h(3) by (metis option.inject)
  with h(1,2) d show thesis by (rule that)
qed

lemma payload_text_readable:
  assumes "raw_value (hp_Before p) = Some before" and "raw_value (hp_After p) = Some after"
  shows "payload_text p = Some (json_text no_floats (Map_v (payload_members p before after)))"
  using assms encodeCanonical_text [OF payload_decoded [OF raw_value_decoded [OF assms(1)] raw_value_decoded [OF assms(2)]]]
  by (simp only: payload_text_def Option.bind.simps)

lemma payload_text_brace: "payload_text p = Some t \<Longrightarrow> \<exists>u. t = CHR ''{'' # u"
  by (elim payload_text_Some) simp

text \<open>The JSON value of a raw message, up to the order of keys.\<close>

definition raw_normal :: "string option \<Rightarrow> any option" where
  "raw_normal raw = map_option (norm_json no_floats) (raw_value raw)"

definition same_payload :: "hash_payload \<Rightarrow> hash_payload \<Rightarrow> bool" where
  "same_payload p q = (raw_normal (hp_Before p) = raw_normal (hp_Before q) \<and> raw_normal (hp_After p) = raw_normal (hp_After q) \<and>
     p\<lparr>hp_Before := None, hp_After := None\<rparr> = q\<lparr>hp_Before := None, hp_After := None\<rparr>)"

lemma norm_members:
  "set (map (\<lambda>(k, v). (k, norm_json no_floats v)) (payload_members p b a)) =
   {(''schema_version'', Str_v (hp_SchemaVersion p)), (''stream_id'', Str_v (hp_StreamID p)),
      (''audit_event_id'', Str_v (hp_AuditEventID p)), (''created_at'', Str_v (hp_CreatedAt p)),
      (''actor_type'', Str_v (hp_ActorType p)), (''actor_id'', Str_v (hp_ActorID p)),
      (''action'', Str_v (hp_Action p)), (''resource_type'', Str_v (hp_ResourceType p)),
      (''resource_id'', Str_v (hp_ResourceID p)), (''request_id'', Str_v (hp_RequestID p)),
      (''before_redacted'', norm_json no_floats b), (''after_redacted'', norm_json no_floats a)}"
  by (simp add: payload_members_def)

lemma payload_text_inj:
  assumes "payload_text p = Some t" and "payload_text q = Some t"
  shows "same_payload p q"
proof -
  obtain b a where p: "raw_value (hp_Before p) = Some b" "raw_value (hp_After p) = Some a" "decoded b" "decoded a"
    "t = json_text no_floats (Map_v (payload_members p b a))" using assms(1) by (rule payload_text_Some)
  obtain d c where q: "raw_value (hp_Before q) = Some d" "raw_value (hp_After q) = Some c" "decoded d" "decoded c"
    "t = json_text no_floats (Map_v (payload_members q d c))" using assms(2) by (rule payload_text_Some)
  have "norm_json no_floats (Map_v (payload_members p b a)) = norm_json no_floats (Map_v (payload_members q d c))"
    using p q payload_decoded [THEN decoded_wf] by (intro json_text_inj) auto
  then have "sort_keys (map (\<lambda>(k, v). (k, norm_json no_floats v)) (payload_members p b a)) =
      sort_keys (map (\<lambda>(k, v). (k, norm_json no_floats v)) (payload_members q d c))"
    by (simp only: norm_json.simps any.inject)
  then have s: "set (map (\<lambda>(k, v). (k, norm_json no_floats v)) (payload_members p b a)) =
      set (map (\<lambda>(k, v). (k, norm_json no_floats v)) (payload_members q d c))"
    using set_sort_keys by metis
  have m: "(k, v) \<in> set (map (\<lambda>(k, v). (k, norm_json no_floats v)) (payload_members q d c))"
    if "(k, v) \<in> set (map (\<lambda>(k, v). (k, norm_json no_floats v)) (payload_members p b a))" for k v
    using that unfolding s .
  note e = m [unfolded norm_members, of "''schema_version''" "Str_v (hp_SchemaVersion p)"]
    m [unfolded norm_members, of "''stream_id''" "Str_v (hp_StreamID p)"]
    m [unfolded norm_members, of "''audit_event_id''" "Str_v (hp_AuditEventID p)"]
    m [unfolded norm_members, of "''created_at''" "Str_v (hp_CreatedAt p)"]
    m [unfolded norm_members, of "''actor_type''" "Str_v (hp_ActorType p)"]
    m [unfolded norm_members, of "''actor_id''" "Str_v (hp_ActorID p)"]
    m [unfolded norm_members, of "''action''" "Str_v (hp_Action p)"]
    m [unfolded norm_members, of "''resource_type''" "Str_v (hp_ResourceType p)"]
    m [unfolded norm_members, of "''resource_id''" "Str_v (hp_ResourceID p)"]
    m [unfolded norm_members, of "''request_id''" "Str_v (hp_RequestID p)"]
    m [unfolded norm_members, of "''before_redacted''" "norm_json no_floats b"]
    m [unfolded norm_members, of "''after_redacted''" "norm_json no_floats a"]
  from e(1-10) have "p\<lparr>hp_Before := None, hp_After := None\<rparr> = q\<lparr>hp_Before := None, hp_After := None\<rparr>"
    by (cases p; cases q) simp
  moreover from e(11,12) have "norm_json no_floats b = norm_json no_floats d" "norm_json no_floats a = norm_json no_floats c"
    by simp_all
  ultimately show ?thesis using p(1,2) q(1,2) by (simp add: same_payload_def raw_normal_def)
qed

end
