(* ===== verification/Audit_Log.thy ===== *)
theory Audit_Log
  imports Audit_Canon Config_Store
begin

text \<open>
  The audit log: the operations on the table \<open>admin_audit_events\<close> of
  \<open>src/internal/store/store.go\<close>, \<open>emitAuditEvent\<close> of
  \<open>src/internal/api/admin/control_plane.go\<close>, which every change made through the
  administration API goes through, and the retention job of
  \<open>src/internal/retention/audit_retention.go\<close>. The table is the list of its rows in the
  order of insertion; its trigger (\<open>migrations/00014\<close>), the flag \<open>trig\<close> of the deletion, makes every update or
  deletion of a row fail. The hash of a row covers the hash of the row before it in its stream. The hash
  function is the parameter \<open>sha\<close>.
\<close>

type_synonym audit_table = "admin_audit_event list"

text \<open>A column of type \<open>timestamptz\<close> keeps microseconds; the driver cuts off the rest.\<close>

definition stored_time :: "time \<Rightarrow> time" where "stored_time t = t div 1000 * 1000"

definition zero_time :: time where "zero_time = - 62135596800000000000"

subsection \<open>Writing events\<close>

definition later_event :: "admin_audit_event \<Rightarrow> admin_audit_event \<Rightarrow> bool" where
  "later_event a b = (ae_CreatedAt b < ae_CreatedAt a \<or>
     ae_CreatedAt a = ae_CreatedAt b \<and> str_less (ae_AuditEventID b) (ae_AuditEventID a))"

fun newest_event :: "audit_table \<Rightarrow> admin_audit_event option" where
  "newest_event [] = None"
| "newest_event (e # es) =
     (case newest_event es of None \<Rightarrow> Some e | Some f \<Rightarrow> if later_event e f then Some e else Some f)"

definition lastAuditHash :: "faults \<Rightarrow> string \<Rightarrow> audit_table \<Rightarrow> store_error + string" where
  "lastAuditHash flt streamID tbl =
     (case flt 0 of
        Some e \<Rightarrow> Inl e
      | None \<Rightarrow> (case newest_event (filter (\<lambda>r. ae_StreamID r = streamID \<and> ae_EventHash r \<noteq> []) tbl) of
                  None \<Rightarrow> Inr [] | Some r \<Rightarrow> Inr (ae_EventHash r)))"

definition with_stream :: "time \<Rightarrow> admin_audit_event \<Rightarrow> admin_audit_event" where
  "with_stream now event =
     (let e = (if ae_CreatedAt event = zero_time then event\<lparr>ae_CreatedAt := now\<rparr> else event)
      in if ae_StreamID e = []
         then e\<lparr>ae_StreamID := if ae_TenantID e \<noteq> [] then ae_TenantID e else ''global''\<rparr> else e)"

definition chained :: "(string \<Rightarrow> string) \<Rightarrow> string \<Rightarrow> admin_audit_event \<Rightarrow> admin_audit_event option" where
  "chained sha prevHash event =
     map_option (\<lambda>h. event\<lparr>ae_EventHash := h, ae_PrevHash := prevHash\<rparr>)
       (ComputeEventHash sha prevHash (BuildHashPayload event (ae_StreamID event)))"

definition insert_row :: "faults \<Rightarrow> admin_audit_event \<Rightarrow> audit_table \<Rightarrow> (store_error + unit) \<times> audit_table" where
  "insert_row flt event tbl =
     (case flt 1 of
        Some e \<Rightarrow> (Inl e, tbl)
      | None \<Rightarrow>
          if ae_AuditEventID event \<in> ae_AuditEventID ` set tbl then (Inl ErrDB, tbl)
          else (Inr (), tbl @ [event\<lparr>ae_CreatedAt := stored_time (ae_CreatedAt event)\<rparr>]))"

text \<open>The insertion reads the last hash and writes the row in two statements.\<close>

definition chain_row ::
  "(string \<Rightarrow> string) \<Rightarrow> faults \<Rightarrow> string \<Rightarrow> admin_audit_event \<Rightarrow> audit_table \<Rightarrow> (store_error + unit) \<times> audit_table" where
  "chain_row sha flt prevHash event tbl =
     (case chained sha prevHash event of None \<Rightarrow> (Inl ErrDB, tbl) | Some e \<Rightarrow> insert_row flt e tbl)"

definition InsertAuditEvent ::
  "(string \<Rightarrow> string) \<Rightarrow> faults \<Rightarrow> time \<Rightarrow> admin_audit_event \<Rightarrow> audit_table \<Rightarrow> (store_error + unit) \<times> audit_table" where
  "InsertAuditEvent sha flt now event tbl =
     (let e = with_stream now event
      in case lastAuditHash flt (ae_StreamID e) tbl of
           Inl err \<Rightarrow> (Inl err, tbl)
         | Inr prevHash \<Rightarrow> chain_row sha flt prevHash e tbl)"

subsection \<open>Retention\<close>

text \<open>With the trigger of \<open>migrations/00014\<close> in place the statement fails as soon as it would delete a row.
  \<open>docs/runbooks/backup-restore.md\<close> says the job disables the trigger for its deletion, which the code does
  not do; \<open>trig\<close> is whether the trigger is enabled when the statement runs.\<close>

definition DeleteAuditEventsBefore :: "bool \<Rightarrow> faults \<Rightarrow> time \<Rightarrow> audit_table \<Rightarrow> (store_error + int) \<times> audit_table" where
  "DeleteAuditEventsBefore trig flt cutoff tbl =
     (case flt 0 of
        Some e \<Rightarrow> (Inl e, tbl)
      | None \<Rightarrow>
          (let old = filter (\<lambda>r. ae_CreatedAt r < cutoff) tbl
           in if trig \<and> old \<noteq> [] then (Inl ErrDB, tbl)
              else (Inr (int (length old)), filter (\<lambda>r. \<not> ae_CreatedAt r < cutoff) tbl)))"

definition hashLockKey :: "string \<Rightarrow> int" where
  "hashLockKey name = foldl (\<lambda>acc c. 256 * acc + of_char c) 0 (take 4 (name @ replicate 4 (CHR 0x00)))"

definition day_ns :: int where "day_ns = 86400 * second_ns"

definition retention_cutoff :: "faults \<Rightarrow> time \<Rightarrow> config_db \<Rightarrow> time" where
  "retention_cutoff flt_days now db =
     now - (case GetAuditRetentionDays flt_days db of Inl _ \<Rightarrow> 365 | Inr d \<Rightarrow> if d \<le> 0 then 365 else d) * day_ns"

text \<open>One round of the job: \<open>lock\<close> is what \<open>TryAdvisoryLock\<close> answers.\<close>

definition retention_run ::
  "bool \<Rightarrow> store_error + bool \<Rightarrow> faults \<Rightarrow> faults \<Rightarrow> time \<Rightarrow> config_db \<Rightarrow> audit_table \<Rightarrow> audit_table" where
  "retention_run trig lock flt_days flt now db tbl =
     (case lock of
        Inl _ \<Rightarrow> tbl
      | Inr locked \<Rightarrow> if \<not> locked then tbl else snd (DeleteAuditEventsBefore trig flt (retention_cutoff flt_days now db) tbl))"

subsection \<open>Reading events\<close>

record audit_query =
  aq_TenantID :: string
  aq_Action :: string
  aq_ResourceType :: string
  aq_ActorID :: string
  aq_From :: "time option"
  aq_To :: "time option"

definition audit_matches :: "audit_query \<Rightarrow> admin_audit_event \<Rightarrow> bool" where
  "audit_matches q e =
     ((aq_TenantID q \<noteq> [] \<longrightarrow> ae_TenantID e = aq_TenantID q) \<and>
      (aq_Action q \<noteq> [] \<longrightarrow> ae_Action e = aq_Action q) \<and>
      (aq_ResourceType q \<noteq> [] \<longrightarrow> ae_ResourceType e = aq_ResourceType q) \<and>
      (aq_ActorID q \<noteq> [] \<longrightarrow> ae_ActorID e = aq_ActorID q) \<and>
      (case aq_From q of None \<Rightarrow> True | Some t \<Rightarrow> t \<le> ae_CreatedAt e) \<and>
      (case aq_To q of None \<Rightarrow> True | Some t \<Rightarrow> ae_CreatedAt e \<le> t))"

definition audit_rows :: "audit_query \<Rightarrow> audit_table \<Rightarrow> audit_table" where
  "audit_rows q tbl = SliceStable (\<lambda>a b. ae_CreatedAt b < ae_CreatedAt a) (filter (audit_matches q) tbl)"

definition ListAuditEvents :: "audit_query \<Rightarrow> int \<Rightarrow> int \<Rightarrow> audit_table \<Rightarrow> audit_table" where
  "ListAuditEvents q limit offset tbl =
     take (nat (if limit \<le> 0 then 50 else limit)) (drop (nat (max 0 offset)) (audit_rows q tbl))"

definition ListAuditEventsExport :: "audit_query \<Rightarrow> int \<Rightarrow> int \<Rightarrow> audit_table \<Rightarrow> audit_table" where
  "ListAuditEventsExport q limit offset tbl =
     (if limit \<le> 0 then audit_rows q tbl
      else take (nat limit) (drop (nat (max 0 offset)) (audit_rows q tbl)))"

subsection \<open>Emitting events\<close>

definition action_char :: "char \<Rightarrow> bool" where
  "action_char c = (c = CHR ''_'' \<or> is_digit c \<or> (65 \<le> (of_char c :: nat) \<and> (of_char c :: nat) \<le> 90))"

definition action_format :: "string \<Rightarrow> bool" where
  "action_format s = list_all (\<lambda>part. part \<noteq> [] \<and> list_all action_char part) (Split (CHR ''.'') s)"

definition marshalAuditPayload :: "(rat \<Rightarrow> string) \<Rightarrow> string \<Rightarrow> gomap option \<Rightarrow> string option option" where
  "marshalAuditPayload fmt resourceType payload =
     (case RedactPayload resourceType payload of
        None \<Rightarrow> Some None
      | Some redacted \<Rightarrow> map_option Some (CanonicalJSON fmt (Map_v redacted)))"

record audit_context =
  ac_AuditEventID :: string
  ac_AdminKeyID :: string
  ac_RequestID :: string
  ac_IP :: string
  ac_UserAgent :: string
  ac_now :: time

definition emitAuditEvent ::
  "(string \<Rightarrow> string) \<Rightarrow> (rat \<Rightarrow> string) \<Rightarrow> faults \<Rightarrow> audit_context \<Rightarrow> string \<Rightarrow> string \<Rightarrow> string \<Rightarrow> string \<Rightarrow>
   gomap option \<Rightarrow> gomap option \<Rightarrow> audit_table \<Rightarrow> (store_error + unit) \<times> audit_table" where
  "emitAuditEvent sha fmt flt c tenantID action0 resourceType0 resourceID before after tbl =
     (let action = ToUpper (filter (\<lambda>x. \<not> is_space x) action0);
          resourceType = ToUpper (filter (\<lambda>x. \<not> is_space x) resourceType0)
      in if action = [] \<or> resourceType = [] \<or> \<not> action_format action then (Inl ErrDB, tbl)
         else case marshalAuditPayload fmt resourceType before of
                None \<Rightarrow> (Inl ErrDB, tbl)
              | Some beforeJSON \<Rightarrow>
                  (case marshalAuditPayload fmt resourceType after of
                     None \<Rightarrow> (Inl ErrDB, tbl)
                   | Some afterJSON \<Rightarrow>
                       InsertAuditEvent sha flt (ac_now c)
                         \<lparr>ae_AuditEventID = ac_AuditEventID c, ae_TenantID = tenantID, ae_StreamID = [], ae_EventHash = [],
                          ae_PrevHash = [], ae_ActorType = ''admin_key'', ae_ActorID = ac_AdminKeyID c,
                          ae_ActorDisplay = ac_AdminKeyID c, ae_Action = action, ae_ResourceType = resourceType,
                          ae_ResourceID = TrimSpace resourceID, ae_Before = beforeJSON, ae_After = afterJSON,
                          ae_RequestID = ac_RequestID c, ae_IP = ac_IP c, ae_UserAgent = ac_UserAgent c,
                          ae_CreatedAt = ac_now c\<rparr> tbl))"

end
