(* ===== verification/Go_Base64.thy ===== *)
theory Go_Base64
  imports Go_Prelude
begin

text \<open>
  \<open>base64.RawURLEncoding\<close>: the URL-safe alphabet without padding. As in Go, the decoder
  skips carriage returns and line feeds and does not look at the unused low bits of the
  last digit, so a text has several encodings that decode to it; the encoder gives one.
\<close>

definition b64_digit :: "nat \<Rightarrow> char" where
  "b64_digit n = (if n < 26 then char_of (65 + n) else if n < 52 then char_of (71 + n)
     else if n < 62 then char_of (n - 4) else if n = 62 then CHR ''-'' else CHR ''_'')"

definition b64_val :: "char \<Rightarrow> nat option" where
  "b64_val c = (let n = (of_char c :: nat)
     in if 65 \<le> n \<and> n \<le> 90 then Some (n - 65)
        else if 97 \<le> n \<and> n \<le> 122 then Some (n - 71)
        else if 48 \<le> n \<and> n \<le> 57 then Some (n + 4)
        else if c = CHR ''-'' then Some 62 else if c = CHR ''_'' then Some 63 else None)"

fun b64_digits :: "nat list \<Rightarrow> nat list" where
  "b64_digits (a # b # c # s) =
     [a div 4, (a mod 4) * 16 + b div 16, (b mod 16) * 4 + c div 64, c mod 64] @ b64_digits s"
| "b64_digits [a, b] = [a div 4, (a mod 4) * 16 + b div 16, (b mod 16) * 4]"
| "b64_digits [a] = [a div 4, (a mod 4) * 16]"
| "b64_digits [] = []"

definition EncodeToString :: "string \<Rightarrow> string" where
  "EncodeToString s = map b64_digit (b64_digits (map of_char s))"

fun b64_bytes :: "nat list \<Rightarrow> nat list option" where
  "b64_bytes (w # x # y # z # s) =
     (case b64_bytes s of None \<Rightarrow> None
      | Some bs \<Rightarrow> Some ([w * 4 + x div 16, (x mod 16) * 16 + y div 4, (y mod 4) * 64 + z] @ bs))"
| "b64_bytes [w, x, y] = Some [w * 4 + x div 16, (x mod 16) * 16 + y div 4]"
| "b64_bytes [w, x] = Some [w * 4 + x div 16]"
| "b64_bytes [w] = None"
| "b64_bytes [] = Some []"

fun b64_values :: "string \<Rightarrow> nat list option" where
  "b64_values [] = Some []"
| "b64_values (c # s) =
     (case (b64_val c, b64_values s) of (Some v, Some vs) \<Rightarrow> Some (v # vs) | _ \<Rightarrow> None)"

definition DecodeString :: "string \<Rightarrow> string option" where
  "DecodeString s =
     (case b64_values (filter (\<lambda>c. c \<noteq> CHR 0x0A \<and> c \<noteq> CHR 0x0D) s) of
        None \<Rightarrow> None
      | Some vs \<Rightarrow> map_option (map char_of) (b64_bytes vs))"

subsection \<open>Round trip\<close>

lemma b64_val_digit: "n < 64 \<Longrightarrow> b64_val (b64_digit n) = Some n"
  by (auto simp: b64_val_def b64_digit_def Let_def of_char_of)

lemma b64_digits_bound: "list_all (\<lambda>b. b < 256) bs \<Longrightarrow> list_all (\<lambda>d. d < 64) (b64_digits bs)"
  by (induction bs rule: b64_digits.induct) auto

lemma b64_values_digits: "list_all (\<lambda>d. d < 64) ds \<Longrightarrow> b64_values (map b64_digit ds) = Some ds"
  by (induction ds) (auto simp: b64_val_digit)

lemma b64_bytes_digits: "list_all (\<lambda>b. b < 256) bs \<Longrightarrow> b64_bytes (b64_digits bs) = Some bs"
proof (induction bs rule: b64_digits.induct)
  case (1 a b c s)
  have h: "b div 16 < 16" "c div 64 < 4" using 1(2) by (auto simp: div_less_iff_less_mult)
  have "a div 4 * 4 + (a mod 4 * 16 + b div 16) div 16 = a" using h by simp
  moreover have "(a mod 4 * 16 + b div 16) mod 16 * 16 + (b mod 16 * 4 + c div 64) div 4 = b" using h by simp
  moreover have "(b mod 16 * 4 + c div 64) mod 4 * 64 + c mod 64 = c" using h by simp
  ultimately show ?case using 1 by simp
qed auto

lemma b64_digit_plain: "b64_digit n \<noteq> CHR 0x0A \<and> b64_digit n \<noteq> CHR 0x0D \<and> b64_digit n \<noteq> CHR ''.'' \<and> b64_digit n \<noteq> CHR '':''"
proof (cases "n < 64")
  case True
  have "b64_val (CHR 0x0A) = None" "b64_val (CHR 0x0D) = None" "b64_val (CHR ''.'') = None" "b64_val (CHR '':'') = None"
    by (simp_all add: b64_val_def Let_def)
  then show ?thesis using b64_val_digit [OF True] by (metis option.distinct(1))
qed (simp add: b64_digit_def)

lemma EncodeToString_plain:
  "c \<in> set (EncodeToString s) \<Longrightarrow> c \<noteq> CHR 0x0A \<and> c \<noteq> CHR 0x0D \<and> c \<noteq> CHR ''.'' \<and> c \<noteq> CHR '':''"
  using b64_digit_plain by (auto simp: EncodeToString_def)

lemma Decode_Encode [simp]: "DecodeString (EncodeToString s) = Some s"
proof -
  have b: "list_all (\<lambda>b. b < 256) (map of_char s :: nat list)" by (simp add: list_all_iff)
  have "filter (\<lambda>c. c \<noteq> CHR 0x0A \<and> c \<noteq> CHR 0x0D) (EncodeToString s) = EncodeToString s"
    using EncodeToString_plain by (auto simp: filter_id_conv)
  then show ?thesis
    using b64_values_digits [OF b64_digits_bound [OF b]] b64_bytes_digits [OF b]
    by (simp add: DecodeString_def EncodeToString_def comp_def)
qed

end
