(* ===== verification/Audit_Chain.thy ===== *)
theory Audit_Chain
  imports Audit_Log Go_Base64 "HOL-Library.Sublist"
begin

text \<open>
  What the hash chain of the audit log shows. Events written one after the other form one chain
  per stream, and a chain with the same last hash has the same events: nobody can change, drop,
  add or reorder events without changing the last hash. Under concurrency the rows of a stream
  form a tree: each row points to a row written before it, but two rows may point to the same
  one. Rows are never changed, and removed by the retention job only, when nothing blocks it.
\<close>

subsection \<open>Chains\<close>

text \<open>A row verifies when its hash is the one computed from its columns.\<close>

definition row_verifies :: "(string \<Rightarrow> string) \<Rightarrow> admin_audit_event \<Rightarrow> bool" where
  "row_verifies sha r = (ComputeEventHash sha (ae_PrevHash r) (BuildHashPayload r (ae_StreamID r)) = Some (ae_EventHash r))"

fun linked :: "(string \<Rightarrow> string) \<Rightarrow> string \<Rightarrow> audit_table \<Rightarrow> bool" where
  "linked sha prev [] = True"
| "linked sha prev (r # rs) = (ae_PrevHash r = prev \<and> row_verifies sha r \<and> linked sha (ae_EventHash r) rs)"

definition chain_head :: "string \<Rightarrow> audit_table \<Rightarrow> string" where
  "chain_head prev rs = (if rs = [] then prev else ae_EventHash (last rs))"

lemma chain_head_simps [simp]: "chain_head prev [] = prev" "chain_head prev (rs @ [r]) = ae_EventHash r"
  "chain_head prev (r # rs) = chain_head (ae_EventHash r) rs"
  by (simp_all add: chain_head_def)

lemma linked_append: "linked sha prev (rs @ ss) \<longleftrightarrow> linked sha prev rs \<and> linked sha (chain_head prev rs) ss"
  by (induction rs arbitrary: prev) auto

text \<open>What is used of SHA-256: its text is a non-empty string of hexadecimal digits, and no two
  of the texts at hand have the same hash.\<close>

definition hex_text :: "(string \<Rightarrow> string) \<Rightarrow> bool" where
  "hex_text sha = (\<forall>s. sha s \<noteq> [] \<and> CHR ''{'' \<notin> set (sha s))"

definition hashed_text :: "admin_audit_event \<Rightarrow> string" where
  "hashed_text r = ae_PrevHash r @ the (payload_text (BuildHashPayload r (ae_StreamID r)))"

lemma row_verifies_hash: "row_verifies sha r \<Longrightarrow> ae_EventHash r = sha (hashed_text r)"
  by (auto simp: row_verifies_def ComputeEventHash_def hashed_text_def)

lemma row_hash_plain: "hex_text sha \<Longrightarrow> row_verifies sha r \<Longrightarrow> ae_EventHash r \<noteq> [] \<and> CHR ''{'' \<notin> set (ae_EventHash r)"
  using row_verifies_hash [of sha r] by (simp add: hex_text_def)

definition same_event :: "admin_audit_event \<Rightarrow> admin_audit_event \<Rightarrow> bool" where
  "same_event a b = (ae_EventHash a = ae_EventHash b \<and> ae_PrevHash a = ae_PrevHash b \<and>
     same_payload (BuildHashPayload a (ae_StreamID a)) (BuildHashPayload b (ae_StreamID b)))"

lemma linked_head_plain:
  assumes "hex_text sha" and "linked sha prev rs" and "CHR ''{'' \<notin> set prev"
  shows "CHR ''{'' \<notin> set (chain_head prev rs)"
  using assms
proof (induction rs arbitrary: prev)
  case (Cons r rs)
  then show ?case using row_hash_plain by simp
qed simp

lemma same_hash_same_event:
  assumes "row_verifies sha a" "row_verifies sha b" and "ae_EventHash a = ae_EventHash b"
    and "CHR ''{'' \<notin> set (ae_PrevHash a)" "CHR ''{'' \<notin> set (ae_PrevHash b)"
    and "inj_on sha {hashed_text a, hashed_text b}"
  shows "same_event a b"
proof -
  obtain t where t: "payload_text (BuildHashPayload a (ae_StreamID a)) = Some t"
    using assms(1) by (auto simp: row_verifies_def ComputeEventHash_def)
  obtain u where u: "payload_text (BuildHashPayload b (ae_StreamID b)) = Some u"
    using assms(2) by (auto simp: row_verifies_def ComputeEventHash_def)
  have "sha (hashed_text a) = sha (hashed_text b)"
    using assms(3) row_verifies_hash [OF assms(1)] row_verifies_hash [OF assms(2)] by metis
  from inj_onD [OF assms(6) this] have "hashed_text a = hashed_text b" by blast
  then have "ae_PrevHash a @ t = ae_PrevHash b @ u" using t u by (simp add: hashed_text_def)
  moreover obtain t' u' where "t = CHR ''{'' # t'" "u = CHR ''{'' # u'"
    using payload_text_brace [OF t] payload_text_brace [OF u] by blast
  ultimately have "ae_PrevHash a = ae_PrevHash b \<and> t = u"
    using until_sep_inj [of "ae_PrevHash a" "CHR ''{''" t' "ae_PrevHash b" u'] assms(4,5) by simp
  moreover from this have "same_payload (BuildHashPayload a (ae_StreamID a)) (BuildHashPayload b (ae_StreamID b))"
    using payload_text_inj t u by blast
  ultimately show ?thesis using assms(3) by (simp add: same_event_def)
qed

lemma same_head_same_chain:
  assumes "hex_text sha" and "linked sha [] rs" and "linked sha [] ss"
    and "chain_head [] rs = chain_head [] ss" and "inj_on sha (hashed_text ` (set rs \<union> set ss))"
  shows "list_all2 same_event rs ss"
  using assms(2-)
proof (induction rs arbitrary: ss rule: rev_induct)
  case Nil
  then show ?case
  proof (cases ss rule: rev_cases)
    case (snoc ss s)
    then have "row_verifies sha s" using Nil by (simp add: linked_append)
    from row_hash_plain [OF assms(1) this] Nil snoc show ?thesis by simp
  qed simp
next
  case (snoc r rs)
  then have r: "row_verifies sha r" "ae_PrevHash r = chain_head [] rs" "linked sha [] rs" by (simp_all add: linked_append)
  show ?case
  proof (cases ss rule: rev_cases)
    case Nil
    with row_hash_plain [OF assms(1) r(1)] snoc.prems show ?thesis by simp
  next
    case (snoc ss' s)
    then have s: "row_verifies sha s" "ae_PrevHash s = chain_head [] ss'" "linked sha [] ss'"
      using snoc.prems by (simp_all add: linked_append)
    have plain: "CHR ''{'' \<notin> set (ae_PrevHash r)" "CHR ''{'' \<notin> set (ae_PrevHash s)"
      using linked_head_plain [OF assms(1), of "[]"] r(2,3) s(2,3) by simp_all
    have inj: "inj_on sha {hashed_text r, hashed_text s}"
      by (rule inj_on_subset [OF snoc.prems(4)]) (simp add: snoc)
    have "ae_EventHash r = ae_EventHash s" using snoc.prems(3) snoc by simp
    from same_hash_same_event [OF r(1) s(1) this plain inj] have e: "same_event r s" .
    then have "chain_head [] rs = chain_head [] ss'" using r(2) s(2) by (metis same_event_def)
    moreover have "inj_on sha (hashed_text ` (set rs \<union> set ss'))"
      by (rule inj_on_subset [OF snoc.prems(4)]) (auto simp: snoc)
    ultimately have "list_all2 same_event rs ss'" using snoc.IH r(3) s(3) by blast
    with e snoc show ?thesis by (simp add: list_all2_appendI)
  qed
qed

subsection \<open>Events written one after the other\<close>

fun insert_all :: "(string \<Rightarrow> string) \<Rightarrow> (time \<times> admin_audit_event) list \<Rightarrow> audit_table \<Rightarrow> audit_table" where
  "insert_all sha [] tbl = tbl"
| "insert_all sha ((now, e) # es) tbl = insert_all sha es (snd (InsertAuditEvent sha no_faults now e tbl))"

definition stream_rows :: "string \<Rightarrow> audit_table \<Rightarrow> audit_table" where
  "stream_rows streamID tbl = filter (\<lambda>r. ae_StreamID r = streamID) tbl"

abbreviation "time_sorted \<equiv> sorted_wrt (\<lambda>a b. ae_CreatedAt a < ae_CreatedAt b)"

lemma newest_sorted: "time_sorted rs \<Longrightarrow> rs \<noteq> [] \<Longrightarrow> newest_event rs = Some (last rs)"
proof (induction rs)
  case (Cons r rs)
  show ?case
  proof (cases "rs = []")
    case False
    then have "ae_CreatedAt r < ae_CreatedAt (last rs)" using Cons.prems last_in_set by simp
    then have "\<not> later_event r (last rs)" by (simp add: later_event_def)
    then show ?thesis using Cons False by simp
  qed simp
qed simp

lemma lastAuditHash_sorted:
  assumes "time_sorted tbl" and "\<forall>r\<in>set tbl. ae_EventHash r \<noteq> []"
  shows "lastAuditHash no_faults streamID tbl = Inr (chain_head [] (stream_rows streamID tbl))"
proof -
  have f: "filter (\<lambda>r. ae_StreamID r = streamID \<and> ae_EventHash r \<noteq> []) tbl = stream_rows streamID tbl"
    unfolding stream_rows_def using assms(2) by (intro filter_cong) auto
  have "time_sorted (stream_rows streamID tbl)" unfolding stream_rows_def by (rule sorted_wrt_filter [OF assms(1)])
  then show ?thesis
    unfolding lastAuditHash_def f by (auto simp: no_faults_simp newest_sorted chain_head_def)
qed

lemma with_stream_time: "ae_CreatedAt e \<noteq> zero_time \<Longrightarrow> ae_CreatedAt (with_stream now e) = ae_CreatedAt e"
  by (simp add: with_stream_def Let_def)

lemma stored_time_id: "t mod 1000 = 0 \<Longrightarrow> stored_time t = t"
  using mult_div_mod_eq [of 1000 t] by (simp add: stored_time_def)

lemma BuildHashPayload_hashes [simp]:
  "BuildHashPayload (e\<lparr>ae_EventHash := h, ae_PrevHash := p\<rparr>) st = BuildHashPayload e st"
  by (simp add: BuildHashPayload_def)

lemma chain_row_cases:
  assumes "chain_row sha flt prev e tbl = (res, tbl')"
  obtains (failed) err where "res = Inl err" "tbl' = tbl"
  | (written) h where "res = Inr ()" "ComputeEventHash sha prev (BuildHashPayload e (ae_StreamID e)) = Some h"
      "ae_AuditEventID e \<notin> ae_AuditEventID ` set tbl"
      "tbl' = tbl @ [e\<lparr>ae_EventHash := h, ae_PrevHash := prev, ae_CreatedAt := stored_time (ae_CreatedAt e)\<rparr>]"
proof (cases "ComputeEventHash sha prev (BuildHashPayload e (ae_StreamID e))")
  case None
  then have "chain_row sha flt prev e tbl = (Inl ErrDB, tbl)" by (simp add: chain_row_def chained_def)
  with assms show thesis by (intro failed [of ErrDB]) simp_all
next
  case (Some h)
  let ?r = "e\<lparr>ae_EventHash := h, ae_PrevHash := prev\<rparr>"
  have c: "chain_row sha flt prev e tbl = insert_row flt ?r tbl" using Some by (simp add: chain_row_def chained_def)
  show thesis
  proof (cases "flt 1 = None \<and> ae_AuditEventID e \<notin> ae_AuditEventID ` set tbl")
    case True
    with assms c Some show thesis by (intro written [of h]) (simp_all add: insert_row_def)
  next
    case False
    with assms c show thesis
      by (cases "flt 1") (auto simp: insert_row_def intro: failed)
  qed
qed

lemma InsertAuditEvent_cases:
  assumes "InsertAuditEvent sha flt now e tbl = (res, tbl')"
  obtains (failed) err where "res = Inl err" "tbl' = tbl"
  | (written) prev h where "res = Inr ()" "lastAuditHash flt (ae_StreamID (with_stream now e)) tbl = Inr prev"
      "tbl' = tbl @ [(with_stream now e)\<lparr>ae_EventHash := h, ae_PrevHash := prev,
         ae_CreatedAt := stored_time (ae_CreatedAt (with_stream now e))\<rparr>]"
proof (cases "lastAuditHash flt (ae_StreamID (with_stream now e)) tbl")
  case (Inl err)
  with assms show thesis by (intro failed [of err]) (simp_all add: InsertAuditEvent_def Let_def)
next
  case (Inr prev)
  then have "chain_row sha flt prev (with_stream now e) tbl = (res, tbl')"
    using assms by (simp add: InsertAuditEvent_def Let_def)
  then show thesis
  proof (cases rule: chain_row_cases)
    case (failed err)
    then show thesis by (rule that(1))
  next
    case (written h)
    from written(1) Inr written(4) show thesis by (rule that(2))
  qed
qed

definition well_chained :: "(string \<Rightarrow> string) \<Rightarrow> audit_table \<Rightarrow> bool" where
  "well_chained sha tbl = (time_sorted tbl \<and> (\<forall>st. linked sha [] (stream_rows st tbl)))"

lemma linked_verifies: "linked sha prev rs \<Longrightarrow> r \<in> set rs \<Longrightarrow> row_verifies sha r"
  by (induction rs arbitrary: prev) auto

lemma well_chained_hash:
  assumes "hex_text sha" and "well_chained sha tbl" and "r \<in> set tbl"
  shows "ae_EventHash r \<noteq> []"
proof -
  have "r \<in> set (stream_rows (ae_StreamID r) tbl)" using assms(3) by (simp add: stream_rows_def)
  with assms(2) have "row_verifies sha r" using linked_verifies unfolding well_chained_def by blast
  with row_hash_plain [OF assms(1)] show ?thesis by blast
qed

lemma well_chained_insert:
  assumes "hex_text sha" and "well_chained sha tbl" and "ae_CreatedAt e mod 1000 = 0" and "ae_CreatedAt e \<noteq> zero_time"
    and "\<forall>r\<in>set tbl. ae_CreatedAt r < ae_CreatedAt e"
  shows "well_chained sha (snd (InsertAuditEvent sha no_faults now e tbl)) \<and>
    (\<forall>r\<in>set (snd (InsertAuditEvent sha no_faults now e tbl)). ae_CreatedAt r \<le> ae_CreatedAt e)"
proof -
  let ?e = "with_stream now e" and ?prev = "chain_head [] (stream_rows (ae_StreamID (with_stream now e)) tbl)"
  have last: "lastAuditHash no_faults (ae_StreamID ?e) tbl = Inr ?prev"
    using assms(1,2) well_chained_hash by (intro lastAuditHash_sorted) (auto simp: well_chained_def)
  obtain res tbl' where w: "chain_row sha no_faults ?prev ?e tbl = (res, tbl')" by (metis prod.exhaust)
  have i: "snd (InsertAuditEvent sha no_faults now e tbl) = tbl'" using last w by (simp add: InsertAuditEvent_def Let_def)
  have t: "ae_CreatedAt ?e = ae_CreatedAt e" using assms(4) by (rule with_stream_time)
  from w show ?thesis
  proof (cases rule: chain_row_cases)
    case (failed err)
    with i assms(2,5) show ?thesis by fastforce
  next
    case (written h)
    let ?r = "?e\<lparr>ae_EventHash := h, ae_PrevHash := ?prev, ae_CreatedAt := stored_time (ae_CreatedAt ?e)\<rparr>"
    have r: "?r = ?e\<lparr>ae_EventHash := h, ae_PrevHash := ?prev\<rparr>" using t assms(3) by (simp add: stored_time_id)
    have v: "row_verifies sha ?r" unfolding r row_verifies_def using written(2) by simp
    have "linked sha [] (stream_rows st (tbl @ [?r]))" for st
      using assms(2) v by (auto simp: well_chained_def stream_rows_def linked_append)
    moreover have "time_sorted (tbl @ [?r])"
      using assms(2,3,5) t by (auto simp: well_chained_def sorted_wrt_append stored_time_id)
    ultimately show ?thesis using i written(4) assms(3,5) t by (auto simp: well_chained_def stored_time_id)
  qed
qed

lemma insert_all_chained:
  assumes "hex_text sha" and "well_chained sha tbl"
    and "\<forall>(now, e)\<in>set es. ae_CreatedAt e mod 1000 = 0 \<and> ae_CreatedAt e \<noteq> zero_time"
    and "sorted_wrt (<) (map (ae_CreatedAt \<circ> snd) es)" and "\<forall>r\<in>set tbl. \<forall>(now, e)\<in>set es. ae_CreatedAt r < ae_CreatedAt e"
  shows "well_chained sha (insert_all sha es tbl)"
  using assms(2-)
proof (induction es arbitrary: tbl)
  case (Cons x es)
  obtain now e where x: "x = (now, e)" by force
  from well_chained_insert [OF assms(1) Cons.prems(1), of e now] Cons.prems x
  have "well_chained sha (snd (InsertAuditEvent sha no_faults now e tbl))"
    "\<forall>r\<in>set (snd (InsertAuditEvent sha no_faults now e tbl)). ae_CreatedAt r \<le> ae_CreatedAt e" by auto
  moreover from this Cons.prems x have "\<forall>r\<in>set (snd (InsertAuditEvent sha no_faults now e tbl)). \<forall>(now, f)\<in>set es. ae_CreatedAt r < ae_CreatedAt f"
    by (fastforce intro: le_less_trans)
  ultimately show ?case using Cons.prems x by (simp add: Cons.IH)
qed simp

subsection \<open>Concurrent writers\<close>

text \<open>A writer reads the last hash of its stream and inserts its row later; in between others
  may do the same, and the retention job may run.\<close>

record audit_world =
  aw_rows :: audit_table
  aw_pending :: "(admin_audit_event \<times> string) list"
  aw_cutoffs :: "time list"

inductive audit_step :: "(string \<Rightarrow> string) \<Rightarrow> bool \<Rightarrow> audit_world \<Rightarrow> audit_world \<Rightarrow> bool" for sha trig where
  Audit_read: "lastAuditHash flt (ae_StreamID e) (aw_rows w) = Inr h \<Longrightarrow>
    audit_step sha trig w (w\<lparr>aw_pending := (e, h) # aw_pending w\<rparr>)"
| Audit_write: "(e, h) \<in> set (aw_pending w) \<Longrightarrow> chain_row sha flt h e (aw_rows w) = (res, rows) \<Longrightarrow>
    audit_step sha trig w (w\<lparr>aw_rows := rows, aw_pending := remove1 (e, h) (aw_pending w)\<rparr>)"
| Audit_retain: "audit_step sha trig w (w\<lparr>aw_rows := retention_run trig lock flt_days flt now db (aw_rows w),
    aw_cutoffs := retention_cutoff flt_days now db # aw_cutoffs w\<rparr>)"

text \<open>An undisturbed insertion is the two steps of its writer.\<close>

lemma InsertAuditEvent_steps:
  "(audit_step sha trig)\<^sup>*\<^sup>* w (w\<lparr>aw_rows := snd (InsertAuditEvent sha flt now e (aw_rows w))\<rparr>)"
proof (cases "lastAuditHash flt (ae_StreamID (with_stream now e)) (aw_rows w)")
  case (Inl err)
  then show ?thesis by (simp add: InsertAuditEvent_def Let_def)
next
  case (Inr h)
  let ?e = "with_stream now e"
  obtain res rows where c: "chain_row sha flt h ?e (aw_rows w) = (res, rows)" by (metis prod.exhaust)
  let ?v = "w\<lparr>aw_pending := (?e, h) # aw_pending w\<rparr>"
  have "audit_step sha trig w ?v" using Inr by (rule Audit_read)
  moreover have "audit_step sha trig ?v (?v\<lparr>aw_rows := rows, aw_pending := remove1 (?e, h) (aw_pending ?v)\<rparr>)"
    using c by (intro Audit_write) simp_all
  moreover have "?v\<lparr>aw_rows := rows, aw_pending := remove1 (?e, h) (aw_pending ?v)\<rparr> =
      w\<lparr>aw_rows := snd (InsertAuditEvent sha flt now e (aw_rows w))\<rparr>"
    using Inr c by (simp add: InsertAuditEvent_def Let_def)
  ultimately show ?thesis by (metis (no_types, lifting) converse_rtranclp_into_rtranclp r_into_rtranclp)
qed

text \<open>A round deletes nothing, or exactly the rows before its cutoff; it deletes nothing under the trigger.\<close>

lemma retention_rows:
  "retention_run trig lock flt_days flt now db tbl \<in>
     {tbl, filter (\<lambda>r. \<not> ae_CreatedAt r < retention_cutoff flt_days now db) tbl}"
  "retention_run True lock flt_days flt now db tbl = tbl"
  by (auto simp: retention_run_def DeleteAuditEventsBefore_def Let_def filter_empty_conv filter_id_conv split: sum.splits option.splits)

text \<open>A hash that a writer may chain to: none, or the hash of a row of the stream.\<close>

definition anchored :: "audit_table \<Rightarrow> string \<Rightarrow> string \<Rightarrow> bool" where
  "anchored rows streamID h = (h = [] \<or> (\<exists>r\<in>set rows. ae_StreamID r = streamID \<and> ae_EventHash r = h))"

fun anchored_rows :: "audit_table \<Rightarrow> audit_table \<Rightarrow> bool" where
  "anchored_rows old [] = True"
| "anchored_rows old (r # rs) = (anchored old (ae_StreamID r) (ae_PrevHash r) \<and> anchored_rows (old @ [r]) rs)"

lemma anchored_mono: "anchored rows st h \<Longrightarrow> set rows \<subseteq> set rows' \<Longrightarrow> anchored rows' st h"
  by (auto simp: anchored_def)

lemma anchored_rows_snoc:
  "anchored_rows old (rs @ [r]) \<longleftrightarrow> anchored_rows old rs \<and> anchored (old @ rs) (ae_StreamID r) (ae_PrevHash r)"
  by (induction rs arbitrary: old) auto

lemma newest_event_in: "newest_event rs = Some r \<Longrightarrow> r \<in> set rs"
  by (induction rs arbitrary: r) (auto split: option.splits if_splits)

lemma lastAuditHash_anchored: "lastAuditHash flt st tbl = Inr h \<Longrightarrow> anchored tbl st h"
  by (auto simp: lastAuditHash_def anchored_def split: option.splits dest!: newest_event_in)

text \<open>\<open>kept_rows c all rows\<close>: the rows are those of \<open>all\<close>, in order, less some that are older than one of the
  cutoffs \<open>c\<close>.\<close>

definition kept_rows :: "time list \<Rightarrow> audit_table \<Rightarrow> audit_table \<Rightarrow> bool" where
  "kept_rows cutoffs all rows =
     (subseq rows all \<and> (\<forall>r\<in>set all - set rows. \<exists>c\<in>set cutoffs. ae_CreatedAt r < c))"

lemma kept_rows_refl: "kept_rows cs rows rows"
  by (simp add: kept_rows_def)

lemma kept_rows_snoc: "kept_rows cs all rows \<Longrightarrow> kept_rows cs (all @ [r]) (rows @ [r])"
  by (auto simp: kept_rows_def)

lemma kept_rows_retain:
  assumes "kept_rows cs all rows"
  shows "kept_rows (retention_cutoff flt_days now db # cs) all (retention_run trig lock flt_days flt now db rows)"
proof -
  consider "retention_run trig lock flt_days flt now db rows = rows"
    | "retention_run trig lock flt_days flt now db rows = filter (\<lambda>r. \<not> ae_CreatedAt r < retention_cutoff flt_days now db) rows"
    using retention_rows(1) [of trig lock flt_days flt now db rows] by blast
  then show ?thesis
  proof cases
    case 2
    have "subseq (filter (\<lambda>r. \<not> ae_CreatedAt r < retention_cutoff flt_days now db) rows) all"
      using assms subseq_filter_left subseq_order.trans unfolding kept_rows_def by blast
    with 2 assms show ?thesis by (auto simp: kept_rows_def)
  qed (use assms in \<open>auto simp: kept_rows_def\<close>)
qed

lemma kept_rows_set: "kept_rows cs all rows \<Longrightarrow> set rows \<subseteq> set all"
  by (auto simp: kept_rows_def elim: list_emb_set)

definition audit_ok :: "bool \<Rightarrow> audit_world \<Rightarrow> audit_world \<Rightarrow> bool" where
  "audit_ok trig w0 w = (\<exists>new. anchored_rows (aw_rows w0) new \<and> kept_rows (aw_cutoffs w) (aw_rows w0 @ new) (aw_rows w) \<and>
     (trig \<longrightarrow> aw_rows w = aw_rows w0 @ new) \<and>
     (\<forall>(e, h)\<in>set (aw_pending w). anchored (aw_rows w0 @ new) (ae_StreamID e) h))"

lemma audit_ok_step:
  assumes "audit_ok trig w0 w" and "audit_step sha trig w w'"
  shows "audit_ok trig w0 w'"
proof -
  from assms(1) obtain new where new: "anchored_rows (aw_rows w0) new" "kept_rows (aw_cutoffs w) (aw_rows w0 @ new) (aw_rows w)"
      "trig \<longrightarrow> aw_rows w = aw_rows w0 @ new" "\<forall>(e, h)\<in>set (aw_pending w). anchored (aw_rows w0 @ new) (ae_StreamID e) h"
    unfolding audit_ok_def by blast
  from assms(2) show ?thesis
  proof cases
    case (Audit_read flt e h)
    have "anchored (aw_rows w0 @ new) (ae_StreamID e) h"
      using anchored_mono [OF lastAuditHash_anchored [OF Audit_read(2)] kept_rows_set [OF new(2)]] .
    with new Audit_read(1) show ?thesis unfolding audit_ok_def by (intro exI [of _ new]) auto
  next
    case (Audit_write e h flt res rows)
    have p: "\<forall>(e, h)\<in>set (aw_pending w'). anchored (aw_rows w0 @ new) (ae_StreamID e) h"
      using new(4) Audit_write(1) set_remove1_subset by fastforce
    from Audit_write(3) show ?thesis
    proof (cases rule: chain_row_cases)
      case (failed err)
      with new p Audit_write(1) show ?thesis unfolding audit_ok_def by (intro exI [of _ new]) auto
    next
      case (written x)
      let ?r = "e\<lparr>ae_EventHash := x, ae_PrevHash := h, ae_CreatedAt := stored_time (ae_CreatedAt e)\<rparr>"
      have r: "aw_rows w' = aw_rows w @ [?r]" "aw_cutoffs w' = aw_cutoffs w" using Audit_write(1) written(4) by simp_all
      have "anchored (aw_rows w0 @ new) (ae_StreamID e) h" using new(4) Audit_write(2) by auto
      then have "anchored_rows (aw_rows w0) (new @ [?r])" using new(1) by (simp add: anchored_rows_snoc)
      moreover have "kept_rows (aw_cutoffs w') (aw_rows w0 @ new @ [?r]) (aw_rows w')"
        using kept_rows_snoc [OF new(2)] r by simp
      moreover have "\<forall>(e, h)\<in>set (aw_pending w'). anchored (aw_rows w0 @ new @ [?r]) (ae_StreamID e) h"
        using p by (fastforce elim: anchored_mono)
      ultimately show ?thesis unfolding audit_ok_def using new(3) r by (intro exI [of _ "new @ [?r]"]) auto
    qed
  next
    case (Audit_retain lock flt_days flt now db)
    with new kept_rows_retain [OF new(2)] retention_rows(2) show ?thesis
      unfolding audit_ok_def by (intro exI [of _ new]) auto
  qed
qed

lemma audit_ok_run: "(audit_step sha trig)\<^sup>*\<^sup>* w w' \<Longrightarrow> audit_ok trig w0 w \<Longrightarrow> audit_ok trig w0 w'"
  by (induction rule: rtranclp_induct) (auto intro: audit_ok_step)

text \<open>Two writers that read the last hash before either of them has written both chain to it.\<close>

lemma concurrent_writers_fork:
  assumes "ae_StreamID a = ae_StreamID b" and "lastAuditHash flt (ae_StreamID a) (aw_rows w) = Inr h"
    and "chain_row sha f1 h a (aw_rows w) = (Inr (), rows1)" and "chain_row sha f2 h b rows1 = (Inr (), rows2)"
  shows "(audit_step sha trig)\<^sup>*\<^sup>* w (w\<lparr>aw_rows := rows2\<rparr>) \<and>
    (\<exists>ra rb. rows2 = aw_rows w @ [ra, rb] \<and> ae_PrevHash ra = h \<and> ae_PrevHash rb = h \<and> ae_AuditEventID ra \<noteq> ae_AuditEventID rb)"
proof
  let ?v = "w\<lparr>aw_pending := (a, h) # aw_pending w\<rparr>" let ?u = "?v\<lparr>aw_pending := (b, h) # aw_pending ?v\<rparr>"
  let ?t = "?u\<lparr>aw_rows := rows1, aw_pending := remove1 (a, h) (aw_pending ?u)\<rparr>"
  have "audit_step sha trig w ?v" using assms(2) by (rule Audit_read)
  moreover have "audit_step sha trig ?v ?u" by (rule Audit_read) (use assms(1,2) in auto)
  moreover have "audit_step sha trig ?u ?t" by (rule Audit_write) (use assms(3) in auto)
  moreover have "audit_step sha trig ?t (?t\<lparr>aw_rows := rows2, aw_pending := remove1 (b, h) (aw_pending ?t)\<rparr>)"
    by (rule Audit_write) (use assms(4) in auto)
  moreover have "?t\<lparr>aw_rows := rows2, aw_pending := remove1 (b, h) (aw_pending ?t)\<rparr> = w\<lparr>aw_rows := rows2\<rparr>" by simp
  ultimately show "(audit_step sha trig)\<^sup>*\<^sup>* w (w\<lparr>aw_rows := rows2\<rparr>)"
    by (metis (no_types, lifting) converse_rtranclp_into_rtranclp rtranclp.rtrancl_refl)
next
  from assms(3) show "\<exists>ra rb. rows2 = aw_rows w @ [ra, rb] \<and> ae_PrevHash ra = h \<and> ae_PrevHash rb = h \<and> ae_AuditEventID ra \<noteq> ae_AuditEventID rb"
  proof (cases rule: chain_row_cases)
    case (written x)
    from assms(4) show ?thesis
    proof (cases rule: chain_row_cases)
      case w: (written y)
      with written show ?thesis by (intro exI conjI) auto
    qed simp
  qed simp
qed

subsection \<open>The properties\<close>

text \<open>C19: the audit chain is tamper evident. Two sequences of rows of a stream that are both chained
  from the start and end in the same hash have the same length and agree, row by row, in the
  hashes, the id, the time, the actor, the action, the resource, the request and the JSON values
  before and after. (SHA-256 gives hexadecimal text and has no collision among the texts
  hashed.)\<close>

theorem audit_tamper_evident:
  assumes "hex_text sha" and "linked sha [] rs" and "linked sha [] ss"
    and "chain_head [] rs = chain_head [] ss" and "inj_on sha (hashed_text ` (set rs \<union> set ss))"
  shows "list_all2 same_event rs ss"
  using assms by (rule same_head_same_chain)

text \<open>Events written one after the other, at increasing times of whole microseconds, form one
  verifiable chain per stream, which starts with the empty hash, whatever tenants, actions and
  payloads they have and even if some of the insertions fail.\<close>

theorem audit_chain_linked:
  assumes "hex_text sha"
    and "\<forall>(now, e)\<in>set es. ae_CreatedAt e mod 1000 = 0 \<and> ae_CreatedAt e \<noteq> zero_time"
    and "sorted_wrt (<) (map (ae_CreatedAt \<circ> snd) es)"
  shows "linked sha [] (stream_rows streamID (insert_all sha es []))"
proof -
  have "well_chained sha []" by (simp add: well_chained_def stream_rows_def)
  from insert_all_chained [OF assms(1) this assms(2,3)] show ?thesis by (simp add: well_chained_def)
qed

text \<open>C20: the audit log loses nothing but what its retention allows. Under any interleaving of writers and
  retention runs, with any driver errors, every row the table had and every row that is written stays
  unchanged and in order, unless it is older than the cutoff of a retention run, the configured number of
  days before the run; each new row is chained to the empty hash or to a row of its own stream written
  before it. While the trigger of \<open>migrations/00014\<close> is enabled, as the code leaves it, no row goes at all,
  the retention included.\<close>

theorem audit_rows_kept:
  assumes "(audit_step sha trig)\<^sup>*\<^sup>* w w'" and "aw_pending w = []" and "aw_cutoffs w = []"
  shows "\<exists>new. anchored_rows (aw_rows w) new \<and> subseq (aw_rows w') (aw_rows w @ new) \<and>
    (\<forall>r\<in>set (aw_rows w @ new) - set (aw_rows w'). \<exists>c\<in>set (aw_cutoffs w'). ae_CreatedAt r < c) \<and>
    (trig \<longrightarrow> aw_rows w' = aw_rows w @ new)"
proof -
  have "audit_ok trig w w"
    unfolding audit_ok_def using assms(2) by (intro exI [of _ "[]"]) (simp add: kept_rows_refl)
  from audit_ok_run [OF assms(1) this] show ?thesis unfolding audit_ok_def kept_rows_def by blast
qed

text \<open>Without the trigger a round that gets its lock and meets no error removes exactly the rows before the
  cutoff.\<close>

lemma retention_removes_old:
  "retention_run False (Inr True) flt_days no_faults now db tbl = filter (\<lambda>r. retention_cutoff flt_days now db \<le> ae_CreatedAt r) tbl"
  by (simp add: retention_run_def DeleteAuditEventsBefore_def no_faults_simp Let_def not_less)

definition allowed_keys :: "string \<Rightarrow> string set" where
  "allowed_keys resourceType = (case map_of resourceAllowlist resourceType of None \<Rightarrow> {} | Some ks \<Rightarrow> set ks)"

definition redacted_text :: "string \<Rightarrow> string option \<Rightarrow> bool" where
  "redacted_text resourceType raw =
     (case raw of None \<Rightarrow> True
      | Some s \<Rightarrow> (case Unmarshal s of Some (Map_v m) \<Rightarrow> fst ` set m \<subseteq> allowed_keys resourceType | _ \<Rightarrow> False))"

lemma ToUpper_idem [simp]: "ToUpper (ToUpper s) = ToUpper s"
proof -
  have "upper_char (upper_char c) = upper_char c" for c by (auto simp: upper_char_def Let_def of_char_of)
  then show ?thesis by (simp add: ToUpper_def)
qed

lemma list_all_filter: "list_all P xs \<Longrightarrow> list_all P (filter Q xs)"
  by (induction xs) auto

lemma RedactPayload_allowed:
  assumes "RedactPayload (ToUpper rt) (Some p) = Some m"
  shows "fst ` set m \<subseteq> allowed_keys (ToUpper rt)" "wf_any (Map_v p) \<Longrightarrow> wf_any (Map_v m)"
  using assms
  by (auto simp: RedactPayload_def allowed_keys_def distinct_filter_keys list_all_iff split: option.splits)

lemma keys_norm_json: "norm_json fmt (Map_v m) = Map_v (sort_keys (map (\<lambda>(k, v). (k, norm_json fmt v)) m))"
  "fst ` set (sort_keys (map (\<lambda>(k, v). (k, norm_json fmt v)) m)) = fst ` set m"
  by (simp, force)

lemma marshalAuditPayload_redacted:
  assumes "float_format fmt" and "\<forall>p. payload = Some p \<longrightarrow> wf_any (Map_v p)"
    and "marshalAuditPayload fmt (ToUpper rt) payload = Some raw"
  shows "redacted_text (ToUpper rt) raw"
proof (cases payload)
  case None
  with assms(3) show ?thesis by (simp add: marshalAuditPayload_def RedactPayload_def redacted_text_def)
next
  case (Some p)
  obtain m where m: "RedactPayload (ToUpper rt) payload = Some m"
    using Some by (cases "map_of resourceAllowlist (ToUpper (ToUpper rt))") (simp_all add: RedactPayload_def)
  note a = RedactPayload_allowed [OF m [unfolded Some]]
  obtain s where s: "CanonicalJSON fmt (Map_v m) = Some s" "raw = Some s"
    using assms(3) m by (auto simp: marshalAuditPayload_def)
  then have n: "numbers_ok (Map_v m)" by (auto simp: CanonicalJSON_def Marshal_def split: if_splits)
  have w: "wf_any (Map_v m)" using a(2) assms(2) Some by blast
  have "Marshal fmt (Map_v m) = Some s"
    using CanonicalJSON_text [OF assms(1) w n] s(1) n by (simp add: Marshal_def)
  from Unmarshal_Marshal [OF assms(1) w this] have u: "Unmarshal s = Some (norm_json fmt (Map_v m))" .
  show ?thesis unfolding redacted_text_def s(2) option.case u keys_norm_json any.case using a(1) by simp
qed

text \<open>C21: what an administrator's change leaves in the audit log is redacted: the row that
  \<open>emitAuditEvent\<close> adds holds, before and after, a JSON object whose keys are all on the
  allowlist of the resource type (none for a type without one), whatever the caller passed; its
  action has the prescribed form. On an error no row is added.\<close>

theorem audit_payload_redacted:
  assumes "float_format fmt" and "\<forall>p\<in>set_option before \<union> set_option after. wf_any (Map_v p)"
  shows "case emitAuditEvent sha fmt flt c tenantID action resourceType resourceID before after tbl of
      (Inl _, tbl') \<Rightarrow> tbl' = tbl
    | (Inr _, tbl') \<Rightarrow> (\<exists>r. tbl' = tbl @ [r] \<and> action_format (ae_Action r) \<and> ae_ActorID r = ac_AdminKeyID c \<and>
        redacted_text (ae_ResourceType r) (ae_Before r) \<and> redacted_text (ae_ResourceType r) (ae_After r))"
proof -
  let ?act = "ToUpper (filter (\<lambda>x. \<not> is_space x) action)" and ?rt = "ToUpper (filter (\<lambda>x. \<not> is_space x) resourceType)"
  obtain res tbl' where out: "emitAuditEvent sha fmt flt c tenantID action resourceType resourceID before after tbl = (res, tbl')"
    by (metis prod.exhaust)
  show ?thesis
  proof (cases "?act = [] \<or> ?rt = [] \<or> \<not> action_format ?act \<or> marshalAuditPayload fmt ?rt before = None \<or>
      marshalAuditPayload fmt ?rt after = None")
    case True
    then show ?thesis by (auto simp: emitAuditEvent_def Let_def split: option.splits)
  next
    case False
    then obtain b a where m: "marshalAuditPayload fmt ?rt before = Some b" "marshalAuditPayload fmt ?rt after = Some a" by auto
    note red = marshalAuditPayload_redacted [OF assms(1) _ m(1)] marshalAuditPayload_redacted [OF assms(1) _ m(2)]
    let ?e = "\<lparr>ae_AuditEventID = ac_AuditEventID c, ae_TenantID = tenantID, ae_StreamID = [], ae_EventHash = [],
       ae_PrevHash = [], ae_ActorType = ''admin_key'', ae_ActorID = ac_AdminKeyID c, ae_ActorDisplay = ac_AdminKeyID c,
       ae_Action = ?act, ae_ResourceType = ?rt, ae_ResourceID = TrimSpace resourceID, ae_Before = b, ae_After = a,
       ae_RequestID = ac_RequestID c, ae_IP = ac_IP c, ae_UserAgent = ac_UserAgent c, ae_CreatedAt = ac_now c\<rparr>"
    have i: "InsertAuditEvent sha flt (ac_now c) ?e tbl = (res, tbl')" using out m False by (simp add: emitAuditEvent_def Let_def)
    from i show ?thesis
    proof (cases rule: InsertAuditEvent_cases)
      case (written prev x)
      have "redacted_text ?rt b" "redacted_text ?rt a" using red assms(2) by auto
      with out written False show ?thesis by (simp add: with_stream_def Let_def)
    qed (use out in simp)
  qed
qed

text \<open>An event whose time is not a whole number of microseconds cannot be verified later: its
  hash covers the time with nanoseconds, the table keeps microseconds only, and the hash
  computed from the stored row is another one (unless SHA-256 collides).\<close>

theorem submicrosecond_event_unverifiable:
  assumes "chain_row sha flt prev e tbl = (Inr (), tbl @ [r])"
    and "ae_CreatedAt e mod 1000 \<noteq> 0" and "printable_time (ae_CreatedAt e)"
    and "inj_on sha {prev @ the (payload_text (BuildHashPayload e (ae_StreamID e))), hashed_text r}"
  shows "\<not> row_verifies sha r"
proof
  assume v: "row_verifies sha r"
  from assms(1) obtain h where h: "ComputeEventHash sha prev (BuildHashPayload e (ae_StreamID e)) = Some h"
    "r = e\<lparr>ae_EventHash := h, ae_PrevHash := prev, ae_CreatedAt := stored_time (ae_CreatedAt e)\<rparr>"
  proof (cases rule: chain_row_cases)
    case (written h)
    show thesis by (rule that [OF written(2)]) (use written(4) in simp)
  qed simp
  obtain t where t: "payload_text (BuildHashPayload e (ae_StreamID e)) = Some t" "h = sha (prev @ t)"
    using h(1) by (auto simp: ComputeEventHash_def)
  obtain u where u: "payload_text (BuildHashPayload r (ae_StreamID r)) = Some u" "h = sha (prev @ u)"
    using v h(2) by (auto simp: row_verifies_def ComputeEventHash_def)
  have "ae_PrevHash r = prev" using h(2) by simp
  then have r: "hashed_text r = prev @ u" unfolding hashed_text_def u(1) by simp
  have "sha (prev @ t) = sha (prev @ u)" using t(2) u(2) by (rule subst)
  from inj_onD [OF assms(4) this] have "t = u" using r t(1) by simp
  then have "same_payload (BuildHashPayload e (ae_StreamID e)) (BuildHashPayload r (ae_StreamID r))"
    using payload_text_inj t(1) u(1) by blast
  then have "FormatRFC3339Nano (ae_CreatedAt e) = FormatRFC3339Nano (stored_time (ae_CreatedAt e))"
    using h(2) by (simp add: same_payload_def BuildHashPayload_def)
  moreover have "printable_time (stored_time (ae_CreatedAt e))"
    using assms(3) by (auto simp: printable_time_def stored_time_def)
  ultimately have "ae_CreatedAt e = stored_time (ae_CreatedAt e)" using FormatRFC3339Nano_inj assms(3) by blast
  then have "ae_CreatedAt e mod 1000 = 0" unfolding stored_time_def by (metis mod_mult_self2_is_0)
  with assms(2) show False by simp
qed

subsection \<open>A log with two events\<close>

text \<open>A stand-in for the hash: the text in base64 behind a letter.\<close>

definition demo_sha :: "string \<Rightarrow> string" where
  "demo_sha s = CHR ''h'' # EncodeToString s"

lemma inj_demo_sha: "inj demo_sha"
  by (rule injI) (metis Decode_Encode demo_sha_def list.inject option.inject)

lemma hex_text_demo: "hex_text demo_sha"
proof -
  have "b64_digit n \<noteq> CHR ''{''" for n
  proof (cases "n < 64")
    case True
    have "b64_val (CHR ''{'') = None" by code_simp
    with b64_val_digit [OF True] show ?thesis by auto
  qed (simp add: b64_digit_def)
  then have "CHR ''{'' \<notin> range b64_digit" by (metis imageE)
  then show ?thesis by (auto simp: hex_text_def demo_sha_def EncodeToString_def)
qed

definition demo_event :: "string \<Rightarrow> string option \<Rightarrow> time \<Rightarrow> admin_audit_event" where
  "demo_event i after t =
     \<lparr>ae_AuditEventID = i, ae_TenantID = ''t1'', ae_StreamID = ''t1'', ae_EventHash = [], ae_PrevHash = [],
      ae_ActorType = ''admin_key'', ae_ActorID = ''k'', ae_ActorDisplay = ''k'', ae_Action = ''TOOL.CREATE'',
      ae_ResourceType = ''TOOL'', ae_ResourceID = ''x'', ae_Before = None, ae_After = after, ae_RequestID = [],
      ae_IP = [], ae_UserAgent = [], ae_CreatedAt = t\<rparr>"

definition demo_text :: "string \<Rightarrow> string option \<Rightarrow> time \<Rightarrow> string" where
  "demo_text i after t = the (payload_text (BuildHashPayload (demo_event i after t) ''t1''))"

lemma demo_payload:
  assumes "raw_value after \<noteq> None"
  shows "payload_text (BuildHashPayload (demo_event i after t) ''t1'') = Some (demo_text i after t)"
proof -
  obtain v where "raw_value (hp_After (BuildHashPayload (demo_event i after t) ''t1'')) = Some v"
    "raw_value (hp_Before (BuildHashPayload (demo_event i after t) ''t1'')) = Some Nil_v"
    using assms by (auto simp: demo_event_def BuildHashPayload_def raw_value_def)
  from payload_text_readable [OF this(2,1)] show ?thesis by (simp only: demo_text_def option.sel)
qed

definition demo_row :: "string \<Rightarrow> string option \<Rightarrow> time \<Rightarrow> string \<Rightarrow> admin_audit_event" where
  "demo_row i after t prev = (demo_event i after t)\<lparr>ae_EventHash := demo_sha (prev @ demo_text i after t), ae_PrevHash := prev\<rparr>"

lemma demo_insert:
  assumes "raw_value after \<noteq> None" and "t mod 1000 = 0" and "t \<noteq> zero_time"
    and "i \<notin> ae_AuditEventID ` set tbl" and "lastAuditHash no_faults ''t1'' tbl = Inr prev"
  shows "InsertAuditEvent demo_sha no_faults now (demo_event i after t) tbl = (Inr (), tbl @ [demo_row i after t prev])"
proof -
  have e: "with_stream now (demo_event i after t) = demo_event i after t" "ae_StreamID (demo_event i after t) = ''t1''"
    "ae_AuditEventID (demo_event i after t) = i" "ae_CreatedAt (demo_event i after t) = t"
    using assms(3) by (simp_all add: with_stream_def demo_event_def Let_def)
  have c: "chained demo_sha prev (demo_event i after t) = Some (demo_row i after t prev)"
    using demo_payload [OF assms(1)] e by (simp add: chained_def ComputeEventHash_def demo_row_def)
  show ?thesis
    using assms c e by (simp add: InsertAuditEvent_def chain_row_def insert_row_def no_faults_simp stored_time_id demo_row_def)
qed

definition demo_events :: "string \<Rightarrow> (time \<times> admin_audit_event) list" where
  "demo_events after = [(0, demo_event ''a'' None 5000), (0, demo_event ''b'' (Some after) 7000)]"

lemma demo_times:
  "\<forall>(now, e)\<in>set (demo_events after). ae_CreatedAt e mod 1000 = 0 \<and> ae_CreatedAt e \<noteq> zero_time"
  "sorted_wrt (<) (map (ae_CreatedAt \<circ> snd) (demo_events after))"
  by (simp_all add: demo_events_def demo_event_def zero_time_def)

definition demo_rows :: "string \<Rightarrow> audit_table" where
  "demo_rows after = (let r = demo_row ''a'' None 5000 [] in [r, demo_row ''b'' (Some after) 7000 (ae_EventHash r)])"

lemma demo_row_simps [simp]:
  "ae_AuditEventID (demo_row i after t prev) = i" "ae_StreamID (demo_row i after t prev) = ''t1''"
  "ae_EventHash (demo_row i after t prev) = demo_sha (prev @ demo_text i after t)"
  "ae_After (demo_row i after t prev) = after" "ae_CreatedAt (demo_row i after t prev) = t"
  by (simp_all add: demo_row_def demo_event_def)

lemma demo_log:
  assumes "Unmarshal after \<noteq> None"
  shows "insert_all demo_sha (demo_events after) [] = demo_rows after"
proof -
  have "raw_value None \<noteq> None" "raw_value (Some after) \<noteq> None" using assms by (simp_all add: raw_value_def)
  note i = demo_insert [OF this(1), of 5000 "''a''" "[]" "[]" 0]
    demo_insert [OF this(2), of 7000 "''b''" "[demo_row ''a'' None 5000 []]" "ae_EventHash (demo_row ''a'' None 5000 [])" 0]
  have "demo_sha s \<noteq> []" for s by (simp add: demo_sha_def)
  then show ?thesis
    using i by (simp add: demo_events_def demo_rows_def Let_def zero_time_def lastAuditHash_def no_faults_simp)
qed

lemma sample_json: "Unmarshal ''[]'' = Some (List_v [])" "Unmarshal ''[ ]'' = Some (List_v [])"
  by code_simp+

theorem audit_chain_linked_witness:
  "linked demo_sha [] (stream_rows ''t1'' (insert_all demo_sha (demo_events ''[]'') [])) \<and>
   length (stream_rows ''t1'' (insert_all demo_sha (demo_events ''[]'') [])) = 2"
proof
  show "linked demo_sha [] (stream_rows ''t1'' (insert_all demo_sha (demo_events ''[]'') []))"
    by (rule audit_chain_linked [OF hex_text_demo demo_times])
qed (simp add: demo_log sample_json demo_rows_def Let_def stream_rows_def)

lemma demo_linked:
  assumes "Unmarshal after \<noteq> None"
  shows "linked demo_sha [] (demo_rows after)"
proof -
  have "well_chained demo_sha []" by (simp add: well_chained_def stream_rows_def)
  from insert_all_chained [OF hex_text_demo this demo_times [of after]] have "linked demo_sha [] (stream_rows ''t1'' (demo_rows after))"
    by (simp add: well_chained_def demo_log assms)
  then show ?thesis by (simp add: stream_rows_def demo_rows_def Let_def)
qed

text \<open>Two logs whose payloads differ in white space only.\<close>

theorem audit_tamper_evident_witness:
  "demo_rows ''[]'' \<noteq> demo_rows ''[ ]'' \<and> list_all2 same_event (demo_rows ''[]'') (demo_rows ''[ ]'')"
proof -
  have "demo_text i (Some ''[]'') t = demo_text i (Some ''[ ]'') t" for i t
    by (simp add: demo_text_def payload_text_def payload_members_def BuildHashPayload_def demo_event_def raw_value_def sample_json
        del: encodeCanonical.simps)
  then have h: "chain_head [] (demo_rows ''[]'') = chain_head [] (demo_rows ''[ ]'')" by (simp add: demo_rows_def Let_def)
  have "map ae_After (demo_rows ''[]'') \<noteq> map ae_After (demo_rows ''[ ]'')" by (simp add: demo_rows_def Let_def)
  moreover have "list_all2 same_event (demo_rows ''[]'') (demo_rows ''[ ]'')"
    by (rule audit_tamper_evident [OF hex_text_demo demo_linked demo_linked h])
      (simp_all add: sample_json inj_on_subset [OF inj_demo_sha])
  ultimately show ?thesis by metis
qed

text \<open>Two events are written and a retention run without the trigger removes the first.\<close>

theorem audit_rows_kept_witness:
  "\<exists>new. anchored_rows [] new \<and> subseq [demo_rows ''[]'' ! 1] new \<and> (\<forall>r\<in>set new - {demo_rows ''[]'' ! 1}. ae_CreatedAt r < 6000)"
proof -
  let ?w = "\<lparr>aw_rows = [], aw_pending = [], aw_cutoffs = []\<rparr>"
  let ?v = "?w\<lparr>aw_rows := snd (InsertAuditEvent demo_sha no_faults 0 (demo_event ''a'' None 5000) [])\<rparr>"
  let ?u = "?w\<lparr>aw_rows := demo_rows ''[]''\<rparr>"
  let ?now = "365 * day_ns + 6000"
  let ?t = "?u\<lparr>aw_rows := retention_run False (Inr True) (\<lambda>_. Some ErrDB) no_faults ?now sample_config_db (aw_rows ?u),
    aw_cutoffs := retention_cutoff (\<lambda>_. Some ErrDB) ?now sample_config_db # aw_cutoffs ?u\<rparr>"
  have "(audit_step demo_sha False)\<^sup>*\<^sup>* ?w ?v" using InsertAuditEvent_steps [of demo_sha False ?w] by simp
  moreover have "(audit_step demo_sha False)\<^sup>*\<^sup>* ?v (?v\<lparr>aw_rows :=
      snd (InsertAuditEvent demo_sha no_faults 0 (demo_event ''b'' (Some ''[]'') 7000) (aw_rows ?v))\<rparr>)"
    by (rule InsertAuditEvent_steps)
  moreover have "?v\<lparr>aw_rows := snd (InsertAuditEvent demo_sha no_faults 0 (demo_event ''b'' (Some ''[]'') 7000) (aw_rows ?v))\<rparr> = ?u"
    using demo_log [of "''[]''"] by (simp add: demo_events_def sample_json)
  moreover have "audit_step demo_sha False ?u ?t" by (rule Audit_retain)
  ultimately have r: "(audit_step demo_sha False)\<^sup>*\<^sup>* ?w ?t" by (metis (no_types, lifting) rtranclp.rtrancl_into_rtrancl rtranclp_trans)
  have c: "retention_cutoff (\<lambda>_. Some ErrDB) ?now sample_config_db = 6000"
    by (simp add: retention_cutoff_def GetAuditRetentionDays_def get_int_setting_def)
  then have "aw_rows ?t = [demo_rows ''[]'' ! 1]"
    by (simp add: retention_removes_old demo_rows_def Let_def)
  with audit_rows_kept [OF r] c show ?thesis by auto
qed

definition demo_context :: audit_context where
  "demo_context = \<lparr>ac_AuditEventID = ''a'', ac_AdminKeyID = ''k'', ac_RequestID = [], ac_IP = [], ac_UserAgent = [], ac_now = 5000\<rparr>"

definition demo_change :: gomap where
  "demo_change = [(''auth_value'', Str_v ''secret''), (''base_url'', Str_v ''u'')]"

theorem audit_payload_redacted_witness:
  "(case emitAuditEvent (\<lambda>_. ''h'') no_floats no_faults demo_context ''t1'' ''tool.update'' ''TOOL'' ''x'' None (Some demo_change) [] of
      (Inl _, tbl') \<Rightarrow> tbl' = []
    | (Inr _, tbl') \<Rightarrow> (\<exists>r. tbl' = [] @ [r] \<and> action_format (ae_Action r) \<and> ae_ActorID r = ac_AdminKeyID demo_context \<and>
        redacted_text (ae_ResourceType r) (ae_Before r) \<and> redacted_text (ae_ResourceType r) (ae_After r))) \<and>
   fst (emitAuditEvent (\<lambda>_. ''h'') no_floats no_faults demo_context ''t1'' ''tool.update'' ''TOOL'' ''x'' None (Some demo_change) []) = Inr ()"
proof
  show "case emitAuditEvent (\<lambda>_. ''h'') no_floats no_faults demo_context ''t1'' ''tool.update'' ''TOOL'' ''x'' None (Some demo_change) [] of
      (Inl _, tbl') \<Rightarrow> tbl' = []
    | (Inr _, tbl') \<Rightarrow> (\<exists>r. tbl' = [] @ [r] \<and> action_format (ae_Action r) \<and> ae_ActorID r = ac_AdminKeyID demo_context \<and>
        redacted_text (ae_ResourceType r) (ae_Before r) \<and> redacted_text (ae_ResourceType r) (ae_After r))"
    by (rule audit_payload_redacted) (simp_all add: demo_change_def)
  show "fst (emitAuditEvent (\<lambda>_. ''h'') no_floats no_faults demo_context ''t1'' ''tool.update'' ''TOOL'' ''x'' None (Some demo_change) []) = Inr ()"
    by code_simp
qed

theorem submicrosecond_event_unverifiable_witness:
  "\<not> row_verifies demo_sha ((demo_row ''a'' None 5001 [])\<lparr>ae_CreatedAt := 5000\<rparr>)"
proof (rule submicrosecond_event_unverifiable)
  have "chained demo_sha [] (demo_event ''a'' None 5001) = Some (demo_row ''a'' None 5001 [])"
    using demo_payload [of None "''a''" 5001]
    by (simp add: chained_def ComputeEventHash_def demo_row_def raw_value_def demo_event_def)
  then show "chain_row demo_sha no_faults [] (demo_event ''a'' None 5001) [] =
      (Inr (), [] @ [(demo_row ''a'' None 5001 [])\<lparr>ae_CreatedAt := 5000\<rparr>])"
    by (simp add: chain_row_def insert_row_def no_faults_simp stored_time_def)
  show "inj_on demo_sha {[] @ the (payload_text (BuildHashPayload (demo_event ''a'' None 5001) (ae_StreamID (demo_event ''a'' None 5001)))),
      hashed_text ((demo_row ''a'' None 5001 [])\<lparr>ae_CreatedAt := 5000\<rparr>)}"
    by (rule inj_on_subset [OF inj_demo_sha subset_UNIV])
qed (simp_all add: demo_event_def printable_time_def second_ns_def)

end
