(* ===== verification/Go_Url.thy ===== *)
theory Go_Url
  imports Go_Number
begin

text \<open>
  The parts of Go's packages \<open>net/url\<close> and \<open>path\<close> the classifier and the file
  governance use: \<open>url.Parse\<close> (its error and the decoded path), \<open>url.ParseQuery\<close>,
  and \<open>path.Clean\<close> on rooted paths. Strings are bytes, as in Go.
\<close>

subsection \<open>Percent decoding\<close>

definition hex_value :: "char \<Rightarrow> nat option" where
  "hex_value c =
     (let n = of_char c in
      if 48 \<le> n \<and> n \<le> 57 then Some (n - 48)
      else if 97 \<le> n \<and> n \<le> 102 then Some (n - 87)
      else if 65 \<le> n \<and> n \<le> 70 then Some (n - 55) else None)"

fun unescape :: "bool \<Rightarrow> string \<Rightarrow> string option" where
  "unescape query [] = Some []"
| "unescape query (c # s) =
     (if c = CHR ''%'' then
        (case s of a # b # r \<Rightarrow>
           (case (hex_value a, hex_value b) of
              (Some x, Some y) \<Rightarrow> map_option (\<lambda>t. char_of (16 * x + y) # t) (unescape query r)
            | _ \<Rightarrow> None)
         | _ \<Rightarrow> None)
      else map_option (\<lambda>t. (if query \<and> c = CHR ''+'' then CHR '' '' else c) # t) (unescape query s))"

definition PathUnescape :: "string \<Rightarrow> string option" where
  "PathUnescape = unescape False"

definition QueryUnescape :: "string \<Rightarrow> string option" where
  "QueryUnescape = unescape True"

subsection \<open>url.Parse\<close>

definition is_letter :: "char \<Rightarrow> bool" where
  "is_letter c = (let n = (of_char c :: nat) in (65 \<le> n \<and> n \<le> 90) \<or> (97 \<le> n \<and> n \<le> 122))"

definition is_ctl :: "char \<Rightarrow> bool" where
  "is_ctl c = ((of_char c :: nat) < 32 \<or> (of_char c :: nat) = 127)"

text \<open>\<open>getScheme\<close>: the outer option is the error, the pair is scheme and rest.\<close>

fun getScheme_from :: "string \<Rightarrow> string \<Rightarrow> string \<Rightarrow> (string \<times> string) option" where
  "getScheme_from all_s seen [] = Some ([], all_s)"
| "getScheme_from all_s seen (c # s) =
     (if is_letter c then getScheme_from all_s (seen @ [c]) s
      else if is_digit c \<or> c \<in> {CHR ''+'', CHR ''-'', CHR ''.''}
      then (if seen = [] then Some ([], all_s) else getScheme_from all_s (seen @ [c]) s)
      else if c = CHR '':'' then (if seen = [] then None else Some (seen, s))
      else Some ([], all_s))"

definition getScheme :: "string \<Rightarrow> (string \<times> string) option" where
  "getScheme s = getScheme_from s [] s"

fun cut_last :: "char \<Rightarrow> string \<Rightarrow> (string \<times> string) option" where
  "cut_last c [] = None"
| "cut_last c (x # s) =
     (case cut_last c s of Some (a, b) \<Rightarrow> Some (x # a, b)
      | None \<Rightarrow> if x = c then Some ([], s) else None)"

text \<open>Characters a host may contain unescaped, and those of userinfo.\<close>

definition host_char :: "char \<Rightarrow> bool" where
  "host_char c = (is_letter c \<or> is_digit c \<or> c \<in> set ''-_.~!$&'' \<or> c = CHR 0x27 \<or>
     c \<in> set ''()*+,;=:[]<>'' \<or> c = CHR 0x22 \<or> (of_char c :: nat) \<ge> 128)"

fun host_ok :: "string \<Rightarrow> bool" where
  "host_ok [] = True"
| "host_ok (c # s) =
     (if c = CHR ''%'' then
        (case s of a # b # r \<Rightarrow>
           (case (hex_value a, hex_value b) of
              (Some x, Some y) \<Rightarrow> (x \<ge> 8 \<or> (x = 2 \<and> y = 5)) \<and> host_ok r
            | _ \<Rightarrow> False)
         | _ \<Rightarrow> False)
      else host_char c \<and> host_ok s)"

definition port_ok :: "string \<Rightarrow> bool" where
  "port_ok p = (case p of [] \<Rightarrow> True | c # ds \<Rightarrow> c = CHR '':'' \<and> list_all is_digit ds)"

definition octet_ok :: "string \<Rightarrow> bool" where
  "octet_ok d = (all_digits d \<and> length d \<le> 3 \<and> digits_value d \<le> 255 \<and> (HasPrefix d ''0'' \<longrightarrow> d = ''0''))"

definition ip4_ok :: "string \<Rightarrow> bool" where
  "ip4_ok s = (let ps = Split (CHR ''.'') s in length ps = 4 \<and> list_all octet_ok ps)"

definition group_ok :: "string \<Rightarrow> bool" where
  "group_ok g = (g \<noteq> [] \<and> length g \<le> 4 \<and> list_all (\<lambda>c. hex_value c \<noteq> None) g)"

text \<open>The number of 16-bit groups of one side of an IPv6 address; \<open>tail\<close> says whether it
  may end in a dotted IPv4 address.\<close>

definition groups :: "bool \<Rightarrow> string \<Rightarrow> nat option" where
  "groups tail s =
     (if s = [] then Some 0
      else let gs = Split (CHR '':'') s
           in if list_all group_ok gs then Some (length gs)
              else if tail \<and> list_all group_ok (butlast gs) \<and> ip4_ok (last gs) then Some (length gs + 1)
              else None)"

fun cut_double_colon :: "string \<Rightarrow> (string \<times> string) option" where
  "cut_double_colon (a # b # s) =
     (if a = CHR '':'' \<and> b = CHR '':'' then Some ([], s)
      else map_option (\<lambda>(x, y). (a # x, y)) (cut_double_colon (b # s)))"
| "cut_double_colon _ = None"

definition ip6_ok :: "string \<Rightarrow> bool" where
  "ip6_ok s =
     (let (addr, zone) = (case Cut s (CHR ''%'') of None \<Rightarrow> (s, None) | Some (a, z) \<Rightarrow> (a, Some z))
      in zone \<noteq> Some [] \<and>
         (case cut_double_colon addr of
            None \<Rightarrow> groups True addr = Some 8
          | Some (l, r) \<Rightarrow> (case (groups False l, groups True r) of
               (Some m, Some n) \<Rightarrow> m + n \<le> 7 | _ \<Rightarrow> False)))"

text \<open>A host in brackets is an IPv6 address with an optional zone and port; the zone is taken
  to follow the rules of the host.\<close>

definition parse_host_ok :: "string \<Rightarrow> bool" where
  "parse_host_ok h =
     (case cut_last (CHR ''['') h of
        Some (_, inner) \<Rightarrow>
          (case cut_last (CHR '']'') inner of
             None \<Rightarrow> False
           | Some (name, port) \<Rightarrow> port_ok port \<and> host_ok name \<and>
               (case PathUnescape name of None \<Rightarrow> False | Some a \<Rightarrow> ip6_ok a))
      | None \<Rightarrow> (case cut_last (CHR '':'') h of None \<Rightarrow> True | Some (_, port) \<Rightarrow> port_ok (CHR '':'' # port)) \<and> host_ok h)"

definition userinfo_char :: "char \<Rightarrow> bool" where
  "userinfo_char c = (is_letter c \<or> is_digit c \<or> c \<in> set ''-._:~!$&()*+,;=%@'' \<or> c = CHR 0x27)"

definition authority_ok :: "string \<Rightarrow> bool" where
  "authority_ok a =
     (case cut_last (CHR ''@'') a of
        None \<Rightarrow> parse_host_ok a
      | Some (user, host) \<Rightarrow> parse_host_ok host \<and> list_all userinfo_char user \<and> PathUnescape user \<noteq> None)"

definition cut_fst :: "string \<Rightarrow> char \<Rightarrow> string" where
  "cut_fst s c = (case Cut s c of None \<Rightarrow> s | Some (a, _) \<Rightarrow> a)"

text \<open>\<open>url.Parse(s)\<close>: \<open>None\<close> for an error, otherwise the decoded path (empty for an
  opaque URL).\<close>

definition url_Parse_Path :: "string \<Rightarrow> string option" where
  "url_Parse_Path s =
     (let u = cut_fst s (CHR ''#'');
          fragment = (case Cut s (CHR ''#'') of None \<Rightarrow> [] | Some (_, f) \<Rightarrow> f)
      in if list_ex is_ctl u \<or> PathUnescape fragment = None then None
         else if u = ''*'' then Some ''*''
         else case getScheme u of None \<Rightarrow> None
         | Some (scheme, rest0) \<Rightarrow>
             (let rest = cut_fst rest0 (CHR ''?'')
              in if \<not> HasPrefix rest ''/'' then
                   (if scheme \<noteq> [] then Some []
                    else if CHR '':'' \<in> set (cut_fst rest (CHR ''/'')) then None
                    else PathUnescape rest)
                 else if (scheme \<noteq> [] \<or> \<not> HasPrefix rest ''///'') \<and> HasPrefix rest ''//'' then
                   (let authority = takeWhile (\<lambda>c. c \<noteq> CHR ''/'') (drop 2 rest)
                    in if authority_ok authority
                       then PathUnescape (dropWhile (\<lambda>c. c \<noteq> CHR ''/'') (drop 2 rest)) else None)
                 else PathUnescape rest))"

subsection \<open>url.ParseQuery\<close>

type_synonym url_values = "(string \<times> string) list"

fun parse_params :: "string list \<Rightarrow> url_values option" where
  "parse_params [] = Some []"
| "parse_params (p # ps) =
     (if CHR '';'' \<in> set p then None
      else if p = [] then parse_params ps
      else let (k, v) = (case Cut p (CHR ''='') of None \<Rightarrow> (p, []) | Some kv \<Rightarrow> kv)
           in case (QueryUnescape k, QueryUnescape v, parse_params ps) of
                (Some k', Some v', Some r) \<Rightarrow> Some ((k', v') # r)
              | _ \<Rightarrow> None)"

definition ParseQuery :: "string \<Rightarrow> url_values option" where
  "ParseQuery q = parse_params (Split (CHR ''&'') q)"

subsection \<open>path.Clean on rooted paths\<close>

fun clean_segments :: "string list \<Rightarrow> string list \<Rightarrow> string list" where
  "clean_segments acc [] = rev acc"
| "clean_segments acc (s # ss) =
     (if s = [] \<or> s = ''.'' then clean_segments acc ss
      else if s = ''..'' then clean_segments (tl acc) ss
      else clean_segments (s # acc) ss)"

definition Clean_rooted :: "string \<Rightarrow> string" where
  "Clean_rooted p = ''/'' @ Join ''/'' (clean_segments [] (Split (CHR ''/'') p))"

lemma Split_no_sep: "x \<in> set (Split c s) \<Longrightarrow> c \<notin> set x"
  by (induction s arbitrary: x) (auto split: list.splits if_splits)

text \<open>A segment that stays as it is under \<open>path.Clean\<close>.\<close>

definition proper_segment :: "string \<Rightarrow> bool" where
  "proper_segment x = (x \<noteq> [] \<and> x \<noteq> ''.'' \<and> x \<noteq> ''..'' \<and> CHR ''/'' \<notin> set x)"

lemma clean_segments_proper:
  assumes "list_all proper_segment acc" and "\<forall>s\<in>set ss. CHR ''/'' \<notin> set s"
  shows "list_all proper_segment (clean_segments acc ss)"
  using assms
proof (induction ss arbitrary: acc)
  case (Cons s ss)
  have "list_all proper_segment (tl acc)" using Cons.prems(1) by (cases acc) auto
  then show ?case
    using Cons.prems Cons.IH [of acc] Cons.IH [of "tl acc"] Cons.IH [of "s # acc"]
    by (auto simp: proper_segment_def [of s])
qed (simp add: list_all_iff)

lemma Clean_rooted_segments:
  obtains xs where "Clean_rooted p = CHR ''/'' # Join ''/'' xs" "list_all proper_segment xs"
  by (rule that [OF _ clean_segments_proper [of "[]" "Split (CHR ''/'') p"]])
    (auto simp: Clean_rooted_def dest: Split_no_sep)

lemma Join_ends:
  "xs \<noteq> [] \<Longrightarrow> \<forall>x\<in>set xs. x \<noteq> [] \<and> CHR ''/'' \<notin> set x \<Longrightarrow>
   Join ''/'' xs \<noteq> [] \<and> hd (Join ''/'' xs) \<noteq> CHR ''/'' \<and> last (Join ''/'' xs) \<noteq> CHR ''/''"
proof (induction xs rule: induct_list012)
  case (2 x)
  then show ?case by (auto dest: hd_in_set last_in_set)
next
  case (3 x y zs)
  then show ?case by (auto simp: hd_append dest: hd_in_set)
qed simp

lemma Split_ne [simp]: "Split c s \<noteq> []"
  by (induction s) (auto split: list.splits)

lemma Split_plain: "c \<notin> set s \<Longrightarrow> Split c s = [s]"
  by (induction s) auto

lemma Split_append: "c \<notin> set s \<Longrightarrow> Split c (s @ c # t) = s # Split c t"
  by (induction s) auto

lemma Split_Join: "xs \<noteq> [] \<Longrightarrow> \<forall>x\<in>set xs. c \<notin> set x \<Longrightarrow> Split c (Join [c] xs) = xs"
  by (induction xs rule: induct_list012) (auto simp: Split_plain Split_append)

lemma Cut_None: "c \<notin> set s \<Longrightarrow> Cut s c = None"
  by (induction s) auto

lemma Cut_append: "c \<notin> set s \<Longrightarrow> Cut (s @ c # t) c = Some (s, t)"
  by (induction s) auto

lemma cut_fst_plain: "c \<notin> set s \<Longrightarrow> cut_fst s c = s" "c \<notin> set s \<Longrightarrow> cut_fst (s @ c # t) c = s"
  by (simp_all add: cut_fst_def Cut_None Cut_append)

lemma unescape_plain: "CHR ''%'' \<notin> set s \<Longrightarrow> PathUnescape s = Some s"
proof -
  have "CHR ''%'' \<notin> set s \<Longrightarrow> unescape False s = Some s" by (induction s) auto
  then show "CHR ''%'' \<notin> set s \<Longrightarrow> PathUnescape s = Some s" by (simp add: PathUnescape_def)
qed

lemma getScheme_slash: "getScheme (CHR ''/'' # s) = Some ([], CHR ''/'' # s)"
  by (simp add: getScheme_def is_letter_def is_digit_def)

lemma url_Parse_rooted:
  assumes "HasPrefix p ''/''" "\<not> HasPrefix p ''//''" "\<not> list_ex is_ctl (p @ r)"
    and "CHR ''#'' \<notin> set (p @ r)" "CHR ''?'' \<notin> set p" "CHR ''%'' \<notin> set p" and "r = [] \<or> HasPrefix r ''?''"
  shows "url_Parse_Path (p @ r) = Some p"
proof -
  obtain p' where p: "p = CHR ''/'' # p'" using assms(1) by (cases p) (auto simp: HasPrefix_def)
  have "cut_fst (p @ r) (CHR ''?'') = p"
    using assms(5,7) cut_fst_plain [of "CHR ''?''" p] by (cases r) (auto simp: HasPrefix_def)
  moreover have "getScheme (p @ r) = Some ([], p @ r)" using p getScheme_slash by simp
  moreover have "p @ r \<noteq> ''*''" using p by simp
  ultimately show ?thesis
    using assms by (simp add: url_Parse_Path_def cut_fst_plain(1) Cut_None unescape_plain Let_def
        del: append_Cons append.simps)
qed

end
