(* ===== verification/Classification.thy ===== *)
theory Classification
  imports Go_Url
begin

text \<open>
  \<open>src/internal/classification/classifier.go\<close> and \<open>types.go\<close>: every tool call is
  mapped to an action type, a default risk and a summary, from the tool id, the HTTP method,
  the path and the query. A Go set of tokens is the list of the tokens added to it. The
  theorems say that the result is always a known action type with its default risk, that
  deletions are CRITICAL outside of Jira's agile API, that the path the rules look at is
  normal (so dot segments, case and duplicate slashes cannot hide an action), and which
  requests the rules misjudge.
\<close>

subsection \<open>Results\<close>

record classification =
  cl_ActionType :: string
  cl_ActionRisk :: string
  cl_ActionSummary :: string

definition ActionTypes :: "string list" where
  "ActionTypes = sort_Strings
     [''ACCESS.GRANT'', ''ACCESS.ROLE_CHANGE'', ''CRM.DELETE'', ''CRM.READ'', ''DATA.BULK_EXPORT'', ''DATA.DELETE'',
      ''DATA.EXPORT'', ''DATA.QUERY'', ''DATA.READ'', ''DATA.UPDATE'', ''PAYMENT.REFUND'', ''TICKET.COMMENT'',
      ''TICKET.CREATE'', ''TICKET.UPDATE'']"

definition defaultRisk :: "string \<Rightarrow> string" where
  "defaultRisk actionType =
     (if actionType \<in> {''PAYMENT.REFUND'', ''ACCESS.ROLE_CHANGE''} then ''HIGH''
      else if actionType \<in> {''DATA.EXPORT'', ''ACCESS.GRANT'', ''DATA.BULK_EXPORT'', ''DATA.DELETE'', ''CRM.DELETE''}
      then ''CRITICAL''
      else if actionType \<in> {''TICKET.CREATE'', ''TICKET.COMMENT'', ''TICKET.UPDATE'', ''DATA.READ'', ''DATA.QUERY'', ''CRM.READ''}
      then ''LOW'' else ''MEDIUM'')"

definition newResult :: "string \<Rightarrow> string \<Rightarrow> classification" where
  "newResult actionType summary =
     \<lparr>cl_ActionType = actionType, cl_ActionRisk = defaultRisk actionType, cl_ActionSummary = summary\<rparr>"

subsection \<open>The input of the rules\<close>

record classify_input =
  ci_method :: string
  ci_rawPath :: string
  ci_normalizedPath :: string
  ci_segments :: "string list"
  ci_pathTokens :: "string list"
  ci_queryValues :: url_values
  ci_queryTokens :: "string list"

definition normalizePath :: "string \<Rightarrow> string" where
  "normalizePath rawPath =
     (let cleaned = TrimSpace rawPath in
      if cleaned = [] then ''/''
      else let cleaned = (case url_Parse_Path cleaned of
                 Some p \<Rightarrow> if p \<noteq> [] then p else cut_fst cleaned (CHR ''?'')
               | None \<Rightarrow> cut_fst cleaned (CHR ''?''));
               cleaned = (if HasPrefix cleaned ''/'' then cleaned else ''/'' @ cleaned);
               normalized = ToLower (Clean_rooted cleaned)
           in if normalized = ''.'' then ''/'' else normalized)"

definition pathSegments :: "string \<Rightarrow> string list" where
  "pathSegments normalizedPath =
     (let trimmed = Trim normalizedPath (CHR ''/'') in
      if trimmed = [] then [] else Split (CHR ''/'') trimmed)"

definition parseQueryValues :: "string \<Rightarrow> url_values" where
  "parseQueryValues rawQuery =
     (let query = TrimSpace rawQuery in
      if query = [] then []
      else case ParseQuery (TrimPrefix query ''?'') of None \<Rightarrow> [] | Some vs \<Rightarrow> vs)"

definition token_separator :: "char \<Rightarrow> bool" where
  "token_separator c = (c \<in> set ''-_.:,;=+|'')"

definition tokenize :: "string \<Rightarrow> string list" where
  "tokenize value =
     (let normalized = ToLower (TrimSpace value) in
      if normalized = [] then []
      else Fields (map (\<lambda>c. if token_separator c then CHR '' '' else c) normalized))"

definition addTokens :: "string list \<Rightarrow> string list \<Rightarrow> string list" where
  "addTokens toks values = toks @ filter (\<lambda>t. t \<noteq> []) (concat (map tokenize values))"

definition addQueryTokens :: "string list \<Rightarrow> url_values \<Rightarrow> string list" where
  "addQueryTokens toks values = foldl (\<lambda>ts (k, v). addTokens (addTokens ts [k]) [v]) toks values"

definition newClassifyInput :: "string \<Rightarrow> string \<Rightarrow> string \<Rightarrow> classify_input" where
  "newClassifyInput method path query =
     (let normalizedMethod = ToUpper (TrimSpace method);
          normalizedMethod = (if normalizedMethod = [] then ''GET'' else normalizedMethod);
          rawPath = TrimSpace path; rawPath = (if rawPath = [] then ''/'' else rawPath);
          normalizedPath = normalizePath rawPath; segments = pathSegments normalizedPath;
          queryValues = parseQueryValues query
      in \<lparr>ci_method = normalizedMethod, ci_rawPath = rawPath, ci_normalizedPath = normalizedPath,
          ci_segments = segments, ci_pathTokens = addTokens [] segments,
          ci_queryValues = queryValues, ci_queryTokens = addQueryTokens [] queryValues\<rparr>)"

subsection \<open>Intents\<close>

definition hasAny :: "string list \<Rightarrow> string list \<Rightarrow> bool" where
  "hasAny toks values = list_ex (\<lambda>v. v \<in> set toks) values"

definition hasAll :: "string list \<Rightarrow> string list \<Rightarrow> bool" where
  "hasAll toks values = list_all (\<lambda>v. v \<in> set toks) values"

definition isWriteMethod :: "string \<Rightarrow> bool" where
  "isWriteMethod m = (m \<in> {''POST'', ''PUT'', ''PATCH'', ''DELETE''})"

definition isReadMethod :: "string \<Rightarrow> bool" where
  "isReadMethod m = (m \<in> {''GET'', ''HEAD'', ''OPTIONS''})"

definition isDeleteIntent :: "classify_input \<Rightarrow> bool" where
  "isDeleteIntent input =
     (if ci_method input = ''DELETE'' then True
      else if \<not> isWriteMethod (ci_method input) then False
      else hasAny (ci_pathTokens input) [''delete'', ''remove'', ''revoke'', ''purge'', ''destroy'', ''erase''])"

definition isExportIntent :: "classify_input \<Rightarrow> bool" where
  "isExportIntent input =
     (hasAny (ci_pathTokens input) [''export'', ''exports'', ''download'', ''dump'', ''extract'', ''backup''] \<or>
      hasAny (ci_queryTokens input) [''csv'', ''xlsx'', ''jsonl'', ''parquet'', ''export'', ''download''])"

definition isBulkExportIntent :: "classify_input \<Rightarrow> bool" where
  "isBulkExportIntent input =
     (isExportIntent input \<and>
      (hasAny (ci_pathTokens input) [''bulk'', ''batch'', ''mass'', ''multi'', ''all''] \<or>
       hasAny (ci_queryTokens input) [''bulk'', ''batch'', ''all'', ''include'', ''includeall'']))"

definition isAccessGrantIntent :: "classify_input \<Rightarrow> bool" where
  "isAccessGrantIntent input =
     (isWriteMethod (ci_method input) \<and>
      ((hasAny (ci_pathTokens input) [''role'', ''roles''] \<and> hasAny (ci_pathTokens input) [''change'', ''assign'', ''update'']) \<or>
       hasAny (ci_pathTokens input) [''grant'', ''permission'', ''permissions'', ''invite'', ''membership'', ''member'', ''members'']))"

definition isQueryIntent :: "classify_input \<Rightarrow> bool" where
  "isQueryIntent input =
     (hasAny (ci_pathTokens input) [''search'', ''query'', ''filter'', ''lookup'', ''find''] \<or>
      hasAny (ci_queryTokens input) [''q'', ''query'', ''search'', ''jql'', ''filter'', ''where''])"

definition isCRMEntity :: "classify_input \<Rightarrow> bool" where
  "isCRMEntity input =
     (hasAny (ci_pathTokens input)
        [''crm'', ''contact'', ''contacts'', ''lead'', ''leads'', ''account'', ''accounts'', ''opportunity'', ''opportunities'', ''deal'', ''deals'', ''customer'', ''customers''])"

subsection \<open>Jira\<close>

definition isJiraPath :: "classify_input \<Rightarrow> bool" where
  "isJiraPath input =
     (4 \<le> length (ci_segments input) \<and> ci_segments input ! 0 = ''rest'' \<and> ci_segments input ! 1 = ''api'')"

definition isJiraIssueCreate :: "classify_input \<Rightarrow> bool" where
  "isJiraIssueCreate input =
     (ci_method input = ''POST'' \<and> isJiraPath input \<and>
      ((length (ci_segments input) = 4 \<and> ci_segments input ! 3 = ''issue'') \<or>
       (length (ci_segments input) = 5 \<and> ci_segments input ! 3 = ''issue'' \<and> ci_segments input ! 4 = ''bulk'')))"

definition isJiraIssueComment :: "classify_input \<Rightarrow> bool" where
  "isJiraIssueComment input =
     ((ci_method input \<in> {''POST'', ''PUT'', ''PATCH''}) \<and> isJiraPath input \<and> hasAny (ci_pathTokens input) [''issue''] \<and> hasAny (ci_pathTokens input) [''comment''])"

definition isJiraIssueUpdate :: "classify_input \<Rightarrow> bool" where
  "isJiraIssueUpdate input =
     (isJiraPath input \<and> hasAny (ci_pathTokens input) [''issue''] \<and>
      (ci_method input \<in> {''PUT'', ''PATCH''} \<or>
       (ci_method input = ''POST'' \<and> hasAny (ci_pathTokens input) [''transition'', ''transitions'', ''assignee'', ''watcher'', ''watchers'', ''worklog'', ''attachment'', ''attachments'', ''archive'', ''unarchive''])))"

definition isJiraCommentDelete :: "classify_input \<Rightarrow> bool" where
  "isJiraCommentDelete input =
     (ci_method input = ''DELETE'' \<and> isJiraPath input \<and> hasAny (ci_pathTokens input) [''issue''] \<and> hasAny (ci_pathTokens input) [''comment''])"

definition isJiraWatcherOrVoteRemove :: "classify_input \<Rightarrow> bool" where
  "isJiraWatcherOrVoteRemove input =
     (ci_method input = ''DELETE'' \<and> isJiraPath input \<and> hasAny (ci_pathTokens input) [''issue''] \<and>
      hasAny (ci_pathTokens input) [''watcher'', ''watchers'', ''vote'', ''votes''])"

definition isJiraIssueLink :: "classify_input \<Rightarrow> bool" where
  "isJiraIssueLink input =
     (isJiraPath input \<and> hasAny (ci_pathTokens input) [''issuelink'', ''remotelink''])"

definition isJiraIssueDelete :: "classify_input \<Rightarrow> bool" where
  "isJiraIssueDelete input =
     (ci_method input = ''DELETE'' \<and> isJiraPath input \<and> hasAny (ci_pathTokens input) [''issue''])"

definition isJiraAgilePath :: "classify_input \<Rightarrow> bool" where
  "isJiraAgilePath input =
     (3 \<le> length (ci_segments input) \<and> ci_segments input ! 0 = ''rest'' \<and> ci_segments input ! 1 = ''agile'')"

definition isJiraSearch :: "classify_input \<Rightarrow> bool" where
  "isJiraSearch input =
     (isJiraPath input \<and> (hasAny (ci_pathTokens input) [''search'', ''jql''] \<or> hasAny (ci_queryTokens input) [''jql'', ''query'', ''search'']))"

subsection \<open>Mock tool\<close>

definition isMockRefund :: "classify_input \<Rightarrow> bool" where
  "isMockRefund input =
     ((ci_method input \<in> {''POST'', ''PUT'', ''PATCH''}) \<and> hasAny (ci_pathTokens input) [''refund'', ''refunds''])"

definition isMockExport :: "classify_input \<Rightarrow> bool" where
  "isMockExport input =
     (ci_method input \<noteq> ''DELETE'' \<and> hasAny (ci_pathTokens input) [''export'', ''exports'', ''download''])"

definition isMockRoleChange :: "classify_input \<Rightarrow> bool" where
  "isMockRoleChange input =
     ((ci_method input \<in> {''POST'', ''PUT'', ''PATCH''}) \<and> hasAny (ci_pathTokens input) [''role'', ''roles''] \<and> hasAny (ci_pathTokens input) [''change'', ''update'', ''assign'', ''set''])"

definition isMockAccessGrant :: "classify_input \<Rightarrow> bool" where
  "isMockAccessGrant input =
     ((ci_method input \<in> {''POST'', ''PUT'', ''PATCH''}) \<and>
      ((hasAny (ci_pathTokens input) [''grant'', ''invite''] \<and> hasAny (ci_pathTokens input) [''access'', ''permission'', ''permissions'', ''role'', ''roles'']) \<or>
       hasAll (ci_pathTokens input) [''permissions'', ''assign'']))"

subsection \<open>Classification\<close>

definition requestSummary :: "classify_input \<Rightarrow> string" where
  "requestSummary input = ci_method input @ '' '' @ ci_rawPath input"

definition classifyGenericActionType :: "classify_input \<Rightarrow> string" where
  "classifyGenericActionType input =
     (if isDeleteIntent input then (if isCRMEntity input then ''CRM.DELETE'' else ''DATA.DELETE'')
      else if isBulkExportIntent input then ''DATA.BULK_EXPORT''
      else if isExportIntent input then ''DATA.EXPORT''
      else if isAccessGrantIntent input then ''ACCESS.GRANT''
      else if isCRMEntity input \<and> (isReadMethod (ci_method input) \<or> isQueryIntent input) then ''CRM.READ''
      else if isQueryIntent input then ''DATA.QUERY''
      else if ci_method input \<in> {''POST'', ''PUT'', ''PATCH''} then ''DATA.UPDATE''
      else if ci_method input = ''DELETE'' then ''DATA.DELETE''
      else ''DATA.READ'')"

definition classifyGeneric :: "classify_input \<Rightarrow> classification" where
  "classifyGeneric input = newResult (classifyGenericActionType input) (requestSummary input)"

definition classifyJiraAgile :: "classify_input \<Rightarrow> classification" where
  "classifyJiraAgile input =
     (if hasAny (ci_pathTokens input) [''sprint''] \<and> hasAny (ci_pathTokens input) [''issue''] then
        (if ci_method input = ''POST'' then newResult ''TICKET.UPDATE'' ''Move issues to sprint''
         else newResult ''DATA.QUERY'' ''Query sprint issues'')
      else if hasAny (ci_pathTokens input) [''sprint''] then
        (if ci_method input = ''POST'' then newResult ''TICKET.CREATE'' ''Create sprint''
         else if ci_method input \<in> {''PUT'', ''PATCH''} then newResult ''TICKET.UPDATE'' ''Update sprint''
         else if ci_method input = ''DELETE'' then newResult ''DATA.DELETE'' ''Delete sprint''
         else newResult ''DATA.QUERY'' ''Query sprints'')
      else if hasAny (ci_pathTokens input) [''board''] then newResult ''DATA.QUERY'' ''Query Jira board''
      else classifyGeneric input)"

definition classifyJira :: "classify_input \<Rightarrow> classification" where
  "classifyJira input =
     (if isJiraAgilePath input then classifyJiraAgile input
      else if isJiraIssueCreate input then newResult ''TICKET.CREATE'' ''Create Jira issue''
      else if isJiraIssueComment input then newResult ''TICKET.COMMENT'' ''Comment on Jira issue''
      else if isJiraCommentDelete input then newResult ''DATA.DELETE'' ''Delete Jira comment''
      else if isJiraWatcherOrVoteRemove input then newResult ''TICKET.UPDATE'' ''Update Jira issue''
      else if isJiraIssueDelete input then newResult ''DATA.DELETE'' ''Delete Jira issue''
      else if isJiraIssueUpdate input then newResult ''TICKET.UPDATE'' ''Update Jira issue''
      else if isJiraIssueLink input then newResult ''TICKET.UPDATE'' ''Link Jira issues''
      else if isJiraSearch input then newResult ''DATA.QUERY'' ''Query Jira issues''
      else classifyGeneric input)"

definition classifyMockInternal :: "classify_input \<Rightarrow> classification" where
  "classifyMockInternal input =
     (if isMockRefund input then newResult ''PAYMENT.REFUND'' ''Refund payment''
      else if isMockExport input then newResult ''DATA.EXPORT'' ''Export customer data''
      else if isMockRoleChange input then newResult ''ACCESS.ROLE_CHANGE'' ''Change user role''
      else if isMockAccessGrant input then newResult ''ACCESS.GRANT'' ''Grant access''
      else classifyGeneric input)"

definition Classify :: "string \<Rightarrow> string \<Rightarrow> string \<Rightarrow> string \<Rightarrow> classification" where
  "Classify toolID method path query =
     (let input = newClassifyInput method path query; toolID = ToLower (TrimSpace toolID) in
      if toolID = ''jira'' then classifyJira input
      else if toolID = ''mock_internal'' then classifyMockInternal input
      else classifyGeneric input)"

lemmas classify_defs = Classify_def classifyJira_def classifyJiraAgile_def classifyMockInternal_def classifyGeneric_def

subsection \<open>Every result is a known action\<close>

definition well_classified :: "classification \<Rightarrow> bool" where
  "well_classified c = (cl_ActionType c \<in> set ActionTypes \<and> cl_ActionRisk c = defaultRisk (cl_ActionType c))"

lemma set_ActionTypes: "set ActionTypes =
  {''ACCESS.GRANT'', ''ACCESS.ROLE_CHANGE'', ''CRM.DELETE'', ''CRM.READ'', ''DATA.BULK_EXPORT'', ''DATA.DELETE'',
   ''DATA.EXPORT'', ''DATA.QUERY'', ''DATA.READ'', ''DATA.UPDATE'', ''PAYMENT.REFUND'', ''TICKET.COMMENT'',
   ''TICKET.CREATE'', ''TICKET.UPDATE''}"
  unfolding ActionTypes_def sort_Strings_def set_SliceStable by simp

lemma well_classified_new [simp]: "well_classified (newResult t s) \<longleftrightarrow> t \<in> set ActionTypes"
  by (simp add: well_classified_def newResult_def)

lemma generic_type: "classifyGenericActionType input \<in> set ActionTypes"
  by (simp add: classifyGenericActionType_def set_ActionTypes)

lemma well_classified_Classify: "well_classified (Classify toolID method path query)"
proof -
  have t: "x \<in> set ActionTypes"
    if "x \<in> {''PAYMENT.REFUND'', ''DATA.EXPORT'', ''ACCESS.ROLE_CHANGE'', ''ACCESS.GRANT'', ''TICKET.CREATE'',
      ''TICKET.COMMENT'', ''DATA.DELETE'', ''TICKET.UPDATE'', ''DATA.QUERY''}" for x
    using that by (auto simp: set_ActionTypes)
  have "well_classified (classifyGeneric i)" for i by (simp add: classifyGeneric_def generic_type)
  moreover have "well_classified (classifyMockInternal i)" for i
    by (simp add: classifyMockInternal_def calculation t)
  moreover have "well_classified (classifyJira i)" for i
    by (simp add: classifyJira_def classifyJiraAgile_def calculation t)
  ultimately show "well_classified (Classify toolID method path query)"
    by (simp add: Classify_def Let_def)
qed

text \<open>Classification is total and consistent: every method, path, query and tool id gets
  one of the fourteen action types, with exactly that type's default risk, and that risk is
  one of the four levels.\<close>

theorem classify_well_classified:
  "well_classified (Classify toolID method path query) \<and>
   cl_ActionRisk (Classify toolID method path query) \<in> {''LOW'', ''MEDIUM'', ''HIGH'', ''CRITICAL''}"
  using well_classified_Classify 
  by (simp add: well_classified_def defaultRisk_def)

subsection \<open>Deletions\<close>

text \<open>A DELETE request, in any spelling of the method, is a CRITICAL deletion for every tool
  that is not Jira, whatever its path and query look like.\<close>

theorem delete_is_critical:
  assumes "ToUpper (TrimSpace method) = ''DELETE''" and "ToLower (TrimSpace toolID) \<noteq> ''jira''"
  shows "cl_ActionType (Classify toolID method path query) \<in> {''DATA.DELETE'', ''CRM.DELETE''} \<and>
    cl_ActionRisk (Classify toolID method path query) = ''CRITICAL''"
proof -
  let ?i = "newClassifyInput method path query"
  have m: "ci_method ?i = ''DELETE''" using assms(1) by (simp add: newClassifyInput_def Let_def)
  have g: "cl_ActionType (classifyGeneric ?i) \<in> {''DATA.DELETE'', ''CRM.DELETE''}"
    "cl_ActionRisk (classifyGeneric ?i) = ''CRITICAL''"
    by (simp_all add: classifyGeneric_def newResult_def classifyGenericActionType_def isDeleteIntent_def m defaultRisk_def)
  have "classifyMockInternal ?i = classifyGeneric ?i"
    by (simp add: classifyMockInternal_def isMockRefund_def isMockExport_def isMockRoleChange_def isMockAccessGrant_def m)
  then show ?thesis using assms(2) g by (simp add: Classify_def Let_def)
qed

text \<open>Jira's agile API is the exception: with a board in the path and no sprint, every
  method, DELETE included, is a LOW risk query, so deleting a board is not seen as a deletion.\<close>

theorem jira_board_delete_is_low:
  assumes "ToLower (TrimSpace toolID) = ''jira''" and "isJiraAgilePath (newClassifyInput method path query)"
    and "''board'' \<in> set (ci_pathTokens (newClassifyInput method path query))"
    and "''sprint'' \<notin> set (ci_pathTokens (newClassifyInput method path query))"
  shows "Classify toolID method path query =
    \<lparr>cl_ActionType = ''DATA.QUERY'', cl_ActionRisk = ''LOW'', cl_ActionSummary = ''Query Jira board''\<rparr>"
  using assms
  by (simp add: Classify_def Let_def classifyJira_def classifyJiraAgile_def hasAny_def newResult_def defaultRisk_def)

subsection \<open>What is CRITICAL\<close>

text \<open>Words of a path or a query.\<close>

definition says :: "string list \<Rightarrow> string list \<Rightarrow> bool" where
  "says toks words \<longleftrightarrow> set toks \<inter> set words \<noteq> {}"

lemma hasAny_says [simp]: "hasAny toks words = says toks words"
  by (auto simp: hasAny_def says_def list_ex_iff)

text \<open>A request that deletes, exports or grants, by its method and its words.\<close>

definition destructive :: "classify_input \<Rightarrow> bool" where
  "destructive i \<longleftrightarrow>
     ci_method i = ''DELETE'' \<or>
     (ci_method i \<in> {''POST'', ''PUT'', ''PATCH''} \<and> says (ci_pathTokens i) [''delete'', ''remove'', ''revoke'', ''purge'', ''destroy'', ''erase'']) \<or>
     says (ci_pathTokens i) [''export'', ''exports'', ''download'', ''dump'', ''extract'', ''backup''] \<or>
     says (ci_queryTokens i) [''csv'', ''xlsx'', ''jsonl'', ''parquet'', ''export'', ''download''] \<or>
     (ci_method i \<in> {''POST'', ''PUT'', ''PATCH''} \<and>
      (says (ci_pathTokens i) [''grant'', ''permission'', ''permissions'', ''invite'', ''membership'', ''member'', ''members''] \<or>
       (says (ci_pathTokens i) [''role'', ''roles''] \<and> says (ci_pathTokens i) [''change'', ''assign'', ''update''])))"

text \<open>The deletions that the Jira rules take for something else: on the agile API the issues of a
  sprint, and boards; on the REST API watchers and votes of an issue, links, and everything outside
  of the issues whose path or query speaks of a search.\<close>

definition jira_delete_excepted :: "classify_input \<Rightarrow> bool" where
  "jira_delete_excepted i =
     (let w = says (ci_pathTokens i) in
      if 3 \<le> length (ci_segments i) \<and> take 2 (ci_segments i) = [''rest'', ''agile'']
      then (if w [''sprint''] then w [''issue''] else w [''board''])
      else 4 \<le> length (ci_segments i) \<and> take 2 (ci_segments i) = [''rest'', ''api''] \<and>
        (if w [''issue''] then w [''watcher'', ''watchers'', ''vote'', ''votes''] \<and> \<not> w [''comment'']
         else w [''issuelink'', ''remotelink'', ''search'', ''jql''] \<or> says (ci_queryTokens i) [''jql'', ''query'', ''search'']))"

lemma take2_segments: "2 \<le> length xs \<Longrightarrow> take 2 xs = [a, b] \<longleftrightarrow> xs ! 0 = a \<and> xs ! 1 = b"
  by (cases xs; cases "tl xs") auto

lemma says_append [simp]: "says toks (xs @ ys) \<longleftrightarrow> says toks xs \<or> says toks ys"
  by (auto simp: says_def)

lemma generic_critical: "cl_ActionRisk (classifyGeneric i) = ''CRITICAL'' \<longleftrightarrow> destructive i"
proof -
  have "isBulkExportIntent i \<Longrightarrow> isExportIntent i" by (simp add: isBulkExportIntent_def)
  then have "cl_ActionRisk (classifyGeneric i) = ''CRITICAL'' \<longleftrightarrow> isDeleteIntent i \<or> isExportIntent i \<or> isAccessGrantIntent i"
    by (cases "ci_method i = ''DELETE''")
      (simp_all add: classifyGeneric_def newResult_def defaultRisk_def classifyGenericActionType_def isDeleteIntent_def)
  also have "\<dots> \<longleftrightarrow> destructive i"
    by (cases "ci_method i = ''DELETE''")
      (simp_all add: destructive_def isDeleteIntent_def isExportIntent_def isAccessGrantIntent_def isWriteMethod_def disj_ac conj_ac, argo?)
  finally show ?thesis .
qed

lemma generic_delete:
  "ci_method i = ''DELETE'' \<Longrightarrow>
   cl_ActionType (classifyGeneric i) \<in> {''DATA.DELETE'', ''CRM.DELETE''} \<and> cl_ActionRisk (classifyGeneric i) = ''CRITICAL''"
  by (simp add: classifyGeneric_def newResult_def classifyGenericActionType_def isDeleteIntent_def defaultRisk_def)

lemma jira_delete:
  assumes "ci_method i = ''DELETE''"
  shows "if jira_delete_excepted i
    then cl_ActionType (classifyJira i) \<in> {''TICKET.UPDATE'', ''DATA.QUERY''} \<and> cl_ActionRisk (classifyJira i) = ''LOW''
    else cl_ActionType (classifyJira i) \<in> {''DATA.DELETE'', ''CRM.DELETE''} \<and> cl_ActionRisk (classifyJira i) = ''CRITICAL''"
proof -
  let ?w = "says (ci_pathTokens i)"
  have words: "?w [''issuelink'', ''remotelink'', ''search'', ''jql''] \<longleftrightarrow> ?w [''issuelink'', ''remotelink''] \<or> ?w [''search'', ''jql'']"
    by (auto simp: says_def)
  have agile: "isJiraAgilePath i \<longleftrightarrow> 3 \<le> length (ci_segments i) \<and> take 2 (ci_segments i) = [''rest'', ''agile'']"
    and api: "isJiraPath i \<longleftrightarrow> 4 \<le> length (ci_segments i) \<and> take 2 (ci_segments i) = [''rest'', ''api'']"
    by (auto simp: isJiraAgilePath_def isJiraPath_def take2_segments)
  have "jira_delete_excepted i \<longleftrightarrow>
      (if isJiraAgilePath i then (if ?w [''sprint''] then ?w [''issue''] else ?w [''board''])
       else isJiraPath i \<and>
         (if ?w [''issue''] then ?w [''watcher'', ''watchers'', ''vote'', ''votes''] \<and> \<not> ?w [''comment'']
          else ?w [''issuelink'', ''remotelink''] \<or> ?w [''search'', ''jql''] \<or> says (ci_queryTokens i) [''jql'', ''query'', ''search'']))"
    unfolding jira_delete_excepted_def Let_def agile api words by argo
  then show ?thesis
    using assms generic_delete [OF assms]
    by (simp add: classifyJira_def classifyJiraAgile_def
        isJiraIssueCreate_def isJiraIssueComment_def isJiraCommentDelete_def isJiraWatcherOrVoteRemove_def isJiraIssueDelete_def
        isJiraIssueUpdate_def isJiraIssueLink_def isJiraSearch_def newResult_def defaultRisk_def)
qed

text \<open>C40: what is CRITICAL. A DELETE request, in any spelling of the method and for every tool, is
  classified as a deletion with risk CRITICAL, except the Jira requests of \<open>jira_delete_excepted\<close>,
  which are LOW. For a tool that is neither \<open>jira\<close> nor \<open>mock_internal\<close> a request is CRITICAL exactly
  when it deletes, exports or grants by the words of its normalised path and its query.\<close>

theorem critical_exactly:
  "(ToUpper (TrimSpace method) = ''DELETE'' \<longrightarrow>
      (if ToLower (TrimSpace toolID) = ''jira'' \<and> jira_delete_excepted (newClassifyInput method path query)
       then cl_ActionType (Classify toolID method path query) \<in> {''TICKET.UPDATE'', ''DATA.QUERY''} \<and>
         cl_ActionRisk (Classify toolID method path query) = ''LOW''
       else cl_ActionType (Classify toolID method path query) \<in> {''DATA.DELETE'', ''CRM.DELETE''} \<and>
         cl_ActionRisk (Classify toolID method path query) = ''CRITICAL'')) \<and>
   (ToLower (TrimSpace toolID) \<notin> {''jira'', ''mock_internal''} \<longrightarrow>
      (cl_ActionRisk (Classify toolID method path query) = ''CRITICAL'' \<longleftrightarrow> destructive (newClassifyInput method path query)))"
proof -
  let ?i = "newClassifyInput method path query"
  have m: "ci_method ?i = ''DELETE''" if "ToUpper (TrimSpace method) = ''DELETE''"
    using that by (simp add: newClassifyInput_def Let_def)
  have "classifyMockInternal ?i = classifyGeneric ?i" if "ci_method ?i = ''DELETE''"
    using that by (simp add: classifyMockInternal_def isMockRefund_def isMockExport_def isMockRoleChange_def isMockAccessGrant_def)
  note mock = this
  show ?thesis
  proof (intro conjI impI)
    assume "ToUpper (TrimSpace method) = ''DELETE''"
    note d = m [OF this]
    show "if ToLower (TrimSpace toolID) = ''jira'' \<and> jira_delete_excepted ?i
       then cl_ActionType (Classify toolID method path query) \<in> {''TICKET.UPDATE'', ''DATA.QUERY''} \<and>
         cl_ActionRisk (Classify toolID method path query) = ''LOW''
       else cl_ActionType (Classify toolID method path query) \<in> {''DATA.DELETE'', ''CRM.DELETE''} \<and>
         cl_ActionRisk (Classify toolID method path query) = ''CRITICAL''"
      using jira_delete [OF d] generic_delete [OF d] mock [OF d]
      by (cases "ToLower (TrimSpace toolID) = ''jira''"; cases "jira_delete_excepted ?i") (simp_all add: Classify_def Let_def)
  next
    assume "ToLower (TrimSpace toolID) \<notin> {''jira'', ''mock_internal''}"
    then show "cl_ActionRisk (Classify toolID method path query) = ''CRITICAL'' \<longleftrightarrow> destructive ?i"
      by (simp add: Classify_def Let_def generic_critical)
  qed
qed

theorem critical_exactly_witness:
  "cl_ActionRisk (Classify ''jira'' '' delete '' ''/rest/api/3/issue/A-1'' ''jql=1'') = ''CRITICAL'' \<and>
   cl_ActionRisk (Classify ''jira'' ''DELETE'' ''/rest/api/3/project/A'' ''jql=1'') = ''LOW'' \<and>
   cl_ActionRisk (Classify ''crm'' ''POST'' ''/a/../Contacts/%50urge'' []) = ''CRITICAL''"
proof -
  let ?d = "newClassifyInput '' delete '' ''/rest/api/3/issue/A-1'' ''jql=1''"
  let ?p = "newClassifyInput ''DELETE'' ''/rest/api/3/project/A'' ''jql=1''"
  let ?c = "newClassifyInput ''POST'' ''/a/../Contacts/%50urge'' []"
  have names: "ToUpper (TrimSpace '' delete '') = ''DELETE''" "ToUpper (TrimSpace ''DELETE'') = ''DELETE''"
    "ToLower (TrimSpace ''jira'') = ''jira''" "ToLower (TrimSpace ''crm'') = ''crm''" by code_simp+
  have "\<not> jira_delete_excepted ?d" "jira_delete_excepted ?p" "destructive ?c" by code_simp+
  with names critical_exactly [of "'' delete ''" "''jira''" "''/rest/api/3/issue/A-1''" "''jql=1''"]
    critical_exactly [of "''DELETE''" "''jira''" "''/rest/api/3/project/A''" "''jql=1''"]
    critical_exactly [of "''POST''" "''crm''" "''/a/../Contacts/%50urge''" "[]"]
  show ?thesis by simp
qed

subsection \<open>The normalised path\<close>

lemma lower_char_low: "(of_char d :: nat) < 65 \<Longrightarrow> lower_char c = d \<longleftrightarrow> c = d"
  by (auto simp: lower_char_def Let_def dest!: arg_cong [where f = "of_char :: char \<Rightarrow> nat"])

lemma lower_char_idem [simp]: "lower_char (lower_char c) = lower_char c"
  by (simp add: lower_char_def Let_def)

lemma ToLower_idem [simp]: "ToLower (ToLower s) = ToLower s"
  by (simp add: ToLower_def)

lemma ToLower_plain: "\<forall>d\<in>set t. (of_char d :: nat) < 65 \<Longrightarrow> ToLower s = t \<longleftrightarrow> s = t"
proof (induction t arbitrary: s)
  case (Cons d t)
  then show ?case using lower_char_low by (cases s) (auto simp: ToLower_def)
qed (simp add: ToLower_def)

lemma proper_ToLower:
  assumes "proper_segment x"
  shows "proper_segment (ToLower x)"
proof -
  have "ToLower x = ''.'' \<longleftrightarrow> x = ''.''" "ToLower x = ''..'' \<longleftrightarrow> x = ''..''"
    by (rule ToLower_plain, simp)+
  moreover have "CHR ''/'' \<in> set (ToLower x) \<longleftrightarrow> CHR ''/'' \<in> set x"
  proof (induction x)
    case (Cons c x)
    have "CHR ''/'' = lower_char c \<longleftrightarrow> CHR ''/'' = c" using lower_char_low [of "CHR ''/''" c] by auto
    with Cons show ?case by (simp add: ToLower_def)
  qed (simp add: ToLower_def)
  ultimately show ?thesis using assms unfolding proper_segment_def by (simp add: ToLower_def)
qed

lemma ToLower_Join: "ToLower (Join ''/'' xs) = Join ''/'' (map ToLower xs)"
  by (induction xs rule: induct_list012) (simp_all add: ToLower_def lower_char_low)

lemma Trim_slash:
  assumes "s = [] \<or> (hd s \<noteq> c \<and> last s \<noteq> c)"
  shows "Trim (c # s) c = s"
proof -
  have "dropWhile (\<lambda>x. x = c) s = s" using assms by (cases s) auto
  moreover have "dropWhile (\<lambda>x. x = c) (rev s) = rev s"
    using assms by (cases s rule: rev_cases) auto
  ultimately show ?thesis by (simp add: Trim_def trim_left_def trim_right_def)
qed

lemma pathSegments_Join:
  "list_all proper_segment xs \<Longrightarrow> pathSegments (CHR ''/'' # Join ''/'' xs) = xs"
  using Join_ends [of xs] Trim_slash [of "Join ''/'' xs" "CHR ''/''"] Split_Join [of xs "CHR ''/''"]
  by (cases "xs = []") (auto simp: pathSegments_def Let_def list_all_iff proper_segment_def)

lemma normal_segments:
  obtains xs where "pathSegments (normalizePath raw) = map ToLower xs" "list_all proper_segment xs"
proof (cases "TrimSpace raw = []")
  case True
  then show thesis by (intro that [of "[]"]) (simp_all add: normalizePath_def pathSegments_def Trim_def trim_left_def trim_right_def)
next
  case False
  then obtain q where "normalizePath raw = (if ToLower (Clean_rooted q) = ''.'' then ''/'' else ToLower (Clean_rooted q))"
    by (simp add: normalizePath_def Let_def)
  moreover obtain xs where xs: "Clean_rooted q = CHR ''/'' # Join ''/'' xs" "list_all proper_segment xs"
    by (rule Clean_rooted_segments)
  moreover have "ToLower (Clean_rooted q) = CHR ''/'' # Join ''/'' (map ToLower xs)"
    using ToLower_Join xs(1) by (simp add: ToLower_def lower_char_low)
  moreover have "list_all proper_segment (map ToLower xs)"
    using xs(2) by (auto simp: list_all_iff proper_ToLower)
  ultimately show thesis by (intro that [of xs]) (simp_all add: pathSegments_Join)
qed

text \<open>The rules look at a normal path: whatever path a client sends, percent-encoded,
  mixed-case, with dot segments, doubled slashes or as a full URL, every segment the rules
  see is lower-case, non-empty and neither a dot nor a double dot.\<close>

theorem segments_are_normal:
  "\<forall>x\<in>set (ci_segments (newClassifyInput method path query)). proper_segment x \<and> ToLower x = x"
proof
  fix x assume x: "x \<in> set (ci_segments (newClassifyInput method path query))"
  obtain raw where r: "ci_segments (newClassifyInput method path query) = pathSegments (normalizePath raw)"
    by (simp add: newClassifyInput_def Let_def)
  obtain xs where "pathSegments (normalizePath raw) = map ToLower xs" "list_all proper_segment xs"
    by (rule normal_segments)
  with x r show "proper_segment x \<and> ToLower x = x" by (auto simp: list_all_iff proper_ToLower)
qed

subsection \<open>A query inside of the path\<close>

definition plain_path_char :: "char \<Rightarrow> bool" where
  "plain_path_char c = (is_letter c \<or> is_digit c \<or> c \<in> set ''/-_.'')"

definition plain_path :: "string \<Rightarrow> bool" where
  "plain_path p = (HasPrefix p ''/'' \<and> \<not> HasPrefix p ''//'' \<and> list_all plain_path_char p)"

definition plain_query :: "string \<Rightarrow> bool" where
  "plain_query q = list_all (\<lambda>c. \<not> is_space c \<and> \<not> is_ctl c \<and> c \<noteq> CHR ''#'') q"

lemma plain_path_char:
  "plain_path_char c \<Longrightarrow> \<not> is_space c \<and> \<not> is_ctl c \<and> c \<noteq> CHR ''#'' \<and> c \<noteq> CHR ''?'' \<and> c \<noteq> CHR ''%''"
  by (auto simp: plain_path_char_def is_letter_def is_digit_def is_space_def is_ctl_def Let_def)

lemma TrimSpace_id: "s = [] \<or> (\<not> is_space (hd s) \<and> \<not> is_space (last s)) \<Longrightarrow> TrimSpace s = s"
proof -
  assume s: "s = [] \<or> (\<not> is_space (hd s) \<and> \<not> is_space (last s))"
  then have "dropWhile is_space s = s" by (cases s) auto
  moreover have "dropWhile is_space (rev s) = rev s" using s by (cases s rule: rev_cases) auto
  ultimately show "TrimSpace s = s" by (simp add: TrimSpace_def trim_left_def trim_right_def)
qed

lemma TrimSpace_no_space: "\<forall>c\<in>set s. \<not> is_space c \<Longrightarrow> TrimSpace s = s"
  by (rule TrimSpace_id) (cases s; auto)

lemma question_mark: "\<not> is_space (CHR ''?'')" "\<not> is_ctl (CHR ''?'')"
  by (simp_all add: is_space_def is_ctl_def)

lemma normalizePath_plain:
  assumes "plain_path p" and "plain_query q" and "r = [] \<or> r = CHR ''?'' # q"
  shows "normalizePath (p @ r) = normalizePath p \<and> TrimSpace (p @ r) = p @ r"
proof -
  have pc: "\<forall>c\<in>set p. \<not> is_space c \<and> \<not> is_ctl c \<and> c \<noteq> CHR ''#'' \<and> c \<noteq> CHR ''?'' \<and> c \<noteq> CHR ''%''"
    using assms(1) plain_path_char by (auto simp: plain_path_def list_all_iff)
  have rc: "\<forall>c\<in>set r. \<not> is_space c \<and> \<not> is_ctl c \<and> c \<noteq> CHR ''#''"
    by (cases "r = []") (use assms(2,3) question_mark in \<open>simp_all add: plain_query_def list_all_iff\<close>)
  have "\<forall>c\<in>set (p @ r). \<not> is_space c" using pc rc by (simp add: ball_Un)
  then have t: "TrimSpace (p @ r) = p @ r" "TrimSpace p = p" using pc by (blast intro: TrimSpace_no_space)+
  have ne: "p \<noteq> []" using assms(1) by (auto simp: plain_path_def HasPrefix_def)
  have pp: "HasPrefix p ''/''" "\<not> HasPrefix p ''//''" using assms(1) by (simp_all add: plain_path_def)
  have set: "\<not> list_ex is_ctl (p @ r)" "CHR ''#'' \<notin> set (p @ r)" "CHR ''?'' \<notin> set p" "CHR ''%'' \<notin> set p"
    using pc rc unfolding list_ex_iff set_append by blast+
  have r: "r = [] \<or> HasPrefix r ''?''" using assms(3) by (auto simp: HasPrefix_def)
  have "url_Parse_Path (p @ r) = Some p" by (rule url_Parse_rooted [OF pp set r])
  moreover have "url_Parse_Path (p @ []) = Some p"
    by (rule url_Parse_rooted [OF pp _ _ set(3,4)]) (use set in simp_all)
  ultimately show ?thesis using t ne by (simp add: normalizePath_def Let_def)
qed

text \<open>No rule looks at the raw path.\<close>

lemma raw_path_unused [simp]:
  "isDeleteIntent (i\<lparr>ci_rawPath := r\<rparr>) = isDeleteIntent i"
  "isExportIntent (i\<lparr>ci_rawPath := r\<rparr>) = isExportIntent i"
  "isBulkExportIntent (i\<lparr>ci_rawPath := r\<rparr>) = isBulkExportIntent i"
  "isAccessGrantIntent (i\<lparr>ci_rawPath := r\<rparr>) = isAccessGrantIntent i"
  "isQueryIntent (i\<lparr>ci_rawPath := r\<rparr>) = isQueryIntent i"
  "isCRMEntity (i\<lparr>ci_rawPath := r\<rparr>) = isCRMEntity i"
  "isJiraPath (i\<lparr>ci_rawPath := r\<rparr>) = isJiraPath i"
  "isJiraAgilePath (i\<lparr>ci_rawPath := r\<rparr>) = isJiraAgilePath i"
  "isJiraIssueCreate (i\<lparr>ci_rawPath := r\<rparr>) = isJiraIssueCreate i"
  "isJiraIssueComment (i\<lparr>ci_rawPath := r\<rparr>) = isJiraIssueComment i"
  "isJiraCommentDelete (i\<lparr>ci_rawPath := r\<rparr>) = isJiraCommentDelete i"
  "isJiraWatcherOrVoteRemove (i\<lparr>ci_rawPath := r\<rparr>) = isJiraWatcherOrVoteRemove i"
  "isJiraIssueDelete (i\<lparr>ci_rawPath := r\<rparr>) = isJiraIssueDelete i"
  "isJiraIssueUpdate (i\<lparr>ci_rawPath := r\<rparr>) = isJiraIssueUpdate i"
  "isJiraIssueLink (i\<lparr>ci_rawPath := r\<rparr>) = isJiraIssueLink i"
  "isJiraSearch (i\<lparr>ci_rawPath := r\<rparr>) = isJiraSearch i"
  "isMockRefund (i\<lparr>ci_rawPath := r\<rparr>) = isMockRefund i"
  "isMockExport (i\<lparr>ci_rawPath := r\<rparr>) = isMockExport i"
  "isMockRoleChange (i\<lparr>ci_rawPath := r\<rparr>) = isMockRoleChange i"
  "isMockAccessGrant (i\<lparr>ci_rawPath := r\<rparr>) = isMockAccessGrant i"
  by (simp add: isDeleteIntent_def,
      simp add: isExportIntent_def,
      simp add: isBulkExportIntent_def isExportIntent_def,
      simp add: isAccessGrantIntent_def,
      simp add: isQueryIntent_def,
      simp add: isCRMEntity_def,
      simp add: isJiraPath_def,
      simp add: isJiraAgilePath_def,
      simp add: isJiraIssueCreate_def isJiraPath_def,
      simp add: isJiraIssueComment_def isJiraPath_def,
      simp add: isJiraCommentDelete_def isJiraPath_def,
      simp add: isJiraWatcherOrVoteRemove_def isJiraPath_def,
      simp add: isJiraIssueDelete_def isJiraPath_def,
      simp add: isJiraIssueUpdate_def isJiraPath_def,
      simp add: isJiraIssueLink_def isJiraPath_def,
      simp add: isJiraSearch_def isJiraPath_def,
      simp add: isMockRefund_def,
      simp add: isMockExport_def,
      simp add: isMockRoleChange_def,
      simp add: isMockAccessGrant_def)

lemma classify_raw:
  "cl_ActionType (classifyGeneric (i\<lparr>ci_rawPath := r\<rparr>)) = cl_ActionType (classifyGeneric i)"
  "cl_ActionType (classifyMockInternal (i\<lparr>ci_rawPath := r\<rparr>)) = cl_ActionType (classifyMockInternal i)"
  "cl_ActionType (classifyJira (i\<lparr>ci_rawPath := r\<rparr>)) = cl_ActionType (classifyJira i)"
proof -
  show g: "cl_ActionType (classifyGeneric (i\<lparr>ci_rawPath := r\<rparr>)) = cl_ActionType (classifyGeneric i)"
    by (simp add: classifyGeneric_def newResult_def classifyGenericActionType_def)
  show "cl_ActionType (classifyMockInternal (i\<lparr>ci_rawPath := r\<rparr>)) = cl_ActionType (classifyMockInternal i)"
    using g by (simp add: classifyMockInternal_def)
  show "cl_ActionType (classifyJira (i\<lparr>ci_rawPath := r\<rparr>)) = cl_ActionType (classifyJira i)"
    using g by (simp add: classifyJira_def classifyJiraAgile_def)
qed

text \<open>A query string written into the path is invisible to the rules: appending a question
  mark and any parameters to a plain path changes neither action type nor risk, although the
  gateway sends the path upstream as it is.\<close>

theorem path_query_is_ignored:
  assumes "plain_path p" and "plain_query q"
  shows "cl_ActionType (Classify toolID method (p @ ''?'' @ q) query) = cl_ActionType (Classify toolID method p query) \<and>
    cl_ActionRisk (Classify toolID method (p @ ''?'' @ q) query) = cl_ActionRisk (Classify toolID method p query)"
proof -
  have n: "normalizePath (p @ CHR ''?'' # q) = normalizePath p" "TrimSpace (p @ CHR ''?'' # q) = p @ CHR ''?'' # q"
    "TrimSpace p = p"
    using normalizePath_plain [OF assms, of "CHR ''?'' # q"] normalizePath_plain [OF assms, of "[]"] by auto
  have ne: "p \<noteq> []" using assms(1) by (auto simp: plain_path_def HasPrefix_def)
  have "newClassifyInput method (p @ CHR ''?'' # q) query =
    (newClassifyInput method p query)\<lparr>ci_rawPath := p @ CHR ''?'' # q\<rparr>"
    using n ne by (simp add: newClassifyInput_def Let_def)
  then have "cl_ActionType (Classify toolID method (p @ ''?'' @ q) query) = cl_ActionType (Classify toolID method p query)"
    by (simp add: Classify_def Let_def classify_raw)
  with well_classified_Classify [where path = p] well_classified_Classify [where path = "p @ ''?'' @ q"]
  show ?thesis by (simp add: well_classified_def)
qed

subsection \<open>Concrete requests\<close>

theorem delete_is_critical_witness:
  "cl_ActionRisk (Classify ''crm'' '' delete '' ''/contacts/7'' []) = ''CRITICAL''"
proof -
  have "ToUpper (TrimSpace '' delete '') = ''DELETE''" "ToLower (TrimSpace ''crm'') \<noteq> ''jira''" by code_simp+
  from delete_is_critical [OF this] show ?thesis by blast
qed

theorem jira_board_delete_is_low_witness:
  "cl_ActionRisk (Classify ''jira'' ''DELETE'' ''/rest/agile/1.0/board/5'' []) = ''LOW''"
proof -
  have "ToLower (TrimSpace ''jira'') = ''jira''" "isJiraAgilePath (newClassifyInput ''DELETE'' ''/rest/agile/1.0/board/5'' [])"
    "''board'' \<in> set (ci_pathTokens (newClassifyInput ''DELETE'' ''/rest/agile/1.0/board/5'' []))"
    "''sprint'' \<notin> set (ci_pathTokens (newClassifyInput ''DELETE'' ''/rest/agile/1.0/board/5'' []))"
    by code_simp+
  from jira_board_delete_is_low [OF this] show ?thesis by simp
qed

theorem path_query_is_ignored_witness:
  "cl_ActionRisk (Classify ''crm'' ''GET'' ''/customers?format=csv'' []) = ''LOW'' \<and>
   cl_ActionRisk (Classify ''crm'' ''GET'' ''/customers'' ''format=csv'') = ''CRITICAL''"
proof -
  have "plain_path ''/customers''" "plain_query ''format=csv''" by code_simp+
  from path_query_is_ignored [OF this, of "''crm''" "''GET''" "[]"]
  have "cl_ActionRisk (Classify ''crm'' ''GET'' ''/customers?format=csv'' []) = cl_ActionRisk (Classify ''crm'' ''GET'' ''/customers'' [])"
    by simp
  also have "\<dots> = ''LOW''" by code_simp
  finally show ?thesis by (rule conjI) code_simp
qed

theorem segments_are_normal_witness:
  "ci_segments (newClassifyInput ''GET'' ''/a/../B//%2e/export'' []) = [''b'', ''export''] \<and> proper_segment ''export''"
proof
  show e: "ci_segments (newClassifyInput ''GET'' ''/a/../B//%2e/export'' []) = [''b'', ''export'']" by code_simp
  from segments_are_normal [of "''GET''" "''/a/../B//%2e/export''" "[]"] e show "proper_segment ''export''" by simp
qed

end
