(* ===== verification/Policy_Compiler.thy ===== *)
theory Policy_Compiler
  imports Classification Go_Json
begin

text \<open>
  The structured policy compiler (\<open>src/internal/policy/compiler\<close>): the schema of a
  structured policy, its validation, and the Rego module it is rendered into. The module is
  text; the meaning that module has for the policy engine is stated in \<open>Policy_Meaning\<close>
  over a syntax of the emitted fragment, whose printed form is shown to be exactly the text
  rendered here. Strings are taken to be ASCII where \<open>strconv.Quote\<close> asks whether a
  character is printable; bytes of longer UTF-8 sequences count as printable.
\<close>

subsection \<open>Quoting\<close>

text \<open>\<open>strconv.Quote\<close>.\<close>

definition go_quote_char :: "char \<Rightarrow> string" where
  "go_quote_char c =
     (if c = quote_mark \<or> c = backslash then [backslash, c]
      else if c = CHR 0x07 then [backslash, CHR ''a'']
      else if c = CHR 0x08 then [backslash, CHR ''b'']
      else if c = CHR 0x0C then [backslash, CHR ''f'']
      else if c = CHR 0x0A then [backslash, CHR ''n'']
      else if c = CHR 0x0D then [backslash, CHR ''r'']
      else if c = CHR 0x09 then [backslash, CHR ''t'']
      else if c = CHR 0x0B then [backslash, CHR ''v'']
      else let n = (of_char c :: nat)
           in if n < 32 \<or> n = 127 then [backslash, CHR ''x'', hex_digit (n div 16), hex_digit (n mod 16)] else [c])"

definition Quote :: "string \<Rightarrow> string" where
  "Quote s = quote_mark # concat (map go_quote_char s) @ [quote_mark]"

subsection \<open>Schema\<close>

record matcher =
  mt_ToolIDs :: "string list"
  mt_ActionTypes :: "string list"
  mt_ActionRisks :: "string list"

record approval_constraint =
  av_ExpiresInSeconds :: int
  av_Reason :: string

record structured_rule =
  sr_ID :: string
  sr_Priority :: int
  sr_Effect :: string
  sr_Match :: matcher
  sr_Reason :: string
  sr_Approval :: "approval_constraint option"

record structured_policy =
  sp_SchemaVersion :: string
  sp_OutputVersion :: string
  sp_DefaultEffect :: string
  sp_Rules :: "structured_rule list"
  sp_AppendRiskFallbacks :: "bool option"

definition appendRiskFallbacks :: "structured_policy \<Rightarrow> bool" where
  "appendRiskFallbacks p = (case sp_AppendRiskFallbacks p of None \<Rightarrow> True | Some b \<Rightarrow> b)"

definition outputVersion :: "structured_policy \<Rightarrow> string" where
  "outputVersion p = (if sp_OutputVersion p = [] then ''2026-01-20'' else sp_OutputVersion p)"

definition matcher_IsEmpty :: "matcher \<Rightarrow> bool" where
  "matcher_IsEmpty m = (mt_ToolIDs m = [] \<and> mt_ActionTypes m = [] \<and> mt_ActionRisks m = [])"

definition RuleDefaultDeny :: string where "RuleDefaultDeny = ''rule_default_deny''"
definition RuleDefaultAllow :: string where "RuleDefaultAllow = ''rule_default_allow''"
definition RuleDefaultApproval :: string where "RuleDefaultApproval = ''rule_default_require_approval''"
definition RuleHighRiskUnknown :: string where "RuleHighRiskUnknown = ''rule_high_risk_unknown''"
definition RuleCriticalRiskUnknown :: string where "RuleCriticalRiskUnknown = ''rule_critical_risk_unknown''"

definition FallbackRuleIDs :: "string list" where
  "FallbackRuleIDs = [RuleDefaultDeny, RuleHighRiskUnknown, RuleCriticalRiskUnknown]"

subsection \<open>Validation\<close>

text \<open>A validation error is its map of field names to messages; the policy is valid when the
  map is empty.\<close>

type_synonym field_errors = "(string \<times> string) list"

definition validEffects :: "string list" where
  "validEffects = [''ALLOW'', ''DENY'', ''REQUIRE_APPROVAL'']"

definition validRisks :: "string list" where
  "validRisks = [''LOW'', ''MEDIUM'', ''HIGH'', ''CRITICAL'']"

definition reservedRuleIDs :: "string list" where
  "reservedRuleIDs = [RuleDefaultDeny, RuleDefaultAllow, RuleDefaultApproval, RuleHighRiskUnknown, RuleCriticalRiskUnknown]"

definition lower_letter :: "char \<Rightarrow> bool" where
  "lower_letter c = (97 \<le> (of_char c :: nat) \<and> (of_char c :: nat) \<le> 122)"

definition upper_letter :: "char \<Rightarrow> bool" where
  "upper_letter c = (65 \<le> (of_char c :: nat) \<and> (of_char c :: nat) \<le> 90)"

definition ruleIDPattern :: "string \<Rightarrow> bool" where
  "ruleIDPattern s = (s \<noteq> [] \<and> length s \<le> 64 \<and> list_all (\<lambda>c. lower_letter c \<or> is_digit c \<or> c = CHR ''_'') s)"

definition actionPrefixPattern :: "string \<Rightarrow> bool" where
  "actionPrefixPattern s =
     (HasSuffix s ''.*'' \<and>
      (case TrimSuffix s ''.*'' of
         [] \<Rightarrow> False
       | c # t \<Rightarrow> upper_letter c \<and> list_all (\<lambda>c. upper_letter c \<or> is_digit c \<or> c = CHR ''_'') t))"

definition effect_error :: string where "effect_error = ''must be ALLOW, DENY, or REQUIRE_APPROVAL''"

definition validateRuleID :: "string \<Rightarrow> string \<Rightarrow> field_errors \<times> string list \<Rightarrow> field_errors \<times> string list" where
  "validateRuleID path i = (\<lambda>(errs, seen).
     if \<not> ruleIDPattern i then (set_key (path @ ''.id'') ''must match ^[a-z0-9_]{1,64}$'' errs, seen)
     else if i \<in> set reservedRuleIDs then (set_key (path @ ''.id'') ''must not use a reserved rule id'' errs, seen)
     else (if i \<in> set seen then set_key (path @ ''.id'') ''duplicate rule id'' errs else errs, i # seen))"

fun validateActionTypes :: "string \<Rightarrow> string list \<Rightarrow> field_errors \<Rightarrow> field_errors" where
  "validateActionTypes path [] errs = errs"
| "validateActionTypes path (aty # values) errs =
     (if aty \<in> set ActionTypes \<or> actionPrefixPattern aty then validateActionTypes path values errs
      else set_key (path @ ''.match.action_types'')
        (''unknown action type '' @ Quote aty @ '' (use a known type or a prefix like '' @ Quote ''MCP.*'' @ '')'') errs)"

fun validateActionRisks :: "string \<Rightarrow> string list \<Rightarrow> field_errors \<Rightarrow> field_errors" where
  "validateActionRisks path [] errs = errs"
| "validateActionRisks path (risk # values) errs =
     (if risk \<in> set validRisks then validateActionRisks path values errs
      else set_key (path @ ''.match.action_risks'')
        (''unknown risk '' @ Quote risk @ '' (use LOW, MEDIUM, HIGH, or CRITICAL)'') errs)"

definition validateApproval :: "string \<Rightarrow> structured_rule \<Rightarrow> field_errors \<Rightarrow> field_errors" where
  "validateApproval path r errs =
     (case sr_Approval r of
        None \<Rightarrow> errs
      | Some a \<Rightarrow>
          if sr_Effect r \<noteq> ''REQUIRE_APPROVAL''
          then set_key (path @ ''.approval'') ''approval is only valid for REQUIRE_APPROVAL rules'' errs
          else if av_ExpiresInSeconds a \<noteq> 0 \<and> (av_ExpiresInSeconds a < 60 \<or> av_ExpiresInSeconds a > 86400)
          then set_key (path @ ''.approval.expires_in_seconds'') ''must be between 60 and 86400'' errs
          else errs)"

definition validateRule :: "string \<Rightarrow> structured_rule \<Rightarrow> field_errors \<times> string list \<Rightarrow> field_errors \<times> string list" where
  "validateRule path r acc =
     (let (errs1, seen) = validateRuleID path (sr_ID r) acc;
          errs2 = (if sr_Effect r \<in> set validEffects then errs1 else set_key (path @ ''.effect'') effect_error errs1);
          errs3 = (if sr_Priority r < 0 \<or> sr_Priority r > 999
                     then set_key (path @ ''.priority'') ''must be between 0 and 999'' errs2 else errs2);
          errs4 = validateActionTypes path (mt_ActionTypes (sr_Match r)) errs3;
          errs5 = validateActionRisks path (mt_ActionRisks (sr_Match r)) errs4
      in (validateApproval path r errs5, seen))"

fun validateRules :: "nat \<Rightarrow> structured_rule list \<Rightarrow> field_errors \<times> string list \<Rightarrow> field_errors \<times> string list" where
  "validateRules i [] acc = acc"
| "validateRules i (r # rs) acc = validateRules (Suc i) rs (validateRule (''rules['' @ nat_text i @ '']'') r acc)"

definition Validate :: "structured_policy \<Rightarrow> field_errors" where
  "Validate p =
     (let errs = (if sp_DefaultEffect p \<in> set validEffects then [] else [(''default_effect'', effect_error)])
      in fst (validateRules 0 (sp_Rules p) (errs, [])))"

subsection \<open>Rendering\<close>

definition codeForEffect :: "string \<Rightarrow> string" where
  "codeForEffect e =
     (if e = ''ALLOW'' then ''ALLOW'' else if e = ''DENY'' then ''DENY''
      else if e = ''REQUIRE_APPROVAL'' then ''APPROVAL_REQUIRED'' else ''UNKNOWN'')"

definition messageForRule :: "structured_rule \<Rightarrow> string" where
  "messageForRule r =
     (if TrimSpace (sr_Reason r) \<noteq> [] then sr_Reason r
      else ''Policy: '' @ sr_Effect r @ '' by rule '' @ sr_ID r)"

text \<open>A set of strings as the ordered list of its elements.\<close>

definition dedupeSorted :: "string list \<Rightarrow> string list" where
  "dedupeSorted values = sort_Strings (remdups values)"

definition splitActionTypes :: "string list \<Rightarrow> string list \<times> string list" where
  "splitActionTypes actionTypes =
     (dedupeSorted (filter (\<lambda>aty. \<not> HasSuffix aty ''.*'') actionTypes),
      dedupeSorted (map (\<lambda>aty. TrimSuffix aty ''*'') (filter (\<lambda>aty. HasSuffix aty ''.*'') actionTypes)))"

definition needsActionHelper :: "string list \<Rightarrow> string list \<Rightarrow> bool" where
  "needsActionHelper exact prefs = (length prefs + (if exact \<noteq> [] then 1 else 0) > 1)"

definition actionHelperName :: "string \<Rightarrow> string" where
  "actionHelperName ruleID = ''action_match_'' @ ruleID"

definition regoStringSet :: "string list \<Rightarrow> string" where
  "regoStringSet values = ''{'' @ Join '', '' (map Quote values) @ ''}''"

definition toolCondition :: "string list \<Rightarrow> string" where
  "toolCondition toolIDs =
     (case dedupeSorted toolIDs of
        [] \<Rightarrow> []
      | [v] \<Rightarrow> ''input.tool_id == '' @ Quote v
      | vs \<Rightarrow> ''input.tool_id in '' @ regoStringSet vs)"

definition riskCondition :: "string list \<Rightarrow> string" where
  "riskCondition risks =
     (case dedupeSorted risks of
        [] \<Rightarrow> []
      | [v] \<Rightarrow> ''input.action_risk == '' @ Quote v
      | vs \<Rightarrow> ''input.action_risk in '' @ regoStringSet vs)"

definition actionTypeCondition :: "structured_rule \<Rightarrow> string" where
  "actionTypeCondition r =
     (let (exact, prefs) = splitActionTypes (mt_ActionTypes (sr_Match r))
      in if exact = [] \<and> prefs = [] then []
         else if needsActionHelper exact prefs then actionHelperName (sr_ID r)
         else case prefs of
                [p] \<Rightarrow> ''startswith(input.action_type, '' @ Quote p @ '')''
              | _ \<Rightarrow> ''input.action_type in '' @ regoStringSet exact)"

definition ruleConditions :: "structured_rule \<Rightarrow> string list" where
  "ruleConditions r =
     filter (\<lambda>c. c \<noteq> []) [toolCondition (mt_ToolIDs (sr_Match r)), actionTypeCondition r, riskCondition (mt_ActionRisks (sr_Match r))]"

abbreviation (input) tab :: string where "tab \<equiv> [CHR 0x09]"
abbreviation (input) newline :: string where "newline \<equiv> [CHR 0x0A]"

definition ruleBody :: "structured_rule \<Rightarrow> string" where
  "ruleBody r =
     (case ruleConditions r of
        [] \<Rightarrow> tab @ ''true'' @ newline
      | conds \<Rightarrow> concat (map (\<lambda>c. tab @ c @ newline) conds))"

definition approvalConstraints :: "approval_constraint \<Rightarrow> string" where
  "approvalConstraints a =
     (let ttl = (if av_ExpiresInSeconds a = 0 then 900 else av_ExpiresInSeconds a);
          reason = (if TrimSpace (av_Reason a) = [] then ''Approval required'' else av_Reason a)
      in ''{'' @ Quote ''approval'' @ '': {'' @ Quote ''expires_in_seconds'' @ '': '' @ int_text ttl @ '', '' @
         Quote ''reason'' @ '': '' @ Quote reason @ ''}}'')"

definition ruleHead :: "structured_rule \<Rightarrow> string" where
  "ruleHead r =
     (let args = Quote (sr_Effect r) @ '', req_risk, '' @ Quote (sr_ID r) @ '', '' @ int_text (sr_Priority r) @ '', '' @
                 Quote (codeForEffect (sr_Effect r)) @ '', '' @ Quote (messageForRule r)
      in case sr_Approval r of
           Some a \<Rightarrow>
             if sr_Effect r = ''REQUIRE_APPROVAL'' then ''decision_obj_c('' @ args @ '', '' @ approvalConstraints a @ '')''
             else ''decision_obj('' @ args @ '')''
         | None \<Rightarrow> ''decision_obj('' @ args @ '')'')"

text \<open>One clause of the decision chain: the first is the rule, the others are its \<open>else\<close>
  branches.\<close>

definition clause_text :: "bool \<Rightarrow> string \<Rightarrow> string \<Rightarrow> string" where
  "clause_text first head body =
     (if first then ''decision := '' else '' else := '') @ head @ '' if {'' @ newline @ body @ ''}''"

fun rule_chain :: "bool \<Rightarrow> structured_rule list \<Rightarrow> string" where
  "rule_chain first [] = []"
| "rule_chain first (r # rs) = clause_text first (ruleHead r) (ruleBody r) @ rule_chain False rs"

definition writeRiskFallback :: "bool \<Rightarrow> string \<Rightarrow> string \<Rightarrow> string \<Rightarrow> string" where
  "writeRiskFallback first ruleID risk code =
     clause_text first
       (''decision_obj('' @ Quote ''REQUIRE_APPROVAL'' @ '', req_risk, '' @ Quote ruleID @ '', '' @ int_text 80 @ '', '' @
        Quote code @ '', '' @ Quote ''Policy: approval required for high/critical risk'' @ '')'')
       (tab @ ''req_risk == '' @ Quote risk @ newline)"

definition defaultRuleMeta :: "string \<Rightarrow> string \<times> string" where
  "defaultRuleMeta e =
     (if e = ''ALLOW'' then (RuleDefaultAllow, ''DEFAULT_ALLOW'')
      else if e = ''REQUIRE_APPROVAL'' then (RuleDefaultApproval, ''DEFAULT_REQUIRE_APPROVAL'')
      else (RuleDefaultDeny, ''DEFAULT_DENY''))"

definition writeDefaultRule :: "structured_policy \<Rightarrow> bool \<Rightarrow> string" where
  "writeDefaultRule p first =
     (let (ruleID, code) = defaultRuleMeta (sp_DefaultEffect p);
          message = ''Default '' @ ToLower (sp_DefaultEffect p) @ '': no matching rule''
      in (if first then ''decision := '' else '' else := '') @ ''decision_obj('' @ Quote (sp_DefaultEffect p) @ '', '' @
         Quote ''MEDIUM'' @ '', '' @ Quote ruleID @ '', '' @ int_text 0 @ '', '' @ Quote code @ '', '' @ Quote message @ '')'')"

definition writeDecisionChain :: "structured_policy \<Rightarrow> structured_rule list \<Rightarrow> string" where
  "writeDecisionChain p ordered =
     rule_chain True ordered @
     (if appendRiskFallbacks p
      then writeRiskFallback (ordered = []) RuleHighRiskUnknown ''HIGH'' ''HIGH_RISK_UNKNOWN'' @
           writeRiskFallback False RuleCriticalRiskUnknown ''CRITICAL'' ''CRITICAL_RISK_UNKNOWN''
      else []) @
     writeDefaultRule p (ordered = [] \<and> \<not> appendRiskFallbacks p) @ newline"

definition action_helper_text :: "structured_rule \<Rightarrow> string" where
  "action_helper_text r =
     (let (exact, prefs) = splitActionTypes (mt_ActionTypes (sr_Match r)); name = actionHelperName (sr_ID r)
      in if \<not> needsActionHelper exact prefs then []
         else (if exact \<noteq> [] then name @ '' if input.action_type in '' @ regoStringSet exact @ newline else []) @
           concat (map (\<lambda>p. name @ '' if startswith(input.action_type, '' @ Quote p @ '')'' @ newline) prefs) @ newline)"

definition writeActionMatchHelpers :: "structured_rule list \<Rightarrow> string" where
  "writeActionMatchHelpers ordered = concat (map action_helper_text ordered)"

definition writeHelpers :: "string \<Rightarrow> string" where
  "writeHelpers version =
     ''decision_obj(decision, risk, rule_id, priority, code, message) := '' @
     ''decision_obj_c(decision, risk, rule_id, priority, code, message, {})'' @ newline @ newline @
     ''decision_obj_c(decision, risk, rule_id, priority, code, message, constraints) := {'' @ newline @
     tab @ Quote ''version'' @ '': '' @ Quote version @ '','' @ newline @
     tab @ Quote ''decision'' @ '': decision,'' @ newline @
     tab @ Quote ''risk'' @ '': risk,'' @ newline @
     tab @ Quote ''rule'' @ '': {'' @ Quote ''id'' @ '': rule_id, '' @ Quote ''priority'' @ '': priority},'' @ newline @
     tab @ Quote ''reasons'' @ '': [{'' @ Quote ''code'' @ '': code, '' @ Quote ''message'' @ '': message}],'' @ newline @
     tab @ Quote ''constraints'' @ '': constraints,'' @ newline @
     tab @ Quote ''tags'' @ '': []'' @ newline @
     ''}'' @ newline @ newline"

definition render :: "structured_policy \<Rightarrow> structured_rule list \<Rightarrow> string" where
  "render p ordered =
     ''package rbitr.policy'' @ newline @ newline @ ''import rego.v1'' @ newline @ newline @
     writeHelpers (outputVersion p) @
     ''req_risk := object.get(input, '' @ Quote ''action_risk'' @ '', '' @ Quote ''MEDIUM'' @ '')'' @ newline @ newline @
     writeActionMatchHelpers ordered @ writeDecisionChain p ordered"

definition sortRules :: "structured_rule list \<Rightarrow> structured_rule list" where
  "sortRules rules = SliceStable (\<lambda>a b. sr_Priority a > sr_Priority b) rules"

definition Compile :: "structured_policy \<Rightarrow> field_errors + string" where
  "Compile p = (let e = Validate p in if e \<noteq> [] then Inl e else Inr (render p (sortRules (sp_Rules p))))"

end
