(* ===== verification/Gateway_Config.thy ===== *)
theory Gateway_Config
  imports Config_Store Go_Json Go_Base64
begin

text \<open>
  What the request handlers read of the configuration and write into an answer:
  \<open>src/internal/api/public/feature_flags.go\<close>, \<open>shadow_mode.go\<close> and
  \<open>decision_explain.go\<close>, and the parts of \<open>handlers.go\<close> that make an approval request (its
  time to live, its token and the request context shown to the operator). The store is an option:
  a gateway without a store uses its static configuration.
\<close>

subsection \<open>Feature flags\<close>

record gateway_config =
  gc_BodyLimitSize :: int
  gc_DisableXTenantKey :: bool
  gc_FeatureRateLimiting :: bool
  gc_FeatureArgConstraints :: bool
  gc_FeatureFileGovernance :: bool
  gc_FeatureSessionTokens :: bool
  gc_FeatureCrossTenantChain :: bool
  gc_FeatureShadowMode :: bool

definition stored_flag :: "faults \<Rightarrow> string \<Rightarrow> bool \<Rightarrow> config_db option \<Rightarrow> bool" where
  "stored_flag flt key configured st =
     (case st of None \<Rightarrow> configured
      | Some db \<Rightarrow> (case getSystemSettingBool flt key db of Inr enabled \<Rightarrow> enabled | Inl _ \<Rightarrow> configured))"

definition disableXTenantKeyEnabled :: "faults \<Rightarrow> gateway_config \<Rightarrow> config_db option \<Rightarrow> bool" where
  "disableXTenantKeyEnabled flt cfg st = stored_flag flt ''disable_x_tenant_key'' (gc_DisableXTenantKey cfg) st"

definition featureRateLimitingEnabled :: "faults \<Rightarrow> gateway_config \<Rightarrow> config_db option \<Rightarrow> bool" where
  "featureRateLimitingEnabled flt cfg st = stored_flag flt ''feature_rate_limiting'' (gc_FeatureRateLimiting cfg) st"

definition featureArgConstraintsEnabled :: "faults \<Rightarrow> gateway_config \<Rightarrow> config_db option \<Rightarrow> bool" where
  "featureArgConstraintsEnabled flt cfg st =
     stored_flag flt ''feature_arg_constraints'' (gc_FeatureArgConstraints cfg) st"

definition featureFileGovernanceEnabled :: "faults \<Rightarrow> gateway_config \<Rightarrow> config_db option \<Rightarrow> bool" where
  "featureFileGovernanceEnabled flt cfg st =
     stored_flag flt ''feature_file_governance'' (gc_FeatureFileGovernance cfg) st"

definition featureSessionTokensEnabled :: "faults \<Rightarrow> gateway_config \<Rightarrow> config_db option \<Rightarrow> bool" where
  "featureSessionTokensEnabled flt cfg st =
     stored_flag flt ''feature_session_tokens'' (gc_FeatureSessionTokens cfg) st"

definition featureCrossTenantChainEnabled :: "gateway_config \<Rightarrow> bool" where
  "featureCrossTenantChainEnabled cfg = gc_FeatureCrossTenantChain cfg"

text \<open>Setting a flag takes effect at the next read, in either direction.\<close>

lemma stored_flag_set:
  "setSystemSettingBool flt key b db = (Inr (), db') \<Longrightarrow> stored_flag no_faults key d (Some db') = b"
  by (auto simp: setSystemSettingBool_def put_setting_def stmt_def stored_flag_def getSystemSettingBool_def
      bool_text_def split: option.splits if_splits)

subsection \<open>Shadow mode\<close>

definition normalizeEnforcementMode :: "string \<Rightarrow> string" where
  "normalizeEnforcementMode v = (if TrimSpace (ToLower v) = ''shadow'' then ''shadow'' else ''enforce'')"

definition isShadowMode :: "string \<Rightarrow> bool" where
  "isShadowMode mode = (normalizeEnforcementMode mode = ''shadow'')"

definition tenantEnforcementMode ::
  "faults \<Rightarrow> gateway_config \<Rightarrow> config_db option \<Rightarrow> string \<Rightarrow> store_error + string" where
  "tenantEnforcementMode flt cfg st tenantID =
     (if \<not> gc_FeatureShadowMode cfg then Inr ''enforce''
      else case st of None \<Rightarrow> Inr ''enforce''
      | Some db \<Rightarrow> (case GetTenantConfig flt tenantID db of
            Inl e \<Rightarrow> if e = ErrNotFound then Inr ''enforce'' else Inl e
          | Inr c \<Rightarrow> Inr (normalizeEnforcementMode (tg_EnforcementMode c))))"

lemma isShadowMode_shadow [simp]: "isShadowMode ''shadow''" "\<not> isShadowMode ''enforce''"
  by (simp_all add: isShadowMode_def normalizeEnforcementMode_def) code_simp+

lemma shadow_needs_feature:
  "tenantEnforcementMode flt cfg st tenantID = Inr mode \<Longrightarrow> isShadowMode mode \<Longrightarrow>
   gc_FeatureShadowMode cfg \<and> (\<exists>db c. st = Some db \<and> config_of db tenantID = Some c)"
  by (auto simp: tenantEnforcementMode_def GetTenantConfig_def split: option.splits if_splits)

subsection \<open>Explaining a decision\<close>

definition decisionReasonsAsMaps :: "decision_reason list \<Rightarrow> any" where
  "decisionReasonsAsMaps reasons =
     List_v (map (\<lambda>r. Map_v [(''code'', Str_v (rs_Code r)), (''message'', Str_v (rs_Message r))]) reasons)"

definition decisionMatchedRulesAsMaps :: "matched_rule list \<Rightarrow> any" where
  "decisionMatchedRulesAsMaps rules =
     List_v (map (\<lambda>r. Map_v ([(''rule_id'', Str_v (mr_RuleID r)), (''priority'', Int_v (mr_Priority r)),
                             (''effect'', Str_v (mr_Effect r))] @
                 (if mr_Reasons r = [] then [] else [(''reasons'', decisionReasonsAsMaps (mr_Reasons r))]) @
                 (if mr_ConstraintsSummary r = [] then []
                  else [(''constraints_summary'', Map_v (mr_ConstraintsSummary r))]))) rules)"

definition withMatchedRulesConstraint :: "gomap \<Rightarrow> matched_rule list \<Rightarrow> gomap" where
  "withMatchedRulesConstraint constraints rules =
     (if rules = [] then constraints else set_key ''matched_rules'' (decisionMatchedRulesAsMaps rules) constraints)"

definition matchedRulesFromConstraints :: "gomap \<Rightarrow> gomap list" where
  "matchedRulesFromConstraints constraints =
     (case map_of constraints ''matched_rules'' of
        Some (List_v xs) \<Rightarrow> concat (map (\<lambda>v. case v of Map_v m \<Rightarrow> [m] | _ \<Rightarrow> []) xs)
      | _ \<Rightarrow> [])"

definition buildShadowDecisionMetadata ::
  "string \<Rightarrow> string \<Rightarrow> string \<Rightarrow> decision_reason list \<Rightarrow> gomap \<Rightarrow> gomap" where
  "buildShadowDecisionMetadata ruleID risk policyVersion reasons constraints =
     [(''mode'', Str_v ''shadow''), (''enforced'', Bool_v False), (''original_decision'', Str_v ''DENY''),
      (''reasons'', decisionReasonsAsMaps reasons)] @
     (if ruleID = [] then [] else [(''rule_id'', Str_v ruleID)]) @
     (if risk = [] then [] else [(''risk'', Str_v risk)]) @
     (if policyVersion = [] then [] else [(''policy_version'', Str_v policyVersion)]) @
     (if constraints = [] then [] else [(''constraints'', Map_v constraints)])"

text \<open>The explanation can be read back: every matched rule appears, in order, with its id,
  priority and effect.\<close>

lemma matched_rules_round_trip:
  assumes "rules \<noteq> []"
  shows "map (\<lambda>m. (index_map m ''rule_id'', index_map m ''priority'', index_map m ''effect''))
      (matchedRulesFromConstraints (withMatchedRulesConstraint constraints rules)) =
    map (\<lambda>r. (Str_v (mr_RuleID r), Int_v (mr_Priority r), Str_v (mr_Effect r))) rules"
  using assms
  by (simp add: withMatchedRulesConstraint_def matchedRulesFromConstraints_def decisionMatchedRulesAsMaps_def
      comp_def index_map_def)

subsection \<open>Approval requests\<close>

definition go_second :: int where "go_second = 1000000000"
definition defaultApprovalTTL :: int where "defaultApprovalTTL = 15 * 60 * go_second"

text \<open>A duration is an \<open>int64\<close> number of nanoseconds: the multiplication wraps around.\<close>

definition seconds_duration :: "int \<Rightarrow> int" where
  "seconds_duration s = wrap64 (s * go_second)"

definition defaultApprovalTTLFromStore :: "faults \<Rightarrow> config_db option \<Rightarrow> int" where
  "defaultApprovalTTLFromStore flt st =
     (case st of None \<Rightarrow> defaultApprovalTTL
      | Some db \<Rightarrow> (case GetDefaultApprovalTTLSeconds flt db of
            Inl _ \<Rightarrow> defaultApprovalTTL
          | Inr seconds \<Rightarrow> if seconds \<le> 0 then defaultApprovalTTL else seconds_duration seconds))"

definition approvalTTL :: "faults \<Rightarrow> config_db option \<Rightarrow> gomap \<Rightarrow> int" where
  "approvalTTL flt st constraints =
     (let dflt = defaultApprovalTTLFromStore flt st in
      case map_of constraints ''approval'' of
        None \<Rightarrow> dflt
      | Some rawApproval \<Rightarrow>
          (case as_map rawApproval of
             None \<Rightarrow> dflt
           | Some approval \<Rightarrow>
               (case map_of approval ''expires_in_seconds'' of
                  None \<Rightarrow> dflt
                | Some rawTTL \<Rightarrow>
                    (case rawTTL of
                       Float_v r \<Rightarrow> if r > 0 then seconds_duration (float_to_int r) else dflt
                     | Int_v i \<Rightarrow> if i > 0 then seconds_duration i else dflt
                     | Number_v n \<Rightarrow> (case ParseInt n of
                           None \<Rightarrow> dflt
                         | Some i \<Rightarrow> if i > 0 then seconds_duration i else dflt)
                     | _ \<Rightarrow> dflt))))"

definition generateApprovalToken :: "string option \<Rightarrow> string option" where
  "generateApprovalToken random = map_option EncodeToString random"

definition isSensitiveApprovalContextHeader :: "string \<Rightarrow> bool" where
  "isSensitiveApprovalContextHeader name =
     (ToLower (TrimSpace name) \<in> {''authorization'', ''proxy-authorization'', ''x-api-key'', ''api-key'',
        ''x-admin-key'', ''x-tenant-key'', ''cookie'', ''set-cookie''})"

definition redactApprovalContextHeaders :: "headers \<Rightarrow> headers" where
  "redactApprovalContextHeaders hs =
     map (\<lambda>(k, v). (k, if isSensitiveApprovalContextHeader k then ''[REDACTED]'' else v)) hs"

definition buildApprovalRequestContext :: "tool_call_request \<Rightarrow> gomap" where
  "buildApprovalRequestContext payload =
     [(''http_method'', Str_v (tq_HTTPMethod payload)), (''path'', Str_v (tq_Path payload)),
      (''query'', Str_v (tq_Query payload))] @
     (if tq_Headers payload = [] then []
      else [(''headers'', Map_v (map (\<lambda>(k, v). (k, Str_v v)) (redactApprovalContextHeaders (tq_Headers payload))))]) @
     (let body = TrimSpace (tq_Body payload)
      in if body = [] then []
         else case UnmarshalAny body of
                Some v \<Rightarrow> [(''body_json'', v)]
              | None \<Rightarrow> [(''body'', Str_v (tq_Body payload))])"

lemma approvalTTL_literal:
  assumes "ParseInt n = Some s" and "0 < s" and "as_map (index_map constraints ''approval'') = Some approval"
    and "map_of approval ''expires_in_seconds'' = Some (Number_v n)"
  shows "approvalTTL flt st constraints = seconds_duration s"
  using assms by (auto simp: approvalTTL_def Let_def index_map_def split: option.splits)

lemma seconds_duration_exact: "0 \<le> s \<Longrightarrow> s \<le> 9223372036 \<Longrightarrow> seconds_duration s = s * go_second"
  unfolding seconds_duration_def go_second_def
  by (rule wrap64_id) (simp add: in_int64_def min_int64_def max_int64_def)

lemma seconds_duration_overflow: "seconds_duration 9223372037 < 0"
  unfolding seconds_duration_def go_second_def wrap64_def min_int64_def by simp

end
