(* ===== verification/Policy_Meaning.thy ===== *)
theory Policy_Meaning
  imports Policy_Compiler Policy_Eval Gateway_Config
begin

text \<open>
  What a compiled structured policy means. The compiler emits a small fragment of Rego: helper
  rules, and one decision rule with \<open>else\<close> branches. The fragment is given a syntax, its
  printed form is shown to be the text \<open>Policy_Compiler.render\<close> writes, and its documented
  meaning is \<open>module_value\<close>: the first branch whose conditions all hold decides. The
  theorems relate that value to the structured policy: the matching rule of highest priority
  governs, and the gateway parses its decision from the value. That the policy engine gives a
  module of this form this meaning is the hypothesis \<open>opa_reads\<close>.
\<close>

subsection \<open>The emitted fragment\<close>

datatype rego_cond =
    Cond_eq string string
  | Cond_in string "string list"
  | Cond_prefix string
  | Cond_helper string
  | Cond_req_risk string

datatype risk_expr = Req_risk | Const_risk string

record rego_clause =
  rc_Decision :: string
  rc_Risk :: risk_expr
  rc_RuleID :: string
  rc_Priority :: int
  rc_Code :: string
  rc_Message :: string
  rc_Approval :: "(int \<times> string) option"
  rc_Body :: "rego_cond list"

record rego_module =
  rm_Version :: string
  rm_Helpers :: "(string \<times> rego_cond) list list"
  rm_Clauses :: "rego_clause list"
  rm_Default :: rego_clause

subsection \<open>Its printed form\<close>

fun print_cond :: "rego_cond \<Rightarrow> string" where
  "print_cond (Cond_eq f v) = ''input.'' @ f @ '' == '' @ Quote v"
| "print_cond (Cond_in f vs) = ''input.'' @ f @ '' in '' @ regoStringSet vs"
| "print_cond (Cond_prefix p) = ''startswith(input.action_type, '' @ Quote p @ '')''"
| "print_cond (Cond_helper name) = name"
| "print_cond (Cond_req_risk v) = ''req_risk == '' @ Quote v"

fun print_risk :: "risk_expr \<Rightarrow> string" where
  "print_risk Req_risk = ''req_risk''"
| "print_risk (Const_risk v) = Quote v"

definition print_head :: "rego_clause \<Rightarrow> string" where
  "print_head c =
     (let args = Quote (rc_Decision c) @ '', '' @ print_risk (rc_Risk c) @ '', '' @ Quote (rc_RuleID c) @ '', '' @
            int_text (rc_Priority c) @ '', '' @ Quote (rc_Code c) @ '', '' @ Quote (rc_Message c)
      in case rc_Approval c of
           None \<Rightarrow> ''decision_obj('' @ args @ '')''
         | Some (ttl, reason) \<Rightarrow>
             ''decision_obj_c('' @ args @ '', '' @ ''{'' @ Quote ''approval'' @ '': {'' @ Quote ''expires_in_seconds'' @ '': '' @
             int_text ttl @ '', '' @ Quote ''reason'' @ '': '' @ Quote reason @ ''}}'' @ '')'')"

definition print_body :: "rego_cond list \<Rightarrow> string" where
  "print_body cs = (if cs = [] then tab @ ''true'' @ newline else concat (map (\<lambda>c. tab @ print_cond c @ newline) cs))"

fun print_clauses :: "bool \<Rightarrow> rego_clause list \<Rightarrow> string" where
  "print_clauses first [] = []"
| "print_clauses first (c # cs) = clause_text first (print_head c) (print_body (rc_Body c)) @ print_clauses False cs"

definition print_helpers :: "(string \<times> rego_cond) list \<Rightarrow> string" where
  "print_helpers hs = (if hs = [] then [] else concat (map (\<lambda>(n, c). n @ '' if '' @ print_cond c @ newline) hs) @ newline)"

definition print_module :: "rego_module \<Rightarrow> string" where
  "print_module m =
     ''package rbitr.policy'' @ newline @ newline @ ''import rego.v1'' @ newline @ newline @ writeHelpers (rm_Version m) @
     ''req_risk := object.get(input, '' @ Quote ''action_risk'' @ '', '' @ Quote ''MEDIUM'' @ '')'' @ newline @ newline @
     concat (map print_helpers (rm_Helpers m)) @ print_clauses True (rm_Clauses m) @
     (if rm_Clauses m = [] then ''decision := '' else '' else := '') @ print_head (rm_Default m) @ newline"

subsection \<open>The module of a structured policy\<close>

definition set_cond :: "string \<Rightarrow> string list \<Rightarrow> rego_cond list" where
  "set_cond f values = (case dedupeSorted values of [] \<Rightarrow> [] | [v] \<Rightarrow> [Cond_eq f v] | vs \<Rightarrow> [Cond_in f vs])"

definition type_conds :: "structured_rule \<Rightarrow> rego_cond list" where
  "type_conds r =
     (let (exact, prefs) = splitActionTypes (mt_ActionTypes (sr_Match r))
      in (if exact \<noteq> [] then [Cond_in ''action_type'' exact] else []) @ map Cond_prefix prefs)"

definition helpers_of :: "structured_rule \<Rightarrow> (string \<times> rego_cond) list" where
  "helpers_of r = (if length (type_conds r) > 1 then map (\<lambda>c. (actionHelperName (sr_ID r), c)) (type_conds r) else [])"

definition body_of :: "structured_rule \<Rightarrow> rego_cond list" where
  "body_of r =
     set_cond ''tool_id'' (mt_ToolIDs (sr_Match r)) @
     (if length (type_conds r) > 1 then [Cond_helper (actionHelperName (sr_ID r))] else type_conds r) @
     set_cond ''action_risk'' (mt_ActionRisks (sr_Match r))"

definition approval_of :: "structured_rule \<Rightarrow> (int \<times> string) option" where
  "approval_of r =
     (case sr_Approval r of
        Some a \<Rightarrow> if sr_Effect r = ''REQUIRE_APPROVAL''
          then Some (if av_ExpiresInSeconds a = 0 then 900 else av_ExpiresInSeconds a,
                     if TrimSpace (av_Reason a) = [] then ''Approval required'' else av_Reason a) else None
      | None \<Rightarrow> None)"

definition clause_of :: "structured_rule \<Rightarrow> rego_clause" where
  "clause_of r =
     \<lparr>rc_Decision = sr_Effect r, rc_Risk = Req_risk, rc_RuleID = sr_ID r, rc_Priority = sr_Priority r,
      rc_Code = codeForEffect (sr_Effect r), rc_Message = messageForRule r, rc_Approval = approval_of r, rc_Body = body_of r\<rparr>"

definition fallback_clause :: "string \<Rightarrow> string \<Rightarrow> string \<Rightarrow> rego_clause" where
  "fallback_clause ruleID risk code =
     \<lparr>rc_Decision = ''REQUIRE_APPROVAL'', rc_Risk = Req_risk, rc_RuleID = ruleID, rc_Priority = 80, rc_Code = code,
      rc_Message = ''Policy: approval required for high/critical risk'', rc_Approval = None, rc_Body = [Cond_req_risk risk]\<rparr>"

definition default_clause :: "structured_policy \<Rightarrow> rego_clause" where
  "default_clause p =
     \<lparr>rc_Decision = sp_DefaultEffect p, rc_Risk = Const_risk ''MEDIUM'', rc_RuleID = fst (defaultRuleMeta (sp_DefaultEffect p)),
      rc_Priority = 0, rc_Code = snd (defaultRuleMeta (sp_DefaultEffect p)),
      rc_Message = ''Default '' @ ToLower (sp_DefaultEffect p) @ '': no matching rule'', rc_Approval = None, rc_Body = []\<rparr>"

definition fallback_clauses :: "structured_policy \<Rightarrow> rego_clause list" where
  "fallback_clauses p =
     (if appendRiskFallbacks p
      then [fallback_clause RuleHighRiskUnknown ''HIGH'' ''HIGH_RISK_UNKNOWN'',
            fallback_clause RuleCriticalRiskUnknown ''CRITICAL'' ''CRITICAL_RISK_UNKNOWN'']
      else [])"

definition module_of :: "structured_policy \<Rightarrow> rego_module" where
  "module_of p =
     (let ordered = sortRules (sp_Rules p)
      in \<lparr>rm_Version = outputVersion p, rm_Helpers = map helpers_of ordered,
          rm_Clauses = map clause_of ordered @ fallback_clauses p, rm_Default = default_clause p\<rparr>)"

subsection \<open>Meaning of the fragment\<close>

definition req_risk :: "gomap \<Rightarrow> any" where
  "req_risk input = (case map_of input ''action_risk'' of None \<Rightarrow> Str_v ''MEDIUM'' | Some v \<Rightarrow> v)"

fun simple_holds :: "gomap \<Rightarrow> rego_cond \<Rightarrow> bool" where
  "simple_holds input (Cond_eq f v) = (map_of input f = Some (Str_v v))"
| "simple_holds input (Cond_in f vs) = list_ex (\<lambda>v. map_of input f = Some (Str_v v)) vs"
| "simple_holds input (Cond_prefix p) =
     (case map_of input ''action_type'' of Some (Str_v s) \<Rightarrow> HasPrefix s p | _ \<Rightarrow> False)"
| "simple_holds input (Cond_req_risk v) = (req_risk input = Str_v v)"
| "simple_holds input (Cond_helper name) = False"

text \<open>A helper holds when one of the rules with its name does.\<close>

fun cond_holds :: "(string \<times> rego_cond) list \<Rightarrow> gomap \<Rightarrow> rego_cond \<Rightarrow> bool" where
  "cond_holds hs input (Cond_helper name) = list_ex (\<lambda>(n, c). n = name \<and> simple_holds input c) hs"
| "cond_holds hs input c = simple_holds input c"

definition risk_value :: "gomap \<Rightarrow> risk_expr \<Rightarrow> any" where
  "risk_value input e = (case e of Req_risk \<Rightarrow> req_risk input | Const_risk v \<Rightarrow> Str_v v)"

definition constraints_value :: "(int \<times> string) option \<Rightarrow> gomap" where
  "constraints_value a =
     (case a of
        None \<Rightarrow> []
      | Some (ttl, reason) \<Rightarrow> [(''approval'', Map_v [(''expires_in_seconds'', Number_v (int_text ttl)), (''reason'', Str_v reason)])])"

definition clause_value :: "string \<Rightarrow> gomap \<Rightarrow> rego_clause \<Rightarrow> any" where
  "clause_value version input c =
     Map_v [(''version'', Str_v version), (''decision'', Str_v (rc_Decision c)), (''risk'', risk_value input (rc_Risk c)),
       (''rule'', Map_v [(''id'', Str_v (rc_RuleID c)), (''priority'', Number_v (int_text (rc_Priority c)))]),
       (''reasons'', List_v [Map_v [(''code'', Str_v (rc_Code c)), (''message'', Str_v (rc_Message c))]]),
       (''constraints'', Map_v (constraints_value (rc_Approval c))),
       (''tags'', List_v [])]"

definition deciding_clause :: "rego_module \<Rightarrow> gomap \<Rightarrow> rego_clause" where
  "deciding_clause m input =
     (case find (\<lambda>c. list_all (cond_holds (concat (rm_Helpers m)) input) (rc_Body c)) (rm_Clauses m) of
        Some c \<Rightarrow> c | None \<Rightarrow> rm_Default m)"

definition module_value :: "rego_module \<Rightarrow> gomap \<Rightarrow> any" where
  "module_value m input = clause_value (rm_Version m) input (deciding_clause m input)"

subsection \<open>The compiler prints the module\<close>

lemma set_dedupeSorted [simp]: "set (dedupeSorted xs) = set xs"
  by (simp add: dedupeSorted_def sort_Strings_def)

lemma dedupeSorted_Nil [simp]: "dedupeSorted xs = [] \<longleftrightarrow> xs = []"
  by (simp add: dedupeSorted_def sort_Strings_def)

lemma dedupeSorted_empty [simp]: "dedupeSorted [] = []"
  by simp

lemma print_set_cond: "filter (\<lambda>c. c \<noteq> []) [toolCondition vs] = map print_cond (set_cond ''tool_id'' vs)"
  "filter (\<lambda>c. c \<noteq> []) [riskCondition vs] = map print_cond (set_cond ''action_risk'' vs)"
  by (auto simp: toolCondition_def riskCondition_def set_cond_def split: list.splits)

lemma length_type_conds:
  "splitActionTypes (mt_ActionTypes (sr_Match r)) = (exact, prefs) \<Longrightarrow> length (type_conds r) > 1 \<longleftrightarrow> needsActionHelper exact prefs"
  by (auto simp: type_conds_def needsActionHelper_def)

lemma print_type_cond:
  "filter (\<lambda>c. c \<noteq> []) [actionTypeCondition r] =
   map print_cond (if length (type_conds r) > 1 then [Cond_helper (actionHelperName (sr_ID r))] else type_conds r)"
proof -
  obtain exact prefs where e: "splitActionTypes (mt_ActionTypes (sr_Match r)) = (exact, prefs)" by force
  show ?thesis
  proof (cases "needsActionHelper exact prefs")
    case True
    then show ?thesis using length_type_conds [OF e]
      by (auto simp: actionTypeCondition_def e actionHelperName_def needsActionHelper_def)
  next
    case False
    then show ?thesis using length_type_conds [OF e]
      by (cases prefs) (auto simp: actionTypeCondition_def e type_conds_def needsActionHelper_def split: list.splits)
  qed
qed

lemma print_body_of: "ruleBody r = print_body (body_of r)"
proof -
  have c: "ruleConditions r = map print_cond (body_of r)"
    unfolding ruleConditions_def body_of_def map_append print_set_cond [symmetric] print_type_cond [symmetric] by simp
  show ?thesis
    unfolding ruleBody_def c print_body_def by (cases "body_of r") (simp_all add: comp_def)
qed

lemma print_head_of: "ruleHead r = print_head (clause_of r)"
  by (simp add: ruleHead_def print_head_def clause_of_def approval_of_def approvalConstraints_def Let_def split: option.splits)

lemma print_rule_chain: "rule_chain first rs = print_clauses first (map clause_of rs)"
  by (induction rs arbitrary: first) (simp_all add: print_head_of print_body_of clause_of_def)

lemma print_clauses_append:
  "print_clauses first (cs @ ds) = print_clauses first cs @ print_clauses (first \<and> cs = []) ds"
  by (induction cs arbitrary: first) simp_all

lemma print_fallback:
  "writeRiskFallback first ruleID risk code =
   clause_text first (print_head (fallback_clause ruleID risk code)) (print_body (rc_Body (fallback_clause ruleID risk code)))"
  by (simp add: writeRiskFallback_def print_head_def print_body_def fallback_clause_def Let_def)

lemma print_default:
  "writeDefaultRule p first = (if first then ''decision := '' else '' else := '') @ print_head (default_clause p)"
  by (simp add: writeDefaultRule_def print_head_def default_clause_def Let_def case_prod_beta)

lemma print_chain:
  "writeDecisionChain p rs =
   print_clauses True (map clause_of rs @ fallback_clauses p) @
   (if map clause_of rs @ fallback_clauses p = [] then ''decision := '' else '' else := '') @ print_head (default_clause p) @ newline"
  by (simp add: writeDecisionChain_def print_clauses_append print_rule_chain print_fallback print_default fallback_clauses_def)

lemma print_action_helpers: "action_helper_text r = print_helpers (helpers_of r)"
proof -
  obtain exact prefs where e: "splitActionTypes (mt_ActionTypes (sr_Match r)) = (exact, prefs)" by force
  show ?thesis
    using length_type_conds [OF e]
    by (auto simp: action_helper_text_def print_helpers_def helpers_of_def e type_conds_def comp_def needsActionHelper_def Let_def)
qed

lemma print_all_helpers: "writeActionMatchHelpers rs = concat (map print_helpers (map helpers_of rs))"
  by (induction rs) (simp_all add: writeActionMatchHelpers_def print_action_helpers)

lemma render_prints_module: "render p (sortRules (sp_Rules p)) = print_module (module_of p)"
  by (simp add: render_def print_module_def module_of_def Let_def print_all_helpers print_chain)

subsection \<open>Which rule governs\<close>

definition field_in :: "gomap \<Rightarrow> string \<Rightarrow> string list \<Rightarrow> bool" where
  "field_in input f vs = (vs = [] \<or> (\<exists>v\<in>set vs. map_of input f = Some (Str_v v)))"

definition type_matches :: "gomap \<Rightarrow> string \<Rightarrow> bool" where
  "type_matches input t =
     (case map_of input ''action_type'' of
        Some (Str_v s) \<Rightarrow> if HasSuffix t ''.*'' then HasPrefix s (TrimSuffix t ''*'') else s = t
      | _ \<Rightarrow> False)"

definition rule_matches :: "gomap \<Rightarrow> structured_rule \<Rightarrow> bool" where
  "rule_matches input r =
     (field_in input ''tool_id'' (mt_ToolIDs (sr_Match r)) \<and>
      (mt_ActionTypes (sr_Match r) = [] \<or> (\<exists>t\<in>set (mt_ActionTypes (sr_Match r)). type_matches input t)) \<and>
      field_in input ''action_risk'' (mt_ActionRisks (sr_Match r)))"

lemma set_cond_holds: "list_all (cond_holds hs input) (set_cond f vs) \<longleftrightarrow> field_in input f vs"
proof -
  have s: "set (dedupeSorted vs) = set vs" by simp
  show ?thesis
  proof (cases "dedupeSorted vs")
    case Nil
    then show ?thesis by (simp add: set_cond_def field_in_def)
  next
    case (Cons v ws)
    with s have "vs \<noteq> []" by auto
    have "list_all (cond_holds hs input) (set_cond f vs) \<longleftrightarrow> (\<exists>v\<in>set (dedupeSorted vs). map_of input f = Some (Str_v v))"
      using Cons by (cases ws) (simp_all add: set_cond_def list_ex_iff)
    with \<open>vs \<noteq> []\<close> show ?thesis by (simp add: field_in_def)
  qed
qed

lemma simple_type_conds: "list_ex (simple_holds input) (type_conds r) \<longleftrightarrow> (\<exists>t\<in>set (mt_ActionTypes (sr_Match r)). type_matches input t)"
proof -
  let ?ts = "mt_ActionTypes (sr_Match r)"
  let ?exact = "dedupeSorted (filter (\<lambda>t. \<not> HasSuffix t ''.*'') ?ts)"
  let ?prefs = "dedupeSorted (map (\<lambda>t. TrimSuffix t ''*'') (filter (\<lambda>t. HasSuffix t ''.*'') ?ts))"
  have "list_ex (simple_holds input) (if ?exact \<noteq> [] then [Cond_in ''action_type'' ?exact] else []) \<longleftrightarrow>
      (\<exists>t\<in>set ?exact. map_of input ''action_type'' = Some (Str_v t))"
    by (cases "?exact = []") (auto simp: list_ex_iff simp del: set_dedupeSorted)
  then have e: "list_ex (simple_holds input) (if ?exact \<noteq> [] then [Cond_in ''action_type'' ?exact] else []) \<longleftrightarrow>
      (\<exists>t\<in>set ?ts. \<not> HasSuffix t ''.*'' \<and> map_of input ''action_type'' = Some (Str_v t))" by auto
  have p: "list_ex (simple_holds input) (map Cond_prefix ?prefs) \<longleftrightarrow>
      (\<exists>t\<in>set ?ts. HasSuffix t ''.*'' \<and> simple_holds input (Cond_prefix (TrimSuffix t ''*'')))"
    unfolding list_ex_iff set_map set_dedupeSorted set_filter by blast
  have "list_ex (simple_holds input) (type_conds r) \<longleftrightarrow>
      list_ex (simple_holds input) (if ?exact \<noteq> [] then [Cond_in ''action_type'' ?exact] else []) \<or>
      list_ex (simple_holds input) (map Cond_prefix ?prefs)"
    unfolding type_conds_def splitActionTypes_def Let_def prod.case list_ex_append ..
  moreover have "type_matches input t \<longleftrightarrow> \<not> HasSuffix t ''.*'' \<and> map_of input ''action_type'' = Some (Str_v t) \<or>
      HasSuffix t ''.*'' \<and> simple_holds input (Cond_prefix (TrimSuffix t ''*''))" for t
    by (auto simp: type_matches_def split: option.split any.split)
  ultimately show ?thesis unfolding e p by blast
qed

lemma type_conds_simple: "c \<in> set (type_conds r) \<Longrightarrow> cond_holds hs input c = simple_holds input c"
  by (auto simp: type_conds_def split: prod.splits if_splits)

lemma type_conds_Nil: "type_conds r = [] \<longleftrightarrow> mt_ActionTypes (sr_Match r) = []"
  by (auto simp: type_conds_def splitActionTypes_def filter_empty_conv)

lemma helper_holds:
  assumes "distinct (map sr_ID rs)" and "r \<in> set rs" and "length (type_conds r) > 1"
  shows "cond_holds (concat (map helpers_of rs)) input (Cond_helper (actionHelperName (sr_ID r))) \<longleftrightarrow>
    list_ex (simple_holds input) (type_conds r)"
proof -
  have "s = r" if "s \<in> set rs" "sr_ID s = sr_ID r" for s
    using that assms(1,2) by (metis distinct_map inj_onD)
  moreover have "helpers_of r = map (\<lambda>c. (actionHelperName (sr_ID r), c)) (type_conds r)" using assms(3) by (simp add: helpers_of_def)
  ultimately show ?thesis
    using assms(2) by (fastforce simp: list_ex_iff helpers_of_def actionHelperName_def split: if_splits)
qed

lemma body_holds:
  assumes "distinct (map sr_ID rs)" and "r \<in> set rs"
  shows "list_all (cond_holds (concat (map helpers_of rs)) input) (body_of r) \<longleftrightarrow> rule_matches input r"
proof -
  have t: "list_all (cond_holds (concat (map helpers_of rs)) input)
      (if length (type_conds r) > 1 then [Cond_helper (actionHelperName (sr_ID r))] else type_conds r) \<longleftrightarrow>
    mt_ActionTypes (sr_Match r) = [] \<or> (\<exists>t\<in>set (mt_ActionTypes (sr_Match r)). type_matches input t)"
  proof (cases "length (type_conds r) > 1")
    case True
    then have "type_conds r \<noteq> []" by auto
    with True helper_holds [OF assms True] show ?thesis by (simp add: simple_type_conds type_conds_Nil)
  next
    case False
    then consider "type_conds r = []" | c where "type_conds r = [c]" by (cases "type_conds r"; cases "tl (type_conds r)") auto
    then show ?thesis
    proof cases
      case 1
      with type_conds_Nil [of r] have "mt_ActionTypes (sr_Match r) = []" by blast
      with 1 show ?thesis by simp
    next
      case 2
      then show ?thesis
        using False type_conds_simple [of c r] simple_type_conds [of input r] type_conds_Nil [of r] by simp
    qed
  qed
  show ?thesis unfolding body_of_def list_all_append t set_cond_holds rule_matches_def by blast
qed

text \<open>A rule governs an input when it matches, no matching rule has a higher priority, and none
  before it in the policy has the same one.\<close>

definition governs :: "structured_rule list \<Rightarrow> gomap \<Rightarrow> structured_rule \<Rightarrow> bool" where
  "governs rules input r \<longleftrightarrow> rule_matches input r \<and>
     (\<exists>before after. rules = before @ r # after \<and>
        (\<forall>s\<in>set before. rule_matches input s \<longrightarrow> sr_Priority s < sr_Priority r) \<and>
        (\<forall>s\<in>set after. rule_matches input s \<longrightarrow> sr_Priority s \<le> sr_Priority r))"

interpretation priority_order: strict_weak "\<lambda>a b. sr_Priority a > sr_Priority b"
  by unfold_locales auto

lemma governsI: "rule_matches input r \<Longrightarrow> \<forall>s\<in>set rs. rule_matches input s \<longrightarrow> sr_Priority s \<le> sr_Priority r \<Longrightarrow> governs (r # rs) input r"
  unfolding governs_def by (intro conjI exI [of _ "[]"] exI [of _ rs]) auto

lemma governs_Cons:
  assumes "governs rs input s" and "rule_matches input r \<Longrightarrow> sr_Priority r < sr_Priority s"
  shows "governs (r # rs) input s"
proof -
  from assms(1) obtain before after where "rs = before @ s # after"
    "\<forall>t\<in>set before. rule_matches input t \<longrightarrow> sr_Priority t < sr_Priority s"
    "\<forall>t\<in>set after. rule_matches input t \<longrightarrow> sr_Priority t \<le> sr_Priority s" by (auto simp: governs_def)
  with assms show ?thesis unfolding governs_def by (intro conjI exI [of _ "r # before"] exI [of _ after]) auto
qed

lemma governs_priority: "governs rs input s \<Longrightarrow> t \<in> set rs \<Longrightarrow> rule_matches input t \<Longrightarrow> sr_Priority t \<le> sr_Priority s"
  by (fastforce simp: governs_def)

lemma find_sortRules:
  "case find (rule_matches input) (sortRules rs) of
     None \<Rightarrow> \<forall>r\<in>set rs. \<not> rule_matches input r | Some s \<Rightarrow> governs rs input s"
proof (induction rs)
  case Nil
  then show ?case by (simp add: sortRules_def)
next
  case (Cons r rs)
  have f: "find (rule_matches input) (sortRules (r # rs)) =
      (if rule_matches input r then (case find (rule_matches input) (sortRules rs) of None \<Rightarrow> Some r
         | Some y \<Rightarrow> if sr_Priority y > sr_Priority r then Some y else Some r)
       else find (rule_matches input) (sortRules rs))"
    unfolding sortRules_def SliceStable.simps by (rule priority_order.find_insert [OF priority_order.sort_sorted])
  show ?case
  proof (cases "find (rule_matches input) (sortRules rs)")
    case None
    with Cons f show ?thesis by (auto intro!: governsI)
  next
    case (Some s)
    with Cons have g: "governs rs input s" by simp
    have "governs (r # rs) input r" if "rule_matches input r" "sr_Priority s \<le> sr_Priority r"
      using governs_priority [OF g] that by (intro governsI) (auto intro: order_trans)
    with Some f g show ?thesis by (auto intro!: governs_Cons)
  qed
qed

lemma governs_unique:
  assumes "distinct rs" "governs rs input r" "governs rs input s"
  shows "r = s"
proof (rule ccontr)
  assume ne: "r \<noteq> s"
  obtain b1 a1 where r: "rs = b1 @ r # a1" "\<forall>t\<in>set b1. rule_matches input t \<longrightarrow> sr_Priority t < sr_Priority r"
    using assms(2) by (auto simp: governs_def)
  obtain b2 a2 where s: "rs = b2 @ s # a2" "\<forall>t\<in>set b2. rule_matches input t \<longrightarrow> sr_Priority t < sr_Priority s"
    using assms(3) by (auto simp: governs_def)
  have m: "rule_matches input r" "rule_matches input s" using assms(2,3) by (simp_all add: governs_def)
  have inr: "r \<in> set rs" "s \<in> set rs" using arg_cong [OF r(1), of set] arg_cong [OF s(1), of set] by auto
  from inr m have le: "sr_Priority r \<le> sr_Priority s" "sr_Priority s \<le> sr_Priority r"
    using governs_priority [OF assms(3)] governs_priority [OF assms(2)] by auto
  have "s \<notin> set b1" "r \<notin> set b2" using r(2) s(2) m le by fastforce+
  moreover have "s \<in> set (b1 @ r # a1)" using inr(2) unfolding r(1) .
  ultimately have "s \<in> set a1" using ne by auto
  then obtain c d where "a1 = c @ s # d" by (meson split_list)
  with r(1) s(1) have "(b1 @ r # c) @ s # d = b2 @ s # a2" by simp
  moreover have "s \<notin> set (b1 @ r # c)" "s \<notin> set d" using assms(1) r(1) \<open>a1 = c @ s # d\<close> by auto
  ultimately have "b2 = b1 @ r # c" by (metis append_Cons_eq_iff)
  with \<open>r \<notin> set b2\<close> show False by simp
qed

subsection \<open>What validation accepts\<close>

definition approval_valid :: "structured_rule \<Rightarrow> bool" where
  "approval_valid r =
     (case sr_Approval r of
        None \<Rightarrow> True
      | Some a \<Rightarrow> sr_Effect r = ''REQUIRE_APPROVAL'' \<and>
          (av_ExpiresInSeconds a = 0 \<or> 60 \<le> av_ExpiresInSeconds a \<and> av_ExpiresInSeconds a \<le> 86400))"

definition rule_valid :: "structured_rule \<Rightarrow> bool" where
  "rule_valid r =
     (ruleIDPattern (sr_ID r) \<and> sr_ID r \<notin> set reservedRuleIDs \<and> sr_Effect r \<in> set validEffects \<and>
      0 \<le> sr_Priority r \<and> sr_Priority r \<le> 999 \<and>
      list_all (\<lambda>t. t \<in> set ActionTypes \<or> actionPrefixPattern t) (mt_ActionTypes (sr_Match r)) \<and>
      list_all (\<lambda>k. k \<in> set validRisks) (mt_ActionRisks (sr_Match r)) \<and> approval_valid r)"

lemma set_key_ne [simp]: "set_key k v m \<noteq> []"
  by (simp add: set_key_def)

lemma validateActionTypes_Nil:
  "validateActionTypes path ts errs = [] \<longleftrightarrow> errs = [] \<and> list_all (\<lambda>t. t \<in> set ActionTypes \<or> actionPrefixPattern t) ts"
  by (induction ts) auto

lemma validateActionRisks_Nil:
  "validateActionRisks path ks errs = [] \<longleftrightarrow> errs = [] \<and> list_all (\<lambda>k. k \<in> set validRisks) ks"
  by (induction ks) auto

lemma validateApproval_Nil: "validateApproval path r errs = [] \<longleftrightarrow> errs = [] \<and> approval_valid r"
  by (auto simp: validateApproval_def approval_valid_def split: option.splits)

lemma validateRule_Nil:
  "fst (validateRule path r (errs, seen)) = [] \<longleftrightarrow> errs = [] \<and> rule_valid r \<and> sr_ID r \<notin> set seen"
  by (auto simp: validateRule_def validateRuleID_def rule_valid_def Let_def validateActionTypes_Nil validateActionRisks_Nil
      validateApproval_Nil not_less)

lemma validateRule_seen: "rule_valid r \<Longrightarrow> snd (validateRule path r (errs, seen)) = sr_ID r # seen"
  by (auto simp: validateRule_def validateRuleID_def rule_valid_def Let_def)

lemma validateRules_Nil:
  "fst (validateRules i rs (errs, seen)) = [] \<longleftrightarrow>
     errs = [] \<and> list_all rule_valid rs \<and> distinct (map sr_ID rs) \<and> set (map sr_ID rs) \<inter> set seen = {}"
proof (induction rs arbitrary: i errs seen)
  case (Cons r rs)
  obtain errs' seen' where v: "validateRule (''rules['' @ nat_text i @ '']'') r (errs, seen) = (errs', seen')" by force
  note nil = validateRule_Nil [of "''rules['' @ nat_text i @ '']''" r errs seen, unfolded v fst_conv]
  note seen = validateRule_seen [of r "''rules['' @ nat_text i @ '']''" errs seen, unfolded v snd_conv]
  show ?case
  proof (cases "errs' = []")
    case True
    with nil seen have "seen' = sr_ID r # seen" "errs = []" "rule_valid r" "sr_ID r \<notin> set seen" by auto
    with Cons.IH [of "Suc i" errs' seen'] True v show ?thesis by auto
  next
    case False
    with Cons.IH [of "Suc i" errs' seen'] v nil show ?thesis by auto
  qed
qed simp

text \<open>A structured policy is accepted exactly when its default effect is one of the three,
  every rule has a well-formed, unreserved id, one of the three effects, a priority from 0 to 999,
  known action types or type prefixes, known risks, and an approval constraint only on an approval
  rule and with a lifetime of a minute to a day, and no two rules share an id.\<close>

theorem Validate_accepts:
  "Validate p = [] \<longleftrightarrow>
     sp_DefaultEffect p \<in> set validEffects \<and> list_all rule_valid (sp_Rules p) \<and> distinct (map sr_ID (sp_Rules p))"
  by (auto simp: Validate_def Let_def validateRules_Nil)

subsection \<open>What a compiled policy decides\<close>

text \<open>The engine loads the module of \<open>p\<close> and evaluates it by its rules. The compiler writes strings with
  \<open>strconv.Quote\<close>, whose escapes for the bell, the vertical tab and other control or invalid bytes are
  not escapes of a Rego string: for a policy with such a character in an id, a reason or a matcher the
  engine refuses the module (\<open>quote_go_only\<close>), so the hypothesis speaks of policies without them.\<close>

lemma quote_go_only:
  "Quote [CHR 0x07] = [quote_mark, backslash, CHR ''a'', quote_mark]"
  "Quote [CHR 0x0B] = [quote_mark, backslash, CHR ''v'', quote_mark]"
  "Quote [CHR 0x01] = [quote_mark, backslash, CHR ''x'', CHR ''0'', CHR ''1'', quote_mark]"
  by code_simp+


definition opa_reads :: "'q rego_engine \<Rightarrow> structured_policy \<Rightarrow> bool" where
  "opa_reads rg p \<longleftrightarrow>
     (\<exists>q. rg_Prepare rg (print_module (module_of p)) = Inr q \<and>
          (\<forall>input. rg_Eval rg q input = Inr (Some (module_value (module_of p) input))))"

definition clause_ok :: "rego_clause \<Rightarrow> bool" where
  "clause_ok c = (isDecisionAllowed (rc_Decision c) \<and> rc_RuleID c \<noteq> [] \<and> in_int64 (rc_Priority c) \<and>
     rc_Code c \<noteq> [] \<and> rc_Message c \<noteq> [])"

lemma outputVersion_ne: "outputVersion p \<noteq> []"
  by (simp add: outputVersion_def)

lemma parse_clause_value:
  assumes "version \<noteq> []" and "clause_ok c" and "risk_value input (rc_Risk c) = Str_v k" and "isRiskAllowed k"
  shows "\<exists>r. parseResult (Some (clause_value version input c)) = Inr r \<and> or_Decision r = rc_Decision c \<and> or_Risk r = k \<and>
    or_Rule r = \<lparr>dr_ID = rc_RuleID c, dr_Priority = rc_Priority c\<rparr> \<and> or_Constraints r = constraints_value (rc_Approval c)"
proof -
  have ne: "rc_Decision c \<noteq> []" "k \<noteq> []" using assms(2,4) by (auto simp: clause_ok_def isDecisionAllowed_def isRiskAllowed_def)
  show ?thesis
    using assms ne
    by (simp add: parseResult_def clause_value_def parse_fields_def parseMatchedRules_def with_rules_def resolveDecision_def
        parseReasons_def parse_reason_def required_string_def index_map_def need_def check_r_def clause_ok_def)
qed

lemma small_int64: "0 \<le> i \<Longrightarrow> i \<le> 86400 \<Longrightarrow> in_int64 i"
  by (simp add: in_int64_def min_int64_def max_int64_def)

lemma messageForRule_ne: "messageForRule r \<noteq> []"
  by (auto simp: messageForRule_def TrimSpace_def trim_left_def trim_right_def)

lemma rule_clause_ok: "rule_valid r \<Longrightarrow> clause_ok (clause_of r)"
  using small_int64 [of "sr_Priority r"]
  by (auto simp: rule_valid_def clause_ok_def clause_of_def validEffects_def isDecisionAllowed_def ruleIDPattern_def
      codeForEffect_def messageForRule_ne)

lemma fallback_clause_ok: "ruleID \<noteq> [] \<Longrightarrow> code \<noteq> [] \<Longrightarrow> clause_ok (fallback_clause ruleID risk code)"
  by (simp add: clause_ok_def fallback_clause_def isDecisionAllowed_def small_int64)

lemma default_clause_ok: "sp_DefaultEffect p \<in> set validEffects \<Longrightarrow> clause_ok (default_clause p)"
  by (auto simp: clause_ok_def default_clause_def validEffects_def isDecisionAllowed_def small_int64 defaultRuleMeta_def
      RuleDefaultAllow_def RuleDefaultApproval_def RuleDefaultDeny_def)

text \<open>The version key the evaluator adds does not change which rules match.\<close>

lemma rule_matches_version [simp]: "rule_matches (set_key ''policy_version'' v input) = rule_matches input"
  by (rule ext) (simp add: rule_matches_def field_in_def type_matches_def)

lemma req_risk_version [simp]: "req_risk (set_key ''policy_version'' v input) = req_risk input"
  by (simp add: req_risk_def)

lemma find_map: "find P (map f xs) = map_option f (find (P \<circ> f) xs)"
  by (induction xs) auto

lemma find_cong_set: "(\<And>x. x \<in> set xs \<Longrightarrow> P x = Q x) \<Longrightarrow> find P xs = find Q xs"
  by (induction xs) auto

lemma mset_stable_insert: "mset (stable_insert lt x xs) = add_mset x (mset xs)"
  by (induction xs) auto

lemma mset_SliceStable: "mset (SliceStable lt xs) = mset xs"
  by (induction xs) (simp_all add: mset_stable_insert)

lemma deciding_clause_module:
  assumes "distinct (map sr_ID (sp_Rules p))"
  shows "deciding_clause (module_of p) input =
    (case find (rule_matches input) (sortRules (sp_Rules p)) of
       Some r \<Rightarrow> clause_of r
     | None \<Rightarrow> (case find (\<lambda>c. list_all (simple_holds input) (rc_Body c)) (fallback_clauses p) of Some c \<Rightarrow> c | None \<Rightarrow> default_clause p))"
proof -
  let ?rs = "sortRules (sp_Rules p)" let ?hs = "concat (map helpers_of ?rs)"
  have "mset ?rs = mset (sp_Rules p)" by (simp add: sortRules_def mset_SliceStable)
  then have d: "distinct (map sr_ID ?rs)" using assms by (metis mset_map mset_eq_imp_distinct_iff)
  have "find ((\<lambda>c. list_all (cond_holds ?hs input) (rc_Body c)) \<circ> clause_of) ?rs = find (rule_matches input) ?rs"
    by (rule find_cong_set) (simp add: clause_of_def body_holds [OF d])
  moreover have "find (\<lambda>c. list_all (cond_holds ?hs input) (rc_Body c)) (fallback_clauses p) =
      find (\<lambda>c. list_all (simple_holds input) (rc_Body c)) (fallback_clauses p)"
    by (rule find_cong_set) (auto simp: fallback_clauses_def fallback_clause_def split: if_splits)
  ultimately show ?thesis
    by (simp add: deciding_clause_def module_of_def Let_def find_append find_map split: option.split)
qed

lemma fallback_found:
  "find (\<lambda>c. list_all (simple_holds input) (rc_Body c)) (fallback_clauses p) =
    (if appendRiskFallbacks p \<and> req_risk input = Str_v ''HIGH''
     then Some (fallback_clause RuleHighRiskUnknown ''HIGH'' ''HIGH_RISK_UNKNOWN'')
     else if appendRiskFallbacks p \<and> req_risk input = Str_v ''CRITICAL''
     then Some (fallback_clause RuleCriticalRiskUnknown ''CRITICAL'' ''CRITICAL_RISK_UNKNOWN'') else None)"
  by (simp add: fallback_clauses_def fallback_clause_def)

lemma tenant_answer_clause:
  assumes "Compile p = Inr (po_RegoModule policy)" and "opa_reads rg p"
    and "deciding_clause (module_of p) (set_key ''policy_version'' (Str_v (po_PolicyVersion policy)) input) = c"
    and "clause_ok c" and "risk_value input (rc_Risk c) = Str_v k" and "isRiskAllowed k"
  shows "\<exists>res. tenant_answer rg (Inr policy) input = Inr res \<and> pr_Decision res = rc_Decision c \<and> pr_Risk res = k \<and>
    pr_Rule res = \<lparr>dr_ID = rc_RuleID c, dr_Priority = rc_Priority c\<rparr> \<and> pr_Constraints res = constraints_value (rc_Approval c)"
proof -
  let ?input = "set_key ''policy_version'' (Str_v (po_PolicyVersion policy)) input"
  have "po_RegoModule policy = print_module (module_of p)"
    using assms(1) by (simp add: Compile_def Let_def render_prints_module split: if_splits)
  with assms(2) obtain q where q: "rg_Prepare rg (po_RegoModule policy) = Inr q"
    "rg_Eval rg q ?input = Inr (Some (module_value (module_of p) ?input))" by (auto simp: opa_reads_def)
  have "risk_value ?input (rc_Risk c) = Str_v k" using assms(5) by (simp add: risk_value_def split: risk_expr.splits)
  from parse_clause_value [OF outputVersion_ne assms(4) this assms(6), of p] obtain r where r:
    "parseResult (Some (clause_value (outputVersion p) ?input c)) = Inr r" "or_Decision r = rc_Decision c" "or_Risk r = k"
    "or_Rule r = \<lparr>dr_ID = rc_RuleID c, dr_Priority = rc_Priority c\<rparr>" "or_Constraints r = constraints_value (rc_Approval c)" by auto
  have "module_value (module_of p) ?input = clause_value (outputVersion p) ?input c"
    using assms(3) by (simp add: module_value_def module_of_def Let_def)
  with q r show ?thesis
    by (simp add: tenant_answer_def EvaluatePrepared_def wrapped_result_def tenant_result_def)
qed

lemma compiled_valid:
  assumes "Compile p = Inr text"
  shows "sp_DefaultEffect p \<in> set validEffects" "list_all rule_valid (sp_Rules p)" "distinct (map sr_ID (sp_Rules p))"
proof -
  have "Validate p = []" using assms by (simp add: Compile_def Let_def split: if_splits)
  then show "sp_DefaultEffect p \<in> set validEffects" "list_all rule_valid (sp_Rules p)" "distinct (map sr_ID (sp_Rules p))"
    by (auto simp: Validate_def Let_def validateRules_Nil split: if_splits)
qed

lemma governed_answer:
  assumes "Compile p = Inr (po_RegoModule policy)" and "opa_reads rg p"
    and "req_risk input = Str_v risk" and "isRiskAllowed risk" and "governs (sp_Rules p) input r"
  shows "\<exists>res. tenant_answer rg (Inr policy) input = Inr res \<and> pr_Decision res = sr_Effect r \<and> pr_Risk res = risk \<and>
    pr_Rule res = \<lparr>dr_ID = sr_ID r, dr_Priority = sr_Priority r\<rparr> \<and> pr_Constraints res = constraints_value (approval_of r)"
proof -
  note valid = compiled_valid [OF assms(1)]
  let ?input = "set_key ''policy_version'' (Str_v (po_PolicyVersion policy)) input"
  have distinct: "distinct (sp_Rules p)" using valid(3) by (simp add: distinct_map)
  have r: "r \<in> set (sp_Rules p)" "rule_matches input r" using assms(5) by (auto simp: governs_def)
  then have "find (rule_matches input) (sortRules (sp_Rules p)) = Some r"
    using find_sortRules [where input = input and rs = "sp_Rules p"] governs_unique [OF distinct _ assms(5)] by (auto split: option.splits)
  then have "deciding_clause (module_of p) ?input = clause_of r"
    using deciding_clause_module [OF valid(3), of ?input] by simp
  moreover have "clause_ok (clause_of r)" using r valid(2) by (auto simp: list_all_iff intro: rule_clause_ok)
  ultimately show ?thesis
    using tenant_answer_clause [OF assms(1,2) _ _ _ assms(4), of input "clause_of r"] assms(3)
    by (simp add: clause_of_def risk_value_def)
qed

lemma ungoverned_answer:
  assumes "Compile p = Inr (po_RegoModule policy)" and "opa_reads rg p"
    and "req_risk input = Str_v risk" and "isRiskAllowed risk" and "\<forall>r\<in>set (sp_Rules p). \<not> rule_matches input r"
  shows "\<exists>res. tenant_answer rg (Inr policy) input = Inr res \<and>
    pr_Decision res = (if appendRiskFallbacks p \<and> (risk = ''HIGH'' \<or> risk = ''CRITICAL'')
       then ''REQUIRE_APPROVAL'' else sp_DefaultEffect p)"
proof -
  note valid = compiled_valid [OF assms(1)]
  define c where "c = deciding_clause (module_of p) (set_key ''policy_version'' (Str_v (po_PolicyVersion policy)) input)"
  have "find (rule_matches input) (sortRules (sp_Rules p)) = None"
    using assms(5) by (simp add: find_None_iff sortRules_def)
  then have c: "c = (if appendRiskFallbacks p \<and> risk = ''HIGH'' then fallback_clause RuleHighRiskUnknown ''HIGH'' ''HIGH_RISK_UNKNOWN''
     else if appendRiskFallbacks p \<and> risk = ''CRITICAL'' then fallback_clause RuleCriticalRiskUnknown ''CRITICAL'' ''CRITICAL_RISK_UNKNOWN''
     else default_clause p)"
    using deciding_clause_module [OF valid(3)] fallback_found [of _ p] assms(3) by (simp add: c_def)
  have ok: "clause_ok c"
    unfolding c using default_clause_ok [OF valid(1)]
    by (simp add: fallback_clause_ok RuleHighRiskUnknown_def RuleCriticalRiskUnknown_def)
  have "\<exists>k. risk_value input (rc_Risk c) = Str_v k \<and> isRiskAllowed k"
    using assms(3,4) by (simp add: c risk_value_def fallback_clause_def default_clause_def isRiskAllowed_def)
  with tenant_answer_clause [OF assms(1,2) c_def [symmetric] ok] obtain res where
    "tenant_answer rg (Inr policy) input = Inr res" "pr_Decision res = rc_Decision c" by auto
  then show ?thesis by (intro exI [of _ res]) (auto simp: c fallback_clause_def default_clause_def)
qed

text \<open>C36: a compiled structured policy decides by its rules. Given that the engine evaluates the
  emitted module by the rules written in it, the gateway gets a decision for every request with a
  known risk. If a rule matches, then exactly one rule governs (of highest priority among the
  matching ones, and the first in the policy among those); the decision is its effect, attributed
  to its id and priority. If none matches, a HIGH or CRITICAL request needs an approval where the
  policy appends the risk fallbacks, and any other request gets the default effect.\<close>

theorem compiled_policy_decides:
  assumes "Compile p = Inr (po_RegoModule policy)" and "opa_reads rg p"
    and "req_risk input = Str_v risk" and "isRiskAllowed risk"
  shows "\<exists>res. tenant_answer rg (Inr policy) input = Inr res \<and>
    (if \<exists>r\<in>set (sp_Rules p). rule_matches input r
     then (\<exists>!r. governs (sp_Rules p) input r) \<and>
       (\<forall>r. governs (sp_Rules p) input r \<longrightarrow> pr_Decision res = sr_Effect r \<and> pr_Risk res = risk \<and>
          pr_Rule res = \<lparr>dr_ID = sr_ID r, dr_Priority = sr_Priority r\<rparr>)
     else pr_Decision res = (if appendRiskFallbacks p \<and> (risk = ''HIGH'' \<or> risk = ''CRITICAL'')
       then ''REQUIRE_APPROVAL'' else sp_DefaultEffect p))"
proof (cases "\<exists>r\<in>set (sp_Rules p). rule_matches input r")
  case True
  then obtain r where g: "governs (sp_Rules p) input r"
    using find_sortRules [where input = input and rs = "sp_Rules p"] by (auto split: option.splits)
  have "s = r" if "governs (sp_Rules p) input s" for s
    using governs_unique [OF _ that g] compiled_valid(3) [OF assms(1)] by (simp add: distinct_map)
  then have u: "governs (sp_Rules p) input s \<longleftrightarrow> s = r" for s using g by blast
  obtain res where "tenant_answer rg (Inr policy) input = Inr res" "pr_Decision res = sr_Effect r" "pr_Risk res = risk"
    "pr_Rule res = \<lparr>dr_ID = sr_ID r, dr_Priority = sr_Priority r\<rparr>" using governed_answer [OF assms g] by blast
  with True show ?thesis unfolding u by (intro exI [of _ res]) simp
next
  case False
  with ungoverned_answer [OF assms] show ?thesis by (simp only: if_False) blast
qed

text \<open>The approval lifetime written in a structured policy is the one an approval gets: when
  the governing rule has an approval constraint, the lifetime the gateway derives from the
  evaluated module is the rule's number of seconds (900 where it has none), which lies between a
  minute and a day, whatever the default configured in the store.\<close>

theorem compiled_approval_lifetime:
  assumes "Compile p = Inr (po_RegoModule policy)" and "opa_reads rg p"
    and "req_risk input = Str_v risk" and "isRiskAllowed risk"
    and "governs (sp_Rules p) input r" and "sr_Approval r = Some a"
  shows "\<exists>res. tenant_answer rg (Inr policy) input = Inr res \<and> pr_Decision res = ''REQUIRE_APPROVAL'' \<and>
    approvalTTL flt st (pr_Constraints res) =
      (if av_ExpiresInSeconds a = 0 then 900 else av_ExpiresInSeconds a) * go_second \<and>
    60 * go_second \<le> approvalTTL flt st (pr_Constraints res) \<and> approvalTTL flt st (pr_Constraints res) \<le> 86400 * go_second"
proof -
  define ttl where "ttl = (if av_ExpiresInSeconds a = 0 then 900 else av_ExpiresInSeconds a)"
  have "rule_valid r" using assms(5) compiled_valid(2) [OF assms(1)] by (auto simp: governs_def list_all_iff)
  then have effect: "sr_Effect r = ''REQUIRE_APPROVAL''" and ttl: "60 \<le> ttl" "ttl \<le> 86400"
    using assms(6) by (auto simp: rule_valid_def approval_valid_def ttl_def)
  obtain res where res: "tenant_answer rg (Inr policy) input = Inr res" "pr_Decision res = sr_Effect r"
    "pr_Constraints res = constraints_value (approval_of r)" using governed_answer [OF assms(1-5)] by auto
  obtain reason where "approval_of r = Some (ttl, reason)" using effect assms(6) by (simp add: approval_of_def ttl_def)
  then have "approvalTTL flt st (pr_Constraints res) = seconds_duration ttl"
    using ttl
    by (intro approvalTTL_literal [of "int_text ttl" _ _ "[(''expires_in_seconds'', Number_v (int_text ttl)), (''reason'', Str_v reason)]"])
      (simp_all add: res(3) constraints_value_def small_int64 index_map_def)
  also have "\<dots> = ttl * go_second" using ttl by (intro seconds_duration_exact) auto
  finally show ?thesis using res effect ttl unfolding ttl_def [symmetric] by (intro exI [of _ res]) (simp add: go_second_def)
qed

subsection \<open>A concrete policy\<close>

definition sample_structured :: structured_policy where
  "sample_structured =
     \<lparr>sp_SchemaVersion = ''1'', sp_OutputVersion = [], sp_DefaultEffect = ''DENY'',
      sp_Rules =
        [\<lparr>sr_ID = ''reads'', sr_Priority = 10, sr_Effect = ''ALLOW'',
          sr_Match = \<lparr>mt_ToolIDs = [], mt_ActionTypes = [''DATA.READ'', ''MCP.*''], mt_ActionRisks = []\<rparr>,
          sr_Reason = [], sr_Approval = None\<rparr>,
         \<lparr>sr_ID = ''crm_writes'', sr_Priority = 50, sr_Effect = ''REQUIRE_APPROVAL'',
          sr_Match = \<lparr>mt_ToolIDs = [''crm''], mt_ActionTypes = [], mt_ActionRisks = []\<rparr>,
          sr_Reason = ''two people'', sr_Approval = Some \<lparr>av_ExpiresInSeconds = 600, av_Reason = []\<rparr>\<rparr>],
      sp_AppendRiskFallbacks = None\<rparr>"

definition sample_opa :: "structured_policy rego_engine" where
  "sample_opa =
     \<lparr>rg_PrepareBase = Inl Rego_error, rg_Prepare = (\<lambda>_. Inr sample_structured),
      rg_Eval = (\<lambda>p input. Inr (Some (module_value (module_of p) input)))\<rparr>"

definition sample_compiled :: policy where
  "sample_compiled =
     \<lparr>po_PolicyID = ''p1'', po_TenantID = ''t1'', po_RegoModule = print_module (module_of sample_structured), po_PolicyVersion = ''v1'', po_UpdatedAt = 0\<rparr>"

definition sample_input :: gomap where
  "sample_input = [(''tool_id'', Str_v ''crm''), (''action_type'', Str_v ''MCP.lookup''), (''action_risk'', Str_v ''MEDIUM'')]"

lemma sample_structured_valid: "Validate sample_structured = []"
  by code_simp

lemma sample_structured_compiles: "Compile sample_structured = Inr (po_RegoModule sample_compiled)"
  by (simp add: Compile_def sample_structured_valid render_prints_module sample_compiled_def)

lemma sample_opa_reads: "opa_reads sample_opa sample_structured"
  by (simp add: opa_reads_def sample_opa_def)

lemma sample_input_risk: "req_risk sample_input = Str_v ''MEDIUM''" "isRiskAllowed ''MEDIUM''"
  by (simp_all add: req_risk_def sample_input_def isRiskAllowed_def)

lemma sample_governs: "governs (sp_Rules sample_structured) sample_input (sp_Rules sample_structured ! 1)"
proof -
  have "rule_matches sample_input (sp_Rules sample_structured ! 1)"
    by (simp add: rule_matches_def sample_structured_def sample_input_def field_in_def)
  then show ?thesis
    unfolding governs_def
    by (intro conjI exI [of _ "[sp_Rules sample_structured ! 0]"] exI [of _ "[]"]) (simp_all add: sample_structured_def)
qed

theorem compiled_policy_decides_witness:
  "\<exists>res. tenant_answer sample_opa (Inr sample_compiled) sample_input = Inr res \<and> pr_Decision res = ''REQUIRE_APPROVAL'' \<and>
     dr_ID (pr_Rule res) = ''crm_writes''"
proof -
  have "\<exists>r\<in>set (sp_Rules sample_structured). rule_matches sample_input r" 
    using sample_governs by (intro bexI [of _ "sp_Rules sample_structured ! 1"]) (simp_all add: governs_def sample_structured_def)
  with compiled_policy_decides [OF sample_structured_compiles sample_opa_reads sample_input_risk] sample_governs
  show ?thesis by (auto simp: sample_structured_def)
qed

theorem compiled_approval_lifetime_witness:
  "\<exists>res. tenant_answer sample_opa (Inr sample_compiled) sample_input = Inr res \<and>
     approvalTTL (\<lambda>_. None) None (pr_Constraints res) = 600 * go_second"
proof -
  have a: "sr_Approval (sp_Rules sample_structured ! 1) = Some \<lparr>av_ExpiresInSeconds = 600, av_Reason = []\<rparr>"
    by (simp add: sample_structured_def)
  show ?thesis
    using compiled_approval_lifetime [OF sample_structured_compiles sample_opa_reads sample_input_risk sample_governs a]
    by auto
qed

end
