(* ===== verification/Approval_Store.thy ===== *)
theory Approval_Store
  imports Models
begin

text \<open>
  The approval half of \<open>src/internal/store/store.go\<close>: the table
  \<open>approval_requests\<close> (primary key \<open>approval_request_id\<close>) and the table
  \<open>action_decisions\<close>, with one definition per operation. An SQL UPDATE is atomic: it
  tests its WHERE clause and writes in one step, and the number of affected rows decides
  between success and \<open>approvalStateError\<close>. The theorems give the life cycle of an
  approval as a transition system that every operation follows, and the contract
  \<open>approval_store\<close> on which the execution path relies.
\<close>

subsection \<open>Tables\<close>

record store_db =
  approvals :: "string \<rightharpoonup> approval_request"
  decisions :: "action_decision_record list"

definition approval_row :: "store_db \<Rightarrow> string \<Rightarrow> string \<Rightarrow> approval_request option" where
  "approval_row db tenantID approvalRequestID =
     (case approvals db approvalRequestID of None \<Rightarrow> None
      | Some a \<Rightarrow> if ap_TenantID a = tenantID then Some a else None)"

definition update_approval ::
  "(approval_request \<Rightarrow> bool) \<Rightarrow> (approval_request \<Rightarrow> approval_request) \<Rightarrow>
   string \<Rightarrow> string \<Rightarrow> store_db \<Rightarrow> nat \<times> store_db" where
  "update_approval guard set_row tenantID approvalRequestID db =
     (case approval_row db tenantID approvalRequestID of
        None \<Rightarrow> (0, db)
      | Some a \<Rightarrow> if guard a
          then (1, db\<lparr>approvals := (approvals db)(approvalRequestID \<mapsto> set_row a)\<rparr>)
          else (0, db))"

subsection \<open>Operations\<close>

definition approvalStateError :: "string \<Rightarrow> string \<Rightarrow> store_db \<Rightarrow> store_error" where
  "approvalStateError tenantID approvalRequestID db =
     (case approval_row db tenantID approvalRequestID of
        None \<Rightarrow> ErrNotFound | Some _ \<Rightarrow> ErrInvalidState)"

definition affected_result ::
  "string \<Rightarrow> string \<Rightarrow> nat \<times> store_db \<Rightarrow> (store_error + unit) \<times> store_db" where
  "affected_result tenantID approvalRequestID r =
     (case r of (affected, db) \<Rightarrow>
        if affected = 0 then (Inl (approvalStateError tenantID approvalRequestID db), db)
        else (Inr (), db))"

definition InsertApprovalRequest ::
  "approval_request \<Rightarrow> store_db \<Rightarrow> (store_error + unit) \<times> store_db" where
  "InsertApprovalRequest req db =
     (case approvals db (ap_ApprovalRequestID req) of
        Some _ \<Rightarrow> (Inl ErrDB, db)
      | None \<Rightarrow> (Inr (), db\<lparr>approvals := (approvals db)
          (ap_ApprovalRequestID req \<mapsto>
             req\<lparr>ap_ExecutingAt := None, ap_ExecutionID := [], ap_FailedAt := None,
                 ap_LastErrorCode := []\<rparr>)\<rparr>))"

definition GetApprovalRequest :: "string \<Rightarrow> string \<Rightarrow> store_db \<Rightarrow> store_error + approval_request" where
  "GetApprovalRequest tenantID approvalRequestID db =
     (case approval_row db tenantID approvalRequestID of
        None \<Rightarrow> Inl ErrNotFound
      | Some a \<Rightarrow> Inr (a\<lparr>ap_ExecutingAt := None, ap_ExecutionID := [], ap_FailedAt := None,
                          ap_LastErrorCode := []\<rparr>))"

text \<open>The SELECT of \<open>GetApprovalForExecution\<close> reads neither the decision columns nor
  \<open>executed_at\<close>, \<open>executed_request_id\<close>, \<open>executed_decision_id\<close> and
  \<open>request_decision_id\<close>: those fields of the result keep Go's zero value.\<close>

definition GetApprovalForExecution :: "string \<Rightarrow> string \<Rightarrow> store_db \<Rightarrow> store_error + approval_request" where
  "GetApprovalForExecution tenantID approvalRequestID db =
     (case approval_row db tenantID approvalRequestID of
        None \<Rightarrow> Inl ErrNotFound
      | Some a \<Rightarrow> Inr (a\<lparr>ap_DecidedAt := None, ap_DecidedBy := [], ap_DecisionComment := [],
                          ap_ExecutedAt := None, ap_ExecutedRequestID := [],
                          ap_ExecutedDecisionID := [], ap_RequestDecisionID := []\<rparr>))"

definition updateApprovalDecision ::
  "string \<Rightarrow> string \<Rightarrow> approval_status \<Rightarrow> string \<Rightarrow> string \<Rightarrow> time \<Rightarrow> store_db
   \<Rightarrow> (store_error + unit) \<times> store_db" where
  "updateApprovalDecision tenantID approvalRequestID status decidedBy comment decidedAt db =
     affected_result tenantID approvalRequestID
       (update_approval (\<lambda>a. ap_Status a = PENDING)
          (\<lambda>a. a\<lparr>ap_Status := status, ap_DecidedAt := Some decidedAt,
                 ap_DecidedBy := decidedBy, ap_DecisionComment := comment\<rparr>)
          tenantID approvalRequestID db)"

definition ApproveApprovalRequest ::
  "string \<Rightarrow> string \<Rightarrow> string \<Rightarrow> string \<Rightarrow> time \<Rightarrow> store_db \<Rightarrow> (store_error + unit) \<times> store_db" where
  "ApproveApprovalRequest tenantID approvalRequestID decidedBy comment decidedAt db =
     updateApprovalDecision tenantID approvalRequestID APPROVED decidedBy comment decidedAt db"

definition DenyApprovalRequest ::
  "string \<Rightarrow> string \<Rightarrow> string \<Rightarrow> string \<Rightarrow> time \<Rightarrow> store_db \<Rightarrow> (store_error + unit) \<times> store_db" where
  "DenyApprovalRequest tenantID approvalRequestID decidedBy comment decidedAt db =
     updateApprovalDecision tenantID approvalRequestID DENIED decidedBy comment decidedAt db"

definition RevokeApprovalRequest ::
  "string \<Rightarrow> string \<Rightarrow> string \<Rightarrow> string \<Rightarrow> time \<Rightarrow> store_db \<Rightarrow> (store_error + unit) \<times> store_db" where
  "RevokeApprovalRequest tenantID approvalRequestID decidedBy comment decidedAt db =
     updateApprovalDecision tenantID approvalRequestID REVOKED decidedBy comment decidedAt db"

definition ClaimApprovalExecution ::
  "string \<Rightarrow> string \<Rightarrow> string \<Rightarrow> string \<Rightarrow> time \<Rightarrow> store_db \<Rightarrow> (store_error + unit) \<times> store_db" where
  "ClaimApprovalExecution tenantID approvalRequestID tokenHash requestHash executingAt db =
     affected_result tenantID approvalRequestID
       (update_approval
          (\<lambda>a. ap_Status a = APPROVED \<and> ap_ExpiresAt a > executingAt \<and>
               ap_ApprovalTokenHash a = tokenHash \<and> ap_RequestHash a = requestHash)
          (\<lambda>a. a\<lparr>ap_Status := EXECUTING, ap_ExecutingAt := Some executingAt,
                 ap_ExecutionID := (if ap_ExecutionID a = [] then ap_ApprovalRequestID a
                                    else ap_ExecutionID a),
                 ap_LastErrorCode := []\<rparr>)
          tenantID approvalRequestID db)"

definition MarkApprovalExecuted ::
  "string \<Rightarrow> string \<Rightarrow> string \<Rightarrow> string \<Rightarrow> time \<Rightarrow> store_db \<Rightarrow> (store_error + unit) \<times> store_db" where
  "MarkApprovalExecuted tenantID approvalRequestID requestID decisionID executedAt db =
     affected_result tenantID approvalRequestID
       (update_approval
          (\<lambda>a. ap_Status a = EXECUTING \<and> ap_ExecutedAt a = None)
          (\<lambda>a. a\<lparr>ap_Status := EXECUTED, ap_ExecutedAt := Some executedAt,
                 ap_ExecutedRequestID := requestID, ap_ExecutedDecisionID := decisionID,
                 ap_LastErrorCode := []\<rparr>)
          tenantID approvalRequestID db)"

definition MarkApprovalExecutionFailed ::
  "string \<Rightarrow> string \<Rightarrow> string \<Rightarrow> time \<Rightarrow> store_db \<Rightarrow> (store_error + unit) \<times> store_db" where
  "MarkApprovalExecutionFailed tenantID approvalRequestID errorCode failedAt db =
     affected_result tenantID approvalRequestID
       (update_approval (\<lambda>a. ap_Status a = EXECUTING)
          (\<lambda>a. a\<lparr>ap_Status := FAILED, ap_FailedAt := Some failedAt, ap_LastErrorCode := errorCode\<rparr>)
          tenantID approvalRequestID db)"

definition MarkApprovalExpired ::
  "string \<Rightarrow> string \<Rightarrow> time \<Rightarrow> store_db \<Rightarrow> (store_error + unit) \<times> store_db" where
  "MarkApprovalExpired tenantID approvalRequestID expiredAt db =
     affected_result tenantID approvalRequestID
       (update_approval (\<lambda>a. ap_Status a \<in> {PENDING, APPROVED})
          (\<lambda>a. a\<lparr>ap_Status := EXPIRED, ap_DecidedAt := Some expiredAt\<rparr>)
          tenantID approvalRequestID db)"

text \<open>\<open>InsertADR\<close> skips the insert when a record with the same tenant and the same
  non-empty approval request id is already there.\<close>

definition InsertADR :: "action_decision_record \<Rightarrow> store_db \<Rightarrow> (store_error + unit) \<times> store_db" where
  "InsertADR record db =
     (if adr_ApprovalRequestID record \<noteq> [] \<and>
         list_ex (\<lambda>r. adr_TenantID r = adr_TenantID record \<and>
                      adr_ApprovalRequestID r = adr_ApprovalRequestID record) (decisions db)
      then (Inr (), db)
      else (Inr (), db\<lparr>decisions := decisions db @ [record]\<rparr>))"

lemmas approval_ops =
  updateApprovalDecision_def ApproveApprovalRequest_def DenyApprovalRequest_def
  RevokeApprovalRequest_def ClaimApprovalExecution_def MarkApprovalExecuted_def
  MarkApprovalExecutionFailed_def MarkApprovalExpired_def


subsection \<open>The life cycle as a transition system\<close>

text \<open>The edges the store's UPDATE statements can take.\<close>

inductive lifecycle :: "approval_status \<Rightarrow> approval_status \<Rightarrow> bool" where
  decide_approve: "lifecycle PENDING APPROVED"
| decide_deny: "lifecycle PENDING DENIED"
| decide_revoke: "lifecycle PENDING REVOKED"
| expire_pending: "lifecycle PENDING EXPIRED"
| expire_approved: "lifecycle APPROVED EXPIRED"
| claim: "lifecycle APPROVED EXECUTING"
| finish: "lifecycle EXECUTING EXECUTED"
| fail: "lifecycle EXECUTING FAILED"

inductive_simps lifecycle_simps [simp]:
  "lifecycle PENDING s" "lifecycle APPROVED s" "lifecycle EXECUTING s" "lifecycle DENIED s"
  "lifecycle REVOKED s" "lifecycle EXECUTED s" "lifecycle FAILED s" "lifecycle EXPIRED s"

definition terminal :: "approval_status \<Rightarrow> bool" where
  "terminal s = (s \<in> {DENIED, REVOKED, EXECUTED, FAILED, EXPIRED})"

lemma terminal_no_edge: "terminal s \<Longrightarrow> \<not> lifecycle s s'"
  by (auto simp: terminal_def)

lemma nonterminal_has_edge: "\<not> terminal s \<Longrightarrow> \<exists>s'. lifecycle s s'"
  by (cases s) (auto simp: terminal_def)

text \<open>A call of the store, with its arguments; \<open>exec_store\<close> runs it.\<close>

datatype store_call =
    Call_Insert approval_request
  | Call_Approve string string string string time
  | Call_Deny string string string string time
  | Call_Revoke string string string string time
  | Call_Claim string string string string time
  | Call_Executed string string string string time
  | Call_Failed string string string time
  | Call_Expired string string time
  | Call_ADR action_decision_record

fun exec_store :: "store_call \<Rightarrow> store_db \<Rightarrow> (store_error + unit) \<times> store_db" where
  "exec_store (Call_Insert req) db = InsertApprovalRequest req db"
| "exec_store (Call_Approve t i who c ts) db = ApproveApprovalRequest t i who c ts db"
| "exec_store (Call_Deny t i who c ts) db = DenyApprovalRequest t i who c ts db"
| "exec_store (Call_Revoke t i who c ts) db = RevokeApprovalRequest t i who c ts db"
| "exec_store (Call_Claim t i th rh ts) db = ClaimApprovalExecution t i th rh ts db"
| "exec_store (Call_Executed t i rid did ts) db = MarkApprovalExecuted t i rid did ts db"
| "exec_store (Call_Failed t i code ts) db = MarkApprovalExecutionFailed t i code ts db"
| "exec_store (Call_Expired t i ts) db = MarkApprovalExpired t i ts db"
| "exec_store (Call_ADR r) db = InsertADR r db"

fun run_calls :: "('op \<Rightarrow> 'db \<Rightarrow> ('e + unit) \<times> 'db) \<Rightarrow> 'op list \<Rightarrow> 'db \<Rightarrow> ('op \<times> bool) list \<times> 'db" where
  "run_calls exec [] db = ([], db)"
| "run_calls exec (c # cs) db =
     (case exec c db of (r, db') \<Rightarrow>
        (case run_calls exec cs db' of (lg, db'') \<Rightarrow> ((c, \<not> isl r) # lg, db'')))"

definition status_of :: "store_db \<Rightarrow> string \<Rightarrow> approval_status option" where
  "status_of db i = map_option ap_Status (approvals db i)"

definition finishes :: "store_call \<Rightarrow> string \<Rightarrow> bool" where
  "finishes c i = (case c of Call_Executed _ j _ _ _ \<Rightarrow> j = i | _ \<Rightarrow> False)"

text \<open>The parts of an approval no call may change once the row exists: what was asked
  for, by whom, the token, the expiry.\<close>

definition identity_of :: "approval_request \<Rightarrow> string \<times> string \<times> string \<times> string \<times> string \<times> string \<times> time" where
  "identity_of a = (ap_ApprovalRequestID a, ap_TenantID a, ap_AgentID a, ap_ToolID a,
     ap_RequestHash a, ap_ApprovalTokenHash a, ap_ExpiresAt a)"

subsection \<open>One call: edges, identity, tenants\<close>

lemma update_approval_cases:
  assumes "affected_result t i (update_approval g f t i db) = (r, db')"
  obtains (none) "r = Inl ErrNotFound" "db' = db" "approval_row db t i = None"
  | (stale) a where "r = Inl ErrInvalidState" "db' = db" "approvals db i = Some a"
      "ap_TenantID a = t" "\<not> g a"
  | (hit) a where "r = Inr ()" "approvals db i = Some a" "ap_TenantID a = t" "g a"
      "db' = db\<lparr>approvals := (approvals db)(i \<mapsto> f a)\<rparr>"
proof (cases "approval_row db t i")
  case None
  then have "r = Inl ErrNotFound" "db' = db"
    using assms by (simp_all add: affected_result_def update_approval_def approvalStateError_def)
  with None show ?thesis by (rule none [rotated 2])
next
  case (Some a)
  then have row: "approvals db i = Some a" "ap_TenantID a = t"
    by (simp_all add: approval_row_def split: option.splits if_splits)
  show ?thesis
  proof (cases "g a")
    case True
    with assms Some have "r = Inr ()" "db' = db\<lparr>approvals := (approvals db)(i \<mapsto> f a)\<rparr>"
      by (simp_all add: affected_result_def update_approval_def)
    then show ?thesis using row True by (intro hit)
  next
    case False
    with assms Some have "r = Inl ErrInvalidState" "db' = db"
      by (simp_all add: affected_result_def update_approval_def approvalStateError_def)
    then show ?thesis using row False by (intro stale)
  qed
qed

lemma update_approval_row:
  assumes "affected_result t i (update_approval g f t i db) = (r, db')"
    and "approvals db j = Some a"
  shows "approvals db' j = Some a \<or>
    (j = i \<and> ap_TenantID a = t \<and> g a \<and> r = Inr () \<and> approvals db' j = Some (f a))"
  using assms by (cases rule: update_approval_cases) auto

lemma exec_store_row:
  assumes "exec_store c db = (r, db')" and "approvals db j = Some a"
  shows "\<exists>a'. approvals db' j = Some a' \<and> identity_of a' = identity_of a \<and>
    (ap_Status a' = ap_Status a \<or> lifecycle (ap_Status a) (ap_Status a'))"
  using assms
proof (cases c)
  case (Call_Insert req)
  with assms show ?thesis by (auto simp: InsertApprovalRequest_def split: option.splits)
next
  case (Call_ADR rec)
  with assms show ?thesis by (auto simp: InsertADR_def split: if_splits)
qed (auto simp: approval_ops identity_of_def dest!: update_approval_row)

lemma exec_store_edge:
  assumes "exec_store c db = (r, db')" and "status_of db j = Some s"
  shows "\<exists>s'. status_of db' j = Some s' \<and> (s' = s \<or> lifecycle s s')"
  using assms exec_store_row [OF assms(1)] by (fastforce simp: status_of_def)

lemma exec_store_finish:
  assumes "finishes c j" and "exec_store c db = (Inr (), db')"
  shows "status_of db j = Some EXECUTING \<and> status_of db' j = Some EXECUTED"
proof -
  obtain t rid did ts where c: "c = Call_Executed t j rid did ts"
    using assms(1) by (auto simp: finishes_def split: store_call.splits)
  with assms(2) show ?thesis
    by (auto simp: MarkApprovalExecuted_def status_of_def elim!: update_approval_cases)
qed

subsection \<open>The contract the execution path relies on\<close>

locale approval_store =
  fixes exec :: "'op \<Rightarrow> 'db \<Rightarrow> ('e + unit) \<times> 'db"
    and status :: "'db \<Rightarrow> string \<Rightarrow> approval_status option"
    and fin :: "'op \<Rightarrow> string \<Rightarrow> bool"
  assumes edge: "exec c d = (r, d') \<Longrightarrow> status d i = Some s \<Longrightarrow>
      \<exists>s'. status d' i = Some s' \<and> (s' = s \<or> lifecycle s s')"
    and fin_edge: "fin c i \<Longrightarrow> exec c d = (Inr (), d') \<Longrightarrow>
      status d i = Some EXECUTING \<and> status d' i = Some EXECUTED"
begin

lemma run_edges:
  "run_calls exec cs d = (lg, d') \<Longrightarrow> status d i = Some s \<Longrightarrow>
   \<exists>s'. status d' i = Some s' \<and> lifecycle\<^sup>*\<^sup>* s s'"
proof (induction cs arbitrary: d lg s)
  case (Cons c cs)
  obtain r d1 where c: "exec c d = (r, d1)" by fastforce
  obtain s1 where s1: "status d1 i = Some s1" "lifecycle\<^sup>*\<^sup>* s s1"
    using edge [OF c Cons.prems(2)] by auto
  from Cons.prems(1) c obtain lg' where "run_calls exec cs d1 = (lg', d')"
    by (auto split: prod.splits)
  from Cons.IH [OF this s1(1)] s1(2) show ?case by (meson rtranclp_trans)
qed auto

lemma run_terminal:
  assumes "run_calls exec cs d = (lg, d')" and "status d i = Some s" and "terminal s"
  shows "status d' i = Some s"
proof -
  from run_edges [OF assms(1,2)] obtain s' where "status d' i = Some s'" "lifecycle\<^sup>*\<^sup>* s s'"
    by blast
  then show ?thesis using terminal_no_edge [OF assms(3)] by (metis converse_rtranclpE)
qed

lemma no_finish_after_executed:
  "run_calls exec cs d = (lg, d') \<Longrightarrow> status d i = Some EXECUTED \<Longrightarrow>
   filter (\<lambda>(c, ok). ok \<and> fin c i) lg = []"
proof (induction cs arbitrary: d lg)
  case (Cons c cs)
  obtain r d1 where c: "exec c d = (r, d1)" by fastforce
  have st: "status d1 i = Some EXECUTED" using edge [OF c Cons.prems(2)] by auto
  from Cons.prems(1) c obtain lg' where run: "run_calls exec cs d1 = (lg', d')"
    and lg: "lg = (c, \<not> isl r) # lg'" by (auto split: prod.splits)
  have "\<not> (\<not> isl r \<and> fin c i)"
    using fin_edge [of c i d d1] c Cons.prems(2) by (cases r) auto
  with Cons.IH [OF run st] lg show ?case by simp
qed auto

lemma at_most_one_finish:
  "run_calls exec cs d = (lg, d') \<Longrightarrow> length (filter (\<lambda>(c, ok). ok \<and> fin c i) lg) \<le> 1"
proof (induction cs arbitrary: d lg)
  case (Cons c cs)
  obtain r d1 where c: "exec c d = (r, d1)" by fastforce
  from Cons.prems c obtain lg' where run: "run_calls exec cs d1 = (lg', d')"
    and lg: "lg = (c, \<not> isl r) # lg'" by (auto split: prod.splits)
  show ?case
  proof (cases "\<not> isl r \<and> fin c i")
    case True
    then have "status d1 i = Some EXECUTED" using fin_edge [of c i d d1] c by (cases r) auto
    from no_finish_after_executed [OF run this] lg True show ?thesis by simp
  next
    case False
    with Cons.IH [OF run] lg show ?thesis by auto
  qed
qed auto

end

interpretation store: approval_store exec_store status_of finishes
  by unfold_locales (rule exec_store_edge exec_store_finish; assumption)+

end
