(* ===== verification/Policy_Coverage.thy ===== *)
theory Policy_Coverage
  imports Policy_Meaning Approval_Store Config_Store
begin

text \<open>
  The policy coverage detector (\<open>src/internal/policy/coverage/coverage.go\<close> and
  \<open>src/internal/store/store_coverage.go\<close>): which endpoints are governed by a fallback
  rule only, from the recorded decisions, and which registered tools were never called. Groups
  that tie in the order of the SQL query come in the order of their first row. The theorems say
  what the report contains, and which decisions of a compiled policy it cannot see.
\<close>

subsection \<open>Queries\<close>

record fallback_hit =
  fh_ToolID :: string
  fh_ActionType :: string
  fh_ActionRisk :: string
  fh_Decision :: string
  fh_RuleID :: string
  fh_HitCount :: int
  fh_LastSeen :: time

type_synonym hit_key = "string \<times> string \<times> string \<times> string \<times> string"

definition decision_key :: "action_decision_record \<Rightarrow> hit_key" where
  "decision_key d = (adr_ToolID d, adr_ActionType d, adr_ActionRisk d, adr_Decision d, adr_RuleID d)"

definition fallback_rows :: "string \<Rightarrow> string list \<Rightarrow> time \<Rightarrow> store_db \<Rightarrow> action_decision_record list" where
  "fallback_rows tenantID ruleIDs since db =
     filter (\<lambda>d. adr_TenantID d = tenantID \<and> adr_RuleID d \<in> set ruleIDs \<and> adr_CreatedAt d \<ge> since) (decisions db)"

definition hit_of_group :: "action_decision_record list \<Rightarrow> hit_key \<Rightarrow> fallback_hit" where
  "hit_of_group rows k =
     (let grp = filter (\<lambda>d. decision_key d = k) rows; (toolID, actionType, actionRisk, decision, ruleID) = k
      in \<lparr>fh_ToolID = toolID, fh_ActionType = actionType, fh_ActionRisk = actionRisk, fh_Decision = decision, fh_RuleID = ruleID,
          fh_HitCount = int (length grp), fh_LastSeen = Max (set (map adr_CreatedAt grp))\<rparr>)"

definition hit_less :: "fallback_hit \<Rightarrow> fallback_hit \<Rightarrow> bool" where
  "hit_less a b = (fh_HitCount a > fh_HitCount b \<or> fh_HitCount a = fh_HitCount b \<and> fh_LastSeen a > fh_LastSeen b)"

definition ListFallbackHitPairs ::
  "store_error option \<Rightarrow> string \<Rightarrow> string list \<Rightarrow> time \<Rightarrow> int \<Rightarrow> store_db \<Rightarrow> store_error + fallback_hit list" where
  "ListFallbackHitPairs flt tenantID ruleIDs since limit db =
     (case flt of
        Some e \<Rightarrow> Inl e
      | None \<Rightarrow> (let rows = fallback_rows tenantID ruleIDs since db
                 in Inr (take (nat limit) (SliceStable hit_less (map (hit_of_group rows) (remdups (map decision_key rows)))))))"

definition ListUnusedActiveTools :: "store_error option \<Rightarrow> string \<Rightarrow> config_db \<Rightarrow> store_db \<Rightarrow> store_error + string list" where
  "ListUnusedActiveTools flt tenantID cdb db =
     (case flt of
        Some e \<Rightarrow> Inl e
      | None \<Rightarrow> Inr (sort_Strings (map tl_ToolID (filter (\<lambda>t. tl_TenantID t = tenantID \<and> tl_ArchivedAt t = None \<and>
           \<not> list_ex (\<lambda>d. adr_TenantID d = tl_TenantID t \<and> adr_ToolID d = tl_ToolID t) (decisions db)) (cb_tools cdb)))))"

subsection \<open>Report\<close>

record gap =
  gp_ToolID :: string
  gp_ActionType :: string
  gp_ActionRisk :: string
  gp_CurrentFallbackDecision :: string
  gp_FallbackRuleID :: string
  gp_HitCount :: int
  gp_LastSeen :: "time option"
  gp_Reason :: string

record coverage_report =
  cvr_TenantID :: string
  cvr_ActivePolicyVersion :: string
  cvr_GeneratedAt :: time
  cvr_WindowDays :: int
  cvr_Gaps :: "gap list"
  cvr_FallbackHitPairs :: int
  cvr_UnusedTools :: int

definition clampWindowDays :: "int \<Rightarrow> int" where
  "clampWindowDays days = (if days \<le> 0 then 30 else if days > 365 then 365 else days)"

definition clampLimit :: "int \<Rightarrow> int" where
  "clampLimit limit = (if limit \<le> 0 then 200 else if limit > 1000 then 1000 else limit)"

definition gap_less :: "gap \<Rightarrow> gap \<Rightarrow> bool" where
  "gap_less a b =
     (if gp_HitCount a \<noteq> gp_HitCount b then gp_HitCount a > gp_HitCount b
      else if gp_ToolID a \<noteq> gp_ToolID b then str_less (gp_ToolID a) (gp_ToolID b)
      else str_less (gp_ActionType a) (gp_ActionType b))"

definition gap_of_hit :: "fallback_hit \<Rightarrow> gap" where
  "gap_of_hit h =
     \<lparr>gp_ToolID = fh_ToolID h, gp_ActionType = fh_ActionType h, gp_ActionRisk = fh_ActionRisk h,
      gp_CurrentFallbackDecision = fh_Decision h, gp_FallbackRuleID = fh_RuleID h, gp_HitCount = fh_HitCount h,
      gp_LastSeen = Some (fh_LastSeen h), gp_Reason = ''fallback_hit''\<rparr>"

definition fallbackGaps :: "fallback_hit list \<Rightarrow> gap list" where
  "fallbackGaps hits = SliceStable gap_less (map gap_of_hit hits)"

definition unused_gap :: "string \<Rightarrow> gap" where
  "unused_gap i =
     \<lparr>gp_ToolID = i, gp_ActionType = [], gp_ActionRisk = [], gp_CurrentFallbackDecision = [], gp_FallbackRuleID = [],
      gp_HitCount = 0, gp_LastSeen = None, gp_Reason = ''no_traffic''\<rparr>"

definition noTrafficGaps :: "string list \<Rightarrow> gap list" where
  "noTrafficGaps toolIDs = map unused_gap (sort_Strings toolIDs)"

definition window_start :: "time \<Rightarrow> int \<Rightarrow> time" where
  "window_start now windowDays = now - clampWindowDays windowDays * 24 * 3600 * go_second"

text \<open>The faults are those of the three store calls, in their order.\<close>

definition BuildReport ::
  "faults \<Rightarrow> time \<Rightarrow> string \<Rightarrow> int \<Rightarrow> int \<Rightarrow> config_db \<Rightarrow> store_db \<Rightarrow> store_error + coverage_report" where
  "BuildReport flt now tenantID windowDays limit cdb db =
     (let active = (case GetTenantConfig (\<lambda>_. flt 0) tenantID cdb of Inr cfg \<Rightarrow> tg_ActivePolicyVersion cfg | Inl _ \<Rightarrow> [])
      in bind_r (ListFallbackHitPairs (flt 1) tenantID FallbackRuleIDs (window_start now windowDays) (clampLimit limit) db) (\<lambda>hits.
         bind_r (ListUnusedActiveTools (flt 2) tenantID cdb db) (\<lambda>unused.
         Inr \<lparr>cvr_TenantID = tenantID, cvr_ActivePolicyVersion = active, cvr_GeneratedAt = now, cvr_WindowDays = clampWindowDays windowDays,
              cvr_Gaps = fallbackGaps hits @ noTrafficGaps unused,
              cvr_FallbackHitPairs = int (length hits), cvr_UnusedTools = int (length unused)\<rparr>)))"

subsection \<open>What the report contains\<close>

definition fallback_groups :: "time \<Rightarrow> string \<Rightarrow> int \<Rightarrow> store_db \<Rightarrow> hit_key set" where
  "fallback_groups now tenantID windowDays db =
     set (map decision_key (fallback_rows tenantID FallbackRuleIDs (window_start now windowDays) db))"

definition gap_key :: "gap \<Rightarrow> hit_key" where
  "gap_key g = (gp_ToolID g, gp_ActionType g, gp_ActionRisk g, gp_CurrentFallbackDecision g, gp_FallbackRuleID g)"

lemma gap_key_group [simp]: "gap_key (gap_of_hit (hit_of_group rows k)) = k"
  by (cases k) (simp add: gap_key_def gap_of_hit_def hit_of_group_def)

lemma gap_reason [simp]: "gp_Reason (gap_of_hit h) = ''fallback_hit''" "gp_Reason (unused_gap i) = ''no_traffic''"
  "gp_ToolID (unused_gap i) = i"
  by (simp_all add: gap_of_hit_def unused_gap_def)

lemma gap_hits [simp]: "gp_HitCount (gap_of_hit (hit_of_group rows k)) = int (length (filter (\<lambda>d. decision_key d = k) rows))"
  by (cases k) (simp add: gap_of_hit_def hit_of_group_def)

lemma set_report_gaps:
  assumes "BuildReport flt now tenantID windowDays limit cdb db = Inr report"
    and "int (card (fallback_groups now tenantID windowDays db)) \<le> clampLimit limit"
  shows "set (cvr_Gaps report) =
      (gap_of_hit \<circ> hit_of_group (fallback_rows tenantID FallbackRuleIDs (window_start now windowDays) db)) `
        fallback_groups now tenantID windowDays db \<union>
      unused_gap ` {tl_ToolID t |t. t \<in> set (cb_tools cdb) \<and> tl_TenantID t = tenantID \<and> tl_ArchivedAt t = None \<and>
        (\<forall>d\<in>set (decisions db). adr_TenantID d = tenantID \<longrightarrow> adr_ToolID d \<noteq> tl_ToolID t)}"
proof -
  let ?rows = "fallback_rows tenantID FallbackRuleIDs (window_start now windowDays) db"
  let ?hits = "SliceStable hit_less (map (hit_of_group ?rows) (remdups (map decision_key ?rows)))"
  have "length ?hits = card (fallback_groups now tenantID windowDays db)"
    by (simp add: fallback_groups_def length_remdups_card_conv)
  with assms(2) have "take (nat (clampLimit limit)) ?hits = ?hits" by simp
  then have hits: "ListFallbackHitPairs None tenantID FallbackRuleIDs (window_start now windowDays) (clampLimit limit) db = Inr ?hits"
    by (simp add: ListFallbackHitPairs_def Let_def)
  have f: "flt (Suc 0) = None" "flt 2 = None"
    using assms(1) by (auto simp: BuildReport_def ListFallbackHitPairs_def ListUnusedActiveTools_def Let_def split: option.splits)
  from assms(1) have "cvr_Gaps report = fallbackGaps ?hits @ noTrafficGaps (sort_Strings (map tl_ToolID (filter (\<lambda>t. tl_TenantID t = tenantID \<and>
      tl_ArchivedAt t = None \<and> \<not> list_ex (\<lambda>d. adr_TenantID d = tl_TenantID t \<and> adr_ToolID d = tl_ToolID t) (decisions db)) (cb_tools cdb))))"
    by (auto simp: BuildReport_def Let_def f hits ListUnusedActiveTools_def)
  then show ?thesis
    by (auto simp: fallbackGaps_def noTrafficGaps_def sort_Strings_def fallback_groups_def list_ex_iff image_comp) 
qed

text \<open>The coverage report is exact while it fits its limit: its fallback gaps are, each once,
  the combinations of tool, action, risk, decision and fallback rule that decided a call of the
  tenant within the window, with the number of those calls, and its no-traffic gaps are the
  tenant's tools that are not archived and have no decision at all.\<close>

theorem coverage_report_exact:
  assumes "BuildReport flt now tenantID windowDays limit cdb db = Inr report"
    and "int (card (fallback_groups now tenantID windowDays db)) \<le> clampLimit limit"
  shows "gap_key ` {g \<in> set (cvr_Gaps report). gp_Reason g = ''fallback_hit''} = fallback_groups now tenantID windowDays db \<and>
    (\<forall>g\<in>set (cvr_Gaps report). gp_Reason g = ''fallback_hit'' \<longrightarrow>
       gp_HitCount g = int (length (filter (\<lambda>d. decision_key d = gap_key g)
         (fallback_rows tenantID FallbackRuleIDs (window_start now windowDays) db)))) \<and>
    gp_ToolID ` {g \<in> set (cvr_Gaps report). gp_Reason g = ''no_traffic''} =
      {tl_ToolID t |t. t \<in> set (cb_tools cdb) \<and> tl_TenantID t = tenantID \<and> tl_ArchivedAt t = None \<and>
        (\<forall>d\<in>set (decisions db). adr_TenantID d = tenantID \<longrightarrow> adr_ToolID d \<noteq> tl_ToolID t)}"
proof -
  have split: "{g \<in> (gap_of_hit \<circ> hit_of_group rows) ` G \<union> unused_gap ` T. gp_Reason g = ''fallback_hit''} = (gap_of_hit \<circ> hit_of_group rows) ` G"
    "{g \<in> (gap_of_hit \<circ> hit_of_group rows) ` G \<union> unused_gap ` T. gp_Reason g = ''no_traffic''} = unused_gap ` T" for rows G T
    by auto
  show ?thesis
    unfolding set_report_gaps [OF assms] split image_comp by (auto simp: comp_def)
qed

text \<open>The report is blind to the permissive defaults. Under a compiled policy whose default
  effect is ALLOW or REQUIRE\_APPROVAL, a request that no rule matches (and no risk fallback
  takes) is decided by a rule whose id is not among those the detector looks for, so the most
  permissive endpoints never show up as fallback hits.\<close>

theorem permissive_default_not_covered:
  assumes "Compile p = Inr (po_RegoModule policy)" and "opa_reads rg p"
    and "\<forall>r\<in>set (sp_Rules p). \<not> rule_matches input r"
    and "req_risk input = Str_v ''LOW'' \<or> req_risk input = Str_v ''MEDIUM'' \<or> sp_AppendRiskFallbacks p = Some False"
    and "sp_DefaultEffect p \<noteq> ''DENY''"
  shows "\<exists>res. tenant_answer rg (Inr policy) input = Inr res \<and> pr_Decision res = sp_DefaultEffect p \<and>
    dr_ID (pr_Rule res) \<notin> set FallbackRuleIDs"
proof -
  note valid = compiled_valid [OF assms(1)]
  define c where "c = deciding_clause (module_of p) (set_key ''policy_version'' (Str_v (po_PolicyVersion policy)) input)"
  have "find (rule_matches input) (sortRules (sp_Rules p)) = None"
    using assms(3) by (simp add: find_None_iff sortRules_def)
  then have c: "c = default_clause p"
    using deciding_clause_module [OF valid(3)] fallback_found [of _ p] assms(4) by (auto simp: c_def appendRiskFallbacks_def)
  have "risk_value input (rc_Risk c) = Str_v ''MEDIUM''" by (simp add: c risk_value_def default_clause_def)
  with tenant_answer_clause [OF assms(1,2) c_def [symmetric]] default_clause_ok [OF valid(1)] obtain res where
    res: "tenant_answer rg (Inr policy) input = Inr res" "pr_Decision res = rc_Decision c" "dr_ID (pr_Rule res) = rc_RuleID c"
    unfolding c by (fastforce simp: isRiskAllowed_def)
  have "rc_RuleID c \<notin> set FallbackRuleIDs"
    using valid(1) assms(5)
    by (auto simp: c default_clause_def defaultRuleMeta_def validEffects_def FallbackRuleIDs_def RuleDefaultAllow_def RuleDefaultApproval_def
        RuleDefaultDeny_def RuleHighRiskUnknown_def RuleCriticalRiskUnknown_def)
  with res show ?thesis by (auto simp: c default_clause_def)
qed

subsection \<open>Concrete reports\<close>

definition sample_decision :: "string \<Rightarrow> string \<Rightarrow> time \<Rightarrow> action_decision_record" where
  "sample_decision toolID ruleID created =
     \<lparr>adr_DecisionID = [], adr_RequestID = [], adr_TenantID = ''t1'', adr_AgentID = ''a'', adr_ToolID = toolID, adr_ActionType = ''DATA.READ'',
      adr_ActionRisk = ''LOW'', adr_ActionSummary = [], adr_Decision = ''DENY'', adr_DecisionVersion = [], adr_DecisionRisk = ''MEDIUM'',
      adr_RuleID = ruleID, adr_RulePriority = 0, adr_Reasons = [], adr_Constraints = [], adr_Tags = [], adr_PolicyVersion = ''v1'',
      adr_Reason = [], adr_RequestHash = [], adr_ResponseHash = [], adr_ApprovalRequestID = [], adr_SourceDecisionID = [],
      adr_CreatedAt = created\<rparr>"

definition sample_decisions :: store_db where
  "sample_decisions =
     \<lparr>approvals = Map.empty,
      decisions = [sample_decision ''crm'' RuleDefaultDeny 10, sample_decision ''crm'' ''reads'' 11, sample_decision ''crm'' RuleDefaultDeny 12]\<rparr>"

definition sample_configs :: config_db where
  "sample_configs = \<lparr>cb_settings = Map.empty, cb_configs = [], cb_policies = [], cb_tools = [], cb_risks = []\<rparr>"

lemma sample_fallback_rows:
  "fallback_rows ''t1'' FallbackRuleIDs (window_start 20 0) sample_decisions =
   [sample_decision ''crm'' RuleDefaultDeny 10, sample_decision ''crm'' RuleDefaultDeny 12]"
  by code_simp

theorem coverage_report_exact_witness:
  "\<exists>report. BuildReport (\<lambda>_. None) 20 ''t1'' 0 0 sample_configs sample_decisions = Inr report \<and>
     gap_key ` {g \<in> set (cvr_Gaps report). gp_Reason g = ''fallback_hit''} = {(''crm'', ''DATA.READ'', ''LOW'', ''DENY'', RuleDefaultDeny)}"
proof -
  have groups: "fallback_groups 20 ''t1'' 0 sample_decisions = {(''crm'', ''DATA.READ'', ''LOW'', ''DENY'', RuleDefaultDeny)}"
    unfolding fallback_groups_def sample_fallback_rows by (simp add: decision_key_def sample_decision_def)
  then have "int (card (fallback_groups 20 ''t1'' 0 sample_decisions)) \<le> clampLimit 0" by (simp add: clampLimit_def)
  moreover obtain report where report: "BuildReport (\<lambda>_. None) 20 ''t1'' 0 0 sample_configs sample_decisions = Inr report"
    by (simp add: BuildReport_def ListFallbackHitPairs_def ListUnusedActiveTools_def Let_def)
  ultimately show ?thesis using coverage_report_exact [OF report] report groups by auto
qed

definition permissive_policy :: structured_policy where
  "permissive_policy =
     \<lparr>sp_SchemaVersion = ''1'', sp_OutputVersion = [], sp_DefaultEffect = ''ALLOW'', sp_Rules = [], sp_AppendRiskFallbacks = None\<rparr>"

definition permissive_opa :: "structured_policy rego_engine" where
  "permissive_opa =
     \<lparr>rg_PrepareBase = Inl Rego_error, rg_Prepare = (\<lambda>_. Inr permissive_policy),
      rg_Eval = (\<lambda>p input. Inr (Some (module_value (module_of p) input)))\<rparr>"

theorem permissive_default_not_covered_witness:
  "\<exists>res. tenant_answer permissive_opa (Inr (sample_compiled\<lparr>po_RegoModule := print_module (module_of permissive_policy)\<rparr>)) sample_input = Inr res \<and>
     pr_Decision res = ''ALLOW'' \<and> dr_ID (pr_Rule res) \<notin> set FallbackRuleIDs"
proof -
  have "Validate permissive_policy = []" by code_simp
  then have c: "Compile permissive_policy =
      Inr (po_RegoModule (sample_compiled\<lparr>po_RegoModule := print_module (module_of permissive_policy)\<rparr>))"
    by (simp add: Compile_def render_prints_module)
  have o: "opa_reads permissive_opa permissive_policy" by (simp add: opa_reads_def permissive_opa_def)
  show ?thesis
    using permissive_default_not_covered [OF c o, of sample_input] sample_input_risk(1) by (simp add: permissive_policy_def)
qed

end
