(* ===== verification/Mcp_Protocol.thy ===== *)
theory Mcp_Protocol
  imports Go_Json
begin

text \<open>
  The JSON-RPC layer of the MCP gateway: \<open>src/internal/mcp\<close> (messages, request ids, parsing
  and validation, error objects) and the way \<open>src/internal/connector/mcp.go\<close> reads an
  upstream answer. A \<open>json.RawMessage\<close> is the text of a JSON value without surrounding white
  space, the empty text when the field is absent. Re-encoding a raw message removes white space
  and escapes the HTML characters; the line separators U+2028 and U+2029 are not treated. An id
  that a response gives twice is read as its last occurrence. The
  theorems say what a parsed request looks like and that the encoding of a request is read back
  as the same request.
\<close>

subsection \<open>Raw messages\<close>

definition raw_between :: "string \<Rightarrow> string \<Rightarrow> string" where
  "raw_between s rest = (let t = skip_ws s in take (length t - length rest) t)"

fun raw_members :: "nat \<Rightarrow> string \<Rightarrow> ((string \<times> string) list \<times> string) option" where
  "raw_members 0 s = None"
| "raw_members (Suc n) s =
     (case skip_ws s of
        [] \<Rightarrow> None
      | c # t \<Rightarrow>
          if c \<noteq> quote_mark then None
          else (case unquote t of
                  None \<Rightarrow> None
                | Some (k, u) \<Rightarrow>
                    (case skip_ws u of
                       [] \<Rightarrow> None
                     | d # u' \<Rightarrow>
                         if d \<noteq> CHR '':'' then None
                         else (case parse_value n u' of
                                 None \<Rightarrow> None
                               | Some (v, w) \<Rightarrow>
                                   (case skip_ws w of
                                      [] \<Rightarrow> None
                                    | e # w' \<Rightarrow>
                                        if e = CHR ''}'' then Some ([(k, raw_between u' w)], w')
                                        else if e = CHR '',''
                                        then (case raw_members n w' of None \<Rightarrow> None
                                              | Some (m, x) \<Rightarrow> Some ((k, raw_between u' w) # m, x))
                                        else None)))))"

text \<open>The members of the first value of a text and what follows it; \<open>null\<close> has none.\<close>

definition first_raw :: "string \<Rightarrow> ((string \<times> string) list \<times> string) option" where
  "first_raw s =
     (case skip_ws s of
        [] \<Rightarrow> None
      | c # t \<Rightarrow>
          if c = CHR ''{''
          then (case skip_ws t of
                  [] \<Rightarrow> None
                | d # u \<Rightarrow> if d = CHR ''}'' then Some ([], u) else raw_members (length s) t)
          else (case Decode s of Some (Nil_v, rest) \<Rightarrow> Some ([], rest) | _ \<Rightarrow> None))"

definition raw_object :: "string \<Rightarrow> (string \<times> string) list option" where
  "raw_object s = (case first_raw s of Some (m, rest) \<Rightarrow> if skip_ws rest = [] then Some m else None | None \<Rightarrow> None)"

fun compact_raw :: "bool \<Rightarrow> string \<Rightarrow> string" where
  "compact_raw quoted [] = []"
| "compact_raw quoted (c # s) =
     (if quoted
      then (if c = backslash then (case s of [] \<Rightarrow> [c] | d # t \<Rightarrow> c # d # compact_raw True t)
            else if c = quote_mark then c # compact_raw False s
            else esc_char c @ compact_raw True s)
      else if json_space c then compact_raw False s
      else if c = quote_mark then c # compact_raw True s
      else c # compact_raw False s)"

text \<open>\<open>json.Marshal\<close> of a raw message.\<close>

definition marshal_raw :: "string \<Rightarrow> string" where
  "marshal_raw raw = (if raw = [] then ''null'' else compact_raw False raw)"

type_synonym 'r raw_field = "string \<Rightarrow> 'r \<Rightarrow> 'r option"

definition raw_string_field :: "((string \<Rightarrow> string) \<Rightarrow> 'r \<Rightarrow> 'r) \<Rightarrow> 'r raw_field" where
  "raw_string_field upd raw r = Option.bind (Unmarshal raw) (\<lambda>v. string_field upd v r)"

definition raw_int_field :: "((int \<Rightarrow> int) \<Rightarrow> 'r \<Rightarrow> 'r) \<Rightarrow> 'r raw_field" where
  "raw_int_field upd raw r = Option.bind (Unmarshal raw) (\<lambda>v. int_field upd v r)"

definition raw_text_field :: "((string \<Rightarrow> string) \<Rightarrow> 'r \<Rightarrow> 'r) \<Rightarrow> 'r raw_field" where
  "raw_text_field upd raw r = Some (upd (\<lambda>_. raw) r)"

subsection \<open>Messages\<close>

datatype request_id = Id_string string | Id_number rat | Id_null

record error_object =
  eo_Code :: int
  eo_Message :: string
  eo_Data :: string

record mcp_request =
  mq_JSONRPC :: string
  mq_ID :: "request_id option"
  mq_Method :: string
  mq_Params :: string

record mcp_response =
  mp_JSONRPC :: string
  mp_ID :: "request_id option"
  mp_Result :: string
  mp_Error :: "error_object option"

definition ErrorParseError :: int where "ErrorParseError = - 32700"
definition ErrorInvalidRequest :: int where "ErrorInvalidRequest = - 32600"
definition ErrorMethodNotFound :: int where "ErrorMethodNotFound = - 32601"
definition ErrorInvalidParams :: int where "ErrorInvalidParams = - 32602"
definition ErrorInternalError :: int where "ErrorInternalError = - 32603"
definition ErrorApprovalRequired :: int where "ErrorApprovalRequired = - 32001"
definition ErrorUnauthorized :: int where "ErrorUnauthorized = - 32002"
definition ErrorDeniedByPolicy :: int where "ErrorDeniedByPolicy = - 32003"
definition ErrorPolicyInvalid :: int where "ErrorPolicyInvalid = - 32004"
definition ErrorRateLimitExceeded :: int where "ErrorRateLimitExceeded = - 32005"
definition ErrorFileAccessDenied :: int where "ErrorFileAccessDenied = - 32006"
definition ErrorQuotaExceeded :: int where "ErrorQuotaExceeded = - 32007"

definition error_obj :: "int \<Rightarrow> string \<Rightarrow> error_object" where
  "error_obj code message = \<lparr>eo_Code = code, eo_Message = message, eo_Data = []\<rparr>"

subsection \<open>Request ids\<close>

definition id_error :: error_object where
  "id_error = error_obj ErrorInvalidRequest ''id must be string or number''"

definition RequestID_UnmarshalJSON :: "string \<Rightarrow> error_object + request_id" where
  "RequestID_UnmarshalJSON data =
     (if data = ''null'' then Inl id_error
      else case Unmarshal data of
             Some (Str_v s) \<Rightarrow> Inr (Id_string s)
           | Some (Number_v n) \<Rightarrow> (case ParseFloat n of Some r \<Rightarrow> Inr (Id_number r) | None \<Rightarrow> Inl id_error)
           | _ \<Rightarrow> Inl id_error)"

fun RequestID_MarshalJSON :: "(rat \<Rightarrow> string) \<Rightarrow> request_id \<Rightarrow> string" where
  "RequestID_MarshalJSON fmt Id_null = ''null''"
| "RequestID_MarshalJSON fmt (Id_string s) = quote s"
| "RequestID_MarshalJSON fmt (Id_number r) = fmt r"

definition compareRequestIDs :: "request_id option \<Rightarrow> request_id option \<Rightarrow> bool" where
  "compareRequestIDs a b =
     (case (a, b) of
        (None, None) \<Rightarrow> True
      | (Some x, Some y) \<Rightarrow>
          (case (x, y) of
             (Id_null, Id_null) \<Rightarrow> True
           | (Id_string s, Id_string t) \<Rightarrow> s = t
           | (Id_number r, Id_number q) \<Rightarrow> r = q
           | _ \<Rightarrow> False)
      | _ \<Rightarrow> False)"

definition ExtractRequestID :: "string \<Rightarrow> request_id option" where
  "ExtractRequestID data =
     (case first_raw data of
        None \<Rightarrow> None
      | Some (m, _) \<Rightarrow>
          (case decode_struct [(''id'', raw_text_field id)] [] m of
             None \<Rightarrow> None
           | Some raw \<Rightarrow> if raw = [] then None
               else (case RequestID_UnmarshalJSON raw of Inl _ \<Rightarrow> None | Inr i \<Rightarrow> Some i)))"

subsection \<open>Requests\<close>

record request_aux =
  qa_IDRaw :: string
  qa_Request :: mcp_request

definition request_fields :: "(string \<times> request_aux raw_field) list" where
  "request_fields =
     [(''id'', raw_text_field qa_IDRaw_update),
      (''jsonrpc'', raw_string_field (\<lambda>f. qa_Request_update (mq_JSONRPC_update f))),
      (''method'', raw_string_field (\<lambda>f. qa_Request_update (mq_Method_update f))),
      (''params'', raw_text_field (\<lambda>f. qa_Request_update (mq_Params_update f)))]"

definition zero_request :: mcp_request where
  "zero_request = \<lparr>mq_JSONRPC = [], mq_ID = None, mq_Method = [], mq_Params = []\<rparr>"

definition parse_error :: error_object where
  "parse_error = error_obj ErrorParseError ''parse error''"

text \<open>\<open>Request.UnmarshalJSON\<close> on the members of the decoded object.\<close>

definition Request_UnmarshalJSON :: "(string \<times> string) list \<Rightarrow> error_object + mcp_request" where
  "Request_UnmarshalJSON members =
     (case decode_struct request_fields \<lparr>qa_IDRaw = [], qa_Request = zero_request\<rparr> members of
        None \<Rightarrow> Inl parse_error
      | Some aux \<Rightarrow>
          if qa_IDRaw aux = [] then Inr (qa_Request aux)
          else (case RequestID_UnmarshalJSON (qa_IDRaw aux) of
                  Inl e \<Rightarrow> Inl e
                | Inr i \<Rightarrow> Inr ((qa_Request aux)\<lparr>mq_ID := Some i\<rparr>)))"

text \<open>\<open>Decoder.More\<close>: there is a next character, and it closes nothing.\<close>

definition decoder_More :: "string \<Rightarrow> bool" where
  "decoder_More rest = (case skip_ws rest of [] \<Rightarrow> False | c # _ \<Rightarrow> c \<noteq> CHR '']'' \<and> c \<noteq> CHR ''}'')"

definition MaxRequestSize :: int where "MaxRequestSize = 10 * 1024 * 1024"

definition JSONRPCVersion :: string where "JSONRPCVersion = ''2.0''"

definition ValidateAndParseRequest :: "string \<Rightarrow> int \<Rightarrow> error_object + mcp_request" where
  "ValidateAndParseRequest data maxSize0 =
     (let maxSize = (if maxSize0 \<le> 0 then MaxRequestSize else maxSize0)
      in if int (length data) > maxSize then Inl (error_obj ErrorInvalidRequest ''request body too large'')
         else case first_raw data of
                None \<Rightarrow> Inl parse_error
              | Some (members, rest) \<Rightarrow>
                  (case Request_UnmarshalJSON members of
                     Inl e \<Rightarrow> Inl e
                   | Inr req \<Rightarrow>
                       if decoder_More rest
                       then Inl (error_obj ErrorInvalidRequest ''request must contain exactly one JSON value'')
                       else if mq_JSONRPC req \<noteq> JSONRPCVersion
                       then Inl (error_obj ErrorInvalidRequest (''jsonrpc must be '' @ [CHR 0x27] @ ''2.0'' @ [CHR 0x27]))
                       else if mq_Method req = []
                       then Inl (error_obj ErrorInvalidRequest ''method is required'')
                       else Inr req))"

definition json_object :: "(string \<times> string) list \<Rightarrow> string" where
  "json_object members = ''{'' @ Join '','' (map json_member members) @ ''}''"

definition id_text :: "(rat \<Rightarrow> string) \<Rightarrow> request_id option \<Rightarrow> string" where
  "id_text fmt i = (case i of None \<Rightarrow> ''null'' | Some x \<Rightarrow> RequestID_MarshalJSON fmt x)"

definition marshal_request :: "(rat \<Rightarrow> string) \<Rightarrow> mcp_request \<Rightarrow> string" where
  "marshal_request fmt req =
     json_object ([(''jsonrpc'', quote (mq_JSONRPC req)), (''id'', id_text fmt (mq_ID req)), (''method'', quote (mq_Method req))] @
       (if mq_Params req = [] then [] else [(''params'', marshal_raw (mq_Params req))]))"

subsection \<open>Responses\<close>

definition NewSuccessResponse :: "request_id option \<Rightarrow> string \<Rightarrow> mcp_response" where
  "NewSuccessResponse i result = \<lparr>mp_JSONRPC = JSONRPCVersion, mp_ID = i, mp_Result = result, mp_Error = None\<rparr>"

definition NewErrorResponse :: "request_id option \<Rightarrow> error_object \<Rightarrow> mcp_response" where
  "NewErrorResponse i e = \<lparr>mp_JSONRPC = JSONRPCVersion, mp_ID = i, mp_Result = [], mp_Error = Some e\<rparr>"

definition NewMethodNotFoundError :: "string \<Rightarrow> error_object" where
  "NewMethodNotFoundError m = error_obj ErrorMethodNotFound (''method '' @ [CHR 0x27] @ m @ [CHR 0x27] @ '' not found'')"

definition NewInvalidParamsError :: "string \<Rightarrow> error_object" where
  "NewInvalidParamsError msg = error_obj ErrorInvalidParams (''invalid params: '' @ msg)"

definition NewInternalError :: "string \<Rightarrow> error_object" where
  "NewInternalError msg = error_obj ErrorInternalError msg"

definition NewQuotaExceededError :: "string \<Rightarrow> error_object" where
  "NewQuotaExceededError msg = error_obj ErrorQuotaExceeded msg"

definition error_fields :: "(string \<times> error_object raw_field) list" where
  "error_fields =
     [(''code'', raw_int_field eo_Code_update), (''message'', raw_string_field eo_Message_update),
      (''data'', raw_text_field eo_Data_update)]"

definition error_field :: "mcp_response raw_field" where
  "error_field raw r =
     (if raw = ''null'' then Some (r\<lparr>mp_Error := None\<rparr>)
      else case raw_object raw of
             None \<Rightarrow> None
           | Some m \<Rightarrow>
               (case decode_struct error_fields (case mp_Error r of Some e \<Rightarrow> e | None \<Rightarrow> error_obj 0 []) m of
                  None \<Rightarrow> None | Some e \<Rightarrow> Some (r\<lparr>mp_Error := Some e\<rparr>)))"

definition response_id_field :: "mcp_response raw_field" where
  "response_id_field raw r =
     (if raw = ''null'' then Some (r\<lparr>mp_ID := None\<rparr>)
      else case RequestID_UnmarshalJSON raw of Inl _ \<Rightarrow> None | Inr i \<Rightarrow> Some (r\<lparr>mp_ID := Some i\<rparr>))"

definition response_fields :: "(string \<times> mcp_response raw_field) list" where
  "response_fields =
     [(''jsonrpc'', raw_string_field mp_JSONRPC_update), (''id'', response_id_field),
      (''result'', raw_text_field mp_Result_update), (''error'', error_field)]"

definition zero_response :: mcp_response where
  "zero_response = \<lparr>mp_JSONRPC = [], mp_ID = None, mp_Result = [], mp_Error = None\<rparr>"

definition Response_Unmarshal :: "string \<Rightarrow> mcp_response option" where
  "Response_Unmarshal data = Option.bind (raw_object data) (decode_struct response_fields zero_response)"

subsection \<open>Reading back what was written\<close>

text \<open>The text of one value, as a raw message holds it.\<close>

definition raw_ok :: "string \<Rightarrow> bool" where
  "raw_ok t \<longleftrightarrow> value_start t \<and> (\<forall>k r. length t \<le> k \<longrightarrow> delim r \<longrightarrow> (\<exists>v. parse_value k (t @ r) = Some (v, r)))"

lemma raw_ok_text: "float_format fmt \<Longrightarrow> wf_any v \<Longrightarrow> numbers_ok v \<Longrightarrow> raw_ok (json_text fmt v)"
  unfolding raw_ok_def using value_start_text parse_json_text by blast

lemma raw_ok_quote: "raw_ok (quote s)"
  using raw_ok_text [of no_floats "Str_v s"] by simp

lemma raw_ok_null: "raw_ok ''null''"
  using raw_ok_text [of no_floats Nil_v] by simp

lemma raw_ok_number: "is_number n \<Longrightarrow> raw_ok n"
  using raw_ok_text [of no_floats "Number_v n"] number_ne [of n] by simp

lemma raw_between_value: "value_start t \<Longrightarrow> raw_between (t @ r) r = t"
  using value_start_skip [of t r] by (simp add: raw_between_def)

lemma raw_members_join:
  assumes "list_all (\<lambda>(_, t). raw_ok t) m" and "m \<noteq> []" and "length (Join '','' (map json_member m)) < k"
  shows "raw_members k (Join '','' (map json_member m) @ CHR ''}'' # rest) = Some (m, rest)"
  using assms
proof (induction m arbitrary: k)
  case (Cons x m)
  obtain key t where x: "x = (key, t)" by (cases x)
  obtain n where k: "k = Suc n" using Cons.prems(3) by (cases k) auto
  have uq: "unquote (concat (map esc_char key) @ quote_mark # r) = Some (key, r)" for r
    by (rule unquote_quote)
  have mem: "json_member (key, t) = quote_mark # concat (map esc_char key) @ quote_mark # CHR '':'' # t"
    by (simp add: json_member_def quote_def)
  have t: "raw_ok t" using Cons.prems(1) x by simp
  then have rb: "raw_between (t @ r) r = t" for r by (simp add: raw_between_value raw_ok_def)
  show ?case
  proof (cases m)
    case Nil
    have "length t \<le> n" using Cons.prems(3) k x Nil length_member [of t key] by simp
    then obtain v where "parse_value n (t @ CHR ''}'' # rest) = Some (v, CHR ''}'' # rest)"
      using t unfolding raw_ok_def by (meson delim_mark(2))
    with Nil k x show ?thesis by (simp add: mem uq rb)
  next
    case (Cons y ys)
    let ?tail = "Join '','' (map json_member m) @ CHR ''}'' # rest"
    have l: "length t \<le> n" "length (Join '','' (map json_member m)) < n"
      using Cons.prems(3) k local.Cons x length_member [of t key] by auto
    from l(1) obtain v where "parse_value n (t @ CHR '','' # ?tail) = Some (v, CHR '','' # ?tail)"
      using t unfolding raw_ok_def by (meson delim_mark(4))
    moreover have "raw_members n ?tail = Some (m, rest)"
      using Cons.IH [OF _ _ l(2)] Cons.prems(1) local.Cons by simp
    ultimately show ?thesis using k local.Cons x by (simp add: mem uq rb)
  qed
qed simp

lemma first_raw_object:
  assumes "list_all (\<lambda>(_, t). raw_ok t) m" and "m \<noteq> []"
  shows "first_raw (json_object m @ rest) = Some (m, rest)"
proof -
  obtain key t m' where m: "m = (key, t) # m'" using assms(2) by (cases m) auto
  then obtain u where u: "Join '','' (map json_member m) = quote_mark # u"
    by (cases m') (simp_all add: json_member_def quote_def)
  have "raw_members (length (json_object m @ rest)) (Join '','' (map json_member m) @ CHR ''}'' # rest) = Some (m, rest)"
    using assms by (intro raw_members_join) (simp_all add: json_object_def)
  moreover have "json_object m @ rest = CHR ''{'' # quote_mark # u @ CHR ''}'' # rest" by (simp add: json_object_def u)
  ultimately show ?thesis by (simp add: first_raw_def u del: raw_members.simps)
qed

definition plain_char :: "char \<Rightarrow> bool" where
  "plain_char c = (c \<noteq> quote_mark \<and> c \<noteq> backslash \<and> esc_char c = [c])"

lemma plain_hex:
  assumes "n < 16"
  shows "plain_char (hex_digit n)"
proof -
  have "list_all (\<lambda>n. plain_char (hex_digit n)) [0..<16]" by code_simp
  with assms show ?thesis by (simp add: list_all_iff)
qed

lemma plain_zero: "plain_char CHR ''0''"
  by (simp add: plain_char_def esc_char_def quote_mark_def backslash_def)

lemma esc_char_shape:
  obtains e where "esc_char c = [backslash, e]"
  | h l where "esc_char c = [backslash, CHR ''u'', CHR ''0'', CHR ''0'', h, l]" "plain_char h" "plain_char l"
  | "esc_char c = [c]" "plain_char c"
proof -
  let ?n = "(of_char c :: nat)"
  have "?n < 256" by simp
  then have h: "plain_char (hex_digit (?n div 16))" "plain_char (hex_digit (?n mod 16))" 
    by (auto intro!: plain_hex less_mult_imp_div_less)
  have "(\<exists>e. esc_char c = [backslash, e]) \<or>
      esc_char c = [backslash, CHR ''u'', CHR ''0'', CHR ''0'', hex_digit (?n div 16), hex_digit (?n mod 16)] \<or>
      (esc_char c = [c] \<and> c \<noteq> quote_mark \<and> c \<noteq> backslash)"
    by (simp add: esc_char_def Let_def)
  with that h show thesis unfolding plain_char_def by blast
qed

lemma compact_plain: "plain_char c \<Longrightarrow> compact_raw True (c # s) = c # compact_raw True s"
  by (simp add: plain_char_def)

lemma compact_escape: "compact_raw True (backslash # e # s) = backslash # e # compact_raw True s"
  by simp

lemma compact_esc: "compact_raw True (esc_char c @ s) = esc_char c @ compact_raw True s"
  by (rule esc_char_shape [of c]) (simp_all add: compact_plain compact_escape plain_zero del: compact_raw.simps)

lemma compact_quoted:
  "compact_raw True (concat (map esc_char s) @ quote_mark # r) = concat (map esc_char s) @ quote_mark # compact_raw False r"
proof (induction s)
  case Nil
  then show ?case by (simp add: quote_mark_def backslash_def)
next
  case (Cons c s)
  then show ?case by (simp add: compact_esc del: compact_raw.simps)
qed

lemma compact_quote: "compact_raw False (quote s @ r) = quote s @ compact_raw False r"
proof -
  have "compact_raw False (quote_mark # t) = quote_mark # compact_raw True t" for t by (simp add: json_space_def quote_mark_def)
  then show ?thesis by (simp add: quote_def compact_quoted del: compact_raw.simps)
qed

lemma compact_outside:
  "list_all (\<lambda>c. \<not> json_space c \<and> c \<noteq> quote_mark) n \<Longrightarrow> compact_raw False (n @ r) = n @ compact_raw False r"
  by (induction n) auto

lemma compact_number: "is_number n \<Longrightarrow> compact_raw False (n @ r) = n @ compact_raw False r"
  by (rule compact_outside) (auto simp: is_number_def list_all_iff num_char_def is_digit_def json_space_def quote_mark_def)

lemma compact_join:
  assumes "\<And>x r. x \<in> set xs \<Longrightarrow> compact_raw False (x @ r) = x @ compact_raw False r"
  shows "compact_raw False (Join '','' xs @ r) = Join '','' xs @ compact_raw False r"
  using assms
proof (induction xs)
  case (Cons x xs)
  have comma: "compact_raw False (CHR '','' # t) = CHR '','' # compact_raw False t" for t
    by (simp add: json_space_def quote_mark_def)
  show ?case using Cons by (cases xs) (simp_all add: comma del: compact_raw.simps)
qed simp

lemma compact_member:
  "(\<And>r. compact_raw False (t @ r) = t @ compact_raw False r) \<Longrightarrow>
   compact_raw False (json_member (k, t) @ r) = json_member (k, t) @ compact_raw False r"
proof -
  assume t: "\<And>r. compact_raw False (t @ r) = t @ compact_raw False r"
  have colon: "compact_raw False (CHR '':'' # t) = CHR '':'' # compact_raw False t" for t
    by (simp add: json_space_def quote_mark_def)
  show ?thesis by (simp add: json_member_def compact_quote colon t del: compact_raw.simps)
qed

lemma compact_marks:
  "compact_raw False (CHR ''{'' # t) = CHR ''{'' # compact_raw False t" "compact_raw False (CHR ''}'' # t) = CHR ''}'' # compact_raw False t"
  "compact_raw False (CHR ''['' # t) = CHR ''['' # compact_raw False t" "compact_raw False (CHR '']'' # t) = CHR '']'' # compact_raw False t"
  by (simp_all add: json_space_def quote_mark_def)

text \<open>Encoded values have nothing to compact.\<close>

lemma compact_text:
  assumes "float_format fmt" and "numbers_ok v"
  shows "compact_raw False (json_text fmt v @ r) = json_text fmt v @ compact_raw False r"
  using assms(2)
proof (induction v arbitrary: r)
  case Nil_v
  then show ?case using compact_outside [of "''null''" r] by (simp add: json_space_def quote_mark_def)
next
  case (Bool_v b)
  then show ?case
    using compact_outside [of "''true''" r] compact_outside [of "''false''" r] by (simp add: json_space_def quote_mark_def)
next
  case (Float_v x)
  then show ?case using compact_number [OF float_formatD [OF assms(1)]] by simp
next
  case (Int_v i)
  then show ?case using compact_number [OF is_number_int_text] by simp
next
  case (Number_v n)
  then show ?case using compact_number [of n r] compact_outside [of "''0''" r] by (auto simp: json_space_def quote_mark_def)
next
  case (Str_v s)
  then show ?case by (simp add: compact_quote del: compact_raw.simps)
next
  case (List_v xs)
  have "compact_raw False (Join '','' (map (json_text fmt) xs) @ t) = Join '','' (map (json_text fmt) xs) @ compact_raw False t" for t
    by (rule compact_join) (use List_v in \<open>auto simp: list_all_iff\<close>)
  then show ?case by (simp add: compact_marks del: compact_raw.simps)
next
  case (Map_v m)
  have "compact_raw False (json_text fmt v @ r) = json_text fmt v @ compact_raw False r" if "(k, v) \<in> set m" for k v r
    using Map_v that by (force simp: list_all_iff)
  then have "compact_raw False (Join '','' (map json_member (sort_keys (map (\<lambda>(k, v). (k, json_text fmt v)) m))) @ t) =
      Join '','' (map json_member (sort_keys (map (\<lambda>(k, v). (k, json_text fmt v)) m))) @ compact_raw False t" for t
    by (intro compact_join) (auto intro!: compact_member)
  then show ?case by (simp add: compact_marks del: compact_raw.simps)
qed

lemma marshal_raw_text: "float_format fmt \<Longrightarrow> numbers_ok v \<Longrightarrow> marshal_raw (json_text fmt v) = json_text fmt v"
  using compact_text [of fmt v "[]"] value_start_text [of fmt v] by (auto simp: marshal_raw_def value_start_def)

subsection \<open>Compacting keeps the value\<close>

text \<open>The text \<open>t\<close> is written as \<open>t'\<close>, inside or outside of a string.\<close>

definition compacts :: "string \<Rightarrow> string \<Rightarrow> bool" where
  "compacts t t' \<longleftrightarrow> (\<forall>r. compact_raw False (t @ r) = t' @ compact_raw False r)"

lemma compacts_append [intro]: "compacts s s' \<Longrightarrow> compacts t t' \<Longrightarrow> compacts (s @ t) (s' @ t')"
  by (simp add: compacts_def)

lemma compacts_space: "list_all json_space s \<Longrightarrow> compacts s []"
  by (induction s) (auto simp: compacts_def)

lemma skip_ws_split: "\<exists>w. s = w @ skip_ws s \<and> compacts w []"
  unfolding skip_ws_def
  by (rule exI [of _ "takeWhile json_space s"]) (auto simp: list_all_iff dest: set_takeWhileD intro!: compacts_space)

lemma skip_ws_Cons:
  assumes "skip_ws s = c # t"
  obtains w where "s = w @ c # t" and "compacts w []" and "\<not> json_space c"
proof -
  from skip_ws_split [of s] assms obtain w where "s = w @ c # t" "compacts w []" by auto
  moreover have "\<not> json_space c" using assms hd_dropWhile [of json_space s] by (auto simp: skip_ws_def)
  ultimately show thesis by (rule that)
qed

lemma compacts_mark: "\<not> json_space c \<Longrightarrow> c \<noteq> quote_mark \<Longrightarrow> compacts [c] [c]"
  by (simp add: compacts_def)

lemma compacts_own: "list_all (\<lambda>c. \<not> json_space c \<and> c \<noteq> quote_mark) n \<Longrightarrow> compacts n n"
  by (simp add: compacts_def compact_outside)

lemma plain_hex_val:
  assumes "hex_val c = Some n"
  shows "plain_char c"
proof -
  have "hex_val quote_mark = None" "hex_val backslash = None" "hex_val CHR ''<'' = None" "hex_val CHR ''>'' = None"
    "hex_val CHR ''&'' = None" "hex_val CHR 0x08 = None" "hex_val CHR 0x09 = None" "hex_val CHR 0x0A = None"
    "hex_val CHR 0x0C = None" "hex_val CHR 0x0D = None"
    by (simp_all add: hex_val_def quote_mark_def backslash_def)
  with assms have "c \<noteq> quote_mark \<and> c \<noteq> backslash \<and> c \<noteq> CHR ''<'' \<and> c \<noteq> CHR ''>'' \<and> c \<noteq> CHR ''&'' \<and> c \<noteq> CHR 0x08 \<and>
      c \<noteq> CHR 0x09 \<and> c \<noteq> CHR 0x0A \<and> c \<noteq> CHR 0x0C \<and> c \<noteq> CHR 0x0D"
    by (intro conjI notI) simp_all
  moreover have "\<not> (of_char c :: nat) < 32" using assms by (auto simp: hex_val_def Let_def split: if_splits)
  ultimately show ?thesis by (simp add: plain_char_def esc_char_def Let_def)
qed

lemma hex4_shape:
  assumes "hex4 s = Some (n, u)"
  obtains h where "s = h @ u" and "\<And>r. hex4 (h @ r) = Some (n, r)" and "\<And>r. compact_raw True (h @ r) = h @ compact_raw True r"
proof -
  from assms obtain a b c d where s: "s = a # b # c # d # u" and n: "\<And>r. hex4 ([a, b, c, d] @ r) = Some (n, r)"
    and v: "hex_val a \<noteq> None" "hex_val b \<noteq> None" "hex_val c \<noteq> None" "hex_val d \<noteq> None"
    by (induction s rule: hex4.induct) (auto split: option.splits)
  from v have "compact_raw True ([a, b, c, d] @ r) = [a, b, c, d] @ compact_raw True r" for r
    by (auto simp: compact_plain plain_hex_val simp del: compact_raw.simps)
  with s n that [of "[a, b, c, d]"] show thesis by simp
qed

lemma hex4_low: "hex4 (CHR ''0'' # CHR ''0'' # h # l # z) = Some (n, r) \<Longrightarrow> n < 0xDC00"
proof -
  assume a: "hex4 (CHR ''0'' # CHR ''0'' # h # l # z) = Some (n, r)"
  have v: "hex_val c = Some k \<Longrightarrow> k < 16" for c k by (auto simp: hex_val_def Let_def split: if_splits)
  have "hex_val CHR ''0'' = Some 0" by (simp add: hex_val_def)
  with a obtain y z where "hex_val h = Some y" "hex_val l = Some z" "n = y * 16 + z" by (auto split: option.splits)
  with v [of h y] v [of l z] show ?thesis by simp
qed

lemma low_surrogate_esc: "low_surrogate (esc_char c @ z) = None"
proof (rule esc_char_shape [of c])
  fix e
  assume e: "esc_char c = [backslash, e]"
  then have "e \<noteq> CHR ''u''" by (auto simp: esc_char_def Let_def escape_letters [symmetric] dest: sym split: if_splits)
  with e show ?thesis by (auto simp: low_surrogate_def)
next
  fix h l
  assume "esc_char c = [backslash, CHR ''u'', CHR ''0'', CHR ''0'', h, l]"
  then show ?thesis by (auto simp: low_surrogate_def simp del: hex4.simps split: option.splits dest: hex4_low)
next
  assume "esc_char c = [c]" "plain_char c"
  then show ?thesis by (auto simp: low_surrogate_def plain_char_def split: list.splits)
qed

text \<open>The rest of a string literal: read from \<open>s\<close> up to \<open>u\<close>, it means the same when compacted.\<close>

definition string_kept :: "string \<Rightarrow> string \<Rightarrow> string \<Rightarrow> bool" where
  "string_kept s x u \<longleftrightarrow> (\<exists>w w'. s = w @ u \<and> (\<forall>r. compact_raw True (w @ r) = w' @ compact_raw False r) \<and>
     (\<forall>r. unquote (w' @ r) = Some (x, r)) \<and> (low_surrogate s = None \<longrightarrow> (\<forall>r. low_surrogate (w' @ r) = None)))"

lemma string_keptI:
  assumes "s = w @ u" and "\<And>r. compact_raw True (w @ r) = w' @ compact_raw False r" and "\<And>r. unquote (w' @ r) = Some (x, r)"
    and "\<And>r. low_surrogate s = None \<Longrightarrow> low_surrogate (w' @ r) = None"
  shows "string_kept s x u"
  using assms unfolding string_kept_def by blast

lemma string_keptE:
  assumes "string_kept s x u"
  obtains w w' where "s = w @ u" and "\<And>r. compact_raw True (w @ r) = w' @ compact_raw False r" and "\<And>r. unquote (w' @ r) = Some (x, r)"
    and "\<And>r. low_surrogate s = None \<Longrightarrow> low_surrogate (w' @ r) = None"
proof -
  from assms obtain w w' where k: "s = w @ u \<and> (\<forall>r. compact_raw True (w @ r) = w' @ compact_raw False r) \<and>
      (\<forall>r. unquote (w' @ r) = Some (x, r)) \<and> (low_surrogate s = None \<longrightarrow> (\<forall>r. low_surrogate (w' @ r) = None))"
    unfolding string_kept_def by (elim exE)
  show thesis by (rule that [of w w']) (use k in simp_all)
qed

lemma string_kept_char:
  assumes "string_kept s x u" and "c \<noteq> quote_mark" and "c \<noteq> backslash"
  shows "string_kept (c # s) (c # x) u"
proof -
  from assms(1) obtain w w' where w: "s = w @ u" "\<And>r. compact_raw True (w @ r) = w' @ compact_raw False r"
    "\<And>r. unquote (w' @ r) = Some (x, r)" by (rule string_keptE) blast
  then show ?thesis
    using assms(2,3) by (intro string_keptI [of _ "c # w" _ "esc_char c @ w'"]) (simp_all add: unquote_esc low_surrogate_esc)
qed

lemma string_kept_simple:
  assumes "string_kept s x u" and "simple_escape e = Some y" and "e \<noteq> CHR ''u''"
  shows "string_kept (backslash # e # s) (y # x) u"
proof -
  from assms(1) obtain w w' where w: "s = w @ u" "\<And>r. compact_raw True (w @ r) = w' @ compact_raw False r"
    "\<And>r. unquote (w' @ r) = Some (x, r)" by (rule string_keptE) blast
  then show ?thesis
    using assms(2,3) by (intro string_keptI [of _ "backslash # e # w" _ "backslash # e # w'"])
      (simp_all add: compact_escape unquote_backslash low_surrogate_def del: compact_raw.simps)
qed

lemma string_kept_unicode:
  assumes "string_kept s x u" and "unicode_escape t = Some (y, s)"
  shows "string_kept (backslash # CHR ''u'' # t) (y @ x) u"
proof -
  from assms(1) obtain w w' where w: "s = w @ u" "\<And>r. compact_raw True (w @ r) = w' @ compact_raw False r"
    "\<And>r. unquote (w' @ r) = Some (x, r)" "\<And>r. low_surrogate s = None \<Longrightarrow> low_surrogate (w' @ r) = None"
    by (rule string_keptE) blast
  from assms(2) obtain n t1 where "hex4 t = Some (n, t1)" by (auto simp: unicode_escape_def split: option.splits)
  then obtain h where h: "t = h @ t1" "\<And>r. hex4 (h @ r) = Some (n, r)" "\<And>r. compact_raw True (h @ r) = h @ compact_raw True r"
    by (rule hex4_shape) blast
  show ?thesis
  proof (cases "0xD800 \<le> n \<and> n < 0xDC00 \<and> low_surrogate t1 \<noteq> None")
    case True
    then obtain m where m: "low_surrogate t1 = Some (m, s)" using assms(2) h by (auto simp: unicode_escape_def)
    then obtain t2 where t2: "t1 = backslash # CHR ''u'' # t2" "hex4 t2 = Some (m, s)" "0xDC00 \<le> m" "m < 0xE000"
      by (auto simp: low_surrogate_def split: list.splits if_splits option.splits)
    from t2(2) obtain g where g: "t2 = g @ s" "\<And>r. hex4 (g @ r) = Some (m, r)" "\<And>r. compact_raw True (g @ r) = g @ compact_raw True r"
      by (rule hex4_shape) blast
    have "unicode_escape (h @ backslash # CHR ''u'' # g @ r) = Some (y, r)" for r
      using assms(2) h g m t2 True by (simp add: unicode_escape_def low_surrogate_def)
    with w g h t2(1) True show ?thesis
      by (intro string_keptI [of _ "backslash # CHR ''u'' # h @ backslash # CHR ''u'' # g @ w" _
            "backslash # CHR ''u'' # h @ backslash # CHR ''u'' # g @ w'"])
        (simp_all add: compact_escape unquote_backslash low_surrogate_def del: compact_raw.simps)
  next
    case False
    then have s: "t1 = s" "unicode_escape (h @ w' @ r) = Some (y, w' @ r)" for r
      using assms(2) h w(4) by (auto simp: unicode_escape_def split: if_splits option.splits)
    with w(1-3) h show ?thesis
      by (intro string_keptI [of _ "backslash # CHR ''u'' # h @ w" _ "backslash # CHR ''u'' # h @ w'"])
        (simp_all add: compact_escape unquote_backslash low_surrogate_def del: compact_raw.simps split: if_splits)
  qed
qed

lemma unquote_kept: "unquote s = Some (x, u) \<Longrightarrow> string_kept s x u"
proof (induction s arbitrary: x u rule: unquote.induct)
  case (2 c s)
  show ?case
  proof (cases "c = quote_mark")
    case True
    with "2.prems" show ?thesis
      by (intro string_keptI [of _ "[quote_mark]" _ "[quote_mark]"])
        (auto simp: unquote.simps(2) low_surrogate_def quote_mark_def backslash_def split: list.splits)
  next
    case quote: False
    with "2.prems" have c32: "\<not> (of_char c :: nat) < 32" by (auto simp: unquote.simps(2) split: if_splits)
    show ?thesis
    proof (cases "c = backslash")
      case True
      with "2.prems" obtain e s' where s: "s = e # s'" by (cases s) (auto simp: unquote.simps(2) quote_mark_def backslash_def)
      note IH = "2.IH"(2,3) [OF quote c32 _ s]
      show ?thesis
      proof (cases "e = CHR ''u''")
        case u: True
        with "2.prems" True s obtain y s2 x2 where "unicode_escape s' = Some (y, s2)" "unquote s2 = Some (x2, u)" "x = y @ x2"
          by (auto simp: unquote_backslash split: option.splits)
        with IH(1) [of "(y, s2)" y s2] True u s show ?thesis by (auto intro!: string_kept_unicode)
      next
        case u: False
        with "2.prems" True s obtain y x2 where "simple_escape e = Some y" "unquote s' = Some (x2, u)" "x = y # x2"
          by (auto simp: unquote_backslash split: option.splits)
        with IH(2) [of y] True u s show ?thesis by (auto intro!: string_kept_simple)
      qed
    next
      case False
      with "2.prems" quote c32 "2.IH"(1) [OF quote c32 False] show ?thesis
        by (auto simp: unquote.simps(2) split: option.splits intro!: string_kept_char)
    qed
  qed
qed (simp add: unquote.simps)

text \<open>A value, the elements of an array and the members of an object, each with its closing mark.\<close>

definition value_kept :: "string \<Rightarrow> any \<Rightarrow> string \<Rightarrow> string \<Rightarrow> string \<Rightarrow> bool" where
  "value_kept s v rest t t' \<longleftrightarrow> s = t @ rest \<and> compacts t t' \<and> value_start t' \<and>
     (\<forall>k r. length t' \<le> k \<longrightarrow> delim r \<longrightarrow> parse_value k (t' @ r) = Some (v, r))"

definition elems_kept :: "string \<Rightarrow> any list \<Rightarrow> string \<Rightarrow> string \<Rightarrow> string \<Rightarrow> bool" where
  "elems_kept s vs rest t t' \<longleftrightarrow> s = t @ rest \<and> compacts t t' \<and> value_start t' \<and>
     (\<forall>k r. length t' \<le> k \<longrightarrow> parse_elems k (t' @ r) = Some (vs, r))"

definition members_kept :: "string \<Rightarrow> (string \<times> any) list \<Rightarrow> string \<Rightarrow> string \<Rightarrow> string \<Rightarrow> bool" where
  "members_kept s m rest t t' \<longleftrightarrow> s = t @ rest \<and> compacts t t' \<and> (\<exists>u. t' = quote_mark # u) \<and>
     (\<forall>k r. length t' \<le> k \<longrightarrow> parse_members k (t' @ r) = Some (m, r))"

lemma compacts_string:
  assumes "unquote t = Some (x, u)"
  obtains w w' where "t = w @ u" and "compacts (quote_mark # w) (quote_mark # w')" and "\<And>r. unquote (w' @ r) = Some (x, r)"
proof -
  from unquote_kept [OF assms] obtain w w' where "t = w @ u" "\<And>r. compact_raw True (w @ r) = w' @ compact_raw False r"
    "\<And>r. unquote (w' @ r) = Some (x, r)" by (rule string_keptE) blast
  then show thesis by (intro that [of w w']) (auto simp: compacts_def json_space_def quote_mark_def)
qed

lemma own_kept:
  assumes "wf_any v" and "numbers_ok v" and "norm_json no_floats v = v" and "s = json_text no_floats v @ rest"
  shows "\<exists>t t'. value_kept s v rest t t'"
  using assms compact_text [OF float_format_no_floats assms(2)] value_start_text [OF float_format_no_floats assms(2)]
    parse_json_text [OF float_format_no_floats assms(1,2)]
  by (intro exI [of _ "json_text no_floats v"]) (simp add: value_kept_def compacts_def)

lemma literal_kept:
  assumes "json_literal s = Some (v, rest)"
  shows "\<exists>t t'. value_kept s v rest t t'"
proof -
  have split: "s = p @ drop (length p) s" if "HasPrefix s p" for p
    using that unfolding HasPrefix_def by (metis append_take_drop_id)
  note lit = split [of "''null''"] split [of "''true''"] split [of "''false''"]
  let ?n = "takeWhile num_char s"
  consider "HasPrefix s ''null''" "v = Nil_v" "rest = drop 4 s" | "HasPrefix s ''true''" "v = Bool_v True" "rest = drop 4 s"
    | "HasPrefix s ''false''" "v = Bool_v False" "rest = drop 5 s" | "is_number ?n" "v = Number_v ?n" "rest = dropWhile num_char s"
    using assms by (auto simp: json_literal_def Let_def split: if_splits)
  then show ?thesis
  proof cases
    case 4
    then show ?thesis using number_ne [of ?n] by (intro own_kept) auto
  qed (use lit in \<open>auto simp: numeral_eq_Suc intro!: own_kept\<close>)
qed

lemma value_kept_space:
  assumes "value_kept s v rest t t'" and "compacts w []"
  shows "value_kept (w @ s) v rest (w @ t) t'"
  using assms compacts_append [OF assms(2), of t t'] by (simp add: value_kept_def)

lemma string_value_kept:
  assumes "unquote t = Some (x, u)"
  shows "\<exists>w w'. value_kept (quote_mark # t) (Str_v x) u w w'"
proof -
  from assms obtain w w' where w: "t = w @ u" "compacts (quote_mark # w) (quote_mark # w')" "\<And>r. unquote (w' @ r) = Some (x, r)"
    by (rule compacts_string) blast
  have "parse_value k (quote_mark # w' @ r) = Some (Str_v x, r)" if "length (quote_mark # w') \<le> k" for k r
    using that w(3) by (cases k) auto
  moreover have "value_start (quote_mark # w')" by (simp add: value_start_def json_space_def quote_mark_def)
  ultimately show ?thesis using w by (intro exI [of _ "quote_mark # w"] exI [of _ "quote_mark # w'"]) (simp add: value_kept_def)
qed

lemma marks_plain [simp]:
  "\<not> json_space CHR ''{''" "\<not> json_space CHR ''}''" "\<not> json_space CHR ''[''" "\<not> json_space CHR '']''"
  "\<not> json_space CHR '',''" "\<not> json_space CHR '':''" "\<not> json_space quote_mark"
  "CHR '']'' \<noteq> quote_mark" "CHR ''{'' \<noteq> quote_mark" "CHR ''}'' \<noteq> quote_mark" "CHR ''['' \<noteq> quote_mark"
  "CHR '','' \<noteq> quote_mark" "CHR '':'' \<noteq> quote_mark"
  by (simp_all add: json_space_def quote_mark_def)

lemma compacts_Cons: "\<not> json_space c \<Longrightarrow> c \<noteq> quote_mark \<Longrightarrow> compacts t t' \<Longrightarrow> compacts (c # t) (c # t')"
  using compacts_append [OF compacts_mark, of c t t'] by simp

lemma object_kept:
  assumes "members_kept t m rest u u'"
  shows "\<exists>w w'. value_kept (CHR ''{'' # t) (Map_v (foldl put_last [] m)) rest w w'"
proof -
  from assms obtain z where z: "u' = quote_mark # z" by (auto simp: members_kept_def)
  have "parse_value k (CHR ''{'' # u' @ r) = Some (Map_v (foldl put_last [] m), r)" if "length (CHR ''{'' # u') \<le> k" for k r
    using that assms z by (cases k) (auto simp: members_kept_def)
  with assms have "value_kept (CHR ''{'' # t) (Map_v (foldl put_last [] m)) rest (CHR ''{'' # u) (CHR ''{'' # u')"
    by (auto simp: value_kept_def members_kept_def value_start_def intro!: compacts_Cons)
  then show ?thesis by blast
qed

lemma array_kept:
  assumes "elems_kept t vs rest u u'"
  shows "\<exists>w w'. value_kept (CHR ''['' # t) (List_v vs) rest w w'"
proof -
  from assms obtain c z where z: "u' = c # z" "\<not> json_space c" "c \<noteq> CHR '']''" by (auto simp: elems_kept_def value_start_def)
  then have "skip_ws (u' @ r) = c # z @ r" for r by (simp add: skip_ws_def)
  then have "parse_value k (CHR ''['' # u' @ r) = Some (List_v vs, r)" if "length (CHR ''['' # u') \<le> k" for k r
    using that assms z(3) by (cases k) (auto simp: elems_kept_def)
  with assms have "value_kept (CHR ''['' # t) (List_v vs) rest (CHR ''['' # u) (CHR ''['' # u')"
    by (auto simp: value_kept_def elems_kept_def value_start_def intro!: compacts_Cons)
  then show ?thesis by blast
qed

lemma empty_kept:
  assumes "skip_ws t = CHR ''}'' # u"
  shows "\<exists>w w'. value_kept (CHR ''{'' # t) (Map_v []) u w w'"
proof -
  from assms obtain w where w: "t = w @ CHR ''}'' # u" "compacts w []" by (rule skip_ws_Cons)
  have "parse_value k (''{}'' @ r) = Some (Map_v [], r)" if "2 \<le> k" for k r using that by (cases k) auto
  moreover have "compacts (CHR ''{'' # w @ ''}'') ''{}''"
    using compacts_Cons [OF _ _ compacts_append [OF w(2) compacts_mark [of "CHR ''}''"]], of "CHR ''{''"] by simp
  ultimately show ?thesis using w by (intro exI [of _ "CHR ''{'' # w @ ''}''"] exI [of _ "''{}''"]) (simp add: value_kept_def value_start_def)
qed

lemma empty_array_kept:
  assumes "skip_ws t = CHR '']'' # u"
  shows "\<exists>w w'. value_kept (CHR ''['' # t) (List_v []) u w w'"
proof -
  from assms obtain w where w: "t = w @ CHR '']'' # u" "compacts w []" by (rule skip_ws_Cons)
  have "parse_value k (''[]'' @ r) = Some (List_v [], r)" if "2 \<le> k" for k r using that by (cases k) auto
  moreover have "compacts (CHR ''['' # w @ '']'') ''[]''"
    using compacts_Cons [OF _ _ compacts_append [OF w(2) compacts_mark [of "CHR '']''"]], of "CHR ''[''"] by simp
  ultimately show ?thesis using w by (intro exI [of _ "CHR ''['' # w @ '']''"] exI [of _ "''[]''"]) (simp add: value_kept_def value_start_def)
qed

lemma value_kept_mark:
  assumes "value_kept s v w t t'" and "skip_ws w = c # u" and "c \<noteq> quote_mark"
  obtains z where "s = z @ u" and "compacts z (t' @ [c])"
proof -
  from assms(2) obtain x where x: "w = x @ c # u" "compacts x []" "\<not> json_space c" by (rule skip_ws_Cons)
  have "compacts (t @ x @ [c]) (t' @ [] @ [c])"
    using assms(1,3) x by (intro compacts_append compacts_mark) (simp_all add: value_kept_def)
  with assms(1) x that [of "t @ x @ [c]"] show thesis by (simp add: value_kept_def)
qed

lemma delim_marks [simp]: "delim (CHR '']'' # r)" "delim (CHR ''}'' # r)" "delim (CHR '','' # r)"
  using delim_mark by auto

lemma last_elem_kept:
  assumes "value_kept s v w t t'" and "skip_ws w = CHR '']'' # u"
  shows "\<exists>z z'. elems_kept s [v] u z z'"
proof -
  from assms obtain z where z: "s = z @ u" "compacts z (t' @ [CHR '']''])" by (rule value_kept_mark) simp_all
  have "parse_elems k ((t' @ [CHR '']'']) @ r) = Some ([v], r)" if "length (t' @ [CHR '']'']) \<le> k" for k r
    using that assms(1) by (cases k) (auto simp: value_kept_def)
  moreover have "value_start (t' @ [CHR '']''])" using assms(1) by (auto simp: value_kept_def value_start_def)
  ultimately show ?thesis using z unfolding elems_kept_def by blast
qed

lemma next_elem_kept:
  assumes "value_kept s v w t t'" and "skip_ws w = CHR '','' # u" and "elems_kept u vs x y y'"
  shows "\<exists>z z'. elems_kept s (v # vs) x z z'"
proof -
  from assms(1,2) obtain z where z: "s = z @ u" "compacts z (t' @ [CHR '',''])" by (rule value_kept_mark) simp_all
  have "parse_elems k (((t' @ [CHR '','']) @ y') @ r) = Some (v # vs, r)" if "length ((t' @ [CHR '','']) @ y') \<le> k" for k r
    using that assms(1,3) by (cases k) (auto simp: value_kept_def elems_kept_def)
  moreover have "value_start ((t' @ [CHR '','']) @ y')" using assms(1) by (auto simp: value_kept_def value_start_def)
  moreover have "compacts (z @ y) ((t' @ [CHR '','']) @ y')" "s = (z @ y) @ x"
    using compacts_append [OF z(2)] z(1) assms(3) by (simp_all only: elems_kept_def append_assoc)
  ultimately show ?thesis unfolding elems_kept_def by blast
qed

text \<open>The key of a member and its colon.\<close>

definition key_kept :: "string \<Rightarrow> string \<Rightarrow> string \<Rightarrow> string \<Rightarrow> string \<Rightarrow> bool" where
  "key_kept s k u z z' \<longleftrightarrow> s = z @ u \<and> compacts z (quote_mark # z' @ [CHR '':'']) \<and> (\<forall>r. unquote (z' @ r) = Some (k, r))"

lemma key_keptI:
  assumes "skip_ws s = quote_mark # t" and "unquote t = Some (k, u)" and "skip_ws u = CHR '':'' # u'"
  shows "\<exists>z z'. key_kept s k u' z z'"
proof -
  from assms(1) obtain a where a: "s = a @ quote_mark # t" "compacts a []" by (rule skip_ws_Cons)
  from assms(2) obtain w w' where w: "t = w @ u" "compacts (quote_mark # w) (quote_mark # w')" "\<And>r. unquote (w' @ r) = Some (k, r)"
    by (rule compacts_string) blast
  from assms(3) obtain b where b: "u = b @ CHR '':'' # u'" "compacts b []" by (rule skip_ws_Cons)
  have "compacts (a @ (quote_mark # w) @ b @ [CHR '':'']) ([] @ (quote_mark # w') @ [] @ [CHR '':''])"
    using a w b by (intro compacts_append compacts_mark) simp_all
  with a w b show ?thesis
    by (intro exI [of _ "a @ (quote_mark # w) @ b @ [CHR '':'']"] exI [of _ w']) (simp add: key_kept_def)
qed

lemma last_member_kept:
  assumes "key_kept s k u a a'" and "value_kept u v w t t'" and "skip_ws w = CHR ''}'' # x"
  shows "\<exists>z z'. members_kept s [(k, v)] x z z'"
proof -
  from assms(2,3) obtain z where z: "u = z @ x" "compacts z (t' @ [CHR ''}''])" by (rule value_kept_mark) simp_all
  let ?t = "(quote_mark # a' @ [CHR '':'']) @ t' @ [CHR ''}'']"
  have "parse_members n (?t @ r) = Some ([(k, v)], r)" if "length ?t \<le> n" for n r
    using that assms(1,2) by (cases n) (auto simp: value_kept_def key_kept_def)
  moreover have "s = (a @ z) @ x" "compacts (a @ z) ?t" 
    using compacts_append [OF _ z(2), of a "quote_mark # a' @ [CHR '':'']"] z(1) assms(1) by (simp_all add: key_kept_def)
  ultimately show ?thesis unfolding members_kept_def by (metis append_Cons)
qed

lemma next_member_kept:
  assumes "key_kept s k u a a'" and "value_kept u v w t t'" and "skip_ws w = CHR '','' # w'" and "members_kept w' m x y y'"
  shows "\<exists>z z'. members_kept s ((k, v) # m) x z z'"
proof -
  from assms(2,3) obtain z where z: "u = z @ w'" "compacts z (t' @ [CHR '',''])" by (rule value_kept_mark) simp_all
  let ?t = "(quote_mark # a' @ [CHR '':'']) @ (t' @ [CHR '','']) @ y'"
  have "parse_members n (?t @ r) = Some ((k, v) # m, r)" if "length ?t \<le> n" for n r
    using that assms(1,2,4) by (cases n) (auto simp: value_kept_def key_kept_def members_kept_def)
  moreover have "s = (a @ z @ y) @ x" "compacts (a @ z @ y) ?t"
    using compacts_append [OF _ compacts_append [OF z(2)], of a "quote_mark # a' @ [CHR '':'']" y y'] z(1) assms(1,4)
    by (simp_all add: key_kept_def members_kept_def)
  ultimately show ?thesis unfolding members_kept_def by (metis append_Cons)
qed

lemma parse_kept:
  shows "parse_value k s = Some (v, rest) \<Longrightarrow> \<exists>t t'. value_kept s v rest t t'"
    and "parse_elems k s = Some (vs, rest) \<Longrightarrow> \<exists>t t'. elems_kept s vs rest t t'"
    and "parse_members k s = Some (m, rest) \<Longrightarrow> \<exists>t t'. members_kept s m rest t t'"
proof (induction k arbitrary: s v vs m rest)
  case (Suc n)
  {
    case 1
    then obtain c t where c: "skip_ws s = c # t" by (cases "skip_ws s") auto
    then obtain w where w: "s = w @ c # t" "compacts w []" by (rule skip_ws_Cons)
    have "\<exists>u u'. value_kept (c # t) v rest u u'"
      using 1 c Suc.IH(2) [of t _ rest] Suc.IH(3) [of t _ rest]
      by (auto split: if_splits list.splits option.splits intro: literal_kept string_value_kept empty_kept empty_array_kept
          dest!: object_kept array_kept)
    with w show ?case by (auto intro: value_kept_space)
  next
    case 2
    then obtain v w where v: "parse_value n s = Some (v, w)" by (auto split: option.splits)
    from Suc.IH(1) [OF v] obtain t t' where "value_kept s v w t t'" by blast
    with 2 v Suc.IH(2) [of _ _ rest] show ?case
      by (auto split: if_splits list.splits option.splits intro: last_elem_kept dest: next_elem_kept)
  next
    case 3
    then obtain c t key u d u' v w where p: "skip_ws s = quote_mark # t" "unquote t = Some (key, u)" "skip_ws u = CHR '':'' # u'"
      "parse_value n u' = Some (v, w)" by (auto split: if_splits list.splits option.splits)
    from key_keptI [OF p(1-3)] Suc.IH(1) [OF p(4)] obtain a a' t t' where "key_kept s key u' a a'" "value_kept u' v w t t'" by blast
    with 3 p Suc.IH(3) [of _ _ rest] show ?case
      by (auto split: if_splits list.splits option.splits intro: last_member_kept dest: next_member_kept)
  }
qed simp_all

text \<open>A raw message that is one JSON value is written as the text of the same value.\<close>

lemma marshal_raw_valid:
  assumes "Unmarshal raw = Some v"
  shows "raw_ok (marshal_raw raw) \<and> marshal_raw raw \<noteq> [] \<and> Unmarshal (marshal_raw raw) = Some v"
proof -
  from assms obtain rest where d: "parse_value (length raw) raw = Some (v, rest)" "skip_ws rest = []"
    by (auto simp: Unmarshal_def Decode_def split: option.splits if_splits)
  from parse_kept(1) [OF d(1)] obtain t t' where t: "value_kept raw v rest t t'" by blast
  have "compact_raw False rest = []"
    using skip_ws_split [of rest] d(2) by (auto simp: compacts_def) (metis append_Nil2 compact_raw.simps(1))
  moreover have "raw = t @ rest" "compact_raw False (t @ rest) = t' @ compact_raw False rest"
    using t by (simp_all add: value_kept_def compacts_def)
  moreover have "raw \<noteq> []" using d(1) by auto
  ultimately have m: "marshal_raw raw = t'" by (auto simp: marshal_raw_def)
  have "raw_ok t'" using t unfolding value_kept_def raw_ok_def by blast
  moreover have "t' \<noteq> []" using t by (auto simp: value_kept_def value_start_def)
  moreover have "parse_value (length t') (t' @ []) = Some (v, [])" using t unfolding value_kept_def delim_def by blast
  ultimately show ?thesis unfolding m by (simp add: Unmarshal_def Decode_def skip_ws_def)
qed

subsection \<open>Round trip of requests\<close>

lemma Unmarshal_quote [simp]: "Unmarshal (quote s) = Some (Str_v s)"
  using parse_json_text [of no_floats "Str_v s" "length (quote s)" "[]"] by (simp add: Unmarshal_def Decode_def)

lemma Unmarshal_number: "is_number n \<Longrightarrow> Unmarshal n = Some (Number_v n)"
  using parse_json_text [of no_floats "Number_v n" "length n" "[]"] number_ne [of n] by (simp add: Unmarshal_def Decode_def)

lemma quote_not_null: "quote s \<noteq> ''null''" "quote s \<noteq> []"
  by (simp_all add: quote_def quote_mark_def)

text \<open>A number id can be written and read back.\<close>

definition float_reads :: "(rat \<Rightarrow> string) \<Rightarrow> request_id \<Rightarrow> bool" where
  "float_reads fmt i = (case i of Id_number r \<Rightarrow> ParseFloat (fmt r) = Some r | _ \<Rightarrow> True)"

lemma number_not_null: "is_number n \<Longrightarrow> n \<noteq> ''null''"
  by (auto simp: is_number_def num_char_def is_digit_def)

lemma id_round_trip:
  assumes "float_format fmt" and "float_reads fmt i" and "i \<noteq> Id_null"
  shows "RequestID_UnmarshalJSON (RequestID_MarshalJSON fmt i) = Inr i"
proof (cases i)
  case (Id_number r)
  note n = float_formatD [OF assms(1), of r]
  with Id_number assms(2) show ?thesis
    by (simp add: RequestID_UnmarshalJSON_def number_not_null Unmarshal_number float_reads_def)
qed (use assms(3) quote_not_null in \<open>auto simp: RequestID_UnmarshalJSON_def\<close>)

lemma raw_ok_id: "float_format fmt \<Longrightarrow> raw_ok (id_text fmt i)"
  by (cases i; cases "the i")
    (auto simp: id_text_def raw_ok_null raw_ok_quote intro: raw_ok_number float_formatD)

lemma decode_request:
  assumes "p = [] \<or> p = [(''params'', params)]"
  shows "decode_struct request_fields \<lparr>qa_IDRaw = [], qa_Request = zero_request\<rparr>
      ([(''jsonrpc'', quote j), (''id'', i), (''method'', quote m)] @ p) =
    Some \<lparr>qa_IDRaw = i, qa_Request = \<lparr>mq_JSONRPC = j, mq_ID = None, mq_Method = m,
      mq_Params = (if p = [] then [] else params)\<rparr>\<rparr>"
  using assms
  by (auto simp: request_fields_def field_for_def raw_text_field_def raw_string_field_def string_field_def zero_request_def)

text \<open>The request as it is sent: the parameters compacted.\<close>

definition sent_request :: "mcp_request \<Rightarrow> mcp_request" where
  "sent_request r = r\<lparr>mq_Params := (if mq_Params r = [] then [] else marshal_raw (mq_Params r))\<rparr>"

lemma marshal_request_members:
  assumes "float_format fmt" and "mq_Params r = [] \<or> Unmarshal (mq_Params r) \<noteq> None"
  shows "\<exists>p. (p = [] \<or> p = [(''params'', marshal_raw (mq_Params r))]) \<and> (p = [] \<longleftrightarrow> mq_Params r = []) \<and>
    first_raw (marshal_request fmt r) =
      Some ([(''jsonrpc'', quote (mq_JSONRPC r)), (''id'', id_text fmt (mq_ID r)), (''method'', quote (mq_Method r))] @ p, [])"
proof -
  define p where "p = (if mq_Params r = [] then [] else [(''params'', marshal_raw (mq_Params r))])"
  have "marshal_request fmt r =
      json_object ([(''jsonrpc'', quote (mq_JSONRPC r)), (''id'', id_text fmt (mq_ID r)), (''method'', quote (mq_Method r))] @ p)"
    by (simp add: marshal_request_def p_def)
  moreover have "list_all (\<lambda>(_, t). raw_ok t) p" using assms(2) marshal_raw_valid by (auto simp: p_def)
  ultimately have "first_raw (marshal_request fmt r) =
      Some ([(''jsonrpc'', quote (mq_JSONRPC r)), (''id'', id_text fmt (mq_ID r)), (''method'', quote (mq_Method r))] @ p, [])"
    using first_raw_object [of "[(''jsonrpc'', quote (mq_JSONRPC r)), (''id'', id_text fmt (mq_ID r)), (''method'', quote (mq_Method r))] @ p" "[]"]
    by (simp add: raw_ok_quote raw_ok_id [OF assms(1)])
  then show ?thesis unfolding p_def by (intro exI conjI) auto
qed

lemma request_reads_back:
  assumes "float_format fmt" and "mq_Params r = [] \<or> Unmarshal (mq_Params r) \<noteq> None"
    and "mq_JSONRPC r = JSONRPCVersion" and "mq_Method r \<noteq> []" and "int (length (marshal_request fmt r)) \<le> MaxRequestSize"
    and "\<forall>i. mq_ID r = Some i \<longrightarrow> i \<noteq> Id_null \<and> float_reads fmt i"
  shows "ValidateAndParseRequest (marshal_request fmt r) MaxRequestSize = (if mq_ID r = None then Inl id_error else Inr (sent_request r))"
proof -
  from marshal_request_members [OF assms(1,2)] obtain p where p: "p = [] \<or> p = [(''params'', marshal_raw (mq_Params r))]" "p = [] \<longleftrightarrow> mq_Params r = []"
    and m: "first_raw (marshal_request fmt r) =
      Some ([(''jsonrpc'', quote (mq_JSONRPC r)), (''id'', id_text fmt (mq_ID r)), (''method'', quote (mq_Method r))] @ p, [])" by blast
  have r: "Request_UnmarshalJSON ([(''jsonrpc'', quote (mq_JSONRPC r)), (''id'', id_text fmt (mq_ID r)), (''method'', quote (mq_Method r))] @ p) =
      (if mq_ID r = None then Inl id_error else Inr (sent_request r))"
  proof (cases "mq_ID r")
    case None
    then show ?thesis unfolding Request_UnmarshalJSON_def decode_request [OF p(1)] by (simp add: id_text_def RequestID_UnmarshalJSON_def)
  next
    case (Some i)
    with assms(6) have i: "RequestID_UnmarshalJSON (RequestID_MarshalJSON fmt i) = Inr i"
      by (intro id_round_trip assms(1)) auto
    have "id_text fmt (mq_ID r) \<noteq> []"
      using raw_ok_id [OF assms(1), of "mq_ID r"] by (auto simp: raw_ok_def value_start_def)
    with Some i p show ?thesis unfolding Request_UnmarshalJSON_def decode_request [OF p(1)] by (auto simp: id_text_def sent_request_def)
  qed
  show ?thesis
    using assms(3-5) r by (simp add: ValidateAndParseRequest_def Let_def m decoder_More_def MaxRequestSize_def sent_request_def)
qed

text \<open>The parameters of a forwarded \<open>tools/call\<close>, whose name comes before its arguments, are compact.\<close>

lemma call_params_text:
  assumes "float_format fmt" and "wf_any v" and "numbers_ok v" and "p = json_object [(''name'', quote n), (''arguments'', json_text fmt v)]"
  shows "marshal_raw p = p" and "Unmarshal p = Some (Map_v [(''name'', Str_v n), (''arguments'', norm_json fmt v)])"
proof -
  let ?m = "[(''name'', Str_v n), (''arguments'', v)]"
  have p: "p = CHR ''{'' # Join '','' (map json_member (map (\<lambda>(k, v). (k, json_text fmt v)) ?m)) @ CHR ''}'' # []"
    by (simp add: assms(4) json_object_def)
  have c: "compact_raw False (Join '','' (map json_member (map (\<lambda>(k, v). (k, json_text fmt v)) ?m)) @ r) =
      Join '','' (map json_member (map (\<lambda>(k, v). (k, json_text fmt v)) ?m)) @ compact_raw False r" for r
    using compact_text [OF assms(1,3)] by (intro compact_join) (auto intro!: compact_member simp: compact_quote simp del: compact_raw.simps)
  show "marshal_raw p = p" unfolding marshal_raw_def p by (simp only: compact_marks c) simp
  have "parse_members k (Join '','' (map json_member (map (\<lambda>(k, v). (k, json_text fmt v)) ?m)) @ CHR ''}'' # []) =
      Some (map (\<lambda>(k, v). (k, norm_json fmt v)) ?m, [])"
    if "length (Join '','' (map json_member (map (\<lambda>(k, v). (k, json_text fmt v)) ?m))) < k" for k
    using that parse_json_text [OF assms(1)] parse_json_text [OF assms(1), of "Str_v n"] assms(2,3) by (intro parse_members_join) auto
  from this [of "length p - 1"] show "Unmarshal p = Some (Map_v [(''name'', Str_v n), (''arguments'', norm_json fmt v)])"
    unfolding Unmarshal_def Decode_def p
    by (simp add: skip_ws_def json_member_def quote_def put_last_def del: parse_members.simps)
qed

text \<open>C39: a request that the gateway sends upstream is read back, by the gateway's own rules, as
  the same request: the same version, id and method, and parameters that are the compacted text of
  the same JSON value. This holds for any parameters that are absent or the text of one JSON value,
  whatever the order of its keys and its white space, and needs that the version is 2.0, the method
  is not empty, a number id is written so that it reads back, and the written request is within the
  size limit. A notification (no id) is written with \<open>"id":null\<close>, and those same rules reject it
  as an invalid request.\<close>

theorem request_round_trip:
  assumes "float_format fmt" and "mq_Params r = [] \<or> Unmarshal (mq_Params r) \<noteq> None"
    and "mq_JSONRPC r = JSONRPCVersion" and "mq_Method r \<noteq> []" and "int (length (marshal_request fmt r)) \<le> MaxRequestSize"
    and "\<forall>i. mq_ID r = Some i \<longrightarrow> i \<noteq> Id_null \<and> float_reads fmt i"
  shows "(if mq_ID r = None then ValidateAndParseRequest (marshal_request fmt r) MaxRequestSize = Inl id_error
     else \<exists>params. ValidateAndParseRequest (marshal_request fmt r) MaxRequestSize = Inr (r\<lparr>mq_Params := params\<rparr>) \<and>
       (params = [] \<longleftrightarrow> mq_Params r = []) \<and> Unmarshal params = Unmarshal (mq_Params r) \<and>
       (mq_Params r \<noteq> [] \<longrightarrow> params = compact_raw False (mq_Params r)))"
proof -
  let ?p = "if mq_Params r = [] then [] else marshal_raw (mq_Params r)"
  have "(?p = [] \<longleftrightarrow> mq_Params r = []) \<and> Unmarshal ?p = Unmarshal (mq_Params r) \<and> (mq_Params r \<noteq> [] \<longrightarrow> ?p = compact_raw False (mq_Params r))"
    using assms(2) marshal_raw_valid [of "mq_Params r"] by (auto simp: marshal_raw_def)
  with request_reads_back [OF assms] show ?thesis unfolding sent_request_def by auto
qed

text \<open>A \<open>tools/call\<close> with a string id, its name before its arguments and white space between them.\<close>

definition spaced_call :: mcp_request where
  "spaced_call = \<lparr>mq_JSONRPC = JSONRPCVersion, mq_ID = Some (Id_string ''7''), mq_Method = ''tools/call'',
     mq_Params = ''{ '' @ quote ''name'' @ '': '' @ quote ''crm'' @ '', '' @ quote ''arguments'' @ '': {} }''\<rparr>"

lemma spaced_call_length: "length (marshal_request no_floats spaced_call) \<le> 200" by code_simp

lemma spaced_call_value: "Unmarshal (mq_Params spaced_call) = Some (Map_v [(''name'', Str_v ''crm''), (''arguments'', Map_v [])])"
  by code_simp

theorem request_round_trip_witness:
  "\<exists>params. ValidateAndParseRequest (marshal_request no_floats spaced_call) MaxRequestSize = Inr (spaced_call\<lparr>mq_Params := params\<rparr>) \<and>
     Unmarshal params = Some (Map_v [(''name'', Str_v ''crm''), (''arguments'', Map_v [])]) \<and> params = compact_raw False (mq_Params spaced_call)"
proof -
  have "int (length (marshal_request no_floats spaced_call)) \<le> MaxRequestSize" using spaced_call_length by (simp add: MaxRequestSize_def)
  from request_round_trip [OF float_format_no_floats _ _ _ this] spaced_call_value show ?thesis
    by (auto simp: spaced_call_def float_reads_def)
qed

end
