(* ===== verification/Connectors.thy ===== *)
theory Connectors
  imports Tool_Exec Go_Url
begin

text \<open>
  \<open>src/internal/connector\<close>: the check of outbound URLs (\<open>url.go\<close>) and the REST
  connector (\<open>rest.go\<close>). The HTTP client of the standard library, with the network behind it,
  is a parameter that answers a request with a status, headers and the whole body or with an
  error; so is the name resolver. An address is its number, IPv4 and IPv6 apart; an IPv6 address
  that maps an IPv4 address counts as that address, as \<open>IPNet.Contains\<close> has it. The theorems
  say which URLs the gateway contacts and which base URLs a tool can be registered with.
\<close>

subsection \<open>URLs\<close>

text \<open>\<open>url.ParseRequestURI\<close>: scheme and decoded host (with its port).\<close>

definition host_part :: "string \<Rightarrow> string" where
  "host_part authority = (case cut_last (CHR ''@'') authority of None \<Rightarrow> authority | Some (_, h) \<Rightarrow> h)"

definition ParseRequestURI :: "string \<Rightarrow> (string \<times> string) option" where
  "ParseRequestURI s =
     (if list_ex is_ctl s \<or> s = [] then None
      else if s = ''*'' then Some ([], [])
      else case getScheme s of
             None \<Rightarrow> None
           | Some (scheme, rest0) \<Rightarrow>
               (let rest = cut_fst rest0 (CHR ''?'')
                in if \<not> HasPrefix rest ''/'' then (if scheme \<noteq> [] then Some (ToLower scheme, []) else None)
                   else if scheme \<noteq> [] \<and> HasPrefix rest ''//'' then
                     (let authority = takeWhile (\<lambda>c. c \<noteq> CHR ''/'') (drop 2 rest)
                      in if authority_ok authority \<and> PathUnescape (dropWhile (\<lambda>c. c \<noteq> CHR ''/'') (drop 2 rest)) \<noteq> None
                         then map_option (\<lambda>h. (ToLower scheme, h)) (PathUnescape (host_part authority))
                         else None)
                   else if PathUnescape rest = None then None else Some (ToLower scheme, [])))"

text \<open>\<open>URL.Hostname\<close>.\<close>

definition Hostname :: "string \<Rightarrow> string" where
  "Hostname host =
     (let h = (case cut_last (CHR '':'') host of
                 Some (a, port) \<Rightarrow> if port_ok (CHR '':'' # port) then a else host
               | None \<Rightarrow> host)
      in if HasPrefix h ''['' \<and> HasSuffix h '']'' then butlast (tl h) else h)"

datatype outbound_error = ErrInvalidOutboundURL | ErrBlockedPrivateIP | ErrResolve string

definition validateOutboundURL :: "string \<Rightarrow> outbound_error option" where
  "validateOutboundURL rawURL =
     (case ParseRequestURI rawURL of
        None \<Rightarrow> Some ErrInvalidOutboundURL
      | Some (scheme, host) \<Rightarrow>
          if scheme \<noteq> ''http'' \<and> scheme \<noteq> ''https'' \<or> host = [] then Some ErrInvalidOutboundURL else None)"

subsection \<open>Addresses\<close>

datatype ip_addr = IPv4 int | IPv6 int

definition ip4_value :: "string \<Rightarrow> int" where
  "ip4_value s = foldl (\<lambda>acc d. acc * 256 + digits_value d) 0 (Split (CHR ''.'') s)"

definition group_value :: "string \<Rightarrow> int" where
  "group_value g = foldl (\<lambda>acc c. acc * 16 + int (case hex_value c of Some d \<Rightarrow> d | None \<Rightarrow> 0)) 0 g"

text \<open>The groups of one side, a dotted tail as two of them.\<close>

definition group_values :: "string \<Rightarrow> int list" where
  "group_values s =
     (if s = [] then []
      else concat (map (\<lambda>g. if CHR ''.'' \<in> set g then [ip4_value g div 65536, ip4_value g mod 65536] else [group_value g])
             (Split (CHR '':'') s)))"

definition ip6_value :: "string \<Rightarrow> int" where
  "ip6_value s =
     (let gs = (case cut_double_colon s of
                  None \<Rightarrow> group_values s
                | Some (l, r) \<Rightarrow> group_values l @ replicate (8 - length (group_values l) - length (group_values r)) 0 @ group_values r)
      in foldl (\<lambda>acc g. acc * 65536 + g) 0 gs)"

definition ParseIP :: "string \<Rightarrow> ip_addr option" where
  "ParseIP s =
     (if ip4_ok s then Some (IPv4 (ip4_value s))
      else if CHR ''%'' \<notin> set s \<and> CHR '':'' \<in> set s \<and> ip6_ok s then Some (IPv6 (ip6_value s))
      else None)"

text \<open>\<open>IP.To4\<close>: the mapped addresses are those with the prefix \<open>::ffff:0:0/96\<close>.\<close>

fun To4 :: "ip_addr \<Rightarrow> ip_addr" where
  "To4 (IPv4 a) = IPv4 a"
| "To4 (IPv6 a) = (if a div 2 ^ 32 = 65535 then IPv4 (a mod 2 ^ 32) else IPv6 a)"

fun in_block :: "ip_addr \<Rightarrow> nat \<Rightarrow> ip_addr \<Rightarrow> bool" where
  "in_block (IPv4 net) bits (IPv4 a) = (a div 2 ^ (32 - bits) = net div 2 ^ (32 - bits))"
| "in_block (IPv6 net) bits (IPv6 a) = (a div 2 ^ (128 - bits) = net div 2 ^ (128 - bits))"
| "in_block _ _ _ = False"

definition privateRanges :: "(ip_addr \<times> nat) list" where
  "privateRanges =
     [(IPv4 (ip4_value ''127.0.0.0''), 8), (IPv4 (ip4_value ''10.0.0.0''), 8), (IPv4 (ip4_value ''172.16.0.0''), 12),
      (IPv4 (ip4_value ''192.168.0.0''), 16), (IPv4 (ip4_value ''169.254.0.0''), 16), (IPv6 (ip6_value ''::1''), 128),
      (IPv6 (ip6_value ''fc00::''), 7), (IPv6 (ip6_value ''fe80::''), 10)]"

definition isPrivateIP :: "ip_addr \<Rightarrow> bool" where
  "isPrivateIP ip = list_ex (\<lambda>(net, bits). in_block net bits (To4 ip)) privateRanges"

text \<open>\<open>LookupHost\<close> gives the addresses of a name as texts, or an error.\<close>

definition ValidateToolBaseURL :: "(string \<Rightarrow> string list option) \<Rightarrow> string \<Rightarrow> bool \<Rightarrow> outbound_error option" where
  "ValidateToolBaseURL lookupHost rawURL allowPrivate =
     (case validateOutboundURL rawURL of
        Some e \<Rightarrow> Some e
      | None \<Rightarrow>
          if allowPrivate then None
          else (let hostname = Hostname (case ParseRequestURI rawURL of Some (_, h) \<Rightarrow> h | None \<Rightarrow> [])
                in case ParseIP hostname of
                     Some ip \<Rightarrow> if isPrivateIP ip then Some ErrBlockedPrivateIP else None
                   | None \<Rightarrow>
                       (case lookupHost hostname of
                          None \<Rightarrow> Some (ErrResolve hostname)
                        | Some addrs \<Rightarrow>
                            if list_ex (\<lambda>a. case ParseIP a of Some ip \<Rightarrow> isPrivateIP ip | None \<Rightarrow> False) addrs
                            then Some ErrBlockedPrivateIP else None)))"

subsection \<open>The REST connector\<close>

record http_answer =
  ha_Status :: int
  ha_Headers :: "(string \<times> string list) list"
  ha_Body :: string

type_synonym http_client = "connector_request \<Rightarrow> upstream_error + http_answer"

definition first_value :: "string list \<Rightarrow> string" where
  "first_value vs = (case vs of [] \<Rightarrow> [] | v # _ \<Rightarrow> v)"

definition REST_Execute :: "http_client \<Rightarrow> (string \<Rightarrow> string) \<Rightarrow> int \<Rightarrow> connector" where
  "REST_Execute client sha responseLimit req =
     (case validateOutboundURL (cq_URL req) of
        Some _ \<Rightarrow> Inl Upstream_other
      | None \<Rightarrow>
          (case client req of
             Inl e \<Rightarrow> Inl e
           | Inr resp \<Rightarrow>
               (let body = take (nat responseLimit) (ha_Body resp)
                in Inr \<lparr>cs_Status = ha_Status resp, cs_Headers = map (\<lambda>(k, vs). (k, first_value vs)) (ha_Headers resp),
                        cs_Body = body, cs_BodyHash = HashBody sha body\<rparr>)))"

subsection \<open>What is contacted\<close>

lemma validate_accepts:
  "validateOutboundURL u = None \<longleftrightarrow> (\<exists>scheme host. ParseRequestURI u = Some (scheme, host) \<and> scheme \<in> {''http'', ''https''} \<and> host \<noteq> [])"
  by (auto simp: validateOutboundURL_def split: option.splits prod.splits if_splits)

lemma REST_Execute_rejects: "validateOutboundURL (cq_URL req) \<noteq> None \<Longrightarrow> REST_Execute client sha limit req = Inl Upstream_other"
  by (auto simp: REST_Execute_def)

lemma REST_Execute_bounded:
  "REST_Execute client sha limit req = Inr resp \<Longrightarrow> 0 \<le> limit \<Longrightarrow>
   int (length (cs_Body resp)) \<le> limit \<and> cs_BodyHash resp = HashBody sha (cs_Body resp)"
  by (auto simp: REST_Execute_def Let_def split: option.splits sum.splits)

text \<open>The dotted addresses of the private ranges.\<close>

definition private_ip4 :: "int \<Rightarrow> int \<Rightarrow> bool" where
  "private_ip4 a b = (a = 127 \<or> a = 10 \<or> a = 172 \<and> 16 \<le> b \<and> b \<le> 31 \<or> a = 192 \<and> b = 168 \<or> a = 169 \<and> b = 254)"

lemma ip4_block:
  fixes a b r :: int
  assumes "0 \<le> a" "a < 256" "0 \<le> b" "b < 256" "0 \<le> r" "r < 65536"
  shows "((a * 256 + b) * 65536 + r) div 16777216 = a" "((a * 256 + b) * 65536 + r) div 1048576 = a * 16 + b div 16"
    "((a * 256 + b) * 65536 + r) div 65536 = a * 256 + b"
proof -
  have e: "(a * 256 + b) * 65536 + r = 16777216 * a + 65536 * b + r" by simp
  define q t where "q = b div 16" and "t = b mod 16"
  have m: "b = 16 * q + t" "0 \<le> t" "t < 16" by (simp_all add: q_def t_def)
  show "((a * 256 + b) * 65536 + r) div 16777216 = a"
    unfolding e by (rule int_div_pos_eq [of _ _ _ "65536 * b + r"]) (use assms in linarith)+
  show "((a * 256 + b) * 65536 + r) div 1048576 = a * 16 + b div 16"
    unfolding e q_def [symmetric]
  proof (rule int_div_pos_eq [of _ _ _ "65536 * t + r"])
    show "16777216 * a + 65536 * b + r = 1048576 * (a * 16 + q) + (65536 * t + r)" unfolding m(1) by simp
  qed (use assms m in linarith)+
  show "((a * 256 + b) * 65536 + r) div 65536 = a * 256 + b"
    using assms by simp
qed

lemma byte_pair:
  fixes a b :: int
  assumes "0 \<le> b" "b < 256"
  shows "a * 256 + b = 49320 \<longleftrightarrow> a = 192 \<and> b = 168" "a * 256 + b = 43518 \<longleftrightarrow> a = 169 \<and> b = 254"
    "a * 16 + b div 16 = 2753 \<longleftrightarrow> a = 172 \<and> 16 \<le> b \<and> b \<le> 31"
proof -
  show "a * 256 + b = 49320 \<longleftrightarrow> a = 192 \<and> b = 168" "a * 256 + b = 43518 \<longleftrightarrow> a = 169 \<and> b = 254" using assms by presburger+
  have m: "b = 16 * (b div 16) + b mod 16" "0 \<le> b mod 16" "b mod 16 < 16" by simp_all
  define q where "q = b div 16"
  have "0 \<le> q" "q < 16" using assms m unfolding q_def by linarith+
  then have "a * 16 + q = 2753 \<longleftrightarrow> a = 172 \<and> q = 1" by presburger
  moreover have "q = 1 \<longleftrightarrow> 16 \<le> b \<and> b \<le> 31" using m unfolding q_def by linarith
  ultimately show "a * 16 + b div 16 = 2753 \<longleftrightarrow> a = 172 \<and> 16 \<le> b \<and> b \<le> 31" unfolding q_def by simp
qed

lemma isPrivateIP_IPv4:
  assumes "0 \<le> a" "a < 256" "0 \<le> b" "b < 256" "0 \<le> r" "r < 65536"
  shows "isPrivateIP (IPv4 ((a * 256 + b) * 65536 + r)) \<longleftrightarrow> private_ip4 a b"
proof -
  have r: "privateRanges = [(IPv4 2130706432, 8), (IPv4 167772160, 8), (IPv4 2886729728, 12), (IPv4 3232235520, 16),
      (IPv4 2851995648, 16), (IPv6 1, 128), (IPv6 (ip6_value ''fc00::''), 7), (IPv6 (ip6_value ''fe80::''), 10)]"
    unfolding privateRanges_def by code_simp
  define x where "x = (a * 256 + b) * 65536 + r"
  have "isPrivateIP (IPv4 x) \<longleftrightarrow> x div 16777216 = 127 \<or> x div 16777216 = 10 \<or> x div 1048576 = 2753 \<or> x div 65536 = 49320 \<or> x div 65536 = 43518"
    unfolding isPrivateIP_def r by simp
  then show ?thesis
    unfolding x_def ip4_block [OF assms] byte_pair [OF assms(3,4)] private_ip4_def by blast
qed

text \<open>With private addresses not allowed, a tool can be registered only with an
  \<open>http\<close> or \<open>https\<close> URL that names a host; a dotted host is in none of the loopback,
  private and link-local networks, and no address a host name resolves to is private.\<close>

theorem registered_url_is_public:
  assumes "ValidateToolBaseURL lookupHost rawURL False = None"
  shows "\<exists>scheme host. ParseRequestURI rawURL = Some (scheme, host) \<and> scheme \<in> {''http'', ''https''} \<and> host \<noteq> [] \<and>
    (case ParseIP (Hostname host) of
       Some ip \<Rightarrow> \<not> isPrivateIP ip \<and>
         (\<forall>a b r. ip = IPv4 ((a * 256 + b) * 65536 + r) \<and> a \<in> {0..<256} \<and> b \<in> {0..<256} \<and> r \<in> {0..<65536} \<longrightarrow>
            \<not> (a = 127 \<or> a = 10 \<or> a = 172 \<and> 16 \<le> b \<and> b \<le> 31 \<or> a = 192 \<and> b = 168 \<or> a = 169 \<and> b = 254))
     | None \<Rightarrow> (\<exists>addrs. lookupHost (Hostname host) = Some addrs \<and>
         (\<forall>t\<in>set addrs. \<forall>ip. ParseIP t = Some ip \<longrightarrow> \<not> isPrivateIP ip)))"
proof -
  have v: "validateOutboundURL rawURL = None" using assms by (auto simp: ValidateToolBaseURL_def split: option.splits)
  then obtain scheme host where h: "ParseRequestURI rawURL = Some (scheme, host)" "scheme \<in> {''http'', ''https''}" "host \<noteq> []"
    by (auto simp: validate_accepts)
  have "case ParseIP (Hostname host) of
       Some ip \<Rightarrow> \<not> isPrivateIP ip
     | None \<Rightarrow> (\<exists>addrs. lookupHost (Hostname host) = Some addrs \<and> (\<forall>t\<in>set addrs. \<forall>ip. ParseIP t = Some ip \<longrightarrow> \<not> isPrivateIP ip))"
    using assms by (auto simp: ValidateToolBaseURL_def v h list_ex_iff Let_def split: option.splits if_splits)
  moreover have "\<not> private_ip4 a b" if "\<not> isPrivateIP (IPv4 ((a * 256 + b) * 65536 + r))" "a \<in> {0..<256}" "b \<in> {0..<256}" "r \<in> {0..<65536}" for a b r
    using that isPrivateIP_IPv4 [of a b r] by simp
  ultimately show ?thesis using h unfolding private_ip4_def by (auto split: option.splits)
qed

lemma sample_public: "ValidateToolBaseURL (\<lambda>_. None) ''https://93.184.216.34:8443/api'' False = None"
  by code_simp

theorem registered_url_is_public_witness:
  "\<exists>scheme host. ParseRequestURI ''https://93.184.216.34:8443/api'' = Some (scheme, host) \<and> scheme \<in> {''http'', ''https''} \<and> host \<noteq> []"
  using registered_url_is_public [OF sample_public] by blast

lemma address_samples:
  "map_option isPrivateIP (ParseIP ''::ffff:10.0.0.1'') = Some True" "map_option isPrivateIP (ParseIP ''fe80::1'') = Some True"
  "map_option isPrivateIP (ParseIP ''2001:db8::1'') = Some False" "map_option isPrivateIP (ParseIP ''0.0.0.0'') = Some False"
  "ParseIP ''1.2.3'' = None" "ParseIP ''localhost'' = None"
  by code_simp+

end
