(* ===== verification/Mcp_Discovery.thy ===== *)
theory Mcp_Discovery
  imports Mcp_Protocol Connectors Gateway_Config
begin

text \<open>
  The MCP client of the gateway (\<open>src/internal/connector/mcp.go\<close>), the discovery methods of
  \<open>src/internal/api/public/mcp_discovery.go\<close>, and the handlers of
  \<open>mcp_handler.go\<close> for \<open>tools/list\<close>, unknown methods and the event stream. A
  handler answers with a response, with none (a notification), fails or panics; the requests it
  sends upstream are listed.
\<close>

subsection \<open>Forwarding\<close>

definition maxResponseSize :: nat where "maxResponseSize = 10 * 1024 * 1024"

definition post_json :: "string \<Rightarrow> string \<Rightarrow> connector_request" where
  "post_json url body =
     \<lparr>cq_Method = ''POST'', cq_URL = url,
      cq_Headers = [(''Content-Type'', ''application/json''), (''Accept'', ''application/json''), (''Accept'', ''text/event-stream'')],
      cq_Body = body\<rparr>"

definition wrap_status :: "mcp_request \<Rightarrow> int \<Rightarrow> mcp_response" where
  "wrap_status req status =
     \<lparr>mp_JSONRPC = JSONRPCVersion, mp_ID = mq_ID req, mp_Result = [],
      mp_Error = Some (error_obj ErrorInternalError (''upstream returned HTTP '' @ int_text status))\<rparr>"

definition check_response_id :: "mcp_request \<Rightarrow> mcp_response \<Rightarrow> upstream_error + mcp_response" where
  "check_response_id req resp =
     (if mq_ID req = None \<or> mq_ID req = Some Id_null then Inr resp
      else if mp_ID resp = None \<or> mp_ID resp = Some Id_null then Inl Upstream_other
      else if \<not> compareRequestIDs (mq_ID req) (mp_ID resp) then Inl Upstream_other
      else Inr resp)"

definition read_answer :: "mcp_request \<Rightarrow> http_answer \<Rightarrow> upstream_error + mcp_response" where
  "read_answer req ans =
     (let body = take (Suc maxResponseSize) (ha_Body ans)
      in if length body > maxResponseSize then Inl Upstream_other
         else if ha_Status ans \<noteq> 200
         then (case Response_Unmarshal body of
                 Some resp \<Rightarrow> if mp_Error resp \<noteq> None then Inr resp else Inr (wrap_status req (ha_Status ans))
               | None \<Rightarrow> Inr (wrap_status req (ha_Status ans)))
         else (case Response_Unmarshal body of
                 None \<Rightarrow> Inl Upstream_other
               | Some resp \<Rightarrow> check_response_id req resp))"

definition ForwardRequest ::
  "http_client \<Rightarrow> (rat \<Rightarrow> string) \<Rightarrow> string \<Rightarrow> mcp_request \<Rightarrow> (upstream_error + mcp_response) \<times> connector_request list" where
  "ForwardRequest client fmt upstreamURL req =
     (if validateOutboundURL upstreamURL \<noteq> None then (Inl Upstream_other, [])
      else (let out = post_json upstreamURL (marshal_request fmt req)
            in (bind_r (client out) (read_answer req), [out])))"

subsection \<open>Answers of a handler\<close>

datatype mcp_result = Mcp_none | Mcp_resp mcp_response | Mcp_fail | Mcp_panic

definition rpc_error :: "mcp_request \<Rightarrow> error_object \<Rightarrow> mcp_result" where
  "rpc_error req e = Mcp_resp (NewErrorResponse (mq_ID req) e)"

definition rpc_ok :: "mcp_request \<Rightarrow> string \<Rightarrow> mcp_result" where
  "rpc_ok req result = Mcp_resp (NewSuccessResponse (mq_ID req) result)"

definition json_array :: "string list \<Rightarrow> string" where
  "json_array xs = ''['' @ Join '','' xs @ '']''"

definition omit_empty :: "string \<Rightarrow> string \<Rightarrow> (string \<times> string) list" where
  "omit_empty k s = (if s = [] then [] else [(k, quote s)])"

subsection \<open>Tool schemas\<close>

definition defaultInputSchema :: string where
  "defaultInputSchema = json_object [(''type'', quote ''object''), (''additionalProperties'', ''true'')]"

text \<open>A schema is decoded into a map and encoded again, so numbers pass through \<open>float64\<close>.
  The schema \<open>null\<close> decodes to a nil map, and storing into that panics: \<open>None\<close>.\<close>

definition enrichToolSchema :: "(rat \<Rightarrow> string) \<Rightarrow> tool \<Rightarrow> string \<Rightarrow> string option" where
  "enrichToolSchema fmt t schema =
     (if tl_Source t = ''openapi_import'' then Some schema
      else if tl_Transport t \<noteq> ''http'' \<and> tl_Transport t \<noteq> ''http_api'' then Some schema
      else case UnmarshalAny schema of
             Some (Map_v m) \<Rightarrow>
               if map_of m ''x-rbitr-endpoints'' \<noteq> None then Some schema
               else Some (json_text fmt (Map_v (set_key ''x-rbitr-endpoints''
                      (Map_v [(''base_url'', Str_v (tl_BaseURL t)),
                              (''description'', Str_v (''HTTP tool '' @ [CHR 0xE2, CHR 0x80, CHR 0x94] @
                                 '' use path and method arguments to call specific endpoints''))]) m)))
           | Some Nil_v \<Rightarrow> None
           | _ \<Rightarrow> Some schema)"

definition tool_schema :: "(rat \<Rightarrow> string) \<Rightarrow> tool \<Rightarrow> string option" where
  "tool_schema fmt t =
     enrichToolSchema fmt t (if tl_InputSchemaJSON t = [] then defaultInputSchema else tl_InputSchemaJSON t)"

definition tool_text :: "(rat \<Rightarrow> string) \<Rightarrow> tool \<Rightarrow> string" where
  "tool_text fmt t =
     json_object [(''name'', quote (tl_ToolID t)),
       (''description'', quote (if tl_Description t = [] then ''No description available'' else tl_Description t)),
       (''inputSchema'', marshal_raw (case tool_schema fmt t of Some schema \<Rightarrow> schema | None \<Rightarrow> []))]"

text \<open>Encoding fails when a stored schema is no JSON text.\<close>

definition handleToolsList :: "(rat \<Rightarrow> string) \<Rightarrow> (store_error + tool list) \<Rightarrow> mcp_request \<Rightarrow> mcp_result" where
  "handleToolsList fmt listed req =
     (case listed of
        Inl _ \<Rightarrow> rpc_error req (NewInternalError ''failed to list tools'')
      | Inr tools \<Rightarrow>
          if list_ex (\<lambda>t. tool_schema fmt t = None) tools then Mcp_panic
          else if list_ex (\<lambda>t. Option.bind (tool_schema fmt t) Unmarshal = None) tools then Mcp_fail
          else rpc_ok req (json_object [(''tools'', json_array (map (tool_text fmt) tools))]))"

subsection \<open>Resources\<close>

definition resourceURIPrefix :: string where "resourceURIPrefix = ''rbitr://tools/''"
definition resourceURISuffix :: string where "resourceURISuffix = ''/openapi''"

definition buildResourceURI :: "string \<Rightarrow> string" where
  "buildResourceURI toolID = resourceURIPrefix @ toolID @ resourceURISuffix"

definition parseResourceURI :: "string \<Rightarrow> string option" where
  "parseResourceURI uri =
     (if \<not> HasPrefix uri resourceURIPrefix \<or> \<not> HasSuffix uri resourceURISuffix then None
      else let toolID = TrimSuffix (TrimPrefix uri resourceURIPrefix) resourceURISuffix
           in if toolID = [] then None else Some toolID)"

definition resource_text :: "tool \<Rightarrow> string" where
  "resource_text t =
     json_object [(''uri'', quote (buildResourceURI (tl_ToolID t))), (''name'', quote (tl_ToolID t @ '' OpenAPI spec'')),
       (''description'', quote (''OpenAPI specification for '' @ tl_ToolID t)), (''mimeType'', quote ''application/json'')]"

definition handleResourcesList :: "(store_error + tool list) \<Rightarrow> mcp_request \<Rightarrow> mcp_result" where
  "handleResourcesList listed req =
     (case listed of
        Inl _ \<Rightarrow> rpc_error req (NewInternalError ''failed to list tools'')
      | Inr tools \<Rightarrow>
          rpc_ok req (json_object [(''resources'', json_array (map resource_text (filter (\<lambda>t. tl_OpenAPISpecURL t \<noteq> []) tools)))]))"

definition maxSpecBodyBytes :: nat where "maxSpecBodyBytes = 2 * 1024 * 1024"

definition get_spec :: "string \<Rightarrow> connector_request" where
  "get_spec specURL =
     \<lparr>cq_Method = ''GET'', cq_URL = specURL, cq_Headers = [(''Accept'', ''application/json'')], cq_Body = []\<rparr>"

definition fetchOpenAPISpec :: "http_client \<Rightarrow> string \<Rightarrow> upstream_error + string" where
  "fetchOpenAPISpec client specURL =
     bind_r (client (get_spec specURL)) (\<lambda>ans.
       if ha_Status ans \<noteq> 200 then Inl Upstream_other else Inr (take maxSpecBodyBytes (ha_Body ans)))"

definition decode_uri :: "string \<Rightarrow> string option" where
  "decode_uri params =
     (if params = [] then Some []
      else Option.bind (raw_object params) (decode_struct [(''uri'', raw_string_field id)] []))"

definition handleResourcesRead ::
  "http_client \<Rightarrow> (string \<Rightarrow> store_error + tool) \<Rightarrow> mcp_request \<Rightarrow> mcp_result \<times> connector_request list" where
  "handleResourcesRead client getTool req =
     (case decode_uri (mq_Params req) of
        None \<Rightarrow> (rpc_error req (NewInvalidParamsError ''invalid resources/read params''), [])
      | Some uri \<Rightarrow>
          if uri = [] then (rpc_error req (NewInvalidParamsError ''uri is required''), [])
          else (case parseResourceURI uri of
                  None \<Rightarrow> (rpc_error req (NewInvalidParamsError ''invalid resource URI format''), [])
                | Some toolID \<Rightarrow>
                    (case getTool toolID of
                       Inl _ \<Rightarrow> (rpc_error req (error_obj ErrorInvalidParams ''resource not found''), [])
                     | Inr t \<Rightarrow>
                         if tl_OpenAPISpecURL t = []
                         then (rpc_error req (error_obj ErrorInvalidParams ''no OpenAPI spec available for this tool''), [])
                         else (case fetchOpenAPISpec client (tl_OpenAPISpecURL t) of
                                 Inl _ \<Rightarrow> (rpc_error req (NewInternalError ''failed to fetch OpenAPI spec''), [get_spec (tl_OpenAPISpecURL t)])
                               | Inr spec \<Rightarrow>
                                   (rpc_ok req (json_object [(''contents'', json_array [json_object
                                      ([(''uri'', quote uri), (''mimeType'', quote ''application/json'')] @ omit_empty ''text'' spec)])]),
                                    [get_spec (tl_OpenAPISpecURL t)])))))"

subsection \<open>Unknown methods\<close>

definition mcp_upstream :: "tool \<Rightarrow> bool" where
  "mcp_upstream t = (tl_Transport t = ''mcp_streamable_http'' \<and> TrimSpace (tl_MCPUpstreamURL t) \<noteq> [])"

text \<open>The upstream URL: \<open>Inl True\<close> when the configured one is unavailable, \<open>Inl False\<close> when
  the tenant has none.\<close>

definition select_upstream :: "string \<Rightarrow> tool list \<Rightarrow> bool + string" where
  "select_upstream configuredToolID tools =
     (if configuredToolID \<noteq> []
      then (case find (\<lambda>t. tl_ToolID t = configuredToolID) tools of
              None \<Rightarrow> Inl True
            | Some t \<Rightarrow> if mcp_upstream t then Inr (tl_MCPUpstreamURL t) else Inl True)
      else (case find mcp_upstream tools of None \<Rightarrow> Inl False | Some t \<Rightarrow> Inr (tl_MCPUpstreamURL t)))"

definition handlePassThrough ::
  "http_client \<Rightarrow> (rat \<Rightarrow> string) \<Rightarrow> (store_error + tenant_config) \<Rightarrow> (store_error + tool list) \<Rightarrow> mcp_request
   \<Rightarrow> mcp_result \<times> connector_request list" where
  "handlePassThrough client fmt config listed req =
     (case (case config of
              Inr c \<Rightarrow> Some (TrimSpace (tg_MCPPassthroughUpstreamToolID c))
            | Inl e \<Rightarrow> if e = ErrNotFound then Some [] else None) of
        None \<Rightarrow> (rpc_error req (NewInternalError ''failed to load tenant config''), [])
      | Some configuredToolID \<Rightarrow>
          (case listed of
             Inl _ \<Rightarrow> (rpc_error req (NewInternalError ''failed to list tools''), [])
           | Inr tools \<Rightarrow>
               (case select_upstream configuredToolID tools of
                  Inl True \<Rightarrow> (rpc_error req (NewInternalError ''configured pass-through upstream unavailable''), [])
                | Inl False \<Rightarrow> (rpc_error req (NewMethodNotFoundError (mq_Method req)), [])
                | Inr url \<Rightarrow>
                    (case ForwardRequest client fmt url req of
                       (Inl _, sent) \<Rightarrow> (rpc_error req (error_obj ErrorInternalError ''upstream request failed''), sent)
                     | (Inr resp, sent) \<Rightarrow> (Mcp_resp resp, sent)))))"

end
