(* ===== verification/Approval_Exec.thy ===== *)
theory Approval_Exec
  imports Approval_Store Tool_Exec
begin

text \<open>
  \<open>handleApprovedToolCall\<close> of \<open>src/internal/api/public/handlers.go\<close>: a client
  presents an approval id and its token, and the gateway executes the approved call once.
  The handler makes up to four store calls; other requests and the scheduler run between
  them. The environment of a run says what they do (\<open>ev_gap k\<close> is the list of store
  calls made by others before the handler's call number \<open>k\<close>), which of the handler's
  own calls fail in the driver, what the clock shows and what the upstream answers. Metrics
  and log lines are left out; the security notifications are kept.
\<close>

subsection \<open>Replies\<close>

record tool_call_response =
  rp_Error :: string
  rp_RequestID :: string
  rp_Decision :: string
  rp_Reason :: string
  rp_ApprovalRequestID :: string
  rp_ApprovalToken :: string
  rp_ExpiresAt :: "time option"
  rp_ActionType :: string
  rp_Risk :: string
  rp_ToolStatus :: int
  rp_ToolHeaders :: headers
  rp_ToolBody :: string
  rp_ShadowDenied :: bool
  rp_RbitrShadow :: gomap

definition empty_response :: tool_call_response where
  "empty_response = \<lparr>rp_Error = [], rp_RequestID = [], rp_Decision = [], rp_Reason = [],
     rp_ApprovalRequestID = [], rp_ApprovalToken = [], rp_ExpiresAt = None, rp_ActionType = [],
     rp_Risk = [], rp_ToolStatus = 0, rp_ToolHeaders = [], rp_ToolBody = [], rp_ShadowDenied = False,
     rp_RbitrShadow = []\<rparr>"

datatype reply =
    Reply_error int string
  | Reply_json int gomap
  | Reply_tool int tool_call_response

definition firstReasonMessage :: "decision_reason list \<Rightarrow> string" where
  "firstReasonMessage reasons = (case reasons of [] \<Rightarrow> [] | r # _ \<Rightarrow> rs_Message r)"

subsection \<open>Parameters and environment\<close>

record approved_params =
  pm_tenantID :: string
  pm_agentID :: string
  pm_toolID :: string
  pm_requestID :: string
  pm_requestHash :: string
  pm_classificationRisk :: string
  pm_classificationType :: string
  pm_classificationSummary :: string
  pm_payload :: tool_call_request
  pm_bodyBytes :: string
  pm_filteredHeaders :: headers
  pm_approvalID :: string
  pm_approvalToken :: string

datatype handler_call =
    At_Get | At_Expire | At_Claim | At_GetLatest | At_MarkFailed | At_MarkExecuted | At_InsertADR

record exec_env =
  ev_sha256hex :: "string \<Rightarrow> string"
  ev_now :: time
  ev_done :: time
  ev_uuid :: string
  ev_gap :: "nat \<Rightarrow> store_call list"
  ev_fault :: "handler_call \<Rightarrow> store_error option"
  ev_tool :: "store_error + tool"
  ev_connector :: "connector option"
  ev_resolver :: "resolver option"

text \<open>An event is a notification the handler sends: its type, the resource and the reason.\<close>

type_synonym event = "string \<times> string \<times> string"

record outcome =
  oc_reply :: reply
  oc_events :: "event list"
  oc_sent :: "connector_request list"
  oc_db :: store_db

definition others_run :: "exec_env \<Rightarrow> nat \<Rightarrow> store_db \<Rightarrow> store_db" where
  "others_run env k db = snd (run_calls exec_store (ev_gap env k) db)"

definition store_do :: "exec_env \<Rightarrow> nat \<Rightarrow> handler_call \<Rightarrow> store_call \<Rightarrow> store_db
    \<Rightarrow> (store_error + unit) \<times> store_db" where
  "store_do env k call c db =
     (let db1 = others_run env k db in
      case ev_fault env call of Some e \<Rightarrow> (Inl e, db1) | None \<Rightarrow> exec_store c db1)"

definition store_get :: "exec_env \<Rightarrow> nat \<Rightarrow> handler_call \<Rightarrow> string \<Rightarrow> string \<Rightarrow> store_db
    \<Rightarrow> (store_error + approval_request) \<times> store_db" where
  "store_get env k call tenantID approvalID db =
     (let db1 = others_run env k db in
      case ev_fault env call of Some e \<Rightarrow> (Inl e, db1)
      | None \<Rightarrow> (GetApprovalForExecution tenantID approvalID db1, db1))"

subsection \<open>The handler\<close>

definition second :: int where "second = 1000000000"

definition approvalExecutionRetryWindow :: int where
  "approvalExecutionRetryWindow = 60 * second"

definition approvalRetryAllowed :: "approval_request \<Rightarrow> time \<Rightarrow> bool" where
  "approvalRetryAllowed approval now =
     (case ap_ExecutingAt approval of None \<Rightarrow> False
      | Some t \<Rightarrow> now - t \<le> approvalExecutionRetryWindow)"

text \<open>An approval found in state EXECUTING, by the first or by the second lookup.\<close>

definition resumeExecuting :: "approval_request \<Rightarrow> time \<Rightarrow> reply + approval_request" where
  "resumeExecuting approval now =
     (if ap_ExecutedAt approval \<noteq> None then Inl (Reply_error 409 ''approval_already_executed'')
      else if \<not> approvalRetryAllowed approval now
      then Inl (Reply_error 409 ''approval_retry_window_exceeded'')
      else Inr approval)"

definition claimForExecution ::
  "exec_env \<Rightarrow> approved_params \<Rightarrow> string \<Rightarrow> approval_request \<Rightarrow> store_db
   \<Rightarrow> (reply + approval_request) \<times> store_db" where
  "claimForExecution env p tokenHash approval db =
     (case ap_Status approval of
        APPROVED \<Rightarrow>
          (case store_do env 1 At_Claim (Call_Claim (pm_tenantID p) (pm_approvalID p) tokenHash
                  (pm_requestHash p) (ev_now env)) db of
             (Inr _, db1) \<Rightarrow>
               (Inr (approval\<lparr>ap_Status := EXECUTING, ap_ExecutingAt := Some (ev_now env),
                       ap_ExecutionID := (if ap_ExecutionID approval = []
                         then ap_ApprovalRequestID approval else ap_ExecutionID approval)\<rparr>), db1)
           | (Inl ErrNotFound, db1) \<Rightarrow> (Inl (Reply_error 403 ''approval_token_invalid''), db1)
           | (Inl ErrInvalidState, db1) \<Rightarrow>
               (case store_get env 2 At_GetLatest (pm_tenantID p) (pm_approvalID p) db1 of
                  (Inl _, db2) \<Rightarrow> (Inl (Reply_error 500 ''approval lookup failed''), db2)
                | (Inr latest, db2) \<Rightarrow>
                    (case ap_Status latest of
                       EXECUTING \<Rightarrow> (resumeExecuting latest (ev_now env), db2)
                     | EXECUTED \<Rightarrow> (Inl (Reply_error 409 ''approval_already_executed''), db2)
                     | _ \<Rightarrow> (Inl (Reply_error 409 ''approval_already_claimed''), db2)))
           | (Inl _, db1) \<Rightarrow> (Inl (Reply_error 500 ''failed to claim approval''), db1))
      | EXECUTING \<Rightarrow> (resumeExecuting approval (ev_now env), db)
      | EXECUTED \<Rightarrow> (Inl (Reply_error 409 ''approval_already_executed''), db)
      | _ \<Rightarrow> (Inl (Reply_error 409 ''approval_already_claimed''), db))"

definition execution_adr :: "exec_env \<Rightarrow> approved_params \<Rightarrow> approval_request \<Rightarrow> string \<Rightarrow> action_decision_record" where
  "execution_adr env p approval responseHash =
     (let actionRisk = (if ap_Risk approval = [] then pm_classificationRisk p else ap_Risk approval);
          reasons = [\<lparr>rs_Code = ''APPROVED'', rs_Message = ''Approved execution''\<rparr>]
      in \<lparr>adr_DecisionID = ''d_'' @ ev_uuid env, adr_RequestID = pm_requestID p,
          adr_TenantID = pm_tenantID p, adr_AgentID = pm_agentID p, adr_ToolID = pm_toolID p,
          adr_ActionType = (if ap_ActionType approval = [] then pm_classificationType p else ap_ActionType approval),
          adr_ActionRisk = actionRisk,
          adr_ActionSummary = (if ap_ActionSummary approval = [] then pm_classificationSummary p
                               else ap_ActionSummary approval),
          adr_Decision = ''ALLOW'', adr_DecisionVersion = ''approval_execution'',
          adr_DecisionRisk = actionRisk,
          adr_RuleID = (if ap_RuleID approval = [] then ''approval_granted'' else ap_RuleID approval),
          adr_RulePriority = 0, adr_Reasons = reasons, adr_Constraints = [], adr_Tags = [],
          adr_PolicyVersion = (if ap_PolicyVersion approval = [] then ''unknown'' else ap_PolicyVersion approval),
          adr_Reason = firstReasonMessage reasons, adr_RequestHash = pm_requestHash p,
          adr_ResponseHash = responseHash, adr_ApprovalRequestID = ap_ApprovalRequestID approval,
          adr_SourceDecisionID = [], adr_CreatedAt = ev_done env\<rparr>)"

definition executeApproved ::
  "exec_env \<Rightarrow> approved_params \<Rightarrow> approval_request \<Rightarrow> store_db \<Rightarrow> outcome" where
  "executeApproved env p approval db =
     (case executeToolCall (ev_tool env) (ev_connector env) (ev_resolver env) (pm_payload p)
             (pm_bodyBytes p) (pm_filteredHeaders p) of
        (Inl err, sent) \<Rightarrow>
          (let timeout = isUpstreamTimeoutError err;
               code = (if timeout then ''UPSTREAM_TIMEOUT'' else ''UPSTREAM_ERROR'');
               db1 = snd (store_do env 3 At_MarkFailed (Call_Failed (pm_tenantID p) (pm_approvalID p)
                            code (ev_done env)) db)
           in \<lparr>oc_reply = (if timeout then Reply_error 504 ''upstream_timeout''
                          else Reply_error 502 ''upstream_error''),
               oc_events = [], oc_sent = sent, oc_db = db1\<rparr>)
      | (Inr resp, sent) \<Rightarrow>
          (case store_do env 3 At_MarkExecuted (Call_Executed (pm_tenantID p) (pm_approvalID p)
                  (pm_requestID p) (''d_'' @ ev_uuid env) (ev_done env)) db of
             (Inl ErrInvalidState, db1) \<Rightarrow>
               \<lparr>oc_reply = Reply_error 409 ''approval_already_claimed'', oc_events = [], oc_sent = sent, oc_db = db1\<rparr>
           | (Inl ErrNotFound, db1) \<Rightarrow>
               \<lparr>oc_reply = Reply_error 403 ''approval_token_invalid'', oc_events = [], oc_sent = sent, oc_db = db1\<rparr>
           | (Inl _, db1) \<Rightarrow>
               \<lparr>oc_reply = Reply_error 500 ''failed to update approval'', oc_events = [], oc_sent = sent, oc_db = db1\<rparr>
           | (Inr _, db1) \<Rightarrow>
               (case store_do env 4 At_InsertADR (Call_ADR (execution_adr env p approval (cs_BodyHash resp))) db1 of
                  (Inl _, db2) \<Rightarrow>
                    \<lparr>oc_reply = Reply_error 500 ''failed to persist decision'', oc_events = [], oc_sent = sent, oc_db = db2\<rparr>
                | (Inr _, db2) \<Rightarrow>
                    \<lparr>oc_reply = Reply_tool 200 (empty_response\<lparr>rp_RequestID := pm_requestID p,
                        rp_Decision := ''ALLOW'', rp_Reason := ''Approved execution'',
                        rp_ToolStatus := cs_Status resp, rp_ToolHeaders := cs_Headers resp,
                        rp_ToolBody := cs_Body resp\<rparr>),
                     oc_events = [], oc_sent = sent, oc_db = db2\<rparr>)))"

definition token_abuse :: "approved_params \<Rightarrow> string \<Rightarrow> event" where
  "token_abuse p reason = (''SECURITY.TOKEN_ABUSE'', pm_approvalID p, reason)"

definition refuse :: "int \<Rightarrow> string \<Rightarrow> event list \<Rightarrow> store_db \<Rightarrow> outcome" where
  "refuse status code events db =
     \<lparr>oc_reply = Reply_error status code, oc_events = events, oc_sent = [], oc_db = db\<rparr>"

definition handleApprovedToolCall :: "exec_env \<Rightarrow> approved_params \<Rightarrow> store_db \<Rightarrow> outcome" where
  "handleApprovedToolCall env p db =
     (case store_get env 0 At_Get (pm_tenantID p) (pm_approvalID p) db of
        (Inl ErrNotFound, db1) \<Rightarrow>
          refuse 403 ''approval_token_invalid'' [token_abuse p ''approval_not_found''] db1
      | (Inl _, db1) \<Rightarrow> refuse 500 ''approval lookup failed'' [] db1
      | (Inr approval, db1) \<Rightarrow>
          (let tokenHash = ev_sha256hex env (pm_approvalToken p) in
           if tokenHash \<noteq> ap_ApprovalTokenHash approval
           then refuse 403 ''approval_token_invalid'' [token_abuse p ''approval_token_invalid''] db1
           else if ap_RequestHash approval \<noteq> pm_requestHash p
           then refuse 403 ''approval_request_hash_mismatch'' [token_abuse p ''approval_request_hash_mismatch''] db1
           else if ap_Status approval = EXPIRED \<or> ev_now env > ap_ExpiresAt approval
           then refuse 403 ''approval_expired'' []
                  (snd (store_do env 1 At_Expire (Call_Expired (pm_tenantID p) (pm_approvalID p) (ev_now env)) db1))
           else (case claimForExecution env p tokenHash approval db1 of
                   (Inl r, db2) \<Rightarrow> \<lparr>oc_reply = r, oc_events = [], oc_sent = [], oc_db = db2\<rparr>
                 | (Inr approval', db2) \<Rightarrow> executeApproved env p approval' db2)))"

subsection \<open>What others do in between\<close>

lemma others_run_edges:
  "status_of db i = Some s \<Longrightarrow> \<exists>s'. status_of (others_run env k db) i = Some s' \<and> lifecycle\<^sup>*\<^sup>* s s'"
  unfolding others_run_def by (rule store.run_edges) (rule prod.collapse [symmetric])

lemma others_run_terminal:
  "status_of db i = Some s \<Longrightarrow> terminal s \<Longrightarrow> status_of (others_run env k db) i = Some s"
  unfolding others_run_def by (rule store.run_terminal) (rule prod.collapse [symmetric])

lemma others_run_none [simp]: "ev_gap env k = [] \<Longrightarrow> others_run env k db = db"
  by (simp add: others_run_def)

lemma store_get_Inr:
  assumes "store_get env k call t i db = (Inr a, db1)"
  shows "db1 = others_run env k db \<and> (\<exists>row. approvals db1 i = Some row \<and> ap_TenantID row = t \<and>
    identity_of a = identity_of row \<and> ap_Status a = ap_Status row \<and>
    ap_ExecutingAt a = ap_ExecutingAt row \<and> ap_ExecutedAt a = None)"
  using assms
  by (auto simp: store_get_def GetApprovalForExecution_def approval_row_def identity_of_def Let_def
      split: option.splits if_splits)

lemma store_get_status:
  "store_get env k call t i db = (Inr a, db1) \<Longrightarrow> status_of db1 i = Some (ap_Status a)"
  using store_get_Inr by (fastforce simp: status_of_def)

lemma claim_Inr:
  assumes "claimForExecution env p th a db = (Inr a', db2)"
    and "status_of db (pm_approvalID p) = Some (ap_Status a)"
  shows "ap_Status a \<in> {APPROVED, EXECUTING} \<and> status_of db2 (pm_approvalID p) = Some EXECUTING"
proof (cases "ap_Status a = APPROVED")
  case False
  with assms show ?thesis
    by (auto simp: claimForExecution_def resumeExecuting_def split: approval_status.splits if_splits)
next
  case True
  let ?r = "store_do env 1 At_Claim (Call_Claim (pm_tenantID p) (pm_approvalID p) th (pm_requestHash p) (ev_now env)) db"
  obtain r db1 where r: "?r = (r, db1)" by fastforce
  show ?thesis
  proof (cases r)
    case (Inr u)
    have "status_of db1 (pm_approvalID p) = Some EXECUTING"
      using r Inr by (auto simp: store_do_def Let_def ClaimApprovalExecution_def status_of_def
          split: option.splits elim!: update_approval_cases)
    then show ?thesis using assms(1) True r Inr by (simp add: claimForExecution_def)
  next
    case (Inl e)
    with assms(1) True r obtain latest where
      g: "store_get env 2 At_GetLatest (pm_tenantID p) (pm_approvalID p) db1 = (Inr latest, db2)"
      and "ap_Status latest = EXECUTING"
      by (auto simp: claimForExecution_def split: store_error.splits prod.splits sum.splits approval_status.splits)
    with store_get_status [OF g] True show ?thesis by simp
  qed
qed

definition refused :: "outcome \<Rightarrow> bool" where
  "refused out = (oc_sent out = [] \<and> (\<exists>n code. oc_reply out = Reply_error n code))"

lemma refused_refuse [simp]: "refused (refuse n c evs d)"
  by (simp add: refused_def refuse_def)

lemma resume_Inl: "resumeExecuting a now = Inl r \<Longrightarrow> \<exists>n code. r = Reply_error n code"
  by (auto simp: resumeExecuting_def split: if_splits)

lemma claim_Inl: "claimForExecution env p th a db = (Inl r, db2) \<Longrightarrow> \<exists>n code. r = Reply_error n code"
  by (auto simp: claimForExecution_def dest: resume_Inl
      split: approval_status.splits store_error.splits prod.splits sum.splits)

lemma handler_executes:
  assumes "\<not> refused (handleApprovedToolCall env p db)"
  obtains a db1 a' db2 where
    "store_get env 0 At_Get (pm_tenantID p) (pm_approvalID p) db = (Inr a, db1)"
    "ev_sha256hex env (pm_approvalToken p) = ap_ApprovalTokenHash a" "ap_RequestHash a = pm_requestHash p"
    "ap_Status a \<noteq> EXPIRED" "ev_now env \<le> ap_ExpiresAt a"
    "claimForExecution env p (ap_ApprovalTokenHash a) a db1 = (Inr a', db2)"
    "handleApprovedToolCall env p db = executeApproved env p a' db2"
proof -
  obtain r db1 where g: "store_get env 0 At_Get (pm_tenantID p) (pm_approvalID p) db = (r, db1)" by fastforce
  obtain a where r: "r = Inr a"
    using assms g by (cases r) (auto simp: handleApprovedToolCall_def split: store_error.splits)
  note h = handleApprovedToolCall_def [of env p db, unfolded g r prod.case sum.case Let_def]
  have tok: "ev_sha256hex env (pm_approvalToken p) = ap_ApprovalTokenHash a"
    using assms h by (auto split: if_splits)
  have hash: "ap_RequestHash a = pm_requestHash p" using assms h tok by (auto split: if_splits)
  have live: "\<not> (ap_Status a = EXPIRED \<or> ev_now env > ap_ExpiresAt a)"
    using assms h tok hash by (auto split: if_splits)
  obtain c db2 where c: "claimForExecution env p (ap_ApprovalTokenHash a) a db1 = (c, db2)" by fastforce
  have heq: "handleApprovedToolCall env p db = (case c of
      Inl r \<Rightarrow> \<lparr>oc_reply = r, oc_events = [], oc_sent = [], oc_db = db2\<rparr>
    | Inr approval' \<Rightarrow> executeApproved env p approval' db2)"
    using h tok hash live c by simp
  obtain a' where "c = Inr a'"
    using assms heq c claim_Inl [of env p "ap_ApprovalTokenHash a" a db1]
    by (cases c) (auto simp: refused_def)
  with that g r tok hash live c heq show thesis by auto
qed

lemma executed_is_authorised:
  assumes "oc_sent (handleApprovedToolCall env p db) \<noteq> []"
  shows "\<exists>a. approvals (others_run env 0 db) (pm_approvalID p) = Some a \<and> ap_TenantID a = pm_tenantID p \<and>
    ap_ApprovalTokenHash a = ev_sha256hex env (pm_approvalToken p) \<and>
    ap_RequestHash a = pm_requestHash p \<and> ev_now env \<le> ap_ExpiresAt a \<and>
    ap_Status a \<in> {APPROVED, EXECUTING}"
proof -
  from assms have "\<not> refused (handleApprovedToolCall env p db)" by (simp add: refused_def)
  then obtain a db1 a' db2 where
    g: "store_get env 0 At_Get (pm_tenantID p) (pm_approvalID p) db = (Inr a, db1)" and
    tok: "ev_sha256hex env (pm_approvalToken p) = ap_ApprovalTokenHash a" "ap_RequestHash a = pm_requestHash p" and
    live: "ev_now env \<le> ap_ExpiresAt a" and
    c: "claimForExecution env p (ap_ApprovalTokenHash a) a db1 = (Inr a', db2)"
    by (rule handler_executes)
  obtain row where row: "approvals (others_run env 0 db) (pm_approvalID p) = Some row"
    "ap_TenantID row = pm_tenantID p" "identity_of a = identity_of row" "ap_Status a = ap_Status row"
    using store_get_Inr [OF g] by auto
  have "ap_Status a \<in> {APPROVED, EXECUTING}" using claim_Inr [OF c store_get_status [OF g]] by simp
  with row tok live show ?thesis by (auto simp: identity_of_def)
qed

text \<open>C3: the handler sends a request upstream only for an approval of the calling tenant
  whose stored token digest is the digest of the presented token, whose stored request
  digest is that of the presented request, which has not expired and which an operator has
  approved (it is APPROVED, or EXECUTING after an earlier claim), whatever other requests do
  in between and whichever store calls fail.\<close>

theorem execution_is_authorised:
  assumes "oc_sent (handleApprovedToolCall env p db) \<noteq> []"
  shows "\<exists>a. approvals (others_run env 0 db) (pm_approvalID p) = Some a \<and> ap_TenantID a = pm_tenantID p \<and>
    ap_ApprovalTokenHash a = ev_sha256hex env (pm_approvalToken p) \<and>
    ap_RequestHash a = pm_requestHash p \<and> ev_now env \<le> ap_ExpiresAt a \<and>
    ap_Status a \<in> {APPROVED, EXECUTING}"
  using assms by (rule executed_is_authorised)

lemma terminal_refused:
  assumes "status_of db (pm_approvalID p) = Some s" and "terminal s"
  shows "refused (handleApprovedToolCall env p db)"
proof (rule ccontr)
  assume "\<not> refused (handleApprovedToolCall env p db)"
  then obtain a db1 a' db2 where
    g: "store_get env 0 At_Get (pm_tenantID p) (pm_approvalID p) db = (Inr a, db1)" and
    c: "claimForExecution env p (ap_ApprovalTokenHash a) a db1 = (Inr a', db2)"
    by (rule handler_executes)
  have "status_of db1 (pm_approvalID p) = Some s"
    using others_run_terminal [OF assms] store_get_Inr [OF g] by simp
  with claim_Inr [OF c store_get_status [OF g]] store_get_status [OF g] assms(2) show False
    by (auto simp: terminal_def)
qed

text \<open>A finished approval is never executed again: once its state is EXECUTED, FAILED,
  EXPIRED, DENIED or REVOKED, a replay with any token, at any time and under any
  interleaving sends nothing upstream and is refused.\<close>

theorem terminal_approval_not_executed:
  assumes "status_of db (pm_approvalID p) = Some s" and "terminal s"
  shows "refused (handleApprovedToolCall env p db)"
  using assms by (rule terminal_refused)

subsection \<open>Success is recorded, and happens once\<close>

lemma executeApproved_success:
  assumes "oc_reply (executeApproved env p a db) = Reply_tool n resp"
  obtains up db1 u where
    "executeToolCall (ev_tool env) (ev_connector env) (ev_resolver env) (pm_payload p)
       (pm_bodyBytes p) (pm_filteredHeaders p) = (Inr up, oc_sent (executeApproved env p a db))"
    "store_do env 3 At_MarkExecuted (Call_Executed (pm_tenantID p) (pm_approvalID p)
       (pm_requestID p) (''d_'' @ ev_uuid env) (ev_done env)) db = (Inr u, db1)"
    "oc_db (executeApproved env p a db) =
       snd (store_do env 4 At_InsertADR (Call_ADR (execution_adr env p a (cs_BodyHash up))) db1)"
    "n = 200"
  using assms
  by (auto simp: executeApproved_def Let_def split: prod.splits sum.splits store_error.splits if_splits)

lemma store_do_Inr: "store_do env k call c db = (Inr u, db1) \<Longrightarrow> exec_store c (others_run env k db) = (Inr u, db1)"
  by (simp add: store_do_def Let_def split: option.splits)

lemma store_do_terminal:
  assumes "status_of db i = Some s" and "terminal s"
  shows "status_of (snd (store_do env k call c db)) i = Some s"
proof -
  have o: "status_of (others_run env k db) i = Some s" using assms by (rule others_run_terminal)
  show ?thesis
  proof (cases "ev_fault env call")
    case None
    obtain r d where e: "exec_store c (others_run env k db) = (r, d)" by fastforce
    have "status_of d i = Some s"
      using exec_store_edge [OF e o] terminal_no_edge [OF assms(2)] by auto
    with None e show ?thesis by (simp add: store_do_def Let_def)
  qed (simp add: store_do_def Let_def o)
qed

lemma success_is_executed:
  assumes "oc_reply (handleApprovedToolCall env p db) = Reply_tool n resp"
  shows "n = 200 \<and> status_of (oc_db (handleApprovedToolCall env p db)) (pm_approvalID p) = Some EXECUTED"
proof -
  from assms have "\<not> refused (handleApprovedToolCall env p db)" by (simp add: refused_def)
  then obtain a' db2 where h: "handleApprovedToolCall env p db = executeApproved env p a' db2"
    by (rule handler_executes)
  from assms obtain up :: connector_response and db1 u where
    m: "store_do env 3 At_MarkExecuted (Call_Executed (pm_tenantID p) (pm_approvalID p)
       (pm_requestID p) (''d_'' @ ev_uuid env) (ev_done env)) db2 = (Inr u, db1)" and
    d: "oc_db (executeApproved env p a' db2) =
       snd (store_do env 4 At_InsertADR (Call_ADR (execution_adr env p a' (cs_BodyHash up))) db1)" and n: "n = 200"
    unfolding h by (rule executeApproved_success) (rule that)
  have "status_of db1 (pm_approvalID p) = Some EXECUTED"
    using exec_store_finish [of "Call_Executed (pm_tenantID p) (pm_approvalID p)
       (pm_requestID p) (''d_'' @ ev_uuid env) (ev_done env)"] store_do_Inr [OF m]
    by (simp add: finishes_def)
  then show ?thesis using h d n by (simp add: store_do_terminal terminal_def)
qed

text \<open>C8: an approval is good for one success: after a run that answers with the tool's
  response the approval is EXECUTED, and every later run on the same approval id, after any
  store calls by anyone, is refused and sends nothing upstream.\<close>

theorem approval_succeeds_at_most_once:
  assumes "oc_reply (handleApprovedToolCall env p db) = Reply_tool n resp"
    and "run_calls exec_store calls (oc_db (handleApprovedToolCall env p db)) = (lg, db')"
    and "pm_approvalID p' = pm_approvalID p"
  shows "n = 200 \<and> status_of db' (pm_approvalID p) = Some EXECUTED \<and> refused (handleApprovedToolCall env' p' db')"
proof -
  have st: "status_of db' (pm_approvalID p) = Some EXECUTED"
    using success_is_executed [OF assms(1)] store.run_terminal [OF assms(2)] by (simp add: terminal_def)
  then show ?thesis
    using success_is_executed [OF assms(1)] terminal_refused [of db' p' EXECUTED env'] assms(3)
    by (simp add: terminal_def)
qed

text \<open>In any sequence of store calls, by any number of gateways, at most one call that
  marks a given approval as executed succeeds.\<close>

theorem mark_executed_at_most_once:
  "run_calls exec_store calls db = (lg, db') \<Longrightarrow>
   length (filter (\<lambda>(c, ok). ok \<and> finishes c i) lg) \<le> 1"
  by (rule store.at_most_one_finish)

subsection \<open>A claim does not exclude a second execution\<close>

text \<open>The claim is no lock: while one request is executing a claimed approval, a second
  request with the same token within 60 seconds of the claim is sent upstream as well.\<close>

theorem claimed_approval_executes_again:
  assumes "approvals db (pm_approvalID p) = Some a" and "ap_TenantID a = pm_tenantID p"
    and "ap_Status a = EXECUTING" and "ap_ExecutingAt a = Some t"
    and "ev_now env - t \<le> 60 * second" and "ev_now env \<le> ap_ExpiresAt a"
    and "ap_ApprovalTokenHash a = ev_sha256hex env (pm_approvalToken p)"
    and "ap_RequestHash a = pm_requestHash p"
    and "ev_gap env 0 = []" and "ev_fault env At_Get = None"
  shows "oc_sent (handleApprovedToolCall env p db) =
    snd (executeToolCall (ev_tool env) (ev_connector env) (ev_resolver env) (pm_payload p)
       (pm_bodyBytes p) (pm_filteredHeaders p))"
proof -
  have sent: "oc_sent (executeApproved env p x d) =
    snd (executeToolCall (ev_tool env) (ev_connector env) (ev_resolver env) (pm_payload p)
       (pm_bodyBytes p) (pm_filteredHeaders p))" for x d
    by (simp add: executeApproved_def Let_def split: prod.splits sum.splits store_error.splits)
  show ?thesis
    using assms
    by (simp add: handleApprovedToolCall_def store_get_def GetApprovalForExecution_def approval_row_def
        claimForExecution_def resumeExecuting_def approvalRetryAllowed_def
        approvalExecutionRetryWindow_def Let_def sent)
qed

subsection \<open>A failed execution is final\<close>

text \<open>A recorded upstream failure is final: after it the approval is FAILED and every
  replay of the approval, inside or outside the 60-second retry window, is refused.\<close>

theorem failed_execution_not_retried:
  assumes "executeToolCall (ev_tool env) (ev_connector env) (ev_resolver env) (pm_payload p)
       (pm_bodyBytes p) (pm_filteredHeaders p) = (Inl err, sent)"
    and "status_of db (pm_approvalID p) = Some EXECUTING" and "approval_row db (pm_tenantID p) (pm_approvalID p) \<noteq> None"
    and "ev_gap env 3 = []" and "ev_fault env At_MarkFailed = None"
    and "pm_approvalID p' = pm_approvalID p"
  shows "status_of (oc_db (executeApproved env p a db)) (pm_approvalID p) = Some FAILED \<and>
    refused (handleApprovedToolCall env' p' (oc_db (executeApproved env p a db)))"
proof -
  have "status_of (oc_db (executeApproved env p a db)) (pm_approvalID p) = Some FAILED"
    using assms(1-5)
    by (auto simp: executeApproved_def store_do_def MarkApprovalExecutionFailed_def affected_result_def
        update_approval_def approval_row_def status_of_def Let_def split: option.splits if_splits)
  then show ?thesis using assms(6) terminal_refused [of _ p' FAILED env'] by (simp add: terminal_def)
qed

subsection \<open>The decision record of the execution\<close>

definition keys_ok :: "store_db \<Rightarrow> bool" where
  "keys_ok db = (\<forall>i a. approvals db i = Some a \<longrightarrow> ap_ApprovalRequestID a = i)"

lemma update_decisions [simp]:
  "decisions (snd (affected_result t i (update_approval g f t i d))) = decisions d"
  by (simp add: affected_result_def update_approval_def split: option.splits)

lemma mark_decisions [simp]:
  "decisions (snd (ClaimApprovalExecution t i x y z d)) = decisions d"
  "decisions (snd (MarkApprovalExecuted t i x y z d)) = decisions d"
  by (simp_all add: approval_ops)

lemma store_do_decisions [simp]:
  "ev_gap env k = [] \<Longrightarrow> decisions (snd (store_do env k call (Call_Claim t i x y z) d)) = decisions d"
  "ev_gap env k = [] \<Longrightarrow> decisions (snd (store_do env k call (Call_Executed t i x y z) d)) = decisions d"
  by (simp_all add: store_do_def Let_def split: option.splits)

lemma store_get_db: "ev_gap env k = [] \<Longrightarrow> store_get env k call t i db = (r, db') \<Longrightarrow> db' = db"
  by (auto simp: store_get_def Let_def split: option.splits)

lemma store_get_key:
  "store_get env k call t i db = (Inr a, db1) \<Longrightarrow> keys_ok db1 \<Longrightarrow> ap_ApprovalRequestID a = i"
  by (auto simp: store_get_def GetApprovalForExecution_def approval_row_def keys_ok_def Let_def
      split: option.splits if_splits)

lemma store_do_keys:
  assumes "ev_gap env k = []" and "store_do env k call (Call_Claim t i x y z) d = (r, d')" and "keys_ok d"
  shows "keys_ok d'"
  using assms
  by (auto simp: store_do_def Let_def ClaimApprovalExecution_def keys_ok_def split: option.splits if_splits
      elim!: update_approval_cases)

lemma claim_keeps_decisions:
  assumes "claimForExecution env p th a db = (Inr a', db')" and gap: "\<forall>k. ev_gap env k = []"
    and "keys_ok db" and "ap_ApprovalRequestID a = pm_approvalID p"
  shows "decisions db' = decisions db \<and> ap_ApprovalRequestID a' = pm_approvalID p"
proof (cases "ap_Status a = APPROVED")
  case False
  with assms show ?thesis
    by (auto simp: claimForExecution_def resumeExecuting_def split: approval_status.splits if_splits)
next
  case True
  let ?c = "Call_Claim (pm_tenantID p) (pm_approvalID p) th (pm_requestHash p) (ev_now env)"
  obtain r db1 where r: "store_do env 1 At_Claim ?c db = (r, db1)" by fastforce
  have d: "decisions db1 = decisions db" "keys_ok db1"
    using store_do_decisions(1) [of env 1 At_Claim _ _ _ _ _ db] gap r store_do_keys [OF _ r assms(3)]
    by (metis snd_conv, simp)
  show ?thesis
  proof (cases r)
    case (Inr u)
    with assms True r d show ?thesis by (auto simp: claimForExecution_def)
  next
    case (Inl e)
    with assms(1) True r obtain latest where
      g: "store_get env 2 At_GetLatest (pm_tenantID p) (pm_approvalID p) db1 = (Inr latest, db')"
      and "a' = latest"
      by (auto simp: claimForExecution_def resumeExecuting_def
          split: store_error.splits prod.splits sum.splits approval_status.splits if_splits)
    with store_get_db [OF _ g] store_get_key [OF g] gap d show ?thesis by simp
  qed
qed

lemma InsertADR_duplicate:
  "r \<in> set (decisions db) \<Longrightarrow> adr_TenantID r = adr_TenantID rec \<Longrightarrow>
   adr_ApprovalRequestID r = adr_ApprovalRequestID rec \<Longrightarrow> adr_ApprovalRequestID rec \<noteq> [] \<Longrightarrow>
   InsertADR rec db = (Inr (), db)"
  by (auto simp: InsertADR_def list_ex_iff)

lemma execution_adr_keys [simp]:
  "adr_TenantID (execution_adr env p a h) = pm_tenantID p"
  "adr_ApprovalRequestID (execution_adr env p a h) = ap_ApprovalRequestID a"
  by (simp_all add: execution_adr_def Let_def)

lemma executeApproved_record:
  assumes "oc_reply (executeApproved env p a db) = Reply_tool n resp" and gap: "\<forall>k. ev_gap env k = []"
    and "pm_approvalID p \<noteq> []" and "ap_ApprovalRequestID a = pm_approvalID p"
    and "r \<in> set (decisions db)" "adr_TenantID r = pm_tenantID p" "adr_ApprovalRequestID r = pm_approvalID p"
  shows "decisions (oc_db (executeApproved env p a db)) = decisions db"
proof -
  from assms(1) obtain up :: connector_response and db1 u where
    m: "store_do env 3 At_MarkExecuted (Call_Executed (pm_tenantID p) (pm_approvalID p)
       (pm_requestID p) (''d_'' @ ev_uuid env) (ev_done env)) db = (Inr u, db1)" and
    d: "oc_db (executeApproved env p a db) =
       snd (store_do env 4 At_InsertADR (Call_ADR (execution_adr env p a (cs_BodyHash up))) db1)"
    by (rule executeApproved_success) (rule that)
  have d1: "decisions db1 = decisions db"
    using store_do_decisions(2) [of env 3 At_MarkExecuted _ _ _ _ _ db] gap m by (metis snd_conv)
  have "InsertADR (execution_adr env p a (cs_BodyHash up)) db1 = (Inr (), db1)"
    by (rule InsertADR_duplicate [of r]) (simp_all add: assms d1)
  then show ?thesis
    using gap d1 by (simp add: d store_do_def Let_def split: option.splits)
qed

text \<open>The decision record of an approved execution is never stored: the record written
  when the approval was requested already carries the approval id, and the duplicate check
  of \<open>InsertADR\<close> then drops the ALLOW record although the reply is a success.\<close>

theorem execution_record_dropped:
  assumes "oc_reply (handleApprovedToolCall env p db) = Reply_tool n resp"
    and "\<forall>k. ev_gap env k = []" and "pm_approvalID p \<noteq> []" and "keys_ok db"
    and "r \<in> set (decisions db)" and "adr_TenantID r = pm_tenantID p"
    and "adr_ApprovalRequestID r = pm_approvalID p"
  shows "decisions (oc_db (handleApprovedToolCall env p db)) = decisions db"
proof -
  from assms(1) have "\<not> refused (handleApprovedToolCall env p db)" by (simp add: refused_def)
  then obtain a db1 a' db2 where
    g: "store_get env 0 At_Get (pm_tenantID p) (pm_approvalID p) db = (Inr a, db1)" and
    c: "claimForExecution env p (ap_ApprovalTokenHash a) a db1 = (Inr a', db2)" and
    h: "handleApprovedToolCall env p db = executeApproved env p a' db2"
    by (rule handler_executes)
  have db1: "db1 = db" using store_get_db [OF _ g] assms(2) by simp
  have "decisions db2 = decisions db \<and> ap_ApprovalRequestID a' = pm_approvalID p"
    using claim_keeps_decisions [OF c assms(2)] store_get_key [OF g] assms(4) db1 by simp
  then show ?thesis
    using executeApproved_record [OF assms(1) [unfolded h] assms(2,3), of r] assms(5-7) h by simp
qed

subsection \<open>The contract of the handler\<close>

text \<open>What the handler promises when nothing interferes, as a table over the stored row, the
  two digests and the clock.\<close>

datatype verdict = Refuse int string | Execute

definition approval_verdict :: "approval_request option \<Rightarrow> string \<Rightarrow> string \<Rightarrow> time \<Rightarrow> verdict" where
  "approval_verdict row tokenHash requestHash now =
     (case row of None \<Rightarrow> Refuse 403 ''approval_token_invalid''
      | Some a \<Rightarrow>
          if ap_ApprovalTokenHash a \<noteq> tokenHash then Refuse 403 ''approval_token_invalid''
          else if ap_RequestHash a \<noteq> requestHash then Refuse 403 ''approval_request_hash_mismatch''
          else if ap_Status a = EXPIRED \<or> ap_ExpiresAt a < now then Refuse 403 ''approval_expired''
          else if ap_Status a = APPROVED then
            (if now < ap_ExpiresAt a then Execute else Refuse 409 ''approval_already_claimed'')
          else if ap_Status a = EXECUTING then
            (if approvalRetryAllowed a now then Execute else Refuse 409 ''approval_retry_window_exceeded'')
          else if ap_Status a = EXECUTED then Refuse 409 ''approval_already_executed''
          else Refuse 409 ''approval_already_claimed'')"

definition keeps_verdict :: "verdict \<Rightarrow> exec_env \<Rightarrow> approved_params \<Rightarrow> outcome \<Rightarrow> bool" where
  "keeps_verdict v env p out = (case v of
     Refuse n code \<Rightarrow> oc_reply out = Reply_error n code \<and> oc_sent out = []
   | Execute \<Rightarrow> oc_sent out = snd (executeToolCall (ev_tool env) (ev_connector env) (ev_resolver env)
       (pm_payload p) (pm_bodyBytes p) (pm_filteredHeaders p)))"

lemma executeApproved_sent:
  "oc_sent (executeApproved env p x d) =
    snd (executeToolCall (ev_tool env) (ev_connector env) (ev_resolver env) (pm_payload p)
       (pm_bodyBytes p) (pm_filteredHeaders p))"
  by (simp add: executeApproved_def Let_def split: prod.splits sum.splits store_error.splits)

definition same_row :: "approval_request \<Rightarrow> approval_request \<Rightarrow> bool" where
  "same_row a row \<longleftrightarrow> ap_ApprovalTokenHash a = ap_ApprovalTokenHash row \<and>
     ap_RequestHash a = ap_RequestHash row \<and> ap_Status a = ap_Status row \<and>
     ap_ExpiresAt a = ap_ExpiresAt row \<and> ap_ExecutingAt a = ap_ExecutingAt row \<and> ap_ExecutedAt a = None"

lemma GetApprovalForExecution_Inr:
  assumes "GetApprovalForExecution t i db = Inr a"
  obtains row where "approval_row db t i = Some row" "same_row a row"
  using assms by (auto simp: GetApprovalForExecution_def same_row_def split: option.splits)

lemma ClaimApprovalExecution_cases:
  assumes "approval_row db t i = Some row" and "ap_ApprovalTokenHash row = th" "ap_RequestHash row = rh"
  shows "fst (ClaimApprovalExecution t i th rh now db) =
      (if ap_Status row = APPROVED \<and> now < ap_ExpiresAt row then Inr () else Inl ErrInvalidState) \<and>
    (\<not> (ap_Status row = APPROVED \<and> now < ap_ExpiresAt row) \<longrightarrow> snd (ClaimApprovalExecution t i th rh now db) = db)"
  using assms
  by (simp add: ClaimApprovalExecution_def affected_result_def update_approval_def approvalStateError_def)

lemma claim_verdict:
  assumes "ev_gap env 1 = []" "ev_gap env 2 = []" "ev_fault env At_Claim = None" "ev_fault env At_GetLatest = None"
    and get: "GetApprovalForExecution (pm_tenantID p) (pm_approvalID p) db = Inr a"
    and "ap_ApprovalTokenHash a = th" "ap_RequestHash a = pm_requestHash p" "ap_Status a = APPROVED"
  shows "if ev_now env < ap_ExpiresAt a then \<exists>a' db'. claimForExecution env p th a db = (Inr a', db')
    else claimForExecution env p th a db = (Inl (Reply_error 409 ''approval_already_claimed''), db)"
proof -
  obtain row where row: "approval_row db (pm_tenantID p) (pm_approvalID p) = Some row" "same_row a row"
    using get by (rule GetApprovalForExecution_Inr)
  obtain r db1 where c: "ClaimApprovalExecution (pm_tenantID p) (pm_approvalID p) th (pm_requestHash p) (ev_now env) db = (r, db1)"
    by fastforce
  have "r = (if ev_now env < ap_ExpiresAt a then Inr () else Inl ErrInvalidState)"
    "\<not> ev_now env < ap_ExpiresAt a \<Longrightarrow> db1 = db"
    using ClaimApprovalExecution_cases [OF row(1), of th "pm_requestHash p" "ev_now env"] row(2) assms(6-) c
    by (simp_all add: same_row_def)
  then show ?thesis
    using assms c by (simp add: claimForExecution_def store_do_def store_get_def)
qed

lemma verdict_of_result:
  assumes "GetApprovalForExecution t i db = Inr a"
  shows "approval_verdict (approval_row db t i) th rh now = approval_verdict (Some a) th rh now"
proof -
  obtain row where "approval_row db t i = Some row" "same_row a row"
    using assms by (rule GetApprovalForExecution_Inr)
  then show ?thesis by (simp add: approval_verdict_def approvalRetryAllowed_def same_row_def)
qed

lemma handler_live:
  assumes "ev_gap env 0 = []" "ev_fault env At_Get = None"
    and "GetApprovalForExecution (pm_tenantID p) (pm_approvalID p) db = Inr a"
    and "ap_ApprovalTokenHash a = ev_sha256hex env (pm_approvalToken p)" "ap_RequestHash a = pm_requestHash p"
    and "ap_Status a \<noteq> EXPIRED" "ev_now env \<le> ap_ExpiresAt a"
  shows "handleApprovedToolCall env p db =
    (case claimForExecution env p (ap_ApprovalTokenHash a) a db of
       (Inl r, db2) \<Rightarrow> \<lparr>oc_reply = r, oc_events = [], oc_sent = [], oc_db = db2\<rparr>
     | (Inr approval', db2) \<Rightarrow> executeApproved env p approval' db2)"
  using assms by (simp add: handleApprovedToolCall_def store_get_def)

lemma handler_keeps_verdict:
  assumes "\<forall>k. ev_gap env k = []" and "\<forall>c. ev_fault env c = None"
  shows "keeps_verdict (approval_verdict (approval_row db (pm_tenantID p) (pm_approvalID p))
      (ev_sha256hex env (pm_approvalToken p)) (pm_requestHash p) (ev_now env))
    env p (handleApprovedToolCall env p db)"
proof (cases "GetApprovalForExecution (pm_tenantID p) (pm_approvalID p) db")
  case (Inl e)
  then have "approval_row db (pm_tenantID p) (pm_approvalID p) = None" "e = ErrNotFound"
    by (simp_all add: GetApprovalForExecution_def split: option.splits)
  then show ?thesis using assms Inl
    by (simp add: keeps_verdict_def approval_verdict_def handleApprovedToolCall_def store_get_def Let_def refuse_def)
next
  case (Inr a)
  have ex: "ap_ExecutedAt a = None"
    using Inr by (rule GetApprovalForExecution_Inr) (simp add: same_row_def)
  have "keeps_verdict (approval_verdict (Some a) (ev_sha256hex env (pm_approvalToken p)) (pm_requestHash p) (ev_now env))
    env p (handleApprovedToolCall env p db)"
  proof (cases "ap_ApprovalTokenHash a = ev_sha256hex env (pm_approvalToken p) \<and> ap_RequestHash a = pm_requestHash p \<and>
      ap_Status a \<noteq> EXPIRED \<and> ev_now env \<le> ap_ExpiresAt a")
    case True
    note h = handler_live [of env, OF _ _ Inr] and claim = claim_verdict [of env, OF _ _ _ _ Inr refl]
    show ?thesis
    proof (cases "ap_Status a = APPROVED")
      case ap: True
      then show ?thesis
        using True assms claim h
        by (auto simp: keeps_verdict_def approval_verdict_def executeApproved_sent split: if_splits)
    next
      case False
      then show ?thesis
        using True assms h ex
        by (cases "ap_Status a") (simp_all add: keeps_verdict_def approval_verdict_def
            executeApproved_sent claimForExecution_def resumeExecuting_def)
    qed
  next
    case False
    then show ?thesis
      using assms Inr by (auto simp: keeps_verdict_def approval_verdict_def
          handleApprovedToolCall_def store_get_def refuse_def Let_def)
  qed
  then show ?thesis by (simp add: verdict_of_result [OF Inr])
qed

text \<open>C7: undisturbed, the handler is the table \<open>approval_verdict\<close>: for every stored row,
  token, request digest and time it gives exactly the refusal the table names, or sends the
  one upstream call of \<open>executeToolCall\<close>. (At the instant of expiry the claim's strict
  comparison refuses what the handler's own check let through, with 409.)\<close>

theorem handler_implements_verdict:
  assumes "\<forall>k. ev_gap env k = []" and "\<forall>c. ev_fault env c = None"
  shows "keeps_verdict (approval_verdict (approval_row db (pm_tenantID p) (pm_approvalID p))
      (ev_sha256hex env (pm_approvalToken p)) (pm_requestHash p) (ev_now env))
    env p (handleApprovedToolCall env p db)"
  using assms by (rule handler_keeps_verdict)

subsection \<open>Concrete runs\<close>

text \<open>One approval, one tool that answers 200, and a digest function that tags its input.\<close>

definition sample_approval :: "approval_status \<Rightarrow> approval_request" where
  "sample_approval st = \<lparr>ap_ApprovalRequestID = ''ap1'', ap_TenantID = ''t1'', ap_AgentID = ''a'', ap_ToolID = ''jira'',
     ap_ActionType = ''JIRA_READ'', ap_RequestHash = ''rh'', ap_RequestContext = [], ap_Status = st,
     ap_ApprovalTokenHash = ''#tok'', ap_ExpiresAt = 500 * second, ap_CreatedAt = 0, ap_PolicyVersion = ''v1'',
     ap_DecidedAt = None, ap_DecidedBy = [], ap_DecisionComment = [], ap_ExecutingAt = Some (90 * second),
     ap_ExecutionID = [], ap_ExecutedAt = None, ap_ExecutedRequestID = [], ap_ExecutedDecisionID = [],
     ap_FailedAt = None, ap_LastErrorCode = [], ap_RequestDecisionID = [], ap_ActionSummary = ''read'',
     ap_Risk = ''LOW'', ap_RuleID = ''r1'', ap_Reasons = []\<rparr>"

definition sample_env :: exec_env where
  "sample_env = \<lparr>ev_sha256hex = (\<lambda>s. CHR ''#'' # s), ev_now = 100 * second, ev_done = 101 * second, ev_uuid = ''u'',
     ev_gap = (\<lambda>_. []), ev_fault = (\<lambda>_. None), ev_tool = Inr sample_tool,
     ev_connector = Some (\<lambda>_. Inr \<lparr>cs_Status = 200, cs_Headers = [], cs_Body = ''ok'', cs_BodyHash = ''#ok''\<rparr>),
     ev_resolver = None\<rparr>"

definition sample_params :: approved_params where
  "sample_params = \<lparr>pm_tenantID = ''t1'', pm_agentID = ''a'', pm_toolID = ''jira'', pm_requestID = ''q'',
     pm_requestHash = ''rh'', pm_classificationRisk = ''LOW'', pm_classificationType = ''JIRA_READ'',
     pm_classificationSummary = ''read'', pm_payload = sample_call, pm_bodyBytes = [], pm_filteredHeaders = [],
     pm_approvalID = ''ap1'', pm_approvalToken = ''tok''\<rparr>"

definition sample_db :: "approval_status \<Rightarrow> store_db" where
  "sample_db st = \<lparr>approvals = [''ap1'' \<mapsto> sample_approval st],
     decisions = [(execution_adr sample_env sample_params (sample_approval PENDING) [])\<lparr>adr_Decision := ''REQUIRE_APPROVAL''\<rparr>]\<rparr>"

lemmas sample_defs = sample_approval_def sample_env_def sample_params_def sample_db_def second_def

definition ok_reply :: tool_call_response where
  "ok_reply = empty_response\<lparr>rp_RequestID := ''q'', rp_Decision := ''ALLOW'', rp_Reason := ''Approved execution'',
     rp_ToolStatus := 200, rp_ToolBody := ''ok''\<rparr>"

definition sample_sent :: "connector_request list" where
  "sample_sent = [\<lparr>cq_Method = ''GET'', cq_URL = ''http://j/x'',
     cq_Headers = [(''Authorization'', ''Bearer s'')], cq_Body = []\<rparr>]"

lemma sample_run:
  "oc_reply (handleApprovedToolCall sample_env sample_params (sample_db APPROVED)) = Reply_tool 200 ok_reply"
  by code_simp

lemma sample_run_sent:
  "oc_sent (handleApprovedToolCall sample_env sample_params (sample_db APPROVED)) = sample_sent"
  by code_simp

lemma sample_db_row [simp]:
  "approvals (sample_db st) ''ap1'' = Some (sample_approval st)"
  "status_of (sample_db st) ''ap1'' = Some st" "pm_approvalID sample_params = ''ap1''"
  "approval_row (sample_db st) ''t1'' ''ap1'' = Some (sample_approval st)"
  "pm_tenantID sample_params = ''t1''" "ev_gap sample_env k = []" "ev_fault sample_env c = None"
  by (simp_all add: sample_defs status_of_def approval_row_def)

theorem execution_is_authorised_witness:
  "oc_sent (handleApprovedToolCall sample_env sample_params (sample_db APPROVED)) = sample_sent \<and>
   (\<exists>a. approvals (others_run sample_env 0 (sample_db APPROVED)) (pm_approvalID sample_params) = Some a \<and>
    ap_TenantID a = pm_tenantID sample_params \<and>
    ap_ApprovalTokenHash a = ev_sha256hex sample_env (pm_approvalToken sample_params) \<and>
    ap_RequestHash a = pm_requestHash sample_params \<and> ev_now sample_env \<le> ap_ExpiresAt a \<and>
    ap_Status a \<in> {APPROVED, EXECUTING})"
  using execution_is_authorised [of sample_env sample_params "sample_db APPROVED"] sample_run_sent
  by (simp add: sample_sent_def)

theorem terminal_approval_not_executed_witness:
  "refused (handleApprovedToolCall sample_env sample_params (sample_db DENIED))"
  using terminal_approval_not_executed [of "sample_db DENIED" sample_params DENIED] by (simp add: terminal_def)

theorem approval_succeeds_at_most_once_witness:
  "refused (handleApprovedToolCall sample_env sample_params
     (oc_db (handleApprovedToolCall sample_env sample_params (sample_db APPROVED))))"
  using approval_succeeds_at_most_once [OF sample_run, of "[]" _ _ sample_params sample_env] by simp

theorem mark_executed_at_most_once_witness:
  "length (filter (\<lambda>(c, ok). ok \<and> finishes c ''ap1'')
     (fst (run_calls exec_store [Call_Executed ''t1'' ''ap1'' [] [] 0, Call_Executed ''t1'' ''ap1'' [] [] 1]
       (sample_db EXECUTING)))) \<le> 1"
  by (rule mark_executed_at_most_once [OF prod.collapse [symmetric]])

theorem claimed_approval_executes_again_witness:
  "oc_sent (handleApprovedToolCall sample_env sample_params (sample_db EXECUTING)) = sample_sent"
proof -
  have "oc_sent (handleApprovedToolCall sample_env sample_params (sample_db EXECUTING)) =
    snd (executeToolCall (ev_tool sample_env) (ev_connector sample_env) (ev_resolver sample_env)
       (pm_payload sample_params) (pm_bodyBytes sample_params) (pm_filteredHeaders sample_params))"
    by (rule claimed_approval_executes_again [of _ _ "sample_approval EXECUTING" "90 * second"])
      (simp_all add: sample_approval_def sample_params_def sample_env_def second_def)
  also have "\<dots> = sample_sent" by code_simp
  finally show ?thesis .
qed

theorem failed_execution_not_retried_witness:
  "refused (handleApprovedToolCall sample_env sample_params (oc_db (executeApproved
     (sample_env\<lparr>ev_connector := Some (\<lambda>_. Inl Upstream_other)\<rparr>) sample_params (sample_approval EXECUTING) (sample_db EXECUTING))))"
proof -
  let ?env = "sample_env\<lparr>ev_connector := Some (\<lambda>_. Inl Upstream_other)\<rparr>"
  have "executeToolCall (ev_tool ?env) (ev_connector ?env) (ev_resolver ?env) (pm_payload sample_params)
     (pm_bodyBytes sample_params) (pm_filteredHeaders sample_params) = (Inl (Exec_upstream Upstream_other), sample_sent)"
    by code_simp
  from failed_execution_not_retried [OF this, of "sample_db EXECUTING" sample_params "sample_approval EXECUTING" sample_env]
  show ?thesis by simp
qed

theorem execution_record_dropped_witness:
  "decisions (oc_db (handleApprovedToolCall sample_env sample_params (sample_db APPROVED))) =
     decisions (sample_db APPROVED)"
proof -
  have "keys_ok (sample_db APPROVED)" by (simp add: keys_ok_def sample_db_def sample_approval_def)
  then show ?thesis
    using execution_record_dropped [OF sample_run, of "hd (decisions (sample_db APPROVED))"]
    by (simp add: sample_db_def sample_approval_def [of PENDING])
qed

theorem handler_implements_verdict_witness:
  "oc_reply (handleApprovedToolCall sample_env sample_params (sample_db EXPIRED)) = Reply_error 403 ''approval_expired''"
proof -
  have "approval_verdict (approval_row (sample_db EXPIRED) (pm_tenantID sample_params) (pm_approvalID sample_params))
     (ev_sha256hex sample_env (pm_approvalToken sample_params)) (pm_requestHash sample_params) (ev_now sample_env)
     = Refuse 403 ''approval_expired''"
    by code_simp
  with handler_implements_verdict [of sample_env "sample_db EXPIRED" sample_params] show ?thesis
    by (simp add: keeps_verdict_def)
qed

end
