(* ===== verification/File_Governance.thy ===== *)
theory File_Governance
  imports Go_Url
begin

text \<open>
  \<open>src/internal/classification/file_path.go\<close> and
  \<open>src/internal/api/public/file_governance.go\<close>: which strings of a call's arguments are
  file paths, and the check that they stay in the tenant's sandbox. The theorems say that an
  accepted call has every detected path under the tenant's own directory, segment by
  segment, and which strings are not detected.
\<close>

subsection \<open>filepath.Clean and filepath.Join\<close>

fun clean_relative :: "string list \<Rightarrow> string list \<Rightarrow> string list" where
  "clean_relative acc [] = rev acc"
| "clean_relative acc (s # ss) =
     (if s = [] \<or> s = ''.'' then clean_relative acc ss
      else if s = ''..'' \<and> acc \<noteq> [] \<and> hd acc \<noteq> ''..'' then clean_relative (tl acc) ss
      else clean_relative (s # acc) ss)"

definition Clean :: "string \<Rightarrow> string" where
  "Clean p =
     (if HasPrefix p ''/'' then Clean_rooted p
      else let ss = clean_relative [] (Split (CHR ''/'') p) in if ss = [] then ''.'' else Join ''/'' ss)"

definition filepath_Join2 :: "string \<Rightarrow> string \<Rightarrow> string" where
  "filepath_Join2 a b = (if b = [] then Clean a else Clean (a @ ''/'' @ b))"

subsection \<open>Detection\<close>

definition isURIScheme :: "string \<Rightarrow> bool" where
  "isURIScheme s = list_ex (HasPrefix (ToLower s))
     [''http://'', ''https://'', ''ftp://'', ''ftps://'', ''s3://'', ''gs://'', ''ssh://'', ''git://'',
      ''file://'', ''data:'', ''mailto:'']"

definition isLikelyHTTPPath :: "string \<Rightarrow> bool" where
  "isLikelyHTTPPath path =
     (if \<not> HasPrefix path ''/'' \<or> Contains path ''..'' then False
      else if 50 \<le> length path then False
      else let segments = Split (CHR ''/'') (Trim path (CHR ''/'')) in
           length segments \<le> 3 \<and>
           list_all (\<lambda>seg. CHR ''.'' \<notin> set seg \<and>
             seg \<notin> {''data'', ''tmp'', ''etc'', ''var'', ''opt'', ''home'', ''usr''}) segments)"

definition IsFilePath :: "string \<Rightarrow> bool" where
  "IsFilePath value =
     (let trimmed = TrimSpace value in
      if trimmed = [] then False
      else if isURIScheme trimmed then False
      else if CHR ''@'' \<in> set trimmed then False
      else if isLikelyHTTPPath trimmed then False
      else if HasPrefix trimmed ''/'' \<or> HasPrefix trimmed ''~/'' \<or> HasPrefix trimmed ''./'' \<or> HasPrefix trimmed ''../''
      then True
      else 3 \<le> length trimmed \<and> trimmed ! 1 = CHR '':'' \<and> (trimmed ! 2 = CHR 0x5C \<or> trimmed ! 2 = CHR ''/''))"

function DetectFilePaths :: "any \<Rightarrow> string list" where
  "DetectFilePaths (Str_v s) = (if IsFilePath s then [s] else [])"
| "DetectFilePaths (Map_v m) = concat (map (\<lambda>(k, v). DetectFilePaths v) m)"
| "DetectFilePaths (List_v xs) = concat (map DetectFilePaths xs)"
| "DetectFilePaths Nil_v = []"
| "DetectFilePaths (Bool_v b) = []"
| "DetectFilePaths (Float_v f) = []"
| "DetectFilePaths (Int_v i) = []"
| "DetectFilePaths (Number_v n) = []"
  by pat_completeness auto
termination
  by (relation "measure size", simp, force dest: size_in_map, simp add: size_in_list)

subsection \<open>Validation\<close>

definition ContainsTraversal :: "string \<Rightarrow> bool" where
  "ContainsTraversal p = (''..'' \<in> set (Split (CHR ''/'') (ReplaceChar (CHR 0x5C) (CHR ''/'') p)))"

definition SandboxRoot :: "string \<Rightarrow> string" where
  "SandboxRoot tenantID = filepath_Join2 ''/data/tenants'' tenantID"

record file_path_result =
  fp_Paths :: "string list"
  fp_HasTraversal :: bool
  fp_TraversalPaths :: "string list"
  fp_DeniedPaths :: "string list"

definition validate_path :: "string \<Rightarrow> file_path_result \<Rightarrow> string \<Rightarrow> file_path_result" where
  "validate_path sandbox result p =
     (if ContainsTraversal p
      then result\<lparr>fp_HasTraversal := True, fp_TraversalPaths := fp_TraversalPaths result @ [p]\<rparr>
      else let cleaned = Clean p in
           if \<not> HasPrefix cleaned (sandbox @ ''/'') \<and> cleaned \<noteq> sandbox
           then result\<lparr>fp_DeniedPaths := fp_DeniedPaths result @ [p]\<rparr>
           else result)"

definition ValidateSandbox :: "string list \<Rightarrow> string \<Rightarrow> file_path_result" where
  "ValidateSandbox paths tenantID =
     foldl (validate_path (SandboxRoot tenantID))
       \<lparr>fp_Paths = paths, fp_HasTraversal = False, fp_TraversalPaths = [], fp_DeniedPaths = []\<rparr> paths"

definition ValidateTenantID :: "string \<Rightarrow> bool" where
  "ValidateTenantID tenantID =
     (tenantID \<noteq> [] \<and> CHR ''/'' \<notin> set tenantID \<and> CHR 0x5C \<notin> set tenantID \<and>
      \<not> Contains tenantID ''..'' \<and> CHR 0x00 \<notin> set tenantID)"

definition checkFileAccess :: "any \<Rightarrow> string \<Rightarrow> string" where
  "checkFileAccess arguments tenantID =
     (let paths = DetectFilePaths arguments in
      if paths = [] then []
      else let result = ValidateSandbox paths tenantID in
           if fp_HasTraversal result then ''file path traversal detected''
           else if fp_DeniedPaths result \<noteq> [] then ''file access outside tenant sandbox''
           else [])"

subsection \<open>The strings of an argument\<close>

function string_leaves :: "any \<Rightarrow> string list" where
  "string_leaves (Str_v s) = [s]"
| "string_leaves (Map_v m) = concat (map (\<lambda>(k, v). string_leaves v) m)"
| "string_leaves (List_v xs) = concat (map string_leaves xs)"
| "string_leaves Nil_v = []"
| "string_leaves (Bool_v b) = []"
| "string_leaves (Float_v f) = []"
| "string_leaves (Int_v i) = []"
| "string_leaves (Number_v n) = []"
  by pat_completeness auto
termination
  by (relation "measure size", simp, force dest: size_in_map, simp add: size_in_list)

lemma DetectFilePaths_leaves: "set (DetectFilePaths v) = {s \<in> set (string_leaves v). IsFilePath s}"
proof (induction v rule: DetectFilePaths.induct)
  case (2 m)
  then show ?case by fastforce
next
  case (3 xs)
  then show ?case by auto
qed auto

lemma validate_fold:
  "fp_HasTraversal (foldl (validate_path sandbox) r ps) = (fp_HasTraversal r \<or> list_ex ContainsTraversal ps)"
  "fp_DeniedPaths (foldl (validate_path sandbox) r ps) = fp_DeniedPaths r @
     filter (\<lambda>p. \<not> ContainsTraversal p \<and> \<not> HasPrefix (Clean p) (sandbox @ ''/'') \<and> Clean p \<noteq> sandbox) ps"
  by (induction ps arbitrary: r) (auto simp: validate_path_def Let_def)

lemma checkFileAccess_ok:
  "checkFileAccess a t = [] \<longleftrightarrow> (\<forall>s\<in>set (string_leaves a). IsFilePath s \<longrightarrow> \<not> ContainsTraversal s \<and>
     (HasPrefix (Clean s) (SandboxRoot t @ ''/'') \<or> Clean s = SandboxRoot t))"
proof -
  have "checkFileAccess a t = [] \<longleftrightarrow> (\<forall>s\<in>set (DetectFilePaths a). \<not> ContainsTraversal s \<and>
     (HasPrefix (Clean s) (SandboxRoot t @ ''/'') \<or> Clean s = SandboxRoot t))"
    by (auto simp: checkFileAccess_def ValidateSandbox_def validate_fold Let_def list_ex_iff filter_empty_conv)
  then show ?thesis by (auto simp: DetectFilePaths_leaves)
qed

subsection \<open>Confinement\<close>

text \<open>Turning backslashes into slashes only splits segments further.\<close>

lemma Split_replace_parts:
  "(a \<notin> set (hd (Split c s)) \<longrightarrow> hd (Split c (ReplaceChar a c s)) = hd (Split c s)) \<and>
   (\<forall>y\<in>set (tl (Split c s)). a \<notin> set y \<longrightarrow> y \<in> set (tl (Split c (ReplaceChar a c s))))"
proof (induction s)
  case (Cons z s)
  obtain p ps where p: "Split c s = p # ps" using Split_ne by (meson list.exhaust)
  obtain q qs where q: "Split c (ReplaceChar a c s) = q # qs" using Split_ne by (meson list.exhaust)
  have "ReplaceChar a c (z # s) = (if z = a then c else z) # ReplaceChar a c s" by (simp add: ReplaceChar_def)
  then show ?case using Cons p q by auto
qed (simp add: ReplaceChar_def)

lemma Split_replace: "x \<in> set (Split c s) \<Longrightarrow> a \<notin> set x \<Longrightarrow> x \<in> set (Split c (ReplaceChar a c s))"
  using Split_replace_parts [of a c s] Split_ne [of c s] Split_ne [of c "ReplaceChar a c s"]
  by (metis hd_Cons_tl list.set_intros set_ConsD)

lemma SandboxRoot_proper:
  assumes "proper_segment t"
  shows "SandboxRoot t = ''/data/tenants/'' @ t"
proof -
  have "CHR ''/'' \<notin> set t" "t \<noteq> []" "t \<noteq> ''.''" "t \<noteq> ''..''" using assms by (simp_all add: proper_segment_def)
  then show ?thesis
    by (simp add: SandboxRoot_def filepath_Join2_def Clean_def Clean_rooted_def HasPrefix_def Split_plain)
qed

definition plain_segment :: "string \<Rightarrow> bool" where
  "plain_segment x = (x \<noteq> [] \<and> CHR ''/'' \<notin> set x)"

lemma clean_relative_segments:
  assumes "list_all plain_segment acc" and "\<forall>x\<in>set ss. CHR ''/'' \<notin> set x"
  shows "list_all plain_segment (clean_relative acc ss)"
  using assms
proof (induction ss arbitrary: acc)
  case (Cons s ss)
  have "list_all plain_segment (tl acc)" using Cons.prems(1) by (cases acc) auto
  then show ?case
    using Cons.prems Cons.IH [of acc] Cons.IH [of "tl acc"] Cons.IH [of "s # acc"]
    by (auto simp: plain_segment_def [of s])
qed (simp add: list_all_iff)

lemma Clean_relative_no_slash:
  assumes "\<not> HasPrefix p ''/''"
  shows "\<not> HasPrefix (Clean p) ''/''"
proof -
  let ?ss = "clean_relative [] (Split (CHR ''/'') p)"
  have "list_all plain_segment ?ss"
    by (rule clean_relative_segments) (auto dest: Split_no_sep)
  then have "\<forall>x\<in>set ?ss. x \<noteq> [] \<and> CHR ''/'' \<notin> set x" by (simp add: list_all_iff plain_segment_def)
  then have "?ss \<noteq> [] \<longrightarrow> hd (Join ''/'' ?ss) \<noteq> CHR ''/'' \<and> Join ''/'' ?ss \<noteq> []" using Join_ends by blast
  then show ?thesis
    using assms by (cases "Join ''/'' ?ss") (auto simp: Clean_def Let_def HasPrefix_def)
qed

lemma HasPrefix_split: "HasPrefix s p \<longleftrightarrow> (\<exists>r. s = p @ r)"
proof
  assume "HasPrefix s p"
  then have "s = p @ drop (length p) s" by (metis HasPrefix_def append_take_drop_id)
  then show "\<exists>r. s = p @ r" by blast
qed (auto simp: HasPrefix_def)

text \<open>The directory a path names, as its list of segments after \<open>Clean\<close>.\<close>

definition path_directory :: "string \<Rightarrow> string list" where
  "path_directory p = clean_segments [] (Split (CHR ''/'') p)"

lemma under_root:
  assumes "proper_segment t" and "HasPrefix (Clean s) (SandboxRoot t @ ''/'') \<or> Clean s = SandboxRoot t"
  shows "HasPrefix s ''/'' \<and> (\<exists>rest. path_directory s = [''data'', ''tenants'', t] @ rest)"
proof -
  obtain r where r: "Clean s = ''/data/tenants/'' @ t @ r" "r = [] \<or> HasPrefix r ''/''"
    using assms by (auto simp: SandboxRoot_proper HasPrefix_split)
  have rooted: "HasPrefix s ''/''"
    using r(1) Clean_relative_no_slash [of s] by (auto simp: HasPrefix_def)
  have xs: "list_all proper_segment (path_directory s)"
    unfolding path_directory_def by (rule clean_segments_proper) (auto dest: Split_no_sep)
  have j: "Join ''/'' (path_directory s) = ''data/tenants/'' @ t @ r"
    using r(1) rooted by (simp add: Clean_def Clean_rooted_def path_directory_def)
  have "path_directory s = Split (CHR ''/'') (''data/tenants/'' @ t @ r)"
    using Split_Join [of "path_directory s" "CHR ''/''"] xs j
    by (cases "path_directory s = []") (auto simp: list_all_iff proper_segment_def)
  moreover have "CHR ''/'' \<notin> set t" using assms(1) by (simp add: proper_segment_def)
  ultimately have "path_directory s = ''data'' # ''tenants'' # Split (CHR ''/'') (t @ r)" by simp
  moreover have "\<exists>rest. Split (CHR ''/'') (t @ r) = t # rest"
    using r(2) \<open>CHR ''/'' \<notin> set t\<close> Split_append Split_plain by (auto simp: HasPrefix_split)
  ultimately show ?thesis using rooted by auto
qed

text \<open>C12: an accepted call stays in the sandbox: if the file check passes, every string anywhere
  in the call's arguments that is detected as a file path is an absolute path without
  double-dot segments whose cleaned segments begin with data, tenants and the caller's own
  tenant id (for a tenant id that is one proper path segment).\<close>

theorem file_access_confined:
  assumes "checkFileAccess arguments tenantID = []" and "proper_segment tenantID"
    and "s \<in> set (string_leaves arguments)" and "IsFilePath s"
  shows "HasPrefix s ''/'' \<and> ''..'' \<notin> set (Split (CHR ''/'') s) \<and>
    (\<exists>rest. path_directory s = [''data'', ''tenants'', tenantID] @ rest)"
proof -
  have ok: "\<not> ContainsTraversal s" "HasPrefix (Clean s) (SandboxRoot tenantID @ ''/'') \<or> Clean s = SandboxRoot tenantID"
    using assms by (auto simp: checkFileAccess_ok)
  have "''..'' \<notin> set (Split (CHR ''/'') s)"
    using ok(1) Split_replace by (auto simp: ContainsTraversal_def)
  with under_root [OF assms(2) ok(2)] show ?thesis by blast
qed

subsection \<open>What is not detected\<close>

lemma IsFilePath_start:
  assumes "IsFilePath v"
  shows "hd (TrimSpace v) \<in> {CHR ''/'', CHR ''~'', CHR ''.''} \<or> TrimSpace v ! 1 = CHR '':''"
  using assms by (auto simp: IsFilePath_def Let_def HasPrefix_split split: if_splits)

text \<open>A relative path that begins with a name is never checked: a call whose strings all
  begin, after white space, with something other than a slash, a tilde or a dot, and have no
  drive colon, passes for every tenant, with any double-dot segments inside.\<close>

theorem relative_paths_unchecked:
  assumes "\<forall>v\<in>set (string_leaves arguments).
    hd (TrimSpace v) \<notin> {CHR ''/'', CHR ''~'', CHR ''.''} \<and> TrimSpace v ! 1 \<noteq> CHR '':''"
  shows "checkFileAccess arguments tenantID = []"
  using assms IsFilePath_start by (auto simp: checkFileAccess_ok)

subsection \<open>Concrete calls\<close>

theorem file_access_confined_witness:
  "\<exists>rest. path_directory ''/data/tenants/t1/a.txt'' = [''data'', ''tenants'', ''t1''] @ rest"
proof -
  let ?a = "Map_v [(''f'', List_v [Str_v ''/data/tenants/t1/a.txt''])]"
  have "checkFileAccess ?a ''t1'' = []" "IsFilePath ''/data/tenants/t1/a.txt''" "proper_segment ''t1''" by code_simp+
  with file_access_confined [of ?a "''t1''" "''/data/tenants/t1/a.txt''"] show ?thesis by simp
qed

theorem relative_paths_unchecked_witness:
  "checkFileAccess (Str_v ''x/../../../etc/passwd'') ''t1'' = [] \<and> ContainsTraversal ''x/../../../etc/passwd''"
proof
  have t: "TrimSpace ''x/../../../etc/passwd'' = ''x/../../../etc/passwd''" by code_simp
  show "checkFileAccess (Str_v ''x/../../../etc/passwd'') ''t1'' = []"
    by (rule relative_paths_unchecked) (simp add: t)
qed code_simp

end
