(* ===== verification/Arg_Constraints.thy ===== *)
theory Arg_Constraints
  imports Go_Number
begin

text \<open>
  \<open>src/internal/api/public/arg_constraints.go\<close>: the constraints a policy puts on the
  arguments of a call, as allow and deny rules over JSON pointers. Regular expressions are a
  parameter \<open>rx\<close> (\<open>regexp.Compile\<close>: \<open>None\<close> for an error, otherwise
  \<open>MatchString\<close>), and so is \<open>json.Unmarshal\<close>. A pair \<open>(matched, valid)\<close> of the
  source is an option: \<open>None\<close> is the invalid rule \<open>(false, false)\<close>, \<open>Some b\<close> is
  \<open>(b, true)\<close>. The order of an association list stands for Go's iteration order over the
  map.
\<close>

type_synonym regexps = "string \<Rightarrow> (string \<Rightarrow> bool) option"

record arg_rule =
  ac_ID :: string
  ac_Path :: string
  ac_Op :: string
  ac_Value :: any
  ac_Message :: string

record arg_rule_set =
  ac_Allow :: "arg_rule list"
  ac_Deny :: "arg_rule list"

record arg_failure =
  af_Path :: string
  af_Op :: string
  af_ReasonCode :: string
  af_RuleID :: string

record arg_violation =
  av_ReasonCode :: string
  av_Message :: string
  av_Failures :: "arg_failure list"

subsection \<open>Reading the rules\<close>

definition toStringAnyMap :: "any \<Rightarrow> gomap option" where
  "toStringAnyMap v = as_map v"

definition toAnySlice :: "any \<Rightarrow> any list option" where
  "toAnySlice v = as_list v"

definition parseStringField :: "gomap \<Rightarrow> string \<Rightarrow> string" where
  "parseStringField m key =
     (case map_of m key of None \<Rightarrow> []
      | Some raw \<Rightarrow> (case as_string raw of None \<Rightarrow> [] | Some s \<Rightarrow> TrimSpace s))"

definition parseArgConstraintPath :: "any \<Rightarrow> string option" where
  "parseArgConstraintPath v =
     (case as_string v of None \<Rightarrow> None
      | Some s \<Rightarrow> (let path = TrimSpace s in
          if path = [] then None
          else if path = ''/'' then Some path
          else if \<not> HasPrefix path ''/'' then None
          else Some path))"

definition parseArgConstraintOp :: "any \<Rightarrow> string option" where
  "parseArgConstraintOp v =
     (case as_string v of None \<Rightarrow> None
      | Some s \<Rightarrow> (let opn = ToLower (TrimSpace s) in
          if opn \<in> {''eq'', ''prefix'', ''regex'', ''in'', ''contains'', ''jsonschema''} then Some opn else None))"

definition parseArgConstraintRule :: "gomap \<Rightarrow> arg_rule option" where
  "parseArgConstraintRule raw =
     (case parseArgConstraintPath (index_map raw ''path'') of None \<Rightarrow> None
      | Some path \<Rightarrow> (case parseArgConstraintOp (index_map raw ''op'') of None \<Rightarrow> None
         | Some opn \<Rightarrow> (case map_of raw ''value'' of None \<Rightarrow> None
            | Some v \<Rightarrow> Some \<lparr>ac_ID = (if parseStringField raw ''id'' \<noteq> [] then parseStringField raw ''id''
                                     else parseStringField raw ''rule_id''),
                            ac_Path = path, ac_Op = opn, ac_Value = v,
                            ac_Message = parseStringField raw ''message''\<rparr>)))"

fun parse_rule_items :: "any list \<Rightarrow> arg_rule list option" where
  "parse_rule_items [] = Some []"
| "parse_rule_items (item # items) =
     (case toStringAnyMap item of None \<Rightarrow> None
      | Some m \<Rightarrow> (case parseArgConstraintRule m of None \<Rightarrow> None
         | Some rule \<Rightarrow> map_option ((#) rule) (parse_rule_items items)))"

definition parseArgConstraintRuleList :: "any \<Rightarrow> arg_rule list option" where
  "parseArgConstraintRuleList v =
     (if v = Nil_v then Some []
      else case toAnySlice v of None \<Rightarrow> None | Some items \<Rightarrow> parse_rule_items items)"

definition parseArgConstraintRuleSet :: "gomap \<Rightarrow> arg_rule_set option" where
  "parseArgConstraintRuleSet constraints =
     (case map_of constraints ''args'' of
        None \<Rightarrow> Some \<lparr>ac_Allow = [], ac_Deny = []\<rparr>
      | Some rawArgs \<Rightarrow>
          (case toStringAnyMap rawArgs of None \<Rightarrow> None
           | Some args \<Rightarrow> (case parseArgConstraintRuleList (index_map args ''allow'') of None \<Rightarrow> None
              | Some allow \<Rightarrow> (case parseArgConstraintRuleList (index_map args ''deny'') of None \<Rightarrow> None
                 | Some deny \<Rightarrow> Some \<lparr>ac_Allow = allow, ac_Deny = deny\<rparr>))))"

subsection \<open>JSON schema subset\<close>

text \<open>One check of the sequence: go on, stop with a mismatch, or stop with an invalid rule.\<close>

definition and_then :: "bool option \<Rightarrow> bool option \<Rightarrow> bool option" where
  "and_then a b = (case a of Some True \<Rightarrow> b | _ \<Rightarrow> a)"

fun all_then :: "('a \<Rightarrow> bool option) \<Rightarrow> 'a list \<Rightarrow> bool option" where
  "all_then f [] = Some True"
| "all_then f (x # xs) = and_then (f x) (all_then f xs)"

lemma all_then_cong [fundef_cong]:
  "xs = ys \<Longrightarrow> (\<And>x. x \<in> set ys \<Longrightarrow> f x = g x) \<Longrightarrow> all_then f xs = all_then g ys"
  by (induction ys arbitrary: xs) auto

definition isJSONNumber :: "any \<Rightarrow> bool" where
  "isJSONNumber v = (case v of Int_v _ \<Rightarrow> True | Float_v _ \<Rightarrow> True
     | Number_v n \<Rightarrow> ParseFloat n \<noteq> None | _ \<Rightarrow> False)"

definition isJSONInteger :: "any \<Rightarrow> bool" where
  "isJSONInteger v = (case v of Int_v _ \<Rightarrow> True | Float_v f \<Rightarrow> of_int (truncate_rat f) = f
     | Number_v n \<Rightarrow> ParseInt n \<noteq> None | _ \<Rightarrow> False)"

definition matchesSingleJSONSchemaType :: "any \<Rightarrow> string \<Rightarrow> bool" where
  "matchesSingleJSONSchemaType v typeName =
     (if typeName = ''object'' then toStringAnyMap v \<noteq> None
      else if typeName = ''array'' then toAnySlice v \<noteq> None
      else if typeName = ''string'' then as_string v \<noteq> None
      else if typeName = ''number'' then isJSONNumber v
      else if typeName = ''integer'' then isJSONInteger v
      else if typeName = ''boolean'' then (case v of Bool_v _ \<Rightarrow> True | _ \<Rightarrow> False)
      else if typeName = ''null'' then v = Nil_v
      else False)"

definition string_items :: "any list \<Rightarrow> string list option" where
  "string_items items = (if list_all (\<lambda>v. as_string v \<noteq> None) items then Some (map (the \<circ> as_string) items) else None)"

definition matchesJSONSchemaType :: "any \<Rightarrow> any \<Rightarrow> bool" where
  "matchesJSONSchemaType v typeSpec =
     (case typeSpec of
        Str_v t \<Rightarrow> matchesSingleJSONSchemaType v t
      | _ \<Rightarrow> (case toAnySlice typeSpec of None \<Rightarrow> False
              | Some items \<Rightarrow> (case string_items items of None \<Rightarrow> False
                 | Some types \<Rightarrow> list_ex (matchesSingleJSONSchemaType v) types)))"

definition parseSchemaRequiredFields :: "any \<Rightarrow> string list option" where
  "parseSchemaRequiredFields v = (case toAnySlice v of None \<Rightarrow> None | Some items \<Rightarrow> string_items items)"

definition enum_check :: "gomap \<Rightarrow> any \<Rightarrow> bool option" where
  "enum_check m v = (case map_of m ''enum'' of None \<Rightarrow> Some True
     | Some e \<Rightarrow> (case toAnySlice e of None \<Rightarrow> None | Some cs \<Rightarrow> Some (list_ex (deep_equal v) cs)))"

definition const_check :: "gomap \<Rightarrow> any \<Rightarrow> bool option" where
  "const_check m v = (case map_of m ''const'' of None \<Rightarrow> Some True | Some c \<Rightarrow> Some (deep_equal v c))"

definition type_check :: "gomap \<Rightarrow> any \<Rightarrow> bool option" where
  "type_check m v = (case map_of m ''type'' of None \<Rightarrow> Some True | Some t \<Rightarrow> Some (matchesJSONSchemaType v t))"

definition pattern_check :: "regexps \<Rightarrow> gomap \<Rightarrow> any \<Rightarrow> bool option" where
  "pattern_check rx m v = (case map_of m ''pattern'' of None \<Rightarrow> Some True
     | Some p \<Rightarrow> (case as_string p of None \<Rightarrow> None
        | Some pat \<Rightarrow> (case as_string v of None \<Rightarrow> Some False
           | Some text \<Rightarrow> (case rx pat of None \<Rightarrow> None | Some expr \<Rightarrow> Some (expr text)))))"

definition required_check :: "gomap \<Rightarrow> any \<Rightarrow> bool option" where
  "required_check m v = (case map_of m ''required'' of None \<Rightarrow> Some True
     | Some r \<Rightarrow> (case parseSchemaRequiredFields r of None \<Rightarrow> None
        | Some keys \<Rightarrow> (case toStringAnyMap v of None \<Rightarrow> Some False
           | Some obj \<Rightarrow> Some (list_all (\<lambda>k. map_of obj k \<noteq> None) keys))))"

lemma size_map_of: "map_of m k = Some v \<Longrightarrow> size v < Suc (size_list (size_prod (\<lambda>_. 0) size) m)"
  by (rule size_in_map) (rule map_of_SomeD)

function matchJSONSchema :: "regexps \<Rightarrow> any \<Rightarrow> any \<Rightarrow> bool option" where
  "matchJSONSchema rx schema value =
     (case schema of
        Bool_v b \<Rightarrow> Some b
      | Map_v m \<Rightarrow>
          and_then (enum_check m value) (and_then (const_check m value) (and_then (type_check m value)
          (and_then (pattern_check rx m value) (and_then (required_check m value)
          (and_then
             (case map_of m ''properties'' of None \<Rightarrow> Some True
              | Some p \<Rightarrow> (case as_map p of None \<Rightarrow> None
                 | Some props \<Rightarrow> (case as_map value of None \<Rightarrow> Some False
                    | Some obj \<Rightarrow> all_then (\<lambda>(key, propertySchema).
                        (case map_of obj key of None \<Rightarrow> Some True
                         | Some propertyValue \<Rightarrow> matchJSONSchema rx propertySchema propertyValue)) props)))
             (case map_of m ''items'' of None \<Rightarrow> Some True
              | Some itemsValue \<Rightarrow> (case as_list value of None \<Rightarrow> Some False
                 | Some items \<Rightarrow> all_then (\<lambda>item. matchJSONSchema rx itemsValue item) items)))))))
      | _ \<Rightarrow> None)"
  by auto
termination
proof (relation "measure (\<lambda>(_, s, _). size s)", goal_cases)
  case (2 rx schema v m p props obj kp key ps pv)
  then have "size ps < size p" by (cases p) (auto dest: size_in_map)
  with 2 show ?case by (auto dest: size_map_of)
qed (auto dest: size_map_of)

declare matchJSONSchema.simps [simp del]

definition validateArgConstraintJSONSchema :: "regexps \<Rightarrow> any \<Rightarrow> any \<Rightarrow> bool option" where
  "validateArgConstraintJSONSchema rx schema value = matchJSONSchema rx schema value"

subsection \<open>JSON pointers\<close>

definition decodeArgConstraintToken :: "string \<Rightarrow> string" where
  "decodeArgConstraintToken t =
     ReplaceAll2 (CHR ''~'') (CHR ''0'') ''~'' (ReplaceAll2 (CHR ''~'') (CHR ''1'') ''/'' t)"

definition getMapValue :: "any \<Rightarrow> string \<Rightarrow> any option" where
  "getMapValue container key = (case toStringAnyMap container of None \<Rightarrow> None | Some m \<Rightarrow> map_of m key)"

definition pointer_step :: "any \<Rightarrow> string \<Rightarrow> any option" where
  "pointer_step current segment =
     (case getMapValue current segment of Some next_v \<Rightarrow> Some next_v
      | None \<Rightarrow> (case toAnySlice current of None \<Rightarrow> None
         | Some values \<Rightarrow> (case ParseInt segment of None \<Rightarrow> None
            | Some index \<Rightarrow> if index < 0 \<or> int (length values) \<le> index then None else Some (values ! nat index))))"

fun pointer_walk :: "any \<Rightarrow> string list \<Rightarrow> any option" where
  "pointer_walk current [] = Some current"
| "pointer_walk current (token # tokens) =
     (case pointer_step current (decodeArgConstraintToken token) of None \<Rightarrow> None
      | Some v \<Rightarrow> pointer_walk v tokens)"

definition resolveArgConstraintPath :: "any \<Rightarrow> string \<Rightarrow> any option" where
  "resolveArgConstraintPath root_v path =
     (if path = ''/'' then Some root_v
      else if \<not> HasPrefix path ''/'' then None
      else pointer_walk root_v (Split (CHR ''/'') (TrimPrefix path ''/'')))"

subsection \<open>One rule\<close>

definition matchArgConstraintRule :: "regexps \<Rightarrow> arg_rule \<Rightarrow> any \<Rightarrow> bool option" where
  "matchArgConstraintRule rx rule arguments =
     (case resolveArgConstraintPath arguments (ac_Path rule) of
        None \<Rightarrow> Some False
      | Some actual \<Rightarrow>
          (if ac_Op rule = ''eq'' then Some (deep_equal actual (ac_Value rule))
           else if ac_Op rule = ''prefix'' then
             (case as_string (ac_Value rule) of None \<Rightarrow> None
              | Some expected \<Rightarrow> (case as_string actual of None \<Rightarrow> Some False
                 | Some text \<Rightarrow> Some (HasPrefix text expected)))
           else if ac_Op rule = ''regex'' then
             (case as_string (ac_Value rule) of None \<Rightarrow> None
              | Some pattern \<Rightarrow> (case rx pattern of None \<Rightarrow> None
                 | Some expr \<Rightarrow> (case as_string actual of None \<Rightarrow> Some False
                    | Some text \<Rightarrow> Some (expr text))))
           else if ac_Op rule = ''in'' then
             (case toAnySlice (ac_Value rule) of None \<Rightarrow> None
              | Some values \<Rightarrow> Some (list_ex (deep_equal actual) values))
           else if ac_Op rule = ''contains'' then
             (case as_string actual of
                Some text \<Rightarrow> (case as_string (ac_Value rule) of None \<Rightarrow> None
                   | Some expected \<Rightarrow> Some (Contains text expected))
              | None \<Rightarrow> (case toAnySlice actual of None \<Rightarrow> Some False
                   | Some values \<Rightarrow> Some (list_ex (\<lambda>item. deep_equal item (ac_Value rule)) values)))
           else if ac_Op rule = ''jsonschema'' then validateArgConstraintJSONSchema rx (ac_Value rule) actual
           else None))"

subsection \<open>The rule set\<close>

definition failure :: "string \<Rightarrow> arg_rule \<Rightarrow> arg_failure" where
  "failure code rule = \<lparr>af_Path = ac_Path rule, af_Op = ac_Op rule, af_ReasonCode = code, af_RuleID = ac_ID rule\<rparr>"

definition invalidArgConstraintRuleViolation :: "arg_rule \<Rightarrow> arg_violation" where
  "invalidArgConstraintRuleViolation rule =
     \<lparr>av_ReasonCode = ''ARG_CONSTRAINT_INVALID_RULE'', av_Message = ''Argument constraint rule is invalid'',
      av_Failures = [failure ''ARG_CONSTRAINT_INVALID_RULE'' rule]\<rparr>"

text \<open>The first message that is not blank, or the default.\<close>

definition first_message :: "string \<Rightarrow> arg_rule list \<Rightarrow> string" where
  "first_message fallback rules =
     (case filter (\<lambda>m. m \<noteq> []) (map (TrimSpace \<circ> ac_Message) rules) of [] \<Rightarrow> fallback | m # _ \<Rightarrow> m)"

text \<open>The deny loop: the first invalid rule, or the matched rules in order.\<close>

fun deny_loop :: "regexps \<Rightarrow> any \<Rightarrow> arg_rule list \<Rightarrow> arg_rule + arg_rule list" where
  "deny_loop rx args [] = Inr []"
| "deny_loop rx args (rule # rules) =
     (case matchArgConstraintRule rx rule args of
        None \<Rightarrow> Inl rule
      | Some b \<Rightarrow> (case deny_loop rx args rules of Inl r \<Rightarrow> Inl r
          | Inr ms \<Rightarrow> Inr (if b then rule # ms else ms)))"

definition group_key :: "arg_rule \<Rightarrow> string" where
  "group_key rule = ac_Path rule @ [CHR 0x00] @ ac_Op rule"

definition groupAllowConstraintRules :: "arg_rule list \<Rightarrow> arg_rule list list" where
  "groupAllowConstraintRules rules =
     map (\<lambda>key. filter (\<lambda>r. group_key r = key) rules) (rev (remdups (rev (map group_key rules))))"

text \<open>Whether a group has a matching rule, up to the first invalid or matching one.\<close>

fun group_matches :: "regexps \<Rightarrow> any \<Rightarrow> arg_rule list \<Rightarrow> arg_rule + bool" where
  "group_matches rx args [] = Inr False"
| "group_matches rx args (rule # rules) =
     (case matchArgConstraintRule rx rule args of
        None \<Rightarrow> Inl rule | Some True \<Rightarrow> Inr True | Some False \<Rightarrow> group_matches rx args rules)"

fun allow_loop :: "regexps \<Rightarrow> any \<Rightarrow> arg_rule list list \<Rightarrow> arg_rule + arg_rule list" where
  "allow_loop rx args [] = Inr []"
| "allow_loop rx args (rules # groups) =
     (case group_matches rx args rules of
        Inl r \<Rightarrow> Inl r
      | Inr True \<Rightarrow> allow_loop rx args groups
      | Inr False \<Rightarrow> (case allow_loop rx args groups of Inl r \<Rightarrow> Inl r | Inr fs \<Rightarrow> Inr (hd rules # fs)))"

definition enforceArgumentConstraints :: "regexps \<Rightarrow> bool \<Rightarrow> gomap \<Rightarrow> any \<Rightarrow> arg_violation option" where
  "enforceArgumentConstraints rx enabled constraints arguments =
     (if \<not> enabled then None
      else case parseArgConstraintRuleSet constraints of
        None \<Rightarrow> Some \<lparr>av_ReasonCode = ''ARG_CONSTRAINT_INVALID_RULE'',
                      av_Message = ''Argument constraint rule is invalid'', av_Failures = []\<rparr>
      | Some ruleSet \<Rightarrow>
          (if ac_Deny ruleSet = [] \<and> ac_Allow ruleSet = [] then None
           else case deny_loop rx arguments (ac_Deny ruleSet) of
             Inl rule \<Rightarrow> Some (invalidArgConstraintRuleViolation rule)
           | Inr (d # ds) \<Rightarrow>
               Some \<lparr>av_ReasonCode = ''ARG_CONSTRAINT_DENY'',
                     av_Message = first_message ''Argument value denied by policy constraint'' (d # ds),
                     av_Failures = map (failure ''ARG_CONSTRAINT_DENY'') (d # ds)\<rparr>
           | Inr [] \<Rightarrow>
               (case allow_loop rx arguments (groupAllowConstraintRules (ac_Allow ruleSet)) of
                  Inl rule \<Rightarrow> Some (invalidArgConstraintRuleViolation rule)
                | Inr [] \<Rightarrow> None
                | Inr fs \<Rightarrow>
                    Some \<lparr>av_ReasonCode = ''ARG_CONSTRAINT_NOT_ALLOWED'',
                          av_Message = first_message ''Argument value not allowed by policy constraint'' fs,
                          av_Failures = map (failure ''ARG_CONSTRAINT_NOT_ALLOWED'') fs\<rparr>)))"

subsection \<open>Reporting\<close>

definition argConstraintRuleID :: "arg_violation option \<Rightarrow> string" where
  "argConstraintRuleID violation =
     (case violation of None \<Rightarrow> ''arg_constraint''
      | Some v \<Rightarrow>
          (case filter (\<lambda>i. i \<noteq> []) (map (TrimSpace \<circ> af_RuleID) (av_Failures v)) of
             i # _ \<Rightarrow> i
           | [] \<Rightarrow> if av_ReasonCode v = ''ARG_CONSTRAINT_DENY'' then ''arg_constraint_deny''
                   else if av_ReasonCode v = ''ARG_CONSTRAINT_NOT_ALLOWED'' then ''arg_constraint_not_allowed''
                   else if av_ReasonCode v = ''ARG_CONSTRAINT_INVALID_RULE'' then ''arg_constraint_invalid''
                   else ''arg_constraint''))"

definition argConstraintFailuresAsMaps :: "arg_failure list \<Rightarrow> any" where
  "argConstraintFailuresAsMaps failures =
     List_v (map (\<lambda>f. Map_v ([(''path'', Str_v (af_Path f)), (''op'', Str_v (af_Op f)),
                             (''reason_code'', Str_v (af_ReasonCode f))] @
                            (if TrimSpace (af_RuleID f) \<noteq> [] then [(''rule_id'', Str_v (TrimSpace (af_RuleID f)))] else [])))
             failures)"

definition withArgConstraintFailures :: "gomap \<Rightarrow> arg_violation option \<Rightarrow> gomap" where
  "withArgConstraintFailures constraints violation =
     (case violation of None \<Rightarrow> constraints
      | Some v \<Rightarrow> if av_Failures v = [] then constraints
          else set_key ''arg_constraint_failures'' (argConstraintFailuresAsMaps (av_Failures v)) constraints)"

definition parseRESTArguments :: "(string \<Rightarrow> any option) \<Rightarrow> string \<Rightarrow> any" where
  "parseRESTArguments unmarshal body =
     (let trimmed = TrimSpace body in
      if trimmed = [] then Map_v []
      else case unmarshal trimmed of None \<Rightarrow> Str_v trimmed | Some v \<Rightarrow> v)"

subsection \<open>What an accepted call satisfies\<close>

lemma deny_loop_Nil: "deny_loop rx args rules = Inr [] \<longleftrightarrow>
    (\<forall>r\<in>set rules. matchArgConstraintRule rx r args = Some False)"
  by (induction rules) (auto split: option.splits sum.splits)

lemma allow_loop_Nil: "allow_loop rx args groups = Inr [] \<longleftrightarrow> (\<forall>g\<in>set groups. group_matches rx args g = Inr True)"
  by (induction groups) (auto split: sum.splits bool.splits)

lemma set_groups: "set (groupAllowConstraintRules rules) =
    (\<lambda>r. filter (\<lambda>r'. group_key r' = group_key r) rules) ` set rules"
  by (auto simp: groupAllowConstraintRules_def)

lemma parseArgConstraintRule_op:
  assumes "parseArgConstraintRule m = Some r"
  shows "CHR 0x00 \<notin> set (ac_Op r)"
proof -
  have "ac_Op r \<in> {''eq'', ''prefix'', ''regex'', ''in'', ''contains'', ''jsonschema''}"
    using assms by (auto simp: parseArgConstraintRule_def parseArgConstraintOp_def Let_def split: option.splits if_splits)
  then show ?thesis by auto
qed

lemma parse_rule_items_op: "parse_rule_items items = Some rs \<Longrightarrow> r \<in> set rs \<Longrightarrow> CHR 0x00 \<notin> set (ac_Op r)"
  by (induction items arbitrary: rs) (auto split: option.splits dest: parseArgConstraintRule_op)

lemma parse_rule_set_op:
  "parseArgConstraintRuleSet c = Some rs \<Longrightarrow> r \<in> set (ac_Allow rs) \<Longrightarrow> CHR 0x00 \<notin> set (ac_Op r)"
  by (auto simp: parseArgConstraintRuleSet_def parseArgConstraintRuleList_def
      split: option.splits if_splits dest: parse_rule_items_op)

lemma last_sep_inj: "a @ c # b = a' @ c # b' \<Longrightarrow> c \<notin> set b \<Longrightarrow> c \<notin> set b' \<Longrightarrow> a = a' \<and> b = b'"
  by (auto simp: append_eq_append_conv2 Cons_eq_append_conv append_eq_Cons_conv)

lemma group_key_eq:
  "CHR 0x00 \<notin> set (ac_Op r) \<Longrightarrow> CHR 0x00 \<notin> set (ac_Op r') \<Longrightarrow>
   group_key r = group_key r' \<longleftrightarrow> ac_Path r = ac_Path r' \<and> ac_Op r = ac_Op r'"
  using last_sep_inj [of "ac_Path r" "CHR 0x00" "ac_Op r" "ac_Path r'" "ac_Op r'"] by (auto simp: group_key_def)

text \<open>What the policy asks for: every deny rule is valid and does not match, and of the allow rules for the
  same pointer and operator one matches, those before it being valid.\<close>

definition constraints_hold :: "regexps \<Rightarrow> arg_rule_set \<Rightarrow> any \<Rightarrow> bool" where
  "constraints_hold rx rs args =
     ((\<forall>r\<in>set (ac_Deny rs). matchArgConstraintRule rx r args = Some False) \<and>
      (\<forall>r\<in>set (ac_Allow rs). \<exists>before r' after.
         filter (\<lambda>x. ac_Path x = ac_Path r \<and> ac_Op x = ac_Op r) (ac_Allow rs) = before @ r' # after \<and>
         matchArgConstraintRule rx r' args = Some True \<and> (\<forall>x\<in>set before. matchArgConstraintRule rx x args = Some False)))"

lemma split_first_Cons:
  "(\<exists>before r after. x # xs = before @ r # after \<and> Q r \<and> (\<forall>y\<in>set before. R y)) \<longleftrightarrow>
   Q x \<or> R x \<and> (\<exists>before r after. xs = before @ r # after \<and> Q r \<and> (\<forall>y\<in>set before. R y))" (is "?l \<longleftrightarrow> ?r")
proof
  assume ?l
  then obtain before r after where s: "x # xs = before @ r # after" "Q r" "\<forall>y\<in>set before. R y" by blast
  then show ?r by (cases before) auto
next
  assume ?r
  then consider "Q x" | before r after where "R x" "xs = before @ r # after" "Q r" "\<forall>y\<in>set before. R y" by blast
  then show ?l
  proof cases
    case 1
    then show ?thesis by (intro exI [of _ "[]"] exI [of _ x] exI [of _ xs]) simp
  next
    case 2
    then show ?thesis by (intro exI [of _ "x # before"] exI [of _ r] exI [of _ after]) simp
  qed
qed

lemma group_matches_True:
  "group_matches rx args rules = Inr True \<longleftrightarrow>
   (\<exists>before r after. rules = before @ r # after \<and> matchArgConstraintRule rx r args = Some True \<and>
      (\<forall>x\<in>set before. matchArgConstraintRule rx x args = Some False))"
proof (induction rules)
  case (Cons rule rules)
  then show ?case unfolding split_first_Cons by (simp split: option.split bool.split)
qed simp

lemma groups_hold:
  assumes "\<forall>r\<in>set rules. CHR 0x00 \<notin> set (ac_Op r)"
  shows "(\<forall>g\<in>set (groupAllowConstraintRules rules). P g) \<longleftrightarrow>
    (\<forall>r\<in>set rules. P (filter (\<lambda>x. ac_Path x = ac_Path r \<and> ac_Op x = ac_Op r) rules))"
proof -
  have "filter (\<lambda>x. group_key x = group_key r) rules = filter (\<lambda>x. ac_Path x = ac_Path r \<and> ac_Op x = ac_Op r) rules"
    if "r \<in> set rules" for r
    using group_key_eq assms that by (intro filter_cong refl) blast
  then show ?thesis by (simp add: set_groups)
qed

lemma enforce_None:
  "enforceArgumentConstraints rx True constraints arguments = None \<longleftrightarrow>
    (\<exists>rs. parseArgConstraintRuleSet constraints = Some rs \<and>
      deny_loop rx arguments (ac_Deny rs) = Inr [] \<and>
      allow_loop rx arguments (groupAllowConstraintRules (ac_Allow rs)) = Inr [])"
  by (auto simp: enforceArgumentConstraints_def groupAllowConstraintRules_def split: option.splits sum.splits list.splits)

text \<open>C11: argument constraints are enforced as written. A call passes exactly when the feature is off, or
  the rule set is readable, no deny rule matches or is invalid, and for every allow rule some rule with
  the same pointer and operator matches and no invalid rule stands before it among them.\<close>

theorem constraints_enforced:
  "enforceArgumentConstraints rx enabled constraints arguments = None \<longleftrightarrow>
   (enabled \<longrightarrow> (\<exists>rs. parseArgConstraintRuleSet constraints = Some rs \<and> constraints_hold rx rs arguments))"
proof (cases enabled)
  case True
  have "(\<forall>g\<in>set (groupAllowConstraintRules (ac_Allow rs)). group_matches rx arguments g = Inr True) \<and>
      (\<forall>r\<in>set (ac_Deny rs). matchArgConstraintRule rx r arguments = Some False) \<longleftrightarrow> constraints_hold rx rs arguments"
    if "parseArgConstraintRuleSet constraints = Some rs" for rs
    using groups_hold [of "ac_Allow rs"] parse_rule_set_op [OF that] by (auto simp: constraints_hold_def group_matches_True)
  with True show ?thesis by (auto simp: enforce_None deny_loop_Nil allow_loop_Nil)
qed (simp add: enforceArgumentConstraints_def)

subsection \<open>Numbers never match\<close>

text \<open>Values of a decoded request body hold no \<open>json.Number\<close> and no Go integer.\<close>

fun body_value :: "any \<Rightarrow> bool" where
  "body_value (List_v xs) = list_all body_value xs"
| "body_value (Map_v m) = list_all body_value (map snd m)"
| "body_value (Number_v n) = False"
| "body_value (Int_v i) = False"
| "body_value _ = True"

lemma body_step: "body_value v \<Longrightarrow> pointer_step v s = Some w \<Longrightarrow> body_value w"
  by (cases v) (auto simp: pointer_step_def getMapValue_def toStringAnyMap_def toAnySlice_def list_all_iff
      split: option.splits if_splits dest!: map_of_SomeD)

lemma body_walk: "body_value v \<Longrightarrow> pointer_walk v ts = Some w \<Longrightarrow> body_value w"
  by (induction ts arbitrary: v) (auto split: option.splits dest: body_step)

lemma body_resolve: "body_value v \<Longrightarrow> resolveArgConstraintPath v p = Some w \<Longrightarrow> body_value w"
  by (auto simp: resolveArgConstraintPath_def split: if_splits dest: body_walk)

lemma body_not_number: "body_value v \<Longrightarrow> \<not> deep_equal v (Number_v n)"
  by (cases v) auto

text \<open>A number in a policy's constraint never equals a number of the request: the policy
  engine hands numbers over as number literals and the body decoder as floats, so an
  equality, membership or containment rule over numbers does not match any request body, and
  such a deny rule never fires.\<close>

theorem numeric_rules_never_match:
  assumes "body_value arguments"
    and "(ac_Op rule \<in> {''eq'', ''contains''} \<and> ac_Value rule = Number_v n \<and>
       (\<forall>text. resolveArgConstraintPath arguments (ac_Path rule) \<noteq> Some (Str_v text))) \<or>
      (ac_Op rule = ''in'' \<and> ac_Value rule = List_v (map Number_v ns))"
  shows "matchArgConstraintRule rx rule arguments = Some False"
proof (cases "resolveArgConstraintPath arguments (ac_Path rule)")
  case (Some actual)
  then have b: "body_value actual" using body_resolve assms(1) by blast
  have s: "as_string actual = Some t \<Longrightarrow> actual = Str_v t" for t by (cases actual) auto
  have l: "as_list actual = Some vs \<Longrightarrow> v \<in> set vs \<Longrightarrow> body_value v" for vs v
    using b by (cases actual) (auto simp: list_all_iff)
  show ?thesis
    using assms(2) Some b body_not_number s l
    by (auto simp: matchArgConstraintRule_def toAnySlice_def list_ex_iff split: option.splits)
qed (simp add: matchArgConstraintRule_def)

subsection \<open>Concrete rules\<close>

definition sample_constraints :: gomap where
  "sample_constraints = [(''args'', Map_v [
     (''allow'', List_v [Map_v [(''path'', Str_v ''/region''), (''op'', Str_v ''eq''), (''value'', Str_v ''eu'')],
                        Map_v [(''path'', Str_v ''/region''), (''op'', Str_v ''eq''), (''value'', Str_v ''us'')]]),
     (''deny'', List_v [Map_v [(''path'', Str_v ''/user/0''), (''op'', Str_v ''prefix''), (''value'', Str_v ''root'')]])])]"

definition sample_arguments :: any where
  "sample_arguments = Map_v [(''region'', Str_v ''us''), (''user'', List_v [Str_v ''ann'']), (''limit'', Float_v 5)]"

theorem constraints_enforced_witness:
  "\<exists>rs. parseArgConstraintRuleSet sample_constraints = Some rs \<and> constraints_hold (\<lambda>_. None) rs sample_arguments"
proof -
  have "enforceArgumentConstraints (\<lambda>_. None) True sample_constraints sample_arguments = None" by code_simp
  then show ?thesis using constraints_enforced by blast
qed

theorem numeric_rules_never_match_witness:
  "matchArgConstraintRule (\<lambda>_. None) \<lparr>ac_ID = [], ac_Path = ''/limit'', ac_Op = ''eq'', ac_Value = Number_v ''5'', ac_Message = []\<rparr>
     sample_arguments = Some False \<and> resolveArgConstraintPath sample_arguments ''/limit'' = Some (Float_v 5)"
proof
  show r: "resolveArgConstraintPath sample_arguments ''/limit'' = Some (Float_v 5)" by code_simp
  show "matchArgConstraintRule (\<lambda>_. None) \<lparr>ac_ID = [], ac_Path = ''/limit'', ac_Op = ''eq'', ac_Value = Number_v ''5'', ac_Message = []\<rparr>
     sample_arguments = Some False"
    by (rule numeric_rules_never_match [of _ _ "''5''" "[]"]) (simp_all add: r, simp add: sample_arguments_def)
qed

end
