(* ===== verification/License.thy ===== *)
theory License
  imports Models Metering
begin

text \<open>
  \<open>src/internal/license\<close> (\<open>entitlements.go\<close>, \<open>validator.go\<close>, \<open>watcher.go\<close>)
  and its use by the gateway (\<open>license_check.go\<close>, \<open>usage_quota.go\<close>,
  \<open>store_usage.go\<close>): tiers and entitlements, the validation of a license key, the
  watcher of the key file and the monthly action quota. The JWT library is a parameter: it
  verifies signature and expiry (with the acceptable skew) of the key at the current time
  and hands over the claims, or an error message.
\<close>

subsection \<open>Entitlements\<close>

record entitlements =
  en_Tier :: string
  en_MaxTenants :: int
  en_MaxAgentsPerTenant :: int
  en_MaxActiveKeys :: int
  en_MonthlyActionLimit :: int
  en_AuditRetentionDays :: int
  en_ApprovalWorkflows :: bool
  en_EvidenceExport :: bool
  en_Integrations :: bool
  en_CustomPolicies :: bool

record license_info =
  li_Valid :: bool
  li_Tier :: string
  li_KeyVersion :: int
  li_Licensee :: string
  li_Email :: string
  li_IssuedAt :: "time option"
  li_ExpiresAt :: "time option"
  li_TrialExpiresAt :: "time option"
  li_Entitlements :: entitlements

definition Unlimited :: int where "Unlimited = - 1"

definition FreeTierDefaults :: entitlements where
  "FreeTierDefaults = \<lparr>en_Tier = ''free'', en_MaxTenants = 1, en_MaxAgentsPerTenant = 1, en_MaxActiveKeys = 1,
     en_MonthlyActionLimit = 10000, en_AuditRetentionDays = 7, en_ApprovalWorkflows = False,
     en_EvidenceExport = False, en_Integrations = False, en_CustomPolicies = True\<rparr>"

definition PaidTierDefaults :: entitlements where
  "PaidTierDefaults = \<lparr>en_Tier = ''paid'', en_MaxTenants = Unlimited, en_MaxAgentsPerTenant = Unlimited,
     en_MaxActiveKeys = Unlimited, en_MonthlyActionLimit = Unlimited, en_AuditRetentionDays = Unlimited,
     en_ApprovalWorkflows = True, en_EvidenceExport = True, en_Integrations = True, en_CustomPolicies = True\<rparr>"

definition TrialTierDefaults :: entitlements where
  "TrialTierDefaults = \<lparr>en_Tier = ''trial'', en_MaxTenants = Unlimited, en_MaxAgentsPerTenant = Unlimited,
     en_MaxActiveKeys = Unlimited, en_MonthlyActionLimit = Unlimited, en_AuditRetentionDays = Unlimited,
     en_ApprovalWorkflows = True, en_EvidenceExport = True, en_Integrations = True, en_CustomPolicies = True\<rparr>"

definition DefaultsForTier :: "string \<Rightarrow> entitlements" where
  "DefaultsForTier tier = (if tier = ''paid'' then PaidTierDefaults
     else if tier = ''trial'' then TrialTierDefaults else FreeTierDefaults)"

definition HasFeature :: "entitlements \<Rightarrow> string \<Rightarrow> bool" where
  "HasFeature e feature =
     (if feature = ''approval_workflows'' then en_ApprovalWorkflows e
      else if feature = ''evidence_export'' then en_EvidenceExport e
      else if feature = ''integrations'' then en_Integrations e
      else if feature = ''custom_policies'' then en_CustomPolicies e else False)"

definition IsUnlimited :: "int \<Rightarrow> bool" where "IsUnlimited v = (v = Unlimited)"

definition IsUnlimited64 :: "int \<Rightarrow> bool" where "IsUnlimited64 v = (v = Unlimited)"

definition non_zero :: "int \<Rightarrow> int \<Rightarrow> int" where "non_zero claim d = (if claim \<noteq> 0 then claim else d)"

definition MergeOverDefaults :: "string \<Rightarrow> entitlements option \<Rightarrow> entitlements" where
  "MergeOverDefaults tier claims =
     (let d = DefaultsForTier tier in
      case claims of None \<Rightarrow> d
      | Some c \<Rightarrow> \<lparr>en_Tier = tier, en_MaxTenants = non_zero (en_MaxTenants c) (en_MaxTenants d),
          en_MaxAgentsPerTenant = non_zero (en_MaxAgentsPerTenant c) (en_MaxAgentsPerTenant d),
          en_MaxActiveKeys = non_zero (en_MaxActiveKeys c) (en_MaxActiveKeys d),
          en_MonthlyActionLimit = non_zero (en_MonthlyActionLimit c) (en_MonthlyActionLimit d),
          en_AuditRetentionDays = non_zero (en_AuditRetentionDays c) (en_AuditRetentionDays d),
          en_ApprovalWorkflows = (en_ApprovalWorkflows d \<or> en_ApprovalWorkflows c),
          en_EvidenceExport = (en_EvidenceExport d \<or> en_EvidenceExport c),
          en_Integrations = (en_Integrations d \<or> en_Integrations c),
          en_CustomPolicies = (en_CustomPolicies d \<or> en_CustomPolicies c)\<rparr>)"

definition IsTrialActive :: "license_info \<Rightarrow> time \<Rightarrow> bool" where
  "IsTrialActive info now =
     (if li_Tier info \<noteq> ''free'' then False
      else case li_TrialExpiresAt info of None \<Rightarrow> False | Some t \<Rightarrow> now < t)"

definition TrialDaysRemaining :: "license_info \<Rightarrow> time \<Rightarrow> int" where
  "TrialDaysRemaining info now =
     (if \<not> IsTrialActive info now then 0
      else case li_TrialExpiresAt info of None \<Rightarrow> 0
           | Some t \<Rightarrow> max 0 ((t - now) div (86400 * 1000000000)))"

definition HasFeatureAccess :: "license_info \<Rightarrow> string \<Rightarrow> time \<Rightarrow> bool" where
  "HasFeatureAccess info feature now =
     (if li_Tier info = ''paid'' then HasFeature (li_Entitlements info) feature
      else if IsTrialActive info now then True
      else HasFeature (li_Entitlements info) feature)"

subsection \<open>Validation of a key\<close>

datatype license_error =
    ErrNoLicenseKey | ErrReadFile | ErrInvalidSignature | ErrLicenseExpired | ErrInvalidIssuer
  | ErrMalformedLicense | ErrKeyVersionTooOld | ErrKeyVersionTooNew | ErrMissingLicensee

text \<open>The claims of a verified token. A claim that is absent or of another type is \<open>None\<close>;
  for the two structured claims the inner option is the JSON decoding.\<close>

record jwt_token =
  tk_Issuer :: "string option"
  tk_Expiration :: "time option"
  tk_IssuedAt :: "time option"
  tk_Subject :: "string option"
  tk_KeyVersion :: "int option"
  tk_Tier :: "string option"
  tk_Entitlements :: "entitlements option option"
  tk_Licensee :: "(string \<times> string) option option"

type_synonym jwt_parser = "string \<Rightarrow> time \<Rightarrow> string + jwt_token"

record license_claims =
  lc_KeyVersion :: int
  lc_Tier :: string
  lc_Entitlements :: "entitlements option"
  lc_Licensee :: "(string \<times> string) option"

definition buildInfo :: "jwt_token \<Rightarrow> license_claims \<Rightarrow> license_error + license_info" where
  "buildInfo tok claims =
     (if lc_KeyVersion claims < 1 then Inl ErrKeyVersionTooOld
      else if lc_KeyVersion claims > 1 then Inl ErrKeyVersionTooNew
      else if lc_Tier claims \<noteq> ''free'' \<and> lc_Tier claims \<noteq> ''paid'' \<and> lc_Tier claims \<noteq> ''trial'' then Inl ErrMalformedLicense
      else case tk_Expiration tok of None \<Rightarrow> Inl ErrMalformedLicense
      | Some exp_at \<Rightarrow>
          (case lc_Licensee claims of None \<Rightarrow> Inl ErrMissingLicensee
           | Some (name, email) \<Rightarrow>
               if name = [] then Inl ErrMissingLicensee
               else Inr \<lparr>li_Valid = True, li_Tier = lc_Tier claims, li_KeyVersion = lc_KeyVersion claims,
                         li_Licensee = name, li_Email = email, li_IssuedAt = tk_IssuedAt tok,
                         li_ExpiresAt = Some exp_at, li_TrialExpiresAt = None,
                         li_Entitlements = MergeOverDefaults (lc_Tier claims) (lc_Entitlements claims)\<rparr>))"

definition validateFlatClaims :: "jwt_token \<Rightarrow> license_error + license_info" where
  "validateFlatClaims tok =
     (if tk_Entitlements tok = Some None then Inl ErrMalformedLicense
      else if tk_Licensee tok = Some None then Inl ErrMalformedLicense
      else buildInfo tok
        \<lparr>lc_KeyVersion = (case tk_KeyVersion tok of None \<Rightarrow> 0 | Some v \<Rightarrow> v),
         lc_Tier = (case tk_Tier tok of None \<Rightarrow> [] | Some t \<Rightarrow> t),
         lc_Entitlements = (case tk_Entitlements tok of None \<Rightarrow> None | Some e \<Rightarrow> e),
         lc_Licensee = (case tk_Licensee tok of None \<Rightarrow> None | Some l \<Rightarrow> l)\<rparr>)"

definition ValidateBytes :: "jwt_parser \<Rightarrow> string \<Rightarrow> time \<Rightarrow> license_error + license_info" where
  "ValidateBytes parse_jwt data now =
     (case parse_jwt data now of
        Inl msg \<Rightarrow> if Contains msg ''exp'' \<or> Contains msg ''token is expired'' \<or> Contains msg ''nbf''
                   then Inl ErrLicenseExpired else Inl ErrInvalidSignature
      | Inr tok \<Rightarrow> if tk_Issuer tok \<noteq> Some ''rbitr'' then Inl ErrInvalidIssuer else validateFlatClaims tok)"

text \<open>The key file as \<open>os.Stat\<close> and \<open>os.ReadFile\<close> see it.\<close>

datatype key_file = Missing | Unreadable | Present time int string

definition validateFile :: "jwt_parser \<Rightarrow> key_file \<Rightarrow> time \<Rightarrow> license_error + license_info" where
  "validateFile parse_jwt f now =
     (case f of Missing \<Rightarrow> Inl ErrNoLicenseKey | Unreadable \<Rightarrow> Inl ErrReadFile
      | Present _ _ data \<Rightarrow> ValidateBytes parse_jwt data now)"

definition free_info :: license_info where
  "free_info = \<lparr>li_Valid = False, li_Tier = ''free'', li_KeyVersion = 0, li_Licensee = [], li_Email = [],
     li_IssuedAt = None, li_ExpiresAt = None, li_TrialExpiresAt = None, li_Entitlements = FreeTierDefaults\<rparr>"

definition LoadAndValidate :: "jwt_parser \<Rightarrow> key_file \<Rightarrow> time \<Rightarrow> license_info" where
  "LoadAndValidate parse_jwt f now = (case validateFile parse_jwt f now of Inl _ \<Rightarrow> free_info | Inr info \<Rightarrow> info)"

subsection \<open>Watcher\<close>

record watcher =
  wt_info :: license_info
  wt_lastModTime :: "time option"
  wt_lastSize :: int

definition snapshot :: "key_file \<Rightarrow> watcher \<Rightarrow> watcher" where
  "snapshot f w = (case f of Present mtime sz _ \<Rightarrow> w\<lparr>wt_lastModTime := Some mtime, wt_lastSize := sz\<rparr> | _ \<Rightarrow> w)"

definition check :: "jwt_parser \<Rightarrow> key_file \<Rightarrow> time \<Rightarrow> watcher \<Rightarrow> watcher" where
  "check parse_jwt f now w =
     (case f of
        Missing \<Rightarrow> if wt_lastModTime w \<noteq> None
          then w\<lparr>wt_info := LoadAndValidate parse_jwt f now, wt_lastModTime := None, wt_lastSize := 0\<rparr> else w
      | Unreadable \<Rightarrow> w
      | Present mtime sz _ \<Rightarrow>
          if Some mtime \<noteq> wt_lastModTime w \<or> sz \<noteq> wt_lastSize w
          then w\<lparr>wt_info := LoadAndValidate parse_jwt f now, wt_lastModTime := Some mtime, wt_lastSize := sz\<rparr>
          else w)"

subsection \<open>Use by the gateway\<close>

definition checkFeatureAccess :: "entitlements option \<Rightarrow> string \<Rightarrow> string" where
  "checkFeatureAccess provider feature =
     (case provider of None \<Rightarrow> []
      | Some ent \<Rightarrow>
          if HasFeature ent feature then []
          else if en_Tier ent = ''trial''
          then ''Your trial license has expired. Upload a paid license key to continue using premium features.''
          else ''This feature is not available on the free tier. Upload a trial or paid license key to unlock.'')"

type_synonym meters = "string \<times> string \<rightharpoonup> int"

definition IncrementUsageMeter :: "string \<Rightarrow> string \<Rightarrow> meters \<Rightarrow> int \<times> meters" where
  "IncrementUsageMeter tenantID period db =
     (let c = (case db (tenantID, period) of None \<Rightarrow> 1 | Some n \<Rightarrow> n + 1) in (c, db((tenantID, period) \<mapsto> c)))"

definition GetUsageMeter :: "string \<Rightarrow> string \<Rightarrow> meters \<Rightarrow> int" where
  "GetUsageMeter tenantID period db = (case db (tenantID, period) of None \<Rightarrow> 0 | Some n \<Rightarrow> n)"

record quota_violation =
  qv_Limit :: int
  qv_Used :: int
  qv_Period :: string

definition enforceUsageQuota ::
  "entitlements option \<Rightarrow> store_error option \<Rightarrow> string \<Rightarrow> string \<Rightarrow> meters
   \<Rightarrow> (store_error + quota_violation option) \<times> meters" where
  "enforceUsageQuota provider fault tenantID period db =
     (case provider of None \<Rightarrow> (Inr None, db)
      | Some ent \<Rightarrow>
          if IsUnlimited64 (en_MonthlyActionLimit ent) then (Inr None, db)
          else case fault of Some e \<Rightarrow> (Inl e, db)
          | None \<Rightarrow> (case IncrementUsageMeter tenantID period db of (count, db') \<Rightarrow>
              if count > en_MonthlyActionLimit ent
              then (Inr (Some \<lparr>qv_Limit = en_MonthlyActionLimit ent, qv_Used = count, qv_Period = period\<rparr>), db')
              else (Inr None, db')))"

subsection \<open>Nothing is granted without a key\<close>

definition key_accepted :: "jwt_parser \<Rightarrow> key_file \<Rightarrow> time \<Rightarrow> license_info \<Rightarrow> bool" where
  "key_accepted parse_jwt f now info =
     (\<exists>mtime sz data tok. f = Present mtime sz data \<and> parse_jwt data now = Inr tok \<and> tk_Issuer tok = Some ''rbitr'' \<and>
        tk_KeyVersion tok = Some 1 \<and> tk_Tier tok = Some (li_Tier info) \<and> li_Tier info \<in> {''free'', ''paid'', ''trial''} \<and>
        tk_Expiration tok = li_ExpiresAt info \<and> li_ExpiresAt info \<noteq> None \<and> li_Licensee info \<noteq> [] \<and>
        li_Entitlements info = MergeOverDefaults (li_Tier info) (case tk_Entitlements tok of None \<Rightarrow> None | Some e \<Rightarrow> e))"

lemma buildInfo_Inr:
  assumes "buildInfo tok c = Inr info"
  shows "lc_KeyVersion c = 1 \<and> li_Tier info = lc_Tier c \<and> lc_Tier c \<in> {''free'', ''paid'', ''trial''} \<and>
    tk_Expiration tok = li_ExpiresAt info \<and> li_ExpiresAt info \<noteq> None \<and> li_Licensee info \<noteq> [] \<and>
    li_Entitlements info = MergeOverDefaults (lc_Tier c) (lc_Entitlements c)"
  using assms by (auto simp: buildInfo_def split: if_splits option.splits)

lemma load_cases: "LoadAndValidate parse_jwt f now = free_info \<or> key_accepted parse_jwt f now (LoadAndValidate parse_jwt f now)"
proof (cases "validateFile parse_jwt f now")
  case (Inr info)
  then obtain mtime sz data where f: "f = Present mtime sz data" and v: "ValidateBytes parse_jwt data now = Inr info"
    by (auto simp: validateFile_def split: key_file.splits)
  then obtain tok where tok: "parse_jwt data now = Inr tok" "tk_Issuer tok = Some ''rbitr''" "validateFlatClaims tok = Inr info"
    by (auto simp: ValidateBytes_def split: sum.splits if_splits)
  let ?c = "\<lparr>lc_KeyVersion = (case tk_KeyVersion tok of None \<Rightarrow> 0 | Some v \<Rightarrow> v),
         lc_Tier = (case tk_Tier tok of None \<Rightarrow> [] | Some t \<Rightarrow> t),
         lc_Entitlements = (case tk_Entitlements tok of None \<Rightarrow> None | Some e \<Rightarrow> e),
         lc_Licensee = (case tk_Licensee tok of None \<Rightarrow> None | Some l \<Rightarrow> l)\<rparr>"
  have "buildInfo tok ?c = Inr info" using tok(3) by (auto simp: validateFlatClaims_def split: if_splits)
  note b = buildInfo_Inr [OF this]
  have "tk_KeyVersion tok = Some 1" using b by (cases "tk_KeyVersion tok") auto
  moreover have "tk_Tier tok = Some (li_Tier info)" using b by (cases "tk_Tier tok") auto
  ultimately have "key_accepted parse_jwt f now info" using f tok b by (auto simp: key_accepted_def)
  then show ?thesis using Inr by (simp add: LoadAndValidate_def)
qed (simp add: LoadAndValidate_def)

text \<open>A signed key never takes a feature away from its tier: merging a key's claims over the
  defaults keeps every feature of the tier, and a key without entitlements gives exactly the
  tier's defaults.\<close>

theorem merge_keeps_tier_features:
  "(HasFeature (DefaultsForTier tier) feature \<longrightarrow> HasFeature (MergeOverDefaults tier claims) feature) \<and>
   MergeOverDefaults tier None = DefaultsForTier tier \<and>
   (en_MonthlyActionLimit (MergeOverDefaults tier (Some c)) =
      (if en_MonthlyActionLimit c = 0 then en_MonthlyActionLimit (DefaultsForTier tier) else en_MonthlyActionLimit c))"
  by (auto simp: MergeOverDefaults_def HasFeature_def Let_def non_zero_def split: option.splits)

subsection \<open>The watcher\<close>

text \<open>A license is only looked at again when its file changes: as long as the file keeps its
  modification time and size, no check of the watcher, at any later time and thus also after
  the key's expiry, changes the entitlements in force.\<close>

theorem expiry_not_rechecked:
  assumes "wt_lastModTime w = Some mtime" and "wt_lastSize w = sz"
  shows "fold (\<lambda>now. check parse_jwt (Present mtime sz data) now) instants w = w"
  using assms by (induction instants) (simp_all add: check_def)

text \<open>A changed or removed key file takes effect at the next check: afterwards the entitlements
  are those of the file as it is at that time, and without a file they are the free tier's.\<close>

theorem watcher_follows_file:
  assumes "wt_lastModTime w = Some old" and "f \<noteq> Unreadable"
    and "\<forall>sz data. f = Present old sz data \<longrightarrow> sz \<noteq> wt_lastSize w"
  shows "wt_info (check parse_jwt f now w) = LoadAndValidate parse_jwt f now \<and>
    (f = Missing \<longrightarrow> li_Entitlements (wt_info (check parse_jwt f now w)) = FreeTierDefaults)"
  using assms by (auto simp: check_def LoadAndValidate_def validateFile_def free_info_def split: key_file.splits)

subsection \<open>The monthly quota\<close>

record quota_request =
  qr_provider :: "entitlements option"
  qr_fault :: "store_error option"
  qr_tenantID :: string
  qr_period :: string

definition quota_step :: "quota_request \<Rightarrow> meters \<Rightarrow> bool \<times> meters" where
  "quota_step q db = (case enforceUsageQuota (qr_provider q) (qr_fault q) (qr_tenantID q) (qr_period q) db of
     (r, db') \<Rightarrow> (r = Inr None, db'))"

definition metered_for :: "string \<Rightarrow> string \<Rightarrow> int \<Rightarrow> quota_request \<Rightarrow> bool" where
  "metered_for t p L q = (qr_tenantID q = t \<and> qr_period q = p \<and>
     (case qr_provider q of None \<Rightarrow> False
      | Some ent \<Rightarrow> \<not> IsUnlimited64 (en_MonthlyActionLimit ent) \<and> en_MonthlyActionLimit ent \<le> L))"

interpretation quota: metered quota_step "GetUsageMeter t p" "metered_for t p L" L for t p L
proof
  fix q db db' ok
  show "GetUsageMeter t p db' = GetUsageMeter t p db + 1 \<and> GetUsageMeter t p db' \<le> L"
    if "quota_step q db = (True, db')" "metered_for t p L q"
    using that by (auto simp: quota_step_def metered_for_def enforceUsageQuota_def IncrementUsageMeter_def GetUsageMeter_def
        Let_def split: option.splits prod.splits if_splits)
  show "GetUsageMeter t p db \<le> GetUsageMeter t p db'" if "quota_step q db = (ok, db')"
    using that by (auto simp: quota_step_def enforceUsageQuota_def IncrementUsageMeter_def GetUsageMeter_def
        Let_def split: option.splits prod.splits if_splits)
qed

text \<open>The monthly quota holds: in every sequence of requests of any tenants, licenses and
  months, with any driver failures, the number of requests let through for one tenant in one
  month under a limit of at most \<open>L\<close> is at most \<open>L\<close> less what the meter showed at the start.\<close>

theorem quota_bounds_requests:
  "int (permits quota_step (metered_for tenantID period L) requests db) \<le> max 0 (L - GetUsageMeter tenantID period db)"
  by (rule quota.permits_bounded)

subsection \<open>Concrete licenses\<close>

definition sample_token :: jwt_token where
  "sample_token = \<lparr>tk_Issuer = Some ''rbitr'', tk_Expiration = Some 50, tk_IssuedAt = Some 0, tk_Subject = Some ''acme'',
     tk_KeyVersion = Some 1, tk_Tier = Some ''paid'', tk_Entitlements = None, tk_Licensee = Some (Some (''Acme'', ''a@acme''))\<rparr>"

definition sample_parser :: jwt_parser where
  "sample_parser data now = (if data = ''key'' \<and> now \<le> 50 then Inr sample_token else Inl ''bad signature'')"

definition sample_watcher :: watcher where
  "sample_watcher = snapshot (Present 7 3 ''key'')
     \<lparr>wt_info = LoadAndValidate sample_parser (Present 7 3 ''key'') 1, wt_lastModTime = None, wt_lastSize = 0\<rparr>"

theorem merge_keeps_tier_features_witness:
  "HasFeature (MergeOverDefaults ''paid'' (Some FreeTierDefaults)) ''integrations''"
proof -
  have "HasFeature (DefaultsForTier ''paid'') ''integrations''" by code_simp
  then show ?thesis using merge_keeps_tier_features by blast
qed

theorem expiry_not_rechecked_witness:
  "en_Tier (li_Entitlements (wt_info (fold (\<lambda>now. check sample_parser (Present 7 3 ''key'') now) [100, 200] sample_watcher))) = ''paid'' \<and>
   li_Entitlements (LoadAndValidate sample_parser (Present 7 3 ''key'') 200) = FreeTierDefaults"
proof
  have "wt_lastModTime sample_watcher = Some 7" "wt_lastSize sample_watcher = 3" by code_simp+
  from expiry_not_rechecked [OF this]
  have "fold (\<lambda>now. check sample_parser (Present 7 3 ''key'') now) [100, 200] sample_watcher = sample_watcher" .
  moreover have "en_Tier (li_Entitlements (wt_info sample_watcher)) = ''paid''" by code_simp
  ultimately show "en_Tier (li_Entitlements (wt_info (fold (\<lambda>now. check sample_parser (Present 7 3 ''key'') now) [100, 200] sample_watcher))) = ''paid''"
    by simp
qed code_simp

theorem watcher_follows_file_witness:
  "li_Entitlements (wt_info (check sample_parser Missing 2 sample_watcher)) = FreeTierDefaults"
proof -
  have "wt_lastModTime sample_watcher = Some 7" by code_simp
  with watcher_follows_file [of sample_watcher 7 Missing sample_parser 2] show ?thesis by blast
qed

end
