(* ===== verification/Signed_Token.thy ===== *)
theory Signed_Token
  imports Go_Json Go_Base64
begin

text \<open>
  The token format that sessions and provenance chains share (\<open>signClaims\<close> and
  \<open>verifyClaims\<close> of \<open>src/internal/auth/session.go\<close> and \<open>provenance.go\<close>, which are
  the same code over two structs): the base64 text of the claims' JSON, a dot, and the base64
  text of its HMAC. The HMAC is the parameter \<open>mac\<close>. The locale \<open>claims_codec\<close> is what
  the format relies on of a claims type; its interpretations are in \<open>Sessions\<close>.
\<close>

type_synonym mac = "string \<Rightarrow> string \<Rightarrow> string"

definition sign_payload :: "mac \<Rightarrow> string \<Rightarrow> string \<Rightarrow> string" where
  "sign_payload mac key payload =
     (let encodedPayload = EncodeToString payload
      in encodedPayload @ ''.'' @ EncodeToString (mac key encodedPayload))"

definition open_token :: "mac \<Rightarrow> string \<Rightarrow> string \<Rightarrow> string option" where
  "open_token mac key token =
     (case Cut token (CHR ''.'') of
        None \<Rightarrow> None
      | Some (encodedPayload, encodedSig) \<Rightarrow>
          (case DecodeString encodedSig of
             None \<Rightarrow> None
           | Some providedSig \<Rightarrow>
               if mac key encodedPayload \<noteq> providedSig then None else DecodeString encodedPayload))"

text \<open>What a verified token shows of its signer: the idealisation of an unforgeable MAC, for
  one token. Whoever presents a token with a correct MAC presents a payload that the holder of
  the key has signed.\<close>

definition unforged :: "mac \<Rightarrow> string \<Rightarrow> string set \<Rightarrow> string \<Rightarrow> bool" where
  "unforged mac key signed token =
     (case Cut token (CHR ''.'') of
        None \<Rightarrow> True
      | Some (encodedPayload, encodedSig) \<Rightarrow>
          DecodeString encodedSig = Some (mac key encodedPayload) \<longrightarrow>
          encodedPayload \<in> EncodeToString ` signed)"

lemma Cut_first: "c \<notin> set xs \<Longrightarrow> Cut (xs @ c # ys) c = Some (xs, ys)"
  by (induction xs) auto

lemma open_sign [simp]: "open_token mac key (sign_payload mac key payload) = Some payload"
proof -
  have "CHR ''.'' \<notin> set (EncodeToString payload)" using EncodeToString_plain by blast
  from Cut_first [OF this] show ?thesis by (simp add: open_token_def sign_payload_def Let_def)
qed

lemma open_unforged:
  assumes "open_token mac key token = Some payload" and "unforged mac key signed token"
  shows "payload \<in> signed"
  using assms by (auto simp: open_token_def unforged_def split: option.splits if_splits)

locale claims_codec =
  fixes enc :: "'c \<Rightarrow> string" and dec :: "string \<Rightarrow> 'c option" and ok :: "'c \<Rightarrow> bool"
  assumes dec_enc: "ok c \<Longrightarrow> dec (enc c) = Some c"
begin

lemma verify_sign: "ok c \<Longrightarrow> Option.bind (open_token mac key (sign_payload mac key (enc c))) dec = Some c"
  by (simp add: dec_enc)

lemma verified_was_signed:
  assumes "Option.bind (open_token mac key token) dec = Some c"
    and "unforged mac key (enc ` C) token" and "\<forall>c\<in>C. ok c"
  shows "c \<in> C"
proof -
  obtain p where p: "open_token mac key token = Some p" "dec p = Some c"
    using assms(1) by (cases "open_token mac key token") auto
  from open_unforged [OF p(1) assms(2)] obtain c' where "c' \<in> C" "p = enc c'" by auto
  with p(2) assms(3) dec_enc show ?thesis by force
qed

end

end
