(* ===== verification/Sessions.thy ===== *)
theory Sessions
  imports Signed_Token Ttl_Cache
begin

text \<open>
  \<open>src/internal/auth/session.go\<close>: short-lived session tokens, signed and bound to tenant,
  agent and source address, with the cache of live sessions that makes them revocable.
  The random bytes of a session id and the clock are arguments; times are in nanoseconds, the
  claims count seconds.
\<close>

subsection \<open>Claims\<close>

datatype session_error =
    ErrSessionExpired | ErrSessionInvalid | ErrSessionIPMismatch | ErrSessionRevoked

record session_claims =
  sc_TenantID :: string
  sc_AgentID :: string
  sc_SessionID :: string
  sc_IssuedAt :: int
  sc_ExpiresAt :: int
  sc_SourceIP :: string

definition session_marshal :: "session_claims \<Rightarrow> string" where
  "session_marshal c = struct_text
     [(''tid'', Str_v (sc_TenantID c)), (''aid'', Str_v (sc_AgentID c)), (''sid'', Str_v (sc_SessionID c)),
      (''iat'', Int_v (sc_IssuedAt c)), (''exp'', Int_v (sc_ExpiresAt c)), (''sip'', Str_v (sc_SourceIP c))]"

definition session_fields :: "(string \<times> session_claims field) list" where
  "session_fields =
     [(''tid'', string_field sc_TenantID_update), (''aid'', string_field sc_AgentID_update),
      (''sid'', string_field sc_SessionID_update), (''iat'', int_field sc_IssuedAt_update),
      (''exp'', int_field sc_ExpiresAt_update), (''sip'', string_field sc_SourceIP_update)]"

definition zero_session_claims :: session_claims where
  "zero_session_claims =
     \<lparr>sc_TenantID = [], sc_AgentID = [], sc_SessionID = [], sc_IssuedAt = 0, sc_ExpiresAt = 0, sc_SourceIP = []\<rparr>"

definition session_unmarshal :: "string \<Rightarrow> session_claims option" where
  "session_unmarshal s = Option.bind (decode_members s) (decode_struct session_fields zero_session_claims)"

definition session_times_ok :: "session_claims \<Rightarrow> bool" where
  "session_times_ok c = (in_int64 (sc_IssuedAt c) \<and> in_int64 (sc_ExpiresAt c))"

lemma session_roundtrip: "session_times_ok c \<Longrightarrow> session_unmarshal (session_marshal c) = Some c"
  by (simp add: session_unmarshal_def session_marshal_def decode_members_struct_text session_fields_def
      field_for_def string_field_def int_field_def zero_session_claims_def session_times_ok_def)

interpretation session_codec: claims_codec session_marshal session_unmarshal session_times_ok
  by unfold_locales (rule session_roundtrip)

subsection \<open>The session manager\<close>

definition ns_per_second :: int where "ns_per_second = 1000000000"

definition Unix :: "time \<Rightarrow> int" where "Unix t = t div ns_per_second"

lemma Unix_bounds: "Unix t * ns_per_second \<le> t \<and> t < Unix t * ns_per_second + ns_per_second"
proof -
  have "0 < ns_per_second" by (simp add: ns_per_second_def)
  then show ?thesis
    using div_mult_mod_eq [of t ns_per_second] pos_mod_sign [of ns_per_second t] pos_mod_bound [of ns_per_second t]
    unfolding Unix_def by linarith
qed

text \<open>Five minutes.\<close>

definition sessionCachePadding :: int where "sessionCachePadding = 300 * ns_per_second"

record session_manager =
  sm_signingKey :: string
  sm_ttl :: int
  sm_sessions :: "session_claims ttl_cache"

definition newSessionManagerWithKey :: "string \<Rightarrow> int \<Rightarrow> session_manager" where
  "newSessionManagerWithKey key ttl =
     \<lparr>sm_signingKey = key, sm_ttl = ttl, sm_sessions = New (ttl + sessionCachePadding)\<rparr>"

definition generateSessionID :: "string \<Rightarrow> string" where
  "generateSessionID bytes = ''sess_'' @ EncodeToString bytes"

definition session_signClaims :: "mac \<Rightarrow> session_claims \<Rightarrow> session_manager \<Rightarrow> string" where
  "session_signClaims mac c sm = sign_payload mac (sm_signingKey sm) (session_marshal c)"

definition session_verifyClaims :: "mac \<Rightarrow> string \<Rightarrow> session_manager \<Rightarrow> session_error + session_claims" where
  "session_verifyClaims mac token sm =
     (case Option.bind (open_token mac (sm_signingKey sm) token) session_unmarshal of
        None \<Rightarrow> Inl ErrSessionInvalid | Some c \<Rightarrow> Inr c)"

definition new_claims :: "int \<Rightarrow> string \<Rightarrow> string \<Rightarrow> string \<Rightarrow> string \<Rightarrow> time \<Rightarrow> session_claims" where
  "new_claims ttl tenantID agentID sourceIP bytes now =
     \<lparr>sc_TenantID = tenantID, sc_AgentID = agentID, sc_SessionID = generateSessionID bytes,
      sc_IssuedAt = Unix now, sc_ExpiresAt = Unix (now + ttl), sc_SourceIP = sourceIP\<rparr>"

definition IssueToken ::
  "mac \<Rightarrow> string \<Rightarrow> string \<Rightarrow> string \<Rightarrow> string \<Rightarrow> time \<Rightarrow> session_manager \<Rightarrow> (string \<times> session_claims) \<times> session_manager" where
  "IssueToken mac tenantID agentID sourceIP bytes now sm =
     (let claims = new_claims (sm_ttl sm) tenantID agentID sourceIP bytes now
      in ((session_signClaims mac claims sm, claims),
          sm\<lparr>sm_sessions := Put (sc_SessionID claims) claims now (sm_sessions sm)\<rparr>))"

definition ValidateToken ::
  "mac \<Rightarrow> string \<Rightarrow> string \<Rightarrow> time \<Rightarrow> session_manager \<Rightarrow> (session_error + session_claims) \<times> session_manager" where
  "ValidateToken mac token sourceIP now sm =
     (case session_verifyClaims mac token sm of
        Inl e \<Rightarrow> (Inl e, sm)
      | Inr claims \<Rightarrow>
          if Unix now > sc_ExpiresAt claims then (Inl ErrSessionExpired, sm)
          else if sc_SourceIP claims \<noteq> [] \<and> sourceIP \<noteq> [] \<and> sc_SourceIP claims \<noteq> sourceIP
          then (Inl ErrSessionIPMismatch, sm)
          else (case Get (sc_SessionID claims) now (sm_sessions sm) of
                  (None, c) \<Rightarrow> (Inl ErrSessionRevoked, sm\<lparr>sm_sessions := c\<rparr>)
                | (Some _, c) \<Rightarrow> (Inr claims, sm\<lparr>sm_sessions := c\<rparr>)))"

definition RevokeSession :: "string \<Rightarrow> session_manager \<Rightarrow> session_manager" where
  "RevokeSession sessionID sm = sm\<lparr>sm_sessions := Invalidate sessionID (sm_sessions sm)\<rparr>"

definition RevokeAllForTenant :: "string \<Rightarrow> session_manager \<Rightarrow> session_manager" where
  "RevokeAllForTenant tenantID sm = sm\<lparr>sm_sessions := InvalidatePrefix (tenantID @ '':'') (sm_sessions sm)\<rparr>"

subsection \<open>Histories of a manager\<close>

datatype session_op =
    Issue string string string string time
  | Validate string string time
  | Revoke string
  | RevokeAll string

fun session_step :: "mac \<Rightarrow> session_op \<Rightarrow> session_manager \<Rightarrow> session_manager" where
  "session_step mac (Issue tenantID agentID sourceIP bytes now) sm = snd (IssueToken mac tenantID agentID sourceIP bytes now sm)"
| "session_step mac (Validate token sourceIP now) sm = snd (ValidateToken mac token sourceIP now sm)"
| "session_step mac (Revoke sessionID) sm = RevokeSession sessionID sm"
| "session_step mac (RevokeAll tenantID) sm = RevokeAllForTenant tenantID sm"

fun issued_claims :: "int \<Rightarrow> session_op \<Rightarrow> session_claims option" where
  "issued_claims ttl (Issue tenantID agentID sourceIP bytes now) = Some (new_claims ttl tenantID agentID sourceIP bytes now)"
| "issued_claims ttl _ = None"

definition live :: "session_manager \<Rightarrow> string \<Rightarrow> time \<Rightarrow> session_claims option" where
  "live sm sessionID now = peek (sm_sessions sm) sessionID now"

lemma ValidateToken_cache: "\<exists>k t. sm_sessions (snd (ValidateToken mac token ip now sm)) \<in> {sm_sessions sm, snd (Get k t (sm_sessions sm))}"
  by (auto simp: ValidateToken_def split: sum.splits prod.splits option.splits if_splits)
    (metis snd_conv)+

lemma ValidateToken_frame [frame]:
  "sm_signingKey (snd (ValidateToken mac token ip now sm)) = sm_signingKey sm"
  "sm_ttl (snd (ValidateToken mac token ip now sm)) = sm_ttl sm"
  "tc_ttl (sm_sessions (snd (ValidateToken mac token ip now sm))) = tc_ttl (sm_sessions sm)"
  using ValidateToken_cache [of mac token ip now sm]
  by (auto simp: ValidateToken_def split: sum.splits prod.splits option.splits if_splits)

lemma step_frame [frame]:
  "sm_signingKey (session_step mac op sm) = sm_signingKey sm" "sm_ttl (session_step mac op sm) = sm_ttl sm"
  "tc_ttl (sm_sessions (session_step mac op sm)) = tc_ttl (sm_sessions sm)"
  by (cases op; simp add: frame IssueToken_def Let_def RevokeSession_def RevokeAllForTenant_def Put_def
      Invalidate_def InvalidatePrefix_def)+

lemma live_step:
  "live (session_step mac op sm) sid now =
     (case op of
        Issue tenantID agentID sourceIP bytes t \<Rightarrow>
          if sid = generateSessionID bytes
          then (if now > t + tc_ttl (sm_sessions sm) then None
                else Some (new_claims (sm_ttl sm) tenantID agentID sourceIP bytes t))
          else live sm sid now
      | Validate _ _ _ \<Rightarrow> live sm sid now
      | Revoke sessionID \<Rightarrow> if sid = sessionID then None else live sm sid now
      | RevokeAll tenantID \<Rightarrow> if HasPrefix sid (tenantID @ '':'') then None else live sm sid now)"
proof (cases op)
  case (Validate token ip t)
  obtain k t' where "sm_sessions (session_step mac op sm) \<in> {sm_sessions sm, snd (Get k t' (sm_sessions sm))}"
    using ValidateToken_cache [of mac token ip t sm] Validate by auto
  with Validate show ?thesis by (auto simp: live_def tc.look_touch)
qed (simp_all add: live_def IssueToken_def Let_def RevokeSession_def RevokeAllForTenant_def tc.look_put tc.look_kill
    tc.look_kill_prefix new_claims_def)

definition session_run :: "mac \<Rightarrow> session_op list \<Rightarrow> session_manager \<Rightarrow> session_manager" where
  "session_run mac ops sm = fold (session_step mac) ops sm"

lemma run_frame [frame]:
  "sm_signingKey (session_run mac ops sm) = sm_signingKey sm" "sm_ttl (session_run mac ops sm) = sm_ttl sm"
  "tc_ttl (sm_sessions (session_run mac ops sm)) = tc_ttl (sm_sessions sm)"
  by (induction ops arbitrary: sm) (simp_all add: session_run_def frame)

lemma run_snoc: "session_run mac (ops @ [op]) sm = session_step mac op (session_run mac ops sm)"
  by (simp add: session_run_def)

lemma live_new [simp]: "live (newSessionManagerWithKey key ttl) sid now = None"
  by (simp add: live_def newSessionManagerWithKey_def peek_simps New_def)

text \<open>A session is live only while the operation that stored it has not been revoked.\<close>

lemma live_issued:
  assumes "live (session_run mac ops (newSessionManagerWithKey key ttl)) sid now = Some c"
  shows "\<exists>pre op post. ops = pre @ op # post \<and> issued_claims ttl op = Some c \<and> sc_SessionID c = sid \<and> Revoke sid \<notin> set post"
  using assms
proof (induction ops rule: rev_induct)
  case (snoc op ops)
  have k: "sm_ttl (session_run mac ops (newSessionManagerWithKey key ttl)) = ttl"
    by (simp add: frame newSessionManagerWithKey_def)
  show ?case
  proof (cases "issued_claims ttl op = Some c \<and> sc_SessionID c = sid")
    case True
    then show ?thesis by (intro exI [of _ ops] exI [of _ op] exI [of _ "[]"]) simp
  next
    case False
    with snoc.prems k have "live (session_run mac ops (newSessionManagerWithKey key ttl)) sid now = Some c" "op \<noteq> Revoke sid"
      by (auto simp: run_snoc live_step new_claims_def split: session_op.splits if_splits)
    with snoc.IH obtain pre op' post where "ops = pre @ op' # post" "issued_claims ttl op' = Some c"
      "sc_SessionID c = sid" "Revoke sid \<notin> set post" by blast
    with \<open>op \<noteq> Revoke sid\<close> show ?thesis
      by (intro exI [of _ pre] exI [of _ op'] exI [of _ "post @ [op]"]) auto
  qed
qed (simp add: session_run_def)

text \<open>The claims a history has signed, and its session ids.\<close>

definition signed_claims :: "int \<Rightarrow> session_op list \<Rightarrow> session_claims set" where
  "signed_claims ttl ops = {c. \<exists>op\<in>set ops. issued_claims ttl op = Some c}"

definition session_ids :: "int \<Rightarrow> session_op list \<Rightarrow> string list" where
  "session_ids ttl ops = map sc_SessionID (List.map_filter (issued_claims ttl) ops)"

lemma ids_unique:
  assumes "distinct (session_ids ttl ops)" and "c \<in> signed_claims ttl ops" and "c' \<in> signed_claims ttl ops"
    and "sc_SessionID c = sc_SessionID c'"
  shows "c = c'"
proof -
  have "c \<in> set (List.map_filter (issued_claims ttl) ops)" "c' \<in> set (List.map_filter (issued_claims ttl) ops)"
    using assms(2,3) by (force simp: signed_claims_def List.map_filter_def)+
  with assms(1,4) show ?thesis by (auto simp: session_ids_def distinct_map inj_on_def)
qed

lemma ValidateToken_Inr:
  assumes "fst (ValidateToken mac token ip now sm) = Inr c"
  shows "Option.bind (open_token mac (sm_signingKey sm) token) session_unmarshal = Some c \<and>
    Unix now \<le> sc_ExpiresAt c \<and> (sc_SourceIP c = [] \<or> ip = [] \<or> sc_SourceIP c = ip) \<and>
    (\<exists>c'. live sm (sc_SessionID c) now = Some c')"
  using assms
  by (auto simp: ValidateToken_def session_verifyClaims_def live_def peek_def
      split: option.splits prod.splits if_splits)

text \<open>C15: a session is authentic: in every history of issuing, validating and revoking, a token
  that validates carries exactly the claims of an earlier issue for that tenant and agent; it is
  not expired, its address is that of the issue unless the issue or the request has none, and
  \<open>RevokeSession\<close> was not called for its session since. \<open>RevokeAllForTenant\<close> may have been: it ends no
  session (\<open>session_valid_until_revoked\<close>). The token is assumed unforged and the random session ids distinct.\<close>

theorem validated_session_is_authentic:
  assumes "fst (ValidateToken mac token sourceIP now (session_run mac ops (newSessionManagerWithKey key ttl))) = Inr claims"
    and "unforged mac key (session_marshal ` signed_claims ttl ops) token"
    and "distinct (session_ids ttl ops)" and "\<forall>c\<in>signed_claims ttl ops. session_times_ok c"
  shows "\<exists>pre tenantID agentID ip bytes t post.
    ops = pre @ Issue tenantID agentID ip bytes t # post \<and>
    claims = new_claims ttl tenantID agentID ip bytes t \<and>
    Unix now \<le> Unix (t + ttl) \<and> (ip = [] \<or> sourceIP = [] \<or> ip = sourceIP) \<and>
    Revoke (sc_SessionID claims) \<notin> set post"
proof -
  let ?sm = "session_run mac ops (newSessionManagerWithKey key ttl)"
  have key: "sm_signingKey ?sm = key" by (simp add: frame newSessionManagerWithKey_def)
  from ValidateToken_Inr [OF assms(1)] obtain c' where v:
      "Option.bind (open_token mac key token) session_unmarshal = Some claims" "Unix now \<le> sc_ExpiresAt claims"
      "sc_SourceIP claims = [] \<or> sourceIP = [] \<or> sc_SourceIP claims = sourceIP"
      "live ?sm (sc_SessionID claims) now = Some c'"
    using key by auto
  have s: "claims \<in> signed_claims ttl ops"
    using session_codec.verified_was_signed [OF v(1) assms(2,4)] .
  obtain pre op post where o: "ops = pre @ op # post" "issued_claims ttl op = Some c'"
      "sc_SessionID c' = sc_SessionID claims" "Revoke (sc_SessionID claims) \<notin> set post"
    using live_issued [OF v(4)] by blast
  have "c' = claims" using ids_unique [OF assms(3) _ s o(3)] o(1,2) by (auto simp: signed_claims_def)
  with o(2) obtain tenantID agentID ip bytes t where
      i: "op = Issue tenantID agentID ip bytes t" "claims = new_claims ttl tenantID agentID ip bytes t" by (cases op) auto
  show ?thesis
  proof (intro exI conjI)
    show "ops = pre @ Issue tenantID agentID ip bytes t # post" using o(1) i(1) by simp
    show "claims = new_claims ttl tenantID agentID ip bytes t" by (rule i(2))
    show "Unix now \<le> Unix (t + ttl)" "ip = [] \<or> sourceIP = [] \<or> ip = sourceIP"
      using v(2,3) i(2) by (simp_all add: new_claims_def)
    show "Revoke (sc_SessionID claims) \<notin> set post" by (rule o(4))
  qed
qed

subsection \<open>Tokens stay valid until they expire or are revoked\<close>

lemma no_tenant_prefix: "\<not> HasPrefix (generateSessionID bytes) (tenantID @ '':'')"
proof
  assume "HasPrefix (generateSessionID bytes) (tenantID @ '':'')"
  then have "take (length (tenantID @ '':'')) (generateSessionID bytes) = tenantID @ '':''" by (simp add: HasPrefix_def)
  then have "CHR '':'' \<in> set (generateSessionID bytes)" by (metis in_set_conv_decomp in_set_takeD)
  then show False using EncodeToString_plain by (auto simp: generateSessionID_def)
qed

lemma live_kept:
  assumes "Revoke (generateSessionID bytes) \<notin> set post"
    and "\<forall>op\<in>set post. \<forall>t a i t0. op \<noteq> Issue t a i bytes t0" and "generateSessionID bytes = sid"
  shows "live (session_run mac post sm) sid now = live sm sid now"
  using assms(1,2)
proof (induction post rule: rev_induct)
  case (snoc op post)
  have "bytes' = bytes" if "generateSessionID bytes' = generateSessionID bytes" for bytes'
    using that by (metis Decode_Encode append_same_eq generateSessionID_def option.inject same_append_eq)
  with snoc show ?case
    by (auto simp: run_snoc live_step no_tenant_prefix assms(3) [symmetric] split: session_op.splits)
qed (simp add: session_run_def)

lemma valid_until_revoked:
  assumes "fst (IssueToken mac tenantID agentID ip bytes t (session_run mac ops (newSessionManagerWithKey key ttl))) = (token, claims)"
    and "Revoke (sc_SessionID claims) \<notin> set post" and "\<forall>op\<in>set post. \<forall>t' a i t0. op \<noteq> Issue t' a i bytes t0"
    and "session_times_ok claims" and "Unix now \<le> Unix (t + ttl)" and "ip = [] \<or> sourceIP = [] \<or> ip = sourceIP"
  shows "fst (ValidateToken mac token sourceIP now
      (session_run mac (ops @ Issue tenantID agentID ip bytes t # post) (newSessionManagerWithKey key ttl))) = Inr claims"
proof -
  let ?sm = "session_run mac ops (newSessionManagerWithKey key ttl)"
  let ?sm1 = "session_step mac (Issue tenantID agentID ip bytes t) ?sm"
  let ?sm2 = "session_run mac post ?sm1"
  have k: "sm_signingKey ?sm = key" "sm_ttl ?sm = ttl" "tc_ttl (sm_sessions ?sm) = ttl + sessionCachePadding"
    by (simp_all add: frame newSessionManagerWithKey_def New_def)
  have c: "claims = new_claims ttl tenantID agentID ip bytes t" "token = sign_payload mac key (session_marshal claims)"
    using assms(1) k by (auto simp: IssueToken_def Let_def session_signClaims_def)
  have sid: "sc_SessionID claims = generateSessionID bytes" by (simp add: c new_claims_def)
  have "now < t + ttl + ns_per_second"
    using Unix_bounds [of now] Unix_bounds [of "t + ttl"] assms(5)
      mult_right_mono [of "Unix now" "Unix (t + ttl)" ns_per_second] by (simp add: ns_per_second_def)
  then have "live ?sm1 (sc_SessionID claims) now = Some claims"
    unfolding live_step sid using k by (simp add: sessionCachePadding_def ns_per_second_def c(1))
  moreover have "live ?sm2 (sc_SessionID claims) now = live ?sm1 (sc_SessionID claims) now"
    using assms(2) unfolding sid by (rule live_kept [OF _ assms(3) refl])
  ultimately have l: "live ?sm2 (sc_SessionID claims) now = Some claims" by (rule trans [rotated])
  have "sm_signingKey ?sm2 = key" by (simp only: frame) (simp add: newSessionManagerWithKey_def)
  then have "session_verifyClaims mac token ?sm2 = Inr claims"
    using session_codec.verify_sign [OF assms(4)] c(2) by (simp add: session_verifyClaims_def)
  then have "fst (ValidateToken mac token sourceIP now ?sm2) = Inr claims"
    using l assms(5,6) by (auto simp: ValidateToken_def live_def peek_def c(1) new_claims_def split: prod.splits option.splits)
  moreover have "?sm2 = session_run mac (ops @ Issue tenantID agentID ip bytes t # post) (newSessionManagerWithKey key ttl)"
    by (simp add: session_run_def)
  ultimately show ?thesis by simp
qed

text \<open>An issued token works until it expires or is revoked: whatever is issued, validated and
  revoked in between, it validates to its own claims as long as the clock has not passed the
  expiry second, the address matches and its own session was not revoked. Revoking all sessions
  of its tenant is among the things that do not stop it.\<close>

theorem session_valid_until_revoked:
  assumes "fst (IssueToken mac tenantID agentID ip bytes t (session_run mac ops (newSessionManagerWithKey key ttl))) = (token, claims)"
    and "Revoke (sc_SessionID claims) \<notin> set post" and "\<forall>op\<in>set post. \<forall>t' a i t0. op \<noteq> Issue t' a i bytes t0"
    and "session_times_ok claims" and "Unix now \<le> Unix (t + ttl)" and "ip = [] \<or> sourceIP = [] \<or> ip = sourceIP"
  shows "fst (ValidateToken mac token sourceIP now
      (session_run mac (ops @ Issue tenantID agentID ip bytes t # post) (newSessionManagerWithKey key ttl))) = Inr claims"
  using assms by (rule valid_until_revoked)

subsection \<open>Tokens in requests\<close>

text \<open>A request's headers as \<open>Header.Get\<close> reads them: the first value, empty when absent.\<close>

type_synonym http_header = "string \<Rightarrow> string"

definition bearerToken :: "string \<Rightarrow> string" where
  "bearerToken v =
     (case Cut v (CHR '' '') of
        None \<Rightarrow> []
      | Some (scheme, rest) \<Rightarrow> if EqualFold scheme ''Bearer'' then TrimSpace rest else [])"

definition SessionTokenFromRequest :: "http_header \<Rightarrow> string" where
  "SessionTokenFromRequest h =
     (let token = TrimSpace (h ''X-Session-Token''); bearer = bearerToken (h ''Authorization'')
      in if token \<noteq> [] then token
         else if bearer \<noteq> [] \<and> Contains bearer ''.'' then bearer else [])"

subsection \<open>A concrete history\<close>

definition sample_mac :: mac where "sample_mac key s = rev key @ s"

definition sample_issue :: session_op where
  "sample_issue = Issue ''t1'' ''bot'' ''10.0.0.1'' ''abcdefgh'' 0"

definition sample_ttl :: int where "sample_ttl = 900 * ns_per_second"

definition sample_claims :: session_claims where
  "sample_claims = new_claims sample_ttl ''t1'' ''bot'' ''10.0.0.1'' ''abcdefgh'' 0"

lemma sample_times: "session_times_ok sample_claims"
  by code_simp

lemma sample_signed: "signed_claims sample_ttl [sample_issue] = {sample_claims}"
  by (auto simp: signed_claims_def sample_issue_def sample_claims_def)

lemma sample_unforged:
  "p \<in> S \<Longrightarrow> unforged mac key S (sign_payload mac key p)"
proof -
  have "CHR ''.'' \<notin> set (EncodeToString p)" using EncodeToString_plain by blast
  from Cut_first [OF this] show "p \<in> S \<Longrightarrow> ?thesis" by (auto simp: unforged_def sign_payload_def Let_def)
qed

lemma sample_issued:
  "fst (IssueToken sample_mac ''t1'' ''bot'' ''10.0.0.1'' ''abcdefgh'' 0
      (session_run sample_mac [] (newSessionManagerWithKey ''k'' sample_ttl))) =
   (sign_payload sample_mac ''k'' (session_marshal sample_claims), sample_claims)"
  by (simp add: IssueToken_def Let_def session_signClaims_def sample_claims_def session_run_def newSessionManagerWithKey_def)

theorem session_valid_until_revoked_witness:
  "fst (ValidateToken sample_mac (sign_payload sample_mac ''k'' (session_marshal sample_claims)) ''10.0.0.1'' (900 * ns_per_second)
     (session_run sample_mac [sample_issue, RevokeAll ''t1''] (newSessionManagerWithKey ''k'' sample_ttl))) = Inr sample_claims"
proof -
  have u: "Unix (900 * ns_per_second) \<le> Unix (0 + sample_ttl)" by code_simp
  from session_valid_until_revoked [OF sample_issued, of "[RevokeAll ''t1'']" "900 * ns_per_second" "''10.0.0.1''", OF _ _ sample_times u]
  show ?thesis by (simp add: sample_issue_def)
qed

theorem validated_session_is_authentic_witness:
  "\<exists>pre tenantID agentID ip bytes t post.
    [sample_issue] = pre @ Issue tenantID agentID ip bytes t # post \<and>
    sample_claims = new_claims sample_ttl tenantID agentID ip bytes t \<and>
    Unix 7 \<le> Unix (t + sample_ttl) \<and> (ip = [] \<or> ''10.0.0.1'' = [] \<or> ip = ''10.0.0.1'') \<and>
    Revoke (sc_SessionID sample_claims) \<notin> set post"
proof (rule validated_session_is_authentic)
  let ?p = "session_marshal sample_claims"
  show "fst (ValidateToken sample_mac (sign_payload sample_mac ''k'' ?p) ''10.0.0.1'' 7
      (session_run sample_mac [sample_issue] (newSessionManagerWithKey ''k'' sample_ttl))) = Inr sample_claims"
    using valid_until_revoked [OF sample_issued, of "[]" 7 "''10.0.0.1''", OF _ _ sample_times]
    by (simp add: sample_issue_def Unix_def sample_ttl_def ns_per_second_def)
  show "unforged sample_mac ''k'' (session_marshal ` signed_claims sample_ttl [sample_issue]) (sign_payload sample_mac ''k'' ?p)"
    by (rule sample_unforged) (simp add: sample_signed)
  show "distinct (session_ids sample_ttl [sample_issue])" by (simp add: session_ids_def sample_issue_def List.map_filter_def)
  show "\<forall>c\<in>signed_claims sample_ttl [sample_issue]. session_times_ok c" by (simp add: sample_signed sample_times)
qed

end
