(* ===== verification/Provenance.thy ===== *)
theory Provenance
  imports Sessions
begin

text \<open>
  \<open>src/internal/auth/provenance.go\<close> and \<open>src/internal/api/public/provenance.go\<close>: the
  signed token that tells a gateway which tenant's decision a cross-tenant call continues, and
  how many hops the chain has.
\<close>

subsection \<open>Claims\<close>

datatype provenance_error = ErrProvenanceExpired | ErrProvenanceInvalid | ErrChainDepthExceeded

record provenance_claims =
  pv_SourceTenantID :: string
  pv_SourceDecisionID :: string
  pv_ChainDepth :: int
  pv_IssuedAt :: int
  pv_ExpiresAt :: int

definition provenance_marshal :: "provenance_claims \<Rightarrow> string" where
  "provenance_marshal c = struct_text
     [(''src'', Str_v (pv_SourceTenantID c)), (''sdid'', Str_v (pv_SourceDecisionID c)),
      (''depth'', Int_v (pv_ChainDepth c)), (''iat'', Int_v (pv_IssuedAt c)), (''exp'', Int_v (pv_ExpiresAt c))]"

definition provenance_fields :: "(string \<times> provenance_claims field) list" where
  "provenance_fields =
     [(''src'', string_field pv_SourceTenantID_update), (''sdid'', string_field pv_SourceDecisionID_update),
      (''depth'', int_field pv_ChainDepth_update), (''iat'', int_field pv_IssuedAt_update),
      (''exp'', int_field pv_ExpiresAt_update)]"

definition zero_provenance_claims :: provenance_claims where
  "zero_provenance_claims =
     \<lparr>pv_SourceTenantID = [], pv_SourceDecisionID = [], pv_ChainDepth = 0, pv_IssuedAt = 0, pv_ExpiresAt = 0\<rparr>"

definition provenance_unmarshal :: "string \<Rightarrow> provenance_claims option" where
  "provenance_unmarshal s = Option.bind (decode_members s) (decode_struct provenance_fields zero_provenance_claims)"

definition provenance_ints_ok :: "provenance_claims \<Rightarrow> bool" where
  "provenance_ints_ok c = (in_int64 (pv_ChainDepth c) \<and> in_int64 (pv_IssuedAt c) \<and> in_int64 (pv_ExpiresAt c))"

lemma provenance_roundtrip: "provenance_ints_ok c \<Longrightarrow> provenance_unmarshal (provenance_marshal c) = Some c"
  by (simp add: provenance_unmarshal_def provenance_marshal_def decode_members_struct_text provenance_fields_def
      field_for_def string_field_def int_field_def zero_provenance_claims_def provenance_ints_ok_def)

interpretation provenance_codec: claims_codec provenance_marshal provenance_unmarshal provenance_ints_ok
  by unfold_locales (rule provenance_roundtrip)

subsection \<open>The manager\<close>

record provenance_manager =
  pm_signingKey :: string
  pm_maxChainDepth :: int

text \<open>Thirty seconds.\<close>

definition provenanceTTL :: int where "provenanceTTL = 30 * ns_per_second"

definition provenance_signClaims :: "mac \<Rightarrow> provenance_claims \<Rightarrow> provenance_manager \<Rightarrow> string" where
  "provenance_signClaims mac c pm = sign_payload mac (pm_signingKey pm) (provenance_marshal c)"

definition provenance_verifyClaims ::
  "mac \<Rightarrow> string \<Rightarrow> provenance_manager \<Rightarrow> provenance_error + provenance_claims" where
  "provenance_verifyClaims mac token pm =
     (case Option.bind (open_token mac (pm_signingKey pm) token) provenance_unmarshal of
        None \<Rightarrow> Inl ErrProvenanceInvalid | Some c \<Rightarrow> Inr c)"

definition hop_claims :: "string \<Rightarrow> string \<Rightarrow> int \<Rightarrow> time \<Rightarrow> provenance_claims" where
  "hop_claims sourceTenantID sourceDecisionID depth now =
     \<lparr>pv_SourceTenantID = sourceTenantID, pv_SourceDecisionID = sourceDecisionID, pv_ChainDepth = depth,
      pv_IssuedAt = Unix now, pv_ExpiresAt = Unix (now + provenanceTTL)\<rparr>"

definition IssueProvenance ::
  "mac \<Rightarrow> string \<Rightarrow> string \<Rightarrow> int \<Rightarrow> time \<Rightarrow> provenance_manager \<Rightarrow> provenance_error + string" where
  "IssueProvenance mac sourceTenantID sourceDecisionID currentDepth now pm =
     (let nextDepth = wrap64 (currentDepth + 1)
      in if nextDepth > pm_maxChainDepth pm then Inl ErrChainDepthExceeded
         else Inr (provenance_signClaims mac (hop_claims sourceTenantID sourceDecisionID nextDepth now) pm))"

definition ValidateProvenance ::
  "mac \<Rightarrow> string \<Rightarrow> time \<Rightarrow> provenance_manager \<Rightarrow> provenance_error + provenance_claims" where
  "ValidateProvenance mac token now pm =
     bind_r (provenance_verifyClaims mac token pm) (\<lambda>claims.
       if Unix now > pv_ExpiresAt claims then Inl ErrProvenanceExpired
       else if pv_ChainDepth claims > pm_maxChainDepth pm then Inl ErrChainDepthExceeded
       else Inr claims)"

definition ProvenanceFromRequest :: "http_header \<Rightarrow> string" where
  "ProvenanceFromRequest h = TrimSpace (h ''X-Provenance-Chain'')"

subsection \<open>The policy input\<close>

record provenance_context =
  pc_SourceTenantID :: string
  pc_SourceDecisionID :: string
  pc_ChainDepth :: int

definition no_provenance :: provenance_context where
  "no_provenance = \<lparr>pc_SourceTenantID = [], pc_SourceDecisionID = [], pc_ChainDepth = 0\<rparr>"

definition extractProvenance ::
  "mac \<Rightarrow> provenance_manager option \<Rightarrow> http_header \<Rightarrow> time \<Rightarrow> provenance_context" where
  "extractProvenance mac mgr h now =
     (case mgr of
        None \<Rightarrow> no_provenance
      | Some pm \<Rightarrow>
          let token = ProvenanceFromRequest h
          in if token = [] then no_provenance
             else (case ValidateProvenance mac token now pm of
                     Inl _ \<Rightarrow> no_provenance
                   | Inr claims \<Rightarrow>
                       \<lparr>pc_SourceTenantID = pv_SourceTenantID claims, pc_SourceDecisionID = pv_SourceDecisionID claims,
                        pc_ChainDepth = pv_ChainDepth claims\<rparr>))"

definition injectProvenanceInput :: "gomap \<Rightarrow> provenance_context \<Rightarrow> gomap" where
  "injectProvenanceInput policyInput prov =
     (if pc_SourceTenantID prov = [] then policyInput
      else set_key ''chain_depth'' (Int_v (pc_ChainDepth prov))
             (set_key ''source_tenant_id'' (Str_v (pc_SourceTenantID prov)) policyInput))"

subsection \<open>Chains\<close>

text \<open>A chain of gateways that share the key: the first issues a token at depth one, every
  further gateway validates the token it received and issues the next one.\<close>

fun chain_on :: "mac \<Rightarrow> provenance_manager \<Rightarrow> string \<Rightarrow> (string \<times> string \<times> time) list \<Rightarrow> provenance_error + string" where
  "chain_on mac pm token [] = Inr token"
| "chain_on mac pm token ((tenantID, decisionID, now) # hops) =
     bind_r (ValidateProvenance mac token now pm) (\<lambda>claims.
       bind_r (IssueProvenance mac tenantID decisionID (pv_ChainDepth claims) now pm) (\<lambda>next.
         chain_on mac pm next hops))"

fun chain :: "mac \<Rightarrow> provenance_manager \<Rightarrow> (string \<times> string \<times> time) list \<Rightarrow> provenance_error + string" where
  "chain mac pm [] = Inl ErrProvenanceInvalid"
| "chain mac pm ((tenantID, decisionID, now) # hops) =
     bind_r (IssueProvenance mac tenantID decisionID 0 now pm) (\<lambda>token. chain_on mac pm token hops)"

definition hop_times_ok :: "string \<times> string \<times> time \<Rightarrow> bool" where
  "hop_times_ok hop = (case hop of (_, _, now) \<Rightarrow> in_int64 (Unix now) \<and> in_int64 (Unix (now + provenanceTTL)))"

lemma validate_issued:
  assumes "provenance_ints_ok c" and "ValidateProvenance mac (provenance_signClaims mac c pm) now pm = Inr c'"
  shows "c' = c \<and> pv_ChainDepth c \<le> pm_maxChainDepth pm \<and> Unix now \<le> pv_ExpiresAt c"
  using assms provenance_roundtrip [OF assms(1)]
  by (auto simp: ValidateProvenance_def provenance_verifyClaims_def provenance_signClaims_def split: if_splits)

lemma chain_on_depth:
  assumes "chain_on mac pm (provenance_signClaims mac c pm) hops = Inr token" and "provenance_ints_ok c"
    and "list_all hop_times_ok hops" and "pm_maxChainDepth pm < max_int64"
    and "pv_ChainDepth c = int d" "int d \<le> pm_maxChainDepth pm"
  shows "int (d + length hops) \<le> pm_maxChainDepth pm \<and>
    (\<exists>c'. provenance_ints_ok c' \<and> token = provenance_signClaims mac c' pm \<and> pv_ChainDepth c' = int (d + length hops))"
  using assms
proof (induction hops arbitrary: c d)
  case Nil
  then show ?case by auto
next
  case (Cons hop hops)
  obtain t i n where hop: "hop = (t, i, n)" by (cases hop)
  obtain c1 token1 where v: "ValidateProvenance mac (provenance_signClaims mac c pm) n pm = Inr c1"
      and i: "IssueProvenance mac t i (pv_ChainDepth c1) n pm = Inr token1"
      and r: "chain_on mac pm token1 hops = Inr token"
    using Cons.prems(1) hop by auto
  have c1: "c1 = c" using validate_issued [OF Cons.prems(2) v] by simp
  have nw: "wrap64 (int d + 1) = int (Suc d)"
    using Cons.prems(4,6) by (simp add: in_int64_def min_int64_def max_int64_def)
  let ?c = "hop_claims t i (int (Suc d)) n"
  from i c1 Cons.prems(5) have t1: "token1 = provenance_signClaims mac ?c pm" and le: "int (Suc d) \<le> pm_maxChainDepth pm"
    by (auto simp: IssueProvenance_def Let_def nw split: if_splits)
  have "in_int64 (int (Suc d))" using le Cons.prems(4) by (simp add: in_int64_def min_int64_def)
  then have "provenance_ints_ok ?c"
    using Cons.prems(3) hop by (simp add: provenance_ints_ok_def hop_claims_def hop_times_ok_def)
  from Cons.IH [OF r [unfolded t1] this _ Cons.prems(4), of "Suc d"] show ?case
    using le Cons.prems(3) by (simp add: hop_claims_def)
qed

text \<open>The length of a chain is limited: a chain of gateways, each of which accepts the token
  it was given and issues the next one, has at most the configured number of hops, and the token
  of its last hop says how many hops there were.\<close>

theorem chain_depth_bounded:
  assumes "chain mac pm hops = Inr token" and "list_all hop_times_ok hops" and "pm_maxChainDepth pm < max_int64"
  shows "int (length hops) \<le> pm_maxChainDepth pm \<and>
    (case provenance_verifyClaims mac token pm of Inl _ \<Rightarrow> False | Inr c \<Rightarrow> pv_ChainDepth c = int (length hops))"
proof -
  obtain t i n rest where hops: "hops = (t, i, n) # rest" using assms(1) by (cases hops) auto
  let ?c = "hop_claims t i 1 n"
  have w: "wrap64 1 = 1" by (simp add: in_int64_def min_int64_def max_int64_def)
  from assms(1) hops have c: "chain_on mac pm (provenance_signClaims mac ?c pm) rest = Inr token" "1 \<le> pm_maxChainDepth pm"
    by (auto simp: IssueProvenance_def w Let_def split: if_splits)
  have "in_int64 1" by (simp add: in_int64_def min_int64_def max_int64_def)
  then have ok: "provenance_ints_ok ?c"
    using assms(2) hops by (simp add: provenance_ints_ok_def hop_claims_def hop_times_ok_def)
  from chain_on_depth [OF c(1) ok _ assms(3), of 1] assms(2) hops c(2)
  obtain c' where "int (length hops) \<le> pm_maxChainDepth pm" "provenance_ints_ok c'"
      "token = provenance_signClaims mac c' pm" "pv_ChainDepth c' = int (length hops)"
    by (auto simp: hop_claims_def)
  then show ?thesis
    using provenance_roundtrip [of c'] by (simp add: provenance_verifyClaims_def provenance_signClaims_def)
qed

text \<open>Provenance reaches the policy only from a token signed with the gateways' key that has not
  expired; any other request is judged as if it had none.\<close>

lemma provenance_is_authentic:
  assumes "pc_SourceTenantID (extractProvenance mac mgr h now) \<noteq> []"
    and "mgr = Some pm" and "unforged mac (pm_signingKey pm) (provenance_marshal ` C) (ProvenanceFromRequest h)"
    and "\<forall>c\<in>C. provenance_ints_ok c"
  shows "\<exists>c\<in>C. Unix now \<le> pv_ExpiresAt c \<and> pv_ChainDepth c \<le> pm_maxChainDepth pm \<and>
    extractProvenance mac mgr h now =
      \<lparr>pc_SourceTenantID = pv_SourceTenantID c, pc_SourceDecisionID = pv_SourceDecisionID c, pc_ChainDepth = pv_ChainDepth c\<rparr>"
proof -
  from assms(1,2) obtain c where v: "ValidateProvenance mac (ProvenanceFromRequest h) now pm = Inr c"
      and e: "extractProvenance mac mgr h now =
        \<lparr>pc_SourceTenantID = pv_SourceTenantID c, pc_SourceDecisionID = pv_SourceDecisionID c, pc_ChainDepth = pv_ChainDepth c\<rparr>"
    by (auto simp: extractProvenance_def no_provenance_def Let_def split: if_splits sum.splits)
  from v have b: "Option.bind (open_token mac (pm_signingKey pm) (ProvenanceFromRequest h)) provenance_unmarshal = Some c"
      and t: "Unix now \<le> pv_ExpiresAt c" "pv_ChainDepth c \<le> pm_maxChainDepth pm"
    by (auto simp: ValidateProvenance_def provenance_verifyClaims_def split: option.splits if_splits)
  from provenance_codec.verified_was_signed [OF b assms(3,4)] t e show ?thesis by blast
qed

subsection \<open>A concrete chain\<close>

definition sample_pm :: provenance_manager where
  "sample_pm = \<lparr>pm_signingKey = ''k'', pm_maxChainDepth = 3\<rparr>"

lemma sample_hop: "hop_times_ok (t, i, 0)" "hop_times_ok (t, i, 1)"
  by (simp_all add: hop_times_ok_def in_int64_def min_int64_def max_int64_def Unix_def provenanceTTL_def ns_per_second_def)

lemma sample_chain:
  "chain sample_mac sample_pm [(''t1'', ''d_1'', 0), (''t2'', ''d_2'', 1)] =
   Inr (provenance_signClaims sample_mac (hop_claims ''t2'' ''d_2'' 2 1) sample_pm)"
proof -
  have w: "wrap64 1 = 1" "wrap64 2 = 2" by (simp_all add: in_int64_def min_int64_def max_int64_def)
  have "provenance_ints_ok (hop_claims ''t1'' ''d_1'' 1 0)"
    by (simp add: provenance_ints_ok_def hop_claims_def in_int64_def min_int64_def max_int64_def Unix_def
        provenanceTTL_def ns_per_second_def)
  from provenance_roundtrip [OF this]
  have "ValidateProvenance sample_mac (provenance_signClaims sample_mac (hop_claims ''t1'' ''d_1'' 1 0) sample_pm) 1 sample_pm
      = Inr (hop_claims ''t1'' ''d_1'' 1 0)"
    by (simp add: ValidateProvenance_def provenance_verifyClaims_def provenance_signClaims_def)
      (simp add: hop_claims_def Unix_def provenanceTTL_def ns_per_second_def sample_pm_def)
  then show ?thesis by (simp add: IssueProvenance_def w sample_pm_def) (simp add: w hop_claims_def)
qed

theorem chain_depth_bounded_witness:
  "2 \<le> pm_maxChainDepth sample_pm \<and>
   (case provenance_verifyClaims sample_mac (provenance_signClaims sample_mac (hop_claims ''t2'' ''d_2'' 2 1) sample_pm) sample_pm of
      Inl _ \<Rightarrow> False | Inr c \<Rightarrow> pv_ChainDepth c = 2)"
  using chain_depth_bounded [OF sample_chain]
  by (simp add: sample_hop sample_pm_def max_int64_def split: sum.splits)

end
