(* ===== verification/Key_Auth.thy ===== *)
theory Key_Auth
  imports Models Sessions
begin

text \<open>
  Keys of tenants and administrators: \<open>src/internal/utils/hash.go\<close>,
  \<open>src/internal/auth/tenant.go\<close> and \<open>admin.go\<close>, and the tables behind them
  (\<open>store.go\<close>). A key is stored as a hash: under the current HMAC secret, under a
  previous one, or as the plain SHA-256 of older installations, which is upgraded at the next
  login. SHA-256 and HMAC are parameters; a driver error is an argument of every store call.
  The locale \<open>key_table\<close> is what authentication relies on of a table of hashes; it is
  interpreted on the tenants' and on the administrators' table.
\<close>

subsection \<open>Hashes of a key\<close>

record crypto =
  cy_sha256hex :: "string \<Rightarrow> string"
  cy_hmachex :: "string \<Rightarrow> string \<Rightarrow> string"

record key_hashes =
  kh_Current :: string
  kh_Previous :: "string list"
  kh_Legacy :: string

fun normalize_from :: "string list \<Rightarrow> string list \<Rightarrow> string list" where
  "normalize_from seen [] = []"
| "normalize_from seen (secret # secrets) =
     (let trimmed = TrimSpace secret
      in if trimmed = [] \<or> trimmed \<in> set seen then normalize_from seen secrets
         else trimmed # normalize_from (trimmed # seen) secrets)"

definition normalizeSecrets :: "string list \<Rightarrow> string list" where
  "normalizeSecrets secrets = normalize_from [] secrets"

definition HMACSecretsFromEnv :: "string \<Rightarrow> string list" where
  "HMACSecretsFromEnv setting = normalizeSecrets (Split (CHR '','') (TrimSpace setting))"

definition BuildKeyHashCandidates :: "crypto \<Rightarrow> string \<Rightarrow> string list \<Rightarrow> key_hashes" where
  "BuildKeyHashCandidates cy rawKey secrets =
     (case normalizeSecrets secrets of
        [] \<Rightarrow> \<lparr>kh_Current = [], kh_Previous = [], kh_Legacy = cy_sha256hex cy rawKey\<rparr>
      | s # ss \<Rightarrow>
          let current = cy_hmachex cy rawKey s
          in \<lparr>kh_Current = current,
              kh_Previous = filter (\<lambda>h. h \<noteq> current) (map (cy_hmachex cy rawKey) ss),
              kh_Legacy = cy_sha256hex cy rawKey\<rparr>)"

definition HashKey :: "crypto \<Rightarrow> string \<Rightarrow> string \<Rightarrow> string" where
  "HashKey cy setting rawKey =
     (let c = BuildKeyHashCandidates cy rawKey (HMACSecretsFromEnv setting)
      in if kh_Current c \<noteq> [] then kh_Current c else kh_Legacy c)"

definition GenerateAPIKey :: "crypto \<Rightarrow> string \<Rightarrow> string \<Rightarrow> string \<times> string \<times> string" where
  "GenerateAPIKey cy setting bytes =
     (let rawKey = ''rbtr_live_'' @ EncodeToString bytes
      in (rawKey, HashKey cy setting rawKey, take 14 rawKey))"

subsection \<open>The tables\<close>

record tenant =
  tn_TenantID :: string
  tn_Name :: string
  tn_Enabled :: bool

record tenant_row =
  tn_row :: tenant
  tn_DeletedAt :: "time option"

record tenant_key =
  tk_KeyID :: string
  tk_TenantID :: string
  tk_KeyHash :: string
  tk_RevokedAt :: "time option"

record admin_key =
  ak_AdminKeyID :: string
  ak_KeyHash :: string
  ak_Scopes :: "string list"

record tenant_db =
  td_tenants :: "string \<rightharpoonup> tenant_row"
  td_keys :: "tenant_key list"

text \<open>The tenant a key row leads to: the join of \<open>GetTenantByKeyHash\<close>.\<close>

definition key_tenant :: "tenant_db \<Rightarrow> tenant_key \<Rightarrow> tenant option" where
  "key_tenant db k =
     (if tk_RevokedAt k \<noteq> None then None
      else case td_tenants db (tk_TenantID k) of
             None \<Rightarrow> None
           | Some row \<Rightarrow> if tn_Enabled (tn_row row) \<and> tn_DeletedAt row = None then Some (tn_row row) else None)"

definition GetTenantByKeyHash :: "string \<Rightarrow> tenant_db \<Rightarrow> store_error + tenant" where
  "GetTenantByKeyHash keyHash db =
     (case List.map_filter (\<lambda>k. if tk_KeyHash k = keyHash then key_tenant db k else None) (td_keys db) of
        [] \<Rightarrow> Inl ErrNotFound | t # _ \<Rightarrow> Inr t)"

definition GetAdminKeyByHash :: "string \<Rightarrow> admin_key list \<Rightarrow> store_error + admin_key" where
  "GetAdminKeyByHash keyHash db =
     (case filter (\<lambda>k. ak_KeyHash k = keyHash) db of [] \<Rightarrow> Inl ErrNotFound | k # _ \<Rightarrow> Inr k)"

text \<open>\<open>UPDATE tenant_keys\<close>; the unique index on \<open>key_hash\<close> makes it fail when another row
  has the new hash.\<close>

definition UpgradeTenantKeyHash :: "string \<Rightarrow> string \<Rightarrow> tenant_db \<Rightarrow> (store_error + unit) \<times> tenant_db" where
  "UpgradeTenantKeyHash oldKeyHash newKeyHash db =
     (if TrimSpace oldKeyHash = [] \<or> TrimSpace newKeyHash = [] \<or> oldKeyHash = newKeyHash then (Inr (), db)
      else if filter (\<lambda>k. tk_KeyHash k = oldKeyHash \<and> tk_RevokedAt k = None) (td_keys db) = [] then (Inl ErrNotFound, db)
      else if newKeyHash \<in> tk_KeyHash ` set (td_keys db) then (Inl ErrDB, db)
      else (Inr (), db\<lparr>td_keys := map (\<lambda>k. if tk_KeyHash k = oldKeyHash \<and> tk_RevokedAt k = None
                                            then k\<lparr>tk_KeyHash := newKeyHash\<rparr> else k) (td_keys db)\<rparr>))"

definition UpgradeAdminKeyHash :: "string \<Rightarrow> string \<Rightarrow> admin_key list \<Rightarrow> (store_error + unit) \<times> admin_key list" where
  "UpgradeAdminKeyHash oldKeyHash newKeyHash db =
     (if TrimSpace oldKeyHash = [] \<or> TrimSpace newKeyHash = [] \<or> oldKeyHash = newKeyHash then (Inr (), db)
      else if filter (\<lambda>k. ak_KeyHash k = oldKeyHash) db = [] then (Inl ErrNotFound, db)
      else (Inr (), map (\<lambda>k. if ak_KeyHash k = oldKeyHash then k\<lparr>ak_KeyHash := newKeyHash\<rparr> else k) db))"

definition CreateTenantKey :: "tenant_key \<Rightarrow> tenant_db \<Rightarrow> (store_error + unit) \<times> tenant_db" where
  "CreateTenantKey key db =
     (if tk_KeyHash key \<in> tk_KeyHash ` set (td_keys db) \<or> tk_KeyID key \<in> tk_KeyID ` set (td_keys db)
        \<or> td_tenants db (tk_TenantID key) = None
      then (Inl ErrDB, db) else (Inr (), db\<lparr>td_keys := td_keys db @ [key\<lparr>tk_RevokedAt := None\<rparr>]\<rparr>))"

definition RevokeTenantKey :: "string \<Rightarrow> string \<Rightarrow> time \<Rightarrow> tenant_db \<Rightarrow> (store_error + unit) \<times> tenant_db" where
  "RevokeTenantKey tenantID keyID revokedAt db =
     (if filter (\<lambda>k. tk_KeyID k = keyID \<and> tk_TenantID k = tenantID \<and> tk_RevokedAt k = None) (td_keys db) = []
      then (Inl ErrNotFound, db)
      else (Inr (), db\<lparr>td_keys := map (\<lambda>k. if tk_KeyID k = keyID \<and> tk_TenantID k = tenantID \<and> tk_RevokedAt k = None
                                            then k\<lparr>tk_RevokedAt := Some revokedAt\<rparr> else k) (td_keys db)\<rparr>))"

subsection \<open>Authentication\<close>

datatype auth_error = ErrUnauthorized | ErrForbidden | ErrInvalidAgentID | Auth_store store_error

definition agent_char :: "char \<Rightarrow> bool" where
  "agent_char c = (let n = (of_char c :: nat)
     in (97 \<le> n \<and> n \<le> 122) \<or> (65 \<le> n \<and> n \<le> 90) \<or> (48 \<le> n \<and> n \<le> 57) \<or> c \<in> {CHR ''_'', CHR ''.'', CHR ''-''})"

definition ValidateAgentID :: "string \<Rightarrow> auth_error option" where
  "ValidateAgentID agentID =
     (let a = TrimSpace agentID
      in if a = [] then Some ErrForbidden
         else if length a > 128 then Some ErrInvalidAgentID
         else if \<not> list_all agent_char a then Some ErrInvalidAgentID else None)"

definition TenantKeyFromRequest :: "http_header \<Rightarrow> bool \<Rightarrow> string \<times> bool" where
  "TenantKeyFromRequest h disableXTenantKey =
     (let token = bearerToken (h ''Authorization''); fallback = TrimSpace (h ''X-Tenant-Key'')
      in if token \<noteq> [] then (token, False)
         else if disableXTenantKey then ([], False)
         else if fallback = [] then ([], False) else (fallback, True))"

definition AdminKeyFromRequest :: "http_header \<Rightarrow> string" where
  "AdminKeyFromRequest h =
     (let token = bearerToken (h ''Authorization'') in if token \<noteq> [] then token else h ''X-Admin-Key'')"

text \<open>The closures \<open>lookup\<close> and \<open>tryLookup\<close>, over a list of hashes. \<open>fault\<close> gives the
  driver error, if any, that the query for a hash meets.\<close>

definition lookup :: "(string \<Rightarrow> store_error option) \<Rightarrow> (string \<Rightarrow> store_error + 'a) \<Rightarrow> string \<Rightarrow> store_error + 'a" where
  "lookup fault get hash =
     (if TrimSpace hash = [] then Inl ErrNotFound
      else case fault hash of Some e \<Rightarrow> Inl e | None \<Rightarrow> get hash)"

fun tryLookup :: "(string \<Rightarrow> store_error + 'a) \<Rightarrow> string list \<Rightarrow> store_error + 'a option" where
  "tryLookup look [] = Inr None"
| "tryLookup look (hash # hashes) =
     (case look hash of
        Inr a \<Rightarrow> Inr (Some a)
      | Inl e \<Rightarrow> if e = ErrNotFound then tryLookup look hashes else Inl e)"

text \<open>Authentication over a table: the current and previous hashes, then the legacy hash, whose
  row is upgraded to the current hash; the outcome of the upgrade does not matter.\<close>

record 'a auth_result =
  ar_Principal :: 'a
  ar_LegacyHashMatched :: bool
  ar_LegacyHashUpgraded :: bool

definition authenticate_hashes ::
  "(string \<Rightarrow> store_error option) \<Rightarrow> store_error option \<Rightarrow> (string \<Rightarrow> 'db \<Rightarrow> store_error + 'a)
   \<Rightarrow> (string \<Rightarrow> string \<Rightarrow> 'db \<Rightarrow> (store_error + unit) \<times> 'db)
   \<Rightarrow> key_hashes \<Rightarrow> 'db \<Rightarrow> (auth_error + 'a auth_result) \<times> 'db" where
  "authenticate_hashes fault upgrade_fault get upgrade c db =
     (let look = lookup fault (\<lambda>hash. get hash db) in
      case tryLookup look (kh_Current c # kh_Previous c) of
        Inl e \<Rightarrow> (Inl (Auth_store e), db)
      | Inr (Some a) \<Rightarrow> (Inr \<lparr>ar_Principal = a, ar_LegacyHashMatched = False, ar_LegacyHashUpgraded = False\<rparr>, db)
      | Inr None \<Rightarrow>
          (case tryLookup look [kh_Legacy c] of
             Inl e \<Rightarrow> (Inl (Auth_store e), db)
           | Inr None \<Rightarrow> (Inl ErrUnauthorized, db)
           | Inr (Some a) \<Rightarrow>
               if TrimSpace (kh_Current c) = [] \<or> kh_Current c = kh_Legacy c
               then (Inr \<lparr>ar_Principal = a, ar_LegacyHashMatched = True, ar_LegacyHashUpgraded = False\<rparr>, db)
               else (case (if upgrade_fault = None then upgrade (kh_Legacy c) (kh_Current c) db
                           else (Inl (the upgrade_fault), db)) of
                       (Inl _, db') \<Rightarrow> (Inr \<lparr>ar_Principal = a, ar_LegacyHashMatched = True, ar_LegacyHashUpgraded = False\<rparr>, db')
                     | (Inr _, db') \<Rightarrow> (Inr \<lparr>ar_Principal = a, ar_LegacyHashMatched = True, ar_LegacyHashUpgraded = True\<rparr>, db'))))"

definition AuthenticateTenantDetailed ::
  "(string \<Rightarrow> store_error option) \<Rightarrow> store_error option \<Rightarrow> crypto \<Rightarrow> string \<Rightarrow> string \<Rightarrow> string \<Rightarrow> tenant_db
   \<Rightarrow> (auth_error + tenant auth_result) \<times> tenant_db" where
  "AuthenticateTenantDetailed fault upgrade_fault cy setting tenantKey agentID db =
     (if tenantKey = [] then (Inl ErrUnauthorized, db)
      else case ValidateAgentID agentID of
             Some e \<Rightarrow> (Inl e, db)
           | None \<Rightarrow> authenticate_hashes fault upgrade_fault GetTenantByKeyHash UpgradeTenantKeyHash
                       (BuildKeyHashCandidates cy tenantKey (HMACSecretsFromEnv setting)) db)"

definition AuthenticateAdminAny ::
  "(string \<Rightarrow> store_error option) \<Rightarrow> store_error option \<Rightarrow> crypto \<Rightarrow> string \<Rightarrow> string \<Rightarrow> admin_key list
   \<Rightarrow> (auth_error + admin_key) \<times> admin_key list" where
  "AuthenticateAdminAny fault upgrade_fault cy setting adminKey db =
     (if adminKey = [] then (Inl ErrUnauthorized, db)
      else case authenticate_hashes fault upgrade_fault GetAdminKeyByHash UpgradeAdminKeyHash
                  (BuildKeyHashCandidates cy adminKey (HMACSecretsFromEnv setting)) db of
             (Inl e, db') \<Rightarrow> (Inl e, db') | (Inr r, db') \<Rightarrow> (Inr (ar_Principal r), db'))"

definition isReadLikeScope :: "string \<Rightarrow> bool" where
  "isReadLikeScope required =
     (required = ''admin:read'' \<or> HasSuffix required '':read'' \<or> HasSuffix required '':export'' \<or> HasSuffix required '':simulate'')"

definition hasScope :: "string list \<Rightarrow> string \<Rightarrow> bool" where
  "hasScope scopes required =
     (if required \<in> set scopes then True
      else if isReadLikeScope required then ''admin:read'' \<in> set scopes else ''admin:write'' \<in> set scopes)"

definition AuthenticateAdmin ::
  "(string \<Rightarrow> store_error option) \<Rightarrow> store_error option \<Rightarrow> crypto \<Rightarrow> string \<Rightarrow> string \<Rightarrow> string \<Rightarrow> admin_key list
   \<Rightarrow> (auth_error + admin_key) \<times> admin_key list" where
  "AuthenticateAdmin fault upgrade_fault cy setting adminKey requiredScope db =
     (case AuthenticateAdminAny fault upgrade_fault cy setting adminKey db of
        (Inl e, db') \<Rightarrow> (Inl e, db')
      | (Inr key, db') \<Rightarrow> if hasScope (ak_Scopes key) requiredScope then (Inr key, db') else (Inl ErrForbidden, db'))"

subsection \<open>The contract of a table of hashes\<close>

definition candidate_hashes :: "key_hashes \<Rightarrow> string list" where
  "candidate_hashes c = kh_Current c # kh_Previous c @ [kh_Legacy c]"

lemma tryLookup_Some:
  "tryLookup look hs = Inr (Some a) \<Longrightarrow> \<exists>pre h post. hs = pre @ h # post \<and> look h = Inr a \<and> (\<forall>x\<in>set pre. look x = Inl ErrNotFound)"
proof (induction hs)
  case (Cons h hs)
  show ?case
  proof (cases "look h")
    case (Inr b)
    then show ?thesis using Cons.prems by (intro exI [of _ "[]"] exI [of _ h] exI [of _ hs]) auto
  next
    case (Inl e)
    then have "e = ErrNotFound" "tryLookup look hs = Inr (Some a)" using Cons.prems by (auto split: if_splits)
    with Cons.IH obtain pre h' post where "hs = pre @ h' # post" "look h' = Inr a" "\<forall>x\<in>set pre. look x = Inl ErrNotFound" by blast
    with Inl \<open>e = ErrNotFound\<close> show ?thesis by (intro exI [of _ "h # pre"]) auto
  qed
qed simp

lemma tryLookup_None: "tryLookup look hs = Inr None \<longleftrightarrow> (\<forall>h\<in>set hs. look h = Inl ErrNotFound)"
  by (induction hs) (auto split: sum.splits if_splits)

lemma lookup_Inr: "lookup fault get h = Inr a \<Longrightarrow> TrimSpace h \<noteq> [] \<and> get h = Inr a"
  by (auto simp: lookup_def split: if_splits option.splits)

text \<open>Without driver errors a lookup that did not end in one has the same outcome.\<close>

lemma tryLookup_fault:
  assumes "\<forall>h. fault h \<noteq> Some ErrNotFound" and "tryLookup (lookup fault get) hs = Inr x"
  shows "tryLookup (lookup (\<lambda>_. None) get) hs = Inr x"
  using assms(2)
proof (induction hs)
  case (Cons h hs)
  show ?case
  proof (cases "lookup fault get h")
    case (Inr a)
    then show ?thesis using Cons.prems lookup_Inr [OF Inr] by (simp add: lookup_def)
  next
    case (Inl e)
    then have "e = ErrNotFound" and r: "tryLookup (lookup fault get) hs = Inr x" using Cons.prems by (auto split: if_splits)
    with Inl assms(1) have "lookup (\<lambda>_. None) get h = Inl ErrNotFound"
      by (auto simp: lookup_def split: if_splits option.splits)
    then show ?thesis using Cons.IH [OF r] by simp
  qed
qed simp

locale key_table =
  fixes get :: "string \<Rightarrow> 'db \<Rightarrow> store_error + 'a"
    and upgrade :: "string \<Rightarrow> string \<Rightarrow> 'db \<Rightarrow> (store_error + unit) \<times> 'db"
    and who :: "'a \<Rightarrow> 'p"
  assumes get_error: "get h db = Inl e \<Longrightarrow> e = ErrNotFound"
    and upgrade_new: "upgrade old new db = (Inr (), db') \<Longrightarrow> TrimSpace old \<noteq> [] \<Longrightarrow> TrimSpace new \<noteq> [] \<Longrightarrow> old \<noteq> new \<Longrightarrow>
      get new db = Inl ErrNotFound \<Longrightarrow> get old db = Inr a \<Longrightarrow> \<exists>a'. get new db' = Inr a' \<and> who a' = who a"
    and upgrade_other: "upgrade old new db = (r, db') \<Longrightarrow> h \<noteq> old \<Longrightarrow> h \<noteq> new \<Longrightarrow> get h db' = get h db"
    and upgrade_error: "upgrade old new db = (Inl e, db') \<Longrightarrow> db' = db"
begin

lemma login_sound:
  assumes "authenticate_hashes fault uf get upgrade c db = (Inr r, db')"
  shows "\<exists>h\<in>set (candidate_hashes c). TrimSpace h \<noteq> [] \<and> get h db = Inr (ar_Principal r)"
  using assms
  by (auto simp: authenticate_hashes_def Let_def candidate_hashes_def
      split: sum.splits option.splits if_splits prod.splits dest!: tryLookup_Some lookup_Inr)

text \<open>Logging in, with or without an upgrade of the stored hash, keeps the key working: the next
  login, without driver errors, finds the same principal.\<close>

lemma login_again:
  assumes "authenticate_hashes fault uf get upgrade c db = (Inr r, db')" and "\<forall>h. fault h \<noteq> Some ErrNotFound"
  shows "\<exists>r' db''. authenticate_hashes (\<lambda>_. None) None get upgrade c db' = (Inr r', db'') \<and> who (ar_Principal r') = who (ar_Principal r)"
proof -
  let ?look = "lookup fault (\<lambda>h. get h db)"
  let ?cp = "kh_Current c # kh_Previous c"
  consider (current) "tryLookup ?look ?cp = Inr (Some (ar_Principal r))" "db' = db"
    | (legacy) "tryLookup ?look ?cp = Inr None" "?look (kh_Legacy c) = Inr (ar_Principal r)"
        "db' = db \<or> (TrimSpace (kh_Current c) \<noteq> [] \<and> kh_Current c \<noteq> kh_Legacy c \<and>
           upgrade (kh_Legacy c) (kh_Current c) db = (Inr (), db'))"
    using assms(1)
    by (auto simp: authenticate_hashes_def Let_def split: sum.splits option.splits if_splits prod.splits dest: upgrade_error)
  then show ?thesis
  proof cases
    case current
    have "tryLookup (lookup (\<lambda>_. None) (\<lambda>h. get h db)) ?cp = Inr (Some (ar_Principal r))"
      using tryLookup_fault [OF assms(2) current(1)] .
    then show ?thesis using current(2) by (simp add: authenticate_hashes_def Let_def)
  next
    case legacy
    have n: "tryLookup (lookup (\<lambda>_. None) (\<lambda>h. get h db)) ?cp = Inr None"
      using tryLookup_fault [OF assms(2) legacy(1)] .
    have l: "lookup (\<lambda>_. None) (\<lambda>h. get h db) (kh_Legacy c) = Inr (ar_Principal r)"
      using lookup_Inr [OF legacy(2)] by (simp add: lookup_def)
    show ?thesis
    proof (cases "db' = db")
      case True
      then show ?thesis using n l
        by (auto simp: authenticate_hashes_def Let_def split: sum.splits prod.splits)
    next
      case False
      with legacy(3) have u: "TrimSpace (kh_Current c) \<noteq> []" "kh_Current c \<noteq> kh_Legacy c"
          "upgrade (kh_Legacy c) (kh_Current c) db = (Inr (), db')" by auto
      have "get (kh_Current c) db = Inl ErrNotFound"
        using n u(1) unfolding tryLookup_None by (auto simp: lookup_def)
      with upgrade_new [OF u(3) _ u(1)] u(2) lookup_Inr [OF legacy(2)]
      obtain a' where "get (kh_Current c) db' = Inr a'" "who a' = who (ar_Principal r)" by metis
      then show ?thesis using u(1) by (simp add: authenticate_hashes_def Let_def lookup_def)
    qed
  qed
qed

end

lemma map_filter_map: "List.map_filter f (map g xs) = List.map_filter (\<lambda>x. f (g x)) xs"
  by (induction xs) (auto simp: List.map_filter_simps split: option.splits)

lemma map_filter_cong: "(\<And>x. x \<in> set xs \<Longrightarrow> f x = g x) \<Longrightarrow> List.map_filter f xs = List.map_filter g xs"
  by (induction xs) (auto simp: List.map_filter_simps split: option.splits)

lemma set_map_filter: "y \<in> set (List.map_filter f xs) \<longleftrightarrow> (\<exists>x\<in>set xs. f x = Some y)"
  by (induction xs) (auto simp: List.map_filter_simps split: option.splits)

lemma GetTenant_keys:
  assumes "List.map_filter (\<lambda>k. if tk_KeyHash k = h then key_tenant db k else None) (td_keys db) =
    List.map_filter (\<lambda>k. if tk_KeyHash k = h' then key_tenant db' k else None) (td_keys db')"
  shows "GetTenantByKeyHash h db = GetTenantByKeyHash h' db'"
  using assms by (simp add: GetTenantByKeyHash_def)

interpretation tenant_table: key_table GetTenantByKeyHash UpgradeTenantKeyHash "\<lambda>t. t"
proof
  fix h db e
  show "GetTenantByKeyHash h db = Inl e \<Longrightarrow> e = ErrNotFound"
    by (auto simp: GetTenantByKeyHash_def split: list.splits)
next
  fix old new db db' a
  assume u: "UpgradeTenantKeyHash old new db = (Inr (), db')" and ne: "TrimSpace old \<noteq> []" "TrimSpace new \<noteq> []" "old \<noteq> new"
    and g: "GetTenantByKeyHash old db = Inr a"
  from u ne have fresh: "new \<notin> tk_KeyHash ` set (td_keys db)" and db': "db' = db\<lparr>td_keys := map (\<lambda>k. if tk_KeyHash k = old \<and> tk_RevokedAt k = None
      then k\<lparr>tk_KeyHash := new\<rparr> else k) (td_keys db)\<rparr>"
    by (auto simp: UpgradeTenantKeyHash_def split: if_splits)
  have "GetTenantByKeyHash new db' = GetTenantByKeyHash old db"
    unfolding db' by (rule GetTenant_keys)
      (use fresh ne(3) in \<open>auto simp: map_filter_map key_tenant_def intro!: map_filter_cong\<close>)
  with g show "\<exists>a'. GetTenantByKeyHash new db' = Inr a' \<and> a' = a" by simp
next
  fix old new db r db' h
  assume "UpgradeTenantKeyHash old new db = (r, db')" and "h \<noteq> old" "h \<noteq> new"
  then show "GetTenantByKeyHash h db' = GetTenantByKeyHash h db"
    by (auto simp: UpgradeTenantKeyHash_def map_filter_map key_tenant_def split: if_splits
        intro!: GetTenant_keys map_filter_cong)
next
  fix old new db e db'
  show "UpgradeTenantKeyHash old new db = (Inl e, db') \<Longrightarrow> db' = db"
    by (auto simp: UpgradeTenantKeyHash_def split: if_splits)
qed

interpretation admin_table: key_table GetAdminKeyByHash UpgradeAdminKeyHash "\<lambda>k. (ak_AdminKeyID k, ak_Scopes k)"
proof
  fix h db e
  show "GetAdminKeyByHash h db = Inl e \<Longrightarrow> e = ErrNotFound"
    by (auto simp: GetAdminKeyByHash_def split: list.splits)
next
  fix old new db db' a
  assume u: "UpgradeAdminKeyHash old new db = (Inr (), db')" and ne: "TrimSpace old \<noteq> []" "TrimSpace new \<noteq> []" "old \<noteq> new"
    and n: "GetAdminKeyByHash new db = Inl ErrNotFound" and g: "GetAdminKeyByHash old db = Inr a"
  from u ne have db': "db' = map (\<lambda>k. if ak_KeyHash k = old then k\<lparr>ak_KeyHash := new\<rparr> else k) db"
    by (auto simp: UpgradeAdminKeyHash_def split: if_splits)
  from n have fresh: "\<forall>k\<in>set db. ak_KeyHash k \<noteq> new"
    by (auto simp: GetAdminKeyByHash_def filter_empty_conv split: list.splits)
  have "filter (\<lambda>k. ak_KeyHash k = new) db' = map (\<lambda>k. k\<lparr>ak_KeyHash := new\<rparr>) (filter (\<lambda>k. ak_KeyHash k = old) db)"
    unfolding db' using fresh by (induction db) auto
  with g show "\<exists>a'. GetAdminKeyByHash new db' = Inr a' \<and> (ak_AdminKeyID a', ak_Scopes a') = (ak_AdminKeyID a, ak_Scopes a)"
    by (auto simp: GetAdminKeyByHash_def split: list.splits)
next
  fix old new db r db' h
  assume "UpgradeAdminKeyHash old new db = (r, db')" and "h \<noteq> old" "h \<noteq> new"
  moreover have "filter (\<lambda>k. ak_KeyHash k = h) (map (\<lambda>k. if ak_KeyHash k = old then k\<lparr>ak_KeyHash := new\<rparr> else k) db)
      = filter (\<lambda>k. ak_KeyHash k = h) db" using \<open>h \<noteq> old\<close> \<open>h \<noteq> new\<close> by (induction db) auto
  ultimately have "filter (\<lambda>k. ak_KeyHash k = h) db' = filter (\<lambda>k. ak_KeyHash k = h) db"
    by (auto simp: UpgradeAdminKeyHash_def split: if_splits)
  then show "GetAdminKeyByHash h db' = GetAdminKeyByHash h db" by (simp add: GetAdminKeyByHash_def)
next
  fix old new db e db'
  show "UpgradeAdminKeyHash old new db = (Inl e, db') \<Longrightarrow> db' = db"
    by (auto simp: UpgradeAdminKeyHash_def split: if_splits)
qed

subsection \<open>What a login shows\<close>

definition live_key :: "tenant_db \<Rightarrow> string list \<Rightarrow> tenant \<Rightarrow> tenant_key \<Rightarrow> bool" where
  "live_key db hashes t k =
     (tk_KeyHash k \<in> set hashes \<and> tk_RevokedAt k = None \<and>
      (case td_tenants db (tk_TenantID k) of None \<Rightarrow> False
       | Some row \<Rightarrow> tn_row row = t \<and> tn_Enabled t \<and> tn_DeletedAt row = None))"

lemma GetTenant_Inr: "GetTenantByKeyHash h db = Inr t \<Longrightarrow> \<exists>k\<in>set (td_keys db). live_key db [h] t k"
proof -
  assume "GetTenantByKeyHash h db = Inr t"
  then have "t \<in> set (List.map_filter (\<lambda>k. if tk_KeyHash k = h then key_tenant db k else None) (td_keys db))"
    by (auto simp: GetTenantByKeyHash_def split: list.splits)
  then obtain k where "k \<in> set (td_keys db)" "tk_KeyHash k = h" "key_tenant db k = Some t"
    by (auto simp: set_map_filter split: if_splits)
  then show ?thesis
    by (intro bexI [of _ k]) (auto simp: key_tenant_def live_key_def split: if_splits option.splits)
qed

definition tenant_key_hashes :: "crypto \<Rightarrow> string \<Rightarrow> string \<Rightarrow> key_hashes" where
  "tenant_key_hashes cy setting tenantKey = BuildKeyHashCandidates cy tenantKey (HMACSecretsFromEnv setting)"

lemma AuthenticateTenant_Inr:
  assumes "AuthenticateTenantDetailed fault uf cy setting tenantKey agentID db = (Inr r, db')"
  shows "tenantKey \<noteq> [] \<and> ValidateAgentID agentID = None \<and>
    authenticate_hashes fault uf GetTenantByKeyHash UpgradeTenantKeyHash (tenant_key_hashes cy setting tenantKey) db = (Inr r, db')"
  using assms by (auto simp: AuthenticateTenantDetailed_def tenant_key_hashes_def split: if_splits option.splits)

text \<open>A tenant is authenticated by a live key only: a successful login has a valid agent id and
  a non-empty key one of whose hashes is in a row that is not revoked and belongs to the returned
  tenant, which is enabled and not deleted; driver errors never let a request in.\<close>

theorem tenant_login_sound:
  assumes "AuthenticateTenantDetailed fault upgrade_fault cy setting tenantKey agentID db = (Inr r, db')"
  shows "tenantKey \<noteq> [] \<and> ValidateAgentID agentID = None \<and>
    (\<exists>k\<in>set (td_keys db). live_key db (candidate_hashes (tenant_key_hashes cy setting tenantKey)) (ar_Principal r) k)"
proof -
  note a = AuthenticateTenant_Inr [OF assms]
  from tenant_table.login_sound [OF conjunct2 [OF conjunct2 [OF a]]] obtain h where
    "h \<in> set (candidate_hashes (tenant_key_hashes cy setting tenantKey))" "GetTenantByKeyHash h db = Inr (ar_Principal r)" by blast
  with GetTenant_Inr [of h db] a show ?thesis by (fastforce simp: live_key_def)
qed

text \<open>Logging in never locks a key out: after any successful login, also one that moved the
  stored hash to the current secret, and whatever driver errors it met, the same key logs in
  again as the same tenant.\<close>

theorem login_keeps_key:
  assumes "AuthenticateTenantDetailed fault upgrade_fault cy setting tenantKey agentID db = (Inr r, db')"
    and "\<forall>h. fault h \<noteq> Some ErrNotFound"
  shows "\<exists>r' db''. AuthenticateTenantDetailed (\<lambda>_. None) None cy setting tenantKey agentID db' = (Inr r', db'') \<and>
    ar_Principal r' = ar_Principal r"
proof -
  note a = AuthenticateTenant_Inr [OF assms(1)]
  from tenant_table.login_again [OF conjunct2 [OF conjunct2 [OF a]] assms(2)] a show ?thesis
    by (simp add: AuthenticateTenantDetailed_def tenant_key_hashes_def)
qed

lemma GetTenant_none: "(\<forall>k\<in>set (td_keys db). tk_KeyHash k = h \<longrightarrow> tk_RevokedAt k \<noteq> None) \<Longrightarrow> GetTenantByKeyHash h db = Inl ErrNotFound"
proof -
  assume "\<forall>k\<in>set (td_keys db). tk_KeyHash k = h \<longrightarrow> tk_RevokedAt k \<noteq> None"
  then have "List.map_filter (\<lambda>k. if tk_KeyHash k = h then key_tenant db k else None) (td_keys db) = []"
    by (auto simp: List.map_filter_def key_tenant_def filter_empty_conv)
  then show ?thesis by (simp add: GetTenantByKeyHash_def)
qed

text \<open>A revoked key is refused: once the row of a key has been revoked, and no other row holds
  one of the key's hashes, a login with that key is unauthorized and changes nothing.\<close>

theorem revoked_key_refused:
  assumes "RevokeTenantKey tenantID keyID now db = (Inr (), db')" and "ValidateAgentID agentID = None"
    and "\<forall>k\<in>set (td_keys db). tk_KeyHash k \<in> set (candidate_hashes (tenant_key_hashes cy setting tenantKey)) \<longrightarrow>
      tk_KeyID k = keyID \<and> tk_TenantID k = tenantID"
  shows "AuthenticateTenantDetailed (\<lambda>_. None) upgrade_fault cy setting tenantKey agentID db' = (Inl ErrUnauthorized, db')"
proof -
  let ?c = "tenant_key_hashes cy setting tenantKey"
  from assms(1) have db': "db' = db\<lparr>td_keys := map (\<lambda>k. if tk_KeyID k = keyID \<and> tk_TenantID k = tenantID \<and> tk_RevokedAt k = None
      then k\<lparr>tk_RevokedAt := Some now\<rparr> else k) (td_keys db)\<rparr>"
    by (auto simp: RevokeTenantKey_def split: if_splits)
  have n: "GetTenantByKeyHash h db' = Inl ErrNotFound" if "h \<in> set (candidate_hashes ?c)" for h
    using assms(3) that unfolding db' by (intro GetTenant_none) auto
  have "tryLookup (lookup (\<lambda>_. None) (\<lambda>h. GetTenantByKeyHash h db')) hs = Inr None"
    if "set hs \<subseteq> set (candidate_hashes ?c)" for hs
    unfolding tryLookup_None using n that by (auto simp: lookup_def)
  note none = this
  have t: "tryLookup (lookup (\<lambda>_. None) (\<lambda>h. GetTenantByKeyHash h db')) (kh_Current ?c # kh_Previous ?c) = Inr None"
      "tryLookup (lookup (\<lambda>_. None) (\<lambda>h. GetTenantByKeyHash h db')) [kh_Legacy ?c] = Inr None"
    by (rule none, force simp: candidate_hashes_def)+
  have "authenticate_hashes (\<lambda>_. None) upgrade_fault GetTenantByKeyHash UpgradeTenantKeyHash ?c db' = (Inl ErrUnauthorized, db')"
    unfolding authenticate_hashes_def Let_def t by simp
  then show ?thesis using assms(2) by (simp add: AuthenticateTenantDetailed_def tenant_key_hashes_def)
qed

text \<open>Administrators act within their scopes: a request that is authorised for a scope was made
  with a stored key, and a key all of whose scopes are read-like (read, export or simulate) is
  never authorised for anything that is not read-like.\<close>

theorem admin_scope_respected:
  assumes "AuthenticateAdmin fault upgrade_fault cy setting adminKey requiredScope db = (Inr key, db')"
  shows "key \<in> set db \<and> ak_KeyHash key \<in> set (candidate_hashes (BuildKeyHashCandidates cy adminKey (HMACSecretsFromEnv setting))) \<and>
    (list_all isReadLikeScope (ak_Scopes key) \<longrightarrow> isReadLikeScope requiredScope)"
proof -
  have w: "\<not> isReadLikeScope ''admin:write''" by code_simp
  from assms obtain r where r: "authenticate_hashes fault upgrade_fault GetAdminKeyByHash UpgradeAdminKeyHash
      (BuildKeyHashCandidates cy adminKey (HMACSecretsFromEnv setting)) db = (Inr r, db')" "key = ar_Principal r"
      and s: "hasScope (ak_Scopes key) requiredScope"
    by (auto simp: AuthenticateAdmin_def AuthenticateAdminAny_def split: if_splits prod.splits sum.splits)
  from admin_table.login_sound [OF r(1)] obtain h where
      h: "h \<in> set (candidate_hashes (BuildKeyHashCandidates cy adminKey (HMACSecretsFromEnv setting)))"
        "GetAdminKeyByHash h db = Inr key" using r(2) by blast
  then have "key \<in> set (filter (\<lambda>k. ak_KeyHash k = h) db)"
    by (auto simp: GetAdminKeyByHash_def split: list.splits simp del: set_filter)
  with h(1) have "key \<in> set db \<and>
      ak_KeyHash key \<in> set (candidate_hashes (BuildKeyHashCandidates cy adminKey (HMACSecretsFromEnv setting)))"
    by auto
  moreover have "isReadLikeScope requiredScope" if "list_all isReadLikeScope (ak_Scopes key)"
    using s w that by (auto simp: hasScope_def list_all_iff split: if_splits)
  ultimately show ?thesis by blast
qed

subsection \<open>Concrete keys\<close>

definition sample_crypto :: crypto where
  "sample_crypto = \<lparr>cy_sha256hex = (\<lambda>s. ''s'' @ s), cy_hmachex = (\<lambda>s k. k @ s)\<rparr>"

text \<open>One tenant with one key, stored under its legacy hash.\<close>

definition sample_db :: tenant_db where
  "sample_db =
     \<lparr>td_tenants = [''t1'' \<mapsto> \<lparr>tn_row = \<lparr>tn_TenantID = ''t1'', tn_Name = ''One'', tn_Enabled = True\<rparr>, tn_DeletedAt = None\<rparr>],
      td_keys = [\<lparr>tk_KeyID = ''k1'', tk_TenantID = ''t1'', tk_KeyHash = ''skey'', tk_RevokedAt = None\<rparr>]\<rparr>"

definition upgraded_keys :: "tenant_key list" where
  "upgraded_keys = [\<lparr>tk_KeyID = ''k1'', tk_TenantID = ''t1'', tk_KeyHash = ''n1key'', tk_RevokedAt = None\<rparr>]"

definition sample_result :: "tenant auth_result" where
  "sample_result = \<lparr>ar_Principal = \<lparr>tn_TenantID = ''t1'', tn_Name = ''One'', tn_Enabled = True\<rparr>,
     ar_LegacyHashMatched = True, ar_LegacyHashUpgraded = True\<rparr>"

lemma sample_hashes: "tenant_key_hashes sample_crypto ''n1,o2'' ''key'' =
    \<lparr>kh_Current = ''n1key'', kh_Previous = [''o2key''], kh_Legacy = ''skey''\<rparr>"
  by code_simp

lemma sample_agent: "ValidateAgentID ''bot-1'' = None"
  by code_simp

lemma sample_login:
  "AuthenticateTenantDetailed (\<lambda>_. None) None sample_crypto ''n1,o2'' ''key'' ''bot-1'' sample_db =
   (Inr sample_result, sample_db\<lparr>td_keys := upgraded_keys\<rparr>)"
proof -
  have t: "TrimSpace ''n1key'' \<noteq> []" "TrimSpace ''o2key'' \<noteq> []" "TrimSpace ''skey'' \<noteq> []" by code_simp+
  show ?thesis
    unfolding AuthenticateTenantDetailed_def sample_agent
      sample_hashes [unfolded tenant_key_hashes_def]
    by (simp add: authenticate_hashes_def Let_def lookup_def t GetTenantByKeyHash_def sample_db_def key_tenant_def
        List.map_filter_simps UpgradeTenantKeyHash_def sample_result_def upgraded_keys_def)
qed

theorem tenant_login_sound_witness:
  "\<exists>k\<in>set (td_keys sample_db). live_key sample_db
     (candidate_hashes (tenant_key_hashes sample_crypto ''n1,o2'' ''key'')) (ar_Principal sample_result) k"
  using tenant_login_sound [OF sample_login] by blast

theorem login_keeps_key_witness:
  "\<exists>r' db''. AuthenticateTenantDetailed (\<lambda>_. None) None sample_crypto ''n1,o2'' ''key'' ''bot-1''
      (sample_db\<lparr>td_keys := upgraded_keys\<rparr>) = (Inr r', db'') \<and> ar_Principal r' = ar_Principal sample_result"
  by (rule login_keeps_key [OF sample_login]) simp

theorem revoked_key_refused_witness:
  "fst (AuthenticateTenantDetailed (\<lambda>_. None) None sample_crypto ''n1,o2'' ''key'' ''bot-1''
     (snd (RevokeTenantKey ''t1'' ''k1'' 5 sample_db))) = Inl ErrUnauthorized"
proof -
  have r: "RevokeTenantKey ''t1'' ''k1'' 5 sample_db = (Inr (), snd (RevokeTenantKey ''t1'' ''k1'' 5 sample_db))"
    by (simp add: RevokeTenantKey_def sample_db_def)
  show ?thesis
    using revoked_key_refused [OF r sample_agent, of sample_crypto "''n1,o2''" "''key''" None] by (simp add: sample_db_def)
qed

theorem admin_scope_respected_witness:
  "fst (AuthenticateAdmin (\<lambda>_. None) None sample_crypto [] ''key'' ''tools:read''
     [\<lparr>ak_AdminKeyID = ''a1'', ak_KeyHash = ''skey'', ak_Scopes = [''admin:read'']\<rparr>]) =
   Inr \<lparr>ak_AdminKeyID = ''a1'', ak_KeyHash = ''skey'', ak_Scopes = [''admin:read'']\<rparr> \<and> isReadLikeScope ''tools:read''"
proof -
  let ?key = "\<lparr>ak_AdminKeyID = ''a1'', ak_KeyHash = ''skey'', ak_Scopes = [''admin:read'']\<rparr>"
  have h: "BuildKeyHashCandidates sample_crypto ''key'' (HMACSecretsFromEnv []) =
      \<lparr>kh_Current = [], kh_Previous = [], kh_Legacy = ''skey''\<rparr>" by code_simp
  have t: "TrimSpace ''skey'' \<noteq> []" "TrimSpace [] = []" "hasScope [''admin:read''] ''tools:read''" by code_simp+
  have a: "AuthenticateAdmin (\<lambda>_. None) None sample_crypto [] ''key'' ''tools:read'' [?key] = (Inr ?key, [?key])"
    unfolding AuthenticateAdmin_def AuthenticateAdminAny_def h
    by (simp add: authenticate_hashes_def Let_def lookup_def t GetAdminKeyByHash_def)
  have "isReadLikeScope ''admin:read''" by code_simp
  with admin_scope_respected [OF a] a show ?thesis by simp
qed

end
