(* ===== verification/Tool_Call.thy ===== *)
theory Tool_Call
  imports Approval_Exec Classification File_Governance Arg_Constraints License Provenance Key_Auth Gateway_Config
begin

text \<open>
  \<open>handleToolCall\<close> of \<open>src/internal/api/public/handlers.go\<close>, the REST entry of the
  gateway, composed of the components: authentication, quota, decoding, canonical hash,
  classification, the replay path of an approved call, risk override, file governance,
  provenance, policy, rate limit, argument constraints, and the three ways a decision ends. The
  handler is cut into its successive stages, each a definition that returns early with a reply or
  passes on.

  A request runs in an environment: its headers and body, the gateway's configuration, a snapshot
  of the configuration tables, the driver errors of its store calls, clock readings, random
  identifiers, the policy engine, the regular expression compiler, the connector and the
  credential resolver. \<open>ce_tool\<close> and \<open>ce_risk\<close> are the answers of \<open>getToolCached\<close> and
  \<open>getRiskOverrideCached\<close>. The state are the tables the handler writes: keys (upgraded hashes),
  usage meters, rate counters, approvals and decisions, and the evaluator's caches. Metrics, log
  lines and response headers are left out.
\<close>

subsection \<open>State and environment\<close>

record 'q gateway =
  gw_tenants :: tenant_db
  gw_meters :: meters
  gw_counters :: counters
  gw_store :: store_db
  gw_evaluator :: "'q evaluator"

datatype call_site =
    At_Flag string
  | At_KeyLookup string
  | At_KeyUpgrade
  | At_Quota
  | At_Policy
  | At_Enforcement
  | At_RateConfig
  | At_Rate string
  | At_DefaultTTL
  | At_InsertApproval
  | At_InsertDecision

datatype moment = Time_provenance | Time_policy | Time_rate | Time_record | Time_approval

datatype fresh_id = Id_request | Id_decision | Id_approval

record 'q call_env =
  ce_cfg :: gateway_config
  ce_db :: config_db
  ce_fault :: "call_site \<Rightarrow> store_error option"
  ce_header :: http_header
  ce_toolID :: string
  ce_body :: string
  ce_crypto :: crypto
  ce_secrets :: string
  ce_entitlements :: "entitlements option"
  ce_period :: string
  ce_tool :: "store_error + tool"
  ce_risk :: "store_error + string"
  ce_connector :: "connector option"
  ce_resolver :: "resolver option"
  ce_rego :: "'q rego_engine option"
  ce_regexps :: regexps
  ce_rateRow :: "tenant_rate_row option"
  ce_mac :: mac
  ce_provenance :: "provenance_manager option"
  ce_clock :: "moment \<Rightarrow> time"
  ce_id :: "fresh_id \<Rightarrow> string"
  ce_random :: "string option"
  ce_exec :: exec_env

record 'q call_outcome =
  co_reply :: reply
  co_events :: "event list"
  co_sent :: "connector_request list"
  co_gateway :: "'q gateway"

definition site :: "'q call_env \<Rightarrow> call_site \<Rightarrow> faults" where
  "site env s k = ce_fault env s"

definition answer :: "reply \<Rightarrow> 'q gateway \<Rightarrow> 'q call_outcome" where
  "answer r gw = \<lparr>co_reply = r, co_events = [], co_sent = [], co_gateway = gw\<rparr>"

lemma answer_simps [simp]:
  "co_reply (answer r gw) = r" "co_events (answer r gw) = []" "co_sent (answer r gw) = []"
  "co_gateway (answer r gw) = gw"
  by (simp_all add: answer_def)

subsection \<open>The request\<close>

record tool_call =
  rq_TenantID :: string
  rq_AgentID :: string
  rq_ToolID :: string
  rq_RequestID :: string
  rq_Payload :: tool_call_request
  rq_Body :: string
  rq_Headers :: headers
  rq_Hash :: string
  rq_Class :: classification

definition payload_fields :: "(string \<times> tool_call_request field) list" where
  "payload_fields =
     [(''http_method'', string_field tq_HTTPMethod_update), (''path'', string_field tq_Path_update),
      (''query'', string_field tq_Query_update), (''headers'', string_map_field tq_Headers_update tq_Headers),
      (''body'', string_field tq_Body_update)]"

definition zero_payload :: tool_call_request where
  "zero_payload = \<lparr>tq_HTTPMethod = [], tq_Path = [], tq_Query = [], tq_Headers = [], tq_Body = []\<rparr>"

definition decode_payload :: "string \<Rightarrow> tool_call_request option" where
  "decode_payload body = Option.bind (first_members body) (decode_struct payload_fields zero_payload)"

definition authError :: "auth_error \<Rightarrow> reply" where
  "authError e =
     (case e of
        ErrUnauthorized \<Rightarrow> Reply_error 401 ''unauthorized''
      | ErrInvalidAgentID \<Rightarrow>
          Reply_error 400 ''invalid agent_id: must be 1-128 chars, alphanumeric/underscore/dash/dot only''
      | ErrForbidden \<Rightarrow> Reply_error 403 ''forbidden''
      | Auth_store _ \<Rightarrow> Reply_error 500 ''auth error'')"

definition authenticateTenantRequest ::
  "'q call_env \<Rightarrow> tenant_db \<Rightarrow> (auth_error + tenant \<times> string) \<times> tenant_db" where
  "authenticateTenantRequest env db =
     (let agentID = ce_header env ''X-Agent-Id'';
          flag = ''disable_x_tenant_key'';
          (tenantKey, usedFallback) = TenantKeyFromRequest (ce_header env)
             (disableXTenantKeyEnabled (site env (At_Flag flag)) (ce_cfg env) (Some (ce_db env)))
      in case AuthenticateTenantDetailed (\<lambda>h. ce_fault env (At_KeyLookup h)) (ce_fault env At_KeyUpgrade)
                (ce_crypto env) (ce_secrets env) tenantKey agentID db of
           (Inl e, db') \<Rightarrow> (Inl e, db')
         | (Inr r, db') \<Rightarrow> (Inr (ar_Principal r, agentID), db'))"

definition canonical_of :: "string \<Rightarrow> string \<Rightarrow> string \<Rightarrow> tool_call_request \<Rightarrow> headers \<Rightarrow> string \<Rightarrow> string \<Rightarrow> canonical_request" where
  "canonical_of tenantID agentID toolID payload filtered bodyHash idempotencyKey =
     \<lparr>cr_TenantID = tenantID, cr_AgentID = agentID, cr_ToolID = toolID, cr_Method = tq_HTTPMethod payload,
      cr_Path = tq_Path payload, cr_Query = tq_Query payload, cr_Headers = filtered,
      cr_BodyHash = bodyHash, cr_IdempotencyKey = idempotencyKey\<rparr>"

definition readToolCall :: "'q call_env \<Rightarrow> string \<Rightarrow> string \<Rightarrow> reply + tool_call" where
  "readToolCall env tenantID agentID =
     (case decode_payload (ce_body env) of
        None \<Rightarrow> Inl (Reply_error 400 ''invalid request body'')
      | Some decoded \<Rightarrow>
          (let payload = decoded\<lparr>tq_HTTPMethod := ToUpper (TrimSpace (tq_HTTPMethod decoded))\<rparr>;
               body = tq_Body payload;
               requestID = (if ce_header env ''X-Request-Id'' = [] then ce_id env Id_request
                            else ce_header env ''X-Request-Id'')
           in if tq_HTTPMethod payload = [] \<or> tq_Path payload = []
              then Inl (Reply_error 400 ''http_method and path required'')
              else if int (length body) > gc_BodyLimitSize (ce_cfg env)
              then Inl (Reply_error 413 ''body too large'')
              else (let filtered = FilterHeaders (tq_Headers payload);
                        sha = cy_sha256hex (ce_crypto env);
                        canonical = canonical_of tenantID agentID (ce_toolID env) payload filtered
                          (HashBody sha body) (ce_header env ''Idempotency-Key'')
                    in Inr \<lparr>rq_TenantID = tenantID, rq_AgentID = agentID, rq_ToolID = ce_toolID env,
                            rq_RequestID = requestID, rq_Payload = payload, rq_Body = body,
                            rq_Headers = filtered, rq_Hash = HashCanonical sha canonical,
                            rq_Class = Classify (ce_toolID env) (tq_HTTPMethod payload) (tq_Path payload)
                              (tq_Query payload)\<rparr>)))"

subsection \<open>Replaying an approved call\<close>

definition replay_env :: "'q call_env \<Rightarrow> exec_env" where
  "replay_env env = (ce_exec env)\<lparr>ev_sha256hex := cy_sha256hex (ce_crypto env), ev_tool := ce_tool env,
     ev_connector := ce_connector env, ev_resolver := ce_resolver env\<rparr>"

definition replay_params :: "tool_call \<Rightarrow> string \<Rightarrow> string \<Rightarrow> approved_params" where
  "replay_params rq approvalID approvalToken =
     \<lparr>pm_tenantID = rq_TenantID rq, pm_agentID = rq_AgentID rq, pm_toolID = rq_ToolID rq,
      pm_requestID = rq_RequestID rq, pm_requestHash = rq_Hash rq,
      pm_classificationRisk = cl_ActionRisk (rq_Class rq), pm_classificationType = cl_ActionType (rq_Class rq),
      pm_classificationSummary = cl_ActionSummary (rq_Class rq), pm_payload = rq_Payload rq,
      pm_bodyBytes = rq_Body rq, pm_filteredHeaders = rq_Headers rq,
      pm_approvalID = approvalID, pm_approvalToken = approvalToken\<rparr>"

definition replayToolCall :: "'q call_env \<Rightarrow> tool_call \<Rightarrow> string \<Rightarrow> string \<Rightarrow> 'q gateway \<Rightarrow> 'q call_outcome" where
  "replayToolCall env rq approvalID approvalToken gw =
     (let out = handleApprovedToolCall (replay_env env) (replay_params rq approvalID approvalToken) (gw_store gw)
      in \<lparr>co_reply = oc_reply out, co_events = oc_events out, co_sent = oc_sent out,
          co_gateway = gw\<lparr>gw_store := oc_db out\<rparr>\<rparr>)"

subsection \<open>Recording and executing a decision\<close>

definition decision_adr ::
  "'q call_env \<Rightarrow> tool_call \<Rightarrow> string \<Rightarrow> policy_result \<Rightarrow> string \<Rightarrow> decision_rule \<Rightarrow> decision_reason list \<Rightarrow> gomap
   \<Rightarrow> action_decision_record" where
  "decision_adr env rq sourceDecisionID pr decision rule reasons constraints =
     \<lparr>adr_DecisionID = ''d_'' @ ce_id env Id_decision, adr_RequestID = rq_RequestID rq,
      adr_TenantID = rq_TenantID rq, adr_AgentID = rq_AgentID rq, adr_ToolID = rq_ToolID rq,
      adr_ActionType = cl_ActionType (rq_Class rq), adr_ActionRisk = cl_ActionRisk (rq_Class rq),
      adr_ActionSummary = cl_ActionSummary (rq_Class rq), adr_Decision = decision,
      adr_DecisionVersion = pr_Version pr, adr_DecisionRisk = pr_Risk pr, adr_RuleID = dr_ID rule,
      adr_RulePriority = dr_Priority rule, adr_Reasons = reasons, adr_Constraints = constraints,
      adr_Tags = pr_Tags pr, adr_PolicyVersion = pr_PolicyVersion pr, adr_Reason = firstReasonMessage reasons,
      adr_RequestHash = rq_Hash rq, adr_ResponseHash = [], adr_ApprovalRequestID = [],
      adr_SourceDecisionID = sourceDecisionID, adr_CreatedAt = ce_clock env Time_record\<rparr>"

definition record_decision ::
  "'q call_env \<Rightarrow> action_decision_record \<Rightarrow> 'q gateway \<Rightarrow> (reply + unit) \<times> 'q gateway" where
  "record_decision env adr gw =
     (case ce_fault env At_InsertDecision of
        Some _ \<Rightarrow> (Inl (Reply_error 500 ''failed to persist decision''), gw)
      | None \<Rightarrow> (case InsertADR adr (gw_store gw) of
            (Inl _, db) \<Rightarrow> (Inl (Reply_error 500 ''failed to persist decision''), gw\<lparr>gw_store := db\<rparr>)
          | (Inr _, db) \<Rightarrow> (Inr (), gw\<lparr>gw_store := db\<rparr>)))"

definition exec_error_reply :: "exec_error \<Rightarrow> reply" where
  "exec_error_reply e =
     (case e of
        Exec_tool_not_found \<Rightarrow> Reply_error 404 ''tool not found''
      | Exec_connector_missing \<Rightarrow> Reply_error 500 ''connector not configured''
      | _ \<Rightarrow> Reply_error 502 ''tool execution failed'')"

definition run_tool :: "'q call_env \<Rightarrow> tool_call \<Rightarrow> (exec_error + connector_response) \<times> connector_request list" where
  "run_tool env rq =
     executeToolCall (ce_tool env) (ce_connector env) (ce_resolver env) (rq_Payload rq) (rq_Body rq) (rq_Headers rq)"

definition tool_reply :: "tool_call \<Rightarrow> string \<Rightarrow> decision_reason list \<Rightarrow> connector_response \<Rightarrow> tool_call_response" where
  "tool_reply rq decision reasons resp = empty_response\<lparr>rp_RequestID := rq_RequestID rq, rp_Decision := decision,
     rp_Reason := firstReasonMessage reasons, rp_ToolStatus := cs_Status resp, rp_ToolHeaders := cs_Headers resp,
     rp_ToolBody := cs_Body resp\<rparr>"

definition executeRESTShadowDeny ::
  "'q call_env \<Rightarrow> tool_call \<Rightarrow> decision_reason list \<Rightarrow> gomap \<Rightarrow> 'q gateway \<Rightarrow> 'q call_outcome" where
  "executeRESTShadowDeny env rq reasons shadowMeta gw =
     (case run_tool env rq of
        (Inl e, sent) \<Rightarrow> \<lparr>co_reply = exec_error_reply e, co_events = [], co_sent = sent, co_gateway = gw\<rparr>
      | (Inr resp, sent) \<Rightarrow>
          \<lparr>co_reply = Reply_tool 200 ((tool_reply rq ''DENY'' reasons resp)\<lparr>rp_RbitrShadow := shadowMeta,
             rp_ShadowDenied := True\<rparr>), co_events = [], co_sent = sent, co_gateway = gw\<rparr>)"

text \<open>The common shape of the three denials: record, then answer, or execute in shadow mode.\<close>

definition deny_call ::
  "'q call_env \<Rightarrow> tool_call \<Rightarrow> string \<Rightarrow> string \<Rightarrow> policy_result \<Rightarrow> decision_rule \<Rightarrow> decision_reason list \<Rightarrow> gomap
   \<Rightarrow> reply \<Rightarrow> 'q gateway \<Rightarrow> 'q call_outcome" where
  "deny_call env rq source mode pr rule reasons constraints refusal gw =
     (case record_decision env (decision_adr env rq source pr ''DENY'' rule reasons constraints) gw of
        (Inl r, gw1) \<Rightarrow> answer r gw1
      | (Inr _, gw1) \<Rightarrow>
          if isShadowMode mode
          then executeRESTShadowDeny env rq reasons
                 (buildShadowDecisionMetadata (dr_ID rule) (pr_Risk pr) (pr_PolicyVersion pr) reasons constraints) gw1
          else answer refusal gw1)"

definition deny_reply :: "tool_call \<Rightarrow> decision_reason list \<Rightarrow> reply" where
  "deny_reply rq reasons = Reply_tool 403 (empty_response\<lparr>rp_RequestID := rq_RequestID rq, rp_Decision := ''DENY'',
     rp_Reason := firstReasonMessage reasons\<rparr>)"

definition new_approval ::
  "'q call_env \<Rightarrow> tool_call \<Rightarrow> policy_result \<Rightarrow> gomap \<Rightarrow> string \<Rightarrow> approval_request" where
  "new_approval env rq pr constraints token =
     (let now = ce_clock env Time_approval;
          actionRisk = (if pr_Risk pr = [] then cl_ActionRisk (rq_Class rq) else pr_Risk pr)
      in \<lparr>ap_ApprovalRequestID = ''ar_'' @ ce_id env Id_approval, ap_TenantID = rq_TenantID rq,
          ap_AgentID = rq_AgentID rq, ap_ToolID = rq_ToolID rq, ap_ActionType = cl_ActionType (rq_Class rq),
          ap_RequestHash = rq_Hash rq, ap_RequestContext = buildApprovalRequestContext (rq_Payload rq),
          ap_Status = PENDING, ap_ApprovalTokenHash = cy_sha256hex (ce_crypto env) token,
          ap_ExpiresAt = now + approvalTTL (site env At_DefaultTTL) (Some (ce_db env)) constraints,
          ap_CreatedAt = now, ap_PolicyVersion = pr_PolicyVersion pr, ap_DecidedAt = None, ap_DecidedBy = [],
          ap_DecisionComment = [], ap_ExecutingAt = None, ap_ExecutionID = [], ap_ExecutedAt = None,
          ap_ExecutedRequestID = [], ap_ExecutedDecisionID = [], ap_FailedAt = None, ap_LastErrorCode = [],
          ap_RequestDecisionID = ''d_'' @ ce_id env Id_decision, ap_ActionSummary = cl_ActionSummary (rq_Class rq),
          ap_Risk = actionRisk, ap_RuleID = dr_ID (pr_Rule pr), ap_Reasons = pr_Reasons pr\<rparr>)"

definition requestApproval ::
  "'q call_env \<Rightarrow> tool_call \<Rightarrow> string \<Rightarrow> policy_result \<Rightarrow> gomap \<Rightarrow> 'q gateway \<Rightarrow> 'q call_outcome" where
  "requestApproval env rq source pr constraints gw =
     (let violation = checkFeatureAccess (ce_entitlements env) ''approval_workflows'' in
      if violation \<noteq> []
      then answer (Reply_json 402 [(''error'', Str_v ''feature_locked''), (''message'', Str_v violation)]) gw
      else case generateApprovalToken (ce_random env) of
        None \<Rightarrow> answer (Reply_error 500 ''failed to generate approval token'') gw
      | Some token \<Rightarrow>
          (let approval = new_approval env rq pr constraints token;
               adr = (decision_adr env rq source pr (pr_Decision pr) (pr_Rule pr) (pr_Reasons pr) constraints)
                 \<lparr>adr_ApprovalRequestID := ap_ApprovalRequestID approval\<rparr>
           in case (case ce_fault env At_InsertApproval of Some e \<Rightarrow> (Inl e, gw_store gw)
                    | None \<Rightarrow> InsertApprovalRequest approval (gw_store gw)) of
                (Inl _, db) \<Rightarrow> answer (Reply_error 500 ''failed to persist approval'') (gw\<lparr>gw_store := db\<rparr>)
              | (Inr _, db) \<Rightarrow>
                  (case record_decision env adr (gw\<lparr>gw_store := db\<rparr>) of
                     (Inl r, gw1) \<Rightarrow> answer r gw1
                   | (Inr _, gw1) \<Rightarrow>
                       answer (Reply_tool 409 (empty_response\<lparr>rp_Error := ''approval_required'',
                         rp_RequestID := rq_RequestID rq, rp_Decision := ''REQUIRE_APPROVAL'',
                         rp_Reason := firstReasonMessage (pr_Reasons pr),
                         rp_ApprovalRequestID := ap_ApprovalRequestID approval, rp_ApprovalToken := token,
                         rp_ExpiresAt := Some (ap_ExpiresAt approval),
                         rp_ActionType := cl_ActionType (rq_Class rq), rp_Risk := ap_Risk approval\<rparr>)) gw1)))"

definition allowCall ::
  "'q call_env \<Rightarrow> tool_call \<Rightarrow> string \<Rightarrow> policy_result \<Rightarrow> gomap \<Rightarrow> 'q gateway \<Rightarrow> 'q call_outcome" where
  "allowCall env rq source pr constraints gw =
     (case run_tool env rq of
        (Inl e, sent) \<Rightarrow> \<lparr>co_reply = exec_error_reply e, co_events = [], co_sent = sent, co_gateway = gw\<rparr>
      | (Inr resp, sent) \<Rightarrow>
          (case record_decision env ((decision_adr env rq source pr (pr_Decision pr) (pr_Rule pr) (pr_Reasons pr)
                  constraints)\<lparr>adr_ResponseHash := cs_BodyHash resp\<rparr>) gw of
             (Inl r, gw1) \<Rightarrow> \<lparr>co_reply = r, co_events = [], co_sent = sent, co_gateway = gw1\<rparr>
           | (Inr _, gw1) \<Rightarrow> \<lparr>co_reply = Reply_tool 200 (tool_reply rq ''ALLOW'' (pr_Reasons pr) resp),
               co_events = [], co_sent = sent, co_gateway = gw1\<rparr>))"

subsection \<open>From the policy's answer to the end\<close>

definition settleDecision ::
  "'q call_env \<Rightarrow> tool_call \<Rightarrow> string \<Rightarrow> string \<Rightarrow> policy_result \<Rightarrow> gomap \<Rightarrow> 'q gateway \<Rightarrow> 'q call_outcome" where
  "settleDecision env rq source mode pr constraints gw =
     (if pr_Decision pr = ''DENY''
      then deny_call env rq source mode pr (pr_Rule pr) (pr_Reasons pr) constraints (deny_reply rq (pr_Reasons pr)) gw
      else if pr_Decision pr = ''REQUIRE_APPROVAL'' then requestApproval env rq source pr constraints gw
      else if pr_Decision pr = ''ALLOW'' then allowCall env rq source pr constraints gw
      else answer (Reply_error 500 ''unknown decision'') gw)"

definition constrainArguments ::
  "'q call_env \<Rightarrow> tool_call \<Rightarrow> string \<Rightarrow> string \<Rightarrow> policy_result \<Rightarrow> gomap \<Rightarrow> 'q gateway \<Rightarrow> 'q call_outcome" where
  "constrainArguments env rq source mode pr constraints gw =
     (case enforceArgumentConstraints (ce_regexps env)
             (featureArgConstraintsEnabled (site env (At_Flag ''feature_arg_constraints'')) (ce_cfg env) (Some (ce_db env)))
             constraints (parseRESTArguments UnmarshalAny (rq_Body rq)) of
        None \<Rightarrow> settleDecision env rq source mode pr constraints gw
      | Some v \<Rightarrow>
          (let reasons = [\<lparr>rs_Code = av_ReasonCode v, rs_Message = av_Message v\<rparr>]
           in deny_call env rq source mode pr \<lparr>dr_ID = argConstraintRuleID (Some v), dr_Priority = 1000\<rparr> reasons
                (withArgConstraintFailures constraints (Some v)) (deny_reply rq reasons) gw))"

definition rate_reply :: "rate_violation \<Rightarrow> reply" where
  "rate_reply v = Reply_json 429 [(''code'', Str_v ''RATE_LIMIT_EXCEEDED''), (''window'', Str_v (rv_Window v)),
     (''limit'', Int_v (rv_Limit v)), (''retry_after_seconds'', Int_v (rv_RetryAfterSeconds v)),
     (''scope'', Str_v (rv_Scope v))]"

definition stored_rate_config :: "'q call_env \<Rightarrow> store_error + rate_limit_config" where
  "stored_rate_config env =
     (case ce_fault env At_RateConfig of Some e \<Rightarrow> Inl e
      | None \<Rightarrow> GetEffectiveRateLimitConfig (ce_rateRow env) (cb_settings (ce_db env)))"

definition limitRate ::
  "'q call_env \<Rightarrow> tool_call \<Rightarrow> string \<Rightarrow> string \<Rightarrow> policy_result \<Rightarrow> gomap \<Rightarrow> 'q gateway \<Rightarrow> 'q call_outcome" where
  "limitRate env rq source mode pr constraints gw =
     (case enforceRateLimit
             (featureRateLimitingEnabled (site env (At_Flag ''feature_rate_limiting'')) (ce_cfg env) (Some (ce_db env)))
             (stored_rate_config env) (\<lambda>w. ce_fault env (At_Rate w))
             \<lparr>rk_tenantID = rq_TenantID rq, rk_agentID = rq_AgentID rq, rk_toolID = rq_ToolID rq,
              rk_actionType = cl_ActionType (rq_Class rq)\<rparr> constraints (ce_clock env Time_rate) (gw_counters gw) of
        (Inl _, db) \<Rightarrow> answer (Reply_error 500 ''rate limit check failed'') (gw\<lparr>gw_counters := db\<rparr>)
      | (Inr (Some v), db) \<Rightarrow>
          (let reasons = [\<lparr>rs_Code = ''RATE_LIMIT_EXCEEDED'', rs_Message = ''Rate limit exceeded''\<rparr>]
           in deny_call env rq source mode pr \<lparr>dr_ID = ''rate_limit_'' @ rv_Window v, dr_Priority = 1000\<rparr> reasons
                (withRateLimitConstraint constraints (Some v)) (rate_reply v) (gw\<lparr>gw_counters := db\<rparr>))
      | (Inr None, db) \<Rightarrow> constrainArguments env rq source mode pr constraints (gw\<lparr>gw_counters := db\<rparr>))"

subsection \<open>Asking the policy\<close>

definition policy_input :: "tool_call \<Rightarrow> gomap" where
  "policy_input rq =
     [(''tenant_id'', Str_v (rq_TenantID rq)), (''agent_id'', Str_v (rq_AgentID rq)), (''tool_id'', Str_v (rq_ToolID rq)),
      (''action_type'', Str_v (cl_ActionType (rq_Class rq))), (''action_risk'', Str_v (cl_ActionRisk (rq_Class rq))),
      (''policy_version'', Str_v []),
      (''request'', Map_v [(''method'', Str_v (tq_HTTPMethod (rq_Payload rq))), (''path'', Str_v (tq_Path (rq_Payload rq)))])]"

definition policyInvalidReason :: "policy_error \<Rightarrow> (string \<times> string) option" where
  "policyInvalidReason e = (case e of InvalidPolicyOutput reason version \<Rightarrow> Some (reason, version) | _ \<Rightarrow> None)"

definition invalid_policy_result :: "string \<Rightarrow> string \<Rightarrow> policy_result" where
  "invalid_policy_result risk policyVersion =
     \<lparr>pr_Version = ''invalid'', pr_Decision = ''DENY'', pr_Risk = risk,
      pr_Rule = \<lparr>dr_ID = ''policy_invalid'', dr_Priority = 1000\<rparr>,
      pr_Reasons = [\<lparr>rs_Code = ''POLICY_OUTPUT_INVALID'', rs_Message = ''policy output invalid''\<rparr>],
      pr_Constraints = [], pr_Tags = [], pr_MatchedRules = [], pr_PolicyVersion = policyVersion\<rparr>"

definition default_deny :: "policy_result \<Rightarrow> policy_result" where
  "default_deny pr =
     (if pr_Decision pr = []
      then pr\<lparr>pr_Decision := ''DENY'', pr_Rule := (pr_Rule pr)\<lparr>dr_ID := ''rule_default_deny''\<rparr>,
              pr_Reasons := [\<lparr>rs_Code = ''DEFAULT_DENY'', rs_Message = ''Default deny''\<rparr>]\<rparr>
      else pr)"

definition with_events :: "event list \<Rightarrow> 'q call_outcome \<Rightarrow> 'q call_outcome" where
  "with_events evs out = out\<lparr>co_events := evs @ co_events out\<rparr>"

definition decideToolCall ::
  "'q call_env \<Rightarrow> tool_call \<Rightarrow> string \<Rightarrow> policy_result \<Rightarrow> 'q gateway \<Rightarrow> 'q call_outcome" where
  "decideToolCall env rq source pr0 gw =
     (let pr = default_deny pr0;
          constraints = withMatchedRulesConstraint (pr_Constraints pr) (pr_MatchedRules pr)
      in case tenantEnforcementMode (site env At_Enforcement) (ce_cfg env) (Some (ce_db env)) (rq_TenantID rq) of
           Inl _ \<Rightarrow> answer (Reply_error 500 ''failed to load tenant enforcement mode'') gw
         | Inr mode \<Rightarrow> limitRate env rq source mode pr constraints gw)"

definition evaluateToolCall :: "'q call_env \<Rightarrow> 'q rego_engine \<Rightarrow> tool_call \<Rightarrow> 'q gateway \<Rightarrow> 'q call_outcome" where
  "evaluateToolCall env rego rq gw =
     (let prov = extractProvenance (ce_mac env) (ce_provenance env) (ce_header env) (ce_clock env Time_provenance);
          input = (if featureCrossTenantChainEnabled (ce_cfg env)
                   then injectProvenanceInput (policy_input rq) prov else policy_input rq);
          source = pc_SourceDecisionID prov;
          (result, ev) = Evaluate rego (GetPolicy (site env At_Policy) (rq_TenantID rq) (ce_db env)) (rq_TenantID rq)
             input (ce_clock env Time_policy) (gw_evaluator gw);
          gw1 = gw\<lparr>gw_evaluator := ev\<rparr>
      in case result of
           Inr pr \<Rightarrow> decideToolCall env rq source pr gw1
         | Inl e \<Rightarrow>
             (case policyInvalidReason e of
                Some (reason, version) \<Rightarrow>
                  with_events [(''POLICY.INVALID_OUTPUT'', version, reason)]
                    (decideToolCall env rq source (invalid_policy_result (cl_ActionRisk (rq_Class rq)) version) gw1)
              | None \<Rightarrow> with_events [(''POLICY.EVAL_ERROR'', [], [])]
                  (answer (Reply_error 500 ''policy evaluation failed'') gw1)))"

definition governToolCall :: "'q call_env \<Rightarrow> tool_call \<Rightarrow> 'q gateway \<Rightarrow> 'q call_outcome" where
  "governToolCall env rq0 gw =
     (case (case ce_risk env of
              Inr risk \<Rightarrow> Inr (rq0\<lparr>rq_Class := (rq_Class rq0)\<lparr>cl_ActionRisk := risk\<rparr>\<rparr>)
            | Inl e \<Rightarrow> if e = ErrNotFound then Inr rq0 else Inl e) of
        Inl _ \<Rightarrow> answer (Reply_error 500 ''risk override lookup failed'') gw
      | Inr rq \<Rightarrow>
          (case ce_rego env of
             None \<Rightarrow> answer (Reply_error 500 ''policy evaluator not configured'') gw
           | Some rego \<Rightarrow>
               (let violation =
                  (if featureFileGovernanceEnabled (site env (At_Flag ''feature_file_governance'')) (ce_cfg env) (Some (ce_db env))
                   then checkFileAccess (parseRESTArguments UnmarshalAny (rq_Body rq)) (rq_TenantID rq) else [])
                in if violation \<noteq> [] then answer (Reply_error 403 violation) gw
                   else evaluateToolCall env rego rq gw)))"

subsection \<open>The handler\<close>

definition admitToolCall :: "'q call_env \<Rightarrow> string \<Rightarrow> string \<Rightarrow> 'q gateway \<Rightarrow> 'q call_outcome" where
  "admitToolCall env tenantID agentID gw =
     (case readToolCall env tenantID agentID of
        Inl r \<Rightarrow> answer r gw
      | Inr rq \<Rightarrow>
          (let approvalID = ce_header env ''X-Approval-Request-Id''; approvalToken = ce_header env ''X-Approval-Token''
           in if approvalID \<noteq> [] \<or> approvalToken \<noteq> []
              then (if approvalID = [] \<or> approvalToken = []
                    then answer (Reply_error 400 ''approval headers required'') gw
                    else replayToolCall env rq approvalID approvalToken gw)
              else governToolCall env rq gw))"

definition quota_reply :: "quota_violation \<Rightarrow> reply" where
  "quota_reply v = Reply_json 429 [(''error'', Str_v ''QUOTA_EXCEEDED''),
     (''message'', Str_v ''Monthly action limit exceeded. Upload a license key to remove limits.''),
     (''limit'', Int_v (qv_Limit v)), (''used'', Int_v (qv_Used v)), (''period'', Str_v (qv_Period v))]"

definition handleToolCall :: "'q call_env \<Rightarrow> 'q gateway \<Rightarrow> 'q call_outcome" where
  "handleToolCall env gw =
     (case authenticateTenantRequest env (gw_tenants gw) of
        (Inl e, db) \<Rightarrow> answer (authError e) (gw\<lparr>gw_tenants := db\<rparr>)
      | (Inr (tenant, agentID), db) \<Rightarrow>
          (let gw1 = gw\<lparr>gw_tenants := db\<rparr>; tenantID = tn_TenantID tenant in
           case enforceUsageQuota (ce_entitlements env) (ce_fault env At_Quota) tenantID (ce_period env) (gw_meters gw1) of
             (Inl _, m) \<Rightarrow> answer (Reply_error 500 ''usage quota check failed'') (gw1\<lparr>gw_meters := m\<rparr>)
           | (Inr (Some v), m) \<Rightarrow> answer (quota_reply v) (gw1\<lparr>gw_meters := m\<rparr>)
           | (Inr None, m) \<Rightarrow> admitToolCall env tenantID agentID (gw1\<lparr>gw_meters := m\<rparr>)))"

subsection \<open>What reaches the upstream tool\<close>

text \<open>The gates of a call that is not a replay: the request with the stored risk override, the file
  check, and a policy result that passes rate limit and argument constraints.\<close>

definition with_override :: "'q call_env \<Rightarrow> tool_call \<Rightarrow> tool_call" where
  "with_override env rq =
     (case ce_risk env of Inr risk \<Rightarrow> rq\<lparr>rq_Class := (rq_Class rq)\<lparr>cl_ActionRisk := risk\<rparr>\<rparr> | Inl _ \<Rightarrow> rq)"

definition call_input :: "'q call_env \<Rightarrow> tool_call \<Rightarrow> gomap" where
  "call_input env rq =
     (if featureCrossTenantChainEnabled (ce_cfg env)
      then injectProvenanceInput (policy_input rq)
             (extractProvenance (ce_mac env) (ce_provenance env) (ce_header env) (ce_clock env Time_provenance))
      else policy_input rq)"

definition policy_answer :: "'q call_env \<Rightarrow> 'q rego_engine \<Rightarrow> tool_call \<Rightarrow> 'q gateway \<Rightarrow> policy_error + policy_result" where
  "policy_answer env rego rq gw =
     fst (Evaluate rego (GetPolicy (site env At_Policy) (rq_TenantID rq) (ce_db env)) (rq_TenantID rq)
            (call_input env rq) (ce_clock env Time_policy) (gw_evaluator gw))"

definition call_constraints :: "policy_result \<Rightarrow> gomap" where
  "call_constraints pr = withMatchedRulesConstraint (pr_Constraints pr) (pr_MatchedRules pr)"

definition files_ok :: "'q call_env \<Rightarrow> tool_call \<Rightarrow> bool" where
  "files_ok env rq =
     (featureFileGovernanceEnabled (site env (At_Flag ''feature_file_governance'')) (ce_cfg env) (Some (ce_db env)) \<longrightarrow>
      checkFileAccess (parseRESTArguments UnmarshalAny (rq_Body rq)) (rq_TenantID rq) = [])"

definition rate_ok :: "'q call_env \<Rightarrow> tool_call \<Rightarrow> gomap \<Rightarrow> 'q gateway \<Rightarrow> bool" where
  "rate_ok env rq constraints gw =
     (fst (enforceRateLimit
        (featureRateLimitingEnabled (site env (At_Flag ''feature_rate_limiting'')) (ce_cfg env) (Some (ce_db env)))
        (stored_rate_config env) (\<lambda>w. ce_fault env (At_Rate w))
        \<lparr>rk_tenantID = rq_TenantID rq, rk_agentID = rq_AgentID rq, rk_toolID = rq_ToolID rq,
         rk_actionType = cl_ActionType (rq_Class rq)\<rparr> constraints (ce_clock env Time_rate) (gw_counters gw)) = Inr None)"

definition arguments_ok :: "'q call_env \<Rightarrow> tool_call \<Rightarrow> gomap \<Rightarrow> bool" where
  "arguments_ok env rq constraints =
     (enforceArgumentConstraints (ce_regexps env)
        (featureArgConstraintsEnabled (site env (At_Flag ''feature_arg_constraints'')) (ce_cfg env) (Some (ce_db env)))
        constraints (parseRESTArguments UnmarshalAny (rq_Body rq)) = None)"

definition in_shadow_mode :: "'q call_env \<Rightarrow> string \<Rightarrow> bool" where
  "in_shadow_mode env tenantID =
     (\<exists>mode. tenantEnforcementMode (site env At_Enforcement) (ce_cfg env) (Some (ce_db env)) tenantID = Inr mode \<and>
             isShadowMode mode)"

definition policy_allows :: "'q call_env \<Rightarrow> 'q rego_engine \<Rightarrow> tool_call \<Rightarrow> 'q gateway \<Rightarrow> bool" where
  "policy_allows env rego rq gw =
     (\<exists>pr. policy_answer env rego rq gw = Inr pr \<and> pr_Decision pr = ''ALLOW'' \<and>
           rate_ok env rq (call_constraints pr) gw \<and> arguments_ok env rq (call_constraints pr))"

definition operator_approved :: "'q call_env \<Rightarrow> tool_call \<Rightarrow> store_db \<Rightarrow> bool" where
  "operator_approved env rq db =
     (let x = replay_env env in
      \<exists>a. approvals (others_run x 0 db) (ce_header env ''X-Approval-Request-Id'') = Some a \<and>
        ap_TenantID a = rq_TenantID rq \<and>
        ap_ApprovalTokenHash a = cy_sha256hex (ce_crypto env) (ce_header env ''X-Approval-Token'') \<and>
        ap_RequestHash a = rq_Hash rq \<and> ev_now x \<le> ap_ExpiresAt a \<and> ap_Status a \<in> {APPROVED, EXECUTING})"

text \<open>Which stage sends.\<close>

lemma sent_executeRESTShadowDeny: "co_sent (executeRESTShadowDeny env rq reasons meta gw) = snd (run_tool env rq)"
  by (simp add: executeRESTShadowDeny_def split: prod.splits sum.splits)

lemma sent_deny_call:
  "co_sent (deny_call env rq source mode pr rule reasons constraints refusal gw) \<noteq> [] \<Longrightarrow> isShadowMode mode"
  by (auto simp: deny_call_def split: prod.splits sum.splits if_splits)

lemma sent_requestApproval [simp]: "co_sent (requestApproval env rq source pr constraints gw) = []"
  by (simp add: requestApproval_def Let_def split: prod.splits sum.splits option.splits)

lemma sent_settleDecision:
  "co_sent (settleDecision env rq source mode pr constraints gw) \<noteq> [] \<Longrightarrow>
   pr_Decision pr = ''ALLOW'' \<or> isShadowMode mode"
  by (auto simp: settleDecision_def dest: sent_deny_call split: if_splits)

lemma sent_constrainArguments:
  assumes "co_sent (constrainArguments env rq source mode pr constraints gw) \<noteq> []"
  shows "pr_Decision pr = ''ALLOW'' \<and> arguments_ok env rq constraints \<or> isShadowMode mode"
  using assms by (auto simp: constrainArguments_def arguments_ok_def Let_def
      dest: sent_deny_call sent_settleDecision split: option.splits)

lemma sent_limitRate:
  assumes "co_sent (limitRate env rq source mode pr constraints gw) \<noteq> []"
  shows "pr_Decision pr = ''ALLOW'' \<and> rate_ok env rq constraints gw \<and> arguments_ok env rq constraints \<or> isShadowMode mode"
  using assms by (auto simp: limitRate_def rate_ok_def Let_def
      dest: sent_deny_call sent_constrainArguments split: prod.splits sum.splits option.splits)

lemma default_deny_allow [simp]: "pr_Decision (default_deny pr) = ''ALLOW'' \<longleftrightarrow> pr_Decision pr = ''ALLOW''"
  by (simp add: default_deny_def)

lemma default_deny_id: "pr_Decision pr \<noteq> [] \<Longrightarrow> default_deny pr = pr"
  by (simp add: default_deny_def)

lemma sent_decideToolCall:
  assumes "co_sent (decideToolCall env rq source pr gw) \<noteq> []"
  shows "pr_Decision pr = ''ALLOW'' \<and> rate_ok env rq (call_constraints pr) gw \<and>
      arguments_ok env rq (call_constraints pr) \<or> in_shadow_mode env (rq_TenantID rq)"
proof -
  let ?pr = "default_deny pr"
  obtain mode where m: "tenantEnforcementMode (site env At_Enforcement) (ce_cfg env) (Some (ce_db env)) (rq_TenantID rq) = Inr mode"
    "co_sent (limitRate env rq source mode ?pr (call_constraints ?pr) gw) \<noteq> []"
    using assms by (auto simp: decideToolCall_def call_constraints_def Let_def split: sum.splits)
  from sent_limitRate [OF m(2)] show ?thesis
  proof
    assume a: "pr_Decision ?pr = ''ALLOW'' \<and> rate_ok env rq (call_constraints ?pr) gw \<and> arguments_ok env rq (call_constraints ?pr)"
    then have "?pr = pr" by (intro default_deny_id) auto
    with a show ?thesis by simp
  qed (use m(1) in \<open>auto simp: in_shadow_mode_def\<close>)
qed

lemma sent_with_events [simp]: "co_sent (with_events evs out) = co_sent out"
  by (simp add: with_events_def)

lemma rate_ok_evaluator [simp]: "rate_ok env rq cs (gw\<lparr>gw_evaluator := ev\<rparr>) = rate_ok env rq cs gw"
  by (simp add: rate_ok_def)

lemma sent_evaluateToolCall:
  assumes "co_sent (evaluateToolCall env rego rq gw) \<noteq> []"
  shows "policy_allows env rego rq gw \<or> in_shadow_mode env (rq_TenantID rq)"
proof -
  let ?prov = "extractProvenance (ce_mac env) (ce_provenance env) (ce_header env) (ce_clock env Time_provenance)"
  obtain result ev where e: "Evaluate rego (GetPolicy (site env At_Policy) (rq_TenantID rq) (ce_db env)) (rq_TenantID rq)
      (call_input env rq) (ce_clock env Time_policy) (gw_evaluator gw) = (result, ev)" by fastforce
  show ?thesis
  proof (cases result)
    case (Inr pr)
    with assms e have "co_sent (decideToolCall env rq (pc_SourceDecisionID ?prov) pr (gw\<lparr>gw_evaluator := ev\<rparr>)) \<noteq> []"
      by (simp add: evaluateToolCall_def call_input_def Let_def)
    from sent_decideToolCall [OF this] e Inr show ?thesis by (auto simp: policy_allows_def policy_answer_def)
  next
    case (Inl err)
    with assms e obtain v where
      "co_sent (decideToolCall env rq (pc_SourceDecisionID ?prov)
        (invalid_policy_result (cl_ActionRisk (rq_Class rq)) v) (gw\<lparr>gw_evaluator := ev\<rparr>)) \<noteq> []"
      by (auto simp: evaluateToolCall_def call_input_def Let_def split: option.splits)
    from sent_decideToolCall [OF this] show ?thesis by (auto simp: invalid_policy_result_def)
  qed
qed

lemma sent_governToolCall:
  assumes "co_sent (governToolCall env rq gw) \<noteq> []"
  shows "\<exists>rego. ce_rego env = Some rego \<and> files_ok env rq \<and>
     (policy_allows env rego (with_override env rq) gw \<or> in_shadow_mode env (rq_TenantID rq))"
proof -
  obtain rego where r: "ce_rego env = Some rego" "files_ok env rq"
    "co_sent (evaluateToolCall env rego (with_override env rq) gw) \<noteq> []"
    using assms
    by (auto simp: governToolCall_def files_ok_def with_override_def Let_def split: sum.splits option.splits if_splits)
  moreover have "rq_TenantID (with_override env rq) = rq_TenantID rq"
    by (simp add: with_override_def split: sum.splits)
  ultimately show ?thesis using sent_evaluateToolCall [OF r(3)] by auto
qed

lemma sent_replayToolCall:
  assumes "co_sent (replayToolCall env rq (ce_header env ''X-Approval-Request-Id'') (ce_header env ''X-Approval-Token'') gw) \<noteq> []"
  shows "operator_approved env rq (gw_store gw)"
proof -
  let ?p = "replay_params rq (ce_header env ''X-Approval-Request-Id'') (ce_header env ''X-Approval-Token'')"
  have "oc_sent (handleApprovedToolCall (replay_env env) ?p (gw_store gw)) \<noteq> []"
    using assms by (simp add: replayToolCall_def Let_def)
  from executed_is_authorised [OF this] show ?thesis
    by (simp add: operator_approved_def replay_params_def replay_env_def Let_def)
qed

lemma readToolCall_Inr:
  assumes "readToolCall env T A = Inr rq"
  shows "rq_TenantID rq = T \<and> rq_AgentID rq = A \<and> rq_ToolID rq = ce_toolID env \<and>
    int (length (rq_Body rq)) \<le> gc_BodyLimitSize (ce_cfg env)"
  using assms by (auto simp: readToolCall_def Let_def split: option.splits if_splits)

lemma sending_is_mediated:
  assumes "co_sent (handleToolCall env gw) \<noteq> []"
  shows "\<exists>tenant agentID rq gw'. fst (authenticateTenantRequest env (gw_tenants gw)) = Inr (tenant, agentID) \<and>
    fst (enforceUsageQuota (ce_entitlements env) (ce_fault env At_Quota) (tn_TenantID tenant) (ce_period env)
      (gw_meters gw)) = Inr None \<and>
    readToolCall env (tn_TenantID tenant) agentID = Inr rq \<and>
    int (length (rq_Body rq)) \<le> gc_BodyLimitSize (ce_cfg env) \<and>
    gw_store gw' = gw_store gw \<and> gw_counters gw' = gw_counters gw \<and> gw_evaluator gw' = gw_evaluator gw \<and>
    (if ce_header env ''X-Approval-Request-Id'' \<noteq> [] \<and> ce_header env ''X-Approval-Token'' \<noteq> []
     then operator_approved env rq (gw_store gw)
     else ce_header env ''X-Approval-Request-Id'' = [] \<and> ce_header env ''X-Approval-Token'' = [] \<and>
       (\<exists>rego. ce_rego env = Some rego \<and> files_ok env rq \<and>
         (policy_allows env rego (with_override env rq) gw' \<or> in_shadow_mode env (tn_TenantID tenant))))"
proof -
  obtain tenant agentID db where a: "authenticateTenantRequest env (gw_tenants gw) = (Inr (tenant, agentID), db)"
    using assms by (auto simp: handleToolCall_def split: prod.splits sum.splits)
  let ?T = "tn_TenantID tenant"
  obtain m where q: "enforceUsageQuota (ce_entitlements env) (ce_fault env At_Quota) ?T (ce_period env)
      (gw_meters gw) = (Inr None, m)"
    and s: "co_sent (admitToolCall env ?T agentID (gw\<lparr>gw_tenants := db, gw_meters := m\<rparr>)) \<noteq> []"
    using assms a by (auto simp: handleToolCall_def Let_def split: prod.splits sum.splits option.splits)
  let ?gw = "gw\<lparr>gw_tenants := db, gw_meters := m\<rparr>"
  obtain rq where rq: "readToolCall env ?T agentID = Inr rq"
    using s by (auto simp: admitToolCall_def split: sum.splits)
  note rqT = readToolCall_Inr [OF rq]
  show ?thesis
  proof (cases "ce_header env ''X-Approval-Request-Id'' \<noteq> [] \<and> ce_header env ''X-Approval-Token'' \<noteq> []")
    case True
    then have "operator_approved env rq (gw_store ?gw)"
      using s rq by (intro sent_replayToolCall) (simp add: admitToolCall_def Let_def)
    with True a q rq rqT show ?thesis
      by (intro exI [of _ tenant] exI [of _ agentID] exI [of _ rq] exI [of _ ?gw]) simp
  next
    case False
    then have h: "ce_header env ''X-Approval-Request-Id'' = []" "ce_header env ''X-Approval-Token'' = []"
      "co_sent (governToolCall env rq ?gw) \<noteq> []"
      using s rq by (auto simp: admitToolCall_def Let_def split: if_splits)
    from sent_governToolCall [OF h(3)] h(1,2) a q rq rqT show ?thesis
      by (intro exI [of _ tenant] exI [of _ agentID] exI [of _ rq] exI [of _ ?gw]) simp
  qed
qed

text \<open>C2: complete mediation. A tool call that sends anything upstream was authenticated as a tenant
  with a valid agent id, is within the monthly quota and the body limit, and either carries an
  unexpired approval of the same tenant, with its token and for exactly this request, that an
  operator approved; or has no approval headers, passed the file check, and the policy answered
  ALLOW and rate limit and argument constraints let it pass; or the tenant is in shadow mode.
  This holds for every policy engine, configuration, table contents and driver error.\<close>

theorem complete_mediation:
  assumes "co_sent (handleToolCall env gw) \<noteq> []"
  shows "\<exists>tenant agentID rq gw'. fst (authenticateTenantRequest env (gw_tenants gw)) = Inr (tenant, agentID) \<and>
    fst (enforceUsageQuota (ce_entitlements env) (ce_fault env At_Quota) (tn_TenantID tenant) (ce_period env)
      (gw_meters gw)) = Inr None \<and>
    readToolCall env (tn_TenantID tenant) agentID = Inr rq \<and>
    int (length (rq_Body rq)) \<le> gc_BodyLimitSize (ce_cfg env) \<and>
    gw_store gw' = gw_store gw \<and> gw_counters gw' = gw_counters gw \<and> gw_evaluator gw' = gw_evaluator gw \<and>
    (if ce_header env ''X-Approval-Request-Id'' \<noteq> [] \<and> ce_header env ''X-Approval-Token'' \<noteq> []
     then operator_approved env rq (gw_store gw)
     else ce_header env ''X-Approval-Request-Id'' = [] \<and> ce_header env ''X-Approval-Token'' = [] \<and>
       (\<exists>rego. ce_rego env = Some rego \<and> files_ok env rq \<and>
         (policy_allows env rego (with_override env rq) gw' \<or> in_shadow_mode env (tn_TenantID tenant))))"
  using assms by (rule sending_is_mediated)

end
