(* ===== verification/Call_Outcomes.thy ===== *)
theory Call_Outcomes
  imports Tool_Call
begin

text \<open>
  How a tool call ends. Every call that is not a replay ends in one of four ways, given by the
  relation \<open>call_ends\<close>; from it follow that every answered denial is recorded and that an
  answer which asks for approval leaves a pending approval with the digest of the token it hands
  out. Together with the replay path this gives the round trip of an approval: the call that was
  held back, approved by an operator and sent again with the token, is executed.
\<close>

subsection \<open>The four endings\<close>

inductive call_ends :: "'q call_env \<Rightarrow> tool_call \<Rightarrow> store_db \<Rightarrow> 'q call_outcome \<Rightarrow> bool"
  for env rq db where
  Ends_refused: "gw_store gw = db \<Longrightarrow> (\<And>n x. r \<noteq> Reply_tool n x) \<Longrightarrow>
    call_ends env rq db (with_events evs (answer r gw))"
| Ends_denied: "gw_store gw = db \<Longrightarrow> refusal = deny_reply rq reasons \<or> (\<exists>v. refusal = rate_reply v) \<Longrightarrow>
    call_ends env rq db (with_events evs (deny_call env rq source mode pr rule reasons constraints refusal gw))"
| Ends_pending: "gw_store gw = db \<Longrightarrow> pr_Decision pr = ''REQUIRE_APPROVAL'' \<Longrightarrow>
    call_ends env rq db (with_events evs (requestApproval env rq source pr constraints gw))"
| Ends_allowed: "gw_store gw = db \<Longrightarrow> pr_Decision pr = ''ALLOW'' \<Longrightarrow>
    call_ends env rq db (with_events evs (allowCall env rq source pr constraints gw))"

inductive_cases call_endsE: "call_ends env rq db out"

lemma with_events_simps [simp]:
  "co_reply (with_events evs out) = co_reply out" "co_gateway (with_events evs out) = co_gateway out"
  "with_events [] out = out" "with_events evs (with_events evs' out) = with_events (evs @ evs') out"
  by (simp_all add: with_events_def)

lemma call_ends_plain:
  "gw_store gw = db \<Longrightarrow> (\<And>n x. r \<noteq> Reply_tool n x) \<Longrightarrow> call_ends env rq db (answer r gw)"
  "gw_store gw = db \<Longrightarrow> refusal = deny_reply rq reasons \<or> (\<exists>v. refusal = rate_reply v) \<Longrightarrow>
    call_ends env rq db (deny_call env rq source mode pr rule reasons constraints refusal gw)"
  "gw_store gw = db \<Longrightarrow> pr_Decision pr = ''REQUIRE_APPROVAL'' \<Longrightarrow>
    call_ends env rq db (requestApproval env rq source pr constraints gw)"
  "gw_store gw = db \<Longrightarrow> pr_Decision pr = ''ALLOW'' \<Longrightarrow>
    call_ends env rq db (allowCall env rq source pr constraints gw)"
  using call_ends.intros [where evs = "[]" and env = env and rq = rq and db = db] by simp_all

lemma call_ends_events: "call_ends env rq db out \<Longrightarrow> call_ends env rq db (with_events evs out)"
  by (erule call_endsE) (auto intro: call_ends.intros)

lemma settleDecision_ends:
  "gw_store gw = db \<Longrightarrow> call_ends env rq db (settleDecision env rq source mode pr constraints gw)"
  unfolding settleDecision_def by (auto intro!: call_ends_plain)

lemma constrainArguments_ends:
  "gw_store gw = db \<Longrightarrow> call_ends env rq db (constrainArguments env rq source mode pr constraints gw)"
  unfolding constrainArguments_def Let_def
  by (auto intro!: call_ends_plain settleDecision_ends split: option.splits)

lemma limitRate_ends:
  "gw_store gw = db \<Longrightarrow> call_ends env rq db (limitRate env rq source mode pr constraints gw)"
  unfolding limitRate_def Let_def
  by (auto intro!: call_ends_plain constrainArguments_ends split: prod.splits sum.splits option.splits)

lemma decideToolCall_ends: "gw_store gw = db \<Longrightarrow> call_ends env rq db (decideToolCall env rq source pr gw)"
  unfolding decideToolCall_def Let_def
  by (auto intro!: call_ends_plain limitRate_ends split: sum.splits)

lemma evaluateToolCall_ends: "gw_store gw = db \<Longrightarrow> call_ends env rq db (evaluateToolCall env rego rq gw)"
  unfolding evaluateToolCall_def Let_def
  by (auto intro!: call_ends_plain call_ends_events decideToolCall_ends split: prod.splits sum.splits option.splits)

lemma governToolCall_ends:
  assumes "gw_store gw = db"
  shows "call_ends env (with_override env rq) db (governToolCall env rq gw)"
  using assms unfolding governToolCall_def Let_def with_override_def
  by (auto intro!: call_ends_plain evaluateToolCall_ends split: sum.splits option.splits)

subsection \<open>Denials\<close>

definition recorded_denial :: "'q call_outcome \<Rightarrow> tool_call_response \<Rightarrow> bool" where
  "recorded_denial out r =
     (\<exists>adr\<in>set (decisions (gw_store (co_gateway out))).
        adr_Decision adr = ''DENY'' \<and> adr_RequestID adr = rp_RequestID r \<and> adr_Reason adr = rp_Reason r)"

lemma InsertADR_plain:
  "adr_ApprovalRequestID adr = [] \<Longrightarrow> InsertADR adr db = (Inr (), db\<lparr>decisions := decisions db @ [adr]\<rparr>)"
  by (simp add: InsertADR_def)

lemma record_decision_Inr:
  assumes "record_decision env adr gw = (Inr (), gw')" and "adr_ApprovalRequestID adr = []"
  shows "adr \<in> set (decisions (gw_store gw'))"
  using assms by (auto simp: record_decision_def InsertADR_plain split: option.splits)

lemma record_decision_Inl: "record_decision env adr gw = (Inl r, gw') \<Longrightarrow> r = Reply_error 500 ''failed to persist decision''"
  by (auto simp: record_decision_def split: option.splits prod.splits sum.splits)

lemma shadow_reply:
  assumes "co_reply (executeRESTShadowDeny env rq reasons meta gw) = Reply_tool n r"
  shows "rp_RequestID r = rq_RequestID rq \<and> rp_Reason r = firstReasonMessage reasons \<and>
    co_gateway (executeRESTShadowDeny env rq reasons meta gw) = gw"
  using assms
  by (auto simp: executeRESTShadowDeny_def exec_error_reply_def tool_reply_def empty_response_def
      split: prod.splits sum.splits exec_error.splits)

lemma deny_call_recorded:
  assumes "co_reply (deny_call env rq source mode pr rule reasons constraints refusal gw) = Reply_tool n r"
    and "refusal = deny_reply rq reasons \<or> (\<exists>v. refusal = rate_reply v)"
  shows "recorded_denial (deny_call env rq source mode pr rule reasons constraints refusal gw) r"
proof -
  let ?adr = "decision_adr env rq source pr ''DENY'' rule reasons constraints"
  obtain x gw1 where rec: "record_decision env ?adr gw = (x, gw1)" by fastforce
  have x: "x = Inr ()" using assms(1) rec record_decision_Inl
    by (cases x) (fastforce simp: deny_call_def)+
  have adr: "?adr \<in> set (decisions (gw_store gw1))"
    using record_decision_Inr [OF rec [unfolded x]] by (simp add: decision_adr_def)
  have "rp_RequestID r = rq_RequestID rq \<and> rp_Reason r = firstReasonMessage reasons \<and>
    co_gateway (deny_call env rq source mode pr rule reasons constraints refusal gw) = gw1"
    using assms rec x shadow_reply [of env rq reasons _ gw1 n r]
    by (auto simp: deny_call_def deny_reply_def rate_reply_def empty_response_def split: if_splits)
  with adr show ?thesis by (auto simp: recorded_denial_def decision_adr_def intro!: bexI [of _ ?adr])
qed

lemma approved_reply_allow:
  assumes "oc_reply (handleApprovedToolCall x p db) = Reply_tool n r"
  shows "rp_Decision r = ''ALLOW'' \<and> n = 200"
proof -
  have "\<not> refused (handleApprovedToolCall x p db)" using assms by (simp add: refused_def)
  then obtain a db1 a' db2 where "handleApprovedToolCall x p db = executeApproved x p a' db2"
    by (rule handler_executes)
  with assms show ?thesis
    by (auto simp: executeApproved_def Let_def empty_response_def split: prod.splits sum.splits store_error.splits if_splits)
qed

text \<open>How a whole call ends: before admission, in a replay, or in one of the four endings.\<close>

lemma handleToolCall_cases:
  assumes "co_reply (handleToolCall env gw) = Reply_tool n r"
  obtains (replay) tenant agentID rq gw' where
      "fst (authenticateTenantRequest env (gw_tenants gw)) = Inr (tenant, agentID)"
      "readToolCall env (tn_TenantID tenant) agentID = Inr rq"
      "handleToolCall env gw = replayToolCall env rq (ce_header env ''X-Approval-Request-Id'') (ce_header env ''X-Approval-Token'') gw'"
      "gw_store gw' = gw_store gw"
    | (ends) tenant agentID rq where
      "fst (authenticateTenantRequest env (gw_tenants gw)) = Inr (tenant, agentID)"
      "readToolCall env (tn_TenantID tenant) agentID = Inr rq"
      "call_ends env (with_override env rq) (gw_store gw) (handleToolCall env gw)"
proof -
  have noread: "\<And>T A x. readToolCall env T A = Inl x \<Longrightarrow> \<forall>n r. x \<noteq> Reply_tool n r"
    by (auto simp: readToolCall_def Let_def split: option.splits if_splits)
  obtain tenant agentID db where a: "authenticateTenantRequest env (gw_tenants gw) = (Inr (tenant, agentID), db)"
    using assms by (auto simp: handleToolCall_def authError_def split: prod.splits sum.splits auth_error.splits)
  obtain m where h: "handleToolCall env gw = admitToolCall env (tn_TenantID tenant) agentID (gw\<lparr>gw_tenants := db, gw_meters := m\<rparr>)"
    using assms a by (auto simp: handleToolCall_def Let_def quota_reply_def split: prod.splits sum.splits option.splits)
  let ?gw = "gw\<lparr>gw_tenants := db, gw_meters := m\<rparr>"
  obtain rq where rq: "readToolCall env (tn_TenantID tenant) agentID = Inr rq"
    using assms h noread by (cases "readToolCall env (tn_TenantID tenant) agentID") (auto simp: admitToolCall_def)
  show thesis
  proof (cases "ce_header env ''X-Approval-Request-Id'' = [] \<and> ce_header env ''X-Approval-Token'' = []")
    case True
    then have "handleToolCall env gw = governToolCall env rq ?gw" using h rq by (simp add: admitToolCall_def)
    then show thesis using a rq governToolCall_ends [of ?gw "gw_store gw" env rq] by (intro ends) auto
  next
    case False
    then have "handleToolCall env gw = replayToolCall env rq (ce_header env ''X-Approval-Request-Id'')
        (ce_header env ''X-Approval-Token'') ?gw"
      using assms h rq by (auto simp: admitToolCall_def Let_def split: if_splits)
    then show thesis by (rule replay [rotated 2]) (use a rq in auto)
  qed
qed

text \<open>C10: every denial that is answered is on record: when the reply says DENY (refused, or executed
  in shadow mode), the decision table holds a DENY record with the request id and the reason of
  the reply; when the record cannot be written, the caller gets an error and nothing is
  executed.\<close>

theorem denial_is_recorded:
  assumes "co_reply (handleToolCall env gw) = Reply_tool n r" and "rp_Decision r = ''DENY''"
  shows "recorded_denial (handleToolCall env gw) r"
  using assms(1)
proof (cases rule: handleToolCall_cases)
  case (replay tenant agentID rq gw')
  then have "rp_Decision r = ''ALLOW''"
    using assms(1) approved_reply_allow by (fastforce simp: replayToolCall_def Let_def)
  with assms(2) show ?thesis by simp
next
  case (ends tenant agentID rq)
  from ends(3) show ?thesis
  proof (cases rule: call_ends.cases)
    case (Ends_refused gw1 x evs)
    with assms(1) show ?thesis by simp
  next
    case (Ends_denied gw1 refusal reasons evs source mode pr rule constraints)
    with assms(1) deny_call_recorded show ?thesis by (fastforce simp: recorded_denial_def)
  next
    case (Ends_pending gw1 pr evs source constraints)
    with assms show ?thesis
      by (auto simp: requestApproval_def Let_def empty_response_def
          dest!: record_decision_Inl split: prod.splits sum.splits option.splits if_splits)
  next
    case (Ends_allowed gw1 pr evs source constraints)
    with assms show ?thesis
      by (auto simp: allowCall_def tool_reply_def empty_response_def exec_error_reply_def
          dest!: record_decision_Inl split: prod.splits sum.splits exec_error.splits)
  qed
qed

subsection \<open>Pending approvals\<close>

lemma pending_stored:
  assumes "co_reply (requestApproval env rq source pr constraints gw) = Reply_tool n r"
  obtains token where "n = 409" "rp_ApprovalToken r = token"
    "rp_ApprovalRequestID r = ap_ApprovalRequestID (new_approval env rq pr constraints token)"
    "rp_ExpiresAt r = Some (ap_ExpiresAt (new_approval env rq pr constraints token))"
    "approvals (gw_store (co_gateway (requestApproval env rq source pr constraints gw)))
       (rp_ApprovalRequestID r) = Some (new_approval env rq pr constraints token)"
proof -
  have lic: "checkFeatureAccess (ce_entitlements env) ''approval_workflows'' = []"
    using assms by (auto simp: requestApproval_def Let_def split: if_splits)
  obtain token where tok: "generateApprovalToken (ce_random env) = Some token"
    using assms lic by (auto simp: requestApproval_def Let_def split: option.splits)
  let ?a = "new_approval env rq pr constraints token"
  let ?adr = "(decision_adr env rq source pr (pr_Decision pr) (pr_Rule pr) (pr_Reasons pr) constraints)
       \<lparr>adr_ApprovalRequestID := ap_ApprovalRequestID ?a\<rparr>"
  obtain db where ins: "ce_fault env At_InsertApproval = None" "InsertApprovalRequest ?a (gw_store gw) = (Inr (), db)"
    using assms lic tok by (auto simp: requestApproval_def Let_def split: option.splits prod.splits sum.splits)
  have row: "approvals db (ap_ApprovalRequestID ?a) = Some ?a"
    using ins(2) by (auto simp: InsertApprovalRequest_def new_approval_def Let_def split: option.splits)
  obtain x gw1 where rec: "record_decision env ?adr (gw\<lparr>gw_store := db\<rparr>) = (x, gw1)" by fastforce
  have x: "x = Inr ()" using assms lic tok ins rec record_decision_Inl [of env ?adr "gw\<lparr>gw_store := db\<rparr>"]
    by (cases x) (auto simp: requestApproval_def Let_def)
  have "approvals (gw_store gw1) = approvals db"
    using rec x by (auto simp: record_decision_def InsertADR_def split: option.splits if_splits)
  with assms lic tok ins rec x row show thesis
    by (intro that [of token]) (auto simp: requestApproval_def Let_def empty_response_def)
qed

text \<open>An approved, unexpired approval is executed when nobody interferes and the upstream answers.\<close>

lemma approved_executes:
  assumes "\<forall>k. ev_gap x k = []" and "\<forall>c. ev_fault x c = None"
    and row: "approvals db (pm_approvalID p) = Some a" and "ap_TenantID a = pm_tenantID p"
    and "ap_Status a = APPROVED" and "ev_now x < ap_ExpiresAt a" and "ap_ExecutedAt a = None"
    and tok: "ap_ApprovalTokenHash a = ev_sha256hex x (pm_approvalToken p)" and hash: "ap_RequestHash a = pm_requestHash p"
    and ok: "executeToolCall (ev_tool x) (ev_connector x) (ev_resolver x) (pm_payload p) (pm_bodyBytes p)
      (pm_filteredHeaders p) = (Inr resp, sent)"
  shows "oc_sent (handleApprovedToolCall x p db) = sent \<and>
    oc_reply (handleApprovedToolCall x p db) = Reply_tool 200 (empty_response\<lparr>rp_RequestID := pm_requestID p,
      rp_Decision := ''ALLOW'', rp_Reason := ''Approved execution'', rp_ToolStatus := cs_Status resp,
      rp_ToolHeaders := cs_Headers resp, rp_ToolBody := cs_Body resp\<rparr>)"
proof -
  let ?t = "pm_tenantID p" and ?i = "pm_approvalID p"
  have arow: "approval_row db ?t ?i = Some a" using row assms(4) by (simp add: approval_row_def)
  obtain a0 where get: "GetApprovalForExecution ?t ?i db = Inr a0" "same_row a0 a"
    "ap_ExecutionID a0 = ap_ExecutionID a" "ap_ApprovalRequestID a0 = ap_ApprovalRequestID a"
    using arow assms(7) by (simp add: GetApprovalForExecution_def same_row_def)
  let ?set = "\<lambda>a. a\<lparr>ap_Status := EXECUTING, ap_ExecutingAt := Some (ev_now x),
      ap_ExecutionID := (if ap_ExecutionID a = [] then ap_ApprovalRequestID a else ap_ExecutionID a), ap_LastErrorCode := []\<rparr>"
  let ?db2 = "db\<lparr>approvals := (approvals db)(?i \<mapsto> ?set a)\<rparr>"
  have claim: "ClaimApprovalExecution ?t ?i (ap_ApprovalTokenHash a) (pm_requestHash p) (ev_now x) db = (Inr (), ?db2)"
    using arow assms(5,6) hash by (simp add: ClaimApprovalExecution_def affected_result_def update_approval_def)
  obtain a' where c: "claimForExecution x p (ap_ApprovalTokenHash a0) a0 db = (Inr a', ?db2)"
    using claim get(2) assms(1,2,5) by (simp add: claimForExecution_def store_do_def same_row_def)
  have h: "handleApprovedToolCall x p db = executeApproved x p a' ?db2"
    using handler_live [of x, OF _ _ get(1)] assms(1,2,5,6) tok hash get(2) c by (simp add: same_row_def)
  have "approval_row ?db2 ?t ?i = Some (?set a)" using assms(4) by (simp add: approval_row_def)
  then have mark: "\<exists>db3. MarkApprovalExecuted ?t ?i rid did t ?db2 = (Inr (), db3)" for rid did t
    using assms(7) by (simp add: MarkApprovalExecuted_def affected_result_def update_approval_def)
  obtain db3 where db3: "MarkApprovalExecuted ?t ?i (pm_requestID p) (''d_'' @ ev_uuid x) (ev_done x) ?db2 = (Inr (), db3)"
    using mark by blast
  have adr: "\<exists>db4. InsertADR r db3 = (Inr (), db4)" for r by (simp add: InsertADR_def)
  obtain db4 where db4: "InsertADR (execution_adr x p a' (cs_BodyHash resp)) db3 = (Inr (), db4)"
    using adr by blast
  show ?thesis unfolding h executeApproved_def ok
    using db3 db4 assms(1,2) by (simp add: store_do_def)
qed

subsection \<open>The round trip of an approval\<close>

text \<open>The same request once more, with the approval headers of an earlier answer.\<close>

definition resubmitted :: "'q call_env \<Rightarrow> tool_call_response \<Rightarrow> exec_env \<Rightarrow> 'q call_env" where
  "resubmitted env r x = env\<lparr>ce_header := (ce_header env)(''X-Approval-Request-Id'' := rp_ApprovalRequestID r,
     ''X-Approval-Token'' := rp_ApprovalToken r), ce_exec := x\<rparr>"

lemma readToolCall_resubmitted [simp]: "readToolCall (resubmitted env r x) T A = readToolCall env T A"
  by (cases "decode_payload (ce_body env)") (simp_all add: readToolCall_def resubmitted_def Let_def)

lemma held_back_call:
  assumes "co_reply (handleToolCall env gw) = Reply_tool 409 r"
  obtains tenant agentID rq pr constraints token where
    "fst (authenticateTenantRequest env (gw_tenants gw)) = Inr (tenant, agentID)"
    "readToolCall env (tn_TenantID tenant) agentID = Inr rq"
    "rp_ApprovalToken r = token"
    "rp_ApprovalRequestID r = ap_ApprovalRequestID (new_approval env (with_override env rq) pr constraints token)"
    "rp_ExpiresAt r = Some (ap_ExpiresAt (new_approval env (with_override env rq) pr constraints token))"
    "approvals (gw_store (co_gateway (handleToolCall env gw))) (rp_ApprovalRequestID r) =
       Some (new_approval env (with_override env rq) pr constraints token)"
  using assms
proof (cases rule: handleToolCall_cases)
  case (replay tenant agentID rq gw')
  then show ?thesis using assms approved_reply_allow by (fastforce simp: replayToolCall_def Let_def)
next
  case (ends tenant agentID rq)
  from ends(3) show ?thesis
  proof (cases rule: call_ends.cases)
    case (Ends_pending gw1 pr evs source constraints)
    have "co_reply (requestApproval env (with_override env rq) source pr constraints gw1) = Reply_tool 409 r"
      using assms Ends_pending(1) by simp
    then show ?thesis
    proof (rule pending_stored)
      fix token
      assume "rp_ApprovalToken r = token"
        "rp_ApprovalRequestID r = ap_ApprovalRequestID (new_approval env (with_override env rq) pr constraints token)"
        "rp_ExpiresAt r = Some (ap_ExpiresAt (new_approval env (with_override env rq) pr constraints token))"
        "approvals (gw_store (co_gateway (requestApproval env (with_override env rq) source pr constraints gw1)))
          (rp_ApprovalRequestID r) = Some (new_approval env (with_override env rq) pr constraints token)"
      then show ?thesis using ends(1,2) Ends_pending(1) by (intro that) auto
    qed
  next
    case (Ends_denied gw1 refusal reasons evs source mode pr rule constraints)
    with assms have "co_reply (deny_call env (with_override env rq) source mode pr rule reasons constraints refusal gw1) = Reply_tool 409 r"
      by simp
    then show ?thesis using Ends_denied(3)
      by (auto simp: deny_call_def executeRESTShadowDeny_def deny_reply_def rate_reply_def exec_error_reply_def
          dest!: record_decision_Inl split: prod.splits sum.splits if_splits exec_error.splits)
  next
    case (Ends_allowed gw1 pr evs source constraints)
    with assms show ?thesis
      by (auto simp: allowCall_def exec_error_reply_def
          dest!: record_decision_Inl split: prod.splits sum.splits exec_error.splits)
  qed (use assms in auto)
qed

text \<open>C9: the approval round trip completes. When a call was answered with "approval required" and
  an operator approves that request, then sending the same request again with the id and the
  token of the answer, before it expires, executes it: the reply carries the tool's response and
  exactly the requests of one execution of the call went upstream. (The caller still
  authenticates and is within the quota, nobody else uses the token in between, the store does
  not fail and the tool answers.)\<close>

theorem approval_round_trip:
  assumes held: "co_reply (handleToolCall env gw) = Reply_tool 409 r"
    and auth: "fst (authenticateTenantRequest env (gw_tenants gw)) = Inr (tenant, agentID)"
    and approved: "ApproveApprovalRequest (tn_TenantID tenant) (rp_ApprovalRequestID r) who comment t
      (gw_store (co_gateway (handleToolCall env gw))) = (Inr (), gw_store gw2)"
    and calm: "\<forall>k. ev_gap x k = []" "\<forall>c. ev_fault x c = None"
    and live: "rp_ExpiresAt r = Some e" "ev_now x < e"
    and auth2: "fst (authenticateTenantRequest (resubmitted env r x) (gw_tenants gw2)) = Inr (tenant, agentID)"
    and quota2: "fst (enforceUsageQuota (ce_entitlements env) (ce_fault env At_Quota) (tn_TenantID tenant) (ce_period env)
      (gw_meters gw2)) = Inr None"
    and headers: "rp_ApprovalToken r \<noteq> []"
    and rq: "readToolCall env (tn_TenantID tenant) agentID = Inr rq"
    and ok: "run_tool env rq = (Inr resp, sent)"
  shows "co_sent (handleToolCall (resubmitted env r x) gw2) = sent \<and>
    (\<exists>r2. co_reply (handleToolCall (resubmitted env r x) gw2) = Reply_tool 200 r2 \<and> rp_Decision r2 = ''ALLOW'' \<and>
       rp_ToolStatus r2 = cs_Status resp \<and> rp_ToolBody r2 = cs_Body resp)"
proof -
  let ?env = "resubmitted env r x"
  obtain tenant' agentID' rq' pr constraints token where h:
    "fst (authenticateTenantRequest env (gw_tenants gw)) = Inr (tenant', agentID')"
    "readToolCall env (tn_TenantID tenant') agentID' = Inr rq'" "rp_ApprovalToken r = token"
    "rp_ApprovalRequestID r = ap_ApprovalRequestID (new_approval env (with_override env rq') pr constraints token)"
    "rp_ExpiresAt r = Some (ap_ExpiresAt (new_approval env (with_override env rq') pr constraints token))"
    "approvals (gw_store (co_gateway (handleToolCall env gw))) (rp_ApprovalRequestID r) =
       Some (new_approval env (with_override env rq') pr constraints token)"
    using held by (rule held_back_call)
  let ?a = "new_approval env (with_override env rq) pr constraints token"
  have eq: "tenant' = tenant" "agentID' = agentID" "rq' = rq" using h(1,2) auth rq by auto
  have rqT: "rq_TenantID rq = tn_TenantID tenant" "rq_TenantID (with_override env rq) = tn_TenantID tenant"
    "rq_Hash (with_override env rq) = rq_Hash rq"
    using readToolCall_Inr [OF rq] by (simp_all add: with_override_def split: sum.splits)
  let ?appr = "?a\<lparr>ap_Status := APPROVED, ap_DecidedAt := Some t, ap_DecidedBy := who, ap_DecisionComment := comment\<rparr>"
  have facts: "ap_TenantID ?a = tn_TenantID tenant" "ap_ExecutedAt ?a = None" "ap_RequestHash ?a = rq_Hash rq"
    "ap_ApprovalTokenHash ?a = cy_sha256hex (ce_crypto env) token" "ap_ExpiresAt ?a = e" "ap_Status ?a = PENDING"
    using rqT h(5) live(1) eq by (simp_all add: new_approval_def Let_def)
  have "approval_row (gw_store (co_gateway (handleToolCall env gw))) (tn_TenantID tenant) (rp_ApprovalRequestID r) = Some ?a"
    using h(6) eq facts(1) by (simp add: approval_row_def)
  then have "gw_store gw2 = (gw_store (co_gateway (handleToolCall env gw)))\<lparr>approvals :=
      (approvals (gw_store (co_gateway (handleToolCall env gw))))(rp_ApprovalRequestID r \<mapsto> ?appr)\<rparr>"
    using approved facts(6)
    by (simp add: ApproveApprovalRequest_def updateApprovalDecision_def affected_result_def update_approval_def)
  then have row: "approvals (gw_store gw2) (rp_ApprovalRequestID r) = Some ?appr" by simp
  have nonempty: "rp_ApprovalRequestID r \<noteq> []" using h(4) by (simp add: new_approval_def Let_def)
  let ?x = "replay_env ?env" and ?p = "replay_params rq (rp_ApprovalRequestID r) token"
  have xs: "ev_gap ?x = ev_gap x" "ev_fault ?x = ev_fault x" "ev_now ?x = ev_now x"
    "ev_sha256hex ?x = cy_sha256hex (ce_crypto env)" "ev_tool ?x = ce_tool env"
    "ev_connector ?x = ce_connector env" "ev_resolver ?x = ce_resolver env"
    by (simp_all add: replay_env_def resubmitted_def)
  have "oc_sent (handleApprovedToolCall ?x ?p (gw_store gw2)) = sent \<and>
    oc_reply (handleApprovedToolCall ?x ?p (gw_store gw2)) = Reply_tool 200 (empty_response\<lparr>rp_RequestID := pm_requestID ?p,
      rp_Decision := ''ALLOW'', rp_Reason := ''Approved execution'', rp_ToolStatus := cs_Status resp,
      rp_ToolHeaders := cs_Headers resp, rp_ToolBody := cs_Body resp\<rparr>)"
    by (rule approved_executes [where a = ?appr])
      (use calm live row facts rqT ok in \<open>simp_all add: xs replay_params_def run_tool_def\<close>)
  moreover have "\<exists>gw'. gw_store gw' = gw_store gw2 \<and> handleToolCall ?env gw2 = replayToolCall ?env rq (rp_ApprovalRequestID r) token gw'"
  proof -
    obtain db where a2: "authenticateTenantRequest ?env (gw_tenants gw2) = (Inr (tenant, agentID), db)"
      using auth2 by (cases "authenticateTenantRequest ?env (gw_tenants gw2)") auto
    obtain m where q2: "enforceUsageQuota (ce_entitlements env) (ce_fault env At_Quota) (tn_TenantID tenant) (ce_period env)
        (gw_meters gw2) = (Inr None, m)"
      using quota2 by (cases "enforceUsageQuota (ce_entitlements env) (ce_fault env At_Quota) (tn_TenantID tenant)
        (ce_period env) (gw_meters gw2)") auto
    have hd: "ce_header ?env ''X-Approval-Request-Id'' = rp_ApprovalRequestID r" "ce_header ?env ''X-Approval-Token'' = token"
      "ce_entitlements ?env = ce_entitlements env" "ce_fault ?env = ce_fault env" "ce_period ?env = ce_period env"
      using h(3) by (simp_all add: resubmitted_def)
    show ?thesis
      by (rule exI [of _ "gw2\<lparr>gw_tenants := db, gw_meters := m\<rparr>"])
        (use a2 q2 hd rq nonempty headers h(3) in \<open>simp add: handleToolCall_def admitToolCall_def Let_def\<close>)
  qed
  ultimately show ?thesis by (auto simp: replayToolCall_def Let_def empty_response_def)
qed

subsection \<open>Concrete calls\<close>

text \<open>A GET of \<open>/x\<close> by a tenant whose policy allows it; with a risk override to CRITICAL the base
  policy holds it back; with an engine that returns no object it is denied.\<close>

definition demo_body :: string where
  "demo_body = ''{'' @ quote ''http_method'' @ '':'' @ quote ''get'' @ '','' @ quote ''path'' @ '':'' @ quote ''/x'' @ ''}''"

definition demo_cfg :: gateway_config where
  "demo_cfg = \<lparr>gc_BodyLimitSize = 100, gc_DisableXTenantKey = False, gc_FeatureRateLimiting = False,
     gc_FeatureArgConstraints = False, gc_FeatureFileGovernance = False, gc_FeatureSessionTokens = False,
     gc_FeatureCrossTenantChain = False, gc_FeatureShadowMode = False\<rparr>"

definition demo_headers :: http_header where
  "demo_headers n = (if n = ''X-Agent-Id'' then ''bot-1'' else if n = ''X-Tenant-Key'' then ''key''
     else if n = ''X-Request-Id'' then ''q1'' else [])"

definition demo_env :: "(gomap \<Rightarrow> any option) call_env" where
  "demo_env = \<lparr>ce_cfg = demo_cfg, ce_db = sample_config_db, ce_fault = (\<lambda>_. None), ce_header = demo_headers,
     ce_toolID = ''jira'', ce_body = demo_body, ce_crypto = sample_crypto, ce_secrets = ''n1,o2'',
     ce_entitlements = None, ce_period = ''2026-01'', ce_tool = Inr sample_tool, ce_risk = Inl ErrNotFound,
     ce_connector = Some (\<lambda>_. Inr \<lparr>cs_Status = 200, cs_Headers = [], cs_Body = ''ok'', cs_BodyHash = ''h''\<rparr>),
     ce_resolver = None, ce_rego = Some sample_engine, ce_regexps = (\<lambda>_. None), ce_rateRow = None,
     ce_mac = sample_mac, ce_provenance = None, ce_clock = (\<lambda>_. 0), ce_id = (\<lambda>_. ''u1''), ce_random = Some ''rnd'',
     ce_exec = sample_env\<rparr>"

definition demo_gateway :: "(gomap \<Rightarrow> any option) gateway" where
  "demo_gateway = \<lparr>gw_tenants = Key_Auth.sample_db, gw_meters = Map.empty, gw_counters = Map.empty,
     gw_store = \<lparr>approvals = Map.empty, decisions = []\<rparr>, gw_evaluator = sample_evaluator\<rparr>"

definition demo_critical :: "(gomap \<Rightarrow> any option) call_env" where
  "demo_critical = demo_env\<lparr>ce_risk := Inr ''CRITICAL''\<rparr>"

definition demo_invalid :: "(gomap \<Rightarrow> any option) call_env" where
  "demo_invalid = demo_env\<lparr>ce_rego := Some (sample_engine\<lparr>rg_Prepare := \<lambda>_. Inr (\<lambda>_. Some Nil_v)\<rparr>)\<rparr>"

lemma demo_sends: "map cq_URL (co_sent (handleToolCall demo_env demo_gateway)) = [''http://j/x'']"
  by code_simp

lemma demo_no_shadow: "\<not> in_shadow_mode demo_env T"
  by (simp add: in_shadow_mode_def tenantEnforcementMode_def demo_env_def demo_cfg_def)

theorem complete_mediation_witness:
  "co_sent (handleToolCall demo_env demo_gateway) \<noteq> [] \<and>
   (\<exists>tenant agentID rq gw'. fst (authenticateTenantRequest demo_env (gw_tenants demo_gateway)) = Inr (tenant, agentID) \<and>
      readToolCall demo_env (tn_TenantID tenant) agentID = Inr rq \<and>
      policy_allows demo_env sample_engine (with_override demo_env rq) gw')"
proof
  show s: "co_sent (handleToolCall demo_env demo_gateway) \<noteq> []" using demo_sends by auto
  have h: "ce_header demo_env ''X-Approval-Request-Id'' = []" "ce_rego demo_env = Some sample_engine"
    by (simp_all add: demo_env_def demo_headers_def)
  from complete_mediation [OF s] h demo_no_shadow
  show "\<exists>tenant agentID rq gw'. fst (authenticateTenantRequest demo_env (gw_tenants demo_gateway)) = Inr (tenant, agentID) \<and>
      readToolCall demo_env (tn_TenantID tenant) agentID = Inr rq \<and>
      policy_allows demo_env sample_engine (with_override demo_env rq) gw'" by auto
qed

definition tool_response :: "'q call_outcome \<Rightarrow> (int \<times> tool_call_response) option" where
  "tool_response out = (case co_reply out of Reply_tool n r \<Rightarrow> Some (n, r) | _ \<Rightarrow> None)"

lemma tool_responseD: "tool_response out = Some (n, r) \<Longrightarrow> co_reply out = Reply_tool n r"
  by (simp add: tool_response_def split: reply.splits)

lemma demo_denied: "map_option (\<lambda>(n, r). (n, rp_Decision r, rp_RequestID r)) (tool_response (handleToolCall demo_invalid demo_gateway)) =
    Some (403, ''DENY'', ''q1'')"
  by code_simp

theorem denial_is_recorded_witness:
  "\<exists>adr\<in>set (decisions (gw_store (co_gateway (handleToolCall demo_invalid demo_gateway)))).
     adr_Decision adr = ''DENY'' \<and> adr_RequestID adr = ''q1''"
proof -
  obtain r where r: "co_reply (handleToolCall demo_invalid demo_gateway) = Reply_tool 403 r" "rp_Decision r = ''DENY''"
    "rp_RequestID r = ''q1''"
    using demo_denied tool_responseD [of "handleToolCall demo_invalid demo_gateway"] by auto
  from denial_is_recorded [OF r(1,2)] r(3) show ?thesis by (auto simp: recorded_denial_def)
qed

definition demo_held :: tool_call_response where
  "demo_held = snd (the (tool_response (handleToolCall demo_critical demo_gateway)))"

definition demo_approved :: "(gomap \<Rightarrow> any option) gateway" where
  "demo_approved = (let gw = co_gateway (handleToolCall demo_critical demo_gateway)
     in gw\<lparr>gw_store := snd (ApproveApprovalRequest ''t1'' (rp_ApprovalRequestID demo_held) ''op'' [] 1 (gw_store gw))\<rparr>)"

lemma demo_held_reply: "map_option (\<lambda>(n, r). (n, rp_ExpiresAt r)) (tool_response (handleToolCall demo_critical demo_gateway)) =
    Some (409, Some defaultApprovalTTL)"
  by code_simp

lemma demo_token: "rp_ApprovalToken demo_held \<noteq> []" by code_simp

lemma demo_logins:
  "fst (authenticateTenantRequest demo_critical (gw_tenants demo_gateway)) = Inr (ar_Principal sample_result, ''bot-1'')"
  "fst (authenticateTenantRequest (resubmitted demo_critical demo_held sample_env) (gw_tenants demo_approved)) =
     Inr (ar_Principal sample_result, ''bot-1'')"
  by code_simp+

lemma demo_approve: "fst (ApproveApprovalRequest ''t1'' (rp_ApprovalRequestID demo_held) ''op'' [] 1
    (gw_store (co_gateway (handleToolCall demo_critical demo_gateway)))) = Inr ()"
  by code_simp

lemma demo_read: "\<exists>rq. readToolCall demo_critical ''t1'' ''bot-1'' = Inr rq"
proof -
  have "(case readToolCall demo_critical ''t1'' ''bot-1'' of Inr _ \<Rightarrow> True | Inl _ \<Rightarrow> False)" by code_simp
  then show ?thesis by (auto split: sum.splits)
qed

lemma demo_run: "\<exists>sent. run_tool demo_critical rq =
    (Inr \<lparr>cs_Status = 200, cs_Headers = [], cs_Body = ''ok'', cs_BodyHash = ''h''\<rparr>, sent)"
  by (simp add: run_tool_def demo_critical_def demo_env_def executeToolCall_def resolveAndApplyAuth_def Let_def)

theorem approval_round_trip_witness:
  "\<exists>r2. co_reply (handleToolCall (resubmitted demo_critical demo_held sample_env) demo_approved) = Reply_tool 200 r2 \<and>
     rp_Decision r2 = ''ALLOW'' \<and> rp_ToolBody r2 = ''ok''"
proof -
  have held: "co_reply (handleToolCall demo_critical demo_gateway) = Reply_tool 409 demo_held"
    "rp_ExpiresAt demo_held = Some defaultApprovalTTL"
    using demo_held_reply tool_responseD [of "handleToolCall demo_critical demo_gateway"] by (auto simp: demo_held_def)
  have tid: "tn_TenantID (ar_Principal sample_result) = ''t1''" by (simp add: sample_result_def)
  have ap: "ApproveApprovalRequest (tn_TenantID (ar_Principal sample_result)) (rp_ApprovalRequestID demo_held) ''op'' [] 1
      (gw_store (co_gateway (handleToolCall demo_critical demo_gateway))) = (Inr (), gw_store demo_approved)"
    using demo_approve by (simp add: tid demo_approved_def Let_def prod_eq_iff)
  have calm: "\<forall>k. ev_gap sample_env k = []" "\<forall>c. ev_fault sample_env c = None" "ev_now sample_env < defaultApprovalTTL"
    by (simp_all add: sample_env_def second_def defaultApprovalTTL_def go_second_def)
  have quota: "fst (enforceUsageQuota (ce_entitlements demo_critical) (ce_fault demo_critical At_Quota)
      (tn_TenantID (ar_Principal sample_result)) (ce_period demo_critical) (gw_meters demo_approved)) = Inr None"
    by (simp add: enforceUsageQuota_def demo_critical_def demo_env_def)
  obtain rq where rq: "readToolCall demo_critical (tn_TenantID (ar_Principal sample_result)) ''bot-1'' = Inr rq"
    using demo_read tid by auto
  obtain sent where run: "run_tool demo_critical rq =
      (Inr \<lparr>cs_Status = 200, cs_Headers = [], cs_Body = ''ok'', cs_BodyHash = ''h''\<rparr>, sent)" using demo_run by blast
  from approval_round_trip [OF held(1) demo_logins(1) ap calm(1,2) held(2) calm(3) demo_logins(2) quota demo_token rq run]
  show ?thesis by auto
qed

end
