(* ===== verification/Mcp_Gateway.thy ===== *)
theory Mcp_Gateway
  imports Mcp_Discovery Call_Outcomes Go_Time
begin

text \<open>
  The MCP endpoint (\<open>src/internal/api/public/mcp_handler.go\<close> and the MCP half of
  \<open>shadow_mode.go\<close>): authentication by session token or tenant key, routing, and
  \<open>tools/call\<close> with the same gates as a REST tool call. The environment of a request holds
  that of a REST call (\<open>me_call\<close>) for what both handlers use: configuration, store, clocks,
  policy engine, connector; the tool and the risk override are looked up by the name the request
  gives. Metrics and logging are left out. The theorem says that a tool is reached only through the
  policy or an operator's approval and that notifications reach none; \<open>Mcp_Answers\<close> and
  \<open>Mcp_Stream\<close> hold what is shown of the answers and of the event stream.
\<close>

subsection \<open>State and environment\<close>

record 'q mcp_gateway =
  mg_gateway :: "'q gateway"
  mg_sessions :: "session_manager option"

record 'q mcp_env =
  me_call :: "'q call_env"
  me_tenantID :: string
  me_body :: "string option"
  me_clientIP :: string
  me_tool :: "string \<Rightarrow> store_error + tool"
  me_risk :: "string \<Rightarrow> store_error + string"
  me_http :: http_client
  me_fmt :: "rat \<Rightarrow> string"
  me_devAutoTools :: bool
  me_sessionRandom :: "string option"
  me_sessionTime :: time
  me_fault :: "string \<Rightarrow> store_error option"

record 'q mcp_outcome =
  mo_result :: mcp_result
  mo_sent :: "connector_request list"
  mo_gateway :: "'q mcp_gateway"

definition tell :: "'q mcp_gateway \<Rightarrow> mcp_result \<Rightarrow> 'q mcp_outcome" where
  "tell mg r = \<lparr>mo_result = r, mo_sent = [], mo_gateway = mg\<rparr>"

definition with_gateway :: "'q mcp_gateway \<Rightarrow> 'q gateway \<Rightarrow> 'q mcp_gateway" where
  "with_gateway mg gw = mg\<lparr>mg_gateway := gw\<rparr>"

definition call_for :: "'q mcp_env \<Rightarrow> string \<Rightarrow> 'q call_env" where
  "call_for env toolID =
     (me_call env)\<lparr>ce_toolID := toolID, ce_tool := me_tool env toolID, ce_risk := me_risk env (''MCP.'' @ toolID)\<rparr>"

definition data_error :: "'q mcp_env \<Rightarrow> int \<Rightarrow> string \<Rightarrow> gomap \<Rightarrow> error_object" where
  "data_error env code message fields_of =
     \<lparr>eo_Code = code, eo_Message = message,
      eo_Data = (case Marshal (me_fmt env) (Map_v fields_of) of
                   Some t \<Rightarrow> t | None \<Rightarrow> json_object [(''error'', quote ''failed to marshal data'')])\<rparr>"

subsection \<open>Authentication\<close>

datatype mcp_auth_error = By_key auth_error | By_session session_error | Wrong_tenant

definition GetTenant :: "store_error option \<Rightarrow> string \<Rightarrow> config_db \<Rightarrow> tenant_db \<Rightarrow> store_error + tenant" where
  "GetTenant flt tenantID cdb db =
     (case flt of
        Some e \<Rightarrow> Inl e
      | None \<Rightarrow>
          (case td_tenants db tenantID of
             None \<Rightarrow> Inl ErrNotFound
           | Some row \<Rightarrow>
               if tn_DeletedAt row \<noteq> None then Inl ErrNotFound
               else if config_of cdb tenantID = None then Inl ErrDB
               else Inr (tn_row row)))"

text \<open>\<open>None\<close> when the request carries no session token.\<close>

definition authenticateViaSession ::
  "'q mcp_env \<Rightarrow> session_manager \<Rightarrow> tenant_db \<Rightarrow> (mcp_auth_error + tenant \<times> string) option \<times> session_manager" where
  "authenticateViaSession env sm db =
     (let token = SessionTokenFromRequest (ce_header (me_call env)) in
      if token = [] then (None, sm)
      else case ValidateToken (ce_mac (me_call env)) token (TrimSpace (me_clientIP env)) (me_sessionTime env) sm of
             (Inl e, sm1) \<Rightarrow> (Some (Inl (By_session e)), sm1)
           | (Inr claims, sm1) \<Rightarrow>
               if sc_TenantID claims \<noteq> me_tenantID env then (Some (Inl Wrong_tenant), sm1)
               else (case GetTenant (me_fault env ''GetTenant'') (sc_TenantID claims) (ce_db (me_call env)) db of
                       Inl _ \<Rightarrow> (Some (Inl Wrong_tenant), sm1)
                     | Inr t \<Rightarrow> (Some (Inr (t\<lparr>tn_Enabled := True\<rparr>, sc_AgentID claims)), sm1)))"

definition sessionTokensOn :: "'q mcp_env \<Rightarrow> bool" where
  "sessionTokensOn env =
     featureSessionTokensEnabled (site (me_call env) (At_Flag ''feature_session_tokens'')) (ce_cfg (me_call env)) (Some (ce_db (me_call env)))"

definition authenticate_key ::
  "'q mcp_env \<Rightarrow> 'q mcp_gateway \<Rightarrow> (mcp_auth_error + tenant \<times> string) \<times> 'q mcp_gateway" where
  "authenticate_key env mg =
     (case authenticateTenantRequest (me_call env) (gw_tenants (mg_gateway mg)) of
        (Inl e, db) \<Rightarrow> (Inl (By_key e), with_gateway mg ((mg_gateway mg)\<lparr>gw_tenants := db\<rparr>))
      | (Inr (tenant, agentID), db) \<Rightarrow>
          (if tn_TenantID tenant \<noteq> me_tenantID env then Inl Wrong_tenant else Inr (tenant, agentID),
           with_gateway mg ((mg_gateway mg)\<lparr>gw_tenants := db\<rparr>)))"

definition authenticateMCPRequest ::
  "'q mcp_env \<Rightarrow> 'q mcp_gateway \<Rightarrow> (mcp_auth_error + tenant \<times> string) \<times> 'q mcp_gateway" where
  "authenticateMCPRequest env mg =
     (case mg_sessions mg of
        None \<Rightarrow> authenticate_key env mg
      | Some sm \<Rightarrow>
          if sessionTokensOn env
          then (case authenticateViaSession env sm (gw_tenants (mg_gateway mg)) of
                  (Some r, sm1) \<Rightarrow> (r, mg\<lparr>mg_sessions := Some sm1\<rparr>)
                | (None, sm1) \<Rightarrow> authenticate_key env (mg\<lparr>mg_sessions := Some sm1\<rparr>))
          else authenticate_key env mg)"

definition auth_failure :: "mcp_auth_error \<Rightarrow> error_object" where
  "auth_failure e =
     (case e of
        By_key ErrInvalidAgentID \<Rightarrow> error_obj ErrorInvalidParams ''invalid agent_id''
      | By_session ErrSessionExpired \<Rightarrow> error_obj ErrorUnauthorized ''session token expired''
      | By_session ErrSessionIPMismatch \<Rightarrow> error_obj ErrorUnauthorized ''session token IP mismatch''
      | _ \<Rightarrow> error_obj ErrorUnauthorized ''authentication failed'')"

subsection \<open>initialize\<close>

definition initialize_fields :: "(string \<times> string raw_field) list" where
  "initialize_fields = [(''protocolVersion'', raw_string_field id)]"

definition is_string_or_null :: "string \<Rightarrow> bool" where
  "is_string_or_null raw = (case Unmarshal raw of Some (Str_v _) \<Rightarrow> True | Some Nil_v \<Rightarrow> True | _ \<Rightarrow> False)"

text \<open>The client information is decoded too, and a name or version that is no string is an error.\<close>

definition client_info_ok :: "string raw_field" where
  "client_info_ok raw acc =
     (case raw_object raw of
        None \<Rightarrow> None
      | Some m \<Rightarrow>
          decode_struct [(''name'', \<lambda>r a. if is_string_or_null r then Some a else None),
                         (''version'', \<lambda>r a. if is_string_or_null r then Some a else None)] acc m)"

definition decode_initialize :: "string \<Rightarrow> string option" where
  "decode_initialize params =
     (if params = [] then Some []
      else Option.bind (raw_object params) (decode_struct (initialize_fields @ [(''clientInfo'', client_info_ok)]) []))"

definition ProtocolVersion :: string where "ProtocolVersion = ''2025-11-25''"

definition initialize_capabilities :: gomap where
  "initialize_capabilities =
     [(''tools'', Map_v [(''listChanged'', Bool_v False)]), (''resources'', Map_v [(''listChanged'', Bool_v False)])]"

definition initialize_result :: "'q mcp_env \<Rightarrow> gomap \<Rightarrow> string" where
  "initialize_result env capabilities =
     json_object [(''protocolVersion'', quote ProtocolVersion), (''capabilities'', json_text (me_fmt env) (Map_v capabilities)),
       (''serverInfo'', json_object [(''name'', quote ''rbitr-gateway''), (''version'', quote ''v1'')])]"

definition handleInitialize :: "'q mcp_env \<Rightarrow> tenant \<Rightarrow> string \<Rightarrow> mcp_request \<Rightarrow> 'q mcp_gateway \<Rightarrow> 'q mcp_outcome" where
  "handleInitialize env tenant agentID req mg =
     (case decode_initialize (mq_Params req) of
        None \<Rightarrow> tell mg (rpc_error req (NewInvalidParamsError ''invalid initialize params''))
      | Some version \<Rightarrow>
          if version = [] then tell mg (rpc_error req (NewInvalidParamsError ''protocolVersion required''))
          else if version \<noteq> ProtocolVersion
          then tell mg (rpc_error req (data_error env ErrorInvalidParams ''invalid params: unsupported protocolVersion''
                 [(''supported'', List_v [Str_v ProtocolVersion])]))
          else (case (mg_sessions mg, me_sessionRandom env) of
                  (Some sm, Some bytes) \<Rightarrow>
                    if sessionTokensOn env
                    then (case IssueToken (ce_mac (me_call env)) (tn_TenantID tenant) agentID (TrimSpace (me_clientIP env)) bytes
                                 (me_sessionTime env) sm of
                            ((token, claims), sm1) \<Rightarrow>
                              tell (mg\<lparr>mg_sessions := Some sm1\<rparr>)
                                (rpc_ok req (initialize_result env (initialize_capabilities @
                                   [(''session'', Map_v [(''token'', Str_v token), (''expires_at'', Int_v (sc_ExpiresAt claims)),
                                                         (''session_id'', Str_v (sc_SessionID claims))])]))))
                    else tell mg (rpc_ok req (initialize_result env initialize_capabilities))
                | _ \<Rightarrow> tell mg (rpc_ok req (initialize_result env initialize_capabilities))))"

definition handleInitializedNotification :: "mcp_request \<Rightarrow> mcp_result" where
  "handleInitializedNotification req =
     (if mq_ID req \<noteq> None then rpc_error req (error_obj ErrorInvalidRequest ''notifications/initialized must not include id'')
      else Mcp_none)"

subsection \<open>Executing a call\<close>

definition isValidToolID :: "string \<Rightarrow> bool" where
  "isValidToolID toolID =
     (toolID \<noteq> [] \<and> length toolID \<le> 64 \<and>
      list_all (\<lambda>c. is_letter c \<or> is_digit c \<or> c \<in> {CHR ''_'', CHR ''-'', CHR ''.''}) toolID)"

definition buildForwardToolsCallRequest :: "mcp_request \<Rightarrow> string \<Rightarrow> string \<Rightarrow> mcp_request" where
  "buildForwardToolsCallRequest req toolName argumentsJSON =
     \<lparr>mq_JSONRPC = mq_JSONRPC req, mq_ID = mq_ID req, mq_Method = mq_Method req,
      mq_Params = json_object [(''name'', quote toolName), (''arguments'', marshal_raw argumentsJSON)]\<rparr>"

definition body_arguments :: "gomap \<Rightarrow> gomap" where
  "body_arguments arguments =
     filter (\<lambda>(k, _). k \<notin> {''path'', ''method'', ''_rbitr_approval_token'', ''_rbitr_approval_request_id''}) arguments"

definition string_argument :: "gomap \<Rightarrow> string \<Rightarrow> string \<Rightarrow> string" where
  "string_argument arguments k dflt =
     (case as_string (index_map arguments k) of None \<Rightarrow> dflt | Some s \<Rightarrow> if s = [] then dflt else s)"

definition fallback_request :: "(rat \<Rightarrow> string) \<Rightarrow> tool \<Rightarrow> gomap \<Rightarrow> headers \<Rightarrow> connector_request" where
  "fallback_request fmt t arguments hs =
     \<lparr>cq_Method = string_argument arguments ''method'' ''POST'',
      cq_URL = TrimRight (tl_BaseURL t) CHR ''/'' @ string_argument arguments ''path'' ''/'',
      cq_Headers = hs, cq_Body = json_text fmt (Map_v (body_arguments arguments))\<rparr>"

definition executeHTTPFallback ::
  "'q mcp_env \<Rightarrow> mcp_request \<Rightarrow> tool \<Rightarrow> gomap \<Rightarrow> (exec_error + mcp_response) \<times> connector_request list" where
  "executeHTTPFallback env req t arguments =
     (case ce_connector (me_call env) of
        None \<Rightarrow> (Inr (NewErrorResponse (mq_ID req) (NewInternalError ''HTTP connector not configured'')), [])
      | Some execute \<Rightarrow>
          (case resolveAndApplyAuth (ce_resolver (me_call env)) [(''Content-Type'', ''application/json'')] t of
             Inl e \<Rightarrow> (Inl (Exec_auth e), [])
           | Inr hs \<Rightarrow>
               (let out = fallback_request (me_fmt env) t arguments hs
                in case execute out of
                     Inl e \<Rightarrow> (Inl (Exec_upstream e), [out])
                   | Inr resp \<Rightarrow>
                       (Inr (NewSuccessResponse (mq_ID req) (json_object [(''content'', json_array [json_object
                          ([(''type'', quote ''text'')] @ omit_empty ''text'' (cs_Body resp))])])), [out]))))"

definition forward_mcp :: "'q mcp_env \<Rightarrow> tool \<Rightarrow> mcp_request \<Rightarrow> (exec_error + mcp_response) \<times> connector_request list" where
  "forward_mcp env t forwardReq =
     (case ForwardRequest (me_http env) (me_fmt env) (tl_MCPUpstreamURL t) forwardReq of
        (Inl e, sent) \<Rightarrow> (Inl (Exec_upstream e), sent)
      | (Inr resp, sent) \<Rightarrow> (Inr resp, sent))"

definition withMCPShadowMetadata :: "(rat \<Rightarrow> string) \<Rightarrow> string \<Rightarrow> gomap \<Rightarrow> string" where
  "withMCPShadowMetadata fmt raw shadowMeta =
     (if raw = [] \<or> ToLower (TrimSpace raw) = ''null''
      then json_text fmt (Map_v [(''_rbitr_shadow'', Map_v shadowMeta)])
      else case UnmarshalAny raw of
             Some (Map_v m) \<Rightarrow> json_text fmt (Map_v (set_key ''_rbitr_shadow'' (Map_v shadowMeta) m))
           | v \<Rightarrow> json_text fmt (Map_v [(''_rbitr_result'', case v of Some x \<Rightarrow> x | None \<Rightarrow> Str_v raw),
                                       (''_rbitr_shadow'', Map_v shadowMeta)]))"

definition executeMCPShadowDeny ::
  "'q mcp_env \<Rightarrow> tool \<Rightarrow> mcp_request \<Rightarrow> gomap \<Rightarrow> 'q mcp_gateway \<Rightarrow> 'q mcp_outcome" where
  "executeMCPShadowDeny env t forwardReq shadowMeta mg =
     (if tl_MCPUpstreamURL t = [] then tell mg (rpc_error forwardReq (NewInternalError ''tool not configured for MCP''))
      else case forward_mcp env t forwardReq of
             (Inl _, sent) \<Rightarrow>
               \<lparr>mo_result = rpc_error forwardReq (error_obj ErrorInternalError ''upstream tool execution failed''),
                mo_sent = sent, mo_gateway = mg\<rparr>
           | (Inr resp, sent) \<Rightarrow>
               \<lparr>mo_result = Mcp_resp (resp\<lparr>mp_Result := withMCPShadowMetadata (me_fmt env) (mp_Result resp) shadowMeta\<rparr>),
                mo_sent = sent, mo_gateway = mg\<rparr>)"

subsection \<open>The call\<close>

record mcp_call =
  mc_req :: mcp_request
  mc_forward :: mcp_request
  mc_tool :: tool
  mc_arguments :: "gomap option"
  mc_rq :: tool_call

abbreviation (input) call_args :: "mcp_call \<Rightarrow> gomap" where
  "call_args mc \<equiv> (case mc_arguments mc of None \<Rightarrow> [] | Some m \<Rightarrow> m)"

definition arguments_value :: "gomap option \<Rightarrow> any" where
  "arguments_value a = (case a of None \<Rightarrow> Nil_v | Some m \<Rightarrow> Map_v m)"

definition persist_error :: "mcp_call \<Rightarrow> mcp_result" where
  "persist_error mc = rpc_error (mc_req mc) (NewInternalError ''failed to persist decision'')"

text \<open>The common shape of the three denials.\<close>

definition mcp_deny ::
  "'q mcp_env \<Rightarrow> mcp_call \<Rightarrow> string \<Rightarrow> string \<Rightarrow> policy_result \<Rightarrow> decision_rule \<Rightarrow> decision_reason list \<Rightarrow> gomap
   \<Rightarrow> error_object \<Rightarrow> 'q mcp_gateway \<Rightarrow> 'q mcp_outcome" where
  "mcp_deny env mc source mode pr rule reasons constraints refusal mg =
     (let cenv = call_for env (rq_ToolID (mc_rq mc)) in
      case record_decision cenv (decision_adr cenv (mc_rq mc) source pr ''DENY'' rule reasons constraints) (mg_gateway mg) of
        (Inl _, gw1) \<Rightarrow> tell (with_gateway mg gw1) (persist_error mc)
      | (Inr _, gw1) \<Rightarrow>
          if isShadowMode mode
          then executeMCPShadowDeny env (mc_tool mc) (mc_forward mc)
                 (buildShadowDecisionMetadata (dr_ID rule) (pr_Risk pr) (pr_PolicyVersion pr) reasons constraints) (with_gateway mg gw1)
          else tell (with_gateway mg gw1) (rpc_error (mc_req mc) refusal))"

definition formatReasons :: "decision_reason list \<Rightarrow> any" where
  "formatReasons reasons = List_v (map (\<lambda>r. Str_v (rs_Message r)) reasons)"

definition buildMCPApprovalRequestContext :: "string \<Rightarrow> gomap \<Rightarrow> gomap" where
  "buildMCPApprovalRequestContext toolID arguments =
     [(''transport'', Str_v ''mcp''), (''method'', Str_v ''tools/call''), (''tool_name'', Str_v toolID), (''arguments'', Map_v arguments)]"

text \<open>\<open>Format(time.RFC3339)\<close>: the text without a fraction.\<close>

definition FormatRFC3339 :: "time \<Rightarrow> string" where
  "FormatRFC3339 t = FormatRFC3339Nano (t - t mod second_ns)"

definition mcp_approval ::
  "'q mcp_env \<Rightarrow> mcp_call \<Rightarrow> string \<Rightarrow> policy_result \<Rightarrow> gomap \<Rightarrow> 'q mcp_gateway \<Rightarrow> 'q mcp_outcome" where
  "mcp_approval env mc source pr constraints mg =
     (let cenv = call_for env (rq_ToolID (mc_rq mc)); req = mc_req mc;
          violation = checkFeatureAccess (ce_entitlements cenv) ''approval_workflows'' in
      if violation \<noteq> []
      then tell mg (rpc_error req (data_error env ErrorUnauthorized violation
             [(''feature_locked'', Bool_v True), (''feature'', Str_v ''approval_workflows'')]))
      else case generateApprovalToken (ce_random cenv) of
        None \<Rightarrow> tell mg (rpc_error req (NewInternalError ''failed to generate approval token''))
      | Some token \<Rightarrow>
          (let approval = (new_approval cenv (mc_rq mc) pr constraints token)
                 \<lparr>ap_RequestContext := buildMCPApprovalRequestContext (rq_ToolID (mc_rq mc)) (call_args mc)\<rparr>;
               adr = (decision_adr cenv (mc_rq mc) source pr (pr_Decision pr) (pr_Rule pr) (pr_Reasons pr) constraints)
                 \<lparr>adr_ApprovalRequestID := ap_ApprovalRequestID approval\<rparr>;
               gw = mg_gateway mg
           in case (case ce_fault cenv At_InsertApproval of Some e \<Rightarrow> (Inl e, gw_store gw)
                    | None \<Rightarrow> InsertApprovalRequest approval (gw_store gw)) of
                (Inl _, db) \<Rightarrow> tell (with_gateway mg (gw\<lparr>gw_store := db\<rparr>)) (rpc_error req (NewInternalError ''failed to persist approval''))
              | (Inr _, db) \<Rightarrow>
                  (case record_decision cenv adr (gw\<lparr>gw_store := db\<rparr>) of
                     (Inl _, gw1) \<Rightarrow> tell (with_gateway mg gw1) (persist_error mc)
                   | (Inr _, gw1) \<Rightarrow>
                       tell (with_gateway mg gw1) (rpc_error req (data_error env ErrorApprovalRequired ''approval required''
                         [(''approval_required'', Bool_v True), (''approval_request_id'', Str_v (ap_ApprovalRequestID approval)),
                          (''approval_token'', Str_v token), (''expires_at'', Str_v (FormatRFC3339 (ap_ExpiresAt approval))),
                          (''policy_version'', Str_v (pr_PolicyVersion pr)), (''rule_id'', Str_v (dr_ID (pr_Rule pr))),
                          (''risk'', Str_v (ap_Risk approval)), (''reasons'', formatReasons (pr_Reasons pr)),
                          (''instructions'', Str_v ''Include the approval_token in arguments._rbitr_approval_token when resubmitting'')])))))"

text \<open>\<open>forwardViaMCP\<close> and \<open>forwardViaHTTP\<close> differ in how they execute.\<close>

definition mcp_execute :: "'q mcp_env \<Rightarrow> mcp_call \<Rightarrow> (exec_error + mcp_response) \<times> connector_request list" where
  "mcp_execute env mc =
     (if tl_MCPUpstreamURL (mc_tool mc) \<noteq> [] then forward_mcp env (mc_tool mc) (mc_forward mc)
      else executeHTTPFallback env (mc_req mc) (mc_tool mc) (call_args mc))"

definition forward_allowed ::
  "'q mcp_env \<Rightarrow> mcp_call \<Rightarrow> action_decision_record \<Rightarrow> 'q mcp_gateway \<Rightarrow> 'q mcp_outcome" where
  "forward_allowed env mc adr mg =
     (let cenv = call_for env (rq_ToolID (mc_rq mc)); sha = cy_sha256hex (ce_crypto cenv) in
      case mcp_execute env mc of
        (Inl _, sent) \<Rightarrow>
          \<lparr>mo_result = rpc_error (mc_req mc) (data_error env ErrorInternalError ''upstream tool execution failed''
             [(''reason'', Str_v ''upstream_error'')]),
           mo_sent = sent, mo_gateway = with_gateway mg (snd (record_decision cenv adr (mg_gateway mg)))\<rparr>
      | (Inr resp, sent) \<Rightarrow>
          (case record_decision cenv (adr\<lparr>adr_ResponseHash := HashBody sha (marshal_raw (mp_Result resp))\<rparr>) (mg_gateway mg) of
             (Inl _, gw1) \<Rightarrow> \<lparr>mo_result = persist_error mc, mo_sent = sent, mo_gateway = with_gateway mg gw1\<rparr>
           | (Inr _, gw1) \<Rightarrow> \<lparr>mo_result = Mcp_resp resp, mo_sent = sent, mo_gateway = with_gateway mg gw1\<rparr>))"

definition mcp_settle ::
  "'q mcp_env \<Rightarrow> mcp_call \<Rightarrow> string \<Rightarrow> string \<Rightarrow> policy_result \<Rightarrow> gomap \<Rightarrow> 'q mcp_gateway \<Rightarrow> 'q mcp_outcome" where
  "mcp_settle env mc source mode pr constraints mg =
     (if pr_Decision pr = ''DENY''
      then mcp_deny env mc source mode pr (pr_Rule pr) (pr_Reasons pr) constraints
             (data_error env ErrorDeniedByPolicy ''denied by policy''
                [(''denied'', Bool_v True), (''policy_version'', Str_v (pr_PolicyVersion pr)), (''rule_id'', Str_v (dr_ID (pr_Rule pr))),
                 (''risk'', Str_v (pr_Risk pr)), (''reasons'', formatReasons (pr_Reasons pr)),
                 (''matched_rules'', List_v (map Map_v (matchedRulesFromConstraints constraints)))]) mg
      else if pr_Decision pr = ''REQUIRE_APPROVAL'' then mcp_approval env mc source pr constraints mg
      else if pr_Decision pr = ''ALLOW''
      then (if tl_MCPUpstreamURL (mc_tool mc) = [] \<and> tl_BaseURL (mc_tool mc) = []
            then tell mg (rpc_error (mc_req mc) (data_error env ErrorInternalError ''tool not configured for MCP or HTTP''
                   [(''tool_id'', Str_v (rq_ToolID (mc_rq mc)))]))
            else forward_allowed env mc (decision_adr (call_for env (rq_ToolID (mc_rq mc))) (mc_rq mc) source pr (pr_Decision pr)
                   (pr_Rule pr) (pr_Reasons pr) constraints) mg)
      else tell mg (rpc_error (mc_req mc) (data_error env ErrorDeniedByPolicy ''unknown decision''
             [(''decision'', Str_v (pr_Decision pr))])))"

definition mcp_constrain ::
  "'q mcp_env \<Rightarrow> mcp_call \<Rightarrow> string \<Rightarrow> string \<Rightarrow> policy_result \<Rightarrow> gomap \<Rightarrow> 'q mcp_gateway \<Rightarrow> 'q mcp_outcome" where
  "mcp_constrain env mc source mode pr constraints mg =
     (let cenv = call_for env (rq_ToolID (mc_rq mc)) in
      case enforceArgumentConstraints (ce_regexps cenv)
             (featureArgConstraintsEnabled (site cenv (At_Flag ''feature_arg_constraints'')) (ce_cfg cenv) (Some (ce_db cenv)))
             constraints (Map_v (call_args mc)) of
        None \<Rightarrow> mcp_settle env mc source mode pr constraints mg
      | Some v \<Rightarrow>
          (let reasons = [\<lparr>rs_Code = av_ReasonCode v, rs_Message = av_Message v\<rparr>]
           in mcp_deny env mc source mode pr \<lparr>dr_ID = argConstraintRuleID (Some v), dr_Priority = 1000\<rparr> reasons
                (withArgConstraintFailures constraints (Some v))
                (data_error env ErrorDeniedByPolicy ''denied by policy''
                   [(''denied'', Bool_v True), (''policy_version'', Str_v (pr_PolicyVersion pr)),
                    (''rule_id'', Str_v (argConstraintRuleID (Some v))), (''risk'', Str_v (pr_Risk pr)), (''reasons'', formatReasons reasons),
                    (''constraint_failures'', argConstraintFailuresAsMaps (av_Failures v))]) mg))"

definition mcp_limit ::
  "'q mcp_env \<Rightarrow> mcp_call \<Rightarrow> string \<Rightarrow> string \<Rightarrow> policy_result \<Rightarrow> gomap \<Rightarrow> 'q mcp_gateway \<Rightarrow> 'q mcp_outcome" where
  "mcp_limit env mc source mode pr constraints mg =
     (let cenv = call_for env (rq_ToolID (mc_rq mc)); rq = mc_rq mc; gw = mg_gateway mg in
      case enforceRateLimit
             (featureRateLimitingEnabled (site cenv (At_Flag ''feature_rate_limiting'')) (ce_cfg cenv) (Some (ce_db cenv)))
             (stored_rate_config cenv) (\<lambda>w. ce_fault cenv (At_Rate w))
             \<lparr>rk_tenantID = rq_TenantID rq, rk_agentID = rq_AgentID rq, rk_toolID = rq_ToolID rq,
              rk_actionType = cl_ActionType (rq_Class rq)\<rparr> constraints (ce_clock cenv Time_rate) (gw_counters gw) of
        (Inl _, db) \<Rightarrow> tell (with_gateway mg (gw\<lparr>gw_counters := db\<rparr>)) (rpc_error (mc_req mc) (NewInternalError ''rate limit check failed''))
      | (Inr (Some v), db) \<Rightarrow>
          (let reasons = [\<lparr>rs_Code = ''RATE_LIMIT_EXCEEDED'', rs_Message = ''Rate limit exceeded''\<rparr>]
           in mcp_deny env mc source mode pr \<lparr>dr_ID = ''rate_limit_'' @ rv_Window v, dr_Priority = 1000\<rparr> reasons
                (withRateLimitConstraint constraints (Some v))
                (data_error env ErrorRateLimitExceeded ''rate limit exceeded''
                   [(''window'', Str_v (rv_Window v)), (''limit'', Int_v (rv_Limit v)), (''remaining'', Int_v (rv_Remaining v)),
                    (''retry_after_seconds'', Int_v (rv_RetryAfterSeconds v)), (''scope'', Str_v (rv_Scope v))])
                (with_gateway mg (gw\<lparr>gw_counters := db\<rparr>)))
      | (Inr None, db) \<Rightarrow> mcp_constrain env mc source mode pr constraints (with_gateway mg (gw\<lparr>gw_counters := db\<rparr>)))"

subsection \<open>Resubmitting an approved call\<close>

definition denied :: "'q mcp_env \<Rightarrow> string \<Rightarrow> gomap \<Rightarrow> error_object" where
  "denied env message fields_of = data_error env ErrorDeniedByPolicy message fields_of"

definition already_claimed :: "'q mcp_env \<Rightarrow> approval_request \<Rightarrow> error_object" where
  "already_claimed env approval =
     denied env ''approval already claimed''
       [(''reason'', Str_v ''already_claimed''), (''status'', Str_v (status_text (ap_Status approval))),
        (''approval_request_id'', Str_v (ap_ApprovalRequestID approval))]"

definition mcp_resume :: "'q mcp_env \<Rightarrow> approval_request \<Rightarrow> time \<Rightarrow> error_object + approval_request" where
  "mcp_resume env approval now =
     (if ap_ExecutedAt approval \<noteq> None
      then Inl (denied env ''approval already executed''
             [(''reason'', Str_v ''approval_already_executed''), (''approval_request_id'', Str_v (ap_ApprovalRequestID approval))])
      else if \<not> approvalRetryAllowed approval now
      then Inl (denied env ''approval retry window exceeded''
             [(''reason'', Str_v ''executing_retry_window_exceeded''), (''approval_request_id'', Str_v (ap_ApprovalRequestID approval)),
              (''retry_window_seconds'', Int_v (approvalExecutionRetryWindow div second))])
      else Inr approval)"

definition approval_not_found :: "'q mcp_env \<Rightarrow> string \<Rightarrow> error_object" where
  "approval_not_found env approvalID =
     denied env ''approval not found'' [(''reason'', Str_v ''approval_not_found''), (''approval_request_id'', Str_v approvalID)]"

definition mcp_claim ::
  "'q mcp_env \<Rightarrow> exec_env \<Rightarrow> approved_params \<Rightarrow> string \<Rightarrow> approval_request \<Rightarrow> store_db
   \<Rightarrow> (error_object + approval_request) \<times> store_db" where
  "mcp_claim env x p tokenHash approval db =
     (case ap_Status approval of
        APPROVED \<Rightarrow>
          (case store_do x 1 At_Claim (Call_Claim (pm_tenantID p) (pm_approvalID p) tokenHash (pm_requestHash p) (ev_now x)) db of
             (Inr _, db1) \<Rightarrow>
               (Inr (approval\<lparr>ap_Status := EXECUTING, ap_ExecutingAt := Some (ev_now x),
                       ap_ExecutionID := (if ap_ExecutionID approval = []
                         then ap_ApprovalRequestID approval else ap_ExecutionID approval)\<rparr>), db1)
           | (Inl ErrNotFound, db1) \<Rightarrow> (Inl (approval_not_found env (pm_approvalID p)), db1)
           | (Inl ErrInvalidState, db1) \<Rightarrow>
               (case store_get x 2 At_GetLatest (pm_tenantID p) (pm_approvalID p) db1 of
                  (Inl _, db2) \<Rightarrow> (Inl (NewInternalError ''failed to refresh approval state''), db2)
                | (Inr latest, db2) \<Rightarrow>
                    (if ap_Status latest = EXECUTING then mcp_resume env latest (ev_now x) else Inl (already_claimed env latest), db2))
           | (Inl _, db1) \<Rightarrow> (Inl (NewInternalError ''failed to claim approval''), db1))
      | EXECUTING \<Rightarrow> (mcp_resume env approval (ev_now x), db)
      | _ \<Rightarrow> (Inl (already_claimed env approval), db))"

definition approvalExecutionID :: "approval_request \<Rightarrow> string" where
  "approvalExecutionID a = (if ap_ExecutionID a \<noteq> [] then ap_ExecutionID a else ap_ApprovalRequestID a)"

record mcp_exec_outcome =
  xo_result :: mcp_result
  xo_sent :: "connector_request list"
  xo_db :: store_db

definition mark_failed :: "exec_env \<Rightarrow> approved_params \<Rightarrow> string \<Rightarrow> time \<Rightarrow> store_db \<Rightarrow> store_db" where
  "mark_failed x p code t db = snd (store_do x 3 At_MarkFailed (Call_Failed (pm_tenantID p) (pm_approvalID p) code t) db)"

text \<open>The HTTP fallback of an approved call decodes the arguments from the forwarded request.\<close>

definition forward_fields :: "(string \<times> (string \<times> string) raw_field) list" where
  "forward_fields =
     [(''name'', raw_string_field (\<lambda>f (n, a). (f n, a))), (''arguments'', raw_text_field (\<lambda>f (n, a). (n, f a)))]"

definition decode_call_params :: "string \<Rightarrow> (string \<times> string) option" where
  "decode_call_params params = Option.bind (raw_object params) (decode_struct forward_fields ([], []))"

definition decode_arguments :: "string \<Rightarrow> gomap option option" where
  "decode_arguments raw =
     (case UnmarshalAny raw of Some (Map_v m) \<Rightarrow> Some (Some m) | Some Nil_v \<Rightarrow> Some None | _ \<Rightarrow> None)"

definition approved_execute ::
  "'q mcp_env \<Rightarrow> tool \<Rightarrow> mcp_request \<Rightarrow> ((exec_error + mcp_response) \<times> connector_request list) option" where
  "approved_execute env t forwardReq =
     (if tl_MCPUpstreamURL t \<noteq> [] then Some (forward_mcp env t forwardReq)
      else case decode_call_params (marshal_raw (mq_Params forwardReq)) of
             None \<Rightarrow> None
           | Some (_, raw) \<Rightarrow>
               Some (executeHTTPFallback env forwardReq t
                 (case decode_arguments raw of Some (Some m) \<Rightarrow> m | _ \<Rightarrow> [])))"

definition approved_adr ::
  "'q mcp_env \<Rightarrow> exec_env \<Rightarrow> approved_params \<Rightarrow> approval_request \<Rightarrow> mcp_response \<Rightarrow> action_decision_record" where
  "approved_adr env x p approval resp =
     execution_adr x p approval
       (if mp_Result resp = [] then [] else HashBody (ev_sha256hex x) (marshal_raw (mp_Result resp)))"

definition run_approved ::
  "'q mcp_env \<Rightarrow> exec_env \<Rightarrow> approved_params \<Rightarrow> mcp_request \<Rightarrow> approval_request \<Rightarrow> store_db \<Rightarrow> mcp_exec_outcome" where
  "run_approved env x p forwardReq approval db =
     (case ev_tool x of
        Inl e \<Rightarrow>
          \<lparr>xo_result = rpc_error forwardReq (if e = ErrNotFound
             then data_error env ErrorInternalError ''tool not found''
                    [(''tool_id'', Str_v (pm_toolID p)), (''approval_request_id'', Str_v (ap_ApprovalRequestID approval))]
             else NewInternalError ''failed to lookup tool''),
           xo_sent = [], xo_db = mark_failed x p ''UPSTREAM_ERROR'' (ev_now x) db\<rparr>
      | Inr t \<Rightarrow>
          if tl_MCPUpstreamURL t = [] \<and> tl_BaseURL t = []
          then \<lparr>xo_result = rpc_error forwardReq (data_error env ErrorInternalError ''tool not configured for MCP or HTTP''
                  [(''tool_id'', Str_v (tl_ToolID t)), (''approval_request_id'', Str_v (ap_ApprovalRequestID approval))]),
                xo_sent = [], xo_db = mark_failed x p ''UPSTREAM_ERROR'' (ev_now x) db\<rparr>
          else (case approved_execute env t forwardReq of
                  None \<Rightarrow>
                    \<lparr>xo_result = rpc_error forwardReq (NewInternalError ''failed to parse tool arguments''),
                     xo_sent = [], xo_db = mark_failed x p ''UPSTREAM_ERROR'' (ev_now x) db\<rparr>
                | Some (Inl e, sent) \<Rightarrow>
                    (let timeout = isUpstreamTimeoutError e
                     in \<lparr>xo_result = rpc_error forwardReq (data_error env ErrorInternalError ''upstream tool execution failed''
                           [(''reason'', Str_v (if timeout then ''upstream_timeout'' else ''upstream_error'')),
                            (''approval_request_id'', Str_v (ap_ApprovalRequestID approval)),
                            (''execution_id'', Str_v (approvalExecutionID approval))]),
                         xo_sent = sent,
                         xo_db = mark_failed x p (if timeout then ''UPSTREAM_TIMEOUT'' else ''UPSTREAM_ERROR'') (ev_done x) db\<rparr>)
                | Some (Inr resp, sent) \<Rightarrow>
                    (case store_do x 3 At_MarkExecuted (Call_Executed (pm_tenantID p) (pm_approvalID p) (pm_requestID p)
                            (''d_'' @ ev_uuid x) (ev_done x)) db of
                       (Inl e, db1) \<Rightarrow>
                         \<lparr>xo_result = rpc_error forwardReq (if e = ErrInvalidState
                            then denied env ''approval already claimed''
                                   [(''reason'', Str_v ''already_claimed''), (''approval_request_id'', Str_v (ap_ApprovalRequestID approval))]
                            else NewInternalError ''failed to mark approval executed''),
                          xo_sent = sent, xo_db = db1\<rparr>
                     | (Inr _, db1) \<Rightarrow>
                         \<lparr>xo_result = Mcp_resp resp, xo_sent = sent,
                          xo_db = snd (store_do x 4 At_InsertADR (Call_ADR (approved_adr env x p approval resp)) db1)\<rparr>)))"

definition mcp_refuse :: "mcp_request \<Rightarrow> error_object \<Rightarrow> store_db \<Rightarrow> mcp_exec_outcome" where
  "mcp_refuse forwardReq e db = \<lparr>xo_result = rpc_error forwardReq e, xo_sent = [], xo_db = db\<rparr>"

definition handleMCPApprovedCall ::
  "'q mcp_env \<Rightarrow> exec_env \<Rightarrow> approved_params \<Rightarrow> mcp_request \<Rightarrow> store_db \<Rightarrow> mcp_exec_outcome" where
  "handleMCPApprovedCall env x p forwardReq db =
     (if pm_approvalID p = []
      then mcp_refuse forwardReq (NewInvalidParamsError ''_rbitr_approval_request_id is required when _rbitr_approval_token is provided'') db
      else case store_get x 0 At_Get (pm_tenantID p) (pm_approvalID p) db of
        (Inl e, db1) \<Rightarrow>
          mcp_refuse forwardReq (if e = ErrNotFound then approval_not_found env (pm_approvalID p)
                                 else NewInternalError ''failed to lookup approval'') db1
      | (Inr approval, db1) \<Rightarrow>
          (let tokenHash = ev_sha256hex x (pm_approvalToken p) in
           if tokenHash \<noteq> ap_ApprovalTokenHash approval
           then mcp_refuse forwardReq (denied env ''approval token invalid''
                  [(''reason'', Str_v ''token_invalid''), (''approval_request_id'', Str_v (ap_ApprovalRequestID approval))]) db1
           else if ap_RequestHash approval \<noteq> pm_requestHash p
           then mcp_refuse forwardReq (denied env ''approval request hash mismatch''
                  [(''reason'', Str_v ''hash_mismatch''), (''approval_request_id'', Str_v (pm_approvalID p))]) db1
           else if ap_Status approval = EXPIRED \<or> ev_now x > ap_ExpiresAt approval
           then mcp_refuse forwardReq (denied env ''approval expired''
                  [(''reason'', Str_v ''expired''), (''approval_request_id'', Str_v (ap_ApprovalRequestID approval)),
                   (''expired_at'', Str_v (FormatRFC3339 (ap_ExpiresAt approval)))])
                  (snd (store_do x 1 At_Expire (Call_Expired (pm_tenantID p) (pm_approvalID p) (ev_now x)) db1))
           else (case mcp_claim env x p tokenHash approval db1 of
                   (Inl e, db2) \<Rightarrow> mcp_refuse forwardReq e db2
                 | (Inr approval', db2) \<Rightarrow> run_approved env x p forwardReq approval' db2)))"

subsection \<open>tools/call\<close>

definition mcp_policy_input :: "tool_call \<Rightarrow> gomap option \<Rightarrow> gomap" where
  "mcp_policy_input rq arguments =
     [(''tenant_id'', Str_v (rq_TenantID rq)), (''agent_id'', Str_v (rq_AgentID rq)), (''tool_id'', Str_v (rq_ToolID rq)),
      (''action_type'', Str_v (cl_ActionType (rq_Class rq))), (''action_risk'', Str_v (cl_ActionRisk (rq_Class rq))),
      (''policy_version'', Str_v []), (''mcp'', Bool_v True), (''arguments'', arguments_value arguments)]"

definition mcp_decide ::
  "'q mcp_env \<Rightarrow> mcp_call \<Rightarrow> string \<Rightarrow> string \<Rightarrow> policy_result \<Rightarrow> 'q mcp_gateway \<Rightarrow> 'q mcp_outcome" where
  "mcp_decide env mc source mode pr0 mg =
     (let pr = default_deny pr0 in mcp_limit env mc source mode pr (withMatchedRulesConstraint (pr_Constraints pr) (pr_MatchedRules pr)) mg)"

definition mcp_provenance :: "'q mcp_env \<Rightarrow> provenance_context" where
  "mcp_provenance env =
     extractProvenance (ce_mac (me_call env)) (ce_provenance (me_call env)) (ce_header (me_call env)) (ce_clock (me_call env) Time_provenance)"

definition mcp_input :: "'q mcp_env \<Rightarrow> mcp_call \<Rightarrow> gomap" where
  "mcp_input env mc =
     (let input = mcp_policy_input (mc_rq mc) (mc_arguments mc)
      in if featureCrossTenantChainEnabled (ce_cfg (me_call env)) then injectProvenanceInput input (mcp_provenance env) else input)"

definition mcp_evaluate :: "'q mcp_env \<Rightarrow> 'q rego_engine \<Rightarrow> mcp_call \<Rightarrow> string \<Rightarrow> 'q mcp_gateway \<Rightarrow> 'q mcp_outcome" where
  "mcp_evaluate env rego mc mode mg =
     (let cenv = me_call env; rq = mc_rq mc;
          (result, ev) = Evaluate rego (GetPolicy (site cenv At_Policy) (rq_TenantID rq) (ce_db cenv)) (rq_TenantID rq)
             (mcp_input env mc) (ce_clock cenv Time_policy) (gw_evaluator (mg_gateway mg));
          mg1 = with_gateway mg ((mg_gateway mg)\<lparr>gw_evaluator := ev\<rparr>)
      in case result of
           Inr pr \<Rightarrow> mcp_decide env mc (pc_SourceDecisionID (mcp_provenance env)) mode pr mg1
         | Inl e \<Rightarrow>
             (case policyInvalidReason e of
                Some (reason, version) \<Rightarrow>
                  tell mg1 (rpc_error (mc_req mc) (data_error env ErrorPolicyInvalid ''policy evaluation error''
                    [(''reason_code'', Str_v reason), (''policy_version'', Str_v version)]))
              | None \<Rightarrow> tell mg1 (rpc_error (mc_req mc) (NewInternalError ''policy evaluation failed''))))"

definition with_risk :: "mcp_call \<Rightarrow> string \<Rightarrow> mcp_call" where
  "with_risk mc risk = mc\<lparr>mc_rq := (mc_rq mc)\<lparr>rq_Class := (rq_Class (mc_rq mc))\<lparr>cl_ActionRisk := risk\<rparr>\<rparr>\<rparr>"

definition mcp_override :: "'q mcp_env \<Rightarrow> mcp_call \<Rightarrow> store_error + mcp_call" where
  "mcp_override env mc =
     (case me_risk env (cl_ActionType (rq_Class (mc_rq mc))) of
        Inr risk \<Rightarrow> Inr (with_risk mc risk)
      | Inl e \<Rightarrow> if e = ErrNotFound then Inr mc else Inl e)"

definition mcp_govern :: "'q mcp_env \<Rightarrow> mcp_call \<Rightarrow> 'q mcp_gateway \<Rightarrow> 'q mcp_outcome" where
  "mcp_govern env mc0 mg =
     (let cenv = me_call env; refuse_with = (\<lambda>e. tell mg (rpc_error (mc_req mc0) e)) in
      case tenantEnforcementMode (site cenv At_Enforcement) (ce_cfg cenv) (Some (ce_db cenv)) (rq_TenantID (mc_rq mc0)) of
        Inl _ \<Rightarrow> refuse_with (NewInternalError ''failed to load tenant enforcement mode'')
      | Inr mode \<Rightarrow>
          (case mcp_override env mc0 of
             Inl _ \<Rightarrow> refuse_with (NewInternalError ''risk override lookup failed'')
           | Inr mc \<Rightarrow>
               (case ce_rego cenv of
                  None \<Rightarrow> refuse_with (NewInternalError ''policy evaluator not configured'')
                | Some rego \<Rightarrow>
                    (let violation =
                       (if featureFileGovernanceEnabled (site cenv (At_Flag ''feature_file_governance'')) (ce_cfg cenv) (Some (ce_db cenv))
                        then checkFileAccess (Map_v (call_args mc)) (rq_TenantID (mc_rq mc)) else [])
                     in if violation \<noteq> [] then refuse_with (error_obj ErrorFileAccessDenied violation)
                        else mcp_evaluate env rego mc mode mg))))"

text \<open>A control field is taken out of the arguments.\<close>

definition take_control :: "string \<Rightarrow> gomap option \<Rightarrow> error_object + (string \<times> gomap option)" where
  "take_control name arguments =
     (case Option.bind arguments (\<lambda>m. map_of m name) of
        None \<Rightarrow> Inr ([], arguments)
      | Some v \<Rightarrow>
          (case as_string v of
             Some s \<Rightarrow>
               if TrimSpace s = [] then Inl (NewInvalidParamsError (name @ '' must be a non-empty string''))
               else Inr (s, map_option (filter (\<lambda>(k, _). k \<noteq> name)) arguments)
           | None \<Rightarrow> Inl (NewInvalidParamsError (name @ '' must be a non-empty string''))))"

definition mcp_canonical :: "string \<Rightarrow> string \<Rightarrow> string \<Rightarrow> string \<Rightarrow> canonical_request" where
  "mcp_canonical tenantID agentID toolID bodyHash =
     \<lparr>cr_TenantID = tenantID, cr_AgentID = agentID, cr_ToolID = toolID, cr_Method = ''MCP_CALL'', cr_Path = ''/tools/call'',
      cr_Query = [], cr_Headers = [], cr_BodyHash = bodyHash, cr_IdempotencyKey = []\<rparr>"

definition mcp_request_of ::
  "'q mcp_env \<Rightarrow> string \<Rightarrow> string \<Rightarrow> string \<Rightarrow> string \<Rightarrow> string \<Rightarrow> tool_call" where
  "mcp_request_of env tenantID agentID toolID requestID argumentsJSON =
     (let sha = cy_sha256hex (ce_crypto (me_call env))
      in \<lparr>rq_TenantID = tenantID, rq_AgentID = agentID, rq_ToolID = toolID, rq_RequestID = requestID, rq_Payload = zero_payload,
          rq_Body = argumentsJSON, rq_Headers = [],
          rq_Hash = HashCanonical sha (mcp_canonical tenantID agentID toolID (HashBody sha argumentsJSON)),
          rq_Class = \<lparr>cl_ActionType = ''MCP.'' @ toolID, cl_ActionRisk = ''MEDIUM'', cl_ActionSummary = ''MCP tool call: '' @ toolID\<rparr>\<rparr>)"

record mcp_admission =
  ad_call :: mcp_call
  ad_token :: string
  ad_approvalID :: string

text \<open>Reading a call: everything up to the quota check has no effect.\<close>

definition readMCPCall :: "'q mcp_env \<Rightarrow> string \<Rightarrow> string \<Rightarrow> string \<Rightarrow> mcp_request \<Rightarrow> error_object + mcp_admission" where
  "readMCPCall env tenantID agentID requestID req =
     (case decode_call_params (marshal_raw (mq_Params req)) of
        None \<Rightarrow> Inl (NewInvalidParamsError ''invalid params structure'')
      | Some (toolID, rawArguments) \<Rightarrow>
          if toolID = [] then Inl (NewInvalidParamsError ''tool name required'')
          else if \<not> isValidToolID toolID then Inl (NewInvalidParamsError ''invalid tool name format'')
          else (case me_tool env toolID of
                  Inl e \<Rightarrow> Inl (if e = ErrNotFound then NewInvalidParamsError (''tool not found: '' @ toolID)
                                else NewInternalError ''failed to lookup tool'')
                | Inr t \<Rightarrow>
                    (case (if rawArguments = [] then Some (Some []) else decode_arguments rawArguments) of
                       None \<Rightarrow> Inl (NewInvalidParamsError ''invalid arguments format'')
                     | Some arguments0 \<Rightarrow>
                         bind_r (take_control ''_rbitr_approval_token'' arguments0) (\<lambda>(token, arguments1).
                         bind_r (take_control ''_rbitr_approval_request_id'' arguments1) (\<lambda>(approvalID, arguments).
                           if token \<noteq> [] \<and> approvalID = []
                           then Inl (NewInvalidParamsError ''_rbitr_approval_request_id is required when _rbitr_approval_token is provided'')
                           else (let argumentsJSON = json_text (me_fmt env) (arguments_value arguments)
                                 in Inr \<lparr>ad_call = \<lparr>mc_req = req, mc_forward = buildForwardToolsCallRequest req toolID argumentsJSON,
                                          mc_tool = t, mc_arguments = arguments,
                                          mc_rq = mcp_request_of env tenantID agentID toolID requestID argumentsJSON\<rparr>,
                                        ad_token = token, ad_approvalID = approvalID\<rparr>))))))"

definition resubmit :: "'q mcp_env \<Rightarrow> mcp_admission \<Rightarrow> 'q mcp_gateway \<Rightarrow> 'q mcp_outcome" where
  "resubmit env ad mg =
     (let mc = ad_call ad; cenv = call_for env (rq_ToolID (mc_rq mc));
          out = handleMCPApprovedCall env (replay_env cenv) (replay_params (mc_rq mc) (ad_approvalID ad) (ad_token ad))
                  (mc_forward mc) (gw_store (mg_gateway mg))
      in \<lparr>mo_result = xo_result out, mo_sent = xo_sent out,
          mo_gateway = with_gateway mg ((mg_gateway mg)\<lparr>gw_store := xo_db out\<rparr>)\<rparr>)"

definition mcp_request_id :: "'q mcp_env \<Rightarrow> string" where
  "mcp_request_id env =
     (if ce_header (me_call env) ''X-Request-Id'' = [] then ce_id (me_call env) Id_request else ce_header (me_call env) ''X-Request-Id'')"

definition handleToolsCall :: "'q mcp_env \<Rightarrow> tenant \<Rightarrow> string \<Rightarrow> mcp_request \<Rightarrow> 'q mcp_gateway \<Rightarrow> 'q mcp_outcome" where
  "handleToolsCall env tenant agentID req mg =
     (if mq_ID req = None then tell mg Mcp_none
      else case readMCPCall env (tn_TenantID tenant) agentID (mcp_request_id env) req of
        Inl e \<Rightarrow> tell mg (rpc_error req e)
      | Inr ad \<Rightarrow>
          (let cenv = me_call env; gw = mg_gateway mg in
           case enforceUsageQuota (ce_entitlements cenv) (ce_fault cenv At_Quota) (tn_TenantID tenant) (ce_period cenv) (gw_meters gw) of
             (Inl _, m) \<Rightarrow> tell (with_gateway mg (gw\<lparr>gw_meters := m\<rparr>)) (rpc_error req (NewInternalError ''usage quota check failed''))
           | (Inr (Some v), m) \<Rightarrow>
               tell (with_gateway mg (gw\<lparr>gw_meters := m\<rparr>))
                 (rpc_error req (NewQuotaExceededError ''Monthly action limit exceeded. Upload a license key to remove limits.''))
           | (Inr None, m) \<Rightarrow>
               (let mg1 = with_gateway mg (gw\<lparr>gw_meters := m\<rparr>)
                in if ad_token ad \<noteq> [] then resubmit env ad mg1 else mcp_govern env (ad_call ad) mg1)))"

subsection \<open>The endpoint\<close>

definition listed_tools :: "'q mcp_env \<Rightarrow> tenant \<Rightarrow> store_error + tool list" where
  "listed_tools env tenant =
     ListTools (\<lambda>_. me_fault env ''ListTools'') (tn_TenantID tenant) False (\<not> me_devAutoTools env) (ce_db (me_call env))"

definition routeMCPMethod :: "'q mcp_env \<Rightarrow> tenant \<Rightarrow> string \<Rightarrow> mcp_request \<Rightarrow> 'q mcp_gateway \<Rightarrow> 'q mcp_outcome" where
  "routeMCPMethod env tenant agentID req mg =
     (let meth = mq_Method req; tool_list = listed_tools env tenant in
      if meth = ''initialize'' then handleInitialize env tenant agentID req mg
      else if meth = ''notifications/initialized'' then tell mg (handleInitializedNotification req)
      else if meth = ''tools/list'' then tell mg (handleToolsList (me_fmt env) tool_list req)
      else if meth = ''tools/call'' then handleToolsCall env tenant agentID req mg
      else if meth = ''resources/list'' then tell mg (handleResourcesList tool_list req)
      else if meth = ''resources/read''
      then (let (r, sent) = handleResourcesRead (me_http env)
                  (\<lambda>toolID. GetTool (\<lambda>_. me_fault env ''GetTool'') (tn_TenantID tenant) toolID (ce_db (me_call env))) req
            in \<lparr>mo_result = r, mo_sent = sent, mo_gateway = mg\<rparr>)
      else (let (r, sent) = handlePassThrough (me_http env) (me_fmt env)
                  (GetTenantConfig (\<lambda>_. me_fault env ''GetTenantConfig'') (tn_TenantID tenant) (ce_db (me_call env))) tool_list req
            in \<lparr>mo_result = r, mo_sent = sent, mo_gateway = mg\<rparr>))"

datatype mcp_reply = Rpc mcp_response | Accepted | Panicked

record 'q mcp_answer =
  ma_reply :: mcp_reply
  ma_sent :: "connector_request list"
  ma_gateway :: "'q mcp_gateway"

definition rpc_failure :: "request_id option \<Rightarrow> error_object \<Rightarrow> 'q mcp_gateway \<Rightarrow> 'q mcp_answer" where
  "rpc_failure i e mg = \<lparr>ma_reply = Rpc (NewErrorResponse i e), ma_sent = [], ma_gateway = mg\<rparr>"

text \<open>Only notifications are answered with nothing.\<close>

definition reply_of :: "mcp_request \<Rightarrow> mcp_result \<Rightarrow> mcp_reply" where
  "reply_of req r =
     (case r of
        Mcp_panic \<Rightarrow> Panicked
      | Mcp_fail \<Rightarrow> if mq_ID req = None then Accepted else Rpc (NewErrorResponse (mq_ID req) (error_obj ErrorInternalError ''internal error''))
      | Mcp_resp resp \<Rightarrow> if mq_ID req = None then Accepted else Rpc resp
      | Mcp_none \<Rightarrow> Accepted)"

definition handleMCP :: "'q mcp_env \<Rightarrow> 'q mcp_gateway \<Rightarrow> 'q mcp_answer" where
  "handleMCP env mg =
     (case authenticateMCPRequest env mg of
        (Inl e, mg1) \<Rightarrow> rpc_failure None (auth_failure e) mg1
      | (Inr (tenant, agentID), mg1) \<Rightarrow>
          (case me_body env of
             None \<Rightarrow> rpc_failure None (error_obj ErrorInternalError ''failed to read request body'') mg1
           | Some body \<Rightarrow>
               if int (length body) > MaxRequestSize
               then rpc_failure (ExtractRequestID (take (nat MaxRequestSize) body)) (error_obj ErrorInvalidRequest ''request body too large'') mg1
               else (case ValidateAndParseRequest body MaxRequestSize of
                       Inl e \<Rightarrow> rpc_failure (ExtractRequestID body) e mg1
                     | Inr req \<Rightarrow>
                         (let out = routeMCPMethod env tenant agentID req mg1
                          in \<lparr>ma_reply = reply_of req (mo_result out), ma_sent = mo_sent out, ma_gateway = mo_gateway out\<rparr>))))"

subsection \<open>The forwarded call\<close>

text \<open>The \<open>tools/call\<close> request that the gateway writes for the upstream server is read back exactly.\<close>

lemma forwarded_call_round_trip:
  assumes "float_format fmt" and "wf_any v" and "numbers_ok v" and "fr = buildForwardToolsCallRequest req toolName (json_text fmt v)"
    and "mq_JSONRPC req = JSONRPCVersion" and "mq_Method req \<noteq> []" and "mq_ID req = Some i" and "i \<noteq> Id_null" and "float_reads fmt i"
    and "int (length (marshal_request fmt fr)) \<le> MaxRequestSize"
  shows "ValidateAndParseRequest (marshal_request fmt fr) MaxRequestSize = Inr fr"
proof -
  have p: "mq_Params fr = json_object [(''name'', quote toolName), (''arguments'', json_text fmt v)]"
    using assms(1,3,4) by (simp add: buildForwardToolsCallRequest_def marshal_raw_text)
  note c = call_params_text [OF assms(1-3) p]
  have f: "mq_JSONRPC fr = JSONRPCVersion" "mq_Method fr \<noteq> []" "mq_ID fr = Some i"
    using assms(4-7) by (simp_all add: buildForwardToolsCallRequest_def)
  have "sent_request fr = fr" using c(1) by (simp add: sent_request_def)
  with request_reads_back [OF assms(1) _ f(1,2) assms(10)] c(2) f(3) assms(8,9) show ?thesis by simp
qed

subsection \<open>Which stage sends\<close>

lemma tell_simps [simp]: "mo_sent (tell mg r) = []" "mo_result (tell mg r) = r" "mo_gateway (tell mg r) = mg"
  by (simp_all add: tell_def)

lemma with_gateway_simps [simp]:
  "mg_gateway (with_gateway mg gw) = gw" "mg_sessions (with_gateway mg gw) = mg_sessions mg"
  by (simp_all add: with_gateway_def)

lemma mcp_deny_silent: "\<not> isShadowMode mode \<Longrightarrow> mo_sent (mcp_deny env mc source mode pr rule reasons constraints refusal mg) = []"
  by (auto simp: mcp_deny_def Let_def split: prod.splits sum.splits)

lemma mcp_approval_silent: "mo_sent (mcp_approval env mc source pr constraints mg) = []"
  by (auto simp: mcp_approval_def Let_def split: prod.splits sum.splits option.splits)

lemma mcp_settle_sends:
  "mo_sent (mcp_settle env mc source mode pr constraints mg) \<noteq> [] \<Longrightarrow> \<not> isShadowMode mode \<Longrightarrow> pr_Decision pr = ''ALLOW''"
  by (auto simp: mcp_settle_def mcp_deny_silent mcp_approval_silent split: if_splits)

definition mcp_arguments_ok :: "'q mcp_env \<Rightarrow> mcp_call \<Rightarrow> gomap \<Rightarrow> bool" where
  "mcp_arguments_ok env mc constraints =
     (let cenv = call_for env (rq_ToolID (mc_rq mc))
      in enforceArgumentConstraints (ce_regexps cenv)
           (featureArgConstraintsEnabled (site cenv (At_Flag ''feature_arg_constraints'')) (ce_cfg cenv) (Some (ce_db cenv)))
           constraints (Map_v (call_args mc)) = None)"

lemma mcp_constrain_sends:
  assumes "mo_sent (mcp_constrain env mc source mode pr constraints mg) \<noteq> []" and "\<not> isShadowMode mode"
  shows "mcp_arguments_ok env mc constraints \<and> pr_Decision pr = ''ALLOW''"
  using assms by (auto simp: mcp_constrain_def mcp_arguments_ok_def Let_def mcp_deny_silent dest: mcp_settle_sends split: option.splits)

lemma mcp_limit_sends:
  assumes "mo_sent (mcp_limit env mc source mode pr constraints mg) \<noteq> []" and "\<not> isShadowMode mode"
  shows "rate_ok (call_for env (rq_ToolID (mc_rq mc))) (mc_rq mc) constraints (mg_gateway mg) \<and>
    mcp_arguments_ok env mc constraints \<and> pr_Decision pr = ''ALLOW''"
  using assms
  by (auto simp: mcp_limit_def rate_ok_def Let_def mcp_deny_silent dest: mcp_constrain_sends split: prod.splits sum.splits option.splits)

lemma default_deny_ALLOW: "pr_Decision (default_deny pr) = ''ALLOW'' \<Longrightarrow> default_deny pr = pr"
  by (auto simp: default_deny_def split: if_splits)

definition mcp_policy_answer :: "'q mcp_env \<Rightarrow> 'q rego_engine \<Rightarrow> mcp_call \<Rightarrow> 'q gateway \<Rightarrow> policy_error + policy_result" where
  "mcp_policy_answer env rego mc gw =
     fst (Evaluate rego (GetPolicy (site (me_call env) At_Policy) (rq_TenantID (mc_rq mc)) (ce_db (me_call env))) (rq_TenantID (mc_rq mc))
            (mcp_input env mc) (ce_clock (me_call env) Time_policy) (gw_evaluator gw))"

definition mcp_policy_allows :: "'q mcp_env \<Rightarrow> 'q rego_engine \<Rightarrow> mcp_call \<Rightarrow> 'q gateway \<Rightarrow> bool" where
  "mcp_policy_allows env rego mc gw =
     (\<exists>pr. mcp_policy_answer env rego mc gw = Inr pr \<and> pr_Decision pr = ''ALLOW'' \<and>
           rate_ok (call_for env (rq_ToolID (mc_rq mc))) (mc_rq mc) (call_constraints pr) gw \<and> mcp_arguments_ok env mc (call_constraints pr))"

lemma rate_ok_meters [simp]: "rate_ok env rq constraints (gw\<lparr>gw_meters := m\<rparr>) = rate_ok env rq constraints gw"
  by (simp add: rate_ok_def)

lemma mcp_evaluate_sends:
  assumes "mo_sent (mcp_evaluate env rego mc mode mg) \<noteq> []" and "\<not> isShadowMode mode"
  shows "mcp_policy_allows env rego mc (mg_gateway mg)"
proof -
  obtain result ev where e: "Evaluate rego (GetPolicy (site (me_call env) At_Policy) (rq_TenantID (mc_rq mc)) (ce_db (me_call env)))
      (rq_TenantID (mc_rq mc)) (mcp_input env mc) (ce_clock (me_call env) Time_policy) (gw_evaluator (mg_gateway mg)) = (result, ev)"
    by force
  obtain pr where pr: "result = Inr pr"
    using assms(1) e by (cases result) (auto simp: mcp_evaluate_def Let_def split: option.splits)
  then have "mo_sent (mcp_decide env mc (pc_SourceDecisionID (mcp_provenance env)) mode pr
      (with_gateway mg ((mg_gateway mg)\<lparr>gw_evaluator := ev\<rparr>))) \<noteq> []"
    using assms(1) e by (simp add: mcp_evaluate_def Let_def)
  then have "rate_ok (call_for env (rq_ToolID (mc_rq mc))) (mc_rq mc) (call_constraints (default_deny pr)) (mg_gateway mg)"
    "mcp_arguments_ok env mc (call_constraints (default_deny pr))" "pr_Decision (default_deny pr) = ''ALLOW''"
    using mcp_limit_sends [OF _ assms(2)] by (fastforce simp: mcp_decide_def Let_def call_constraints_def)+
  with default_deny_ALLOW [of pr] e pr show ?thesis by (auto simp: mcp_policy_allows_def mcp_policy_answer_def)
qed

definition mcp_files_ok :: "'q mcp_env \<Rightarrow> mcp_call \<Rightarrow> bool" where
  "mcp_files_ok env mc =
     (featureFileGovernanceEnabled (site (me_call env) (At_Flag ''feature_file_governance'')) (ce_cfg (me_call env)) (Some (ce_db (me_call env))) \<longrightarrow>
      checkFileAccess (Map_v (call_args mc)) (rq_TenantID (mc_rq mc)) = [])"

lemma mcp_govern_sends:
  assumes "mo_sent (mcp_govern env mc0 mg) \<noteq> []" and "\<not> in_shadow_mode (me_call env) (rq_TenantID (mc_rq mc0))"
  shows "\<exists>rego mc. ce_rego (me_call env) = Some rego \<and> mcp_override env mc0 = Inr mc \<and> mcp_files_ok env mc \<and>
    mcp_policy_allows env rego mc (mg_gateway mg)"
proof -
  obtain mode where mode: "tenantEnforcementMode (site (me_call env) At_Enforcement) (ce_cfg (me_call env)) (Some (ce_db (me_call env)))
      (rq_TenantID (mc_rq mc0)) = Inr mode" using assms(1) by (auto simp: mcp_govern_def Let_def split: sum.splits)
  then have shadow: "\<not> isShadowMode mode" using assms(2) by (auto simp: in_shadow_mode_def)
  obtain mc rego where mc: "mcp_override env mc0 = Inr mc" "ce_rego (me_call env) = Some rego"
    using assms(1) mode by (auto simp: mcp_govern_def Let_def split: sum.splits option.splits)
  have "mcp_files_ok env mc" "mo_sent (mcp_evaluate env rego mc mode mg) \<noteq> []"
    using assms(1) mode mc by (auto simp: mcp_govern_def mcp_files_ok_def Let_def split: if_splits)
  with mcp_evaluate_sends [OF _ shadow] mc show ?thesis by blast
qed

subsection \<open>Resubmission refines the REST replay\<close>

text \<open>Claiming an approval goes the same way as in the REST handler; only the refusals differ in
  form.\<close>

lemma mcp_claim_iff:
  "mcp_claim env x p th a db = (Inr a', db') \<longleftrightarrow> claimForExecution x p th a db = (Inr a', db')"
proof -
  have r: "mcp_resume env b t = Inr a' \<longleftrightarrow> resumeExecuting b t = Inr a'" for b t
    by (simp add: mcp_resume_def resumeExecuting_def)
  show ?thesis
    by (cases "ap_Status a")
      (auto simp: mcp_claim_def claimForExecution_def r split: prod.splits sum.splits store_error.splits approval_status.splits)
qed

lemma handleMCPApprovedCall_sends:
  assumes "xo_sent (handleMCPApprovedCall env x p forwardReq db) \<noteq> []"
  shows "\<exists>a. approvals (others_run x 0 db) (pm_approvalID p) = Some a \<and> ap_TenantID a = pm_tenantID p \<and>
    ap_ApprovalTokenHash a = ev_sha256hex x (pm_approvalToken p) \<and> ap_RequestHash a = pm_requestHash p \<and>
    ev_now x \<le> ap_ExpiresAt a \<and> ap_Status a \<in> {APPROVED, EXECUTING}"
proof -
  obtain r db1 where g: "store_get x 0 At_Get (pm_tenantID p) (pm_approvalID p) db = (r, db1)" by force
  obtain a where r: "r = Inr a"
    using assms g by (cases r) (auto simp: handleMCPApprovedCall_def mcp_refuse_def split: if_splits)
  let ?th = "ev_sha256hex x (pm_approvalToken p)"
  have ok: "?th = ap_ApprovalTokenHash a" "ap_RequestHash a = pm_requestHash p" "ev_now x \<le> ap_ExpiresAt a"
    "\<exists>a' db2. mcp_claim env x p ?th a db1 = (Inr a', db2)"
    using assms g r by (auto simp: handleMCPApprovedCall_def mcp_refuse_def Let_def split: if_splits prod.splits sum.splits)
  then have "ap_Status a \<in> {APPROVED, EXECUTING}"
    using claim_Inr [OF _ store_get_status] g r unfolding mcp_claim_iff by metis
  moreover obtain row where "approvals (others_run x 0 db) (pm_approvalID p) = Some row"
    "ap_TenantID row = pm_tenantID p" "identity_of a = identity_of row" "ap_Status a = ap_Status row"
    using store_get_Inr g r by metis
  ultimately show ?thesis using ok by (auto simp: identity_of_def)
qed

definition mcp_operator_approved :: "'q mcp_env \<Rightarrow> mcp_admission \<Rightarrow> store_db \<Rightarrow> bool" where
  "mcp_operator_approved env ad db =
     (let rq = mc_rq (ad_call ad); x = replay_env (call_for env (rq_ToolID rq)) in
      \<exists>a. approvals (others_run x 0 db) (ad_approvalID ad) = Some a \<and> ap_TenantID a = rq_TenantID rq \<and>
        ap_ApprovalTokenHash a = cy_sha256hex (ce_crypto (me_call env)) (ad_token ad) \<and>
        ap_RequestHash a = rq_Hash rq \<and> ev_now x \<le> ap_ExpiresAt a \<and> ap_Status a \<in> {APPROVED, EXECUTING})"

lemma resubmit_sends: "mo_sent (resubmit env ad mg) \<noteq> [] \<Longrightarrow> mcp_operator_approved env ad (gw_store (mg_gateway mg))"
  using handleMCPApprovedCall_sends
  by (fastforce simp: resubmit_def mcp_operator_approved_def Let_def replay_env_def replay_params_def call_for_def)

lemma mcp_policy_allows_meters [simp]: "mcp_policy_allows env rego mc (gw\<lparr>gw_meters := m\<rparr>) = mcp_policy_allows env rego mc gw"
  by (simp add: mcp_policy_allows_def mcp_policy_answer_def)

lemma handleToolsCall_sends:
  assumes "mo_sent (handleToolsCall env tenant agentID req mg) \<noteq> []" and "\<not> in_shadow_mode (me_call env) (tn_TenantID tenant)"
  shows "mq_ID req \<noteq> None \<and>
    (\<exists>ad. readMCPCall env (tn_TenantID tenant) agentID (mcp_request_id env) req = Inr ad \<and>
      (mcp_operator_approved env ad (gw_store (mg_gateway mg)) \<or>
       (\<exists>rego mc. ce_rego (me_call env) = Some rego \<and> mcp_override env (ad_call ad) = Inr mc \<and> mcp_files_ok env mc \<and>
          mcp_policy_allows env rego mc (mg_gateway mg))))"
proof -
  have i: "mq_ID req \<noteq> None" using assms(1) by (cases "mq_ID req") (auto simp: handleToolsCall_def)
  obtain ad where ad: "readMCPCall env (tn_TenantID tenant) agentID (mcp_request_id env) req = Inr ad"
    using assms(1) i by (cases "readMCPCall env (tn_TenantID tenant) agentID (mcp_request_id env) req") (auto simp: handleToolsCall_def)
  have T: "rq_TenantID (mc_rq (ad_call ad)) = tn_TenantID tenant"
    using ad by (auto simp: readMCPCall_def mcp_request_of_def Let_def split: option.splits if_splits sum.splits prod.splits)
  obtain m where "mo_sent (if ad_token ad \<noteq> [] then resubmit env ad (with_gateway mg ((mg_gateway mg)\<lparr>gw_meters := m\<rparr>))
      else mcp_govern env (ad_call ad) (with_gateway mg ((mg_gateway mg)\<lparr>gw_meters := m\<rparr>))) \<noteq> []"
    using assms(1) i ad by (auto simp: handleToolsCall_def Let_def split: prod.splits sum.splits option.splits)
  then show ?thesis
    using resubmit_sends mcp_govern_sends i ad assms(2) T by (fastforce split: if_splits)
qed

text \<open>C34: complete mediation of \<open>tools/call\<close>. With the tenant not in shadow mode, a tool is
  reached only by a request that carries an id and names a known tool, and either resubmits, with
  its token, an unexpired approval that an operator granted the tenant for exactly these
  arguments, or passes the file check, the tenant's and the base policy with an ALLOW, the rate
  limit and the argument constraints.\<close>

theorem mcp_call_is_mediated:
  assumes "mo_sent (handleToolsCall env tenant agentID req mg) \<noteq> []" and "\<not> in_shadow_mode (me_call env) (tn_TenantID tenant)"
  shows "mq_ID req \<noteq> None \<and>
    (\<exists>ad. readMCPCall env (tn_TenantID tenant) agentID (mcp_request_id env) req = Inr ad \<and>
      (mcp_operator_approved env ad (gw_store (mg_gateway mg)) \<or>
       (\<exists>rego mc. ce_rego (me_call env) = Some rego \<and> mcp_override env (ad_call ad) = Inr mc \<and> mcp_files_ok env mc \<and>
          mcp_policy_allows env rego mc (mg_gateway mg))))"
  using assms by (rule handleToolsCall_sends)

text \<open>A call of the tool \<open>jira\<close>, reached over HTTP.\<close>

definition demo_mcp_env :: "(gomap \<Rightarrow> any option) mcp_env" where
  "demo_mcp_env =
     \<lparr>me_call = demo_env, me_tenantID = ''t1'', me_body = None, me_clientIP = ''192.0.2.1'', me_tool = (\<lambda>_. Inr sample_tool),
      me_risk = (\<lambda>_. Inl ErrNotFound), me_http = (\<lambda>_. Inl Upstream_other), me_fmt = no_floats, me_devAutoTools = False,
      me_sessionRandom = None, me_sessionTime = 0, me_fault = (\<lambda>_. None)\<rparr>"

definition demo_mcp_request :: mcp_request where
  "demo_mcp_request =
     \<lparr>mq_JSONRPC = JSONRPCVersion, mq_ID = Some (Id_string ''7''), mq_Method = ''tools/call'',
      mq_Params = json_object [(''name'', quote ''jira''), (''arguments'', json_object [(''path'', quote ''/x'')])]\<rparr>"

definition demo_tenant :: tenant where
  "demo_tenant = \<lparr>tn_TenantID = ''t1'', tn_Name = ''T'', tn_Enabled = True\<rparr>"

definition demo_mcp :: "(gomap \<Rightarrow> any option) mcp_gateway" where
  "demo_mcp = \<lparr>mg_gateway = demo_gateway, mg_sessions = None\<rparr>"

lemma demo_mcp_sends: "map cq_URL (mo_sent (handleToolsCall demo_mcp_env demo_tenant ''bot-1'' demo_mcp_request demo_mcp)) = [''http://j/x'']"
  by code_simp

theorem mcp_call_is_mediated_witness:
  "\<exists>ad. readMCPCall demo_mcp_env ''t1'' ''bot-1'' (mcp_request_id demo_mcp_env) demo_mcp_request = Inr ad \<and>
     (\<exists>mc. mcp_override demo_mcp_env (ad_call ad) = Inr mc \<and> mcp_policy_allows demo_mcp_env sample_engine mc demo_gateway)"
proof -
  have e: "me_call demo_mcp_env = demo_env" "tn_TenantID demo_tenant = ''t1''" "mg_gateway demo_mcp = demo_gateway"
    "ce_rego demo_env = Some sample_engine" by (simp_all add: demo_mcp_env_def demo_tenant_def demo_mcp_def demo_env_def)
  have "mo_sent (handleToolsCall demo_mcp_env demo_tenant ''bot-1'' demo_mcp_request demo_mcp) \<noteq> []" using demo_mcp_sends by auto
  from mcp_call_is_mediated [OF this] e demo_no_shadow
  obtain ad where ad: "readMCPCall demo_mcp_env ''t1'' ''bot-1'' (mcp_request_id demo_mcp_env) demo_mcp_request = Inr ad"
    "mcp_operator_approved demo_mcp_env ad (gw_store demo_gateway) \<or>
     (\<exists>mc. mcp_override demo_mcp_env (ad_call ad) = Inr mc \<and> mcp_policy_allows demo_mcp_env sample_engine mc demo_gateway)" by auto
  have "\<not> mcp_operator_approved demo_mcp_env ad (gw_store demo_gateway)"
    by (simp add: mcp_operator_approved_def Let_def e call_for_def demo_gateway_def others_run_def replay_env_def demo_env_def sample_env_def)
  with ad show ?thesis by blast
qed

end
