(* ===== verification/Mcp_Answers.thy ===== *)
theory Mcp_Answers
  imports Mcp_Gateway
begin

text \<open>
  What a client of the MCP endpoint can rely on: every message is answered once, a request of an
  authenticated client under its own id and a notification with an empty 202; a client acts for the
  tenant of its path only. The exception for the ids is an upstream server that answers with another
  HTTP status than 200: the gateway then hands on its error response without comparing ids
  (\<open>answers_under\<close>).
\<close>

subsection \<open>Ids of answers\<close>

lemma compareRequestIDs_eq: "compareRequestIDs a b \<longleftrightarrow> a = b"
  by (cases a; cases b) (auto simp: compareRequestIDs_def split: request_id.splits)

definition odd_status :: "'q mcp_env \<Rightarrow> connector_request list \<Rightarrow> bool" where
  "odd_status env sent = (\<exists>out\<in>set sent. \<exists>ans. me_http env out = Inr ans \<and> ha_Status ans \<noteq> 200)"

text \<open>A response under id \<open>i\<close>, or the error response of an upstream server that did not answer with
  status 200.\<close>

definition answers_under :: "'q mcp_env \<Rightarrow> request_id \<Rightarrow> mcp_response \<Rightarrow> connector_request list \<Rightarrow> bool" where
  "answers_under env i resp sent \<longleftrightarrow> mp_ID resp = Some i \<or> (odd_status env sent \<and> mp_Error resp \<noteq> None)"

definition answers :: "'q mcp_env \<Rightarrow> request_id \<Rightarrow> mcp_result \<Rightarrow> connector_request list \<Rightarrow> bool" where
  "answers env i r sent =
     (case r of Mcp_resp resp \<Rightarrow> answers_under env i resp sent | Mcp_fail \<Rightarrow> True | _ \<Rightarrow> False)"

lemma answers_simps [simp]:
  "answers env i (rpc_error req e) sent \<longleftrightarrow> mq_ID req = Some i \<or> odd_status env sent"
  "answers env i (rpc_ok req t) sent \<longleftrightarrow> mq_ID req = Some i"
  "answers env i (Mcp_resp resp) sent \<longleftrightarrow> answers_under env i resp sent"
  "answers env i Mcp_fail sent" "\<not> answers env i Mcp_panic sent" "\<not> answers env i Mcp_none sent"
  by (auto simp: answers_def answers_under_def rpc_error_def rpc_ok_def NewErrorResponse_def NewSuccessResponse_def)

lemma answers_under_own [simp]: "mp_ID resp = Some i \<Longrightarrow> answers_under env i resp sent"
  by (simp add: answers_under_def)

lemma answers_under_Result [simp]: "answers_under env i (resp\<lparr>mp_Result := t\<rparr>) sent = answers_under env i resp sent"
  by (simp add: answers_under_def)

definition outcome_answers :: "'q mcp_env \<Rightarrow> request_id \<Rightarrow> 'q mcp_outcome \<Rightarrow> bool" where
  "outcome_answers env i out = answers env i (mo_result out) (mo_sent out)"

lemma outcome_answers_tell [simp]: "outcome_answers env i (tell mg r) = answers env i r []"
  by (simp add: outcome_answers_def)

lemma ForwardRequest_id:
  assumes "ForwardRequest (me_http env) fmt url req = (Inr resp, sent)" and "mq_ID req = Some i" and "i \<noteq> Id_null"
  shows "answers_under env i resp sent"
proof -
  obtain out ans where o: "sent = [out]" "me_http env out = Inr ans" "read_answer req ans = Inr resp"
    using assms(1) by (auto simp: ForwardRequest_def Let_def split: if_splits)
  show ?thesis
  proof (cases "ha_Status ans = 200")
    case True
    with o(3) assms(2,3) show ?thesis
      by (auto simp: read_answer_def Let_def check_response_id_def compareRequestIDs_eq split: if_splits option.splits)
  next
    case False
    with o have odd: "odd_status env sent" by (auto simp: odd_status_def)
    from False o(3) assms(2) odd show ?thesis
      by (auto simp: read_answer_def Let_def wrap_status_def NewErrorResponse_def answers_under_def split: if_splits option.splits)
  qed
qed

lemma forward_mcp_id:
  "forward_mcp env t req = (Inr resp, sent) \<Longrightarrow> mq_ID req = Some i \<Longrightarrow> i \<noteq> Id_null \<Longrightarrow> answers_under env i resp sent"
  by (auto simp: forward_mcp_def split: prod.splits sum.splits dest: ForwardRequest_id)

lemma executeHTTPFallback_id:
  "executeHTTPFallback env req t args = (Inr resp, sent) \<Longrightarrow> mp_ID resp = mq_ID req"
  by (auto simp: executeHTTPFallback_def Let_def NewErrorResponse_def NewSuccessResponse_def split: option.splits sum.splits)

text \<open>A call whose two forms carry the id.\<close>

definition call_id :: "request_id \<Rightarrow> mcp_call \<Rightarrow> bool" where
  "call_id i mc \<longleftrightarrow> mq_ID (mc_req mc) = Some i \<and> mq_ID (mc_forward mc) = Some i \<and> i \<noteq> Id_null"

lemma shadow_answers:
  "mq_ID req = Some i \<Longrightarrow> i \<noteq> Id_null \<Longrightarrow> outcome_answers env i (executeMCPShadowDeny env t req meta mg)"
  by (auto simp: executeMCPShadowDeny_def outcome_answers_def split: prod.splits sum.splits dest: forward_mcp_id)

lemma deny_answers: "call_id i mc \<Longrightarrow> outcome_answers env i (mcp_deny env mc source mode pr rule reasons constraints refusal mg)"
  by (auto simp: mcp_deny_def call_id_def persist_error_def Let_def shadow_answers split: prod.splits sum.splits)

lemma approval_answers: "call_id i mc \<Longrightarrow> outcome_answers env i (mcp_approval env mc source pr constraints mg)"
  by (auto simp: mcp_approval_def call_id_def persist_error_def Let_def split: prod.splits sum.splits option.splits)

lemma execute_id:
  assumes "mcp_execute env mc = (Inr resp, sent)" and "call_id i mc"
  shows "answers_under env i resp sent"
  using assms forward_mcp_id [of env "mc_tool mc" "mc_forward mc" resp sent i]
  by (auto simp: mcp_execute_def call_id_def split: if_splits dest: executeHTTPFallback_id)

lemma forward_answers:
  assumes "call_id i mc"
  shows "outcome_answers env i (forward_allowed env mc adr mg)"
proof -
  obtain r sent where e: "mcp_execute env mc = (r, sent)" by force
  show ?thesis
  proof (cases r)
    case (Inr resp)
    with e assms execute_id [of env mc resp sent i] show ?thesis
      by (auto simp: forward_allowed_def outcome_answers_def persist_error_def call_id_def Let_def split: prod.splits sum.splits)
  qed (use e assms in \<open>auto simp: forward_allowed_def outcome_answers_def call_id_def Let_def\<close>)
qed

lemma settle_answers: "call_id i mc \<Longrightarrow> outcome_answers env i (mcp_settle env mc source mode pr constraints mg)"
  by (auto simp: mcp_settle_def deny_answers approval_answers forward_answers) (auto simp: call_id_def)

lemma constrain_answers: "call_id i mc \<Longrightarrow> outcome_answers env i (mcp_constrain env mc source mode pr constraints mg)"
  by (auto simp: mcp_constrain_def Let_def deny_answers settle_answers split: option.splits)

lemma limit_answers: "call_id i mc \<Longrightarrow> outcome_answers env i (mcp_limit env mc source mode pr constraints mg)"
  by (auto simp: mcp_limit_def Let_def deny_answers constrain_answers split: prod.splits sum.splits option.splits) (auto simp: call_id_def)

lemma evaluate_answers: "call_id i mc \<Longrightarrow> outcome_answers env i (mcp_evaluate env rego mc mode mg)"
  by (auto simp: mcp_evaluate_def mcp_decide_def Let_def limit_answers split: prod.splits sum.splits option.splits) (auto simp: call_id_def)

lemma call_id_override: "mcp_override env mc = Inr mc' \<Longrightarrow> call_id i mc' = call_id i mc"
  by (auto simp: mcp_override_def with_risk_def call_id_def split: sum.splits if_splits)

lemma govern_answers:
  assumes "call_id i mc"
  shows "outcome_answers env i (mcp_govern env mc mg)"
proof (cases "mcp_override env mc")
  case (Inr mc')
  with assms call_id_override [OF Inr, of i] show ?thesis
    by (auto simp: mcp_govern_def Let_def evaluate_answers split: sum.splits option.splits) (auto simp: call_id_def)
qed (use assms in \<open>auto simp: mcp_govern_def Let_def call_id_def split: sum.splits\<close>)

lemma approved_execute_id:
  assumes "approved_execute env t req = Some (Inr resp, sent)" and "mq_ID req = Some i" and "i \<noteq> Id_null"
  shows "answers_under env i resp sent"
  using assms forward_mcp_id [of env t req resp sent i]
  by (auto simp: approved_execute_def split: if_splits option.splits dest: executeHTTPFallback_id)

lemma approved_answers:
  assumes "mq_ID req = Some i" and "i \<noteq> Id_null"
  shows "answers env i (xo_result (handleMCPApprovedCall env x p req db)) (xo_sent (handleMCPApprovedCall env x p req db))"
proof -
  have run: "answers env i (xo_result (run_approved env x p req a db')) (xo_sent (run_approved env x p req a db'))" for a db'
    using assms approved_execute_id [OF _ assms]
    by (auto simp: run_approved_def Let_def split: sum.splits option.splits prod.splits)
  show ?thesis using assms(1)
    by (auto simp: handleMCPApprovedCall_def mcp_refuse_def Let_def run split: prod.splits sum.splits)
qed

lemma readMCPCall_id:
  "readMCPCall env tenantID agentID requestID req = Inr ad \<Longrightarrow> mq_ID req = Some i \<Longrightarrow> i \<noteq> Id_null \<Longrightarrow> call_id i (ad_call ad)"
  by (auto simp: readMCPCall_def call_id_def buildForwardToolsCallRequest_def Let_def split: option.splits sum.splits if_splits prod.splits)

lemma resubmit_answers: "call_id i (ad_call ad) \<Longrightarrow> outcome_answers env i (resubmit env ad mg)"
  by (simp add: resubmit_def outcome_answers_def Let_def call_id_def approved_answers)

lemma tools_call_answers:
  assumes "mq_ID req = Some i" and "i \<noteq> Id_null"
  shows "outcome_answers env i (handleToolsCall env tenant agentID req mg)"
proof (cases "readMCPCall env (tn_TenantID tenant) agentID (mcp_request_id env) req")
  case (Inr ad)
  with readMCPCall_id [OF Inr assms] assms show ?thesis
    by (auto simp: handleToolsCall_def Let_def resubmit_answers govern_answers split: prod.splits sum.splits option.splits)
qed (use assms in \<open>simp add: handleToolsCall_def\<close>)

lemma discovery_answers:
  assumes "mq_ID req = Some i" and "i \<noteq> Id_null"
  shows "handleToolsList fmt listed req \<noteq> Mcp_panic \<Longrightarrow> answers env i (handleToolsList fmt listed req) sent" and "answers env i (handleResourcesList listed req) sent"
    and "\<And>r sent. handleResourcesRead client getTool req = (r, sent) \<Longrightarrow> answers env i r sent"
    and "\<And>r sent. handlePassThrough (me_http env) fmt config listed req = (r, sent) \<Longrightarrow> answers env i r sent"
proof -
  show "handleToolsList fmt listed req \<noteq> Mcp_panic \<Longrightarrow> answers env i (handleToolsList fmt listed req) sent"
    "answers env i (handleResourcesList listed req) sent"
    using assms(1) by (auto simp: handleToolsList_def handleResourcesList_def split: sum.splits)
  show "answers env i r sent" if "handleResourcesRead client getTool req = (r, sent)" for r sent
    using that assms(1) by (auto simp: handleResourcesRead_def split: option.splits sum.splits if_splits)
  show "answers env i r sent" if "handlePassThrough (me_http env) fmt config listed req = (r, sent)" for r sent
    using that assms(1) ForwardRequest_id [OF _ assms, where env = env]
    by (auto simp: handlePassThrough_def split: option.splits sum.splits if_splits prod.splits bool.splits)
qed

lemma initialize_answers: "mq_ID req = Some i \<Longrightarrow> outcome_answers env i (handleInitialize env tenant agentID req mg)"
  by (auto simp: handleInitialize_def split: option.splits prod.splits)

definition list_panics :: "'q mcp_env \<Rightarrow> tenant \<Rightarrow> mcp_request \<Rightarrow> bool" where
  "list_panics env tenant req \<longleftrightarrow> mq_Method req = ''tools/list'' \<and> handleToolsList (me_fmt env) (listed_tools env tenant) req = Mcp_panic"

lemma route_answers:
  assumes "mq_ID req = Some i" and "i \<noteq> Id_null" and "\<not> list_panics env tenant req"
  shows "outcome_answers env i (routeMCPMethod env tenant agentID req mg)"
  using assms(1,3) discovery_answers [OF assms(1,2), where env = env]
  by (auto simp: routeMCPMethod_def Let_def initialize_answers handleInitializedNotification_def tools_call_answers [OF assms(1,2)]
      list_panics_def outcome_answers_def [where out = "mcp_outcome_ext _ _ _ _"] split: prod.splits)

lemma no_panic [simp]: "rpc_error req e \<noteq> Mcp_panic" "rpc_ok req t \<noteq> Mcp_panic"
  by (simp_all add: rpc_error_def rpc_ok_def)

lemma notification_panics:
  assumes "mq_ID req = None" and "mo_result (routeMCPMethod env tenant agentID req mg) = Mcp_panic"
  shows "list_panics env tenant req"
  using assms
  by (auto simp: routeMCPMethod_def Let_def handleInitialize_def handleInitializedNotification_def handleToolsCall_def
      handleResourcesList_def handleResourcesRead_def handlePassThrough_def list_panics_def
      split: if_splits prod.splits option.splits sum.splits bool.splits)

lemma list_panics_schema:
  "list_panics env tenant req \<Longrightarrow>
   \<exists>tools. listed_tools env tenant = Inr tools \<and> (\<exists>t\<in>set tools. UnmarshalAny (tl_InputSchemaJSON t) = Some Nil_v)"
proof -
  assume p: "list_panics env tenant req"
  then obtain tools t where t: "listed_tools env tenant = Inr tools" "t \<in> set tools" "tool_schema (me_fmt env) t = None"
    by (auto simp: list_panics_def handleToolsList_def list_ex_iff split: sum.splits if_splits)
  have "UnmarshalAny defaultInputSchema \<noteq> Some Nil_v" by code_simp
  with t show ?thesis
    by (auto simp: tool_schema_def enrichToolSchema_def split: if_splits option.splits any.splits)
qed

lemma field_for_member:
  assumes "field_for fs k = Some f"
  obtains n where "(n, f) \<in> set fs"
proof (cases "map_of fs k")
  case None
  with assms obtain n xs where "filter (\<lambda>(n, _). EqualFold n k) fs = (n, f) # xs"
    by (auto simp: field_for_def split: list.splits)
  then have "(n, f) \<in> set (filter (\<lambda>(n, _). EqualFold n k) fs)" by simp
  then have "(n, f) \<in> set fs" by simp
  then show ?thesis by (rule that)
qed (use assms that in \<open>auto simp: field_for_def dest: map_of_SomeD\<close>)

lemma decode_struct_keeps:
  assumes "decode_struct fs r m = Some r'" and "P r" and "\<And>k f v r r'. (k, f) \<in> set fs \<Longrightarrow> f v r = Some r' \<Longrightarrow> P r \<Longrightarrow> P r'"
  shows "P r'"
  using assms(1,2)
proof (induction m arbitrary: r)
  case (Cons kv m)
  obtain k v where kv: "kv = (k, v)" by force
  show ?case
  proof (cases "field_for fs k")
    case (Some f)
    then obtain n where "(n, f) \<in> set fs" by (rule field_for_member)
    moreover obtain r1 where r1: "f v r = Some r1" "decode_struct fs r1 m = Some r'"
      using Cons.prems(1) Some kv by (auto split: option.splits)
    ultimately have "P r1" using Cons.prems(2) assms(3) by metis
    with Cons.IH r1(2) show ?thesis by blast
  qed (use Cons kv in auto)
qed auto

lemma raw_string_field_Some:
  assumes "raw_string_field upd raw r = Some r'"
  shows "r' = r \<or> (\<exists>s. r' = upd (\<lambda>_. s) r)"
proof -
  obtain v where v: "string_field upd v r = Some r'" using assms by (auto simp: raw_string_field_def bind_eq_Some_conv)
  then show ?thesis by (cases v) (auto simp: string_field_def)
qed

lemma decode_request_id:
  "decode_struct request_fields r m = Some r' \<Longrightarrow> mq_ID (qa_Request r) = None \<Longrightarrow> mq_ID (qa_Request r') = None"
  by (erule decode_struct_keeps [where P = "\<lambda>r. mq_ID (qa_Request r) = None"])
    (auto simp: request_fields_def raw_text_field_def dest!: raw_string_field_Some)

lemma request_id_not_null:
  assumes "ValidateAndParseRequest body n = Inr req"
  shows "mq_ID req \<noteq> Some Id_null"
proof -
  have "\<And>raw. RequestID_UnmarshalJSON raw \<noteq> Inr Id_null"
    by (auto simp: RequestID_UnmarshalJSON_def split: option.splits any.splits if_splits)
  with assms show ?thesis using decode_request_id [where r = "\<lparr>qa_IDRaw = [], qa_Request = zero_request\<rparr>"]
    by (auto simp: zero_request_def ValidateAndParseRequest_def Request_UnmarshalJSON_def Let_def split: option.splits sum.splits prod.splits if_splits)
qed

text \<open>An answer given before anything is sent: an error under the given id.\<close>

definition refuses_under :: "request_id option \<Rightarrow> 'q mcp_answer \<Rightarrow> bool" where
  "refuses_under i ans \<longleftrightarrow> ma_sent ans = [] \<and>
     (case ma_reply ans of Rpc resp \<Rightarrow> mp_ID resp = i \<and> mp_Error resp \<noteq> None | _ \<Rightarrow> False)"

lemma rpc_failure_refuses [simp]: "refuses_under i (rpc_failure j e mg) \<longleftrightarrow> i = j"
  by (auto simp: refuses_under_def rpc_failure_def NewErrorResponse_def)

text \<open>The answer to a valid message of an authenticated client.\<close>

definition message_answered :: "'q mcp_env \<Rightarrow> tenant \<Rightarrow> mcp_request \<Rightarrow> 'q mcp_answer \<Rightarrow> bool" where
  "message_answered env tenant req ans =
     (case ma_reply ans of
        Rpc resp \<Rightarrow> (case mq_ID req of None \<Rightarrow> False | Some i \<Rightarrow> answers_under env i resp (ma_sent ans))
      | Accepted \<Rightarrow> mq_ID req = None
      | Panicked \<Rightarrow> mq_Method req = ''tools/list'' \<and>
          (\<exists>tools. listed_tools env tenant = Inr tools \<and> (\<exists>t\<in>set tools. UnmarshalAny (tl_InputSchemaJSON t) = Some Nil_v)))"

lemma route_answered:
  assumes "ValidateAndParseRequest body n = Inr req" and "out = routeMCPMethod env tenant agentID req mg1"
  shows "message_answered env tenant req \<lparr>ma_reply = reply_of req (mo_result out), ma_sent = mo_sent out, ma_gateway = mo_gateway out\<rparr>"
proof (cases "mq_ID req")
  case None
  have "list_panics env tenant req" if "mo_result out = Mcp_panic"
    using None that unfolding assms(2) by (rule notification_panics)
  with None list_panics_schema [of env tenant req] show ?thesis
    by (auto simp: message_answered_def reply_of_def list_panics_def split: mcp_result.splits)
next
  case (Some i)
  with request_id_not_null [OF assms(1)] have i: "i \<noteq> Id_null" by auto
  show ?thesis
  proof (cases "list_panics env tenant req")
    case True
    then have "mo_result out = Mcp_panic" by (simp add: assms(2) list_panics_def routeMCPMethod_def)
    with True list_panics_schema [OF True] show ?thesis by (simp add: message_answered_def reply_of_def list_panics_def)
  next
    case False
    from route_answers [OF Some i False, of agentID mg1] Some assms(2) show ?thesis
      by (auto simp: message_answered_def outcome_answers_def answers_def reply_of_def NewErrorResponse_def split: mcp_result.splits)
  qed
qed

text \<open>C37: every message is answered, once. A client that fails to authenticate, or whose body cannot
  be read, gets an error under the id null; a body that is too large or no valid message gets an
  error under the id read from its first bytes; nothing is sent upstream for either. The reply to a
  valid request of an authenticated client is a response under the id of the request, except that an
  error response of an upstream server that did not answer with status 200 is handed on under the id
  the server wrote. The reply to a notification is an empty 202. The handler crashes only on
  \<open>tools/list\<close>, and only when a registered tool's schema is the JSON value \<open>null\<close>.\<close>

theorem every_request_answered:
  "case fst (authenticateMCPRequest env mg) of
     Inl _ \<Rightarrow> refuses_under None (handleMCP env mg)
   | Inr (tenant, agentID) \<Rightarrow>
       (case me_body env of
          None \<Rightarrow> refuses_under None (handleMCP env mg)
        | Some body \<Rightarrow>
            (case ValidateAndParseRequest body MaxRequestSize of
               Inl _ \<Rightarrow> refuses_under (ExtractRequestID (take (nat MaxRequestSize) body)) (handleMCP env mg)
             | Inr req \<Rightarrow> message_answered env tenant req (handleMCP env mg)))"
proof -
  obtain r mg1 where r: "authenticateMCPRequest env mg = (r, mg1)" by force
  show ?thesis
  proof (cases r)
    case (Inr ta)
    obtain tenant agentID where ta: "ta = (tenant, agentID)" by force
    show ?thesis
    proof (cases "me_body env")
      case (Some body)
      show ?thesis
      proof (cases "ValidateAndParseRequest body MaxRequestSize")
        case (Inr req)
        have size: "int (length body) \<le> MaxRequestSize"
          using Inr by (auto simp: ValidateAndParseRequest_def MaxRequestSize_def split: if_splits)
        with route_answered [OF Inr refl, of env tenant agentID mg1] r \<open>r = Inr ta\<close> ta Some Inr show ?thesis
          by (simp add: handleMCP_def Let_def)
      qed (use r Inr ta Some in \<open>auto simp: handleMCP_def MaxRequestSize_def\<close>)
    qed (use r Inr ta in \<open>simp add: handleMCP_def\<close>)
  qed (use r in \<open>simp add: handleMCP_def\<close>)
qed

definition demo_message :: "(gomap \<Rightarrow> any option) mcp_env" where
  "demo_message = demo_mcp_env\<lparr>me_body := Some (marshal_request no_floats demo_mcp_request)\<rparr>"

lemma demo_message_login: "\<exists>tenant mg1. authenticateMCPRequest demo_message demo_mcp = (Inr (tenant, ''bot-1''), mg1)"
proof -
  have "(case fst (authenticateMCPRequest demo_message demo_mcp) of Inr (_, a) \<Rightarrow> a = ''bot-1'' | Inl _ \<Rightarrow> False)" by code_simp
  then show ?thesis by (auto split: sum.splits simp: prod_eq_iff)
qed

lemma demo_message_parses: "ValidateAndParseRequest (marshal_request no_floats demo_mcp_request) MaxRequestSize = Inr demo_mcp_request"
  by code_simp

theorem every_request_answered_witness:
  "case ma_reply (handleMCP demo_message demo_mcp) of
     Rpc resp \<Rightarrow> answers_under demo_message (Id_string ''7'') resp (ma_sent (handleMCP demo_message demo_mcp))
   | _ \<Rightarrow> False"
proof -
  obtain tenant mg1 where a: "authenticateMCPRequest demo_message demo_mcp = (Inr (tenant, ''bot-1''), mg1)" using demo_message_login by blast
  have b: "me_body demo_message = Some (marshal_request no_floats demo_mcp_request)" by (simp add: demo_message_def)
  from every_request_answered [of demo_message demo_mcp] a b demo_message_parses
  have "message_answered demo_message tenant demo_mcp_request (handleMCP demo_message demo_mcp)" by simp
  then show ?thesis
    by (simp add: message_answered_def demo_mcp_request_def split: mcp_reply.splits)
qed

subsection \<open>Who a client acts for\<close>

definition rows_keyed :: "tenant_db \<Rightarrow> bool" where
  "rows_keyed db \<longleftrightarrow> (\<forall>T row. td_tenants db T = Some row \<longrightarrow> tn_TenantID (tn_row row) = T)"

definition session_login :: "'q mcp_env \<Rightarrow> 'q mcp_gateway \<Rightarrow> string \<Rightarrow> bool" where
  "session_login env mg agentID \<longleftrightarrow>
     (\<exists>sm claims sm1 row. mg_sessions mg = Some sm \<and>
        ValidateToken (ce_mac (me_call env)) (SessionTokenFromRequest (ce_header (me_call env))) (TrimSpace (me_clientIP env))
          (me_sessionTime env) sm = (Inr claims, sm1) \<and>
        sc_TenantID claims = me_tenantID env \<and> sc_AgentID claims = agentID \<and>
        td_tenants (gw_tenants (mg_gateway mg)) (me_tenantID env) = Some row \<and> tn_DeletedAt row = None)"

lemma authenticateViaSession_Inr:
  assumes "authenticateViaSession env sm db = (Some (Inr (tenant, agentID)), sm1)"
  shows "\<exists>claims row. ValidateToken (ce_mac (me_call env)) (SessionTokenFromRequest (ce_header (me_call env))) (TrimSpace (me_clientIP env))
      (me_sessionTime env) sm = (Inr claims, sm1) \<and> sc_TenantID claims = me_tenantID env \<and> sc_AgentID claims = agentID \<and>
    td_tenants db (me_tenantID env) = Some row \<and> tn_DeletedAt row = None \<and> tenant = (tn_row row)\<lparr>tn_Enabled := True\<rparr>"
  using assms
  by (auto simp: authenticateViaSession_def GetTenant_def Let_def split: if_splits prod.splits sum.splits option.splits)

lemma authenticate_key_Inr:
  assumes "fst (authenticate_key env mg) = Inr (tenant, agentID)"
  shows "tn_TenantID tenant = me_tenantID env \<and>
    fst (authenticateTenantRequest (me_call env) (gw_tenants (mg_gateway mg))) = Inr (tenant, agentID)"
  using assms by (auto simp: authenticate_key_def split: prod.splits sum.splits if_splits)

text \<open>A client acts only for the tenant of its path. An authenticated MCP client holds a live key
  of exactly that tenant, or a session token that the manager accepts for the client's address, that
  was issued for that tenant and agent, and the tenant is not deleted.\<close>

theorem mcp_client_stays_in_tenant:
  assumes "rows_keyed (gw_tenants (mg_gateway mg))" and "fst (authenticateMCPRequest env mg) = Inr (tenant, agentID)"
  shows "tn_TenantID tenant = me_tenantID env \<and>
    (fst (authenticateTenantRequest (me_call env) (gw_tenants (mg_gateway mg))) = Inr (tenant, agentID) \<or>
     (sessionTokensOn env \<and> session_login env mg agentID))"
proof (cases "mg_sessions mg")
  case None
  with assms(2) authenticate_key_Inr [of env mg tenant agentID] show ?thesis by (simp add: authenticateMCPRequest_def)
next
  case (Some sm)
  obtain r sm1 where v: "authenticateViaSession env sm (gw_tenants (mg_gateway mg)) = (r, sm1)" by force
  show ?thesis
  proof (cases "sessionTokensOn env \<and> r \<noteq> None")
    case True
    with assms(2) Some v have r: "r = Some (Inr (tenant, agentID))" by (auto simp: authenticateMCPRequest_def)
    from authenticateViaSession_Inr [OF v [unfolded r]] Some True assms(1) show ?thesis
      by (auto simp: session_login_def rows_keyed_def)
  next
    case False
    have "fst (authenticate_key env mg) = Inr (tenant, agentID) \<or>
        fst (authenticate_key env (mg\<lparr>mg_sessions := Some sm1\<rparr>)) = Inr (tenant, agentID)"
      using False assms(2) Some v by (cases "sessionTokensOn env") (auto simp: authenticateMCPRequest_def)
    then have "\<exists>m. fst (authenticate_key env (mg\<lparr>mg_sessions := m\<rparr>)) = Inr (tenant, agentID)"
    proof
      assume "fst (authenticate_key env mg) = Inr (tenant, agentID)"
      moreover have "mg = mg\<lparr>mg_sessions := mg_sessions mg\<rparr>" by simp
      ultimately show ?thesis by metis
    qed blast
    then obtain m where "fst (authenticate_key env (mg\<lparr>mg_sessions := m\<rparr>)) = Inr (tenant, agentID)" by blast
    from authenticate_key_Inr [OF this] show ?thesis by simp
  qed
qed

theorem mcp_client_stays_in_tenant_witness:
  "\<exists>tenant. fst (authenticateMCPRequest demo_message demo_mcp) = Inr (tenant, ''bot-1'') \<and> tn_TenantID tenant = ''t1''"
proof -
  obtain tenant mg1 where a: "authenticateMCPRequest demo_message demo_mcp = (Inr (tenant, ''bot-1''), mg1)" using demo_message_login by blast
  have "rows_keyed (gw_tenants (mg_gateway demo_mcp))"
    by (auto simp: rows_keyed_def demo_mcp_def demo_gateway_def Key_Auth.sample_db_def split: if_splits)
  from mcp_client_stays_in_tenant [OF this, of demo_message tenant "''bot-1''"] a show ?thesis
    by (simp add: demo_message_def demo_mcp_env_def)
qed

end
