(* ===== verification/Mcp_Stream.thy ===== *)
theory Mcp_Stream
  imports Mcp_Gateway
begin

text \<open>
  The event stream of the MCP endpoint (\<open>handleMCPStream\<close> and \<open>sseWriteLimiter\<close> of
  \<open>src/internal/api/public/mcp_handler.go\<close>). The loop selects between the ticker and the
  stream's context; which is ready at its k-th turn is \<open>events k\<close>, so that the theorems hold
  for every schedule, fair or not. The response writer is a parameter: the k-th write of a payload
  takes a number of its bytes and may fail; \<open>writer_ok\<close> is the contract of \<open>io.Writer\<close>. The
  loop may run forever for a bad writer, hence \<open>partial_function\<close>; the theorems say that it
  ends, how many bytes it writes, and which.
\<close>

subsection \<open>The limited writer\<close>

type_synonym stream_writer = "nat \<Rightarrow> string \<Rightarrow> nat \<times> bool"

record sse_write_limiter =
  sl_limit :: int
  sl_written :: int
  sl_calls :: nat
  sl_wire :: string

datatype stream_write_error = errMCPStreamLimitExceeded | Write_failed

definition limiter_Write ::
  "stream_writer \<Rightarrow> string \<Rightarrow> sse_write_limiter \<Rightarrow> stream_write_error option \<times> sse_write_limiter" where
  "limiter_Write w payload l =
     (if sl_limit l > 0 \<and> sl_written l + int (length payload) > sl_limit l then (Some errMCPStreamLimitExceeded, l)
      else case w (sl_calls l) payload of
             (n, failed) \<Rightarrow>
               (if failed then Some Write_failed else None,
                l\<lparr>sl_written := sl_written l + int n, sl_calls := Suc (sl_calls l), sl_wire := sl_wire l @ take n payload\<rparr>))"

subsection \<open>The loop\<close>

datatype stream_event = Tick | Deadline_exceeded | Cancelled

datatype stream_end = Returned_nil | Returned_err

definition mcpStreamMaxBytes :: int where "mcpStreamMaxBytes = 1048576"

definition newlines :: string where "newlines = [CHR 0x0A, CHR 0x0A]"
definition connected_text :: string where "connected_text = '': connected'' @ newlines"
definition heartbeat_text :: string where "heartbeat_text = '': heartbeat'' @ newlines"

definition close_text :: "string \<Rightarrow> string" where
  "close_text reason = ''event: close'' @ [CHR 0x0A] @ ''data: {'' @ quote ''reason'' @ '':'' @ quote reason @ ''}'' @ newlines"

partial_function (option) stream_loop ::
  "stream_writer \<Rightarrow> (nat \<Rightarrow> stream_event) \<Rightarrow> nat \<Rightarrow> sse_write_limiter \<Rightarrow> (stream_end \<times> sse_write_limiter) option" where
  [code]: "stream_loop w events k l =
     (case events k of
        Cancelled \<Rightarrow> Some (Returned_nil, l)
      | Deadline_exceeded \<Rightarrow>
          (case limiter_Write w (close_text ''max_duration_reached'') l of
             (Some Write_failed, l1) \<Rightarrow> Some (Returned_err, l1)
           | (_, l1) \<Rightarrow> Some (Returned_nil, l1))
      | Tick \<Rightarrow>
          (case limiter_Write w heartbeat_text l of
             (None, l1) \<Rightarrow> stream_loop w events (Suc k) l1
           | (Some errMCPStreamLimitExceeded, l1) \<Rightarrow>
               Some (Returned_nil, snd (limiter_Write w (close_text ''max_bytes_reached'') l1))
           | (Some Write_failed, l1) \<Rightarrow> Some (Returned_err, l1)))"

datatype stream_answer = Stream_unauthorized | Stream_ended stream_end sse_write_limiter

definition new_limiter :: sse_write_limiter where
  "new_limiter = \<lparr>sl_limit = mcpStreamMaxBytes, sl_written = 0, sl_calls = 0, sl_wire = []\<rparr>"

definition handleMCPStream ::
  "'q mcp_env \<Rightarrow> stream_writer \<Rightarrow> (nat \<Rightarrow> stream_event) \<Rightarrow> 'q mcp_gateway \<Rightarrow> (stream_answer \<times> 'q mcp_gateway) option" where
  "handleMCPStream env w events mg =
     (case authenticateMCPRequest env mg of
        (Inl _, mg1) \<Rightarrow> Some (Stream_unauthorized, mg1)
      | (Inr _, mg1) \<Rightarrow>
          (case limiter_Write w connected_text new_limiter of
             (Some _, l1) \<Rightarrow> Some (Stream_ended Returned_err l1, mg1)
           | (None, l1) \<Rightarrow> map_option (\<lambda>(r, l). (Stream_ended r l, mg1)) (stream_loop w events 0 l1)))"

subsection \<open>The loop ends\<close>

definition writer_ok :: "stream_writer \<Rightarrow> bool" where
  "writer_ok w \<longleftrightarrow> (\<forall>k p. fst (w k p) \<le> length p \<and> (fst (w k p) < length p \<longrightarrow> snd (w k p)))"

definition limiter_ok :: "sse_write_limiter \<Rightarrow> bool" where
  "limiter_ok l \<longleftrightarrow> sl_limit l > 0 \<and> sl_written l = int (length (sl_wire l)) \<and> sl_written l \<le> sl_limit l"

lemma limiter_Write_ok:
  assumes "writer_ok w" and "limiter_ok l" and "limiter_Write w p l = (e, l1)"
  shows "limiter_ok l1 \<and> sl_limit l1 = sl_limit l \<and>
    (e = None \<longrightarrow> sl_written l1 = sl_written l + int (length p) \<and> sl_wire l1 = sl_wire l @ p) \<and>
    (e = Some errMCPStreamLimitExceeded \<longrightarrow> l1 = l)"
proof (cases "sl_written l + int (length p) > sl_limit l")
  case True
  with assms(2,3) show ?thesis by (auto simp: limiter_Write_def limiter_ok_def)
next
  case False
  obtain n f where w: "w (sl_calls l) p = (n, f)" by force
  with assms(1) have n: "n \<le> length p" "n < length p \<longrightarrow> f" unfolding writer_ok_def by (metis fst_conv snd_conv)+
  from False assms(3) w have "e = (if f then Some Write_failed else None)"
    "l1 = l\<lparr>sl_written := sl_written l + int n, sl_calls := Suc (sl_calls l), sl_wire := sl_wire l @ take n p\<rparr>"
    by (auto simp: limiter_Write_def)
  with False assms(2) n show ?thesis by (auto simp: limiter_ok_def min_def)
qed

lemma heartbeat_length [simp]: "length heartbeat_text = 13" "length connected_text = 13"
  by (simp_all add: heartbeat_text_def connected_text_def newlines_def)

lemma stream_loop_ends:
  assumes "writer_ok w" and "limiter_ok l"
  shows "\<exists>r l'. stream_loop w events k l = Some (r, l') \<and> limiter_ok l' \<and> sl_limit l' = sl_limit l"
  using assms(2)
proof (induction "nat (sl_limit l - sl_written l)" arbitrary: k l rule: less_induct)
  case less
  note step = limiter_Write_ok [OF assms(1)]
  show ?case
  proof (cases "events k")
    case Tick
    obtain e l1 where w: "limiter_Write w heartbeat_text l = (e, l1)" by force
    note s = step [OF less.prems w]
    show ?thesis
    proof (cases e)
      case None
      with s have "nat (sl_limit l1 - sl_written l1) < nat (sl_limit l - sl_written l)" by (auto simp: limiter_ok_def)
      from less.hyps [OF this, of "Suc k"] s None Tick w show ?thesis by (subst stream_loop.simps) auto
    next
      case (Some x)
      obtain e2 l2 where "limiter_Write w (close_text ''max_bytes_reached'') l1 = (e2, l2)" by force
      with s Some Tick w step [of l1 _ e2 l2] show ?thesis by (cases x; subst stream_loop.simps) auto
    qed
  next
    case Deadline_exceeded
    obtain e l1 where w: "limiter_Write w (close_text ''max_duration_reached'') l = (e, l1)" by force
    with step [OF less.prems w] Deadline_exceeded show ?thesis
      by (subst stream_loop.simps) (auto split: option.splits stream_write_error.splits)
  next
    case Cancelled
    with less.prems show ?thesis by (subst stream_loop.simps) auto
  qed
qed

lemma new_limiter_ok: "limiter_ok new_limiter" "sl_limit new_limiter = mcpStreamMaxBytes"
  by (simp_all add: limiter_ok_def new_limiter_def mcpStreamMaxBytes_def)

text \<open>C38: the event stream ends. Whatever the schedule of ticks, deadline and cancellation, also one
  in which the context is never done, and with any writer that keeps the contract of
  \<open>io.Writer\<close>, the handler returns, having put at most 1 MiB on the wire.\<close>

theorem event_stream_ends:
  assumes "writer_ok w"
  shows "\<exists>answer mg'. handleMCPStream env w events mg = Some (answer, mg') \<and>
    (\<forall>r l. answer = Stream_ended r l \<longrightarrow> int (length (sl_wire l)) \<le> mcpStreamMaxBytes)"
proof -
  obtain r mg1 where a: "authenticateMCPRequest env mg = (r, mg1)" by force
  obtain e l1 where w: "limiter_Write w connected_text new_limiter = (e, l1)" by force
  note s = limiter_Write_ok [OF assms new_limiter_ok(1) w]
  from stream_loop_ends [OF assms, of l1 events 0] s obtain r2 l2 where
    "stream_loop w events 0 l1 = Some (r2, l2)" "limiter_ok l2" "sl_limit l2 = sl_limit l1" by blast
  with a w s new_limiter_ok(2) show ?thesis
    by (cases r; cases e) (auto simp: handleMCPStream_def limiter_ok_def)
qed

subsection \<open>What is written\<close>

definition reliable :: stream_writer where "reliable k p = (length p, False)"

lemma reliable_ok: "writer_ok reliable" by (simp add: writer_ok_def reliable_def)

definition full :: "sse_write_limiter \<Rightarrow> string \<Rightarrow> bool" where
  "full l p \<longleftrightarrow> sl_limit l > 0 \<and> sl_written l + int (length p) > sl_limit l"

definition wrote :: "sse_write_limiter \<Rightarrow> string \<Rightarrow> sse_write_limiter" where
  "wrote l p = l\<lparr>sl_written := sl_written l + int (length p), sl_calls := Suc (sl_calls l), sl_wire := sl_wire l @ p\<rparr>"

lemma reliable_Write: "limiter_Write reliable p l = (if full l p then (Some errMCPStreamLimitExceeded, l) else (None, wrote l p))"
  by (simp add: limiter_Write_def full_def wrote_def reliable_def)

lemma close_length: "length (close_text ''max_bytes_reached'') = 51" "length (close_text ''max_duration_reached'') = 54"
  by code_simp+

lemma full_close: "full l heartbeat_text \<Longrightarrow> full l (close_text ''max_bytes_reached'')"
  by (simp add: full_def close_length)

definition final_text :: "int \<Rightarrow> int \<Rightarrow> stream_event \<Rightarrow> string" where
  "final_text limit written e =
     (if e = Deadline_exceeded \<and> written + 54 \<le> limit then close_text ''max_duration_reached'' else [])"

lemma limiter_ok_wrote: "limiter_ok l \<Longrightarrow> \<not> full l p \<Longrightarrow> limiter_ok (wrote l p)"
  by (simp add: limiter_ok_def full_def wrote_def)

lemma stream_loop_text:
  assumes "limiter_ok l" and "\<forall>j<m. events (k + j) = Tick" and "events (k + m) \<noteq> Tick"
  shows "\<exists>l'. stream_loop reliable events k l = Some (Returned_nil, l') \<and>
    sl_wire l' = sl_wire l @ concat (replicate (min m (nat ((sl_limit l - sl_written l) div 13))) heartbeat_text) @
      final_text (sl_limit l) (sl_written l + 13 * int m) (events (k + m))"
  using assms
proof (induction m arbitrary: k l)
  case 0
  then show ?case
    by (cases "events k"; subst stream_loop.simps)
      (auto simp: reliable_Write final_text_def full_def wrote_def close_length limiter_ok_def)
next
  case (Suc m)
  have t: "events k = Tick" using Suc.prems(2) by (metis add_0_right zero_less_Suc)
  show ?case
  proof (cases "full l heartbeat_text")
    case True
    moreover have "(sl_limit l - sl_written l) div 13 = 0" using True Suc.prems(1) by (auto simp: full_def limiter_ok_def)
    ultimately show ?thesis using t full_close
      by (subst stream_loop.simps) (auto simp: reliable_Write final_text_def full_def)
  next
    case False
    let ?l = "wrote l heartbeat_text"
    have ok: "limiter_ok ?l" using Suc.prems(1) False by (rule limiter_ok_wrote)
    have ev: "\<forall>j<m. events (Suc k + j) = Tick" "events (Suc k + m) \<noteq> Tick"
      using Suc.prems(2,3) by (metis add_Suc_right add_Suc_shift Suc_mono)+
    have "(sl_limit l - sl_written l) div 13 = (sl_limit l - (sl_written l + 13)) div 13 + 1"
      using div_add_self2 [of 13 "sl_limit l - (sl_written l + 13)"] by (simp add: diff_add_eq)
    moreover have "(sl_limit l - (sl_written l + 13)) div 13 \<ge> 0"
      using False Suc.prems(1) by (auto simp: full_def limiter_ok_def intro: pos_imp_zdiv_nonneg_iff [THEN iffD2])
    ultimately have n: "min (Suc m) (nat ((sl_limit l - sl_written l) div 13)) =
        Suc (min m (nat ((sl_limit l - (sl_written l + 13)) div 13)))" by (simp add: nat_add_distrib)
    have "stream_loop reliable events k l = stream_loop reliable events (Suc k) ?l"
      using t False by (subst stream_loop.simps) (simp add: reliable_Write)
    with Suc.IH [OF ok ev] n show ?thesis by (auto simp: wrote_def algebra_simps)
  qed
qed

text \<open>What the client receives over a connection without faults: the greeting, one heartbeat per
  tick while the byte limit lasts, and after the deadline the closing event. When the byte limit
  ends the stream, the client is told nothing: a closing event that names \<open>max_bytes_reached\<close> is
  never on the wire, since it is longer than the heartbeat that did not fit.\<close>

theorem event_stream_text:
  assumes "fst (authenticateMCPRequest env mg) = Inr who" and "\<forall>j<m. events j = Tick" and "events m \<noteq> Tick"
  shows "\<exists>l mg'. handleMCPStream env reliable events mg = Some (Stream_ended Returned_nil l, mg') \<and>
    sl_wire l = connected_text @ concat (replicate (min m 80658) heartbeat_text) @
      (if events m = Deadline_exceeded \<and> 13 * (m + 1) + 54 \<le> 1048576 then close_text ''max_duration_reached'' else [])"
proof -
  obtain mg1 where a: "authenticateMCPRequest env mg = (Inr who, mg1)" using assms(1) by (cases "authenticateMCPRequest env mg") auto
  let ?l = "wrote new_limiter connected_text"
  have nf: "\<not> full new_limiter connected_text" by (simp add: full_def new_limiter_def mcpStreamMaxBytes_def)
  have l: "sl_limit ?l = 1048576" "sl_written ?l = 13" "sl_wire ?l = connected_text"
    by (simp_all add: wrote_def new_limiter_def mcpStreamMaxBytes_def)
  have f: "final_text 1048576 (13 + 13 * int m) (events m) =
      (if events m = Deadline_exceeded \<and> 13 * (m + 1) + 54 \<le> 1048576 then close_text ''max_duration_reached'' else [])"
    by (auto simp: final_text_def)
  have ev: "\<forall>j<m. events (0 + j) = Tick" "events (0 + m) \<noteq> Tick" using assms(2,3) by simp_all
  from stream_loop_text [OF limiter_ok_wrote [OF new_limiter_ok(1) nf] ev] obtain l' where
    "stream_loop reliable events 0 ?l = Some (Returned_nil, l')"
    "sl_wire l' = connected_text @ concat (replicate (min m 80658) heartbeat_text) @ final_text 1048576 (13 + 13 * int m) (events m)"
    unfolding l by auto
  then show ?thesis unfolding f by (intro exI [of _ l'] exI [of _ mg1]) (simp add: handleMCPStream_def a reliable_Write nf)
qed

theorem event_stream_ends_witness: "\<exists>answer mg'. handleMCPStream demo_mcp_env reliable (\<lambda>_. Tick) demo_mcp = Some (answer, mg')"
  using event_stream_ends [OF reliable_ok] by blast

lemma demo_login: "\<exists>who. fst (authenticateMCPRequest demo_mcp_env demo_mcp) = Inr who"
proof -
  have "(case fst (authenticateMCPRequest demo_mcp_env demo_mcp) of Inr _ \<Rightarrow> True | Inl _ \<Rightarrow> False)" by code_simp
  then show ?thesis by (auto split: sum.splits)
qed

theorem event_stream_text_witness:
  "\<exists>l mg'. handleMCPStream demo_mcp_env reliable (\<lambda>k. if k < 2 then Tick else Deadline_exceeded) demo_mcp =
       Some (Stream_ended Returned_nil l, mg') \<and>
     sl_wire l = connected_text @ heartbeat_text @ heartbeat_text @ close_text ''max_duration_reached''"
proof -
  obtain who where "fst (authenticateMCPRequest demo_mcp_env demo_mcp) = Inr who" using demo_login by blast
  from event_stream_text [OF this, of 2 "\<lambda>k. if k < 2 then Tick else Deadline_exceeded"] show ?thesis
    by (auto simp: numeral_2_eq_2)
qed

end
