(* ===== verification/License_Admin.thy ===== *)
theory License_Admin
  imports License
begin

text \<open>
  The license of a running gateway that manages its own key file: the routes of
  \<open>src/internal/api/admin/license_management.go\<close>, the operations of
  \<open>src/internal/store/store_license.go\<close> behind them, and the provider of
  \<open>src/internal/license/selfmanaged.go\<close> with its watcher. The state is the key file on disk, the watcher
  with the license in force, and the table \<open>license_history\<close>; \<open>ls_loads\<close> records which file was loaded when,
  latest first, and no definition of the code reads it. The theorem says where the entitlements in force
  come from, whatever uploads, removals, checks and changes of the file happened. None of the routes asks
  who the caller is.
\<close>

subsection \<open>State\<close>

record license_row =
  lh_Tier :: string
  lh_KeyVersion :: int
  lh_Licensee :: string
  lh_Email :: string
  lh_ExpiresAt :: time
  lh_Fingerprint :: string

record license_state =
  ls_file :: key_file
  ls_watcher :: watcher
  ls_history :: "license_row list"
  ls_loads :: "(key_file \<times> time) list"

datatype license_provider = No_provider | Marketplace_provider | Self_managed

record license_env =
  lv_parse :: jwt_parser
  lv_sha :: "string \<Rightarrow> string"
  lv_provider :: license_provider
  lv_contentType :: string
  lv_form :: "string option"
  lv_body :: "string option"
  lv_now :: time
  lv_hasStore :: bool
  lv_historyFault :: "store_error option"
  lv_insertFault :: "store_error option"
  lv_writeFault :: bool
  lv_removeFault :: bool
  lv_mtime :: time
  lv_others :: "key_file \<Rightarrow> key_file"
  lv_loaded :: time
  lv_replied :: time

subsection \<open>History\<close>

definition InsertLicenseHistory :: "store_error option \<Rightarrow> license_row \<Rightarrow> license_row list \<Rightarrow> (store_error + unit) \<times> license_row list" where
  "InsertLicenseHistory flt row rows = (case flt of Some e \<Rightarrow> (Inl e, rows) | None \<Rightarrow> (Inr (), rows @ [row]))"

definition GetLatestLicenseHistory :: "store_error option \<Rightarrow> license_row list \<Rightarrow> store_error + license_row" where
  "GetLatestLicenseHistory flt rows = (case flt of Some e \<Rightarrow> Inl e | None \<Rightarrow> if rows = [] then Inl ErrNotFound else Inr (last rows))"

definition HasTrialLicenseBeenUsed :: "store_error option \<Rightarrow> license_row list \<Rightarrow> store_error + bool" where
  "HasTrialLicenseBeenUsed flt rows =
     (case flt of Some e \<Rightarrow> Inl e | None \<Rightarrow> Inr (list_ex (\<lambda>r. lh_Tier r = ''trial'') rows))"

subsection \<open>Reading and writing the key\<close>

definition maxLicenseKeySize :: nat where "maxLicenseKeySize = 8192"

datatype license_body = Key_data string | Key_error string | Key_panic

text \<open>\<open>contentType[:10]\<close> panics when the header has fewer than ten bytes. The size is checked for the raw
  body only; a form's file is cut off.\<close>

definition readLicenseBody :: "license_env \<Rightarrow> license_body" where
  "readLicenseBody env =
     (if lv_contentType env \<noteq> [] \<and> length (lv_contentType env) < 10 then Key_panic
      else if lv_contentType env \<noteq> [] \<and> take 10 (lv_contentType env) = ''multipart/''
      then (case lv_form env of None \<Rightarrow> Key_error ''missing file in multipart form'' | Some d \<Rightarrow> Key_data (take (maxLicenseKeySize + 1) d))
      else (case lv_body env of
              None \<Rightarrow> Key_error ''reading request body''
            | Some d \<Rightarrow>
                if d = [] then Key_error ''empty request body''
                else if length (take (maxLicenseKeySize + 1) d) > maxLicenseKeySize then Key_error ''license key exceeds maximum size (8192 bytes)''
                else Key_data (take (maxLicenseKeySize + 1) d)))"

definition daysRemaining :: "time \<Rightarrow> time \<Rightarrow> int" where
  "daysRemaining now expiresAt = max 0 ((expiresAt - now) div (86400 * 1000000000))"

text \<open>\<open>LoadAndValidate\<close> of the validator reads the file as it is at that moment.\<close>

definition reload :: "jwt_parser \<Rightarrow> time \<Rightarrow> license_state \<Rightarrow> license_state" where
  "reload parse_jwt now s =
     s\<lparr>ls_watcher := (ls_watcher s)\<lparr>wt_info := LoadAndValidate parse_jwt (ls_file s) now\<rparr>, ls_loads := (ls_file s, now) # ls_loads s\<rparr>"

subsection \<open>Routes\<close>

datatype license_reply =
    Lic_error int string
  | Lic_status bool string "(string \<times> string \<times> int \<times> time option \<times> time option \<times> int) option"
  | Lic_uploaded license_info int string
  | Lic_removed
  | Lic_panic

definition expiry :: "license_info \<Rightarrow> time" where
  "expiry info = (case li_ExpiresAt info of Some t \<Rightarrow> t | None \<Rightarrow> 0)"

definition handleLicenseStatus :: "license_env \<Rightarrow> license_info \<Rightarrow> license_reply" where
  "handleLicenseStatus env info =
     (if lv_provider env = No_provider then Lic_status False ''free'' None
      else Lic_status (li_Valid info) (li_Tier info)
        (if li_Valid info then Some (li_Licensee info, li_Email info, li_KeyVersion info, li_IssuedAt info, li_ExpiresAt info,
           daysRemaining (lv_replied env) (expiry info)) else None))"

definition trial_refused :: "license_env \<Rightarrow> license_info \<Rightarrow> license_row list \<Rightarrow> license_reply option" where
  "trial_refused env info rows =
     (if li_Tier info = ''trial'' \<and> lv_hasStore env
      then (case HasTrialLicenseBeenUsed (lv_historyFault env) rows of
              Inl _ \<Rightarrow> Some (Lic_error 500 ''failed to check trial license history'')
            | Inr True \<Rightarrow> Some (Lic_error 403 ''TRIAL_ALREADY_USED'')
            | Inr False \<Rightarrow> None)
      else None)"

definition history_row :: "license_env \<Rightarrow> string \<Rightarrow> license_info \<Rightarrow> license_row" where
  "history_row env data info =
     \<lparr>lh_Tier = li_Tier info, lh_KeyVersion = li_KeyVersion info, lh_Licensee = li_Licensee info, lh_Email = li_Email info,
      lh_ExpiresAt = expiry info, lh_Fingerprint = lv_sha env data\<rparr>"

text \<open>Between the rename of the file and the reload others may change the file: \<open>lv_others\<close>. The error of
  the history is dropped.\<close>

definition handleLicenseUpload :: "license_env \<Rightarrow> license_state \<Rightarrow> license_reply \<times> license_state" where
  "handleLicenseUpload env s =
     (if lv_provider env \<noteq> Self_managed then (Lic_error 501 ''license upload is only supported for self-managed installations'', s)
      else (case readLicenseBody env of
        Key_panic \<Rightarrow> (Lic_panic, s)
      | Key_error m \<Rightarrow> (Lic_error 400 m, s)
      | Key_data data \<Rightarrow>
          (case ValidateBytes (lv_parse env) data (lv_now env) of
             Inl _ \<Rightarrow> (Lic_error 422 ''INVALID_LICENSE_KEY'', s)
           | Inr info \<Rightarrow>
               (case trial_refused env info (ls_history s) of
                  Some reply \<Rightarrow> (reply, s)
                | None \<Rightarrow>
                    if lv_writeFault env then (Lic_error 500 ''failed to write license key file'', s)
                    else (let s1 = reload (lv_parse env) (lv_loaded env)
                                (s\<lparr>ls_file := lv_others env (Present (lv_mtime env) (int (length data)) data)\<rparr>);
                              s2 = (if lv_hasStore env
                                    then s1\<lparr>ls_history := snd (InsertLicenseHistory (lv_insertFault env) (history_row env data info) (ls_history s1))\<rparr>
                                    else s1)
                          in (Lic_uploaded info (daysRemaining (lv_replied env) (expiry info)) (lv_sha env data), s2))))))"

definition handleLicenseRemove :: "license_env \<Rightarrow> license_state \<Rightarrow> license_reply \<times> license_state" where
  "handleLicenseRemove env s =
     (if lv_provider env \<noteq> Self_managed then (Lic_error 501 ''license removal is only supported for self-managed installations'', s)
      else if lv_removeFault env then (Lic_error 500 ''failed to remove license key file'', s)
      else (Lic_removed, reload (lv_parse env) (lv_loaded env) (s\<lparr>ls_file := lv_others env Missing\<rparr>)))"

subsection \<open>A running gateway\<close>

definition license_start :: "jwt_parser \<Rightarrow> key_file \<Rightarrow> time \<Rightarrow> key_file \<Rightarrow> license_row list \<Rightarrow> license_state" where
  "license_start parse_jwt f now f' rows =
     \<lparr>ls_file = f', ls_watcher = snapshot f' \<lparr>wt_info = LoadAndValidate parse_jwt f now, wt_lastModTime = None, wt_lastSize = 0\<rparr>,
      ls_history = rows, ls_loads = [(f, now)]\<rparr>"

text \<open>Whether \<open>check\<close> loads the file again.\<close>

definition stale_stamp :: "key_file \<Rightarrow> watcher \<Rightarrow> bool" where
  "stale_stamp f w =
     (case f of Missing \<Rightarrow> wt_lastModTime w \<noteq> None | Unreadable \<Rightarrow> False
      | Present mtime sz _ \<Rightarrow> Some mtime \<noteq> wt_lastModTime w \<or> sz \<noteq> wt_lastSize w)"

definition tick :: "jwt_parser \<Rightarrow> time \<Rightarrow> license_state \<Rightarrow> license_state" where
  "tick parse_jwt now s =
     s\<lparr>ls_watcher := check parse_jwt (ls_file s) now (ls_watcher s),
       ls_loads := (if stale_stamp (ls_file s) (ls_watcher s) then (ls_file s, now) # ls_loads s else ls_loads s)\<rparr>"

inductive license_reach :: "jwt_parser \<Rightarrow> license_state \<Rightarrow> bool" for parse_jwt where
  start: "license_reach parse_jwt (license_start parse_jwt f now f' rows)"
| disk: "license_reach parse_jwt s \<Longrightarrow> license_reach parse_jwt (s\<lparr>ls_file := f\<rparr>)"
| poll: "license_reach parse_jwt s \<Longrightarrow> license_reach parse_jwt (tick parse_jwt now s)"
| upload: "license_reach parse_jwt s \<Longrightarrow> lv_parse env = parse_jwt \<Longrightarrow> handleLicenseUpload env s = (reply, s') \<Longrightarrow> license_reach parse_jwt s'"
| remove: "license_reach parse_jwt s \<Longrightarrow> lv_parse env = parse_jwt \<Longrightarrow> handleLicenseRemove env s = (reply, s') \<Longrightarrow> license_reach parse_jwt s'"

definition last_load :: "jwt_parser \<Rightarrow> license_state \<Rightarrow> bool" where
  "last_load parse_jwt s = (\<exists>f t rest. ls_loads s = (f, t) # rest \<and> wt_info (ls_watcher s) = LoadAndValidate parse_jwt f t)"

lemma last_load_reload [simp]: "last_load parse_jwt (reload parse_jwt now s)"
  by (simp add: last_load_def reload_def)

lemma last_load_cong: "last_load parse_jwt s \<Longrightarrow> ls_loads s' = ls_loads s \<Longrightarrow> ls_watcher s' = ls_watcher s \<Longrightarrow> last_load parse_jwt s'"
  by (simp add: last_load_def)

lemma last_load_tick: "last_load parse_jwt s \<Longrightarrow> last_load parse_jwt (tick parse_jwt now s)"
  by (auto simp: last_load_def tick_def check_def stale_stamp_def split: key_file.splits)

lemma last_load_upload:
  "last_load (lv_parse env) s \<Longrightarrow> handleLicenseUpload env s = (reply, s') \<Longrightarrow> last_load (lv_parse env) s'"
  by (auto simp: handleLicenseUpload_def Let_def split: if_splits license_body.splits sum.splits option.splits
      intro: last_load_cong [OF last_load_reload])

lemma last_load_remove:
  "last_load (lv_parse env) s \<Longrightarrow> handleLicenseRemove env s = (reply, s') \<Longrightarrow> last_load (lv_parse env) s'"
  by (auto simp: handleLicenseRemove_def split: if_splits)

lemma license_reach_last_load: "license_reach parse_jwt s \<Longrightarrow> last_load parse_jwt s"
proof (induction rule: license_reach.induct)
  case (start f now f' rows)
  then show ?case by (simp add: last_load_def license_start_def snapshot_def split: key_file.splits)
next
  case (disk s f)
  show ?case by (rule last_load_cong [OF disk.IH]) simp_all
qed (auto intro: last_load_tick last_load_upload last_load_remove)

text \<open>What the JWT library documents of \<open>jwt.Parse\<close> with a key, validation and a skew: the token it returns
  carries a signature of that key over the data, and its expiry is not further past than the skew.\<close>

definition ExpiryGracePeriod :: int where "ExpiryGracePeriod = 24 * 3600 * 1000000000"

definition jwt_verifies :: "(string \<Rightarrow> jwt_token \<Rightarrow> bool) \<Rightarrow> jwt_parser \<Rightarrow> bool" where
  "jwt_verifies signed_by_vendor parse_jwt =
     (\<forall>data now tok. parse_jwt data now = Inr tok \<longrightarrow>
        signed_by_vendor data tok \<and> (\<forall>e. tk_Expiration tok = Some e \<longrightarrow> now < e + ExpiryGracePeriod))"

text \<open>C18: the entitlements of a gateway that manages its own key file come from the vendor's key. After any
  sequence of uploads, removals, checks of the watcher and changes of the file by others, the license in
  force is the free tier's, or the file that was last loaded held a token with the vendor's signature,
  issued by rbitr, of key version 1, for a known tier, with a named licensee, whose expiry had not passed by
  a day or more when it was loaded, and the entitlements are that token's over the defaults of its tier.
  The expiry is looked at when a file is loaded, not while it stays unchanged (\<open>expiry_not_rechecked\<close>).\<close>

theorem entitlements_need_valid_key:
  assumes "license_reach parse_jwt s" and "jwt_verifies signed_by_vendor parse_jwt"
  shows "let info = wt_info (ls_watcher s) in
    (li_Entitlements info = FreeTierDefaults \<and> \<not> li_Valid info) \<or>
    (\<exists>mtime sz data t rest tok e. ls_loads s = (Present mtime sz data, t) # rest \<and> signed_by_vendor data tok \<and>
       tk_Issuer tok = Some ''rbitr'' \<and> tk_KeyVersion tok = Some 1 \<and> tk_Tier tok = Some (li_Tier info) \<and>
       li_Tier info \<in> {''free'', ''paid'', ''trial''} \<and> tk_Expiration tok = Some e \<and> t < e + ExpiryGracePeriod \<and>
       li_Licensee info \<noteq> [] \<and> li_Entitlements info = MergeOverDefaults (li_Tier info) (Option.bind (tk_Entitlements tok) id))"
proof -
  from license_reach_last_load [OF assms(1)] obtain f t rest where
    l: "ls_loads s = (f, t) # rest" "wt_info (ls_watcher s) = LoadAndValidate parse_jwt f t"
    by (auto simp: last_load_def)
  consider "wt_info (ls_watcher s) = free_info" | "key_accepted parse_jwt f t (wt_info (ls_watcher s))"
    using load_cases [of parse_jwt f t] l(2) by auto
  then show ?thesis
  proof cases
    case 1
    then show ?thesis by (simp add: free_info_def)
  next
    case 2
    then obtain mtime sz data tok where k: "f = Present mtime sz data" "parse_jwt data t = Inr tok"
      by (auto simp: key_accepted_def)
    with assms(2) have "signed_by_vendor data tok" "\<forall>e. tk_Expiration tok = Some e \<longrightarrow> t < e + ExpiryGracePeriod"
      by (auto simp: jwt_verifies_def)
    with 2 k l(1) show ?thesis
      by (auto simp: key_accepted_def Let_def split: option.splits)
  qed
qed

text \<open>No route asks for a credential: with a self-managed license any caller of \<open>DELETE /admin/license\<close> takes
  the gateway back to the free tier.\<close>

lemma anyone_removes_license:
  assumes "lv_provider env = Self_managed" and "\<not> lv_removeFault env" and "lv_others env Missing = Missing"
  shows "fst (handleLicenseRemove env s) = Lic_removed \<and>
    li_Entitlements (wt_info (ls_watcher (snd (handleLicenseRemove env s)))) = FreeTierDefaults"
  using assms by (simp add: handleLicenseRemove_def reload_def LoadAndValidate_def validateFile_def free_info_def)

text \<open>A short content type crashes the upload before the key is looked at.\<close>

lemma short_content_type_panics:
  "lv_provider env = Self_managed \<Longrightarrow> lv_contentType env = ''text/html'' \<Longrightarrow> handleLicenseUpload env s = (Lic_panic, s)"
  by (simp add: handleLicenseUpload_def readLicenseBody_def)

lemma trial_refused_not_uploaded [simp]: "trial_refused env info rows \<noteq> Some (Lic_uploaded i d fp)"
  by (auto simp: trial_refused_def split: if_splits sum.splits bool.splits)

text \<open>A trial key is accepted once, as long as the history could be written.\<close>

lemma trial_used_once:
  assumes "handleLicenseUpload env s = (Lic_uploaded info d fp, s')" and "li_Tier info = ''trial''"
    and "lv_hasStore env" and "lv_insertFault env = None" and "lv_hasStore env'" and "handleLicenseUpload env' s' = (reply, s'')"
  shows "\<nexists>info' d' fp'. reply = Lic_uploaded info' d' fp' \<and> li_Tier info' = ''trial''"
proof -
  have "list_ex (\<lambda>r. lh_Tier r = ''trial'') (ls_history s')"
    using assms(1-4) by (auto simp: handleLicenseUpload_def Let_def InsertLicenseHistory_def history_row_def
        split: if_splits license_body.splits sum.splits option.splits)
  with assms(5,6) show ?thesis
    by (auto simp: handleLicenseUpload_def Let_def trial_refused_def HasTrialLicenseBeenUsed_def
        split: if_splits license_body.splits sum.splits option.splits bool.splits)
qed

subsection \<open>Concrete licenses\<close>

definition upload_env :: "string \<Rightarrow> license_env" where
  "upload_env data = \<lparr>lv_parse = sample_parser, lv_sha = id, lv_provider = Self_managed, lv_contentType = [], lv_form = None, lv_body = Some data,
     lv_now = 1, lv_hasStore = True, lv_historyFault = None, lv_insertFault = None, lv_writeFault = False, lv_removeFault = False,
     lv_mtime = 5, lv_others = id, lv_loaded = 2, lv_replied = 3\<rparr>"

lemma sample_parser_verifies: "jwt_verifies (\<lambda>data tok. data = ''key'' \<and> tok = sample_token) sample_parser"
  by (auto simp: jwt_verifies_def sample_parser_def sample_token_def ExpiryGracePeriod_def split: if_splits)

theorem entitlements_need_valid_key_witness:
  "\<exists>s mtime sz t rest. license_reach sample_parser s \<and> li_Valid (wt_info (ls_watcher s)) \<and> ls_loads s = (Present mtime sz ''key'', t) # rest"
proof -
  let ?s0 = "license_start sample_parser Missing 0 Missing []"
  let ?s = "snd (handleLicenseUpload (upload_env ''key'') ?s0)"
  have r: "license_reach sample_parser ?s"
    by (rule license_reach.upload [OF license_reach.start _ surjective_pairing]) (simp add: upload_env_def)
  have v: "li_Valid (wt_info (ls_watcher ?s))" by code_simp
  from entitlements_need_valid_key [OF r sample_parser_verifies] v r show ?thesis by (auto simp: Let_def)
qed

end
