(* ===== verification/Credentials.thy ===== *)
theory Credentials
  imports Connectors Gateway_Config
begin

text \<open>
  The credential package (\<open>src/internal/credential\<close>): the configuration stored with a tool, its
  validation and redaction, and the four providers behind \<open>Resolver\<close>. The HTTP client and the
  environment are parameters. The caches of the OAuth2 and the Vault provider are read and written
  in two critical sections, between which other requests may run: \<open>others\<close> is what they did to
  the cache. The theorems say that a token is served only until 30 seconds before it expires, that
  the cache does not tell two configurations apart that differ in their secret or scope, and what
  the redaction hides.
\<close>

subsection \<open>Configuration\<close>

record cred_config =
  cf_Provider :: string
  cf_TokenURL :: string
  cf_ClientID :: string
  cf_ClientSecret :: string
  cf_Scope :: string
  cf_TokenCacheTTL :: int
  cf_VaultAddr :: string
  cf_VaultPath :: string
  cf_VaultRole :: string
  cf_EnvVar :: string

definition zero_cred_config :: cred_config where
  "zero_cred_config =
     \<lparr>cf_Provider = [], cf_TokenURL = [], cf_ClientID = [], cf_ClientSecret = [], cf_Scope = [], cf_TokenCacheTTL = 0,
      cf_VaultAddr = [], cf_VaultPath = [], cf_VaultRole = [], cf_EnvVar = []\<rparr>"

definition cred_config_fields :: "(string \<times> cred_config field) list" where
  "cred_config_fields =
     [(''provider'', string_field cf_Provider_update), (''token_url'', string_field cf_TokenURL_update),
      (''client_id'', string_field cf_ClientID_update), (''client_secret'', string_field cf_ClientSecret_update),
      (''scope'', string_field cf_Scope_update), (''token_cache_ttl_seconds'', int_field cf_TokenCacheTTL_update),
      (''vault_addr'', string_field cf_VaultAddr_update), (''vault_path'', string_field cf_VaultPath_update),
      (''vault_role'', string_field cf_VaultRole_update), (''env_var'', string_field cf_EnvVar_update)]"

datatype cred_error = Invalid_config string | ErrNoCredential | ErrTokenRefreshFailed | ErrVaultUnavailable | ErrEnvVarNotSet

definition ParseConfig :: "string \<Rightarrow> cred_error + cred_config option" where
  "ParseConfig raw =
     (if raw = [] then Inr None
      else case Option.bind (decode_members raw) (decode_struct cred_config_fields zero_cred_config) of
             None \<Rightarrow> Inl (Invalid_config ''invalid credential_config'')
           | Some c \<Rightarrow> Inr (Some c))"

definition missing_field :: "string \<Rightarrow> cred_config \<Rightarrow> cred_error" where
  "missing_field name c = Invalid_config (name @ '' is required for '' @ cf_Provider c @ '' provider'')"

definition Config_Validate :: "cred_config option \<Rightarrow> cred_error option" where
  "Config_Validate config =
     (case config of
        None \<Rightarrow> None
      | Some c \<Rightarrow>
          if cf_Provider c = ''static'' \<or> cf_Provider c = [] then None
          else if cf_Provider c = ''oauth2_client_credentials''
          then (if cf_TokenURL c = [] then Some (missing_field ''token_url'' c)
                else if cf_ClientID c = [] then Some (missing_field ''client_id'' c)
                else if cf_ClientSecret c = [] then Some (missing_field ''client_secret'' c)
                else None)
          else if cf_Provider c = ''vault''
          then (if cf_VaultAddr c = [] then Some (missing_field ''vault_addr'' c)
                else if cf_VaultPath c = [] then Some (missing_field ''vault_path'' c)
                else None)
          else if cf_Provider c = ''env''
          then (if cf_EnvVar c = [] then Some (missing_field ''env_var'' c) else None)
          else Some (Invalid_config (''unknown credential provider: '' @ cf_Provider c)))"

definition ValidateConfig :: "string \<Rightarrow> cred_error option" where
  "ValidateConfig raw = (case ParseConfig raw of Inl e \<Rightarrow> Some e | Inr c \<Rightarrow> Config_Validate c)"

definition ProviderName :: "string \<Rightarrow> string" where
  "ProviderName raw =
     (case ParseConfig raw of
        Inr (Some c) \<Rightarrow> if cf_Provider c = [] then ''static'' else cf_Provider c
      | _ \<Rightarrow> ''static'')"

definition sensitiveKeys :: "string list" where "sensitiveKeys = [''client_secret'', ''vault_role'']"

definition redact_key :: "string \<Rightarrow> gomap \<Rightarrow> gomap" where
  "redact_key k m = (if map_of m k \<noteq> None then set_key k (Str_v ''***'') m else m)"

definition RedactConfig :: "(rat \<Rightarrow> string) \<Rightarrow> string \<Rightarrow> string" where
  "RedactConfig fmt raw =
     (if raw = [] then []
      else case UnmarshalAny raw of
             Some (Map_v m) \<Rightarrow> json_text fmt (Map_v (fold redact_key sensitiveKeys m))
           | Some Nil_v \<Rightarrow> ''null''
           | _ \<Rightarrow> [])"

subsection \<open>Static values and the environment\<close>

definition no_credential :: credential where "no_credential = \<lparr>cd_HeaderName = [], cd_HeaderValue = []\<rparr>"

definition resolveFromValue :: "string \<Rightarrow> string \<Rightarrow> credential" where
  "resolveFromValue authType v =
     (if v = [] then no_credential
      else if authType = ''bearer'' then \<lparr>cd_HeaderName = ''Authorization'', cd_HeaderValue = ''Bearer '' @ v\<rparr>
      else if authType = ''api_key'' then \<lparr>cd_HeaderName = ''X-Api-Key'', cd_HeaderValue = v\<rparr>
      else no_credential)"

definition static_HealthCheck :: "string \<Rightarrow> string \<Rightarrow> cred_error option" where
  "static_HealthCheck authType authValue = (if authType \<noteq> ''none'' \<and> authValue = [] then Some ErrNoCredential else None)"

definition env_Resolve :: "(string \<Rightarrow> string) \<Rightarrow> string \<Rightarrow> cred_config \<Rightarrow> cred_error + credential" where
  "env_Resolve getenv authType c =
     (if getenv (cf_EnvVar c) = [] then Inl ErrEnvVarNotSet else Inr (resolveFromValue authType (getenv (cf_EnvVar c))))"

definition env_HealthCheck :: "(string \<Rightarrow> string) \<Rightarrow> cred_config \<Rightarrow> cred_error option" where
  "env_HealthCheck getenv c = (if getenv (cf_EnvVar c) = [] then Some ErrEnvVarNotSet else None)"

subsection \<open>OAuth2 client credentials\<close>

definition hex_upper :: "nat \<Rightarrow> char" where
  "hex_upper d = (if d < 10 then char_of (48 + d) else char_of (55 + d))"

definition query_char :: "char \<Rightarrow> string" where
  "query_char ch =
     (if is_letter ch \<or> is_digit ch \<or> ch \<in> {CHR ''-'', CHR ''_'', CHR ''.'', CHR ''~''} then [ch]
      else if ch = CHR '' '' then ''+''
      else let n = of_char ch in [CHR ''%'', hex_upper (n div 16), hex_upper (n mod 16)])"

definition QueryEscape :: "string \<Rightarrow> string" where
  "QueryEscape s = concat (map query_char s)"

text \<open>\<open>url.Values.Encode\<close> sorts the keys.\<close>

definition token_form :: "cred_config \<Rightarrow> string" where
  "token_form c =
     ''client_id='' @ QueryEscape (cf_ClientID c) @ ''&client_secret='' @ QueryEscape (cf_ClientSecret c) @
     ''&grant_type=client_credentials'' @ (if cf_Scope c = [] then [] else ''&scope='' @ QueryEscape (cf_Scope c))"

definition token_request :: "cred_config \<Rightarrow> connector_request" where
  "token_request c =
     \<lparr>cq_Method = ''POST'', cq_URL = cf_TokenURL c, cq_Headers = [(''Content-Type'', ''application/x-www-form-urlencoded'')],
      cq_Body = token_form c\<rparr>"

record token_response =
  tr_AccessToken :: string
  tr_ExpiresIn :: int
  tr_TokenType :: string

definition token_fields :: "(string \<times> token_response field) list" where
  "token_fields =
     [(''access_token'', string_field tr_AccessToken_update), (''expires_in'', int_field tr_ExpiresIn_update),
      (''token_type'', string_field tr_TokenType_update)]"

record oauth2_token =
  ot_accessToken :: string
  ot_expiresAt :: time

definition defaultTokenCacheTTL :: int where "defaultTokenCacheTTL = 300"
definition tokenExpiryBuffer :: int where "tokenExpiryBuffer = 30 * go_second"

definition token_lifetime :: "cred_config \<Rightarrow> token_response \<Rightarrow> int" where
  "token_lifetime c r =
     (let ttl = (if cf_TokenCacheTTL c \<le> 0 then defaultTokenCacheTTL else cf_TokenCacheTTL c);
          expiresIn = seconds_duration ttl
      in if tr_ExpiresIn r > 0 \<and> seconds_duration (tr_ExpiresIn r) < expiresIn then seconds_duration (tr_ExpiresIn r) else expiresIn)"

definition fetchToken :: "http_client \<Rightarrow> time \<Rightarrow> cred_config \<Rightarrow> cred_error + oauth2_token" where
  "fetchToken client now c =
     (case client (token_request c) of
        Inl _ \<Rightarrow> Inl ErrTokenRefreshFailed
      | Inr ans \<Rightarrow>
          if ha_Status ans \<noteq> 200 then Inl ErrTokenRefreshFailed
          else (case Option.bind (first_members (ha_Body ans))
                  (decode_struct token_fields \<lparr>tr_AccessToken = [], tr_ExpiresIn = 0, tr_TokenType = []\<rparr>) of
                  None \<Rightarrow> Inl ErrTokenRefreshFailed
                | Some r \<Rightarrow>
                    if tr_AccessToken r = [] then Inl ErrTokenRefreshFailed
                    else Inr \<lparr>ot_accessToken = tr_AccessToken r, ot_expiresAt = now + token_lifetime c r\<rparr>))"

type_synonym token_cache = "string \<rightharpoonup> oauth2_token"

definition token_key :: "cred_config \<Rightarrow> string" where
  "token_key c = cf_TokenURL c @ ''|'' @ cf_ClientID c"

definition cached_token :: "token_cache \<Rightarrow> time \<Rightarrow> cred_config \<Rightarrow> string option" where
  "cached_token cache now c =
     (case cache (token_key c) of
        None \<Rightarrow> None
      | Some tok \<Rightarrow> if now < ot_expiresAt tok - tokenExpiryBuffer then Some (ot_accessToken tok) else None)"

record cred_clock =
  cl_read :: time
  cl_locked :: time
  cl_issue :: time

text \<open>The section under the write lock: check again, fetch and store.\<close>

definition locked_token ::
  "http_client \<Rightarrow> cred_clock \<Rightarrow> cred_config \<Rightarrow> token_cache \<Rightarrow> (cred_error + string) \<times> token_cache \<times> connector_request list" where
  "locked_token client t c cache =
     (case cached_token cache (cl_locked t) c of
        Some tok \<Rightarrow> (Inr tok, cache, [])
      | None \<Rightarrow>
          (case fetchToken client (cl_issue t) c of
             Inl e \<Rightarrow> (Inl e, cache, [token_request c])
           | Inr tok \<Rightarrow> (Inr (ot_accessToken tok), cache(token_key c \<mapsto> tok), [token_request c])))"

definition getToken ::
  "http_client \<Rightarrow> cred_clock \<Rightarrow> (token_cache \<Rightarrow> token_cache) \<Rightarrow> cred_config \<Rightarrow> token_cache
   \<Rightarrow> (cred_error + string) \<times> token_cache \<times> connector_request list" where
  "getToken client t others c cache =
     (case cached_token cache (cl_read t) c of
        Some tok \<Rightarrow> (Inr tok, cache, [])
      | None \<Rightarrow> locked_token client t c (others cache))"

definition bearer :: "string \<Rightarrow> credential" where
  "bearer tok = \<lparr>cd_HeaderName = ''Authorization'', cd_HeaderValue = ''Bearer '' @ tok\<rparr>"

subsection \<open>Vault\<close>

record vault_secret =
  vs_value :: string
  vs_expiresAt :: time

type_synonym secret_cache = "string \<rightharpoonup> vault_secret"

definition defaultVaultCacheTTL :: int where "defaultVaultCacheTTL = 60 * go_second"

definition vault_request :: "string \<Rightarrow> cred_config \<Rightarrow> connector_request" where
  "vault_request vaultToken c =
     \<lparr>cq_Method = ''GET'', cq_URL = cf_VaultAddr c @ ''/v1/'' @ cf_VaultPath c, cq_Headers = [(''X-Vault-Token'', vaultToken)], cq_Body = []\<rparr>"

text \<open>The secret's entries, in the object \<open>data\<close> of the object \<open>data\<close>.\<close>

definition inner_data :: "(string \<times> string) list field" where
  "inner_data v acc =
     (case v of
        Map_v m \<Rightarrow> decode_struct [(''data'', string_map_field (\<lambda>f. f) id)] acc m
      | Nil_v \<Rightarrow> Some acc
      | _ \<Rightarrow> None)"

definition vault_data :: "string \<Rightarrow> (string \<times> string) list option" where
  "vault_data body = Option.bind (first_members body) (decode_struct [(''data'', inner_data)] [])"

text \<open>Without an entry \<open>value\<close> the code takes the first entry of a map iteration, whose order the
  language leaves open: \<open>pick\<close>.\<close>

definition fetchSecret ::
  "http_client \<Rightarrow> ((string \<times> string) list \<Rightarrow> string) \<Rightarrow> string \<Rightarrow> time \<Rightarrow> cred_config \<Rightarrow> cred_error + vault_secret" where
  "fetchSecret client pick vaultToken now c =
     (case client (vault_request vaultToken c) of
        Inl _ \<Rightarrow> Inl ErrVaultUnavailable
      | Inr ans \<Rightarrow>
          if ha_Status ans \<noteq> 200 then Inl ErrVaultUnavailable
          else (case vault_data (ha_Body ans) of
                  None \<Rightarrow> Inl ErrVaultUnavailable
                | Some m \<Rightarrow>
                    (let v = (case map_of m ''value'' of Some v \<Rightarrow> v | None \<Rightarrow> if m = [] then [] else pick m)
                     in if v = [] then Inl ErrVaultUnavailable
                        else Inr \<lparr>vs_value = v, vs_expiresAt = now + defaultVaultCacheTTL\<rparr>)))"

definition secret_key :: "cred_config \<Rightarrow> string" where
  "secret_key c = cf_VaultAddr c @ ''|'' @ cf_VaultPath c"

definition cached_secret :: "secret_cache \<Rightarrow> time \<Rightarrow> cred_config \<Rightarrow> string option" where
  "cached_secret cache now c =
     (case cache (secret_key c) of None \<Rightarrow> None | Some s \<Rightarrow> if now < vs_expiresAt s then Some (vs_value s) else None)"

definition locked_secret ::
  "http_client \<Rightarrow> ((string \<times> string) list \<Rightarrow> string) \<Rightarrow> string \<Rightarrow> cred_clock \<Rightarrow> cred_config \<Rightarrow> secret_cache
   \<Rightarrow> (cred_error + string) \<times> secret_cache \<times> connector_request list" where
  "locked_secret client pick vaultToken t c cache =
     (case cached_secret cache (cl_locked t) c of
        Some v \<Rightarrow> (Inr v, cache, [])
      | None \<Rightarrow>
          (case fetchSecret client pick vaultToken (cl_issue t) c of
             Inl e \<Rightarrow> (Inl e, cache, [vault_request vaultToken c])
           | Inr s \<Rightarrow> (Inr (vs_value s), cache(secret_key c \<mapsto> s), [vault_request vaultToken c])))"

definition getSecret ::
  "http_client \<Rightarrow> ((string \<times> string) list \<Rightarrow> string) \<Rightarrow> string \<Rightarrow> cred_clock \<Rightarrow> (secret_cache \<Rightarrow> secret_cache) \<Rightarrow> cred_config \<Rightarrow> secret_cache
   \<Rightarrow> (cred_error + string) \<times> secret_cache \<times> connector_request list" where
  "getSecret client pick vaultToken t others c cache =
     (case cached_secret cache (cl_read t) c of
        Some v \<Rightarrow> (Inr v, cache, [])
      | None \<Rightarrow> locked_secret client pick vaultToken t c (others cache))"

subsection \<open>The resolver\<close>

record cred_state =
  st_tokens :: token_cache
  st_secrets :: secret_cache

record cred_env =
  cv_client :: http_client
  cv_getenv :: "string \<Rightarrow> string"
  cv_vaultToken :: string
  cv_pick :: "(string \<times> string) list \<Rightarrow> string"
  cv_clock :: cred_clock
  cv_tokenOthers :: "token_cache \<Rightarrow> token_cache"
  cv_secretOthers :: "secret_cache \<Rightarrow> secret_cache"

datatype provider = Static_provider | OAuth2_provider | Vault_provider | Env_provider

definition providerFor :: "cred_config option \<Rightarrow> provider" where
  "providerFor config =
     (case config of
        None \<Rightarrow> Static_provider
      | Some c \<Rightarrow>
          if cf_Provider c = ''oauth2_client_credentials'' then OAuth2_provider
          else if cf_Provider c = ''vault'' then Vault_provider
          else if cf_Provider c = ''env'' then Env_provider
          else Static_provider)"

definition Resolve ::
  "cred_env \<Rightarrow> string \<Rightarrow> string \<Rightarrow> string \<Rightarrow> cred_state \<Rightarrow> (cred_error + credential) \<times> cred_state \<times> connector_request list" where
  "Resolve env authType authValue raw st =
     (case ParseConfig raw of
        Inl e \<Rightarrow> (Inl e, st, [])
      | Inr config \<Rightarrow>
          (let c = (case config of Some c \<Rightarrow> c | None \<Rightarrow> zero_cred_config)
           in case providerFor config of
                Static_provider \<Rightarrow> (Inr (resolveFromValue authType authValue), st, [])
              | Env_provider \<Rightarrow> (env_Resolve (cv_getenv env) authType c, st, [])
              | OAuth2_provider \<Rightarrow>
                  (case getToken (cv_client env) (cv_clock env) (cv_tokenOthers env) c (st_tokens st) of
                     (r, cache, sent) \<Rightarrow>
                       (case r of Inl e \<Rightarrow> Inl e | Inr tok \<Rightarrow> Inr (bearer tok), st\<lparr>st_tokens := cache\<rparr>, sent))
              | Vault_provider \<Rightarrow>
                  (case getSecret (cv_client env) (cv_pick env) (cv_vaultToken env) (cv_clock env) (cv_secretOthers env) c (st_secrets st) of
                     (r, cache, sent) \<Rightarrow>
                       (case r of Inl e \<Rightarrow> Inl e | Inr v \<Rightarrow> Inr (resolveFromValue authType v), st\<lparr>st_secrets := cache\<rparr>, sent))))"

definition HealthCheck ::
  "cred_env \<Rightarrow> string \<Rightarrow> string \<Rightarrow> string \<Rightarrow> cred_state \<Rightarrow> cred_error option \<times> cred_state \<times> connector_request list" where
  "HealthCheck env authType authValue raw st =
     (case ParseConfig raw of
        Inl e \<Rightarrow> (Some e, st, [])
      | Inr config \<Rightarrow>
          (let c = (case config of Some c \<Rightarrow> c | None \<Rightarrow> zero_cred_config)
           in case providerFor config of
                Static_provider \<Rightarrow> (static_HealthCheck authType authValue, st, [])
              | Env_provider \<Rightarrow> (env_HealthCheck (cv_getenv env) c, st, [])
              | OAuth2_provider \<Rightarrow>
                  (case getToken (cv_client env) (cv_clock env) (cv_tokenOthers env) c (st_tokens st) of
                     (r, cache, sent) \<Rightarrow> (case r of Inl e \<Rightarrow> Some e | Inr _ \<Rightarrow> None, st\<lparr>st_tokens := cache\<rparr>, sent))
              | Vault_provider \<Rightarrow>
                  (case getSecret (cv_client env) (cv_pick env) (cv_vaultToken env) (cv_clock env) (cv_secretOthers env) c (st_secrets st) of
                     (r, cache, sent) \<Rightarrow> (case r of Inl e \<Rightarrow> Some e | Inr _ \<Rightarrow> None, st\<lparr>st_secrets := cache\<rparr>, sent))))"

subsection \<open>Redaction\<close>

text \<open>The same entries, except for the values of some keys.\<close>

definition agree_but :: "string set \<Rightarrow> gomap \<Rightarrow> gomap \<Rightarrow> bool" where
  "agree_but S m1 m2 = list_all2 (\<lambda>(k, v) (k', v'). k = k' \<and> (k \<in> S \<or> v = v')) m1 m2"

lemma agree_but_map_of: "agree_but S m1 m2 \<Longrightarrow> map_of m1 k = None \<longleftrightarrow> map_of m2 k = None"
  unfolding agree_but_def by (induction rule: list_all2_induct) auto

lemma agree_but_filter: "agree_but S m1 m2 \<Longrightarrow> agree_but (S - {a}) (filter (\<lambda>(k, _). k \<noteq> a) m1) (filter (\<lambda>(k, _). k \<noteq> a) m2)"
  unfolding agree_but_def by (induction rule: list_all2_induct) auto

lemma agree_but_absent: "agree_but S m1 m2 \<Longrightarrow> map_of m1 a = None \<Longrightarrow> agree_but (S - {a}) m1 m2"
  unfolding agree_but_def by (induction rule: list_all2_induct) (auto split: if_splits)

lemma agree_but_redact: "agree_but S m1 m2 \<Longrightarrow> agree_but (S - {a}) (redact_key a m1) (redact_key a m2)"
  using agree_but_map_of [of S m1 m2 a] agree_but_filter [of S m1 m2 a] agree_but_absent [of S m1 m2 a]
  by (auto simp: redact_key_def set_key_def agree_but_def)

lemma agree_but_empty: "agree_but {} m1 m2 \<Longrightarrow> m1 = m2"
  unfolding agree_but_def by (induction rule: list_all2_induct) auto

lemma UnmarshalAny_Nil: "UnmarshalAny [] = None"
  by (simp add: UnmarshalAny_def Unmarshal_def Decode_def)

text \<open>What the API shows of a credential configuration does not depend on its secrets: two
  stored configurations that differ only in the values of \<open>client_secret\<close> and
  \<open>vault_role\<close> are redacted to the same text.\<close>

theorem redaction_hides_secrets:
  assumes "UnmarshalAny raw1 = Some (Map_v m1)" and "UnmarshalAny raw2 = Some (Map_v m2)"
    and "agree_but {''client_secret'', ''vault_role''} m1 m2"
  shows "RedactConfig fmt raw1 = RedactConfig fmt raw2"
proof -
  from agree_but_redact [OF agree_but_redact [OF assms(3), of "''client_secret''"], of "''vault_role''"]
  have "agree_but {} (fold redact_key sensitiveKeys m1) (fold redact_key sensitiveKeys m2)" by (simp add: sensitiveKeys_def)
  then have "fold redact_key sensitiveKeys m1 = fold redact_key sensitiveKeys m2" by (rule agree_but_empty)
  moreover have "raw1 \<noteq> []" "raw2 \<noteq> []" using assms(1,2) UnmarshalAny_Nil by auto
  ultimately show ?thesis using assms(1,2) by (simp add: RedactConfig_def)
qed

subsection \<open>The token cache\<close>

text \<open>The caches that can arise: every critical section, of any request with any answer of its token endpoint,
  in any order, with the log of the requests that were sent to token endpoints, latest first.\<close>

record token_fetch =
  ft_client :: http_client
  ft_time :: time
  ft_config :: cred_config

definition fetched :: "token_fetch \<Rightarrow> cred_error + oauth2_token" where
  "fetched f = fetchToken (ft_client f) (ft_time f) (ft_config f)"

inductive token_reach :: "token_fetch list \<Rightarrow> token_cache \<Rightarrow> bool" where
  start: "token_reach [] Map.empty"
| step: "token_reach hist cache \<Longrightarrow> locked_token client t c cache = (r, cache', sent) \<Longrightarrow>
    token_reach (if sent = [] then hist else \<lparr>ft_client = client, ft_time = cl_issue t, ft_config = c\<rparr> # hist) cache'"

text \<open>The latest request for a token of this cache key that was answered with one.\<close>

definition latest_fetch :: "token_fetch list \<Rightarrow> cred_config \<Rightarrow> token_fetch option" where
  "latest_fetch hist c = find (\<lambda>f. token_key (ft_config f) = token_key c \<and> \<not> isl (fetched f)) hist"

lemma token_reach_latest:
  "token_reach hist cache \<Longrightarrow> cache (token_key c) = map_option (projr \<circ> fetched) (latest_fetch hist c)"
proof (induction rule: token_reach.induct)
  case (step hist cache client t c' r cache' sent)
  show ?case
  proof (cases "cached_token cache (cl_locked t) c'")
    case None
    then show ?thesis
      using step by (auto simp: locked_token_def latest_fetch_def fetched_def split: sum.splits)
  qed (use step in \<open>auto simp: locked_token_def\<close>)
qed (simp add: latest_fetch_def)

text \<open>A token that comes from the latest answered request of the log, used more than the buffer before the
  expiry computed from the time and the answer of that request.\<close>

definition fresh_from :: "token_fetch list \<Rightarrow> cred_config \<Rightarrow> time \<Rightarrow> string \<Rightarrow> bool" where
  "fresh_from hist c now tok =
     (\<exists>f e. latest_fetch hist c = Some f \<and> fetched f = Inr \<lparr>ot_accessToken = tok, ot_expiresAt = e\<rparr> \<and> now < e - tokenExpiryBuffer)"

lemma cached_token_fresh:
  assumes "token_reach hist cache" and "cached_token cache now c = Some tok"
  shows "fresh_from hist c now tok"
proof -
  obtain x where x: "cache (token_key c) = Some x" "ot_accessToken x = tok" "now < ot_expiresAt x - tokenExpiryBuffer"
    using assms(2) by (auto simp: cached_token_def split: option.splits if_splits)
  with token_reach_latest [OF assms(1), of c] obtain f where f: "latest_fetch hist c = Some f" "x = projr (fetched f)"
    by (cases "latest_fetch hist c") auto
  then have "\<not> isl (fetched f)" by (auto simp: latest_fetch_def find_Some_iff)
  with f(2) have "fetched f = Inr \<lparr>ot_accessToken = tok, ot_expiresAt = ot_expiresAt x\<rparr>"
    using x(2) by (cases "fetched f"; cases x) auto
  with f(1) x(3) show ?thesis unfolding fresh_from_def by blast
qed

text \<open>C25: a token that \<open>getToken\<close> serves is fresh, under every interleaving with other requests: either this
  very call fetched it for this configuration, or no request was sent and it is the token of the latest
  answered request of the history for the same cache key (token URL and client id, whatever the secret and
  scope), used more than 30 seconds before the expiry that \<open>fetchToken\<close> computed from the moment and the
  answer of that request.\<close>

theorem served_token_fresh:
  assumes "token_reach hist cache" and "token_reach hist' (others cache)" and "getToken client t others c cache = (Inr tok, cache', sent)"
  shows "(sent = [token_request c] \<and> (\<exists>e. fetchToken client (cl_issue t) c = Inr \<lparr>ot_accessToken = tok, ot_expiresAt = e\<rparr>)) \<or>
    (sent = [] \<and> (fresh_from hist c (cl_read t) tok \<or> fresh_from hist' c (cl_locked t) tok))"
proof (cases "cached_token cache (cl_read t) c")
  case (Some x)
  with assms(3) have "sent = []" "x = tok" by (auto simp: getToken_def)
  with cached_token_fresh [OF assms(1) Some] show ?thesis by auto
next
  case None
  with assms(3) have l: "locked_token client t c (others cache) = (Inr tok, cache', sent)" by (simp add: getToken_def)
  show ?thesis
  proof (cases "cached_token (others cache) (cl_locked t) c")
    case (Some x)
    with l have "sent = []" "x = tok" by (auto simp: locked_token_def)
    with cached_token_fresh [OF assms(2) Some] show ?thesis by auto
  next
    case None
    with l obtain x where "fetchToken client (cl_issue t) c = Inr x" "ot_accessToken x = tok" "sent = [token_request c]"
      by (auto simp: locked_token_def split: sum.splits)
    then show ?thesis by (cases x) auto
  qed
qed

text \<open>The token cache does not look at the secret. Once some tenant's tool has fetched a token,
  every configuration with the same token URL and client id, of any tenant, with any secret and any
  scope, is served that token while it lasts, without a request to the token endpoint.\<close>

theorem token_served_without_secret:
  assumes "getToken client t others c cache = (Inr tok, cache', [token_request c])"
    and "cf_TokenURL c' = cf_TokenURL c" and "cf_ClientID c' = cf_ClientID c"
    and "fetchToken client (cl_issue t) c = Inr x" and "cl_read t' < ot_expiresAt x - tokenExpiryBuffer"
  shows "getToken client' t' others' c' cache' = (Inr tok, cache', [])"
proof -
  have n: "cached_token cache (cl_read t) c = None" using assms(1) by (auto simp: getToken_def split: option.splits)
  then have l: "locked_token client t c (others cache) = (Inr tok, cache', [token_request c])" using assms(1) by (simp add: getToken_def)
  then have "cached_token (others cache) (cl_locked t) c = None" by (auto simp: locked_token_def split: option.splits)
  with l assms(4) have "cache' (token_key c) = Some x" "ot_accessToken x = tok" by (auto simp: locked_token_def)
  with assms(2,3,5) show ?thesis by (simp add: getToken_def cached_token_def token_key_def)
qed

subsection \<open>Headers\<close>

text \<open>A credential is put into the \<open>Authorization\<close> or the \<open>X-Api-Key\<close> header, or there is none.\<close>

lemma resolved_header:
  "Resolve env authType authValue raw st = (Inr cred, st', sent) \<Longrightarrow> cd_HeaderName cred \<in> {[], ''Authorization'', ''X-Api-Key''}"
  by (auto simp: Resolve_def resolveFromValue_def no_credential_def bearer_def env_Resolve_def Let_def
      split: sum.splits provider.splits prod.splits if_splits)

text \<open>A key in other letters is a secret to \<open>ParseConfig\<close> and none to the redaction.\<close>

lemma folded_secret_shown:
  "ParseConfig (struct_text [(''Client_Secret'', Str_v ''s3'')]) = Inr (Some (zero_cred_config\<lparr>cf_ClientSecret := ''s3''\<rparr>))"
  "RedactConfig no_floats (struct_text [(''Client_Secret'', Str_v ''s3'')]) = struct_text [(''Client_Secret'', Str_v ''s3'')]"
  by code_simp+

subsection \<open>A token endpoint\<close>

definition issuer :: http_client where
  "issuer _ = Inr \<lparr>ha_Status = 200, ha_Headers = [],
     ha_Body = struct_text [(''access_token'', Str_v ''abc''), (''expires_in'', Number_v ''60'')]\<rparr>"

definition app :: "string \<Rightarrow> cred_config" where
  "app secret = zero_cred_config\<lparr>cf_Provider := ''oauth2_client_credentials'', cf_TokenURL := ''https://idp/token'', cf_ClientID := ''app'',
     cf_ClientSecret := secret\<rparr>"

definition cred_moment :: "int \<Rightarrow> cred_clock" where
  "cred_moment t = \<lparr>cl_read = t, cl_locked = t, cl_issue = t\<rparr>"

definition issued_token :: oauth2_token where
  "issued_token = \<lparr>ot_accessToken = ''abc'', ot_expiresAt = 60 * go_second\<rparr>"

lemma issuer_fetch: "fetchToken issuer 0 (app s) = Inr issued_token"
proof -
  have "Option.bind (first_members (struct_text [(''access_token'', Str_v ''abc''), (''expires_in'', Number_v ''60'')]))
      (decode_struct token_fields \<lparr>tr_AccessToken = [], tr_ExpiresIn = 0, tr_TokenType = []\<rparr>) =
    Some \<lparr>tr_AccessToken = ''abc'', tr_ExpiresIn = 60, tr_TokenType = []\<rparr>" by code_simp
  then show ?thesis
    by (simp add: fetchToken_def issuer_def token_lifetime_def app_def zero_cred_config_def defaultTokenCacheTTL_def
        seconds_duration_exact issued_token_def Let_def) (simp add: go_second_def)
qed

lemma first_fetch: "getToken issuer (cred_moment 0) id (app s) Map.empty =
    (Inr ''abc'', [token_key (app s) \<mapsto> issued_token], [token_request (app s)])"
  by (simp add: getToken_def locked_token_def cached_token_def cred_moment_def issuer_fetch) (simp add: issued_token_def)

text \<open>A second request 29 seconds later is served the token of the first; its log has the one request.\<close>

theorem served_token_fresh_witness:
  "fresh_from [\<lparr>ft_client = issuer, ft_time = 0, ft_config = app ''right''\<rparr>] (app ''right'') (29 * go_second) ''abc''"
proof -
  let ?c = "app ''right''"
  let ?log = "[\<lparr>ft_client = issuer, ft_time = 0, ft_config = ?c\<rparr>]" and ?cache = "[token_key ?c \<mapsto> issued_token]"
  have "locked_token issuer (cred_moment 0) ?c Map.empty = (Inr ''abc'', ?cache, [token_request ?c])"
    using first_fetch [of "''right''"] by (simp add: getToken_def cached_token_def)
  from token_reach.step [OF token_reach.start this] have r: "token_reach ?log ?cache" by (simp add: cred_moment_def)
  have "getToken issuer (cred_moment (29 * go_second)) id ?c ?cache = (Inr ''abc'', ?cache, [])"
    by (simp add: getToken_def cached_token_def cred_moment_def issued_token_def tokenExpiryBuffer_def go_second_def)
  from served_token_fresh [OF r _ this, of ?log] r show ?thesis by (auto simp: cred_moment_def)
qed

theorem token_served_without_secret_witness:
  "\<exists>cache. getToken issuer (cred_moment 0) id (app ''right'') Map.empty = (Inr ''abc'', cache, [token_request (app ''right'')]) \<and>
     getToken issuer (cred_moment 1) id (app ''wrong'') cache = (Inr ''abc'', cache, [])"
proof -
  have "cl_read (cred_moment 1) < ot_expiresAt issued_token - tokenExpiryBuffer"
    by (simp add: cred_moment_def issued_token_def tokenExpiryBuffer_def go_second_def)
  moreover have "fetchToken issuer (cl_issue (cred_moment 0)) (app ''right'') = Inr issued_token" by (simp add: cred_moment_def issuer_fetch)
  moreover have "cf_TokenURL (app ''wrong'') = cf_TokenURL (app ''right'')" "cf_ClientID (app ''wrong'') = cf_ClientID (app ''right'')"
    by (simp_all add: app_def)
  ultimately have "getToken issuer (cred_moment 1) id (app ''wrong'') [token_key (app ''right'') \<mapsto> issued_token] =
      (Inr ''abc'', [token_key (app ''right'') \<mapsto> issued_token], [])"
    using token_served_without_secret [OF first_fetch [of "''right''"]] by blast
  with first_fetch [of "''right''"] show ?thesis by blast
qed

theorem redaction_hides_secrets_witness:
  "RedactConfig no_floats (struct_text [(''provider'', Str_v ''vault''), (''client_secret'', Str_v ''a'')]) =
   RedactConfig no_floats (struct_text [(''provider'', Str_v ''vault''), (''client_secret'', Str_v ''b'')])"
proof -
  have u: "UnmarshalAny (struct_text [(''provider'', Str_v ''vault''), (''client_secret'', Str_v ''a'')]) =
      Some (Map_v [(''provider'', Str_v ''vault''), (''client_secret'', Str_v ''a'')])"
    "UnmarshalAny (struct_text [(''provider'', Str_v ''vault''), (''client_secret'', Str_v ''b'')]) =
      Some (Map_v [(''provider'', Str_v ''vault''), (''client_secret'', Str_v ''b'')])" by code_simp+
  show ?thesis by (rule redaction_hides_secrets [OF u]) (simp add: agree_but_def)
qed

end
