(* ===== verification/Admin_Api.thy ===== *)
theory Admin_Api
  imports Audit_Log Approval_Store Key_Auth License Policy_Compiler Credentials Mcp_Protocol Go_Time
begin

text \<open>
  The writing handlers of the administration API (\<open>src/internal/api/admin\<close>): approvals
  (\<open>control_plane.go\<close>), policies (\<open>control_plane.go\<close>, \<open>handlers.go\<close>,
  \<open>policy_structured.go\<close>), risk overrides, tools (\<open>tools.go\<close>, \<open>tool_validation.go\<close>) and
  settings. Each handler checks the scope of the caller, decodes and validates its body, calls the
  store and writes an audit event. The store operations are those of \<open>Config_Store\<close>,
  \<open>Approval_Store\<close> and \<open>Audit_Log\<close>. Driver errors are given by the environment: for reads
  by the name of the operation, for writes and audit events by the name of the action, as is the
  context (identifier, time) of an event. The text of
  errors that come from libraries is left out of the replies. \<open>an_claims\<close> holds the claims of a
  single sign-on session when the tenant middleware has found one.
\<close>

subsection \<open>State and environment\<close>

record admin_state =
  am_keys :: "admin_key list"
  am_config :: config_db
  am_store :: store_db
  am_audit :: audit_table
  am_toolCache :: "tool ttl_cache option"
  am_riskCache :: "string ttl_cache option"

record admin_env =
  an_header :: http_header
  an_claims :: "(string \<times> string list) option"
  an_tenantID :: string
  an_param :: string
  an_body :: string
  an_crypto :: crypto
  an_secrets :: string
  an_keyFault :: "string \<Rightarrow> store_error option"
  an_upgradeFault :: "store_error option"
  an_read :: "string \<Rightarrow> faults"
  an_write :: "string \<Rightarrow> faults"
  an_auditFault :: "string \<Rightarrow> faults"
  an_audit :: "string \<Rightarrow> audit_context"
  an_now :: time
  an_decidedAt :: time
  an_fmt :: "rat \<Rightarrow> string"
  an_prepare :: "string \<Rightarrow> bool"
  an_lookupHost :: "string \<Rightarrow> string list option"
  an_allowPrivate :: bool
  an_entitlements :: "entitlements option"

record http_config =
  hc_BaseURL :: string
  hc_AuthType :: string
  hc_AuthSet :: bool
  hc_CredentialProvider :: string
  hc_CredentialConfig :: string

record mcp_config =
  mc_UpstreamURL :: string
  mc_Description :: string
  mc_InputSchema :: string

record admin_tool_reply =
  tp_ToolID :: string
  tp_TenantID :: string
  tp_HTTP :: "http_config option"
  tp_MCP :: "mcp_config option"
  tp_ArchivedAt :: "time option"
  tp_Source :: string

datatype admin_reply =
    Adm_error int string
  | Adm_empty int
  | Adm_approval int approval_request
  | Adm_tool int admin_tool_reply

type_synonym admin_outcome = "admin_reply \<times> admin_state"

subsection \<open>Authentication\<close>

definition HasScopeInList :: "string list \<Rightarrow> string \<Rightarrow> bool" where
  "HasScopeInList scopes required = hasScope scopes required"

definition requireAdminScope :: "admin_env \<Rightarrow> string \<Rightarrow> admin_state \<Rightarrow> (auth_error + admin_key) \<times> admin_state" where
  "requireAdminScope env scope st =
     (case an_claims env of
        Some (email, scopes) \<Rightarrow>
          if \<not> HasScopeInList scopes scope then (Inl ErrForbidden, st)
          else (Inr \<lparr>ak_AdminKeyID = ''sso:'' @ email, ak_KeyHash = [], ak_Scopes = scopes\<rparr>, st)
      | None \<Rightarrow>
          (case AuthenticateAdmin (an_keyFault env) (an_upgradeFault env) (an_crypto env) (an_secrets env)
                  (AdminKeyFromRequest (an_header env)) scope (am_keys st) of
             (r, ks) \<Rightarrow> (r, st\<lparr>am_keys := ks\<rparr>)))"

definition admin_authError :: "auth_error \<Rightarrow> admin_reply" where
  "admin_authError e =
     (if e = ErrUnauthorized then Adm_error 401 ''unauthorized''
      else if e = ErrForbidden then Adm_error 403 ''forbidden''
      else Adm_error 500 ''auth error'')"

definition gated :: "string \<Rightarrow> (admin_key \<Rightarrow> admin_state \<Rightarrow> admin_outcome) \<Rightarrow> admin_env \<Rightarrow> admin_state \<Rightarrow> admin_outcome" where
  "gated scope handler env st =
     (case requireAdminScope env scope st of
        (Inl e, st1) \<Rightarrow> (admin_authError e, st1)
      | (Inr key, st1) \<Rightarrow> handler key st1)"

subsection \<open>Shared steps\<close>

definition audit_event ::
  "admin_env \<Rightarrow> admin_key \<Rightarrow> string \<Rightarrow> string \<Rightarrow> string \<Rightarrow> string \<Rightarrow> gomap option \<Rightarrow> gomap option \<Rightarrow> admin_state
   \<Rightarrow> (store_error + unit) \<times> admin_state" where
  "audit_event env key tenantID action resourceType resourceID before after st =
     (case emitAuditEvent (cy_sha256hex (an_crypto env)) (an_fmt env) (an_auditFault env action)
             ((an_audit env action)\<lparr>ac_AdminKeyID := ak_AdminKeyID key\<rparr>) tenantID action resourceType resourceID before after (am_audit st) of
        (r, tbl) \<Rightarrow> (r, st\<lparr>am_audit := tbl\<rparr>))"

definition finish ::
  "admin_env \<Rightarrow> admin_key \<Rightarrow> string \<Rightarrow> string \<Rightarrow> string \<Rightarrow> string \<Rightarrow> gomap option \<Rightarrow> gomap option \<Rightarrow> string \<Rightarrow> admin_reply \<Rightarrow> admin_state
   \<Rightarrow> admin_outcome" where
  "finish env key tenantID action resourceType resourceID before after failure reply st =
     (case audit_event env key tenantID action resourceType resourceID before after st of
        (Inl _, st1) \<Rightarrow> (Adm_error 500 failure, st1)
      | (Inr _, st1) \<Rightarrow> (reply, st1))"

definition config_write :: "admin_env \<Rightarrow> string \<Rightarrow> config_op \<Rightarrow> admin_state \<Rightarrow> (store_error + unit) \<times> admin_state" where
  "config_write env action op st =
     (case config_exec (an_write env action) (an_now env) op (am_config st) of (r, db) \<Rightarrow> (r, st\<lparr>am_config := db\<rparr>))"

definition invalidateTenantCaches :: "string \<Rightarrow> admin_state \<Rightarrow> admin_state" where
  "invalidateTenantCaches tenantID st =
     (if tenantID = [] then st
      else st\<lparr>am_toolCache := map_option (InvalidatePrefix (tenantID @ '':'')) (am_toolCache st),
              am_riskCache := map_option (InvalidatePrefix (tenantID @ '':'')) (am_riskCache st)\<rparr>)"

definition handleBootstrapError :: "store_error \<Rightarrow> admin_reply" where
  "handleBootstrapError e =
     (if e = ErrBootstrapComplete then Adm_error 409 ''bootstrap already completed''
      else if e = ErrAdminWriteLocked then Adm_error 403 ''admin writes locked''
      else Adm_error 500 ''update failed'')"

definition bad_body :: admin_reply where "bad_body = Adm_error 400 ''invalid request body''"

definition decode_body :: "(string \<times> 'r raw_field) list \<Rightarrow> 'r \<Rightarrow> string \<Rightarrow> 'r option" where
  "decode_body flds zero body = Option.bind (map_option fst (first_raw body)) (decode_struct flds zero)"

definition raw_bool_field :: "((bool \<Rightarrow> bool) \<Rightarrow> 'r \<Rightarrow> 'r) \<Rightarrow> 'r raw_field" where
  "raw_bool_field upd raw r =
     (case Unmarshal raw of Some (Bool_v b) \<Rightarrow> Some (upd (\<lambda>_. b) r) | Some Nil_v \<Rightarrow> Some r | _ \<Rightarrow> None)"

definition active_version :: "admin_env \<Rightarrow> string \<Rightarrow> string \<Rightarrow> admin_state \<Rightarrow> string" where
  "active_version env site tenantID st =
     (case GetTenantConfig (an_read env site) tenantID (am_config st) of Inr c \<Rightarrow> tg_ActivePolicyVersion c | Inl _ \<Rightarrow> [])"

subsection \<open>Approvals\<close>

definition approvalExpired :: "approval_request \<Rightarrow> time \<Rightarrow> bool" where
  "approvalExpired a now = (ap_Status a \<in> {PENDING, APPROVED} \<and> now > ap_ExpiresAt a)"

definition decision_payload :: "approval_request \<Rightarrow> gomap" where
  "decision_payload a =
     [(''status'', Str_v (status_text (ap_Status a))),
      (''decided_at'', case ap_DecidedAt a of None \<Rightarrow> Nil_v | Some t \<Rightarrow> Str_v (FormatRFC3339Nano t)),
      (''decided_by'', Str_v (ap_DecidedBy a)), (''decision_comment'', Str_v (ap_DecisionComment a))]"

definition decide :: "approval_status \<Rightarrow> string \<Rightarrow> string \<Rightarrow> string \<Rightarrow> string \<Rightarrow> time \<Rightarrow> store_db \<Rightarrow> (store_error + unit) \<times> store_db" where
  "decide status tenantID approvalID decidedBy comment decidedAt db =
     (if status = APPROVED then ApproveApprovalRequest tenantID approvalID decidedBy comment decidedAt db
      else if status = DENIED then DenyApprovalRequest tenantID approvalID decidedBy comment decidedAt db
      else RevokeApprovalRequest tenantID approvalID decidedBy comment decidedAt db)"

definition with_fault :: "store_error option \<Rightarrow> (store_db \<Rightarrow> (store_error + 'a) \<times> store_db) \<Rightarrow> store_db \<Rightarrow> (store_error + 'a) \<times> store_db" where
  "with_fault flt op db = (case flt of Some e \<Rightarrow> (Inl e, db) | None \<Rightarrow> op db)"

definition read_approval :: "admin_env \<Rightarrow> string \<Rightarrow> store_db \<Rightarrow> store_error + approval_request" where
  "read_approval env site db =
     (case an_read env site 0 of Some e \<Rightarrow> Inl e | None \<Rightarrow> GetApprovalRequest (an_tenantID env) (an_param env) db)"

definition decision_comment :: "string \<Rightarrow> string option" where
  "decision_comment body = (if skip_ws body = [] then Some [] else decode_body [(''comment'', raw_string_field id)] [] body)"

text \<open>Marking an expired approval may fail; the decision then goes on.\<close>

definition expire_first :: "admin_env \<Rightarrow> approval_request \<Rightarrow> store_db \<Rightarrow> bool \<times> store_db" where
  "expire_first env before db =
     (if approvalExpired before (an_now env)
      then (case with_fault (an_write env ''EXPIRE'' 0) (MarkApprovalExpired (an_tenantID env) (an_param env) (an_now env)) db of
              (Inr _, db1) \<Rightarrow> (True, db1)
            | (Inl _, db1) \<Rightarrow> (False, db1))
      else (False, db))"

definition handleApprovalDecision :: "approval_status \<Rightarrow> string \<Rightarrow> admin_env \<Rightarrow> admin_state \<Rightarrow> admin_outcome" where
  "handleApprovalDecision status auditAction env = gated ''admin:approvals:decide'' (\<lambda>key st.
     case decision_comment (an_body env) of
       None \<Rightarrow> (bad_body, st)
     | Some comment \<Rightarrow>
         (case read_approval env ''GetApprovalRequest'' (am_store st) of
            Inl e \<Rightarrow> (if e = ErrNotFound then Adm_error 404 ''approval not found'' else Adm_error 500 ''failed to load approval'', st)
          | Inr before \<Rightarrow>
              (case expire_first env before (am_store st) of
                 (True, db1) \<Rightarrow> (Adm_error 409 ''approval expired'', st\<lparr>am_store := db1\<rparr>)
               | (False, db1) \<Rightarrow>
                   (case with_fault (an_write env auditAction 0)
                           (decide status (an_tenantID env) (an_param env) (ak_AdminKeyID key) comment (an_decidedAt env)) db1 of
                      (Inl e, db2) \<Rightarrow>
                        (if e = ErrNotFound then Adm_error 404 ''approval not found''
                         else if e = ErrInvalidState then Adm_error 409 ''approval state invalid''
                         else Adm_error 500 ''failed to update approval'', st\<lparr>am_store := db2\<rparr>)
                    | (Inr _, db2) \<Rightarrow>
                        (case read_approval env ''GetApprovalRequest2'' db2 of
                           Inl _ \<Rightarrow> (Adm_error 500 ''failed to load approval'', st\<lparr>am_store := db2\<rparr>)
                         | Inr after \<Rightarrow>
                             finish env key (an_tenantID env) auditAction ''APPROVAL.REQUEST'' (an_param env)
                               (Some (decision_payload before)) (Some (decision_payload after))
                               ''failed to audit approval decision'' (Adm_approval 200 after) (st\<lparr>am_store := db2\<rparr>))))))
     env"

definition handleApprovalApprove :: "admin_env \<Rightarrow> admin_state \<Rightarrow> admin_outcome" where
  "handleApprovalApprove = handleApprovalDecision APPROVED ''APPROVAL.REQUEST.APPROVE''"

definition handleApprovalDeny :: "admin_env \<Rightarrow> admin_state \<Rightarrow> admin_outcome" where
  "handleApprovalDeny = handleApprovalDecision DENIED ''APPROVAL.REQUEST.DENY''"

definition handleApprovalRevoke :: "admin_env \<Rightarrow> admin_state \<Rightarrow> admin_outcome" where
  "handleApprovalRevoke = handleApprovalDecision REVOKED ''APPROVAL.REQUEST.REVOKE''"

subsection \<open>Policies\<close>

definition validateRegoModule :: "string \<Rightarrow> string option" where
  "validateRegoModule m =
     (if \<not> Contains m ''import rego.v1'' then Some ''rego module must import rego.v1''
      else if \<not> Contains m ''package rbitr.policy'' then Some ''rego module must define package rbitr.policy''
      else None)"

record policy_payload =
  pp_PolicyVersion :: string
  pp_RegoModule :: string
  pp_Notes :: string

definition zero_policy_payload :: policy_payload where
  "zero_policy_payload = \<lparr>pp_PolicyVersion = [], pp_RegoModule = [], pp_Notes = []\<rparr>"

definition policy_create_fields :: "(string \<times> policy_payload raw_field) list" where
  "policy_create_fields =
     [(''policy_version'', raw_string_field pp_PolicyVersion_update), (''rego_module'', raw_string_field pp_RegoModule_update),
      (''notes'', raw_string_field pp_Notes_update)]"

definition create_error :: "store_error \<Rightarrow> admin_reply" where
  "create_error e = (if e = ErrAdminWriteLocked then Adm_error 403 ''admin writes locked'' else Adm_error 500 ''failed to create policy'')"

definition handlePolicyCreate :: "admin_env \<Rightarrow> admin_state \<Rightarrow> admin_outcome" where
  "handlePolicyCreate env = gated ''admin:policies:write'' (\<lambda>key st.
     case decode_body policy_create_fields zero_policy_payload (an_body env) of
       None \<Rightarrow> (bad_body, st)
     | Some p \<Rightarrow>
         if pp_PolicyVersion p = [] \<or> pp_RegoModule p = [] then (Adm_error 400 ''policy_version and rego_module required'', st)
         else (case validateRegoModule (pp_RegoModule p) of
                 Some e \<Rightarrow> (Adm_error 400 e, st)
               | None \<Rightarrow>
                   if \<not> an_prepare env (pp_RegoModule p) then (Adm_error 400 ''rego compilation failed'', st)
                   else (case config_write env ''POLICY.VERSION.CREATE''
                           (Op_CreatePolicy (an_tenantID env) (pp_PolicyVersion p) (pp_RegoModule p) (ak_AdminKeyID key) (pp_Notes p)) st of
                           (Inl e, st1) \<Rightarrow> (create_error e, st1)
                         | (Inr _, st1) \<Rightarrow>
                             finish env key (an_tenantID env) ''POLICY.VERSION.CREATE'' ''POLICY.VERSION'' (pp_PolicyVersion p) None
                               (Some [(''policy_version'', Str_v (pp_PolicyVersion p)), (''created_by'', Str_v (ak_AdminKeyID key)),
                                      (''notes'', Str_v (pp_Notes p)),
                                      (''rego_sha256'', Str_v (cy_sha256hex (an_crypto env) (pp_RegoModule p)))])
                               ''failed to audit policy create'' (Adm_empty 201) st1)))
     env"

definition version_payload :: "string \<Rightarrow> gomap" where
  "version_payload v = [(''active_policy_version'', Str_v v)]"

definition publish_error :: "string \<Rightarrow> store_error \<Rightarrow> admin_reply" where
  "publish_error failure e =
     (if e = ErrNotFound then Adm_error 404 ''policy version not found''
      else if e = ErrAdminWriteLocked then Adm_error 403 ''admin writes locked''
      else Adm_error 500 failure)"

definition handlePolicyPublish :: "admin_env \<Rightarrow> admin_state \<Rightarrow> admin_outcome" where
  "handlePolicyPublish env = gated ''admin:policies:publish'' (\<lambda>key st.
     let tenantID = an_tenantID env; version = an_param env; before = active_version env ''before'' tenantID st in
     case config_write env ''POLICY.VERSION.PUBLISH'' (Op_Publish tenantID version) st of
       (Inl e, st1) \<Rightarrow> (publish_error ''failed to publish policy'' e, st1)
     | (Inr _, st1) \<Rightarrow>
         (let st2 = invalidateTenantCaches tenantID st1
          in finish env key tenantID ''POLICY.VERSION.PUBLISH'' ''POLICY.ACTIVE'' version (Some (version_payload before))
               (Some (version_payload (active_version env ''after'' tenantID st2)))
               ''failed to audit policy publish'' (Adm_empty 204) st2))
     env"

definition handlePolicyRollback :: "admin_env \<Rightarrow> admin_state \<Rightarrow> admin_outcome" where
  "handlePolicyRollback env = gated ''admin:policies:rollback'' (\<lambda>key st.
     case decode_body [(''policy_version'', raw_string_field id)] [] (an_body env) of
       None \<Rightarrow> (bad_body, st)
     | Some version \<Rightarrow>
         (let tenantID = an_tenantID env; before = active_version env ''before'' tenantID st in
          case config_write env ''POLICY.VERSION.ROLLBACK'' (Op_Rollback tenantID version) st of
            (Inl e, st1) \<Rightarrow> (publish_error ''failed to rollback policy'' e, st1)
          | (Inr _, st1) \<Rightarrow>
              (let st2 = invalidateTenantCaches tenantID st1; after = active_version env ''after'' tenantID st2
               in finish env key tenantID ''POLICY.VERSION.ROLLBACK'' ''POLICY.ACTIVE'' (if version = [] then after else version)
                    (Some (version_payload before)) (Some (version_payload after)) ''failed to audit policy rollback'' (Adm_empty 204) st2)))
     env"

text \<open>\<open>PUT /policy\<close> creates and activates a version; the module is not checked.\<close>

definition handlePolicyUpdate :: "admin_env \<Rightarrow> admin_state \<Rightarrow> admin_outcome" where
  "handlePolicyUpdate env = gated ''admin:policies:write'' (\<lambda>key st.
     case decode_body [(''rego_module'', raw_string_field pp_RegoModule_update), (''policy_version'', raw_string_field pp_PolicyVersion_update)]
            zero_policy_payload (an_body env) of
       None \<Rightarrow> (bad_body, st)
     | Some p \<Rightarrow>
         if pp_RegoModule p = [] \<or> pp_PolicyVersion p = [] then (Adm_error 400 ''rego_module and policy_version required'', st)
         else (let tenantID = an_tenantID env; before = active_version env ''before'' tenantID st in
               case config_write env ''POLICY.UPDATE'' (Op_UpdatePolicy tenantID (pp_RegoModule p) (pp_PolicyVersion p)) st of
                 (Inl e, st1) \<Rightarrow> (handleBootstrapError e, st1)
               | (Inr _, st1) \<Rightarrow>
                   (let st2 = invalidateTenantCaches tenantID st1
                    in finish env key tenantID ''POLICY.VERSION.PUBLISH'' ''POLICY.ACTIVE'' (pp_PolicyVersion p) (Some (version_payload before))
                         (Some (version_payload (active_version env ''after'' tenantID st2) @
                                [(''rego_sha256'', Str_v (cy_sha256hex (an_crypto env) (pp_RegoModule p)))]))
                         ''failed to audit policy update'' (Adm_empty 204) st2)))
     env"

subsection \<open>Structured policies\<close>

definition string_list_field :: "((string list \<Rightarrow> string list) \<Rightarrow> 'r \<Rightarrow> 'r) \<Rightarrow> 'r field" where
  "string_list_field upd v r =
     (case v of
        List_v xs \<Rightarrow>
          if list_all (\<lambda>x. x = Nil_v \<or> as_string x \<noteq> None) xs
          then Some (upd (\<lambda>_. map (\<lambda>x. case as_string x of Some s \<Rightarrow> s | None \<Rightarrow> []) xs) r) else None
      | Nil_v \<Rightarrow> Some (upd (\<lambda>_. []) r)
      | _ \<Rightarrow> None)"

definition struct_field :: "(string \<times> 's field) list \<Rightarrow> ('r \<Rightarrow> 's) \<Rightarrow> (('s \<Rightarrow> 's) \<Rightarrow> 'r \<Rightarrow> 'r) \<Rightarrow> 'r field" where
  "struct_field flds get upd v r =
     (case v of
        Map_v m \<Rightarrow> map_option (\<lambda>x. upd (\<lambda>_. x) r) (decode_struct flds (get r) m)
      | Nil_v \<Rightarrow> Some r
      | _ \<Rightarrow> None)"

definition matcher_fields :: "(string \<times> matcher field) list" where
  "matcher_fields =
     [(''tool_ids'', string_list_field mt_ToolIDs_update), (''action_types'', string_list_field mt_ActionTypes_update),
      (''action_risks'', string_list_field mt_ActionRisks_update)]"

definition approval_field :: "structured_rule field" where
  "approval_field v r =
     (case v of
        Nil_v \<Rightarrow> Some (r\<lparr>sr_Approval := None\<rparr>)
      | Map_v m \<Rightarrow>
          map_option (\<lambda>a. r\<lparr>sr_Approval := Some a\<rparr>)
            (decode_struct [(''expires_in_seconds'', int_field av_ExpiresInSeconds_update), (''reason'', string_field av_Reason_update)]
               (case sr_Approval r of Some a \<Rightarrow> a | None \<Rightarrow> \<lparr>av_ExpiresInSeconds = 0, av_Reason = []\<rparr>) m)
      | _ \<Rightarrow> None)"

definition rule_fields :: "(string \<times> structured_rule field) list" where
  "rule_fields =
     [(''id'', string_field sr_ID_update), (''priority'', int_field sr_Priority_update), (''effect'', string_field sr_Effect_update),
      (''match'', struct_field matcher_fields sr_Match sr_Match_update), (''reason'', string_field sr_Reason_update),
      (''approval'', approval_field)]"

definition zero_rule :: structured_rule where
  "zero_rule = \<lparr>sr_ID = [], sr_Priority = 0, sr_Effect = [], sr_Match = \<lparr>mt_ToolIDs = [], mt_ActionTypes = [], mt_ActionRisks = []\<rparr>,
     sr_Reason = [], sr_Approval = None\<rparr>"

text \<open>A slice that was never set is encoded as \<open>null\<close>: \<open>py_rules\<close> remembers it.\<close>

record structured_payload =
  py_PolicyVersion :: string
  py_Notes :: string
  py_Structured :: structured_policy
  py_rules :: bool
  py_Publish :: bool

definition decode_rules :: "any list \<Rightarrow> structured_rule list option" where
  "decode_rules xs =
     those (map (\<lambda>x. case x of Map_v m \<Rightarrow> decode_struct rule_fields zero_rule m | Nil_v \<Rightarrow> Some zero_rule | _ \<Rightarrow> None) xs)"

definition rules_field :: "(structured_policy \<times> bool) field" where
  "rules_field v r =
     (case v of
        List_v xs \<Rightarrow> map_option (\<lambda>rules. ((fst r)\<lparr>sp_Rules := rules\<rparr>, True)) (decode_rules xs)
      | Nil_v \<Rightarrow> Some ((fst r)\<lparr>sp_Rules := []\<rparr>, False)
      | _ \<Rightarrow> None)"

definition fallbacks_field :: "(structured_policy \<times> bool) field" where
  "fallbacks_field v r =
     (case v of
        Bool_v b \<Rightarrow> Some ((fst r)\<lparr>sp_AppendRiskFallbacks := Some b\<rparr>, snd r)
      | Nil_v \<Rightarrow> Some ((fst r)\<lparr>sp_AppendRiskFallbacks := None\<rparr>, snd r)
      | _ \<Rightarrow> None)"

definition structured_fields :: "(string \<times> (structured_policy \<times> bool) field) list" where
  "structured_fields =
     [(''schema_version'', string_field (\<lambda>f (p, b). (sp_SchemaVersion_update f p, b))),
      (''output_version'', string_field (\<lambda>f (p, b). (sp_OutputVersion_update f p, b))),
      (''default_effect'', string_field (\<lambda>f (p, b). (sp_DefaultEffect_update f p, b))),
      (''rules'', rules_field), (''append_risk_fallbacks'', fallbacks_field)]"

definition structured_raw_field :: "structured_payload raw_field" where
  "structured_raw_field raw r =
     (case Unmarshal raw of
        Some (Map_v m) \<Rightarrow>
          map_option (\<lambda>(p, b). r\<lparr>py_Structured := p, py_rules := b\<rparr>) (decode_struct structured_fields (py_Structured r, py_rules r) m)
      | Some Nil_v \<Rightarrow> Some r
      | _ \<Rightarrow> None)"

definition structured_payload_fields :: "(string \<times> structured_payload raw_field) list" where
  "structured_payload_fields =
     [(''policy_version'', raw_string_field py_PolicyVersion_update), (''notes'', raw_string_field py_Notes_update),
      (''structured'', structured_raw_field), (''publish'', raw_bool_field py_Publish_update)]"

definition zero_structured_payload :: structured_payload where
  "zero_structured_payload =
     \<lparr>py_PolicyVersion = [], py_Notes = [],
      py_Structured = \<lparr>sp_SchemaVersion = [], sp_OutputVersion = [], sp_DefaultEffect = [], sp_Rules = [], sp_AppendRiskFallbacks = None\<rparr>,
      py_rules = False, py_Publish = False\<rparr>"

definition strings_text :: "string list \<Rightarrow> string" where
  "strings_text xs = ''['' @ Join '','' (map quote xs) @ '']''"

definition opt_member :: "bool \<Rightarrow> string \<Rightarrow> string \<Rightarrow> (string \<times> string) list" where
  "opt_member present k t = (if present then [(k, t)] else [])"

definition rule_text :: "structured_rule \<Rightarrow> string" where
  "rule_text r =
     (let m = sr_Match r in
      json_object ([(''id'', quote (sr_ID r)), (''priority'', int_text (sr_Priority r)), (''effect'', quote (sr_Effect r)),
        (''match'', json_object (opt_member (mt_ToolIDs m \<noteq> []) ''tool_ids'' (strings_text (mt_ToolIDs m)) @
           opt_member (mt_ActionTypes m \<noteq> []) ''action_types'' (strings_text (mt_ActionTypes m)) @
           opt_member (mt_ActionRisks m \<noteq> []) ''action_risks'' (strings_text (mt_ActionRisks m))))] @
        opt_member (sr_Reason r \<noteq> []) ''reason'' (quote (sr_Reason r)) @
        (case sr_Approval r of
           None \<Rightarrow> []
         | Some a \<Rightarrow> [(''approval'', json_object (opt_member (av_ExpiresInSeconds a \<noteq> 0) ''expires_in_seconds'' (int_text (av_ExpiresInSeconds a)) @
             opt_member (av_Reason a \<noteq> []) ''reason'' (quote (av_Reason a))))])))"

definition structured_text :: "structured_policy \<Rightarrow> bool \<Rightarrow> string" where
  "structured_text p rules_set =
     json_object ([(''schema_version'', quote (sp_SchemaVersion p)), (''output_version'', quote (sp_OutputVersion p)),
       (''default_effect'', quote (sp_DefaultEffect p)),
       (''rules'', if rules_set then ''['' @ Join '','' (map rule_text (sp_Rules p)) @ '']'' else ''null'')] @
       (case sp_AppendRiskFallbacks p of None \<Rightarrow> [] | Some b \<Rightarrow> [(''append_risk_fallbacks'', bool_text b)]))"

text \<open>\<open>publishStructuredVersion\<close>: \<open>None\<close> when it went well. A refused publication has already
  written its reply when the caller goes on.\<close>

definition publishStructuredVersion :: "admin_env \<Rightarrow> admin_key \<Rightarrow> string \<Rightarrow> string \<Rightarrow> admin_state \<Rightarrow> admin_reply option \<times> admin_state" where
  "publishStructuredVersion env key tenantID version st =
     (let before = active_version env ''before'' tenantID st in
      case config_write env ''POLICY.VERSION.PUBLISH'' (Op_Publish tenantID version) st of
        (Inl e, st1) \<Rightarrow>
          (Some (if e = ErrAdminWriteLocked then Adm_error 403 ''admin writes locked'' else Adm_error 500 ''failed to publish policy''), st1)
      | (Inr _, st1) \<Rightarrow>
          (let st2 = invalidateTenantCaches tenantID st1 in
           case audit_event env key tenantID ''POLICY.VERSION.PUBLISH'' ''POLICY.ACTIVE'' version (Some (version_payload before))
                  (Some (version_payload (active_version env ''after'' tenantID st2))) st2 of
             (Inl _, st3) \<Rightarrow> (Some (Adm_error 500 ''Internal Server Error''), st3)
           | (Inr _, st3) \<Rightarrow> (None, st3)))"

definition handlePolicyStructuredCreate :: "admin_env \<Rightarrow> admin_state \<Rightarrow> admin_outcome" where
  "handlePolicyStructuredCreate env = gated ''admin:policies:write'' (\<lambda>key st.
     case decode_body structured_payload_fields zero_structured_payload (an_body env) of
       None \<Rightarrow> (bad_body, st)
     | Some p \<Rightarrow>
         if py_PolicyVersion p = [] then (Adm_error 400 ''policy_version required'', st)
         else (case Compile (py_Structured p) of
                 Inl _ \<Rightarrow> (Adm_error 400 ''structured policy invalid'', st)
               | Inr rego \<Rightarrow>
                   if \<not> an_prepare env rego then (Adm_error 400 ''compiled policy failed to compile'', st)
                   else (let tenantID = an_tenantID env; json = structured_text (py_Structured p) (py_rules p); sha = cy_sha256hex (an_crypto env) in
                         case config_write env ''POLICY.VERSION.CREATE''
                           (Op_CreateStructured tenantID (py_PolicyVersion p) rego json (ak_AdminKeyID key) (py_Notes p)) st of
                           (Inl e, st1) \<Rightarrow> (create_error e, st1)
                         | (Inr _, st1) \<Rightarrow>
                             (case audit_event env key tenantID ''POLICY.VERSION.CREATE'' ''POLICY.VERSION'' (py_PolicyVersion p) None
                                (Some [(''policy_version'', Str_v (py_PolicyVersion p)), (''created_by'', Str_v (ak_AdminKeyID key)),
                                       (''notes'', Str_v (py_Notes p)), (''authoring_mode'', Str_v ''structured''),
                                       (''structured_sha256'', Str_v (sha json)), (''rego_sha256'', Str_v (sha rego))]) st1 of
                                (Inl _, st2) \<Rightarrow> (Adm_error 500 ''failed to audit policy create'', st2)
                              | (Inr _, st2) \<Rightarrow>
                                  if \<not> py_Publish p then (Adm_empty 201, st2)
                                  else (case publishStructuredVersion env key tenantID (py_PolicyVersion p) st2 of
                                          (Some reply, st3) \<Rightarrow> (reply, st3)
                                        | (None, st3) \<Rightarrow> (Adm_empty 201, st3))))))
     env"

end
