(* ===== verification/Admin_Settings.thy ===== *)
theory Admin_Settings
  imports Admin_Api
begin

text \<open>
  The handlers of the administration API for risk overrides (\<open>handlers.go\<close>,
  \<open>control_plane.go\<close>), tools (\<open>tools.go\<close>, \<open>tool_validation.go\<close>,
  \<open>handlers.go\<close>) and settings (\<open>control_plane.go\<close>, \<open>admin_write_lock.go\<close>), with the
  feature gate and the limits of the license (\<open>feature_gate.go\<close>,
  \<open>audit_visibility.go\<close>). A value read only for the audit event is its zero value when the read fails.
  The text of errors found in URLs and credential configurations is left out of the replies.
\<close>

subsection \<open>License limits\<close>

definition featureGate :: "string \<Rightarrow> (admin_env \<Rightarrow> admin_state \<Rightarrow> admin_outcome) \<Rightarrow> admin_env \<Rightarrow> admin_state \<Rightarrow> admin_outcome" where
  "featureGate feature handler env st =
     (case an_entitlements env of
        None \<Rightarrow> handler env st
      | Some ent \<Rightarrow> if HasFeature ent feature then handler env st else (Adm_error 403 ''FEATURE_NOT_AVAILABLE'', st))"

definition auditVisibilityFloor :: "entitlements option \<Rightarrow> time \<Rightarrow> time option" where
  "auditVisibilityFloor license now =
     (case license of
        None \<Rightarrow> None
      | Some ent \<Rightarrow> if en_Tier ent \<noteq> ''free'' then None else Some (now - en_AuditRetentionDays ent * day_ns))"

definition applyVisibilityFloor :: "time option \<Rightarrow> time option \<Rightarrow> time option" where
  "applyVisibilityFloor from_time floor_time =
     (case floor_time of
        None \<Rightarrow> from_time
      | Some f \<Rightarrow> (case from_time of None \<Rightarrow> Some f | Some t \<Rightarrow> if t < f then Some f else Some t))"

subsection \<open>Risk overrides\<close>

definition isValidRisk :: "string \<Rightarrow> bool" where
  "isValidRisk v = (v \<in> {''LOW'', ''MEDIUM'', ''HIGH'', ''CRITICAL''})"

definition risk_payload :: "string \<Rightarrow> string \<Rightarrow> gomap" where
  "risk_payload actionType risk = [(''action_type'', Str_v actionType), (''action_risk'', Str_v risk)]"

definition risk_before :: "admin_env \<Rightarrow> admin_state \<Rightarrow> string" where
  "risk_before env st =
     (case GetRiskOverride (an_read env ''GetRiskOverride'') (an_tenantID env) (an_param env) (am_config st) of Inr r \<Rightarrow> r | Inl _ \<Rightarrow> [])"

definition handleRiskOverrideUpdate :: "admin_env \<Rightarrow> admin_state \<Rightarrow> admin_outcome" where
  "handleRiskOverrideUpdate env = gated ''admin:policies:write'' (\<lambda>key st.
     case decode_body [(''action_risk'', raw_string_field id)] [] (an_body env) of
       None \<Rightarrow> (bad_body, st)
     | Some risk \<Rightarrow>
         if \<not> isValidRisk risk then (Adm_error 400 ''invalid action_risk'', st)
         else (let tenantID = an_tenantID env; actionType = an_param env; before = risk_before env st in
               case config_write env ''RISK_OVERRIDE.UPSERT'' (Op_UpdateRisk tenantID actionType risk) st of
                 (Inl e, st1) \<Rightarrow> (handleBootstrapError e, st1)
               | (Inr _, st1) \<Rightarrow>
                   finish env key tenantID ''RISK_OVERRIDE.UPSERT'' ''RISK_OVERRIDE'' actionType
                     (Some (risk_payload actionType before)) (Some (risk_payload actionType risk))
                     ''failed to audit risk override update'' (Adm_empty 204) (invalidateTenantCaches tenantID st1)))
     env"

definition handleRiskOverrideDelete :: "admin_env \<Rightarrow> admin_state \<Rightarrow> admin_outcome" where
  "handleRiskOverrideDelete env = gated ''admin:policies:write'' (\<lambda>key st.
     let tenantID = an_tenantID env; actionType = an_param env; before = risk_before env st in
     case config_write env ''RISK_OVERRIDE.DELETE'' (Op_DeleteRisk tenantID actionType) st of
       (Inl _, st1) \<Rightarrow> (Adm_error 500 ''failed to delete override'', st1)
     | (Inr _, st1) \<Rightarrow>
         finish env key tenantID ''RISK_OVERRIDE.DELETE'' ''RISK_OVERRIDE'' actionType (Some (risk_payload actionType before)) None
           ''failed to audit override delete'' (Adm_empty 204) (invalidateTenantCaches tenantID st1))
     env"

subsection \<open>Tools\<close>

definition tool_id_char :: "char \<Rightarrow> bool" where
  "tool_id_char c = (is_letter c \<or> is_digit c)"

text \<open>\<open>toolIDPattern\<close>, \<open>^[a-zA-Z0-9][a-zA-Z0-9_-]{2,63}$\<close>.\<close>

definition validateToolID :: "string \<Rightarrow> bool" where
  "validateToolID s =
     (case s of
        [] \<Rightarrow> False
      | c # cs \<Rightarrow> tool_id_char c \<and> 2 \<le> length cs \<and> length cs \<le> 63 \<and>
          list_all (\<lambda>d. tool_id_char d \<or> d = CHR ''_'' \<or> d = CHR ''-'') cs)"

definition validAuthTypes :: "string list" where
  "validAuthTypes = [''none'', ''bearer'', ''api_key'', ''oauth2_client_credentials'']"

definition validTransports :: "string list" where "validTransports = [''http'', ''mcp'']"

definition validateInputSchemaJSON :: "string \<Rightarrow> bool" where
  "validateInputSchemaJSON raw =
     (raw = [] \<or> (case Unmarshal raw of Some (Map_v _) \<Rightarrow> True | Some Nil_v \<Rightarrow> True | _ \<Rightarrow> False))"

record tool_payload =
  ty_ToolID :: string
  ty_BaseURL :: string
  ty_AuthType :: string
  ty_AuthValue :: string
  ty_Description :: string
  ty_Transport :: string
  ty_MCPUpstreamURL :: string
  ty_InputSchemaJSON :: string
  ty_CredentialConfig :: string

definition zero_tool_payload :: tool_payload where
  "zero_tool_payload =
     \<lparr>ty_ToolID = [], ty_BaseURL = [], ty_AuthType = [], ty_AuthValue = [], ty_Description = [], ty_Transport = [],
      ty_MCPUpstreamURL = [], ty_InputSchemaJSON = [], ty_CredentialConfig = []\<rparr>"

definition tool_create_fields :: "(string \<times> tool_payload raw_field) list" where
  "tool_create_fields =
     [(''tool_id'', raw_string_field ty_ToolID_update), (''base_url'', raw_string_field ty_BaseURL_update),
      (''auth_type'', raw_string_field ty_AuthType_update), (''auth_value'', raw_string_field ty_AuthValue_update),
      (''description'', raw_string_field ty_Description_update), (''transport'', raw_string_field ty_Transport_update),
      (''mcp_upstream_url'', raw_string_field ty_MCPUpstreamURL_update),
      (''input_schema_json'', raw_text_field ty_InputSchemaJSON_update),
      (''credential_config'', raw_text_field ty_CredentialConfig_update)]"

definition toolToResponse :: "(rat \<Rightarrow> string) \<Rightarrow> tool \<Rightarrow> admin_tool_reply" where
  "toolToResponse fmt t =
     \<lparr>tp_ToolID = tl_ToolID t, tp_TenantID = tl_TenantID t,
      tp_HTTP = (if tl_BaseURL t \<noteq> []
                 then Some \<lparr>hc_BaseURL = tl_BaseURL t, hc_AuthType = tl_AuthType t,
                            hc_AuthSet = (tl_AuthValue t \<noteq> [] \<or> tl_CredentialConfig t \<noteq> []),
                            hc_CredentialProvider = ProviderName (tl_CredentialConfig t),
                            hc_CredentialConfig = RedactConfig fmt (tl_CredentialConfig t)\<rparr>
                 else None),
      tp_MCP = (if tl_MCPUpstreamURL t \<noteq> [] \<or> tl_Description t \<noteq> [] \<or> tl_InputSchemaJSON t \<noteq> []
                then Some \<lparr>mc_UpstreamURL = tl_MCPUpstreamURL t, mc_Description = tl_Description t, mc_InputSchema = tl_InputSchemaJSON t\<rparr>
                else None),
      tp_ArchivedAt = tl_ArchivedAt t, tp_Source = tl_Source t\<rparr>"

definition with_tool_defaults :: "tool_payload \<Rightarrow> tool_payload" where
  "with_tool_defaults p =
     p\<lparr>ty_Transport := if ty_Transport p = [] then ''http'' else ty_Transport p,
       ty_AuthType := if ty_AuthType p = [] then ''none'' else ty_AuthType p\<rparr>"

definition tool_url_error :: "admin_env \<Rightarrow> tool_payload \<Rightarrow> string option" where
  "tool_url_error env p =
     (if ty_Transport p = ''http''
      then (if ty_BaseURL p = [] then Some ''base_url required for http transport''
            else if ValidateToolBaseURL (an_lookupHost env) (ty_BaseURL p) (an_allowPrivate env) \<noteq> None then Some ''invalid url'' else None)
      else if ty_Transport p = ''mcp''
      then (if ty_MCPUpstreamURL p = [] then Some ''mcp_upstream_url required for mcp transport''
            else if ValidateToolBaseURL (an_lookupHost env) (ty_MCPUpstreamURL p) (an_allowPrivate env) \<noteq> None then Some ''invalid url''
            else None)
      else None)"

text \<open>The checks of \<open>handleToolCreate\<close>, in their order, on the payload with its defaults.\<close>

definition tool_payload_error :: "admin_env \<Rightarrow> tool_payload \<Rightarrow> string option" where
  "tool_payload_error env p =
     (if \<not> validateToolID (ty_ToolID p)
      then Some ''tool_id must be 3-64 alphanumeric characters, underscores, or hyphens, starting with alphanumeric''
      else if ty_Transport p \<notin> set validTransports then Some ''transport must be one of: http, mcp''
      else if ty_AuthType p \<notin> set validAuthTypes
      then Some ''auth_type must be one of: none, bearer, api_key, oauth2_client_credentials''
      else case tool_url_error env p of
             Some e \<Rightarrow> Some e
           | None \<Rightarrow>
               if \<not> validateInputSchemaJSON (ty_InputSchemaJSON p) then Some ''input_schema_json must be a valid JSON object''
               else if ty_CredentialConfig p \<noteq> [] \<and> ValidateConfig (ty_CredentialConfig p) \<noteq> None then Some ''invalid credential_config''
               else None)"

definition payload_tool :: "string \<Rightarrow> tool_payload \<Rightarrow> tool" where
  "payload_tool tenantID p =
     \<lparr>tl_ToolID = ty_ToolID p, tl_TenantID = tenantID, tl_BaseURL = ty_BaseURL p, tl_AuthType = ty_AuthType p,
      tl_AuthValue = ty_AuthValue p, tl_Transport = ty_Transport p, tl_MCPUpstreamURL = ty_MCPUpstreamURL p,
      tl_Description = ty_Description p, tl_InputSchemaJSON = ty_InputSchemaJSON p, tl_ArchivedAt = None, tl_Source = [],
      tl_OpenAPISpecURL = [], tl_OpenAPIOperationID = [], tl_CredentialConfig = ty_CredentialConfig p\<rparr>"

definition tool_audit :: "string \<Rightarrow> string \<Rightarrow> string \<Rightarrow> string \<Rightarrow> gomap" where
  "tool_audit baseURL authType authValue credentialConfig =
     [(''base_url'', Str_v baseURL), (''auth_type'', Str_v authType), (''auth_set'', Bool_v (authValue \<noteq> [])),
      (''credential_provider'', Str_v (ProviderName credentialConfig))]"

definition handleToolCreate :: "admin_env \<Rightarrow> admin_state \<Rightarrow> admin_outcome" where
  "handleToolCreate env = gated ''admin:tools:write'' (\<lambda>key st.
     case decode_body tool_create_fields zero_tool_payload (an_body env) of
       None \<Rightarrow> (bad_body, st)
     | Some raw \<Rightarrow>
         (let p = with_tool_defaults raw in
          case tool_payload_error env p of
            Some e \<Rightarrow> (Adm_error 400 e, st)
          | None \<Rightarrow>
              (let tenantID = an_tenantID env; tool = payload_tool tenantID p in
               case config_write env ''TOOL.CREATE'' (Op_InsertTool tool) st of
                 (Inl e, st1) \<Rightarrow>
                   (if e = ErrDuplicate then Adm_error 409 ''tool_id already exists for this tenant'' else handleBootstrapError e, st1)
               | (Inr _, st1) \<Rightarrow>
                   finish env key tenantID ''TOOL.CREATE'' ''TOOL'' (ty_ToolID p) None
                     (Some ([(''tool_id'', Str_v (ty_ToolID p)), (''transport'', Str_v (ty_Transport p))] @
                            tool_audit (ty_BaseURL p) (ty_AuthType p) (ty_AuthValue p) (ty_CredentialConfig p)))
                     ''failed to audit tool creation'' (Adm_tool 201 (toolToResponse (an_fmt env) tool))
                     (invalidateTenantCaches tenantID st1))))
     env"

definition handleToolGet :: "admin_env \<Rightarrow> admin_state \<Rightarrow> admin_outcome" where
  "handleToolGet env = gated ''admin:tools:read'' (\<lambda>key st.
     case GetTool (an_read env ''GetTool'') (an_tenantID env) (an_param env) (am_config st) of
       Inl e \<Rightarrow> (if e = ErrNotFound then Adm_error 404 ''tool not found'' else Adm_error 500 ''failed to get tool'', st)
     | Inr tool \<Rightarrow> (Adm_tool 200 (toolToResponse (an_fmt env) tool), st))
     env"

definition tool_presence :: "admin_env \<Rightarrow> string \<Rightarrow> string \<Rightarrow> (string \<Rightarrow> string \<Rightarrow> config_op) \<Rightarrow> bool \<Rightarrow> string \<Rightarrow> admin_key \<Rightarrow> admin_state \<Rightarrow> admin_outcome" where
  "tool_presence env action missing op archived failure key st =
     (let tenantID = an_tenantID env; toolID = an_param env; payload = [(''tool_id'', Str_v toolID)] in
      case config_write env action (op tenantID toolID) st of
        (Inl e, st1) \<Rightarrow> (if e = ErrNotFound then Adm_error 404 missing else handleBootstrapError e, st1)
      | (Inr _, st1) \<Rightarrow>
          finish env key tenantID action ''TOOL'' toolID (if archived then Some payload else None) (if archived then None else Some payload)
            failure (Adm_empty 204) (invalidateTenantCaches tenantID st1))"

definition handleToolArchive :: "admin_env \<Rightarrow> admin_state \<Rightarrow> admin_outcome" where
  "handleToolArchive env = gated ''admin:tools:write''
     (tool_presence env ''TOOL.ARCHIVE'' ''tool not found or already archived'' Op_Archive True ''failed to audit tool archive'') env"

definition handleToolRestore :: "admin_env \<Rightarrow> admin_state \<Rightarrow> admin_outcome" where
  "handleToolRestore env = gated ''admin:tools:write''
     (tool_presence env ''TOOL.RESTORE'' ''tool not found or not archived'' Op_Restore False ''failed to audit tool restore'') env"

definition tool_before :: "admin_env \<Rightarrow> admin_state \<Rightarrow> tool" where
  "tool_before env st =
     (case GetTool (an_read env ''GetTool'') (an_tenantID env) (an_param env) (am_config st) of
        Inr t \<Rightarrow> t | Inl _ \<Rightarrow> payload_tool [] zero_tool_payload)"

definition tool_config_fields :: "(string \<times> tool_payload raw_field) list" where
  "tool_config_fields =
     [(''base_url'', raw_string_field ty_BaseURL_update), (''auth_type'', raw_string_field ty_AuthType_update),
      (''auth_value'', raw_string_field ty_AuthValue_update), (''credential_config'', raw_text_field ty_CredentialConfig_update)]"

definition handleToolConfigUpdate :: "admin_env \<Rightarrow> admin_state \<Rightarrow> admin_outcome" where
  "handleToolConfigUpdate env = gated ''admin:tools:write'' (\<lambda>key st.
     case decode_body tool_config_fields zero_tool_payload (an_body env) of
       None \<Rightarrow> (bad_body, st)
     | Some p \<Rightarrow>
         if ty_BaseURL p = [] then (Adm_error 400 ''base_url required'', st)
         else if ty_CredentialConfig p \<noteq> [] \<and> ValidateConfig (ty_CredentialConfig p) \<noteq> None
         then (Adm_error 400 ''invalid credential_config'', st)
         else (let tenantID = an_tenantID env; toolID = an_param env; before = tool_before env st in
               case config_write env ''TOOL.CONFIG.UPDATE''
                      (Op_UpdateTool tenantID toolID (ty_BaseURL p) (ty_AuthType p) (ty_AuthValue p) (ty_CredentialConfig p)) st of
                 (Inl e, st1) \<Rightarrow> (handleBootstrapError e, st1)
               | (Inr _, st1) \<Rightarrow>
                   finish env key tenantID ''TOOL.CONFIG.UPDATE'' ''TOOL'' toolID
                     (Some (tool_audit (tl_BaseURL before) (tl_AuthType before) (tl_AuthValue before) (tl_CredentialConfig before)))
                     (Some (tool_audit (ty_BaseURL p) (ty_AuthType p) (ty_AuthValue p) (ty_CredentialConfig p)))
                     ''failed to audit tool update'' (Adm_empty 204) (invalidateTenantCaches tenantID st1)))
     env"

definition tool_metadata_fields :: "(string \<times> tool_payload raw_field) list" where
  "tool_metadata_fields =
     [(''description'', raw_string_field ty_Description_update), (''mcp_upstream_url'', raw_string_field ty_MCPUpstreamURL_update),
      (''input_schema_json'', raw_text_field ty_InputSchemaJSON_update)]"

text \<open>The schema is a \<open>json.RawMessage\<close> in the payload; none of the keys is on the list
  of what the audit log keeps of a tool.\<close>

definition metadata_audit :: "string \<Rightarrow> string \<Rightarrow> string \<Rightarrow> gomap" where
  "metadata_audit description mcpUpstreamURL schema =
     [(''description'', Str_v description), (''mcp_upstream_url'', Str_v mcpUpstreamURL), (''input_schema_json'', Str_v schema)]"

definition handleToolMetadataUpdate :: "admin_env \<Rightarrow> admin_state \<Rightarrow> admin_outcome" where
  "handleToolMetadataUpdate env = gated ''admin:tools:write'' (\<lambda>key st.
     case decode_body tool_metadata_fields zero_tool_payload (an_body env) of
       None \<Rightarrow> (bad_body, st)
     | Some p \<Rightarrow>
         if ty_InputSchemaJSON p \<noteq> [] \<and> Unmarshal (ty_InputSchemaJSON p) = None
         then (Adm_error 400 ''input_schema_json must be valid JSON'', st)
         else (let tenantID = an_tenantID env; toolID = an_param env; before = tool_before env st in
               case config_write env ''TOOL.METADATA.UPDATE''
                      (Op_UpdateMetadata tenantID toolID (ty_Description p) (ty_MCPUpstreamURL p) (ty_InputSchemaJSON p)) st of
                 (Inl e, st1) \<Rightarrow> (handleBootstrapError e, st1)
               | (Inr _, st1) \<Rightarrow>
                   finish env key tenantID ''TOOL.METADATA.UPDATE'' ''TOOL'' toolID
                     (Some (metadata_audit (tl_Description before) (tl_MCPUpstreamURL before) (tl_InputSchemaJSON before)))
                     (Some (metadata_audit (ty_Description p) (ty_MCPUpstreamURL p) (ty_InputSchemaJSON p)))
                     ''failed to audit tool metadata update'' (Adm_empty 204) (invalidateTenantCaches tenantID st1)))
     env"

subsection \<open>Settings\<close>

definition store_write :: "admin_env \<Rightarrow> string \<Rightarrow> (faults \<Rightarrow> config_db \<Rightarrow> unit result) \<Rightarrow> admin_state \<Rightarrow> (store_error + unit) \<times> admin_state" where
  "store_write env action op st = (case op (an_write env action) (am_config st) of (r, db) \<Rightarrow> (r, st\<lparr>am_config := db\<rparr>))"

definition or_zero :: "'a \<Rightarrow> store_error + 'a \<Rightarrow> 'a" where
  "or_zero z r = (case r of Inr x \<Rightarrow> x | Inl _ \<Rightarrow> z)"

text \<open>The common end of the settings handlers: the store call, the audit event, the reply.\<close>

definition change_setting ::
  "admin_env \<Rightarrow> admin_key \<Rightarrow> string \<Rightarrow> string \<Rightarrow> string \<Rightarrow> string \<Rightarrow> (store_error \<Rightarrow> admin_reply) \<Rightarrow> string \<Rightarrow>
   gomap \<Rightarrow> gomap \<Rightarrow> (faults \<Rightarrow> config_db \<Rightarrow> unit result) \<Rightarrow> admin_state \<Rightarrow> admin_outcome" where
  "change_setting env key tenantID action resourceType resourceID refused audit_failure before after op st =
     (case store_write env action op st of
        (Inl e, st1) \<Rightarrow> (refused e, st1)
      | (Inr _, st1) \<Rightarrow>
          finish env key tenantID action resourceType resourceID (Some before) (Some after) audit_failure (Adm_empty 204) st1)"

definition failed :: "string \<Rightarrow> store_error \<Rightarrow> admin_reply" where
  "failed message e = Adm_error 500 message"

definition handleAdminWriteLock :: "admin_env \<Rightarrow> admin_state \<Rightarrow> admin_outcome" where
  "handleAdminWriteLock env = gated ''admin:settings:write'' (\<lambda>key st.
     case decode_body [(''locked'', raw_bool_field id)] False (an_body env) of
       None \<Rightarrow> (bad_body, st)
     | Some locked \<Rightarrow>
         change_setting env key [] ''SETTINGS.ADMIN_WRITE_LOCK.SET'' ''SETTINGS'' ''admin_write_lock''
           (failed ''update failed'') ''failed to audit write lock''
           [(''admin_write_lock'', Bool_v (or_zero False (GetAdminWriteLock (an_read env ''before'') (am_config st))))]
           [(''admin_write_lock'', Bool_v locked)] (\<lambda>flt. SetAdminWriteLock flt locked) st)
     env"

definition handleBootstrapComplete :: "admin_env \<Rightarrow> admin_state \<Rightarrow> admin_outcome" where
  "handleBootstrapComplete env = gated ''admin:settings:write'' (\<lambda>key st.
     change_setting env key [] ''BOOTSTRAP.COMPLETE'' ''BOOTSTRAP'' ''bootstrap_complete''
       (failed ''bootstrap completion failed'') ''failed to audit bootstrap completion''
       [(''bootstrap_complete'', Bool_v (or_zero False (GetBootstrapComplete (an_read env ''before'') (am_config st))))]
       [(''bootstrap_complete'', Bool_v True)] MarkBootstrapComplete st)
     env"

definition handleDefaultApprovalTTLUpdate :: "admin_env \<Rightarrow> admin_state \<Rightarrow> admin_outcome" where
  "handleDefaultApprovalTTLUpdate env = gated ''admin:settings:write'' (\<lambda>key st.
     case decode_body [(''seconds'', raw_int_field id)] 0 (an_body env) of
       None \<Rightarrow> (bad_body, st)
     | Some seconds \<Rightarrow>
         if seconds < 60 \<or> seconds > 86400 then (Adm_error 400 ''seconds must be between 60 and 86400'', st)
         else change_setting env key [] ''SETTINGS.APPROVAL_TTL_DEFAULT.SET'' ''SETTINGS'' ''default_approval_ttl_seconds''
                (failed ''failed to update default approval ttl'') ''failed to audit approval ttl update''
                [(''value'', Int_v (or_zero 0 (GetDefaultApprovalTTLSeconds (an_read env ''before'') (am_config st))))]
                [(''value'', Int_v seconds)] (\<lambda>flt. SetDefaultApprovalTTLSeconds flt seconds) st)
     env"

definition handleSessionTokenTTLUpdate :: "admin_env \<Rightarrow> admin_state \<Rightarrow> admin_outcome" where
  "handleSessionTokenTTLUpdate env = gated ''admin:settings:write'' (\<lambda>key st.
     case decode_body [(''seconds'', raw_int_field id)] 0 (an_body env) of
       None \<Rightarrow> (bad_body, st)
     | Some seconds \<Rightarrow>
         if seconds < 60 \<or> seconds > 86400 then (Adm_error 400 ''seconds must be between 60 and 86400'', st)
         else change_setting env key [] ''SETTINGS.SESSION_TOKEN_TTL.SET'' ''SETTINGS'' ''session_token_ttl_seconds''
                (failed ''failed to update session token ttl'') ''failed to audit session token ttl update''
                [(''value'', Int_v (or_zero 0 (GetSessionTokenTTLSeconds (an_read env ''before'') (am_config st))))]
                [(''value'', Int_v seconds)] (\<lambda>flt. SetSessionTokenTTLSeconds flt seconds) st)
     env"

definition handleAuditRetentionUpdate :: "admin_env \<Rightarrow> admin_state \<Rightarrow> admin_outcome" where
  "handleAuditRetentionUpdate env = gated ''admin:settings:write'' (\<lambda>key st.
     case decode_body [(''days'', raw_int_field id)] 0 (an_body env) of
       None \<Rightarrow> (bad_body, st)
     | Some days \<Rightarrow>
         if days < 30 \<or> days > 3650 then (Adm_error 400 ''days must be between 30 and 3650'', st)
         else if (case an_entitlements env of
                    None \<Rightarrow> False
                  | Some ent \<Rightarrow> \<not> IsUnlimited (en_AuditRetentionDays ent) \<and> days > en_AuditRetentionDays ent)
         then (Adm_error 403 ''audit retention exceeds license tier maximum'', st)
         else change_setting env key [] ''SETTINGS.AUDIT_RETENTION.SET'' ''SETTINGS'' ''audit_retention_days''
                (failed ''failed to update audit retention'') ''failed to audit retention update''
                [(''value'', Int_v (or_zero 0 (GetAuditRetentionDays (an_read env ''before'') (am_config st))))]
                [(''value'', Int_v days)] (\<lambda>flt. SetAuditRetentionDays flt days) st)
     env"

definition rate_limit_fields :: "(string \<times> rate_limit_config raw_field) list" where
  "rate_limit_fields =
     [(''per_minute'', raw_int_field rl_PerMinute_update), (''per_day'', raw_int_field rl_PerDay_update),
      (''scope'', raw_string_field rl_Scope_update)]"

definition rate_limit_payload :: "rate_limit_config \<Rightarrow> gomap" where
  "rate_limit_payload c =
     [(''per_minute'', Int_v (rl_PerMinute c)), (''per_day'', Int_v (rl_PerDay c)), (''scope'', Str_v (rl_Scope c))]"

definition zero_rate_limit :: rate_limit_config where
  "zero_rate_limit = \<lparr>rl_PerMinute = 0, rl_PerDay = 0, rl_Scope = []\<rparr>"

definition handleDefaultRateLimitUpdate :: "admin_env \<Rightarrow> admin_state \<Rightarrow> admin_outcome" where
  "handleDefaultRateLimitUpdate env = gated ''admin:settings:write'' (\<lambda>key st.
     case decode_body rate_limit_fields zero_rate_limit (an_body env) of
       None \<Rightarrow> (bad_body, st)
     | Some raw \<Rightarrow>
         (let p = raw\<lparr>rl_Scope := TrimSpace (rl_Scope raw)\<rparr> in
          if rl_PerMinute p \<le> 0 then (Adm_error 400 ''per_minute must be > 0'', st)
          else if rl_PerDay p \<le> 0 then (Adm_error 400 ''per_day must be > 0'', st)
          else if rl_PerDay p < rl_PerMinute p then (Adm_error 400 ''per_day must be >= per_minute'', st)
          else if \<not> isRateLimitScope (rl_Scope p)
          then (Adm_error 400 ''scope must be one of tenant, tenant_agent, tenant_tool, tenant_agent_tool'', st)
          else change_setting env key [] ''SETTINGS.RATE_LIMIT_DEFAULT.SET'' ''SETTINGS'' ''default_rate_limit_config''
                 (failed ''failed to update default rate limit config'') ''failed to audit default rate limit update''
                 (rate_limit_payload (case an_read env ''before'' 0 of
                    Some _ \<Rightarrow> zero_rate_limit | None \<Rightarrow> GetDefaultRateLimitConfig (cb_settings (am_config st))))
                 (rate_limit_payload p)
                 (\<lambda>flt. SetDefaultRateLimitConfig flt (rl_PerMinute p) (rl_PerDay p) (rl_Scope p)) st))
     env"

definition tenant_value :: "string \<Rightarrow> string \<Rightarrow> gomap" where
  "tenant_value tenantID v = [(''tenant_id'', Str_v tenantID), (''value'', Str_v v)]"

definition config_missing :: "string \<Rightarrow> store_error \<Rightarrow> admin_reply" where
  "config_missing message e = (if e = ErrNotFound then Adm_error 404 ''tenant config not found'' else Adm_error 500 message)"

definition handleEnforcementModeUpdate :: "admin_env \<Rightarrow> admin_state \<Rightarrow> admin_outcome" where
  "handleEnforcementModeUpdate env = gated ''admin:settings:write'' (\<lambda>key st.
     case decode_body [(''tenant_id'', raw_string_field apfst), (''enforcement_mode'', raw_string_field apsnd)] ([], []) (an_body env) of
       None \<Rightarrow> (bad_body, st)
     | Some (rawTenant, rawMode) \<Rightarrow>
         (let tenantID = TrimSpace rawTenant; mode = TrimSpace (ToLower rawMode) in
          if tenantID = [] then (Adm_error 400 ''tenant_id required'', st)
          else if mode \<noteq> ''enforce'' \<and> mode \<noteq> ''shadow'' then (Adm_error 400 ''enforcement_mode must be enforce or shadow'', st)
          else (let before = (case GetTenantConfig (an_read env ''before'') tenantID (am_config st) of
                                Inr c \<Rightarrow> if TrimSpace (tg_EnforcementMode c) = ''shadow'' then ''shadow'' else ''enforce''
                              | Inl _ \<Rightarrow> ''enforce'')
                in change_setting env key tenantID ''SETTINGS.ENFORCEMENT_MODE.SET'' ''SETTINGS'' ''enforcement_mode''
                     (config_missing ''failed to update enforcement mode'') ''failed to audit enforcement mode update''
                     (tenant_value tenantID before) (tenant_value tenantID mode)
                     (\<lambda>flt. SetTenantEnforcementMode flt (an_now env) tenantID mode) st)))
     env"

definition passthrough_tool_error :: "admin_env \<Rightarrow> string \<Rightarrow> string \<Rightarrow> config_db \<Rightarrow> admin_reply option" where
  "passthrough_tool_error env tenantID toolID db =
     (if toolID = [] then None
      else case GetTool (an_read env ''GetTool'') tenantID toolID db of
             Inl e \<Rightarrow> Some (if e = ErrNotFound then Adm_error 404 ''tool not found'' else Adm_error 500 ''failed to load tool'')
           | Inr tool \<Rightarrow>
               if tl_Transport tool \<noteq> ''mcp_streamable_http'' \<or> TrimSpace (tl_MCPUpstreamURL tool) = []
               then Some (Adm_error 400 ''tool_id must reference an MCP tool with mcp_upstream_url'') else None)"

definition handleMCPPassthroughUpstreamUpdate :: "admin_env \<Rightarrow> admin_state \<Rightarrow> admin_outcome" where
  "handleMCPPassthroughUpstreamUpdate env = gated ''admin:settings:write'' (\<lambda>key st.
     case decode_body [(''tenant_id'', raw_string_field apfst), (''tool_id'', raw_string_field apsnd)] ([], []) (an_body env) of
       None \<Rightarrow> (bad_body, st)
     | Some (rawTenant, rawTool) \<Rightarrow>
         (let tenantID = TrimSpace rawTenant; toolID = TrimSpace rawTool in
          if tenantID = [] then (Adm_error 400 ''tenant_id required'', st)
          else (case GetTenantConfig (an_read env ''before'') tenantID (am_config st) of
                  Inl e \<Rightarrow> (config_missing ''failed to load tenant config'' e, st)
                | Inr config \<Rightarrow>
                    (case passthrough_tool_error env tenantID toolID (am_config st) of
                       Some reply \<Rightarrow> (reply, st)
                     | None \<Rightarrow>
                         change_setting env key tenantID ''SETTINGS.MCP_PASSTHROUGH_UPSTREAM.SET'' ''SETTINGS''
                           ''mcp_passthrough_upstream_tool_id'' (config_missing ''failed to update mcp pass-through upstream'')
                           ''failed to audit mcp pass-through upstream update''
                           (tenant_value tenantID (TrimSpace (tg_MCPPassthroughUpstreamToolID config))) (tenant_value tenantID toolID)
                           (\<lambda>flt. SetTenantMCPPassthroughUpstreamToolID flt (an_now env) tenantID toolID) st))))
     env"

text \<open>The boolean settings: \<open>resourceID\<close> is also the key of the setting.\<close>

definition handleBooleanSystemSettingUpdate :: "string \<Rightarrow> string \<Rightarrow> admin_env \<Rightarrow> admin_state \<Rightarrow> admin_outcome" where
  "handleBooleanSystemSettingUpdate auditAction resourceID env = gated ''admin:settings:write'' (\<lambda>key st.
     case decode_body [(''enabled'', raw_bool_field id)] False (an_body env) of
       None \<Rightarrow> (bad_body, st)
     | Some enabled \<Rightarrow>
         change_setting env key [] auditAction ''SETTINGS'' resourceID (failed ''failed to update setting'') ''failed to audit setting update''
           [(''value'', Bool_v (or_zero False (getSystemSettingBool (an_read env ''before'') resourceID (am_config st))))]
           [(''value'', Bool_v enabled)] (\<lambda>flt. setSystemSettingBool flt resourceID enabled) st)
     env"

datatype boolean_setting =
    Disable_x_tenant_key | Feature_rate_limiting | Feature_arg_constraints | Feature_session_tokens | Feature_file_governance
  | Secret_provider_aws | Secret_provider_gcp | Secret_provider_vault | Secret_provider_azure

fun setting_key :: "boolean_setting \<Rightarrow> string" where
  "setting_key Disable_x_tenant_key = ''disable_x_tenant_key''"
| "setting_key Feature_rate_limiting = ''feature_rate_limiting''"
| "setting_key Feature_arg_constraints = ''feature_arg_constraints''"
| "setting_key Feature_session_tokens = ''feature_session_tokens''"
| "setting_key Feature_file_governance = ''feature_file_governance''"
| "setting_key Secret_provider_aws = ''secret_provider_aws''"
| "setting_key Secret_provider_gcp = ''secret_provider_gcp''"
| "setting_key Secret_provider_vault = ''secret_provider_vault''"
| "setting_key Secret_provider_azure = ''secret_provider_azure''"

fun setting_action :: "boolean_setting \<Rightarrow> string" where
  "setting_action Disable_x_tenant_key = ''SETTINGS.DISABLE_X_TENANT_KEY.SET''"
| "setting_action Feature_rate_limiting = ''SETTINGS.FEATURE_RATE_LIMITING.SET''"
| "setting_action Feature_arg_constraints = ''SETTINGS.FEATURE_ARG_CONSTRAINTS.SET''"
| "setting_action Feature_session_tokens = ''SETTINGS.FEATURE_SESSION_TOKENS.SET''"
| "setting_action Feature_file_governance = ''SETTINGS.FEATURE_FILE_GOVERNANCE.SET''"
| "setting_action Secret_provider_aws = ''SETTINGS.SECRET_PROVIDER_AWS.SET''"
| "setting_action Secret_provider_gcp = ''SETTINGS.SECRET_PROVIDER_GCP.SET''"
| "setting_action Secret_provider_vault = ''SETTINGS.SECRET_PROVIDER_VAULT.SET''"
| "setting_action Secret_provider_azure = ''SETTINGS.SECRET_PROVIDER_AZURE.SET''"

text \<open>The wrappers \<open>handleDisableXTenantKeyUpdate\<close> to \<open>handleSecretProviderAzureUpdate\<close>.\<close>

definition boolean_setting_update :: "boolean_setting \<Rightarrow> admin_env \<Rightarrow> admin_state \<Rightarrow> admin_outcome" where
  "boolean_setting_update s = handleBooleanSystemSettingUpdate (setting_action s) (setting_key s)"

subsection \<open>Routes\<close>

datatype admin_write =
    Approve | Deny | Revoke
  | Policy_create | Policy_structured | Policy_publish | Policy_rollback | Policy_update
  | Risk_update | Risk_delete
  | Tool_create | Tool_archive | Tool_restore | Tool_config | Tool_metadata
  | Write_lock | Bootstrap_complete | Approval_ttl | Session_ttl | Audit_retention | Default_rate_limit
  | Enforcement_mode | Passthrough_upstream | Boolean_setting boolean_setting

fun route :: "admin_write \<Rightarrow> admin_env \<Rightarrow> admin_state \<Rightarrow> admin_outcome" where
  "route Approve = featureGate ''approval_workflows'' handleApprovalApprove"
| "route Deny = featureGate ''approval_workflows'' handleApprovalDeny"
| "route Revoke = featureGate ''approval_workflows'' handleApprovalRevoke"
| "route Policy_create = featureGate ''custom_policies'' handlePolicyCreate"
| "route Policy_structured = featureGate ''custom_policies'' handlePolicyStructuredCreate"
| "route Policy_publish = featureGate ''custom_policies'' handlePolicyPublish"
| "route Policy_rollback = featureGate ''custom_policies'' handlePolicyRollback"
| "route Policy_update = handlePolicyUpdate"
| "route Risk_update = featureGate ''custom_policies'' handleRiskOverrideUpdate"
| "route Risk_delete = featureGate ''custom_policies'' handleRiskOverrideDelete"
| "route Tool_create = handleToolCreate"
| "route Tool_archive = handleToolArchive"
| "route Tool_restore = handleToolRestore"
| "route Tool_config = handleToolConfigUpdate"
| "route Tool_metadata = handleToolMetadataUpdate"
| "route Write_lock = handleAdminWriteLock"
| "route Bootstrap_complete = handleBootstrapComplete"
| "route Approval_ttl = handleDefaultApprovalTTLUpdate"
| "route Session_ttl = handleSessionTokenTTLUpdate"
| "route Audit_retention = handleAuditRetentionUpdate"
| "route Default_rate_limit = handleDefaultRateLimitUpdate"
| "route Enforcement_mode = handleEnforcementModeUpdate"
| "route Passthrough_upstream = handleMCPPassthroughUpstreamUpdate"
| "route (Boolean_setting s) = boolean_setting_update s"

end
