(* ===== verification/Admin_Audit.thy ===== *)
theory Admin_Audit
  imports Admin_Settings
begin

text \<open>
  What the administration API promises of its write routes on approvals, policies, risk overrides, tools and
  system settings. Every write is made in the name of a caller who holds the
  scope of its route, and an accepted write leaves an audit event signed with the identity of the
  caller; a decision takes a pending approval, and only its row, to the status asked for. The values
  that are written are the subject of \<open>Admin_Limits\<close>.
\<close>

subsection \<open>Accepted requests and their events\<close>

fun scope_of :: "admin_write \<Rightarrow> string" where
  "scope_of Approve = ''admin:approvals:decide''"
| "scope_of Deny = ''admin:approvals:decide''"
| "scope_of Revoke = ''admin:approvals:decide''"
| "scope_of Policy_publish = ''admin:policies:publish''"
| "scope_of Policy_rollback = ''admin:policies:rollback''"
| "scope_of Policy_create = ''admin:policies:write''"
| "scope_of Policy_structured = ''admin:policies:write''"
| "scope_of Policy_update = ''admin:policies:write''"
| "scope_of Risk_update = ''admin:policies:write''"
| "scope_of Risk_delete = ''admin:policies:write''"
| "scope_of Tool_create = ''admin:tools:write''"
| "scope_of Tool_archive = ''admin:tools:write''"
| "scope_of Tool_restore = ''admin:tools:write''"
| "scope_of Tool_config = ''admin:tools:write''"
| "scope_of Tool_metadata = ''admin:tools:write''"
| "scope_of _ = ''admin:settings:write''"

fun actions_of :: "admin_write \<Rightarrow> string list" where
  "actions_of Approve = [''APPROVAL.REQUEST.APPROVE'']"
| "actions_of Deny = [''APPROVAL.REQUEST.DENY'']"
| "actions_of Revoke = [''APPROVAL.REQUEST.REVOKE'']"
| "actions_of Policy_create = [''POLICY.VERSION.CREATE'']"
| "actions_of Policy_structured = [''POLICY.VERSION.CREATE'', ''POLICY.VERSION.PUBLISH'']"
| "actions_of Policy_publish = [''POLICY.VERSION.PUBLISH'']"
| "actions_of Policy_rollback = [''POLICY.VERSION.ROLLBACK'']"
| "actions_of Policy_update = [''POLICY.VERSION.PUBLISH'']"
| "actions_of Risk_update = [''RISK_OVERRIDE.UPSERT'']"
| "actions_of Risk_delete = [''RISK_OVERRIDE.DELETE'']"
| "actions_of Tool_create = [''TOOL.CREATE'']"
| "actions_of Tool_archive = [''TOOL.ARCHIVE'']"
| "actions_of Tool_restore = [''TOOL.RESTORE'']"
| "actions_of Tool_config = [''TOOL.CONFIG.UPDATE'']"
| "actions_of Tool_metadata = [''TOOL.METADATA.UPDATE'']"
| "actions_of Write_lock = [''SETTINGS.ADMIN_WRITE_LOCK.SET'']"
| "actions_of Bootstrap_complete = [''BOOTSTRAP.COMPLETE'']"
| "actions_of Approval_ttl = [''SETTINGS.APPROVAL_TTL_DEFAULT.SET'']"
| "actions_of Session_ttl = [''SETTINGS.SESSION_TOKEN_TTL.SET'']"
| "actions_of Audit_retention = [''SETTINGS.AUDIT_RETENTION.SET'']"
| "actions_of Default_rate_limit = [''SETTINGS.RATE_LIMIT_DEFAULT.SET'']"
| "actions_of Enforcement_mode = [''SETTINGS.ENFORCEMENT_MODE.SET'']"
| "actions_of Passthrough_upstream = [''SETTINGS.MCP_PASSTHROUGH_UPSTREAM.SET'']"
| "actions_of (Boolean_setting s) = [setting_action s]"

definition accepted :: "admin_reply \<Rightarrow> bool" where
  "accepted reply = (case reply of Adm_error _ _ \<Rightarrow> False | _ \<Rightarrow> True)"

lemma accepted_simps [simp]:
  "\<not> accepted (Adm_error c m)" "accepted (Adm_empty c)" "accepted (Adm_approval c a)" "accepted (Adm_tool c t)"
  "\<not> accepted bad_body" "\<not> accepted (admin_authError e)" "\<not> accepted (handleBootstrapError e')" "\<not> accepted (create_error e')"
  "\<not> accepted (publish_error m e')" "\<not> accepted (failed m e')" "\<not> accepted (config_missing m e')"
  by (simp_all add: accepted_def bad_body_def admin_authError_def handleBootstrapError_def create_error_def publish_error_def failed_def
      config_missing_def)

definition signed :: "admin_key \<Rightarrow> string list \<Rightarrow> admin_audit_event \<Rightarrow> bool" where
  "signed key acts e = (ae_ActorType e = ''admin_key'' \<and> ae_ActorID e = ak_AdminKeyID key \<and> ae_Action e \<in> set acts)"

text \<open>An outcome is audited when it adds only signed events, and at least one if it is accepted.\<close>

definition audited :: "admin_key \<Rightarrow> string list \<Rightarrow> admin_state \<Rightarrow> admin_outcome \<Rightarrow> bool" where
  "audited key acts st out =
     (\<exists>news. am_audit (snd out) = am_audit st @ news \<and> list_all (signed key acts) news \<and> (accepted (fst out) \<longrightarrow> news \<noteq> []))"

definition plain_action :: "string \<Rightarrow> bool" where
  "plain_action a = (ToUpper (filter (\<lambda>x. \<not> is_space x) a) = a)"

lemma plain_actions: "list_all plain_action (actions_of w)"
proof (cases w)
  case (Boolean_setting s)
  then show ?thesis by (cases s) (simp_all, code_simp+)
qed (simp_all, code_simp+)

lemma insert_row_cases:
  "insert_row flt e tbl = (r, tbl') \<Longrightarrow> (\<exists>x. r = Inl x) \<and> tbl' = tbl \<or>
     r = Inr () \<and> tbl' = tbl @ [e\<lparr>ae_CreatedAt := stored_time (ae_CreatedAt e)\<rparr>]"
  by (auto simp: insert_row_def split: option.splits if_splits)

lemma InsertAuditEvent_row:
  assumes "InsertAuditEvent sha flt now e tbl = (r, tbl')"
  obtains (refused) x where "r = Inl x" "tbl' = tbl"
  | (row) f where "r = Inr ()" "tbl' = tbl @ [f]" "ae_ActorType f = ae_ActorType e" "ae_ActorID f = ae_ActorID e" "ae_Action f = ae_Action e"
  using assms
  by (auto simp: InsertAuditEvent_def Let_def chain_row_def chained_def with_stream_def split: sum.splits option.splits if_splits
      dest!: insert_row_cases)

lemma audit_event_cases:
  assumes "audit_event env key t action rt rid before after st = (r, st')" and "plain_action action"
  obtains (refused) x where "r = Inl x" "st' = st"
  | (row) f where "r = Inr ()" "st' = st\<lparr>am_audit := am_audit st @ [f]\<rparr>" "signed key [action] f"
proof -
  obtain tbl where e: "emitAuditEvent (cy_sha256hex (an_crypto env)) (an_fmt env) (an_auditFault env action)
      ((an_audit env action)\<lparr>ac_AdminKeyID := ak_AdminKeyID key\<rparr>) t action rt rid before after (am_audit st) = (r, tbl)"
    and st': "st' = st\<lparr>am_audit := tbl\<rparr>"
    using assms(1) by (auto simp: audit_event_def split: prod.splits)
  from e consider x where "r = Inl x" "tbl = am_audit st"
    | f where "r = Inr ()" "tbl = am_audit st @ [f]" "signed key [action] f"
    using assms(2)
    by (auto simp: emitAuditEvent_def Let_def signed_def plain_action_def split: if_splits option.splits elim!: InsertAuditEvent_row)
  then show ?thesis by cases (use refused row st' in auto)
qed

subsection \<open>Handlers\<close>

lemma audited_error: "\<not> accepted reply \<Longrightarrow> am_audit st' = am_audit st \<Longrightarrow> audited key acts st (reply, st')"
  by (auto simp: audited_def)

lemma signed_mono: "signed key xs e \<Longrightarrow> set xs \<subseteq> set ys \<Longrightarrow> signed key ys e"
  by (auto simp: signed_def)

lemma audited_finish:
  assumes "plain_action action" and "action \<in> set acts" and "am_audit st1 = am_audit st"
  shows "audited key acts st (finish env key t action rt rid before after failure reply st1)"
proof -
  obtain r st2 where a: "audit_event env key t action rt rid before after st1 = (r, st2)" by fastforce
  from a assms(1) show ?thesis
  proof (cases rule: audit_event_cases)
    case (row f)
    with a assms show ?thesis
      by (auto simp: finish_def audited_def intro: signed_mono)
  qed (use assms a in \<open>auto simp: finish_def audited_def\<close>)
qed

lemma config_write_keeps: "config_write env action op st = (r, st') \<Longrightarrow> am_audit st' = am_audit st \<and> am_store st' = am_store st"
  by (auto simp: config_write_def split: prod.splits)

lemma store_write_keeps: "store_write env action op st = (r, st') \<Longrightarrow> am_audit st' = am_audit st \<and> am_store st' = am_store st"
  by (auto simp: store_write_def split: prod.splits)

lemma caches_keep [simp]:
  "am_audit (invalidateTenantCaches t st) = am_audit st" "am_config (invalidateTenantCaches t st) = am_config st"
  "am_store (invalidateTenantCaches t st) = am_store st"
  by (simp_all add: invalidateTenantCaches_def)

lemma audited_setting:
  assumes "plain_action action" and "action \<in> set acts" and "\<And>e. \<not> accepted (refused e)"
  shows "audited key acts st (change_setting env key t action rt rid refused failure before after op st)"
  using assms by (auto simp: change_setting_def split: prod.splits sum.splits intro!: audited_error audited_finish dest!: store_write_keeps)

text \<open>The outcome of a route: refused before anything is written, or audited for the caller.\<close>

definition route_outcome :: "string \<Rightarrow> string list \<Rightarrow> admin_env \<Rightarrow> admin_state \<Rightarrow> admin_outcome \<Rightarrow> bool" where
  "route_outcome scope acts env st out =
     ((\<not> accepted (fst out) \<and> am_config (snd out) = am_config st \<and> am_store (snd out) = am_store st \<and> am_audit (snd out) = am_audit st) \<or>
      (\<exists>key st1. requireAdminScope env scope st = (Inr key, st1) \<and> audited key acts st1 out))"

lemma requireAdminScope_keeps:
  assumes "requireAdminScope env scope st = (r, st')"
  shows "am_config st' = am_config st" "am_store st' = am_store st" "am_audit st' = am_audit st"
  using assms by (auto simp: requireAdminScope_def split: option.splits prod.splits if_splits)

lemma requireAdminScope_scope:
  assumes "requireAdminScope env scope st = (Inr key, st')"
  shows "hasScope (ak_Scopes key) scope"
  using assms
  by (auto simp: requireAdminScope_def HasScopeInList_def AuthenticateAdmin_def split: option.splits prod.splits if_splits sum.splits)

lemma outcome_gated:
  assumes "\<And>key st1. audited key acts st1 (h key st1)"
  shows "route_outcome scope acts env st (gated scope h env st)"
proof -
  obtain r st1 where r: "requireAdminScope env scope st = (r, st1)" by fastforce
  show ?thesis
    using assms requireAdminScope_keeps [OF r] by (cases r) (auto simp: gated_def route_outcome_def r)
qed

lemma outcome_featureGate: "route_outcome scope acts env st (h env st) \<Longrightarrow> route_outcome scope acts env st (featureGate f h env st)"
  by (auto simp: featureGate_def route_outcome_def split: option.splits)

lemmas admin_splits = option.splits sum.splits prod.splits bool.splits
lemmas admin_rules = audited_error audited_finish audited_setting

lemmas plain_action_simps [simp] =
  plain_actions [of Approve, simplified] plain_actions [of Deny, simplified] plain_actions [of Revoke, simplified]
  plain_actions [of Policy_structured, simplified] plain_actions [of Policy_rollback, simplified]
  plain_actions [of Risk_update, simplified] plain_actions [of Risk_delete, simplified]
  plain_actions [of Tool_create, simplified] plain_actions [of Tool_archive, simplified] plain_actions [of Tool_restore, simplified]
  plain_actions [of Tool_config, simplified] plain_actions [of Tool_metadata, simplified]
  plain_actions [of Write_lock, simplified] plain_actions [of Bootstrap_complete, simplified]
  plain_actions [of Approval_ttl, simplified] plain_actions [of Session_ttl, simplified] plain_actions [of Audit_retention, simplified]
  plain_actions [of Default_rate_limit, simplified] plain_actions [of Enforcement_mode, simplified]
  plain_actions [of Passthrough_upstream, simplified] plain_actions [of "Boolean_setting s" for s, simplified]

lemma audited_approval: "plain_action act \<Longrightarrow> route_outcome ''admin:approvals:decide'' [act] env st (handleApprovalDecision s act env st)"
  unfolding handleApprovalDecision_def by (intro outcome_gated) (auto split: admin_splits intro!: admin_rules)

lemma audited_policies:
  "route_outcome (scope_of Policy_create) (actions_of Policy_create) env st (handlePolicyCreate env st)"
  "route_outcome (scope_of Policy_publish) (actions_of Policy_publish) env st (handlePolicyPublish env st)"
  "route_outcome (scope_of Policy_rollback) (actions_of Policy_rollback) env st (handlePolicyRollback env st)"
  "route_outcome (scope_of Policy_update) (actions_of Policy_update) env st (handlePolicyUpdate env st)"
  "route_outcome (scope_of Risk_update) (actions_of Risk_update) env st (handleRiskOverrideUpdate env st)"
  "route_outcome (scope_of Risk_delete) (actions_of Risk_delete) env st (handleRiskOverrideDelete env st)"
  unfolding handlePolicyCreate_def handlePolicyPublish_def handlePolicyRollback_def handlePolicyUpdate_def
    handleRiskOverrideUpdate_def handleRiskOverrideDelete_def scope_of.simps Let_def
  by (intro outcome_gated; auto split: admin_splits intro!: admin_rules dest!: config_write_keeps)+

lemma audited_presence:
  "plain_action action \<Longrightarrow> audited key [action] st (tool_presence env action missing op archived failure key st)"
  unfolding tool_presence_def Let_def
  by (auto split: sum.splits prod.splits intro!: admin_rules dest!: config_write_keeps)

lemma audited_tools:
  "route_outcome (scope_of Tool_create) (actions_of Tool_create) env st (handleToolCreate env st)"
  "route_outcome (scope_of Tool_archive) (actions_of Tool_archive) env st (handleToolArchive env st)"
  "route_outcome (scope_of Tool_restore) (actions_of Tool_restore) env st (handleToolRestore env st)"
  "route_outcome (scope_of Tool_config) (actions_of Tool_config) env st (handleToolConfigUpdate env st)"
  "route_outcome (scope_of Tool_metadata) (actions_of Tool_metadata) env st (handleToolMetadataUpdate env st)"
  unfolding handleToolCreate_def handleToolArchive_def handleToolRestore_def handleToolConfigUpdate_def handleToolMetadataUpdate_def
    scope_of.simps Let_def
  by (intro outcome_gated; auto split: admin_splits intro!: admin_rules audited_presence dest!: config_write_keeps)+

lemma audited_settings:
  "route_outcome (scope_of Write_lock) (actions_of Write_lock) env st (handleAdminWriteLock env st)"
  "route_outcome (scope_of Bootstrap_complete) (actions_of Bootstrap_complete) env st (handleBootstrapComplete env st)"
  "route_outcome (scope_of Approval_ttl) (actions_of Approval_ttl) env st (handleDefaultApprovalTTLUpdate env st)"
  "route_outcome (scope_of Session_ttl) (actions_of Session_ttl) env st (handleSessionTokenTTLUpdate env st)"
  "route_outcome (scope_of Audit_retention) (actions_of Audit_retention) env st (handleAuditRetentionUpdate env st)"
  "route_outcome (scope_of Default_rate_limit) (actions_of Default_rate_limit) env st (handleDefaultRateLimitUpdate env st)"
  "route_outcome (scope_of Enforcement_mode) (actions_of Enforcement_mode) env st (handleEnforcementModeUpdate env st)"
  "route_outcome (scope_of (Boolean_setting s)) (actions_of (Boolean_setting s)) env st (boolean_setting_update s env st)"
  unfolding handleAdminWriteLock_def handleBootstrapComplete_def handleDefaultApprovalTTLUpdate_def handleSessionTokenTTLUpdate_def
    handleAuditRetentionUpdate_def handleDefaultRateLimitUpdate_def handleEnforcementModeUpdate_def
    boolean_setting_update_def handleBooleanSystemSettingUpdate_def scope_of.simps Let_def
  by (intro outcome_gated; auto split: option.splits prod.splits intro!: admin_rules)+

lemma passthrough_tool_error_refuses: "passthrough_tool_error env t i db = Some reply \<Longrightarrow> \<not> accepted reply"
  by (auto simp: passthrough_tool_error_def split: if_splits sum.splits)

lemma audited_passthrough:
  "route_outcome (scope_of Passthrough_upstream) (actions_of Passthrough_upstream) env st (handleMCPPassthroughUpstreamUpdate env st)"
  unfolding handleMCPPassthroughUpstreamUpdate_def scope_of.simps Let_def
  by (intro outcome_gated) (auto split: admin_splits intro!: admin_rules dest: passthrough_tool_error_refuses)

text \<open>A structured policy writes one event, and a second one when it is also published.\<close>

lemma publishStructured_audited:
  assumes "publishStructuredVersion env key t v st = (r, st')"
  shows "\<exists>news. am_audit st' = am_audit st @ news \<and> list_all (signed key (actions_of Policy_structured)) news \<and>
    (case r of Some reply \<Rightarrow> \<not> accepted reply | None \<Rightarrow> True)"
  using assms unfolding publishStructuredVersion_def Let_def
  by (auto split: prod.splits sum.splits dest!: config_write_keeps elim!: audit_event_cases simp: signed_def)

lemma signed_create: "signed key [''POLICY.VERSION.CREATE''] f \<Longrightarrow> signed key (actions_of Policy_structured) f"
  by (auto simp: signed_def)

lemma audited_structured:
  "route_outcome (scope_of Policy_structured) (actions_of Policy_structured) env st (handlePolicyStructuredCreate env st)"
  unfolding handlePolicyStructuredCreate_def scope_of.simps Let_def
  by (intro outcome_gated)
    (auto split: admin_splits simp: audited_def simp del: actions_of.simps
      dest!: config_write_keeps publishStructured_audited elim!: audit_event_cases intro: signed_create)

lemma route_outcome_ok: "route_outcome (scope_of w) (actions_of w) env st (route w env st)"
proof (cases w)
  case Approve
  then show ?thesis using audited_approval [of "''APPROVAL.REQUEST.APPROVE''"] by (simp add: outcome_featureGate handleApprovalApprove_def)
next
  case Deny
  then show ?thesis using audited_approval [of "''APPROVAL.REQUEST.DENY''"] by (simp add: outcome_featureGate handleApprovalDeny_def)
next
  case Revoke
  then show ?thesis using audited_approval [of "''APPROVAL.REQUEST.REVOKE''"] by (simp add: outcome_featureGate handleApprovalRevoke_def)
qed (simp_all only: route.simps audited_policies audited_structured audited_tools audited_settings audited_passthrough
    outcome_featureGate)

text \<open>C22: the write routes on approvals, policies, risk overrides, tools and system settings (those of
  \<open>route\<close>) are authorised and accounted for: if a request to one of them changes the configuration or an
  approval, or is answered with success, then its caller was authenticated for the scope of the route,
  holds that scope, and the audit log grew only by events in the caller's name for the actions of that
  route, by at least one when the answer is success. Nothing is claimed of the other writes: the routes of
  \<open>Tenant_Admin\<close> drop the error of their audit event, those of \<open>License_Admin\<close> and the webhook of
  \<open>Ticketing\<close> have neither scope nor event.\<close>

theorem admin_write_accounted:
  assumes "route w env st = (reply, st')"
    and "accepted reply \<or> am_config st' \<noteq> am_config st \<or> am_store st' \<noteq> am_store st"
  shows "\<exists>key st1 news. requireAdminScope env (scope_of w) st = (Inr key, st1) \<and> hasScope (ak_Scopes key) (scope_of w) \<and>
    am_audit st' = am_audit st @ news \<and> list_all (signed key (actions_of w)) news \<and> (accepted reply \<longrightarrow> news \<noteq> [])"
proof -
  from route_outcome_ok [of w env st] assms obtain key st1 where
      k: "requireAdminScope env (scope_of w) st = (Inr key, st1)" and a: "audited key (actions_of w) st1 (reply, st')"
    by (auto simp: route_outcome_def)
  from a requireAdminScope_keeps(3) [OF k] requireAdminScope_scope [OF k] k show ?thesis
    unfolding audited_def by auto
qed

subsection \<open>Approvals\<close>

lemma finish_keeps [simp]:
  "am_store (snd (finish env key t action rt rid before after failure reply st)) = am_store st"
  "am_config (snd (finish env key t action rt rid before after failure reply st)) = am_config st"
  by (auto simp: finish_def audit_event_def split: prod.splits sum.splits)

lemma finish_store: "finish env key t action rt rid before after failure reply st = (reply', st') \<Longrightarrow> am_store st' = am_store st"
  using finish_keeps(1) [of env key t action rt rid before after failure reply st] by simp

lemma gated_keeps:
  assumes "\<And>key st1. f (snd (h key st1)) = f st1" and "\<And>st1 ks. f (st1\<lparr>am_keys := ks\<rparr>) = f st1"
  shows "f (snd (gated scope h env st)) = f st"
  using assms by (auto simp: gated_def requireAdminScope_def split: sum.splits prod.splits option.splits if_splits)

lemma change_setting_store [simp]:
  "am_store (snd (change_setting env key t action rt rid refused failure before after op st)) = am_store st"
  by (auto simp: change_setting_def store_write_def split: prod.splits sum.splits)

lemma config_write_store: "config_write env action op st = (r, st') \<Longrightarrow> am_store st' = am_store st"
  by (simp add: config_write_keeps)

lemmas admin_handler_defs =
  handlePolicyCreate_def handlePolicyPublish_def handlePolicyRollback_def handlePolicyUpdate_def
  handleRiskOverrideUpdate_def handleRiskOverrideDelete_def handleToolCreate_def handleToolArchive_def handleToolRestore_def
  handleToolConfigUpdate_def handleToolMetadataUpdate_def tool_presence_def

lemmas setting_handler_defs =
  handleAdminWriteLock_def handleBootstrapComplete_def handleDefaultApprovalTTLUpdate_def
  handleSessionTokenTTLUpdate_def handleAuditRetentionUpdate_def handleDefaultRateLimitUpdate_def handleEnforcementModeUpdate_def
  handleMCPPassthroughUpstreamUpdate_def boolean_setting_update_def handleBooleanSystemSettingUpdate_def

lemma publishStructured_store: "publishStructuredVersion env key t v st = (r, st') \<Longrightarrow> am_store st' = am_store st"
  by (auto simp: publishStructuredVersion_def Let_def audit_event_def split: prod.splits sum.splits dest!: config_write_store)

lemma structured_store: "am_store (snd (handlePolicyStructuredCreate env st)) = am_store st"
  unfolding handlePolicyStructuredCreate_def Let_def
  by (rule gated_keeps)
    (auto simp: audit_event_def split: admin_splits dest!: config_write_store publishStructured_store)

lemma featureGate_keeps: "(\<And>env st. f (snd (h env st)) = f st) \<Longrightarrow> f (snd (featureGate g h env st)) = f st"
  by (auto simp: featureGate_def split: option.splits)

lemma admin_handlers_store:
  "am_store (snd (handlePolicyCreate env st)) = am_store st" "am_store (snd (handlePolicyPublish env st)) = am_store st"
  "am_store (snd (handlePolicyRollback env st)) = am_store st" "am_store (snd (handlePolicyUpdate env st)) = am_store st"
  "am_store (snd (handleRiskOverrideUpdate env st)) = am_store st" "am_store (snd (handleRiskOverrideDelete env st)) = am_store st"
  "am_store (snd (handleToolCreate env st)) = am_store st" "am_store (snd (handleToolArchive env st)) = am_store st"
  "am_store (snd (handleToolRestore env st)) = am_store st" "am_store (snd (handleToolConfigUpdate env st)) = am_store st"
  "am_store (snd (handleToolMetadataUpdate env st)) = am_store st"
  unfolding admin_handler_defs Let_def
  by (rule gated_keeps; auto split: admin_splits dest!: config_write_store)+

lemma setting_handlers_store:
  "am_store (snd (handleAdminWriteLock env st)) = am_store st" "am_store (snd (handleBootstrapComplete env st)) = am_store st"
  "am_store (snd (handleDefaultApprovalTTLUpdate env st)) = am_store st" "am_store (snd (handleSessionTokenTTLUpdate env st)) = am_store st"
  "am_store (snd (handleAuditRetentionUpdate env st)) = am_store st" "am_store (snd (handleDefaultRateLimitUpdate env st)) = am_store st"
  "am_store (snd (handleEnforcementModeUpdate env st)) = am_store st"
  "am_store (snd (handleMCPPassthroughUpstreamUpdate env st)) = am_store st" "am_store (snd (boolean_setting_update s env st)) = am_store st"
  unfolding setting_handler_defs Let_def
  by (rule gated_keeps; auto split: admin_splits)+

lemma route_store:
  "w \<noteq> Approve \<Longrightarrow> w \<noteq> Deny \<Longrightarrow> w \<noteq> Revoke \<Longrightarrow> am_store (snd (route w env st)) = am_store st"
  by (cases w) (simp_all add: featureGate_keeps admin_handlers_store setting_handlers_store structured_store)

definition set_approval :: "store_db \<Rightarrow> string \<Rightarrow> approval_request \<Rightarrow> store_db" where
  "set_approval db i a = db\<lparr>approvals := (approvals db)(i \<mapsto> a)\<rparr>"

lemma decide_effect:
  assumes "decide s t i who c ts db = (r, db')" and "s \<in> {APPROVED, DENIED, REVOKED}"
  shows "db' = db \<or> (\<exists>a. approvals db i = Some a \<and> ap_TenantID a = t \<and> ap_Status a = PENDING \<and>
    db' = set_approval db i (a\<lparr>ap_Status := s, ap_DecidedAt := Some ts, ap_DecidedBy := who, ap_DecisionComment := c\<rparr>))"
  using assms by (auto simp: decide_def approval_ops set_approval_def elim!: update_approval_cases split: if_splits)

lemma expire_first_effect:
  assumes "GetApprovalRequest (an_tenantID env) (an_param env) db = Inr before" and "expire_first env before db = (expired, db')"
  shows "\<exists>a. approvals db (an_param env) = Some a \<and> ap_TenantID a = an_tenantID env \<and>
    (if expired then db' = set_approval db (an_param env) (a\<lparr>ap_Status := EXPIRED, ap_DecidedAt := Some (an_now env)\<rparr>)
     else db' = db \<and> (an_write env ''EXPIRE'' 0 = None \<longrightarrow> ap_Status a = PENDING \<longrightarrow> an_now env \<le> ap_ExpiresAt a))"
proof -
  from assms(1) obtain a where row: "approvals db (an_param env) = Some a" "ap_TenantID a = an_tenantID env"
      "ap_Status before = ap_Status a" "ap_ExpiresAt before = ap_ExpiresAt a"
    by (auto simp: GetApprovalRequest_def approval_row_def split: option.splits if_splits)
  then show ?thesis
    using assms(2) unfolding expire_first_def with_fault_def set_approval_def approvalExpired_def MarkApprovalExpired_def
    by (auto simp: affected_result_def update_approval_def approval_row_def split: option.splits if_splits)
qed

lemma decision_effect:
  assumes "handleApprovalDecision s act env st = (reply, st')" and "s \<in> {APPROVED, DENIED, REVOKED}"
  shows "am_store st' = am_store st \<or> (\<exists>a. approvals (am_store st) (an_param env) = Some a \<and> ap_TenantID a = an_tenantID env \<and>
    (am_store st' = set_approval (am_store st) (an_param env) (a\<lparr>ap_Status := EXPIRED, ap_DecidedAt := Some (an_now env)\<rparr>) \<or>
     (\<exists>key st1 c. requireAdminScope env ''admin:approvals:decide'' st = (Inr key, st1) \<and> ap_Status a = PENDING \<and>
        (an_write env ''EXPIRE'' 0 = None \<longrightarrow> an_now env \<le> ap_ExpiresAt a) \<and>
        am_store st' = set_approval (am_store st) (an_param env) (a\<lparr>ap_Status := s, ap_DecidedAt := Some (an_decidedAt env),
          ap_DecidedBy := ak_AdminKeyID key, ap_DecisionComment := c\<rparr>))))"
proof -
  obtain r st1 where r: "requireAdminScope env ''admin:approvals:decide'' st = (r, st1)" by fastforce
  note keeps = requireAdminScope_keeps(2) [OF r]
  show ?thesis
  proof (cases "am_store st' = am_store st1")
    case False
    with assms(1) r obtain key comment before expired db1 where h: "r = Inr key"
        "read_approval env ''GetApprovalRequest'' (am_store st1) = Inr before"
        "expire_first env before (am_store st1) = (expired, db1)" "decision_comment (an_body env) = Some comment"
      by (auto simp: handleApprovalDecision_def gated_def split: sum.splits option.splits prod.splits)
    then have g: "GetApprovalRequest (an_tenantID env) (an_param env) (am_store st1) = Inr before"
      by (auto simp: read_approval_def split: option.splits)
    obtain r2 db2 where d: "with_fault (an_write env act 0)
        (decide s (an_tenantID env) (an_param env) (ak_AdminKeyID key) comment (an_decidedAt env)) db1 = (r2, db2)" by fastforce
    then have d': "db2 = db1 \<or> (\<exists>a. approvals db1 (an_param env) = Some a \<and> ap_TenantID a = an_tenantID env \<and> ap_Status a = PENDING \<and>
        db2 = set_approval db1 (an_param env) (a\<lparr>ap_Status := s, ap_DecidedAt := Some (an_decidedAt env),
          ap_DecidedBy := ak_AdminKeyID key, ap_DecisionComment := comment\<rparr>))"
      using assms(2) by (auto simp: with_fault_def split: option.splits dest!: decide_effect)
    have st': "am_store st' = (if expired then db1 else db2)"
      using assms(1) r h d by (auto simp: handleApprovalDecision_def gated_def split: sum.splits prod.splits dest!: finish_store)
    from expire_first_effect [OF g h(3)] d' r h(1) show ?thesis
      unfolding st' keeps by (cases expired) auto
  qed (simp add: keeps)
qed

text \<open>On these routes an approval is granted only by a deliberate decision: an approval request that becomes
  APPROVED was PENDING, belongs to the tenant of the request, was decided through the approve route by a
  caller with the scope for decisions whose identity is recorded, keeps what was asked for, and had not
  expired unless the store failed to mark it so. The other way to grant one is the webhook of \<open>Ticketing\<close>.\<close>

theorem approval_needs_decider:
  assumes "route w env st = (reply, st')"
    and "approvals (am_store st) i = Some a" and "ap_Status a \<noteq> APPROVED"
    and "approvals (am_store st') i = Some a'" and "ap_Status a' = APPROVED"
  shows "w = Approve \<and> i = an_param env \<and> ap_TenantID a = an_tenantID env \<and> ap_Status a = PENDING \<and> identity_of a' = identity_of a \<and>
    (an_write env ''EXPIRE'' 0 = None \<longrightarrow> an_now env \<le> ap_ExpiresAt a) \<and>
    (\<exists>key st1. requireAdminScope env ''admin:approvals:decide'' st = (Inr key, st1) \<and>
       hasScope (ak_Scopes key) ''admin:approvals:decide'' \<and> ap_DecidedBy a' = ak_AdminKeyID key)"
proof -
  have changed: "am_store st' \<noteq> am_store st" using assms by auto
  then have w: "w \<in> {Approve, Deny, Revoke}" using route_store [of w env st] assms(1) by auto
  then obtain s act where h: "handleApprovalDecision s act env st = (reply, st')"
      "(w, s) \<in> {(Approve, APPROVED), (Deny, DENIED), (Revoke, REVOKED)}"
    using assms(1) changed
    by (auto simp: featureGate_def handleApprovalApprove_def handleApprovalDeny_def handleApprovalRevoke_def split: option.splits if_splits)
  then have "s \<in> {APPROVED, DENIED, REVOKED}" by auto
  from decision_effect [OF h(1) this] changed assms(2-5) h(2) show ?thesis
    by (auto simp: set_approval_def identity_of_def split: if_splits dest: requireAdminScope_scope)
qed

end
