(* ===== verification/Admin_Limits.thy ===== *)
theory Admin_Limits
  imports Admin_Audit
begin

text \<open>
  The values the administration API writes: the bounds of the settings, and what the routes for
  policies and tools let through: a policy is put in force without the scope for publishing, and no
  tool can be created.
\<close>

subsection \<open>Settings\<close>

definition int_setting_ok :: "string \<Rightarrow> int \<Rightarrow> int \<Rightarrow> settings \<Rightarrow> bool" where
  "int_setting_ok k lo hi m =
     (case m k of None \<Rightarrow> True | Some v \<Rightarrow> (case ParseInt v of None \<Rightarrow> False | Some i \<Rightarrow> lo \<le> i \<and> i \<le> hi))"

definition flag_ok :: "string \<Rightarrow> settings \<Rightarrow> bool" where
  "flag_ok k m = (m k \<in> {None, Some ''true'', Some ''false''})"

definition rate_settings_ok :: "settings \<Rightarrow> bool" where
  "rate_settings_ok m =
     (case (m ''default_rate_limit_per_minute'', m ''default_rate_limit_per_day'', m ''default_rate_limit_scope'') of
        (None, None, None) \<Rightarrow> True
      | (Some a, Some b, Some c) \<Rightarrow>
          (case (ParseInt a, ParseInt b) of (Some i, Some j) \<Rightarrow> 0 < i \<and> i \<le> j | _ \<Rightarrow> False) \<and> isRateLimitScope c
      | _ \<Rightarrow> False)"

definition flag_keys :: "string list" where
  "flag_keys =
     [''admin_write_lock'', ''bootstrap_complete''] @
     map setting_key [Disable_x_tenant_key, Feature_rate_limiting, Feature_arg_constraints, Feature_session_tokens,
       Feature_file_governance, Secret_provider_aws, Secret_provider_gcp, Secret_provider_vault, Secret_provider_azure]"

definition settings_ok :: "settings \<Rightarrow> bool" where
  "settings_ok m =
     (int_setting_ok ''default_approval_ttl_seconds'' 60 86400 m \<and> int_setting_ok ''session_token_ttl_seconds'' 60 86400 m \<and>
      int_setting_ok ''audit_retention_days'' 30 3650 m \<and> rate_settings_ok m \<and> list_all (\<lambda>k. flag_ok k m) flag_keys)"

definition keeps_settings :: "config_db \<Rightarrow> 'a result \<Rightarrow> bool" where
  "keeps_settings db r = (cb_settings (snd r) = cb_settings db)"

lemma keeps_next:
  "keeps_settings db r \<Longrightarrow> (\<And>a d. keeps_settings d (f a d)) \<Longrightarrow> keeps_settings db (next_stmt r f)"
  by (auto simp: keeps_settings_def next_stmt_def split: prod.splits sum.splits)

lemma keeps_stmt: "(\<And>d. keeps_settings d (g d)) \<Longrightarrow> keeps_settings db (stmt flt k g db)"
  by (simp add: keeps_settings_def stmt_def split: option.splits)

lemma keeps_base [simp]:
  "keeps_settings db (r, db)" "keeps_settings db (r, db\<lparr>cb_policies := p\<rparr>)" "keeps_settings db (r, db\<lparr>cb_tools := ts\<rparr>)"
  "keeps_settings db (r, db\<lparr>cb_risks := rs\<rparr>)" "keeps_settings db (r, set_configs f db)" "keeps_settings db (r, activate t v now db)"
  by (simp_all add: keeps_settings_def set_configs_def activate_def)

lemma keeps_ensure [simp]: "keeps_settings db (ensureAdminWritesAllowed flt db)"
  by (simp add: ensureAdminWritesAllowed_def keeps_settings_def stmt_def split: option.splits)

lemma config_exec_settings: "cb_settings (snd (config_exec flt now op db)) = cb_settings db"
proof -
  have "keeps_settings db (config_exec flt now op db)"
    by (cases op) (auto simp: config_op_defs bumpTenantConfigVersion_def intro!: keeps_next keeps_stmt)
  then show ?thesis by (simp add: keeps_settings_def)
qed

lemma config_write_settings: "config_write env action op st = (r, st') \<Longrightarrow> cb_settings (am_config st') = cb_settings (am_config st)"
  using config_exec_settings by (auto simp: config_write_def split: prod.splits) (metis snd_conv)

abbreviation settings_of :: "admin_state \<Rightarrow> settings" where "settings_of st \<equiv> cb_settings (am_config st)"

lemma publishStructured_settings: "publishStructuredVersion env key t v st = (r, st') \<Longrightarrow> settings_of st' = settings_of st"
  by (auto simp: publishStructuredVersion_def Let_def audit_event_def split: prod.splits sum.splits dest!: config_write_settings)

lemma structured_settings: "settings_of (snd (handlePolicyStructuredCreate env st)) = settings_of st"
  unfolding handlePolicyStructuredCreate_def Let_def
  by (rule gated_keeps)
    (auto simp: audit_event_def split: admin_splits dest!: config_write_settings publishStructured_settings)

lemma admin_handlers_settings:
  "settings_of (snd (handlePolicyCreate env st)) = settings_of st" "settings_of (snd (handlePolicyPublish env st)) = settings_of st"
  "settings_of (snd (handlePolicyRollback env st)) = settings_of st" "settings_of (snd (handlePolicyUpdate env st)) = settings_of st"
  "settings_of (snd (handleRiskOverrideUpdate env st)) = settings_of st" "settings_of (snd (handleRiskOverrideDelete env st)) = settings_of st"
  "settings_of (snd (handleToolCreate env st)) = settings_of st" "settings_of (snd (handleToolArchive env st)) = settings_of st"
  "settings_of (snd (handleToolRestore env st)) = settings_of st" "settings_of (snd (handleToolConfigUpdate env st)) = settings_of st"
  "settings_of (snd (handleToolMetadataUpdate env st)) = settings_of st"
  unfolding admin_handler_defs Let_def
  by (rule gated_keeps; auto split: admin_splits dest!: config_write_settings)+

lemma decision_settings: "settings_of (snd (handleApprovalDecision s act env st)) = settings_of st"
  unfolding handleApprovalDecision_def by (rule gated_keeps) (auto split: admin_splits)

lemma gated_inv:
  assumes "\<And>key st1. P (settings_of st1) \<Longrightarrow> P (settings_of (snd (h key st1)))" and "P (settings_of st)"
  shows "P (settings_of (snd (gated scope h env st)))"
proof -
  obtain r st1 where r: "requireAdminScope env scope st = (r, st1)" by fastforce
  show ?thesis using assms requireAdminScope_keeps(1) [OF r] by (cases r) (simp_all add: gated_def r)
qed

lemma change_setting_config [simp]:
  "am_config (snd (change_setting env key t action rt rid refused failure before after op st)) = snd (op (an_write env action) (am_config st))"
  by (auto simp: change_setting_def store_write_def split: prod.splits sum.splits)

lemma put_setting_ok:
  "settings_ok (cb_settings db) \<Longrightarrow> settings_ok ((cb_settings db)(k \<mapsto> v)) \<Longrightarrow> settings_ok (cb_settings (snd (put_setting flt n k v db)))"
  by (simp add: put_setting_def stmt_def split: option.splits)

lemma int64_small: "- 100000 \<le> i \<Longrightarrow> i \<le> 100000 \<Longrightarrow> in_int64 i"
  by (simp add: in_int64_def min_int64_def max_int64_def)

lemma int_setting_upd:
  "k' \<noteq> k \<Longrightarrow> int_setting_ok k lo hi (m(k' \<mapsto> v)) = int_setting_ok k lo hi m"
  "in_int64 i \<Longrightarrow> int_setting_ok k lo hi (m(k \<mapsto> int_text i)) = (lo \<le> i \<and> i \<le> hi)"
  by (simp_all add: int_setting_ok_def)

lemma flag_upd:
  "k' \<noteq> k \<Longrightarrow> flag_ok k (m(k' \<mapsto> v)) = flag_ok k m" "flag_ok k m \<Longrightarrow> flag_ok k (m(k' \<mapsto> bool_text b))"
  by (auto simp: flag_ok_def bool_text_def)

lemma not_flags:
  "''default_approval_ttl_seconds'' \<notin> set flag_keys" "''session_token_ttl_seconds'' \<notin> set flag_keys"
  "''audit_retention_days'' \<notin> set flag_keys" "''default_rate_limit_per_minute'' \<notin> set flag_keys"
  "''default_rate_limit_per_day'' \<notin> set flag_keys" "''default_rate_limit_scope'' \<notin> set flag_keys"
  by (simp_all add: flag_keys_def)

lemma rate_settings_upd:
  "k \<notin> {''default_rate_limit_per_minute'', ''default_rate_limit_per_day'', ''default_rate_limit_scope''} \<Longrightarrow>
   rate_settings_ok (m(k \<mapsto> v)) = rate_settings_ok m"
  unfolding rate_settings_ok_def by (subst fun_upd_other, blast)+ (rule refl)

lemma flags_upd: "k \<notin> set flag_keys \<Longrightarrow> list_all (\<lambda>k. flag_ok k m) flag_keys \<Longrightarrow> list_all (\<lambda>k'. flag_ok k' (m(k \<mapsto> v))) flag_keys"
  by (auto simp: list_all_iff flag_ok_def)

lemma settings_ok_int:
  "settings_ok m \<Longrightarrow> 60 \<le> i \<Longrightarrow> i \<le> 86400 \<Longrightarrow> settings_ok (m(''default_approval_ttl_seconds'' \<mapsto> int_text i))"
  "settings_ok m \<Longrightarrow> 60 \<le> i \<Longrightarrow> i \<le> 86400 \<Longrightarrow> settings_ok (m(''session_token_ttl_seconds'' \<mapsto> int_text i))"
  "settings_ok m \<Longrightarrow> 30 \<le> i \<Longrightarrow> i \<le> 3650 \<Longrightarrow> settings_ok (m(''audit_retention_days'' \<mapsto> int_text i))"
  unfolding settings_ok_def by (simp_all add: int64_small int_setting_upd rate_settings_upd flags_upd not_flags)

lemma settings_ok_flag: "k \<in> set flag_keys \<Longrightarrow> settings_ok m \<Longrightarrow> settings_ok (m(k \<mapsto> bool_text b))"
  unfolding settings_ok_def using not_flags by (auto simp: int_setting_ok_def rate_settings_ok_def list_all_iff intro: flag_upd(2))

lemma flag_keys_mem [simp]: "''admin_write_lock'' \<in> set flag_keys" "''bootstrap_complete'' \<in> set flag_keys" "setting_key s \<in> set flag_keys"
  by (simp_all add: flag_keys_def) (cases s; simp)

lemma settings_ok_rates:
  "settings_ok m \<Longrightarrow> 0 < i \<Longrightarrow> i \<le> j \<Longrightarrow> in_int64 i \<Longrightarrow> in_int64 j \<Longrightarrow> isRateLimitScope c \<Longrightarrow>
   settings_ok (m(''default_rate_limit_per_minute'' \<mapsto> int_text i, ''default_rate_limit_per_day'' \<mapsto> int_text j,
     ''default_rate_limit_scope'' \<mapsto> c))"
  unfolding settings_ok_def by (simp add: int_setting_upd flags_upd not_flags) (simp add: rate_settings_ok_def)

lemma SetDefaultRateLimitConfig_ok:
  assumes "settings_ok (cb_settings db)" and "i \<le> j" and "in_int64 i" and "in_int64 j"
  shows "settings_ok (cb_settings (snd (SetDefaultRateLimitConfig flt i j scope db)))"
  using assms settings_ok_rates [OF assms(1), of i j "TrimSpace scope"]
  by (auto simp: SetDefaultRateLimitConfig_def put_setting_def stmt_def split: option.splits)

lemma field_for_mem: "field_for flds k = Some f \<Longrightarrow> \<exists>name. (name, f) \<in> set flds"
proof -
  assume f: "field_for flds k = Some f"
  show ?thesis
  proof (cases "map_of flds k")
    case None
    with f obtain name rest where "filter (\<lambda>(n, _). EqualFold n k) flds = (name, f) # rest"
      by (auto simp: field_for_def split: list.splits)
    then have "(name, f) \<in> set (filter (\<lambda>(n, _). EqualFold n k) flds)" by simp
    then show ?thesis by auto
  qed (use f in \<open>auto simp: field_for_def dest: map_of_SomeD\<close>)
qed

lemma decode_struct_inv:
  assumes "decode_struct flds r m = Some r'" and "P r"
    and "\<And>k f v r r'. (k, f) \<in> set flds \<Longrightarrow> f v r = Some r' \<Longrightarrow> P r \<Longrightarrow> P r'"
  shows "P r'"
  using assms(1,2)
proof (induction m arbitrary: r)
  case (Cons kv m)
  then show ?case by (cases kv) (auto split: option.splits dest!: field_for_mem intro: assms(3))
qed auto

lemma decoded_rates:
  assumes "decode_body rate_limit_fields zero_rate_limit body = Some p"
  shows "in_int64 (rl_PerMinute p) \<and> in_int64 (rl_PerDay p)"
proof -
  obtain m where m: "decode_struct rate_limit_fields zero_rate_limit m = Some p"
    using assms by (auto simp: decode_body_def split: bind_splits)
  show ?thesis
  proof (rule decode_struct_inv [OF m])
    show "in_int64 (rl_PerMinute zero_rate_limit) \<and> in_int64 (rl_PerDay zero_rate_limit)"
      by (simp add: zero_rate_limit_def int64_small)
  next
    fix k f v and r r' :: rate_limit_config
    assume "(k, f) \<in> set rate_limit_fields" "f v r = Some r'" "in_int64 (rl_PerMinute r) \<and> in_int64 (rl_PerDay r)"
    then show "in_int64 (rl_PerMinute r') \<and> in_int64 (rl_PerDay r')"
      by (auto simp: rate_limit_fields_def raw_int_field_def raw_string_field_def int_field_def string_field_def
          split: bind_splits any.splits option.splits) (auto dest!: ParseInt_range)
  qed
qed

lemma bool_true: "''true'' = bool_text True" by (simp add: bool_text_def)

lemma setting_handlers_ok:
  assumes "settings_ok (settings_of st)"
  shows "settings_ok (settings_of (snd (handleAdminWriteLock env st)))" "settings_ok (settings_of (snd (handleBootstrapComplete env st)))"
    "settings_ok (settings_of (snd (handleDefaultApprovalTTLUpdate env st)))" "settings_ok (settings_of (snd (handleSessionTokenTTLUpdate env st)))"
    "settings_ok (settings_of (snd (handleAuditRetentionUpdate env st)))" "settings_ok (settings_of (snd (boolean_setting_update s env st)))"
  unfolding setting_handler_defs
  by (rule gated_inv [where P = settings_ok, OF _ assms];
      auto split: option.splits simp: SetAdminWriteLock_def MarkBootstrapComplete_def SetDefaultApprovalTTLSeconds_def
        SetSessionTokenTTLSeconds_def SetAuditRetentionDays_def setSystemSettingBool_def bool_true
        intro!: put_setting_ok settings_ok_int settings_ok_flag)+

lemma SetTenant_settings:
  "cb_settings (snd (SetTenantEnforcementMode flt now t mode db)) = cb_settings db"
  "cb_settings (snd (SetTenantMCPPassthroughUpstreamToolID flt now t i db)) = cb_settings db"
  using config_exec_settings [of flt now "Op_SetEnforcement t mode"] config_exec_settings [of flt now "Op_SetPassthrough t i"] by simp_all

lemma rate_limit_handler_ok:
  "settings_ok (settings_of st) \<Longrightarrow> settings_ok (settings_of (snd (handleDefaultRateLimitUpdate env st)))"
  unfolding handleDefaultRateLimitUpdate_def Let_def
  by (rule gated_inv [where P = settings_ok]) (auto split: option.splits dest: decoded_rates intro!: SetDefaultRateLimitConfig_ok)

lemma tenant_handlers_settings:
  "settings_of (snd (handleEnforcementModeUpdate env st)) = settings_of st"
  "settings_of (snd (handleMCPPassthroughUpstreamUpdate env st)) = settings_of st"
  unfolding handleEnforcementModeUpdate_def handleMCPPassthroughUpstreamUpdate_def Let_def
  by (rule gated_keeps; auto split: admin_splits simp: SetTenant_settings)+

text \<open>C24: the system settings stay within their bounds: from settings that are well-formed (the lifetimes of
  approvals and sessions between a minute and a day, the retention between 30 and 3650 days, a daily
  rate limit no smaller than the positive limit per minute with a known scope, flags that are true or
  false), no write of the administration API, accepted or refused, leads to settings that are not.\<close>

theorem settings_stay_bounded:
  assumes "settings_ok (cb_settings (am_config st))" and "route w env st = (reply, st')"
  shows "settings_ok (cb_settings (am_config st'))"
proof -
  have "settings_ok (settings_of (snd (route w env st)))"
    using assms(1)
    by (cases w) (simp_all add: featureGate_keeps [where f = settings_of] admin_handlers_settings structured_settings tenant_handlers_settings
        setting_handlers_ok rate_limit_handler_ok decision_settings handleApprovalApprove_def handleApprovalDeny_def handleApprovalRevoke_def)
  then show ?thesis by (simp add: assms(2))
qed

subsection \<open>Creating tools\<close>

lemma tool_payload_refused: "tool_payload_error env p = None \<Longrightarrow> \<not> tool_row_ok (payload_tool t p)"
  by (auto simp: tool_payload_error_def validTransports_def tool_row_ok_def payload_tool_def split: if_splits)

lemma InsertTool_refused: "\<not> tool_row_ok t \<Longrightarrow> \<exists>e. InsertTool flt now t db = (Inl e, db)"
  by (auto simp: InsertTool_def ensureAdminWritesAllowed_def stmt_def split: option.splits)

lemma tool_write_refused:
  "\<not> tool_row_ok t \<Longrightarrow> config_write env action (Op_InsertTool t) st = (r, st') \<Longrightarrow> (\<exists>e. r = Inl e) \<and> am_config st' = am_config st"
  using InsertTool_refused [of t "an_write env action" "an_now env" "am_config st"] by (auto simp: config_write_def)

lemma error_replies: "\<exists>c m. handleBootstrapError e = Adm_error c m" "\<exists>c m. admin_authError e' = Adm_error c m" "\<exists>c m. bad_body = Adm_error c m"
  by (auto simp: handleBootstrapError_def admin_authError_def bad_body_def)

text \<open>The route for creating tools refuses every request: a transport that it accepts, http or mcp, is not
  one that the constraint of the table admits, http\_api or mcp\_streamable\_http, so that no payload is
  answered with success and no tool is stored.\<close>

theorem tool_create_always_refused:
  "(\<exists>c m. fst (handleToolCreate env st) = Adm_error c m) \<and> am_config (snd (handleToolCreate env st)) = am_config st"
proof -
  obtain r st1 where r: "requireAdminScope env ''admin:tools:write'' st = (r, st1)" by fastforce
  show ?thesis
    using requireAdminScope_keeps(1) [OF r] error_replies
    unfolding handleToolCreate_def gated_def r Let_def
    by (auto split: sum.splits option.splits prod.splits dest!: tool_write_refused [OF tool_payload_refused])
qed

subsection \<open>Putting policies in force\<close>

lemma requireAdminScope_other:
  assumes "requireAdminScope env s st = (Inr key, st1)" and "\<not> hasScope (ak_Scopes key) s'"
  shows "requireAdminScope env s' st = (Inl ErrForbidden, st1)"
  using assms
  by (auto simp: requireAdminScope_def HasScopeInList_def AuthenticateAdmin_def split: option.splits prod.splits sum.splits if_splits)

lemma no_faults_eta [simp]: "(\<lambda>k. None) = no_faults"
  by (simp add: no_faults_def fun_eq_iff)

lemma UpdatePolicy_in_force:
  assumes "\<not> write_locked db"
  shows "\<exists>db' c q. UpdatePolicy no_faults now t rego v db = (Inr (), db') \<and> config_of db' t = Some c \<and> tg_ActivePolicyVersion c = v \<and>
    policy_of db' t v = Some q \<and> pn_RegoModule q = rego"
proof -
  let ?row = "\<lparr>pn_TenantID = t, pn_PolicyVersion = v, pn_RegoModule = rego, pn_CreatedAt = now, pn_CreatedBy = [],
    pn_Notes = ''legacy admin policy update'', pn_StructuredJSON = [], pn_AuthoringMode = []\<rparr>"
  define db1 where "db1 = (if policy_of db t v = None then db\<lparr>cb_policies := cb_policies db @ [?row]\<rparr>
    else db\<lparr>cb_policies := update_rows (\<lambda>p. pn_TenantID p = t \<and> pn_PolicyVersion p = v) (\<lambda>p. p\<lparr>pn_RegoModule := rego\<rparr>) (cb_policies db)\<rparr>)"
  have q: "\<exists>q. policy_of db1 t v = Some q \<and> pn_RegoModule q = rego"
    by (auto simp: db1_def policy_of_def find_append find_update_same)
  have "UpdatePolicy no_faults now t rego v db = PublishPolicyVersion no_faults now t v db1"
    using assms by (simp add: UpdatePolicy_def ensure_unlocked db1_def stmt_def)
  moreover have "\<not> write_locked db1" using assms by (simp add: db1_def write_locked_def)
  then have "PublishPolicyVersion no_faults now t v db1 = (Inr (), activate t v now db1)"
    using q by (auto simp: Publish_Inr)
  ultimately show ?thesis using q config_of_activate [of t v now db1] by auto
qed

text \<open>The scope for publishing does not guard what is in force: a caller with the scope for writing
  policies and without the one for publishing them is refused by the publish route, and yet, with an
  unlocked store that meets no fault, the same caller's PUT of a policy stores any module under any
  version and makes it the tenant's active policy, whatever the license says about custom policies.\<close>

theorem write_scope_puts_in_force:
  assumes "requireAdminScope env ''admin:policies:write'' st = (Inr key, st1)"
    and "\<not> hasScope (ak_Scopes key) ''admin:policies:publish''"
    and "decode_body [(''rego_module'', raw_string_field pp_RegoModule_update), (''policy_version'', raw_string_field pp_PolicyVersion_update)]
      zero_policy_payload (an_body env) = Some p"
    and "pp_RegoModule p \<noteq> []" and "pp_PolicyVersion p \<noteq> []"
    and "\<not> write_locked (am_config st)" and "an_write env ''POLICY.UPDATE'' = no_faults"
  shows "fst (handlePolicyPublish env st) = Adm_error 403 ''forbidden'' \<and>
    (\<exists>c q. config_of (am_config (snd (route Policy_update env st))) (an_tenantID env) = Some c \<and>
       tg_ActivePolicyVersion c = pp_PolicyVersion p \<and>
       policy_of (am_config (snd (route Policy_update env st))) (an_tenantID env) (pp_PolicyVersion p) = Some q \<and>
       pn_RegoModule q = pp_RegoModule p)"
proof -
  have s1: "am_config st1 = am_config st" by (rule requireAdminScope_keeps [OF assms(1)])
  from UpdatePolicy_in_force [OF assms(6)] obtain db' c q where u:
      "UpdatePolicy no_faults (an_now env) (an_tenantID env) (pp_RegoModule p) (pp_PolicyVersion p) (am_config st) = (Inr (), db')"
      "config_of db' (an_tenantID env) = Some c" "tg_ActivePolicyVersion c = pp_PolicyVersion p"
      "policy_of db' (an_tenantID env) (pp_PolicyVersion p) = Some q" "pn_RegoModule q = pp_RegoModule p"
    by blast
  have "am_config (snd (handlePolicyUpdate env st)) = db'"
    unfolding handlePolicyUpdate_def gated_def assms(1)
    by (simp add: assms(3-5) Let_def config_write_def assms(7) s1 u(1))
  moreover have "fst (handlePolicyPublish env st) = Adm_error 403 ''forbidden''"
    unfolding handlePolicyPublish_def gated_def requireAdminScope_other [OF assms(1,2)] by (simp add: admin_authError_def)
  ultimately show ?thesis using u by simp
qed

subsection \<open>Concrete requests\<close>

definition sample_admin_env :: "string list \<Rightarrow> string \<Rightarrow> string \<Rightarrow> admin_env" where
  "sample_admin_env scopes param body =
     \<lparr>an_header = (\<lambda>_. []), an_claims = Some (''ann'', scopes), an_tenantID = ''t1'', an_param = param, an_body = body,
      an_crypto = sample_crypto, an_secrets = [], an_keyFault = (\<lambda>_. None), an_upgradeFault = None,
      an_read = (\<lambda>_. no_faults), an_write = (\<lambda>_. no_faults), an_auditFault = (\<lambda>_. no_faults),
      an_audit = (\<lambda>action. \<lparr>ac_AuditEventID = action, ac_AdminKeyID = [], ac_RequestID = [], ac_IP = [], ac_UserAgent = [], ac_now = 9\<rparr>),
      an_now = 9, an_decidedAt = 9, an_fmt = (\<lambda>_. ''0''), an_prepare = (\<lambda>_. True), an_lookupHost = (\<lambda>_. None),
      an_allowPrivate = False, an_entitlements = None\<rparr>"

definition sample_admin_state :: "store_db \<Rightarrow> admin_state" where
  "sample_admin_state db =
     \<lparr>am_keys = [], am_config = sample_config_db, am_store = db, am_audit = [], am_toolCache = None, am_riskCache = None\<rparr>"

definition ann :: "string list \<Rightarrow> admin_key" where
  "ann scopes = \<lparr>ak_AdminKeyID = ''sso:ann'', ak_KeyHash = [], ak_Scopes = scopes\<rparr>"

lemma sample_caller:
  "s \<in> set scopes \<Longrightarrow> requireAdminScope (sample_admin_env scopes param body) s st = (Inr (ann scopes), st)"
  by (simp add: requireAdminScope_def sample_admin_env_def HasScopeInList_def hasScope_def ann_def)

definition lock_body :: string where "lock_body = json_object [(''locked'', ''true'')]"

lemma lock_body_decoded: "decode_body [(''locked'', raw_bool_field id)] False lock_body = Some True"
  by code_simp

abbreviation lock_env :: admin_env where "lock_env \<equiv> sample_admin_env [''admin:settings:write''] [] lock_body"

definition empty_store :: store_db where "empty_store = \<lparr>approvals = Map.empty, decisions = []\<rparr>"

abbreviation lock_state :: admin_state where "lock_state \<equiv> sample_admin_state empty_store"

lemma sample_locked:
  "cb_settings (am_config (snd (route Write_lock lock_env lock_state))) ''admin_write_lock'' = Some ''true''"
proof -
  have "an_body lock_env = lock_body" "an_write lock_env = (\<lambda>_. no_faults)" by (simp_all add: sample_admin_env_def)
  then show ?thesis
    by (simp add: handleAdminWriteLock_def gated_def sample_caller lock_body_decoded SetAdminWriteLock_def put_setting_def bool_text_def)
qed

theorem admin_write_accounted_witness:
  "\<exists>key st1 news. requireAdminScope lock_env (scope_of Write_lock) lock_state = (Inr key, st1) \<and>
     hasScope (ak_Scopes key) (scope_of Write_lock) \<and>
     am_audit (snd (route Write_lock lock_env lock_state)) = am_audit lock_state @ news \<and>
     list_all (signed key (actions_of Write_lock)) news"
proof -
  have "am_config (snd (route Write_lock lock_env lock_state)) \<noteq> am_config lock_state"
    using sample_locked by (auto simp: sample_admin_state_def sample_config_db_def)
  then show ?thesis
    using admin_write_accounted [of Write_lock lock_env lock_state "fst (route Write_lock lock_env lock_state)"
        "snd (route Write_lock lock_env lock_state)"] by auto
qed

theorem settings_stay_bounded_witness:
  "settings_ok (cb_settings (am_config (snd (route Write_lock lock_env lock_state)))) \<and>
   cb_settings (am_config (snd (route Write_lock lock_env lock_state))) ''admin_write_lock'' = Some ''true''"
proof -
  have "settings_ok (cb_settings (am_config lock_state))"
    by (simp add: sample_admin_state_def sample_config_db_def settings_ok_def int_setting_ok_def rate_settings_ok_def flag_ok_def list_all_iff)
  from settings_stay_bounded [OF this, of Write_lock lock_env "fst (route Write_lock lock_env lock_state)"] sample_locked show ?thesis
    by simp
qed

definition pending_approval :: approval_request where
  "pending_approval = \<lparr>ap_ApprovalRequestID = ''ap1'', ap_TenantID = ''t1'', ap_AgentID = ''a'', ap_ToolID = ''jira'',
     ap_ActionType = ''JIRA_READ'', ap_RequestHash = ''rh'', ap_RequestContext = [], ap_Status = PENDING,
     ap_ApprovalTokenHash = ''th'', ap_ExpiresAt = 500, ap_CreatedAt = 0, ap_PolicyVersion = ''v1'',
     ap_DecidedAt = None, ap_DecidedBy = [], ap_DecisionComment = [], ap_ExecutingAt = None,
     ap_ExecutionID = [], ap_ExecutedAt = None, ap_ExecutedRequestID = [], ap_ExecutedDecisionID = [],
     ap_FailedAt = None, ap_LastErrorCode = [], ap_RequestDecisionID = [], ap_ActionSummary = ''read'',
     ap_Risk = ''LOW'', ap_RuleID = ''r1'', ap_Reasons = []\<rparr>"

abbreviation decide_env :: admin_env where "decide_env \<equiv> sample_admin_env [''admin:approvals:decide''] ''ap1'' []"

abbreviation pending_state :: admin_state where
  "pending_state \<equiv> sample_admin_state \<lparr>approvals = [''ap1'' \<mapsto> pending_approval], decisions = []\<rparr>"

definition granted :: approval_request where
  "granted = pending_approval\<lparr>ap_Status := APPROVED, ap_DecidedAt := Some 9, ap_DecidedBy := ''sso:ann'', ap_DecisionComment := []\<rparr>"

lemma sample_granted: "approvals (am_store (snd (route Approve decide_env pending_state))) ''ap1'' = Some granted"
proof -
  have e: "an_body decide_env = []" "an_write decide_env = (\<lambda>_. no_faults)" "an_read decide_env = (\<lambda>_. no_faults)"
      "an_tenantID decide_env = ''t1''" "an_param decide_env = ''ap1''" "an_now decide_env = 9" "an_decidedAt decide_env = 9"
      "an_entitlements decide_env = None" "\<And>db. am_store (sample_admin_state db) = db"
    by (simp_all add: sample_admin_env_def sample_admin_state_def)
  have p: "ap_TenantID pending_approval = ''t1''" "ap_Status pending_approval = PENDING" "ap_ExpiresAt pending_approval = 500"
    by (simp_all add: pending_approval_def)
  have c: "decision_comment [] = Some []" by code_simp
  show ?thesis
    by (simp add: featureGate_def e handleApprovalApprove_def handleApprovalDecision_def gated_def sample_caller c read_approval_def
        GetApprovalRequest_def approval_row_def p expire_first_def approvalExpired_def with_fault_def decide_def
        approval_ops affected_result_def update_approval_def granted_def ann_def)
qed

theorem approval_needs_decider_witness:
  "ap_Status pending_approval = PENDING \<and> identity_of granted = identity_of pending_approval \<and>
   (\<exists>key st1. requireAdminScope decide_env ''admin:approvals:decide'' pending_state = (Inr key, st1) \<and>
      hasScope (ak_Scopes key) ''admin:approvals:decide'' \<and> ap_DecidedBy granted = ak_AdminKeyID key)"
proof -
  have "approvals (am_store pending_state) ''ap1'' = Some pending_approval" "ap_Status pending_approval \<noteq> APPROVED"
      "ap_Status granted = APPROVED"
    by (simp_all add: sample_admin_state_def pending_approval_def granted_def)
  then show ?thesis
    using approval_needs_decider [of Approve decide_env pending_state "fst (route Approve decide_env pending_state)"
        "snd (route Approve decide_env pending_state)" "''ap1''" pending_approval granted] sample_granted by auto
qed

definition policy_body :: string where
  "policy_body = json_object [(''rego_module'', quote ''m9''), (''policy_version'', quote ''v9'')]"

abbreviation writer_env :: admin_env where "writer_env \<equiv> sample_admin_env [''admin:policies:write''] ''v1'' policy_body"

theorem write_scope_puts_in_force_witness:
  "fst (handlePolicyPublish writer_env lock_state) = Adm_error 403 ''forbidden'' \<and>
   (\<exists>c. config_of (am_config (snd (route Policy_update writer_env lock_state))) ''t1'' = Some c \<and> tg_ActivePolicyVersion c = ''v9'')"
proof -
  have e: "an_body writer_env = policy_body" "an_write writer_env = (\<lambda>_. no_faults)" "an_tenantID writer_env = ''t1''"
      "\<not> write_locked (am_config lock_state)" "\<not> hasScope (ak_Scopes (ann [''admin:policies:write''])) ''admin:policies:publish''"
    by (simp_all add: sample_admin_env_def sample_admin_state_def sample_config_db_def write_locked_def ann_def hasScope_def)
  have d: "decode_body [(''rego_module'', raw_string_field pp_RegoModule_update), (''policy_version'', raw_string_field pp_PolicyVersion_update)]
      zero_policy_payload (an_body writer_env) = Some \<lparr>pp_PolicyVersion = ''v9'', pp_RegoModule = ''m9'', pp_Notes = []\<rparr>"
    unfolding e(1) by code_simp
  have k: "requireAdminScope writer_env ''admin:policies:write'' lock_state = (Inr (ann [''admin:policies:write'']), lock_state)"
    by (rule sample_caller) simp
  show ?thesis
    using write_scope_puts_in_force [OF k e(5) d] e(3,4) by (auto simp: e(2))
qed

end
