(* ===== verification/Admin_Sso.thy ===== *)
theory Admin_Sso
  imports Mcp_Gateway Admin_Limits
begin

text \<open>
  Single sign-on for administrators: the OpenID Connect client (\<open>src/internal/auth/oidc.go\<close>), the
  signed sessions it leads to (\<open>src/internal/auth/admin_session.go\<close>), the handlers
  (\<open>src/internal/api/admin/sso.go\<close>) and the middleware that turns a session into the claims
  \<open>requireAdminScope\<close> reads (\<open>requireTenantVisible\<close> of \<open>handlers.go\<close>). The HTTP client, the
  fetch of a key set and the validation of an ID token (package \<open>jwx\<close>), the secret resolver, the MAC and
  the random bytes are parameters. The theorems show that whoever a session speaks for has signed in
  with a verified ID token of an allowed domain, and what an empty configuration gives away.
\<close>

subsection \<open>OpenID Connect\<close>

record oidc_discovery =
  od_Issuer :: string
  od_AuthorizationEndpoint :: string
  od_TokenEndpoint :: string
  od_JWKSURI :: string
  od_UserinfoEndpoint :: string

record oidc_user =
  ou_Subject :: string
  ou_Email :: string
  ou_Name :: string

record oidc_config =
  oc_Enabled :: bool
  oc_Issuer :: string
  oc_ClientID :: string
  oc_ClientSecret :: string
  oc_RedirectURI :: string
  oc_AllowedDomains :: "string list"
  oc_DefaultScopes :: "string list"

text \<open>A key set is represented by its document.\<close>

record oidc_provider =
  op_discovery :: "oidc_discovery option"
  op_keySet :: "string option"
  op_issuer :: string

definition NewOIDCProvider :: oidc_provider where
  "NewOIDCProvider = \<lparr>op_discovery = None, op_keySet = None, op_issuer = []\<rparr>"

record id_token =
  it_Subject :: string
  it_claim :: "string \<Rightarrow> string option"

record sso_env =
  se_admin :: admin_env
  se_client :: http_client
  se_fetchJWKS :: "string \<Rightarrow> string option"
  se_parseJWT :: "string \<Rightarrow> string \<Rightarrow> string \<Rightarrow> string \<Rightarrow> id_token option"
  se_resolver :: "(string \<Rightarrow> string option) option"
  se_mac :: mac
  se_random :: "string option"
  se_code :: string
  se_now :: time
  se_config :: "store_error option"
  se_tenant :: "store_error option"

datatype oidc_error = ErrOIDCDiscoveryFailed | ErrOIDCTokenExchange | ErrOIDCTokenInvalid | ErrOIDCDomainDenied | ErrOIDCNotConfigured

definition discovery_fields :: "(string \<times> oidc_discovery field) list" where
  "discovery_fields =
     [(''issuer'', string_field od_Issuer_update), (''authorization_endpoint'', string_field od_AuthorizationEndpoint_update),
      (''token_endpoint'', string_field od_TokenEndpoint_update), (''jwks_uri'', string_field od_JWKSURI_update),
      (''userinfo_endpoint'', string_field od_UserinfoEndpoint_update)]"

definition zero_discovery :: oidc_discovery where
  "zero_discovery = \<lparr>od_Issuer = [], od_AuthorizationEndpoint = [], od_TokenEndpoint = [], od_JWKSURI = [], od_UserinfoEndpoint = []\<rparr>"

text \<open>At most one mebibyte of an answer is read.\<close>

definition answer_text :: "sso_env \<Rightarrow> connector_request \<Rightarrow> string option" where
  "answer_text env req =
     (case se_client env req of Inl _ \<Rightarrow> None | Inr ans \<Rightarrow> if ha_Status ans \<noteq> 200 then None else Some (take 1048576 (ha_Body ans)))"

definition Discover :: "sso_env \<Rightarrow> string \<Rightarrow> oidc_provider \<Rightarrow> (oidc_error + oidc_discovery) \<times> oidc_provider" where
  "Discover env iss p =
     (case (op_discovery p, op_issuer p = iss) of
        (Some disc, True) \<Rightarrow> (Inr disc, p)
      | _ \<Rightarrow>
          (case answer_text env \<lparr>cq_Method = ''GET'', cq_URL = TrimRight iss (CHR ''/'') @ ''/.well-known/openid-configuration'',
                                 cq_Headers = [], cq_Body = []\<rparr> of
             None \<Rightarrow> (Inl ErrOIDCDiscoveryFailed, p)
           | Some body \<Rightarrow>
               (case Option.bind (decode_members body) (decode_struct discovery_fields zero_discovery) of
                  None \<Rightarrow> (Inl ErrOIDCDiscoveryFailed, p)
                | Some disc \<Rightarrow>
                    if od_JWKSURI disc = [] then (Inl ErrOIDCDiscoveryFailed, p)
                    else (case se_fetchJWKS env (od_JWKSURI disc) of
                            None \<Rightarrow> (Inl ErrOIDCDiscoveryFailed, p)
                          | Some keySet \<Rightarrow> (Inr disc, \<lparr>op_discovery = Some disc, op_keySet = Some keySet, op_issuer = iss\<rparr>)))))"

text \<open>\<open>url.Values.Encode\<close>: the keys in order.\<close>

definition form :: "(string \<times> string) list \<Rightarrow> string" where
  "form kvs = Join ''&'' (map (\<lambda>(k, v). k @ ''='' @ QueryEscape v) kvs)"

definition AuthorizationURL :: "oidc_config \<Rightarrow> string \<Rightarrow> oidc_provider \<Rightarrow> oidc_error + string" where
  "AuthorizationURL config state p =
     (case op_discovery p of
        None \<Rightarrow> Inl ErrOIDCNotConfigured
      | Some disc \<Rightarrow>
          if od_AuthorizationEndpoint disc = [] then Inl ErrOIDCNotConfigured
          else Inr (od_AuthorizationEndpoint disc @ ''?'' @
                 form [(''client_id'', oc_ClientID config), (''redirect_uri'', oc_RedirectURI config), (''response_type'', ''code''),
                       (''scope'', ''openid email profile''), (''state'', state)]))"

definition token_response_fields :: "(string \<times> (string \<times> int) field) list" where
  "token_response_fields =
     [(''id_token'', string_field apfst), (''access_token'', string_field (\<lambda>_ r. r)), (''token_type'', string_field (\<lambda>_ r. r)),
      (''expires_in'', int_field apsnd), (''refresh_token'', string_field (\<lambda>_ r. r))]"

text \<open>The ID token of the answer; the other members are decoded and not used.\<close>

definition ExchangeCode :: "sso_env \<Rightarrow> oidc_config \<Rightarrow> string \<Rightarrow> oidc_provider \<Rightarrow> oidc_error + string" where
  "ExchangeCode env config code p =
     (case op_discovery p of
        None \<Rightarrow> Inl ErrOIDCNotConfigured
      | Some disc \<Rightarrow>
          if od_TokenEndpoint disc = [] then Inl ErrOIDCNotConfigured
          else (case answer_text env \<lparr>cq_Method = ''POST'', cq_URL = od_TokenEndpoint disc,
                       cq_Headers = [(''Content-Type'', ''application/x-www-form-urlencoded'')],
                       cq_Body = form [(''client_id'', oc_ClientID config), (''client_secret'', oc_ClientSecret config), (''code'', code),
                                       (''grant_type'', ''authorization_code''), (''redirect_uri'', oc_RedirectURI config)]\<rparr> of
                  None \<Rightarrow> Inl ErrOIDCTokenExchange
                | Some body \<Rightarrow>
                    (case Option.bind (decode_members body) (decode_struct token_response_fields ([], 0)) of
                       None \<Rightarrow> Inl ErrOIDCTokenExchange
                     | Some (idToken, _) \<Rightarrow> if idToken = [] then Inl ErrOIDCTokenExchange else Inr idToken)))"

definition claimString :: "id_token \<Rightarrow> string \<Rightarrow> string" where
  "claimString token key = (case it_claim token key of None \<Rightarrow> [] | Some v \<Rightarrow> v)"

definition emailDomain :: "string \<Rightarrow> string" where
  "emailDomain email = (case Cut email (CHR ''@'') of None \<Rightarrow> [] | Some (_, domain) \<Rightarrow> ToLower domain)"

definition domainAllowed :: "string \<Rightarrow> string list \<Rightarrow> bool" where
  "domainAllowed domain allowed = list_ex (EqualFold domain) allowed"

definition ValidateIDToken :: "sso_env \<Rightarrow> string \<Rightarrow> oidc_config \<Rightarrow> oidc_provider \<Rightarrow> oidc_error + oidc_user" where
  "ValidateIDToken env rawToken config p =
     (case op_keySet p of
        None \<Rightarrow> Inl ErrOIDCNotConfigured
      | Some keySet \<Rightarrow>
          (case se_parseJWT env keySet (oc_Issuer config) (oc_ClientID config) rawToken of
             None \<Rightarrow> Inl ErrOIDCTokenInvalid
           | Some token \<Rightarrow>
               (let email = claimString token ''email'' in
                if email = [] then Inl ErrOIDCTokenInvalid
                else if oc_AllowedDomains config \<noteq> [] \<and> \<not> domainAllowed (emailDomain email) (oc_AllowedDomains config)
                then Inl ErrOIDCDomainDenied
                else Inr \<lparr>ou_Subject = it_Subject token, ou_Email = email, ou_Name = claimString token ''name''\<rparr>)))"

subsection \<open>Admin sessions\<close>

datatype admin_session_error = ErrAdminSessionExpired | ErrAdminSessionInvalid | ErrAdminSessionRevoked

record admin_session_claims =
  as_SessionID :: string
  as_Email :: string
  as_Name :: string
  as_Subject :: string
  as_Scopes :: "string list"
  as_IssuedAt :: int
  as_ExpiresAt :: int
  as_AuthType :: string

definition admin_marshal :: "admin_session_claims \<Rightarrow> string" where
  "admin_marshal c = struct_text
     [(''sid'', Str_v (as_SessionID c)), (''email'', Str_v (as_Email c)), (''name'', Str_v (as_Name c)), (''sub'', Str_v (as_Subject c)),
      (''scopes'', List_v (map Str_v (as_Scopes c))), (''iat'', Int_v (as_IssuedAt c)), (''exp'', Int_v (as_ExpiresAt c)),
      (''auth_type'', Str_v (as_AuthType c))]"

definition admin_session_fields :: "(string \<times> admin_session_claims field) list" where
  "admin_session_fields =
     [(''sid'', string_field as_SessionID_update), (''email'', string_field as_Email_update), (''name'', string_field as_Name_update),
      (''sub'', string_field as_Subject_update), (''scopes'', string_list_field as_Scopes_update), (''iat'', int_field as_IssuedAt_update),
      (''exp'', int_field as_ExpiresAt_update), (''auth_type'', string_field as_AuthType_update)]"

definition zero_admin_claims :: admin_session_claims where
  "zero_admin_claims = \<lparr>as_SessionID = [], as_Email = [], as_Name = [], as_Subject = [], as_Scopes = [], as_IssuedAt = 0, as_ExpiresAt = 0,
     as_AuthType = []\<rparr>"

definition admin_unmarshal :: "string \<Rightarrow> admin_session_claims option" where
  "admin_unmarshal s = Option.bind (decode_members s) (decode_struct admin_session_fields zero_admin_claims)"

definition admin_times_ok :: "admin_session_claims \<Rightarrow> bool" where
  "admin_times_ok c = (in_int64 (as_IssuedAt c) \<and> in_int64 (as_ExpiresAt c))"

lemma string_list_roundtrip: "string_list_field upd (List_v (map Str_v xs)) r = Some (upd (\<lambda>_. xs) r)"
  by (simp add: string_list_field_def list_all_iff comp_def)

lemma admin_members:
  "decode_members (admin_marshal c) = Some
     [(''sid'', Str_v (as_SessionID c)), (''email'', Str_v (as_Email c)), (''name'', Str_v (as_Name c)), (''sub'', Str_v (as_Subject c)),
      (''scopes'', List_v (map Str_v (as_Scopes c))), (''iat'', Number_v (int_text (as_IssuedAt c))),
      (''exp'', Number_v (int_text (as_ExpiresAt c))), (''auth_type'', Str_v (as_AuthType c))]"
  unfolding admin_marshal_def by (subst decode_members_struct_text) (auto simp: list_all_iff comp_def)

lemma admin_roundtrip: "admin_times_ok c \<Longrightarrow> admin_unmarshal (admin_marshal c) = Some c"
  by (simp add: admin_unmarshal_def admin_members admin_session_fields_def
      field_for_def string_field_def int_field_def string_list_roundtrip zero_admin_claims_def admin_times_ok_def)

interpretation admin_codec: claims_codec admin_marshal admin_unmarshal admin_times_ok
  by unfold_locales (rule admin_roundtrip)

text \<open>Eight hours, and ten minutes.\<close>

definition AdminSessionTTL :: int where "AdminSessionTTL = 28800 * ns_per_second"

definition adminSessionCachePadding :: int where "adminSessionCachePadding = 600 * ns_per_second"

record admin_session_manager =
  ad_signingKey :: string
  ad_ttl :: int
  ad_sessions :: "admin_session_claims ttl_cache"

definition newAdminSessionManagerWithKey :: "string \<Rightarrow> int \<Rightarrow> admin_session_manager" where
  "newAdminSessionManagerWithKey key ttl = \<lparr>ad_signingKey = key, ad_ttl = ttl, ad_sessions = New (ttl + adminSessionCachePadding)\<rparr>"

definition generateAdminSessionID :: "string \<Rightarrow> string" where
  "generateAdminSessionID bytes = ''rbas_'' @ EncodeToString bytes"

definition admin_claims :: "int \<Rightarrow> oidc_user \<Rightarrow> string list \<Rightarrow> string \<Rightarrow> time \<Rightarrow> admin_session_claims" where
  "admin_claims ttl user scopes bytes now =
     \<lparr>as_SessionID = generateAdminSessionID bytes, as_Email = ou_Email user, as_Name = ou_Name user, as_Subject = ou_Subject user,
      as_Scopes = scopes, as_IssuedAt = Unix now, as_ExpiresAt = Unix (now + ttl), as_AuthType = ''oidc''\<rparr>"

definition IssueSession ::
  "mac \<Rightarrow> oidc_user \<Rightarrow> string list \<Rightarrow> string option \<Rightarrow> time \<Rightarrow> admin_session_manager
   \<Rightarrow> (string \<times> admin_session_claims) option \<times> admin_session_manager" where
  "IssueSession mac user scopes random now m =
     (case random of
        None \<Rightarrow> (None, m)
      | Some bytes \<Rightarrow>
          (let claims = admin_claims (ad_ttl m) user scopes bytes now
           in (Some (sign_payload mac (ad_signingKey m) (admin_marshal claims), claims),
               m\<lparr>ad_sessions := Put (as_SessionID claims) claims now (ad_sessions m)\<rparr>)))"

definition admin_verifyClaims :: "mac \<Rightarrow> string \<Rightarrow> admin_session_manager \<Rightarrow> admin_session_error + admin_session_claims" where
  "admin_verifyClaims mac token m =
     (case Option.bind (open_token mac (ad_signingKey m) token) admin_unmarshal of None \<Rightarrow> Inl ErrAdminSessionInvalid | Some c \<Rightarrow> Inr c)"

definition ValidateSession ::
  "mac \<Rightarrow> string \<Rightarrow> time \<Rightarrow> admin_session_manager \<Rightarrow> (admin_session_error + admin_session_claims) \<times> admin_session_manager" where
  "ValidateSession mac token now m =
     (case admin_verifyClaims mac token m of
        Inl e \<Rightarrow> (Inl e, m)
      | Inr claims \<Rightarrow>
          if Unix now > as_ExpiresAt claims then (Inl ErrAdminSessionExpired, m)
          else (case Get (as_SessionID claims) now (ad_sessions m) of
                  (None, c) \<Rightarrow> (Inl ErrAdminSessionRevoked, m\<lparr>ad_sessions := c\<rparr>)
                | (Some _, c) \<Rightarrow> (Inr claims, m\<lparr>ad_sessions := c\<rparr>)))"

definition admin_RevokeSession :: "string \<Rightarrow> admin_session_manager \<Rightarrow> admin_session_manager" where
  "admin_RevokeSession sessionID m = m\<lparr>ad_sessions := Invalidate sessionID (ad_sessions m)\<rparr>"

definition IsAdminSessionToken :: "string \<Rightarrow> bool" where
  "IsAdminSessionToken token =
     (case Cut token (CHR ''.'') of
        None \<Rightarrow> False
      | Some (payload, _) \<Rightarrow> (case DecodeString payload of None \<Rightarrow> False | Some p \<Rightarrow> Contains p ''rbas_''))"


subsection \<open>Configuration\<close>

record sso_config =
  sf_Enabled :: bool
  sf_Issuer :: string
  sf_ClientID :: string
  sf_ClientSecretRef :: string
  sf_RedirectURI :: string
  sf_AllowedDomains :: string
  sf_DefaultScopes :: string

definition setting_or_empty :: "config_db \<Rightarrow> string \<Rightarrow> string" where
  "setting_or_empty db k = (case cb_settings db k of None \<Rightarrow> [] | Some v \<Rightarrow> v)"

definition GetSSOConfig :: "store_error option \<Rightarrow> config_db \<Rightarrow> store_error + sso_config" where
  "GetSSOConfig flt db =
     (case flt of
        Some e \<Rightarrow> Inl e
      | None \<Rightarrow> (let val = setting_or_empty db in
          Inr \<lparr>sf_Enabled = (val ''sso_enabled'' = ''true''), sf_Issuer = val ''sso_issuer'', sf_ClientID = val ''sso_client_id'',
               sf_ClientSecretRef = val ''sso_client_secret_ref'', sf_RedirectURI = val ''sso_redirect_uri'',
               sf_AllowedDomains = val ''sso_allowed_domains'', sf_DefaultScopes = val ''sso_default_scopes''\<rparr>))"

text \<open>One transaction: begin, six statements, commit.\<close>

definition SetSSOConfig :: "sso_config \<Rightarrow> faults \<Rightarrow> config_db \<Rightarrow> unit result" where
  "SetSSOConfig c flt db =
     (case List.map_filter flt [0..<8] of
        e # _ \<Rightarrow> (Inl e, db)
      | [] \<Rightarrow> (Inr (), db\<lparr>cb_settings := (cb_settings db)
             (''sso_issuer'' \<mapsto> sf_Issuer c, ''sso_client_id'' \<mapsto> sf_ClientID c, ''sso_client_secret_ref'' \<mapsto> sf_ClientSecretRef c,
              ''sso_redirect_uri'' \<mapsto> sf_RedirectURI c, ''sso_allowed_domains'' \<mapsto> sf_AllowedDomains c,
              ''sso_default_scopes'' \<mapsto> sf_DefaultScopes c)\<rparr>))"

definition parseCSV :: "string \<Rightarrow> string list" where
  "parseCSV s = (if TrimSpace s = [] then [] else filter (\<lambda>p. p \<noteq> []) (map TrimSpace (Split (CHR '','') s)))"

definition ssoConfigToOIDC :: "sso_config \<Rightarrow> oidc_config" where
  "ssoConfigToOIDC cfg =
     \<lparr>oc_Enabled = sf_Enabled cfg, oc_Issuer = sf_Issuer cfg, oc_ClientID = sf_ClientID cfg, oc_ClientSecret = [],
      oc_RedirectURI = sf_RedirectURI cfg, oc_AllowedDomains = parseCSV (sf_AllowedDomains cfg),
      oc_DefaultScopes = parseCSV (sf_DefaultScopes cfg)\<rparr>"

definition sso_fields :: "(string \<times> sso_config raw_field) list" where
  "sso_fields =
     [(''issuer'', raw_string_field sf_Issuer_update), (''client_id'', raw_string_field sf_ClientID_update),
      (''client_secret_ref'', raw_string_field sf_ClientSecretRef_update), (''redirect_uri'', raw_string_field sf_RedirectURI_update),
      (''allowed_domains'', raw_string_field sf_AllowedDomains_update), (''default_scopes'', raw_string_field sf_DefaultScopes_update)]"

definition zero_sso_config :: sso_config where
  "zero_sso_config = \<lparr>sf_Enabled = False, sf_Issuer = [], sf_ClientID = [], sf_ClientSecretRef = [], sf_RedirectURI = [], sf_AllowedDomains = [],
     sf_DefaultScopes = []\<rparr>"

definition sso_audit :: "sso_config \<Rightarrow> gomap" where
  "sso_audit c = [(''issuer'', Str_v (sf_Issuer c)), (''client_id'', Str_v (sf_ClientID c))]"

definition handleSSOConfigUpdate :: "admin_env \<Rightarrow> admin_state \<Rightarrow> admin_outcome" where
  "handleSSOConfigUpdate env = gated ''admin:settings:write'' (\<lambda>key st.
     case decode_body sso_fields zero_sso_config (an_body env) of
       None \<Rightarrow> (bad_body, st)
     | Some p \<Rightarrow>
         if TrimSpace (sf_Issuer p) = [] then (Adm_error 400 ''issuer is required'', st)
         else if TrimSpace (sf_ClientID p) = [] then (Adm_error 400 ''client_id is required'', st)
         else change_setting env key [] ''SSO.CONFIG.UPDATE'' ''SETTINGS'' ''sso_config'' (failed ''failed to update SSO config'')
                ''failed to audit SSO config update''
                (sso_audit (or_zero zero_sso_config (GetSSOConfig (an_read env ''before'' 0) (am_config st)))) (sso_audit p)
                (SetSSOConfig p) st) env"

definition handleSSOEnabledUpdate :: "admin_env \<Rightarrow> admin_state \<Rightarrow> admin_outcome" where
  "handleSSOEnabledUpdate = handleBooleanSystemSettingUpdate ''SSO.ENABLED.UPDATE'' ''sso_enabled''"

subsection \<open>Handlers\<close>

record sso_state =
  ss_provider :: "oidc_provider option"
  ss_manager :: "admin_session_manager option"
  ss_admin :: admin_state
  ss_tenants :: tenant_db

datatype sso_reply =
    Sso_error int string
  | Sso_empty int
  | Sso_enabled bool
  | Sso_settings sso_config
  | Sso_authorize string string
  | Sso_session string int string string

definition handleSSOStatus :: "sso_env \<Rightarrow> sso_state \<Rightarrow> sso_reply" where
  "handleSSOStatus env s =
     Sso_enabled (case GetSSOConfig (se_config env) (am_config (ss_admin s)) of Inl _ \<Rightarrow> False | Inr cfg \<Rightarrow> sf_Enabled cfg)"

definition handleSSOConfigGet :: "sso_env \<Rightarrow> sso_state \<Rightarrow> sso_reply \<times> sso_state" where
  "handleSSOConfigGet env s =
     (case requireAdminScope (se_admin env) ''admin:settings:read'' (ss_admin s) of
        (Inl e, st1) \<Rightarrow> (case admin_authError e of Adm_error code msg \<Rightarrow> Sso_error code msg | _ \<Rightarrow> Sso_error 500 ''auth error'', s\<lparr>ss_admin := st1\<rparr>)
      | (Inr key, st1) \<Rightarrow>
          (case GetSSOConfig (se_config env) (am_config st1) of
             Inl _ \<Rightarrow> Sso_error 500 ''failed to load SSO config'' | Inr cfg \<Rightarrow> Sso_settings cfg, s\<lparr>ss_admin := st1\<rparr>))"

definition enabled_config :: "sso_env \<Rightarrow> sso_state \<Rightarrow> sso_config option" where
  "enabled_config env s =
     (case GetSSOConfig (se_config env) (am_config (ss_admin s)) of Inl _ \<Rightarrow> None | Inr cfg \<Rightarrow> if sf_Enabled cfg then Some cfg else None)"

definition generateState :: "string option \<Rightarrow> string option" where
  "generateState random = map_option EncodeToString random"

definition handleSSOAuthorize :: "sso_env \<Rightarrow> sso_state \<Rightarrow> sso_reply \<times> sso_state" where
  "handleSSOAuthorize env s =
     (case (ss_provider s, ss_manager s) of
        (Some p, Some _) \<Rightarrow>
          (case enabled_config env s of
             None \<Rightarrow> (Sso_error 400 ''SSO is not enabled'', s)
           | Some cfg \<Rightarrow>
               (case Discover env (oc_Issuer (ssoConfigToOIDC cfg)) p of
                  (Inl _, p1) \<Rightarrow> (Sso_error 502 ''OIDC discovery failed'', s\<lparr>ss_provider := Some p1\<rparr>)
                | (Inr _, p1) \<Rightarrow>
                    (case generateState (se_random env) of
                       None \<Rightarrow> Sso_error 500 ''failed to generate state''
                     | Some st \<Rightarrow>
                         (case AuthorizationURL (ssoConfigToOIDC cfg) st p1 of
                            Inl _ \<Rightarrow> Sso_error 500 ''failed to build authorization URL''
                          | Inr u \<Rightarrow> Sso_authorize u st), s\<lparr>ss_provider := Some p1\<rparr>)))
      | _ \<Rightarrow> (Sso_error 501 ''SSO not configured'', s))"

definition resolveClientSecret :: "sso_env \<Rightarrow> string \<Rightarrow> string option" where
  "resolveClientSecret env ref = (case se_resolver env of Some resolve \<Rightarrow> resolve ref | None \<Rightarrow> Some ref)"

definition sso_scopes :: "sso_config \<Rightarrow> string list" where
  "sso_scopes cfg = (let scopes = parseCSV (sf_DefaultScopes cfg) in if scopes = [] then [''admin:read'', ''admin:write''] else scopes)"

text \<open>The part of the callback that finds out who signs in, and its end.\<close>

definition sso_user :: "sso_env \<Rightarrow> sso_config \<Rightarrow> oidc_provider \<Rightarrow> sso_reply + oidc_user" where
  "sso_user env cfg p =
     (case resolveClientSecret env (sf_ClientSecretRef cfg) of
        None \<Rightarrow> Inl (Sso_error 500 ''failed to resolve client secret'')
      | Some secret \<Rightarrow>
          (let config = (ssoConfigToOIDC cfg)\<lparr>oc_ClientSecret := secret\<rparr> in
           case ExchangeCode env config (se_code env) p of
             Inl _ \<Rightarrow> Inl (Sso_error 502 ''token exchange failed'')
           | Inr idToken \<Rightarrow>
               (case ValidateIDToken env idToken config p of
                  Inl _ \<Rightarrow> Inl (Sso_error 401 ''invalid ID token'') | Inr user \<Rightarrow> Inr user)))"

definition handleSSOCallback :: "sso_env \<Rightarrow> sso_state \<Rightarrow> sso_reply \<times> sso_state" where
  "handleSSOCallback env s =
     (case (ss_provider s, ss_manager s) of
        (Some p, Some m) \<Rightarrow>
          if se_code env = [] then (Sso_error 400 ''missing authorization code'', s)
          else (case enabled_config env s of
                  None \<Rightarrow> (Sso_error 400 ''SSO is not enabled'', s)
                | Some cfg \<Rightarrow>
                    (case sso_user env cfg p of
                       Inl reply \<Rightarrow> (reply, s)
                     | Inr user \<Rightarrow>
                         (case IssueSession (se_mac env) user (sso_scopes cfg) (se_random env) (se_now env) m of
                            (None, m1) \<Rightarrow> (Sso_error 500 ''failed to create session'', s\<lparr>ss_manager := Some m1\<rparr>)
                          | (Some (token, claims), m1) \<Rightarrow>
                              (Sso_session token (as_ExpiresAt claims) (as_Email claims) (as_Name claims), s\<lparr>ss_manager := Some m1\<rparr>))))
      | _ \<Rightarrow> (Sso_error 501 ''SSO not configured'', s))"

definition handleSSOLogout :: "sso_env \<Rightarrow> sso_state \<Rightarrow> sso_reply \<times> sso_state" where
  "handleSSOLogout env s =
     (case ss_manager s of
        None \<Rightarrow> (Sso_error 501 ''SSO not configured'', s)
      | Some m \<Rightarrow>
          (let token = AdminKeyFromRequest (an_header (se_admin env)) in
           if \<not> IsAdminSessionToken token then (Sso_error 400 ''not an SSO session'', s)
           else (case ValidateSession (se_mac env) token (se_now env) m of
                   (Inl _, m1) \<Rightarrow> (Sso_error 401 ''invalid session'', s\<lparr>ss_manager := Some m1\<rparr>)
                 | (Inr claims, m1) \<Rightarrow> (Sso_empty 204, s\<lparr>ss_manager := Some (admin_RevokeSession (as_SessionID claims) m1)\<rparr>))))"

text \<open>The middleware: an error reply, or the claims the handler behind it runs with.\<close>

definition requireTenantVisibleContinue :: "sso_env \<Rightarrow> sso_state \<Rightarrow> sso_reply option" where
  "requireTenantVisibleContinue env s =
     (let tenantID = an_tenantID (se_admin env) in
      if tenantID = [] then None
      else (case GetTenant (se_tenant env) tenantID (am_config (ss_admin s)) (ss_tenants s) of
              Inl e \<Rightarrow> Some (if e = ErrNotFound then Sso_error 404 ''tenant not found'' else Sso_error 500 ''failed to load tenant'')
            | Inr _ \<Rightarrow> None))"

definition sso_auth_reply :: "auth_error \<Rightarrow> sso_reply" where
  "sso_auth_reply e = (case admin_authError e of Adm_error code msg \<Rightarrow> Sso_error code msg | _ \<Rightarrow> Sso_error 500 ''auth error'')"

definition continue :: "sso_env \<Rightarrow> admin_session_claims option \<Rightarrow> sso_state \<Rightarrow> (sso_reply + admin_session_claims option) \<times> sso_state" where
  "continue env claims s = (case requireTenantVisibleContinue env s of Some reply \<Rightarrow> Inl reply | None \<Rightarrow> Inr claims, s)"

definition requireTenantVisible :: "sso_env \<Rightarrow> sso_state \<Rightarrow> (sso_reply + admin_session_claims option) \<times> sso_state" where
  "requireTenantVisible env s =
     (let aenv = se_admin env; token = AdminKeyFromRequest (an_header aenv);
          by_key = (case AuthenticateAdminAny (an_keyFault aenv) (an_upgradeFault aenv) (an_crypto aenv) (an_secrets aenv) token (am_keys (ss_admin s)) of
                      (Inl e, ks) \<Rightarrow> (Inl (sso_auth_reply e), s\<lparr>ss_admin := (ss_admin s)\<lparr>am_keys := ks\<rparr>\<rparr>)
                    | (Inr _, ks) \<Rightarrow> continue env None (s\<lparr>ss_admin := (ss_admin s)\<lparr>am_keys := ks\<rparr>\<rparr>))
      in case ss_manager s of
           None \<Rightarrow> by_key
         | Some m \<Rightarrow>
             if \<not> IsAdminSessionToken token then by_key
             else (case ValidateSession (se_mac env) token (se_now env) m of
                     (Inl _, m1) \<Rightarrow> (Inl (sso_auth_reply ErrUnauthorized), s\<lparr>ss_manager := Some m1\<rparr>)
                   | (Inr claims, m1) \<Rightarrow> continue env (Some claims) (s\<lparr>ss_manager := Some m1\<rparr>)))"

text \<open>A request on a route of a tenant: the handler sees the identity and the scopes of the claims.\<close>

definition with_claims :: "admin_session_claims option \<Rightarrow> admin_env \<Rightarrow> admin_env" where
  "with_claims claims aenv = aenv\<lparr>an_claims := map_option (\<lambda>c. (as_Email c, as_Scopes c)) claims\<rparr>"


subsection \<open>Runs\<close>

text \<open>The claims a callback signs, and the session a logout ends.\<close>

definition login_claims :: "sso_env \<Rightarrow> sso_state \<Rightarrow> admin_session_claims option" where
  "login_claims env s =
     (case (ss_provider s, ss_manager s, enabled_config env s, se_random env) of
        (Some p, Some m, Some cfg, Some bytes) \<Rightarrow>
          if se_code env = [] then None
          else (case sso_user env cfg p of
                  Inl _ \<Rightarrow> None | Inr user \<Rightarrow> Some (admin_claims (ad_ttl m) user (sso_scopes cfg) bytes (se_now env)))
      | _ \<Rightarrow> None)"

definition ended_session :: "sso_env \<Rightarrow> sso_state \<Rightarrow> string option" where
  "ended_session env s =
     (case ss_manager s of
        None \<Rightarrow> None
      | Some m \<Rightarrow>
          (let token = AdminKeyFromRequest (an_header (se_admin env)) in
           if \<not> IsAdminSessionToken token then None
           else (case fst (ValidateSession (se_mac env) token (se_now env) m) of Inl _ \<Rightarrow> None | Inr c \<Rightarrow> Some (as_SessionID c))))"

datatype sso_event = Login sso_env sso_state | Logout string

fun event_claims :: "sso_event \<Rightarrow> admin_session_claims option" where
  "event_claims (Login env s) = login_claims env s"
| "event_claims (Logout _) = None"

definition login_events :: "sso_env \<Rightarrow> sso_state \<Rightarrow> sso_event list" where
  "login_events env s = (case login_claims env s of None \<Rightarrow> [] | Some _ \<Rightarrow> [Login env s])"

definition logout_events :: "sso_env \<Rightarrow> sso_state \<Rightarrow> sso_event list" where
  "logout_events env s = (case ended_session env s of None \<Rightarrow> [] | Some sid \<Rightarrow> [Logout sid])"

text \<open>What can happen to the state: logins, logouts, requests for an authorization URL, requests
  through the middleware, and any change of the tables in between.\<close>

inductive sso_run :: "mac \<Rightarrow> string \<Rightarrow> sso_event list \<Rightarrow> sso_state \<Rightarrow> bool" for mac key where
  start: "ss_manager s = Some (newAdminSessionManagerWithKey key AdminSessionTTL) \<Longrightarrow> sso_run mac key [] s"
| callback: "sso_run mac key evs s \<Longrightarrow> se_mac env = mac \<Longrightarrow> sso_run mac key (evs @ login_events env s) (snd (handleSSOCallback env s))"
| logout: "sso_run mac key evs s \<Longrightarrow> se_mac env = mac \<Longrightarrow> sso_run mac key (evs @ logout_events env s) (snd (handleSSOLogout env s))"
| authorize: "sso_run mac key evs s \<Longrightarrow> sso_run mac key evs (snd (handleSSOAuthorize env s))"
| visit: "sso_run mac key evs s \<Longrightarrow> sso_run mac key evs (snd (requireTenantVisible env s))"
| tables: "sso_run mac key evs s \<Longrightarrow> sso_run mac key evs (s\<lparr>ss_admin := st, ss_tenants := ts\<rparr>)"

definition admin_live :: "admin_session_manager \<Rightarrow> string \<Rightarrow> time \<Rightarrow> admin_session_claims option" where
  "admin_live m sid now = peek (ad_sessions m) sid now"

definition logged_in :: "sso_event list \<Rightarrow> string \<Rightarrow> admin_session_claims \<Rightarrow> bool" where
  "logged_in evs sid c =
     (\<exists>pre env s post. evs = pre @ Login env s # post \<and> login_claims env s = Some c \<and> as_SessionID c = sid \<and> Logout sid \<notin> set post)"

definition manager_ok :: "string \<Rightarrow> sso_event list \<Rightarrow> admin_session_manager \<Rightarrow> bool" where
  "manager_ok key evs m =
     (ad_signingKey m = key \<and> ad_ttl m = AdminSessionTTL \<and>
      (\<forall>sid now c. admin_live m sid now = Some c \<longrightarrow> logged_in evs sid c) \<and>
      (\<forall>env s. Login env s \<in> set evs \<longrightarrow> (\<exists>m0. ss_manager s = Some m0 \<and> ad_ttl m0 = AdminSessionTTL)))"

lemma logged_in_snoc: "logged_in evs sid c \<Longrightarrow> e \<noteq> Logout sid \<Longrightarrow> logged_in (evs @ [e]) sid c"
  unfolding logged_in_def by (elim exE) (rule exI, rule exI, rule exI, rule_tac x = "post @ [e]" in exI, auto)

lemma logged_in_last: "login_claims env s = Some c \<Longrightarrow> as_SessionID c = sid \<Longrightarrow> logged_in (evs @ [Login env s]) sid c"
  unfolding logged_in_def by fastforce

lemma ValidateSession_keeps:
  "ad_signingKey (snd (ValidateSession mac token now m)) = ad_signingKey m" "ad_ttl (snd (ValidateSession mac token now m)) = ad_ttl m"
  "admin_live (snd (ValidateSession mac token now m)) sid t = admin_live m sid t"
  by (auto simp: ValidateSession_def admin_live_def split: sum.splits prod.splits option.splits)
    (metis snd_conv tc.look_touch)+

lemma manager_ok_validate: "manager_ok key evs m \<Longrightarrow> manager_ok key evs (snd (ValidateSession mac token now m))"
  by (simp add: manager_ok_def ValidateSession_keeps)

lemma manager_ok_revoke: "manager_ok key evs m \<Longrightarrow> manager_ok key (evs @ [Logout sid]) (admin_RevokeSession sid m)"
  by (auto simp: manager_ok_def admin_RevokeSession_def admin_live_def tc.look_kill intro!: logged_in_snoc split: if_splits)

lemma manager_ok_issue:
  assumes "manager_ok key evs m" and "login_claims env s = Some c" and "ss_manager s = Some m"
  shows "manager_ok key (evs @ [Login env s]) (m\<lparr>ad_sessions := Put (as_SessionID c) c t (ad_sessions m)\<rparr>)"
  using assms logged_in_last [OF assms(2)]
  by (auto simp: manager_ok_def admin_live_def tc.look_put intro!: logged_in_snoc split: if_splits)

lemma callback_manager:
  "ss_manager (snd (handleSSOCallback env s)) =
     (case login_claims env s of
        None \<Rightarrow> ss_manager s
      | Some c \<Rightarrow> map_option (\<lambda>m. m\<lparr>ad_sessions := Put (as_SessionID c) c (se_now env) (ad_sessions m)\<rparr>) (ss_manager s))"
  by (auto simp: handleSSOCallback_def login_claims_def IssueSession_def Let_def split: option.splits sum.splits)

lemma logout_manager:
  "ss_manager (snd (handleSSOLogout env s)) =
     (let token = AdminKeyFromRequest (an_header (se_admin env)) in
      map_option (\<lambda>m. if \<not> IsAdminSessionToken token then m
                      else (case ended_session env s of None \<Rightarrow> id | Some sid \<Rightarrow> admin_RevokeSession sid)
                             (snd (ValidateSession (se_mac env) token (se_now env) m))) (ss_manager s))"
  by (auto simp: handleSSOLogout_def ended_session_def Let_def split: option.splits sum.splits prod.splits)

lemma authorize_manager: "ss_manager (snd (handleSSOAuthorize env s)) = ss_manager s"
  by (auto simp: handleSSOAuthorize_def split: option.splits sum.splits prod.splits)

lemma visible_manager:
  "ss_manager (snd (requireTenantVisible env s)) =
     (let token = AdminKeyFromRequest (an_header (se_admin env)) in
      map_option (\<lambda>m. if \<not> IsAdminSessionToken token then m else snd (ValidateSession (se_mac env) token (se_now env) m)) (ss_manager s))"
  by (auto simp: requireTenantVisible_def continue_def Let_def split: option.splits sum.splits prod.splits)

lemma sso_run_manager:
  assumes "sso_run mac key evs s"
  shows "\<exists>m. ss_manager s = Some m \<and> manager_ok key evs m"
  using assms
proof (induction rule: sso_run.induct)
  case (start s)
  then show ?case
    by (simp add: manager_ok_def newAdminSessionManagerWithKey_def admin_live_def peek_simps New_def)
next
  case (callback evs s env)
  then obtain m where m: "ss_manager s = Some m" "manager_ok key evs m" by blast
  show ?case
    by (cases "login_claims env s") (simp_all add: callback_manager login_events_def m manager_ok_issue)
next
  case (logout evs s env)
  then obtain m where m: "ss_manager s = Some m" "manager_ok key evs m" by blast
  have "ended_session env s = None" if "\<not> IsAdminSessionToken (AdminKeyFromRequest (an_header (se_admin env)))"
    using that by (simp add: ended_session_def m(1) Let_def)
  with m show ?case
    by (cases "ended_session env s")
      (auto simp: logout_manager logout_events_def Let_def manager_ok_validate manager_ok_revoke)
next
  case (visit evs s env)
  then obtain m where "ss_manager s = Some m" "manager_ok key evs m" by blast
  then show ?case by (simp add: visible_manager Let_def manager_ok_validate)
qed (auto simp: authorize_manager)

lemma ValidateSession_Inr:
  assumes "fst (ValidateSession mac token now m) = Inr c"
  shows "Option.bind (open_token mac (ad_signingKey m) token) admin_unmarshal = Some c \<and> Unix now \<le> as_ExpiresAt c \<and>
    (\<exists>c'. admin_live m (as_SessionID c) now = Some c')"
  using assms
  by (auto simp: ValidateSession_def admin_verifyClaims_def admin_live_def peek_def split: option.splits prod.splits if_splits)

lemma visible_claims:
  assumes "requireTenantVisible env s = (Inr (Some claims), s')"
  shows "\<exists>m. ss_manager s = Some m \<and>
    fst (ValidateSession (se_mac env) (AdminKeyFromRequest (an_header (se_admin env))) (se_now env) m) = Inr claims"
  using assms
  by (auto simp: requireTenantVisible_def continue_def Let_def split: option.splits sum.splits prod.splits if_splits)

definition sso_signed :: "sso_event list \<Rightarrow> admin_session_claims set" where
  "sso_signed evs = {c. \<exists>e\<in>set evs. event_claims e = Some c}"

lemma sso_ids_unique:
  assumes "distinct (map as_SessionID (List.map_filter event_claims evs))" and "c \<in> sso_signed evs" and "c' \<in> sso_signed evs"
    and "as_SessionID c = as_SessionID c'"
  shows "c = c'"
proof -
  have "c \<in> set (List.map_filter event_claims evs)" "c' \<in> set (List.map_filter event_claims evs)"
    using assms(2,3) by (force simp: sso_signed_def List.map_filter_def)+
  with assms(1,4) show ?thesis by (auto simp: distinct_map inj_on_def)
qed

lemma ValidateIDToken_Inr:
  assumes "ValidateIDToken env raw config p = Inr user"
  shows "\<exists>keySet token. op_keySet p = Some keySet \<and> se_parseJWT env keySet (oc_Issuer config) (oc_ClientID config) raw = Some token \<and>
    ou_Email user = claimString token ''email'' \<and> ou_Email user \<noteq> [] \<and>
    (oc_AllowedDomains config = [] \<or> domainAllowed (emailDomain (ou_Email user)) (oc_AllowedDomains config))"
  using assms by (auto simp: ValidateIDToken_def Let_def split: option.splits if_splits)

lemma login_claims_Some:
  assumes "login_claims env s = Some c"
  shows "\<exists>p m cfg keySet raw token. ss_provider s = Some p \<and> ss_manager s = Some m \<and> enabled_config env s = Some cfg \<and>
    op_keySet p = Some keySet \<and> se_parseJWT env keySet (sf_Issuer cfg) (sf_ClientID cfg) raw = Some token \<and>
    as_Email c = claimString token ''email'' \<and> as_Email c \<noteq> [] \<and>
    (parseCSV (sf_AllowedDomains cfg) = [] \<or> domainAllowed (emailDomain (as_Email c)) (parseCSV (sf_AllowedDomains cfg))) \<and>
    as_Scopes c = sso_scopes cfg \<and> as_ExpiresAt c = Unix (se_now env + ad_ttl m)"
proof -
  from assms obtain p m cfg bytes user where l: "ss_provider s = Some p" "ss_manager s = Some m" "enabled_config env s = Some cfg"
      "sso_user env cfg p = Inr user" "c = admin_claims (ad_ttl m) user (sso_scopes cfg) bytes (se_now env)"
    by (auto simp: login_claims_def split: option.splits if_splits sum.splits)
  from l(4) obtain secret raw where v: "ValidateIDToken env raw ((ssoConfigToOIDC cfg)\<lparr>oc_ClientSecret := secret\<rparr>) p = Inr user"
    by (auto simp: sso_user_def Let_def split: option.splits sum.splits)
  from ValidateIDToken_Inr [OF v] l show ?thesis by (auto simp: ssoConfigToOIDC_def admin_claims_def)
qed

text \<open>C27: whom a single sign-on session speaks for is verified: in every run of logins, logouts and
  other requests, when the middleware lets a request through with the claims of a session, these are
  the claims of an earlier login. At that login single sign-on was enabled, and an ID token for the configured
  issuer and client was validated with the provider's keys; it names the email address of the claims,
  of an allowed domain where domains are configured. The scopes are the configured ones, the session
  is not older than its eight hours and has not been logged out. The token is assumed unforged and
  the random session ids distinct.\<close>

theorem sso_identity_verified:
  assumes "sso_run mac key evs s" and "se_mac env = mac" and "requireTenantVisible env s = (Inr (Some claims), s')"
    and "unforged mac key (admin_marshal ` sso_signed evs) (AdminKeyFromRequest (an_header (se_admin env)))"
    and "distinct (map as_SessionID (List.map_filter event_claims evs))" and "\<forall>c\<in>sso_signed evs. admin_times_ok c"
  shows "\<exists>pre lenv ls post p cfg keySet raw token. evs = pre @ Login lenv ls # post \<and> login_claims lenv ls = Some claims \<and>
    ss_provider ls = Some p \<and> op_keySet p = Some keySet \<and> enabled_config lenv ls = Some cfg \<and>
    se_parseJWT lenv keySet (sf_Issuer cfg) (sf_ClientID cfg) raw = Some token \<and>
    as_Email claims = claimString token ''email'' \<and> as_Email claims \<noteq> [] \<and>
    (parseCSV (sf_AllowedDomains cfg) = [] \<or> domainAllowed (emailDomain (as_Email claims)) (parseCSV (sf_AllowedDomains cfg))) \<and>
    as_Scopes claims = sso_scopes cfg \<and> Unix (se_now env) \<le> Unix (se_now lenv + AdminSessionTTL) \<and>
    Logout (as_SessionID claims) \<notin> set post"
proof -
  obtain m where m: "ss_manager s = Some m" "manager_ok key evs m" using sso_run_manager [OF assms(1)] by blast
  from visible_claims [OF assms(3)] m(1) assms(2) have v:
      "fst (ValidateSession mac (AdminKeyFromRequest (an_header (se_admin env))) (se_now env) m) = Inr claims" by auto
  from ValidateSession_Inr [OF this] m(2) obtain c' where o:
      "Option.bind (open_token mac key (AdminKeyFromRequest (an_header (se_admin env)))) admin_unmarshal = Some claims"
      "Unix (se_now env) \<le> as_ExpiresAt claims" "logged_in evs (as_SessionID claims) c'"
    by (auto simp: manager_ok_def)
  have s: "claims \<in> sso_signed evs" using admin_codec.verified_was_signed [OF o(1) assms(4,6)] .
  obtain pre lenv ls post where l: "evs = pre @ Login lenv ls # post" "login_claims lenv ls = Some c'"
      "as_SessionID c' = as_SessionID claims" "Logout (as_SessionID claims) \<notin> set post"
    using o(3) unfolding logged_in_def by blast
  have c: "c' = claims" using sso_ids_unique [OF assms(5) _ s l(3)] l(1,2) by (auto simp: sso_signed_def)
  have "\<exists>m0. ss_manager ls = Some m0 \<and> ad_ttl m0 = AdminSessionTTL" using m(2) l(1) by (auto simp: manager_ok_def)
  with login_claims_Some [OF l(2)] o(2) l c show ?thesis by (metis option.inject)
qed

subsection \<open>What a default configuration grants\<close>

lemma Contains_append: "Contains t p \<Longrightarrow> Contains (s @ t) p"
  by (induction s) auto

lemma Contains_prefix: "Contains (p @ t) p"
proof (cases "p @ t")
  case (Cons a l)
  have "HasPrefix (p @ t) p" by (simp add: HasPrefix_def)
  then show ?thesis unfolding Cons by simp
qed simp

lemma quoted_prefix: "quote (''rbas_'' @ x) = quote_mark # ''rbas_'' @ concat (map esc_char x) @ [quote_mark]"
  by (simp add: quote_def esc_char_def Let_def quote_mark_def backslash_def)

lemma struct_text_first:
  obtains r where "struct_text ((k, Str_v v) # m) = ''{'' @ quote k @ '':'' @ quote v @ r"
  by (cases m) (auto simp: struct_text_def json_member_def)

lemma marshal_marked:
  assumes "as_SessionID c = generateAdminSessionID bytes"
  shows "Contains (admin_marshal c) ''rbas_''"
proof -
  obtain r where "admin_marshal c = ''{'' @ quote ''sid'' @ '':'' @ quote (''rbas_'' @ EncodeToString bytes) @ r"
    unfolding admin_marshal_def assms generateAdminSessionID_def by (rule struct_text_first)
  then have "admin_marshal c = (''{'' @ quote ''sid'' @ '':'' @ [quote_mark]) @ ''rbas_'' @ concat (map esc_char (EncodeToString bytes)) @ [quote_mark] @ r"
    unfolding quoted_prefix by simp
  then show ?thesis using Contains_append [OF Contains_prefix] by metis
qed

lemma token_recognised:
  assumes "as_SessionID c = generateAdminSessionID bytes"
  shows "IsAdminSessionToken (sign_payload mac key (admin_marshal c))"
proof -
  have "CHR ''.'' \<notin> set (EncodeToString (admin_marshal c))" using EncodeToString_plain by blast
  from Cut_first [OF this] marshal_marked [OF assms] show ?thesis by (simp add: IsAdminSessionToken_def sign_payload_def Let_def)
qed

lemma issued_validates:
  assumes "IssueSession mac user scopes (Some bytes) t m = (Some (token, claims), m')" and "tc_ttl (ad_sessions m) = ad_ttl m + adminSessionCachePadding"
    and "admin_times_ok claims" and "Unix now \<le> Unix (t + ad_ttl m)"
  shows "fst (ValidateSession mac token now m') = Inr claims \<and> IsAdminSessionToken token \<and> claims = admin_claims (ad_ttl m) user scopes bytes t"
proof -
  have i: "claims = admin_claims (ad_ttl m) user scopes bytes t" "token = sign_payload mac (ad_signingKey m) (admin_marshal claims)"
      "m' = m\<lparr>ad_sessions := Put (as_SessionID claims) claims t (ad_sessions m)\<rparr>"
    using assms(1) by (auto simp: IssueSession_def Let_def)
  have "now < t + ad_ttl m + ns_per_second"
    using Unix_bounds [of now] Unix_bounds [of "t + ad_ttl m"] assms(4)
      mult_right_mono [of "Unix now" "Unix (t + ad_ttl m)" ns_per_second] by (simp add: ns_per_second_def)
  then have "peek (ad_sessions m') (as_SessionID claims) now = Some claims"
    unfolding i(3) using assms(2) by (simp add: tc.look_put adminSessionCachePadding_def ns_per_second_def)
  moreover have "admin_verifyClaims mac token m' = Inr claims"
    using admin_codec.verify_sign [OF assms(3)] by (simp add: admin_verifyClaims_def i(2,3))
  moreover have "Unix now \<le> as_ExpiresAt claims" using assms(4) by (simp add: i(1) admin_claims_def)
  moreover have "IsAdminSessionToken token" unfolding i(2) by (rule token_recognised) (simp add: i(1) admin_claims_def)
  ultimately show ?thesis
    using i(1) by (auto simp: ValidateSession_def peek_def split: prod.splits option.splits)
qed

lemma sso_user_refuses: "sso_user env cfg p = Inl r \<Longrightarrow> \<exists>code msg. r = Sso_error code msg"
  by (auto simp: sso_user_def Let_def split: option.splits sum.splits)

lemma continue_frame: "requireTenantVisibleContinue env (s\<lparr>ss_manager := x\<rparr>) = requireTenantVisibleContinue env s"
  by (simp add: requireTenantVisibleContinue_def Let_def)

lemma full_scopes: "hasScope [''admin:read'', ''admin:write''] scope"
  by (simp add: hasScope_def)

lemma callback_session:
  assumes "handleSSOCallback env s = (Sso_session token expires email name, s')"
  shows "\<exists>claims. login_claims env s = Some claims \<and> email = as_Email claims"
  using assms
  by (auto simp: handleSSOCallback_def login_claims_def IssueSession_def Let_def
      split: option.splits if_splits sum.splits dest: sso_user_refuses)

lemma login_visible:
  assumes "ss_manager s = Some m" and "tc_ttl (ad_sessions m) = ad_ttl m + adminSessionCachePadding" and "login_claims env s = Some claims"
    and "handleSSOCallback env s = (Sso_session token expires email name, s')"
    and "in_int64 (Unix (se_now env))" and "in_int64 (Unix (se_now env + ad_ttl m))"
    and "AdminKeyFromRequest (an_header (se_admin env')) = token" and "se_mac env' = se_mac env"
    and "Unix (se_now env') \<le> Unix (se_now env + ad_ttl m)" and "requireTenantVisibleContinue env' s' = None"
  shows "\<exists>m2. requireTenantVisible env' s' = (Inr (Some claims), s'\<lparr>ss_manager := Some m2\<rparr>)"
proof -
  from assms(1,3,4) obtain user scopes bytes m' where c:
      "IssueSession (se_mac env) user scopes (Some bytes) (se_now env) m = (Some (token, claims), m')" "s' = s\<lparr>ss_manager := Some m'\<rparr>"
    by (auto simp: handleSSOCallback_def login_claims_def IssueSession_def Let_def
        split: option.splits if_splits sum.splits dest: sso_user_refuses)
  then have "admin_times_ok claims"
    using assms(5,6) by (auto simp: IssueSession_def Let_def admin_times_ok_def admin_claims_def)
  from issued_validates [OF c(1) assms(2) this assms(9)] have v:
      "fst (ValidateSession (se_mac env) token (se_now env') m') = Inr claims" "IsAdminSessionToken token" by simp_all
  obtain m2 where "ValidateSession (se_mac env) token (se_now env') m' = (Inr claims, m2)"
    using v(1) by (cases "ValidateSession (se_mac env) token (se_now env') m'") simp
  then have "requireTenantVisible env' s' = (Inr (Some claims), s'\<lparr>ss_manager := Some m2\<rparr>)"
    using v(2) c(2) assms(10) by (simp add: requireTenantVisible_def assms(7,8) continue_def continue_frame Let_def)
  then show ?thesis by blast
qed

text \<open>Signing in without configured scopes gives every right: when the callback opens a session and
  the configuration names no default scopes, the token, presented within its lifetime on a route of
  any existing tenant, passes the middleware, and the check of every scope of the administration API
  succeeds in the name of the email address.\<close>

theorem default_login_gets_every_scope:
  assumes "ss_manager s = Some m" and "tc_ttl (ad_sessions m) = ad_ttl m + adminSessionCachePadding"
    and "enabled_config env s = Some cfg" and "parseCSV (sf_DefaultScopes cfg) = []"
    and "handleSSOCallback env s = (Sso_session token expires email name, s')"
    and "in_int64 (Unix (se_now env))" and "in_int64 (Unix (se_now env + ad_ttl m))"
    and "AdminKeyFromRequest (an_header (se_admin env')) = token" and "se_mac env' = se_mac env"
    and "Unix (se_now env') \<le> Unix (se_now env + ad_ttl m)" and "requireTenantVisibleContinue env' s' = None"
  shows "\<exists>claims s2. requireTenantVisible env' s' = (Inr (Some claims), s2) \<and> as_Email claims = email \<and>
    (\<forall>scope st. \<exists>key. requireAdminScope (with_claims (Some claims) (se_admin env')) scope st = (Inr key, st) \<and>
       ak_AdminKeyID key = ''sso:'' @ email)"
proof -
  obtain claims where c: "login_claims env s = Some claims" "email = as_Email claims" using callback_session [OF assms(5)] by blast
  from login_visible [OF assms(1,2) c(1) assms(5-11)] obtain m2 where
      v: "requireTenantVisible env' s' = (Inr (Some claims), s'\<lparr>ss_manager := Some m2\<rparr>)" by blast
  have "as_Scopes claims = [''admin:read'', ''admin:write'']"
    using login_claims_Some [OF c(1)] assms(3,4) by (auto simp: sso_scopes_def)
  then show ?thesis
    using v by (auto simp: requireAdminScope_def with_claims_def HasScopeInList_def full_scopes c(2))
qed

subsection \<open>A login\<close>

definition sso_answer :: string where "sso_answer = json_object [(''id_token'', quote ''idt'')]"

definition sso_db :: config_db where
  "sso_db = sample_config_db\<lparr>cb_settings := [''sso_enabled'' \<mapsto> ''true'', ''sso_issuer'' \<mapsto> ''https://i'', ''sso_client_id'' \<mapsto> ''c'',
     ''sso_allowed_domains'' \<mapsto> ''x.io'']\<rparr>"

definition sample_sso_env :: "http_header \<Rightarrow> time \<Rightarrow> sso_env" where
  "sample_sso_env hdr now = \<lparr>se_admin = (sample_admin_env [] [] [])\<lparr>an_header := hdr\<rparr>,
     se_client = (\<lambda>_. Inr \<lparr>ha_Status = 200, ha_Headers = [], ha_Body = sso_answer\<rparr>), se_fetchJWKS = Some,
     se_parseJWT = (\<lambda>_ _ _ _. Some \<lparr>it_Subject = ''1'', it_claim = [''email'' \<mapsto> ''ann@X.io'', ''name'' \<mapsto> ''Ann'']\<rparr>),
     se_resolver = None, se_mac = sample_mac, se_random = Some ''abcdefgh'', se_code = ''c0'', se_now = now, se_config = None, se_tenant = None\<rparr>"

definition sso_start :: sso_state where
  "sso_start = \<lparr>ss_provider = Some \<lparr>op_discovery = Some (zero_discovery\<lparr>od_TokenEndpoint := ''https://i/t''\<rparr>), op_keySet = Some ''ks'',
       op_issuer = ''https://i''\<rparr>,
     ss_manager = Some (newAdminSessionManagerWithKey ''k'' AdminSessionTTL),
     ss_admin = (sample_admin_state empty_store)\<lparr>am_config := sso_db\<rparr>,
     ss_tenants = \<lparr>td_tenants = [''t1'' \<mapsto> \<lparr>tn_row = \<lparr>tn_TenantID = ''t1'', tn_Name = [], tn_Enabled = True\<rparr>, tn_DeletedAt = None\<rparr>], td_keys = []\<rparr>\<rparr>"

abbreviation login_env :: sso_env where "login_env \<equiv> sample_sso_env (\<lambda>_. []) 0"

definition ann_claims :: admin_session_claims where
  "ann_claims = admin_claims AdminSessionTTL \<lparr>ou_Subject = ''1'', ou_Email = ''ann@X.io'', ou_Name = ''Ann''\<rparr> [''admin:read'', ''admin:write''] ''abcdefgh'' 0"

definition ann_token :: string where "ann_token = sign_payload sample_mac ''k'' (admin_marshal ann_claims)"

abbreviation visit_env :: sso_env where "visit_env \<equiv> sample_sso_env (\<lambda>h. if h = ''X-Admin-Key'' then ann_token else []) 7"

definition sample_sso_config :: sso_config where
  "sample_sso_config = zero_sso_config\<lparr>sf_Enabled := True, sf_Issuer := ''https://i'', sf_ClientID := ''c'', sf_AllowedDomains := ''x.io''\<rparr>"

lemma sample_enabled: "enabled_config login_env sso_start = Some sample_sso_config"
  by (simp add: enabled_config_def GetSSOConfig_def sample_sso_env_def sso_start_def sso_db_def setting_or_empty_def Let_def
      sample_sso_config_def zero_sso_config_def)

lemma sso_answer_decoded:
  "Option.bind (decode_members sso_answer) (decode_struct token_response_fields ([], 0)) = Some (''idt'', 0)"
  by code_simp

lemma sso_answer_short: "take 1048576 sso_answer = sso_answer"
proof -
  have "length sso_answer \<le> 50" by code_simp
  then show ?thesis by simp
qed

lemma sample_csv: "parseCSV ''x.io'' = [''x.io'']" "parseCSV [] = []" "emailDomain ''ann@X.io'' = ''x.io''"
  by code_simp+

lemma sample_allowed: "domainAllowed (emailDomain ''ann@X.io'') [''x.io'']"
  by code_simp

lemma sample_user:
  "sso_user login_env sample_sso_config \<lparr>op_discovery = Some (zero_discovery\<lparr>od_TokenEndpoint := ''https://i/t''\<rparr>), op_keySet = Some ''ks'',
     op_issuer = ''https://i''\<rparr> = Inr \<lparr>ou_Subject = ''1'', ou_Email = ''ann@X.io'', ou_Name = ''Ann''\<rparr>"
  using sample_allowed
  by (simp add: sso_user_def resolveClientSecret_def sample_sso_env_def Let_def ExchangeCode_def answer_text_def sso_answer_short sso_answer_decoded
      ValidateIDToken_def ssoConfigToOIDC_def sample_sso_config_def zero_sso_config_def sample_csv claimString_def)

lemma sample_scopes: "sso_scopes sample_sso_config = [''admin:read'', ''admin:write'']"
  by (simp add: sso_scopes_def sample_sso_config_def zero_sso_config_def sample_csv)

lemma sample_signin: "login_claims login_env sso_start = Some ann_claims"
  using sample_user unfolding login_claims_def sample_enabled
  by (simp add: sso_start_def sample_sso_env_def newAdminSessionManagerWithKey_def ann_claims_def sample_scopes)

definition sso_in :: sso_state where "sso_in = snd (handleSSOCallback login_env sso_start)"

lemma sample_callback:
  "handleSSOCallback login_env sso_start = (Sso_session ann_token (as_ExpiresAt ann_claims) ''ann@X.io'' ''Ann'', sso_in)"
  using sample_user unfolding sso_in_def handleSSOCallback_def sample_enabled
  by (simp add: sso_start_def sample_sso_env_def newAdminSessionManagerWithKey_def IssueSession_def Let_def sample_scopes ann_claims_def ann_token_def)
    (simp add: admin_claims_def)

lemma callback_frame: "snd (handleSSOCallback env s) = s\<lparr>ss_manager := ss_manager (snd (handleSSOCallback env s))\<rparr>"
  by (auto simp: handleSSOCallback_def split: option.splits sum.splits prod.splits)

lemma sso_in_eq: "sso_in = sso_start\<lparr>ss_manager := ss_manager sso_in\<rparr>"
  unfolding sso_in_def by (rule callback_frame)

lemma visit_token: "AdminKeyFromRequest (an_header (se_admin visit_env)) = ann_token"
  by (simp add: sample_sso_env_def AdminKeyFromRequest_def bearerToken_def)

lemma visit_tenant: "requireTenantVisibleContinue visit_env sso_in = None"
proof -
  have "requireTenantVisibleContinue visit_env sso_start = None"
    by (simp add: requireTenantVisibleContinue_def sample_sso_env_def sample_admin_env_def GetTenant_def sso_start_def sso_db_def sample_config_db_def
        config_of_def Let_def)
  then show ?thesis by (subst sso_in_eq) (simp only: continue_frame)
qed

lemma sample_lifetime: "in_int64 (Unix 0)" "in_int64 (Unix (0 + AdminSessionTTL))" "Unix 7 \<le> Unix (0 + AdminSessionTTL)"
  by code_simp+

lemma sample_manager:
  "ss_manager sso_start = Some (newAdminSessionManagerWithKey ''k'' AdminSessionTTL)"
  "ad_ttl (newAdminSessionManagerWithKey ''k'' AdminSessionTTL) = AdminSessionTTL"
  "tc_ttl (ad_sessions (newAdminSessionManagerWithKey ''k'' AdminSessionTTL)) =
     ad_ttl (newAdminSessionManagerWithKey ''k'' AdminSessionTTL) + adminSessionCachePadding"
  "se_now login_env = 0" "se_now visit_env = 7" "se_mac visit_env = se_mac login_env"
  by (simp_all add: sso_start_def sample_sso_env_def newAdminSessionManagerWithKey_def New_def)

lemma sample_mac_of: "se_mac (sample_sso_env hdr now) = sample_mac"
  by (simp add: sample_sso_env_def)

lemma sample_visit: "\<exists>m2. requireTenantVisible visit_env sso_in = (Inr (Some ann_claims), sso_in\<lparr>ss_manager := Some m2\<rparr>)"
  by (rule login_visible [OF sample_manager(1,3) sample_signin sample_callback])
    (simp_all only: sample_manager(2,4-6) sample_lifetime visit_token visit_tenant)

theorem default_login_gets_every_scope_witness:
  "\<exists>claims s2. requireTenantVisible visit_env sso_in = (Inr (Some claims), s2) \<and>
    (\<exists>key. requireAdminScope (with_claims (Some claims) (se_admin visit_env)) ''admin:keys:write'' lock_state = (Inr key, lock_state) \<and>
       ak_AdminKeyID key = ''sso:ann@X.io'')"
proof -
  have "parseCSV (sf_DefaultScopes sample_sso_config) = []" by (simp add: sample_sso_config_def zero_sso_config_def sample_csv)
  from default_login_gets_every_scope [OF sample_manager(1,3) sample_enabled this sample_callback, of visit_env] show ?thesis
    unfolding sample_manager(2,4,5) using sample_lifetime visit_token visit_tenant sample_manager(6) by fastforce
qed

theorem sso_identity_verified_witness:
  "\<exists>claims s2 pre lenv ls post cfg. requireTenantVisible visit_env sso_in = (Inr (Some claims), s2) \<and>
     [Login login_env sso_start] = pre @ Login lenv ls # post \<and> login_claims lenv ls = Some claims \<and> enabled_config lenv ls = Some cfg \<and>
     (parseCSV (sf_AllowedDomains cfg) = [] \<or> domainAllowed (emailDomain (as_Email claims)) (parseCSV (sf_AllowedDomains cfg)))"
proof -
  have r: "sso_run sample_mac ''k'' [Login login_env sso_start] sso_in"
    using sso_run.callback [OF sso_run.start [OF sample_manager(1)], of login_env sample_mac]
    by (simp add: sso_in_def login_events_def sample_signin sample_mac_of)
  have signed: "sso_signed [Login login_env sso_start] = {ann_claims}" by (auto simp: sso_signed_def sample_signin)
  have t: "admin_times_ok ann_claims" using sample_lifetime by (simp add: ann_claims_def admin_claims_def admin_times_ok_def)
  have u: "unforged sample_mac ''k'' (admin_marshal ` sso_signed [Login login_env sso_start]) (AdminKeyFromRequest (an_header (se_admin visit_env)))"
    unfolding visit_token by (subst ann_token_def, rule sample_unforged) (simp add: signed)
  obtain s2 where v: "requireTenantVisible visit_env sso_in = (Inr (Some ann_claims), s2)" using sample_visit by blast
  have "\<exists>pre lenv ls post p cfg keySet raw token. [Login login_env sso_start] = pre @ Login lenv ls # post \<and> login_claims lenv ls = Some ann_claims \<and>
    ss_provider ls = Some p \<and> op_keySet p = Some keySet \<and> enabled_config lenv ls = Some cfg \<and>
    se_parseJWT lenv keySet (sf_Issuer cfg) (sf_ClientID cfg) raw = Some token \<and>
    as_Email ann_claims = claimString token ''email'' \<and> as_Email ann_claims \<noteq> [] \<and>
    (parseCSV (sf_AllowedDomains cfg) = [] \<or> domainAllowed (emailDomain (as_Email ann_claims)) (parseCSV (sf_AllowedDomains cfg))) \<and>
    as_Scopes ann_claims = sso_scopes cfg \<and> Unix (se_now visit_env) \<le> Unix (se_now lenv + AdminSessionTTL) \<and>
    Logout (as_SessionID ann_claims) \<notin> set post"
    by (rule sso_identity_verified [OF r _ v u]) (simp_all add: signed t sample_mac_of sample_signin List.map_filter_def)
  then show ?thesis using v by blast
qed

end
