(* ===== verification/Tenant_Admin.thy ===== *)
theory Tenant_Admin
  imports Admin_Sso
begin

text \<open>
  Tenants and their keys as administrators see them: \<open>src/internal/api/admin/tenants.go\<close>,
  \<open>provisioning_limits.go\<close>, \<open>handleTenantConfigUpdate\<close> of \<open>handlers.go\<close> and the listing of
  \<open>control_plane.go\<close>, with the store operations behind them (\<open>store.go\<close>, \<open>store_provisioning.go\<close>).
  The state is that of \<open>Admin_Sso\<close>; the routes of one tenant run behind its middleware. Random bytes and
  UUIDs are given by the environment; \<open>te_tenantIDs\<close> is the order in which the table of tenants is read, and
  keys are listed from the last inserted to the first, for their order of creation. The theorems say which keys
  a rotation leaves in force, that keys and tenants which are taken out of service log in no more, and
  that a tenant created through the API can be reached by none of its routes.
\<close>

subsection \<open>Store\<close>

definition CreateTenant :: "store_error option \<Rightarrow> string \<Rightarrow> string \<Rightarrow> tenant_db \<Rightarrow> (store_error + unit) \<times> tenant_db" where
  "CreateTenant flt tenantID name db =
     (case flt of
        Some e \<Rightarrow> (Inl e, db)
      | None \<Rightarrow>
          if td_tenants db tenantID \<noteq> None then (Inl ErrDB, db)
          else (Inr (), db\<lparr>td_tenants := (td_tenants db)(tenantID \<mapsto>
                 \<lparr>tn_row = \<lparr>tn_TenantID = tenantID, tn_Name = name, tn_Enabled = True\<rparr>, tn_DeletedAt = None\<rparr>)\<rparr>))"

definition update_tenant :: "string \<Rightarrow> (tenant_row \<Rightarrow> tenant_row) \<Rightarrow> tenant_db \<Rightarrow> (store_error + unit) \<times> tenant_db" where
  "update_tenant tenantID f db =
     (case td_tenants db tenantID of
        None \<Rightarrow> (Inl ErrNotFound, db)
      | Some row \<Rightarrow>
          if tn_DeletedAt row \<noteq> None then (Inl ErrNotFound, db)
          else (Inr (), db\<lparr>td_tenants := (td_tenants db)(tenantID \<mapsto> f row)\<rparr>))"

definition SetTenantEnabled :: "store_error option \<Rightarrow> string \<Rightarrow> bool \<Rightarrow> tenant_db \<Rightarrow> (store_error + unit) \<times> tenant_db" where
  "SetTenantEnabled flt tenantID enabled db =
     (case flt of Some e \<Rightarrow> (Inl e, db) | None \<Rightarrow> update_tenant tenantID (tn_row_update (tn_Enabled_update (\<lambda>_. enabled))) db)"

definition SoftDeleteTenant ::
  "faults \<Rightarrow> string \<Rightarrow> time \<Rightarrow> config_db \<Rightarrow> tenant_db \<Rightarrow> (store_error + unit) \<times> tenant_db" where
  "SoftDeleteTenant flt tenantID deletedAt cdb db =
     (case fst (ensureAdminWritesAllowed flt cdb) of
        Inl e \<Rightarrow> (Inl e, db)
      | Inr _ \<Rightarrow>
          (case flt 1 of
             Some e \<Rightarrow> (Inl e, db)
           | None \<Rightarrow> update_tenant tenantID
               (\<lambda>row. row\<lparr>tn_row := (tn_row row)\<lparr>tn_Enabled := False\<rparr>, tn_DeletedAt := Some deletedAt\<rparr>) db))"

text \<open>The hash is not among the columns.\<close>

definition ListTenantKeys :: "store_error option \<Rightarrow> string \<Rightarrow> tenant_db \<Rightarrow> store_error + tenant_key list" where
  "ListTenantKeys flt tenantID db =
     (case flt of
        Some e \<Rightarrow> Inl e
      | None \<Rightarrow> Inr (map (\<lambda>k. k\<lparr>tk_KeyHash := []\<rparr>) (rev (filter (\<lambda>k. tk_TenantID k = tenantID) (td_keys db)))))"

definition GetTenantKeyHash :: "store_error option \<Rightarrow> string \<Rightarrow> tenant_db \<Rightarrow> store_error + string" where
  "GetTenantKeyHash flt tenantID db =
     (case flt of
        Some e \<Rightarrow> Inl e
      | None \<Rightarrow> or_not_found (map_option tk_KeyHash (find (\<lambda>k. tk_TenantID k = tenantID) (td_keys db))))"

definition CountTenants :: "store_error option \<Rightarrow> string list \<Rightarrow> tenant_db \<Rightarrow> store_error + int" where
  "CountTenants flt ids db =
     (case flt of
        Some e \<Rightarrow> Inl e
      | None \<Rightarrow> Inr (int (length (filter (\<lambda>i. case td_tenants db i of Some row \<Rightarrow> tn_DeletedAt row = None | None \<Rightarrow> False) ids))))"

definition CountActiveKeysByTenant :: "store_error option \<Rightarrow> string \<Rightarrow> tenant_db \<Rightarrow> store_error + int" where
  "CountActiveKeysByTenant flt tenantID db =
     (case flt of
        Some e \<Rightarrow> Inl e
      | None \<Rightarrow> Inr (int (length (filter (\<lambda>k. tk_TenantID k = tenantID \<and> tk_RevokedAt k = None) (td_keys db)))))"

text \<open>Two statements without a transaction. The second sets the hash of every key of the tenant, revoked
  ones too, and breaks the unique index when there are two, or when a key of another tenant has the hash.\<close>

definition UpdateTenantConfig ::
  "faults \<Rightarrow> crypto \<Rightarrow> string \<Rightarrow> string \<Rightarrow> string \<Rightarrow> string \<Rightarrow> config_db \<Rightarrow> tenant_db \<Rightarrow> (store_error + unit) \<times> tenant_db" where
  "UpdateTenantConfig flt cy secrets tenantID name tenantKey cdb db =
     (case fst (ensureAdminWritesAllowed flt cdb) of
        Inl e \<Rightarrow> (Inl e, db)
      | Inr _ \<Rightarrow>
          (case (if name = [] then (Inr (), db)
                 else case flt 1 of
                        Some e \<Rightarrow> (Inl e, db)
                      | None \<Rightarrow> (Inr (), db\<lparr>td_tenants := (td_tenants db)(tenantID :=
                          map_option (tn_row_update (tn_Name_update (\<lambda>_. name))) (td_tenants db tenantID))\<rparr>)) of
             (Inl e, db1) \<Rightarrow> (Inl e, db1)
           | (Inr _, db1) \<Rightarrow>
               if tenantKey = [] then (Inr (), db1)
               else (let own = (\<lambda>k. tk_TenantID k = tenantID); h = HashKey cy secrets tenantKey in
                     case flt 2 of
                       Some e \<Rightarrow> (Inl e, db1)
                     | None \<Rightarrow>
                         if filter own (td_keys db1) = [] then (Inr (), db1)
                         else if length (filter own (td_keys db1)) > 1 \<or> (\<exists>k\<in>set (td_keys db1). \<not> own k \<and> tk_KeyHash k = h)
                         then (Inl ErrDB, db1)
                         else (Inr (), db1\<lparr>td_keys := update_rows own (tk_KeyHash_update (\<lambda>_. h)) (td_keys db1)\<rparr>))))"

text \<open>A tenant without a row in \<open>tenant_config\<close> has no active version: the scan of its NULL into a string
  fails, and with it the whole listing.\<close>

definition ListTenants :: "store_error option \<Rightarrow> string list \<Rightarrow> config_db \<Rightarrow> tenant_db \<Rightarrow> store_error + (tenant \<times> string \<times> int) list" where
  "ListTenants flt ids cdb db =
     (case flt of
        Some e \<Rightarrow> Inl e
      | None \<Rightarrow>
          (let live = filter (\<lambda>i. case td_tenants db i of Some row \<Rightarrow> tn_DeletedAt row = None | None \<Rightarrow> False)
                 (SliceStable str_less ids)
           in if list_ex (\<lambda>i. config_of cdb i = None) live then Inl ErrDB
              else Inr (map (\<lambda>i. (tn_row (the (td_tenants db i)), tg_ActivePolicyVersion (the (config_of cdb i)),
                      int (length (filter (\<lambda>t. tl_TenantID t = i) (cb_tools cdb))))) live)))"

subsection \<open>Handlers\<close>

record tenant_env =
  te_sso :: sso_env
  te_bytes :: "string option"
  te_uuid :: string
  te_keyID :: string
  te_keySecrets :: string
  te_fault :: "string \<Rightarrow> store_error option"
  te_revoke :: "string \<Rightarrow> store_error option"
  te_write :: faults
  te_tenantIDs :: "string list"

datatype tenant_reply =
    Tn_error int string
  | Tn_empty int
  | Tn_limit string int int
  | Tn_created string string string string
  | Tn_issued int string string string
  | Tn_keys "tenant_key list"
  | Tn_tenants "(tenant \<times> string \<times> int) list"
  | Tn_tenant tenant

type_synonym tenant_outcome = "tenant_reply \<times> sso_state"

definition te_admin :: "tenant_env \<Rightarrow> admin_env" where "te_admin env = se_admin (te_sso env)"

definition tenant_gated :: "string \<Rightarrow> (admin_key \<Rightarrow> sso_state \<Rightarrow> tenant_outcome) \<Rightarrow> tenant_env \<Rightarrow> sso_state \<Rightarrow> tenant_outcome" where
  "tenant_gated scope handler env s =
     (case requireAdminScope (te_admin env) scope (ss_admin s) of
        (Inl e, a) \<Rightarrow> (case admin_authError e of Adm_error code msg \<Rightarrow> Tn_error code msg | _ \<Rightarrow> Tn_error 500 ''auth error'', s\<lparr>ss_admin := a\<rparr>)
      | (Inr key, a) \<Rightarrow> handler key (s\<lparr>ss_admin := a\<rparr>))"

text \<open>The error of an audit event is dropped.\<close>

definition tenant_audit ::
  "tenant_env \<Rightarrow> admin_key \<Rightarrow> string \<Rightarrow> string \<Rightarrow> string \<Rightarrow> string \<Rightarrow> gomap option \<Rightarrow> gomap option \<Rightarrow> sso_state \<Rightarrow> sso_state" where
  "tenant_audit env key tenantID action resourceType resourceID before after s =
     s\<lparr>ss_admin := snd (audit_event (te_admin env) key tenantID action resourceType resourceID before after (ss_admin s))\<rparr>"

definition checkTenantLimit :: "tenant_env \<Rightarrow> tenant_db \<Rightarrow> store_error + tenant_reply option" where
  "checkTenantLimit env db =
     (case an_entitlements (te_admin env) of
        None \<Rightarrow> Inr None
      | Some ent \<Rightarrow>
          if IsUnlimited (en_MaxTenants ent) then Inr None
          else (case CountTenants (te_fault env ''CountTenants'') (te_tenantIDs env) db of
                  Inl e \<Rightarrow> Inl e
                | Inr n \<Rightarrow> Inr (if n \<ge> en_MaxTenants ent then Some (Tn_limit ''tenants'' n (en_MaxTenants ent)) else None)))"

definition checkActiveKeyLimit :: "tenant_env \<Rightarrow> string \<Rightarrow> tenant_db \<Rightarrow> store_error + tenant_reply option" where
  "checkActiveKeyLimit env tenantID db =
     (case an_entitlements (te_admin env) of
        None \<Rightarrow> Inr None
      | Some ent \<Rightarrow>
          if IsUnlimited (en_MaxActiveKeys ent) then Inr None
          else (case CountActiveKeysByTenant (te_fault env ''CountActiveKeysByTenant'') tenantID db of
                  Inl e \<Rightarrow> Inl e
                | Inr n \<Rightarrow> Inr (if n \<ge> en_MaxActiveKeys ent then Some (Tn_limit ''active_keys'' n (en_MaxActiveKeys ent)) else None)))"

text \<open>Generating a key and storing its hash, the common tail of three handlers.\<close>

definition issue_key ::
  "tenant_env \<Rightarrow> string \<Rightarrow> string \<Rightarrow> sso_state \<Rightarrow> (string + string \<times> string) \<times> sso_state" where
  "issue_key env tenantID fmsg s =
     (case te_bytes env of
        None \<Rightarrow> (Inl ''failed to generate key'', s)
      | Some bytes \<Rightarrow>
          (case GenerateAPIKey (an_crypto (te_admin env)) (te_keySecrets env) bytes of
             (rawKey, keyHash, keyPrefix) \<Rightarrow>
               (case te_fault env ''CreateTenantKey'' of
                  Some _ \<Rightarrow> (Inl fmsg, s)
                | None \<Rightarrow>
                    (case CreateTenantKey \<lparr>tk_KeyID = te_keyID env, tk_TenantID = tenantID, tk_KeyHash = keyHash, tk_RevokedAt = None\<rparr> (ss_tenants s) of
                       (Inl _, db) \<Rightarrow> (Inl fmsg, s\<lparr>ss_tenants := db\<rparr>)
                     | (Inr _, db) \<Rightarrow> (Inr (rawKey, keyPrefix), s\<lparr>ss_tenants := db\<rparr>)))))"

definition handleTenantCreate :: "tenant_env \<Rightarrow> sso_state \<Rightarrow> tenant_outcome" where
  "handleTenantCreate env = tenant_gated ''admin:tenants:write'' (\<lambda>key s.
     case decode_body [(''name'', raw_string_field id)] [] (an_body (te_admin env)) of
       None \<Rightarrow> (Tn_error 400 ''invalid request body'', s)
     | Some name \<Rightarrow>
         if name = [] then (Tn_error 400 ''name is required'', s)
         else (case checkTenantLimit env (ss_tenants s) of
                 Inl _ \<Rightarrow> (Tn_error 500 ''failed to check tenant limit'', s)
               | Inr (Some violation) \<Rightarrow> (violation, s)
               | Inr None \<Rightarrow>
                   (let tenantID = ''t_'' @ take 8 (te_uuid env) in
                    case CreateTenant (te_fault env ''CreateTenant'') tenantID name (ss_tenants s) of
                      (Inl _, db) \<Rightarrow> (Tn_error 500 ''failed to create tenant'', s\<lparr>ss_tenants := db\<rparr>)
                    | (Inr _, db) \<Rightarrow>
                        (case issue_key env tenantID ''failed to create tenant key'' (s\<lparr>ss_tenants := db\<rparr>) of
                           (Inl msg, s1) \<Rightarrow> (Tn_error 500 msg, s1)
                         | (Inr (rawKey, keyPrefix), s1) \<Rightarrow>
                             (Tn_created tenantID name rawKey (te_keyID env),
                              tenant_audit env key tenantID ''TENANT.CREATED'' ''TENANT'' tenantID None
                                (Some [(''name'', Str_v name), (''key_prefix'', Str_v keyPrefix)]) s1)))))
     env"

definition handleTenantKeysList :: "tenant_env \<Rightarrow> sso_state \<Rightarrow> tenant_outcome" where
  "handleTenantKeysList env = tenant_gated ''admin:keys:read'' (\<lambda>key s.
     case ListTenantKeys (te_fault env ''ListTenantKeys'') (an_tenantID (te_admin env)) (ss_tenants s) of
       Inl _ \<Rightarrow> (Tn_error 500 ''failed to list keys'', s)
     | Inr ks \<Rightarrow> (Tn_keys ks, s)) env"

definition handleTenantKeyCreate :: "tenant_env \<Rightarrow> sso_state \<Rightarrow> tenant_outcome" where
  "handleTenantKeyCreate env = tenant_gated ''admin:keys:rotate'' (\<lambda>key s.
     let tenantID = an_tenantID (te_admin env) in
     case checkActiveKeyLimit env tenantID (ss_tenants s) of
       Inl _ \<Rightarrow> (Tn_error 500 ''failed to check key limit'', s)
     | Inr (Some violation) \<Rightarrow> (violation, s)
     | Inr None \<Rightarrow>
         (case issue_key env tenantID ''failed to create key'' s of
            (Inl msg, s1) \<Rightarrow> (Tn_error 500 msg, s1)
          | (Inr (rawKey, keyPrefix), s1) \<Rightarrow>
              (Tn_issued 201 rawKey (te_keyID env) keyPrefix,
               tenant_audit env key tenantID ''TENANT.KEY.CREATED'' ''TENANT.KEY'' (te_keyID env) None
                 (Some [(''key_prefix'', Str_v keyPrefix)]) s1))) env"

text \<open>Rotation: an error of a revocation is dropped.\<close>

definition revoke_one :: "tenant_env \<Rightarrow> string \<Rightarrow> tenant_key \<Rightarrow> tenant_db \<Rightarrow> tenant_db" where
  "revoke_one env tenantID k db =
     (if tk_RevokedAt k \<noteq> None \<or> te_revoke env (tk_KeyID k) \<noteq> None then db
      else snd (RevokeTenantKey tenantID (tk_KeyID k) (an_now (te_admin env)) db))"

definition handleTenantKeyRotate :: "tenant_env \<Rightarrow> sso_state \<Rightarrow> tenant_outcome" where
  "handleTenantKeyRotate env = tenant_gated ''admin:keys:rotate'' (\<lambda>key s.
     let tenantID = an_tenantID (te_admin env) in
     case ListTenantKeys (te_fault env ''ListTenantKeys'') tenantID (ss_tenants s) of
       Inl _ \<Rightarrow> (Tn_error 500 ''failed to list keys'', s)
     | Inr ks \<Rightarrow>
         (case issue_key env tenantID ''failed to create key'' (s\<lparr>ss_tenants := fold (revoke_one env tenantID) ks (ss_tenants s)\<rparr>) of
            (Inl msg, s1) \<Rightarrow> (Tn_error 500 msg, s1)
          | (Inr (rawKey, keyPrefix), s1) \<Rightarrow>
              (Tn_issued 200 rawKey (te_keyID env) keyPrefix,
               tenant_audit env key tenantID ''TENANT.KEY.ROTATED'' ''TENANT.KEY'' (te_keyID env) None
                 (Some [(''key_prefix'', Str_v keyPrefix)]) s1))) env"

definition handleTenantKeyRevoke :: "tenant_env \<Rightarrow> sso_state \<Rightarrow> tenant_outcome" where
  "handleTenantKeyRevoke env = tenant_gated ''admin:keys:revoke'' (\<lambda>key s.
     let tenantID = an_tenantID (te_admin env); keyID = an_param (te_admin env); now = an_now (te_admin env) in
     case (case te_revoke env keyID of Some e \<Rightarrow> (Inl e, ss_tenants s) | None \<Rightarrow> RevokeTenantKey tenantID keyID now (ss_tenants s)) of
       (Inl _, db) \<Rightarrow> (Tn_error 404 ''key not found or already revoked'', s\<lparr>ss_tenants := db\<rparr>)
     | (Inr _, db) \<Rightarrow>
         (Tn_empty 204, tenant_audit env key tenantID ''TENANT.KEY.REVOKED'' ''TENANT.KEY'' keyID None
            (Some [(''revoked_at'', Str_v (FormatRFC3339Nano now))]) (s\<lparr>ss_tenants := db\<rparr>))) env"

definition handleTenantSetEnabled :: "tenant_env \<Rightarrow> sso_state \<Rightarrow> tenant_outcome" where
  "handleTenantSetEnabled env = tenant_gated ''admin:tenants:write'' (\<lambda>key s.
     let tenantID = an_tenantID (te_admin env) in
     case decode_body [(''enabled'', raw_bool_field id)] False (an_body (te_admin env)) of
       None \<Rightarrow> (Tn_error 400 ''invalid request body'', s)
     | Some enabled \<Rightarrow>
         (case SetTenantEnabled (te_fault env ''SetTenantEnabled'') tenantID enabled (ss_tenants s) of
            (Inl _, db) \<Rightarrow> (Tn_error 404 ''tenant not found'', s\<lparr>ss_tenants := db\<rparr>)
          | (Inr _, db) \<Rightarrow>
              (Tn_empty 204, tenant_audit env key tenantID (if enabled then ''TENANT.ENABLED'' else ''TENANT.DISABLED'') ''TENANT'' tenantID None
                 (Some [(''enabled'', Bool_v enabled)]) (s\<lparr>ss_tenants := db\<rparr>)))) env"

definition handleTenantDelete :: "tenant_env \<Rightarrow> sso_state \<Rightarrow> tenant_outcome" where
  "handleTenantDelete env = tenant_gated ''admin:tenants:write'' (\<lambda>key s.
     let tenantID = an_tenantID (te_admin env); now = an_now (te_admin env) in
     case SoftDeleteTenant (te_write env) tenantID now (am_config (ss_admin s)) (ss_tenants s) of
       (Inl e, db) \<Rightarrow>
         (if e = ErrNotFound then Tn_error 404 ''tenant not found''
          else if e = ErrAdminWriteLocked then Tn_error 403 ''admin writes locked''
          else Tn_error 500 ''failed to delete tenant'', s\<lparr>ss_tenants := db\<rparr>)
     | (Inr _, db) \<Rightarrow>
         (Tn_empty 204, tenant_audit env key tenantID ''TENANT.DELETED'' ''TENANT'' tenantID
            (Some [(''deleted_at'', Nil_v), (''enabled'', Bool_v True)])
            (Some [(''deleted_at'', Str_v (FormatRFC3339Nano now)), (''enabled'', Bool_v False)]) (s\<lparr>ss_tenants := db\<rparr>))) env"

definition handleTenantConfigUpdate :: "tenant_env \<Rightarrow> sso_state \<Rightarrow> tenant_outcome" where
  "handleTenantConfigUpdate env = tenant_gated ''admin:tenants:write'' (\<lambda>key s.
     case decode_body [(''name'', raw_string_field (\<lambda>f (n, k). (f n, k))), (''tenant_key'', raw_string_field (\<lambda>f (n, k). (n, f k)))] ([], [])
            (an_body (te_admin env)) of
       None \<Rightarrow> (Tn_error 400 ''invalid request body'', s)
     | Some (name, tenantKey) \<Rightarrow>
         (let tenantID = an_tenantID (te_admin env); cy = an_crypto (te_admin env);
              beforeName = (case GetTenant (te_fault env ''GetTenant'') tenantID (am_config (ss_admin s)) (ss_tenants s) of Inr t \<Rightarrow> tn_Name t | Inl _ \<Rightarrow> []);
              beforeHash = (case GetTenantKeyHash (te_fault env ''GetTenantKeyHash'') tenantID (ss_tenants s) of Inr h \<Rightarrow> h | Inl _ \<Rightarrow> []) in
          case UpdateTenantConfig (te_write env) cy (te_keySecrets env) tenantID name tenantKey (am_config (ss_admin s)) (ss_tenants s) of
            (Inl e, db) \<Rightarrow>
              (case handleBootstrapError e of Adm_error code msg \<Rightarrow> Tn_error code msg | _ \<Rightarrow> Tn_error 500 ''update failed'', s\<lparr>ss_tenants := db\<rparr>)
          | (Inr _, db) \<Rightarrow>
              (case audit_event (te_admin env) key tenantID ''TENANT.CONFIG.UPDATE'' ''TENANT.CONFIG'' tenantID
                      (Some [(''name'', Str_v beforeName), (''key_hash'', Str_v beforeHash)])
                      (Some [(''name'', Str_v (if name \<noteq> [] then name else beforeName)),
                             (''key_hash'', Str_v (if tenantKey \<noteq> [] then HashKey cy (te_keySecrets env) tenantKey else beforeHash))])
                      (ss_admin s) of
                 (Inl _, a) \<Rightarrow> (Tn_error 500 ''failed to audit tenant config update'', s\<lparr>ss_tenants := db, ss_admin := a\<rparr>)
               | (Inr _, a) \<Rightarrow> (Tn_empty 204, s\<lparr>ss_tenants := db, ss_admin := a\<rparr>)))) env"

definition handleTenantList :: "tenant_env \<Rightarrow> sso_state \<Rightarrow> tenant_outcome" where
  "handleTenantList env = tenant_gated ''admin:tenants:read'' (\<lambda>key s.
     case ListTenants (te_fault env ''ListTenants'') (te_tenantIDs env) (am_config (ss_admin s)) (ss_tenants s) of
       Inl _ \<Rightarrow> (Tn_error 500 ''failed to list tenants'', s)
     | Inr items \<Rightarrow> (Tn_tenants items, s)) env"

definition handleTenantDetail :: "tenant_env \<Rightarrow> sso_state \<Rightarrow> tenant_outcome" where
  "handleTenantDetail env = tenant_gated ''admin:tenants:read'' (\<lambda>key s.
     case GetTenant (te_fault env ''GetTenant'') (an_tenantID (te_admin env)) (am_config (ss_admin s)) (ss_tenants s) of
       Inl e \<Rightarrow> (if e = ErrNotFound then Tn_error 404 ''tenant not found'' else Tn_error 500 ''failed to load tenant'', s)
     | Inr t \<Rightarrow> (Tn_tenant t, s)) env"

text \<open>The routes of one tenant: the middleware, then the handler with the claims it found.\<close>

definition with_env_claims :: "admin_session_claims option \<Rightarrow> tenant_env \<Rightarrow> tenant_env" where
  "with_env_claims claims env = env\<lparr>te_sso := (te_sso env)\<lparr>se_admin := with_claims claims (te_admin env)\<rparr>\<rparr>"

definition tenant_route :: "(tenant_env \<Rightarrow> sso_state \<Rightarrow> tenant_outcome) \<Rightarrow> tenant_env \<Rightarrow> sso_state \<Rightarrow> (sso_reply + tenant_reply) \<times> sso_state" where
  "tenant_route handler env s =
     (case requireTenantVisible (te_sso env) s of
        (Inl reply, s1) \<Rightarrow> (Inl reply, s1)
      | (Inr claims, s1) \<Rightarrow> (case handler (with_env_claims claims env) s1 of (reply, s2) \<Rightarrow> (Inr reply, s2)))"

subsection \<open>What is stored of a key\<close>

lemma admin_scope_keeps_state:
  "requireAdminScope env scope a = (r, a') \<Longrightarrow> am_config a' = am_config a \<and> am_store a' = am_store a \<and> am_audit a' = am_audit a"
  by (auto simp: requireAdminScope_def split: option.splits prod.splits if_splits)

lemma audit_event_keeps: "am_config (snd (audit_event env key t act rt rid b a st)) = am_config st"
  by (simp add: audit_event_def split: prod.splits)

lemma tenant_audit_simps [simp]:
  "ss_tenants (tenant_audit env key t act rt rid b a s) = ss_tenants s"
  "am_config (ss_admin (tenant_audit env key t act rt rid b a s)) = am_config (ss_admin s)"
  by (simp_all add: tenant_audit_def audit_event_keeps)

text \<open>The successful outcome of a gated handler, behind its authentication.\<close>

lemma gated_outcome:
  assumes "tenant_gated scope handler env s = (reply, s')"
  obtains (refused) code msg where "reply = Tn_error code msg" "ss_tenants s' = ss_tenants s" "am_config (ss_admin s') = am_config (ss_admin s)"
  | (let_in) key s1 where "handler key s1 = (reply, s')" "ss_tenants s1 = ss_tenants s" "am_config (ss_admin s1) = am_config (ss_admin s)"
proof (cases "requireAdminScope (te_admin env) scope (ss_admin s)")
  case (Pair r a)
  note k = admin_scope_keeps_state [OF Pair]
  show thesis
  proof (cases r)
    case (Inl e)
    then show thesis using assms Pair k refused
      by (auto simp: tenant_gated_def admin_authError_def split: if_splits)
  next
    case (Inr key)
    then show thesis using assms Pair k let_in [of key "s\<lparr>ss_admin := a\<rparr>"] by (simp add: tenant_gated_def)
  qed
qed

definition new_key :: "tenant_env \<Rightarrow> string \<Rightarrow> string \<Rightarrow> tenant_key" where
  "new_key env tenantID rawKey =
     \<lparr>tk_KeyID = te_keyID env, tk_TenantID = tenantID, tk_KeyHash = HashKey (an_crypto (te_admin env)) (te_keySecrets env) rawKey, tk_RevokedAt = None\<rparr>"

lemma issue_key_Inr:
  assumes "issue_key env tenantID fmsg s = (Inr (rawKey, keyPrefix), s')"
  shows "td_keys (ss_tenants s') = td_keys (ss_tenants s) @ [new_key env tenantID rawKey] \<and> td_tenants (ss_tenants s') = td_tenants (ss_tenants s) \<and>
    ss_admin s' = ss_admin s \<and> te_keyID env \<notin> tk_KeyID ` set (td_keys (ss_tenants s)) \<and>
    tk_KeyHash (new_key env tenantID rawKey) \<notin> tk_KeyHash ` set (td_keys (ss_tenants s))"
  using assms
  by (auto simp: issue_key_def GenerateAPIKey_def CreateTenantKey_def new_key_def Let_def split: option.splits prod.splits sum.splits if_splits)

lemma issue_key_fresh:
  assumes "te_bytes env = Some bytes" and "rawKey = ''rbtr_live_'' @ EncodeToString bytes" and "te_fault env ''CreateTenantKey'' = None"
    and "te_keyID env \<notin> tk_KeyID ` set (td_keys (ss_tenants s))"
    and "HashKey (an_crypto (te_admin env)) (te_keySecrets env) rawKey \<notin> tk_KeyHash ` set (td_keys (ss_tenants s))"
    and "td_tenants (ss_tenants s) tenantID \<noteq> None"
  shows "\<exists>keyPrefix s'. issue_key env tenantID fmsg s = (Inr (rawKey, keyPrefix), s')"
  using assms by (simp add: issue_key_def GenerateAPIKey_def CreateTenantKey_def Let_def)

subsection \<open>Rotation\<close>

definition revoke_row :: "time \<Rightarrow> (tenant_key \<Rightarrow> bool) \<Rightarrow> tenant_key \<Rightarrow> tenant_key" where
  "revoke_row now p k = (if p k \<and> tk_RevokedAt k = None then k\<lparr>tk_RevokedAt := Some now\<rparr> else k)"

lemma RevokeTenantKey_rows:
  "td_keys (snd (RevokeTenantKey tenantID keyID now db)) = map (revoke_row now (\<lambda>k. tk_KeyID k = keyID \<and> tk_TenantID k = tenantID)) (td_keys db) \<and>
   td_tenants (snd (RevokeTenantKey tenantID keyID now db)) = td_tenants db"
  by (auto simp: RevokeTenantKey_def revoke_row_def filter_empty_conv intro!: map_idI [symmetric] map_cong)

definition revokes :: "tenant_env \<Rightarrow> string \<Rightarrow> tenant_key list \<Rightarrow> tenant_key \<Rightarrow> bool" where
  "revokes env tenantID ks k =
     (tk_TenantID k = tenantID \<and> (\<exists>j\<in>set ks. tk_KeyID j = tk_KeyID k \<and> tk_RevokedAt j = None \<and> te_revoke env (tk_KeyID j) = None))"

lemma revoke_all:
  "td_keys (fold (revoke_one env tenantID) ks db) = map (revoke_row (an_now (te_admin env)) (revokes env tenantID ks)) (td_keys db) \<and>
   td_tenants (fold (revoke_one env tenantID) ks db) = td_tenants db"
proof (induction ks arbitrary: db)
  case Nil
  then show ?case by (auto simp: revoke_row_def revokes_def intro!: map_idI [symmetric])
next
  case (Cons j ks)
  have r: "revokes env tenantID (j # ks) k \<longleftrightarrow> revokes env tenantID ks k \<or>
      (tk_RevokedAt j = None \<and> te_revoke env (tk_KeyID j) = None \<and> tk_KeyID k = tk_KeyID j \<and> tk_TenantID k = tenantID)" for k
    by (auto simp: revokes_def)
  have u: "revokes env tenantID ks (k\<lparr>tk_RevokedAt := t\<rparr>) = revokes env tenantID ks k" for k t by (simp add: revokes_def)
  show ?case
  proof (cases "tk_RevokedAt j \<noteq> None \<or> te_revoke env (tk_KeyID j) \<noteq> None")
    case True
    with Cons.IH [of db] show ?thesis by (auto simp: revoke_one_def revoke_row_def r)
  next
    case False
    with Cons.IH [of "snd (RevokeTenantKey tenantID (tk_KeyID j) (an_now (te_admin env)) db)"] RevokeTenantKey_rows [of tenantID "tk_KeyID j" "an_now (te_admin env)" db]
    show ?thesis by (auto simp: revoke_one_def revoke_row_def r u)
  qed
qed

text \<open>What a rotation leaves in force. When the route answers with a new key, the keys of the tenant
  that are not revoked are exactly this key, stored as its hash, and those active keys whose revocation
  met an error of the driver, which the answer does not mention; the keys of other tenants are as before.\<close>

theorem rotation_leaves_failed_revocations:
  assumes "handleTenantKeyRotate env s = (Tn_issued 200 rawKey keyID keyPrefix, s')" and "tenantID = an_tenantID (te_admin env)"
  shows "{k \<in> set (td_keys (ss_tenants s')). tk_TenantID k = tenantID \<and> tk_RevokedAt k = None} =
      insert (new_key env tenantID rawKey)
        {k \<in> set (td_keys (ss_tenants s)). tk_TenantID k = tenantID \<and> tk_RevokedAt k = None \<and> te_revoke env (tk_KeyID k) \<noteq> None} \<and>
    filter (\<lambda>k. tk_TenantID k \<noteq> tenantID) (td_keys (ss_tenants s')) = filter (\<lambda>k. tk_TenantID k \<noteq> tenantID) (td_keys (ss_tenants s))"
proof -
  let ?ks = "map (\<lambda>k. k\<lparr>tk_KeyHash := []\<rparr>) (rev (filter (\<lambda>k. tk_TenantID k = tenantID) (td_keys (ss_tenants s))))"
  have rows: "td_keys (ss_tenants s') = map (revoke_row (an_now (te_admin env)) (revokes env tenantID ?ks)) (td_keys (ss_tenants s)) @ [new_key env tenantID rawKey]"
    using assms(1) [unfolded handleTenantKeyRotate_def]
  proof (cases rule: gated_outcome)
    case (let_in key s1)
    then obtain s2 where i: "issue_key env tenantID ''failed to create key'' (s1\<lparr>ss_tenants := fold (revoke_one env tenantID) ?ks (ss_tenants s)\<rparr>) =
        (Inr (rawKey, keyPrefix), s2)" "ss_tenants s' = ss_tenants s2"
      by (auto simp: Let_def ListTenantKeys_def assms(2) split: option.splits sum.splits prod.splits)
    from issue_key_Inr [OF i(1)] i(2) revoke_all [of env tenantID ?ks "ss_tenants s"] show ?thesis by simp
  qed simp
  have rev: "revokes env tenantID ?ks k \<longleftrightarrow> te_revoke env (tk_KeyID k) = None"
    if "k \<in> set (td_keys (ss_tenants s))" "tk_TenantID k = tenantID" "tk_RevokedAt k = None" for k
    using that by (auto simp: revokes_def)
  have "filter (\<lambda>k. tk_TenantID k \<noteq> tenantID) (map (revoke_row n (revokes env tenantID ?ks)) ys) = filter (\<lambda>k. tk_TenantID k \<noteq> tenantID) ys" for n ys
    by (induction ys) (auto simp: revoke_row_def revokes_def)
  with rows rev show ?thesis by (auto simp: revoke_row_def new_key_def split: if_splits)
qed

subsection \<open>Taking keys and tenants out of service\<close>

datatype offboarding = Revoke_key | Disable_tenant | Delete_tenant

fun offboard :: "offboarding \<Rightarrow> tenant_env \<Rightarrow> sso_state \<Rightarrow> tenant_outcome" where
  "offboard Revoke_key = handleTenantKeyRevoke"
| "offboard Disable_tenant = handleTenantSetEnabled"
| "offboard Delete_tenant = handleTenantDelete"

fun out_of_service :: "offboarding \<Rightarrow> tenant_env \<Rightarrow> tenant_key \<Rightarrow> bool" where
  "out_of_service Revoke_key env k = (tk_TenantID k = an_tenantID (te_admin env) \<and> tk_KeyID k = an_param (te_admin env))"
| "out_of_service Disable_tenant env k =
     (tk_TenantID k = an_tenantID (te_admin env) \<and> decode_body [(''enabled'', raw_bool_field id)] False (an_body (te_admin env)) = Some False)"
| "out_of_service Delete_tenant env k = (tk_TenantID k = an_tenantID (te_admin env))"

lemma update_tenant_row: "update_tenant tenantID f db = (Inr (), db') \<Longrightarrow> \<exists>row. td_tenants db' tenantID = Some (f row)"
  by (auto simp: update_tenant_def split: option.splits if_splits)

lemma offboarded_not_live:
  assumes "offboard way env s = (Tn_empty 204, s')" and "live_key (ss_tenants s') hashes t k" and "k \<in> set (td_keys (ss_tenants s'))"
  shows "\<not> out_of_service way env k"
proof (cases way)
  case Revoke_key
  with assms(1) have h: "handleTenantKeyRevoke env s = (Tn_empty 204, s')" by simp
  from h [unfolded handleTenantKeyRevoke_def] show ?thesis
  proof (cases rule: gated_outcome)
    case (let_in key s1)
    then have "RevokeTenantKey (an_tenantID (te_admin env)) (an_param (te_admin env)) (an_now (te_admin env)) (ss_tenants s) = (Inr (), ss_tenants s')"
      by (auto simp: Let_def split: option.splits sum.splits prod.splits)
    with RevokeTenantKey_rows [of "an_tenantID (te_admin env)" "an_param (te_admin env)" "an_now (te_admin env)" "ss_tenants s"]
    have "k \<in> set (map (revoke_row (an_now (te_admin env)) (\<lambda>k. tk_KeyID k = an_param (te_admin env) \<and> tk_TenantID k = an_tenantID (te_admin env)))
        (td_keys (ss_tenants s)))" using assms(3) by simp
    with assms(2) show ?thesis by (auto simp: revoke_row_def live_key_def Revoke_key split: if_splits)
  qed simp
next
  case Disable_tenant
  with assms(1) have h: "handleTenantSetEnabled env s = (Tn_empty 204, s')" by simp
  from h [unfolded handleTenantSetEnabled_def] show ?thesis
  proof (cases rule: gated_outcome)
    case (let_in key s1)
    then obtain enabled where "decode_body [(''enabled'', raw_bool_field id)] False (an_body (te_admin env)) = Some enabled"
        "SetTenantEnabled (te_fault env ''SetTenantEnabled'') (an_tenantID (te_admin env)) enabled (ss_tenants s) = (Inr (), ss_tenants s')"
      by (auto simp: Let_def split: option.splits sum.splits prod.splits)
    with assms(2) show ?thesis
      by (auto simp: Disable_tenant SetTenantEnabled_def live_key_def split: option.splits if_splits dest!: update_tenant_row)
  qed simp
next
  case Delete_tenant
  with assms(1) have h: "handleTenantDelete env s = (Tn_empty 204, s')" by simp
  from h [unfolded handleTenantDelete_def] show ?thesis
  proof (cases rule: gated_outcome)
    case (let_in key s1)
    then have "SoftDeleteTenant (te_write env) (an_tenantID (te_admin env)) (an_now (te_admin env)) (am_config (ss_admin s1)) (ss_tenants s) =
        (Inr (), ss_tenants s')" by (auto simp: Let_def split: sum.splits prod.splits if_splits)
    with assms(2) show ?thesis
      by (auto simp: Delete_tenant SoftDeleteTenant_def live_key_def split: sum.splits option.splits if_splits dest!: update_tenant_row)
  qed simp
qed

text \<open>C33: a key or tenant taken out of service logs in no more. Once the route for revoking a key, for
  disabling a tenant or for deleting it has answered 204, every login that still succeeds, whatever key is
  presented and whatever driver errors it meets, rests on a live key other than the revoked one or of
  another tenant.\<close>

theorem offboarding_takes_effect:
  assumes "offboard way env s = (Tn_empty 204, s')"
    and "AuthenticateTenantDetailed fault upgrade_fault cy setting tenantKey agentID (ss_tenants s') = (Inr r, db)"
  shows "\<exists>k\<in>set (td_keys (ss_tenants s')).
    live_key (ss_tenants s') (candidate_hashes (tenant_key_hashes cy setting tenantKey)) (ar_Principal r) k \<and> \<not> out_of_service way env k"
  using tenant_login_sound [OF assms(2)] offboarded_not_live [OF assms(1)] by blast

subsection \<open>A tenant created through the API\<close>

lemma GetTenant_unconfigured: "config_of cdb tenantID = None \<Longrightarrow> \<exists>e. GetTenant flt tenantID cdb db = Inl e"
  by (auto simp: GetTenant_def split: option.splits)

lemma unconfigured_not_visible:
  assumes "config_of (am_config (ss_admin s)) (an_tenantID (se_admin env)) = None" and "an_tenantID (se_admin env) \<noteq> []"
  shows "\<exists>code msg s'. requireTenantVisible env s = (Inl (Sso_error code msg), s')"
proof -
  have c: "\<exists>code msg s'. continue env claims t = (Inl (Sso_error code msg), s')" if "am_config (ss_admin t) = am_config (ss_admin s)" for claims t
    using assms that GetTenant_unconfigured [of "am_config (ss_admin t)" "an_tenantID (se_admin env)" "se_tenant env" "ss_tenants t"]
    by (auto simp: continue_def requireTenantVisibleContinue_def Let_def)
  have a: "\<exists>code msg. sso_auth_reply e = Sso_error code msg" for e by (auto simp: sso_auth_reply_def admin_authError_def)
  show ?thesis
    by (auto simp: requireTenantVisible_def Let_def a split: option.splits prod.splits sum.splits if_splits intro!: c)
qed

lemma unconfigured_not_listed:
  assumes "config_of (am_config (ss_admin s)) tenantID = None" and "td_tenants (ss_tenants s) tenantID = Some row" and "tn_DeletedAt row = None"
    and "tenantID \<in> set (te_tenantIDs env)"
  shows "\<exists>code msg. fst (handleTenantList env s) = Tn_error code msg"
proof -
  obtain reply s' where h: "handleTenantList env s = (reply, s')" by fastforce
  from h [unfolded handleTenantList_def] show ?thesis
  proof (cases rule: gated_outcome)
    case (let_in key s1)
    have "\<exists>e. ListTenants (te_fault env ''ListTenants'') (te_tenantIDs env) (am_config (ss_admin s1)) (ss_tenants s1) = Inl e"
      using assms let_in(2,3) by (cases "te_fault env ''ListTenants''") (force simp: ListTenants_def Let_def list_ex_iff)+
    then show ?thesis using let_in(1) h by (auto split: sum.splits)
  qed (simp add: h)
qed

text \<open>A tenant created through the API cannot be used. Creating a tenant writes no row of
  \<open>tenant_config\<close>. In the state the route leaves, every route of the new tenant is refused by the
  middleware, whoever calls it, so that the tenant gets neither policy nor tool and can be neither
  disabled nor deleted; the listing of all tenants fails; and no policy is found for its calls.\<close>

theorem created_tenant_is_unreachable:
  assumes "handleTenantCreate env s = (Tn_created tenantID name rawKey keyID, s')"
    and "config_of (am_config (ss_admin s)) tenantID = None"
  shows "(an_tenantID (te_admin env') = tenantID \<longrightarrow> (\<exists>code msg s''. tenant_route handler env' s' = (Inl (Sso_error code msg), s''))) \<and>
    (tenantID \<in> set (te_tenantIDs env') \<longrightarrow> (\<exists>code msg. fst (handleTenantList env' s') = Tn_error code msg)) \<and>
    (\<exists>e. GetPolicy flt tenantID (am_config (ss_admin s')) = Inl e)"
proof -
  have cr: "tenantID \<noteq> [] \<and> config_of (am_config (ss_admin s')) tenantID = None \<and>
      (\<exists>row. td_tenants (ss_tenants s') tenantID = Some row \<and> tn_DeletedAt row = None)"
    using assms(1) [unfolded handleTenantCreate_def]
  proof (cases rule: gated_outcome)
    case (let_in key s1)
    from let_in(1) obtain db keyPrefix s2 where "CreateTenant (te_fault env ''CreateTenant'') tenantID name (ss_tenants s1) = (Inr (), db)"
        "issue_key env tenantID ''failed to create tenant key'' (s1\<lparr>ss_tenants := db\<rparr>) = (Inr (rawKey, keyPrefix), s2)"
        "ss_tenants s' = ss_tenants s2" "am_config (ss_admin s') = am_config (ss_admin s2)" "tenantID \<noteq> []"
      by (auto simp: Let_def checkTenantLimit_def split: option.splits sum.splits prod.splits if_splits)
    with issue_key_Inr [of env tenantID] let_in(3) assms(2) show ?thesis
      by (auto simp: CreateTenant_def split: option.splits if_splits)
  qed simp
  have "\<exists>code msg s''. tenant_route handler env' s' = (Inl (Sso_error code msg), s'')" if "an_tenantID (te_admin env') = tenantID"
    using unconfigured_not_visible [of s' "te_sso env'"] cr that by (auto simp: tenant_route_def te_admin_def)
  moreover have "\<exists>e. GetPolicy flt tenantID (am_config (ss_admin s')) = Inl e"
    using cr by (auto simp: GetPolicy_def or_not_found_def config_of_def split: option.splits)
  ultimately show ?thesis using cr unconfigured_not_listed by blast
qed

subsection \<open>Concrete requests\<close>

definition sample_tenant_env :: "string \<Rightarrow> string \<Rightarrow> string \<Rightarrow> tenant_env" where
  "sample_tenant_env scope param body =
     \<lparr>te_sso = (sample_sso_env (\<lambda>_. []) 0)\<lparr>se_admin := sample_admin_env [scope] param body\<rparr>, te_bytes = Some ''abc'', te_uuid = ''0123456789'', te_keyID = ''k9'',
      te_keySecrets = [], te_fault = (\<lambda>_. None), te_revoke = (\<lambda>k. if k = ''k2'' then Some ErrTimeout else None), te_write = no_faults,
      te_tenantIDs = [''t1'', ''t_01234567'']\<rparr>"

definition old_key :: "string \<Rightarrow> tenant_key" where
  "old_key i = \<lparr>tk_KeyID = i, tk_TenantID = ''t1'', tk_KeyHash = ''s'' @ i, tk_RevokedAt = None\<rparr>"

definition two_keys :: sso_state where
  "two_keys = sso_start\<lparr>ss_tenants := (ss_tenants sso_start)\<lparr>td_keys := [old_key ''k1'', old_key ''k2'']\<rparr>\<rparr>"

lemma sample_tenant_admin [simp]: "te_admin (sample_tenant_env scope param body) = sample_admin_env [scope] param body"
  by (simp add: te_admin_def sample_tenant_env_def)

lemma sample_tenant_simps [simp]:
  "te_bytes (sample_tenant_env scope param body) = Some ''abc''" "te_fault (sample_tenant_env scope param body) = (\<lambda>_. None)"
  "te_keyID (sample_tenant_env scope param body) = ''k9''" "te_keySecrets (sample_tenant_env scope param body) = []"
  "an_crypto (sample_admin_env scopes param body) = sample_crypto" "an_tenantID (sample_admin_env scopes param body) = ''t1''"
  by (simp_all add: sample_tenant_env_def sample_admin_env_def)

lemma sample_tenant_gated: "tenant_gated scope handler (sample_tenant_env scope param body) s = handler (ann [scope]) s"
  by (simp add: tenant_gated_def sample_caller)

lemma sample_raw_hash: "HashKey sample_crypto [] (CHR ''r'' # k) = CHR ''s'' # CHR ''r'' # k"
proof -
  have "normalizeSecrets (HMACSecretsFromEnv []) = []" by code_simp
  then show ?thesis by (simp add: HashKey_def BuildKeyHashCandidates_def sample_crypto_def)
qed

theorem rotation_leaves_failed_revocations_witness:
  "\<exists>rawKey keyPrefix s'. handleTenantKeyRotate (sample_tenant_env ''admin:keys:rotate'' [] []) two_keys = (Tn_issued 200 rawKey ''k9'' keyPrefix, s') \<and>
     {k \<in> set (td_keys (ss_tenants s')). tk_TenantID k = ''t1'' \<and> tk_RevokedAt k = None} =
       {new_key (sample_tenant_env ''admin:keys:rotate'' [] []) ''t1'' rawKey, old_key ''k2''}"
proof -
  let ?env = "sample_tenant_env ''admin:keys:rotate'' [] []"
  have t: "an_tenantID (te_admin ?env) = ''t1''" by (simp add: sample_admin_env_def)
  let ?ks = "map (\<lambda>k. k\<lparr>tk_KeyHash := []\<rparr>) (rev (td_keys (ss_tenants two_keys)))"
  define db where "db = fold (revoke_one ?env ''t1'') ?ks (ss_tenants two_keys)"
  have own: "filter (\<lambda>k. tk_TenantID k = ''t1'') (td_keys (ss_tenants two_keys)) = td_keys (ss_tenants two_keys)"
    by (simp add: two_keys_def old_key_def)
  have "tk_KeyID ` set (td_keys db) = {''k1'', ''k2''}" "tk_KeyHash ` set (td_keys db) = {''sk1'', ''sk2''}" "td_tenants db ''t1'' \<noteq> None"
    using revoke_all [of ?env "''t1''" ?ks "ss_tenants two_keys"]
    by (auto simp: db_def two_keys_def old_key_def revoke_row_def sso_start_def)
  then have "te_keyID ?env \<notin> tk_KeyID ` set (td_keys (ss_tenants (two_keys\<lparr>ss_tenants := db\<rparr>)))"
      "HashKey (an_crypto (te_admin ?env)) (te_keySecrets ?env) (''rbtr_live_'' @ EncodeToString ''abc'') \<notin>
         tk_KeyHash ` set (td_keys (ss_tenants (two_keys\<lparr>ss_tenants := db\<rparr>)))"
      "td_tenants (ss_tenants (two_keys\<lparr>ss_tenants := db\<rparr>)) ''t1'' \<noteq> None"
    by (simp_all add: sample_raw_hash)
  from issue_key_fresh [where fmsg = "''failed to create key''", OF sample_tenant_simps(1) refl _ this] obtain keyPrefix s1 where
    i: "issue_key ?env ''t1'' ''failed to create key'' (two_keys\<lparr>ss_tenants := db\<rparr>) = (Inr (''rbtr_live_'' @ EncodeToString ''abc'', keyPrefix), s1)"
    by auto
  have h: "handleTenantKeyRotate ?env two_keys = (Tn_issued 200 (''rbtr_live_'' @ EncodeToString ''abc'') ''k9'' keyPrefix,
      tenant_audit ?env (ann [''admin:keys:rotate'']) ''t1'' ''TENANT.KEY.ROTATED'' ''TENANT.KEY'' ''k9'' None (Some [(''key_prefix'', Str_v keyPrefix)]) s1)"
    unfolding handleTenantKeyRotate_def sample_tenant_gated
    by (simp only: sample_tenant_admin sample_tenant_simps ListTenantKeys_def own Let_def option.case sum.case db_def [symmetric] i prod.case)
  let ?s = "tenant_audit ?env (ann [''admin:keys:rotate'']) ''t1'' ''TENANT.KEY.ROTATED'' ''TENANT.KEY'' ''k9'' None (Some [(''key_prefix'', Str_v keyPrefix)]) s1"
  have kept: "{k \<in> set (td_keys (ss_tenants two_keys)). tk_TenantID k = ''t1'' \<and> tk_RevokedAt k = None \<and> te_revoke ?env (tk_KeyID k) \<noteq> None} =
      {old_key ''k2''}" by (auto simp: two_keys_def old_key_def sample_tenant_env_def)
  from rotation_leaves_failed_revocations [OF h t [symmetric]] have
    "{k \<in> set (td_keys (ss_tenants ?s)). tk_TenantID k = ''t1'' \<and> tk_RevokedAt k = None} =
       {new_key ?env ''t1'' (''rbtr_live_'' @ EncodeToString ''abc''), old_key ''k2''}" unfolding kept by (rule conjunct1)
  with h show ?thesis by blast
qed

lemma sample_second_key:
  assumes "td_keys db = [k, old_key ''k2'']" and "tk_KeyHash k = ''sk1''" and "td_tenants db = td_tenants (ss_tenants sso_start)"
  shows "\<exists>r. AuthenticateTenantDetailed (\<lambda>_. None) None sample_crypto [] ''k2'' ''bot-1'' db = (Inr r, db)"
proof -
  have h: "BuildKeyHashCandidates sample_crypto ''k2'' (HMACSecretsFromEnv []) = \<lparr>kh_Current = [], kh_Previous = [], kh_Legacy = ''sk2''\<rparr>"
    and t: "TrimSpace ''sk2'' \<noteq> []" "TrimSpace [] = []" by code_simp+
  have "GetTenantByKeyHash ''sk2'' db = Inr \<lparr>tn_TenantID = ''t1'', tn_Name = [], tn_Enabled = True\<rparr>"
    using assms by (simp add: GetTenantByKeyHash_def old_key_def key_tenant_def sso_start_def List.map_filter_simps)
  then show ?thesis
    using sample_agent by (simp add: AuthenticateTenantDetailed_def h authenticate_hashes_def lookup_def t Let_def)
qed

theorem offboarding_takes_effect_witness:
  "\<exists>s' (r :: tenant auth_result). offboard Revoke_key (sample_tenant_env ''admin:keys:revoke'' ''k1'' []) two_keys = (Tn_empty 204, s') \<and>
     (\<exists>k\<in>set (td_keys (ss_tenants s')).
        live_key (ss_tenants s') (candidate_hashes (tenant_key_hashes sample_crypto [] ''k2'')) (ar_Principal r) k \<and> tk_KeyID k \<noteq> ''k1'')"
proof -
  let ?env = "sample_tenant_env ''admin:keys:revoke'' ''k1'' []"
  let ?db = "(ss_tenants two_keys)\<lparr>td_keys := [(old_key ''k1'')\<lparr>tk_RevokedAt := Some 9\<rparr>, old_key ''k2'']\<rparr>"
  have "RevokeTenantKey ''t1'' ''k1'' 9 (ss_tenants two_keys) = (Inr (), ?db)"
    by (simp add: RevokeTenantKey_def two_keys_def old_key_def)
  then obtain s' where s': "offboard Revoke_key ?env two_keys = (Tn_empty 204, s')" "ss_tenants s' = ?db"
    by (simp add: handleTenantKeyRevoke_def sample_tenant_gated Let_def) (simp add: sample_tenant_env_def sample_admin_env_def)
  obtain r where r: "AuthenticateTenantDetailed (\<lambda>_. None) None sample_crypto [] ''k2'' ''bot-1'' (ss_tenants s') = (Inr r, ss_tenants s')"
    using sample_second_key [of "ss_tenants s'" "(old_key ''k1'')\<lparr>tk_RevokedAt := Some 9\<rparr>"] s'(2) by (auto simp: two_keys_def old_key_def)
  from offboarding_takes_effect [OF s'(1) r] obtain k where k: "k \<in> set (td_keys (ss_tenants s'))"
      "live_key (ss_tenants s') (candidate_hashes (tenant_key_hashes sample_crypto [] ''k2'')) (ar_Principal r) k" "\<not> out_of_service Revoke_key ?env k"
    by blast
  then have "tk_KeyID k \<noteq> ''k1''" using s'(2) by (auto simp: two_keys_def old_key_def sample_admin_env_def)
  with s'(1) k show ?thesis by blast
qed

definition create_body :: string where "create_body = json_object [(''name'', quote ''New'')]"

lemma create_body_decoded: "decode_body [(''name'', raw_string_field id)] [] create_body = Some ''New''"
  by code_simp

theorem created_tenant_is_unreachable_witness:
  "\<exists>rawKey s'. handleTenantCreate (sample_tenant_env ''admin:tenants:write'' [] create_body) two_keys = (Tn_created ''t_01234567'' ''New'' rawKey ''k9'', s') \<and>
     (\<exists>code msg. fst (handleTenantList (sample_tenant_env ''admin:tenants:read'' [] []) s') = Tn_error code msg)"
proof -
  let ?env = "sample_tenant_env ''admin:tenants:write'' [] create_body" and ?id = "''t_01234567''"
  define row where "row = \<lparr>tn_row = \<lparr>tn_TenantID = ?id, tn_Name = ''New'', tn_Enabled = True\<rparr>, tn_DeletedAt = None\<rparr>"
  let ?db = "(ss_tenants two_keys)\<lparr>td_tenants := (td_tenants (ss_tenants two_keys))(?id \<mapsto> row)\<rparr>"
  have c: "CreateTenant None ?id ''New'' (ss_tenants two_keys) = (Inr (), ?db)"
    by (simp add: CreateTenant_def two_keys_def sso_start_def row_def)
  have "te_keyID ?env \<notin> tk_KeyID ` set (td_keys (ss_tenants (two_keys\<lparr>ss_tenants := ?db\<rparr>)))"
      "HashKey (an_crypto (te_admin ?env)) (te_keySecrets ?env) (''rbtr_live_'' @ EncodeToString ''abc'') \<notin>
         tk_KeyHash ` set (td_keys (ss_tenants (two_keys\<lparr>ss_tenants := ?db\<rparr>)))"
      "td_tenants (ss_tenants (two_keys\<lparr>ss_tenants := ?db\<rparr>)) ?id \<noteq> None"
    by (simp_all add: sample_raw_hash two_keys_def old_key_def)
  from issue_key_fresh [where fmsg = "''failed to create tenant key''", OF sample_tenant_simps(1) refl _ this] obtain keyPrefix s1 where
    i: "issue_key ?env ?id ''failed to create tenant key'' (two_keys\<lparr>ss_tenants := ?db\<rparr>) = (Inr (''rbtr_live_'' @ EncodeToString ''abc'', keyPrefix), s1)"
    by auto
  have u: "''t_'' @ take 8 (te_uuid ?env) = ?id" and l: "checkTenantLimit ?env (ss_tenants two_keys) = Inr None" and b: "an_body (te_admin ?env) = create_body"
    by (simp_all add: sample_tenant_env_def checkTenantLimit_def sample_admin_env_def te_admin_def)
  have h: "handleTenantCreate ?env two_keys = (Tn_created ?id ''New'' (''rbtr_live_'' @ EncodeToString ''abc'') ''k9'',
      tenant_audit ?env (ann [''admin:tenants:write'']) ?id ''TENANT.CREATED'' ''TENANT'' ?id None
        (Some [(''name'', Str_v ''New''), (''key_prefix'', Str_v keyPrefix)]) s1)"
    unfolding handleTenantCreate_def sample_tenant_gated
    by (simp only: b create_body_decoded option.case l sum.case Let_def u sample_tenant_simps c prod.case i) simp
  have "config_of (am_config (ss_admin two_keys)) ?id = None"
    by (simp add: config_of_def two_keys_def sso_start_def sso_db_def sample_config_db_def)
  from created_tenant_is_unreachable [OF h this, of "sample_tenant_env ''admin:tenants:read'' [] []"] h show ?thesis
    by (auto simp: sample_tenant_env_def)
qed

end
