(* ===== verification/Setup.thy ===== *)
theory Setup
  imports Tenant_Admin
begin

text \<open>
  First-run setup (\<open>src/internal/api/setup\<close>): who may call it (\<open>access.go\<close>), the handlers
  (\<open>handlers.go\<close>) and the service that writes the first tenant, its key, an administrator key, the default
  policy and the settings in one transaction (\<open>service.go\<close>). The transaction holds an advisory lock
  until it ends, so it is one step here; \<open>ie_lock\<close> is what the attempt to take the lock answers, and
  \<open>ie_before\<close> is the database as the request found it when it looked for an earlier answer, before it took the
  lock. The row \<open>setup_state\<close> and the audit events are written on other connections, whatever becomes of the
  transaction. A commit that reports an error may have been applied. The client address (\<open>RealIP\<close> of the web
  framework) and random bytes are given. A secret is judged byte by byte, which is what the code does
  on ASCII; of a unique violation the message has no constraint name. The theorems say that
  all successful answers of an installation are one and the same, that its keys work, and who can get one.
\<close>

subsection \<open>Access\<close>

datatype access_error = ErrSetupTokenMissing | ErrSetupTokenInvalid | ErrSetupNetworkRejected

record access_policy =
  xp_TokenRequired :: bool
  xp_Token :: string
  xp_AllowedCIDRs :: "(ip_addr \<times> nat) list"

definition ResolveSetupToken :: "(string \<Rightarrow> string option) \<Rightarrow> string \<Rightarrow> string \<Rightarrow> string option" where
  "ResolveSetupToken readFile rawToken tokenFile =
     (if TrimSpace tokenFile = [] then Some (TrimSpace rawToken) else map_option TrimSpace (readFile (TrimSpace tokenFile)))"

text \<open>\<open>netip.ParseAddr\<close>: an IPv6 address may have a zone, which must not be empty.\<close>

definition ParseAddr :: "string \<Rightarrow> (ip_addr \<times> string) option" where
  "ParseAddr s =
     (case Cut s (CHR ''%'') of
        None \<Rightarrow> map_option (\<lambda>a. (a, [])) (ParseIP s)
      | Some (addr, zone) \<Rightarrow>
          if zone \<noteq> [] \<and> CHR '':'' \<in> set addr \<and> ip6_ok addr then Some (IPv6 (ip6_value addr), zone) else None)"

fun addr_bits :: "ip_addr \<Rightarrow> nat" where
  "addr_bits (IPv4 _) = 32"
| "addr_bits (IPv6 _) = 128"

fun Masked :: "ip_addr \<times> nat \<Rightarrow> ip_addr \<times> nat" where
  "Masked (IPv4 a, n) = (IPv4 (a div 2 ^ (32 - n) * 2 ^ (32 - n)), n)"
| "Masked (IPv6 a, n) = (IPv6 (a div 2 ^ (128 - n) * 2 ^ (128 - n)), n)"

definition cut_at_last :: "char \<Rightarrow> string \<Rightarrow> (string \<times> string) option" where
  "cut_at_last c s = map_option (\<lambda>(a, b). (rev b, rev a)) (Cut (rev s) c)"

definition ParsePrefix :: "string \<Rightarrow> (ip_addr \<times> nat) option" where
  "ParsePrefix s =
     (case cut_at_last (CHR ''/'') s of
        None \<Rightarrow> None
      | Some (addr, bits) \<Rightarrow>
          (case ParseAddr addr of
             None \<Rightarrow> None
           | Some (a, zone) \<Rightarrow>
               if zone = [] \<and> bits \<noteq> [] \<and> list_all is_digit bits \<and> (length bits > 1 \<longrightarrow> hd bits \<noteq> CHR ''0'') \<and>
                  digits_value bits \<le> int (addr_bits a)
               then Some (a, nat (digits_value bits)) else None))"

fun parse_prefixes :: "string list \<Rightarrow> (ip_addr \<times> nat) list option" where
  "parse_prefixes [] = Some []"
| "parse_prefixes (v # vs) =
     (let trimmed = TrimSpace v in
      if trimmed = [] then parse_prefixes vs
      else (case ParsePrefix trimmed of
              None \<Rightarrow> None
            | Some p \<Rightarrow> map_option (\<lambda>ps. Masked p # ps) (parse_prefixes vs)))"

definition ParseAllowedCIDRs :: "string list \<Rightarrow> (ip_addr \<times> nat) list option" where
  "ParseAllowedCIDRs vals = parse_prefixes vals"

text \<open>\<open>Prefix.Contains\<close>: an address with a zone is in no prefix.\<close>

definition prefix_Contains :: "ip_addr \<times> nat \<Rightarrow> ip_addr \<times> string \<Rightarrow> bool" where
  "prefix_Contains p a = (snd a = [] \<and> in_block (fst p) (snd p) (fst a))"

text \<open>\<open>net.SplitHostPort\<close>, the host.\<close>

definition SplitHostPort :: "string \<Rightarrow> string option" where
  "SplitHostPort s =
     (case cut_at_last (CHR '':'') s of
        None \<Rightarrow> None
      | Some (host, port) \<Rightarrow>
          if s \<noteq> [] \<and> hd s = CHR ''[''
          then (case Cut (tl s) (CHR '']'') of
                  None \<Rightarrow> None
                | Some (inner, after) \<Rightarrow>
                    if after = CHR '':'' # port \<and> CHR ''['' \<notin> set inner \<and> CHR ''['' \<notin> set port \<and> CHR '']'' \<notin> set port then Some inner else None)
          else if CHR '':'' \<in> set host \<or> CHR ''['' \<in> set s \<or> CHR '']'' \<in> set s then None else Some host)"

definition clientIPAllowed :: "string \<Rightarrow> (ip_addr \<times> nat) list \<Rightarrow> bool" where
  "clientIPAllowed clientIP allowed =
     (if allowed = [] then True
      else (let ip = TrimSpace clientIP in
            if ip = [] then False
            else (case (case ParseAddr ip of Some a \<Rightarrow> Some a | None \<Rightarrow> Option.bind (SplitHostPort ip) ParseAddr) of
                    None \<Rightarrow> False
                  | Some a \<Rightarrow> list_ex (\<lambda>p. prefix_Contains p a) allowed)))"

definition setup_bearerToken :: "string \<Rightarrow> string" where
  "setup_bearerToken v =
     (case Cut v (CHR '' '') of
        None \<Rightarrow> []
      | Some (scheme, rest) \<Rightarrow> if EqualFold (TrimSpace scheme) ''Bearer'' then TrimSpace rest else [])"

definition setupTokenFingerprint :: "(string \<Rightarrow> string) \<Rightarrow> string \<Rightarrow> string" where
  "setupTokenFingerprint sha token = ''stf_'' @ take 16 (sha (TrimSpace token))"

definition Authorize :: "(string \<Rightarrow> string) \<Rightarrow> access_policy \<Rightarrow> string \<Rightarrow> string \<Rightarrow> access_error + string" where
  "Authorize sha p authHeader clientIP =
     (if \<not> clientIPAllowed clientIP (xp_AllowedCIDRs p) then Inl ErrSetupNetworkRejected
      else if \<not> xp_TokenRequired p then Inr []
      else (let token = setup_bearerToken authHeader; expected = TrimSpace (xp_Token p) in
            if token = [] then Inl ErrSetupTokenMissing
            else if expected = [] \<or> token \<noteq> expected then Inl ErrSetupTokenInvalid
            else Inr (setupTokenFingerprint sha token)))"

subsection \<open>Tables\<close>

datatype setup_error =
    ErrSetupComplete
  | ErrSetupInProgress
  | ErrSchemaNotReady
  | ErrInvalidRequest "(string \<times> string) list"
  | ErrIdempotencyRequired
  | ErrIdempotencyConflict
  | Setup_driver string

fun setup_text :: "setup_error \<Rightarrow> string" where
  "setup_text ErrSetupComplete = ''setup already complete''"
| "setup_text ErrSetupInProgress = ''setup already in progress''"
| "setup_text ErrSchemaNotReady = ''schema not ready''"
| "setup_text (ErrInvalidRequest flds) =
     (if flds = [] then ''invalid setup request''
      else ''invalid setup request: '' @ Join '', '' (map (\<lambda>(f, m). f @ '': '' @ m) flds))"
| "setup_text ErrIdempotencyRequired = ''idempotency key required''"
| "setup_text ErrIdempotencyConflict = ''idempotency key payload mismatch''"
| "setup_text (Setup_driver m) = m"

definition validationError :: "string \<Rightarrow> string \<Rightarrow> setup_error" where
  "validationError f m = ErrInvalidRequest [(f, m)]"

record setup_row =
  sr_State :: string
  sr_LastError :: "string option"
  sr_TokenFingerprint :: "string option"
  sr_IP :: "string option"
  sr_RequestID :: "string option"
  sr_StartedAt :: time
  sr_CompletedAt :: "time option"
  sr_UpdatedAt :: time

record replay_row =
  rr_PayloadHash :: string
  rr_ResponseRaw :: string
  rr_TokenFingerprint :: "string option"
  rr_IP :: "string option"
  rr_CreatedAt :: time

record setup_db =
  sb_relations :: "string list"
  sb_tenants :: tenant_db
  sb_tenantIDs :: "string list"
  sb_admins :: "admin_key list"
  sb_config :: config_db
  sb_replays :: "string \<rightharpoonup> replay_row"

record setup_world =
  sw_db :: setup_db
  sw_state :: "setup_row option"
  sw_audit :: audit_table

subsection \<open>Requests and answers\<close>

record initialize_request =
  iq_TenantName :: string
  iq_TenantID :: string
  iq_AdminKey :: string
  iq_TenantKey :: string
  iq_IdempotencyKey :: string
  iq_Fingerprint :: string
  iq_ClientIP :: string
  iq_UserAgent :: string
  iq_RequestID :: string

record initialize_response =
  ip_BootstrapComplete :: bool
  ip_TenantID :: string
  ip_TenantName :: string
  ip_TenantKeyID :: string
  ip_TenantKey :: string
  ip_TenantKeyCreated :: bool
  ip_AdminKeyID :: string
  ip_AdminKey :: string
  ip_AdminKeyCreated :: bool
  ip_PolicyVersion :: string

definition zero_init_response :: initialize_response where
  "zero_init_response = \<lparr>ip_BootstrapComplete = False, ip_TenantID = [], ip_TenantName = [], ip_TenantKeyID = [], ip_TenantKey = [],
     ip_TenantKeyCreated = False, ip_AdminKeyID = [], ip_AdminKey = [], ip_AdminKeyCreated = False, ip_PolicyVersion = []\<rparr>"

definition response_marshal :: "initialize_response \<Rightarrow> string" where
  "response_marshal r = struct_text
     [(''bootstrap_complete'', Bool_v (ip_BootstrapComplete r)), (''tenant_id'', Str_v (ip_TenantID r)), (''tenant_name'', Str_v (ip_TenantName r)),
      (''tenant_key_id'', Str_v (ip_TenantKeyID r)), (''tenant_key'', Str_v (ip_TenantKey r)), (''tenant_key_created'', Bool_v (ip_TenantKeyCreated r)),
      (''admin_key_id'', Str_v (ip_AdminKeyID r)), (''admin_key'', Str_v (ip_AdminKey r)), (''admin_key_created'', Bool_v (ip_AdminKeyCreated r)),
      (''policy_version'', Str_v (ip_PolicyVersion r))]"

definition bool_field :: "((bool \<Rightarrow> bool) \<Rightarrow> 'r \<Rightarrow> 'r) \<Rightarrow> 'r field" where
  "bool_field upd v r = (case v of Bool_v b \<Rightarrow> Some (upd (\<lambda>_. b) r) | Nil_v \<Rightarrow> Some r | _ \<Rightarrow> None)"

definition init_response_fields :: "(string \<times> initialize_response field) list" where
  "init_response_fields =
     [(''bootstrap_complete'', bool_field ip_BootstrapComplete_update), (''tenant_id'', string_field ip_TenantID_update),
      (''tenant_name'', string_field ip_TenantName_update), (''tenant_key_id'', string_field ip_TenantKeyID_update),
      (''tenant_key'', string_field ip_TenantKey_update), (''tenant_key_created'', bool_field ip_TenantKeyCreated_update),
      (''admin_key_id'', string_field ip_AdminKeyID_update), (''admin_key'', string_field ip_AdminKey_update),
      (''admin_key_created'', bool_field ip_AdminKeyCreated_update), (''policy_version'', string_field ip_PolicyVersion_update)]"

definition decodeReplayResponse :: "string \<Rightarrow> initialize_response option" where
  "decodeReplayResponse raw = Option.bind (decode_members raw) (decode_struct init_response_fields zero_init_response)"

record setup_env =
  ie_crypto :: crypto
  ie_tenantSecrets :: string
  ie_adminSecrets :: string
  ie_devAutoTools :: bool
  ie_mockURL :: string
  ie_jiraURL :: string
  ie_idempotencyRequired :: bool
  ie_before :: setup_db
  ie_lock :: "string + bool"
  ie_fault :: "string \<Rightarrow> string option"
  ie_commit :: "(string \<times> bool) option"
  ie_started :: time
  ie_now :: time
  ie_completed :: time
  ie_uuid :: "string \<Rightarrow> string"
  ie_tenantBytes :: "string option"
  ie_adminBytes :: "string option"
  ie_randomError :: string
  ie_stateFault :: "string \<Rightarrow> bool"
  ie_stateTime :: "string \<Rightarrow> time"
  ie_auditFault :: "string \<Rightarrow> faults"
  ie_auditID :: "string \<Rightarrow> string"
  ie_auditTime :: "string \<Rightarrow> time"
  ie_duration :: int
  ie_fmt :: "rat \<Rightarrow> string"

subsection \<open>Validation\<close>

definition alnum :: "char \<Rightarrow> bool" where
  "alnum c = (agent_char c \<and> c \<notin> {CHR ''_'', CHR ''.'', CHR ''-''})"

definition tenantIDPattern :: "string \<Rightarrow> bool" where
  "tenantIDPattern s = (3 \<le> length s \<and> length s \<le> 64 \<and> list_all agent_char s)"

definition tenantNamePattern :: "string \<Rightarrow> bool" where
  "tenantNamePattern s =
     (2 \<le> length s \<and> length s \<le> 120 \<and> alnum (hd s) \<and> list_all (\<lambda>c. agent_char c \<or> c = CHR '' '') (tl s))"

definition secret_lower :: "char \<Rightarrow> bool" where "secret_lower c = (97 \<le> (of_char c :: nat) \<and> (of_char c :: nat) \<le> 122)"

definition secret_upper :: "char \<Rightarrow> bool" where "secret_upper c = (65 \<le> (of_char c :: nat) \<and> (of_char c :: nat) \<le> 90)"

definition class_count :: "string \<Rightarrow> nat" where
  "class_count s =
     (if list_ex secret_lower s then 1 else 0) + (if list_ex secret_upper s then 1 else 0) + (if list_ex is_digit s then 1 else 0) +
     (if list_ex (\<lambda>c. \<not> secret_lower c \<and> \<not> secret_upper c \<and> \<not> is_digit c) s then 1 else 0)"

definition validateUserSuppliedSecret :: "string \<Rightarrow> string \<Rightarrow> string option" where
  "validateUserSuppliedSecret f v =
     (let trimmed = TrimSpace v in
      if trimmed = [] then Some (f @ '' is required'')
      else if list_ex (\<lambda>c. c \<in> {CHR 0x09, CHR 0x0A, CHR 0x0D, CHR '' ''}) v then Some (f @ '' must not contain whitespace'')
      else if length trimmed < 16 then Some (f @ '' must be at least 16 characters'')
      else if length (remdups trimmed) < 8 then Some (f @ '' has insufficient entropy'')
      else if class_count trimmed < 2 then Some (f @ '' must include at least two character classes'')
      else None)"

definition setup_keyPrefix :: "string \<Rightarrow> string" where
  "setup_keyPrefix v = take 14 (TrimSpace v)"

definition generateSecret :: "string \<Rightarrow> string option \<Rightarrow> string option" where
  "generateSecret pre bytes = map_option (\<lambda>b. pre @ EncodeToString b) bytes"

record normalized_request =
  nq_tenantName :: string
  nq_tenantID :: string
  nq_adminKey :: string
  nq_tenantKey :: string
  nq_tenantKeyHash :: string
  nq_tenantKeyPrefix :: string
  nq_adminKeyCreated :: bool
  nq_tenantKeyCreated :: bool

definition field_error :: "string \<Rightarrow> string option \<Rightarrow> (string \<times> string) list" where
  "field_error f m = (case m of None \<Rightarrow> [] | Some t \<Rightarrow> [(f, t)])"

definition tenant_name_error :: "string \<Rightarrow> string option" where
  "tenant_name_error name =
     (if name = [] then Some ''tenant_name is required''
      else if length name > 120 then Some ''tenant_name must be 120 characters or fewer''
      else if \<not> tenantNamePattern name then Some ''tenant_name must start with alphanumeric and use alphanumeric, space, dot, underscore, or hyphen''
      else None)"

definition normalizeInitializeRequest :: "setup_env \<Rightarrow> initialize_request \<Rightarrow> setup_error + normalized_request" where
  "normalizeInitializeRequest env req =
     (let name = TrimSpace (iq_TenantName req);
          givenID = TrimSpace (iq_TenantID req);
          tenantID = (if givenID = [] then ''t_'' @ take 8 (ie_uuid env ''tenant'') else givenID);
          givenAdmin = TrimSpace (iq_AdminKey req); givenKey = TrimSpace (iq_TenantKey req) in
      case (if givenAdmin = [] then generateSecret ''rbtr_admin_'' (ie_adminBytes env) else Some givenAdmin) of
        None \<Rightarrow> Inl (Setup_driver (ie_randomError env))
      | Some adminKey \<Rightarrow>
          (case (if givenKey = [] then map_option (GenerateAPIKey (ie_crypto env) (ie_tenantSecrets env)) (ie_tenantBytes env)
                 else Some (givenKey, HashKey (ie_crypto env) (ie_tenantSecrets env) givenKey, setup_keyPrefix givenKey)) of
             None \<Rightarrow> Inl (Setup_driver (ie_randomError env))
           | Some (tenantKey, hash, keyPrefix) \<Rightarrow>
               (let flds = field_error ''tenant_name'' (tenant_name_error name) @
                      field_error ''tenant_id'' (if tenantIDPattern tenantID then None else Some (''tenant_id must match ^[a-zA-Z0-9_.'' @ backslash # ''-]{3,64}$'')) @
                      field_error ''admin_key'' (if givenAdmin = [] then None else validateUserSuppliedSecret ''admin_key'' adminKey) @
                      field_error ''tenant_key'' (if givenKey = [] then None else validateUserSuppliedSecret ''tenant_key'' tenantKey)
                in if flds \<noteq> [] then Inl (ErrInvalidRequest flds)
                   else Inr \<lparr>nq_tenantName = name, nq_tenantID = tenantID, nq_adminKey = adminKey, nq_tenantKey = tenantKey, nq_tenantKeyHash = hash,
                           nq_tenantKeyPrefix = keyPrefix, nq_adminKeyCreated = (givenAdmin = []), nq_tenantKeyCreated = (givenKey = [])\<rparr>)))"

subsection \<open>Queries\<close>

definition setup_query :: "setup_env \<Rightarrow> string \<Rightarrow> 'a \<Rightarrow> setup_error + 'a" where
  "setup_query env name v = (case ie_fault env name of Some m \<Rightarrow> Inl (Setup_driver m) | None \<Rightarrow> Inr v)"

definition setup_relations :: "string list" where
  "setup_relations = [''rbitr.tenants'', ''rbitr.tenant_keys'', ''rbitr.admin_keys'', ''rbitr.policy_versions'', ''rbitr.tenant_config'',
     ''rbitr.system_settings'', ''rbitr.setup_state'', ''rbitr.setup_initialize_idempotency'']"

definition schemaReadyWithQuerier :: "setup_env \<Rightarrow> setup_db \<Rightarrow> setup_error + bool" where
  "schemaReadyWithQuerier env db = setup_query env ''schema'' (list_all (\<lambda>t. t \<in> set (sb_relations db)) setup_relations)"

definition bootstrapped :: "setup_db \<Rightarrow> bool" where
  "bootstrapped db = (case cb_settings (sb_config db) ''bootstrap_complete'' of None \<Rightarrow> False | Some v \<Rightarrow> EqualFold (TrimSpace v) ''true'')"

definition setup_getBootstrapComplete :: "setup_env \<Rightarrow> setup_db \<Rightarrow> setup_error + bool" where
  "setup_getBootstrapComplete env db = setup_query env ''bootstrap'' (bootstrapped db)"

definition tenantIDExists :: "setup_env \<Rightarrow> string \<Rightarrow> setup_db \<Rightarrow> setup_error + bool" where
  "tenantIDExists env tenantID db = setup_query env ''tenant_id'' (td_tenants (sb_tenants db) tenantID \<noteq> None)"

definition tenantNameExists :: "setup_env \<Rightarrow> string \<Rightarrow> setup_db \<Rightarrow> setup_error + bool" where
  "tenantNameExists env name db = setup_query env ''tenant_name''
     (list_ex (\<lambda>i. case td_tenants (sb_tenants db) i of Some row \<Rightarrow> ToLower (tn_Name (tn_row row)) = ToLower name | None \<Rightarrow> False) (sb_tenantIDs db))"

definition initializePayloadHash :: "(string \<Rightarrow> string) \<Rightarrow> initialize_request \<Rightarrow> string" where
  "initializePayloadHash sha req =
     sha (Join [CHR 0x1F] [TrimSpace (iq_TenantName req), TrimSpace (iq_TenantID req), TrimSpace (iq_AdminKey req), TrimSpace (iq_TenantKey req)])"

definition checkInitializeReplay ::
  "setup_env \<Rightarrow> string \<Rightarrow> string \<Rightarrow> string \<Rightarrow> setup_db \<Rightarrow> setup_error + initialize_response option" where
  "checkInitializeReplay env qname key payloadHash db =
     (if key = [] then Inr None
      else (case setup_query env qname (sb_replays db key) of
              Inl e \<Rightarrow> Inl e
            | Inr None \<Rightarrow> Inr None
            | Inr (Some row) \<Rightarrow>
                if rr_PayloadHash row \<noteq> payloadHash then Inl ErrIdempotencyConflict
                else (case decodeReplayResponse (rr_ResponseRaw row) of
                        None \<Rightarrow> Inl (Setup_driver ''invalid JSON'')
                      | Some resp \<Rightarrow> Inr (Some resp))))"

subsection \<open>The transaction\<close>

definition duplicate_key :: string where "duplicate_key = ''duplicate key value violates unique constraint''"

definition normalizeWriteError :: "string \<Rightarrow> string \<Rightarrow> setup_error" where
  "normalizeWriteError m f =
     (if Contains (ToLower m) ''duplicate key'' then validationError f (f @ '' already exists'') else Setup_driver m)"

definition nullableString :: "string \<Rightarrow> string option" where
  "nullableString v = (let t = TrimSpace v in if t = [] then None else Some t)"

text \<open>A write: a driver error, else a violated constraint, else the new tables.\<close>

definition setup_write :: "setup_env \<Rightarrow> string \<Rightarrow> bool \<Rightarrow> (setup_db \<Rightarrow> setup_db) \<Rightarrow> setup_db \<Rightarrow> string + setup_db" where
  "setup_write env name violated f db =
     (case ie_fault env name of Some m \<Rightarrow> Inl m | None \<Rightarrow> if violated then Inl duplicate_key else Inr (f db))"

definition then_write :: "setup_error + setup_db \<Rightarrow> (setup_db \<Rightarrow> string + setup_db) \<Rightarrow> (string \<Rightarrow> setup_error) \<Rightarrow> setup_error + setup_db" where
  "then_write r w err = (case r of Inl e \<Rightarrow> Inl e | Inr db \<Rightarrow> (case w db of Inl m \<Rightarrow> Inl (err m) | Inr db1 \<Rightarrow> Inr db1))"

definition policy_tab :: string where "policy_tab = [CHR 0x09]"

definition defaultPolicyModule :: string where
  "defaultPolicyModule = Join [CHR 0x0A]
     [''package rbitr.policy'',
      [],
      ''import rego.v1'',
      [],
      ''decision_obj(decision, risk, rule_id, priority, code, message) := {'',
      policy_tab @ ''\"version\": \"2026-01-20\",'',
      policy_tab @ ''\"decision\": decision,'',
      policy_tab @ ''\"risk\": risk,'',
      policy_tab @ ''\"rule\": {\"id\": rule_id, \"priority\": priority},'',
      policy_tab @ ''\"reasons\": [{\"code\": code, \"message\": message}],'',
      policy_tab @ ''\"constraints\": {},'',
      policy_tab @ ''\"tags\": []'',
      ''}'',
      [],
      ''allow_actions := {'',
      policy_tab @ ''\"TICKET.CREATE\",'',
      policy_tab @ ''\"TICKET.COMMENT\",'',
      policy_tab @ ''\"TICKET.UPDATE\",'',
      policy_tab @ ''\"CRM.READ\",'',
      policy_tab @ ''\"DATA.READ\",'',
      policy_tab @ ''\"DATA.QUERY\"'',
      ''}'',
      [],
      ''require_approval_actions := {'',
      policy_tab @ ''\"PAYMENT.REFUND\",'',
      policy_tab @ ''\"ACCESS.ROLE_CHANGE\"'',
      ''}'',
      [],
      ''deny_actions := {'',
      policy_tab @ ''\"DATA.EXPORT\",'',
      policy_tab @ ''\"DATA.BULK_EXPORT\",'',
      policy_tab @ ''\"ACCESS.GRANT\",'',
      policy_tab @ ''\"DATA.DELETE\",'',
      policy_tab @ ''\"CRM.DELETE\"'',
      ''}'',
      [],
      ''decision := decision_obj(\"DENY\", input.action_risk, \"rule_deny_sensitive_v1\", 100, \"DENY_SENSITIVE\", \"Policy: deny sensitive action\") if {'',
      policy_tab @ ''input.action_type'',
      policy_tab @ ''deny_actions[input.action_type]'',
      ''} else := decision_obj(\"REQUIRE_APPROVAL\", input.action_risk, \"rule_require_approval_v1\", 50, \"APPROVAL_REQUIRED\", \"Policy: approval required\") if {'',
      policy_tab @ ''input.action_type'',
      policy_tab @ ''require_approval_actions[input.action_type]'',
      ''} else := decision_obj(\"ALLOW\", input.action_risk, \"rule_allow_basic_actions_v1\", 10, \"ALLOW_BASIC\", \"Policy: allow basic actions\") if {'',
      policy_tab @ ''input.action_type'',
      policy_tab @ ''allow_actions[input.action_type]'',
      ''} else := decision_obj(\"ALLOW\", input.action_risk, \"rule_allow_low_risk_mcp\", 15, \"ALLOW_MCP\", \"Policy: allow low-risk MCP tool calls\") if {'',
      policy_tab @ ''input.action_type'',
      policy_tab @ ''startswith(input.action_type, \"MCP.\")'',
      policy_tab @ ''input.action_risk == \"LOW\"'',
      ''} else := decision_obj(\"REQUIRE_APPROVAL\", input.action_risk, \"rule_mcp_medium_risk\", 40, \"APPROVAL_MCP_MEDIUM\", \"Policy: approval required for medium-risk MCP tools\") if {'',
      policy_tab @ ''input.action_type'',
      policy_tab @ ''startswith(input.action_type, \"MCP.\")'',
      policy_tab @ ''input.action_risk == \"MEDIUM\"'',
      ''} else := decision_obj(\"REQUIRE_APPROVAL\", input.action_risk, \"rule_high_risk_unknown\", 80, \"HIGH_RISK_UNKNOWN\", \"Policy: approval required for high/critical risk\") if {'',
      policy_tab @ ''input.action_risk == \"HIGH\"'',
      ''} else := decision_obj(\"REQUIRE_APPROVAL\", input.action_risk, \"rule_critical_risk_unknown\", 80, \"CRITICAL_RISK_UNKNOWN\", \"Policy: approval required for high/critical risk\") if {'',
      policy_tab @ ''input.action_risk == \"CRITICAL\"'',
      ''} else := decision_obj(\"DENY\", \"MEDIUM\", \"rule_default_deny\", 100, \"DEFAULT_DENY\", \"Default deny: no matching rule or missing required fields\")'',
      []]"

definition insert_tenant :: "setup_env \<Rightarrow> normalized_request \<Rightarrow> setup_db \<Rightarrow> string + setup_db" where
  "insert_tenant env n db = setup_write env ''insert tenant'' (td_tenants (sb_tenants db) (nq_tenantID n) \<noteq> None)
     (\<lambda>db. db\<lparr>sb_tenants := (sb_tenants db)\<lparr>td_tenants := (td_tenants (sb_tenants db))(nq_tenantID n \<mapsto>
        \<lparr>tn_row = \<lparr>tn_TenantID = nq_tenantID n, tn_Name = nq_tenantName n, tn_Enabled = True\<rparr>, tn_DeletedAt = None\<rparr>)\<rparr>,
        sb_tenantIDs := sb_tenantIDs db @ [nq_tenantID n]\<rparr>) db"

definition setup_key :: "setup_env \<Rightarrow> normalized_request \<Rightarrow> tenant_key" where
  "setup_key env n = \<lparr>tk_KeyID = ie_uuid env ''tenant key'', tk_TenantID = nq_tenantID n, tk_KeyHash = nq_tenantKeyHash n, tk_RevokedAt = None\<rparr>"

definition insert_tenant_key :: "setup_env \<Rightarrow> normalized_request \<Rightarrow> setup_db \<Rightarrow> string + setup_db" where
  "insert_tenant_key env n db = setup_write env ''insert tenant key''
     (nq_tenantKeyHash n \<in> tk_KeyHash ` set (td_keys (sb_tenants db)) \<or> ie_uuid env ''tenant key'' \<in> tk_KeyID ` set (td_keys (sb_tenants db)))
     (\<lambda>db. db\<lparr>sb_tenants := (sb_tenants db)\<lparr>td_keys := td_keys (sb_tenants db) @ [setup_key env n]\<rparr>\<rparr>) db"

definition setup_adminKeyID :: "setup_env \<Rightarrow> string" where
  "setup_adminKeyID env = ''admin_'' @ take 8 (ie_uuid env ''admin key'')"

definition insert_admin_key :: "setup_env \<Rightarrow> normalized_request \<Rightarrow> setup_db \<Rightarrow> string + setup_db" where
  "insert_admin_key env n db = setup_write env ''insert admin key'' (setup_adminKeyID env \<in> ak_AdminKeyID ` set (sb_admins db))
     (\<lambda>db. db\<lparr>sb_admins := sb_admins db @ [\<lparr>ak_AdminKeyID = setup_adminKeyID env,
        ak_KeyHash = HashKey (ie_crypto env) (ie_adminSecrets env) (nq_adminKey n), ak_Scopes = [''admin:read'', ''admin:write'']\<rparr>]\<rparr>) db"

definition insert_policy :: "setup_env \<Rightarrow> normalized_request \<Rightarrow> setup_db \<Rightarrow> string + setup_db" where
  "insert_policy env n db = setup_write env ''insert policy'' (policy_of (sb_config db) (nq_tenantID n) ''p_v1'' \<noteq> None)
     (\<lambda>db. db\<lparr>sb_config := (sb_config db)\<lparr>cb_policies := cb_policies (sb_config db) @
        [\<lparr>pn_TenantID = nq_tenantID n, pn_PolicyVersion = ''p_v1'', pn_RegoModule = defaultPolicyModule, pn_CreatedAt = ie_now env,
          pn_CreatedBy = ''setup_wizard'', pn_Notes = ''Initialized by setup workflow'', pn_StructuredJSON = [], pn_AuthoringMode = ''rego''\<rparr>]\<rparr>\<rparr>) db"

definition insert_config :: "setup_env \<Rightarrow> normalized_request \<Rightarrow> setup_db \<Rightarrow> string + setup_db" where
  "insert_config env n db = setup_write env ''insert config'' False
     (\<lambda>db. db\<lparr>sb_config := activate (nq_tenantID n) ''p_v1'' (ie_now env) (sb_config db)\<rparr>) db"

definition upsert_tool :: "string \<Rightarrow> string \<Rightarrow> string \<Rightarrow> string \<Rightarrow> string \<Rightarrow> config_db \<Rightarrow> config_db" where
  "upsert_tool tenantID toolID baseURL authType authValue cdb =
     (if affected (tool_row tenantID toolID) (cb_tools cdb)
      then cdb\<lparr>cb_tools := update_rows (tool_row tenantID toolID)
             (\<lambda>t. t\<lparr>tl_BaseURL := baseURL, tl_AuthType := authType, tl_AuthValue := authValue, tl_Source := ''dev_seed''\<rparr>) (cb_tools cdb)\<rparr>
      else cdb\<lparr>cb_tools := cb_tools cdb @ [\<lparr>tl_ToolID = toolID, tl_TenantID = tenantID, tl_BaseURL = baseURL, tl_AuthType = authType,
             tl_AuthValue = authValue, tl_Transport = ''http_api'', tl_MCPUpstreamURL = [], tl_Description = [], tl_InputSchemaJSON = [],
             tl_ArchivedAt = None, tl_Source = ''dev_seed'', tl_OpenAPISpecURL = [], tl_OpenAPIOperationID = [], tl_CredentialConfig = []\<rparr>]\<rparr>)"

definition insertDevTools :: "setup_env \<Rightarrow> string \<Rightarrow> setup_error + setup_db \<Rightarrow> setup_error + setup_db" where
  "insertDevTools env tenantID r =
     fold (\<lambda>(toolID, baseURL, authType, authValue) r.
         then_write r (setup_write env (''tool '' @ toolID) False
           (\<lambda>db. db\<lparr>sb_config := upsert_tool tenantID toolID baseURL authType authValue (sb_config db)\<rparr>)) Setup_driver)
       [(''mock_internal'', ie_mockURL env, ''api_key'', ''mock_internal_key''), (''jira'', ie_jiraURL env, ''bearer'', ''jira_token'')] r"

definition settingWrites :: "(string \<times> string) list" where
  "settingWrites =
     [(''bootstrap_complete'', ''true''), (''admin_write_lock'', ''false''), (''default_approval_ttl_seconds'', ''900''),
      (''audit_retention_days'', ''365''), (''disable_x_tenant_key'', ''false''), (''feature_rate_limiting'', ''false''),
      (''feature_arg_constraints'', ''false''), (''default_rate_limit_per_minute'', ''60''), (''default_rate_limit_per_day'', ''10000''),
      (''default_rate_limit_scope'', ''tenant_agent_tool'')]"

definition write_settings :: "setup_env \<Rightarrow> setup_error + setup_db \<Rightarrow> setup_error + setup_db" where
  "write_settings env r =
     fold (\<lambda>(key, val) r.
         then_write r (setup_write env (''setting '' @ key) False
           (\<lambda>db. db\<lparr>sb_config := (sb_config db)\<lparr>cb_settings := (cb_settings (sb_config db))(key \<mapsto> val)\<rparr>\<rparr>)) Setup_driver)
       settingWrites r"

definition response_of :: "setup_env \<Rightarrow> normalized_request \<Rightarrow> initialize_response" where
  "response_of env n = \<lparr>ip_BootstrapComplete = True, ip_TenantID = nq_tenantID n, ip_TenantName = nq_tenantName n,
     ip_TenantKeyID = ie_uuid env ''tenant key'', ip_TenantKey = nq_tenantKey n, ip_TenantKeyCreated = nq_tenantKeyCreated n,
     ip_AdminKeyID = setup_adminKeyID env, ip_AdminKey = nq_adminKey n, ip_AdminKeyCreated = nq_adminKeyCreated n, ip_PolicyVersion = ''p_v1''\<rparr>"

definition storeIdempotencyReplay ::
  "setup_env \<Rightarrow> initialize_request \<Rightarrow> string \<Rightarrow> string \<Rightarrow> string \<Rightarrow> setup_db \<Rightarrow> string + setup_db" where
  "storeIdempotencyReplay env req key payloadHash responseRaw db = setup_write env ''store replay'' (sb_replays db key \<noteq> None)
     (\<lambda>db. db\<lparr>sb_replays := (sb_replays db)(key \<mapsto> \<lparr>rr_PayloadHash = payloadHash, rr_ResponseRaw = responseRaw,
        rr_TokenFingerprint = nullableString (iq_Fingerprint req), rr_IP = nullableString (iq_ClientIP req), rr_CreatedAt = ie_now env\<rparr>)\<rparr>) db"

definition replay_error :: "string \<Rightarrow> setup_error" where
  "replay_error m = (if Contains (ToLower m) ''duplicate key'' then ErrIdempotencyConflict else Setup_driver m)"

definition setup_rows :: "setup_env \<Rightarrow> normalized_request \<Rightarrow> setup_db \<Rightarrow> setup_error + setup_db" where
  "setup_rows env n db =
     (let r1 = then_write (Inr db) (insert_tenant env n) (\<lambda>m. normalizeWriteError m ''tenant_id'');
          r2 = then_write r1 (insert_tenant_key env n) (\<lambda>m. normalizeWriteError m ''tenant_key'');
          r3 = then_write r2 (insert_admin_key env n) (\<lambda>m. normalizeWriteError m ''admin_key'');
          r4 = then_write r3 (insert_policy env n) Setup_driver
      in then_write r4 (insert_config env n) Setup_driver)"

definition setup_writes ::
  "setup_env \<Rightarrow> initialize_request \<Rightarrow> normalized_request \<Rightarrow> string \<Rightarrow> string \<Rightarrow> setup_db \<Rightarrow> setup_error + setup_db" where
  "setup_writes env req n key payloadHash db =
     (let rows = setup_rows env n db;
          r = write_settings env (if ie_devAutoTools env then insertDevTools env (nq_tenantID n) rows else rows)
      in if key = [] then r
         else then_write r (storeIdempotencyReplay env req key payloadHash (response_marshal (response_of env n))) replay_error)"

subsection \<open>Initialize\<close>

definition writeSetupState ::
  "setup_env \<Rightarrow> initialize_request \<Rightarrow> string \<Rightarrow> string \<Rightarrow> time option \<Rightarrow> setup_world \<Rightarrow> setup_world" where
  "writeSetupState env req st lastError completedAt w =
     (if ie_stateFault env st then w
      else w\<lparr>sw_state := Some \<lparr>sr_State = st, sr_LastError = nullableString lastError, sr_TokenFingerprint = nullableString (iq_Fingerprint req),
             sr_IP = nullableString (iq_ClientIP req), sr_RequestID = nullableString (iq_RequestID req), sr_StartedAt = ie_started env,
             sr_CompletedAt = completedAt, sr_UpdatedAt = ie_stateTime env st\<rparr>\<rparr>)"

definition emitSetupAudit ::
  "setup_env \<Rightarrow> initialize_request \<Rightarrow> string \<Rightarrow> string \<Rightarrow> string \<Rightarrow> string \<Rightarrow> gomap \<Rightarrow> setup_world \<Rightarrow> setup_world" where
  "emitSetupAudit env req tenantID action resourceType resourceID after w =
     (case Marshal (ie_fmt env) (Map_v after) of
        None \<Rightarrow> w
      | Some afterJSON \<Rightarrow>
          (let actor = (let f = TrimSpace (iq_Fingerprint req) in if f = [] then ''setup_token'' else f) in
           w\<lparr>sw_audit := snd (InsertAuditEvent (cy_sha256hex (ie_crypto env)) (ie_auditFault env action) (ie_auditTime env action)
              \<lparr>ae_AuditEventID = ''ae_'' @ ie_auditID env action, ae_TenantID = tenantID, ae_StreamID = [], ae_EventHash = [], ae_PrevHash = [],
               ae_ActorType = ''setup_token'', ae_ActorID = actor, ae_ActorDisplay = actor, ae_Action = action, ae_ResourceType = resourceType,
               ae_ResourceID = resourceID, ae_Before = None, ae_After = Some afterJSON, ae_RequestID = iq_RequestID req, ae_IP = iq_ClientIP req,
               ae_UserAgent = iq_UserAgent req, ae_CreatedAt = ie_auditTime env action\<rparr> (sw_audit w))\<rparr>))"

definition failed_state :: "setup_env \<Rightarrow> initialize_request \<Rightarrow> setup_error \<Rightarrow> setup_world \<Rightarrow> setup_world" where
  "failed_state env req e w = writeSetupState env req ''failed'' (setup_text e) None w"

text \<open>The part that runs under the lock once no earlier answer was found, up to the commit; a pair of the
  answer and the world, in which the audit event of the deferred function is still missing.\<close>

definition locked_setup ::
  "setup_env \<Rightarrow> initialize_request \<Rightarrow> normalized_request \<Rightarrow> string \<Rightarrow> string \<Rightarrow> setup_world \<Rightarrow> (setup_error + initialize_response) \<times> setup_world" where
  "locked_setup env req n key payloadHash w =
     (let failed = (\<lambda>e. (Inl e, failed_state env req e w)) in
      case setup_getBootstrapComplete env (sw_db w) of
        Inl e \<Rightarrow> failed e
      | Inr True \<Rightarrow> (Inl ErrSetupComplete, writeSetupState env req ''completed'' [] (Some (ie_completed env)) w)
      | Inr False \<Rightarrow>
          (case tenantIDExists env (nq_tenantID n) (sw_db w) of
             Inl e \<Rightarrow> failed e
           | Inr True \<Rightarrow> failed (validationError ''tenant_id'' ''tenant_id already exists'')
           | Inr False \<Rightarrow>
               (case tenantNameExists env (nq_tenantName n) (sw_db w) of
                  Inl e \<Rightarrow> failed e
                | Inr True \<Rightarrow> failed (validationError ''tenant_name'' ''tenant_name already exists'')
                | Inr False \<Rightarrow>
                    (case setup_writes env req n key payloadHash (sw_db w) of
                       Inl e \<Rightarrow> failed e
                     | Inr db \<Rightarrow>
                         (case ie_commit env of
                            Some (m, applied) \<Rightarrow>
                              (Inl (Setup_driver m), failed_state env req (Setup_driver m) (if applied then w\<lparr>sw_db := db\<rparr> else w))
                          | None \<Rightarrow> (Inr (response_of env n), w\<lparr>sw_db := db\<rparr>))))))"

definition audit_request :: "initialize_request \<Rightarrow> gomap" where
  "audit_request req = [(''request_id'', Str_v (iq_RequestID req)), (''client_ip'', Str_v (iq_ClientIP req))]"

definition finish_setup ::
  "setup_env \<Rightarrow> initialize_request \<Rightarrow> normalized_request \<Rightarrow> (setup_error + initialize_response) \<times> setup_world
   \<Rightarrow> (setup_error + initialize_response) \<times> setup_world" where
  "finish_setup env req n out =
     (case out of
        (Inl e, w) \<Rightarrow>
          (Inl e, if e \<in> {ErrSetupComplete, ErrSetupInProgress, ErrIdempotencyConflict} then w
                  else emitSetupAudit env req (nq_tenantID n) ''SETUP.FAILED'' ''SETUP'' ''bootstrap''
                         ((''error'', Str_v (setup_text e)) # audit_request req) w)
      | (Inr resp, w) \<Rightarrow>
          (Inr resp,
           emitSetupAudit env req (nq_tenantID n) ''SETUP.KEYS.CREATED'' ''TENANT.KEY'' (ip_TenantKeyID resp)
             [(''tenant_key_id'', Str_v (ip_TenantKeyID resp)), (''admin_key_id'', Str_v (ip_AdminKeyID resp))]
             (emitSetupAudit env req (nq_tenantID n) ''SETUP.SUCCEEDED'' ''SETUP'' ''bootstrap''
                [(''tenant_id'', Str_v (nq_tenantID n)), (''policy_version'', Str_v ''p_v1''), (''duration_ms'', Int_v (ie_duration env))]
                (writeSetupState env req ''completed'' [] (Some (ie_completed env)) w))))"

definition Initialize :: "setup_env \<Rightarrow> initialize_request \<Rightarrow> setup_world \<Rightarrow> (setup_error + initialize_response) \<times> setup_world" where
  "Initialize env req w =
     (let key = TrimSpace (iq_IdempotencyKey req);
          payloadHash = (if key = [] then [] else initializePayloadHash (cy_sha256hex (ie_crypto env)) req) in
      if ie_idempotencyRequired env \<and> key = [] then (Inl ErrIdempotencyRequired, w)
      else case checkInitializeReplay env ''early replay'' key payloadHash (ie_before env) of
        Inl e \<Rightarrow> (Inl e, w)
      | Inr (Some resp) \<Rightarrow> (Inr resp, w)
      | Inr None \<Rightarrow>
          (case normalizeInitializeRequest env req of
             Inl e \<Rightarrow> (Inl e, failed_state env req e w)
           | Inr n \<Rightarrow>
               (case setup_query env ''begin'' () of
                  Inl e \<Rightarrow> (Inl e, failed_state env req e w)
                | Inr _ \<Rightarrow>
                    (case schemaReadyWithQuerier env (sw_db w) of
                       Inl e \<Rightarrow> (Inl e, failed_state env req e w)
                     | Inr False \<Rightarrow> (Inl ErrSchemaNotReady, failed_state env req ErrSchemaNotReady w)
                     | Inr True \<Rightarrow>
                         (case ie_lock env of
                            Inl m \<Rightarrow> (Inl (Setup_driver m), failed_state env req (Setup_driver m) w)
                          | Inr False \<Rightarrow> (Inl ErrSetupInProgress, w)
                          | Inr True \<Rightarrow>
                              (case checkInitializeReplay env ''replay'' key payloadHash (sw_db w) of
                                 Inl e \<Rightarrow> (Inl e, failed_state env req e w)
                               | Inr (Some resp) \<Rightarrow> (Inr resp, w)
                               | Inr None \<Rightarrow>
                                   finish_setup env req n (locked_setup env req n key payloadHash
                                     (emitSetupAudit env req [] ''SETUP.START'' ''SETUP'' ''bootstrap'' (audit_request req)
                                        (writeSetupState env req ''in_progress'' [] None w)))))))))"

subsection \<open>Status and handlers\<close>

record status_response =
  st_SetupRequired :: bool
  st_BootstrapComplete :: bool
  st_SchemaReady :: bool
  st_AdminKeyCount :: nat
  st_TenantCount :: nat
  st_SetupState :: string
  st_LastError :: string
  st_InitializeAllowed :: bool
  st_IdempotencyRequired :: bool

definition getSetupState :: "setup_env \<Rightarrow> setup_world \<Rightarrow> setup_error + string \<times> string" where
  "getSetupState env w = setup_query env ''setup_state''
     (case sw_state w of None \<Rightarrow> (''not_started'', []) | Some r \<Rightarrow> (sr_State r, case sr_LastError r of None \<Rightarrow> [] | Some m \<Rightarrow> m))"

definition Status :: "setup_env \<Rightarrow> setup_world \<Rightarrow> setup_error + status_response" where
  "Status env w =
     (case schemaReadyWithQuerier env (sw_db w) of
        Inl e \<Rightarrow> Inl e
      | Inr False \<Rightarrow> Inr \<lparr>st_SetupRequired = True, st_BootstrapComplete = False, st_SchemaReady = False, st_AdminKeyCount = 0, st_TenantCount = 0,
          st_SetupState = ''not_started'', st_LastError = [], st_InitializeAllowed = True, st_IdempotencyRequired = ie_idempotencyRequired env\<rparr>
      | Inr True \<Rightarrow>
          (case setup_getBootstrapComplete env (sw_db w) of
             Inl e \<Rightarrow> Inl e
           | Inr done_before \<Rightarrow>
               (case getSetupState env w of
                  Inl e \<Rightarrow> Inl e
                | Inr (state, lastError) \<Rightarrow>
                    (case setup_query env ''count admins'' (length (sb_admins (sw_db w))) of
                       Inl e \<Rightarrow> Inl e
                     | Inr admins \<Rightarrow>
                         (case setup_query env ''count tenants'' (length (sb_tenantIDs (sw_db w))) of
                            Inl e \<Rightarrow> Inl e
                          | Inr tenants \<Rightarrow> Inr \<lparr>st_SetupRequired = (\<not> done_before), st_BootstrapComplete = done_before, st_SchemaReady = True,
                              st_AdminKeyCount = admins, st_TenantCount = tenants,
                              st_SetupState = (if done_before then ''completed'' else if TrimSpace state \<noteq> [] then state else ''not_started''),
                              st_LastError = (if done_before then [] else lastError), st_InitializeAllowed = (\<not> done_before),
                              st_IdempotencyRequired = ie_idempotencyRequired env\<rparr>)))))"

datatype setup_reply =
    Su_error int string
  | Su_fields "(string \<times> string) list"
  | Su_created initialize_response
  | Su_status status_response

definition handleStatus :: "setup_env \<Rightarrow> setup_world \<Rightarrow> setup_reply" where
  "handleStatus env w = (case Status env w of Inl _ \<Rightarrow> Su_error 500 ''failed to load setup status'' | Inr st \<Rightarrow> Su_status st)"

fun access_reply :: "access_error \<Rightarrow> setup_reply" where
  "access_reply ErrSetupTokenMissing = Su_error 401 ''setup token required''"
| "access_reply ErrSetupTokenInvalid = Su_error 403 ''invalid setup token''"
| "access_reply ErrSetupNetworkRejected = Su_error 403 ''setup request rejected by network policy''"

fun initialize_reply :: "setup_error \<Rightarrow> setup_reply" where
  "initialize_reply ErrIdempotencyRequired = Su_error 400 ''Idempotency-Key header is required''"
| "initialize_reply (ErrInvalidRequest flds) =
     (if flds \<noteq> [] then Su_fields flds else Su_error 400 (setup_text (ErrInvalidRequest flds)))"
| "initialize_reply ErrSchemaNotReady = Su_error 412 ''schema not ready; run migrations first''"
| "initialize_reply ErrSetupInProgress = Su_error 409 ''setup already in progress''"
| "initialize_reply ErrIdempotencyConflict = Su_error 409 ''idempotency key re-used with different payload''"
| "initialize_reply ErrSetupComplete = Su_error 409 ''setup already completed''"
| "initialize_reply (Setup_driver _) = Su_error 500 ''setup initialization failed''"

definition zero_init_request :: initialize_request where
  "zero_init_request = \<lparr>iq_TenantName = [], iq_TenantID = [], iq_AdminKey = [], iq_TenantKey = [], iq_IdempotencyKey = [], iq_Fingerprint = [],
     iq_ClientIP = [], iq_UserAgent = [], iq_RequestID = []\<rparr>"

definition init_request_fields :: "(string \<times> initialize_request raw_field) list" where
  "init_request_fields =
     [(''tenant_name'', raw_string_field iq_TenantName_update), (''tenant_id'', raw_string_field iq_TenantID_update),
      (''admin_key'', raw_string_field iq_AdminKey_update), (''tenant_key'', raw_string_field iq_TenantKey_update)]"

definition setup_handleInitialize ::
  "access_policy \<Rightarrow> http_header \<Rightarrow> string \<Rightarrow> string \<Rightarrow> setup_env \<Rightarrow> setup_world \<Rightarrow> setup_reply \<times> setup_world" where
  "setup_handleInitialize pol hdr realIP body env w =
     (case Authorize (cy_sha256hex (ie_crypto env)) pol (hdr ''Authorization'') realIP of
        Inl e \<Rightarrow> (access_reply e, w)
      | Inr fingerprint \<Rightarrow>
          (let key = TrimSpace (hdr ''Idempotency-Key'') in
           if xp_TokenRequired pol \<and> key = [] then (Su_error 400 ''Idempotency-Key header is required'', w)
           else (case decode_body init_request_fields zero_init_request body of
                   None \<Rightarrow> (Su_error 400 ''invalid request body'', w)
                 | Some p \<Rightarrow>
                     (case Initialize env (p\<lparr>iq_IdempotencyKey := key, iq_Fingerprint := fingerprint, iq_ClientIP := TrimSpace realIP,
                             iq_UserAgent := TrimSpace (hdr ''User-Agent''), iq_RequestID := TrimSpace (hdr ''X-Request-Id'')\<rparr>) w of
                        (Inl e, w1) \<Rightarrow> (initialize_reply e, w1)
                      | (Inr resp, w1) \<Rightarrow> (Su_created resp, w1)))))"

subsection \<open>What a request does to the tables\<close>

lemma side_writes [simp]:
  "sw_db (writeSetupState env req st e c w) = sw_db w" "sw_db (emitSetupAudit env req t a rt rid m w) = sw_db w" "sw_db (failed_state env req e' w) = sw_db w"
  by (simp_all add: writeSetupState_def emitSetupAudit_def failed_state_def Let_def split: option.splits)

lemma then_write_Inr: "then_write r w err = Inr db' \<longleftrightarrow> (\<exists>db. r = Inr db \<and> w db = Inr db')"
  by (auto simp: then_write_def split: sum.splits)

lemma setup_write_Inr: "setup_write env name violated f db = Inr db' \<longleftrightarrow> ie_fault env name = None \<and> \<not> violated \<and> db' = f db"
  by (auto simp: setup_write_def split: option.splits)

definition put_db :: "string \<Rightarrow> string \<Rightarrow> setup_db \<Rightarrow> setup_db" where
  "put_db key val db = db\<lparr>sb_config := (sb_config db)\<lparr>cb_settings := (cb_settings (sb_config db))(key \<mapsto> val)\<rparr>\<rparr>"

lemma put_db_fold:
  "fold (\<lambda>(key, val). put_db key val) xs db =
   db\<lparr>sb_config := (sb_config db)\<lparr>cb_settings := fold (\<lambda>(key, val) m. m(key \<mapsto> val)) xs (cb_settings (sb_config db))\<rparr>\<rparr>"
  by (induction xs arbitrary: db) (auto simp: put_db_def)

lemma put_settings:
  "fold (\<lambda>(key, val) r. then_write r (setup_write env (''setting '' @ key) False (put_db key val)) Setup_driver) xs r = Inr db' \<Longrightarrow>
   \<exists>db. r = Inr db \<and> db' = fold (\<lambda>(key, val). put_db key val) xs db"
proof (induction xs arbitrary: r)
  case (Cons x xs)
  obtain key val where x: "x = (key, val)" by (cases x)
  from Cons.IH Cons.prems obtain db1 where d: "then_write r (setup_write env (''setting '' @ key) False (put_db key val)) Setup_driver = Inr db1"
      "db' = fold (\<lambda>(key, val). put_db key val) xs db1" unfolding x by auto
  then show ?case by (auto simp: x then_write_Inr setup_write_Inr)
qed simp

lemma settings_written:
  assumes "write_settings env r = Inr db'"
  shows "\<exists>db f. r = Inr db \<and> db' = db\<lparr>sb_config := (sb_config db)\<lparr>cb_settings := f\<rparr>\<rparr> \<and> bootstrapped db'"
proof -
  let ?f = "\<lambda>db. fold (\<lambda>(key, val) m. m(key \<mapsto> val)) settingWrites (cb_settings (sb_config db))"
  from put_settings [of env settingWrites r db'] assms obtain db where db: "r = Inr db" "db' = db\<lparr>sb_config := (sb_config db)\<lparr>cb_settings := ?f db\<rparr>\<rparr>"
    unfolding write_settings_def put_db_def [symmetric] put_db_fold by blast
  have "?f db ''bootstrap_complete'' = Some ''true''" by (simp add: settingWrites_def)
  moreover have "EqualFold (TrimSpace ''true'') ''true''" by code_simp
  ultimately have "bootstrapped db'" by (simp add: db(2) bootstrapped_def)
  with db show ?thesis by blast
qed

lemma upsert_tool_frame: "\<exists>ts. upsert_tool tenantID toolID baseURL authType authValue cdb = cdb\<lparr>cb_tools := ts\<rparr>"
  by (auto simp: upsert_tool_def)

lemma tools_written:
  assumes "insertDevTools env tenantID r = Inr db'"
  shows "\<exists>db ts. r = Inr db \<and> db' = db\<lparr>sb_config := (sb_config db)\<lparr>cb_tools := ts\<rparr>\<rparr>"
proof -
  from assms obtain db cdb where "r = Inr db" "db' = db\<lparr>sb_config := upsert_tool tenantID ''jira'' (ie_jiraURL env) ''bearer'' ''jira_token'' cdb\<rparr>"
      "cdb = upsert_tool tenantID ''mock_internal'' (ie_mockURL env) ''api_key'' ''mock_internal_key'' (sb_config db)"
    by (auto simp: insertDevTools_def then_write_Inr setup_write_Inr)
  with upsert_tool_frame [of tenantID "''jira''" "ie_jiraURL env" "''bearer''" "''jira_token''" cdb]
    upsert_tool_frame [of tenantID "''mock_internal''" "ie_mockURL env" "''api_key''" "''mock_internal_key''" "sb_config db"]
  show ?thesis by auto
qed

lemma activate_frame:
  "activate tenantID version now cdb = cdb\<lparr>cb_configs := cb_configs (activate tenantID version now cdb)\<rparr>"
  by (simp add: activate_def set_configs_def)

definition setup_admin :: "setup_env \<Rightarrow> normalized_request \<Rightarrow> admin_key" where
  "setup_admin env n = \<lparr>ak_AdminKeyID = setup_adminKeyID env, ak_KeyHash = HashKey (ie_crypto env) (ie_adminSecrets env) (nq_adminKey n),
     ak_Scopes = [''admin:read'', ''admin:write'']\<rparr>"

definition setup_tenant :: "normalized_request \<Rightarrow> tenant" where
  "setup_tenant n = \<lparr>tn_TenantID = nq_tenantID n, tn_Name = nq_tenantName n, tn_Enabled = True\<rparr>"

text \<open>What the rows of a successful transaction are.\<close>

definition set_up :: "setup_env \<Rightarrow> normalized_request \<Rightarrow> setup_db \<Rightarrow> setup_db \<Rightarrow> bool" where
  "set_up env n db db' \<longleftrightarrow>
     sb_admins db' = sb_admins db @ [setup_admin env n] \<and>
     td_keys (sb_tenants db') = td_keys (sb_tenants db) @ [setup_key env n] \<and> nq_tenantKeyHash n \<notin> tk_KeyHash ` set (td_keys (sb_tenants db)) \<and>
     td_tenants (sb_tenants db') = (td_tenants (sb_tenants db))(nq_tenantID n \<mapsto> \<lparr>tn_row = setup_tenant n, tn_DeletedAt = None\<rparr>) \<and>
     cb_configs (sb_config db') = cb_configs (activate (nq_tenantID n) ''p_v1'' (ie_now env) (sb_config db)) \<and>
     policy_of (sb_config db) (nq_tenantID n) ''p_v1'' = None \<and>
     (\<exists>row. cb_policies (sb_config db') = cb_policies (sb_config db) @ [row] \<and> pn_TenantID row = nq_tenantID n \<and> pn_PolicyVersion row = ''p_v1'' \<and>
        pn_RegoModule row = defaultPolicyModule)"

lemma setup_rows_Inr:
  assumes "setup_rows env n db = Inr db'"
  shows "set_up env n db db' \<and> sb_replays db' = sb_replays db"
proof -
  from assms obtain d1 d2 d3 d4 where d: "insert_tenant env n db = Inr d1" "insert_tenant_key env n d1 = Inr d2" "insert_admin_key env n d2 = Inr d3"
      "insert_policy env n d3 = Inr d4" "insert_config env n d4 = Inr db'"
    by (auto simp: setup_rows_def Let_def then_write_Inr)
  have a: "activate t v now cdb = cdb\<lparr>cb_configs := cb_configs (activate t v now cdb)\<rparr>"
      "cb_configs (activate t v now (cdb\<lparr>cb_policies := ps\<rparr>)) = cb_configs (activate t v now cdb)" for t v now cdb ps
    by (simp_all add: activate_def set_configs_def)
  define row where "row = \<lparr>pn_TenantID = nq_tenantID n, pn_PolicyVersion = ''p_v1'', pn_RegoModule = defaultPolicyModule, pn_CreatedAt = ie_now env,
          pn_CreatedBy = ''setup_wizard'', pn_Notes = ''Initialized by setup workflow'', pn_StructuredJSON = [], pn_AuthoringMode = ''rego''\<rparr>"
  have 1: "d1 = db\<lparr>sb_tenants := (sb_tenants db)\<lparr>td_tenants := (td_tenants (sb_tenants db))(nq_tenantID n \<mapsto> \<lparr>tn_row = setup_tenant n, tn_DeletedAt = None\<rparr>)\<rparr>,
        sb_tenantIDs := sb_tenantIDs db @ [nq_tenantID n]\<rparr>"
    using d(1) by (simp add: insert_tenant_def setup_write_Inr setup_tenant_def)
  have 2: "d2 = d1\<lparr>sb_tenants := (sb_tenants d1)\<lparr>td_keys := td_keys (sb_tenants d1) @ [setup_key env n]\<rparr>\<rparr>"
      "nq_tenantKeyHash n \<notin> tk_KeyHash ` set (td_keys (sb_tenants d1))"
    using d(2) by (simp_all add: insert_tenant_key_def setup_write_Inr)
  have 3: "d3 = d2\<lparr>sb_admins := sb_admins d2 @ [setup_admin env n]\<rparr>" using d(3) by (simp add: insert_admin_key_def setup_write_Inr setup_admin_def)
  have 4: "d4 = d3\<lparr>sb_config := (sb_config d3)\<lparr>cb_policies := cb_policies (sb_config d3) @ [row]\<rparr>\<rparr>" "policy_of (sb_config d3) (nq_tenantID n) ''p_v1'' = None"
    using d(4) by (simp_all add: insert_policy_def setup_write_Inr row_def)
  have 5: "db' = d4\<lparr>sb_config := activate (nq_tenantID n) ''p_v1'' (ie_now env) (sb_config d4)\<rparr>" using d(5) by (simp add: insert_config_def setup_write_Inr)
  have r: "pn_TenantID row = nq_tenantID n" "pn_PolicyVersion row = ''p_v1''" "pn_RegoModule row = defaultPolicyModule" by (simp_all add: row_def)
  have "cb_policies (activate t v now cdb) = cb_policies cdb" for t v now cdb by (subst a(1)) simp
  then show ?thesis using 2(2) 4(2) r by (simp add: set_up_def 1 2(1) 3 4(1) 5 a(2))
qed

lemma setup_writes_Inr:
  assumes "setup_writes env req n key payloadHash db = Inr db'"
  shows "set_up env n db db' \<and> bootstrapped db' \<and>
    (if key = [] then sb_replays db' = sb_replays db
     else \<exists>row. sb_replays db' = (sb_replays db)(key \<mapsto> row) \<and> rr_PayloadHash row = payloadHash \<and> rr_ResponseRaw row = response_marshal (response_of env n))"
proof -
  obtain d7 where d7: "write_settings env (if ie_devAutoTools env then insertDevTools env (nq_tenantID n) (setup_rows env n db) else setup_rows env n db) = Inr d7"
      "if key = [] then db' = d7 else storeIdempotencyReplay env req key payloadHash (response_marshal (response_of env n)) d7 = Inr db'"
    using assms by (auto simp: setup_writes_def Let_def then_write_Inr split: if_splits)
  from settings_written [OF d7(1)] obtain d6 f where d6: "(if ie_devAutoTools env then insertDevTools env (nq_tenantID n) (setup_rows env n db) else setup_rows env n db) = Inr d6"
      "d7 = d6\<lparr>sb_config := (sb_config d6)\<lparr>cb_settings := f\<rparr>\<rparr>" "bootstrapped d7" by blast
  obtain d5 ts where d5: "setup_rows env n db = Inr d5" "d6 = d5\<lparr>sb_config := (sb_config d5)\<lparr>cb_tools := ts\<rparr>\<rparr>"
  proof (cases "ie_devAutoTools env")
    case True
    with d6(1) have "insertDevTools env (nq_tenantID n) (setup_rows env n db) = Inr d6" by simp
    from tools_written [OF this] that show ?thesis by blast
  next
    case False
    with d6(1) that [of d6 "cb_tools (sb_config d6)"] show ?thesis by simp
  qed
  from setup_rows_Inr [OF d5(1)] have "set_up env n db d7" "sb_replays d7 = sb_replays db" by (simp_all add: set_up_def d5(2) d6(2))
  moreover have "set_up env n db db' \<and> bootstrapped db'" if "\<exists>g. db' = d7\<lparr>sb_replays := g\<rparr>"
    using that calculation(1) d6(3) by (auto simp: set_up_def bootstrapped_def)
  ultimately show ?thesis
    using d7(2) d6(3) by (auto simp: storeIdempotencyReplay_def setup_write_Inr split: if_splits)
qed

abbreviation request_key :: "initialize_request \<Rightarrow> string" where
  "request_key req \<equiv> TrimSpace (iq_IdempotencyKey req)"

definition request_hash :: "setup_env \<Rightarrow> initialize_request \<Rightarrow> string" where
  "request_hash env req = (if request_key req = [] then [] else initializePayloadHash (cy_sha256hex (ie_crypto env)) req)"

lemma replay_found:
  assumes "checkInitializeReplay env qname key payloadHash db = Inr (Some resp)"
  shows "\<exists>row. sb_replays db key = Some row \<and> decodeReplayResponse (rr_ResponseRaw row) = Some resp"
  using assms by (auto simp: checkInitializeReplay_def split: if_splits sum.splits option.splits)
    (auto simp: setup_query_def split: option.splits)

lemma locked_setup_cases:
  assumes "locked_setup env req n key payloadHash w = (r, w')"
  obtains (idle) e where "r = Inl e" "sw_db w' = sw_db w"
  | (commit) "\<not> bootstrapped (sw_db w)" "setup_writes env req n key payloadHash (sw_db w) = Inr (sw_db w')"
      "r = Inr (response_of env n) \<or> (\<exists>e. r = Inl e)"
  using assms
  by (auto simp: locked_setup_def Let_def setup_getBootstrapComplete_def setup_query_def
      split: sum.splits bool.splits option.splits prod.splits if_splits)

lemma finish_setup_keeps: "finish_setup env req n out = (r, w') \<Longrightarrow> r = fst out \<and> sw_db w' = sw_db (snd out)"
  by (auto simp: finish_setup_def split: prod.splits sum.splits if_splits)

lemma Initialize_cases:
  assumes "Initialize env req w = (r, w')"
  obtains (refused) e where "r = Inl e" "sw_db w' = sw_db w"
  | (replay) resp db row where "r = Inr resp" "w' = w" "db \<in> {ie_before env, sw_db w}" "sb_replays db (request_key req) = Some row"
      "decodeReplayResponse (rr_ResponseRaw row) = Some resp"
  | (commit) n where "normalizeInitializeRequest env req = Inr n" "\<not> bootstrapped (sw_db w)"
      "setup_writes env req n (request_key req) (request_hash env req) (sw_db w) = Inr (sw_db w')" "r = Inr (response_of env n) \<or> (\<exists>e. r = Inl e)"
proof -
  let ?start = "emitSetupAudit env req [] ''SETUP.START'' ''SETUP'' ''bootstrap'' (audit_request req) (writeSetupState env req ''in_progress'' [] None w)"
  from assms consider (refused) e where "r = Inl e" "sw_db w' = sw_db w"
    | (early) resp where "r = Inr resp" "w' = w" "checkInitializeReplay env ''early replay'' (request_key req) (request_hash env req) (ie_before env) = Inr (Some resp)"
    | (late) resp where "r = Inr resp" "w' = w" "checkInitializeReplay env ''replay'' (request_key req) (request_hash env req) (sw_db w) = Inr (Some resp)"
    | (locked) n where "normalizeInitializeRequest env req = Inr n"
        "finish_setup env req n (locked_setup env req n (request_key req) (request_hash env req) ?start) = (r, w')"
    by (auto simp: Initialize_def Let_def request_hash_def [symmetric] split: sum.splits bool.splits option.splits if_splits)
  then show thesis
  proof cases
    case (early resp)
    with replay_found [OF early(3)] replay [of resp "ie_before env"] show thesis by blast
  next
    case (late resp)
    with replay_found [OF late(3)] replay [of resp "sw_db w"] show thesis by blast
  next
    case (locked n)
    obtain r1 w1 where l: "locked_setup env req n (request_key req) (request_hash env req) ?start = (r1, w1)" by fastforce
    with finish_setup_keeps [OF locked(2)] have "r = r1" "sw_db w' = sw_db w1" by simp_all
    with l refused commit [OF locked(1)] show thesis by (cases rule: locked_setup_cases) auto
  qed (use refused in blast)
qed

subsection \<open>One installation\<close>

lemma response_roundtrip: "decodeReplayResponse (response_marshal r) = Some r"
proof -
  have "decode_members (response_marshal r) = Some
     [(''bootstrap_complete'', Bool_v (ip_BootstrapComplete r)), (''tenant_id'', Str_v (ip_TenantID r)), (''tenant_name'', Str_v (ip_TenantName r)),
      (''tenant_key_id'', Str_v (ip_TenantKeyID r)), (''tenant_key'', Str_v (ip_TenantKey r)), (''tenant_key_created'', Bool_v (ip_TenantKeyCreated r)),
      (''admin_key_id'', Str_v (ip_AdminKeyID r)), (''admin_key'', Str_v (ip_AdminKey r)), (''admin_key_created'', Bool_v (ip_AdminKeyCreated r)),
      (''policy_version'', Str_v (ip_PolicyVersion r))]"
    unfolding response_marshal_def by (subst decode_members_struct_text) simp_all
  then show ?thesis
    by (simp add: decodeReplayResponse_def init_response_fields_def field_for_def string_field_def bool_field_def zero_init_response_def)
qed

interpretation setup_codec: claims_codec response_marshal decodeReplayResponse "\<lambda>_. True"
  by unfold_locales (rule response_roundtrip)

text \<open>Requests one after the other, each with the database it saw before it took the lock. Between them others may
  write, but neither take back the mark of a completed setup nor touch the stored answers. The trace has
  the answers, latest first, and whether the request changed the tables.\<close>

inductive setup_reach ::
  "setup_world \<Rightarrow> ((setup_error + initialize_response) \<times> bool) list \<Rightarrow> setup_db set \<Rightarrow> setup_world \<Rightarrow> bool" for w0 where
  start: "setup_reach w0 [] {sw_db w0} w0"
| request: "setup_reach w0 tr seen w \<Longrightarrow> ie_before env \<in> seen \<Longrightarrow> Initialize env req w = (r, w') \<Longrightarrow>
    setup_reach w0 ((r, sw_db w' \<noteq> sw_db w) # tr) (insert (sw_db w') seen) w'"
| other: "setup_reach w0 tr seen w \<Longrightarrow> sb_replays (sw_db w') = sb_replays (sw_db w) \<Longrightarrow>
    (bootstrapped (sw_db w) \<Longrightarrow> bootstrapped (sw_db w')) \<Longrightarrow> setup_reach w0 tr (insert (sw_db w') seen) w'"

definition stored_answers :: "initialize_response \<Rightarrow> setup_db \<Rightarrow> bool" where
  "stored_answers resp db = (\<forall>key row. sb_replays db key = Some row \<longrightarrow> decodeReplayResponse (rr_ResponseRaw row) = Some resp)"

definition agreed :: "((setup_error + initialize_response) \<times> bool) list \<Rightarrow> setup_db set \<Rightarrow> setup_world \<Rightarrow> initialize_response \<Rightarrow> bool" where
  "agreed tr seen w resp \<longleftrightarrow> sw_db w \<in> seen \<and> (\<forall>db\<in>seen. stored_answers resp db) \<and> (\<forall>a. Inr a \<in> fst ` set tr \<longrightarrow> a = resp) \<and> length (filter snd tr) \<le> 1 \<and>
     (bootstrapped (sw_db w) \<or> filter snd tr = [] \<and> (\<forall>db\<in>seen. sb_replays db = Map.empty) \<and> (\<forall>a. Inr a \<notin> fst ` set tr))"

lemma agreed_request:
  assumes "agreed tr seen w resp" and "ie_before env \<in> seen" and "Initialize env req w = (r, w')"
  shows "\<exists>resp'. agreed ((r, sw_db w' \<noteq> sw_db w) # tr) (insert (sw_db w') seen) w' resp'"
  using assms(3)
proof (cases rule: Initialize_cases)
  case (refused e)
  with assms(1) show ?thesis by (intro exI [of _ resp]) (auto simp: agreed_def insert_absorb)
next
  case (replay a db row)
  with assms(1,2) have "stored_answers resp db" "sb_replays db \<noteq> Map.empty" "db \<in> seen" by (auto simp: agreed_def)
  with replay assms(1) show ?thesis by (intro exI [of _ resp]) (auto simp: agreed_def stored_answers_def insert_absorb)
next
  case (commit n)
  with assms(1) have e: "filter snd tr = []" "\<forall>db\<in>seen. sb_replays db = Map.empty" "\<forall>a. Inr a \<notin> fst ` set tr" "sw_db w \<in> seen" by (auto simp: agreed_def)
  note s = setup_writes_Inr [OF commit(3)]
  have "stored_answers (response_of env n) (sw_db w')"
    using s e(2,4) by (auto simp: stored_answers_def response_roundtrip split: if_splits)
  with e s commit show ?thesis by (intro exI [of _ "response_of env n"]) (auto simp: agreed_def stored_answers_def)
qed

text \<open>C30: an installation has one answer. However many setup requests run, one after the other or at the same
  time, with whatever driver errors, failed commits and writes of others between them, on a database without
  stored answers: at most one of them changes the tables, and all requests that succeed, replays of lost answers
  included, get the same answer.\<close>

theorem setup_answers_agree:
  assumes "setup_reach w0 tr seen w" and "sb_replays (sw_db w0) = Map.empty"
  shows "length (filter snd tr) \<le> 1 \<and> (\<forall>a b. Inr a \<in> fst ` set tr \<and> Inr b \<in> fst ` set tr \<longrightarrow> a = b)"
proof -
  from assms(1) have "\<exists>resp. agreed tr seen w resp"
  proof induction
    case start
    then show ?case using assms(2) by (auto simp: agreed_def stored_answers_def)
  next
    case (request tr seen w env req r w')
    then show ?case using agreed_request by blast
  next
    case (other tr seen w w')
    then obtain resp where a: "agreed tr seen w resp" by blast
    then have "stored_answers resp (sw_db w')" using other(2) by (auto simp: agreed_def stored_answers_def)
    with a other show ?case by (intro exI [of _ resp]) (auto simp: agreed_def)
  qed
  then obtain resp where "agreed tr seen w resp" by blast
  then have "\<forall>a. Inr a \<in> fst ` set tr \<longrightarrow> a = resp" "length (filter snd tr) \<le> 1" by (simp_all add: agreed_def)
  then show ?thesis by blast
qed

subsection \<open>The keys it hands out\<close>

text \<open>The hashes are hexadecimal texts; what counts is that none is blank.\<close>

definition hash_texts :: "crypto \<Rightarrow> bool" where
  "hash_texts cy = (\<forall>k s. TrimSpace (cy_sha256hex cy k) \<noteq> [] \<and> TrimSpace (cy_hmachex cy k s) \<noteq> [])"

lemma TrimSpace_Nil: "TrimSpace [] = []" by code_simp

lemma stored_hash_authenticates:
  assumes "hash_texts cy" and "get (HashKey cy setting rawKey) db = Inr a"
  shows "\<exists>r db'. authenticate_hashes (\<lambda>_. None) None get upgrade (BuildKeyHashCandidates cy rawKey (HMACSecretsFromEnv setting)) db = (Inr r, db') \<and>
    ar_Principal r = a"
proof (cases "normalizeSecrets (HMACSecretsFromEnv setting)")
  case Nil
  then show ?thesis using assms
    by (simp add: HashKey_def BuildKeyHashCandidates_def authenticate_hashes_def lookup_def TrimSpace_Nil hash_texts_def Let_def)
next
  case (Cons secret secrets)
  have "cy_hmachex cy rawKey secret \<noteq> []" "TrimSpace (cy_hmachex cy rawKey secret) \<noteq> []"
    using assms(1) TrimSpace_Nil unfolding hash_texts_def by metis+
  then show ?thesis using assms Cons
    by (simp add: HashKey_def BuildKeyHashCandidates_def authenticate_hashes_def lookup_def Let_def)
qed

lemma normalized_keys:
  assumes "normalizeInitializeRequest env req = Inr n"
  shows "nq_adminKey n \<noteq> [] \<and> nq_tenantKey n \<noteq> [] \<and> nq_tenantKeyHash n = HashKey (ie_crypto env) (ie_tenantSecrets env) (nq_tenantKey n)"
  using assms
  by (auto simp: normalizeInitializeRequest_def Let_def generateSecret_def GenerateAPIKey_def split: option.splits if_splits prod.splits)

lemma appended_tenant_found:
  assumes "td_keys db' = ks @ [k]" and "tk_KeyHash k \<notin> tk_KeyHash ` set ks" and "key_tenant db' k = Some t"
  shows "GetTenantByKeyHash (tk_KeyHash k) db' = Inr t"
proof -
  have "List.map_filter (\<lambda>j. if tk_KeyHash j = tk_KeyHash k then key_tenant db' j else None) ks = []"
    using assms(2) by (induction ks) (auto simp: List.map_filter_simps)
  with assms(1,3) show ?thesis by (simp add: GetTenantByKeyHash_def List.map_filter_def)
qed

lemma appended_admin_found:
  fixes k :: admin_key
  assumes "ak_KeyHash k \<notin> ak_KeyHash ` set ks"
  shows "GetAdminKeyByHash (ak_KeyHash k) (ks @ [k]) = Inr k"
proof -
  have "filter (\<lambda>j. ak_KeyHash j = ak_KeyHash k) ks = []" using assms by (intro filter_False) (metis imageI)
  then show ?thesis by (simp add: GetAdminKeyByHash_def)
qed

text \<open>C31: the keys of a new installation work. When a setup request succeeds and has changed the tables (it
  is not the replay of an earlier answer), and the hash of the administrator key it returns is that of no
  existing administrator key (the column is not unique), then right afterwards the tenant key logs in as the new
  tenant, for every valid agent name, the administrator key passes the check of every scope, and the active
  policy of the tenant is the default policy.\<close>

theorem setup_keys_work:
  assumes "Initialize env req w = (Inr resp, w')" and "sw_db w' \<noteq> sw_db w" and "hash_texts (ie_crypto env)" and "ValidateAgentID agentID = None"
    and "HashKey (ie_crypto env) (ie_adminSecrets env) (ip_AdminKey resp) \<notin> ak_KeyHash ` set (sb_admins (sw_db w))"
  shows "(\<exists>r db. AuthenticateTenantDetailed (\<lambda>_. None) None (ie_crypto env) (ie_tenantSecrets env) (ip_TenantKey resp) agentID (sb_tenants (sw_db w')) = (Inr r, db) \<and>
      tn_TenantID (ar_Principal r) = ip_TenantID resp) \<and>
    (\<exists>k db. AuthenticateAdmin (\<lambda>_. None) None (ie_crypto env) (ie_adminSecrets env) (ip_AdminKey resp) scope (sb_admins (sw_db w')) = (Inr k, db) \<and>
      ak_AdminKeyID k = ip_AdminKeyID resp) \<and>
    (\<exists>p. GetPolicy no_faults (ip_TenantID resp) (sb_config (sw_db w')) = Inr p \<and> po_RegoModule p = defaultPolicyModule)"
proof -
  from assms(1,2) obtain n where n: "normalizeInitializeRequest env req = Inr n" "resp = response_of env n"
      "setup_writes env req n (request_key req) (request_hash env req) (sw_db w) = Inr (sw_db w')"
    by (cases rule: Initialize_cases) auto
  note s = conjunct1 [OF setup_writes_Inr [OF n(3)], unfolded set_up_def]
  have r: "ip_TenantKey resp = nq_tenantKey n" "ip_AdminKey resp = nq_adminKey n" "ip_TenantID resp = nq_tenantID n" "ip_AdminKeyID resp = setup_adminKeyID env"
    by (simp_all add: n(2) response_of_def)
  have "key_tenant (sb_tenants (sw_db w')) (setup_key env n) = Some (setup_tenant n)"
    using s by (simp add: key_tenant_def setup_key_def setup_tenant_def)
  with appended_tenant_found [of "sb_tenants (sw_db w')" _ "setup_key env n"] s normalized_keys [OF n(1)]
  have "GetTenantByKeyHash (HashKey (ie_crypto env) (ie_tenantSecrets env) (nq_tenantKey n)) (sb_tenants (sw_db w')) = Inr (setup_tenant n)"
    by (simp add: setup_key_def)
  from stored_hash_authenticates [where get = GetTenantByKeyHash and upgrade = UpgradeTenantKeyHash, OF assms(3) this] assms(4) normalized_keys [OF n(1)]
  have t: "\<exists>x db. AuthenticateTenantDetailed (\<lambda>_. None) None (ie_crypto env) (ie_tenantSecrets env) (ip_TenantKey resp) agentID (sb_tenants (sw_db w')) = (Inr x, db) \<and>
      tn_TenantID (ar_Principal x) = ip_TenantID resp"
    by (auto simp: AuthenticateTenantDetailed_def r setup_tenant_def)
  have "GetAdminKeyByHash (HashKey (ie_crypto env) (ie_adminSecrets env) (nq_adminKey n)) (sb_admins (sw_db w')) = Inr (setup_admin env n)"
    using appended_admin_found [of "setup_admin env n" "sb_admins (sw_db w)"] s assms(5) by (simp add: r setup_admin_def)
  from stored_hash_authenticates [where get = GetAdminKeyByHash and upgrade = UpgradeAdminKeyHash, OF assms(3) this] normalized_keys [OF n(1)]
  have a: "\<exists>k db. AuthenticateAdmin (\<lambda>_. None) None (ie_crypto env) (ie_adminSecrets env) (ip_AdminKey resp) scope (sb_admins (sw_db w')) = (Inr k, db) \<and>
      ak_AdminKeyID k = ip_AdminKeyID resp"
    by (auto simp: AuthenticateAdmin_def AuthenticateAdminAny_def r setup_admin_def full_scopes)
  obtain c where "config_of (activate (nq_tenantID n) ''p_v1'' (ie_now env) (sb_config (sw_db w))) (nq_tenantID n) = Some c" "tg_ActivePolicyVersion c = ''p_v1''"
    using config_of_activate by blast
  then have c: "config_of (sb_config (sw_db w')) (nq_tenantID n) = Some c" "tg_ActivePolicyVersion c = ''p_v1''" using s by (simp_all add: config_of_def)
  obtain row where "policy_of (sb_config (sw_db w')) (nq_tenantID n) ''p_v1'' = Some row" "pn_RegoModule row = defaultPolicyModule"
    using s by (auto simp: policy_of_def find_append split: option.splits)
  with c t a show ?thesis by (simp add: GetPolicy_def no_faults_def r)
qed

text \<open>C32: a lost answer comes back, keys and all. After a successful request with an idempotency key, every later
  request with the same key and the same payload that finds the stored row gets the same answer, the
  administrator key and the tenant key in clear, and changes nothing, although the setup is complete.\<close>

theorem setup_replay_returns_keys:
  assumes "Initialize env req w = (Inr resp, w')" and "sw_db w' \<noteq> sw_db w" and "request_key req \<noteq> []"
    and "request_key again = request_key req" and "request_hash env' again = request_hash env req"
    and "sb_replays (ie_before env') (request_key req) = sb_replays (sw_db w') (request_key req)" and "ie_fault env' ''early replay'' = None"
  shows "Initialize env' again v = (Inr resp, v) \<and>
    (\<exists>row. sb_replays (sw_db w') (request_key req) = Some row \<and> decodeReplayResponse (rr_ResponseRaw row) = Some resp)"
proof -
  from assms(1,2) obtain n where n: "resp = response_of env n"
      "setup_writes env req n (request_key req) (request_hash env req) (sw_db w) = Inr (sw_db w')"
    by (cases rule: Initialize_cases) auto
  from setup_writes_Inr [OF n(2)] assms(3) obtain row where
    row: "sb_replays (sw_db w') (request_key req) = Some row" "rr_PayloadHash row = request_hash env req" "rr_ResponseRaw row = response_marshal resp"
    by (auto simp: n(1))
  then have "checkInitializeReplay env' ''early replay'' (request_key again) (request_hash env' again) (ie_before env') = Inr (Some resp)"
    using assms(3-7) by (simp add: checkInitializeReplay_def setup_query_def response_roundtrip)
  then have "Initialize env' again v = (Inr resp, v)"
    using assms(3,4) by (simp add: Initialize_def Let_def request_hash_def)
  with row response_roundtrip show ?thesis by simp
qed

subsection \<open>Who gets in\<close>

text \<open>Nobody passes the gate without the token. When the gateway asks for a setup token, a request that
  is answered with keys, or that changes anything at all, comes from an allowed address and carries the
  configured token, which is not empty, and an idempotency key.\<close>

theorem setup_needs_token:
  assumes "setup_handleInitialize pol hdr realIP body env w = (reply, w')" and "w' \<noteq> w \<or> reply = Su_created resp" and "xp_TokenRequired pol"
  shows "clientIPAllowed realIP (xp_AllowedCIDRs pol) \<and> setup_bearerToken (hdr ''Authorization'') = TrimSpace (xp_Token pol) \<and>
    TrimSpace (xp_Token pol) \<noteq> [] \<and> TrimSpace (hdr ''Idempotency-Key'') \<noteq> []"
proof -
  have "\<exists>f. Authorize (cy_sha256hex (ie_crypto env)) pol (hdr ''Authorization'') realIP = Inr f \<and> TrimSpace (hdr ''Idempotency-Key'') \<noteq> []"
  proof (cases "Authorize (cy_sha256hex (ie_crypto env)) pol (hdr ''Authorization'') realIP")
    case (Inl e)
    then have "w' = w" "reply = access_reply e" using assms(1) by (simp_all add: setup_handleInitialize_def)
    then show ?thesis using assms(2) by (cases e) simp_all
  next
    case (Inr f)
    then show ?thesis using assms by (auto simp: setup_handleInitialize_def Let_def split: if_splits)
  qed
  then show ?thesis using assms(3) by (auto simp: Authorize_def Let_def split: if_splits)
qed

subsection \<open>A first installation\<close>

definition setup_crypto :: crypto where
  "setup_crypto = \<lparr>cy_sha256hex = (\<lambda>s. ''s'' @ s), cy_hmachex = (\<lambda>s k. ''h'' @ k @ s)\<rparr>"

definition empty_setup_db :: setup_db where
  "empty_setup_db = \<lparr>sb_relations = setup_relations, sb_tenants = \<lparr>td_tenants = Map.empty, td_keys = []\<rparr>, sb_tenantIDs = [], sb_admins = [],
     sb_config = \<lparr>cb_settings = Map.empty, cb_configs = [], cb_policies = [], cb_tools = [], cb_risks = []\<rparr>, sb_replays = Map.empty\<rparr>"

definition sample_setup_env :: "setup_db \<Rightarrow> setup_env" where
  "sample_setup_env db = \<lparr>ie_crypto = setup_crypto, ie_tenantSecrets = [], ie_adminSecrets = [], ie_devAutoTools = True, ie_mockURL = ''http://m'', ie_jiraURL = ''http://j'',
     ie_idempotencyRequired = True, ie_before = db, ie_lock = Inr True, ie_fault = (\<lambda>_. None), ie_commit = None, ie_started = 1, ie_now = 2, ie_completed = 3,
     ie_uuid = (\<lambda>_. ''0123456789''), ie_tenantBytes = Some ''abc'', ie_adminBytes = Some ''xyz'', ie_randomError = [], ie_stateFault = (\<lambda>_. False), ie_stateTime = (\<lambda>_. 2),
     ie_auditFault = (\<lambda>_ _. None), ie_auditID = id, ie_auditTime = (\<lambda>_. 2), ie_duration = 1, ie_fmt = (\<lambda>_. ''0'')\<rparr>"

definition sample_setup_request :: initialize_request where
  "sample_setup_request = zero_init_request\<lparr>iq_TenantName := ''Acme'', iq_IdempotencyKey := ''i1''\<rparr>"

definition sample_world :: setup_world where
  "sample_world = \<lparr>sw_db = empty_setup_db, sw_state = None, sw_audit = []\<rparr>"

definition sample_normalized :: normalized_request where
  "sample_normalized = \<lparr>nq_tenantName = ''Acme'', nq_tenantID = ''t_01234567'', nq_adminKey = ''rbtr_admin_'' @ EncodeToString ''xyz'',
     nq_tenantKey = ''rbtr_live_'' @ EncodeToString ''abc'', nq_tenantKeyHash = ''srbtr_live_'' @ EncodeToString ''abc'',
     nq_tenantKeyPrefix = take 14 (''rbtr_live_'' @ EncodeToString ''abc''), nq_adminKeyCreated = True, nq_tenantKeyCreated = True\<rparr>"

lemma sample_normal: "normalizeInitializeRequest (sample_setup_env db) sample_setup_request = Inr sample_normalized"
  unfolding sample_setup_env_def by code_simp

lemma sample_write: "\<not> violated \<Longrightarrow> setup_write (sample_setup_env d) name violated f db = Inr (f db)"
  by (simp add: setup_write_def sample_setup_env_def)

lemma then_write_ok: "w db = Inr db1 \<Longrightarrow> then_write (Inr db) w err = Inr db1"
  by (simp add: then_write_def)

lemma sample_settings_ok: "\<exists>db. write_settings (sample_setup_env d) (Inr x) = Inr db"
proof -
  have "fold (\<lambda>(key, val) r. then_write r (setup_write (sample_setup_env d) (''setting '' @ key) False (put_db key val)) Setup_driver) xs (Inr x) =
      Inr (fold (\<lambda>(key, val). put_db key val) xs x)" for xs x
    by (induction xs arbitrary: x) (auto simp: then_write_def sample_write)
  then show ?thesis unfolding write_settings_def put_db_def [symmetric] by blast
qed

lemma sample_tools_ok: "\<exists>db. insertDevTools (sample_setup_env d) t (Inr x) = Inr db \<and> sb_replays db = sb_replays x"
  by (simp add: insertDevTools_def then_write_def sample_write)

lemma sample_rows_ok: "\<exists>db. setup_rows (sample_setup_env d) sample_normalized empty_setup_db = Inr db \<and> sb_replays db = Map.empty"
  by (simp add: setup_rows_def Let_def then_write_def sample_write insert_tenant_def insert_tenant_key_def insert_admin_key_def insert_policy_def insert_config_def
      empty_setup_db_def policy_of_def)

lemma sample_dev: "ie_devAutoTools (sample_setup_env d)" by (simp add: sample_setup_env_def)

lemma sample_writes_ok: "\<exists>db. setup_writes (sample_setup_env d) req sample_normalized ''i1'' h empty_setup_db = Inr db"
proof -
  obtain x where x: "setup_rows (sample_setup_env d) sample_normalized empty_setup_db = Inr x" "sb_replays x = Map.empty" using sample_rows_ok by blast
  obtain y where y: "insertDevTools (sample_setup_env d) (nq_tenantID sample_normalized) (Inr x) = Inr y" "sb_replays y = Map.empty"
    using sample_tools_ok [of d "nq_tenantID sample_normalized" x] x(2) by auto
  obtain z where z: "write_settings (sample_setup_env d) (Inr y) = Inr z" using sample_settings_ok by blast
  from settings_written [OF z] y(2) have "sb_replays z = Map.empty" by auto
  with x(1) y(1) z show ?thesis
    using sample_dev [of d] by (simp add: setup_writes_def Let_def then_write_def storeIdempotencyReplay_def sample_write)
qed

lemma sample_initialize_any:
  assumes "TrimSpace (iq_IdempotencyKey req) = ''i1''" and "normalizeInitializeRequest (sample_setup_env empty_setup_db) req = Inr sample_normalized"
  shows "\<exists>w'. Initialize (sample_setup_env empty_setup_db) req sample_world = (Inr (response_of (sample_setup_env empty_setup_db) sample_normalized), w') \<and>
     sw_db w' \<noteq> sw_db sample_world"
proof -
  let ?env = "sample_setup_env empty_setup_db"
  have e: "ie_fault ?env = (\<lambda>_. None)" "ie_lock ?env = Inr True" "ie_commit ?env = None" "ie_before ?env = empty_setup_db"
    "sb_replays empty_setup_db = Map.empty" "sb_relations empty_setup_db = setup_relations" "\<not> bootstrapped empty_setup_db"
    "td_tenants (sb_tenants empty_setup_db) = Map.empty" "sb_tenantIDs empty_setup_db = []" "sw_db sample_world = empty_setup_db"
    by (simp_all add: sample_setup_env_def empty_setup_db_def bootstrapped_def sample_world_def)
  obtain db where db: "setup_writes ?env req sample_normalized ''i1'' (request_hash ?env req) empty_setup_db = Inr db"
    using sample_writes_ok by blast
  then have "bootstrapped db" using setup_writes_Inr by blast
  with e(7) have ne: "db \<noteq> empty_setup_db" by blast
  have l: "locked_setup ?env req sample_normalized ''i1'' (request_hash ?env req) v =
      (Inr (response_of ?env sample_normalized), v\<lparr>sw_db := db\<rparr>)" if "sw_db v = empty_setup_db" for v
    using that e db by (simp add: locked_setup_def setup_getBootstrapComplete_def setup_query_def tenantIDExists_def tenantNameExists_def)
  have h: "initializePayloadHash (cy_sha256hex (ie_crypto ?env)) req = request_hash ?env req"
    by (simp add: request_hash_def assms(1))
  show ?thesis
    unfolding Initialize_def assms(1)
    by (simp add: h checkInitializeReplay_def setup_query_def e assms(2) schemaReadyWithQuerier_def list_all_iff l Let_def)
      (use ne in \<open>auto simp: finish_setup_def split: prod.splits\<close>)
qed

lemma sample_initialize:
  "\<exists>w'. Initialize (sample_setup_env empty_setup_db) sample_setup_request sample_world = (Inr (response_of (sample_setup_env empty_setup_db) sample_normalized), w') \<and>
     sw_db w' \<noteq> sw_db sample_world"
proof (rule sample_initialize_any)
  show "TrimSpace (iq_IdempotencyKey sample_setup_request) = ''i1''" by code_simp
qed (rule sample_normal)

theorem setup_answers_agree_witness:
  "\<exists>r w. setup_reach sample_world [(Inr r, True)] {sw_db w, empty_setup_db} w \<and>
     (\<forall>a b. Inr a \<in> fst ` set [(Inr r :: setup_error + initialize_response, True)] \<and> Inr b \<in> fst ` set [(Inr r :: setup_error + initialize_response, True)] \<longrightarrow> a = b)"
proof -
  obtain r w where i: "Initialize (sample_setup_env empty_setup_db) sample_setup_request sample_world = (Inr r, w)" "sw_db w \<noteq> sw_db sample_world"
    using sample_initialize by blast
  have b: "sw_db sample_world = empty_setup_db" "ie_before (sample_setup_env empty_setup_db) = empty_setup_db" "sb_replays empty_setup_db = Map.empty"
    by (simp_all add: sample_world_def sample_setup_env_def empty_setup_db_def)
  from setup_reach.request [OF setup_reach.start _ i(1)] i(2) b have reach: "setup_reach sample_world [(Inr r, True)] {sw_db w, empty_setup_db} w" by simp
  from setup_answers_agree [OF this] b reach show ?thesis by auto
qed

lemma TrimSpace_kept: "\<not> is_space c \<Longrightarrow> TrimSpace (c # s) \<noteq> []"
  by (auto simp: TrimSpace_def trim_left_def trim_right_def)

theorem setup_keys_work_witness:
  "\<exists>resp w'. Initialize (sample_setup_env empty_setup_db) sample_setup_request sample_world = (Inr resp, w') \<and>
     (\<exists>k db. AuthenticateAdmin (\<lambda>_. None) None setup_crypto [] (ip_AdminKey resp) ''admin:settings:write'' (sb_admins (sw_db w')) = (Inr k, db))"
proof -
  obtain w' where i: "Initialize (sample_setup_env empty_setup_db) sample_setup_request sample_world =
      (Inr (response_of (sample_setup_env empty_setup_db) sample_normalized), w')" "sw_db w' \<noteq> sw_db sample_world"
    using sample_initialize by blast
  have c: "ie_crypto (sample_setup_env empty_setup_db) = setup_crypto" "ie_adminSecrets (sample_setup_env empty_setup_db) = []"
    "sb_admins (sw_db sample_world) = []"
    by (simp_all add: sample_setup_env_def sample_world_def empty_setup_db_def)
  have "hash_texts setup_crypto" by (simp add: hash_texts_def setup_crypto_def TrimSpace_kept is_space_def)
  with setup_keys_work [OF i, of "''bot-1''" "''admin:settings:write''"] i(1) sample_agent c show ?thesis by auto
qed

theorem setup_replay_returns_keys_witness:
  "\<exists>resp w'. Initialize (sample_setup_env empty_setup_db) sample_setup_request sample_world = (Inr resp, w') \<and>
     Initialize (sample_setup_env (sw_db w')) sample_setup_request w' = (Inr resp, w')"
proof -
  obtain resp w' where i: "Initialize (sample_setup_env empty_setup_db) sample_setup_request sample_world = (Inr resp, w')" "sw_db w' \<noteq> sw_db sample_world"
    using sample_initialize by blast
  have k: "TrimSpace (iq_IdempotencyKey sample_setup_request) \<noteq> []" by code_simp
  have "request_hash (sample_setup_env (sw_db w')) sample_setup_request = request_hash (sample_setup_env empty_setup_db) sample_setup_request"
    by (simp add: request_hash_def sample_setup_env_def)
  from setup_replay_returns_keys [OF i k refl this, of w'] i(1) show ?thesis by (auto simp: sample_setup_env_def)
qed

definition sample_access :: access_policy where
  "sample_access = \<lparr>xp_TokenRequired = True, xp_Token = ''tok'', xp_AllowedCIDRs = [(IPv4 (ip4_value ''10.0.0.0''), 8)]\<rparr>"

definition sample_setup_header :: http_header where
  "sample_setup_header h = (if h = ''Authorization'' then ''Bearer tok'' else if h = ''Idempotency-Key'' then ''i1'' else [])"

definition setup_body :: string where "setup_body = json_object [(''tenant_name'', quote ''Acme'')]"

lemma sample_cidr: "ParseAllowedCIDRs ['' 10.0.0.0/8 ''] = Some (xp_AllowedCIDRs sample_access)"
  by code_simp

lemma sample_authorized: "\<exists>f. Authorize (cy_sha256hex setup_crypto) sample_access (sample_setup_header ''Authorization'') ''10.1.2.3:555'' = Inr f"
proof -
  have "clientIPAllowed ''10.1.2.3:555'' (xp_AllowedCIDRs sample_access)" by code_simp
  moreover have "setup_bearerToken (sample_setup_header ''Authorization'') = ''tok''" "TrimSpace (xp_Token sample_access) = ''tok''" by code_simp+
  ultimately show ?thesis by (simp add: Authorize_def)
qed

theorem setup_needs_token_witness:
  "\<exists>resp w'. setup_handleInitialize sample_access sample_setup_header ''10.1.2.3:555'' setup_body (sample_setup_env empty_setup_db) sample_world = (Su_created resp, w') \<and>
     clientIPAllowed ''10.1.2.3:555'' (xp_AllowedCIDRs sample_access) \<and> setup_bearerToken (sample_setup_header ''Authorization'') = TrimSpace ''tok''"
proof -
  let ?env = "sample_setup_env empty_setup_db" and ?h = sample_setup_header
  obtain f where a: "Authorize (cy_sha256hex setup_crypto) sample_access (?h ''Authorization'') ''10.1.2.3:555'' = Inr f" using sample_authorized by blast
  have e: "ie_crypto ?env = setup_crypto" "xp_TokenRequired sample_access" "xp_Token sample_access = ''tok''" by (simp_all add: sample_setup_env_def sample_access_def)
  have k: "TrimSpace (?h ''Idempotency-Key'') = ''i1''" "TrimSpace ''i1'' = ''i1''"
    "decode_body init_request_fields zero_init_request setup_body = Some (zero_init_request\<lparr>iq_TenantName := ''Acme''\<rparr>)" by code_simp+
  let ?req = "zero_init_request\<lparr>iq_TenantName := ''Acme'', iq_IdempotencyKey := ''i1'', iq_Fingerprint := f, iq_ClientIP := TrimSpace ''10.1.2.3:555'',
     iq_UserAgent := TrimSpace (?h ''User-Agent''), iq_RequestID := TrimSpace (?h ''X-Request-Id'')\<rparr>"
  have "normalizeInitializeRequest ?env ?req = Inr sample_normalized"
    using sample_normal [of empty_setup_db] by (simp add: sample_setup_request_def normalizeInitializeRequest_def zero_init_request_def)
  with sample_initialize_any [of ?req] k(2) obtain w' where "Initialize ?env ?req sample_world = (Inr (response_of ?env sample_normalized), w')" by auto
  then have h: "setup_handleInitialize sample_access ?h ''10.1.2.3:555'' setup_body ?env sample_world = (Su_created (response_of ?env sample_normalized), w')"
    using a k e(1) by (simp add: setup_handleInitialize_def)
  from setup_needs_token [OF h, of "response_of ?env sample_normalized"] e h show ?thesis by auto
qed

end
