(* ===== verification/Ticket_Providers.thy ===== *)
theory Ticket_Providers
  imports Connectors Go_Json Go_Base64
begin

text \<open>
  The ticketing clients of \<open>src/internal/ticketing\<close>: \<open>jira.go\<close>, \<open>servicenow.go\<close> and
  \<open>linear.go\<close>, with the priorities of \<open>priority.go\<close>. A call gives its result, \<open>None\<close> for an
  error, and the requests that it sent, in order. The HTTP client is a parameter; it refuses a
  request whose URL cannot be parsed. What an error says is left out.
\<close>

subsection \<open>Calls\<close>

type_synonym 'a attempt = "'a option \<times> connector_request list"

definition then_send :: "'a attempt \<Rightarrow> ('a \<Rightarrow> 'b attempt) \<Rightarrow> 'b attempt" where
  "then_send a f =
     (case a of (None, sent) \<Rightarrow> (None, sent) | (Some x, sent) \<Rightarrow> (case f x of (r, later) \<Rightarrow> (r, sent @ later)))"

definition send :: "http_client \<Rightarrow> connector_request \<Rightarrow> http_answer attempt" where
  "send client req = ((case client req of Inl _ \<Rightarrow> None | Inr ans \<Rightarrow> Some ans), [req])"

definition expect :: "'a option \<Rightarrow> 'a attempt" where "expect x = (x, [])"

lemma then_send_simps [simp]:
  "then_send (None, sent) f = (None, sent)"
  "then_send (Some x, sent) f = (fst (f x), sent @ snd (f x))"
  by (simp_all add: then_send_def split: prod.splits)

record create_ticket =
  ct_ProjectKey :: string
  ct_IssueType :: string
  ct_Summary :: string
  ct_Description :: string
  ct_Priority :: string
  ct_Labels :: "string list"
  ct_Metadata :: "(string \<times> string) list"

record ticket_result =
  tk_ExternalKey :: string
  tk_ExternalURL :: string

record update_ticket =
  ut_ExternalKey :: string
  ut_Status :: string
  ut_Comment :: string

definition json_body :: "any \<Rightarrow> string" where "json_body v = json_text no_floats v"

definition str_map :: "(string \<times> string) list \<Rightarrow> any" where "str_map m = Map_v (map (\<lambda>(k, v). (k, Str_v v)) m)"

subsection \<open>Priorities\<close>

definition jiraPriority :: "string \<Rightarrow> string" where
  "jiraPriority risk =
     (if risk = ''CRITICAL'' then ''Highest'' else if risk = ''HIGH'' then ''High'' else if risk = ''MEDIUM'' then ''Medium''
      else if risk = ''LOW'' then ''Low'' else ''Medium'')"

definition servicenowPriority :: "string \<Rightarrow> string" where
  "servicenowPriority risk =
     (if risk = ''CRITICAL'' then ''1'' else if risk = ''HIGH'' then ''2'' else if risk = ''MEDIUM'' then ''3''
      else if risk = ''LOW'' then ''4'' else ''3'')"

definition linearPriority :: "string \<Rightarrow> string" where
  "linearPriority risk =
     (if risk = ''CRITICAL'' then ''Urgent'' else if risk = ''HIGH'' then ''High'' else if risk = ''MEDIUM'' then ''Medium''
      else if risk = ''LOW'' then ''Low'' else ''Medium'')"

definition MapPriority :: "string \<Rightarrow> string \<Rightarrow> string" where
  "MapPriority provider risk =
     (if provider = ''jira'' then jiraPriority risk else if provider = ''servicenow'' then servicenowPriority risk
      else if provider = ''linear'' then linearPriority risk else risk)"

subsection \<open>Jira\<close>

definition StdEncode :: "string \<Rightarrow> string" where
  "StdEncode s =
     map (\<lambda>c. if c = CHR ''-'' then CHR ''+'' else if c = CHR ''_'' then CHR ''/'' else c) (EncodeToString s) @
     replicate ((3 - length s mod 3) mod 3) (CHR ''='')"

record jira_provider =
  jp_baseURL :: string
  jp_apiToken :: string
  jp_email :: string

definition NewJiraProvider :: "string \<Rightarrow> string \<Rightarrow> string \<Rightarrow> jira_provider" where
  "NewJiraProvider baseURL apiToken email = \<lparr>jp_baseURL = TrimRight baseURL (CHR ''/''), jp_apiToken = apiToken, jp_email = email\<rparr>"

definition jira_setHeaders :: "jira_provider \<Rightarrow> headers" where
  "jira_setHeaders p =
     [(''Content-Type'', ''application/json''),
      (''Authorization'', if jp_email p \<noteq> [] then ''Basic '' @ StdEncode (jp_email p @ '':'' @ jp_apiToken p) else ''Bearer '' @ jp_apiToken p)]"

definition jiraDescription :: "string \<Rightarrow> any" where
  "jiraDescription text =
     Map_v [(''type'', Str_v ''doc''), (''version'', Int_v 1),
       (''content'', List_v [Map_v [(''type'', Str_v ''paragraph''),
         (''content'', List_v [Map_v [(''type'', Str_v ''text''), (''text'', Str_v text)]])]])]"

definition jira_request :: "jira_provider \<Rightarrow> string \<Rightarrow> string \<Rightarrow> string \<Rightarrow> connector_request" where
  "jira_request p verb path body = \<lparr>cq_Method = verb, cq_URL = jp_baseURL p @ path, cq_Headers = jira_setHeaders p, cq_Body = body\<rparr>"

definition jira_issue :: "create_ticket \<Rightarrow> any" where
  "jira_issue req =
     Map_v [(''fields'', Map_v ([(''project'', str_map [(''key'', ct_ProjectKey req)]), (''summary'', Str_v (ct_Summary req)),
        (''description'', jiraDescription (ct_Description req)), (''issuetype'', str_map [(''name'', ct_IssueType req)]),
        (''priority'', str_map [(''name'', ct_Priority req)])] @
       (if ct_Labels req \<noteq> [] then [(''labels'', List_v (map Str_v (ct_Labels req)))] else [])))]"

definition jira_CreateTicket :: "http_client \<Rightarrow> jira_provider \<Rightarrow> create_ticket \<Rightarrow> ticket_result attempt" where
  "jira_CreateTicket client p req =
     then_send (send client (jira_request p ''POST'' ''/rest/api/3/issue'' (json_body (jira_issue req)))) (\<lambda>ans.
       if ha_Status ans \<noteq> 201 then (None, [])
       else expect (map_option (\<lambda>(key, self). \<lparr>tk_ExternalKey = key, tk_ExternalURL = jp_baseURL p @ ''/browse/'' @ key\<rparr>)
              (Option.bind (first_members (ha_Body ans)) (decode_struct [(''key'', string_field apfst), (''self'', string_field apsnd)] ([], [])))))"

definition jira_addComment :: "http_client \<Rightarrow> jira_provider \<Rightarrow> string \<Rightarrow> string \<Rightarrow> unit attempt" where
  "jira_addComment client p issueKey comment =
     then_send (send client (jira_request p ''POST'' (''/rest/api/3/issue/'' @ issueKey @ ''/comment'')
         (json_body (Map_v [(''body'', jiraDescription comment)])))) (\<lambda>ans.
       if ha_Status ans \<noteq> 201 then (None, []) else (Some (), []))"

record jira_transition =
  jt_ID :: string
  jt_To :: string

text \<open>An object in a struct: a null leaves the zero value.\<close>

definition inner_struct :: "(string \<times> 'r field) list \<Rightarrow> 'r field" where
  "inner_struct flds v r = (case v of Map_v m \<Rightarrow> decode_struct flds r m | Nil_v \<Rightarrow> Some r | _ \<Rightarrow> None)"

definition struct_list :: "(string \<times> 's field) list \<Rightarrow> 's \<Rightarrow> (('s list \<Rightarrow> 's list) \<Rightarrow> 'r \<Rightarrow> 'r) \<Rightarrow> 'r field" where
  "struct_list flds zero upd v r =
     (case v of
        List_v xs \<Rightarrow> map_option (\<lambda>ys. upd (\<lambda>_. ys) r) (those (map (\<lambda>x. inner_struct flds x zero) xs))
      | Nil_v \<Rightarrow> Some (upd (\<lambda>_. []) r)
      | _ \<Rightarrow> None)"

definition transition_fields :: "(string \<times> jira_transition field) list" where
  "transition_fields = [(''id'', string_field jt_ID_update), (''to'', inner_struct [(''name'', string_field jt_To_update)])]"

definition jira_findTransition :: "http_client \<Rightarrow> jira_provider \<Rightarrow> string \<Rightarrow> string \<Rightarrow> string attempt" where
  "jira_findTransition client p issueKey targetStatus =
     then_send (send client (jira_request p ''GET'' (''/rest/api/3/issue/'' @ issueKey @ ''/transitions'') [])) (\<lambda>ans.
       expect (map_option (\<lambda>ts. case find (\<lambda>t. EqualFold (jt_To t) targetStatus) ts of Some t \<Rightarrow> jt_ID t | None \<Rightarrow> [])
         (Option.bind (first_members (ha_Body ans))
            (decode_struct [(''transitions'', struct_list transition_fields \<lparr>jt_ID = [], jt_To = []\<rparr> (\<lambda>f. f))] []))))"

definition jira_transitionIssue :: "http_client \<Rightarrow> jira_provider \<Rightarrow> string \<Rightarrow> string \<Rightarrow> unit attempt" where
  "jira_transitionIssue client p issueKey targetStatus =
     then_send (jira_findTransition client p issueKey targetStatus) (\<lambda>transitionID.
       if transitionID = [] then (Some (), [])
       else then_send (send client (jira_request p ''POST'' (''/rest/api/3/issue/'' @ issueKey @ ''/transitions'')
              (json_body (Map_v [(''transition'', str_map [(''id'', transitionID)])])))) (\<lambda>ans.
            if ha_Status ans \<noteq> 204 \<and> ha_Status ans \<noteq> 200 then (None, []) else (Some (), [])))"

definition jira_UpdateTicket :: "http_client \<Rightarrow> jira_provider \<Rightarrow> update_ticket \<Rightarrow> unit attempt" where
  "jira_UpdateTicket client p req =
     then_send (if ut_Comment req \<noteq> [] then jira_addComment client p (ut_ExternalKey req) (ut_Comment req) else (Some (), [])) (\<lambda>_.
       if ut_Status req \<noteq> [] then jira_transitionIssue client p (ut_ExternalKey req) (ut_Status req) else (Some (), []))"

subsection \<open>ServiceNow\<close>

record servicenow_provider =
  np_baseURL :: string
  np_apiToken :: string

definition NewServiceNowProvider :: "string \<Rightarrow> string \<Rightarrow> servicenow_provider" where
  "NewServiceNowProvider baseURL apiToken = \<lparr>np_baseURL = TrimRight baseURL (CHR ''/''), np_apiToken = apiToken\<rparr>"

definition servicenow_request :: "servicenow_provider \<Rightarrow> string \<Rightarrow> string \<Rightarrow> string \<Rightarrow> connector_request" where
  "servicenow_request p verb path body =
     \<lparr>cq_Method = verb, cq_URL = np_baseURL p @ path,
      cq_Headers = [(''Content-Type'', ''application/json''), (''Accept'', ''application/json''), (''Authorization'', ''Bearer '' @ np_apiToken p)],
      cq_Body = body\<rparr>"

definition servicenow_CreateTicket :: "http_client \<Rightarrow> servicenow_provider \<Rightarrow> create_ticket \<Rightarrow> ticket_result attempt" where
  "servicenow_CreateTicket client p req =
     (let tableName = (if ct_IssueType req = [] then ''incident'' else ct_IssueType req);
          payload = [(''short_description'', ct_Summary req), (''description'', ct_Description req), (''priority'', ct_Priority req),
             (''assignment_group'', ct_ProjectKey req), (''category'', ''rbitr-approval'')] @
             (case map_of (ct_Metadata req) ''approval_request_id'' of Some v \<Rightarrow> [(''correlation_id'', v)] | None \<Rightarrow> [])
      in then_send (send client (servicenow_request p ''POST'' (''/api/now/table/'' @ tableName) (json_body (str_map payload)))) (\<lambda>ans.
           if ha_Status ans \<noteq> 201 then (None, [])
           else expect (map_option (\<lambda>(sysID, number). \<lparr>tk_ExternalKey = number,
                    tk_ExternalURL = np_baseURL p @ ''/nav_to.do?uri='' @ tableName @ ''.do?sys_id='' @ sysID\<rparr>)
                  (Option.bind (first_members (ha_Body ans))
                     (decode_struct [(''result'', inner_struct [(''sys_id'', string_field apfst), (''number'', string_field apsnd)])] ([], []))))))"

definition servicenow_lookupSysID :: "http_client \<Rightarrow> servicenow_provider \<Rightarrow> string \<Rightarrow> string attempt" where
  "servicenow_lookupSysID client p number =
     then_send (send client (servicenow_request p ''GET''
         (''/api/now/table/incident?sysparm_query=number='' @ number @ ''&sysparm_fields=sys_id&sysparm_limit=1'') [])) (\<lambda>ans.
       expect (case Option.bind (first_members (ha_Body ans))
                 (decode_struct [(''result'', struct_list [(''sys_id'', string_field id)] [] (\<lambda>f. f))] []) of
                 Some (sysID # _) \<Rightarrow> Some sysID
               | _ \<Rightarrow> None))"

definition mapServiceNowState :: "string \<Rightarrow> string" where
  "mapServiceNowState status =
     (if status = ''RESOLVED'' then ''6'' else if status = ''CLOSED'' then ''7'' else if status = ''IN_PROGRESS'' then ''2'' else ''1'')"

definition servicenow_UpdateTicket :: "http_client \<Rightarrow> servicenow_provider \<Rightarrow> update_ticket \<Rightarrow> unit attempt" where
  "servicenow_UpdateTicket client p req =
     then_send (servicenow_lookupSysID client p (ut_ExternalKey req)) (\<lambda>sysID.
       let payload = (if ut_Status req \<noteq> [] then [(''state'', mapServiceNowState (ut_Status req))] else []) @
             (if ut_Comment req \<noteq> [] then [(''work_notes'', ut_Comment req)] else [])
       in if payload = [] then (Some (), [])
          else then_send (send client (servicenow_request p ''PATCH'' (''/api/now/table/incident/'' @ sysID) (json_body (str_map payload)))) (\<lambda>ans.
                 if ha_Status ans \<noteq> 200 then (None, []) else (Some (), [])))"

subsection \<open>Linear\<close>

definition linearAPIURL :: string where "linearAPIURL = ''https://api.linear.app/graphql''"

text \<open>The query texts, by lines with their indentation in tabs.\<close>

definition query_text :: "(nat \<times> string) list \<Rightarrow> string" where
  "query_text ls = Join [CHR 0x0A] (map (\<lambda>(n, l). replicate n (CHR 0x09) @ l) ls)"

definition issue_create_query :: string where
  "issue_create_query = query_text
     [(0, ''mutation IssueCreate($input: IssueCreateInput!) {''), (2, ''issueCreate(input: $input) {''), (3, ''success''), (3, ''issue {''),
      (4, ''identifier''), (4, ''url''), (3, ''}''), (2, ''}''), (1, ''}'')]"

definition issue_lookup_query :: string where
  "issue_lookup_query = query_text
     [(0, ''query Issue($filter: IssueFilter) {''), (2, ''issues(filter: $filter, first: 1) {''), (3, ''nodes { id }''), (2, ''}''), (1, ''}'')]"

definition comment_create_query :: string where
  "comment_create_query = query_text
     [(0, ''mutation CommentCreate($input: CommentCreateInput!) {''), (2, ''commentCreate(input: $input) { success }''), (1, ''}'')]"

definition issue_update_query :: string where
  "issue_update_query = query_text
     [(0, ''mutation IssueUpdate($id: String!, $input: IssueUpdateInput!) {''), (2, ''issueUpdate(id: $id, input: $input) { success }''), (1, ''}'')]"

definition issue_states_query :: string where
  "issue_states_query = query_text
     [(0, ''query Issue($id: String!) {''), (2, ''issue(id: $id) {''), (3, ''team {''), (4, ''states { nodes { id name } }''), (3, ''}''),
      (2, ''}''), (1, ''}'')]"

text \<open>A second object for the same map adds to the first.\<close>

definition map_field :: "((gomap \<Rightarrow> gomap) \<Rightarrow> 'r \<Rightarrow> 'r) \<Rightarrow> 'r field" where
  "map_field upd v r = (case v of Map_v m \<Rightarrow> Some (upd (\<lambda>old. m @ filter (\<lambda>(k, _). k \<notin> fst ` set m) old) r) | Nil_v \<Rightarrow> Some (upd (\<lambda>_. []) r) | _ \<Rightarrow> None)"

definition errors_field :: "(gomap \<times> nat) field" where
  "errors_field v r =
     (case v of
        List_v xs \<Rightarrow> if list_all (\<lambda>x. x = Nil_v \<or> as_map x \<noteq> None) xs then Some (fst r, length xs) else None
      | Nil_v \<Rightarrow> Some (fst r, 0)
      | _ \<Rightarrow> None)"

definition graphql :: "http_client \<Rightarrow> string \<Rightarrow> string \<Rightarrow> gomap \<Rightarrow> gomap attempt" where
  "graphql client apiToken query variables =
     then_send (send client \<lparr>cq_Method = ''POST'', cq_URL = linearAPIURL,
         cq_Headers = [(''Content-Type'', ''application/json''), (''Authorization'', apiToken)],
         cq_Body = json_body (Map_v [(''query'', Str_v query), (''variables'', Map_v variables)])\<rparr>) (\<lambda>ans.
       if ha_Status ans \<noteq> 200 then (None, [])
       else expect (case Option.bind (first_members (ha_Body ans))
                      (decode_struct [(''data'', map_field apfst), (''errors'', errors_field)] ([], 0)) of
                      Some (data, n) \<Rightarrow> if n > 0 then None else Some data
                    | None \<Rightarrow> None))"

definition linearPriorityNumber :: "string \<Rightarrow> int" where
  "linearPriorityNumber priority =
     (if priority = ''Urgent'' then 1 else if priority = ''High'' then 2 else if priority = ''Medium'' then 3
      else if priority = ''Low'' then 4 else 0)"

text \<open>A failed type assertion gives the zero value: an empty map, list or string.\<close>

definition map_or_nil :: "any \<Rightarrow> gomap" where "map_or_nil v = (case as_map v of Some m \<Rightarrow> m | None \<Rightarrow> [])"
definition list_or_nil :: "any \<Rightarrow> any list" where "list_or_nil v = (case as_list v of Some xs \<Rightarrow> xs | None \<Rightarrow> [])"
definition string_or_nil :: "any \<Rightarrow> string" where "string_or_nil v = (case as_string v of Some s \<Rightarrow> s | None \<Rightarrow> [])"

definition linear_CreateTicket :: "http_client \<Rightarrow> string \<Rightarrow> create_ticket \<Rightarrow> ticket_result attempt" where
  "linear_CreateTicket client apiToken req =
     then_send (graphql client apiToken issue_create_query
         [(''input'', Map_v ([(''teamId'', Str_v (ct_ProjectKey req)), (''title'', Str_v (ct_Summary req)),
            (''description'', Str_v (ct_Description req)), (''priority'', Int_v (linearPriorityNumber (ct_Priority req)))] @
           (if ct_Labels req \<noteq> [] then [(''labelIds'', List_v (map Str_v (ct_Labels req)))] else [])))]) (\<lambda>data.
       expect (case as_map (index_map data ''issueCreate'') of
                 None \<Rightarrow> None
               | Some created \<Rightarrow>
                   (case as_map (index_map created ''issue'') of
                      None \<Rightarrow> None
                    | Some issue \<Rightarrow> Some \<lparr>tk_ExternalKey = string_or_nil (index_map issue ''identifier''),
                                         tk_ExternalURL = string_or_nil (index_map issue ''url'')\<rparr>)))"

definition linear_lookupIssueID :: "http_client \<Rightarrow> string \<Rightarrow> string \<Rightarrow> string attempt" where
  "linear_lookupIssueID client apiToken identifier =
     (case Cut identifier (CHR ''-'') of
        None \<Rightarrow> (None, [])
      | Some (team, number) \<Rightarrow>
          then_send (graphql client apiToken issue_lookup_query
              [(''filter'', Map_v [(''number'', Map_v [(''eq'', Str_v number)]),
                 (''team'', Map_v [(''key'', Map_v [(''eq'', Str_v team)])])])]) (\<lambda>data.
            expect (case as_map (index_map data ''issues'') of
                      None \<Rightarrow> None
                    | Some issues \<Rightarrow>
                        (case as_list (index_map issues ''nodes'') of
                           Some (node # _) \<Rightarrow> Some (string_or_nil (index_map (map_or_nil node) ''id''))
                         | _ \<Rightarrow> None))))"

definition linear_addComment :: "http_client \<Rightarrow> string \<Rightarrow> string \<Rightarrow> string \<Rightarrow> unit attempt" where
  "linear_addComment client apiToken issueID body =
     then_send (graphql client apiToken comment_create_query [(''input'', Map_v [(''issueId'', Str_v issueID), (''body'', Str_v body)])])
       (\<lambda>_. (Some (), []))"

definition linear_findStateID :: "http_client \<Rightarrow> string \<Rightarrow> string \<Rightarrow> string \<Rightarrow> string attempt" where
  "linear_findStateID client apiToken issueID targetStatus =
     then_send (graphql client apiToken issue_states_query [(''id'', Str_v issueID)]) (\<lambda>data.
       let team = map_or_nil (index_map (map_or_nil (index_map data ''issue'')) ''team'');
           nodes = list_or_nil (index_map (map_or_nil (index_map team ''states'')) ''nodes'')
       in expect (Some (case find (\<lambda>n. EqualFold (string_or_nil (index_map (map_or_nil n) ''name'')) targetStatus) nodes of
                          Some n \<Rightarrow> string_or_nil (index_map (map_or_nil n) ''id'')
                        | None \<Rightarrow> [])))"

definition linear_updateState :: "http_client \<Rightarrow> string \<Rightarrow> string \<Rightarrow> string \<Rightarrow> unit attempt" where
  "linear_updateState client apiToken issueID status =
     then_send (linear_findStateID client apiToken issueID status) (\<lambda>stateID.
       if stateID = [] then (Some (), [])
       else then_send (graphql client apiToken issue_update_query
              [(''id'', Str_v issueID), (''input'', Map_v [(''stateId'', Str_v stateID)])]) (\<lambda>_. (Some (), [])))"

definition linear_UpdateTicket :: "http_client \<Rightarrow> string \<Rightarrow> update_ticket \<Rightarrow> unit attempt" where
  "linear_UpdateTicket client apiToken req =
     then_send (linear_lookupIssueID client apiToken (ut_ExternalKey req)) (\<lambda>issueID.
     then_send (if ut_Comment req \<noteq> [] then linear_addComment client apiToken issueID (ut_Comment req) else (Some (), [])) (\<lambda>_.
       if ut_Status req \<noteq> [] then linear_updateState client apiToken issueID (ut_Status req) else (Some (), [])))"

subsection \<open>The provider interface\<close>

datatype ticket_provider = Jira jira_provider | ServiceNow servicenow_provider | Linear string

fun CreateTicket :: "http_client \<Rightarrow> ticket_provider \<Rightarrow> create_ticket \<Rightarrow> ticket_result attempt" where
  "CreateTicket client (Jira p) req = jira_CreateTicket client p req"
| "CreateTicket client (ServiceNow p) req = servicenow_CreateTicket client p req"
| "CreateTicket client (Linear token) req = linear_CreateTicket client token req"

fun UpdateTicket :: "http_client \<Rightarrow> ticket_provider \<Rightarrow> update_ticket \<Rightarrow> unit attempt" where
  "UpdateTicket client (Jira p) req = jira_UpdateTicket client p req"
| "UpdateTicket client (ServiceNow p) req = servicenow_UpdateTicket client p req"
| "UpdateTicket client (Linear token) req = linear_UpdateTicket client token req"

definition parseJiraAuth :: "string \<Rightarrow> string" where
  "parseJiraAuth token = (case Cut token (CHR '':'') of Some (email, _) \<Rightarrow> email | None \<Rightarrow> [])"

definition build_provider :: "string \<Rightarrow> string \<Rightarrow> string \<Rightarrow> ticket_provider option" where
  "build_provider provider baseURL apiToken =
     (if provider = ''jira'' then Some (Jira (NewJiraProvider baseURL apiToken (parseJiraAuth apiToken)))
      else if provider = ''servicenow'' then Some (ServiceNow (NewServiceNowProvider baseURL apiToken))
      else if provider = ''linear'' then Some (Linear apiToken)
      else None)"

text \<open>A Jira secret of the form \<open>email:token\<close> is split for the user name only: the password of the
  basic authentication is the whole secret again.\<close>

lemma jira_password_is_whole_secret:
  "jira_setHeaders (NewJiraProvider base ''ops@x.io:tok'' (parseJiraAuth ''ops@x.io:tok'')) =
     [(''Content-Type'', ''application/json''), (''Authorization'', ''Basic '' @ StdEncode ''ops@x.io:ops@x.io:tok'')]"
  by (simp add: jira_setHeaders_def NewJiraProvider_def parseJiraAuth_def)

end
