(* ===== verification/Ticketing.thy ===== *)
theory Ticketing
  imports Ticket_Providers Admin_Limits
begin

text \<open>
  Ticketing: the service that opens and updates tickets for approvals
  (\<open>src/internal/ticketing/service.go\<close>), the tables behind it (\<open>store_ticketing.go\<close>), the mapping
  of ticket states (\<open>webhook_mapping.go\<close>) and the handlers (\<open>src/internal/api/admin/ticketing.go\<close>),
  among them the webhook through which a ticketing system decides approvals. The secret resolver is a
  parameter: \<open>None\<close> when a reference cannot be resolved. The theorems show what a webhook can change and
  that the decision of a ticket reaches the approval it was opened for, and that a webhook without a
  signature header is obeyed.
\<close>

subsection \<open>Tables\<close>

record ticketing_config =
  tf_TenantID :: string
  tf_Provider :: string
  tf_Enabled :: bool
  tf_BaseURL :: string
  tf_SecretRef :: string
  tf_ProjectKey :: string
  tf_IssueType :: string
  tf_AutoCreate :: bool
  tf_WebhookSecretRef :: string
  tf_CreatedAt :: time
  tf_UpdatedAt :: time

record ticket_link =
  lk_TicketLinkID :: string
  lk_TenantID :: string
  lk_ApprovalRequestID :: string
  lk_Provider :: string
  lk_ExternalKey :: string
  lk_ExternalURL :: string
  lk_Status :: string
  lk_CreatedAt :: time
  lk_UpdatedAt :: time

record ticket_db =
  tb_configs :: "ticketing_config list"
  tb_links :: "ticket_link list"

definition zero_ticketing :: ticketing_config where
  "zero_ticketing = \<lparr>tf_TenantID = [], tf_Provider = [], tf_Enabled = False, tf_BaseURL = [], tf_SecretRef = [], tf_ProjectKey = [],
     tf_IssueType = [], tf_AutoCreate = False, tf_WebhookSecretRef = [], tf_CreatedAt = zero_time, tf_UpdatedAt = zero_time\<rparr>"

definition GetTicketingConfig :: "store_error option \<Rightarrow> string \<Rightarrow> ticket_db \<Rightarrow> store_error + ticketing_config" where
  "GetTicketingConfig flt tenantID db =
     (case flt of Some e \<Rightarrow> Inl e | None \<Rightarrow> or_not_found (find (\<lambda>c. tf_TenantID c = tenantID) (tb_configs db)))"

definition UpsertTicketingConfig :: "store_error option \<Rightarrow> time \<Rightarrow> ticketing_config \<Rightarrow> ticket_db \<Rightarrow> (store_error + unit) \<times> ticket_db" where
  "UpsertTicketingConfig flt now config db =
     (case flt of
        Some e \<Rightarrow> (Inl e, db)
      | None \<Rightarrow>
          (Inr (), db\<lparr>tb_configs :=
             if affected (\<lambda>c. tf_TenantID c = tf_TenantID config) (tb_configs db)
             then update_rows (\<lambda>c. tf_TenantID c = tf_TenantID config)
                    (\<lambda>c. config\<lparr>tf_CreatedAt := tf_CreatedAt c, tf_UpdatedAt := now\<rparr>) (tb_configs db)
             else tb_configs db @ [config\<lparr>tf_CreatedAt := now, tf_UpdatedAt := now\<rparr>]\<rparr>))"

text \<open>The primary key and the unique key of the table of links.\<close>

definition link_clash :: "ticket_link \<Rightarrow> ticket_link \<Rightarrow> bool" where
  "link_clash l k =
     (lk_TicketLinkID k = lk_TicketLinkID l \<or>
      lk_TenantID k = lk_TenantID l \<and> lk_ApprovalRequestID k = lk_ApprovalRequestID l \<and> lk_Provider k = lk_Provider l)"

definition InsertTicketLink :: "store_error option \<Rightarrow> ticket_link \<Rightarrow> ticket_db \<Rightarrow> (store_error + unit) \<times> ticket_db" where
  "InsertTicketLink flt link db =
     (case flt of
        Some e \<Rightarrow> (Inl e, db)
      | None \<Rightarrow> if list_ex (link_clash link) (tb_links db) then (Inl ErrDB, db)
                else (Inr (), db\<lparr>tb_links := tb_links db @ [link]\<rparr>))"

text \<open>A query without an order: the list stands for the order in which the database answers.\<close>

definition GetTicketLinkByApproval :: "store_error option \<Rightarrow> string \<Rightarrow> string \<Rightarrow> ticket_db \<Rightarrow> store_error + ticket_link" where
  "GetTicketLinkByApproval flt tenantID approvalRequestID db =
     (case flt of
        Some e \<Rightarrow> Inl e
      | None \<Rightarrow> or_not_found (find (\<lambda>l. lk_TenantID l = tenantID \<and> lk_ApprovalRequestID l = approvalRequestID) (tb_links db)))"

definition GetTicketLinkByExternalKey :: "store_error option \<Rightarrow> string \<Rightarrow> string \<Rightarrow> ticket_db \<Rightarrow> store_error + ticket_link" where
  "GetTicketLinkByExternalKey flt provider externalKey db =
     (case flt of
        Some e \<Rightarrow> Inl e
      | None \<Rightarrow> or_not_found (find (\<lambda>l. lk_Provider l = provider \<and> lk_ExternalKey l = externalKey) (tb_links db)))"

definition ListTicketLinks :: "string \<Rightarrow> int \<Rightarrow> int \<Rightarrow> ticket_db \<Rightarrow> ticket_link list" where
  "ListTicketLinks tenantID limit offset db =
     take (nat (if limit \<le> 0 then 50 else limit)) (drop (nat offset)
       (SliceStable (\<lambda>a b. lk_CreatedAt b < lk_CreatedAt a) (filter (\<lambda>l. lk_TenantID l = tenantID) (tb_links db))))"

definition UpdateTicketLinkStatus :: "store_error option \<Rightarrow> time \<Rightarrow> string \<Rightarrow> string \<Rightarrow> ticket_db \<Rightarrow> (store_error + unit) \<times> ticket_db" where
  "UpdateTicketLinkStatus flt now ticketLinkID status db =
     (case flt of
        Some e \<Rightarrow> (Inl e, db)
      | None \<Rightarrow>
          if \<not> affected (\<lambda>l. lk_TicketLinkID l = ticketLinkID) (tb_links db) then (Inl ErrNotFound, db)
          else (Inr (), db\<lparr>tb_links := update_rows (\<lambda>l. lk_TicketLinkID l = ticketLinkID)
                 (\<lambda>l. l\<lparr>lk_Status := status, lk_UpdatedAt := now\<rparr>) (tb_links db)\<rparr>))"

subsection \<open>The service\<close>

definition expiry_text :: "time \<Rightarrow> string" where
  "expiry_text t = FormatRFC3339Nano (t div second_ns * second_ns)"

definition line :: "string \<Rightarrow> string \<Rightarrow> string" where "line label v = label @ '': '' @ v @ [CHR 0x0A]"

definition buildDescription :: "approval_request \<Rightarrow> string" where
  "buildDescription a =
     line ''Approval Request'' (ap_ApprovalRequestID a) @ line ''Tenant'' (ap_TenantID a) @ line ''Agent'' (ap_AgentID a) @
     line ''Tool'' (ap_ToolID a) @ line ''Action'' (ap_ActionType a) @ line ''Risk'' (ap_Risk a) @
     (if ap_ActionSummary a \<noteq> [] then line ''Summary'' (ap_ActionSummary a) else []) @ line ''Expires'' (expiry_text (ap_ExpiresAt a))"

definition mapApprovalToTicketStatus :: "string \<Rightarrow> string" where
  "mapApprovalToTicketStatus status =
     (let s = ToLower status in
      if s = ''approved'' then ''RESOLVED'' else if s = ''denied'' \<or> s = ''revoked'' then ''CLOSED''
      else if s = ''expired'' then ''CLOSED'' else ''IN_PROGRESS'')"

record ticket_env =
  te_client :: http_client
  te_resolve :: "string \<Rightarrow> string option"
  te_config :: "store_error option"
  te_link :: "store_error option"
  te_write :: "store_error option"
  te_uuid :: string
  te_now :: time

definition buildProvider :: "ticket_env \<Rightarrow> ticketing_config \<Rightarrow> ticket_provider option" where
  "buildProvider env cfg =
     (case te_resolve env (tf_SecretRef cfg) of
        None \<Rightarrow> None
      | Some apiToken \<Rightarrow> build_provider (tf_Provider cfg) (tf_BaseURL cfg) apiToken)"

definition ticket_for :: "ticketing_config \<Rightarrow> string \<Rightarrow> approval_request \<Rightarrow> create_ticket" where
  "ticket_for cfg tenantID a =
     \<lparr>ct_ProjectKey = tf_ProjectKey cfg, ct_IssueType = tf_IssueType cfg,
      ct_Summary = ''[rbitr] Approval required: '' @ ap_ActionType a @ '' ('' @ ap_ApprovalRequestID a @ '')'',
      ct_Description = buildDescription a, ct_Priority = MapPriority (tf_Provider cfg) (ap_Risk a), ct_Labels = [''rbitr'', ''approval''],
      ct_Metadata = [(''approval_request_id'', ap_ApprovalRequestID a), (''tenant_id'', tenantID)]\<rparr>"

definition OnApprovalCreated :: "ticket_env \<Rightarrow> string \<Rightarrow> approval_request \<Rightarrow> ticket_db \<Rightarrow> ticket_db \<times> connector_request list" where
  "OnApprovalCreated env tenantID a db =
     (case GetTicketingConfig (te_config env) tenantID db of
        Inl _ \<Rightarrow> (db, [])
      | Inr cfg \<Rightarrow>
          if \<not> tf_Enabled cfg \<or> \<not> tf_AutoCreate cfg then (db, [])
          else (case buildProvider env cfg of
                  None \<Rightarrow> (db, [])
                | Some provider \<Rightarrow>
                    (case CreateTicket (te_client env) provider (ticket_for cfg tenantID a) of
                       (None, sent) \<Rightarrow> (db, sent)
                     | (Some r, sent) \<Rightarrow>
                         (snd (InsertTicketLink (te_write env)
                            \<lparr>lk_TicketLinkID = ''tl_'' @ te_uuid env, lk_TenantID = tenantID, lk_ApprovalRequestID = ap_ApprovalRequestID a,
                             lk_Provider = tf_Provider cfg, lk_ExternalKey = tk_ExternalKey r, lk_ExternalURL = tk_ExternalURL r,
                             lk_Status = ''OPEN'', lk_CreatedAt = te_now env, lk_UpdatedAt = te_now env\<rparr> db), sent))))"

definition updateTicket :: "ticket_env \<Rightarrow> string \<Rightarrow> string \<Rightarrow> string \<Rightarrow> string \<Rightarrow> ticket_db \<Rightarrow> ticket_db \<times> connector_request list" where
  "updateTicket env tenantID approvalID status comment db =
     (case GetTicketLinkByApproval (te_link env) tenantID approvalID db of
        Inl _ \<Rightarrow> (db, [])
      | Inr link \<Rightarrow>
          (case GetTicketingConfig (te_config env) tenantID db of
             Inl _ \<Rightarrow> (db, [])
           | Inr cfg \<Rightarrow>
               if \<not> tf_Enabled cfg then (db, [])
               else (case buildProvider env cfg of
                       None \<Rightarrow> (db, [])
                     | Some provider \<Rightarrow>
                         (let ticketStatus = mapApprovalToTicketStatus status in
                          case UpdateTicket (te_client env) provider
                                 \<lparr>ut_ExternalKey = lk_ExternalKey link, ut_Status = ticketStatus, ut_Comment = comment\<rparr> of
                            (None, sent) \<Rightarrow> (db, sent)
                          | (Some _, sent) \<Rightarrow>
                              (snd (UpdateTicketLinkStatus (te_write env) (te_now env) (lk_TicketLinkID link) ticketStatus db), sent)))))"

definition OnApprovalDecided :: "ticket_env \<Rightarrow> string \<Rightarrow> string \<Rightarrow> string \<Rightarrow> string \<Rightarrow> string \<Rightarrow> ticket_db \<Rightarrow> ticket_db \<times> connector_request list" where
  "OnApprovalDecided env tenantID approvalID status decidedBy comment db =
     updateTicket env tenantID approvalID status (''Decision: '' @ status @ '' by '' @ decidedBy @ ''. '' @ comment) db"

definition OnApprovalExpired :: "ticket_env \<Rightarrow> string \<Rightarrow> string \<Rightarrow> ticket_db \<Rightarrow> ticket_db \<times> connector_request list" where
  "OnApprovalExpired env tenantID approvalID db = updateTicket env tenantID approvalID ''expired'' ''Approval expired in rbitr.'' db"

subsection \<open>Webhooks\<close>

datatype approval_action = ActionApprove | ActionDeny | ActionNone

definition mapJiraStatus :: "string \<Rightarrow> approval_action" where
  "mapJiraStatus s =
     (if s \<in> {''Done'', ''Closed'', ''Resolved''} then ActionApprove
      else if s = ''Rejected'' \<or> s = ''Won'' @ [CHR 0x27] @ ''t Do'' \<or> s = ''Declined'' then ActionDeny else ActionNone)"

definition mapServiceNowStatus :: "string \<Rightarrow> approval_action" where
  "mapServiceNowStatus s =
     (if s \<in> {''resolved'', ''closed''} then ActionApprove else if s \<in> {''canceled'', ''rejected''} then ActionDeny else ActionNone)"

definition mapLinearStatus :: "string \<Rightarrow> approval_action" where
  "mapLinearStatus s =
     (if s \<in> {''Done'', ''Completed''} then ActionApprove else if s \<in> {''Canceled'', ''Cancelled''} then ActionDeny else ActionNone)"

definition MapWebhookStatus :: "string \<Rightarrow> string \<Rightarrow> approval_action" where
  "MapWebhookStatus provider status =
     (if provider = ''jira'' then mapJiraStatus status else if provider = ''servicenow'' then mapServiceNowStatus status
      else if provider = ''linear'' then mapLinearStatus status else ActionNone)"

definition webhook_members :: "(string \<times> (string \<times> string) field) list \<Rightarrow> string \<Rightarrow> string \<times> string" where
  "webhook_members flds body =
     (case Option.bind (decode_members body) (decode_struct flds ([], [])) of Some p \<Rightarrow> p | None \<Rightarrow> ([], []))"

definition parseJiraWebhook :: "string \<Rightarrow> string \<times> string" where
  "parseJiraWebhook body = webhook_members
     [(''issue'', inner_struct [(''key'', string_field apfst),
        (''fields'', inner_struct [(''status'', inner_struct [(''name'', string_field apsnd)])])])] body"

definition parseServiceNowWebhook :: "string \<Rightarrow> string \<times> string" where
  "parseServiceNowWebhook body =
     (case webhook_members [(''number'', string_field apfst), (''state'', string_field apsnd)] body of (number, state) \<Rightarrow>
        (number, if state = ''6'' then ''resolved'' else if state = ''7'' then ''closed'' else if state = ''8'' then ''canceled'' else state))"

definition parseLinearWebhook :: "string \<Rightarrow> string \<times> string" where
  "parseLinearWebhook body = webhook_members
     [(''data'', inner_struct [(''identifier'', string_field apfst), (''state'', inner_struct [(''name'', string_field apsnd)])])] body"

definition parseWebhookPayload :: "string \<Rightarrow> string \<Rightarrow> string \<times> string" where
  "parseWebhookPayload provider body =
     (if provider = ''jira'' then parseJiraWebhook body else if provider = ''servicenow'' then parseServiceNowWebhook body
      else if provider = ''linear'' then parseLinearWebhook body else ([], []))"

definition signature_of :: "http_header \<Rightarrow> string" where
  "signature_of h = (if h ''X-Hub-Signature-256'' \<noteq> [] then h ''X-Hub-Signature-256'' else h ''X-Linear-Signature'')"

definition verifyWebhookSignature :: "crypto \<Rightarrow> http_header \<Rightarrow> string \<Rightarrow> string \<Rightarrow> bool" where
  "verifyWebhookSignature cy h body secret =
     (if signature_of h = [] then True else signature_of h = ''sha256='' @ cy_hmachex cy body secret)"

record webhook_env =
  we_service :: bool
  we_provider :: string
  we_header :: http_header
  we_body :: "string option"
  we_resolver :: "(string \<Rightarrow> string option) option"
  we_crypto :: crypto
  we_now :: time
  we_link :: "store_error option"
  we_config :: "store_error option"
  we_decide :: "store_error option"
  we_update :: "store_error option"

text \<open>The reply of the read route shows of the two secrets only whether they are configured.\<close>

record ticketing_view =
  tv_TenantID :: string
  tv_Provider :: string
  tv_Enabled :: bool
  tv_BaseURL :: string
  tv_SecretConfigured :: bool
  tv_ProjectKey :: string
  tv_IssueType :: string
  tv_AutoCreate :: bool
  tv_WebhookConfigured :: bool
  tv_CreatedAt :: time
  tv_UpdatedAt :: time

definition ticketing_response :: "ticketing_config \<Rightarrow> ticketing_view" where
  "ticketing_response cfg =
     \<lparr>tv_TenantID = tf_TenantID cfg, tv_Provider = tf_Provider cfg, tv_Enabled = tf_Enabled cfg, tv_BaseURL = tf_BaseURL cfg,
      tv_SecretConfigured = (tf_SecretRef cfg \<noteq> []), tv_ProjectKey = tf_ProjectKey cfg, tv_IssueType = tf_IssueType cfg,
      tv_AutoCreate = tf_AutoCreate cfg, tv_WebhookConfigured = (tf_WebhookSecretRef cfg \<noteq> []),
      tv_CreatedAt = tf_CreatedAt cfg, tv_UpdatedAt = tf_UpdatedAt cfg\<rparr>"

datatype ticket_reply =
    Tk_error int string
  | Tk_empty int
  | Tk_status string
  | Tk_processed string string
  | Tk_config ticketing_view

definition webhookMaxBytes :: nat where "webhookMaxBytes = 65536"

definition signature_failure :: "webhook_env \<Rightarrow> string \<Rightarrow> string \<Rightarrow> ticket_db \<Rightarrow> ticket_reply option" where
  "signature_failure env tenantID body db =
     (case GetTicketingConfig (we_config env) tenantID db of
        Inl _ \<Rightarrow> None
      | Inr cfg \<Rightarrow>
          (case we_resolver env of
             None \<Rightarrow> None
           | Some resolve \<Rightarrow>
               if tf_WebhookSecretRef cfg = [] then None
               else (case resolve (tf_WebhookSecretRef cfg) of
                       None \<Rightarrow> Some (Tk_error 500 ''failed to resolve webhook secret'')
                     | Some secret \<Rightarrow>
                         if \<not> verifyWebhookSignature (we_crypto env) (we_header env) body secret
                         then Some (Tk_error 401 ''invalid webhook signature'') else None)))"

definition decide_by_webhook :: "webhook_env \<Rightarrow> approval_action \<Rightarrow> ticket_link \<Rightarrow> string \<Rightarrow> store_db \<Rightarrow> (store_error + unit) \<times> store_db" where
  "decide_by_webhook env action link externalKey db =
     (let provider = we_provider env; who = ''webhook:'' @ provider; via = '' via '' @ provider @ '' ticket '' @ externalKey
      in with_fault (we_decide env)
           (if action = ActionApprove
            then ApproveApprovalRequest (lk_TenantID link) (lk_ApprovalRequestID link) who (''Approved'' @ via) (we_now env)
            else DenyApprovalRequest (lk_TenantID link) (lk_ApprovalRequestID link) who (''Denied'' @ via) (we_now env)) db)"

definition handleTicketingWebhook :: "webhook_env \<Rightarrow> ticket_db \<Rightarrow> store_db \<Rightarrow> ticket_reply \<times> ticket_db \<times> store_db" where
  "handleTicketingWebhook env db sdb =
     (let provider = we_provider env in
      if \<not> we_service env then (Tk_error 503 ''ticketing service not available'', db, sdb)
      else if provider \<notin> {''jira'', ''servicenow'', ''linear''} then (Tk_error 400 ''unsupported provider'', db, sdb)
      else (case we_body env of None \<Rightarrow> (Tk_error 400 ''failed to read body'', db, sdb) | Some sent \<Rightarrow>
      (let body = take webhookMaxBytes sent in
      case parseWebhookPayload provider body of (externalKey, status) \<Rightarrow>
        if externalKey = [] then (Tk_error 400 ''could not extract ticket key from payload'', db, sdb)
        else (let action = MapWebhookStatus provider status in
          if action = ActionNone then (Tk_status ''ignored'', db, sdb)
          else (case GetTicketLinkByExternalKey (we_link env) provider externalKey db of
            Inl e \<Rightarrow> (if e = ErrNotFound then Tk_error 404 ''ticket link not found'' else Tk_error 500 ''failed to lookup ticket link'', db, sdb)
          | Inr link \<Rightarrow>
              (case signature_failure env (lk_TenantID link) body db of
                 Some reply \<Rightarrow> (reply, db, sdb)
               | None \<Rightarrow>
                   (case decide_by_webhook env action link externalKey sdb of
                      (Inl e, sdb1) \<Rightarrow>
                        (if e = ErrNotFound \<or> e = ErrInvalidState then Tk_error 409 ''approval not actionable''
                         else Tk_error 500 ''failed to update approval'', db, sdb1)
                    | (Inr _, sdb1) \<Rightarrow>
                        (Tk_processed (lk_ApprovalRequestID link) (if action = ActionApprove then ''approve'' else ''deny''),
                         snd (UpdateTicketLinkStatus (we_update env) (we_now env) (lk_TicketLinkID link)
                                (if action = ActionDeny then ''CLOSED'' else ''RESOLVED'') db), sdb1))))))))"


subsection \<open>Configuration\<close>

type_synonym ticket_state = "ticket_db \<times> admin_state"

definition ticket_gated ::
  "string \<Rightarrow> (admin_key \<Rightarrow> ticket_state \<Rightarrow> ticket_reply \<times> ticket_state) \<Rightarrow> admin_env \<Rightarrow> ticket_state \<Rightarrow> ticket_reply \<times> ticket_state" where
  "ticket_gated scope handler env s =
     (case requireAdminScope env scope (snd s) of
        (Inl e, st1) \<Rightarrow> (case admin_authError e of Adm_error code msg \<Rightarrow> Tk_error code msg | _ \<Rightarrow> Tk_error 500 ''auth error'', fst s, st1)
      | (Inr key, st1) \<Rightarrow> handler key (fst s, st1))"

definition ticket_finish ::
  "admin_env \<Rightarrow> admin_key \<Rightarrow> string \<Rightarrow> gomap \<Rightarrow> gomap \<Rightarrow> string \<Rightarrow> ticket_state \<Rightarrow> ticket_reply \<times> ticket_state" where
  "ticket_finish env key action before after failure s =
     (case audit_event env key (an_tenantID env) action ''TENANT.TICKETING'' (an_tenantID env) (Some before) (Some after) (snd s) of
        (Inl _, st1) \<Rightarrow> (Tk_error 500 failure, fst s, st1)
      | (Inr _, st1) \<Rightarrow> (Tk_empty 204, fst s, st1))"

definition handleTicketingConfigGet :: "admin_env \<Rightarrow> ticket_state \<Rightarrow> ticket_reply \<times> ticket_state" where
  "handleTicketingConfigGet env = ticket_gated ''admin:ticketing:read'' (\<lambda>key s.
     (case GetTicketingConfig (an_read env ''GetTicketingConfig'' 0) (an_tenantID env) (fst s) of
        Inl e \<Rightarrow> if e = ErrNotFound then Tk_config (ticketing_response (zero_ticketing\<lparr>tf_TenantID := an_tenantID env\<rparr>))
                 else Tk_error 500 ''failed to load ticketing config''
      | Inr cfg \<Rightarrow> Tk_config (ticketing_response cfg), s)) env"

definition ticketing_fields :: "(string \<times> ticketing_config raw_field) list" where
  "ticketing_fields =
     [(''provider'', raw_string_field tf_Provider_update), (''enabled'', raw_bool_field tf_Enabled_update),
      (''base_url'', raw_string_field tf_BaseURL_update), (''project_key'', raw_string_field tf_ProjectKey_update),
      (''issue_type'', raw_string_field tf_IssueType_update), (''auto_create'', raw_bool_field tf_AutoCreate_update)]"

definition ticketing_before :: "admin_env \<Rightarrow> ticket_db \<Rightarrow> ticketing_config" where
  "ticketing_before env db =
     (case GetTicketingConfig (an_read env ''GetTicketingConfig'' 0) (an_tenantID env) db of Inl _ \<Rightarrow> zero_ticketing | Inr cfg \<Rightarrow> cfg)"

definition ticketing_audit :: "ticketing_config \<Rightarrow> gomap" where
  "ticketing_audit cfg =
     [(''provider'', Str_v (tf_Provider cfg)), (''enabled'', Bool_v (tf_Enabled cfg)), (''auto_create'', Bool_v (tf_AutoCreate cfg))]"

definition handleTicketingConfigUpdate :: "admin_env \<Rightarrow> ticket_state \<Rightarrow> ticket_reply \<times> ticket_state" where
  "handleTicketingConfigUpdate env = ticket_gated ''admin:ticketing:write'' (\<lambda>key s.
     case decode_body ticketing_fields zero_ticketing (an_body env) of
       None \<Rightarrow> (Tk_error 400 ''invalid request body'', s)
     | Some payload \<Rightarrow>
         if tf_Provider payload \<notin> {[], ''jira'', ''servicenow'', ''linear''}
         then (Tk_error 400 ''provider must be jira, servicenow, or linear'', s)
         else (let before = ticketing_before env (fst s);
                   cfg = payload\<lparr>tf_TenantID := an_tenantID env, tf_SecretRef := tf_SecretRef before,
                                 tf_WebhookSecretRef := tf_WebhookSecretRef before\<rparr>
               in case UpsertTicketingConfig (an_write env ''TENANT.TICKETING.CONFIG.UPDATE'' 0) (an_now env) cfg (fst s) of
                    (Inl _, db) \<Rightarrow> (Tk_error 500 ''failed to update ticketing config'', db, snd s)
                  | (Inr _, db) \<Rightarrow> ticket_finish env key ''TENANT.TICKETING.CONFIG.UPDATE'' (ticketing_audit before) (ticketing_audit cfg)
                                     ''failed to audit ticketing config update'' (db, snd s))) env"

definition isValidSecretRef :: "string \<Rightarrow> bool" where
  "isValidSecretRef ref = (HasPrefix ref ''env://'' \<or> HasPrefix ref ''file://'')"

definition secret_ref_set ::
  "string \<Rightarrow> (ticketing_config \<Rightarrow> string) \<Rightarrow> ((string \<Rightarrow> string) \<Rightarrow> ticketing_config \<Rightarrow> ticketing_config) \<Rightarrow> string \<Rightarrow> string
   \<Rightarrow> admin_env \<Rightarrow> ticket_state \<Rightarrow> ticket_reply \<times> ticket_state" where
  "secret_ref_set action get upd failure audit_failure env = ticket_gated ''admin:ticketing:write'' (\<lambda>key s.
     case decode_body [(''secret_ref'', raw_string_field id)] [] (an_body env) of
       None \<Rightarrow> (Tk_error 400 ''invalid request body'', s)
     | Some ref \<Rightarrow>
         if \<not> isValidSecretRef ref then (Tk_error 400 ''invalid secret_ref'', s)
         else (let before = ticketing_before env (fst s); cfg = upd (\<lambda>_. ref) (before\<lparr>tf_TenantID := an_tenantID env\<rparr>)
               in case UpsertTicketingConfig (an_write env action 0) (an_now env) cfg (fst s) of
                    (Inl _, db) \<Rightarrow> (Tk_error 500 failure, db, snd s)
                  | (Inr _, db) \<Rightarrow> ticket_finish env key action [(''configured'', Bool_v (get before \<noteq> []))] [(''configured'', Bool_v True)]
                                     audit_failure (db, snd s))) env"

definition handleTicketingSecretRefSet :: "admin_env \<Rightarrow> ticket_state \<Rightarrow> ticket_reply \<times> ticket_state" where
  "handleTicketingSecretRefSet = secret_ref_set ''TENANT.TICKETING.SECRET_REF.SET'' tf_SecretRef tf_SecretRef_update
     ''failed to update ticketing secret ref'' ''failed to audit ticketing secret ref''"

definition handleTicketingWebhookSecretRefSet :: "admin_env \<Rightarrow> ticket_state \<Rightarrow> ticket_reply \<times> ticket_state" where
  "handleTicketingWebhookSecretRefSet = secret_ref_set ''TENANT.TICKETING.WEBHOOK_SECRET_REF.SET'' tf_WebhookSecretRef tf_WebhookSecretRef_update
     ''failed to update webhook secret ref'' ''failed to audit webhook secret ref''"

text \<open>Of the test approval only the fields that a ticket shows are read; its status, empty in the
  code, is not.\<close>

definition test_approval :: "string \<Rightarrow> time \<Rightarrow> approval_request" where
  "test_approval tenantID now =
     \<lparr>ap_ApprovalRequestID = ''test-approval-'' @ tenantID, ap_TenantID = tenantID, ap_AgentID = ''test-agent'', ap_ToolID = ''test-tool'',
      ap_ActionType = ''test.action'', ap_RequestHash = [], ap_RequestContext = [], ap_Status = PENDING,
      ap_ApprovalTokenHash = [], ap_ExpiresAt = now + 3600 * second_ns, ap_CreatedAt = zero_time, ap_PolicyVersion = [],
      ap_DecidedAt = None, ap_DecidedBy = [], ap_DecisionComment = [], ap_ExecutingAt = None, ap_ExecutionID = [],
      ap_ExecutedAt = None, ap_ExecutedRequestID = [], ap_ExecutedDecisionID = [], ap_FailedAt = None, ap_LastErrorCode = [],
      ap_RequestDecisionID = [], ap_ActionSummary = ''Test ticket from rbitr'', ap_Risk = ''MEDIUM'', ap_RuleID = [], ap_Reasons = []\<rparr>"

definition handleTicketingTest :: "ticket_env option \<Rightarrow> admin_env \<Rightarrow> ticket_state \<Rightarrow> ticket_reply \<times> ticket_state" where
  "handleTicketingTest service env = ticket_gated ''admin:ticketing:test'' (\<lambda>key s.
     case service of
       None \<Rightarrow> (Tk_error 503 ''ticketing service not available'', s)
     | Some tenv \<Rightarrow>
         (case GetTicketingConfig (an_read env ''GetTicketingConfig'' 0) (an_tenantID env) (fst s) of
            Inl e \<Rightarrow> (if e = ErrNotFound then Tk_error 400 ''ticketing not configured'' else Tk_error 500 ''failed to load ticketing config'', s)
          | Inr cfg \<Rightarrow>
              if tf_SecretRef cfg = [] then (Tk_error 400 ''ticketing secret not configured'', s)
              else (Tk_status ''test ticket creation initiated'',
                    fst (OnApprovalCreated tenv (an_tenantID env) (test_approval (an_tenantID env) (an_now env)) (fst s)), snd s))) env"

subsection \<open>What a webhook changes\<close>

definition webhook_status :: "approval_action \<Rightarrow> approval_status" where
  "webhook_status action = (if action = ActionApprove then APPROVED else DENIED)"

definition decided_row :: "webhook_env \<Rightarrow> approval_action \<Rightarrow> string \<Rightarrow> approval_request \<Rightarrow> approval_request" where
  "decided_row env action key a =
     a\<lparr>ap_Status := webhook_status action, ap_DecidedAt := Some (we_now env), ap_DecidedBy := ''webhook:'' @ we_provider env,
       ap_DecisionComment := (if action = ActionApprove then ''Approved'' else ''Denied'') @ '' via '' @ we_provider env @ '' ticket '' @ key\<rparr>"

lemma decided_row_status: "ap_Status (decided_row env action key a) = (if action = ActionApprove then APPROVED else DENIED)"
  by (simp add: decided_row_def webhook_status_def)

lemma decide_by_webhook_decide:
  "decide_by_webhook env action link key =
     with_fault (we_decide env) (decide (webhook_status action) (lk_TenantID link) (lk_ApprovalRequestID link) (''webhook:'' @ we_provider env)
       ((if action = ActionApprove then ''Approved'' else ''Denied'') @ '' via '' @ we_provider env @ '' ticket '' @ key) (we_now env))"
  by (rule ext) (simp add: decide_by_webhook_def decide_def webhook_status_def with_fault_def Let_def split: option.splits)

lemma decide_result:
  assumes "s \<in> {APPROVED, DENIED}"
  shows "decide s t i who c ts db =
    (case approvals db i of
       None \<Rightarrow> (Inl (approvalStateError t i db), db)
     | Some a \<Rightarrow>
         if ap_TenantID a = t \<and> ap_Status a = PENDING
         then (Inr (), set_approval db i (a\<lparr>ap_Status := s, ap_DecidedAt := Some ts, ap_DecidedBy := who, ap_DecisionComment := c\<rparr>))
         else (Inl (approvalStateError t i db), db))"
  using assms by (auto simp: decide_def ApproveApprovalRequest_def DenyApprovalRequest_def updateApprovalDecision_def affected_result_def
      update_approval_def approval_row_def set_approval_def split: option.splits)

lemma webhook_status_deciding: "webhook_status action \<in> {APPROVED, DENIED}"
  by (simp add: webhook_status_def)

lemma decide_by_webhook_effect:
  assumes "decide_by_webhook env action link key db = (r, db')"
  shows "db' = db \<and> (\<exists>e. r = Inl e) \<or> r = Inr () \<and> (\<exists>a. approvals db (lk_ApprovalRequestID link) = Some a \<and> ap_TenantID a = lk_TenantID link \<and>
    ap_Status a = PENDING \<and> db' = set_approval db (lk_ApprovalRequestID link) (decided_row env action key a))"
  using assms unfolding decide_by_webhook_decide decided_row_def with_fault_def decide_result [OF webhook_status_deciding]
  by (auto split: option.splits if_splits)

lemma decide_by_webhook_pending:
  assumes "we_decide env = None" and "approvals db (lk_ApprovalRequestID link) = Some a" and "ap_TenantID a = lk_TenantID link"
    and "ap_Status a = PENDING"
  shows "decide_by_webhook env action link key db = (Inr (), set_approval db (lk_ApprovalRequestID link) (decided_row env action key a))"
  using assms unfolding decide_by_webhook_decide decided_row_def with_fault_def decide_result [OF webhook_status_deciding] by simp

lemma UpdateTicketLinkStatus_configs [simp]: "tb_configs (snd (UpdateTicketLinkStatus flt now i s db)) = tb_configs db"
  by (simp add: UpdateTicketLinkStatus_def split: option.splits)

lemma signature_failure_None:
  assumes "signature_failure env t body db = None" and "GetTicketingConfig (we_config env) t db = Inr cfg"
    and "we_resolver env = Some resolve" and "tf_WebhookSecretRef cfg \<noteq> []"
  shows "\<exists>secret. resolve (tf_WebhookSecretRef cfg) = Some secret \<and> verifyWebhookSignature (we_crypto env) (we_header env) body secret"
  using assms by (auto simp: signature_failure_def split: option.splits if_splits)

text \<open>A request that names a ticket of a known approval and whose signature is not refused.\<close>

definition webhook_names :: "webhook_env \<Rightarrow> ticket_db \<Rightarrow> string \<Rightarrow> approval_action \<Rightarrow> ticket_link \<Rightarrow> bool" where
  "webhook_names env db key action link =
     (we_service env \<and> we_provider env \<in> {''jira'', ''servicenow'', ''linear''} \<and> key \<noteq> [] \<and> action \<noteq> ActionNone \<and>
      GetTicketLinkByExternalKey (we_link env) (we_provider env) key db = Inr link \<and>
      (case we_body env of None \<Rightarrow> False
       | Some sent \<Rightarrow> (case parseWebhookPayload (we_provider env) (take webhookMaxBytes sent) of (k, status) \<Rightarrow>
           k = key \<and> MapWebhookStatus (we_provider env) status = action)))"

definition sent_body :: "webhook_env \<Rightarrow> string" where
  "sent_body env = take webhookMaxBytes (case we_body env of None \<Rightarrow> [] | Some b \<Rightarrow> b)"

lemma webhook_change:
  assumes "handleTicketingWebhook env db sdb = (reply, db', sdb')" and "db' \<noteq> db \<or> sdb' \<noteq> sdb"
  obtains key action link where "webhook_names env db key action link"
    "signature_failure env (lk_TenantID link) (sent_body env) db = None"
    "decide_by_webhook env action link key sdb = (Inr (), sdb')"
    "db' = snd (UpdateTicketLinkStatus (we_update env) (we_now env) (lk_TicketLinkID link) (if action = ActionDeny then ''CLOSED'' else ''RESOLVED'') db)"
    "reply = Tk_processed (lk_ApprovalRequestID link) (if action = ActionApprove then ''approve'' else ''deny'')"
  using assms unfolding handleTicketingWebhook_def Let_def webhook_names_def sent_body_def
  by (auto split: if_splits option.splits prod.splits sum.splits dest: decide_by_webhook_effect)

lemma webhook_decides:
  assumes "webhook_names env db key action link" and "signature_failure env (lk_TenantID link) (sent_body env) db = None"
    and "we_decide env = None" and "approvals sdb (lk_ApprovalRequestID link) = Some a" and "ap_TenantID a = lk_TenantID link"
    and "ap_Status a = PENDING"
  shows "handleTicketingWebhook env db sdb =
    (Tk_processed (lk_ApprovalRequestID link) (if action = ActionApprove then ''approve'' else ''deny''),
     snd (UpdateTicketLinkStatus (we_update env) (we_now env) (lk_TicketLinkID link) (if action = ActionDeny then ''CLOSED'' else ''RESOLVED'') db),
     set_approval sdb (lk_ApprovalRequestID link) (decided_row env action key a))"
  using assms(1,2) decide_by_webhook_pending [OF assms(3-6)]
  unfolding handleTicketingWebhook_def Let_def webhook_names_def sent_body_def
  by (auto split: option.splits prod.splits)

lemma webhook_effect:
  assumes "handleTicketingWebhook env db sdb = (reply, db', sdb')" and "db' \<noteq> db \<or> sdb' \<noteq> sdb"
  shows "\<exists>key action link a. webhook_names env db key action link \<and>
    approvals sdb (lk_ApprovalRequestID link) = Some a \<and> ap_TenantID a = lk_TenantID link \<and> ap_Status a = PENDING \<and>
    sdb' = sdb\<lparr>approvals := (approvals sdb)(lk_ApprovalRequestID link \<mapsto> decided_row env action key a)\<rparr> \<and>
    tb_configs db' = tb_configs db \<and>
    (\<forall>cfg resolve. GetTicketingConfig (we_config env) (lk_TenantID link) db = Inr cfg \<longrightarrow> we_resolver env = Some resolve \<longrightarrow>
       tf_WebhookSecretRef cfg \<noteq> [] \<longrightarrow> signature_of (we_header env) \<noteq> [] \<longrightarrow>
       (\<exists>secret. resolve (tf_WebhookSecretRef cfg) = Some secret \<and>
          signature_of (we_header env) = ''sha256='' @ cy_hmachex (we_crypto env) (sent_body env) secret))"
proof -
  from webhook_change [OF assms] obtain key action link where w: "webhook_names env db key action link"
      "signature_failure env (lk_TenantID link) (sent_body env) db = None"
      "decide_by_webhook env action link key sdb = (Inr (), sdb')" "tb_configs db' = tb_configs db"
    by (metis UpdateTicketLinkStatus_configs)
  from decide_by_webhook_effect [OF w(3)] obtain a where a: "approvals sdb (lk_ApprovalRequestID link) = Some a"
      "ap_TenantID a = lk_TenantID link" "ap_Status a = PENDING" "sdb' = set_approval sdb (lk_ApprovalRequestID link) (decided_row env action key a)"
    by auto
  moreover have "\<exists>secret. resolve (tf_WebhookSecretRef cfg) = Some secret \<and>
      signature_of (we_header env) = ''sha256='' @ cy_hmachex (we_crypto env) (sent_body env) secret"
    if "GetTicketingConfig (we_config env) (lk_TenantID link) db = Inr cfg" "we_resolver env = Some resolve"
      "tf_WebhookSecretRef cfg \<noteq> []" "signature_of (we_header env) \<noteq> []" for cfg resolve
    using signature_failure_None [OF w(2) that(1-3)] that(4) by (auto simp: verifyWebhookSignature_def)
  ultimately show ?thesis
    using w(1,4) unfolding set_approval_def by blast
qed

text \<open>C26: what a webhook can change is confined: whatever request arrives, a webhook that changes
  anything names, in a payload of the path's provider, the key of a stored link; it decides exactly the
  approval of that link, which was PENDING and of the link's tenant, as the status of the ticket says,
  records the provider as the decider and touches no configuration; and where a webhook secret is
  configured and a signature header is present, that header is the HMAC of the body under the secret.\<close>

theorem webhook_confined:
  assumes "handleTicketingWebhook env db sdb = (reply, db', sdb')" and "db' \<noteq> db \<or> sdb' \<noteq> sdb"
  shows "\<exists>key action link a. webhook_names env db key action link \<and>
    approvals sdb (lk_ApprovalRequestID link) = Some a \<and> ap_TenantID a = lk_TenantID link \<and> ap_Status a = PENDING \<and>
    sdb' = sdb\<lparr>approvals := (approvals sdb)(lk_ApprovalRequestID link \<mapsto> decided_row env action key a)\<rparr> \<and>
    tb_configs db' = tb_configs db \<and>
    (\<forall>cfg resolve. GetTicketingConfig (we_config env) (lk_TenantID link) db = Inr cfg \<longrightarrow> we_resolver env = Some resolve \<longrightarrow>
       tf_WebhookSecretRef cfg \<noteq> [] \<longrightarrow> signature_of (we_header env) \<noteq> [] \<longrightarrow>
       (\<exists>secret. resolve (tf_WebhookSecretRef cfg) = Some secret \<and>
          signature_of (we_header env) = ''sha256='' @ cy_hmachex (we_crypto env) (sent_body env) secret))"
  using assms by (rule webhook_effect)

text \<open>The requests by which operators decide about approvals: the write routes of the administration API
  and the webhook.\<close>

datatype operator_request = Admin_request admin_write admin_env | Webhook_request webhook_env

fun operator_step :: "operator_request \<Rightarrow> ticket_db \<times> admin_state \<Rightarrow> ticket_db \<times> admin_state" where
  "operator_step (Admin_request w env) (db, st) = (db, snd (route w env st))"
| "operator_step (Webhook_request env) (db, st) =
     (case handleTicketingWebhook env db (am_store st) of (_, db', sdb') \<Rightarrow> (db', st\<lparr>am_store := sdb'\<rparr>))"

text \<open>Who may approve: on the administration API the approve route alone, in the tenant of the approval, by a
  caller with the scope for decisions whose identity is recorded, before the expiry unless the store failed
  to mark it; by webhook whoever names the key of the approval's ticket with a status that means approval,
  and the webhook secret is asked for only when a signature header is sent.\<close>

fun granted_by :: "operator_request \<Rightarrow> ticket_db \<Rightarrow> admin_state \<Rightarrow> approval_request \<Rightarrow> string \<Rightarrow> string \<Rightarrow> bool" where
  "granted_by (Admin_request w env) db st a i decider =
     (w = Approve \<and> i = an_param env \<and> ap_TenantID a = an_tenantID env \<and>
      (an_write env ''EXPIRE'' 0 = None \<longrightarrow> an_now env \<le> ap_ExpiresAt a) \<and>
      (\<exists>key st1. requireAdminScope env ''admin:approvals:decide'' st = (Inr key, st1) \<and>
         hasScope (ak_Scopes key) ''admin:approvals:decide'' \<and> decider = ak_AdminKeyID key))"
| "granted_by (Webhook_request env) db st a i decider =
     (decider = ''webhook:'' @ we_provider env \<and>
      (\<exists>key link. webhook_names env db key ActionApprove link \<and> lk_ApprovalRequestID link = i \<and> lk_TenantID link = ap_TenantID a \<and>
        (\<forall>cfg resolve. GetTicketingConfig (we_config env) (lk_TenantID link) db = Inr cfg \<longrightarrow> we_resolver env = Some resolve \<longrightarrow>
           tf_WebhookSecretRef cfg \<noteq> [] \<longrightarrow> signature_of (we_header env) \<noteq> [] \<longrightarrow>
           (\<exists>secret. resolve (tf_WebhookSecretRef cfg) = Some secret \<and>
              signature_of (we_header env) = ''sha256='' @ cy_hmachex (we_crypto env) (sent_body env) secret))))"

text \<open>C23: an approval is granted only by the approve route or by the webhook: whatever write route of the
  administration API (on approvals, policies, risk overrides, tools and settings) or ticketing webhook is
  served, an approval request that becomes APPROVED was PENDING, keeps what was asked for, and was granted by
  a caller of the approve route with the scope for decisions, or by a webhook that names its ticket, which
  needs neither a scope nor, without a signature header, a secret; its decider is recorded.\<close>

theorem approval_granted_by:
  assumes "operator_step r (db, st) = (db', st')"
    and "approvals (am_store st) i = Some a" and "ap_Status a \<noteq> APPROVED"
    and "approvals (am_store st') i = Some a'" and "ap_Status a' = APPROVED"
  shows "ap_Status a = PENDING \<and> identity_of a' = identity_of a \<and> granted_by r db st a i (ap_DecidedBy a')"
proof (cases r)
  case (Admin_request w env)
  have "route w env st = (fst (route w env st), st')" using assms(1) Admin_request by (metis operator_step.simps(1) prod.collapse snd_conv)
  from approval_needs_decider [OF this assms(2-5)] Admin_request show ?thesis by auto
next
  case (Webhook_request env)
  obtain reply sdb' where h: "handleTicketingWebhook env db (am_store st) = (reply, db', sdb')" "st' = st\<lparr>am_store := sdb'\<rparr>"
    using assms(1) Webhook_request by (auto split: prod.splits)
  have "sdb' \<noteq> am_store st" using assms(2-5) h(2) by auto
  from webhook_effect [OF h(1) disjI2 [OF this]] obtain key action link b where
    w: "webhook_names env db key action link" "approvals (am_store st) (lk_ApprovalRequestID link) = Some b"
      "ap_TenantID b = lk_TenantID link" "ap_Status b = PENDING"
      "sdb' = (am_store st)\<lparr>approvals := (approvals (am_store st))(lk_ApprovalRequestID link \<mapsto> decided_row env action key b)\<rparr>"
    and sig: "\<forall>cfg resolve. GetTicketingConfig (we_config env) (lk_TenantID link) db = Inr cfg \<longrightarrow> we_resolver env = Some resolve \<longrightarrow>
       tf_WebhookSecretRef cfg \<noteq> [] \<longrightarrow> signature_of (we_header env) \<noteq> [] \<longrightarrow>
       (\<exists>secret. resolve (tf_WebhookSecretRef cfg) = Some secret \<and>
          signature_of (we_header env) = ''sha256='' @ cy_hmachex (we_crypto env) (sent_body env) secret)"
    by blast
  have i: "lk_ApprovalRequestID link = i" using assms(2-5) h(2) w(5) by (auto split: if_splits)
  then have a: "b = a" "a' = decided_row env action key a" using assms(2,4) h(2) w(2,5) by auto
  then have "action = ActionApprove" using assms(5) by (auto simp: decided_row_status split: if_splits)
  moreover have "identity_of a' = identity_of a" "ap_DecidedBy a' = ''webhook:'' @ we_provider env"
    using a(2) by (simp_all add: decided_row_def identity_of_def)
  ultimately show ?thesis using Webhook_request w(1,3,4) a(1) i sig by auto
qed

text \<open>The webhook secret does not protect the approvals: a request without a signature header that
  names the key of a ticket and a status that means approval is obeyed even when a webhook secret is
  configured and can be resolved. The PENDING approval of the ticket becomes APPROVED, in the name of
  the provider, whatever its expiry.\<close>

theorem unsigned_webhook_approves:
  assumes "webhook_names env db key ActionApprove link" and "signature_of (we_header env) = []"
    and "GetTicketingConfig (we_config env) (lk_TenantID link) db = Inr cfg" and "we_resolver env = Some resolve"
    and "resolve (tf_WebhookSecretRef cfg) = Some secret" and "we_decide env = None"
    and "approvals sdb (lk_ApprovalRequestID link) = Some a" and "ap_TenantID a = lk_TenantID link" and "ap_Status a = PENDING"
  shows "\<exists>db' sdb' a'. handleTicketingWebhook env db sdb = (Tk_processed (lk_ApprovalRequestID link) ''approve'', db', sdb') \<and>
    approvals sdb' (lk_ApprovalRequestID link) = Some a' \<and> ap_Status a' = APPROVED \<and> ap_ExpiresAt a' = ap_ExpiresAt a \<and>
    ap_DecidedBy a' = ''webhook:'' @ we_provider env"
proof -
  have "signature_failure env (lk_TenantID link) (sent_body env) db = None"
    using assms(2-5) by (simp add: signature_failure_def verifyWebhookSignature_def)
  from webhook_decides [OF assms(1) this assms(6-9)] show ?thesis
    by (simp add: set_approval_def decided_row_def webhook_status_def)
qed

lemma created_link:
  assumes "OnApprovalCreated tenv t a db = (db', sent)" and "db' \<noteq> db"
  obtains cfg p r link where "GetTicketingConfig (te_config tenv) t db = Inr cfg" "buildProvider tenv cfg = Some p"
    "CreateTicket (te_client tenv) p (ticket_for cfg t a) = (Some r, sent)" "db' = db\<lparr>tb_links := tb_links db @ [link]\<rparr>"
    "lk_TenantID link = t" "lk_ApprovalRequestID link = ap_ApprovalRequestID a" "lk_Provider link = tf_Provider cfg"
    "lk_ExternalKey link = tk_ExternalKey r"
  using assms unfolding OnApprovalCreated_def InsertTicketLink_def
  by (auto split: sum.splits if_splits option.splits prod.splits)

lemma buildProvider_known: "buildProvider env cfg = Some p \<Longrightarrow> tf_Provider cfg \<in> {''jira'', ''servicenow'', ''linear''}"
  by (auto simp: buildProvider_def build_provider_def split: option.splits if_splits)

lemma find_append_new: "find P xs = None \<Longrightarrow> P y \<Longrightarrow> find P (xs @ [y]) = Some y"
  by (induction xs) (auto split: if_splits)

text \<open>The decision taken in the ticketing system reaches the approval the ticket was opened for: when
  the creation of an approval opens a ticket whose key no other link of the provider has, then a later
  webhook of that provider with that key and a deciding status, with a signature that is not refused and
  a store that meets no fault, decides exactly this approval while it is PENDING, and is acknowledged.\<close>

theorem ticket_decision_reaches_approval:
  assumes "OnApprovalCreated tenv t a db = (db', sent)" and "db' \<noteq> db"
  shows "\<exists>link. db' = db\<lparr>tb_links := tb_links db @ [link]\<rparr> \<and> lk_ApprovalRequestID link = ap_ApprovalRequestID a \<and> lk_TenantID link = t \<and>
    (\<forall>env body status sdb row. find (\<lambda>l. lk_Provider l = lk_Provider link \<and> lk_ExternalKey l = lk_ExternalKey link) (tb_links db) = None \<longrightarrow>
       lk_ExternalKey link \<noteq> [] \<longrightarrow> we_service env \<longrightarrow> we_link env = None \<longrightarrow> we_decide env = None \<longrightarrow> we_provider env = lk_Provider link \<longrightarrow>
       we_body env = Some body \<longrightarrow> parseWebhookPayload (we_provider env) (take webhookMaxBytes body) = (lk_ExternalKey link, status) \<longrightarrow>
       MapWebhookStatus (we_provider env) status \<noteq> ActionNone \<longrightarrow> signature_failure env t (sent_body env) db' = None \<longrightarrow>
       approvals sdb (ap_ApprovalRequestID a) = Some row \<longrightarrow> ap_TenantID row = t \<longrightarrow> ap_Status row = PENDING \<longrightarrow>
       (\<exists>db2 row'. handleTicketingWebhook env db' sdb =
          (Tk_processed (ap_ApprovalRequestID a) (if MapWebhookStatus (we_provider env) status = ActionApprove then ''approve'' else ''deny''),
           db2, sdb\<lparr>approvals := (approvals sdb)(ap_ApprovalRequestID a \<mapsto> row')\<rparr>) \<and>
          ap_Status row' = (if MapWebhookStatus (we_provider env) status = ActionApprove then APPROVED else DENIED)))"
proof -
  from created_link [OF assms] obtain cfg p link where l: "buildProvider tenv cfg = Some p" "db' = db\<lparr>tb_links := tb_links db @ [link]\<rparr>"
      "lk_TenantID link = t" "lk_ApprovalRequestID link = ap_ApprovalRequestID a" "lk_Provider link = tf_Provider cfg" by metis
  have "\<exists>db2 row'. handleTicketingWebhook env db' sdb =
        (Tk_processed (ap_ApprovalRequestID a) (if MapWebhookStatus (we_provider env) status = ActionApprove then ''approve'' else ''deny''),
         db2, sdb\<lparr>approvals := (approvals sdb)(ap_ApprovalRequestID a \<mapsto> row')\<rparr>) \<and>
        ap_Status row' = (if MapWebhookStatus (we_provider env) status = ActionApprove then APPROVED else DENIED)"
    if h: "find (\<lambda>l. lk_Provider l = lk_Provider link \<and> lk_ExternalKey l = lk_ExternalKey link) (tb_links db) = None"
       "lk_ExternalKey link \<noteq> []" "we_service env" "we_link env = None" "we_decide env = None" "we_provider env = lk_Provider link"
       "we_body env = Some body" "parseWebhookPayload (we_provider env) (take webhookMaxBytes body) = (lk_ExternalKey link, status)"
       "MapWebhookStatus (we_provider env) status \<noteq> ActionNone" "signature_failure env t (sent_body env) db' = None"
       "approvals sdb (ap_ApprovalRequestID a) = Some row" "ap_TenantID row = t" "ap_Status row = PENDING" for env body status sdb row
  proof -
    have "webhook_names env db' (lk_ExternalKey link) (MapWebhookStatus (we_provider env) status) link"
      using h buildProvider_known [OF l(1)] find_append_new [OF h(1)]
      unfolding webhook_names_def by (simp add: l(2,5) GetTicketLinkByExternalKey_def or_not_found_def)
    from webhook_decides [OF this, of sdb row] h(5,10-13) l(3,4)
    have "\<exists>db2. handleTicketingWebhook env db' sdb =
        (Tk_processed (ap_ApprovalRequestID a) (if MapWebhookStatus (we_provider env) status = ActionApprove then ''approve'' else ''deny''),
         db2, set_approval sdb (ap_ApprovalRequestID a) (decided_row env (MapWebhookStatus (we_provider env) status) (lk_ExternalKey link) row))"
      by simp
    then show ?thesis unfolding set_approval_def using decided_row_status by blast
  qed
  then show ?thesis using l by blast
qed

lemma ticket_finish_db [simp]: "fst (snd (ticket_finish env key action before after failure s)) = fst s"
  by (simp add: ticket_finish_def split: sum.splits prod.splits)

lemma zero_ticketing_refs: "tf_SecretRef zero_ticketing = []" "tf_WebhookSecretRef zero_ticketing = []"
  by (simp_all add: zero_ticketing_def)

text \<open>An update of the configuration whose read of the old row fails is not refused: it stores empty
  references for both secrets, and from then on no signature is checked for the tenant.\<close>

lemma failed_read_drops_secrets:
  assumes "requireAdminScope env ''admin:ticketing:write'' st = (Inr key, st1)" and "an_read env ''GetTicketingConfig'' 0 = Some ErrDB"
    and "decode_body ticketing_fields zero_ticketing (an_body env) = Some p" and "tf_Provider p \<in> {[], ''jira'', ''servicenow'', ''linear''}"
    and "an_write env ''TENANT.TICKETING.CONFIG.UPDATE'' 0 = None"
    and "c \<in> set (tb_configs (fst (snd (handleTicketingConfigUpdate env (db, st)))))" and "tf_TenantID c = an_tenantID env"
  shows "tf_SecretRef c = [] \<and> tf_WebhookSecretRef c = []"
proof -
  have "ticketing_before env db = zero_ticketing" using assms(2) by (simp add: ticketing_before_def GetTicketingConfig_def)
  then have "fst (snd (handleTicketingConfigUpdate env (db, st))) =
      snd (UpsertTicketingConfig None (an_now env) (p\<lparr>tf_TenantID := an_tenantID env, tf_SecretRef := [], tf_WebhookSecretRef := []\<rparr>) db)"
    using assms(4) unfolding handleTicketingConfigUpdate_def ticket_gated_def
    by (simp add: assms(1,3,5) Let_def zero_ticketing_refs UpsertTicketingConfig_def)
  then show ?thesis
    using assms(6,7) by (auto simp: UpsertTicketingConfig_def update_rows_def affected_def split: if_splits)
qed

subsection \<open>A ticket and its webhook\<close>

definition jira_answer :: string where "jira_answer = json_object [(''key'', quote ''P-1''), (''self'', quote ''u'')]"

definition jira_done :: string where
  "jira_done = json_object [(''issue'', json_object [(''key'', quote ''P-1''),
     (''fields'', json_object [(''status'', json_object [(''name'', quote ''Done'')])])])]"

definition sample_ticketing :: ticketing_config where
  "sample_ticketing = \<lparr>tf_TenantID = ''t1'', tf_Provider = ''jira'', tf_Enabled = True, tf_BaseURL = ''https://j'', tf_SecretRef = ''env://J'',
     tf_ProjectKey = ''P'', tf_IssueType = ''Task'', tf_AutoCreate = True, tf_WebhookSecretRef = ''env://W'', tf_CreatedAt = 0, tf_UpdatedAt = 0\<rparr>"

definition ticketless :: ticket_db where "ticketless = \<lparr>tb_configs = [sample_ticketing], tb_links = []\<rparr>"

definition sample_link :: ticket_link where
  "sample_link = \<lparr>lk_TicketLinkID = ''tl_u1'', lk_TenantID = ''t1'', lk_ApprovalRequestID = ''ap1'', lk_Provider = ''jira'',
     lk_ExternalKey = ''P-1'', lk_ExternalURL = ''https://j/browse/P-1'', lk_Status = ''OPEN'', lk_CreatedAt = 9, lk_UpdatedAt = 9\<rparr>"

definition sample_ticket_env :: ticket_env where
  "sample_ticket_env = \<lparr>te_client = (\<lambda>_. Inr \<lparr>ha_Status = 201, ha_Headers = [], ha_Body = jira_answer\<rparr>), te_resolve = Some,
     te_config = None, te_link = None, te_write = None, te_uuid = ''u1'', te_now = 9\<rparr>"

definition sample_webhook :: webhook_env where
  "sample_webhook = \<lparr>we_service = True, we_provider = ''jira'', we_header = (\<lambda>_. []), we_body = Some jira_done, we_resolver = Some Some,
     we_crypto = sample_crypto, we_now = 900, we_link = None, we_config = None, we_decide = None, we_update = None\<rparr>"

lemma jira_answer_decoded:
  "Option.bind (first_members jira_answer) (decode_struct [(''key'', string_field apfst), (''self'', string_field apsnd)] ([], [])) =
     Some (''P-1'', ''u'')"
  by code_simp

lemma jira_done_parsed: "parseJiraWebhook (take webhookMaxBytes jira_done) = (''P-1'', ''Done'')"
proof -
  have "length jira_done \<le> 100" by code_simp
  then have "length jira_done \<le> webhookMaxBytes" by (simp add: webhookMaxBytes_def)
  moreover have "parseJiraWebhook jira_done = (''P-1'', ''Done'')" by code_simp
  ultimately show ?thesis by simp
qed

lemma sample_ticket_opened:
  "fst (OnApprovalCreated sample_ticket_env ''t1'' pending_approval ticketless) = ticketless\<lparr>tb_links := [sample_link]\<rparr>"
  by (simp add: OnApprovalCreated_def GetTicketingConfig_def ticketless_def sample_ticketing_def sample_ticket_env_def or_not_found_def
      buildProvider_def build_provider_def jira_CreateTicket_def send_def expect_def jira_answer_decoded InsertTicketLink_def
      sample_link_def pending_approval_def NewJiraProvider_def TrimRight_def trim_right_def)


abbreviation ticketed :: ticket_db where "ticketed \<equiv> ticketless\<lparr>tb_links := [sample_link]\<rparr>"

abbreviation held :: store_db where "held \<equiv> \<lparr>approvals = [''ap1'' \<mapsto> pending_approval], decisions = []\<rparr>"

lemma sample_config_found: "GetTicketingConfig None ''t1'' ticketed = Inr sample_ticketing"
  by (simp add: GetTicketingConfig_def ticketless_def sample_ticketing_def or_not_found_def)

lemma sample_webhook_names: "webhook_names sample_webhook ticketed ''P-1'' ActionApprove sample_link"
  by (simp add: webhook_names_def sample_webhook_def parseWebhookPayload_def jira_done_parsed MapWebhookStatus_def mapJiraStatus_def
      GetTicketLinkByExternalKey_def sample_link_def or_not_found_def)

lemma sample_signature: "signature_failure sample_webhook ''t1'' body ticketed = None"
  by (simp add: signature_failure_def sample_webhook_def sample_config_found verifyWebhookSignature_def signature_of_def)

lemmas sample_row =
  sample_link_def sample_webhook_def pending_approval_def

theorem unsigned_webhook_approves_witness:
  "ap_ExpiresAt pending_approval < we_now sample_webhook \<and> tf_WebhookSecretRef sample_ticketing \<noteq> [] \<and>
   (\<exists>db' sdb' a'. handleTicketingWebhook sample_webhook ticketed held = (Tk_processed ''ap1'' ''approve'', db', sdb') \<and>
      approvals sdb' ''ap1'' = Some a' \<and> ap_Status a' = APPROVED)"
  using unsigned_webhook_approves [OF sample_webhook_names, of sample_ticketing Some "''env://W''" held pending_approval] sample_config_found
  by (auto simp: sample_row signature_of_def sample_ticketing_def)

theorem ticket_decision_reaches_approval_witness:
  "\<exists>db2 row'. handleTicketingWebhook sample_webhook (fst (OnApprovalCreated sample_ticket_env ''t1'' pending_approval ticketless)) held =
     (Tk_processed ''ap1'' ''approve'', db2, held\<lparr>approvals := [''ap1'' \<mapsto> row']\<rparr>) \<and> ap_Status row' = APPROVED"
proof -
  have d: "ticketed \<noteq> ticketless" by (simp add: ticketless_def)
  obtain sent where o: "OnApprovalCreated sample_ticket_env ''t1'' pending_approval ticketless = (ticketed, sent)"
    using sample_ticket_opened by (cases "OnApprovalCreated sample_ticket_env ''t1'' pending_approval ticketless") simp
  from ticket_decision_reaches_approval [OF o d] obtain link where l: "ticketed = ticketless\<lparr>tb_links := tb_links ticketless @ [link]\<rparr>"
      and w: "\<forall>env body status sdb row. find (\<lambda>l. lk_Provider l = lk_Provider link \<and> lk_ExternalKey l = lk_ExternalKey link) (tb_links ticketless) = None \<longrightarrow>
       lk_ExternalKey link \<noteq> [] \<longrightarrow> we_service env \<longrightarrow> we_link env = None \<longrightarrow> we_decide env = None \<longrightarrow> we_provider env = lk_Provider link \<longrightarrow>
       we_body env = Some body \<longrightarrow> parseWebhookPayload (we_provider env) (take webhookMaxBytes body) = (lk_ExternalKey link, status) \<longrightarrow>
       MapWebhookStatus (we_provider env) status \<noteq> ActionNone \<longrightarrow> signature_failure env ''t1'' (sent_body env) ticketed = None \<longrightarrow>
       approvals sdb (ap_ApprovalRequestID pending_approval) = Some row \<longrightarrow> ap_TenantID row = ''t1'' \<longrightarrow> ap_Status row = PENDING \<longrightarrow>
       (\<exists>db2 row'. handleTicketingWebhook env ticketed sdb =
          (Tk_processed (ap_ApprovalRequestID pending_approval) (if MapWebhookStatus (we_provider env) status = ActionApprove then ''approve'' else ''deny''),
           db2, sdb\<lparr>approvals := (approvals sdb)(ap_ApprovalRequestID pending_approval \<mapsto> row')\<rparr>) \<and>
          ap_Status row' = (if MapWebhookStatus (we_provider env) status = ActionApprove then APPROVED else DENIED))"
    by blast
  have "link = sample_link" using l by (simp add: ticketless_def)
  with w [rule_format, of sample_webhook jira_done "''Done''" held pending_approval] sample_signature show ?thesis
    unfolding sample_ticket_opened
    by (simp add: sample_row ticketless_def parseWebhookPayload_def jira_done_parsed MapWebhookStatus_def mapJiraStatus_def)
qed

lemma sample_webhook_run: "handleTicketingWebhook sample_webhook ticketed held =
    (Tk_processed ''ap1'' ''approve'', snd (UpdateTicketLinkStatus None 900 ''tl_u1'' ''RESOLVED'' ticketed),
     set_approval held ''ap1'' (decided_row sample_webhook ActionApprove ''P-1'' pending_approval))"
  using webhook_decides [OF sample_webhook_names, of held pending_approval] sample_signature by (simp add: sample_row)

theorem webhook_confined_witness:
  "\<exists>key action link a. webhook_names sample_webhook ticketed key action link \<and> approvals held (lk_ApprovalRequestID link) = Some a \<and>
     snd (snd (handleTicketingWebhook sample_webhook ticketed held)) =
       held\<lparr>approvals := (approvals held)(lk_ApprovalRequestID link \<mapsto> decided_row sample_webhook action key a)\<rparr>"
proof -
  note e = sample_webhook_run
  have "set_approval held ''ap1'' (decided_row sample_webhook ActionApprove ''P-1'' pending_approval) \<noteq> held"
    using decided_row_status [of sample_webhook ActionApprove "''P-1''" pending_approval]
    by (auto simp: set_approval_def pending_approval_def dest!: fun_cong [where x = "''ap1''"])
  with webhook_confined [OF e] show ?thesis unfolding e by (simp only: snd_conv) blast
qed

theorem approval_granted_by_witness:
  "granted_by (Admin_request Approve decide_env) ticketed pending_state pending_approval ''ap1'' (ap_DecidedBy granted) \<and>
   granted_by (Webhook_request sample_webhook) ticketed pending_state pending_approval ''ap1'' (''webhook:'' @ we_provider sample_webhook)"
proof
  let ?row = "decided_row sample_webhook ActionApprove ''P-1'' pending_approval"
  have p: "approvals (am_store pending_state) ''ap1'' = Some pending_approval" "ap_Status pending_approval \<noteq> APPROVED"
      "ap_Status granted = APPROVED" "am_store pending_state = held"
    by (simp_all add: sample_admin_state_def pending_approval_def granted_def)
  show "granted_by (Admin_request Approve decide_env) ticketed pending_state pending_approval ''ap1'' (ap_DecidedBy granted)"
    using approval_granted_by [OF operator_step.simps(1) p(1,2) sample_granted p(3)] by blast
  obtain db where "operator_step (Webhook_request sample_webhook) (ticketed, pending_state) = (db, pending_state\<lparr>am_store := set_approval held ''ap1'' ?row\<rparr>)"
    by (simp add: sample_webhook_run p(4))
  from approval_granted_by [OF this p(1,2), of ?row] show "granted_by (Webhook_request sample_webhook) ticketed pending_state pending_approval ''ap1'' (''webhook:'' @ we_provider sample_webhook)"
    by (simp add: set_approval_def decided_row_def webhook_status_def)
qed

end
