(* ===== verification/Notifications.thy ===== *)
theory Notifications
  imports Ticketing
begin

text \<open>
  Notifications about approvals and policies (\<open>src/internal/notifications\<close>): the engine that
  suppresses repeated notices (\<open>engine.go\<close>), the service that chooses the channels of a tenant
  (\<open>service.go\<close>), the messages (\<open>templates.go\<close>), the notifiers (\<open>slack.go\<close>, \<open>telegram.go\<close>,
  \<open>whatsapp.go\<close>, \<open>email.go\<close>) and the secret resolver (\<open>secrets.go\<close>, \<open>secrets_vault.go\<close>). A notifier gives
  whether it has delivered. The clients of Slack's bot, SES, SendGrid and Mailgun and Slack's encoding of a
  webhook message are parameters, as is the HTTP client. Metrics are left out. The theorem bounds how
  often a notice is delivered.
\<close>

subsection \<open>Messages\<close>

record notification_event =
  ne_TenantID :: string
  ne_EventType :: string
  ne_Severity :: string
  ne_ResourceID :: string

record notification_message =
  nm_Title :: string
  nm_Body :: string
  nm_Fields :: "(string \<times> string) list"
  nm_Links :: "(string \<times> string) list"

definition templates :: "(string \<times> string) list" where
  "templates =
     [(''APPROVAL.EXPIRING'', ''Approval expiring soon''), (''APPROVAL.EXPIRED'', ''Approval expired''),
      (''SECURITY.TOKEN_ABUSE'', ''Possible approval token abuse''), (''POLICY.INVALID_OUTPUT'', ''Policy invalid output''),
      (''POLICY.EVAL_ERROR'', ''Policy evaluation error''), (''NOTIFICATIONS.TEST'', ''Notification test'')]"

definition map_value :: "(string \<times> string) list \<Rightarrow> string \<Rightarrow> string" where
  "map_value m k = (case map_of m k of None \<Rightarrow> [] | Some v \<Rightarrow> v)"

text \<open>Two keys that agree after trimming: the one the iteration meets last is kept, the list being
  the order of iteration.\<close>

definition BuildMessage :: "string \<Rightarrow> (string \<times> string) list \<Rightarrow> notification_message" where
  "BuildMessage eventType data =
     \<lparr>nm_Title = (if map_value templates eventType = [] then eventType else map_value templates eventType),
      nm_Body = (if map_value data ''summary'' \<noteq> [] then map_value data ''summary'' else map_value data ''reason''),
      nm_Fields = fold (\<lambda>(k, v) m. if k = ''summary'' \<or> k = ''reason'' \<or> v = [] then m else set_key (TrimSpace k) v m) data [],
      nm_Links = []\<rparr>"

definition line_break :: string where "line_break = [CHR 0x0A]"

definition buildSlackText :: "notification_message \<Rightarrow> string" where
  "buildSlackText msg =
     nm_Title msg @
     (if nm_Body msg = [] then [] else (if nm_Title msg = [] then [] else line_break) @ nm_Body msg) @
     concat (map (\<lambda>(k, v). line_break @ ''*'' @ k @ ''*: '' @ v) (sort_keys (nm_Fields msg))) @
     (if nm_Links msg = [] then []
      else line_break @ concat (map (\<lambda>(k, v). line_break @ [CHR 0xE2, CHR 0x80, CHR 0xA2] @ '' '' @ k @ '': '' @ v) (sort_keys (nm_Links msg))))"

definition telegram_special :: "char set" where
  "telegram_special = set ''_*[]()~`>#+-=|{}.!''"

definition escapeTelegramMarkdown :: "string \<Rightarrow> string" where
  "escapeTelegramMarkdown s = concat (map (\<lambda>c. if c \<in> telegram_special then [backslash, c] else [c]) s)"

definition buildTelegramText :: "notification_message \<Rightarrow> string" where
  "buildTelegramText msg =
     (if nm_Title msg = [] then [] else ''*'' @ escapeTelegramMarkdown (nm_Title msg) @ ''*'' @ line_break) @
     (if nm_Body msg = [] then [] else escapeTelegramMarkdown (nm_Body msg) @ line_break) @
     (if nm_Fields msg = [] then []
      else line_break @ concat (map (\<lambda>(k, v). ''*'' @ escapeTelegramMarkdown k @ ''*: '' @ escapeTelegramMarkdown v @ line_break) (sort_keys (nm_Fields msg)))) @
     (if nm_Links msg = [] then []
      else line_break @ concat (map (\<lambda>(k, v). ''['' @ escapeTelegramMarkdown k @ '']('' @ escapeTelegramMarkdown v @ '')'' @ line_break) (sort_keys (nm_Links msg))))"

definition buildWhatsAppText :: "notification_message \<Rightarrow> string" where
  "buildWhatsAppText msg =
     (if nm_Title msg = [] then [] else ''*'' @ nm_Title msg @ ''*'' @ line_break) @
     (if nm_Body msg = [] then [] else nm_Body msg @ line_break) @
     (if nm_Fields msg = [] then [] else line_break @ concat (map (\<lambda>(k, v). ''*'' @ k @ ''*: '' @ v @ line_break) (sort_keys (nm_Fields msg)))) @
     (if nm_Links msg = [] then [] else line_break @ concat (map (\<lambda>(k, v). k @ '': '' @ v @ line_break) (sort_keys (nm_Links msg))))"

definition buildEmailSubject :: "notification_message \<Rightarrow> string" where
  "buildEmailSubject msg = (if nm_Title msg \<noteq> [] then nm_Title msg else ''rbitr notification'')"

definition buildEmailBody :: "notification_message \<Rightarrow> string" where
  "buildEmailBody msg = TrimSpace
     ((if nm_Title msg = [] then [] else nm_Title msg @ line_break @ line_break) @
      (if nm_Body msg = [] then [] else nm_Body msg @ line_break @ line_break) @
      (if nm_Fields msg = [] then [] else concat (map (\<lambda>(k, v). k @ '': '' @ v @ line_break) (sort_keys (nm_Fields msg))) @ line_break) @
      concat (map (\<lambda>(k, v). k @ '': '' @ v @ line_break) (sort_keys (nm_Links msg))))"

subsection \<open>Notifiers\<close>

type_synonym notifier = "notification_message \<Rightarrow> bool"

definition delivered :: "'a attempt \<Rightarrow> bool" where "delivered a = (fst a \<noteq> None)"

definition post_ok :: "http_client \<Rightarrow> connector_request \<Rightarrow> unit attempt" where
  "post_ok client req =
     then_send (send client req) (\<lambda>ans. if ha_Status ans < 200 \<or> ha_Status ans \<ge> 300 then (None, []) else (Some (), []))"

definition validateSlackWebhookURL :: "string \<Rightarrow> bool" where
  "validateSlackWebhookURL rawURL =
     (case ParseRequestURI rawURL of None \<Rightarrow> False | Some (scheme, host) \<Rightarrow> scheme \<in> {''http'', ''https''} \<and> host \<noteq> [])"

definition slack_webhook_Send :: "http_client \<Rightarrow> (notification_message \<Rightarrow> string \<Rightarrow> string) \<Rightarrow> string \<Rightarrow> string \<Rightarrow> notification_message \<Rightarrow> unit attempt" where
  "slack_webhook_Send client marshal webhookURL channel msg =
     (if webhookURL = [] \<or> \<not> validateSlackWebhookURL webhookURL then (None, [])
      else post_ok client \<lparr>cq_Method = ''POST'', cq_URL = webhookURL, cq_Headers = [(''Content-Type'', ''application/json'')],
             cq_Body = marshal msg channel\<rparr>)"

definition telegram_Send :: "http_client \<Rightarrow> string \<Rightarrow> string \<Rightarrow> notification_message \<Rightarrow> unit attempt" where
  "telegram_Send client botToken chatID msg =
     (if botToken = [] \<or> chatID = [] then (None, [])
      else post_ok client \<lparr>cq_Method = ''POST'', cq_URL = ''https://api.telegram.org/bot'' @ botToken @ ''/sendMessage'',
             cq_Headers = [(''Content-Type'', ''application/json'')],
             cq_Body = struct_text [(''chat_id'', Str_v chatID), (''text'', Str_v (buildTelegramText msg)), (''parse_mode'', Str_v ''MarkdownV2'')]\<rparr>)"

text \<open>The members of the inner struct are declared in an order that is not the alphabetic one.\<close>

definition whatsapp_body :: "string \<Rightarrow> notification_message \<Rightarrow> string" where
  "whatsapp_body recipient msg =
     json_object [(''messaging_product'', quote ''whatsapp''), (''recipient_type'', quote ''individual''), (''to'', quote recipient),
       (''type'', quote ''text''), (''text'', struct_text [(''preview_url'', Bool_v False), (''body'', Str_v (buildWhatsAppText msg))])]"

definition whatsapp_Send :: "http_client \<Rightarrow> string \<Rightarrow> string \<Rightarrow> string \<Rightarrow> notification_message \<Rightarrow> unit attempt" where
  "whatsapp_Send client accessToken phoneNumberID recipient msg =
     (if accessToken = [] \<or> phoneNumberID = [] \<or> recipient = [] then (None, [])
      else post_ok client \<lparr>cq_Method = ''POST'', cq_URL = ''https://graph.facebook.com/v21.0/'' @ phoneNumberID @ ''/messages'',
             cq_Headers = [(''Content-Type'', ''application/json''), (''Authorization'', ''Bearer '' @ accessToken)],
             cq_Body = whatsapp_body recipient msg\<rparr>)"

record ses_credentials =
  sx_AccessKeyID :: string
  sx_SecretAccessKey :: string
  sx_SessionToken :: string
  sx_Region :: string

definition zero_ses :: ses_credentials where
  "zero_ses = \<lparr>sx_AccessKeyID = [], sx_SecretAccessKey = [], sx_SessionToken = [], sx_Region = []\<rparr>"

definition ses_fields :: "(string \<times> ses_credentials field) list" where
  "ses_fields =
     [(''access_key_id'', string_field sx_AccessKeyID_update), (''secret_access_key'', string_field sx_SecretAccessKey_update),
      (''session_token'', string_field sx_SessionToken_update), (''region'', string_field sx_Region_update)]"

text \<open>\<open>None\<close> for an error, \<open>Some None\<close> when nothing is configured.\<close>

definition parseSESCredentials :: "string \<Rightarrow> ses_credentials option option" where
  "parseSESCredentials val =
     (let trimmed = TrimSpace val in
      if trimmed = [] then Some None
      else if HasPrefix trimmed ''{'' then
        (case Option.bind (decode_members trimmed) (decode_struct ses_fields zero_ses) of
           None \<Rightarrow> None
         | Some creds \<Rightarrow> if sx_AccessKeyID creds = [] \<or> sx_SecretAccessKey creds = [] then None else Some (Some creds))
      else (case Cut trimmed (CHR '':'') of
              None \<Rightarrow> None
            | Some (a, b) \<Rightarrow> if a = [] \<or> b = [] then None else Some (Some (zero_ses\<lparr>sx_AccessKeyID := a, sx_SecretAccessKey := b\<rparr>))))"

type_synonym email_client = "string \<Rightarrow> string list \<Rightarrow> string \<Rightarrow> string \<Rightarrow> bool"

record email_clients =
  ml_ses :: "string \<Rightarrow> ses_credentials option \<Rightarrow> email_client option"
  ml_sendgrid :: "string \<Rightarrow> string \<Rightarrow> string list \<Rightarrow> string \<Rightarrow> string \<Rightarrow> int option"
  ml_mailgun :: "string \<Rightarrow> string \<Rightarrow> email_client"

definition NewSESSender :: "email_clients \<Rightarrow> string \<Rightarrow> string \<Rightarrow> email_client option" where
  "NewSESSender ml region secretValue =
     (case parseSESCredentials secretValue of
        None \<Rightarrow> None
      | Some creds \<Rightarrow>
          (let finalRegion = (if region = [] then (case creds of None \<Rightarrow> [] | Some c \<Rightarrow> sx_Region c) else region) in
           if finalRegion = [] then None else ml_ses ml finalRegion creds))"

definition NewSendGridSender :: "email_clients \<Rightarrow> string \<Rightarrow> email_client option" where
  "NewSendGridSender ml apiKey =
     (if apiKey = [] then None
      else Some (\<lambda>from to subject body. case ml_sendgrid ml apiKey from to subject body of None \<Rightarrow> False | Some status \<Rightarrow> status < 300))"

definition NewMailgunSender :: "email_clients \<Rightarrow> string \<Rightarrow> string \<Rightarrow> email_client option" where
  "NewMailgunSender ml apiKey domain = (if apiKey = [] \<or> domain = [] then None else Some (ml_mailgun ml apiKey domain))"

text \<open>The three senders refuse an empty list of recipients, and so does the notifier before them.\<close>

definition email_Send :: "email_client \<Rightarrow> string \<Rightarrow> string list \<Rightarrow> notifier" where
  "email_Send sender from to msg = (if from = [] \<or> to = [] then False else sender from to (buildEmailSubject msg) (buildEmailBody msg))"

subsection \<open>Secrets\<close>

record secret_cache_item =
  ci_value :: string
  ci_expiresAt :: time

datatype secret_provider = Env_provider | File_provider | Vault_provider string string | Cloud_provider "string \<Rightarrow> bool" "string \<Rightarrow> string option"

record secret_world =
  wo_env :: "string \<Rightarrow> string option"
  wo_file :: "string \<Rightarrow> string option"
  wo_client :: http_client

definition extractVaultKV2Value :: "string \<Rightarrow> string \<Rightarrow> string option" where
  "extractVaultKV2Value body keyName =
     (case Option.bind (decode_members body) (decode_struct [(''data'', inner_struct [(''data'', map_field id)])] []) of
        None \<Rightarrow> None
      | Some dataMap \<Rightarrow>
          if dataMap = [] then None
          else if keyName \<noteq> [] then Option.bind (map_of dataMap keyName) as_string
          else if length dataMap = 1 then as_string (snd (hd dataMap)) else None)"

fun secret_Match :: "secret_provider \<Rightarrow> string \<Rightarrow> bool" where
  "secret_Match Env_provider ref = HasPrefix ref ''env://''"
| "secret_Match File_provider ref = HasPrefix ref ''file://''"
| "secret_Match (Vault_provider _ _) ref = HasPrefix ref ''vault://''"
| "secret_Match (Cloud_provider match _) ref = match ref"

definition vault_Resolve :: "http_client \<Rightarrow> string \<Rightarrow> string \<Rightarrow> string \<Rightarrow> string option" where
  "vault_Resolve client addr token ref =
     (let raw = drop 8 ref;
          (path, keyName) = (case Cut raw (CHR ''#'') of None \<Rightarrow> (raw, []) | Some p \<Rightarrow> p)
      in if path = [] then None
         else (case client \<lparr>cq_Method = ''GET'', cq_URL = TrimRight addr (CHR ''/'') @ ''/v1/'' @ path, cq_Headers = [(''X-Vault-Token'', token)], cq_Body = []\<rparr> of
                 Inl _ \<Rightarrow> None
               | Inr ans \<Rightarrow> if ha_Status ans < 200 \<or> ha_Status ans \<ge> 300 then None else extractVaultKV2Value (ha_Body ans) keyName))"

fun secret_Resolve :: "secret_world \<Rightarrow> secret_provider \<Rightarrow> string \<Rightarrow> string option" where
  "secret_Resolve w Env_provider ref = (if drop 6 ref = [] then None else wo_env w (drop 6 ref))"
| "secret_Resolve w File_provider ref = (if drop 7 ref = [] then None else map_option TrimSpace (wo_file w (drop 7 ref)))"
| "secret_Resolve w (Vault_provider addr token) ref = vault_Resolve (wo_client w) addr token ref"
| "secret_Resolve w (Cloud_provider _ resolve) ref = resolve ref"

record secret_resolver =
  sr_providers :: "secret_provider list"
  sr_ttl :: int
  sr_cache :: "string \<rightharpoonup> secret_cache_item"

definition fetch_secret :: "secret_world \<Rightarrow> time \<Rightarrow> string \<Rightarrow> secret_resolver \<Rightarrow> string option \<times> secret_resolver" where
  "fetch_secret w now ref r =
     (case find (\<lambda>p. secret_Match p ref) (sr_providers r) of
        None \<Rightarrow> (None, r)
      | Some p \<Rightarrow>
          (case secret_Resolve w p ref of
             None \<Rightarrow> (None, r)
           | Some v \<Rightarrow> (Some v, r\<lparr>sr_cache := (sr_cache r)(ref \<mapsto> \<lparr>ci_value = v, ci_expiresAt = now + sr_ttl r\<rparr>)\<rparr>)))"

definition composite_Resolve :: "secret_world \<Rightarrow> time \<Rightarrow> string \<Rightarrow> secret_resolver \<Rightarrow> string option \<times> secret_resolver" where
  "composite_Resolve w now ref r =
     (if ref = [] then (None, r)
      else (case sr_cache r ref of
              Some item \<Rightarrow> if now < ci_expiresAt item then (Some (ci_value item), r) else fetch_secret w now ref r
            | None \<Rightarrow> fetch_secret w now ref r))"


subsection \<open>The engine\<close>

record suppression =
  sp_DedupKey :: string
  sp_TenantID :: string
  sp_Channel :: string
  sp_EventType :: string
  sp_ResourceID :: string
  sp_Severity :: string
  sp_FirstSeenAt :: time
  sp_LastSeenAt :: time
  sp_LastSentAt :: "time option"
  sp_SuppressedUntil :: "time option"
  sp_SuppressedCount :: int
  sp_LastPayloadHash :: string
  sp_UpdatedAt :: time

type_synonym suppressions = "string \<rightharpoonup> suppression"

definition GetNotificationSuppression :: "store_error option \<Rightarrow> string \<Rightarrow> suppressions \<Rightarrow> store_error + suppression" where
  "GetNotificationSuppression flt key db = (case flt of Some e \<Rightarrow> Inl e | None \<Rightarrow> or_not_found (db key))"

text \<open>On a conflict the time of the first sight stays. The columns keep times to the microsecond.\<close>

definition UpsertNotificationSuppression :: "store_error option \<Rightarrow> time \<Rightarrow> suppression \<Rightarrow> suppressions \<Rightarrow> (store_error + unit) \<times> suppressions" where
  "UpsertNotificationSuppression flt now s db =
     (case flt of
        Some e \<Rightarrow> (Inl e, db)
      | None \<Rightarrow> (Inr (), db(sp_DedupKey s \<mapsto>
          s\<lparr>sp_FirstSeenAt := (case db (sp_DedupKey s) of None \<Rightarrow> stored_time (sp_FirstSeenAt s) | Some old \<Rightarrow> sp_FirstSeenAt old),
            sp_LastSeenAt := stored_time (sp_LastSeenAt s), sp_LastSentAt := map_option stored_time (sp_LastSentAt s),
            sp_SuppressedUntil := map_option stored_time (sp_SuppressedUntil s), sp_UpdatedAt := stored_time now\<rparr>)))"

definition dedupKey :: "(string \<Rightarrow> string) \<Rightarrow> notification_event \<Rightarrow> string \<Rightarrow> string" where
  "dedupKey sha event channel =
     sha (Join ''|'' [ne_TenantID event, ne_EventType event, ne_ResourceID event, ne_Severity event, channel])"

definition writeMap :: "(string \<times> string) list \<Rightarrow> string" where
  "writeMap vals = concat (map (\<lambda>(k, v). ''|'' @ k @ ''='' @ v) (sort_keys vals))"

definition hashMessage :: "(string \<Rightarrow> string) \<Rightarrow> notification_message \<Rightarrow> string" where
  "hashMessage sha msg = sha (nm_Title msg @ ''|'' @ nm_Body msg @ writeMap (nm_Fields msg) @ writeMap (nm_Links msg))"

text \<open>One call of the engine: its clock readings, its faults and the notifier behind the channel.\<close>

record send_env =
  sn_sha :: "string \<Rightarrow> string"
  sn_now :: time
  sn_clock :: time
  sn_get :: "store_error option"
  sn_put :: "store_error option"

definition buildSuppression :: "send_env \<Rightarrow> notification_event \<Rightarrow> string \<Rightarrow> string \<Rightarrow> string \<Rightarrow> time \<Rightarrow> suppression" where
  "buildSuppression env event channel key payloadHash firstSeen =
     \<lparr>sp_DedupKey = key, sp_TenantID = ne_TenantID event, sp_Channel = channel, sp_EventType = ne_EventType event,
      sp_ResourceID = ne_ResourceID event, sp_Severity = ne_Severity event,
      sp_FirstSeenAt = (if firstSeen = zero_time then sn_clock env else firstSeen), sp_LastSeenAt = zero_time, sp_LastSentAt = None,
      sp_SuppressedUntil = None, sp_SuppressedCount = 0, sp_LastPayloadHash = payloadHash, sp_UpdatedAt = zero_time\<rparr>"

definition mergeSuppression :: "suppression option \<Rightarrow> suppression \<Rightarrow> suppression" where
  "mergeSuppression existing new =
     (case existing of
        None \<Rightarrow> new
      | Some old \<Rightarrow>
          if sp_DedupKey old = [] then new
          else new\<lparr>sp_FirstSeenAt := sp_FirstSeenAt old, sp_SuppressedCount := sp_SuppressedCount old,
                   sp_LastSentAt := sp_LastSentAt old, sp_SuppressedUntil := sp_SuppressedUntil old\<rparr>)"

definition should_send :: "int \<Rightarrow> time \<Rightarrow> suppression option \<Rightarrow> bool" where
  "should_send cooldown now existing =
     (case existing of
        None \<Rightarrow> True
      | Some s \<Rightarrow>
          \<not> (case sp_LastSentAt s of None \<Rightarrow> False | Some t \<Rightarrow> now - t < cooldown) \<and>
          \<not> (case sp_SuppressedUntil s of None \<Rightarrow> False | Some t \<Rightarrow> now < t))"

definition defaultCooldown :: int where "defaultCooldown = 600 * second_ns"

definition engine_cooldown :: "int \<Rightarrow> int" where "engine_cooldown c = (if c = 0 then defaultCooldown else c)"

text \<open>The result is whether the call returned no error, and whether the notifier has delivered.\<close>

definition Engine_Send ::
  "(string \<rightharpoonup> notifier) \<Rightarrow> int \<Rightarrow> send_env \<Rightarrow> string \<Rightarrow> notification_event \<Rightarrow> notification_message \<Rightarrow> suppressions
   \<Rightarrow> (bool \<times> bool) \<times> suppressions" where
  "Engine_Send notifiers cooldown env channel event msg db =
     (case notifiers channel of
        None \<Rightarrow> ((False, False), db)
      | Some notifier \<Rightarrow>
          (let key = dedupKey (sn_sha env) event channel; now = sn_now env;
               read = GetNotificationSuppression (sn_get env) key db
           in if (case read of Inl e \<Rightarrow> e \<noteq> ErrNotFound | Inr _ \<Rightarrow> False) then ((False, False), db)
              else (let existing = (case read of Inl _ \<Rightarrow> None | Inr s \<Rightarrow> Some s);
                        base = (mergeSuppression existing (buildSuppression env event channel key (hashMessage (sn_sha env) msg)
                                  (case existing of None \<Rightarrow> zero_time | Some s \<Rightarrow> sp_FirstSeenAt s)))\<lparr>sp_LastSeenAt := now\<rparr>;
                        put = (\<lambda>s. UpsertNotificationSuppression (sn_put env) (sn_clock env) s db)
                    in if \<not> should_send (engine_cooldown cooldown) now existing
                       then (case put (base\<lparr>sp_SuppressedCount := sp_SuppressedCount base + 1\<rparr>) of
                               (Inl _, db1) \<Rightarrow> ((False, False), db1) | (Inr _, db1) \<Rightarrow> ((True, False), db1))
                       else if \<not> notifier msg then (case put base of (_, db1) \<Rightarrow> ((False, False), db1))
                       else (case put (base\<lparr>sp_LastSentAt := Some now, sp_SuppressedUntil := Some (now + engine_cooldown cooldown)\<rparr>) of
                               (Inl _, db1) \<Rightarrow> ((False, True), db1) | (Inr _, db1) \<Rightarrow> ((True, True), db1)))))"

subsection \<open>The service\<close>

record notification_config =
  nf_TenantID :: string
  nf_SlackWebhookEnabled :: bool
  nf_SlackWebhookSecretRef :: string
  nf_SlackWebhookDefaultChannel :: string
  nf_SlackBotEnabled :: bool
  nf_SlackBotSecretRef :: string
  nf_SlackBotDefaultChannel :: string
  nf_SlackBotSigningSecretRef :: string
  nf_EmailEnabled :: bool
  nf_EmailProvider :: string
  nf_EmailSecretRef :: string
  nf_EmailFrom :: string
  nf_EmailRegion :: string
  nf_EmailDomain :: string
  nf_EmailDefaultMailingListID :: string
  nf_TelegramEnabled :: bool
  nf_TelegramSecretRef :: string
  nf_TelegramChatID :: string
  nf_WhatsAppEnabled :: bool
  nf_WhatsAppSecretRef :: string
  nf_WhatsAppPhoneNumberID :: string
  nf_WhatsAppDefaultRecipient :: string
  nf_NotifyApprovalExpiring :: bool
  nf_NotifyTokenAbuse :: bool
  nf_NotifyPolicyInvalid :: bool
  nf_CreatedAt :: time
  nf_UpdatedAt :: time

record notify_db =
  nb_configs :: "string \<rightharpoonup> notification_config"
  nb_members :: "(string \<times> string) list"
  nb_suppressions :: suppressions

record notify_env =
  nv_client :: http_client
  nv_slackJSON :: "notification_message \<Rightarrow> string \<Rightarrow> string"
  nv_slackBot :: "string \<Rightarrow> string \<Rightarrow> notifier"
  nv_mail :: email_clients
  nv_resolver :: "(string \<Rightarrow> string option) option"
  nv_cooldown :: int
  nv_config :: "store_error option"
  nv_memberFault :: "store_error option"
  nv_send :: "string \<Rightarrow> send_env"

definition GetNotificationConfig :: "store_error option \<Rightarrow> string \<Rightarrow> notify_db \<Rightarrow> store_error + notification_config" where
  "GetNotificationConfig flt tenantID db = (case flt of Some e \<Rightarrow> Inl e | None \<Rightarrow> or_not_found (nb_configs db tenantID))"

definition ListMailingListMembers :: "store_error option \<Rightarrow> string \<Rightarrow> notify_db \<Rightarrow> store_error + string list" where
  "ListMailingListMembers flt listID db =
     (case flt of Some e \<Rightarrow> Inl e
      | None \<Rightarrow> Inr (SliceStable str_less (map snd (filter (\<lambda>m. fst m = listID) (nb_members db)))))"

definition ResolveSecret :: "notify_env \<Rightarrow> string \<Rightarrow> string option" where
  "ResolveSecret env ref = (case nv_resolver env of None \<Rightarrow> None | Some resolve \<Rightarrow> resolve ref)"

definition eventEnabled :: "notification_config \<Rightarrow> string \<Rightarrow> bool" where
  "eventEnabled config eventType =
     (if eventType \<in> {''APPROVAL.EXPIRING'', ''APPROVAL.EXPIRED''} then nf_NotifyApprovalExpiring config
      else if eventType = ''SECURITY.TOKEN_ABUSE'' then nf_NotifyTokenAbuse config
      else if eventType \<in> {''POLICY.INVALID_OUTPUT'', ''POLICY.EVAL_ERROR''} then nf_NotifyPolicyInvalid config
      else True)"

text \<open>What is sent on a channel: \<open>None\<close> when the channel is not used, \<open>Some None\<close> when its set-up
  fails, else the notifier.\<close>

type_synonym channel_plan = "notifier option option"

definition with_secret :: "notify_env \<Rightarrow> bool \<Rightarrow> string \<Rightarrow> (string \<Rightarrow> notifier) \<Rightarrow> channel_plan" where
  "with_secret env used ref build = (if \<not> used then None else Some (map_option build (ResolveSecret env ref)))"

definition email_sender :: "notify_env \<Rightarrow> notification_config \<Rightarrow> string \<Rightarrow> email_client option" where
  "email_sender env config secretValue =
     (let provider = ToLower (nf_EmailProvider config) in
      if provider = ''ses'' then NewSESSender (nv_mail env) (nf_EmailRegion config) secretValue
      else if provider = ''sendgrid'' then NewSendGridSender (nv_mail env) secretValue
      else if provider = ''mailgun'' then NewMailgunSender (nv_mail env) secretValue (nf_EmailDomain config)
      else None)"

definition sendEmail :: "notify_env \<Rightarrow> notification_config \<Rightarrow> notify_db \<Rightarrow> notifier option" where
  "sendEmail env config db =
     (if nf_EmailProvider config = [] \<or> nf_EmailFrom config = [] \<or> nf_EmailDefaultMailingListID config = [] then None
      else (case ListMailingListMembers (nv_memberFault env) (nf_EmailDefaultMailingListID config) db of
              Inl _ \<Rightarrow> None
            | Inr members \<Rightarrow>
                (let recipients = filter (\<lambda>m. m \<noteq> []) members in
                 if recipients = [] then None
                 else (case (if nf_EmailSecretRef config = [] then Some [] else ResolveSecret env (nf_EmailSecretRef config)) of
                         None \<Rightarrow> None
                       | Some secretValue \<Rightarrow>
                           map_option (\<lambda>sender. email_Send sender (nf_EmailFrom config) recipients) (email_sender env config secretValue)))))"

definition channel_plans :: "notify_env \<Rightarrow> notification_config \<Rightarrow> notify_db \<Rightarrow> (string \<times> channel_plan) list" where
  "channel_plans env config db =
     [(''slack_webhook'', with_secret env (nf_SlackWebhookEnabled config \<and> nf_SlackWebhookSecretRef config \<noteq> []) (nf_SlackWebhookSecretRef config)
         (\<lambda>u msg. delivered (slack_webhook_Send (nv_client env) (nv_slackJSON env) u (nf_SlackWebhookDefaultChannel config) msg))),
      (''slack_bot'', with_secret env (nf_SlackBotEnabled config \<and> nf_SlackBotSecretRef config \<noteq> [] \<and> nf_SlackBotDefaultChannel config \<noteq> [])
         (nf_SlackBotSecretRef config) (\<lambda>token. nv_slackBot env token (nf_SlackBotDefaultChannel config))),
      (''email'', if \<not> nf_EmailEnabled config then None else Some (sendEmail env config db)),
      (''telegram'', with_secret env (nf_TelegramEnabled config \<and> nf_TelegramSecretRef config \<noteq> [] \<and> nf_TelegramChatID config \<noteq> [])
         (nf_TelegramSecretRef config) (\<lambda>token msg. delivered (telegram_Send (nv_client env) token (nf_TelegramChatID config) msg))),
      (''whatsapp'', with_secret env (nf_WhatsAppEnabled config \<and> nf_WhatsAppSecretRef config \<noteq> [] \<and> nf_WhatsAppPhoneNumberID config \<noteq> [] \<and>
           nf_WhatsAppDefaultRecipient config \<noteq> []) (nf_WhatsAppSecretRef config)
         (\<lambda>token msg. delivered (whatsapp_Send (nv_client env) token (nf_WhatsAppPhoneNumberID config) (nf_WhatsAppDefaultRecipient config) msg)))]"

text \<open>One channel after the other; an error on one does not stop the next. The channels that delivered
  are collected.\<close>

definition send_channel ::
  "notify_env \<Rightarrow> notification_event \<Rightarrow> notification_message \<Rightarrow> string \<times> channel_plan \<Rightarrow> (bool \<times> string list) \<times> suppressions
   \<Rightarrow> (bool \<times> string list) \<times> suppressions" where
  "send_channel env event msg cp acc =
     (case (cp, acc) of ((channel, plan), ((ok, sent), db)) \<Rightarrow>
        (case plan of
           None \<Rightarrow> acc
         | Some None \<Rightarrow> ((False, sent), db)
         | Some (Some notifier) \<Rightarrow>
             (case Engine_Send [channel \<mapsto> notifier] (nv_cooldown env) (nv_send env channel) channel event msg db of
                ((r, d), db1) \<Rightarrow> ((ok \<and> r, if d then sent @ [channel] else sent), db1))))"

definition Service_Send :: "notify_env \<Rightarrow> string \<Rightarrow> notification_event \<Rightarrow> notification_message \<Rightarrow> notify_db \<Rightarrow> (bool \<times> string list) \<times> notify_db" where
  "Service_Send env tenantID event msg db =
     (case GetNotificationConfig (nv_config env) tenantID db of
        Inl e \<Rightarrow> ((e = ErrNotFound, []), db)
      | Inr config \<Rightarrow>
          if \<not> eventEnabled config (ne_EventType event) then ((True, []), db)
          else (case fold (send_channel env event msg) (channel_plans env config db) ((True, []), nb_suppressions db) of
                  (r, sups) \<Rightarrow> (r, db\<lparr>nb_suppressions := sups\<rparr>)))"


subsection \<open>How often a notice is delivered\<close>

record send_call =
  sl_notifiers :: "string \<rightharpoonup> notifier"
  sl_env :: send_env
  sl_channel :: string
  sl_event :: notification_event
  sl_msg :: notification_message

definition call_key :: "send_call \<Rightarrow> string" where
  "call_key c = dedupKey (sn_sha (sl_env c)) (sl_event c) (sl_channel c)"

text \<open>The deliveries of a sequence of calls, one after the other: the key, the reading of the clock and
  whether the store accepted the row that records the delivery.\<close>

fun deliveries :: "int \<Rightarrow> send_call list \<Rightarrow> suppressions \<Rightarrow> (string \<times> time \<times> bool) list" where
  "deliveries cooldown [] db = []"
| "deliveries cooldown (c # cs) db =
     (case Engine_Send (sl_notifiers c) cooldown (sl_env c) (sl_channel c) (sl_event c) (sl_msg c) db of
        ((_, d), db1) \<Rightarrow> (if d then [(call_key c, sn_now (sl_env c), sn_put (sl_env c) = None)] else []) @ deliveries cooldown cs db1)"

definition keyed :: "suppressions \<Rightarrow> bool" where
  "keyed db = (\<forall>k s. db k = Some s \<longrightarrow> sp_DedupKey s = k \<and> k \<noteq> [])"

text \<open>A fault of a read is an error of the database, not a missing row, and a digest is not empty.\<close>

definition sound_call :: "send_call \<Rightarrow> bool" where
  "sound_call c = (sn_get (sl_env c) \<noteq> Some ErrNotFound \<and> call_key c \<noteq> [])"

text \<open>What one call does: \<open>d\<close> says whether it delivered and \<open>w\<close> whether the store accepts its write.\<close>

definition engine_effect :: "int \<Rightarrow> string \<Rightarrow> time \<Rightarrow> bool \<Rightarrow> bool \<Rightarrow> suppressions \<Rightarrow> suppressions \<Rightarrow> bool" where
  "engine_effect cooldown key now d w db db' \<longleftrightarrow>
     (d \<longrightarrow> (\<forall>s t. db key = Some s \<longrightarrow> sp_LastSentAt s = Some t \<longrightarrow> t + cooldown \<le> now)) \<and>
     (db' = db \<and> \<not> (d \<and> w) \<or>
      (\<exists>row. db' = db(key \<mapsto> row) \<and> sp_DedupKey row = key \<and>
         (if d then sp_LastSentAt row = Some (stored_time now)
          else \<forall>s. db key = Some s \<longrightarrow> sp_LastSentAt row = map_option stored_time (sp_LastSentAt s))))"

lemma merge_simps:
  "sp_DedupKey (mergeSuppression e new) = sp_DedupKey new"
  "sp_DedupKey old \<noteq> [] \<Longrightarrow> sp_LastSentAt (mergeSuppression (Some old) new) = sp_LastSentAt old"
  by (simp_all add: mergeSuppression_def split: option.splits)

lemma build_key: "sp_DedupKey (buildSuppression env event channel key h t) = key"
  by (simp add: buildSuppression_def)

lemma upsert_cases:
  assumes "UpsertNotificationSuppression flt now s db = (r, db')"
  shows "flt \<noteq> None \<and> db' = db \<or>
    flt = None \<and> (\<exists>row. db' = db(sp_DedupKey s \<mapsto> row) \<and> sp_DedupKey row = sp_DedupKey s \<and>
      sp_LastSentAt row = map_option stored_time (sp_LastSentAt s))"
  using assms by (auto simp: UpsertNotificationSuppression_def split: option.splits)

lemma Engine_Send_cases:
  assumes "Engine_Send ns cooldown env ch ev msg db = ((ok, d), db')" and "keyed db"
    and "sn_get env \<noteq> Some ErrNotFound" and "k = dedupKey (sn_sha env) ev ch"
  shows "(db' = db \<and> \<not> d) \<or>
    (\<exists>row r. UpsertNotificationSuppression (sn_put env) (sn_clock env) row db = (r, db') \<and> sp_DedupKey row = k \<and>
      (if d then should_send (engine_cooldown cooldown) (sn_now env) (db k) \<and> sp_LastSentAt row = Some (sn_now env)
       else \<forall>s. db k = Some s \<longrightarrow> sp_LastSentAt row = sp_LastSentAt s))"
proof (cases "ns ch = None \<or> sn_get env \<noteq> None")
  case True
  then show ?thesis using assms(1,3)
    by (auto simp: Engine_Send_def GetNotificationSuppression_def Let_def split: option.splits)
next
  case False
  have key: "sp_DedupKey s \<noteq> []" if "db k = Some s" for s using assms(2) that by (auto simp: keyed_def)
  from False obtain n where n: "ns ch = Some n" "sn_get env = None" by auto
  let ?fs = "case db k of None \<Rightarrow> zero_time | Some s \<Rightarrow> sp_FirstSeenAt s"
  let ?base = "(mergeSuppression (db k) (buildSuppression env ev ch k (hashMessage (sn_sha env) msg) ?fs))\<lparr>sp_LastSeenAt := sn_now env\<rparr>"
  have b: "sp_DedupKey ?base = k" "\<forall>s. db k = Some s \<longrightarrow> sp_LastSentAt ?base = sp_LastSentAt s"
    using key by (auto simp: merge_simps build_key)
  let ?put = "\<lambda>row. UpsertNotificationSuppression (sn_put env) (sn_clock env) row db"
  have "Engine_Send ns cooldown env ch ev msg db =
      (if \<not> should_send (engine_cooldown cooldown) (sn_now env) (db k)
       then (case ?put (?base\<lparr>sp_SuppressedCount := sp_SuppressedCount ?base + 1\<rparr>) of
               (Inl _, db1) \<Rightarrow> ((False, False), db1) | (Inr _, db1) \<Rightarrow> ((True, False), db1))
       else if \<not> n msg then (case ?put ?base of (_, db1) \<Rightarrow> ((False, False), db1))
       else (case ?put (?base\<lparr>sp_LastSentAt := Some (sn_now env), sp_SuppressedUntil := Some (sn_now env + engine_cooldown cooldown)\<rparr>) of
               (Inl _, db1) \<Rightarrow> ((False, True), db1) | (Inr _, db1) \<Rightarrow> ((True, True), db1)))"
    using n unfolding assms(4)
    by (cases "db (dedupKey (sn_sha env) ev ch)") (simp_all add: Engine_Send_def GetNotificationSuppression_def or_not_found_def Let_def)
  with assms(1) b show ?thesis
    by (auto split: if_splits prod.splits sum.splits)
qed

lemma Engine_Send_effect:
  assumes "Engine_Send ns cooldown env ch ev msg db = ((ok, d), db')" and "keyed db"
    and "sn_get env \<noteq> Some ErrNotFound" and "k = dedupKey (sn_sha env) ev ch"
  shows "engine_effect (engine_cooldown cooldown) k (sn_now env) d (sn_put env = None) db db'"
proof -
  have sent: "t + engine_cooldown cooldown \<le> sn_now env"
    if "should_send (engine_cooldown cooldown) (sn_now env) (Some s)" "sp_LastSentAt s = Some t" for s t
    using that by (auto simp: should_send_def split: option.splits)
  from Engine_Send_cases [OF assms] show ?thesis
  proof (elim disjE exE conjE)
    fix row r
    assume u: "UpsertNotificationSuppression (sn_put env) (sn_clock env) row db = (r, db')" and k: "sp_DedupKey row = k"
      and c: "if d then should_send (engine_cooldown cooldown) (sn_now env) (db k) \<and> sp_LastSentAt row = Some (sn_now env)
        else \<forall>s. db k = Some s \<longrightarrow> sp_LastSentAt row = sp_LastSentAt s"
    from c sent have "d \<longrightarrow> (\<forall>s t. db k = Some s \<longrightarrow> sp_LastSentAt s = Some t \<longrightarrow> t + engine_cooldown cooldown \<le> sn_now env)"
      by (auto split: if_splits)
    with upsert_cases [OF u] k c show ?thesis unfolding engine_effect_def by (cases d) auto
  qed (simp add: engine_effect_def)
qed

lemma effect_keyed: "engine_effect c k now d w db db' \<Longrightarrow> keyed db \<Longrightarrow> k \<noteq> [] \<Longrightarrow> keyed db'"
  unfolding engine_effect_def keyed_def by (metis fun_upd_apply option.inject)

lemma deliveries_step:
  assumes "keyed db" and "sound_call c"
  obtains d db' where
    "deliveries cooldown (c # cs) db =
       (if d then [(call_key c, sn_now (sl_env c), sn_put (sl_env c) = None)] else []) @ deliveries cooldown cs db'"
    "engine_effect (engine_cooldown cooldown) (call_key c) (sn_now (sl_env c)) d (sn_put (sl_env c) = None) db db'" "keyed db'"
proof -
  obtain ok d db' where e: "Engine_Send (sl_notifiers c) cooldown (sl_env c) (sl_channel c) (sl_event c) (sl_msg c) db = ((ok, d), db')"
    by (metis prod.collapse)
  have "engine_effect (engine_cooldown cooldown) (call_key c) (sn_now (sl_env c)) d (sn_put (sl_env c) = None) db db'"
    using Engine_Send_effect [OF e assms(1)] assms(2) by (simp add: sound_call_def call_key_def)
  moreover from effect_keyed [OF this assms(1)] assms(2) have "keyed db'" by (simp add: sound_call_def)
  ultimately show ?thesis using that [of d db'] e by simp
qed

lemma stored_time_mono: "s \<le> t \<Longrightarrow> stored_time s \<le> stored_time t"
  by (simp add: stored_time_def zdiv_mono1)

lemma stored_time_idem [simp]: "stored_time (stored_time t) = stored_time t"
  by (simp add: stored_time_def)

lemma stored_time_near: "t < stored_time t + 1000"
  using mult_div_mod_eq [of 1000 t] pos_mod_bound [of 1000 t] by (simp add: stored_time_def mult.commute)

lemma later_deliveries:
  assumes "keyed db" and "list_all sound_call cs" and "0 \<le> engine_cooldown cooldown"
    and "db k = Some s" and "sp_LastSentAt s = Some (stored_time t)" and "(k, t', w) \<in> set (deliveries cooldown cs db)"
  shows "stored_time t + engine_cooldown cooldown \<le> t'"
  using assms
proof (induction cs arbitrary: db s t)
  case (Cons c cs)
  then have "sound_call c" by simp
  from deliveries_step [OF Cons.prems(1) this, of cooldown cs] obtain d db' where st:
      "deliveries cooldown (c # cs) db =
         (if d then [(call_key c, sn_now (sl_env c), sn_put (sl_env c) = None)] else []) @ deliveries cooldown cs db'"
      "engine_effect (engine_cooldown cooldown) (call_key c) (sn_now (sl_env c)) d (sn_put (sl_env c) = None) db db'" "keyed db'" by blast
  note ih = Cons.IH [OF st(3) _ Cons.prems(3)]
  have due: "stored_time t + engine_cooldown cooldown \<le> sn_now (sl_env c)" if "d" "call_key c = k"
    using st(2) Cons.prems(4,5) that by (auto simp: engine_effect_def)
  obtain s' t1 where r: "db' k = Some s'" "sp_LastSentAt s' = Some (stored_time t1)" "stored_time t \<le> stored_time t1"
  proof (cases "d \<and> sn_put (sl_env c) = None \<and> call_key c = k")
    case True
    then obtain row where "db' k = Some row" "sp_LastSentAt row = Some (stored_time (sn_now (sl_env c)))"
      using st(2) by (auto simp: engine_effect_def)
    moreover have "stored_time t \<le> stored_time (sn_now (sl_env c))"
      using stored_time_mono [of "stored_time t" "sn_now (sl_env c)"] due True Cons.prems(3) by simp
    ultimately show thesis by (rule that)
  next
    case False
    then have "\<exists>s'. db' k = Some s' \<and> (sp_LastSentAt s' = Some (stored_time t) \<or>
        d \<and> call_key c = k \<and> sp_LastSentAt s' = Some (stored_time (sn_now (sl_env c))))"
      using st(2) Cons.prems(4,5) by (auto simp: engine_effect_def split: if_splits)
    then show thesis
      using that [of _ t] that [of _ "sn_now (sl_env c)"] stored_time_mono [of "stored_time t" "sn_now (sl_env c)"] due Cons.prems(3) by auto
  qed
  consider "d" "call_key c = k" "t' = sn_now (sl_env c)" | "(k, t', w) \<in> set (deliveries cooldown cs db')"
    using Cons.prems(6) unfolding st(1) by (auto split: if_splits)
  then show ?case
  proof cases
    case 2
    from ih [OF _ r(1,2) this] Cons.prems(2) r(3) show ?thesis by simp
  qed (use due in simp)
qed simp

text \<open>C29: a notice is not repeated within the cooldown. Take any sequence of calls of the engine that do
  not overlap, for any tenants, channels and events, with any clocks, notifiers and faults of the store.
  When the store has accepted the row that records a delivery, then every later delivery of the same
  tenant, event, resource, severity and channel starts at least the cooldown later, up to the
  microsecond that the store rounds times to. (A delivery whose row the store refused holds nothing
  back, and calls that overlap do not see each other's rows.)\<close>

theorem notices_spaced:
  assumes "keyed db" and "list_all sound_call calls" and "0 \<le> cooldown"
  shows "sorted_wrt (\<lambda>(k, t, recorded) (k', t', _). k = k' \<and> recorded \<longrightarrow> t + engine_cooldown cooldown < t' + 1000)
    (deliveries cooldown calls db)"
  using assms(1,2)
proof (induction calls arbitrary: db)
  case (Cons c cs)
  then have "sound_call c" by simp
  from deliveries_step [OF Cons.prems(1) this, of cooldown cs] obtain d db' where st:
      "deliveries cooldown (c # cs) db =
         (if d then [(call_key c, sn_now (sl_env c), sn_put (sl_env c) = None)] else []) @ deliveries cooldown cs db'"
      "engine_effect (engine_cooldown cooldown) (call_key c) (sn_now (sl_env c)) d (sn_put (sl_env c) = None) db db'" "keyed db'" by blast
  have c: "0 \<le> engine_cooldown cooldown" using assms(3) by (simp add: engine_cooldown_def defaultCooldown_def second_ns_def)
  have "sn_now (sl_env c) + engine_cooldown cooldown < t' + 1000"
    if "d" "sn_put (sl_env c) = None" "(call_key c, t', w) \<in> set (deliveries cooldown cs db')" for t' w
  proof -
    from st(2) that(1,2) obtain row where "db' (call_key c) = Some row" "sp_LastSentAt row = Some (stored_time (sn_now (sl_env c)))"
      by (auto simp: engine_effect_def)
    from later_deliveries [OF st(3) _ c this that(3)] Cons.prems(2) stored_time_near [of "sn_now (sl_env c)"] show ?thesis by simp
  qed
  with Cons.IH [OF st(3)] Cons.prems(2) show ?case unfolding st(1) by auto
qed simp

text \<open>The escaping of Telegram leaves the backslash alone: in front of a character that is escaped it
  takes the effect of the escape away.\<close>

lemma backslash_breaks_escape: "escapeTelegramMarkdown [backslash, CHR ''*''] = [backslash, backslash, CHR ''*'']"
  by (simp add: escapeTelegramMarkdown_def telegram_special_def backslash_def)

definition sample_notice :: "store_error option \<Rightarrow> time \<Rightarrow> send_call" where
  "sample_notice flt t = \<lparr>sl_notifiers = [''email'' \<mapsto> (\<lambda>_. True)],
     sl_env = \<lparr>sn_sha = (\<lambda>s. ''s'' @ s), sn_now = t, sn_clock = t, sn_get = None, sn_put = flt\<rparr>, sl_channel = ''email'',
     sl_event = \<lparr>ne_TenantID = ''t1'', ne_EventType = ''APPROVAL.EXPIRED'', ne_Severity = ''WARN'', ne_ResourceID = ''ap1''\<rparr>,
     sl_msg = \<lparr>nm_Title = ''Approval expired'', nm_Body = [], nm_Fields = [], nm_Links = []\<rparr>\<rparr>"

text \<open>The second notice is held back, the third delivered but not recorded, so the fourth follows at once.\<close>

abbreviation sample_calls :: "send_call list" where
  "sample_calls \<equiv> [sample_notice None 1, sample_notice None 6, sample_notice (Some ErrDB) (1 + defaultCooldown),
     sample_notice None (2 + defaultCooldown)]"

lemma sample_deliveries:
  "map snd (deliveries 0 sample_calls Map.empty) = [(1, True), (1 + defaultCooldown, False), (2 + defaultCooldown, True)]"
  by (simp add: sample_notice_def Engine_Send_def GetNotificationSuppression_def or_not_found_def should_send_def engine_cooldown_def
      defaultCooldown_def second_ns_def UpsertNotificationSuppression_def stored_time_def merge_simps build_key mergeSuppression_def
      buildSuppression_def dedupKey_def Let_def)

theorem notices_spaced_witness:
  "sorted_wrt (\<lambda>(k, t, recorded) (k', t', _). k = k' \<and> recorded \<longrightarrow> t + engine_cooldown 0 < t' + 1000)
     (deliveries 0 sample_calls Map.empty) \<and>
   map snd (deliveries 0 sample_calls Map.empty) = [(1, True), (1 + defaultCooldown, False), (2 + defaultCooldown, True)]"
proof -
  have "list_all sound_call sample_calls" by (simp add: sample_notice_def sound_call_def call_key_def dedupKey_def)
  from notices_spaced [OF _ this, of Map.empty 0] sample_deliveries show ?thesis by (simp add: keyed_def del: deliveries.simps)
qed

end
