(* ===== verification/Expiry_Scheduler.thy ===== *)
theory Expiry_Scheduler
  imports Notifications
begin

text \<open>
  The scheduler that expires approvals (\<open>src/internal/notifications/scheduler.go\<close>) with the queries it runs
  (\<open>store.go\<close>): one pass under an advisory lock of the database. An advisory lock belongs to the
  connection that took it; which connection of the pool a statement gets is given by the environment, as is
  the order in which the table of approvals is read. The theorems show what a pass does to the approvals and
  what happens when the lock is released on another connection than the one that took it.
\<close>

subsection \<open>Advisory locks\<close>

type_synonym lock_table = "int \<rightharpoonup> nat \<times> nat"

definition TryAdvisoryLock :: "store_error option \<Rightarrow> nat \<Rightarrow> int \<Rightarrow> lock_table \<Rightarrow> (store_error + bool) \<times> lock_table" where
  "TryAdvisoryLock flt conn key locks =
     (case flt of
        Some e \<Rightarrow> (Inl e, locks)
      | None \<Rightarrow>
          (case locks key of
             None \<Rightarrow> (Inr True, locks(key \<mapsto> (conn, 1)))
           | Some (owner, n) \<Rightarrow> if owner = conn then (Inr True, locks(key \<mapsto> (owner, Suc n))) else (Inr False, locks)))"

text \<open>The answer of \<open>pg_advisory_unlock\<close>, false when the connection does not hold the lock, is
  read and dropped.\<close>

definition ReleaseAdvisoryLock :: "store_error option \<Rightarrow> nat \<Rightarrow> int \<Rightarrow> lock_table \<Rightarrow> (store_error + unit) \<times> lock_table" where
  "ReleaseAdvisoryLock flt conn key locks =
     (case flt of
        Some e \<Rightarrow> (Inl e, locks)
      | None \<Rightarrow>
          (Inr (), case locks key of
             None \<Rightarrow> locks
           | Some (owner, n) \<Rightarrow>
               if owner \<noteq> conn then locks else if n \<le> 1 then locks(key := None) else locks(key \<mapsto> (owner, n - 1))))"

definition scheduler_hashLockKey :: "(string \<Rightarrow> string) \<Rightarrow> string \<Rightarrow> int" where
  "scheduler_hashLockKey sha val =
     (let bytes = map (\<lambda>c. of_char c :: int) (take 4 (sha val)) in foldr (\<lambda>b acc. b + 256 * acc) bytes 0)"

subsection \<open>Queries\<close>

definition scanApprovalRequest :: "approval_request \<Rightarrow> approval_request" where
  "scanApprovalRequest a = a\<lparr>ap_ExecutingAt := None, ap_ExecutionID := [], ap_FailedAt := None, ap_LastErrorCode := []\<rparr>"

definition approval_rows :: "string list \<Rightarrow> store_db \<Rightarrow> approval_request list" where
  "approval_rows ids db = List.map_filter (approvals db) ids"

definition open_status :: "approval_request \<Rightarrow> bool" where
  "open_status a = (ap_Status a \<in> {PENDING, APPROVED})"

definition ListApprovalsExpiring ::
  "store_error option \<Rightarrow> string list \<Rightarrow> time \<Rightarrow> int \<Rightarrow> store_db \<Rightarrow> store_error + approval_request list" where
  "ListApprovalsExpiring flt ids now window db =
     (case flt of
        Some e \<Rightarrow> Inl e
      | None \<Rightarrow> Inr (map scanApprovalRequest (SliceStable (\<lambda>a b. ap_ExpiresAt a < ap_ExpiresAt b)
          (filter (\<lambda>a. open_status a \<and> now < ap_ExpiresAt a \<and> ap_ExpiresAt a \<le> now + window) (approval_rows ids db)))))"

definition ListApprovalsExpired :: "store_error option \<Rightarrow> string list \<Rightarrow> time \<Rightarrow> store_db \<Rightarrow> store_error + approval_request list" where
  "ListApprovalsExpired flt ids now db =
     (case flt of
        Some e \<Rightarrow> Inl e
      | None \<Rightarrow> Inr (map scanApprovalRequest (SliceStable (\<lambda>a b. ap_ExpiresAt a < ap_ExpiresAt b)
          (filter (\<lambda>a. open_status a \<and> ap_ExpiresAt a \<le> now) (approval_rows ids db)))))"

subsection \<open>One pass\<close>

record sched_env =
  sv_key :: int
  sv_tryConn :: nat
  sv_releaseConn :: nat
  sv_tryFault :: "store_error option"
  sv_releaseFault :: "store_error option"
  sv_rows :: "string list"
  sv_now :: time
  sv_window :: int
  sv_expiring :: "store_error option"
  sv_expired :: "store_error option"
  sv_mark :: "string \<Rightarrow> store_error option"
  sv_sender :: bool
  sv_ticketing :: bool
  sv_notify :: "string \<Rightarrow> string \<Rightarrow> notify_env"

record sched_state =
  sd_store :: store_db
  sd_notify :: notify_db
  sd_locks :: lock_table
  sd_tickets :: "(string \<times> string) list"

definition formatDurationMinutes :: "int \<Rightarrow> string" where
  "formatDurationMinutes d =
     (let minutes = max (if d < 0 then 0 else d div (60 * second_ns)) 0 in if minutes = 0 then ''now'' else int_text minutes @ ''m'')"

definition ApprovalNotificationMessage :: "approval_request \<Rightarrow> string \<Rightarrow> time \<Rightarrow> notification_message" where
  "ApprovalNotificationMessage a eventType now = BuildMessage eventType
     ([(''Tenant'', ap_TenantID a), (''Approval'', ap_ApprovalRequestID a), (''Action'', ap_ActionType a), (''Risk'', ap_Risk a)] @
      (if eventType = ''APPROVAL.EXPIRING'' then [(''ExpiresIn'', formatDurationMinutes (ap_ExpiresAt a - now))] else []) @
      [(''summary'', ap_ActionSummary a)])"

text \<open>An error of a notice is only logged.\<close>

definition notifyApproval :: "sched_env \<Rightarrow> string \<Rightarrow> approval_request \<Rightarrow> notify_db \<Rightarrow> notify_db" where
  "notifyApproval env eventType a db =
     (if \<not> sv_sender env then db
      else snd (Service_Send (sv_notify env eventType (ap_ApprovalRequestID a)) (ap_TenantID a)
             \<lparr>ne_TenantID = ap_TenantID a, ne_EventType = eventType, ne_Severity = ''WARN'', ne_ResourceID = ap_ApprovalRequestID a\<rparr>
             (ApprovalNotificationMessage a eventType (sv_now env)) db))"

definition expire_one :: "sched_env \<Rightarrow> approval_request \<Rightarrow> sched_state \<Rightarrow> sched_state" where
  "expire_one env a s =
     (case with_fault (sv_mark env (ap_ApprovalRequestID a))
             (MarkApprovalExpired (ap_TenantID a) (ap_ApprovalRequestID a) (sv_now env)) (sd_store s) of
        (Inl _, db) \<Rightarrow> s\<lparr>sd_store := db\<rparr>
      | (Inr _, db) \<Rightarrow>
          s\<lparr>sd_store := db, sd_notify := notifyApproval env ''APPROVAL.EXPIRED'' a (sd_notify s),
            sd_tickets := (if sv_ticketing env then sd_tickets s @ [(ap_TenantID a, ap_ApprovalRequestID a)] else sd_tickets s)\<rparr>)"

definition locked_pass :: "sched_env \<Rightarrow> sched_state \<Rightarrow> sched_state" where
  "locked_pass env s =
     (case ListApprovalsExpiring (sv_expiring env) (sv_rows env) (sv_now env) (sv_window env) (sd_store s) of
        Inl _ \<Rightarrow> s
      | Inr expiring \<Rightarrow>
          (let s1 = s\<lparr>sd_notify := fold (notifyApproval env ''APPROVAL.EXPIRING'') expiring (sd_notify s)\<rparr> in
           case ListApprovalsExpired (sv_expired env) (sv_rows env) (sv_now env) (sd_store s1) of
             Inl _ \<Rightarrow> s1
           | Inr expired \<Rightarrow> fold (expire_one env) expired s1))"

definition scheduler_run :: "sched_env \<Rightarrow> sched_state \<Rightarrow> sched_state" where
  "scheduler_run env s =
     (case TryAdvisoryLock (sv_tryFault env) (sv_tryConn env) (sv_key env) (sd_locks s) of
        (Inr True, locks) \<Rightarrow>
          (let s1 = locked_pass env (s\<lparr>sd_locks := locks\<rparr>)
           in s1\<lparr>sd_locks := snd (ReleaseAdvisoryLock (sv_releaseFault env) (sv_releaseConn env) (sv_key env) (sd_locks s1))\<rparr>)
      | (_, locks) \<Rightarrow> s\<lparr>sd_locks := locks\<rparr>)"

subsection \<open>What a pass does\<close>

definition store_keyed :: "store_db \<Rightarrow> bool" where
  "store_keyed db = (\<forall>i a. approvals db i = Some a \<longrightarrow> ap_ApprovalRequestID a = i)"

definition due :: "time \<Rightarrow> approval_request \<Rightarrow> bool" where
  "due now a = (open_status a \<and> ap_ExpiresAt a \<le> now)"

definition mark_expired :: "time \<Rightarrow> approval_request \<Rightarrow> approval_request" where
  "mark_expired now a = a\<lparr>ap_Status := EXPIRED, ap_DecidedAt := Some now\<rparr>"

lemma expire_one_store:
  assumes "sv_mark env = (\<lambda>_. None)" and "approvals (sd_store s) (ap_ApprovalRequestID a) = Some row" and "ap_TenantID row = ap_TenantID a"
    and "open_status row"
  shows "approvals (sd_store (expire_one env a s)) = (approvals (sd_store s))(ap_ApprovalRequestID a \<mapsto> mark_expired (sv_now env) row)"
    and "decisions (sd_store (expire_one env a s)) = decisions (sd_store s)"
    and "sd_tickets (expire_one env a s) = sd_tickets s @ (if sv_ticketing env then [(ap_TenantID a, ap_ApprovalRequestID a)] else [])"
    and "sd_locks (expire_one env a s) = sd_locks s"
  using assms
  by (simp_all add: expire_one_def with_fault_def MarkApprovalExpired_def affected_result_def update_approval_def approval_row_def
      open_status_def mark_expired_def)

definition expire_ids :: "time \<Rightarrow> string set \<Rightarrow> (string \<rightharpoonup> approval_request) \<Rightarrow> (string \<rightharpoonup> approval_request)" where
  "expire_ids now ids m = (\<lambda>i. if i \<in> ids then map_option (mark_expired now) (m i) else m i)"

definition listed_row :: "store_db \<Rightarrow> approval_request \<Rightarrow> bool" where
  "listed_row db a =
     (\<exists>row. approvals db (ap_ApprovalRequestID a) = Some row \<and> ap_TenantID row = ap_TenantID a \<and> open_status row)"

lemma expire_all:
  assumes "sv_mark env = (\<lambda>_. None)" and "distinct (map ap_ApprovalRequestID as)" and "\<forall>a\<in>set as. listed_row (sd_store s) a"
  shows "approvals (sd_store (fold (expire_one env) as s)) = expire_ids (sv_now env) (ap_ApprovalRequestID ` set as) (approvals (sd_store s)) \<and>
    decisions (sd_store (fold (expire_one env) as s)) = decisions (sd_store s) \<and>
    sd_tickets (fold (expire_one env) as s) =
      sd_tickets s @ (if sv_ticketing env then map (\<lambda>a. (ap_TenantID a, ap_ApprovalRequestID a)) as else []) \<and>
    sd_locks (fold (expire_one env) as s) = sd_locks s"
  using assms(2,3)
proof (induction as arbitrary: s)
  case (Cons a as)
  then obtain row where r: "approvals (sd_store s) (ap_ApprovalRequestID a) = Some row" "ap_TenantID row = ap_TenantID a" "open_status row"
    by (auto simp: listed_row_def)
  note one = expire_one_store [OF assms(1) r]
  have "ap_ApprovalRequestID b \<noteq> ap_ApprovalRequestID a" if "b \<in> set as" for b
    using Cons.prems(1) that by (auto dest!: arg_cong [where f = "\<lambda>i. i \<in> ap_ApprovalRequestID ` set as"])
  then have "\<forall>b\<in>set as. listed_row (sd_store (expire_one env a s)) b"
    using Cons.prems(2) by (simp add: listed_row_def one(1))
  from Cons.IH [OF _ this] Cons.prems(1) r(1) show ?case
    by (auto simp: one expire_ids_def fun_eq_iff)
qed (simp add: expire_ids_def)

lemma rows_of:
  assumes "set ids = dom (approvals db)" and "store_keyed db"
  shows "set (approval_rows ids db) = ran (approvals db)"
  using assms by (force simp: approval_rows_def List.map_filter_def ran_def)

lemma rows_distinct:
  assumes "distinct ids" and "store_keyed db"
  shows "distinct (map ap_ApprovalRequestID (approval_rows ids db))"
  using assms(1)
proof (induction ids)
  case (Cons i ids)
  have "ap_ApprovalRequestID a \<noteq> i" if "a \<in> set (approval_rows ids db)" for a
    using that Cons.prems assms(2) by (auto simp: approval_rows_def List.map_filter_def store_keyed_def)
  with Cons assms(2) show ?case
    by (auto simp: approval_rows_def List.map_filter_def store_keyed_def split: option.splits)
qed (simp add: approval_rows_def List.map_filter_def)

lemma distinct_insert: "distinct (map f (stable_insert lt x xs)) = distinct (map f (x # xs))"
  by (induction xs) auto

lemma distinct_SliceStable: "distinct (map f (SliceStable lt xs)) = distinct (map f xs)"
  by (induction xs) (simp_all add: distinct_insert)

lemma scan_simps [simp]:
  "ap_ApprovalRequestID (scanApprovalRequest a) = ap_ApprovalRequestID a" "ap_TenantID (scanApprovalRequest a) = ap_TenantID a"
  by (simp_all add: scanApprovalRequest_def)

definition due_rows :: "sched_env \<Rightarrow> store_db \<Rightarrow> approval_request list" where
  "due_rows env db = map scanApprovalRequest (SliceStable (\<lambda>a b. ap_ExpiresAt a < ap_ExpiresAt b) (filter (due (sv_now env)) (approval_rows (sv_rows env) db)))"

lemma due_fun: "due now = (\<lambda>a. open_status a \<and> ap_ExpiresAt a \<le> now)"
  by (rule ext) (simp add: due_def)

lemma due_rows_distinct:
  assumes "distinct (sv_rows env)" and "store_keyed db"
  shows "distinct (map ap_ApprovalRequestID (due_rows env db))"
proof -
  have "distinct (map ap_ApprovalRequestID (filter (due (sv_now env)) (approval_rows (sv_rows env) db)))"
    using rows_distinct [OF assms] by (rule distinct_map_filter)
  then show ?thesis by (simp add: due_rows_def comp_def distinct_SliceStable)
qed

lemma due_rows_set:
  assumes "set (sv_rows env) = dom (approvals db)" and "store_keyed db"
  shows "set (due_rows env db) = scanApprovalRequest ` {a. \<exists>i. approvals db i = Some a \<and> due (sv_now env) a}"
  by (auto simp: due_rows_def rows_of [OF assms] ran_def)

lemma due_rows_ids:
  assumes "set (sv_rows env) = dom (approvals db)" and "store_keyed db"
  shows "ap_ApprovalRequestID ` set (due_rows env db) = {i. \<exists>a. approvals db i = Some a \<and> due (sv_now env) a}"
    and "(\<lambda>a. (ap_TenantID a, ap_ApprovalRequestID a)) ` set (due_rows env db) =
      {(ap_TenantID a, i) | i a. approvals db i = Some a \<and> due (sv_now env) a}"
proof -
  have id: "ap_ApprovalRequestID a = i" if "approvals db i = Some a" for i a using assms(2) that by (simp add: store_keyed_def)
  show "ap_ApprovalRequestID ` set (due_rows env db) = {i. \<exists>a. approvals db i = Some a \<and> due (sv_now env) a}"
    unfolding due_rows_set [OF assms] image_image scan_simps using id by blast
  show "(\<lambda>a. (ap_TenantID a, ap_ApprovalRequestID a)) ` set (due_rows env db) =
      {(ap_TenantID a, i) | i a. approvals db i = Some a \<and> due (sv_now env) a}"
    unfolding due_rows_set [OF assms] image_image scan_simps using id by blast
qed

lemma due_rows_listed:
  assumes "set (sv_rows env) = dom (approvals db)" and "store_keyed db" and "r \<in> set (due_rows env db)"
  shows "listed_row db r"
proof -
  from assms(3) obtain i a where "approvals db i = Some a" "due (sv_now env) a" "r = scanApprovalRequest a"
    unfolding due_rows_set [OF assms(1,2)] by blast
  with assms(2) show ?thesis by (auto simp: listed_row_def due_def store_keyed_def)
qed

lemma free_run:
  assumes "sd_locks s (sv_key env) = None" and "sv_tryFault env = None" and "sv_expiring env = None" and "sv_expired env = None"
  shows "\<exists>s1 l. sd_store s1 = sd_store s \<and> sd_tickets s1 = sd_tickets s \<and>
    scheduler_run env s = (fold (expire_one env) (due_rows env (sd_store s)) s1)\<lparr>sd_locks := l\<rparr>"
proof -
  let ?s0 = "s\<lparr>sd_locks := (sd_locks s)(sv_key env \<mapsto> (sv_tryConn env, 1))\<rparr>"
  obtain n where n: "locked_pass env ?s0 = fold (expire_one env) (due_rows env (sd_store s)) (?s0\<lparr>sd_notify := n\<rparr>)"
    using assms(3,4) by (simp add: locked_pass_def ListApprovalsExpiring_def ListApprovalsExpired_def due_rows_def due_fun Let_def)
  have "scheduler_run env s = (locked_pass env ?s0)\<lparr>sd_locks := snd (ReleaseAdvisoryLock (sv_releaseFault env) (sv_releaseConn env) (sv_key env)
      (sd_locks (locked_pass env ?s0)))\<rparr>"
    using assms(1,2) by (simp add: scheduler_run_def TryAdvisoryLock_def Let_def)
  then show ?thesis unfolding n by (intro exI [of _ "?s0\<lparr>sd_notify := n\<rparr>"] exI conjI) (assumption | simp)+
qed

text \<open>C28: a pass of the scheduler expires exactly the approvals that are due: when the lock is free and
  the store meets no fault, every PENDING or APPROVED approval of every tenant whose expiry has come
  becomes EXPIRED, every other approval and all decision records stay as they are, whatever becomes of
  the notices; and the tickets of exactly the expired approvals are handed to the ticketing service.\<close>

theorem pass_expires_exactly_the_due:
  assumes "sd_locks s (sv_key env) = None" and "sv_tryFault env = None" and "sv_expiring env = None" and "sv_expired env = None"
    and "sv_mark env = (\<lambda>_. None)" and "set (sv_rows env) = dom (approvals (sd_store s))" and "distinct (sv_rows env)"
    and "store_keyed (sd_store s)"
  shows "approvals (sd_store (scheduler_run env s)) =
      (\<lambda>i. map_option (\<lambda>a. if due (sv_now env) a then mark_expired (sv_now env) a else a) (approvals (sd_store s) i)) \<and>
    decisions (sd_store (scheduler_run env s)) = decisions (sd_store s) \<and>
    (sv_ticketing env \<longrightarrow> (\<exists>new. sd_tickets (scheduler_run env s) = sd_tickets s @ new \<and>
       set new = {(ap_TenantID a, i) | i a. approvals (sd_store s) i = Some a \<and> due (sv_now env) a}))"
proof -
  let ?db = "sd_store s" and ?rows = "due_rows env (sd_store s)"
  obtain s1 l where s1: "sd_store s1 = ?db" "sd_tickets s1 = sd_tickets s"
      "scheduler_run env s = (fold (expire_one env) ?rows s1)\<lparr>sd_locks := l\<rparr>"
    using free_run [OF assms(1-4)] by blast
  have "\<forall>a\<in>set ?rows. listed_row (sd_store s1) a" using due_rows_listed [OF assms(6,8)] unfolding s1(1) by blast
  note all = expire_all [OF assms(5) due_rows_distinct [OF assms(7,8)] this, unfolded s1(1,2) due_rows_ids(1) [OF assms(6,8)]]
  have "expire_ids (sv_now env) {i. \<exists>a. approvals ?db i = Some a \<and> due (sv_now env) a} (approvals ?db) =
      (\<lambda>i. map_option (\<lambda>a. if due (sv_now env) a then mark_expired (sv_now env) a else a) (approvals ?db i))"
  proof
    fix i
    show "expire_ids (sv_now env) {i. \<exists>a. approvals ?db i = Some a \<and> due (sv_now env) a} (approvals ?db) i =
        map_option (\<lambda>a. if due (sv_now env) a then mark_expired (sv_now env) a else a) (approvals ?db i)"
      by (cases "approvals ?db i") (simp_all add: expire_ids_def)
  qed
  with all due_rows_ids(2) [OF assms(6,8)] show ?thesis unfolding s1(3) by auto
qed

subsection \<open>The lock\<close>

lemma locked_pass_locks: "sd_locks (locked_pass env s) = sd_locks s"
proof -
  have "sd_locks (expire_one env a t) = sd_locks t" for a t
    by (simp add: expire_one_def split: prod.splits sum.splits)
  then have "sd_locks (fold (expire_one env) as t) = sd_locks t" for as t by (induction as arbitrary: t) simp_all
  then show ?thesis by (simp add: locked_pass_def Let_def split: sum.splits)
qed

lemma fold_fixed: "\<forall>x\<in>set xs. f x t = t \<Longrightarrow> fold f xs t = t"
  by (induction xs) simp_all

lemma foreign_lock_idle:
  assumes "sd_locks t (sv_key e) = Some (c, n)" and "sv_tryConn e \<noteq> c"
  shows "scheduler_run e t = t"
  using assms by (simp add: scheduler_run_def TryAdvisoryLock_def split: option.splits)

text \<open>A lock released on the wrong connection stops the expiry: when a pass takes the lock on one
  connection of the pool and the release runs on another, the lock stays taken, and no later pass on
  any other connection does anything at all: no approval is expired, no notice sent and no ticket
  updated, however many passes run and however long the approvals have been due.\<close>

theorem unlock_on_other_connection_stops_expiry:
  assumes "sd_locks s (sv_key env) = None" and "sv_tryFault env = None" and "sv_releaseConn env \<noteq> sv_tryConn env"
    and "\<forall>e\<in>set later. sv_key e = sv_key env \<and> sv_tryConn e \<noteq> sv_tryConn env"
  shows "fold scheduler_run later (scheduler_run env s) = scheduler_run env s"
proof -
  have held: "sd_locks (scheduler_run env s) (sv_key env) = Some (sv_tryConn env, 1)"
    using assms(1-3) by (simp add: scheduler_run_def TryAdvisoryLock_def ReleaseAdvisoryLock_def locked_pass_locks Let_def split: option.splits)
  have idle: "scheduler_run e (scheduler_run env s) = scheduler_run env s"
    if "sv_key e = sv_key env" "sv_tryConn e \<noteq> sv_tryConn env" for e
    using foreign_lock_idle [of "scheduler_run env s" e "sv_tryConn env" 1] held that by metis
  have "\<forall>e\<in>set later. scheduler_run e (scheduler_run env s) = scheduler_run env s" using assms(4) idle by blast
  then show ?thesis by (rule fold_fixed)
qed

subsection \<open>A concrete pass\<close>

definition sample_sched :: "nat \<Rightarrow> sched_env" where
  "sample_sched c = \<lparr>sv_key = 7, sv_tryConn = c, sv_releaseConn = 2, sv_tryFault = None, sv_releaseFault = None, sv_rows = [''ap1''], sv_now = 900,
     sv_window = 0, sv_expiring = None, sv_expired = None, sv_mark = (\<lambda>_. None), sv_sender = False, sv_ticketing = True,
     sv_notify = (\<lambda>_ _. \<lparr>nv_client = (\<lambda>_. Inl Upstream_other), nv_slackJSON = (\<lambda>_ _. []), nv_slackBot = (\<lambda>_ _ _. False),
       nv_mail = \<lparr>ml_ses = (\<lambda>_ _. None), ml_sendgrid = (\<lambda>_ _ _ _ _. None), ml_mailgun = (\<lambda>_ _ _ _ _ _. False)\<rparr>, nv_resolver = None,
       nv_cooldown = 0, nv_config = None, nv_memberFault = None,
       nv_send = (\<lambda>_. \<lparr>sn_sha = id, sn_now = 900, sn_clock = 900, sn_get = None, sn_put = None\<rparr>)\<rparr>)\<rparr>"

definition sample_sched_state :: sched_state where
  "sample_sched_state = \<lparr>sd_store = held, sd_notify = \<lparr>nb_configs = Map.empty, nb_members = [], nb_suppressions = Map.empty\<rparr>,
     sd_locks = Map.empty, sd_tickets = []\<rparr>"

theorem pass_expires_exactly_the_due_witness:
  "approvals (sd_store (scheduler_run (sample_sched 2) sample_sched_state)) ''ap1'' = Some (mark_expired 900 pending_approval) \<and>
   set (sd_tickets (scheduler_run (sample_sched 2) sample_sched_state)) = {(''t1'', ''ap1'')}"
proof -
  have d: "due 900 pending_approval" "ap_TenantID pending_approval = ''t1''"
    by (simp_all add: due_def open_status_def pending_approval_def)
  have "store_keyed (sd_store sample_sched_state)" by (simp add: store_keyed_def sample_sched_state_def pending_approval_def)
  with pass_expires_exactly_the_due [of sample_sched_state "sample_sched 2"] d show ?thesis
    by (auto simp: sample_sched_def sample_sched_state_def split: if_splits)
qed

theorem unlock_on_other_connection_stops_expiry_witness:
  "fold scheduler_run [sample_sched 2, sample_sched 3] (scheduler_run (sample_sched 1) sample_sched_state) =
     scheduler_run (sample_sched 1) sample_sched_state"
  by (rule unlock_on_other_connection_stops_expiry) (simp_all add: sample_sched_def sample_sched_state_def)

end
