(* ===== verification/Spec2Isabelle.thy ===== *)
theory Spec2Isabelle
  imports Rate_Limit Cache_Coherence Audit_Chain Policy_Coverage Mcp_Answers Mcp_Stream License_Admin Setup Expiry_Scheduler
begin

text \<open>
  A verification development for rbitr, a gateway that governs the tool calls of AI agents. The
  sources are the Go files under \<open>src/\<close>.

  \<^bold>\<open>The program.\<close> An agent sends a tool call, over REST
  (\<open>src/internal/api/public/handlers.go\<close>) or over MCP (\<open>mcp_handler.go\<close>). The gateway
  authenticates the tenant by a key or a session token (\<open>src/internal/auth\<close>), meters its monthly
  quota (\<open>src/internal/license\<close>), reads and hashes the request (\<open>src/internal/utils\<close>),
  classifies the action (\<open>src/internal/classification\<close>), applies the tenant's risk override,
  checks file paths, asks the policy engine twice, for the base policy and for the tenant's policy
  (\<open>src/internal/policy\<close>, \<open>src/internal/opa\<close>), checks rate limits and argument
  constraints, and then denies the call, holds it for approval, or sends it to the upstream tool
  (\<open>src/internal/connector\<close>) with its credentials (\<open>src/internal/credential\<close>). Every
  decision is a row of the store (\<open>src/internal/store\<close>). An operator decides a held call through
  the administration API (\<open>src/internal/api/admin\<close>), to which he signs in with a key or by single
  sign-on, or in a ticketing system whose webhook reports back (\<open>src/internal/ticketing\<close>); the
  agent then sends the call again with the approval token, and it is executed once. A scheduler
  expires approvals and sends notices (\<open>src/internal/notifications\<close>). A new installation gets its
  first tenant and keys from the setup service (\<open>src/internal/api/setup\<close>). Every administrative change
  goes into a hash-chained audit log (\<open>src/internal/audit\<close>, \<open>src/internal/retention\<close>).

  \<^bold>\<open>How code becomes definitions.\<close> A Go function is a HOL function with the name it has in the
  source; a struct is a record whose fields carry a short prefix, a set of string constants a
  datatype or the strings themselves, an error a value of a sum or option type. A table of the
  database is a map or a list of rows, an SQL statement one atomic step on it, and an operation of
  several statements a sequence of steps of which each may meet a driver error (the arguments
  \<open>flt\<close> and the fault fields of the environments). What a handler reads besides its state is
  collected in the record of an environment: clocks, random bytes, configuration, driver errors,
  and the code that is not under \<open>src/\<close> (policy engine, regular expressions, HTTP client, name
  resolver, JWT library, SHA-256 and HMAC, mail and chat libraries) as functions. Theorems quantify
  over the environment; where one relies on such code, the hypothesis says so by name
  (\<open>rego_base_ok\<close>, \<open>opa_reads\<close>, \<open>writer_ok\<close>, injectivity of the hash). Concurrency is explicit: what
  others do between two store calls of a handler is part of the environment
  (\<open>Approval_Exec\<close>, \<open>Credentials\<close>), or the interleaving is a step relation (\<open>Cache_Coherence\<close>,
  \<open>Audit_Chain\<close>, \<open>Admin_Sso\<close>, \<open>Setup\<close>).

  \<^bold>\<open>Ground.\<close> \<open>Go_Prelude\<close> (strings, lists, stable sorting, lemma collections), \<open>Go_Value\<close>
  (the type \<open>any\<close>), \<open>Go_Number\<close> (parsing of numbers, \<open>float64\<close> and 64-bit integers),
  \<open>Go_Text\<close>, \<open>Go_Time\<close> (calendar times), \<open>Go_Json\<close> (encoder and decoder), \<open>Go_Base64\<close>,
  \<open>Go_Url\<close> and \<open>Models\<close> (the records of \<open>models.go\<close>). The lemmas are what the
  components need of the library: encodings read back, orders, normal forms.

  \<^bold>\<open>The path of a call.\<close>
  \<open>Request_Canon\<close>: header filter and the canonical text behind the request hash, which determines
  the request.
  \<open>Ttl_Cache\<close>: \<open>cache.go\<close>, with the contract \<open>ttl_map\<close>.
  \<open>Classification\<close>: the classifier; every call gets a known type with its default risk, and which calls
  are CRITICAL.
  \<open>File_Governance\<close>: path detection and the tenant's sandbox.
  \<open>Arg_Constraints\<close>: rules on arguments; a call passes exactly when the rule set allows it.
  \<open>Metering\<close>, \<open>Rate_Limit\<close>, \<open>License\<close>: counters that never pass their limit (locale
  \<open>metered\<close>, interpreted on both), license keys and entitlements; \<open>License_Admin\<close>: the license routes,
  the watcher, and what a running gateway may grant.
  \<open>Opa_Result\<close>, \<open>Policy_Eval\<close>: reading a policy's output, the strictest rule of highest
  priority, the base policy that no tenant policy overrides, and caches that change no answer.
  \<open>Policy_Compiler\<close>, \<open>Policy_Meaning\<close>, \<open>Policy_Coverage\<close>: structured policies, the Rego text
  they are compiled to, its meaning (a refinement), and the report of ungoverned endpoints.
  \<open>Tool_Exec\<close>, \<open>Connectors\<close>, \<open>Credentials\<close>: the upstream call, outbound URLs, tokens that
  are fresh when served.
  \<open>Approval_Store\<close>, \<open>Approval_Exec\<close>: the life cycle of an approval (contract
  \<open>approval_store\<close>) and its execution: authorised, as its verdict table says, at most once,
  under interleaving and faults.
  \<open>Signed_Token\<close>, \<open>Sessions\<close>, \<open>Provenance\<close>, \<open>Key_Auth\<close>: signed tokens (locale
  \<open>claims_codec\<close>, interpreted on each claims type), sessions, cross-tenant provenance, keys
  (locale \<open>key_table\<close>, interpreted on both tables).
  \<open>Config_Store\<close>, \<open>Cache_Coherence\<close>, \<open>Gateway_Config\<close>: settings, policy versions, tools and
  risk overrides with the write lock; the caches over them under interleaving; feature flags,
  shadow mode and the context of an approval.
  \<open>Tool_Call\<close>, \<open>Call_Outcomes\<close>: \<open>handleToolCall\<close> as its stages in the order of the code,
  and how a call can end.
  \<open>Mcp_Protocol\<close>, \<open>Mcp_Discovery\<close>, \<open>Mcp_Gateway\<close>, \<open>Mcp_Answers\<close>, \<open>Mcp_Stream\<close>: JSON-RPC
  messages that read back after compaction, the MCP client and the discovery methods, \<open>tools/call\<close> with
  the same gates as a REST call, one answer per message, and an event stream that ends.

  \<^bold>\<open>Operators.\<close>
  \<open>Audit_Canon\<close>, \<open>Audit_Log\<close>, \<open>Audit_Chain\<close>: canonical form, redaction, table and retention;
  the chain gives the events away, no row is changed, and none is lost but to retention, which the trigger
  of the migrations stops.
  \<open>Admin_Api\<close>, \<open>Admin_Settings\<close>, \<open>Admin_Audit\<close>, \<open>Admin_Limits\<close>: the writing handlers of the
  administration API, that each write is made by a caller with the scope of its route and audited,
  that settings stay within their bounds. The routes are those of \<open>Admin_Audit.route\<close>: approvals, policies,
  risk overrides, tools and settings; tenants, keys, licenses, single sign-on and webhooks are in the
  theories below.
  \<open>Admin_Sso\<close>: OpenID Connect sign-in and admin sessions.
  \<open>Tenant_Admin\<close>: tenants and their keys, with the limits of the license; what is taken out of service
  logs in no more.
  \<open>Setup\<close>: the first-run setup, as one transaction under a lock; it runs once, its keys work, and a lost
  answer can be fetched again.
  \<open>Ticket_Providers\<close>, \<open>Ticketing\<close>: the ticketing clients, the service and the webhook, and how an
  approval can be granted.
  \<open>Notifications\<close>, \<open>Expiry_Scheduler\<close>: notices with their cooldown, and the pass that expires
  approvals under an advisory lock.

  \<^bold>\<open>Properties of the whole.\<close> This theory composes the components: a call that reaches a tool
  carries an operator's approval, or the base policy did not ask for one, over REST and over MCP.

  \<^bold>\<open>Loops and fuel.\<close> Recursion over data is structural or has a measure. The JSON decoder recurses
  with the length of its text as fuel, which \<open>Go_Json\<close> proves to be enough. The loop of the event
  stream is a \<open>partial_function\<close>, since a writer that breaks its contract keeps it running;
  \<open>Mcp_Stream\<close> proves that it returns for every lawful writer and every schedule. The tickers of
  the retention job and of the expiry scheduler are left to the caller: one round or pass is a
  definition, and theorems about many of them fold over a list of environments.

  \<^bold>\<open>Bounds of the model.\<close> Strings are bytes; letter case and white space follow Go on ASCII. A
  time is its nanoseconds as an unbounded integer; the tables of audit events and of notices keep it to the
  microsecond. A \<open>float64\<close> is its exact rational value. The order of an
  association list stands for Go's iteration order over a map. Messages of library errors, log
  lines and metrics are left out.

  \<^bold>\<open>Not modelled.\<close> The clients of the cloud marketplaces
  (\<open>src/internal/license/aws\<close>, \<open>azure\<close>, \<open>gcp\<close>), the import of OpenAPI
  documents (\<open>src/internal/openapi\<close>), the cloud secret providers, the reading handlers of the
  administration API and the queries only they use (but for tenants and their keys),
  the notification settings routes, \<open>handleEvidence\<close>, and the wiring of the process
  (\<open>src/internal/config\<close>, \<open>db\<close>, \<open>telemetry\<close>, \<open>src/cmd\<close>): they carry no decision about a
  tool call. \<open>storeapi_mock.go\<close> is generated.
\<close>

subsection \<open>Critical actions\<close>

lemma base_require_approval_call_input:
  "base_require_approval (call_input env rq) = base_require_approval (policy_input rq)"
  by (simp add: base_require_approval_def call_input_def injectProvenanceInput_def)

text \<open>C1: no critical action without an operator. With the gateway's own base policy loaded and
  the tenant not in shadow mode, a tool call that reaches the upstream tool either replays an
  approval an operator granted for exactly this request, or its classification with the stored
  risk override is none the base policy wants approved: not of CRITICAL risk, no destructive or
  export action of HIGH risk, no change of access rights, whatever the tenant's own policy
  says.\<close>

theorem critical_action_needs_approval:
  assumes "co_sent (handleToolCall env gw) \<noteq> []"
    and "ce_rego env = Some rego" and "rego_base_ok rego" and "evaluator_ok rego (gw_evaluator gw)"
    and "\<forall>T. \<not> in_shadow_mode env T"
  shows "\<exists>tenant agentID rq. fst (authenticateTenantRequest env (gw_tenants gw)) = Inr (tenant, agentID) \<and>
    readToolCall env (tn_TenantID tenant) agentID = Inr rq \<and>
    (operator_approved env rq (gw_store gw) \<or> \<not> base_require_approval (policy_input (with_override env rq)))"
proof -
  obtain tenant agentID rq gw' where
    a: "fst (authenticateTenantRequest env (gw_tenants gw)) = Inr (tenant, agentID)"
      "readToolCall env (tn_TenantID tenant) agentID = Inr rq" and
    g: "gw_evaluator gw' = gw_evaluator gw" and
    m: "operator_approved env rq (gw_store gw) \<or> policy_allows env rego (with_override env rq) gw'"
    using sending_is_mediated [OF assms(1)] assms(2,5) by (metis option.inject)
  have "\<not> base_require_approval (policy_input (with_override env rq))"
    if "policy_allows env rego (with_override env rq) gw'"
  proof -
    from that obtain pr where pr: "policy_answer env rego (with_override env rq) gw' = Inr pr" "pr_Decision pr = ''ALLOW''"
      by (auto simp: policy_allows_def)
    from base_policy_holds [OF assms(3) _ pr(1) [unfolded policy_answer_def]] g assms(4) pr(2)
    show ?thesis by (auto simp: base_require_approval_call_input)
  qed
  with a m show ?thesis by blast
qed

theorem critical_action_needs_approval_witness:
  "\<exists>tenant agentID rq. fst (authenticateTenantRequest demo_env (gw_tenants demo_gateway)) = Inr (tenant, agentID) \<and>
    readToolCall demo_env (tn_TenantID tenant) agentID = Inr rq \<and>
    (operator_approved demo_env rq (gw_store demo_gateway) \<or> \<not> base_require_approval (policy_input (with_override demo_env rq)))"
proof -
  have s: "co_sent (handleToolCall demo_env demo_gateway) \<noteq> []" using demo_sends by auto
  have e: "ce_rego demo_env = Some sample_engine" "evaluator_ok sample_engine (gw_evaluator demo_gateway)"
    using sample_engine_ok by (simp_all add: demo_env_def demo_gateway_def)
  have n: "\<forall>T. \<not> in_shadow_mode demo_env T" using demo_no_shadow by blast
  show ?thesis by (rule critical_action_needs_approval [OF s e(1) sample_engine_ok(1) e(2) n])
qed

subsection \<open>Critical calls over MCP\<close>

lemma mcp_class:
  assumes "readMCPCall env tenantID agentID requestID req = Inr ad"
  shows "rq_Class (mc_rq (ad_call ad)) =
    \<lparr>cl_ActionType = ''MCP.'' @ rq_ToolID (mc_rq (ad_call ad)), cl_ActionRisk = ''MEDIUM'',
     cl_ActionSummary = ''MCP tool call: '' @ rq_ToolID (mc_rq (ad_call ad))\<rparr>"
  using assms by (auto simp: readMCPCall_def mcp_request_of_def Let_def split: option.splits sum.splits if_splits prod.splits)

lemma base_require_approval_mcp_input:
  "base_require_approval (mcp_input env mc) \<longleftrightarrow>
   (let t = cl_ActionType (rq_Class (mc_rq mc)); r = cl_ActionRisk (rq_Class (mc_rq mc)) in
    r = ''CRITICAL'' \<or> t \<in> set critical_risk_actions \<and> r \<in> {''HIGH'', ''CRITICAL''} \<or> t \<in> {''ACCESS.GRANT'', ''ACCESS.ROLE_CHANGE''})"
  by (simp add: base_require_approval_def mcp_input_def mcp_policy_input_def injectProvenanceInput_def Let_def index_map_def is_one_of_def)

text \<open>Whatever method and path its arguments name, a call over MCP is of the type \<open>MCP.\<close>\<open>tool\<close>, and
  the base policy wants it approved only by a stored override of that type to CRITICAL.\<close>

lemma mcp_base_policy:
  assumes "readMCPCall env tenantID agentID requestID req = Inr ad" and "mcp_override env (ad_call ad) = Inr mc"
  shows "base_require_approval (mcp_input env mc) \<longleftrightarrow> me_risk env (''MCP.'' @ rq_ToolID (mc_rq (ad_call ad))) = Inr ''CRITICAL''"
  using assms(2) unfolding base_require_approval_mcp_input
  by (auto simp: mcp_override_def mcp_class [OF assms(1)] with_risk_def critical_risk_actions_def split: sum.splits if_splits)

text \<open>C35: over MCP the operator decides which tools are critical. With the gateway's base policy loaded
  and the tenant not in shadow mode, a \<open>tools/call\<close> that reaches a tool resubmits an approval an
  operator granted for exactly these arguments, or no stored risk override makes the tool CRITICAL,
  whatever the tenant's own policy says. (In shadow mode a call that the tenant's policy denies is
  executed, whatever its risk.)\<close>

theorem critical_mcp_call_needs_approval:
  assumes "mo_sent (handleToolsCall env tenant agentID req mg) \<noteq> []" and "\<not> in_shadow_mode (me_call env) (tn_TenantID tenant)"
    and "ce_rego (me_call env) = Some rego" and "rego_base_ok rego" and "evaluator_ok rego (gw_evaluator (mg_gateway mg))"
  shows "\<exists>ad. readMCPCall env (tn_TenantID tenant) agentID (mcp_request_id env) req = Inr ad \<and>
    (mcp_operator_approved env ad (gw_store (mg_gateway mg)) \<or>
     me_risk env (''MCP.'' @ rq_ToolID (mc_rq (ad_call ad))) \<noteq> Inr ''CRITICAL'')"
proof -
  from handleToolsCall_sends [OF assms(1,2)] assms(3) obtain ad where
    ad: "readMCPCall env (tn_TenantID tenant) agentID (mcp_request_id env) req = Inr ad"
      "mcp_operator_approved env ad (gw_store (mg_gateway mg)) \<or>
       (\<exists>mc. mcp_override env (ad_call ad) = Inr mc \<and> mcp_policy_allows env rego mc (mg_gateway mg))" by auto
  have "me_risk env (''MCP.'' @ rq_ToolID (mc_rq (ad_call ad))) \<noteq> Inr ''CRITICAL''"
    if mc: "mcp_override env (ad_call ad) = Inr mc" and allows: "mcp_policy_allows env rego mc (mg_gateway mg)" for mc
  proof -
    from allows obtain pr where pr: "mcp_policy_answer env rego mc (mg_gateway mg) = Inr pr" "pr_Decision pr = ''ALLOW''"
      by (auto simp: mcp_policy_allows_def)
    from base_policy_holds [OF assms(4,5) pr(1) [unfolded mcp_policy_answer_def]] pr(2) mcp_base_policy [OF ad(1) mc]
    show ?thesis by auto
  qed
  with ad show ?thesis by blast
qed

theorem critical_mcp_call_needs_approval_witness:
  "\<exists>ad. readMCPCall demo_mcp_env ''t1'' ''bot-1'' (mcp_request_id demo_mcp_env) demo_mcp_request = Inr ad \<and>
     (mcp_operator_approved demo_mcp_env ad (gw_store demo_gateway) \<or>
      me_risk demo_mcp_env (''MCP.'' @ rq_ToolID (mc_rq (ad_call ad))) \<noteq> Inr ''CRITICAL'')"
proof -
  have e: "me_call demo_mcp_env = demo_env" "tn_TenantID demo_tenant = ''t1''" "mg_gateway demo_mcp = demo_gateway"
    "ce_rego demo_env = Some sample_engine" by (simp_all add: demo_mcp_env_def demo_tenant_def demo_mcp_def demo_env_def)
  have s: "mo_sent (handleToolsCall demo_mcp_env demo_tenant ''bot-1'' demo_mcp_request demo_mcp) \<noteq> []" using demo_mcp_sends by auto
  have ev: "evaluator_ok sample_engine (gw_evaluator demo_gateway)" using sample_engine_ok by (simp add: demo_gateway_def)
  from critical_mcp_call_needs_approval [OF s _ _ sample_engine_ok(1)] demo_no_shadow ev show ?thesis by (simp add: e)
qed

end
